(* ===== verification/Prelude.thy ===== *)
theory Prelude
  imports Main "HOL-Library.Char_ord" "HOL-Library.List_Lexorder"
    "HOL-Library.Multiset"
begin

text \<open>
  What every component shares: the exception classes of the framework and of Python
  with the class hierarchy that \<open>except\<close> clauses consult, computations that thread a
  world and may raise (state passing with an error sum), the loops of the code over
  lists, dictionaries in iteration order, and list lemmas used in several theories.
\<close>

section \<open>Exceptions\<close>

text \<open>
  One constructor per exception class. The hierarchy of \<open>art/test_handler/exceptions.py\<close>
  is a type of its own; the classes are then that of
  \<open>art/core_api/apis_exceptions.py\<close>, the component exceptions declared beside
  their users, and the Python and library classes the code raises or catches. The
  message is not kept; no code under \<open>src/\<close> branches on it.
\<close>

datatype test_exn =
    TestException | RHEVMEntityException | DataCenterException | ClusterException
  | StorageDomainException | GlanceRepositoryException | GlanceImageException
  | HostException | VMException | TemplateException | DiskException | SnapshotException
  | UnkownConfigurationException | NetworkException | JobException | VmPoolException
  | ResourceError | CanNotFindIP | TearDownException | HostedEngineException | SriovException

fun test_mro :: "test_exn \<Rightarrow> test_exn list" where
  "test_mro TestException = [TestException]"
| "test_mro RHEVMEntityException = [RHEVMEntityException, TestException]"
| "test_mro CanNotFindIP = [CanNotFindIP, ResourceError, RHEVMEntityException, TestException]"
| "test_mro e = [e, RHEVMEntityException, TestException]"

lemma test_mro_refl [simp]: "e \<in> set (test_mro e)"
  by (cases e) simp_all

lemma test_mro_trans: "c \<in> set (test_mro e) \<Longrightarrow> d \<in> set (test_mro c) \<Longrightarrow> d \<in> set (test_mro e)"
  by (cases e) auto

datatype exn =
    PyException
  | APIException | APILoginError | APITokenError | EntityNotFound
  | MoreThanOneEntitiesFound | APITimeout | EngineTypeError | APICommandError
  | TestCaseError | CLITimeout | CLIError | UnsupportedCLIEngine
  | CLICommandFailure | CLITracebackError | CLIAutoCompletionFailure
  | TimeoutExpiredError | IpLookUpError
  | CpuModelError | UnknownCpuModel | HostVendorMismatch
  | MacToIpConverterError | ReaderIsNotReady
  | TestExc test_exn
  | AttributeError | KeyError | IndexError | ValueError | TypeError
  | AssertionError | UnboundLocalError | RuntimeError | NotImplementedError
  | ZeroDivisionError | IOError | XMLSyntaxError | SocketError | QueueFull | PytestSkip
  | DiskNotFound

text \<open>The classes an exception is an instance of, its own class first.\<close>

fun mro :: "exn \<Rightarrow> exn list" where
  "mro PyException = [PyException]"
| "mro APIException = [APIException, PyException]"
| "mro APILoginError = [APILoginError, APIException, PyException]"
| "mro APITokenError = [APITokenError, APIException, PyException]"
| "mro EntityNotFound = [EntityNotFound, APIException, PyException]"
| "mro MoreThanOneEntitiesFound = [MoreThanOneEntitiesFound, APIException, PyException]"
| "mro APITimeout = [APITimeout, APIException, PyException]"
| "mro EngineTypeError = [EngineTypeError, APIException, PyException]"
| "mro APICommandError = [APICommandError, PyException]"
| "mro TestCaseError = [TestCaseError, APIException, PyException]"
| "mro CLITimeout = [CLITimeout, APITimeout, APIException, PyException]"
| "mro CLIError = [CLIError, APICommandError, PyException]"
| "mro UnsupportedCLIEngine = [UnsupportedCLIEngine, APIException, PyException]"
| "mro CLICommandFailure = [CLICommandFailure, APIException, PyException]"
| "mro CLITracebackError = [CLITracebackError, APIException, PyException]"
| "mro CLIAutoCompletionFailure = [CLIAutoCompletionFailure, APIException, PyException]"
| "mro IpLookUpError = [IpLookUpError, APIException, PyException]"
| "mro UnknownCpuModel = [UnknownCpuModel, CpuModelError, PyException]"
| "mro HostVendorMismatch = [HostVendorMismatch, CpuModelError, PyException]"
| "mro ReaderIsNotReady = [ReaderIsNotReady, MacToIpConverterError, PyException]"
| "mro UnboundLocalError = [UnboundLocalError, PyException]"
| "mro NotImplementedError = [NotImplementedError, RuntimeError, PyException]"
| "mro (TestExc e) = map TestExc (test_mro e) @ [PyException]"
| "mro e = [e, PyException]"

definition isinstance :: "exn \<Rightarrow> exn \<Rightarrow> bool" where
  "isinstance e c \<longleftrightarrow> c \<in> set (mro e)"

lemma isinstance_refl [simp]: "isinstance e e"
  by (cases e) (simp_all add: isinstance_def)

lemma isinstance_PyException [simp]: "isinstance e PyException"
  by (cases e) (simp_all add: isinstance_def)

lemma isinstance_trans:
  assumes "isinstance e c" and "isinstance c d"
  shows "isinstance e d"
  using assms by (cases e) (auto simp: isinstance_def image_iff, use test_mro_trans in blast)

section \<open>Computations over a world\<close>

text \<open>
  A Python function that touches the outside world or shared objects is a function from
  the world to a result and the world after it; a raised exception is \<open>Inl\<close>. The world
  stays changed when an exception propagates, as it does in Python.
\<close>

type_synonym ('w, 'a) comp = "'w \<Rightarrow> (exn + 'a) \<times> 'w"

definition ret :: "'a \<Rightarrow> ('w, 'a) comp" where
  "ret x = (\<lambda>w. (Inr x, w))"

definition raise :: "exn \<Rightarrow> ('w, 'a) comp" where
  "raise e = (\<lambda>w. (Inl e, w))"

definition lift_res :: "exn + 'a \<Rightarrow> ('w, 'a) comp" where
  "lift_res r = (\<lambda>w. (r, w))"

definition modify :: "('w \<Rightarrow> 'w) \<Rightarrow> ('w, unit) comp" where
  "modify f = (\<lambda>w. (Inr (), f w))"

definition gets :: "('w \<Rightarrow> 'a) \<Rightarrow> ('w, 'a) comp" where
  "gets f = (\<lambda>w. (Inr (f w), w))"

definition bindE :: "('w, 'a) comp \<Rightarrow> ('a \<Rightarrow> ('w, 'b) comp) \<Rightarrow> ('w, 'b) comp" where
  "bindE m f = (\<lambda>w. case m w of (Inl e, w') \<Rightarrow> (Inl e, w') | (Inr x, w') \<Rightarrow> f x w')"

text \<open>\<open>try: m except c: h\<close>, and \<open>try: m finally: f\<close> with a clean-up that cannot raise.\<close>

definition try_except :: "('w, 'a) comp \<Rightarrow> exn \<Rightarrow> (exn \<Rightarrow> ('w, 'a) comp) \<Rightarrow> ('w, 'a) comp" where
  "try_except m c h =
     (\<lambda>w. case m w of
            (Inl e, w') \<Rightarrow> if isinstance e c then h e w' else (Inl e, w')
          | (Inr x, w') \<Rightarrow> (Inr x, w'))"

definition try_finally :: "('w, 'a) comp \<Rightarrow> ('w \<Rightarrow> 'w) \<Rightarrow> ('w, 'a) comp" where
  "try_finally m f = (\<lambda>w. case m w of (r, w') \<Rightarrow> (r, f w'))"

text \<open>A \<open>for\<close> loop with an accumulator.\<close>

primrec for_each :: "'a list \<Rightarrow> ('a \<Rightarrow> 's \<Rightarrow> ('w, 's) comp) \<Rightarrow> 's \<Rightarrow> ('w, 's) comp" where
  "for_each [] f s = ret s"
| "for_each (x # xs) f s = bindE (f x s) (for_each xs f)"

named_theorems comp_simps "unfolding equations of the computation combinators"

declare ret_def [comp_simps] raise_def [comp_simps] lift_res_def [comp_simps]
  modify_def [comp_simps] gets_def [comp_simps] bindE_def [comp_simps]
  try_except_def [comp_simps] try_finally_def [comp_simps]

lemma bindE_ret [simp]: "bindE (ret x) f = f x"
  by (simp add: comp_simps)

lemma bindE_raise [simp]: "bindE (raise e) f = raise e"
  by (simp add: comp_simps)

lemma bindE_ret_right [simp]: "bindE m ret = m"
  by (rule ext) (simp add: comp_simps split: prod.split sum.split)

lemma bindE_assoc: "bindE (bindE m f) g = bindE m (\<lambda>x. bindE (f x) g)"
  by (rule ext) (simp add: comp_simps split: prod.split sum.split)

text \<open>Inversion of a step that returned a value.\<close>

lemma bindE_InrE:
  assumes "bindE m f w = (Inr y, w2)"
  obtains x w1 where "m w = (Inr x, w1)" and "f x w1 = (Inr y, w2)"
  using assms by (auto simp: bindE_def split: prod.splits sum.splits)

lemma bindE_InlE:
  assumes "bindE m f w = (Inl e, w2)"
  obtains "m w = (Inl e, w2)"
  | x w1 where "m w = (Inr x, w1)" and "f x w1 = (Inl e, w2)"
  using assms by (auto simp: bindE_def split: prod.splits sum.splits)

text \<open>
  \<open>keeps P m\<close>: the computation leaves a reading of the world unchanged, whether it
  returns or raises. It composes, so a handler keeps what its parts keep.
\<close>

definition keeps :: "('w \<Rightarrow> 'b) \<Rightarrow> ('w, 'a) comp \<Rightarrow> bool" where
  "keeps g m \<longleftrightarrow> (\<forall>w. g (snd (m w)) = g w)"

named_theorems keeps_intros "rules that show a computation keeps a reading of the world"

lemma keepsI: "(\<And>w. g (snd (m w)) = g w) \<Longrightarrow> keeps g m"
  by (simp add: keeps_def)

lemma keepsD: "keeps g m \<Longrightarrow> m w = (r, w') \<Longrightarrow> g w' = g w"
  unfolding keeps_def by (metis snd_conv)

lemma keeps_ret [keeps_intros]: "keeps g (ret x)"
  and keeps_raise [keeps_intros]: "keeps g (raise e)"
  and keeps_lift_res [keeps_intros]: "keeps g (lift_res r)"
  and keeps_gets [keeps_intros]: "keeps g (gets f)"
  by (simp_all add: keeps_def comp_simps)

lemma keeps_bindE [keeps_intros]:
  assumes "keeps g m" and "\<And>x. keeps g (f x)"
  shows "keeps g (bindE m f)"
  using assms by (auto simp: keeps_def bindE_def split: prod.splits sum.splits) (metis snd_conv)+

lemma keeps_try_except [keeps_intros]:
  assumes "keeps g m" and "\<And>e. keeps g (h e)"
  shows "keeps g (try_except m c h)"
  using assms by (auto simp: keeps_def try_except_def split: prod.splits sum.splits) (metis snd_conv)+

lemma keeps_for_each [keeps_intros]:
  assumes "\<And>x s. keeps g (f x s)"
  shows "keeps g (for_each xs f s)"
  by (induction xs arbitrary: s) (auto intro: keeps_intros assms)

lemma keeps_if [keeps_intros]:
  "keeps g a \<Longrightarrow> keeps g b \<Longrightarrow> keeps g (if c then a else b)"
  by simp

text \<open>\<open>preserves P m\<close>: an invariant of the world survives the computation, raising or not.\<close>

definition preserves :: "('w \<Rightarrow> bool) \<Rightarrow> ('w, 'a) comp \<Rightarrow> bool" where
  "preserves P m \<longleftrightarrow> (\<forall>w. P w \<longrightarrow> P (snd (m w)))"

named_theorems preserves_intros "rules that show a computation preserves an invariant"

lemma preservesI: "(\<And>w r w'. P w \<Longrightarrow> m w = (r, w') \<Longrightarrow> P w') \<Longrightarrow> preserves P m"
  by (auto simp: preserves_def) (metis prod.collapse)

lemma preservesD: "preserves P m \<Longrightarrow> P w \<Longrightarrow> m w = (r, w') \<Longrightarrow> P w'"
  unfolding preserves_def by (metis snd_conv)

lemma preserves_ret [preserves_intros]: "preserves P (ret x)"
  and preserves_raise [preserves_intros]: "preserves P (raise e)"
  and preserves_lift_res [preserves_intros]: "preserves P (lift_res r)"
  and preserves_gets [preserves_intros]: "preserves P (gets f)"
  by (simp_all add: preserves_def comp_simps)

lemma preserves_bindE [preserves_intros]:
  assumes "preserves P m" and "\<And>x. preserves P (f x)"
  shows "preserves P (bindE m f)"
  using assms by (auto simp: preserves_def bindE_def split: prod.splits sum.splits)

lemma preserves_if [preserves_intros]:
  "preserves P a \<Longrightarrow> preserves P b \<Longrightarrow> preserves P (if c then a else b)"
  by simp

lemma preserves_try_except [preserves_intros]:
  assumes "preserves P m" and "\<And>e. preserves P (h e)"
  shows "preserves P (try_except m c h)"
  using assms by (auto simp: preserves_def try_except_def split: prod.splits sum.splits)

lemma preserves_for_each [preserves_intros]:
  assumes "\<And>x s. preserves P (f x s)"
  shows "preserves P (for_each xs f s)"
  by (induction xs arbitrary: s) (auto intro: preserves_intros assms)

section \<open>Results\<close>

text \<open>Sequencing of results, and the loops of the code over lists whose body may raise.\<close>

definition res_bind :: "exn + 'a \<Rightarrow> ('a \<Rightarrow> exn + 'b) \<Rightarrow> exn + 'b" where
  "res_bind r f = (case r of Inl e \<Rightarrow> Inl e | Inr x \<Rightarrow> f x)"

lemma res_bind_simps [simp]: "res_bind (Inl e) f = Inl e" "res_bind (Inr x) f = f x"
  by (simp_all add: res_bind_def)

lemma res_bind_Inr: "res_bind r f = Inr y \<longleftrightarrow> (\<exists>x. r = Inr x \<and> f x = Inr y)"
  by (cases r) simp_all

text \<open>\<open>[x for x in xs if p(x)]\<close>, \<open>[f(x) for x in xs]\<close>, and the first \<open>x\<close> with \<open>p(x)\<close>.\<close>

fun filter_res :: "('a \<Rightarrow> exn + bool) \<Rightarrow> 'a list \<Rightarrow> exn + 'a list" where
  "filter_res p [] = Inr []"
| "filter_res p (x # xs) =
     (case p x of
        Inl e \<Rightarrow> Inl e
      | Inr b \<Rightarrow> (case filter_res p xs of Inl e \<Rightarrow> Inl e | Inr ys \<Rightarrow> Inr (if b then x # ys else ys)))"

fun map_res :: "('a \<Rightarrow> exn + 'b) \<Rightarrow> 'a list \<Rightarrow> exn + 'b list" where
  "map_res f [] = Inr []"
| "map_res f (x # xs) =
     (case f x of Inl e \<Rightarrow> Inl e | Inr y \<Rightarrow> (case map_res f xs of Inl e \<Rightarrow> Inl e | Inr ys \<Rightarrow> Inr (y # ys)))"

fun find_res :: "('a \<Rightarrow> exn + bool) \<Rightarrow> 'a list \<Rightarrow> exn + 'a option" where
  "find_res p [] = Inr None"
| "find_res p (x # xs) = (case p x of Inl e \<Rightarrow> Inl e | Inr b \<Rightarrow> if b then Inr (Some x) else find_res p xs)"

fun keyed :: "('a \<Rightarrow> exn + 'k) \<Rightarrow> 'a list \<Rightarrow> exn + ('k \<times> 'a) list" where
  "keyed f [] = Inr []"
| "keyed f (x # xs) =
     (case f x of Inl e \<Rightarrow> Inl e | Inr k \<Rightarrow> (case keyed f xs of Inl e \<Rightarrow> Inl e | Inr ys \<Rightarrow> Inr ((k, x) # ys)))"

lemma filter_res_Inr: "filter_res p xs = Inr ys \<Longrightarrow> ys = filter (\<lambda>x. p x = Inr True) xs"
proof (induction xs arbitrary: ys)
  case (Cons x xs)
  then show ?case by (cases "p x") (auto split: sum.splits if_splits)
qed simp

lemma filter_res_decided: "filter_res p xs = Inr ys \<Longrightarrow> x \<in> set xs \<Longrightarrow> \<exists>b. p x = Inr b"
  by (induction xs arbitrary: ys) (auto split: sum.splits)

lemma filter_res_none: "\<forall>x \<in> set xs. p x = Inr False \<Longrightarrow> filter_res p xs = Inr []"
  by (induction xs) auto

lemma map_res_Inr: "map_res f xs = Inr ys \<Longrightarrow> map f xs = map Inr ys"
  by (induction xs arbitrary: ys) (auto split: sum.splits)

lemma find_res_None: "find_res p xs = Inr None \<Longrightarrow> x \<in> set xs \<Longrightarrow> p x = Inr False"
  by (induction xs) (auto split: sum.splits if_splits)

lemma find_res_Some: "find_res p xs = Inr (Some x) \<Longrightarrow> x \<in> set xs \<and> p x = Inr True"
  by (induction xs) (auto split: sum.splits if_splits)

lemma find_res_first:
  assumes "find_res p xs = Inr (Some x)"
  obtains pre post where "xs = pre @ x # post" and "p x = Inr True" and "\<And>y. y \<in> set pre \<Longrightarrow> p y = Inr False"
proof -
  from assms have "\<exists>pre post. xs = pre @ x # post \<and> p x = Inr True \<and> (\<forall>y \<in> set pre. p y = Inr False)"
  proof (induction xs)
    case (Cons y ys)
    show ?case
    proof (cases "p y = Inr True")
      case True
      with Cons.prems show ?thesis by (intro exI [of _ "[]"] exI [of _ ys]) simp
    next
      case False
      with Cons.prems have "p y = Inr False" "find_res p ys = Inr (Some x)" by (auto split: sum.splits if_splits)
      with Cons.IH obtain pre post where "ys = pre @ x # post" "p x = Inr True" "\<forall>z \<in> set pre. p z = Inr False" by blast
      with \<open>p y = Inr False\<close> show ?thesis by (intro exI [of _ "y # pre"] exI [of _ post]) simp
    qed
  qed simp
  with that show thesis by blast
qed

lemma keyed_Inr: "keyed f xs = Inr ys \<Longrightarrow> map snd ys = xs \<and> (\<forall>(k, x) \<in> set ys. f x = Inr k)"
  by (induction xs arbitrary: ys) (fastforce split: sum.splits)+

section \<open>Dictionaries in iteration order\<close>

text \<open>
  A dictionary whose iteration order the code exposes is an association list with
  distinct keys, in the order in which Python yields it.
\<close>

type_synonym ('k, 'v) dict = "('k \<times> 'v) list"

definition dict_keys :: "('k, 'v) dict \<Rightarrow> 'k list" where
  "dict_keys d = map fst d"

fun dict_set :: "('k, 'v) dict \<Rightarrow> 'k \<Rightarrow> 'v \<Rightarrow> ('k, 'v) dict" where
  "dict_set [] k v = [(k, v)]"
| "dict_set ((k', v') # d) k v = (if k' = k then (k, v) # d else (k', v') # dict_set d k v)"

definition dict_del :: "('k, 'v) dict \<Rightarrow> 'k \<Rightarrow> ('k, 'v) dict" where
  "dict_del d k = filter (\<lambda>(k', _). k' \<noteq> k) d"

definition dict_update :: "('k, 'v) dict \<Rightarrow> ('k, 'v) dict \<Rightarrow> ('k, 'v) dict" where
  "dict_update d d' = fold (\<lambda>(k, v) acc. dict_set acc k v) d' d"

definition dict_getitem :: "('k, 'v) dict \<Rightarrow> 'k \<Rightarrow> exn + 'v" where
  "dict_getitem d k = (case map_of d k of None \<Rightarrow> Inl KeyError | Some v \<Rightarrow> Inr v)"

definition wf_dict :: "('k, 'v) dict \<Rightarrow> bool" where
  "wf_dict d \<longleftrightarrow> distinct (dict_keys d)"

lemma map_of_dict_set [simp]: "map_of (dict_set d k v) = (map_of d)(k \<mapsto> v)"
  by (induction d k v rule: dict_set.induct) auto

lemma keys_dict_set [simp]: "set (dict_keys (dict_set d k v)) = insert k (set (dict_keys d))"
  by (induction d k v rule: dict_set.induct) (auto simp: dict_keys_def)

lemma wf_dict_set [simp]: "wf_dict d \<Longrightarrow> wf_dict (dict_set d k v)"
proof (induction d k v rule: dict_set.induct)
  case (2 k' v' d k v)
  then show ?case
    using keys_dict_set [of d k v] by (auto simp: wf_dict_def dict_keys_def)
qed (simp add: wf_dict_def dict_keys_def)

lemma map_of_dict_del [simp]: "map_of (dict_del d k) = (map_of d)(k := None)"
  by (induction d) (auto simp: dict_del_def fun_eq_iff)

lemma wf_dict_del [simp]: "wf_dict d \<Longrightarrow> wf_dict (dict_del d k)"
  by (induction d) (auto simp: wf_dict_def dict_del_def dict_keys_def)

lemma map_of_dict_update:
  "map_of (dict_update d d') = map_of d ++ map_of (rev d')"
  by (induction d' arbitrary: d)
    (auto simp: dict_update_def map_add_def fun_eq_iff split: option.splits)

lemma wf_dict_update [simp]: "wf_dict d \<Longrightarrow> wf_dict (dict_update d d')"
  by (induction d' arbitrary: d) (auto simp: dict_update_def)

lemma keys_dict_update:
  "set (dict_keys (dict_update d d')) = set (dict_keys d) \<union> set (dict_keys d')"
proof (induction d' arbitrary: d)
  case Nil
  show ?case by (simp add: dict_update_def dict_keys_def)
next
  case (Cons p d')
  obtain k v where "p = (k, v)" by (cases p)
  with Cons [of "dict_set d k v"] show ?case
    by (auto simp: dict_update_def dict_keys_def [of "(k, v) # d'"] dict_keys_def [of d'])
qed

lemma wf_dict_map_of: "wf_dict d \<Longrightarrow> (k, v) \<in> set d \<Longrightarrow> map_of d k = Some v"
  by (simp add: wf_dict_def dict_keys_def)

section \<open>Lists\<close>

lemma distinct_map_of_rev: "distinct (map fst ps) \<Longrightarrow> map_of (rev ps) = map_of ps"
  by (subst map_of_inject_set) (auto simp: rev_map [symmetric])

text \<open>\<open>sorted\<close> with a two-valued key is a stable partition.\<close>

lemma sort_key_two_valued:
  fixes P :: "'a \<Rightarrow> bool"
  shows "sort_key (\<lambda>x. if P x then (-1::int) else 1) xs = filter P xs @ filter (\<lambda>x. \<not> P x) xs"
proof -
  let ?k = "\<lambda>x. if P x then (-1::int) else 1"
  show "sort_key ?k xs = filter P xs @ filter (\<lambda>x. \<not> P x) xs"
  proof (rule properties_for_sort_key)
    show "mset (filter P xs @ filter (\<lambda>x. \<not> P x) xs) = mset xs"
      by (induction xs) auto
    show "\<And>k. k \<in> set (filter P xs @ filter (\<lambda>x. \<not> P x) xs) \<Longrightarrow>
        filter (\<lambda>x. ?k k = ?k x) (filter P xs @ filter (\<lambda>x. \<not> P x) xs)
        = filter (\<lambda>x. ?k k = ?k x) xs"
      by (auto intro!: filter_cong simp: filter_empty_conv)
    have "sorted (map ?k (filter P xs))" "sorted (map ?k (filter (\<lambda>x. \<not> P x) xs))"
      by (induction xs) auto
    then show "sorted (map ?k (filter P xs @ filter (\<lambda>x. \<not> P x) xs))"
      by (auto simp: sorted_append)
  qed
qed

text \<open>\<open>max(l, key=...)\<close>: the first of the greatest.\<close>

fun max_by :: "('a \<Rightarrow> 'k::linorder) \<Rightarrow> 'a \<Rightarrow> 'a list \<Rightarrow> 'a" where
  "max_by k m [] = m"
| "max_by k m (x # xs) = max_by k (if k m < k x then x else m) xs"

definition py_max :: "('a \<Rightarrow> 'k::linorder) \<Rightarrow> 'a list \<Rightarrow> exn + 'a" where
  "py_max k l = (case l of [] \<Rightarrow> Inl ValueError | x # xs \<Rightarrow> Inr (max_by k x xs))"

lemma max_by_in: "max_by k m xs \<in> insert m (set xs)"
  by (induction k m xs rule: max_by.induct) auto

lemma max_by_ge_start: "k m \<le> k (max_by k m xs)"
proof (induction xs arbitrary: m)
  case (Cons x xs)
  show ?case using Cons [of m] Cons [of x] by simp (metis less_imp_le order_trans)
qed simp

lemma max_by_ge: "y \<in> insert m (set xs) \<Longrightarrow> k y \<le> k (max_by k m xs)"
proof (induction xs arbitrary: m)
  case (Cons x xs)
  have "k x \<le> k (max_by k m (x # xs))" "k m \<le> k (max_by k m (x # xs))"
    using max_by_ge_start [of k "if k m < k x then x else m" xs] by (auto split: if_splits)
  then show ?case using Cons by auto
qed simp

lemma py_max_Inr:
  assumes "py_max k l = Inr m"
  shows "m \<in> set l \<and> (\<forall>x \<in> set l. k x \<le> k m)"
proof -
  from assms obtain x xs where "l = x # xs" "m = max_by k x xs"
    by (auto simp: py_max_def split: list.splits)
  then show ?thesis using max_by_in [of k x xs] max_by_ge [of _ x xs k] by simp
qed

end
