(* ===== verification/Pyval.thy ===== *)
theory Pyval
  imports Prelude "HOL-Library.Product_Lexorder"
begin

text \<open>
  Python 2 values as the code handles them (the data-structure objects parsed from XML,
  their attributes, lists and primitives) and the string operations of the standard
  library that the components use. Strings are byte strings.
\<close>

section \<open>Strings\<close>

definition startswith :: "string \<Rightarrow> string \<Rightarrow> bool" where
  "startswith s p \<longleftrightarrow> take (length p) s = p"

definition endswith :: "string \<Rightarrow> string \<Rightarrow> bool" where
  "endswith s p \<longleftrightarrow> length p \<le> length s \<and> drop (length s - length p) s = p"

text \<open>\<open>p in s\<close>, and \<open>s.find(p)\<close> with \<open>-1\<close> for a missing pattern.\<close>

fun contains :: "string \<Rightarrow> string \<Rightarrow> bool" where
  "contains [] p \<longleftrightarrow> p = []"
| "contains (c # s) p \<longleftrightarrow> startswith (c # s) p \<or> contains s p"

fun str_find :: "string \<Rightarrow> string \<Rightarrow> int" where
  "str_find [] p = (if p = [] then 0 else -1)"
| "str_find (c # s) p =
     (if startswith (c # s) p then 0
      else (let k = str_find s p in if k = -1 then -1 else k + 1))"

text \<open>Slices \<open>s[i:]\<close> and \<open>s[:j]\<close>, with negative bounds counted from the end.\<close>

definition norm_index :: "string \<Rightarrow> int \<Rightarrow> nat" where
  "norm_index s i = nat (if i < 0 then max 0 (int (length s) + i) else i)"

definition slice_from :: "string \<Rightarrow> int \<Rightarrow> string" where
  "slice_from s i = drop (norm_index s i) s"

definition slice_to :: "string \<Rightarrow> int \<Rightarrow> string" where
  "slice_to s j = take (norm_index s j) s"

definition slice :: "string \<Rightarrow> int \<Rightarrow> int \<Rightarrow> string" where
  "slice s i j = drop (norm_index s i) (slice_to s j)"

definition lower_char :: "char \<Rightarrow> char" where
  "lower_char c = (let n = of_char c :: nat in if 65 \<le> n \<and> n \<le> 90 then char_of (n + 32) else c)"

definition upper_char :: "char \<Rightarrow> char" where
  "upper_char c = (let n = of_char c :: nat in if 97 \<le> n \<and> n \<le> 122 then char_of (n - 32) else c)"

definition lower :: "string \<Rightarrow> string" where
  "lower s = map lower_char s"

definition upper :: "string \<Rightarrow> string" where
  "upper s = map upper_char s"

definition is_space :: "char \<Rightarrow> bool" where
  "is_space c \<longleftrightarrow> c \<in> set [CHR '' '', CHR 0x09, CHR 0x0A, CHR 0x0B, CHR 0x0C, CHR 0x0D]"

definition is_digit :: "char \<Rightarrow> bool" where
  "is_digit c \<longleftrightarrow> (let n = of_char c :: nat in 48 \<le> n \<and> n \<le> 57)"

definition lstrip :: "string \<Rightarrow> string" where
  "lstrip s = dropWhile is_space s"

definition strip :: "string \<Rightarrow> string" where
  "strip s = rev (dropWhile is_space (rev (lstrip s)))"

definition strip_chars :: "string \<Rightarrow> string \<Rightarrow> string" where
  "strip_chars s cs = rev (dropWhile (\<lambda>c. c \<in> set cs) (rev (dropWhile (\<lambda>c. c \<in> set cs) s)))"

definition rstrip_chars :: "string \<Rightarrow> string \<Rightarrow> string" where
  "rstrip_chars s cs = rev (dropWhile (\<lambda>c. c \<in> set cs) (rev s))"

fun join :: "string \<Rightarrow> string list \<Rightarrow> string" where
  "join sep [] = []"
| "join sep [x] = x"
| "join sep (x # y # ys) = x @ sep @ join sep (y # ys)"

text \<open>\<open>s.split(sep)\<close> and \<open>s.replace(old, new)\<close> for a non-empty pattern.\<close>

function split_acc :: "string \<Rightarrow> string \<Rightarrow> string \<Rightarrow> string list" where
  "split_acc sep acc [] = [rev acc]"
| "split_acc sep acc (c # s) =
     (if sep \<noteq> [] \<and> startswith (c # s) sep
      then rev acc # split_acc sep [] (drop (length sep) (c # s))
      else split_acc sep (c # acc) s)"
  by pat_completeness auto
termination
  by (relation "measure (\<lambda>(sep, acc, s). length s)") (auto simp: Suc_le_eq)

definition split_on :: "string \<Rightarrow> string \<Rightarrow> string list" where
  "split_on s sep = split_acc sep [] s"

function replace :: "string \<Rightarrow> string \<Rightarrow> string \<Rightarrow> string" where
  "replace [] old new = []"
| "replace (c # s) old new =
     (if old \<noteq> [] \<and> startswith (c # s) old
      then new @ replace (drop (length old) (c # s)) old new
      else c # replace s old new)"
  by pat_completeness auto
termination
  by (relation "measure (\<lambda>(s, old, new). length s)") (auto simp: Suc_le_eq)

text \<open>\<open>s.split()\<close>: the maximal runs of characters that are no white space.\<close>

fun split_ws_acc :: "string \<Rightarrow> string \<Rightarrow> string list" where
  "split_ws_acc acc [] = (if acc = [] then [] else [rev acc])"
| "split_ws_acc acc (c # s) =
     (if is_space c then (if acc = [] then split_ws_acc [] s else rev acc # split_ws_acc [] s)
      else split_ws_acc (c # acc) s)"

definition split_ws :: "string \<Rightarrow> string list" where
  "split_ws s = split_ws_acc [] s"

definition digit_char :: "nat \<Rightarrow> char" where
  "digit_char d = char_of (48 + d)"

fun show_nat :: "nat \<Rightarrow> string" where
  "show_nat n = (if n < 10 then [digit_char n] else show_nat (n div 10) @ [digit_char (n mod 10)])"

declare show_nat.simps [simp del]

definition show_int :: "int \<Rightarrow> string" where
  "show_int i = (if i < 0 then ''-'' @ show_nat (nat (- i)) else show_nat (nat i))"

section \<open>Values\<close>

text \<open>
  \<open>PObj c attrs\<close> is an instance of class \<open>c\<close> with its attributes, unset members of a
  data-structure class being present with value \<open>PNone\<close>.
\<close>

datatype pyval =
    PNone
  | PBool bool
  | PInt int
  | PStr string
  | PList "pyval list"
  | PObj string "(string \<times> pyval) list"

fun truthy :: "pyval \<Rightarrow> bool" where
  "truthy PNone = False"
| "truthy (PBool b) = b"
| "truthy (PInt i) = (i \<noteq> 0)"
| "truthy (PStr s) = (s \<noteq> [])"
| "truthy (PList xs) = (xs \<noteq> [])"
| "truthy (PObj c attrs) = True"

fun class_name :: "pyval \<Rightarrow> string" where
  "class_name PNone = ''NoneType''"
| "class_name (PBool b) = ''bool''"
| "class_name (PInt i) = ''int''"
| "class_name (PStr s) = ''str''"
| "class_name (PList xs) = ''list''"
| "class_name (PObj c attrs) = c"

text \<open>\<open>getattr(v, a)\<close> with and without a default, and \<open>hasattr\<close>.\<close>

fun getattr_opt :: "pyval \<Rightarrow> string \<Rightarrow> pyval option" where
  "getattr_opt (PObj c attrs) a = map_of attrs a"
| "getattr_opt v a = None"

definition getattr :: "pyval \<Rightarrow> string \<Rightarrow> exn + pyval" where
  "getattr v a = (case getattr_opt v a of None \<Rightarrow> Inl AttributeError | Some x \<Rightarrow> Inr x)"

definition hasattr :: "pyval \<Rightarrow> string \<Rightarrow> bool" where
  "hasattr v a \<longleftrightarrow> getattr_opt v a \<noteq> None"

text \<open>\<open>==\<close>: numbers and Booleans compare as numbers, everything else by structure.\<close>

fun num_of :: "pyval \<Rightarrow> int option" where
  "num_of (PBool b) = Some (if b then 1 else 0)"
| "num_of (PInt i) = Some i"
| "num_of v = None"

definition py_eq :: "pyval \<Rightarrow> pyval \<Rightarrow> bool" where
  "py_eq a b = (case (num_of a, num_of b) of (Some m, Some n) \<Rightarrow> m = n | _ \<Rightarrow> a = b)"

lemma py_eq_refl [simp]: "py_eq a a"
  by (simp add: py_eq_def split: option.split)

lemma py_eq_PStr [simp]: "py_eq a (PStr s) \<longleftrightarrow> a = PStr s" "py_eq (PStr s) a \<longleftrightarrow> a = PStr s"
  by (cases a; auto simp: py_eq_def)+

text \<open>\<open>str(v)\<close>, with \<open>repr\<close> for the elements of a list.\<close>

definition hex_digit :: "nat \<Rightarrow> char" where
  "hex_digit d = (if d < 10 then char_of (48 + d) else char_of (87 + d))"

definition escape_char :: "char \<Rightarrow> char \<Rightarrow> string" where
  "escape_char q c =
     (let n = of_char c :: nat in
      if c = q \<or> c = CHR 0x5C then [CHR 0x5C, c]
      else if c = CHR 0x0A then [CHR 0x5C, CHR ''n'']
      else if c = CHR 0x0D then [CHR 0x5C, CHR ''r'']
      else if c = CHR 0x09 then [CHR 0x5C, CHR ''t'']
      else if n < 32 \<or> 127 \<le> n then [CHR 0x5C, CHR ''x'', hex_digit (n div 16), hex_digit (n mod 16)]
      else [c])"

definition repr_str :: "string \<Rightarrow> string" where
  "repr_str s =
     (let q = (if CHR 0x27 \<in> set s \<and> CHR 0x22 \<notin> set s then CHR 0x22 else CHR 0x27)
      in [q] @ concat (map (escape_char q) s) @ [q])"

fun py_repr :: "pyval \<Rightarrow> string" where
  "py_repr PNone = ''None''"
| "py_repr (PBool b) = (if b then ''True'' else ''False'')"
| "py_repr (PInt i) = show_int i"
| "py_repr (PStr s) = repr_str s"
| "py_repr (PList xs) = ''['' @ join '', '' (map py_repr xs) @ '']''"
| "py_repr (PObj c attrs) = ''<'' @ c @ '' object>''"

definition py_str :: "pyval \<Rightarrow> string" where
  "py_str v = (case v of PStr s \<Rightarrow> s | _ \<Rightarrow> py_repr v)"

text \<open>A result that may be \<open>None\<close>.\<close>

definition opt_val :: "pyval option \<Rightarrow> pyval" where
  "opt_val x = (case x of None \<Rightarrow> PNone | Some v \<Rightarrow> v)"

text \<open>\<open>int(v)\<close>: a string is a decimal numeral with an optional sign between white space.\<close>

definition numeral_value :: "string \<Rightarrow> int" where
  "numeral_value ds = foldl (\<lambda>n c. 10 * n + (int (of_char c) - 48)) 0 ds"

definition parse_int :: "string \<Rightarrow> int option" where
  "parse_int s =
     (let t = strip s; neg = (t \<noteq> [] \<and> hd t = CHR ''-''); ds = (if t \<noteq> [] \<and> hd t \<in> {CHR ''-'', CHR ''+''} then tl t else t)
      in if ds \<noteq> [] \<and> list_all is_digit ds then Some (if neg then - numeral_value ds else numeral_value ds) else None)"

fun py_int :: "pyval \<Rightarrow> exn + int" where
  "py_int (PInt i) = Inr i"
| "py_int (PBool b) = Inr (if b then 1 else 0)"
| "py_int (PStr s) = (case parse_int s of None \<Rightarrow> Inl ValueError | Some i \<Rightarrow> Inr i)"
| "py_int v = Inl TypeError"

text \<open>\<open>p in v\<close> for a string \<open>p\<close> and a value that should be a string.\<close>

fun str_in :: "string \<Rightarrow> pyval \<Rightarrow> exn + bool" where
  "str_in p (PStr s) = Inr (contains s p)"
| "str_in p (PList xs) = Inr (PStr p \<in> set xs)"
| "str_in p v = Inl TypeError"

section \<open>The order that sorting uses\<close>

text \<open>
  Python 2 orders any two values: \<open>None\<close> first, then numbers, then the other types by
  their type's name, strings among themselves byte by byte. Two lists, and two objects
  of one class, are left in the order they come in: the code sorts by primitive keys.
\<close>

datatype py_key = KNone | KNum int | KTyped string string

fun key_tuple :: "py_key \<Rightarrow> nat \<times> int \<times> string \<times> string" where
  "key_tuple KNone = (0, 0, [], [])"
| "key_tuple (KNum i) = (1, i, [], [])"
| "key_tuple (KTyped t s) = (2, 0, t, s)"

lemma key_tuple_inject [simp]: "key_tuple a = key_tuple b \<longleftrightarrow> a = b"
  by (cases a; cases b) auto

instantiation py_key :: linorder
begin

definition less_eq_py_key :: "py_key \<Rightarrow> py_key \<Rightarrow> bool" where
  "less_eq_py_key a b \<longleftrightarrow> key_tuple a \<le> key_tuple b"

definition less_py_key :: "py_key \<Rightarrow> py_key \<Rightarrow> bool" where
  "less_py_key a b \<longleftrightarrow> key_tuple a < key_tuple b"

instance
proof
  fix a b c :: py_key
  show "(a < b) = (a \<le> b \<and> \<not> b \<le> a)"
    by (simp only: less_eq_py_key_def less_py_key_def less_le_not_le)
  show "a \<le> a" and "a \<le> b \<or> b \<le> a"
    by (auto simp: less_eq_py_key_def)
  show "a \<le> b \<Longrightarrow> b \<le> c \<Longrightarrow> a \<le> c"
    by (auto simp: less_eq_py_key_def)
  show "a \<le> b \<Longrightarrow> b \<le> a \<Longrightarrow> a = b"
    using key_tuple_inject by (fastforce simp: less_eq_py_key_def)
qed

end

fun sort_key_of :: "pyval \<Rightarrow> py_key" where
  "sort_key_of PNone = KNone"
| "sort_key_of (PBool b) = KNum (if b then 1 else 0)"
| "sort_key_of (PInt i) = KNum i"
| "sort_key_of (PStr s) = KTyped ''str'' s"
| "sort_key_of (PList xs) = KTyped ''list'' []"
| "sort_key_of (PObj c attrs) = KTyped c []"

definition py_sort :: "pyval list \<Rightarrow> pyval list" where
  "py_sort xs = sort_key sort_key_of xs"

lemma mset_py_sort [simp]: "mset (py_sort xs) = mset xs"
  by (simp add: py_sort_def)

lemma set_py_sort [simp]: "set (py_sort xs) = set xs"
  by (simp add: py_sort_def)

lemma length_py_sort [simp]: "length (py_sort xs) = length xs"
  by (simp add: py_sort_def)

section \<open>Facts about the string operations\<close>

lemma startswith_append [simp]: "startswith (p @ s) p"
  by (simp add: startswith_def)

lemma startswith_Nil [simp]: "startswith s []"
  by (simp add: startswith_def)

lemma startswith_iff: "startswith s p \<longleftrightarrow> (\<exists>t. s = p @ t)"
  by (auto simp: startswith_def) (metis append_take_drop_id)

lemma startswith_Cons_Cons [simp]: "startswith (c # s) (d # p) \<longleftrightarrow> c = d \<and> startswith s p"
  by (auto simp: startswith_def)

lemma startswith_Nil_left [simp]: "startswith [] p \<longleftrightarrow> p = []"
  by (auto simp: startswith_def)

lemma contains_startswith: "startswith s p \<Longrightarrow> contains s p"
  by (cases s) auto

lemma contains_append: "contains (u @ p @ v) p"
  by (induction u) (simp_all add: contains_startswith)

lemma contains_iff: "contains s p \<longleftrightarrow> (\<exists>u v. s = u @ p @ v)"
proof
  show "contains s p \<Longrightarrow> \<exists>u v. s = u @ p @ v"
  proof (induction s p rule: contains.induct)
    case (2 c s p)
    then consider v where "c # s = p @ v" | u v where "s = u @ p @ v"
      by (auto simp: startswith_iff)
    then show ?case
    proof cases
      case 1
      then have "c # s = [] @ p @ v" by simp
      then show ?thesis by blast
    next
      case 2
      then have "c # s = (c # u) @ p @ v" by simp
      then show ?thesis by blast
    qed
  qed simp
qed (auto simp: contains_append)

lemma split_acc_no_sep:
  assumes "c \<notin> set s"
  shows "split_acc [c] acc (s @ c # t) = (rev acc @ s) # split_acc [c] [] t"
    and "split_acc [c] acc s = [rev acc @ s]"
  using assms by (induction s arbitrary: acc) (auto simp: split_acc.simps)

text \<open>Splitting undoes joining with a one-character separator that no part contains.\<close>

lemma split_on_join:
  assumes "xs \<noteq> []" and "\<And>x. x \<in> set xs \<Longrightarrow> c \<notin> set x"
  shows "split_on (join [c] xs) [c] = xs"
  using assms
proof (induction "[c]" xs rule: join.induct)
  case (2 x)
  then show ?case using split_acc_no_sep(2) [of c x "[]"] by (simp add: split_on_def)
next
  case (3 x y ys)
  then show ?case
    using split_acc_no_sep(1) [of c x "[]" "join [c] (y # ys)"] by (simp add: split_on_def)
qed simp

text \<open>Joining undoes splitting: no character of the string is lost or invented.\<close>

lemma split_acc_Nil [simp]: "split_acc sep acc s \<noteq> []"
  by (induction sep acc s rule: split_acc.induct) auto

lemma join_Cons: "ys \<noteq> [] \<Longrightarrow> join sep (x # ys) = x @ sep @ join sep ys"
  by (cases ys) auto

lemma join_split_acc: "join sep (split_acc sep acc s) = rev acc @ s"
proof (induction sep acc s rule: split_acc.induct)
  case (1 sep acc)
  then show ?case by simp
next
  case (2 sep acc c s)
  show ?case
  proof (cases "sep \<noteq> [] \<and> startswith (c # s) sep")
    case True
    then have "sep @ drop (length sep) (c # s) = c # s"
      by (metis append_take_drop_id startswith_def)
    with True "2.IH"(1) show ?thesis by (simp add: join_Cons)
  next
    case False
    then have "split_acc sep acc (c # s) = split_acc sep (c # acc) s" by auto
    with False "2.IH"(2) show ?thesis by simp
  qed
qed

lemma lower_char_lower [simp]: "lower_char (lower_char c) = lower_char c"
proof (cases "65 \<le> (of_char c :: nat) \<and> (of_char c :: nat) \<le> 90")
  case True
  then have "of_char (char_of ((of_char c :: nat) + 32) :: char) = (of_char c :: nat) + 32"
    by (simp add: of_char_of)
  with True show ?thesis by (simp add: lower_char_def Let_def)
qed (auto simp: lower_char_def Let_def)

lemma lower_lower [simp]: "lower (lower s) = lower s"
  by (simp add: lower_def)

end
