(* ===== verification/Timeout.thy ===== *)
theory Timeout
  imports Prelude
begin

text \<open>
  \<open>art/core_api/timeout.py\<close>: the \<open>timeout\<close> decorator over SIGALRM and the
  \<open>TimeoutingSampler\<close> that every wait of the framework is built on. The operating
  system's clock is a parameter: reading it and sleeping change the world. Times are
  integers in the clock's own unit, timeouts and sleeps are in that unit too.
\<close>

section \<open>The sampler\<close>

record 'w os_time =
  os_now :: "'w \<Rightarrow> int \<times> 'w"
  os_sleep :: "int \<Rightarrow> 'w \<Rightarrow> 'w"

record sampler =
  timeout :: int
  sleep_interval :: int
  start_time :: "int option"
  last_sample_time :: "int option"
  timeout_exc_cls :: exn

definition TimeoutingSampler :: "int \<Rightarrow> int \<Rightarrow> sampler" where
  "TimeoutingSampler t s =
     \<lparr>timeout = t, sleep_interval = s, start_time = None, last_sample_time = None,
      timeout_exc_cls = TimeoutExpiredError\<rparr>"

text \<open>
  \<open>__iter__\<close> is a generator. Its parts: what runs once before the loop, one sample
  up to the \<open>yield\<close>, and what runs when the consumer asks for the next value.
\<close>

definition begin_iteration :: "'w os_time \<Rightarrow> sampler \<Rightarrow> 'w \<Rightarrow> sampler \<times> 'w" where
  "begin_iteration E s w =
     (case start_time s of
        Some _ \<Rightarrow> (s, w)
      | None \<Rightarrow> (case os_now E w of (t, w1) \<Rightarrow> (s\<lparr>start_time := Some t\<rparr>, w1)))"

definition take_sample ::
  "'w os_time \<Rightarrow> ('w, 'a) comp \<Rightarrow> sampler \<Rightarrow> 'w \<Rightarrow> (exn + 'a) \<times> sampler \<times> 'w" where
  "take_sample E func s w =
     (case os_now E w of (t, w1) \<Rightarrow>
      case func w1 of (r, w2) \<Rightarrow> (r, s\<lparr>last_sample_time := Some t\<rparr>, w2))"

definition after_yield :: "'w os_time \<Rightarrow> sampler \<Rightarrow> ('w, unit) comp" where
  "after_yield E s w =
     (case os_now E w of (t, w1) \<Rightarrow>
      case start_time s of
        None \<Rightarrow> (Inl TypeError, w1)
      | Some t0 \<Rightarrow>
          if timeout s < t - t0 then (Inl (timeout_exc_cls s), w1)
          else (Inr (), os_sleep E (sleep_interval s) w1))"

text \<open>
  A \<open>for\<close> loop over the sampler. The body returns \<open>None\<close> to go on and \<open>Some r\<close>
  to leave the loop with \<open>r\<close>. The result is \<open>None\<close> if the loop never ends.
\<close>

partial_function (option) sample_loop ::
  "'w os_time \<Rightarrow> ('w, 'a) comp \<Rightarrow> ('a \<Rightarrow> ('w, 'r option) comp) \<Rightarrow> sampler \<Rightarrow> 'w
   \<Rightarrow> ((exn + 'r) \<times> sampler \<times> 'w) option" where
  "sample_loop E func body s w =
     (case take_sample E func s w of
        (Inl e, s1, w1) \<Rightarrow> Some (Inl e, s1, w1)
      | (Inr x, s1, w1) \<Rightarrow>
          (case body x w1 of
             (Inl e, w2) \<Rightarrow> Some (Inl e, s1, w2)
           | (Inr (Some r), w2) \<Rightarrow> Some (Inr r, s1, w2)
           | (Inr None, w2) \<Rightarrow>
               (case after_yield E s1 w2 of
                  (Inl e, w3) \<Rightarrow> Some (Inl e, s1, w3)
                | (Inr _, w3) \<Rightarrow> sample_loop E func body s1 w3)))"

definition for_sample ::
  "'w os_time \<Rightarrow> ('w, 'a) comp \<Rightarrow> ('a \<Rightarrow> ('w, 'r option) comp) \<Rightarrow> sampler \<Rightarrow> 'w
   \<Rightarrow> ((exn + 'r) \<times> sampler \<times> 'w) option" where
  "for_sample E func body s w =
     (case begin_iteration E s w of (s1, w1) \<Rightarrow> sample_loop E func body s1 w1)"

definition waitForFuncStatus ::
  "'w os_time \<Rightarrow> ('w, 'a) comp \<Rightarrow> 'a \<Rightarrow> sampler \<Rightarrow> 'w \<Rightarrow> ((exn + bool) \<times> sampler \<times> 'w) option" where
  "waitForFuncStatus E func result s w =
     (case for_sample E func (\<lambda>res. ret (if result = res then Some True else None)) s w of
        None \<Rightarrow> None
      | Some (Inl e, s1, w1) \<Rightarrow>
          if isinstance e (timeout_exc_cls s) then Some (Inr False, s1, w1)
          else Some (Inl e, s1, w1)
      | Some (Inr b, s1, w1) \<Rightarrow> Some (Inr b, s1, w1))"

text \<open>
  The induction rule of the loop: four ways to leave it, one way to go round again.
\<close>

lemma sample_loop_rule [consumes 1, case_names sample_raises body_raises leaves expires goes_on]:
  fixes E :: "'w os_time" and f :: "('w, 'a) comp" and body :: "'a \<Rightarrow> ('w, 'r option) comp"
  assumes loop: "sample_loop E f body s w = Some (r, s', w')"
    and sample_raises: "\<And>s w e s1 w1. take_sample E f s w = (Inl e, s1, w1) \<Longrightarrow> P s w (Inl e) s1 w1"
    and body_raises: "\<And>s w x s1 w1 e w2. take_sample E f s w = (Inr x, s1, w1) \<Longrightarrow>
      body x w1 = (Inl e, w2) \<Longrightarrow> P s w (Inl e) s1 w2"
    and leaves: "\<And>s w x s1 w1 r w2. take_sample E f s w = (Inr x, s1, w1) \<Longrightarrow>
      body x w1 = (Inr (Some r), w2) \<Longrightarrow> P s w (Inr r) s1 w2"
    and expires: "\<And>s w x s1 w1 w2 e w3. take_sample E f s w = (Inr x, s1, w1) \<Longrightarrow>
      body x w1 = (Inr None, w2) \<Longrightarrow> after_yield E s1 w2 = (Inl e, w3) \<Longrightarrow> P s w (Inl e) s1 w3"
    and goes_on: "\<And>s w x s1 w1 w2 w3 r s' w'. take_sample E f s w = (Inr x, s1, w1) \<Longrightarrow>
      body x w1 = (Inr None, w2) \<Longrightarrow> after_yield E s1 w2 = (Inr (), w3) \<Longrightarrow>
      P s1 w3 r s' w' \<Longrightarrow> P s w r s' w'"
  shows "P s w r s' w'"
proof -
  let ?P = "\<lambda>E0 f0 body0 s w (r, s', w').
    E0 = E \<longrightarrow> f0 = f \<longrightarrow> body0 = body \<longrightarrow> P s w r s' w'"
  have "?P E f body s w (r, s', w')"
  proof (rule sample_loop.raw_induct [where P = ?P, OF _ loop])
    fix rec E0 f0 body0 s w res
    assume IH: "\<And>E0 f0 body0 s w res. rec E0 f0 body0 s w = Some res \<Longrightarrow> ?P E0 f0 body0 s w res"
      and eq: "(case take_sample E0 f0 s w of
        (Inl e, s1, w1) \<Rightarrow> Some (Inl e, s1, w1)
      | (Inr x, s1, w1) \<Rightarrow>
          (case body0 x w1 of
             (Inl e, w2) \<Rightarrow> Some (Inl e, s1, w2)
           | (Inr (Some r), w2) \<Rightarrow> Some (Inr r, s1, w2)
           | (Inr None, w2) \<Rightarrow>
               (case after_yield E0 s1 w2 of
                  (Inl e, w3) \<Rightarrow> Some (Inl e, s1, w3)
                | (Inr _, w3) \<Rightarrow> rec E0 f0 body0 s1 w3))) = Some res"
    show "?P E0 f0 body0 s w res"
      using eq sample_raises body_raises leaves expires goes_on IH
      by (fastforce split: prod.splits sum.splits option.splits)
  qed
  then show ?thesis by simp
qed

section \<open>What the sampler relies on\<close>

text \<open>
  The documented behaviour of the clock, over a reading \<open>clk\<close> of the true time: a
  reading lies between the time before and after it, a sleep lasts at least as long as
  asked, and nothing turns the clock back.
\<close>

definition clock_laws :: "'w os_time \<Rightarrow> ('w \<Rightarrow> int) \<Rightarrow> bool" where
  "clock_laws E clk \<longleftrightarrow>
     (\<forall>w. clk w \<le> fst (os_now E w) \<and> fst (os_now E w) \<le> clk (snd (os_now E w))) \<and>
     (\<forall>d w. 0 \<le> d \<longrightarrow> clk w + d \<le> clk (os_sleep E d w))"

definition never_back :: "('w \<Rightarrow> int) \<Rightarrow> ('w, 'a) comp \<Rightarrow> bool" where
  "never_back clk f \<longleftrightarrow> (\<forall>w. clk w \<le> clk (snd (f w)))"

lemma os_now_bounds:
  "clock_laws E clk \<Longrightarrow> os_now E w = (t, w1) \<Longrightarrow> clk w \<le> t \<and> t \<le> clk w1"
  unfolding clock_laws_def by (metis fst_conv snd_conv)

lemma os_sleep_bound:
  "clock_laws E clk \<Longrightarrow> 0 \<le> d \<Longrightarrow> clk w + d \<le> clk (os_sleep E d w)"
  unfolding clock_laws_def by blast

lemma never_backD: "never_back clk f \<Longrightarrow> f w = (r, w1) \<Longrightarrow> clk w \<le> clk w1"
  unfolding never_back_def by (metis snd_conv)

named_theorems never_back_intros "rules that show a computation does not turn the clock back"

lemma never_back_ret [simp, never_back_intros]: "never_back clk (ret x)"
  and never_back_raise [never_back_intros]: "never_back clk (raise e)"
  and never_back_lift_res [never_back_intros]: "never_back clk (lift_res r)"
  and never_back_gets [never_back_intros]: "never_back clk (gets g)"
  by (simp_all add: never_back_def comp_simps)

lemma never_back_bindE [never_back_intros]:
  assumes "never_back clk m" and "\<And>x. never_back clk (f x)"
  shows "never_back clk (bindE m f)"
  unfolding never_back_def
proof
  fix w
  obtain r w1 where m: "m w = (r, w1)" by fastforce
  then have "clk w \<le> clk w1" using assms(1) by (rule never_backD [rotated])
  with m assms(2) show "clk w \<le> clk (snd (bindE m f w))"
    by (cases r) (auto simp: bindE_def never_back_def intro: order_trans)
qed

lemma never_back_if [never_back_intros]:
  "never_back clk a \<Longrightarrow> never_back clk b \<Longrightarrow> never_back clk (if c then a else b)"
  by simp

lemma never_back_for_each [never_back_intros]:
  "(\<And>x s. never_back clk (f x s)) \<Longrightarrow> never_back clk (for_each xs f s)"
  by (induction xs arbitrary: s) (auto intro: never_back_intros)

lemma take_sample_fields:
  "take_sample E f s w = (r, s1, w1) \<Longrightarrow>
     timeout s1 = timeout s \<and> sleep_interval s1 = sleep_interval s \<and>
     start_time s1 = start_time s \<and> timeout_exc_cls s1 = timeout_exc_cls s"
  by (auto simp: take_sample_def split: prod.splits)

lemma take_sample_clock:
  assumes "clock_laws E clk" and "never_back clk f" and "take_sample E f s w = (r, s1, w1)"
  shows "clk w \<le> clk w1"
proof -
  from assms(3) obtain t w0 where t: "os_now E w = (t, w0)" and f: "f w0 = (r, w1)"
    by (auto simp: take_sample_def split: prod.splits)
  from os_now_bounds [OF assms(1) t] never_backD [OF assms(2) f] show ?thesis by linarith
qed

text \<open>One full round of the loop that goes on: within the timeout, and a sleep later.\<close>

lemma after_yield_goes_on:
  assumes "clock_laws E clk" and "0 \<le> sleep_interval s" and "start_time s = Some t0"
    and "after_yield E s w = (Inr u, w1)"
  shows "clk w \<le> t0 + timeout s \<and> clk w + sleep_interval s \<le> clk w1"
proof -
  from assms(3,4) obtain t w0 where t: "os_now E w = (t, w0)" and "\<not> timeout s < t - t0"
    and w1: "w1 = os_sleep E (sleep_interval s) w0"
    by (auto simp: after_yield_def split: prod.splits if_splits)
  with os_now_bounds [OF assms(1) t] os_sleep_bound [OF assms(1,2), of w0]
  show ?thesis by simp
qed

lemma after_yield_expires:
  assumes "clock_laws E clk" and "start_time s = Some t0" and "after_yield E s w = (Inl e, w1)"
  shows "e = timeout_exc_cls s \<and> t0 + timeout s < clk w1"
proof -
  from assms(2,3) obtain t where t: "os_now E w = (t, w1)" and "timeout s < t - t0"
    and "e = timeout_exc_cls s"
    by (auto simp: after_yield_def split: prod.splits if_splits)
  with os_now_bounds [OF assms(1) t] show ?thesis by simp
qed

lemma begin_iteration_started:
  "begin_iteration E s w = (s1, w1) \<Longrightarrow>
     (\<exists>t0. start_time s1 = Some t0) \<and> timeout s1 = timeout s \<and>
     sleep_interval s1 = sleep_interval s \<and> timeout_exc_cls s1 = timeout_exc_cls s"
  by (auto simp: begin_iteration_def split: option.splits prod.splits)

section \<open>The loop ends\<close>

lemma sample_loop_ends:
  assumes "clock_laws E clk" and "never_back clk f" and "\<And>x. never_back clk (body x)"
    and "0 < sleep_interval s" and "start_time s = Some t0"
  shows "\<exists>r. sample_loop E f body s w = Some r"
  using assms(4,5)
proof (induction "nat (t0 + timeout s + 1 - clk w)" arbitrary: s w rule: less_induct)
  case less
  show ?case
  proof (cases "\<exists>x s1 w1 w2 w3. take_sample E f s w = (Inr x, s1, w1) \<and>
      body x w1 = (Inr None, w2) \<and> after_yield E s1 w2 = (Inr (), w3)")
    case False
    then show ?thesis
      by (subst sample_loop.simps) (auto split: prod.splits sum.splits option.splits)
  next
    case True
    then obtain x s1 w1 w2 w3 where sample: "take_sample E f s w = (Inr x, s1, w1)"
      and body: "body x w1 = (Inr None, w2)" and yield: "after_yield E s1 w2 = (Inr (), w3)"
      by blast
    note s1 = take_sample_fields [OF sample]
    have "clk w \<le> clk w2"
      using take_sample_clock [OF assms(1,2) sample] never_backD [OF assms(3) body] by linarith
    moreover have "clk w2 \<le> t0 + timeout s \<and> clk w2 + sleep_interval s \<le> clk w3"
      using after_yield_goes_on [OF assms(1) _ _ yield, of t0] s1 less.prems by auto
    ultimately have "nat (t0 + timeout s1 + 1 - clk w3) < nat (t0 + timeout s + 1 - clk w)"
      using less.prems s1 by simp
    then have "\<exists>r. sample_loop E f body s1 w3 = Some r"
      using less.hyps s1 less.prems by simp
    with sample body yield show ?thesis
      by (subst sample_loop.simps) simp
  qed
qed

lemma for_sample_ends:
  assumes "clock_laws E clk" and "never_back clk f" and "\<And>x. never_back clk (body x)"
    and "0 < sleep_interval s"
  shows "\<exists>r. for_sample E f body s w = Some r"
proof -
  obtain s1 w1 where b: "begin_iteration E s w = (s1, w1)" by fastforce
  with begin_iteration_started [OF b] obtain t0 where "start_time s1 = Some t0" by blast
  with assms begin_iteration_started [OF b] show ?thesis
    using sample_loop_ends [of E clk f body s1 t0 w1] b by (auto simp: for_sample_def)
qed

text \<open>
  C1. A \<open>for\<close> loop over a sampler ends: with a clock that never goes back and sleeps at
  least as long as asked, and a positive sleep interval, the loop leaves after finitely
  many samples, whatever the sampled function and the loop body do.
\<close>

theorem sampler_terminates:
  assumes "clock_laws E clk" and "never_back clk f" and "\<And>x. never_back clk (body x)"
    and "0 < sleep_interval s"
  shows "\<exists>r. for_sample E f body s w = Some r"
  using assms by (rule for_sample_ends)

section \<open>How often it samples\<close>

text \<open>
  A ghost reading \<open>cnt\<close> of the world that counts the calls of the sampled function and
  nothing else.
\<close>

definition counts_calls ::
  "'w os_time \<Rightarrow> ('w, 'a) comp \<Rightarrow> ('a \<Rightarrow> ('w, 'r option) comp) \<Rightarrow> ('w \<Rightarrow> int) \<Rightarrow> bool" where
  "counts_calls E f body cnt \<longleftrightarrow>
     (\<forall>w. cnt (snd (f w)) = cnt w + 1) \<and> (\<forall>w. cnt (snd (os_now E w)) = cnt w) \<and>
     (\<forall>d w. cnt (os_sleep E d w) = cnt w) \<and> (\<forall>x w. cnt (snd (body x w)) = cnt w)"

lemma counts_callsD:
  assumes "counts_calls E f body cnt"
  shows "f w = (r, w1) \<Longrightarrow> cnt w1 = cnt w + 1"
    and "os_now E w = (t, w1) \<Longrightarrow> cnt w1 = cnt w"
    and "cnt (os_sleep E d w) = cnt w"
    and "body x w = (r', w1) \<Longrightarrow> cnt w1 = cnt w"
  using assms unfolding counts_calls_def by (metis snd_conv)+

lemma take_sample_counts:
  assumes "counts_calls E f body cnt" and "take_sample E f s w = (r, s1, w1)"
  shows "cnt w1 = cnt w + 1"
proof -
  from assms(2) obtain t w0 where "os_now E w = (t, w0)" and "f w0 = (r, w1)"
    by (auto simp: take_sample_def split: prod.splits)
  with counts_callsD(1,2) [OF assms(1)] show ?thesis by metis
qed

lemma after_yield_counts:
  "counts_calls E f body cnt \<Longrightarrow> after_yield E s w = (r, w1) \<Longrightarrow> cnt w1 = cnt w"
  by (auto simp: after_yield_def counts_callsD(3)
      split: prod.splits option.splits if_splits dest: counts_callsD(2))

definition samples_left :: "int \<Rightarrow> int \<Rightarrow> int" where
  "samples_left x d = max 1 (2 + x div d)"

lemma samples_left_pos: "1 \<le> samples_left x d"
  by (simp add: samples_left_def)

lemma samples_left_step:
  assumes "0 < d" and "0 \<le> x" and "y \<le> x - d"
  shows "1 + samples_left y d \<le> samples_left x d"
proof -
  have "y div d \<le> (x - d) div d"
    using assms by (simp add: zdiv_mono1)
  also have "\<dots> = x div d - 1"
    using assms(1) div_add_self2 [of d "x - d"] by simp
  finally have "y div d \<le> x div d - 1" .
  moreover have "0 \<le> x div d"
    using assms by (simp add: pos_imp_zdiv_nonneg_iff)
  ultimately show ?thesis
    by (simp add: samples_left_def max_def)
qed

lemma sample_loop_count:
  assumes "clock_laws E clk" and "never_back clk f" and "\<And>x. never_back clk (body x)"
    and counts: "counts_calls E f body cnt" and "sample_loop E f body s w = Some (r, s', w')"
    and "0 < sleep_interval s" and "start_time s = Some t0"
  shows "cnt w' - cnt w \<le> samples_left (t0 + timeout s - clk w) (sleep_interval s)"
  using assms(5,6,7)
proof (induction rule: sample_loop_rule)
  case (sample_raises s w e s1 w1)
  then show ?case
    using take_sample_counts [OF counts sample_raises(1)] samples_left_pos by simp
next
  case (body_raises s w x s1 w1 e w2)
  then show ?case
    using take_sample_counts [OF counts body_raises(1)] counts_callsD(4) [OF counts body_raises(2)]
      samples_left_pos by simp
next
  case (leaves s w x s1 w1 r w2)
  then show ?case
    using take_sample_counts [OF counts leaves(1)] counts_callsD(4) [OF counts leaves(2)]
      samples_left_pos by simp
next
  case (expires s w x s1 w1 w2 e w3)
  then show ?case
    using take_sample_counts [OF counts expires(1)] counts_callsD(4) [OF counts expires(2)]
      after_yield_counts [OF counts expires(3)] samples_left_pos by simp
next
  case (goes_on s w x s1 w1 w2 w3 r s' w')
  note s1 = take_sample_fields [OF goes_on(1)]
  have c: "cnt w3 = cnt w + 1"
    using take_sample_counts [OF counts goes_on(1)] counts_callsD(4) [OF counts goes_on(2)]
      after_yield_counts [OF counts goes_on(3)] by simp
  have le: "clk w \<le> clk w2"
    using take_sample_clock [OF assms(1,2) goes_on(1)] never_backD [OF assms(3) goes_on(2)] by linarith
  have "clk w2 \<le> t0 + timeout s \<and> clk w2 + sleep_interval s \<le> clk w3"
    using after_yield_goes_on [OF assms(1) _ _ goes_on(3), of t0] s1 goes_on.prems by auto
  with le have "1 + samples_left (t0 + timeout s - clk w3) (sleep_interval s)
      \<le> samples_left (t0 + timeout s - clk w) (sleep_interval s)"
    using goes_on.prems by (intro samples_left_step) auto
  moreover have "cnt w' - cnt w3 \<le> samples_left (t0 + timeout s - clk w3) (sleep_interval s)"
    using goes_on.IH s1 goes_on.prems by simp
  ultimately show ?case using c by linarith
qed

text \<open>
  The sampled function is called at most \<open>2 + timeout div sleep\<close> times by one fresh
  sampler (once, when the timeout is negative enough): a bound on the requests any wait
  of the framework sends, whatever the function returns and however long it takes.
\<close>

theorem sampler_call_bound:
  assumes "clock_laws E clk" and "never_back clk f" and "\<And>x. never_back clk (body x)"
    and "counts_calls E f body cnt" and "0 < sleep_interval s" and "start_time s = None"
    and "for_sample E f body s w = Some (r, s', w')"
  shows "cnt w' - cnt w \<le> max 1 (2 + timeout s div sleep_interval s)"
proof -
  from assms(6,7) obtain t0 w1 where now: "os_now E w = (t0, w1)"
    and loop: "sample_loop E f body (s\<lparr>start_time := Some t0\<rparr>) w1 = Some (r, s', w')"
    by (auto simp: for_sample_def begin_iteration_def split: prod.splits)
  have "cnt w' - cnt w1 \<le> samples_left (t0 + timeout s - clk w1) (sleep_interval s)"
    using sample_loop_count [OF assms(1-4) loop, of t0] assms(5) by simp
  moreover have "t0 \<le> clk w1"
    using os_now_bounds [OF assms(1) now] by simp
  then have "(t0 + timeout s - clk w1) div sleep_interval s \<le> timeout s div sleep_interval s"
    using assms(5) by (intro zdiv_mono1) auto
  ultimately show ?thesis
    using counts_callsD(2) [OF assms(4) now] by (simp add: samples_left_def max_def split: if_splits)
qed

section \<open>What waitForFuncStatus reports\<close>

lemma sample_loop_stops:
  assumes "clock_laws E clk"
    and "sample_loop E f (\<lambda>x. ret (if P x then Some (g x) else None)) s w = Some (r, s', w')"
    and "start_time s = Some t0"
  shows "case r of
      Inr y \<Rightarrow> \<exists>v x. f v = (Inr x, w') \<and> P x \<and> y = g x
    | Inl e \<Rightarrow> (\<exists>v. f v = (Inl e, w')) \<or> e = timeout_exc_cls s \<and> t0 + timeout s < clk w'"
  using assms(2,3)
proof (induction rule: sample_loop_rule)
  case (expires s w x s1 w1 w2 e w3)
  then show ?case
    using after_yield_expires [OF assms(1) _ expires(3), of t0] take_sample_fields [OF expires(1)]
    by auto
next
  case (goes_on s w x s1 w1 w2 w3 r s' w')
  then show ?case using take_sample_fields [OF goes_on(1)] by (auto split: sum.splits)
qed (auto simp: ret_def take_sample_def split: prod.splits if_splits)

text \<open>Waiting with a fresh sampler until a sample has a property: it ends, with the truth.\<close>

lemma wait_until:
  assumes "clock_laws E clk" and "never_back clk f" and "0 < sleep_interval s" and "start_time s = None"
  shows "\<exists>r s' w' t0. for_sample E f (\<lambda>x. ret (if P x then Some (g x) else None)) s w = Some (r, s', w') \<and> clk w \<le> t0 \<and>
    (case r of
       Inr y \<Rightarrow> \<exists>v x. f v = (Inr x, w') \<and> P x \<and> y = g x
     | Inl e \<Rightarrow> (\<exists>v. f v = (Inl e, w')) \<or> e = timeout_exc_cls s \<and> t0 + timeout s < clk w')"
proof -
  let ?body = "\<lambda>x. ret (if P x then Some (g x) else None)"
  obtain t0 w1 where now: "os_now E w = (t0, w1)" by fastforce
  have "\<exists>res. for_sample E f ?body s w = Some res"
    by (rule for_sample_ends [OF assms(1,2)]) (simp_all add: assms(3))
  then obtain r s' w' where loop: "for_sample E f ?body s w = Some (r, s', w')" by (metis prod_cases3)
  with now assms(4) have "sample_loop E f ?body (s\<lparr>start_time := Some t0\<rparr>) w1 = Some (r, s', w')"
    by (simp add: for_sample_def begin_iteration_def)
  from sample_loop_stops [OF assms(1) this, of t0] loop os_now_bounds [OF assms(1) now]
  show ?thesis by (intro exI [of _ r] exI [of _ s'] exI [of _ w'] exI [of _ t0]) (cases r; simp)
qed

lemma sample_loop_stops_res:
  assumes "clock_laws E clk" and "sample_loop E f (\<lambda>x. lift_res (h x)) s w = Some (r, s', w')"
    and "start_time s = Some t0"
  shows "case r of
      Inr y \<Rightarrow> \<exists>v x. f v = (Inr x, w') \<and> h x = Inr (Some y)
    | Inl e \<Rightarrow> (\<exists>v. f v = (Inl e, w')) \<or> (\<exists>v x. f v = (Inr x, w') \<and> h x = Inl e) \<or>
        e = timeout_exc_cls s \<and> t0 + timeout s < clk w'"
  using assms(2,3)
proof (induction rule: sample_loop_rule)
  case (expires s w x s1 w1 w2 e w3)
  then show ?case
    using after_yield_expires [OF assms(1) _ expires(3), of t0] take_sample_fields [OF expires(1)] by auto
next
  case (goes_on s w x s1 w1 w2 w3 r s' w')
  then show ?case using take_sample_fields [OF goes_on(1)] by (simp split: sum.splits)
qed (auto simp: lift_res_def take_sample_def split: prod.splits)

text \<open>Waiting with a fresh sampler until a pure verdict on a sample says to stop.\<close>

lemma wait_until_res:
  assumes "clock_laws E clk" and "never_back clk f" and "0 < sleep_interval s" and "start_time s = None"
  shows "\<exists>r s' w'. for_sample E f (\<lambda>x. lift_res (h x)) s w = Some (r, s', w') \<and>
    (case r of
       Inr y \<Rightarrow> \<exists>v x. f v = (Inr x, w') \<and> h x = Inr (Some y)
     | Inl e \<Rightarrow> (\<exists>v. f v = (Inl e, w')) \<or> (\<exists>v x. f v = (Inr x, w') \<and> h x = Inl e) \<or>
         e = timeout_exc_cls s \<and> clk w + timeout s < clk w')"
proof -
  let ?body = "\<lambda>x. lift_res (h x)"
  obtain t0 w1 where now: "os_now E w = (t0, w1)" by fastforce
  have "\<exists>res. for_sample E f ?body s w = Some res"
    by (rule for_sample_ends [OF assms(1,2)]) (simp_all add: assms(3) never_back_def lift_res_def)
  then obtain r s' w' where loop: "for_sample E f ?body s w = Some (r, s', w')" by (metis prod_cases3)
  with now assms(4) have "sample_loop E f ?body (s\<lparr>start_time := Some t0\<rparr>) w1 = Some (r, s', w')"
    by (simp add: for_sample_def begin_iteration_def)
  from sample_loop_stops_res [OF assms(1) this, of t0] loop os_now_bounds [OF assms(1) now]
  show ?thesis by (intro exI [of _ r] exI [of _ s'] exI [of _ w']) (cases r; fastforce)
qed

text \<open>A loop whose body always leaves takes one sample, whatever the timeout.\<close>

lemma for_sample_once:
  assumes "start_time s = None" and "\<And>x. h x \<noteq> Inr None"
  shows "for_sample E f (\<lambda>x. lift_res (h x)) s w =
    (case os_now E w of (t0, w1) \<Rightarrow> case os_now E w1 of (t, w2) \<Rightarrow> case f w2 of (r, w3) \<Rightarrow>
       Some (case r of Inl e \<Rightarrow> Inl e | Inr x \<Rightarrow> res_bind (h x) (\<lambda>y. Inr (the y)),
             s\<lparr>start_time := Some t0, last_sample_time := Some t\<rparr>, w3))"
  using assms
  by (auto simp: for_sample_def begin_iteration_def sample_loop.simps take_sample_def lift_res_def res_bind_def
      split: prod.splits sum.splits option.splits)

text \<open>
  \<open>waitForFuncStatus\<close> tells the truth: it returns True only right after a call of
  the function that returned the awaited value, and False only after that call raised
  the sampler's own timeout class or the clock has passed the start by more than the
  timeout.
\<close>

theorem waitForFuncStatus_sound:
  assumes "clock_laws E clk"
    and "waitForFuncStatus E f result s w = Some (Inr b, s', w')"
  shows "if b then \<exists>v. f v = (Inr result, w')
    else (\<exists>v e. f v = (Inl e, w') \<and> isinstance e (timeout_exc_cls s)) \<or>
      (\<exists>s1 t0. s1 = fst (begin_iteration E s w) \<and> start_time s1 = Some t0 \<and> t0 + timeout s < clk w')"
proof -
  obtain s1 w1 where b: "begin_iteration E s w = (s1, w1)" by fastforce
  note started = begin_iteration_started [OF b]
  then obtain t0 where t0: "start_time s1 = Some t0" by blast
  from assms(2) b obtain r where
    loop: "sample_loop E f (\<lambda>x. ret (if result = x then Some True else None)) s1 w1 = Some (r, s', w')"
    and r: "r = Inr b \<or> (\<exists>e. r = Inl e \<and> isinstance e (timeout_exc_cls s) \<and> \<not> b)"
    by (auto simp: waitForFuncStatus_def for_sample_def split: option.splits sum.splits if_splits)
  from sample_loop_stops [of E clk f "\<lambda>res. result = res" "\<lambda>_. True", OF assms(1) loop t0] r started t0 b show ?thesis
    by (auto split: sum.splits)
qed

section \<open>The timeout decorator\<close>

text \<open>
  The process has one SIGALRM handler and at most one pending alarm. The decorator
  installs its handler, arms the alarm, runs the function and, in a \<open>finally\<close>, puts the
  old handler back; the alarm is disarmed after the \<open>try\<close>, on the normal path only.
\<close>

datatype sig_handler = SIG_DFL | Timeout_handler

record 'w alarm_world =
  handler :: sig_handler
  alarm :: "int option"
  rest_of_world :: 'w

definition timeout_new_f :: "int \<Rightarrow> ('w alarm_world, 'a) comp \<Rightarrow> ('w alarm_world, 'a) comp" where
  "timeout_new_f seconds func =
     (\<lambda>w. if handler w \<noteq> SIG_DFL then (Inl RuntimeError, w)
          else
            (let old = handler w in
             bindE (try_finally func (\<lambda>w. w\<lparr>handler := old\<rparr>))
               (\<lambda>result. bindE (modify (\<lambda>w. w\<lparr>alarm := None\<rparr>)) (\<lambda>_. ret result))
               (w\<lparr>handler := Timeout_handler, alarm := Some seconds\<rparr>)))"

text \<open>
  The decorator restores the signal handler on every path, and disarms the alarm when
  the function returns; but when the function raises, the alarm is left as the function
  left it, armed for a function that does not touch it, with the default handler (which
  ends the process) in place.
\<close>

theorem timeout_decorator_paths:
  assumes "handler w = SIG_DFL"
    and "func (w\<lparr>handler := Timeout_handler, alarm := Some seconds\<rparr>) = (r, v)"
  shows "timeout_new_f seconds func w =
    (case r of
       Inr x \<Rightarrow> (Inr x, v\<lparr>handler := SIG_DFL, alarm := None\<rparr>)
     | Inl e \<Rightarrow> (Inl e, v\<lparr>handler := SIG_DFL\<rparr>))"
  using assms by (auto simp: timeout_new_f_def comp_simps split: sum.split)

section \<open>Witnesses\<close>

text \<open>A world that is a clock and a call counter; the sampled call takes one tick.\<close>

definition tick_os :: "(int \<times> int) os_time" where
  "tick_os = \<lparr>os_now = (\<lambda>(t, n). (t, (t, n))), os_sleep = (\<lambda>d (t, n). (t + d, n))\<rparr>"

definition tick_func :: "(int \<times> int, int) comp" where
  "tick_func = (\<lambda>(t, n). (Inr n, (t + 1, n + 1)))"

lemma tick_laws:
  "clock_laws tick_os fst" "never_back fst tick_func"
  "counts_calls tick_os tick_func (\<lambda>x. ret (None :: unit option)) snd"
  by (auto simp: clock_laws_def tick_os_def never_back_def tick_func_def counts_calls_def ret_def)

theorem sampler_terminates_witness:
  "\<exists>r. for_sample tick_os tick_func (\<lambda>x. ret (None :: unit option)) (TimeoutingSampler 20 5) (0, 0) = Some r"
  by (rule sampler_terminates [OF tick_laws(1,2)]) (simp_all add: TimeoutingSampler_def)

lemmas tick_run_simps = for_sample_def begin_iteration_def sample_loop.simps take_sample_def
  after_yield_def ret_def tick_os_def tick_func_def TimeoutingSampler_def

lemma tick_run:
  "for_sample tick_os tick_func (\<lambda>x. ret (None :: unit option)) (TimeoutingSampler 20 5) (0, 0) =
     Some (Inl TimeoutExpiredError,
       (TimeoutingSampler 20 5)\<lparr>start_time := Some 0, last_sample_time := Some 24\<rparr>, (25, 5))"
  by (simp add: tick_run_simps)

theorem sampler_call_bound_witness:
  "(5::int) - 0 \<le> max 1 (2 + 20 div 5)"
  using sampler_call_bound [OF tick_laws(1,2) _ tick_laws(3) _ _ tick_run]
  by (simp add: TimeoutingSampler_def)

lemma tick_wait:
  "waitForFuncStatus tick_os tick_func 2 (TimeoutingSampler 20 5) (0, 0) =
     Some (Inr True,
       (TimeoutingSampler 20 5)\<lparr>start_time := Some 0, last_sample_time := Some 12\<rparr>, (13, 3))"
  by (simp add: waitForFuncStatus_def tick_run_simps)

theorem waitForFuncStatus_sound_witness:
  "\<exists>v. tick_func v = (Inr 2, (13, 3))"
  using waitForFuncStatus_sound [OF tick_laws(1) tick_wait] by simp

theorem timeout_decorator_paths_witness:
  "timeout_new_f 5 (raise ValueError) \<lparr>handler = SIG_DFL, alarm = None, rest_of_world = ()\<rparr> =
     (Inl ValueError :: exn + unit, \<lparr>handler = SIG_DFL, alarm = Some 5, rest_of_world = ()\<rparr>)"
  using timeout_decorator_paths
    [of "\<lparr>handler = SIG_DFL, alarm = None, rest_of_world = ()\<rparr>" "raise ValueError" 5 "Inl ValueError :: exn + unit"
      "\<lparr>handler = Timeout_handler, alarm = Some 5, rest_of_world = ()\<rparr>"]
  by (simp add: raise_def)

end
