(* ===== verification/Validator.thy ===== *)
theory Validator
  imports Pyval
begin

text \<open>
  \<open>art/core_api/validator.py\<close>: the checks of response codes, action states and
  collection sizes, the sorting of two collections before they are compared, and the
  recursive comparison of an expected with an actual element. The classes of
  data-structure objects come from code generated at build time; they are the parameter
  \<open>ds\<close> of the comparison, a class being its name, its members and its superclass.
\<close>

section \<open>Constants\<close>

definition ATTR_IGNORE_LIST :: "string list" where
  "ATTR_IGNORE_LIST = [''href'', ''link'', ''rel'', ''build_'']"

definition VALS_IGNORE_DICT :: "string \<Rightarrow> pyval list option" where
  "VALS_IGNORE_DICT = [''usage'' \<mapsto> [PStr ''vm'']]"

definition DS_CLASS_MAPPER :: "(string, string) dict" where
  "DS_CLASS_MAPPER =
     [(''clusternetwork'', ''Network''), (''vmcdrom'', ''Cdrom''), (''rolepermits'', ''Permits''),
      (''hostnicstatistics'', ''Statistics''), (''diskstatistics'', ''Statistics''),
      (''datacenternetworkvnicprofile'', ''VnicProfile''), (''jobstep'', ''Step''),
      (''hostniclabels'', ''Labels''), (''datacenternetwork'', ''Network''),
      (''vmpermissions'', ''Permissions''), (''templatepermissions'', ''Permissions'')]"

definition SORT_ATTRS :: "string list" where
  "SORT_ATTRS = [''name'', ''id'', ''index'']"

definition NameTable :: "(string, string) dict" where
  "NameTable = [(''import'', ''import___''), (''from'', ''from___'')]"

section \<open>Small checks\<close>

fun is_primitive :: "pyval \<Rightarrow> bool" where
  "is_primitive (PBool b) = True"
| "is_primitive (PInt i) = True"
| "is_primitive (PStr s) = True"
| "is_primitive v = False"

definition compareResponseCode :: "int \<Rightarrow> int list \<Rightarrow> bool" where
  "compareResponseCode resp expected \<longleftrightarrow> resp \<in> set expected"

definition compareActionStatus :: "pyval \<Rightarrow> pyval list \<Rightarrow> bool" where
  "compareActionStatus status expected \<longleftrightarrow> (\<exists>x \<in> set expected. py_eq status x)"

definition compareAsyncActionStatus :: "bool \<Rightarrow> pyval \<Rightarrow> bool" where
  "compareAsyncActionStatus is_async state =
     compareActionStatus state
       (if is_async then [PStr ''pending'', PStr ''complete''] else [PStr ''complete''])"

text \<open>\<open>expectedSize\<close> is a list of sizes or one size; a missing collection fails.\<close>

datatype size_spec = One_of "int list" | Exactly int

fun compareCollectionSize :: "'a list option \<Rightarrow> size_spec \<Rightarrow> bool" where
  "compareCollectionSize None spec = False"
| "compareCollectionSize (Some coll) (One_of sizes) = (int (length coll) \<in> set sizes)"
| "compareCollectionSize (Some coll) (Exactly n) = (int (length coll) = n)"

definition compareActionLink :: "string list \<Rightarrow> string \<Rightarrow> bool" where
  "compareActionLink rels action \<longleftrightarrow> action \<in> set rels"

definition compareStrings :: "bool \<Rightarrow> pyval \<Rightarrow> pyval \<Rightarrow> bool" where
  "compareStrings positive strA strB = py_eq strA strB"

definition getClassName :: "string \<Rightarrow> string" where
  "getClassName elmClass =
     (case map_of DS_CLASS_MAPPER (lower elmClass) of None \<Rightarrow> elmClass | Some c \<Rightarrow> c)"

section \<open>Members of a class\<close>

record member_spec =
  data_type :: string
  container :: bool

type_synonym members = "(string, member_spec) dict"

datatype ds_class = DsClass (ds_name: string) (ds_items: members) (ds_super: "ds_class option")

text \<open>
  \<open>getObjAttributes\<close> merges the members of all superclasses into the object's own; on a
  name in both, the superclass's entry replaces the one that is there.
\<close>

fun getObjAttributes :: "ds_class \<Rightarrow> members \<Rightarrow> members" where
  "getObjAttributes (DsClass n items None) orig = orig"
| "getObjAttributes (DsClass n items (Some sc)) orig =
     getObjAttributes sc (dict_update orig (ds_items sc))"

definition members_of :: "ds_class \<Rightarrow> members" where
  "members_of c = getObjAttributes c (ds_items c)"

fun ancestors :: "ds_class \<Rightarrow> ds_class list" where
  "ancestors (DsClass n items None) = []"
| "ancestors (DsClass n items (Some sc)) = sc # ancestors sc"

lemma keys_getObjAttributes:
  "set (dict_keys (getObjAttributes c orig)) =
     set (dict_keys orig) \<union> (\<Union>a \<in> set (ancestors c). set (dict_keys (ds_items a)))"
  by (induction c orig rule: getObjAttributes.induct) (auto simp: keys_dict_update)

text \<open>
  \<open>getAttibuteValue\<close> calls the generated getter. The generator appends underscores to a
  member whose name is a Python keyword (\<open>type_\<close>, \<open>import___\<close>); its getter keeps the
  XML name.
\<close>

definition call_getter :: "pyval \<Rightarrow> string \<Rightarrow> exn + pyval" where
  "call_getter v n =
     (case getattr_opt v n of
        Some x \<Rightarrow> Inr x
      | None \<Rightarrow> (case getattr_opt v (n @ ''_'') of
          Some x \<Rightarrow> Inr x
        | None \<Rightarrow> getattr v (n @ ''___'')))"

definition getAttibuteValue :: "pyval \<Rightarrow> string \<Rightarrow> exn + pyval" where
  "getAttibuteValue elm attrName =
     call_getter elm (if startswith attrName ''type'' then rstrip_chars attrName ''_'' else attrName)"

section \<open>Sorting two collections\<close>

text \<open>\<open>getattr(x, attr)\<close> of every element; one element without it raises.\<close>

fun attrs_of :: "string \<Rightarrow> pyval list \<Rightarrow> exn + pyval list" where
  "attrs_of a [] = Inr []"
| "attrs_of a (x # xs) =
     (case getattr x a of Inl e \<Rightarrow> Inl e
      | Inr v \<Rightarrow> (case attrs_of a xs of Inl e \<Rightarrow> Inl e | Inr vs \<Rightarrow> Inr (v # vs)))"

definition attr_val :: "string \<Rightarrow> pyval \<Rightarrow> pyval" where
  "attr_val a x = (case getattr_opt x a of None \<Rightarrow> PNone | Some v \<Rightarrow> v)"

definition sort_by_attr :: "string \<Rightarrow> pyval list \<Rightarrow> exn + pyval list" where
  "sort_by_attr a xs =
     (case attrs_of a xs of Inl e \<Rightarrow> Inl e
      | Inr _ \<Rightarrow> Inr (sort_key (\<lambda>x. sort_key_of (attr_val a x)) xs))"

definition sort_elements_by_attr ::
  "pyval list \<Rightarrow> pyval list \<Rightarrow> string \<Rightarrow> exn + pyval list \<times> pyval list" where
  "sort_elements_by_attr act_elms exp_elms sort_attr =
     (case sort_by_attr sort_attr exp_elms of Inl e \<Rightarrow> Inl e
      | Inr exp' \<Rightarrow> (case sort_by_attr sort_attr act_elms of Inl e \<Rightarrow> Inl e
          | Inr act' \<Rightarrow> Inr (act', exp')))"

definition existence_key :: "string \<Rightarrow> pyval list \<Rightarrow> pyval \<Rightarrow> int" where
  "existence_key a vals x = (if \<exists>v \<in> set vals. py_eq (attr_val a x) v then -1 else 1)"

definition sort_elements_by_existence ::
  "pyval list \<Rightarrow> pyval list \<Rightarrow> string \<Rightarrow> exn + pyval list \<times> pyval list" where
  "sort_elements_by_existence act_elms exp_elms sort_attr =
     (if length act_elms = length exp_elms then Inr (act_elms, exp_elms)
      else if length act_elms > length exp_elms then
        (case (attrs_of sort_attr exp_elms, attrs_of sort_attr act_elms) of
           (Inr vals, Inr _) \<Rightarrow> Inr (sort_key (existence_key sort_attr vals) act_elms, exp_elms)
         | (Inl e, _) \<Rightarrow> Inl e | (_, Inl e) \<Rightarrow> Inl e)
      else
        (case (attrs_of sort_attr act_elms, attrs_of sort_attr exp_elms) of
           (Inr vals, Inr _) \<Rightarrow> Inr (act_elms, sort_key (existence_key sort_attr vals) exp_elms)
         | (Inl e, _) \<Rightarrow> Inl e | (_, Inl e) \<Rightarrow> Inl e))"

text \<open>
  The first of \<open>SORT_ATTRS\<close> that the first element of both lists has (and not as
  \<open>None\<close>) decides; without one the lists stay as they are. The callers pass two
  non-empty lists; \<open>[0]\<close> of an empty one raises.
\<close>

definition present :: "pyval \<Rightarrow> string \<Rightarrow> bool" where
  "present x a \<longleftrightarrow> (case getattr_opt x a of None \<Rightarrow> False | Some v \<Rightarrow> v \<noteq> PNone)"

fun sort_elements :: "pyval list \<Rightarrow> pyval list \<Rightarrow> exn + pyval list \<times> pyval list" where
  "sort_elements (a # acts) (e # exps) =
     (case List.find (\<lambda>attr. present e attr \<and> present a attr) SORT_ATTRS of
        None \<Rightarrow> Inr (a # acts, e # exps)
      | Some attr \<Rightarrow>
          (case sort_elements_by_attr (a # acts) (e # exps) attr of
             Inl err \<Rightarrow> Inl err
           | Inr (act', exp') \<Rightarrow> sort_elements_by_existence act' exp' attr))"
| "sort_elements acts exps = Inl IndexError"

subsection \<open>Sorting keeps and aligns the elements\<close>

lemma attrs_of_Inr: "attrs_of a xs = Inr vs \<Longrightarrow> vs = map (attr_val a) xs"
  by (induction xs arbitrary: vs)
    (auto simp: getattr_def attr_val_def split: sum.splits option.splits)

lemma existence_is_partition:
  "sort_key (existence_key a vals) xs =
     filter (\<lambda>x. \<exists>v \<in> set vals. py_eq (attr_val a x) v) xs @
     filter (\<lambda>x. \<not> (\<exists>v \<in> set vals. py_eq (attr_val a x) v)) xs"
  unfolding existence_key_def by (rule sort_key_two_valued)

lemma sort_elements_by_attr_mset:
  "sort_elements_by_attr act e attr = Inr (act', e') \<Longrightarrow> mset act' = mset act \<and> mset e' = mset e"
  by (auto simp: sort_elements_by_attr_def sort_by_attr_def split: sum.splits)

lemma sort_elements_by_existence_mset:
  "sort_elements_by_existence act e attr = Inr (act', e') \<Longrightarrow> mset act' = mset act \<and> mset e' = mset e"
  by (auto simp: sort_elements_by_existence_def split: sum.splits prod.splits if_splits)

lemma sort_elements_mset:
  "sort_elements act e = Inr (act', e') \<Longrightarrow> mset act' = mset act \<and> mset e' = mset e"
  by (cases "(act, e)" rule: sort_elements.cases)
    (auto split: option.splits sum.splits prod.splits
      dest!: sort_elements_by_attr_mset sort_elements_by_existence_mset)

lemma sort_elements_lengths:
  "sort_elements act e = Inr (act', e') \<Longrightarrow> length act' = length act \<and> length e' = length e"
  by (metis sort_elements_mset size_mset)

lemma sort_elements_sets:
  "sort_elements act e = Inr (act', e') \<Longrightarrow> set act' = set act \<and> set e' = set e"
  by (metis sort_elements_mset set_mset_mset)

text \<open>
  The lists are sorted by string keys. Two sorted lists with the same distinct keys have
  their keys in the same places.
\<close>

definition str_keys :: "string \<Rightarrow> pyval list \<Rightarrow> bool" where
  "str_keys a xs \<longleftrightarrow> (\<forall>x \<in> set xs. \<exists>s. attr_val a x = PStr s) \<and> distinct (map (attr_val a) xs)"

lemma str_keys_inj:
  assumes "str_keys a xs" and "str_keys a ys" and "x \<in> set xs" and "y \<in> set ys"
  shows "sort_key_of (attr_val a x) = sort_key_of (attr_val a y) \<longleftrightarrow> attr_val a x = attr_val a y"
  using assms unfolding str_keys_def by (metis py_key.inject(2) sort_key_of.simps(4))

lemma str_keys_distinct:
  assumes "str_keys a xs"
  shows "distinct (map (\<lambda>x. sort_key_of (attr_val a x)) xs)"
  using assms str_keys_inj [OF assms assms]
  by (auto simp: str_keys_def distinct_map inj_on_def)

lemma str_keys_map_eq:
  assumes "str_keys a xs" and "str_keys a ys"
    and eq: "map (\<lambda>x. sort_key_of (attr_val a x)) xs = map (\<lambda>x. sort_key_of (attr_val a x)) ys"
  shows "map (attr_val a) xs = map (attr_val a) ys"
proof (rule nth_equalityI)
  from eq have len: "length xs = length ys" by (rule map_eq_imp_length_eq)
  then show "length (map (attr_val a) xs) = length (map (attr_val a) ys)" by simp
  fix i
  assume "i < length (map (attr_val a) xs)"
  then have "i < length xs" "i < length ys" using len by simp_all
  moreover from this have "sort_key_of (attr_val a (xs ! i)) = sort_key_of (attr_val a (ys ! i))"
    using arg_cong [OF eq, of "\<lambda>l. l ! i"] by simp
  ultimately show "map (attr_val a) xs ! i = map (attr_val a) ys ! i"
    using str_keys_inj [OF assms(1,2), of "xs ! i" "ys ! i"] by simp
qed

lemma map_key_unique:
  fixes k :: "'a \<Rightarrow> 'b::linorder"
  assumes "sorted (map k xs)" and "sorted (map k ys)" and "distinct (map k xs)" and "distinct (map k ys)"
    and "k ` set xs = k ` set ys"
  shows "map k xs = map k ys"
  using assms by (intro sorted_distinct_set_unique) auto

lemma str_keys_mset: "str_keys a xs \<Longrightarrow> mset ys = mset xs \<Longrightarrow> str_keys a ys"
  unfolding str_keys_def by (metis mset_eq_setD mset_map mset_eq_imp_distinct_iff)

lemma image_restrict: "B \<subseteq> f ` A \<Longrightarrow> f ` {x \<in> A. f x \<in> B} = B"
  by blast

lemma sort_by_existence_prefix:
  assumes a1: "sorted (map (\<lambda>x. sort_key_of (attr_val a x)) acts)"
    and e1: "sorted (map (\<lambda>x. sort_key_of (attr_val a x)) exps)"
    and keys: "str_keys a acts" "str_keys a exps"
    and sub: "attr_val a ` set exps \<subseteq> attr_val a ` set acts"
  shows "map (attr_val a) (filter (\<lambda>x. \<exists>v \<in> set (map (attr_val a) exps). py_eq (attr_val a x) v) acts)
    = map (attr_val a) exps"
proof -
  let ?k = "\<lambda>x. sort_key_of (attr_val a x)"
  let ?P = "\<lambda>x. \<exists>v \<in> set (map (attr_val a) exps). py_eq (attr_val a x) v"
  let ?F = "filter ?P acts"
  have eq: "py_eq u v \<longleftrightarrow> u = v" if "v \<in> attr_val a ` set exps" for u v
  proof -
    from that keys(2) obtain t where "v = PStr t" by (auto simp: str_keys_def)
    then show ?thesis by simp
  qed
  have P: "?P x \<longleftrightarrow> attr_val a x \<in> attr_val a ` set exps" for x
    unfolding set_map using eq by blast
  have F: "attr_val a ` set ?F = attr_val a ` set exps"
    unfolding set_filter P by (rule image_restrict [OF sub])
  have sk: "str_keys a ?F"
    using keys(1) by (auto simp: str_keys_def distinct_map inj_on_def)
  have "map ?k ?F = map ?k exps"
  proof (rule map_key_unique)
    show "sorted (map ?k ?F)" using a1 by (rule sorted_filter)
    show "?k ` set ?F = ?k ` set exps"
      using arg_cong [OF F, of "image sort_key_of"] unfolding image_image .
  qed (use e1 str_keys_distinct [OF sk] str_keys_distinct [OF keys(2)] in auto)
  then show ?thesis by (rule str_keys_map_eq [OF sk keys(2)])
qed

lemma card_keys: "str_keys a xs \<Longrightarrow> card (attr_val a ` set xs) = length xs"
  unfolding str_keys_def by (metis distinct_card length_map set_map)

lemma larger_keys_not_subset:
  assumes "str_keys a xs" and "str_keys a ys" and "length ys < length xs"
  shows "\<not> attr_val a ` set xs \<subseteq> attr_val a ` set ys"
  using assms card_mono [of "attr_val a ` set ys" "attr_val a ` set xs"] by (auto simp: card_keys)

lemma existence_sort_aligned:
  assumes "sorted (map (\<lambda>x. sort_key_of (attr_val a x)) acts)"
    and "sorted (map (\<lambda>x. sort_key_of (attr_val a x)) exps)"
    and keys: "str_keys a acts" "str_keys a exps"
    and sub: "attr_val a ` set exps \<subseteq> attr_val a ` set acts \<or> attr_val a ` set acts \<subseteq> attr_val a ` set exps"
    and len: "length exps < length acts"
  shows "map (attr_val a) (take (length exps) (sort_key (existence_key a (map (attr_val a) exps)) acts))
    = map (attr_val a) exps"
proof -
  from sub larger_keys_not_subset [OF keys len] have "attr_val a ` set exps \<subseteq> attr_val a ` set acts"
    by blast
  note prefix = sort_by_existence_prefix [OF assms(1,2) keys this]
  then show ?thesis
    using map_eq_imp_length_eq [OF prefix] unfolding existence_is_partition by simp
qed

lemma same_keys_aligned:
  assumes "sorted (map (\<lambda>x. sort_key_of (attr_val a x)) acts)"
    and "sorted (map (\<lambda>x. sort_key_of (attr_val a x)) exps)"
    and keys: "str_keys a acts" "str_keys a exps"
    and sub: "attr_val a ` set exps \<subseteq> attr_val a ` set acts" and len: "length acts = length exps"
  shows "map (attr_val a) acts = map (attr_val a) exps"
proof -
  have "card (attr_val a ` set exps) = card (attr_val a ` set acts)"
    using keys len by (simp add: card_keys)
  then have "attr_val a ` set exps = attr_val a ` set acts"
    using sub by (simp add: card_subset_eq)
  then have "filter (\<lambda>x. \<exists>v \<in> set (map (attr_val a) exps). py_eq (attr_val a x) v) acts = acts"
    by (intro filter_True ballI) force
  then show ?thesis
    using sort_by_existence_prefix [OF assms(1,2) keys sub] by simp
qed

lemma sort_by_attr_Inr:
  assumes "sort_by_attr a xs = Inr ys"
  shows "ys = sort_key (\<lambda>x. sort_key_of (attr_val a x)) xs"
    and "sorted (map (\<lambda>x. sort_key_of (attr_val a x)) ys)" and "mset ys = mset xs"
  using assms by (auto simp: sort_by_attr_def split: sum.splits)

text \<open>
  When both collections have the same sort attribute with distinct string values, and
  the names of one collection all occur in the other, \<open>sort_elements\<close> puts the elements
  of the same name at the same index: comparing index by index compares like with like,
  whatever the order the server listed them in and whatever extra elements it has.
\<close>

theorem sort_elements_aligned:
  assumes "sort_elements acts exps = Inr (act', exp')"
    and "List.find (\<lambda>a. present (hd exps) a \<and> present (hd acts) a) SORT_ATTRS = Some attr"
    and "str_keys attr acts" and "str_keys attr exps"
    and "attr_val attr ` set exps \<subseteq> attr_val attr ` set acts \<or>
      attr_val attr ` set acts \<subseteq> attr_val attr ` set exps"
    and "i < length acts" and "i < length exps"
  shows "attr_val attr (exp' ! i) = attr_val attr (act' ! i)"
proof -
  from assms(1,2) obtain act1 exp1 where by_attr: "sort_elements_by_attr acts exps attr = Inr (act1, exp1)"
    and by_ex: "sort_elements_by_existence act1 exp1 attr = Inr (act', exp')"
    by (cases "(acts, exps)" rule: sort_elements.cases)
      (auto split: option.splits sum.splits prod.splits)
  from by_attr have a1: "sort_by_attr attr acts = Inr act1" and e1: "sort_by_attr attr exps = Inr exp1"
    by (auto simp: sort_elements_by_attr_def split: sum.splits)
  note a = sort_by_attr_Inr [OF a1] and e = sort_by_attr_Inr [OF e1]
  have len: "length act1 = length acts" "length exp1 = length exps"
    using a(3) e(3) by (metis size_mset)+
  have sets: "set act1 = set acts" "set exp1 = set exps"
    using a(3) e(3) by (metis set_mset_mset)+
  have keys: "str_keys attr act1" "str_keys attr exp1"
    using assms(3,4) a(3) e(3) str_keys_mset by blast+
  note sub = assms(5) [folded sets]
  consider (eq) "length act1 = length exp1" | (more) "length exp1 < length act1"
    | (less) "length act1 < length exp1" by linarith
  then have "map (attr_val attr) (take (min (length acts) (length exps)) exp') =
      map (attr_val attr) (take (min (length acts) (length exps)) act')"
  proof cases
    case eq
    with by_ex have "act' = act1" "exp' = exp1" by (auto simp: sort_elements_by_existence_def)
    then show ?thesis
      using same_keys_aligned [OF a(2) e(2) keys _ eq] same_keys_aligned [OF e(2) a(2) keys(2,1) _ eq [symmetric]]
        sub by (auto simp: take_map [symmetric])
  next
    case more
    with by_ex have "act' = sort_key (existence_key attr (map (attr_val attr) exp1)) act1" "exp' = exp1"
      by (auto simp: sort_elements_by_existence_def split: sum.splits dest!: attrs_of_Inr)
    then show ?thesis
      using existence_sort_aligned [OF a(2) e(2) keys sub more] more len by (simp add: min_def)
  next
    case less
    with by_ex have "exp' = sort_key (existence_key attr (map (attr_val attr) act1)) exp1" "act' = act1"
      by (auto simp: sort_elements_by_existence_def split: sum.splits dest!: attrs_of_Inr)
    moreover have "attr_val attr ` set act1 \<subseteq> attr_val attr ` set exp1 \<or>
        attr_val attr ` set exp1 \<subseteq> attr_val attr ` set act1" using sub by blast
    ultimately show ?thesis
      using existence_sort_aligned [OF e(2) a(2) keys(2,1) _ less] less len by (simp add: min_def)
  qed
  then have "map (attr_val attr) (take (min (length acts) (length exps)) exp') ! i =
      map (attr_val attr) (take (min (length acts) (length exps)) act') ! i" by simp
  moreover have "length act' = length acts" "length exp' = length exps"
    using sort_elements_lengths [OF assms(1)] by auto
  ultimately show ?thesis using assms(6,7) by simp
qed


section \<open>Comparing two elements\<close>

text \<open>What a comparison runs with: the generated classes and the Java SDK flag.\<close>

record cmp_env =
  ds_classes :: "string \<Rightarrow> ds_class option"
  java_sdk_mode :: bool

definition ignore_list :: "string list \<Rightarrow> string list" where
  "ignore_list ignore =
     [''status'', ''role'', ''active'', ''total'', ''required'', ''permit'',
      ''root_password'', ''namespace''] @ ATTR_IGNORE_LIST @ ignore"

text \<open>The class of the expected element; a Java translator is looked through.\<close>

definition elm_class :: "pyval \<Rightarrow> exn + string" where
  "elm_class e =
     (if class_name e = ''JavaTranslator'' then
        (case getattr e ''java_object'' of Inl err \<Rightarrow> Inl err | Inr j \<Rightarrow> Inr (class_name j))
      else Inr (class_name e))"

text \<open>The attribute's name before the generator changed it.\<close>

definition orig_attr :: "string \<Rightarrow> string" where
  "orig_attr attr =
     (case List.find (\<lambda>(k, v). v = attr) NameTable of None \<Rightarrow> attr | Some (k, v) \<Rightarrow> k)"

text \<open>The members of a set made of a list: of values that are equal the first is kept.\<close>

primrec py_set :: "pyval list \<Rightarrow> pyval list" where
  "py_set [] = []"
| "py_set (x # xs) = x # filter (\<lambda>y. \<not> py_eq x y) (py_set xs)"

text \<open>
  A primitive attribute (or a list of primitives): the two lists are sorted, values of
  the actual list that may be surplus are dropped, Booleans are compared without case,
  everything is compared as text.
\<close>

definition drop_ignored :: "string \<Rightarrow> pyval list \<Rightarrow> pyval list \<Rightarrow> pyval list" where
  "drop_ignored attr es as =
     (case VALS_IGNORE_DICT attr of
        None \<Rightarrow> as
      | Some ign \<Rightarrow>
          let ignoreVals = filter (\<lambda>x. \<not> list_ex (py_eq x) es \<and> list_ex (py_eq x) ign) as
          in py_sort (py_set (filter (\<lambda>x. \<not> list_ex (py_eq x) ignoreVals) as)))"

definition norm_lists :: "member_spec \<Rightarrow> string \<Rightarrow> pyval \<Rightarrow> pyval \<Rightarrow> exn + pyval \<times> pyval" where
  "norm_lists spec attr e a =
     (case e of
        PList es \<Rightarrow>
          if container spec then
            (case a of
               PList as \<Rightarrow> Inr (PList (py_sort es), PList (drop_ignored attr (py_sort es) (py_sort as)))
             | _ \<Rightarrow> (case es of [] \<Rightarrow> Inl IndexError | x # _ \<Rightarrow> Inr (x, a)))
          else Inr (e, a)
      | _ \<Rightarrow> Inr (e, a))"

definition is_bool :: "pyval \<Rightarrow> bool" where
  "is_bool v = (case v of PBool b \<Rightarrow> True | _ \<Rightarrow> False)"

definition compare_primitive :: "member_spec \<Rightarrow> string \<Rightarrow> pyval \<Rightarrow> pyval \<Rightarrow> exn + bool" where
  "compare_primitive spec attr e a =
     (case norm_lists spec attr e a of
        Inl err \<Rightarrow> Inl err
      | Inr (e', a') \<Rightarrow>
          Inr (if contains (data_type spec) ''boolean'' \<or> is_bool a'
               then lower (py_str e') = lower (py_str a')
               else py_str e' = py_str a'))"

text \<open>What one round of the loop over the attributes finds.\<close>

datatype attr_case =
    Skip
  | Mismatch
  | Raises exn
  | Primitive bool
  | Nested pyval pyval

definition attr_case :: "cmp_env \<Rightarrow> string list \<Rightarrow> members \<Rightarrow> pyval \<Rightarrow> pyval \<Rightarrow> string \<Rightarrow> attr_case" where
  "attr_case env ign members exp act attr =
     (if attr \<in> set ign then Skip
      else
        (let orig = orig_attr attr in
         case (getAttibuteValue exp orig, getAttibuteValue act orig) of
           (Inr e, Inr a) \<Rightarrow>
             (case map_of members attr of
                None \<Rightarrow> Raises KeyError
              | Some spec \<Rightarrow>
                  if e = PNone then Skip
                  else if a = PNone then Skip
                  else if startswith (data_type spec) ''xs:'' \<or> is_primitive a then
                    (case compare_primitive spec attr e a of
                       Inl err \<Rightarrow> Raises err | Inr b \<Rightarrow> Primitive b)
                  else Nested e a)
         | _ \<Rightarrow>
             if java_sdk_mode env then
               (if hasattr act ''java_object'' then Skip else Raises AttributeError)
             else if endswith (class_name act) ''s'' then Skip
             else Mismatch))"

lemma getattr_opt_size: "getattr_opt v n = Some x \<Longrightarrow> size x < size v"
proof (cases v)
  case (PObj c attrs)
  assume "getattr_opt v n = Some x"
  with PObj have "(n, x) \<in> set attrs" by (auto dest: map_of_SomeD)
  then have "size x < size_list (size_prod (\<lambda>_. 0) size) attrs + 1"
    by (induction attrs) auto
  with PObj show ?thesis by simp
qed auto

lemma getAttibuteValue_size: "getAttibuteValue v n = Inr x \<Longrightarrow> size x < size v"
  by (auto simp: getAttibuteValue_def call_getter_def getattr_def
      split: option.splits if_splits dest: getattr_opt_size)

lemma attr_case_Nested:
  assumes "attr_case env ign members exp act attr = Nested e a"
  shows "getAttibuteValue exp (orig_attr attr) = Inr e" and "getAttibuteValue act (orig_attr attr) = Inr a"
  using assms by (auto simp: attr_case_def Let_def split: if_splits option.splits sum.splits prod.splits)

lemma size_list_mset: "mset xs = mset ys \<Longrightarrow> size_list f xs = size_list f ys"
proof -
  have "size_list f zs = sum_mset (image_mset f (mset zs)) + length zs" for zs
    by (induction zs) auto
  then show "mset xs = mset ys \<Longrightarrow> size_list f xs = size_list f ys"
    by (metis size_mset)
qed

lemma sort_elements_size:
  "sort_elements as es = Inr (as', es') \<Longrightarrow> size_list f es' = size_list f es"
  by (metis sort_elements_mset size_list_mset)

text \<open>Both values are non-empty lists.\<close>

fun list_elems :: "pyval \<Rightarrow> pyval list" where
  "list_elems (PList xs) = xs"
| "list_elems v = []"

definition two_lists :: "pyval \<Rightarrow> pyval \<Rightarrow> bool" where
  "two_lists e a \<longleftrightarrow> list_elems e \<noteq> [] \<and> list_elems a \<noteq> []"

text \<open>
  The comparison, the loop over the attributes and the loop over two sorted lists. The
  flag \<open>equal\<close> is threaded through: once False it stays False.
\<close>

function compareElements ::
    "cmp_env \<Rightarrow> string list \<Rightarrow> pyval \<Rightarrow> pyval \<Rightarrow> bool \<Rightarrow> exn + bool"
  and compareAttrs ::
    "cmp_env \<Rightarrow> string list \<Rightarrow> members \<Rightarrow> pyval \<Rightarrow> pyval \<Rightarrow> string list \<Rightarrow> bool \<Rightarrow> exn + bool"
  and comparePairs ::
    "cmp_env \<Rightarrow> pyval list \<Rightarrow> pyval list \<Rightarrow> bool \<Rightarrow> exn + bool" where
  "compareElements env ignore expElm actElm equal =
     (if \<not> truthy actElm then Inr True
      else
        (case elm_class expElm of
           Inl err \<Rightarrow> Inl err
         | Inr elmClass \<Rightarrow>
             (case ds_classes env (getClassName elmClass) of
                None \<Rightarrow> Inl AttributeError
              | Some cls \<Rightarrow>
                  compareAttrs env (ignore_list ignore) (members_of cls) expElm actElm
                    (dict_keys (members_of cls)) equal)))"
| "compareAttrs env ign members expElm actElm [] equal = Inr equal"
| "compareAttrs env ign members expElm actElm (attr # attrs) equal =
     (case attr_case env ign members expElm actElm attr of
        Raises err \<Rightarrow> Inl err
      | Skip \<Rightarrow> compareAttrs env ign members expElm actElm attrs equal
      | Mismatch \<Rightarrow> compareAttrs env ign members expElm actElm attrs False
      | Primitive b \<Rightarrow> compareAttrs env ign members expElm actElm attrs (if b then equal else False)
      | Nested e a \<Rightarrow>
          (if two_lists e a then
             (case sort_elements (list_elems a) (list_elems e) of
                Inl err \<Rightarrow> Inl err
              | Inr (as', es') \<Rightarrow>
                  (case comparePairs env es' as' equal of
                     Inl err \<Rightarrow> Inl err
                   | Inr equal' \<Rightarrow> compareAttrs env ign members expElm actElm attrs equal'))
           else
             (case compareElements env [] e a equal of
                Inl err \<Rightarrow> Inl err
              | Inr b \<Rightarrow> compareAttrs env ign members expElm actElm attrs (if b then equal else False))))"
| "comparePairs env [] acts equal = Inr equal"
| "comparePairs env (e # es) [] equal = Inr equal"
| "comparePairs env (e # es) (a # as) equal =
     (case compareElements env [] e a equal of
        Inl err \<Rightarrow> Inl err
      | Inr b \<Rightarrow> comparePairs env es as (if b then equal else False))"
  by pat_completeness auto

text \<open>
  It ends: nested comparisons run on strictly smaller expected values, and sorting does
  not change the size of a list.
\<close>

definition cmp_measure where
  "cmp_measure = measures
     [\<lambda>x. case x of Inl (env, ign, e, a, q) \<Rightarrow> size e
        | Inr (Inl (env, ign, m, e, a, attrs, q)) \<Rightarrow> size e
        | Inr (Inr (env, es, as, q)) \<Rightarrow> size_list size es,
      \<lambda>x. case x of Inl _ \<Rightarrow> 1 | _ \<Rightarrow> 0,
      \<lambda>x. case x of Inr (Inl (env, ign, m, e, a, attrs, q)) \<Rightarrow> length attrs
        | Inr (Inr (env, es, as, q)) \<Rightarrow> length es | _ \<Rightarrow> 0]"

lemma Nested_size: "attr_case env ign members exp act attr = Nested e a \<Longrightarrow> size e < size exp"
  by (drule attr_case_Nested(1)) (rule getAttibuteValue_size)

lemma Nested_list_size:
  assumes "attr_case env ign members exp act attr = Nested e a" and "two_lists e a"
    and "sort_elements (list_elems a) (list_elems e) = Inr (as', es')"
  shows "size_list size es' < size exp"
proof -
  have "size_list size (list_elems e) \<le> size e"
    using assms(2) by (cases e) (auto simp: two_lists_def)
  with Nested_size [OF assms(1)] sort_elements_size [OF assms(3), of size] show ?thesis by simp
qed

termination compareElements
proof (relation cmp_measure)
  show "wf cmp_measure" by (simp add: cmp_measure_def)
qed (auto simp: cmp_measure_def dest: Nested_size Nested_list_size)

declare compareElements.simps [simp del] compareAttrs.simps(2) [simp del]

section \<open>What a comparison decides\<close>

text \<open>
  \<open>visits\<close>: comparing the two elements looks at an attribute and classifies it as \<open>k\<close>.
  \<open>mismatch\<close> is the specification: somewhere below, a compared attribute differs. The
  nested elements compared are two single elements, or the elements at one index of the
  two sorted lists.
\<close>

definition visits :: "cmp_env \<Rightarrow> string list \<Rightarrow> pyval \<Rightarrow> pyval \<Rightarrow> attr_case \<Rightarrow> bool" where
  "visits env ignore exp act k \<longleftrightarrow>
     truthy act \<and>
     (\<exists>c cls. elm_class exp = Inr c \<and> ds_classes env (getClassName c) = Some cls \<and>
        (\<exists>attr \<in> set (dict_keys (members_of cls)).
           attr_case env (ignore_list ignore) (members_of cls) exp act attr = k))"

inductive mismatch :: "cmp_env \<Rightarrow> string list \<Rightarrow> pyval \<Rightarrow> pyval \<Rightarrow> bool" for env where
  missing: "visits env ignore exp act Mismatch \<Longrightarrow> mismatch env ignore exp act"
| wrong_value: "visits env ignore exp act (Primitive False) \<Longrightarrow> mismatch env ignore exp act"
| nested: "visits env ignore exp act (Nested e a) \<Longrightarrow> \<not> two_lists e a \<Longrightarrow> mismatch env [] e a \<Longrightarrow>
    mismatch env ignore exp act"
| at_index: "visits env ignore exp act (Nested e a) \<Longrightarrow> two_lists e a \<Longrightarrow>
    sort_elements (list_elems a) (list_elems e) = Inr (as', es') \<Longrightarrow> i < length es' \<Longrightarrow> i < length as' \<Longrightarrow>
    mismatch env [] (es' ! i) (as' ! i) \<Longrightarrow> mismatch env ignore exp act"

lemma mismatch_truthy: "mismatch env ignore exp act \<Longrightarrow> truthy act"
  by (cases rule: mismatch.cases) (auto simp: visits_def)

definition nested_differs :: "cmp_env \<Rightarrow> pyval \<Rightarrow> pyval \<Rightarrow> bool" where
  "nested_differs env e a \<longleftrightarrow>
     (if two_lists e a then
        (\<exists>as' es' i. sort_elements (list_elems a) (list_elems e) = Inr (as', es') \<and>
           i < length es' \<and> i < length as' \<and> mismatch env [] (es' ! i) (as' ! i))
      else mismatch env [] e a)"

fun case_differs :: "cmp_env \<Rightarrow> attr_case \<Rightarrow> bool" where
  "case_differs env Mismatch = True"
| "case_differs env (Primitive b) = (\<not> b)"
| "case_differs env (Nested e a) = nested_differs env e a"
| "case_differs env k = False"

lemma mismatch_iff:
  "mismatch env ignore exp act \<longleftrightarrow> (\<exists>k. visits env ignore exp act k \<and> case_differs env k)"
proof
  assume "mismatch env ignore exp act"
  then show "\<exists>k. visits env ignore exp act k \<and> case_differs env k"
  proof cases
    case (nested e a)
    then have "case_differs env (Nested e a)" by (simp add: nested_differs_def)
    with nested show ?thesis by blast
  next
    case (at_index e a as' es' i)
    then have "case_differs env (Nested e a)" by (auto simp: nested_differs_def)
    with at_index show ?thesis by blast
  qed (auto intro: exI [of _ Mismatch] exI [of _ "Primitive False"])
next
  assume "\<exists>k. visits env ignore exp act k \<and> case_differs env k"
  then obtain k where "visits env ignore exp act k" and "case_differs env k" by blast
  then show "mismatch env ignore exp act"
    by (cases k) (auto simp: nested_differs_def intro: mismatch.intros split: if_splits)
qed

lemma mismatch_at_class:
  assumes "truthy act" and "elm_class exp = Inr c" and "ds_classes env (getClassName c) = Some cls"
  shows "mismatch env ignore exp act \<longleftrightarrow>
    (\<exists>attr \<in> set (dict_keys (members_of cls)).
       case_differs env (attr_case env (ignore_list ignore) (members_of cls) exp act attr))"
  using assms by (auto simp: mismatch_iff visits_def)

lemma ex_less_Suc_pair:
  "(\<exists>i. i < Suc m \<and> i < Suc n \<and> P i) \<longleftrightarrow> P 0 \<or> (\<exists>i. i < m \<and> i < n \<and> P (Suc i))"
  by (metis Suc_less_eq less_Suc_eq_0_disj zero_less_Suc)

lemma compare_decides:
  "compareElements env ignore exp act equal = Inr b \<Longrightarrow>
     b \<longleftrightarrow> \<not> truthy act \<or> equal \<and> \<not> mismatch env ignore exp act"
  "compareAttrs env ign members exp act attrs equal = Inr b \<Longrightarrow>
     b \<longleftrightarrow> equal \<and> \<not> (\<exists>attr \<in> set attrs. case_differs env (attr_case env ign members exp act attr))"
  "comparePairs env es as equal = Inr b \<Longrightarrow>
     b \<longleftrightarrow> equal \<and> \<not> (\<exists>i. i < length es \<and> i < length as \<and> mismatch env [] (es ! i) (as ! i))"
proof (induction env ignore exp act equal and env ign members exp act attrs equal and env es as equal
    arbitrary: b and b and b rule: compareElements_compareAttrs_comparePairs.induct)
  case (1 env ignore exp act equal)
  show ?case
  proof (cases "truthy act")
    case True
    with "1.prems" obtain c cls where "elm_class exp = Inr c" "ds_classes env (getClassName c) = Some cls"
      and "compareAttrs env (ignore_list ignore) (members_of cls) exp act (dict_keys (members_of cls)) equal = Inr b"
      by (subst (asm) compareElements.simps) (auto split: sum.splits option.splits)
    with "1.IH" True show ?thesis by (simp add: mismatch_at_class)
  qed (use "1.prems" in \<open>simp add: compareElements.simps\<close>)
next
  case (3 env ign members exp act attr attrs equal)
  show ?case
  proof (cases "attr_case env ign members exp act attr")
    case (Nested e a)
    show ?thesis
    proof (cases "two_lists e a")
      case True
      with "3.prems" Nested obtain as' es' q
        where srt: "sort_elements (list_elems a) (list_elems e) = Inr (as', es')"
        and pairs: "comparePairs env es' as' equal = Inr q"
        and rest: "compareAttrs env ign members exp act attrs q = Inr b"
        by (auto simp: compareAttrs.simps(2) split: sum.splits prod.splits)
      have "q \<longleftrightarrow> equal \<and> \<not> nested_differs env e a"
        using 3 Nested True srt pairs by (simp add: nested_differs_def)
      moreover have "b \<longleftrightarrow> q \<and> \<not> (\<exists>attr \<in> set attrs. case_differs env (attr_case env ign members exp act attr))"
        using 3 Nested True srt pairs rest by simp
      ultimately show ?thesis using Nested by auto
    next
      case False
      with "3.prems" Nested obtain q where single: "compareElements env [] e a equal = Inr q"
        and rest: "compareAttrs env ign members exp act attrs (if q then equal else False) = Inr b"
        by (auto simp: compareAttrs.simps(2) split: sum.splits)
      have "q \<longleftrightarrow> \<not> truthy a \<or> equal \<and> \<not> mismatch env [] e a"
        using 3 Nested False single by simp
      moreover have "b \<longleftrightarrow> (if q then equal else False) \<and>
          \<not> (\<exists>attr \<in> set attrs. case_differs env (attr_case env ign members exp act attr))"
        using 3 Nested False single rest by simp
      ultimately show ?thesis
        using Nested False by (auto simp: nested_differs_def mismatch_truthy)
    qed
  qed (use 3 in \<open>auto simp: compareAttrs.simps(2) split: if_splits\<close>)
next
  case (6 env e es a as equal)
  from "6.prems" obtain q where single: "compareElements env [] e a equal = Inr q"
    and rest: "comparePairs env es as (if q then equal else False) = Inr b"
    by (auto split: sum.splits)
  have "q \<longleftrightarrow> \<not> truthy a \<or> equal \<and> \<not> mismatch env [] e a"
    using 6 single by simp
  moreover have "b \<longleftrightarrow> (if q then equal else False) \<and>
      \<not> (\<exists>i. i < length es \<and> i < length as \<and> mismatch env [] (es ! i) (as ! i))"
    using 6 single rest by simp
  ultimately show ?case
    unfolding list.size(4) add_Suc_right add_0_right ex_less_Suc_pair by (auto simp: mismatch_truthy)
qed auto

text \<open>
  C2. The verdict is exact: when a comparison of a present actual element returns at all,
  it returns False exactly if a compared attribute differs at some depth (a member
  missing from a non-collection, a primitive with another text, a nested element or an
  element at one index of the two sorted lists that differs).
\<close>

theorem compareElements_iff_mismatch:
  assumes "compareElements env ignore expElm actElm True = Inr b" and "truthy actElm"
  shows "b \<longleftrightarrow> \<not> mismatch env ignore expElm actElm"
  using compare_decides(1) [OF assms(1)] assms(2) by simp

text \<open>
  A comparison cannot repair an earlier mismatch: run with the flag already False on
  a present element it returns False, if it returns.
\<close>

theorem compareElements_flag_sticks:
  assumes "compareElements env ignore expElm actElm False = Inr b" and "truthy actElm"
  shows "\<not> b"
  using compare_decides(1) [OF assms(1)] assms(2) by simp

section \<open>XPath matching\<close>

text \<open>
  The HTTP request with the XPath evaluation and \<open>eval\<close> of the caller's expression are
  parameters. A link is a path, the word \<open>api\<close>, or a key of the link table.
\<close>

definition link_href :: "(string \<Rightarrow> string option) \<Rightarrow> string \<Rightarrow> exn + string" where
  "link_href links link =
     (if startswith link ''/'' then Inr link
      else if link = ''api'' then Inr []
      else case links link of None \<Rightarrow> Inl KeyError | Some href \<Rightarrow> Inr href)"

definition XPathMatch ::
  "(string \<Rightarrow> string \<Rightarrow> ('w, pyval) comp) \<Rightarrow> (string \<Rightarrow> string option) \<Rightarrow> string \<Rightarrow> string \<Rightarrow> string \<Rightarrow>
   (pyval \<Rightarrow> exn + pyval) \<Rightarrow> ('w, bool) comp" where
  "XPathMatch get_and_xpath_eval links positive link xpath rslt_eval =
     bindE (lift_res (link_href links link)) (\<lambda>href.
     bindE (get_and_xpath_eval href xpath) (\<lambda>matching_nodes.
     bindE (lift_res (rslt_eval matching_nodes)) (\<lambda>v.
     ret (py_eq (PBool (lower positive = ''true'')) v))))"

definition XPathLinks ::
  "(string \<Rightarrow> string \<Rightarrow> ('w, pyval) comp) \<Rightarrow> (string \<Rightarrow> string \<Rightarrow> ('w, pyval) comp) \<Rightarrow>
   (pyval \<Rightarrow> string \<Rightarrow> exn + string) \<Rightarrow> (string \<Rightarrow> string option) \<Rightarrow> string \<Rightarrow> string \<Rightarrow> string \<Rightarrow> string \<Rightarrow> string \<Rightarrow>
   (pyval \<Rightarrow> exn + pyval) \<Rightarrow> ('w, bool) comp" where
  "XPathLinks get_and_xpath_eval find_entity link_attr links entity_type positive entity link_name xpath rslt_eval =
     bindE (lift_res (case links entity_type of None \<Rightarrow> Inl KeyError | Some l \<Rightarrow> Inr l)) (\<lambda>l.
     bindE (find_entity l entity) (\<lambda>entityObj.
     bindE (lift_res (link_attr entityObj link_name)) (\<lambda>href.
     XPathMatch get_and_xpath_eval links positive href xpath rslt_eval)))"

lemma keeps_XPathMatch [keeps_intros]:
  assumes "\<And>href x. keeps g (get_eval href x)"
  shows "keeps g (XPathMatch get_eval links positive link xpath rslt_eval)"
  unfolding XPathMatch_def by (intro keeps_intros assms)

section \<open>Witnesses\<close>

definition named :: "string \<Rightarrow> pyval" where
  "named n = PObj ''Nic'' [(''name'', PStr n)]"

lemma demo_sort:
  "sort_elements [named ''c'', named ''a'', named ''b''] [named ''b'', named ''a''] =
      Inr ([named ''a'', named ''b'', named ''c''], [named ''a'', named ''b''])"
  by code_simp

theorem sort_elements_aligned_witness:
  "attr_val ''name'' ([named ''a'', named ''b''] ! 1) = attr_val ''name'' ([named ''a'', named ''b'', named ''c''] ! 1)"
proof (rule sort_elements_aligned [OF demo_sort, of "''name''"])
  show "List.find (\<lambda>a. present (hd [named ''b'', named ''a'']) a \<and>
      present (hd [named ''c'', named ''a'', named ''b'']) a) SORT_ATTRS = Some ''name''"
    by code_simp
qed (simp_all add: named_def str_keys_def attr_val_def)

definition nic_class :: ds_class where
  "nic_class = DsClass ''Nic'' [(''name'', \<lparr>data_type = ''xs:string'', container = False\<rparr>)] None"

definition vm_class :: ds_class where
  "vm_class = DsClass ''VM''
     [(''nics'', \<lparr>data_type = ''Nics'', container = True\<rparr>),
      (''delete_protected'', \<lparr>data_type = ''xs:boolean'', container = False\<rparr>)] (Some nic_class)"

definition demo_env :: cmp_env where
  "demo_env = \<lparr>ds_classes = (\<lambda>n. if n = ''VM'' then Some vm_class else if n = ''Nic'' then Some nic_class else None),
     java_sdk_mode = False\<rparr>"

definition demo_vm :: "string list \<Rightarrow> pyval \<Rightarrow> pyval" where
  "demo_vm nics prot =
     PObj ''VM'' [(''name'', PStr ''vm1''), (''nics'', PList (map named nics)), (''delete_protected'', prot)]"

lemma demo_compare:
  "compareElements demo_env [] (demo_vm [''b'', ''a''] (PStr ''True'')) (demo_vm [''a'', ''b'', ''c''] (PBool True)) True = Inr True"
  "compareElements demo_env [] (demo_vm [''b'', ''x''] (PStr ''True'')) (demo_vm [''a'', ''b'', ''c''] (PBool True)) True = Inr False"
  by code_simp+

theorem compareElements_iff_mismatch_witness:
  "\<not> mismatch demo_env [] (demo_vm [''b'', ''a''] (PStr ''True'')) (demo_vm [''a'', ''b'', ''c''] (PBool True)) \<and>
   mismatch demo_env [] (demo_vm [''b'', ''x''] (PStr ''True'')) (demo_vm [''a'', ''b'', ''c''] (PBool True))"
  using compareElements_iff_mismatch [OF demo_compare(1)] compareElements_iff_mismatch [OF demo_compare(2)]
  by (simp add: demo_vm_def)

lemma demo_flag:
  "compareElements demo_env [] (demo_vm [] PNone) (demo_vm [] PNone) False = Inr False"
  by code_simp

theorem compareElements_flag_sticks_witness:
  "\<exists>b. compareElements demo_env [] (demo_vm [] PNone) (demo_vm [] PNone) False = Inr b \<and> \<not> b"
proof (intro exI conjI)
  show "compareElements demo_env [] (demo_vm [] PNone) (demo_vm [] PNone) False = Inr False"
    by (rule demo_flag)
  show "\<not> False" by (rule compareElements_flag_sticks [OF demo_flag]) (simp add: demo_vm_def)
qed

end
