(* ===== verification/Http.thy ===== *)
theory Http
  imports Pyval
begin

text \<open>
  \<open>art/core_api/http.py\<close>: the HTTP proxy that all engine requests go through. Its state
  is the shared options, the session cookie with the user it belongs to, and the runtime
  headers. The server is a parameter: it takes a request and answers or raises. The bodies
  of answers are decoded by a parameter, \<open>decode\<close>, the codecs of the Python library.
\<close>

section \<open>State\<close>

record rest_connection =
  conn_uri :: string
  conn_user :: "string option"
  user_domain :: "string option"
  password :: "string option"

record http_opts =
  REST_CONNECTION :: rest_connection
  media_type :: string
  standalone :: bool
  HTTP_HEADERS :: "(string, string) dict option"

record http_request =
  req_method :: string
  req_url :: string
  req_body :: "string option"
  req_headers :: "(string, string) dict"

record http_response =
  resp_status :: int
  resp_reason :: string
  resp_headers :: "(string, string) dict"
  resp_data :: string

text \<open>What a request returns to the callers: the dictionary \<open>ret\<close> with its optional keys.\<close>

record api_ret =
  ret_status :: int
  ret_body :: string
  ret_reason :: "string option"
  ret_header :: "string option"

record 'w http_st =
  opts :: http_opts
  cookie :: "string option"
  last_active_user :: "string option"
  headers :: "(string, string) dict"
  server :: 'w

text \<open>\<open>HTTPProxy(opts)\<close>: no session yet, and a copy of the configured headers.\<close>

definition HTTPProxy :: "http_opts \<Rightarrow> 'w \<Rightarrow> 'w http_st" where
  "HTTPProxy os w =
     \<lparr>opts = os, cookie = None, last_active_user = None,
      headers = (case HTTP_HEADERS os of None \<Rightarrow> [] | Some hs \<Rightarrow> hs), server = w\<rparr>"

section \<open>Reading answers\<close>

text \<open>Header names are compared without case.\<close>

definition getheader :: "http_response \<Rightarrow> string \<Rightarrow> string option" where
  "getheader resp name = map_of (map (\<lambda>(k, v). (lower k, v)) (resp_headers resp)) (lower name)"

text \<open>
  \<open>cgi.parse_header\<close>: a value and its parameters, separated by semicolons outside quoted
  strings; \<open>quoted\<close> says whether the scan is inside one.
\<close>

function header_parts :: "string \<Rightarrow> bool \<Rightarrow> string \<Rightarrow> string list" where
  "header_parts acc quoted [] = [strip (rev acc)]"
| "header_parts acc quoted (c # s) =
     (if c = CHR 0x5C \<and> startswith s [CHR 0x22] then header_parts (CHR 0x22 # c # acc) quoted (tl s)
      else if c = CHR '';'' \<and> \<not> quoted then strip (rev acc) # header_parts [] False s
      else header_parts (c # acc) (if c = CHR 0x22 then \<not> quoted else quoted) s)"
  by pat_completeness auto
termination
  by (relation "measure (\<lambda>(acc, quoted, s). length s)") auto

definition header_unquote :: "string \<Rightarrow> string" where
  "header_unquote v =
     (if 2 \<le> length v \<and> hd v = CHR 0x22 \<and> last v = CHR 0x22
      then replace (replace (slice v 1 (-1)) [CHR 0x5C, CHR 0x5C] [CHR 0x5C]) [CHR 0x5C, CHR 0x22] [CHR 0x22]
      else v)"

definition header_param :: "(string, string) dict \<Rightarrow> string \<Rightarrow> (string, string) dict" where
  "header_param d p =
     (let i = str_find p ''='' in
      if 0 \<le> i then dict_set d (lower (strip (slice_to p i))) (header_unquote (strip (slice_from p (i + 1))))
      else d)"

definition parse_header :: "string \<Rightarrow> string \<times> (string, string) dict" where
  "parse_header s =
     (let parts = header_parts [] False s in (hd parts, foldl header_param [] (tl parts)))"

definition encoding_from_headers :: "http_response \<Rightarrow> string option" where
  "encoding_from_headers resp =
     (case getheader resp ''Content-Type'' of
        None \<Rightarrow> None
      | Some ct \<Rightarrow>
          if ct = [] then None
          else map_option (\<lambda>cs. strip_chars cs [CHR 0x27, CHR 0x22]) (map_of (snd (parse_header ct)) ''charset''))"

text \<open>
  \<open>re.sub(r'^\\s*<\\?xml\\s+.*?\\?>', '', body)\<close>: \<open>close_decl\<close> is the rest after the first
  \<open>?>\<close> of the line.
\<close>

fun close_decl :: "string \<Rightarrow> string option" where
  "close_decl [] = None"
| "close_decl (c # s) =
     (if startswith (c # s) ''?>'' then Some (drop 1 s)
      else if c = CHR 0x0A then None else close_decl s)"

definition strip_xml_declaration :: "string \<Rightarrow> string" where
  "strip_xml_declaration b =
     (let s = lstrip b; t = drop 5 s in
      if startswith s ''<?xml'' \<and> t \<noteq> [] \<and> is_space (hd t)
      then (case close_decl (lstrip t) of None \<Rightarrow> b | Some rest \<Rightarrow> rest)
      else b)"

section \<open>Credentials\<close>

text \<open>\<open>base64.encodestring\<close>: 57 bytes a line, every line ended by a newline.\<close>

definition b64_alphabet :: string where
  "b64_alphabet = ''ABCDEFGHIJKLMNOPQRSTUVWXYZabcdefghijklmnopqrstuvwxyz0123456789+/''"

definition b64_char :: "nat \<Rightarrow> char" where
  "b64_char i = b64_alphabet ! i"

fun b64_bytes :: "nat list \<Rightarrow> string" where
  "b64_bytes [] = []"
| "b64_bytes [a] = [b64_char (a div 4), b64_char ((a mod 4) * 16), CHR ''='', CHR ''='']"
| "b64_bytes [a, b] =
     [b64_char (a div 4), b64_char ((a mod 4) * 16 + b div 16), b64_char ((b mod 16) * 4), CHR ''='']"
| "b64_bytes (a # b # c # r) =
     b64_char (a div 4) # b64_char ((a mod 4) * 16 + b div 16) #
     b64_char ((b mod 16) * 4 + c div 64) # b64_char (c mod 64) # b64_bytes r"

function b64_encodestring :: "string \<Rightarrow> string" where
  "b64_encodestring s =
     (if s = [] then []
      else b64_bytes (map of_char (take 57 s)) @ [CHR 0x0A] @ b64_encodestring (drop 57 s))"
  by pat_completeness auto
termination
  by (relation "measure length") auto

declare b64_encodestring.simps [simp del]

definition str_opt :: "string option \<Rightarrow> string" where
  "str_opt v = (case v of None \<Rightarrow> ''None'' | Some s \<Rightarrow> s)"

definition truthy_opt :: "string option \<Rightarrow> bool" where
  "truthy_opt v \<longleftrightarrow> (case v of None \<Rightarrow> False | Some s \<Rightarrow> s \<noteq> [])"

definition auth_user :: "rest_connection \<Rightarrow> string" where
  "auth_user c =
     str_opt (conn_user c) @ (if truthy_opt (user_domain c) then ''@'' @ str_opt (user_domain c) else [])"

definition basic_auth :: "rest_connection \<Rightarrow> string" where
  "basic_auth c =
     (let credentials = slice_to (b64_encodestring (auth_user c @ '':'' @ str_opt (password c))) (-1)
      in ''Basic '' @ replace credentials [CHR 0x0A] [])"

definition get_user :: "rest_connection \<Rightarrow> string" where
  "get_user c = str_opt (conn_user c) @ ''@'' @ str_opt (user_domain c)"

definition basic_headers :: "'w http_st \<Rightarrow> exn + (string, string) dict" where
  "basic_headers st =
     (let c = REST_CONNECTION (opts st); hs = headers st in
      if truthy_opt (conn_user c) \<and> truthy_opt (password c) then
        (let hs1 = (if truthy_opt (cookie st) \<and> last_active_user st = Some (get_user c)
                    then dict_set hs ''Cookie'' (str_opt (cookie st))
                    else dict_set hs ''Authorization'' (basic_auth c)) in
         if hs \<noteq> [] then
           (case HTTP_HEADERS (opts st) of None \<Rightarrow> Inl KeyError | Some cfg \<Rightarrow> Inr (dict_update hs1 cfg))
         else Inr hs1)
      else Inr hs)"

section \<open>Requests\<close>

type_synonym 'w server_fun = "http_request \<Rightarrow> ('w, http_response) comp"
type_synonym codec = "string \<Rightarrow> string \<Rightarrow> exn + string"

definition run_server :: "'w server_fun \<Rightarrow> http_request \<Rightarrow> ('w http_st, http_response) comp" where
  "run_server srv rq st = (case srv rq (server st) of (r, w) \<Rightarrow> (r, st\<lparr>server := w\<rparr>))"

definition note_session :: "http_response \<Rightarrow> 'w http_st \<Rightarrow> 'w http_st" where
  "note_session resp st =
     st\<lparr>cookie := getheader resp ''Set-Cookie'',
        last_active_user := Some (get_user (REST_CONNECTION (opts st)))\<rparr>"

text \<open>
  One exchange: the request with its headers, the decoded body, and the session when
  credentials were sent. What \<open>__do_request\<close> does up to its test for a 401.
\<close>

definition exchange ::
  "'w server_fun \<Rightarrow> codec \<Rightarrow> string \<Rightarrow> string \<Rightarrow> string option \<Rightarrow> ('w http_st, http_response \<times> string) comp" where
  "exchange srv decode method url body =
     bindE (\<lambda>st. (basic_headers st, st)) (\<lambda>hs.
     bindE (gets opts) (\<lambda>os.
     (let hs' = (if truthy_opt body then dict_set hs ''Content-type'' (media_type os) else hs) in
     bindE (run_server srv \<lparr>req_method = method, req_url = url, req_body = body, req_headers = hs'\<rparr>) (\<lambda>resp.
     (let charset = encoding_from_headers resp;
          cs = (if truthy_opt charset then str_opt charset else ''utf-8'') in
     bindE (lift_res (decode cs (resp_data resp))) (\<lambda>text.
     bindE (if truthy_opt (map_of hs' ''Authorization'') then modify (note_session resp) else ret ()) (\<lambda>_.
     ret (resp, strip_xml_declaration text))))))))"

definition make_ret :: "http_response \<Rightarrow> string \<Rightarrow> string option \<Rightarrow> api_ret" where
  "make_ret resp body get_header =
     \<lparr>ret_status = resp_status resp, ret_body = body,
      ret_reason = (if 300 \<le> resp_status resp then Some (resp_reason resp) else None),
      ret_header = (case get_header of
         None \<Rightarrow> None | Some h \<Rightarrow> if h = [] then None else getheader resp h)\<rparr>"

text \<open>
  \<open>__do_request\<close> with \<open>repeat=False\<close> never asks again; \<open>connect\<close> uses it so, and with
  \<open>repeat=True\<close> a 401 to a proxy that holds a cookie connects and asks once more.
\<close>

definition do_request_once ::
  "'w server_fun \<Rightarrow> codec \<Rightarrow> string \<Rightarrow> string \<Rightarrow> string option \<Rightarrow> string option \<Rightarrow> ('w http_st, api_ret) comp" where
  "do_request_once srv decode method url body get_header =
     bindE (exchange srv decode method url body) (\<lambda>(resp, text). ret (make_ret resp text get_header))"

definition connect :: "'w server_fun \<Rightarrow> codec \<Rightarrow> ('w http_st, unit) comp" where
  "connect srv decode =
     bindE (gets opts) (\<lambda>os.
     bindE (do_request_once srv decode ''HEAD'' (conn_uri (REST_CONNECTION os)) None (Some ''Set-Cookie'')) (\<lambda>r.
     modify (\<lambda>st. st\<lparr>cookie := ret_header r,
        last_active_user := Some (get_user (REST_CONNECTION (opts st)))\<rparr>)))"

definition do_request ::
  "'w server_fun \<Rightarrow> codec \<Rightarrow> string \<Rightarrow> string \<Rightarrow> string option \<Rightarrow> string option \<Rightarrow> ('w http_st, api_ret) comp" where
  "do_request srv decode method url body get_header =
     bindE (exchange srv decode method url body) (\<lambda>(resp, text).
     bindE (gets cookie) (\<lambda>c.
     if resp_status resp = 401 \<and> truthy_opt c then
       bindE (connect srv decode) (\<lambda>_. do_request_once srv decode method url body get_header)
     else ret (make_ret resp text get_header)))"

definition http_GET :: "'w server_fun \<Rightarrow> codec \<Rightarrow> string \<Rightarrow> ('w http_st, api_ret) comp" where
  "http_GET srv decode url = do_request srv decode ''GET'' url None None"

definition http_POST :: "'w server_fun \<Rightarrow> codec \<Rightarrow> string \<Rightarrow> string \<Rightarrow> ('w http_st, api_ret) comp" where
  "http_POST srv decode url body = do_request srv decode ''POST'' url (Some body) None"

definition http_PUT :: "'w server_fun \<Rightarrow> codec \<Rightarrow> string \<Rightarrow> string \<Rightarrow> ('w http_st, api_ret) comp" where
  "http_PUT srv decode url body = do_request srv decode ''PUT'' url (Some body) None"

definition http_DELETE :: "'w server_fun \<Rightarrow> codec \<Rightarrow> string \<Rightarrow> string option \<Rightarrow> ('w http_st, api_ret) comp" where
  "http_DELETE srv decode url body = do_request srv decode ''DELETE'' url body None"

section \<open>The table of links\<close>

definition parse_link :: "string \<Rightarrow> (string, string) dict \<Rightarrow> (string, string) dict" where
  "parse_link s links =
     (let url = slice s (str_find s ''<'' + 1) (str_find s ''>'');
          s1 = slice_from s (str_find s '';'' + 1);
          rel = slice_from s1 (str_find s1 ''rel='' + 4);
          rel1 = (if str_find rel '';'' \<noteq> -1 then slice_to rel (str_find s1 '';'') else rel)
      in dict_set links rel1 url)"

definition HEAD_for_links :: "'w server_fun \<Rightarrow> codec \<Rightarrow> ('w http_st, (string, string) dict) comp" where
  "HEAD_for_links srv decode =
     bindE (gets opts) (\<lambda>os.
     let uri = conn_uri (REST_CONNECTION os) in
     if standalone os then ret []
     else
       bindE (do_request srv decode ''HEAD'' uri None (Some ''link'')) (\<lambda>r.
       if 300 \<le> ret_status r then raise APIException
       else (case ret_header r of
           None \<Rightarrow> raise AttributeError
         | Some h \<Rightarrow>
             ret (dict_set (fold parse_link (split_on h '','') []) ''capabilities'' (uri @ ''capabilities'')))))"

section \<open>What requests leave alone\<close>

text \<open>No request changes the options or the runtime headers.\<close>

definition settings_of :: "'w http_st \<Rightarrow> http_opts \<times> (string, string) dict" where
  "settings_of st = (opts st, headers st)"

lemma settings_of_simps [simp]:
  "settings_of (st\<lparr>server := w\<rparr>) = settings_of st"
  "settings_of (st\<lparr>cookie := c\<rparr>) = settings_of st"
  "settings_of (st\<lparr>last_active_user := u\<rparr>) = settings_of st"
  by (simp_all add: settings_of_def)

lemma keeps_run_server [keeps_intros]: "keeps settings_of (run_server srv rq)"
  by (rule keepsI) (simp add: run_server_def split: prod.split)

lemma keeps_note_session [keeps_intros]: "keeps settings_of (modify (note_session resp))"
  by (rule keepsI) (simp add: modify_def note_session_def)

lemma keeps_basic_headers [keeps_intros]: "keeps g (\<lambda>st. (basic_headers st, st))"
  by (rule keepsI) simp

lemma keeps_exchange [keeps_intros]: "keeps settings_of (exchange srv decode method url body)"
  unfolding exchange_def Let_def by (intro keeps_intros)

lemma keeps_do_request_once [keeps_intros]:
  "keeps settings_of (do_request_once srv decode method url body h)"
  unfolding do_request_once_def by (intro keeps_intros) (auto intro: keeps_intros split: prod.split)

lemma keeps_connect [keeps_intros]: "keeps settings_of (connect srv decode)"
  unfolding connect_def by (intro keeps_intros) (simp add: keeps_def modify_def)

lemma keeps_do_request [keeps_intros]: "keeps settings_of (do_request srv decode method url body h)"
  unfolding do_request_def by (intro keeps_intros) (auto intro!: keeps_intros split: prod.split)

section \<open>A header for the time of a call\<close>

text \<open>
  The callers set a header, run a request and remove the header in a \<open>finally\<close>.
  \<open>dict.pop\<close> of a missing key raises. The interface they rely on: a request does not
  touch the runtime headers.
\<close>

definition with_header ::
  "('s \<Rightarrow> (string, string) dict) \<Rightarrow> (((string, string) dict \<Rightarrow> (string, string) dict) \<Rightarrow> 's \<Rightarrow> 's) \<Rightarrow>
   string \<Rightarrow> string \<Rightarrow> ('s, 'a) comp \<Rightarrow> ('s, 'a) comp" where
  "with_header get upd n v m = (\<lambda>s.
     case m (upd (\<lambda>hs. dict_set hs n v) s) of
       (r, s') \<Rightarrow>
         if n \<in> set (dict_keys (get s')) then (r, upd (\<lambda>hs. dict_del hs n) s')
         else (Inl KeyError, s'))"

locale header_api =
  fixes request :: "'q \<Rightarrow> ('s, 'r) comp"
    and get :: "'s \<Rightarrow> (string, string) dict"
    and upd :: "((string, string) dict \<Rightarrow> (string, string) dict) \<Rightarrow> 's \<Rightarrow> 's"
  assumes request_keeps: "keeps get (request q)"
    and get_upd: "get (upd f s) = f (get s)"
begin

lemma with_header_run:
  assumes "keeps get m"
  shows "with_header get upd n v m s =
    (case m (upd (\<lambda>hs. dict_set hs n v) s) of (r, s') \<Rightarrow> (r, upd (\<lambda>hs. dict_del hs n) s'))"
proof -
  obtain r s' where m: "m (upd (\<lambda>hs. dict_set hs n v) s) = (r, s')" by fastforce
  then have "get s' = dict_set (get s) n v"
    using keepsD [OF assms m] by (simp add: get_upd)
  then show ?thesis using m by (simp add: with_header_def)
qed

lemma with_header_headers:
  assumes "keeps get m"
  shows "map_of (get (snd (with_header get upd n v m s))) = (map_of (get s))(n := None)"
proof -
  obtain r s' where m: "m (upd (\<lambda>hs. dict_set hs n v) s) = (r, s')" by fastforce
  then show ?thesis
    using keepsD [OF assms m] by (simp add: with_header_run [OF assms] get_upd)
qed

lemma with_header_request:
  "with_header get upd n v (request q) s =
    (case request q (upd (\<lambda>hs. dict_set hs n v) s) of (r, s') \<Rightarrow> (r, upd (\<lambda>hs. dict_del hs n) s'))"
  by (rule with_header_run) (rule request_keeps)

lemma request_headers: "request q s = (r, s') \<Longrightarrow> get s' = get s"
  by (rule keepsD [OF request_keeps])

end

text \<open>The proxy is such an interface: a request is a method, a URL and a body.\<close>

definition run_request ::
  "'w server_fun \<Rightarrow> codec \<Rightarrow> string \<times> string \<times> string option \<Rightarrow> ('w http_st, api_ret) comp" where
  "run_request srv decode q = (case q of (method, url, body) \<Rightarrow> do_request srv decode method url body None)"

lemma keeps_headers: "keeps settings_of m \<Longrightarrow> keeps headers m"
  by (simp add: keeps_def settings_of_def)

interpretation proxy: header_api "run_request srv decode" headers headers_update for srv decode
proof unfold_locales
  show "keeps headers (run_request srv decode q)" for q
    by (simp add: run_request_def keeps_do_request keeps_headers split: prod.split)
qed simp

section \<open>How many requests\<close>

text \<open>A ghost reading \<open>cnt\<close> of the server's world that counts the requests it got.\<close>

definition counts_requests :: "'w server_fun \<Rightarrow> ('w \<Rightarrow> nat) \<Rightarrow> bool" where
  "counts_requests srv cnt \<longleftrightarrow> (\<forall>rq w. cnt (snd (srv rq w)) = cnt w + 1)"

definition adds_at_most :: "('s \<Rightarrow> nat) \<Rightarrow> nat \<Rightarrow> ('s, 'a) comp \<Rightarrow> bool" where
  "adds_at_most cnt n m \<longleftrightarrow> (\<forall>st. cnt (snd (m st)) \<le> cnt st + n)"

lemma adds_at_most_keeps: "keeps cnt m \<Longrightarrow> adds_at_most cnt 0 m"
  by (simp add: keeps_def adds_at_most_def)

lemma adds_at_most_bindE:
  assumes "adds_at_most cnt n m" and "\<And>x. adds_at_most cnt k (f x)"
  shows "adds_at_most cnt (n + k) (bindE m f)"
  unfolding adds_at_most_def
proof
  fix st
  obtain r st1 where m: "m st = (r, st1)" by fastforce
  with assms(1) have m1: "cnt st1 \<le> cnt st + n" unfolding adds_at_most_def by (metis snd_conv)
  show "cnt (snd (bindE m f st)) \<le> cnt st + (n + k)"
  proof (cases r)
    case (Inr x)
    have "cnt (snd (f x st1)) \<le> cnt st1 + k" using assms(2) by (simp add: adds_at_most_def)
    with m m1 Inr show ?thesis by (simp add: bindE_def)
  qed (use m m1 in \<open>simp add: bindE_def\<close>)
qed

lemma adds_at_most_mono: "adds_at_most cnt n m \<Longrightarrow> n \<le> k \<Longrightarrow> adds_at_most cnt k m"
  unfolding adds_at_most_def by (meson add_left_mono order_trans)

lemma adds_at_most_simps:
  "adds_at_most cnt 0 (ret x)" "adds_at_most cnt 0 (raise e)" "adds_at_most cnt 0 (lift_res r)"
  "adds_at_most cnt 0 (gets f)" "adds_at_most cnt 0 (\<lambda>st. (g st, st))"
  by (simp_all add: adds_at_most_def comp_simps)

lemma exchange_adds:
  assumes "counts_requests srv cnt"
  shows "adds_at_most (\<lambda>st. cnt (server st)) 1 (exchange srv decode method url body)"
proof -
  let ?cnt = "\<lambda>st. cnt (server st)"
  have "adds_at_most ?cnt 1 (run_server srv rq)" for rq
  proof (unfold adds_at_most_def, intro allI)
    fix st
    show "cnt (server (snd (run_server srv rq st))) \<le> cnt (server st) + 1"
    proof (cases "srv rq (server st)")
      case (Pair r w)
      with assms have "cnt w = cnt (server st) + 1" unfolding counts_requests_def by (metis snd_conv)
      with Pair show ?thesis by (simp add: run_server_def)
    qed
  qed
  note one = this
  have zero: "adds_at_most ?cnt 0 (if b then modify (note_session resp) else ret ())" for b resp
    by (simp add: adds_at_most_def comp_simps note_session_def)
  have "adds_at_most ?cnt (0 + (0 + (1 + (0 + (0 + 0))))) (exchange srv decode method url body)"
    unfolding exchange_def Let_def by (intro adds_at_most_bindE one zero adds_at_most_simps)
  then show ?thesis by simp
qed

lemma do_request_once_adds:
  assumes "counts_requests srv cnt"
  shows "adds_at_most (\<lambda>st. cnt (server st)) 1 (do_request_once srv decode method url body h)"
proof -
  have "adds_at_most (\<lambda>st. cnt (server st)) (1 + 0) (do_request_once srv decode method url body h)"
    unfolding do_request_once_def
    by (intro adds_at_most_bindE exchange_adds [OF assms]) (auto split: prod.split intro: adds_at_most_simps)
  then show ?thesis by simp
qed

lemma connect_adds:
  assumes "counts_requests srv cnt"
  shows "adds_at_most (\<lambda>st. cnt (server st)) 1 (connect srv decode)"
proof -
  have "adds_at_most (\<lambda>st. cnt (server st)) (0 + (1 + 0)) (connect srv decode)"
    unfolding connect_def
    by (intro adds_at_most_bindE do_request_once_adds [OF assms] adds_at_most_simps)
      (simp add: adds_at_most_def modify_def)
  then show ?thesis by simp
qed

lemma do_request_adds:
  assumes "counts_requests srv cnt"
  shows "adds_at_most (\<lambda>st. cnt (server st)) 3 (do_request srv decode method url body get_header)"
proof -
  let ?cnt = "\<lambda>st. cnt (server st)"
  note retry = adds_at_most_bindE [OF connect_adds [OF assms] do_request_once_adds [OF assms]]
  have "adds_at_most ?cnt 2 (if b then bindE (connect srv decode) (\<lambda>_. do_request_once srv decode method url body get_header)
      else ret x)" for b x
    using retry by (auto simp: numeral_2_eq_2 intro: adds_at_most_mono [OF adds_at_most_simps(1)])
  then have "adds_at_most ?cnt (1 + (0 + 2)) (do_request srv decode method url body get_header)"
    unfolding do_request_def
    by (intro adds_at_most_bindE exchange_adds [OF assms])
      (auto split: prod.split intro!: adds_at_most_bindE [of _ 0 _ 2, simplified] adds_at_most_simps)
  then show ?thesis by (simp add: eval_nat_numeral)
qed

text \<open>
  One call of the proxy sends at most three requests (the call, one HEAD to connect
  again, the call once more), whatever the server answers: an engine that keeps refusing
  the session is never asked for ever.
\<close>

theorem do_request_bounded:
  assumes "counts_requests srv cnt"
  shows "cnt (server (snd (do_request srv decode method url body get_header st))) \<le> cnt (server st) + 3"
  using do_request_adds [OF assms] unfolding adds_at_most_def by blast

section \<open>Sessions are not shared between users\<close>

text \<open>
  \<open>issued c u\<close>: the server made cookie \<open>c\<close> for user \<open>u\<close>. What is expected of the server:
  it sets cookies only for the user who authenticates, by credentials or by a cookie of
  his. \<open>log_server\<close> records the requests.
\<close>

definition session_server :: "'w server_fun \<Rightarrow> (string \<Rightarrow> string \<Rightarrow> bool) \<Rightarrow> rest_connection \<Rightarrow> bool" where
  "session_server srv issued c \<longleftrightarrow>
     (\<forall>rq w resp w' ck. srv rq w = (Inr resp, w') \<longrightarrow> getheader resp ''Set-Cookie'' = Some ck \<longrightarrow> ck \<noteq> [] \<longrightarrow>
        (map_of (req_headers rq) ''Authorization'' = Some (basic_auth c) \<or>
         (\<exists>old. map_of (req_headers rq) ''Cookie'' = Some old \<and> issued old (get_user c))) \<longrightarrow>
        issued ck (get_user c))"

definition log_server :: "'w server_fun \<Rightarrow> ('w \<times> http_request list) server_fun" where
  "log_server srv rq = (\<lambda>(w, log). case srv rq w of (r, w') \<Rightarrow> (r, (w', log @ [rq])))"

definition session_ok :: "(string \<Rightarrow> string \<Rightarrow> bool) \<Rightarrow> 'w http_st \<Rightarrow> bool" where
  "session_ok issued st \<longleftrightarrow>
     (\<forall>u. truthy_opt (cookie st) \<and> last_active_user st = Some u \<longrightarrow> issued (str_opt (cookie st)) u)"

definition cookies_of_user :: "(string \<Rightarrow> string \<Rightarrow> bool) \<Rightarrow> string \<Rightarrow> http_request list \<Rightarrow> bool" where
  "cookies_of_user issued u log \<longleftrightarrow>
     (\<forall>rq \<in> set log. \<forall>ck. map_of (req_headers rq) ''Cookie'' = Some ck \<longrightarrow> issued ck u)"

text \<open>Credentials are configured, and no configured or runtime header replaces the session's.\<close>

definition plain_settings :: "'w http_st \<Rightarrow> bool" where
  "plain_settings st \<longleftrightarrow>
     (let c = REST_CONNECTION (opts st) in truthy_opt (conn_user c) \<and> truthy_opt (password c)) \<and>
     map_of (headers st) ''Cookie'' = None \<and> map_of (headers st) ''Authorization'' = None \<and>
     (\<exists>cfg. HTTP_HEADERS (opts st) = Some cfg \<and>
        ''Cookie'' \<notin> fst ` set cfg \<and> ''Authorization'' \<notin> fst ` set cfg)"

definition session_inv ::
  "(string \<Rightarrow> string \<Rightarrow> bool) \<Rightarrow> rest_connection \<Rightarrow> ('w \<times> http_request list) http_st \<Rightarrow> bool" where
  "session_inv issued c st \<longleftrightarrow>
     REST_CONNECTION (opts st) = c \<and> plain_settings st \<and> session_ok issued st \<and>
     cookies_of_user issued (get_user c) (snd (server st))"

lemma map_of_not_key: "k \<notin> fst ` set d \<Longrightarrow> map_of (rev d) k = None"
  by (simp add: map_of_eq_None_iff)

lemma basic_headers_session:
  assumes "session_inv issued c st" and "basic_headers st = Inr hs"
  shows "(map_of hs ''Authorization'' = Some (basic_auth c) \<and> map_of hs ''Cookie'' = None) \<or>
    (map_of hs ''Authorization'' = None \<and> (\<exists>ck. map_of hs ''Cookie'' = Some ck \<and> issued ck (get_user c)))"
proof -
  from assms(1) obtain cfg where cfg: "HTTP_HEADERS (opts st) = Some cfg"
    and none: "map_of (rev cfg) ''Cookie'' = None" "map_of (rev cfg) ''Authorization'' = None"
    by (auto simp: session_inv_def plain_settings_def map_of_not_key)
  with assms show ?thesis
    by (auto simp: session_inv_def plain_settings_def session_ok_def basic_headers_def Let_def
        map_of_dict_update map_add_def split: if_splits)
qed

lemma exchange_session:
  assumes srv: "session_server srv issued c" and inv: "session_inv issued c st"
    and ex: "exchange (log_server srv) decode method url body st = (r, st')"
  shows "session_inv issued c st' \<and>
    (\<forall>resp text ck. r = Inr (resp, text) \<longrightarrow> getheader resp ''Set-Cookie'' = Some ck \<longrightarrow> ck \<noteq> [] \<longrightarrow>
       issued ck (get_user c))"
proof (cases "basic_headers st")
  case (Inl e)
  with ex inv show ?thesis by (auto simp: exchange_def comp_simps)
next
  case (Inr hs)
  note hs = basic_headers_session [OF inv Inr]
  define hs' where "hs' = (if truthy_opt body then dict_set hs ''Content-type'' (media_type (opts st)) else hs)"
  have hs'_eq: "map_of hs' ''Cookie'' = map_of hs ''Cookie''"
    "map_of hs' ''Authorization'' = map_of hs ''Authorization''"
    by (simp_all add: hs'_def)
  let ?rq = "\<lparr>req_method = method, req_url = url, req_body = body, req_headers = hs'\<rparr>"
  obtain w log where server: "server st = (w, log)" by fastforce
  obtain a w' where answer: "srv ?rq w = (a, w')" by fastforce
  let ?st = "st\<lparr>server := (w', log @ [?rq])\<rparr>"
  have sent: "session_inv issued c ?st"
    using inv hs hs'_eq server
    by (auto simp: session_inv_def plain_settings_def session_ok_def cookies_of_user_def)
  show ?thesis
  proof (cases a)
    case (Inl e)
    with ex Inr sent server answer show ?thesis
      by (auto simp: exchange_def comp_simps run_server_def log_server_def hs'_def [symmetric] Let_def)
  next
    case (Inr resp)
    have ck: "issued ck (get_user c)" if "getheader resp ''Set-Cookie'' = Some ck" "ck \<noteq> []" for ck
      using srv answer Inr that hs hs'_eq unfolding session_server_def by fastforce
    have noted: "session_inv issued c (note_session resp ?st)"
      using sent ck
      by (auto simp: session_inv_def plain_settings_def session_ok_def note_session_def
          truthy_opt_def str_opt_def split: option.splits)
    from ex \<open>basic_headers st = Inr hs\<close> Inr sent noted ck server answer show ?thesis
      by (auto simp: exchange_def comp_simps run_server_def log_server_def hs'_def [symmetric] Let_def
          split: sum.splits if_splits)
  qed
qed

lemma once_session:
  assumes "session_server srv issued c"
  shows "preserves (session_inv issued c) (do_request_once (log_server srv) decode method url body h)"
  unfolding do_request_once_def
  by (intro preserves_intros preservesI)
    (auto dest: exchange_session [OF assms] simp: ret_def split: prod.splits)

lemma connect_session:
  assumes "session_server srv issued c"
  shows "preserves (session_inv issued c) (connect (log_server srv) decode)"
proof (rule preservesI)
  fix st r st'
  assume inv: "session_inv issued c st" and run: "connect (log_server srv) decode st = (r, st')"
  obtain r1 st1 where ex: "exchange (log_server srv) decode ''HEAD'' (conn_uri (REST_CONNECTION (opts st))) None st = (r1, st1)"
    by fastforce
  note post = exchange_session [OF assms inv ex]
  show "session_inv issued c st'"
  proof (cases r1)
    case (Inl e)
    with run ex post show ?thesis by (auto simp: connect_def do_request_once_def comp_simps)
  next
    case (Inr q)
    obtain resp b where "q = (resp, b)" by (cases q)
    with run ex post Inr show ?thesis
      by (auto simp: connect_def do_request_once_def comp_simps make_ret_def session_inv_def
          plain_settings_def session_ok_def truthy_opt_def str_opt_def split: option.splits)
  qed
qed

text \<open>
  C3. A session never serves another user. With a server that sets a cookie only for the
  user who authenticated, every \<open>Cookie\<close> header of every request of a call (the retries
  included) holds a cookie made for the user in the options at that time, and the proxy
  ends in a state from which this holds again, whoever the next user is.
\<close>

theorem cookies_belong_to_user:
  assumes "session_server srv issued c" and "REST_CONNECTION (opts st) = c" and "plain_settings st"
    and "session_ok issued st" and "server st = (w, [])"
    and "do_request (log_server srv) decode method url body h st = (r, st')"
  shows "cookies_of_user issued (get_user c) (snd (server st')) \<and> session_ok issued st'"
proof -
  have "preserves (session_inv issued c) (do_request (log_server srv) decode method url body h)"
    unfolding do_request_def
  proof (rule preserves_bindE)
    show "preserves (session_inv issued c) (exchange (log_server srv) decode method url body)"
      by (rule preservesI) (auto dest: exchange_session [OF assms(1)])
  qed (auto intro!: preserves_intros connect_session once_session assms(1) split: prod.split)
  moreover have "session_inv issued c st"
    using assms(2-5) by (simp add: session_inv_def cookies_of_user_def)
  ultimately have "session_inv issued c st'" using assms(6) by (rule preservesD)
  then show ?thesis by (simp add: session_inv_def)
qed

section \<open>The credentials header\<close>

definition b64_val :: "char \<Rightarrow> nat" where
  "b64_val c = length (takeWhile (\<lambda>x. x \<noteq> c) b64_alphabet)"

fun b64_decode :: "string \<Rightarrow> nat list" where
  "b64_decode (a # b # c # d # r) =
     (if c = CHR ''='' then [b64_val a * 4 + b64_val b div 16]
      else if d = CHR ''='' then [b64_val a * 4 + b64_val b div 16, (b64_val b mod 16) * 16 + b64_val c div 4]
      else (b64_val a * 4 + b64_val b div 16) # ((b64_val b mod 16) * 16 + b64_val c div 4) #
        ((b64_val c mod 4) * 64 + b64_val d) # b64_decode r)"
| "b64_decode s = []"

lemma b64_table: "\<forall>i \<in> set [0..<64]. b64_val (b64_char i) = i \<and> b64_char i \<noteq> CHR ''='' \<and> b64_char i \<noteq> CHR 0x0A"
  by code_simp

lemma b64_char_simps [simp]:
  assumes "i < 64"
  shows "b64_val (b64_char i) = i" "b64_char i \<noteq> CHR ''=''" "b64_char i \<noteq> CHR 0x0A"
  using b64_table assms by simp_all

lemma six_bits: "a < 256 \<Longrightarrow> b < 256 \<Longrightarrow> (a mod 4) * 16 + b div 16 < (64::nat)"
  using mod_less_divisor [of 4 a] div_le_mono [of b 255 16] by simp

lemma b64_decode_bytes:
  assumes "\<forall>x \<in> set xs. x < 256"
  shows "b64_decode (b64_bytes xs) = xs"
  using assms
proof (induction xs rule: b64_bytes.induct)
  case (2 a)
  then show ?case by simp
next
  case (3 a b)
  then have "a div 4 < 64" "(a mod 4) * 16 + b div 16 < 64" "b div 16 < 16"
    using div_le_mono [of a 255 4] div_le_mono [of b 255 16] by (simp_all add: six_bits)
  with 3 show ?case by simp
next
  case (4 a b c r)
  then have "a div 4 < 64" "(a mod 4) * 16 + b div 16 < 64" "(b mod 16) * 4 + c div 64 < 64"
      "b div 16 < 16" "c div 64 < 4"
    using six_bits [of a b] mod_less_divisor [of 16 b] div_le_mono [of c 255 64]
      div_le_mono [of a 255 4] div_le_mono [of b 255 16] by simp_all
  with 4 show ?case by simp
qed simp

lemma b64_bytes_no_newline:
  assumes "\<forall>x \<in> set xs. x < 256"
  shows "CHR 0x0A \<notin> set (b64_bytes xs)"
  using assms
proof (induction xs rule: b64_bytes.induct)
  case (3 a b)
  then have "a div 4 < 64" "(a mod 4) * 16 + b div 16 < 64"
    using div_le_mono [of a 255 4] by (simp_all add: six_bits)
  with 3 show ?case by (simp add: b64_char_simps(3) [symmetric])
next
  case (4 a b c r)
  then have "a div 4 < 64" "(a mod 4) * 16 + b div 16 < 64" "(b mod 16) * 4 + c div 64 < 64"
      "b div 16 < 16" "c div 64 < 4"
    using six_bits [of a b] mod_less_divisor [of 16 b] div_le_mono [of c 255 64]
      div_le_mono [of a 255 4] div_le_mono [of b 255 16] by simp_all
  with 4 show ?case by (simp add: b64_char_simps(3) [symmetric])
qed (simp_all add: b64_char_simps(3) [symmetric])

lemma b64_bytes_append: "length xs mod 3 = 0 \<Longrightarrow> b64_bytes (xs @ ys) = b64_bytes xs @ b64_bytes ys"
  by (induction xs rule: b64_bytes.induct) auto

lemma replace_char: "replace s [c] [] = filter (\<lambda>x. x \<noteq> c) s"
  by (induction s) (auto simp: replace.simps)

lemma b64_lines_joined:
  "filter (\<lambda>x. x \<noteq> CHR 0x0A) (b64_encodestring s) = b64_bytes (map of_char s)"
proof (induction s rule: b64_encodestring.induct)
  case (1 s)
  show ?case
  proof (cases "s = []")
    case False
    have "filter (\<lambda>x. x \<noteq> CHR 0x0A) (b64_bytes (map of_char (take 57 s))) = b64_bytes (map of_char (take 57 s))"
      using b64_bytes_no_newline [of "map of_char (take 57 s)"] by (intro filter_True) auto
    moreover have "b64_bytes (map of_char s) = b64_bytes (map of_char (take 57 s)) @ b64_bytes (map of_char (drop 57 s))"
    proof (cases "length s \<le> 57")
      case False
      then have "length (map of_char (take 57 s)) mod 3 = 0" by simp
      from b64_bytes_append [OF this] show ?thesis by (metis append_take_drop_id map_append)
    qed simp
    ultimately show ?thesis using 1 [OF False] False by (simp add: b64_encodestring.simps [of s])
  qed (simp add: b64_encodestring.simps)
qed

lemma b64_last_newline: "s \<noteq> [] \<Longrightarrow> \<exists>p. b64_encodestring s = p @ [CHR 0x0A]"
proof (induction s rule: b64_encodestring.induct)
  case (1 s)
  show ?case
  proof (cases "drop 57 s = []")
    case True
    then have "b64_encodestring s = b64_bytes (map of_char (take 57 s)) @ [CHR 0x0A]"
      using 1(2) by (simp add: b64_encodestring.simps [of s] b64_encodestring.simps [of "[]"])
    then show ?thesis by blast
  next
    case False
    then obtain p where "b64_encodestring (drop 57 s) = p @ [CHR 0x0A]" using 1 by blast
    then have "b64_encodestring s = (b64_bytes (map of_char (take 57 s)) @ [CHR 0x0A] @ p) @ [CHR 0x0A]"
      using 1(2) by (simp add: b64_encodestring.simps [of s])
    then show ?thesis by blast
  qed
qed

lemma slice_to_butlast: "slice_to (p @ [c]) (-1) = p"
  by (simp add: slice_to_def norm_index_def)

lemma basic_auth_bytes:
  "basic_auth c = ''Basic '' @ b64_bytes (map of_char (auth_user c @ '':'' @ str_opt (password c)))"
proof -
  let ?s = "auth_user c @ '':'' @ str_opt (password c)"
  obtain p where p: "b64_encodestring ?s = p @ [CHR 0x0A]"
    using b64_last_newline [of ?s] by auto
  then have "filter (\<lambda>x. x \<noteq> CHR 0x0A) p = b64_bytes (map of_char ?s)"
    using b64_lines_joined [of ?s] by simp
  then show ?thesis unfolding basic_auth_def Let_def p slice_to_butlast replace_char by simp
qed

lemma char_codes: "\<forall>x \<in> set (map of_char (s :: string)). x < (256 :: nat)"
  by auto

text \<open>
  The credentials round trip: whatever the length of user name and password (the
  encoder breaks lines after 57 bytes), the Authorization header is one line, and its
  base64 part decodes to exactly the bytes of \<open>user[@domain]:password\<close>.
\<close>

theorem basic_auth_roundtrip:
  "\<exists>cred. basic_auth c = ''Basic '' @ cred \<and> CHR 0x0A \<notin> set cred \<and>
     map char_of (b64_decode cred) = auth_user c @ '':'' @ str_opt (password c)"
proof (intro exI conjI)
  let ?bytes = "map of_char (auth_user c @ '':'' @ str_opt (password c)) :: nat list"
  show "basic_auth c = ''Basic '' @ b64_bytes ?bytes" by (rule basic_auth_bytes)
  show "CHR 0x0A \<notin> set (b64_bytes ?bytes)" by (rule b64_bytes_no_newline [OF char_codes])
  show "map char_of (b64_decode (b64_bytes ?bytes)) = auth_user c @ '':'' @ str_opt (password c)"
    unfolding b64_decode_bytes [OF char_codes] map_map comp_def char_of_char by simp
qed

section \<open>The link header\<close>

definition print_link :: "string \<times> string \<Rightarrow> string" where
  "print_link p = (case p of (rel, url) \<Rightarrow> ''<'' @ url @ ''>; rel='' @ rel)"

definition plain_link :: "string \<times> string \<Rightarrow> bool" where
  "plain_link p = (case p of (rel, url) \<Rightarrow>
     set url \<inter> set ''<>;,'' = {} \<and> set rel \<inter> set '';,'' = {})"

lemma str_find_char: "c \<notin> set u \<Longrightarrow> str_find (u @ c # v) [c] = int (length u)"
  by (induction u) (auto simp: startswith_def Let_def)

lemma str_find_missing: "c \<notin> set u \<Longrightarrow> str_find u [c] = -1"
  by (induction u) (auto simp: startswith_def Let_def)

lemma slice_mid: "slice (p @ q @ r) (int (length p)) (int (length p + length q)) = q"
  by (simp add: slice_def slice_to_def norm_index_def)

lemma link_url:
  assumes "set url \<inter> set ''<>;,'' = {}"
  shows "slice (''<'' @ url @ ''>'' @ t) (str_find (''<'' @ url @ ''>'' @ t) ''<'' + 1) (str_find (''<'' @ url @ ''>'' @ t) ''>'') = url"
proof -
  have "str_find ((CHR ''<'' # url) @ CHR ''>'' # t) ''>'' = int (length (CHR ''<'' # url))"
    using assms by (intro str_find_char) auto
  then show ?thesis
    using slice_mid [of "''<''" url "''>'' @ t"] by (simp add: startswith_def)
qed

lemma link_after_semicolon:
  assumes "set url \<inter> set ''<>;,'' = {}"
  shows "slice_from (''<'' @ url @ ''>;'' @ t) (str_find (''<'' @ url @ ''>;'' @ t) '';'' + 1) = t"
proof -
  have "str_find ((''<'' @ url @ ''>'') @ CHR '';'' # t) '';'' = int (length (''<'' @ url @ ''>''))"
    using assms by (intro str_find_char) auto
  then have "str_find (''<'' @ url @ ''>;'' @ t) '';'' + 1 = int (length (''<'' @ url @ ''>;''))"
    by simp
  moreover have "slice_from (u @ t) (int (length u)) = t" for u
    by (simp add: slice_from_def norm_index_def)
  ultimately show ?thesis by (metis append.assoc)
qed

lemma parse_plain_link:
  assumes "plain_link (rel, url)"
  shows "parse_link (print_link (rel, url)) links = dict_set links rel url"
proof -
  have url: "set url \<inter> set ''<>;,'' = {}" and rel: "CHR '';'' \<notin> set rel"
    using assms by (auto simp: plain_link_def)
  have "slice_from ('' rel='' @ rel) (str_find ('' rel='' @ rel) ''rel='' + 4) = rel"
    by (simp add: startswith_def Let_def slice_from_def norm_index_def)
  then show ?thesis
    using link_url [OF url, of "''; rel='' @ rel"] link_after_semicolon [OF url, of "'' rel='' @ rel"]
      str_find_missing [OF rel]
    by (simp add: parse_link_def print_link_def Let_def)
qed

lemma print_link_no_comma: "plain_link p \<Longrightarrow> CHR '','' \<notin> set (print_link p)"
  by (cases p) (auto simp: plain_link_def print_link_def)

lemma parse_links:
  assumes "\<forall>p \<in> set ps. plain_link p"
  shows "map_of (fold parse_link (map print_link ps) d) = map_of d ++ map_of (rev ps)"
  using assms
proof (induction ps arbitrary: d)
  case (Cons p ps)
  obtain rel url where "p = (rel, url)" by (cases p)
  with Cons parse_plain_link [of rel url d] show ?case
    by (simp add: map_add_upd_left fun_eq_iff map_add_def split: option.split)
qed simp

text \<open>
  The link table round trips: when the engine's HEAD answer has a link header that
  lists plain links in the form \<open><url>; rel=name\<close>, the table built from it maps every
  name to its URL, adds the \<open>capabilities\<close> entry, and has nothing else.
\<close>

theorem HEAD_for_links_roundtrip:
  assumes "\<not> standalone (opts st)" and "ps \<noteq> []" and "\<forall>p \<in> set ps. plain_link p"
    and "distinct (map fst ps)"
    and "do_request srv decode ''HEAD'' (conn_uri (REST_CONNECTION (opts st))) None (Some ''link'') st = (Inr r, st')"
    and "ret_status r < 300" and "ret_header r = Some (join '','' (map print_link ps))"
  shows "\<exists>d. HEAD_for_links srv decode st = (Inr d, st') \<and>
    map_of d = (map_of ps)(''capabilities'' \<mapsto> conn_uri (REST_CONNECTION (opts st)) @ ''capabilities'')"
proof -
  have "split_on (join '','' (map print_link ps)) '','' = map print_link ps"
    using assms(2,3) print_link_no_comma by (intro split_on_join) auto
  moreover have "map_of (fold parse_link (map print_link ps) []) = map_of ps"
    using parse_links [OF assms(3)] assms(4) by (simp add: distinct_map_of_rev)
  ultimately show ?thesis
    using assms(1,5-7) by (simp add: HEAD_for_links_def comp_simps Let_def)
qed

text \<open>
  A link with a further parameter is filed under a wrong name: the end of the name
  is looked for in the string before \<open>rel=\<close> was cut off, so four characters of the
  parameter (and the semicolon) stay in the name.
\<close>

theorem parse_link_extra_param:
  assumes "set url \<inter> set ''<>;,'' = {}" and "CHR '';'' \<notin> set rel"
  shows "parse_link (print_link (rel, url) @ '';'' @ param) [] = [(rel @ '';'' @ take 4 param, url)]"
proof -
  let ?s1 = "'' rel='' @ rel @ '';'' @ param"
  have rel: "slice_from ?s1 (str_find ?s1 ''rel='' + 4) = rel @ '';'' @ param"
    by (simp add: startswith_def Let_def slice_from_def norm_index_def)
  have "str_find (('' rel='' @ rel) @ CHR '';'' # param) '';'' = int (length ('' rel='' @ rel))"
    using assms(2) by (intro str_find_char) auto
  then have s1: "str_find ?s1 '';'' = int (length rel + 5)" by simp
  have r: "str_find (rel @ '';'' @ param) '';'' = int (length rel)"
    using str_find_char [OF assms(2), of param] by simp
  have "slice_to (rel @ '';'' @ param) (int (length rel + 5)) = rel @ '';'' @ take 4 param"
    by (simp only: slice_to_def norm_index_def) (simp add: nat_add_distrib)
  note cut = this
  let ?s = "''<'' @ url @ ''>;'' @ ?s1"
  have s: "print_link (rel, url) @ '';'' @ param = ?s" by (simp add: print_link_def)
  have u: "slice ?s (str_find ?s ''<'' + 1) (str_find ?s ''>'') = url"
    using link_url [OF assms(1), of "'';'' @ ?s1"] by simp
  have a: "slice_from ?s (str_find ?s '';'' + 1) = ?s1" by (rule link_after_semicolon [OF assms(1)])
  show ?thesis unfolding s parse_link_def Let_def u a rel s1 r cut by simp
qed

section \<open>Witnesses\<close>

text \<open>An engine that lets one user in: credentials get a cookie, all else is refused.\<close>

definition demo_conn :: rest_connection where
  "demo_conn = \<lparr>conn_uri = ''/api/'', conn_user = Some ''admin'', user_domain = Some ''internal'', password = Some ''pw''\<rparr>"

definition demo_opts :: http_opts where
  "demo_opts = \<lparr>REST_CONNECTION = demo_conn, media_type = ''application/xml'', standalone = False, HTTP_HEADERS = Some []\<rparr>"

definition demo_srv :: "nat server_fun" where
  "demo_srv rq w =
     (if map_of (req_headers rq) ''Authorization'' = Some (basic_auth demo_conn)
      then (Inr \<lparr>resp_status = 200, resp_reason = ''OK'',
             resp_headers = [(''set-cookie'', ''c:admin@internal''), (''Link'', ''</api/vms>; rel=vms,</api/hosts>; rel=hosts'')],
             resp_data = []\<rparr>, w + 1)
      else (Inr \<lparr>resp_status = 401, resp_reason = ''No'', resp_headers = [], resp_data = []\<rparr>, w + 1))"

definition demo_issued :: "string \<Rightarrow> string \<Rightarrow> bool" where
  "demo_issued c u \<longleftrightarrow> c = ''c:'' @ u"

definition id_codec :: codec where
  "id_codec charset s = Inr s"

definition demo_st :: "'w \<Rightarrow> string option \<Rightarrow> 'w http_st" where
  "demo_st w ck = (HTTPProxy demo_opts w)\<lparr>cookie := ck, last_active_user := Some ''admin@internal''\<rparr>"

lemma demo_counts: "counts_requests demo_srv id"
  by (simp add: counts_requests_def demo_srv_def)

theorem do_request_bounded_witness:
  "server (snd (do_request demo_srv id_codec ''GET'' ''/api/vms'' None None (demo_st 0 (Some ''c:stale'')))) \<le> 3"
  using do_request_bounded [OF demo_counts, of id_codec "''GET''" "''/api/vms''" None None "demo_st 0 (Some ''c:stale'')"]
  by (simp add: demo_st_def HTTPProxy_def)

lemma demo_session: "session_server demo_srv demo_issued demo_conn"
proof -
  have u: "get_user demo_conn = ''admin@internal''" by code_simp
  have "getheader resp ''Set-Cookie'' = Some ck \<Longrightarrow> ck = ''c:admin@internal''"
    if "demo_srv rq w = (Inr resp, w')" for rq w resp w' ck
    using that by (auto simp: demo_srv_def getheader_def lower_def lower_char_def split: if_splits)
  then show ?thesis by (auto simp: session_server_def demo_issued_def u)
qed

theorem cookies_belong_to_user_witness:
  "\<exists>r st'. do_request (log_server demo_srv) id_codec ''GET'' ''/api/vms'' None None (demo_st (0, []) (Some ''c:admin@internal'')) = (r, st') \<and>
     cookies_of_user demo_issued ''admin@internal'' (snd (server st')) \<and> session_ok demo_issued st'"
proof -
  let ?st = "demo_st (0, []) (Some ''c:admin@internal'') :: (nat \<times> http_request list) http_st"
  obtain r st' where run: "do_request (log_server demo_srv) id_codec ''GET'' ''/api/vms'' None None ?st = (r, st')"
    by fastforce
  have u: "get_user demo_conn = ''admin@internal''" by code_simp
  have "cookies_of_user demo_issued (get_user demo_conn) (snd (server st')) \<and> session_ok demo_issued st'"
    by (rule cookies_belong_to_user [OF demo_session _ _ _ _ run])
      (simp_all add: demo_st_def HTTPProxy_def demo_opts_def plain_settings_def demo_conn_def
        truthy_opt_def session_ok_def str_opt_def demo_issued_def)
  with run u show ?thesis by auto
qed

definition demo_links :: "(string \<times> string) list" where
  "demo_links = [(''vms'', ''/api/vms''), (''hosts'', ''/api/hosts'')]"

lemma demo_head:
  "do_request demo_srv id_codec ''HEAD'' ''/api/'' None (Some ''link'') (demo_st 0 None) =
     (Inr \<lparr>ret_status = 200, ret_body = [], ret_reason = None,
        ret_header = Some (join '','' (map print_link demo_links))\<rparr>,
      demo_st 1 (Some ''c:admin@internal''))"
  by code_simp

theorem HEAD_for_links_roundtrip_witness:
  "\<exists>d. HEAD_for_links demo_srv id_codec (demo_st 0 None) = (Inr d, demo_st 1 (Some ''c:admin@internal'')) \<and>
     map_of d = (map_of demo_links)(''capabilities'' \<mapsto> ''/api/capabilities'')"
proof -
  have uri: "conn_uri (REST_CONNECTION (opts (demo_st (0::nat) None))) = ''/api/''" by code_simp
  have "\<exists>d. HEAD_for_links demo_srv id_codec (demo_st 0 None) = (Inr d, demo_st 1 (Some ''c:admin@internal'')) \<and>
     map_of d = (map_of demo_links)(''capabilities'' \<mapsto> conn_uri (REST_CONNECTION (opts (demo_st (0::nat) None))) @ ''capabilities'')"
    by (rule HEAD_for_links_roundtrip [OF _ _ _ _ demo_head [folded uri]])
      (simp_all add: demo_st_def HTTPProxy_def demo_opts_def demo_links_def plain_link_def)
  then show ?thesis unfolding uri by simp
qed

theorem parse_link_extra_param_witness:
  "parse_link ''</api/vms>; rel=vms;type=xml'' [] = [(''vms;type'', ''/api/vms'')]"
  using parse_link_extra_param [of "''/api/vms''" "''vms''" "''type=xml''"] by (simp add: print_link_def)

end
