(* ===== verification/Api_Util.thy ===== *)
theory Api_Util
  imports Http Timeout
begin

text \<open>
  \<open>art/core_api/apis_utils.py\<close>: what every API backend inherits from \<open>APIUtil\<close>, over an
  abstract backend: the collection lookup and the query are parameters here and are
  provided by the REST backend. \<open>generateShortGuid\<close> (an external package) and the
  generated data-structure constructors are parameters.
\<close>

section \<open>Constants\<close>

definition DEF_TIMEOUT :: int where "DEF_TIMEOUT = 900"
definition DEF_SLEEP :: int where "DEF_SLEEP = 10"
definition NEGATIVE_CODES :: "int list" where "NEGATIVE_CODES = [400, 409, 500]"
definition NEGATIVE_CODES_CREATE :: "int list" where "NEGATIVE_CODES_CREATE = NEGATIVE_CODES @ [404]"
definition POSITIVE_CODES :: "int list" where "POSITIVE_CODES = [200, 201]"
definition POSITIVE_CODES_CREATE :: "int list" where "POSITIVE_CODES_CREATE = POSITIVE_CODES @ [202]"
definition MAX_CORRELATION_ID_LENGTH :: nat where "MAX_CORRELATION_ID_LENGTH = 50"

datatype ApiOperation = Op_create | Op_update | Op_delete | Op_syncAction

fun op_name :: "ApiOperation \<Rightarrow> string" where
  "op_name Op_create = ''create''"
| "op_name Op_update = ''update''"
| "op_name Op_delete = ''delete''"
| "op_name Op_syncAction = ''syncAction''"

section \<open>Correlation ids and actions\<close>

text \<open>
  A configured id is used as it is; otherwise the id is built from the collection, the
  operation and a fresh guid, and cut to the length the engine accepts.
\<close>

definition getCorrelationId :: "string option \<Rightarrow> string \<Rightarrow> ApiOperation option \<Rightarrow> string \<Rightarrow> string" where
  "getCorrelationId configured collection_name api_operation guid =
     (case configured of
        Some c \<Rightarrow> c
      | None \<Rightarrow>
          take MAX_CORRELATION_ID_LENGTH
            (join ''_'' [collection_name,
               (case api_operation of None \<Rightarrow> ''unknown_api'' | Some p \<Rightarrow> op_name p), guid]))"

definition getReqMatrixParams ::
  "string option \<Rightarrow> string \<Rightarrow> pyval option \<Rightarrow> ApiOperation option \<Rightarrow> string \<Rightarrow> (string, pyval) dict" where
  "getReqMatrixParams configured collection_name current api_operation guid =
     [(''correlation_id'', PStr (getCorrelationId configured collection_name api_operation guid))] @
     (case current of None \<Rightarrow> [] | Some c \<Rightarrow> [(''current'', c)])"

fun setattr :: "pyval \<Rightarrow> string \<Rightarrow> pyval \<Rightarrow> pyval" where
  "setattr (PObj c attrs) n v = PObj c (dict_set attrs n v)"
| "setattr x n v = x"

definition makeAction :: "(string \<Rightarrow> pyval) \<Rightarrow> pyval \<Rightarrow> int \<Rightarrow> (string \<times> pyval) list \<Rightarrow> pyval" where
  "makeAction new_ds async action_expiry params =
     (let grace = setattr (setattr (new_ds ''GracePeriod'') ''expiry'' (PInt action_expiry)) ''absolute'' (PStr ''false'');
          action = setattr (setattr (new_ds ''Action'') ''async'' (PStr (lower (py_str async)))) ''grace_period'' grace
      in fold (\<lambda>(p, v) a. setattr a p v) params action)"

text \<open>The text that \<open>print_error_msg\<close> logs; empty parts are left out.\<close>

definition error_msg ::
  "string \<Rightarrow> int \<Rightarrow> string option \<Rightarrow> string option \<Rightarrow> string option \<Rightarrow> bool \<Rightarrow> string" where
  "error_msg operation status reason detail trace positive =
     (let part = (\<lambda>label v. if truthy_opt v then [CHR 0x09] @ label @ '': '' @ str_opt v @ [CHR 0x0A] else []) in
      ''Failed to '' @ operation @ '' element'' @
      (if positive then '' NOT'' else []) @ '' as expected:'' @ [CHR 0x0A] @
      part ''Status'' (if status \<noteq> 0 then Some (show_int status) else None) @
      part ''Reason'' reason @ part ''Detail'' detail @ part ''Trace'' trace)"

section \<open>Elements of a collection\<close>

text \<open>
  \<open>find_prop\<close> is the loop over the collection: the first element whose property has the
  value; an element without the property ends the search with an error.
\<close>

fun find_prop :: "string \<Rightarrow> pyval \<Rightarrow> pyval list \<Rightarrow> exn + pyval" where
  "find_prop prop name_val [] = Inl EntityNotFound"
| "find_prop prop name_val (obj # objs) =
     (case getattr obj prop of
        Inl e \<Rightarrow> Inl e
      | Inr v \<Rightarrow> if py_eq v name_val then Inr obj else find_prop prop name_val objs)"

text \<open>Iterating over a value: a list, the characters of a string; other values raise.\<close>

fun py_iter :: "pyval \<Rightarrow> exn + pyval list" where
  "py_iter (PList xs) = Inr xs"
| "py_iter (PStr s) = Inr (map (\<lambda>c. PStr [c]) s)"
| "py_iter v = Inl TypeError"

definition getElemFromElemColl ::
  "(string \<Rightarrow> string \<Rightarrow> 's \<Rightarrow> 's) \<Rightarrow> (pyval \<Rightarrow> string \<Rightarrow> string \<Rightarrow> ('s, pyval) comp) \<Rightarrow> string \<times> string \<Rightarrow>
   pyval \<Rightarrow> pyval \<Rightarrow> string \<Rightarrow> string \<Rightarrow> string \<Rightarrow> bool \<Rightarrow> ('s, pyval) comp" where
  "getElemFromElemColl set_hdr elem_from_link self elm name_val coll_name elm_name prop all_content =
     bindE (if all_content then modify (set_hdr ''All-content'' ''True'') else ret ()) (\<lambda>_.
     bindE (elem_from_link elm (if coll_name = [] then snd self else coll_name)
              (if elm_name = [] then fst self else elm_name)) (\<lambda>objs.
     if truthy objs then bindE (lift_res (py_iter objs)) (\<lambda>xs. lift_res (find_prop prop name_val xs))
     else raise EntityNotFound))"

lemma find_prop_Inr:
  "find_prop prop name_val objs = Inr obj \<longleftrightarrow>
     (\<exists>i < length objs. objs ! i = obj \<and> (\<exists>v. getattr obj prop = Inr v \<and> py_eq v name_val) \<and>
        (\<forall>j < i. \<exists>v. getattr (objs ! j) prop = Inr v \<and> \<not> py_eq v name_val))"
proof (induction objs)
  case (Cons x xs)
  show ?case
  proof (cases "getattr x prop")
    case (Inr v)
    show ?thesis
    proof (cases "py_eq v name_val")
      case True
      then show ?thesis using Inr by (auto simp: less_Suc_eq_0_disj)
    next
      case False
      have "(\<exists>i < length (x # xs). (x # xs) ! i = obj \<and> (\<exists>v. getattr obj prop = Inr v \<and> py_eq v name_val) \<and>
          (\<forall>j < i. \<exists>v. getattr ((x # xs) ! j) prop = Inr v \<and> \<not> py_eq v name_val)) \<longleftrightarrow>
        (\<exists>i < length xs. xs ! i = obj \<and> (\<exists>v. getattr obj prop = Inr v \<and> py_eq v name_val) \<and>
          (\<forall>j < i. \<exists>v. getattr (xs ! j) prop = Inr v \<and> \<not> py_eq v name_val))"
        using False Inr by (auto simp: Ex_less_Suc2 All_less_Suc2)
      then show ?thesis using False Inr Cons by simp
    qed
  qed (auto simp: less_Suc_eq_0_disj All_less_Suc2)
qed simp

section \<open>Waiting for a query\<close>

text \<open>The sampler of this module raises \<open>APITimeout\<close>.\<close>

definition API_TimeoutingSampler :: "int \<Rightarrow> int \<Rightarrow> sampler" where
  "API_TimeoutingSampler t s = (TimeoutingSampler t s)\<lparr>timeout_exc_cls := APITimeout\<rparr>"

lemma API_sampler_fields [simp]:
  "timeout (API_TimeoutingSampler t s) = t" "sleep_interval (API_TimeoutingSampler t s) = s"
  "start_time (API_TimeoutingSampler t s) = None" "timeout_exc_cls (API_TimeoutingSampler t s) = APITimeout"
  by (simp_all add: API_TimeoutingSampler_def TimeoutingSampler_def)

definition waitForQuery ::
  "'w os_time \<Rightarrow> ('w, pyval) comp \<Rightarrow> int \<Rightarrow> int \<Rightarrow> 'w \<Rightarrow> ((exn + bool) \<times> 'w) option" where
  "waitForQuery E run_query t s w =
     (case for_sample E run_query (\<lambda>ok. ret (if truthy ok then Some True else None)) (API_TimeoutingSampler t s) w of
        None \<Rightarrow> None
      | Some (Inl e, s1, w1) \<Rightarrow> if isinstance e APITimeout then Some (Inr False, w1) else Some (Inl e, w1)
      | Some (Inr b, s1, w1) \<Rightarrow> Some (Inr b, w1))"

text \<open>
  \<open>waitForQuery\<close> always comes back and tells the truth: True right after a query that
  found something, False only when the query itself timed out or the clock has passed the
  start by more than the timeout, and any other error of the query as it is.
\<close>

theorem waitForQuery_verdict:
  assumes "clock_laws E clk" and "never_back clk run_query" and "0 < s"
  shows "\<exists>r w' t0. waitForQuery E run_query t s w = Some (r, w') \<and> clk w \<le> t0 \<and>
    (case r of
       Inr True \<Rightarrow> \<exists>v x. run_query v = (Inr x, w') \<and> truthy x
     | Inr False \<Rightarrow> (\<exists>v e. run_query v = (Inl e, w') \<and> isinstance e APITimeout) \<or> t0 + t < clk w'
     | Inl e \<Rightarrow> \<not> isinstance e APITimeout \<and> (\<exists>v. run_query v = (Inl e, w')))"
proof -
  let ?s = "API_TimeoutingSampler t s"
  have "\<exists>r s' w' t0. for_sample E run_query (\<lambda>ok. ret (if truthy ok then Some True else None)) ?s w = Some (r, s', w') \<and>
    clk w \<le> t0 \<and>
    (case r of
       Inr y \<Rightarrow> \<exists>v x. run_query v = (Inr x, w') \<and> truthy x \<and> y = True
     | Inl e \<Rightarrow> (\<exists>v. run_query v = (Inl e, w')) \<or> e = timeout_exc_cls ?s \<and> t0 + timeout ?s < clk w')"
    by (rule wait_until [OF assms(1,2)]) (simp_all add: API_sampler_fields assms(3))
  then obtain r s' w' t0 where "for_sample E run_query (\<lambda>ok. ret (if truthy ok then Some True else None)) ?s w = Some (r, s', w')"
    and "clk w \<le> t0"
    and "case r of
       Inr y \<Rightarrow> \<exists>v x. run_query v = (Inr x, w') \<and> truthy x \<and> y = True
     | Inl e \<Rightarrow> (\<exists>v. run_query v = (Inl e, w')) \<or> e = timeout_exc_cls ?s \<and> t0 + timeout ?s < clk w'"
    by blast
  then show ?thesis
    by (cases r) (auto simp: waitForQuery_def API_sampler_fields split: bool.split)
qed

text \<open>
  The correlation id of an operation is at most 50 characters unless one is
  configured, and begins with the collection and the operation whenever these fit.
\<close>

theorem correlation_id_shape:
  assumes "length collection_name + length (op_name p) + 2 \<le> MAX_CORRELATION_ID_LENGTH"
  shows "length (getCorrelationId None collection_name (Some p) guid) \<le> MAX_CORRELATION_ID_LENGTH \<and>
    startswith (getCorrelationId None collection_name (Some p) guid) (collection_name @ ''_'' @ op_name p @ ''_'')"
proof -
  let ?p = "collection_name @ ''_'' @ op_name p @ ''_''"
  have "getCorrelationId None collection_name (Some p) guid = take MAX_CORRELATION_ID_LENGTH (?p @ guid)"
    by (simp add: getCorrelationId_def)
  moreover have "take MAX_CORRELATION_ID_LENGTH (?p @ guid) = ?p @ take (MAX_CORRELATION_ID_LENGTH - length ?p) guid"
    using assms unfolding take_append by (subst take_all) auto
  moreover have "length (getCorrelationId None collection_name (Some p) guid) \<le> MAX_CORRELATION_ID_LENGTH"
    by (simp add: getCorrelationId_def)
  ultimately show ?thesis by (metis startswith_append)
qed

section \<open>Witnesses\<close>

definition demo_query :: "(int \<times> int, pyval) comp" where
  "demo_query = (\<lambda>(t, n). (Inr (PList (if n < 2 then [] else [PNone])), (t + 1, n + 1)))"

theorem waitForQuery_verdict_witness:
  "\<exists>r w'. waitForQuery tick_os demo_query 20 5 (0, 0) = Some (r, w')"
proof -
  have "never_back fst demo_query" by (auto simp: never_back_def demo_query_def)
  from waitForQuery_verdict [OF tick_laws(1) this, of 5 20 "(0, 0)"] show ?thesis by force
qed

theorem correlation_id_shape_witness:
  "startswith (getCorrelationId None ''vms'' (Some Op_create) ''0123456789abcdef'') ''vms_create_''"
  using correlation_id_shape [of "''vms''" Op_create "''0123456789abcdef''"]
  by (simp add: MAX_CORRELATION_ID_LENGTH_def)

end
