(* ===== verification/Rest.thy ===== *)
theory Rest
  imports Api_Util Validator
begin

text \<open>
  \<open>art/core_api/rest_utils.py\<close>: the REST backend \<open>RestUtil\<close>. One \<open>rest_env\<close> is what an
  instance holds for life (names, links, limits) and the outside it calls: the server, the
  XML parser and printer of the generated classes, the XSD schema, the URI templates, the
  guid generator and the clock. The state is the HTTP proxy of the instance and the list of
  schema errors. Keyword arguments of the operations are records or lists in the order in
  which Python yields them.
\<close>

section \<open>Environment and state\<close>

datatype xsd_result = Xsd_valid | Xsd_invalid | Xsd_syntax_error

record 'w rest_env =
  srv :: "'w server_fun"
  codec_of :: codec
  do_sleep :: "int \<Rightarrow> 'w \<Rightarrow> 'w"
  short_guid :: "'w \<Rightarrow> string \<times> 'w"
  element_name :: string
  collection_name :: string
  links :: "(string, string) dict"
  max_collection :: "string option"
  entry_point :: string
  run_validate :: bool
  configured_id :: "string option"
  kw_order :: "string list \<Rightarrow> string list"
  parse :: "string \<Rightarrow> exn + pyval"
  dump_entity :: "pyval \<Rightarrow> string \<Rightarrow> string"
  xsd_check :: "string \<Rightarrow> xsd_result"
  template_sub :: "string \<Rightarrow> (string \<times> string) list \<Rightarrow> string"
  new_ds :: "string \<Rightarrow> pyval"
  compare_env :: cmp_env

record 'w rest_st =
  api :: "'w http_st"
  xsd_schema_errors :: "(string \<times> api_ret) list"

definition on_api :: "('w http_st, 'a) comp \<Rightarrow> ('w rest_st, 'a) comp" where
  "on_api m s = (case m (api s) of (r, h) \<Rightarrow> (r, s\<lparr>api := h\<rparr>))"

definition api_headers :: "'w rest_st \<Rightarrow> (string, string) dict" where
  "api_headers s = headers (api s)"

definition upd_headers ::
  "((string, string) dict \<Rightarrow> (string, string) dict) \<Rightarrow> 'w rest_st \<Rightarrow> 'w rest_st" where
  "upd_headers f s = s\<lparr>api := (api s)\<lparr>headers := f (headers (api s))\<rparr>\<rparr>"

definition on_world :: "('w \<Rightarrow> 'a \<times> 'w) \<Rightarrow> ('w rest_st, 'a) comp" where
  "on_world f s = (case f (server (api s)) of (x, w) \<Rightarrow> (Inr x, s\<lparr>api := (api s)\<lparr>server := w\<rparr>\<rparr>))"

type_synonym 'w request = "string \<times> string \<times> string option"

definition send :: "'w rest_env \<Rightarrow> string \<times> string \<times> string option \<Rightarrow> ('w rest_st, api_ret) comp" where
  "send E q = on_api (run_request (srv E) (codec_of E) q)"

section \<open>Small parts\<close>

definition get_headers :: "('w rest_st, (string, string) dict) comp" where
  "get_headers = gets api_headers"

definition set_header :: "string \<Rightarrow> string option \<Rightarrow> ('w rest_st, unit) comp" where
  "set_header header value =
     modify (upd_headers (\<lambda>hs. case value of None \<Rightarrow> dict_del hs header | Some v \<Rightarrow> dict_set hs header v))"

text \<open>The correlation id is a header for the time of one request.\<close>

definition correlationIdContext :: "'w rest_env \<Rightarrow> ApiOperation \<Rightarrow> ('w rest_st, 'a) comp \<Rightarrow> ('w rest_st, 'a) comp" where
  "correlationIdContext E p m =
     bindE (if configured_id E = None then on_world (short_guid E) else ret []) (\<lambda>guid.
     with_header api_headers upd_headers ''Correlation-Id''
       (getCorrelationId (configured_id E) (collection_name E) (Some p) guid) m)"

definition all_content_context :: "bool \<Rightarrow> ('w rest_st, 'a) comp \<Rightarrow> ('w rest_st, 'a) comp" where
  "all_content_context all_content m =
     (if all_content then with_header api_headers upd_headers ''All-content'' ''True'' m else m)"

definition validateResponseViaXSD :: "'w rest_env \<Rightarrow> string \<Rightarrow> api_ret \<Rightarrow> ('w rest_st, unit) comp" where
  "validateResponseViaXSD E href r =
     (if ret_body r \<noteq> [] \<and> xsd_check E (ret_body r) = Xsd_invalid
      then modify (\<lambda>s. s\<lparr>xsd_schema_errors := xsd_schema_errors s @ [(href, r)]\<rparr>)
      else ret ())"

definition build_url :: "string \<Rightarrow> (string \<times> bool) list \<Rightarrow> string" where
  "build_url href additional_params =
     foldl (\<lambda>url (k, v). if v then url @ ''?'' @ k else url) href additional_params"

text \<open>The text between the first two occurrences of \<open>detail>\<close>, without its last two characters.\<close>

definition parse_detail :: "api_ret \<Rightarrow> string option" where
  "parse_detail r =
     (case split_on (ret_body r) ''detail>'' of
        (a # b # rest) \<Rightarrow> Some (slice_to b (-2))
      | _ \<Rightarrow> None)"

definition responseCodesMatch :: "bool \<Rightarrow> int list \<Rightarrow> int list \<Rightarrow> api_ret \<Rightarrow> bool" where
  "responseCodesMatch positive expected_pos expected_neg r =
     compareResponseCode (ret_status r) (if positive then expected_pos else expected_neg)"

definition with_max :: "'w rest_env \<Rightarrow> string \<Rightarrow> string" where
  "with_max E href = (case max_collection E of None \<Rightarrow> href | Some m \<Rightarrow> href @ '';max='' @ m)"

definition with_operations :: "string \<Rightarrow> string list \<Rightarrow> string" where
  "with_operations url operations = (if operations = [] then url else url @ '';'' @ join '';'' operations)"

fun as_string :: "pyval \<Rightarrow> exn + string" where
  "as_string (PStr s) = Inr s"
| "as_string v = Inl TypeError"

section \<open>Reading\<close>

record get_args =
  ga_elm :: string
  ga_custom_headers :: "(string, string) dict"
  ga_abs_link :: bool
  ga_no_parse :: bool
  ga_validate :: bool

definition get_default :: get_args where
  "get_default = \<lparr>ga_elm = [], ga_custom_headers = [], ga_abs_link = True, ga_no_parse = False, ga_validate = True\<rparr>"

text \<open>A missing link is \<open>None\<close>, which the HTTP library requests as the root.\<close>

definition get_url :: "'w rest_env \<Rightarrow> string \<Rightarrow> string option \<Rightarrow> bool \<Rightarrow> string" where
  "get_url E base href abs_link =
     (let h = (case href of None \<Rightarrow> collection_name E | Some h \<Rightarrow> h);
          url = (if abs_link then h
                 else if h \<noteq> [] then (case map_of (links E) h of None \<Rightarrow> [] | Some u \<Rightarrow> u)
                 else base)
      in if url = [] then ''/'' else url)"

definition rest_get :: "'w rest_env \<Rightarrow> string option \<Rightarrow> get_args \<Rightarrow> ('w rest_st, pyval) comp" where
  "rest_get E href a =
     bindE (gets (\<lambda>s. conn_uri (REST_CONNECTION (opts (api s))))) (\<lambda>base.
     (let url = get_url E base href (ga_abs_link a);
          elm = (if ga_elm a = [] then element_name E else ga_elm a) in
     bindE (modify (upd_headers (\<lambda>hs. dict_update hs (ga_custom_headers a)))) (\<lambda>_.
     bindE (send E (''GET'', url, None)) (\<lambda>r.
     if \<not> compareResponseCode (ret_status r) POSITIVE_CODES then ret PNone
     else
       bindE (if ga_validate a then validateResponseViaXSD E url r else ret ()) (\<lambda>_.
       if ga_no_parse a then ret (PStr (ret_body r))
       else
         (case parse E (ret_body r) of
            Inl e \<Rightarrow> if isinstance e XMLSyntaxError then ret PNone else raise e
          | Inr v \<Rightarrow> ret (case getattr_opt v elm of Some x \<Rightarrow> x | None \<Rightarrow> v)))))))"

text \<open>\<open>reduce(getattr, attr.split('.'), r)\<close>, and one pass of \<open>filter\<close> over a collection.\<close>

fun getattr_chain :: "string list \<Rightarrow> pyval \<Rightarrow> exn + pyval" where
  "getattr_chain [] v = Inr v"
| "getattr_chain (a # as) v = (case getattr v a of Inl e \<Rightarrow> Inl e | Inr x \<Rightarrow> getattr_chain as x)"

fun filter_chain :: "string list \<Rightarrow> pyval \<Rightarrow> pyval list \<Rightarrow> exn + pyval list" where
  "filter_chain path val [] = Inr []"
| "filter_chain path val (r # rs) =
     (case getattr_chain path r of
        Inl e \<Rightarrow> Inl e
      | Inr v \<Rightarrow> (case filter_chain path val rs of
          Inl e \<Rightarrow> Inl e | Inr out \<Rightarrow> Inr (if py_eq v val then r # out else out)))"

fun filter_kwargs :: "(string \<times> pyval) list \<Rightarrow> pyval list \<Rightarrow> exn + pyval list" where
  "filter_kwargs [] rs = Inr rs"
| "filter_kwargs ((attr, value) # kw) rs =
     (case filter_chain (split_on attr ''.'') value rs of Inl e \<Rightarrow> Inl e | Inr rs' \<Rightarrow> filter_kwargs kw rs')"

definition pick_unique :: "pyval list \<Rightarrow> exn + pyval" where
  "pick_unique results =
     (case results of [] \<Rightarrow> Inl EntityNotFound | [r] \<Rightarrow> Inr r | _ \<Rightarrow> Inl MoreThanOneEntitiesFound)"

definition rest_find ::
  "'w rest_env \<Rightarrow> pyval \<Rightarrow> string \<Rightarrow> bool \<Rightarrow> pyval \<Rightarrow> bool \<Rightarrow> (string \<times> pyval) list \<Rightarrow> ('w rest_st, pyval) comp" where
  "rest_find E val attribute abs_link collection all_content kwargs =
     bindE (if all_content then modify (upd_headers (\<lambda>hs. dict_set hs ''All-content'' ''True'')) else ret ()) (\<lambda>_.
     bindE (lift_res (if abs_link then dict_getitem (links E) (collection_name E) else Inr (collection_name E))) (\<lambda>href0.
     (let href = with_max E href0 in
     bindE (if truthy collection then ret collection else rest_get E (Some href) get_default) (\<lambda>coll.
     if \<not> truthy coll then raise EntityNotFound
     else
       bindE (lift_res (py_iter coll)) (\<lambda>xs.
       bindE (lift_res (filter_chain [attribute] val xs)) (\<lambda>rs.
       bindE (lift_res (filter_kwargs kwargs rs)) (\<lambda>rs'.
       lift_res (pick_unique rs'))))))))"

record query_args =
  qa_expected_status :: "int list"
  qa_href :: string
  qa_event_id :: string
  qa_all_content :: bool
  qa_params :: "(string \<times> string) list"

text \<open>
  The search URL: parameters go before the question mark for events and after it for
  other collections; the template then gets the query. With an event id the template is
  filled in a second time from the template, so blanks stay unquoted on that path.
\<close>

definition query_base :: "'w rest_env \<Rightarrow> string \<Rightarrow> (string \<times> string) list \<Rightarrow> exn + string" where
  "query_base E href params =
     (let ps = map (\<lambda>(p, v). p @ ''='' @ v) params in
      if collection_name E = ''events'' then
        (case split_on href ''?'' of
           [before_search, after_search] \<Rightarrow> Inr (join '';'' (before_search # ps) @ ''?'' @ after_search)
         | _ \<Rightarrow> Inl ValueError)
      else if ps = [] then Inr href
      else Inr (href @ ''&'' @ join ''&'' ps))"

definition query_url :: "'w rest_env \<Rightarrow> string \<Rightarrow> string \<Rightarrow> string \<Rightarrow> string" where
  "query_url E href constraint event_id =
     (if event_id \<noteq> [] then template_sub E href [(''query'', constraint), (''event_id'', event_id)]
      else replace (replace (template_sub E href [(''query'', constraint)]) '' '' ''%20'') ''from='' [])"

definition rest_query :: "'w rest_env \<Rightarrow> string \<Rightarrow> query_args \<Rightarrow> ('w rest_st, pyval) comp" where
  "rest_query E constraint a =
     bindE (lift_res (if qa_href a = [] then dict_getitem (links E) (collection_name E @ ''/search'') else Inr (qa_href a))) (\<lambda>href0.
     bindE (lift_res (query_base E href0 (qa_params a))) (\<lambda>href.
     bindE (all_content_context (qa_all_content a)
              (send E (''GET'', query_url E href constraint (qa_event_id a), None))) (\<lambda>r.
     if \<not> compareResponseCode (ret_status r)
            (if qa_expected_status a = [] then POSITIVE_CODES else qa_expected_status a) then ret PNone
     else
       bindE (validateResponseViaXSD E href r) (\<lambda>_.
       bindE (lift_res (parse E (ret_body r))) (\<lambda>v.
       lift_res (getattr v (element_name E)))))))"

section \<open>Writing\<close>

record create_args =
  ca_expected_pos :: "int list"
  ca_expected_neg :: "int list"
  ca_async :: bool
  ca_compare :: bool
  ca_collection :: string
  ca_coll_elm_name :: string
  ca_current :: bool
  ca_deploy_hosted_engine :: bool
  ca_operations :: "string list"
  ca_validate :: "bool option"
  ca_expected_entity :: "pyval option"

definition create_default :: create_args where
  "create_default = \<lparr>ca_expected_pos = POSITIVE_CODES_CREATE, ca_expected_neg = NEGATIVE_CODES_CREATE,
     ca_async = False, ca_compare = True, ca_collection = [], ca_coll_elm_name = [], ca_current = False,
     ca_deploy_hosted_engine = False, ca_operations = [], ca_validate = None, ca_expected_entity = None\<rparr>"

definition ordered :: "'w rest_env \<Rightarrow> (string, bool) dict \<Rightarrow> (string \<times> bool) list" where
  "ordered E d = map (\<lambda>k. (k, map_of d k = Some True)) (kw_order E (dict_keys d))"

definition compare_parsed :: "'w rest_env \<Rightarrow> string \<Rightarrow> string \<Rightarrow> exn + bool" where
  "compare_parsed E expected actual =
     (case parse E expected of Inl e \<Rightarrow> Inl e
      | Inr exp \<Rightarrow> (case parse E actual of Inl e \<Rightarrow> Inl e
          | Inr act \<Rightarrow> compareElements (compare_env E) [] exp act True))"

text \<open>
  After a positive POST with a body: the answer is parsed and printed again, compared
  with what was asked for, and looked up by its id in the collection.
\<close>

definition check_created ::
  "'w rest_env \<Rightarrow> create_args \<Rightarrow> string \<Rightarrow> pyval \<Rightarrow> api_ret \<Rightarrow> ('w rest_st, bool) comp" where
  "check_created E a body collection r =
     bindE (lift_res (parse E (ret_body r))) (\<lambda>v.
     (let actual = dump_entity E v (element_name E);
          expected = (case ca_expected_entity a of None \<Rightarrow> body | Some x \<Rightarrow> dump_entity E x (element_name E)) in
     bindE (if ca_compare a then lift_res (compare_parsed E expected actual) else ret True) (\<lambda>same.
     if \<not> same then ret False
     else if ca_async a then ret True
     else
       bindE (lift_res (parse E actual)) (\<lambda>v'.
       bindE (lift_res (getattr v' ''id'')) (\<lambda>i.
       bindE (rest_find E i ''id'' False collection False []) (\<lambda>_. ret True))))))"

definition create_href :: "'w rest_env \<Rightarrow> create_args \<Rightarrow> exn + string" where
  "create_href E a =
     (if ca_collection a = [] then
        (case dict_getitem (links E) (collection_name E) of Inl e \<Rightarrow> Inl e | Inr h \<Rightarrow> Inr (with_max E h))
      else Inr (with_max E (ca_collection a)))"

definition create_url :: "'w rest_env \<Rightarrow> create_args \<Rightarrow> string \<Rightarrow> string" where
  "create_url E a href =
     with_operations
       (build_url href (ordered E [(''current'', ca_current a), (''deploy_hosted_engine'', ca_deploy_hosted_engine a)]))
       (ca_operations a)"

definition rest_create :: "'w rest_env \<Rightarrow> pyval \<Rightarrow> bool \<Rightarrow> create_args \<Rightarrow> ('w rest_st, pyval \<times> bool) comp" where
  "rest_create E entity positive a =
     bindE (lift_res (create_href E a)) (\<lambda>href.
     (let elm = (if ca_coll_elm_name a = [] then element_name E else ca_coll_elm_name a);
          body = dump_entity E entity elm in
     bindE (correlationIdContext E Op_create (send E (''POST'', create_url E a href, Some body))) (\<lambda>r.
     if \<not> responseCodesMatch positive (ca_expected_pos a) (ca_expected_neg a) r then ret (PNone, False)
     else if \<not> (case ca_validate a of None \<Rightarrow> run_validate E | Some b \<Rightarrow> b) then ret (PNone, True)
     else
       bindE (rest_get E (Some href) (get_default\<lparr>ga_elm := elm\<rparr>)) (\<lambda>collection.
       if positive \<and> ret_body r = [] then ret (PStr (ret_body r), True)
       else
         bindE (if positive then check_created E a body collection r else ret True) (\<lambda>ok.
         if \<not> ok then ret (PNone, False)
         else
           bindE (validateResponseViaXSD E href r) (\<lambda>_.
           bindE (lift_res (parse E (ret_body r))) (\<lambda>v. ret (v, True))))))))"

record update_args =
  ua_expected_pos :: "int list"
  ua_expected_neg :: "int list"
  ua_current :: bool
  ua_compare :: bool

definition rest_update ::
  "'w rest_env \<Rightarrow> pyval \<Rightarrow> pyval \<Rightarrow> bool \<Rightarrow> update_args \<Rightarrow> ('w rest_st, pyval \<times> bool) comp" where
  "rest_update E origEntity newEntity positive a =
     (let body = dump_entity E newEntity (element_name E) in
     bindE (lift_res (getattr origEntity ''href'')) (\<lambda>hv.
     bindE (lift_res (as_string hv)) (\<lambda>href.
     bindE (correlationIdContext E Op_update
              (send E (''PUT'', build_url href [(''current'', ua_current a)], Some body))) (\<lambda>r.
     if \<not> responseCodesMatch positive (ua_expected_pos a) (ua_expected_neg a) r then ret (PNone, False)
     else if \<not> run_validate E then ret (PNone, True)
     else
       bindE (if positive \<and> ua_compare a then lift_res (compare_parsed E body (ret_body r)) else ret True) (\<lambda>same.
       if \<not> same then ret (PNone, False)
       else
         bindE (validateResponseViaXSD E href r) (\<lambda>_.
         bindE (lift_res (parse E (ret_body r))) (\<lambda>v. ret (v, True))))))))"

definition rest_delete ::
  "'w rest_env \<Rightarrow> pyval \<Rightarrow> bool \<Rightarrow> int list \<Rightarrow> int list \<Rightarrow> string list \<Rightarrow> ('w rest_st, bool) comp" where
  "rest_delete E entity positive expected_pos expected_neg operations =
     bindE (lift_res (getattr entity ''href'')) (\<lambda>hv.
     bindE (lift_res (as_string hv)) (\<lambda>href0.
     (let href = with_operations href0 operations in
     bindE (correlationIdContext E Op_delete (send E (''DELETE'', href, None))) (\<lambda>r.
     if \<not> responseCodesMatch positive expected_pos expected_neg r then ret False
     else if \<not> run_validate E then ret True
     else bindE (validateResponseViaXSD E href r) (\<lambda>_. ret True)))))"

section \<open>Actions\<close>

text \<open>\<open>x.get_link()\<close> of an element, and \<open>(rel, href)\<close> of each link.\<close>

definition get_links :: "pyval \<Rightarrow> exn + pyval list" where
  "get_links v =
     (case getattr v ''link'' of Inl e \<Rightarrow> Inl e | Inr ls \<Rightarrow> py_iter ls)"

fun find_link :: "string \<Rightarrow> pyval list \<Rightarrow> exn + pyval option" where
  "find_link rel [] = Inr None"
| "find_link rel (l # ls) =
     (case getattr l ''rel'' of
        Inl e \<Rightarrow> Inl e
      | Inr r \<Rightarrow> if r = PStr rel then Inr (Some l) else find_link rel ls)"

text \<open>\<open>filter\<close> reads the relation of every link before the first match is taken.\<close>

fun link_rels :: "pyval list \<Rightarrow> exn + pyval list" where
  "link_rels [] = Inr []"
| "link_rels (l # ls) =
     (case getattr l ''rel'' of
        Inl e \<Rightarrow> Inl e
      | Inr r \<Rightarrow> (case link_rels ls of Inl e \<Rightarrow> Inl e | Inr rs \<Rightarrow> Inr (r # rs)))"

definition action_link :: "pyval \<Rightarrow> string \<Rightarrow> exn + string" where
  "action_link entity action =
     (case getattr entity ''actions'' of
        Inl e \<Rightarrow> Inl e
      | Inr acts \<Rightarrow>
          (case get_links acts of
             Inl e \<Rightarrow> Inl e
           | Inr ls \<Rightarrow>
               (case link_rels ls of
                  Inl e \<Rightarrow> Inl e
                | Inr rels \<Rightarrow>
                    (case filter (\<lambda>(l, r). r = PStr action) (zip ls rels) of
                       [] \<Rightarrow> Inl IndexError
                     | (l, r) # _ \<Rightarrow> (case getattr l ''href'' of Inl e \<Rightarrow> Inl e | Inr h \<Rightarrow> as_string h)))))"

record action_args =
  aa_positive_async :: "int list"
  aa_positive_sync :: "int list"
  aa_negative :: "int list"
  aa_async :: pyval
  aa_operations :: "string list"
  aa_params :: "(string \<times> pyval) list"

definition action_default :: action_args where
  "action_default = \<lparr>aa_positive_async = [200, 202], aa_positive_sync = POSITIVE_CODES,
     aa_negative = NEGATIVE_CODES, aa_async = PBool False, aa_operations = [], aa_params = []\<rparr>"

definition kw_truthy :: "(string \<times> pyval) list \<Rightarrow> string \<Rightarrow> bool" where
  "kw_truthy kw k = (case map_of kw k of None \<Rightarrow> False | Some v \<Rightarrow> truthy v)"

definition action_url :: "'w rest_env \<Rightarrow> action_args \<Rightarrow> string \<Rightarrow> string" where
  "action_url E a href =
     (let p = ''/'' @ entry_point E;
          h = (if startswith href (p @ ''/'') then href else p @ href)
      in with_operations
           (build_url h (ordered E
              [(''deploy_hosted_engine'', kw_truthy (aa_params a) ''deploy_hosted_engine''),
               (''undeploy_hosted_engine'', kw_truthy (aa_params a) ''undeploy_hosted_engine'')]))
           (aa_operations a))"

definition opt_str :: "string option \<Rightarrow> pyval" where
  "opt_str v = (case v of None \<Rightarrow> PNone | Some s \<Rightarrow> PStr s)"

definition api_error :: "string \<Rightarrow> int \<Rightarrow> string option \<Rightarrow> pyval" where
  "api_error reason status detail =
     PObj ''api_error'' [(''reason'', PStr reason), (''status'', PInt status), (''detail'', opt_str detail)]"

definition check_action ::
  "'w rest_env \<Rightarrow> pyval \<Rightarrow> string \<Rightarrow> bool \<Rightarrow> action_args \<Rightarrow> string \<Rightarrow> api_ret \<Rightarrow> ('w rest_st, pyval) comp" where
  "check_action E entity action positive a url r =
     (case parse E (ret_body r) of
        Inl e \<Rightarrow> if isinstance e XMLSyntaxError then ret PNone else raise e
      | Inr resp \<Rightarrow>
          if \<not> positive then
            (case ret_reason r of
               None \<Rightarrow> raise KeyError
             | Some reason \<Rightarrow> ret (api_error reason (ret_status r) (parse_detail r)))
          else
            bindE (if truthy resp then
                bindE (lift_res (getattr resp ''status'')) (\<lambda>st. ret (compareAsyncActionStatus (truthy (aa_async a)) st))
              else ret True) (\<lambda>ok.
            if \<not> ok then ret PNone
            else bindE (validateResponseViaXSD E url r) (\<lambda>_. ret (PStr (ret_body r)))))"

definition syncAction ::
  "'w rest_env \<Rightarrow> pyval \<Rightarrow> string \<Rightarrow> bool \<Rightarrow> action_args \<Rightarrow> ('w rest_st, pyval) comp" where
  "syncAction E entity action positive a =
     bindE (lift_res (action_link entity action)) (\<lambda>href.
     (let url = action_url E a href;
          body = dump_entity E (makeAction (new_ds E) (aa_async a) 10 (aa_params a)) ''action'' in
     bindE (correlationIdContext E Op_syncAction (send E (''POST'', url, Some body))) (\<lambda>r.
     if \<not> responseCodesMatch positive (if truthy (aa_async a) then aa_positive_async a else aa_positive_sync a)
            (aa_negative a) r then ret PNone
     else if \<not> run_validate E then ret (PStr (ret_body r))
     else check_action E entity action positive a url r)))"

text \<open>
  \<open>compareActionLink\<close> at the end of \<open>syncAction\<close> looks for the action among the links the
  first line took it from, so it is always found; \<open>action_link_listed\<close> below shows it.
\<close>

section \<open>Attributes of a response, linked elements\<close>

text \<open>
  \<open>re.findall('<a>(.*)</a>', response)\<close>: the dot does not match a newline and is greedy, so
  a line gives at most one match, from its first opening to its last closing tag.
\<close>

fun last_index :: "string \<Rightarrow> string \<Rightarrow> nat option" where
  "last_index [] p = (if p = [] then Some 0 else None)"
| "last_index (c # s) p =
     (case last_index s p of
        Some k \<Rightarrow> Some (k + 1)
      | None \<Rightarrow> if startswith (c # s) p then Some 0 else None)"

definition match_line :: "string \<Rightarrow> string \<Rightarrow> string \<Rightarrow> string list" where
  "match_line start fin line =
     (let i = str_find line start in
      if i < 0 then []
      else (let t = drop (nat i + length start) line in
            case last_index t fin of None \<Rightarrow> [] | Some k \<Rightarrow> [take k t]))"

definition extract_attribute :: "string \<Rightarrow> string \<Rightarrow> string list option" where
  "extract_attribute response attr =
     (if response \<noteq> [] \<and> attr \<noteq> [] then
        Some (concat (map (match_line (''<'' @ attr @ ''>'') (''</'' @ attr @ ''>'')) (split_on response [CHR 0x0A])))
      else None)"

definition follow_link ::
  "'w rest_env \<Rightarrow> pyval \<Rightarrow> string \<Rightarrow> string \<Rightarrow> bool \<Rightarrow> ('w rest_st, pyval) comp" where
  "follow_link E elm link_name attr get_href =
     (let no_results = (if get_href then PNone else PList []) in
     bindE (lift_res (get_links elm)) (\<lambda>ls.
     bindE (lift_res (find_link link_name ls)) (\<lambda>found.
     (case found of
        None \<Rightarrow> ret no_results
      | Some l \<Rightarrow>
          bindE (lift_res (getattr l ''href'')) (\<lambda>h.
          if get_href then ret h
          else
            bindE (lift_res (as_string h)) (\<lambda>href.
            bindE (rest_get E (Some href) get_default) (\<lambda>content.
            if \<not> truthy content then ret no_results
            else (case content of
                PList xs \<Rightarrow> ret content
              | _ \<Rightarrow> if class_name content = ''Fault'' then raise EntityNotFound
                     else lift_res (getattr content attr))))))))) "

definition getElemFromLink ::
  "'w rest_env \<Rightarrow> pyval \<Rightarrow> string \<Rightarrow> string \<Rightarrow> bool \<Rightarrow> bool \<Rightarrow> ('w rest_st, pyval) comp" where
  "getElemFromLink E elm link_name attr get_href all_content =
     all_content_context all_content
       (follow_link E elm (if link_name = [] then collection_name E else link_name)
          (if attr = [] then element_name E else attr) get_href)"

definition rest_getElemFromElemColl ::
  "'w rest_env \<Rightarrow> pyval \<Rightarrow> pyval \<Rightarrow> string \<Rightarrow> string \<Rightarrow> string \<Rightarrow> bool \<Rightarrow> ('w rest_st, pyval) comp" where
  "rest_getElemFromElemColl E =
     getElemFromElemColl (\<lambda>n v. upd_headers (\<lambda>hs. dict_set hs n v))
       (\<lambda>elm coll attr. getElemFromLink E elm coll attr False False) (element_name E, collection_name E)"

section \<open>Waiting for a status\<close>

text \<open>
  One look at the element: its status in lower case, or \<open>None\<close> for an element without one.
\<close>

fun lower_of :: "pyval \<Rightarrow> exn + string" where
  "lower_of (PStr s) = Inr (lower s)"
| "lower_of v = Inl AttributeError"

definition elem_status :: "pyval \<Rightarrow> exn + string option" where
  "elem_status v =
     (case getattr_opt v ''snapshot_status'' of
        Some st \<Rightarrow> (case lower_of st of Inl e \<Rightarrow> Inl e | Inr s \<Rightarrow> Inr (Some s))
      | None \<Rightarrow>
          (case getattr_opt v ''status'' of
             Some st \<Rightarrow> (case lower_of st of Inl e \<Rightarrow> Inl e | Inr s \<Rightarrow> Inr (Some s))
           | None \<Rightarrow> Inr None))"

definition is_final :: "string \<Rightarrow> bool" where
  "is_final st \<longleftrightarrow> contains st ''fail'' \<or> st = ''up''"

definition refresh :: "'w rest_env \<Rightarrow> pyval \<Rightarrow> ('w rest_st, pyval) comp" where
  "refresh E elm =
     bindE (lift_res (getattr elm ''href'')) (\<lambda>h.
     bindE (lift_res (as_string h)) (\<lambda>href. rest_get E (Some href) get_default))"

definition wait_pause :: "'w rest_env \<Rightarrow> ('w rest_st, unit) comp" where
  "wait_pause E = on_world (\<lambda>w. ((), do_sleep E DEF_SLEEP w))"

function wait_loop ::
  "'w rest_env \<Rightarrow> string list \<Rightarrow> int \<Rightarrow> bool \<Rightarrow> pyval \<Rightarrow> int \<Rightarrow> ('w rest_st, bool) comp" where
  "wait_loop E wanted limit ignoreFinalStates elm handleTimeout =
     (if limit < handleTimeout then ret False
      else
        bindE (refresh E elm) (\<lambda>elm'.
        bindE (lift_res (elem_status elm')) (\<lambda>st.
        (case st of
           None \<Rightarrow> ret False
         | Some elemStat \<Rightarrow>
             if elemStat \<in> set wanted then ret True
             else if is_final elemStat \<and> \<not> ignoreFinalStates then ret False
             else bindE (wait_pause E) (\<lambda>_.
                  wait_loop E wanted limit ignoreFinalStates elm' (handleTimeout + DEF_SLEEP))))))"
  by pat_completeness auto
termination
  by (relation "measure (\<lambda>(E, wanted, limit, ig, elm, t). nat (limit + 1 - t))")
    (auto simp: DEF_SLEEP_def)

declare wait_loop.simps [simp del]

text \<open>The last message names \<open>elemStat\<close>, which is unbound when the loop never ran.\<close>

definition waitForElemStatus ::
  "'w rest_env \<Rightarrow> pyval \<Rightarrow> string \<Rightarrow> int \<Rightarrow> bool \<Rightarrow> ('w rest_st, bool) comp" where
  "waitForElemStatus E restElement status limit ignoreFinalStates =
     (if limit < 0 then raise UnboundLocalError
      else wait_loop E (split_ws (lower status)) limit ignoreFinalStates restElement 0)"

section \<open>The headers interface\<close>

lemma keeps_on_api [keeps_intros]: "keeps headers m \<Longrightarrow> keeps api_headers (on_api m)"
  by (auto simp: keeps_def on_api_def api_headers_def split: prod.split) (metis snd_conv)

interpretation rest: header_api "send E" api_headers upd_headers for E
proof unfold_locales
  show "keeps api_headers (send E q)" for q
    unfolding send_def by (intro keeps_on_api proxy.request_keeps)
qed (simp add: api_headers_def upd_headers_def)

lemma keeps_send [keeps_intros]: "keeps api_headers (send E q)"
  by (rule rest.request_keeps)

lemma keeps_on_world [keeps_intros]: "keeps api_headers (on_world f)"
  by (rule keepsI) (simp add: on_world_def api_headers_def split: prod.split)

lemma keeps_xsd [keeps_intros]: "keeps api_headers (validateResponseViaXSD E href r)"
  unfolding validateResponseViaXSD_def
  by (intro keeps_intros) (simp add: keeps_def modify_def api_headers_def)

text \<open>The runtime headers are \<open>H\<close>, as a map, and hold neither of the transient ones.\<close>

definition headers_are :: "(string \<rightharpoonup> string) \<Rightarrow> 'w rest_st \<Rightarrow> bool" where
  "headers_are H s \<longleftrightarrow> map_of (api_headers s) = H"

lemma keeps_headers_are: "keeps api_headers m \<Longrightarrow> preserves (headers_are H) m"
  by (simp add: keeps_def preserves_def headers_are_def)

lemma preserves_send [preserves_intros]: "preserves (headers_are H) (send E q)"
  and preserves_on_world [preserves_intros]: "preserves (headers_are H) (on_world f)"
  and preserves_xsd [preserves_intros]: "preserves (headers_are H) (validateResponseViaXSD E href r)"
  by (intro keeps_headers_are keeps_intros)+

lemma preserves_with_header:
  assumes "H n = None" and "keeps api_headers m"
  shows "preserves (headers_are H) (with_header api_headers upd_headers n v m)"
  using assms rest.with_header_headers [OF assms(2), of n v]
  by (auto simp: preserves_def headers_are_def)

lemma preserves_correlation [preserves_intros]:
  "H ''Correlation-Id'' = None \<Longrightarrow> preserves (headers_are H) (correlationIdContext E p (send E q))"
  unfolding correlationIdContext_def
  by (intro preserves_intros preserves_with_header keeps_intros)

lemma preserves_get:
  "ga_custom_headers a = [] \<Longrightarrow> preserves (headers_are H) (rest_get E href a)"
  unfolding rest_get_def Let_def
  by (intro preserves_intros)
    (auto intro!: preserves_intros simp: preserves_def modify_def headers_are_def api_headers_def
      upd_headers_def dict_update_def ret_def raise_def split: sum.split)

lemma preserves_get_default [preserves_intros]:
  "preserves (headers_are H) (rest_get E href get_default)"
  "preserves (headers_are H) (rest_get E href (get_default\<lparr>ga_elm := e\<rparr>))"
  by (intro preserves_get; simp add: get_default_def)+

lemma preserves_find [preserves_intros]:
  "preserves (headers_are H) (rest_find E val attribute abs_link collection False kwargs)"
  unfolding rest_find_def Let_def if_False by (intro preserves_intros)

lemma preserves_all_content:
  "H ''All-content'' = None \<Longrightarrow> keeps api_headers m \<Longrightarrow> preserves (headers_are H) (all_content_context b m)"
  unfolding all_content_context_def by (auto intro: preserves_with_header keeps_headers_are)

lemma keeps_get_default [keeps_intros]: "keeps api_headers (rest_get E href get_default)"
proof -
  have "keeps api_headers (modify (upd_headers (\<lambda>hs. dict_update hs (ga_custom_headers get_default))))"
    by (simp add: keeps_def modify_def get_default_def dict_update_def api_headers_def upd_headers_def)
  then show ?thesis
    unfolding rest_get_def Let_def
    by (intro keeps_intros) (auto intro!: keeps_intros split: sum.split)
qed

lemma keeps_follow_link [keeps_intros]: "keeps api_headers (follow_link E elm link_name attr get_href)"
  unfolding follow_link_def Let_def
  by (intro keeps_intros) (auto intro!: keeps_intros split: option.split pyval.split)

lemma preserves_check_created [preserves_intros]:
  "preserves (headers_are H) (check_created E a body collection r)"
  unfolding check_created_def Let_def by (intro preserves_intros)

lemma preserves_check_action [preserves_intros]:
  "preserves (headers_are H) (check_action E entity action positive a url r)"
  unfolding check_action_def
  by (auto intro!: preserves_intros split: sum.split option.split)

text \<open>
  C4. The transient headers do not outlive their request: an instance whose runtime
  headers have neither a correlation id nor \<open>All-content\<close> has the same runtime headers
  after every create, update, delete, action, query and link lookup, whatever the server
  answers and whether the operation returns or raises.
\<close>

theorem transient_headers_removed:
  assumes "map_of (api_headers s) ''Correlation-Id'' = None" and "map_of (api_headers s) ''All-content'' = None"
  shows "map_of (api_headers (snd (rest_create E entity positive ca s))) = map_of (api_headers s) \<and>
    map_of (api_headers (snd (rest_update E orig entity positive ua s))) = map_of (api_headers s) \<and>
    map_of (api_headers (snd (rest_delete E entity positive pos neg ops s))) = map_of (api_headers s) \<and>
    map_of (api_headers (snd (syncAction E entity action positive aa s))) = map_of (api_headers s) \<and>
    map_of (api_headers (snd (rest_query E constraint qa s))) = map_of (api_headers s) \<and>
    map_of (api_headers (snd (getElemFromLink E entity coll attr get_href all_content s))) = map_of (api_headers s)"
proof -
  let ?P = "headers_are (map_of (api_headers s))"
  note ih = preserves_intros assms(1)
  have "preserves ?P (rest_create E entity positive ca)"
    unfolding rest_create_def Let_def by (intro ih)
  moreover have "preserves ?P (rest_update E orig entity positive ua)"
    unfolding rest_update_def Let_def by (intro ih)
  moreover have "preserves ?P (rest_delete E entity positive pos neg ops)"
    unfolding rest_delete_def Let_def by (intro ih)
  moreover have "preserves ?P (syncAction E entity action positive aa)"
    unfolding syncAction_def Let_def by (intro ih)
  moreover have "preserves ?P (rest_query E constraint qa)"
    unfolding rest_query_def by (intro ih preserves_all_content assms(2) keeps_intros)
  moreover have "preserves ?P (getElemFromLink E entity coll attr get_href all_content)"
    unfolding getElemFromLink_def by (intro preserves_all_content assms(2) keeps_intros)
  ultimately show ?thesis
    unfolding preserves_def headers_are_def by simp
qed

section \<open>Finding an entity\<close>

definition satisfies :: "(string \<times> pyval) list \<Rightarrow> pyval \<Rightarrow> bool" where
  "satisfies kwargs r \<longleftrightarrow>
     (\<forall>(path, value) \<in> set kwargs. \<exists>v. getattr_chain (split_on path ''.'') r = Inr v \<and> py_eq v value)"

lemma filter_chain_Inr:
  "filter_chain path val rs = Inr out \<Longrightarrow>
     out = filter (\<lambda>r. \<exists>v. getattr_chain path r = Inr v \<and> py_eq v val) rs"
  by (induction rs arbitrary: out) (auto split: sum.splits)

lemma satisfies_Cons:
  "satisfies ((attr, v) # kw) r \<longleftrightarrow>
     (\<exists>x. getattr_chain (split_on attr ''.'') r = Inr x \<and> py_eq x v) \<and> satisfies kw r"
  by (simp add: satisfies_def)

lemma filter_kwargs_Inr: "filter_kwargs kwargs rs = Inr out \<Longrightarrow> out = filter (satisfies kwargs) rs"
proof (induction kwargs rs rule: filter_kwargs.induct)
  case (2 attr v kw rs)
  then obtain rs' where "filter_chain (split_on attr ''.'') v rs = Inr rs'" and "out = filter (satisfies kw) rs'"
    by (auto split: sum.splits)
  then show ?case
    by (auto dest!: filter_chain_Inr simp: satisfies_Cons conj_commute)
qed (simp add: satisfies_def)

lemma getattr_chain_error: "getattr_chain path v = Inl e \<Longrightarrow> e = AttributeError"
  by (induction path v rule: getattr_chain.induct) (auto simp: getattr_def split: sum.splits option.splits)

lemma filter_chain_error: "filter_chain path val rs = Inl e \<Longrightarrow> e = AttributeError"
  by (induction rs) (auto split: sum.splits dest: getattr_chain_error)

lemma filter_kwargs_error: "filter_kwargs kwargs rs = Inl e \<Longrightarrow> e = AttributeError"
  by (induction kwargs rs rule: filter_kwargs.induct) (auto split: sum.splits dest: filter_chain_error)

text \<open>
  C5. \<open>find\<close> decides uniqueness. Looking in a given non-empty collection it sends nothing,
  and: an entity comes back only if it is the one element that meets all conditions;
  \<open>EntityNotFound\<close> means that none does and \<open>MoreThanOneEntitiesFound\<close> that two or more
  do; the only other errors are a missing link and an element without the attribute.
\<close>

theorem rest_find_unique:
  assumes "rest_find E val attribute abs_link (PList (x # xs)) False kwargs s = (res, s')"
    and "CHR ''.'' \<notin> set attribute"
  shows "s' = s \<and>
    (let good = filter (satisfies ((attribute, val) # kwargs)) (x # xs) in
     case res of
       Inr r \<Rightarrow> good = [r]
     | Inl e \<Rightarrow> e = EntityNotFound \<and> good = [] \<or> e = MoreThanOneEntitiesFound \<and> 2 \<le> length good \<or>
         e = AttributeError \<or> (e = KeyError \<and> abs_link \<and> map_of (links E) (collection_name E) = None))"
proof -
  have one: "split_on attribute ''.'' = [attribute]"
    using split_acc_no_sep(2) [OF assms(2)] by (simp add: split_on_def)
  have run: "rest_find E val attribute abs_link (PList (x # xs)) False kwargs s =
      (case (if abs_link then dict_getitem (links E) (collection_name E) else Inr (collection_name E)) of
         Inl e \<Rightarrow> (Inl e, s)
       | Inr _ \<Rightarrow> (case filter_kwargs ((attribute, val) # kwargs) (x # xs) of
           Inl e \<Rightarrow> (Inl e, s) | Inr rs \<Rightarrow> (pick_unique rs, s)))"
    by (simp add: rest_find_def comp_simps Let_def one split: sum.split)
  show ?thesis
  proof (cases "filter_kwargs ((attribute, val) # kwargs) (x # xs)")
    case (Inl e)
    with filter_kwargs_error [OF Inl] run assms(1) show ?thesis
      by (auto simp: Let_def dict_getitem_def split: if_splits sum.splits option.splits)
  next
    case (Inr rs)
    with filter_kwargs_Inr [OF Inr] run assms(1) show ?thesis
      by (auto simp: Let_def dict_getitem_def pick_unique_def split: if_splits sum.splits option.splits list.splits)
  qed
qed

text \<open>
  The \<open>All-content\<close> header of \<open>find\<close> is never taken back: after a \<open>find\<close> with
  \<open>all_content\<close>, found or not, the header stays set for the requests that follow.
\<close>

theorem find_leaves_all_content:
  "map_of (api_headers (snd (rest_find E val attribute abs_link collection True kwargs s))) ''All-content'' = Some ''True''"
proof -
  let ?H = "(map_of (api_headers s))(''All-content'' \<mapsto> ''True'')"
  let ?s = "upd_headers (\<lambda>hs. dict_set hs ''All-content'' ''True'') s"
  have "headers_are ?H ?s" by (simp add: headers_are_def rest.get_upd)
  moreover have "rest_find E val attribute abs_link collection True kwargs s =
      rest_find E val attribute abs_link collection False kwargs ?s"
    by (simp add: rest_find_def comp_simps)
  ultimately have "headers_are ?H (snd (rest_find E val attribute abs_link collection True kwargs s))"
    using preserves_find [of ?H] unfolding preserves_def by metis
  then show ?thesis by (simp add: headers_are_def)
qed

section \<open>Witnesses\<close>

definition demo_rest :: "nat rest_env" where
  "demo_rest = \<lparr>srv = demo_srv, codec_of = id_codec, do_sleep = (\<lambda>d w. w), short_guid = (\<lambda>w. (''guid'', w)),
     element_name = ''vm'', collection_name = ''vms'', links = [(''vms'', ''/api/vms'')], max_collection = Some ''100'',
     entry_point = ''api'', run_validate = True, configured_id = None, kw_order = id,
     parse = (\<lambda>s. if s = [] then Inl XMLSyntaxError else Inr (PObj ''VM'' [(''status'', PStr s)])),
     dump_entity = (\<lambda>v n. ''<'' @ n @ ''/>''), xsd_check = (\<lambda>s. Xsd_valid),
     template_sub = (\<lambda>t ps. t), new_ds = (\<lambda>c. PObj c []), compare_env = demo_env\<rparr>"

definition demo_rest_st :: "nat rest_st" where
  "demo_rest_st = \<lparr>api = demo_st 0 (Some ''c:admin@internal''), xsd_schema_errors = []\<rparr>"

theorem transient_headers_removed_witness:
  "map_of (api_headers (snd (rest_delete demo_rest (PObj ''VM'' [(''href'', PStr ''/api/vms/1'')]) True [200] [404] [] demo_rest_st)))
     = map_of (api_headers demo_rest_st)"
  using transient_headers_removed [of demo_rest_st demo_rest]
  by (simp add: demo_rest_st_def api_headers_def demo_st_def HTTPProxy_def demo_opts_def)

definition demo_vms :: "pyval list" where
  "demo_vms = [PObj ''VM'' [(''name'', PStr ''a''), (''cluster'', PObj ''Cluster'' [(''id'', PStr ''1'')])],
     PObj ''VM'' [(''name'', PStr ''b''), (''cluster'', PObj ''Cluster'' [(''id'', PStr ''1'')])],
     PObj ''VM'' [(''name'', PStr ''a''), (''cluster'', PObj ''Cluster'' [(''id'', PStr ''2'')])]]"

lemma demo_find:
  "rest_find demo_rest (PStr ''a'') ''name'' True (PList demo_vms) False [(''cluster.id'', PStr ''2'')] demo_rest_st =
     (Inr (demo_vms ! 2), demo_rest_st)"
  by code_simp

theorem rest_find_unique_witness:
  "filter (satisfies [(''name'', PStr ''a''), (''cluster.id'', PStr ''2'')]) demo_vms = [demo_vms ! 2]"
proof -
  have vms: "demo_vms = hd demo_vms # tl demo_vms" by (simp add: demo_vms_def)
  from rest_find_unique [of demo_rest "PStr ''a''" "''name''" True "hd demo_vms" "tl demo_vms", folded vms, OF demo_find]
  show ?thesis by (simp add: Let_def)
qed

end
