(* ===== verification/Rest_Verdicts.thy ===== *)
theory Rest_Verdicts
  imports Rest
begin

text \<open>
  What the answers of \<open>RestUtil\<close> mean: the texts cut out of a response, the verdicts of
  positive creates and actions, the wait for a status with its bounds, and the login that
  shares one proxy between all instances of the class.
\<close>

section \<open>Texts of a response\<close>

lemma startswith_append_long: "length p \<le> length x \<Longrightarrow> startswith (x @ y) p \<longleftrightarrow> startswith x p"
  by (simp add: startswith_def)

lemma split_acc_first:
  assumes "sep \<noteq> []" and "\<not> contains (a @ butlast sep) sep"
  shows "split_acc sep acc (a @ sep @ t) = (rev acc @ a) # split_acc sep [] t"
  using assms(2)
proof (induction a arbitrary: acc)
  case Nil
  obtain c s where sep: "sep = c # s" using assms(1) by (cases sep) auto
  then have "startswith (sep @ t) sep" by (simp add: startswith_iff)
  then show ?case using sep by simp
next
  case (Cons c a)
  have "length sep \<le> length ((c # a) @ butlast sep)" using assms(1) by simp
  moreover have "(c # a) @ sep @ t = ((c # a) @ butlast sep) @ [last sep] @ t"
    using assms(1) by simp
  ultimately have "startswith ((c # a) @ sep @ t) sep \<longleftrightarrow> startswith ((c # a) @ butlast sep) sep"
    using startswith_append_long by metis
  with Cons.prems have "\<not> startswith (c # (a @ sep @ t)) sep" by auto
  with Cons show ?case by simp
qed

lemma contains_before:
  assumes "c \<notin> set u" and "contains (p @ u) (q @ [c])"
  shows "contains p (q @ [c])"
proof -
  from assms(2) obtain x y where "p @ u = (x @ q @ [c]) @ y" unfolding contains_iff by auto
  from this [THEN append_eq_append_conv2 [THEN iffD1]]
  consider us where "p = (x @ q @ [c]) @ us" | us where "p @ us = x @ q @ [c]" "u = us @ y"
    by blast
  then show ?thesis
  proof cases
    case 1
    then have "p = x @ (q @ [c]) @ us" by simp
    then show ?thesis unfolding contains_iff by blast
  next
    case 2
    have "us = []"
    proof (rule ccontr)
      assume "us \<noteq> []"
      then have "last us = last (p @ us)" by simp
      also have "\<dots> = c" using 2(1) by simp
      finally show False using 2(2) assms(1) \<open>us \<noteq> []\<close> by auto
    qed
    with 2 have "p = x @ (q @ [c]) @ []" by simp
    then show ?thesis unfolding contains_iff by blast
  qed
qed

text \<open>
  The detail of a fault round trips: from a body with one \<open>detail\<close> element
  \<open>parse_detail\<close> returns exactly the text of the element, provided neither the text
  before it nor the detail itself contains \<open>detail>\<close>.
\<close>

theorem parse_detail_roundtrip:
  assumes "ret_body r = before @ ''<detail>'' @ d @ ''</detail>'' @ after"
    and "\<not> contains before ''detail>''" and "\<not> contains d ''detail>''"
  shows "parse_detail r = Some d"
proof -
  let ?sep = "''detail>''"
  have none: "\<not> contains ((w @ u) @ butlast ?sep) ?sep" if "\<not> contains w ?sep" "u \<in> {''<'', ''</''}" for w u
    using contains_before [of "CHR ''>''" "u @ ''detail''" w "''detail''"] that by auto
  have "split_acc ?sep [] ((before @ ''<'') @ ?sep @ ((d @ ''</'') @ ?sep @ after)) =
      (before @ ''<'') # (d @ ''</'') # split_acc ?sep [] after"
    using split_acc_first [OF _ none [OF assms(2), of "''<''"]] split_acc_first [OF _ none [OF assms(3), of "''</''"]]
    by simp
  moreover have "ret_body r = (before @ ''<'') @ ?sep @ ((d @ ''</'') @ ?sep @ after)"
    using assms(1) by simp
  ultimately have "split_on (ret_body r) ?sep = (before @ ''<'') # (d @ ''</'') # split_acc ?sep [] after"
    by (simp only: split_on_def)
  then show ?thesis
    by (simp add: parse_detail_def slice_to_def norm_index_def)
qed

text \<open>The greedy match of one line.\<close>

definition tag :: "string \<Rightarrow> string \<Rightarrow> string" where
  "tag attr v = ''<'' @ attr @ ''>'' @ v @ ''</'' @ attr @ ''>''"

lemma last_index_append:
  assumes "p \<noteq> []"
  shows "last_index (x @ p) p = Some (length x)"
proof (induction x)
  case Nil
  have "last_index (tl p) p = None" for q
  proof -
    have "last_index s p = None" if "length s < length p" for s
      using that by (induction s) (auto simp: assms startswith_def)
    then show ?thesis using assms by simp
  qed
  then show ?case using assms by (cases p) (auto simp: startswith_def)
qed auto

lemma match_line_tag:
  assumes "attr \<noteq> []" and "\<And>c. c \<in> set indent \<Longrightarrow> c \<noteq> CHR ''<''"
  shows "match_line (''<'' @ attr @ ''>'') (''</'' @ attr @ ''>'') (indent @ tag attr v) = [v]"
proof -
  have pos: "str_find (indent @ tag attr v) (''<'' @ attr @ ''>'') = int (length indent)"
    using assms(2)
  proof (induction indent)
    case Nil
    then show ?case by (simp add: tag_def startswith_def)
  next
    case (Cons c indent)
    then show ?case by (auto simp: Let_def)
  qed
  have "drop (nat (int (length indent)) + length (''<'' @ attr @ ''>'')) (indent @ tag attr v) = v @ ''</'' @ attr @ ''>''"
    by (simp add: tag_def)
  moreover have "last_index (v @ ''</'' @ attr @ ''>'') (''</'' @ attr @ ''>'') = Some (length v)"
    by (rule last_index_append) simp
  ultimately show ?thesis unfolding match_line_def Let_def pos by simp
qed

text \<open>
  From a response that has each element on a line of its own, in any indentation,
  \<open>extract_attribute\<close> returns the values of all elements, in order.
\<close>

theorem extract_attribute_lines:
  assumes "attr \<noteq> []" and "rows \<noteq> []" and "CHR 0x0A \<notin> set attr"
    and "\<forall>(indent, v) \<in> set rows. CHR ''<'' \<notin> set indent \<and> CHR 0x0A \<notin> set indent \<union> set v"
  shows "extract_attribute (join [CHR 0x0A] (map (\<lambda>(indent, v). indent @ tag attr v) rows)) attr = Some (map snd rows)"
proof -
  let ?line = "\<lambda>(indent, v). indent @ tag attr v"
  have "split_on (join [CHR 0x0A] (map ?line rows)) [CHR 0x0A] = map ?line rows"
    using assms by (intro split_on_join) (auto simp: tag_def)
  moreover have "concat (map (match_line (''<'' @ attr @ ''>'') (''</'' @ attr @ ''>'')) (map ?line rows)) = map snd rows"
    using assms(4)
  proof (induction rows)
    case (Cons row rows)
    obtain indent v where "row = (indent, v)" by (cases row)
    with Cons match_line_tag [OF assms(1), of indent v] show ?case by auto
  qed simp
  moreover have "join [CHR 0x0A] (map ?line rows) \<noteq> []"
    using assms(2) by (cases rows; cases "tl rows") (auto simp: tag_def split: prod.splits)
  ultimately show ?thesis using assms(1) by (simp only: extract_attribute_def) simp
qed

text \<open>
  Elements on one line are merged: the match is greedy, so of two elements on a line
  the answer is one string that reaches from the first value to the last, tags included.
\<close>

theorem extract_attribute_merges:
  assumes "attr \<noteq> []" and "CHR 0x0A \<notin> set (attr @ v1 @ mid @ v2)"
  shows "extract_attribute (tag attr v1 @ mid @ tag attr v2) attr =
    Some [v1 @ ''</'' @ attr @ ''>'' @ mid @ ''<'' @ attr @ ''>'' @ v2]"
proof -
  let ?v = "v1 @ ''</'' @ attr @ ''>'' @ mid @ ''<'' @ attr @ ''>'' @ v2"
  have line: "tag attr v1 @ mid @ tag attr v2 = [] @ tag attr ?v" by (simp add: tag_def)
  have "split_on (tag attr ?v) [CHR 0x0A] = [tag attr ?v]"
    using split_acc_no_sep(2) [of "CHR 0x0A" "tag attr ?v" "[]"] assms(2)
    by (auto simp: split_on_def tag_def)
  then show ?thesis
    using match_line_tag [OF assms(1), of "[]" ?v] assms(1) unfolding line extract_attribute_def
    by (simp add: tag_def)
qed

section \<open>Waiting for a status\<close>

text \<open>How many looks at the element the loop has left.\<close>

definition looks :: "int \<Rightarrow> int \<Rightarrow> nat" where
  "looks limit t = (if limit < t then 0 else nat ((limit - t) div DEF_SLEEP) + 1)"

lemma looks_step: "t \<le> limit \<Longrightarrow> looks limit t = 1 + looks limit (t + DEF_SLEEP)"
proof -
  assume t: "t \<le> limit"
  have "(limit - (t + 10)) div 10 = (limit - t) div 10 - 1"
    using div_add_self2 [of "10::int" "limit - (t + 10)"] by (simp add: algebra_simps)
  then show ?thesis using t by (auto simp: looks_def DEF_SLEEP_def nat_add_distrib)
qed

abbreviation requests :: "('w \<Rightarrow> nat) \<Rightarrow> 'w rest_st \<Rightarrow> nat" where
  "requests cnt s \<equiv> cnt (server (api s))"

lemma send_adds:
  assumes "counts_requests (srv E) cnt"
  shows "adds_at_most (requests cnt) 3 (send E q)"
proof (cases q)
  case (fields meth url body)
  show ?thesis
    using do_request_adds [OF assms, of "codec_of E" meth url body None] fields
    by (auto simp: adds_at_most_def send_def on_api_def run_request_def split: prod.split) (metis snd_conv)
qed

lemma zero_adds:
  "adds_at_most (requests cnt) 0 (modify (upd_headers f))"
  "adds_at_most (requests cnt) 0 (validateResponseViaXSD E href r)"
  by (simp_all add: adds_at_most_def comp_simps upd_headers_def validateResponseViaXSD_def)

lemma get_adds:
  assumes "counts_requests (srv E) cnt"
  shows "adds_at_most (requests cnt) 3 (rest_get E href a)"
proof -
  have "adds_at_most (requests cnt) (0 + (0 + (3 + 0))) (rest_get E href a)"
    unfolding rest_get_def Let_def
    by (intro adds_at_most_bindE send_adds [OF assms] zero_adds adds_at_most_simps)
      (auto intro!: adds_at_most_bindE [of _ 0 _ 0, simplified] zero_adds adds_at_most_simps split: sum.split)
  then show ?thesis by simp
qed

lemma refresh_adds:
  assumes "counts_requests (srv E) cnt"
  shows "adds_at_most (requests cnt) 3 (refresh E elm)"
proof -
  have "adds_at_most (requests cnt) (0 + (0 + 3)) (refresh E elm)"
    unfolding refresh_def by (intro adds_at_most_bindE get_adds [OF assms] adds_at_most_simps)
  then show ?thesis by simp
qed

lemma wait_loop_adds:
  assumes "counts_requests (srv E) cnt" and "\<And>d w. cnt (do_sleep E d w) = cnt w"
  shows "adds_at_most (requests cnt) (3 * looks limit t) (wait_loop E wanted limit ig elm t)"
proof (induction "looks limit t" arbitrary: t elm)
  case 0
  then have "limit < t" by (simp add: looks_def split: if_splits)
  then show ?case by (subst wait_loop.simps) (simp add: adds_at_most_simps looks_def)
next
  case (Suc n)
  then have le: "t \<le> limit" by (simp add: looks_def split: if_splits)
  with Suc(2) have n: "looks limit (t + DEF_SLEEP) = n" by (simp add: looks_step)
  let ?n = "3 * looks limit (t + DEF_SLEEP)"
  have rec: "adds_at_most (requests cnt) ?n (wait_loop E wanted limit ig elm' (t + DEF_SLEEP))" for elm'
    using Suc(1) n by blast
  have pause: "adds_at_most (requests cnt) 0 (wait_pause E)"
    using assms(2) by (simp add: adds_at_most_def wait_pause_def on_world_def)
  have "adds_at_most (requests cnt) (0 + ?n) (bindE (wait_pause E) (\<lambda>_. wait_loop E wanted limit ig elm' (t + DEF_SLEEP)))" for elm'
    by (intro adds_at_most_bindE pause rec)
  note step = this [simplified]
  have ret: "adds_at_most (requests cnt) ?n (ret b)" for b :: bool
    by (rule adds_at_most_mono [OF adds_at_most_simps(1)]) simp
  have "adds_at_most (requests cnt) (0 + ?n) (bindE (lift_res (elem_status elm')) (\<lambda>st. case st of
      None \<Rightarrow> ret False
    | Some elemStat \<Rightarrow>
        if elemStat \<in> set wanted then ret True
        else if is_final elemStat \<and> \<not> ig then ret False
        else bindE (wait_pause E) (\<lambda>_. wait_loop E wanted limit ig elm' (t + DEF_SLEEP))))" for elm'
    by (intro adds_at_most_bindE adds_at_most_simps) (auto split: option.split intro: ret step)
  then have "adds_at_most (requests cnt) (3 + (0 + ?n)) (wait_loop E wanted limit ig elm t)"
    using le by (subst wait_loop.simps)
      (simp only: not_less [symmetric] if_False, rule adds_at_most_bindE [OF refresh_adds [OF assms(1)]])
  then show ?case using looks_step [OF le] by simp
qed

text \<open>
  A wait for a status ends by itself and sends at most three requests for each of its
  \<open>timeout div 10 + 1\<close> looks, whatever the server answers.
\<close>

theorem waitForElemStatus_bounded:
  assumes "counts_requests (srv E) cnt" and "\<And>d w. cnt (do_sleep E d w) = cnt w" and "0 \<le> limit"
  shows "requests cnt (snd (waitForElemStatus E elm status limit ig s))
    \<le> requests cnt s + 3 * (nat (limit div DEF_SLEEP) + 1)"
  using wait_loop_adds [OF assms(1,2), of limit 0] assms(3)
  by (simp add: waitForElemStatus_def adds_at_most_def looks_def)

text \<open>\<open>seen E s' st\<close>: a look at the element that ended in \<open>s'\<close> showed \<open>st\<close>.\<close>

definition seen :: "'w rest_env \<Rightarrow> 'w rest_st \<Rightarrow> string option \<Rightarrow> bool" where
  "seen E s' st \<longleftrightarrow> (\<exists>elm s elm'. refresh E elm s = (Inr elm', s') \<and> elem_status elm' = Inr st)"

lemma wait_loop_verdict:
  "wait_loop E wanted limit ig elm t s = (Inr b, s') \<Longrightarrow>
     (if b then \<exists>st. seen E s' (Some st) \<and> st \<in> set wanted
      else limit < t \<and> s' = s \<or> seen E s' None \<or>
        (\<exists>st. seen E s' (Some st) \<and> st \<notin> set wanted \<and> is_final st \<and> \<not> ig) \<or>
        (\<exists>s1 st. seen E s1 (Some st) \<and> st \<notin> set wanted \<and> s' = snd (wait_pause E s1)))"
proof (induction E wanted limit ig elm t arbitrary: s rule: wait_loop.induct)
  case (1 E wanted limit ig elm t)
  show ?case
  proof (cases "limit < t")
    case True
    with 1(2) show ?thesis by (simp add: wait_loop.simps [of E wanted limit ig elm t] ret_def)
  next
    case False
    with 1(2) obtain elm' s1 st where look: "refresh E elm s = (Inr elm', s1)" "elem_status elm' = Inr st"
      and go: "(case st of None \<Rightarrow> ret False
        | Some elemStat \<Rightarrow>
            if elemStat \<in> set wanted then ret True
            else if is_final elemStat \<and> \<not> ig then ret False
            else bindE (wait_pause E) (\<lambda>_. wait_loop E wanted limit ig elm' (t + DEF_SLEEP))) s1 = (Inr b, s')"
      by (auto simp: wait_loop.simps [of E wanted limit ig elm t] lift_res_def elim!: bindE_InrE)
    have seen1: "seen E s1 st" using look unfolding seen_def by blast
    show ?thesis
    proof (cases "\<exists>x. st = Some x \<and> x \<notin> set wanted \<and> \<not> (is_final x \<and> \<not> ig)")
      case True
      then obtain x where x: "st = Some x" "x \<notin> set wanted" "\<not> (is_final x \<and> \<not> ig)" by blast
      obtain u s2 where pause: "wait_pause E s1 = (Inr u, s2)" by (simp add: wait_pause_def on_world_def)
      with go x have "wait_loop E wanted limit ig elm' (t + DEF_SLEEP) s2 = (Inr b, s')"
        by (auto simp: bindE_def)
      note ih = 1(1) [OF False x(2,3) this]
      have "\<exists>s1 st. seen E s1 (Some st) \<and> st \<notin> set wanted \<and> s2 = snd (wait_pause E s1)"
        using seen1 x pause by (intro exI [of _ s1] exI [of _ x]) simp
      with ih show ?thesis by (auto split: if_splits)
    next
      case False
      with go seen1 show ?thesis
        by (auto simp: ret_def split: option.splits if_splits)
    qed
  qed
qed

text \<open>
  A wait for a status tells the truth. True: the last look showed one of the wanted
  states. False: it showed no status at all, or a final state (a failure or \<open>up\<close>) that
  was not wanted while final states count, or the last pause ran the time out.
\<close>

theorem waitForElemStatus_verdict:
  assumes "waitForElemStatus E elm status limit ig s = (Inr b, s')"
  shows "0 \<le> limit \<and>
    (if b then \<exists>st. seen E s' (Some st) \<and> st \<in> set (split_ws (lower status))
     else seen E s' None \<or>
       (\<exists>st. seen E s' (Some st) \<and> st \<notin> set (split_ws (lower status)) \<and> is_final st \<and> \<not> ig) \<or>
       (\<exists>s1 st. seen E s1 (Some st) \<and> st \<notin> set (split_ws (lower status)) \<and> s' = snd (wait_pause E s1)))"
proof -
  have pos: "0 \<le> limit" and run: "wait_loop E (split_ws (lower status)) limit ig elm 0 s = (Inr b, s')"
    using assms by (auto simp: waitForElemStatus_def raise_def split: if_splits)
  with wait_loop_verdict [OF run] show ?thesis by (auto split: if_splits)
qed

section \<open>Positive creates and actions\<close>

lemma correlation_split:
  assumes "bindE (correlationIdContext E p (send E q)) f s = (Inr x, s')"
  obtains r s1 where "correlationIdContext E p (send E q) s = (Inr r, s1)" and "f r s1 = (Inr x, s')"
  using assms by (rule bindE_InrE)

text \<open>
  C6. A positive action succeeds only when the engine says so: \<open>syncAction\<close> returns
  something only for a POST answered with one of the expected codes, it returns the body
  of that answer, and when answers are validated the parsed action (if it counts as true)
  is complete, or pending for an asynchronous one.
\<close>

theorem syncAction_positive_sound:
  assumes "syncAction E entity action True a s = (Inr v, s')" and "v \<noteq> PNone"
  shows "\<exists>url body r s1. correlationIdContext E Op_syncAction (send E (''POST'', url, Some body)) s = (Inr r, s1) \<and>
    v = PStr (ret_body r) \<and> ret_status r \<in> set (if truthy (aa_async a) then aa_positive_async a else aa_positive_sync a) \<and>
    (run_validate E \<longrightarrow> (\<exists>resp. parse E (ret_body r) = Inr resp \<and>
       (truthy resp \<longrightarrow> (\<exists>st. getattr resp ''status'' = Inr st \<and> compareAsyncActionStatus (truthy (aa_async a)) st))))"
proof -
  from assms(1) obtain url body r s1 where
    post: "correlationIdContext E Op_syncAction (send E (''POST'', url, Some body)) s = (Inr r, s1)"
    and rest: "(if \<not> responseCodesMatch True (if truthy (aa_async a) then aa_positive_async a else aa_positive_sync a)
          (aa_negative a) r then ret PNone
        else if \<not> run_validate E then ret (PStr (ret_body r))
        else check_action E entity action True a url r) s1 = (Inr v, s')"
    unfolding syncAction_def Let_def by (auto simp: lift_res_def elim!: bindE_InrE)
  have code: "ret_status r \<in> set (if truthy (aa_async a) then aa_positive_async a else aa_positive_sync a)"
    using rest assms(2) by (auto simp: responseCodesMatch_def compareResponseCode_def ret_def split: if_splits)
  have "v = PStr (ret_body r) \<and> (run_validate E \<longrightarrow> (\<exists>resp. parse E (ret_body r) = Inr resp \<and>
       (truthy resp \<longrightarrow> (\<exists>st. getattr resp ''status'' = Inr st \<and> compareAsyncActionStatus (truthy (aa_async a)) st))))"
  proof (cases "run_validate E")
    case True
    with rest code have check: "check_action E entity action True a url r s1 = (Inr v, s')"
      by (simp add: responseCodesMatch_def compareResponseCode_def)
    show ?thesis
    proof (cases "parse E (ret_body r)")
      case (Inl e)
      with check assms(2) show ?thesis by (auto simp: check_action_def comp_simps split: if_splits)
    next
      case (Inr resp)
      with check assms(2) show ?thesis
        by (auto simp: check_action_def comp_simps split: if_splits sum.splits prod.splits)
    qed
  qed (use rest code in \<open>auto simp: responseCodesMatch_def compareResponseCode_def ret_def\<close>)
  with post code show ?thesis by blast
qed

definition expected_text :: "'w rest_env \<Rightarrow> create_args \<Rightarrow> pyval \<Rightarrow> string" where
  "expected_text E a entity =
     (case ca_expected_entity a of
        None \<Rightarrow> dump_entity E entity (if ca_coll_elm_name a = [] then element_name E else ca_coll_elm_name a)
      | Some x \<Rightarrow> dump_entity E x (element_name E))"

text \<open>
  What a \<open>find\<close> by id looks in: the collection given or, when that is empty, the one read
  again from the name of the collection. Exactly one of its elements has the id.
\<close>

definition id_unique_in :: "'w rest_env \<Rightarrow> pyval \<Rightarrow> pyval \<Rightarrow> 'w rest_st \<Rightarrow> bool" where
  "id_unique_in E i coll s \<longleftrightarrow>
     (\<exists>c l x. (if truthy coll then c = coll
              else fst (rest_get E (Some (with_max E (collection_name E))) get_default s) = Inr c) \<and>
        py_iter c = Inr l \<and> filter (\<lambda>y. \<exists>j. getattr y ''id'' = Inr j \<and> py_eq j i) l = [x])"

lemma pick_unique_Inr: "pick_unique l = Inr x \<longleftrightarrow> l = [x]"
  by (auto simp: pick_unique_def split: list.splits)

lemma getattr_chain_one: "getattr_chain [a] v = getattr v a"
  by (simp split: sum.split)

lemma find_by_id_Inr:
  assumes "rest_find E i ''id'' False coll False [] s = (Inr e, s')"
  shows "id_unique_in E i coll s"
proof -
  from assms obtain c l rs s1 where
    c: "(if truthy coll then ret coll else rest_get E (Some (with_max E (collection_name E))) get_default) s = (Inr c, s1)"
    and l: "py_iter c = Inr l" "filter_chain [''id''] i l = Inr rs" "rs = [e]"
    by (auto simp: rest_find_def Let_def lift_res_def ret_def raise_def pick_unique_Inr elim!: bindE_InrE split: if_splits)
  have "filter (\<lambda>y. \<exists>j. getattr y ''id'' = Inr j \<and> py_eq j i) l = [e]"
    using filter_chain_Inr [OF l(2)] l(3) by (simp only: getattr_chain_one)
  moreover have "if truthy coll then c = coll
      else fst (rest_get E (Some (with_max E (collection_name E))) get_default s) = Inr c"
    using c by (auto simp: ret_def split: if_splits)
  ultimately show ?thesis using l(1) unfolding id_unique_in_def by blast
qed

text \<open>
  The answer parses to \<open>v\<close>, which compares equal and whose id one element of the
  collection has; \<open>coll\<close> is what the collection was found to be in the state before \<open>s\<close>.
\<close>

definition confirmed ::
  "'w rest_env \<Rightarrow> create_args \<Rightarrow> pyval \<Rightarrow> api_ret \<Rightarrow> pyval \<Rightarrow> pyval \<Rightarrow> 'w rest_st \<Rightarrow> bool" where
  "confirmed E a entity r v coll s \<longleftrightarrow>
     parse E (ret_body r) = Inr v \<and>
       (ca_compare a \<longrightarrow> compare_parsed E (expected_text E a entity) (dump_entity E v (element_name E)) = Inr True) \<and>
       (\<not> ca_async a \<longrightarrow> (\<exists>v' i. parse E (dump_entity E v (element_name E)) = Inr v' \<and>
          getattr v' ''id'' = Inr i \<and> id_unique_in E i coll s))"

lemma check_created_True:
  assumes "check_created E a body coll r s = (Inr True, s')"
    and "body = dump_entity E entity (if ca_coll_elm_name a = [] then element_name E else ca_coll_elm_name a)"
  shows "\<exists>v. confirmed E a entity r v coll s"
  using assms unfolding confirmed_def expected_text_def
  by (auto simp: check_created_def Let_def lift_res_def ret_def split: if_splits
      elim!: bindE_InrE dest!: find_by_id_Inr)

text \<open>
  C7. A positive create succeeds only for an entity that is there: with validation on,
  \<open>create\<close> returns True only when its POST to the collection was answered with an expected
  code and, the answer having a body, that answer parses to the returned entity, the entity
  compares equal to what was asked for (unless comparing is off), and exactly one element
  of the collection as it was read after the POST has the entity's id (unless the create
  is asynchronous).
\<close>

theorem rest_create_positive_sound:
  assumes "rest_create E entity True a s = (Inr (v, True), s')" and "ca_validate a = Some True"
  shows "\<exists>href elm r s1 coll s2.
    create_href E a = Inr href \<and> elm = (if ca_coll_elm_name a = [] then element_name E else ca_coll_elm_name a) \<and>
    correlationIdContext E Op_create (send E (''POST'', create_url E a href, Some (dump_entity E entity elm))) s = (Inr r, s1) \<and>
    ret_status r \<in> set (ca_expected_pos a) \<and>
    rest_get E (Some href) (get_default\<lparr>ga_elm := elm\<rparr>) s1 = (Inr coll, s2) \<and>
    (ret_body r \<noteq> [] \<longrightarrow> confirmed E a entity r v coll s2)"
proof -
  let ?elm = "if ca_coll_elm_name a = [] then element_name E else ca_coll_elm_name a"
  from assms obtain href r s1 coll s2 where
    post: "create_href E a = Inr href"
      "correlationIdContext E Op_create (send E (''POST'', create_url E a href, Some (dump_entity E entity ?elm))) s = (Inr r, s1)"
    and code: "responseCodesMatch True (ca_expected_pos a) (ca_expected_neg a) r"
    and coll: "rest_get E (Some href) (get_default\<lparr>ga_elm := ?elm\<rparr>) s1 = (Inr coll, s2)"
    and rest: "ret_body r \<noteq> [] \<Longrightarrow> \<exists>s3.
      check_created E a (dump_entity E entity ?elm) coll r s2 = (Inr True, s3) \<and> parse E (ret_body r) = Inr v"
    unfolding rest_create_def Let_def
    by (auto simp: lift_res_def ret_def split: if_splits elim!: bindE_InrE; blast)
  have "confirmed E a entity r v coll s2" if "ret_body r \<noteq> []"
    using rest [OF that] check_created_True by (fastforce simp: confirmed_def)
  with post coll show ?thesis
    using code unfolding responseCodesMatch_def compareResponseCode_def by (intro exI conjI refl) (assumption | simp)+
qed

section \<open>Login\<close>

text \<open>
  The class keeps one proxy for all its instances (\<open>_restInit\<close>); proxies are objects, so
  they live in a store and an instance holds an address. A standalone instance makes its
  own proxy and does not connect.
\<close>

record proxy_obj =
  px_cookie :: "string option"
  px_user :: "string option"
  px_headers :: "(string, string) dict"

record 'w class_st =
  proxies :: "proxy_obj list"
  restInit :: "nat option"
  world :: 'w

record login_conf =
  lc_opts :: http_opts
  persistent_auth :: bool
  session_timeout :: "string option"
  filter_flag :: string

definition load_proxy :: "http_opts \<Rightarrow> nat \<Rightarrow> 'w class_st \<Rightarrow> 'w http_st" where
  "load_proxy os i c =
     (let p = proxies c ! i in
      \<lparr>opts = os, cookie = px_cookie p, last_active_user = px_user p, headers = px_headers p, server = world c\<rparr>)"

definition store_proxy :: "nat \<Rightarrow> 'w class_st \<Rightarrow> 'w http_st \<Rightarrow> 'w class_st" where
  "store_proxy i c h =
     c\<lparr>proxies := (proxies c)[i := \<lparr>px_cookie = cookie h, px_user = last_active_user h, px_headers = headers h\<rparr>],
       world := server h\<rparr>"

definition on_proxy :: "http_opts \<Rightarrow> nat \<Rightarrow> ('w http_st, 'a) comp \<Rightarrow> ('w class_st, 'a) comp" where
  "on_proxy os i m c = (case m (load_proxy os i c) of (r, h) \<Rightarrow> (r, store_proxy i c h))"

definition new_proxy_headers :: "login_conf \<Rightarrow> (string, string) dict" where
  "new_proxy_headers conf =
     (let h0 = (case HTTP_HEADERS (lc_opts conf) of None \<Rightarrow> [] | Some hs \<Rightarrow> hs);
          h1 = (if persistent_auth conf then dict_set h0 ''Prefer'' ''persistent-auth'' else h0)
      in dict_set (dict_set h1 ''Session-TTL'' (str_opt (session_timeout conf))) ''Filter'' (filter_flag conf))"

definition make_proxy :: "login_conf \<Rightarrow> ('w class_st, nat) comp" where
  "make_proxy conf c =
     (Inr (length (proxies c)),
      c\<lparr>proxies := proxies c @ [\<lparr>px_cookie = None, px_user = None, px_headers = new_proxy_headers conf\<rparr>]\<rparr>)"

definition login :: "'w server_fun \<Rightarrow> codec \<Rightarrow> login_conf \<Rightarrow> ('w class_st, nat \<times> (string, string) dict) comp" where
  "login sv decode conf =
     bindE (gets restInit) (\<lambda>shared.
     bindE (if shared \<noteq> None \<and> \<not> standalone (lc_opts conf) then ret (the shared)
            else
              bindE (make_proxy conf) (\<lambda>i.
              bindE (if standalone (lc_opts conf) then ret ()
                     else try_except (on_proxy (lc_opts conf) i (connect sv decode)) APIException
                            (\<lambda>_. raise APILoginError)) (\<lambda>_. ret i))) (\<lambda>i.
     bindE (try_except (on_proxy (lc_opts conf) i (HEAD_for_links sv decode)) APIException
              (\<lambda>_. raise APIException)) (\<lambda>links.
     bindE (modify (\<lambda>c. c\<lparr>restInit := (if restInit c = None then Some i else restInit c)\<rparr>)) (\<lambda>_.
     ret (i, links)))))"

definition logout :: "('w class_st, unit) comp" where
  "logout = modify (\<lambda>c. c\<lparr>restInit := None\<rparr>)"

definition class_shape :: "'w class_st \<Rightarrow> nat \<times> nat option" where
  "class_shape c = (length (proxies c), restInit c)"

lemma on_proxy_shape: "on_proxy os i m c = (r, c') \<Longrightarrow> class_shape c' = class_shape c"
  by (auto simp: on_proxy_def store_proxy_def class_shape_def split: prod.splits)

lemma try_on_proxy_shape:
  "try_except (on_proxy os i m) X (\<lambda>_. raise e) c = (r, c') \<Longrightarrow> class_shape c' = class_shape c"
  by (auto simp: try_except_def raise_def split: prod.splits sum.splits if_splits dest: on_proxy_shape)

text \<open>
  One session for all: a login that finds a shared proxy uses it and makes none (unless
  it is standalone); otherwise it makes exactly one new proxy. After a successful login
  there is a shared proxy: the old one if there was one, else the new one. A failed login
  never changes which proxy is shared. After a logout the next login gets a fresh proxy.
\<close>

theorem login_shares_proxy:
  assumes "login sv decode conf c = (r, c')"
  shows "(\<forall>i l. r = Inr (i, l) \<longrightarrow>
       restInit c' = Some (case restInit c of Some j \<Rightarrow> j | None \<Rightarrow> i) \<and>
       (if restInit c \<noteq> None \<and> \<not> standalone (lc_opts conf)
        then i = the (restInit c) \<and> length (proxies c') = length (proxies c)
        else i = length (proxies c) \<and> length (proxies c') = length (proxies c) + 1)) \<and>
    (\<forall>e. r = Inl e \<longrightarrow> restInit c' = restInit c)"
proof -
  show ?thesis
  proof (cases "restInit c \<noteq> None \<and> \<not> standalone (lc_opts conf)")
    case True
    then obtain j where "restInit c = Some j" by blast
    with True assms show ?thesis
      by (auto simp: login_def gets_def ret_def modify_def bindE_def class_shape_def
          split: prod.splits sum.splits dest!: try_on_proxy_shape)
  next
    case False
    with assms show ?thesis
      by (auto simp: login_def gets_def ret_def modify_def make_proxy_def bindE_def class_shape_def
          split: prod.splits sum.splits if_splits option.splits dest!: try_on_proxy_shape)
  qed
qed

section \<open>Witnesses\<close>

theorem parse_detail_roundtrip_witness:
  "parse_detail \<lparr>ret_status = 409, ret_body = ''<fault><detail>[In use]</detail></fault>'', ret_reason = None, ret_header = None\<rparr>
     = Some ''[In use]''"
  by (rule parse_detail_roundtrip [where before = "''<fault>''" and after = "''</fault>''"]) simp_all

theorem extract_attribute_lines_witness:
  "extract_attribute (join [CHR 0x0A] (map (\<lambda>(indent, v). indent @ tag ''id'' v) [(''  '', ''1''), ([], ''2'')])) ''id''
     = Some [''1'', ''2'']"
  using extract_attribute_lines [of "''id''" "[(''  '', ''1''), ([], ''2'')]"] by simp

theorem extract_attribute_merges_witness:
  "extract_attribute ''<id>1</id><id>2</id>'' ''id'' = Some [''1</id><id>2'']"
  using extract_attribute_merges [of "''id''" "''1''" "[]" "''2''"] by (simp add: tag_def)

theorem waitForElemStatus_bounded_witness:
  "server (api (snd (waitForElemStatus demo_rest (PObj ''VM'' [(''href'', PStr ''/api/vms/1'')]) ''up'' 30 False demo_rest_st))) \<le> 12"
proof -
  have "counts_requests (srv demo_rest) id" by (simp add: demo_rest_def demo_counts)
  from waitForElemStatus_bounded [OF this, of 30 "PObj ''VM'' [(''href'', PStr ''/api/vms/1'')]" "''up''" False demo_rest_st]
  show ?thesis by (simp add: demo_rest_def demo_rest_st_def demo_st_def HTTPProxy_def DEF_SLEEP_def)
qed

text \<open>An engine whose answers all have the same body.\<close>

definition fixed_srv :: "string \<Rightarrow> nat server_fun" where
  "fixed_srv body rq w = (Inr \<lparr>resp_status = 200, resp_reason = ''OK'', resp_headers = [], resp_data = body\<rparr>, w + 1)"

definition up_rest :: "nat rest_env" where
  "up_rest = demo_rest\<lparr>srv := fixed_srv ''complete''\<rparr>"

definition demo_elem :: pyval where
  "demo_elem = PObj ''VM'' [(''href'', PStr ''/api/vms/1''), (''actions'', PObj ''Actions''
     [(''link'', PList [PObj ''Link'' [(''rel'', PStr ''start''), (''href'', PStr ''/api/vms/1/start'')]])])]"

lemma demo_wait:
  "waitForElemStatus up_rest demo_elem ''Complete down'' 30 False demo_rest_st =
     (Inr True, snd (waitForElemStatus up_rest demo_elem ''Complete down'' 30 False demo_rest_st))"
  by code_simp

theorem waitForElemStatus_verdict_witness:
  "\<exists>s' st. seen up_rest s' (Some st) \<and> st \<in> set (split_ws ''complete down'')"
proof -
  have "lower ''Complete down'' = ''complete down''" by code_simp
  then show ?thesis using waitForElemStatus_verdict [OF demo_wait] by auto
qed

lemma demo_action:
  "syncAction up_rest demo_elem ''start'' True action_default demo_rest_st =
     (Inr (PStr ''complete''), snd (syncAction up_rest demo_elem ''start'' True action_default demo_rest_st))"
  by code_simp

theorem syncAction_positive_sound_witness:
  "\<exists>url body r s1. correlationIdContext up_rest Op_syncAction (send up_rest (''POST'', url, Some body)) demo_rest_st = (Inr r, s1) \<and>
     ret_status r \<in> {200, 201} \<and> PStr ''complete'' = PStr (ret_body r)"
proof -
  have "set (if truthy (aa_async action_default) then aa_positive_async action_default else aa_positive_sync action_default) = {200, 201}"
    by (simp add: action_default_def POSITIVE_CODES_def)
  then show ?thesis using syncAction_positive_sound [OF demo_action] by fastforce
qed

definition create_rest :: "nat rest_env" where
  "create_rest = up_rest\<lparr>compare_env := \<lparr>ds_classes = (\<lambda>n. Some nic_class), java_sdk_mode = False\<rparr>,
     parse := (\<lambda>s. Inr (PObj ''VM'' [(''name'', PStr ''a''), (''id'', PStr ''7''),
       (''vm'', PList [PObj ''VM'' [(''id'', PStr ''7'')]])])), links := [(''vms'', ''/api/vms'')]\<rparr>"

lemma demo_create:
  "rest_create create_rest demo_elem True (create_default\<lparr>ca_validate := Some True\<rparr>) demo_rest_st =
     (Inr (PObj ''VM'' [(''name'', PStr ''a''), (''id'', PStr ''7''), (''vm'', PList [PObj ''VM'' [(''id'', PStr ''7'')]])], True),
      snd (rest_create create_rest demo_elem True (create_default\<lparr>ca_validate := Some True\<rparr>) demo_rest_st))"
  by code_simp

lemma demo_post:
  "case fst (correlationIdContext create_rest Op_create (send create_rest (''POST'', create_url create_rest create_default ''/api/vms;max=100'',
       Some (dump_entity create_rest demo_elem (element_name create_rest)))) demo_rest_st) of Inr r \<Rightarrow> ret_body r \<noteq> [] | Inl e \<Rightarrow> False"
  by code_simp

theorem rest_create_positive_sound_witness:
  "\<exists>r s1 coll s2.
     correlationIdContext create_rest Op_create (send create_rest (''POST'', create_url create_rest create_default ''/api/vms;max=100'',
       Some (dump_entity create_rest demo_elem (element_name create_rest)))) demo_rest_st = (Inr r, s1) \<and>
     ret_status r \<in> {200, 201, 202} \<and>
     rest_get create_rest (Some ''/api/vms;max=100'') (get_default\<lparr>ga_elm := element_name create_rest\<rparr>) s1 = (Inr coll, s2) \<and>
     id_unique_in create_rest (PStr ''7'') coll s2"
proof -
  let ?a = "create_default\<lparr>ca_validate := Some True\<rparr>"
  have codes: "set (ca_expected_pos ?a) = {200, 201, 202}"
    by (auto simp: create_default_def POSITIVE_CODES_CREATE_def POSITIVE_CODES_def)
  have href: "create_href create_rest ?a = Inr ''/api/vms;max=100''" by code_simp
  have url: "create_url create_rest ?a h = create_url create_rest create_default h" for h
    by (simp add: create_url_def)
  have elm: "ca_coll_elm_name ?a = []" "\<not> ca_async ?a" by (simp_all add: create_default_def)
  have parsed: "parse create_rest t = Inr v' \<and> getattr v' ''id'' = Inr i \<longrightarrow> i = PStr ''7''" for t v' i
    by (auto simp: create_rest_def getattr_def)
  have body: "ret_body r \<noteq> []"
    if "correlationIdContext create_rest Op_create (send create_rest (''POST'', create_url create_rest create_default ''/api/vms;max=100'',
      Some (dump_entity create_rest demo_elem (element_name create_rest)))) demo_rest_st = (Inr r, s1)" for r s1
    using demo_post that by simp
  show ?thesis using rest_create_positive_sound [OF demo_create] codes href url elm parsed body
    unfolding confirmed_def by auto
qed

definition demo_conf :: login_conf where
  "demo_conf = \<lparr>lc_opts = demo_opts, persistent_auth = True, session_timeout = None, filter_flag = ''False''\<rparr>"

definition demo_class :: "nat class_st" where
  "demo_class = \<lparr>proxies = [], restInit = None, world = 0\<rparr>"

lemma demo_login:
  "(case fst (login demo_srv id_codec demo_conf demo_class) of Inr (i, l) \<Rightarrow> i = 0 | Inl e \<Rightarrow> False)"
  by code_simp

theorem login_shares_proxy_witness:
  "restInit (snd (login demo_srv id_codec demo_conf demo_class)) = Some 0"
proof -
  obtain l where run: "login demo_srv id_codec demo_conf demo_class = (Inr (0, l), snd (login demo_srv id_codec demo_conf demo_class))"
    using demo_login by (cases "login demo_srv id_codec demo_conf demo_class") (auto split: sum.splits prod.splits)
  from login_shares_proxy [OF run] show ?thesis by (simp add: demo_class_def)
qed

end
