(* ===== verification/Rest_Time.thy ===== *)
theory Rest_Time
  imports Rest
begin

text \<open>
  Time in the world of the REST backend: a clock of the server's world that no request
  turns back, and that every answered request moves on. What the waits of the low-level
  libraries need to end.
\<close>

section \<open>Requests take time\<close>

text \<open>A clock of the server's world is not turned back by a request if the server does not.\<close>

definition server_time :: "('w \<Rightarrow> int) \<Rightarrow> 'w rest_st \<Rightarrow> int" where
  "server_time clk s = clk (server (api s))"

definition moves_on :: "('w \<Rightarrow> int) \<Rightarrow> 'w server_fun \<Rightarrow> bool" where
  "moves_on clk sv \<longleftrightarrow> (\<forall>rq w. clk w \<le> clk (snd (sv rq w)))"

lemma exchange_moves_on:
  assumes "moves_on clk sv"
  shows "never_back (\<lambda>s. clk (server s)) (exchange sv decode meth url body)"
proof -
  have "never_back (\<lambda>s. clk (server s)) (run_server sv rq)" for rq
    using assms by (auto simp: never_back_def moves_on_def run_server_def split: prod.split) (metis snd_conv)
  moreover have "never_back (\<lambda>s. clk (server s)) (modify (note_session resp))"
    "never_back (\<lambda>s. clk (server s)) (\<lambda>st. (basic_headers st, st))" for resp
    by (simp_all add: never_back_def modify_def note_session_def)
  ultimately show ?thesis unfolding exchange_def Let_def by (intro never_back_intros)
qed

lemma request_parts_move_on:
  assumes "moves_on clk sv"
  shows "never_back (\<lambda>s. clk (server s)) (exchange sv decode meth url body)"
    and "never_back (\<lambda>s. clk (server s)) (connect sv decode)"
    and "never_back (\<lambda>s. clk (server s)) (do_request_once sv decode meth url body h)"
proof -
  note ex = exchange_moves_on [OF assms]
  have once: "never_back (\<lambda>s. clk (server s)) (do_request_once sv decode m u b h)" for m u b h
    unfolding do_request_once_def by (intro never_back_intros ex) (auto split: prod.split)
  have "never_back (\<lambda>s. clk (server s)) (modify (\<lambda>st :: 'a http_st. st\<lparr>cookie := c, last_active_user := f st\<rparr>))" for c f
    by (simp add: never_back_def modify_def)
  then show "never_back (\<lambda>s. clk (server s)) (connect sv decode)"
    unfolding connect_def by (intro never_back_intros once)
  show "never_back (\<lambda>s. clk (server s)) (exchange sv decode meth url body)"
    and "never_back (\<lambda>s. clk (server s)) (do_request_once sv decode meth url body h)"
    by (rule ex once)+
qed

lemma do_request_moves_on:
  assumes "moves_on clk sv"
  shows "never_back (\<lambda>s. clk (server s)) (do_request sv decode meth url body h)"
  unfolding do_request_def
  by (intro never_back_intros request_parts_move_on [OF assms])
    (auto split: prod.split intro!: never_back_intros request_parts_move_on [OF assms])

lemma send_moves_on:
  assumes "moves_on clk (srv E)"
  shows "never_back (server_time clk) (send E q)"
  using do_request_moves_on [OF assms, of "codec_of E"]
  by (cases q) (auto simp: never_back_def server_time_def send_def on_api_def run_request_def split: prod.split, metis snd_conv)

lemma rest_get_moves_on:
  assumes "moves_on clk (srv E)"
  shows "never_back (server_time clk) (rest_get E href a)"
proof -
  note send_moves_on [OF assms]
  moreover have "never_back (server_time clk) (modify (upd_headers f))"
    "never_back (server_time clk) (validateResponseViaXSD E u r)" for f u r
    by (simp_all add: never_back_def comp_simps server_time_def upd_headers_def validateResponseViaXSD_def)
  ultimately show ?thesis
    unfolding rest_get_def Let_def by (intro never_back_intros) (auto split: sum.split intro!: never_back_intros)
qed

lemma rest_find_moves_on:
  assumes "moves_on clk (srv E)"
  shows "never_back (server_time clk) (rest_find E v attribute abs_link coll all_content kw)"
proof -
  have "never_back (server_time clk) (modify (upd_headers f))" for f
    by (simp add: never_back_def comp_simps server_time_def upd_headers_def)
  then show ?thesis
    unfolding rest_find_def Let_def by (intro never_back_intros rest_get_moves_on [OF assms])
qed

section \<open>Answered requests advance the clock\<close>

definition ticks :: "('w \<Rightarrow> int) \<Rightarrow> 'w server_fun \<Rightarrow> bool" where
  "ticks clk sv \<longleftrightarrow> (\<forall>rq w. clk w + 1 \<le> clk (snd (sv rq w)))"

lemma ticks_moves_on: "ticks clk sv \<Longrightarrow> moves_on clk sv"
  unfolding ticks_def moves_on_def by (meson less_imp_le zless_iff_Suc_zadd zle_add1_eq_le add1_zle_eq)

lemma exchange_ticks:
  assumes "ticks clk sv" and "exchange sv decode meth url body s = (Inr x, s')"
  shows "clk (server s) + 1 \<le> clk (server s')"
proof -
  from assms(2) obtain rq resp s1 where "run_server sv rq s = (Inr resp, s1)" and "clk (server s') = clk (server s1)"
    by (auto simp: exchange_def Let_def comp_simps note_session_def split: prod.splits sum.splits if_splits)
  moreover have "clk (server s) + 1 \<le> clk (server s1)"
    using assms(1) calculation(1) unfolding ticks_def run_server_def by (auto split: prod.splits) (metis snd_conv)
  ultimately show ?thesis by simp
qed

lemma do_request_ticks:
  assumes "ticks clk sv" and "do_request sv decode meth url body h s = (Inr x, s')"
  shows "clk (server s) + 1 \<le> clk (server s')"
proof -
  have nb: "never_back (\<lambda>s. clk (server s)) (exchange sv decode m u b)"
    "never_back (\<lambda>s. clk (server s)) (connect sv decode)"
    "never_back (\<lambda>s. clk (server s)) (do_request_once sv decode m u b h)" for m u b h
    using request_parts_move_on [OF ticks_moves_on [OF assms(1)]] by blast+
  from assms(2) obtain resp body_text s1 where ex: "exchange sv decode meth url body s = (Inr (resp, body_text), s1)"
    and rest: "bindE (gets cookie) (\<lambda>c. if resp_status resp = 401 \<and> truthy_opt c
        then bindE (connect sv decode) (\<lambda>_. do_request_once sv decode meth url body h)
        else ret (make_ret resp body_text h)) s1 = (Inr x, s')"
    unfolding do_request_def by (elim bindE_InrE) (auto simp: bindE_def)
  have "never_back (\<lambda>s. clk (server s)) (bindE (gets cookie) (\<lambda>c. if resp_status resp = 401 \<and> truthy_opt c
        then bindE (connect sv decode) (\<lambda>_. do_request_once sv decode meth url body h)
        else ret (make_ret resp body_text h)))"
    by (intro never_back_intros nb)
  from never_backD [OF this rest] exchange_ticks [OF assms(1) ex] show ?thesis by simp
qed

lemma send_ticks:
  assumes "ticks clk (srv E)" and "send E q s = (Inr r, s')"
  shows "server_time clk s + 1 \<le> server_time clk s'"
  using assms do_request_ticks [OF assms(1)]
  by (cases q) (auto simp: send_def on_api_def run_request_def server_time_def split: prod.splits)

lemma upd_headers_time [simp]: "server_time clk (upd_headers f s) = server_time clk s"
  by (simp add: server_time_def upd_headers_def)

lemma with_header_never_back [never_back_intros]:
  assumes "never_back (server_time clk) m"
  shows "never_back (server_time clk) (with_header api_headers upd_headers n v m)"
proof -
  have "server_time clk s \<le> server_time clk (snd (m (upd_headers (\<lambda>hs. dict_set hs n v) s)))" for s
    using assms unfolding never_back_def by (metis upd_headers_time)
  then show ?thesis by (auto simp: never_back_def with_header_def split: prod.split) (metis snd_conv)+
qed

lemma with_header_ticks:
  assumes "\<And>s x s'. m s = (Inr x, s') \<Longrightarrow> server_time clk s + 1 \<le> server_time clk s'"
    and "with_header api_headers upd_headers n v m s = (Inr x, s')"
  shows "server_time clk s + 1 \<le> server_time clk s'"
proof -
  from assms(2) obtain s1 where "m (upd_headers (\<lambda>hs. dict_set hs n v) s) = (Inr x, s1)"
    and "s' = upd_headers (\<lambda>hs. dict_del hs n) s1"
    by (auto simp: with_header_def split: prod.splits if_splits)
  with assms(1) show ?thesis by fastforce
qed

lemma query_moves_on:
  assumes "moves_on clk (srv E)"
  shows "never_back (server_time clk) (rest_query E constraint a)"
proof -
  have "never_back (server_time clk) (validateResponseViaXSD E u r)" for u r
    by (simp add: never_back_def comp_simps server_time_def validateResponseViaXSD_def)
  then show ?thesis
    unfolding rest_query_def all_content_context_def
    by (intro never_back_intros send_moves_on [OF assms]) 
qed

lemma query_ticks:
  assumes "ticks clk (srv E)" and "rest_query E constraint a s = (Inr x, s')"
  shows "server_time clk s + 1 \<le> server_time clk s'"
proof -
  have xsd: "never_back (server_time clk) (validateResponseViaXSD E u r)" for u r
    by (simp add: never_back_def comp_simps server_time_def validateResponseViaXSD_def)
  let ?rest = "\<lambda>href r. if \<not> compareResponseCode (ret_status r)
            (if qa_expected_status a = [] then POSITIVE_CODES else qa_expected_status a) then ret PNone
     else bindE (validateResponseViaXSD E href r) (\<lambda>_.
       bindE (lift_res (parse E (ret_body r))) (\<lambda>v. lift_res (getattr v (element_name E))))"
  from assms(2) obtain href u r s1 where req: "all_content_context (qa_all_content a) (send E (''GET'', u, None)) s = (Inr r, s1)"
    and rest: "?rest href r s1 = (Inr x, s')"
    unfolding rest_query_def by (auto elim!: bindE_InrE simp: lift_res_def)
  have "server_time clk s + 1 \<le> server_time clk s1"
    using req send_ticks [OF assms(1)] with_header_ticks [OF send_ticks [OF assms(1)]]
    by (auto simp: all_content_context_def split: if_splits)
  moreover have "never_back (server_time clk) (?rest href r)"
    by (intro never_back_intros xsd)
  then have "server_time clk s1 \<le> server_time clk s'"
    using rest by (rule never_backD [where f = "?rest href r"])
  ultimately show ?thesis by linarith
qed

section \<open>A clock for witnesses\<close>

definition demo_clock :: "nat rest_st os_time" where
  "demo_clock = \<lparr>os_now = (\<lambda>s. (int (server (api s)), s)),
     os_sleep = (\<lambda>d s. s\<lparr>api := (api s)\<lparr>server := server (api s) + nat d\<rparr>\<rparr>)\<rparr>"

lemma demo_clock_laws: "clock_laws demo_clock (server_time int)"
  by (simp add: clock_laws_def demo_clock_def server_time_def)

end
