(* ===== verification/Jobs.thy ===== *)
theory Jobs
  imports Prelude
begin

text \<open>
  \<open>art/rhevm_api/utils/jobs.py\<close> and \<open>threads.py\<close>: events with handlers, a job and its
  life, and the set of jobs worked off by threads. A job's run is sequential code; the set
  is a step relation in which the main program and the workers interleave freely. Polls of
  an empty queue change nothing and are no steps. The suicide job is never put by the code.
\<close>

section \<open>Events\<close>

text \<open>Handlers are kept in a set, here without duplicates and in iteration order.\<close>

definition handle :: "'h list \<Rightarrow> 'h \<Rightarrow> 'h list" where
  "handle hs h = (if h \<in> set hs then hs else hs @ [h])"

text \<open>\<open>set.remove\<close> of a missing element raises KeyError; the code catches ValueError.\<close>

definition unhandle :: "'h list \<Rightarrow> 'h \<Rightarrow> exn + 'h list" where
  "unhandle hs h =
     (let r = (if h \<in> set hs then Inr (remove1 h hs) else Inl KeyError) in
      case r of Inl e \<Rightarrow> if isinstance e ValueError then Inl ValueError else Inl e | Inr hs' \<Rightarrow> Inr hs')"

definition invoke :: "('w, unit) comp list \<Rightarrow> ('w, unit) comp" where
  "invoke handlers = for_each handlers (\<lambda>h _. h) ()"

definition returnable_invoke :: "('w, 'a) comp list \<Rightarrow> ('w, 'a option) comp" where
  "returnable_invoke handlers =
     (case handlers of [] \<Rightarrow> ret None | h # _ \<Rightarrow> bindE h (\<lambda>x. ret (Some x)))"

section \<open>A job\<close>

datatype job_state = INITED | RUNNING | FINISHED

record ('w, 'r) job =
  target :: "('w, 'r) comp"
  running_event :: "('w, unit) comp list"
  exception_event :: "(exn \<Rightarrow> ('w, unit) comp) list"
  finished_event :: "('w, unit) comp list"

record ('w, 'r) job_world =
  job_st :: job_state
  job_result :: "'r option"
  job_exception :: "exn option"
  outside :: 'w

definition on_outside :: "('w, 'a) comp \<Rightarrow> (('w, 'r) job_world, 'a) comp" where
  "on_outside m s = (case m (outside s) of (r, w) \<Rightarrow> (r, s\<lparr>outside := w\<rparr>))"

definition set_state :: "job_state \<Rightarrow> (('w, 'r) job_world, unit) comp" where
  "set_state x = modify (\<lambda>s. s\<lparr>job_st := x\<rparr>)"

definition exception_caught :: "('w, 'r) job \<Rightarrow> exn \<Rightarrow> (('w, 'r) job_world, unit) comp" where
  "exception_caught j e =
     bindE (modify (\<lambda>s. s\<lparr>job_exception := Some e\<rparr>)) (\<lambda>_.
     on_outside (invoke (map (\<lambda>h. h e) (exception_event j))))"

text \<open>The body of the \<open>try\<close>, and the \<open>finally\<close> that runs after it on every path.\<close>

definition job_body :: "('w, 'r) job \<Rightarrow> (('w, 'r) job_world, unit) comp" where
  "job_body j =
     try_except
       (bindE (on_outside (target j)) (\<lambda>r. modify (\<lambda>s. s\<lparr>job_result := Some r\<rparr>)))
       PyException (exception_caught j)"

definition job_start :: "('w, 'r) job \<Rightarrow> (('w, 'r) job_world, unit) comp" where
  "job_start j =
     bindE (set_state RUNNING) (\<lambda>_.
     bindE (on_outside (invoke (running_event j))) (\<lambda>_.
     (\<lambda>s. case job_body j s of (r, s1) \<Rightarrow>
            (case bindE (set_state FINISHED) (\<lambda>_. on_outside (invoke (finished_event j))) s1 of
               (Inl e, s2) \<Rightarrow> (Inl e, s2)
             | (Inr _, s2) \<Rightarrow> (r, s2)))))"

lemma on_outside_simp: "on_outside m s = (fst (m (outside s)), s\<lparr>outside := snd (m (outside s))\<rparr>)"
  by (simp add: on_outside_def split: prod.split)

text \<open>
  A started job always ends FINISHED with its finished handlers run, once the running
  handlers returned: a target that returns leaves its result and no exception, a target
  that raises leaves the exception and no result, and neither error escapes unless a
  handler raises.
\<close>

theorem job_start_finishes:
  assumes "job_result s = None" and "job_exception s = None"
    and "invoke (running_event j) (outside s) = (Inr (), w1)"
    and "target j w1 = (r, w2)"
    and "invoke (map (\<lambda>h. h (case r of Inl e \<Rightarrow> e | Inr _ \<Rightarrow> PyException)) (exception_event j)) w2 = (Inr (), w3)"
    and "invoke (finished_event j) (case r of Inl _ \<Rightarrow> w3 | Inr _ \<Rightarrow> w2) = (Inr (), w4)"
  shows "job_start j s = (Inr (), \<lparr>job_st = FINISHED,
    job_result = (case r of Inl _ \<Rightarrow> None | Inr x \<Rightarrow> Some x),
    job_exception = (case r of Inl e \<Rightarrow> Some e | Inr _ \<Rightarrow> None), outside = w4\<rparr>)"
  using assms
  by (cases r)
    (auto simp: job_start_def job_body_def exception_caught_def set_state_def comp_simps on_outside_simp
      intro!: job_world.equality)

section \<open>Waiting for the queue\<close>

text \<open>
  \<open>QueueWithTimeout.join\<close> with a timeout, over the counts and times it sees; \<open>None\<close> while
  it still waits.
\<close>

fun queue_join :: "int \<Rightarrow> (nat \<times> int) list \<Rightarrow> (exn + unit) option" where
  "queue_join endtime [] = None"
| "queue_join endtime ((n, now) # obs) =
     (if n = 0 then Some (Inr ())
      else if endtime - now \<le> 0 then Some (Inl TimeoutExpiredError)
      else queue_join endtime obs)"

section \<open>A set of jobs\<close>

text \<open>
  A worker: its thread is started but \<open>run\<close> has not set the state yet, it waits for a
  job, has taken one, runs it, has finished it (the finished handlers come next), has
  called \<open>task_done\<close> (the test for zero comes next), or it stopped. The flag is a state
  \<open>STOPPING\<close> set from outside; \<open>run\<close> overwrites it when it begins.
\<close>

datatype wpc = W_new | W_idle | W_took nat | W_running nat | W_finished nat | W_counted | W_stopped

text \<open>The main program, one command for each access to shared state.\<close>

datatype cmd = Put nat | Attach nat | Start | WaitQueue | StopAll | StopW nat | JoinAll | JoinW nat

record jobs_st =
  queue :: "nat list"
  unfinished :: nat
  all_done :: bool
  any_done :: bool
  attached :: "nat set"
  jstate :: "nat \<Rightarrow> job_state"
  workers :: "(wpc \<times> bool) list"
  prog :: "cmd list"
  num_worker_threads :: nat

definition addJobs :: "nat list \<Rightarrow> cmd list" where
  "addJobs jobs = concat (map (\<lambda>j. [Put j, Attach j]) jobs)"

definition join_cmds :: "cmd list" where
  "join_cmds = [WaitQueue, StopAll, JoinAll]"

definition JobsSet :: "nat \<Rightarrow> cmd list \<Rightarrow> jobs_st" where
  "JobsSet n p = \<lparr>queue = [], unfinished = 0, all_done = False, any_done = False, attached = {},
     jstate = (\<lambda>_. INITED), workers = [], prog = p, num_worker_threads = n\<rparr>"

inductive wstep :: "jobs_st \<Rightarrow> wpc \<times> bool \<Rightarrow> jobs_st \<Rightarrow> wpc \<times> bool \<Rightarrow> bool" where
  boot: "wstep s (W_new, b) s (W_idle, False)"
| take: "queue s = j # r \<Longrightarrow> wstep s (W_idle, b) (s\<lparr>queue := r\<rparr>) (W_took j, b)"
| begin_job: "wstep s (W_took j, b) (s\<lparr>jstate := (jstate s)(j := RUNNING)\<rparr>) (W_running j, b)"
| end_job: "wstep s (W_running j, b) (s\<lparr>jstate := (jstate s)(j := FINISHED)\<rparr>) (W_finished j, b)"
| task_done: "j \<in> attached s \<Longrightarrow> 0 < unfinished s \<Longrightarrow>
    wstep s (W_finished j, b) (s\<lparr>unfinished := unfinished s - 1, any_done := True\<rparr>) (W_counted, b)"
| task_done_raises: "j \<in> attached s \<Longrightarrow> unfinished s = 0 \<Longrightarrow> wstep s (W_finished j, b) s (W_idle, b)"
| no_handler: "j \<notin> attached s \<Longrightarrow> wstep s (W_finished j, b) s (W_idle, b)"
| check_zero: "wstep s (W_counted, b) (s\<lparr>all_done := all_done s \<or> unfinished s = 0\<rparr>) (W_idle, b)"
| quit: "wstep s (W_idle, True) s (W_stopped, True)"

inductive jstep :: "jobs_st \<Rightarrow> jobs_st \<Rightarrow> bool" where
  put: "prog s = Put j # p \<Longrightarrow>
    jstep s (s\<lparr>prog := p, queue := queue s @ [j], unfinished := unfinished s + 1\<rparr>)"
| attach: "prog s = Attach j # p \<Longrightarrow> jstep s (s\<lparr>prog := p, attached := insert j (attached s)\<rparr>)"
| start: "prog s = Start # p \<Longrightarrow>
    jstep s (s\<lparr>prog := p, all_done := False,
      workers := workers s @ replicate (if num_worker_threads s < 1 then unfinished s else num_worker_threads s) (W_new, False)\<rparr>)"
| wait_queue: "prog s = WaitQueue # p \<Longrightarrow> unfinished s = 0 \<Longrightarrow> jstep s (s\<lparr>prog := p\<rparr>)"
| stop_all: "prog s = StopAll # p \<Longrightarrow> jstep s (s\<lparr>prog := map StopW [0..<length (workers s)] @ p\<rparr>)"
| stop: "prog s = StopW i # p \<Longrightarrow> i < length (workers s) \<Longrightarrow>
    jstep s (s\<lparr>prog := p, workers := (workers s)[i := (fst (workers s ! i), True)]\<rparr>)"
| join_all: "prog s = JoinAll # p \<Longrightarrow> jstep s (s\<lparr>prog := map JoinW [0..<length (workers s)] @ p\<rparr>)"
| join: "prog s = JoinW i # p \<Longrightarrow> i < length (workers s) \<Longrightarrow> fst (workers s ! i) = W_stopped \<Longrightarrow>
    jstep s (s\<lparr>prog := p\<rparr>)"
| work: "i < length (workers s) \<Longrightarrow> wstep s (workers s ! i) s' w' \<Longrightarrow>
    jstep s (s'\<lparr>workers := (workers s)[i := w']\<rparr>)"

inductive_cases wstepE: "wstep s w s' w'"
inductive_cases jstepE: "jstep s s'"

section \<open>All jobs first, then the workers\<close>

fun holds :: "wpc \<times> bool \<Rightarrow> nat multiset" where
  "holds (W_took j, b) = {#j#}"
| "holds (W_running j, b) = {#j#}"
| "holds (W_finished j, b) = {#j#}"
| "holds w = {#}"

text \<open>The jobs still queued or in the hands of a worker that has not counted them.\<close>

definition held :: "(wpc \<times> bool) list \<Rightarrow> nat multiset" where
  "held ws = sum_list (map holds ws)"

definition jobs_left :: "jobs_st \<Rightarrow> nat multiset" where
  "jobs_left s = mset (queue s) + held (workers s)"

lemma held_update: "i < length ws \<Longrightarrow> held (ws[i := w]) + holds (ws ! i) = held ws + holds w"
proof (induction ws arbitrary: i)
  case (Cons x ws)
  then show ?case by (cases i) (auto simp: held_def ac_simps)
qed simp

definition main_tail :: "cmd list \<Rightarrow> bool" where
  "main_tail p \<longleftrightarrow> (\<forall>c \<in> set p. case c of Put _ \<Rightarrow> False | Attach _ \<Rightarrow> False | Start \<Rightarrow> False | WaitQueue \<Rightarrow> False | _ \<Rightarrow> True)"

definition started_inv :: "nat list \<Rightarrow> jobs_st \<Rightarrow> bool" where
  "started_inv js s \<longleftrightarrow>
     unfinished s = size (jobs_left s) \<and> set_mset (jobs_left s) \<subseteq> attached s \<and>
     (\<forall>j. count (jobs_left s) j \<le> 1) \<and>
     (\<forall>j \<in> set js. j \<notin># jobs_left s \<longrightarrow> jstate s j = FINISHED) \<and>
     (\<forall>i < length (workers s). \<forall>j. fst (workers s ! i) = W_finished j \<longrightarrow> jstate s j = FINISHED) \<and>
     (all_done s \<longrightarrow> unfinished s = 0) \<and>
     (unfinished s = 0 \<and> js \<noteq> [] \<longrightarrow> all_done s \<or> W_counted \<in> fst ` set (workers s)) \<and>
     (js \<noteq> [] \<longrightarrow> workers s \<noteq> []) \<and>
     (if prog s = join_cmds then \<forall>w \<in> set (workers s). \<not> snd w \<and> fst w \<noteq> W_stopped
      else unfinished s = 0 \<and> main_tail (prog s))"

lemma holds_le_held: "i < length ws \<Longrightarrow> holds (ws ! i) \<subseteq># held ws"
proof (induction ws arbitrary: i)
  case (Cons x ws)
  then show ?case by (cases i) (auto simp: held_def intro: subset_mset.add_increasing)
qed simp

lemma holds_two:
  assumes "i < length ws" and "k < length ws" and "i \<noteq> k"
  shows "holds (ws ! i) + holds (ws ! k) \<subseteq># held ws"
proof -
  have "holds (ws[i := (W_idle, False)] ! k) \<subseteq># held (ws[i := (W_idle, False)])"
    using assms by (intro holds_le_held) simp
  then show ?thesis
    using held_update [OF assms(1), of "(W_idle, False)"] assms(3)
    by (auto simp: subset_mset.add_mono ac_simps) (metis subset_mset.add_left_mono)
qed

lemma counted_update:
  "i < length ws \<Longrightarrow> fst (ws ! i) \<noteq> W_counted \<Longrightarrow> W_counted \<in> fst ` set ws \<Longrightarrow> W_counted \<in> fst ` set (ws[i := w])"
proof -
  assume i: "i < length ws" "fst (ws ! i) \<noteq> W_counted" and "W_counted \<in> fst ` set ws"
  then obtain k where k: "k < length ws" "fst (ws ! k) = W_counted"
    by (auto simp: in_set_conv_nth)
  with i have "ws[i := w] ! k = ws ! k" by (metis nth_list_update_neq)
  moreover have "ws[i := w] ! k \<in> set (ws[i := w])" using k by (intro nth_mem) simp
  ultimately show ?thesis using k by (metis imageI)
qed

lemma update_in: "i < length ws \<Longrightarrow> w \<in> set (ws[i := w])"
  by (simp add: set_update_memI)


section \<open>The invariant is kept\<close>

lemma jobs_left_update:
  assumes "i < length (workers s)" and "queue s' = queue s"
  shows "jobs_left (s'\<lparr>workers := (workers s)[i := w]\<rparr>) + holds (workers s ! i) = jobs_left s + holds w"
  using held_update [OF assms(1), of w] assms(2) by (simp add: jobs_left_def ac_simps)

lemma other_worker_differs:
  assumes "started_inv js s" and "i < length (workers s)" and "k < length (workers s)" and "i \<noteq> k"
    and "holds (workers s ! i) = {#j#}"
  shows "fst (workers s ! k) \<noteq> W_finished j"
proof
  assume "fst (workers s ! k) = W_finished j"
  then have "holds (workers s ! k) = {#j#}" by (cases "workers s ! k") simp
  with holds_two [OF assms(2-4)] assms(5) have "{#j, j#} \<subseteq># held (workers s)" by simp
  then have "{#j, j#} \<subseteq># jobs_left s" unfolding jobs_left_def by (simp add: subset_mset.add_increasing)
  then have "2 \<le> count (jobs_left s) j" by (auto dest!: mset_subset_eq_count [of _ _ j])
  then show False using assms(1) unfolding started_inv_def by (metis Suc_1 not_less_eq_eq)
qed

lemma update_not_stopped:
  assumes "\<forall>w \<in> set ws. \<not> snd w \<and> fst w \<noteq> W_stopped" and "\<not> snd w' \<and> fst w' \<noteq> W_stopped"
  shows "\<forall>w \<in> set (ws[i := w']). \<not> snd w \<and> fst w \<noteq> W_stopped"
proof
  fix w
  assume "w \<in> set (ws[i := w'])"
  then have "w = w' \<or> w \<in> set ws" using set_update_subset_insert [of ws i w'] by auto
  with assms show "\<not> snd w \<and> fst w \<noteq> W_stopped" by metis
qed

text \<open>The part about stop flags, for all worker steps at once.\<close>

lemma wstep_frame:
  assumes "wstep s w s' w'"
  shows "prog s' = prog s" and "unfinished s' \<le> unfinished s"
    and "\<not> snd w \<and> fst w \<noteq> W_stopped \<Longrightarrow> \<not> snd w' \<and> fst w' \<noteq> W_stopped"
  using assms by (cases; simp)+

lemma work_flags:
  assumes step: "wstep s (workers s ! i) s' w'" and i: "i < length (workers s)"
    and flags: "if prog s = join_cmds then \<forall>w \<in> set (workers s). \<not> snd w \<and> fst w \<noteq> W_stopped
      else unfinished s = 0 \<and> main_tail (prog s)"
  shows "if prog s' = join_cmds then \<forall>w \<in> set ((workers s)[i := w']). \<not> snd w \<and> fst w \<noteq> W_stopped
      else unfinished s' = 0 \<and> main_tail (prog s')"
proof (cases "prog s = join_cmds")
  case True
  with flags have all: "\<forall>w \<in> set (workers s). \<not> snd w \<and> fst w \<noteq> W_stopped" by simp
  then have "\<not> snd w' \<and> fst w' \<noteq> W_stopped" using wstep_frame(3) [OF step] nth_mem [OF i] by blast
  from update_not_stopped [OF all this] True wstep_frame(1) [OF step] show ?thesis by simp
next
  case False
  with flags wstep_frame(1,2) [OF step] show ?thesis by simp
qed

text \<open>The flags of a state, and what a state must satisfy, piece by piece.\<close>

definition flags_ok :: "jobs_st \<Rightarrow> bool" where
  "flags_ok s \<longleftrightarrow>
     (if prog s = join_cmds then \<forall>w \<in> set (workers s). \<not> snd w \<and> fst w \<noteq> W_stopped
      else unfinished s = 0 \<and> main_tail (prog s))"

definition fin_ok :: "jobs_st \<Rightarrow> bool" where
  "fin_ok s \<longleftrightarrow> (\<forall>i < length (workers s). \<forall>j. fst (workers s ! i) = W_finished j \<longrightarrow> jstate s j = FINISHED)"

definition done_ok :: "nat list \<Rightarrow> jobs_st \<Rightarrow> bool" where
  "done_ok js s \<longleftrightarrow> (all_done s \<longrightarrow> unfinished s = 0) \<and>
     (unfinished s = 0 \<and> js \<noteq> [] \<longrightarrow> all_done s \<or> W_counted \<in> fst ` set (workers s))"

definition left_ok :: "nat list \<Rightarrow> jobs_st \<Rightarrow> bool" where
  "left_ok js s \<longleftrightarrow>
     unfinished s = size (jobs_left s) \<and> set_mset (jobs_left s) \<subseteq> attached s \<and>
     (\<forall>j. count (jobs_left s) j \<le> 1) \<and>
     (\<forall>j \<in> set js. j \<notin># jobs_left s \<longrightarrow> jstate s j = FINISHED)"

lemma started_inv_parts:
  "started_inv js s \<longleftrightarrow>
     left_ok js s \<and> fin_ok s \<and> done_ok js s \<and> (js \<noteq> [] \<longrightarrow> workers s \<noteq> []) \<and> flags_ok s"
  unfolding started_inv_def left_ok_def fin_ok_def done_ok_def flags_ok_def by blast

lemma left_same:
  assumes "left_ok js s" and "jobs_left t = jobs_left s" and "unfinished t = unfinished s"
    and "attached t = attached s" and "\<And>j. j \<notin># jobs_left s \<Longrightarrow> jstate t j = jstate s j"
  shows "left_ok js t"
  using assms unfolding left_ok_def by simp

lemma fin_update:
  assumes "fin_ok s" and "\<And>k j. k < length (workers s) \<Longrightarrow> k \<noteq> i \<Longrightarrow> fst (workers s ! k) = W_finished j \<Longrightarrow>
      jstate s j = FINISHED \<Longrightarrow> jstate s' j = FINISHED"
    and "\<And>j. fst w' = W_finished j \<Longrightarrow> jstate s' j = FINISHED"
  shows "fin_ok (s'\<lparr>workers := (workers s)[i := w']\<rparr>)"
proof (unfold fin_ok_def, intro allI impI)
  fix k j
  assume k: "k < length (workers (s'\<lparr>workers := (workers s)[i := w']\<rparr>))"
    and f: "fst (workers (s'\<lparr>workers := (workers s)[i := w']\<rparr>) ! k) = W_finished j"
  then have "jstate s' j = FINISHED"
  proof (cases "k = i")
    case True
    with k f show ?thesis using assms(3) by simp
  next
    case False
    with k f show ?thesis using assms(1) assms(2) [of k j] unfolding fin_ok_def by simp
  qed
  then show "jstate (s'\<lparr>workers := (workers s)[i := w']\<rparr>) j = FINISHED" by simp
qed

lemma done_same:
  assumes "done_ok js s" and "i < length (workers s)" and "fst (workers s ! i) \<noteq> W_counted"
    and "all_done s' = all_done s" and "unfinished s' = unfinished s"
  shows "done_ok js (s'\<lparr>workers := (workers s)[i := w']\<rparr>)"
  using assms counted_update [OF assms(2,3), of w'] unfolding done_ok_def by auto

lemma work_inv:
  assumes inv: "started_inv js s" and i: "i < length (workers s)" and step: "wstep s (workers s ! i) s' w'"
  shows "started_inv js (s'\<lparr>workers := (workers s)[i := w']\<rparr>)"
proof -
  let ?s = "s'\<lparr>workers := (workers s)[i := w']\<rparr>"
  have l: "left_ok js s" and f: "fin_ok s" and d: "done_ok js s" and ws: "js \<noteq> [] \<longrightarrow> workers s \<noteq> []"
    and fl: "flags_ok s" using inv unfolding started_inv_parts by blast+
  have flags: "flags_ok ?s"
    using work_flags [OF step i] fl unfolding flags_ok_def by simp
  have "left_ok js ?s \<and> fin_ok ?s \<and> done_ok js ?s"
    using step
  proof cases
    case (boot b)
    have "jobs_left ?s = jobs_left s" using jobs_left_update [OF i, of s' w'] boot by simp
    then have "left_ok js ?s" by (intro left_same [OF l]) (simp_all add: boot)
    moreover have "fin_ok ?s" by (rule fin_update [OF f]) (simp_all add: boot)
    moreover have "done_ok js ?s" by (rule done_same [OF d i]) (simp_all add: boot)
    ultimately show ?thesis by blast
  next
    case (take j r b)
    have "jobs_left ?s = jobs_left s"
      using held_update [OF i, of w'] take by (simp add: jobs_left_def)
    then have "left_ok js ?s" by (intro left_same [OF l]) (simp_all add: take)
    moreover have "fin_ok ?s" by (rule fin_update [OF f]) (simp_all add: take)
    moreover have "done_ok js ?s" by (rule done_same [OF d i]) (simp_all add: take)
    ultimately show ?thesis by blast
  next
    case (begin_job j b)
    have j: "j \<in># jobs_left s"
      using holds_le_held [OF i] begin_job by (simp add: jobs_left_def)
    have "jobs_left ?s = jobs_left s" using jobs_left_update [OF i, of s' w'] begin_job by simp
    then have "left_ok js ?s" by (intro left_same [OF l]) (use j in \<open>auto simp: begin_job\<close>)
    moreover have "fin_ok ?s"
    proof (rule fin_update [OF f])
      fix k j'
      assume k: "k < length (workers s)" "k \<noteq> i" "fst (workers s ! k) = W_finished j'" "jstate s j' = FINISHED"
      then have "j' \<noteq> j"
        using other_worker_differs [OF inv i k(1), of j] begin_job by auto
      then show "jstate s' j' = FINISHED" using k begin_job by simp
    qed (simp add: begin_job)
    moreover have "done_ok js ?s" by (rule done_same [OF d i]) (simp_all add: begin_job)
    ultimately show ?thesis by blast
  next
    case (end_job j b)
    have "jobs_left ?s = jobs_left s" using jobs_left_update [OF i, of s' w'] end_job by simp
    then have "left_ok js ?s"
      using l end_job unfolding left_ok_def by simp
    moreover have "fin_ok ?s" by (rule fin_update [OF f]) (simp_all add: end_job)
    moreover have "done_ok js ?s" by (rule done_same [OF d i]) (simp_all add: end_job)
    ultimately show ?thesis by blast
  next
    case (task_done j b)
    define L where "L = jobs_left ?s"
    have left: "jobs_left s = add_mset j L"
      using jobs_left_update [OF i, of s' w'] task_done unfolding L_def by simp
    have fields: "unfinished ?s = unfinished s - 1" "attached ?s = attached s" "jstate ?s = jstate s"
      using task_done by simp_all
    have fin: "jstate s j = FINISHED" using f task_done(1) i unfolding fin_ok_def by (metis fst_conv)
    note lo = l [unfolded left_ok_def left]
    have "count L k \<le> 1" for k using lo by (metis count_add_mset le_SucI not_less_eq_eq)
    moreover have "unfinished s - 1 = size L" "set_mset L \<subseteq> attached s" using lo by simp_all
    moreover have "jstate s k = FINISHED" if "k \<in> set js" "k \<notin># L" for k
      using lo fin that by (cases "k = j") simp_all
    ultimately have "left_ok js ?s" unfolding left_ok_def fields L_def [symmetric] by blast
    moreover have "fin_ok ?s" by (rule fin_update [OF f]) (simp_all add: task_done)
    moreover have "done_ok js ?s"
    proof -
      have "W_counted \<in> fst ` set ((workers s)[i := w'])" using update_in [OF i, of w'] task_done by force
      with d task_done show ?thesis unfolding done_ok_def by simp
    qed
    ultimately show ?thesis by blast
  next
    case (task_done_raises j b)
    have "j \<in># jobs_left s" using holds_le_held [OF i] task_done_raises by (simp add: jobs_left_def)
    with task_done_raises l show ?thesis unfolding left_ok_def by auto
  next
    case (no_handler j b)
    have "j \<in># jobs_left s" using holds_le_held [OF i] no_handler by (simp add: jobs_left_def)
    with no_handler l show ?thesis unfolding left_ok_def by auto
  next
    case (check_zero b)
    have "jobs_left ?s = jobs_left s" using jobs_left_update [OF i, of s' w'] check_zero by simp
    then have "left_ok js ?s" by (intro left_same [OF l]) (simp_all add: check_zero)
    moreover have "fin_ok ?s" by (rule fin_update [OF f]) (simp_all add: check_zero)
    moreover have "done_ok js ?s" using d check_zero unfolding done_ok_def by simp
    ultimately show ?thesis by blast
  next
    case quit
    have "jobs_left ?s = jobs_left s" using jobs_left_update [OF i, of s' w'] quit by simp
    then have "left_ok js ?s" by (intro left_same [OF l]) (simp_all add: quit)
    moreover have "fin_ok ?s" by (rule fin_update [OF f]) (simp_all add: quit)
    moreover have "done_ok js ?s" by (rule done_same [OF d i]) (simp_all add: quit)
    ultimately show ?thesis by blast
  qed
  with flags ws show ?thesis unfolding started_inv_parts by simp
qed

lemma not_join_cmds: "main_tail p \<Longrightarrow> p \<noteq> join_cmds"
  by (auto simp: main_tail_def join_cmds_def)

lemma main_tail_simps [simp]:
  "main_tail (StopAll # p) = main_tail p" "main_tail (JoinAll # p) = main_tail p"
  "main_tail (StopW i # p) = main_tail p" "main_tail (JoinW i # p) = main_tail p"
  "\<not> main_tail (Put j # p)" "\<not> main_tail (Attach j # p)" "\<not> main_tail (Start # p)" "\<not> main_tail (WaitQueue # p)"
  "main_tail []" "main_tail (map StopW is @ p) = main_tail p" "main_tail (map JoinW is @ p) = main_tail p"
  by (auto simp: main_tail_def)

text \<open>A step of the main program after the start.\<close>

lemma main_step_inv:
  assumes inv: "started_inv js s" and "workers t = workers s" and "queue t = queue s"
    and "unfinished t = unfinished s" and "attached t = attached s" and "jstate t = jstate s"
    and "all_done t = all_done s" and "unfinished s = 0" and "main_tail (prog t)"
  shows "started_inv js t"
  using assms(2-9) inv not_join_cmds [OF assms(9)]
  unfolding started_inv_parts left_ok_def fin_ok_def done_ok_def flags_ok_def jobs_left_def by simp

lemma set_update_same_fst: "i < length ws \<Longrightarrow> fst w = fst (ws ! i) \<Longrightarrow> fst ` set (ws[i := w]) = fst ` set ws"
  unfolding set_map [symmetric] map_update by (metis length_map list_update_id nth_map)

lemma stop_flag_inv:
  assumes inv: "started_inv js s" and i: "i < length (workers s)" and u: "unfinished s = 0" and p: "main_tail p"
  shows "started_inv js (s\<lparr>prog := p, workers := (workers s)[i := (fst (workers s ! i), True)]\<rparr>)"
proof -
  let ?w = "(fst (workers s ! i), True)"
  let ?s = "s\<lparr>prog := p, workers := (workers s)[i := ?w]\<rparr>"
  have "holds ?w = holds (workers s ! i)" by (cases "workers s ! i"; cases "fst (workers s ! i)") simp_all
  then have left: "jobs_left ?s = jobs_left s"
    using held_update [OF i, of ?w] by (simp add: jobs_left_def)
  have l: "left_ok js s" and f: "fin_ok s" and d: "done_ok js s" and ws: "js \<noteq> [] \<longrightarrow> workers s \<noteq> []"
    using inv unfolding started_inv_parts by blast+
  have "left_ok js ?s" by (intro left_same [OF l]) (simp_all add: left)
  moreover have "fin_ok ?s"
    using fin_update [OF f, of i "s\<lparr>prog := p\<rparr>" ?w] f i unfolding fin_ok_def by simp
  moreover have "fst ` set (workers ?s) = fst ` set (workers s)"
    using set_update_same_fst [OF i, of ?w] by simp
  then have "done_ok js ?s" using d unfolding done_ok_def by simp
  moreover have "flags_ok ?s" using u p not_join_cmds [OF p] unfolding flags_ok_def by simp
  ultimately show ?thesis using ws unfolding started_inv_parts by simp
qed

lemma started_step:
  assumes inv: "started_inv js s" and step: "jstep s t"
  shows "started_inv js t"
proof -
  have tail: "prog s = join_cmds \<or> unfinished s = 0 \<and> main_tail (prog s)"
    using inv unfolding started_inv_parts flags_ok_def by (auto split: if_splits)
  from step show ?thesis
  proof cases
    case (wait_queue p)
    with tail have "main_tail p" by (auto simp: join_cmds_def)
    then show ?thesis by (intro main_step_inv [OF inv]) (simp_all add: wait_queue)
  next
    case (stop_all p)
    with tail have "unfinished s = 0" "main_tail p" by (auto simp: join_cmds_def)
    then show ?thesis by (intro main_step_inv [OF inv]) (simp_all add: stop_all)
  next
    case (stop i p)
    with tail have "unfinished s = 0" "main_tail p" by (auto simp: join_cmds_def)
    with stop show ?thesis using stop_flag_inv [OF inv] by simp
  next
    case (join_all p)
    with tail have "unfinished s = 0" "main_tail p" by (auto simp: join_cmds_def)
    then show ?thesis by (intro main_step_inv [OF inv]) (simp_all add: join_all)
  next
    case (join i p)
    with tail have "unfinished s = 0" "main_tail p" by (auto simp: join_cmds_def)
    then show ?thesis by (intro main_step_inv [OF inv]) (simp_all add: join)
  next
    case (work i s' w')
    then show ?thesis using work_inv [OF inv] by simp
  qed (use tail in \<open>auto simp: join_cmds_def\<close>)
qed

section \<open>From the empty set to the start\<close>

definition client :: "nat list \<Rightarrow> cmd list" where
  "client js = addJobs js @ Start # join_cmds"

definition filling :: "nat list \<Rightarrow> jobs_st \<Rightarrow> bool" where
  "filling js s \<longleftrightarrow> workers s = [] \<and> \<not> all_done s \<and> unfinished s = length (queue s) \<and>
     (\<exists>rest. js = queue s @ rest \<and>
        (prog s = client rest \<and> set (queue s) \<subseteq> attached s \<or>
         (\<exists>j. prog s = Attach j # client rest \<and> set (queue s) \<subseteq> insert j (attached s))))"

definition jobs_inv :: "nat list \<Rightarrow> nat \<Rightarrow> jobs_st \<Rightarrow> bool" where
  "jobs_inv js n s \<longleftrightarrow> num_worker_threads s = n \<and> length (workers s) \<le> max n (length js) \<and>
     (filling js s \<or> started_inv js s)"

lemma client_simps: "client [] = Start # join_cmds" "client (j # js) = Put j # Attach j # client js"
  by (simp_all add: client_def addJobs_def)

lemma held_new: "held (replicate n (W_new, False)) = {#}"
  by (induction n) (auto simp: held_def)

lemma start_inv:
  assumes "distinct js" and "queue s = js" and "unfinished s = length js" and "set js \<subseteq> attached s"
    and "workers s = []" and "js \<noteq> [] \<longrightarrow> 0 < m"
  shows "started_inv js (s\<lparr>prog := join_cmds, all_done := False, workers := workers s @ replicate m (W_new, False)\<rparr>)"
proof -
  let ?s = "s\<lparr>prog := join_cmds, all_done := False, workers := workers s @ replicate m (W_new, False)\<rparr>"
  have left: "jobs_left ?s = mset js" using assms by (simp add: jobs_left_def held_new)
  then have "left_ok js ?s"
    using assms distinct_count_atmost_1 [of js] unfolding left_ok_def left by auto
  then show ?thesis
    using assms unfolding started_inv_parts fin_ok_def done_ok_def flags_ok_def by auto
qed

lemma filling_step:
  assumes d: "distinct js" and inv: "filling js s" and step: "jstep s t" and n: "num_worker_threads s = n"
  shows "jobs_inv js n t"
proof -
  from inv obtain rest where js: "js = queue s @ rest" and ws: "workers s = []" "\<not> all_done s" "unfinished s = length (queue s)"
    and prog: "prog s = client rest \<and> set (queue s) \<subseteq> attached s \<or>
      (\<exists>j. prog s = Attach j # client rest \<and> set (queue s) \<subseteq> insert j (attached s))"
    unfolding filling_def by blast
  show ?thesis
  proof (cases "\<exists>j. prog s = Attach j # client rest \<and> set (queue s) \<subseteq> insert j (attached s)")
    case True
    then obtain j where j: "prog s = Attach j # client rest" "set (queue s) \<subseteq> insert j (attached s)" by blast
    from step have "t = s\<lparr>prog := client rest, attached := insert j (attached s)\<rparr>"
      by cases (use j ws in auto)
    then show ?thesis using j js ws n unfolding jobs_inv_def filling_def by auto
  next
    case False
    with prog have c: "prog s = client rest" "set (queue s) \<subseteq> attached s" by auto
    show ?thesis
    proof (cases rest)
      case Nil
      let ?m = "if num_worker_threads s < 1 then unfinished s else num_worker_threads s"
      from step have t: "t = s\<lparr>prog := join_cmds, all_done := False, workers := workers s @ replicate ?m (W_new, False)\<rparr>"
        by cases (use c Nil ws in \<open>auto simp: client_simps\<close>)
      have "started_inv js t"
        unfolding t by (rule start_inv [OF d]) (use js Nil ws c in auto)
      then show ?thesis using t n ws js Nil unfolding jobs_inv_def by auto
    next
      case (Cons j rest')
      from step have "t = s\<lparr>prog := Attach j # client rest', queue := queue s @ [j], unfinished := unfinished s + 1\<rparr>"
        by cases (use c Cons ws in \<open>auto simp: client_simps\<close>)
      then show ?thesis using c Cons js ws n unfolding jobs_inv_def filling_def by auto
    qed
  qed
qed

lemma step_frame:
  assumes "jstep s t"
  shows "num_worker_threads t = num_worker_threads s"
    and "Start \<notin> set (take 1 (prog s)) \<Longrightarrow> length (workers t) = length (workers s)"
  using assms by (cases; auto elim: wstepE)+

lemma jobs_inv_step:
  assumes "distinct js" and "jobs_inv js n s" and "jstep s t"
  shows "jobs_inv js n t"
proof (cases "filling js s")
  case True
  with assms show ?thesis using filling_step unfolding jobs_inv_def by blast
next
  case False
  with assms(2) have inv: "started_inv js s" unfolding jobs_inv_def by blast
  then have "Start \<notin> set (take 1 (prog s))"
    unfolding started_inv_def by (cases "prog s") (auto simp: join_cmds_def split: if_splits)
  with started_step [OF inv assms(3)] step_frame [OF assms(3)] assms(2) show ?thesis
    unfolding jobs_inv_def by simp
qed

lemma jobs_inv_reach:
  assumes "distinct js" and "jstep\<^sup>*\<^sup>* (JobsSet n (client js)) s"
  shows "jobs_inv js n s"
  using assms(2)
proof induction
  case base
  show ?case by (simp add: jobs_inv_def filling_def JobsSet_def)
next
  case (step s t)
  then show ?case using jobs_inv_step [OF assms(1)] by blast
qed

lemma nothing_left:
  assumes "started_inv js s" and "unfinished s = 0"
  shows "queue s = []" and "\<forall>j \<in> set js. jstate s j = FINISHED"
  using assms unfolding started_inv_def jobs_left_def by auto

text \<open>
  C8. Safety of the set: when distinct jobs are added before the start, then in every
  interleaving of the main program and any number of workers, \<open>allDone\<close> is only ever True,
  and the wait of \<open>join\<close> for the queue is only ever over (no such command is left), when
  every job is FINISHED and the queue is empty.
\<close>

theorem all_done_means_finished:
  assumes "distinct js" and "jstep\<^sup>*\<^sup>* (JobsSet n (addJobs js @ Start # join_cmds)) s"
    and "all_done s \<or> WaitQueue \<notin> set (prog s)"
  shows "queue s = [] \<and> (\<forall>j \<in> set js. jstate s j = FINISHED)"
proof -
  have "jobs_inv js n s"
    using jobs_inv_reach [OF assms(1)] assms(2) by (simp add: client_def)
  moreover have "\<not> filling js s" using assms(3) by (auto simp: filling_def client_def join_cmds_def)
  ultimately have inv: "started_inv js s" by (simp add: jobs_inv_def)
  moreover have "unfinished s = 0"
  proof (cases "all_done s")
    case False
    with assms(3) have "prog s \<noteq> join_cmds" by (auto simp: join_cmds_def)
    with inv show ?thesis unfolding started_inv_def by argo
  qed (use inv in \<open>auto simp: started_inv_def\<close>)
  ultimately show ?thesis using nothing_left by blast
qed

section \<open>Every run ends\<close>

text \<open>The steps a state has left: for every command, every queued job and every worker.\<close>

fun pc_work :: "wpc \<Rightarrow> nat" where
  "pc_work W_new = 2"
| "pc_work W_idle = 1"
| "pc_work (W_took j) = 5"
| "pc_work (W_running j) = 4"
| "pc_work (W_finished j) = 3"
| "pc_work W_counted = 2"
| "pc_work W_stopped = 0"

fun cmd_work :: "nat \<Rightarrow> cmd \<Rightarrow> nat" where
  "cmd_work K (Put j) = 6"
| "cmd_work K Start = 1 + 2 * K"
| "cmd_work K StopAll = 1 + K"
| "cmd_work K JoinAll = 1 + K"
| "cmd_work K c = 1"

definition workers_work :: "(wpc \<times> bool) list \<Rightarrow> nat" where
  "workers_work ws = sum_list (map (pc_work \<circ> fst) ws)"

definition work_left :: "nat \<Rightarrow> jobs_st \<Rightarrow> nat" where
  "work_left K s = sum_list (map (cmd_work K) (prog s)) + 5 * length (queue s) + workers_work (workers s)"

lemma workers_work_update:
  "i < length ws \<Longrightarrow> workers_work (ws[i := w]) + pc_work (fst (ws ! i)) = workers_work ws + pc_work (fst w)"
proof (induction ws arbitrary: i)
  case (Cons x ws)
  show ?case
  proof (cases i)
    case (Suc k)
    with Cons have "workers_work (ws[k := w]) + pc_work (fst (ws ! k)) = workers_work ws + pc_work (fst w)" by simp
    then show ?thesis using Suc by (simp add: workers_work_def)
  qed (simp add: workers_work_def)
qed simp

lemma workers_work_new: "workers_work (replicate m (W_new, False)) = 2 * m"
  by (induction m) (auto simp: workers_work_def)

lemma wstep_work:
  "wstep s w s' w' \<Longrightarrow> 5 * length (queue s') + pc_work (fst w') < 5 * length (queue s) + pc_work (fst w)"
  by (cases rule: wstep.cases) auto

lemma jstep_work:
  assumes step: "jstep s t" and ws: "length (workers t) \<le> K"
  shows "work_left K t < work_left K s"
  using step
proof cases
  case (stop i p)
  then show ?thesis
    using workers_work_update [of i "workers s" "(fst (workers s ! i), True)"] by (simp add: work_left_def)
next
  case (start p)
  then show ?thesis
    using ws by (auto simp: work_left_def workers_work_def [of "workers s @ _"] workers_work_def [symmetric]
        workers_work_new [unfolded workers_work_def] sum_list_replicate)
next
  case (work i s' w')
  then show ?thesis
    using workers_work_update [of i "workers s" w'] wstep_work [OF work(3)] wstep_frame(1) [OF work(3)]
    by (simp add: work_left_def)
qed (use ws in \<open>auto simp: work_left_def comp_def sum_list_triv map_replicate_const [symmetric]\<close>)

section \<open>What is possible\<close>

text \<open>A worker with a job in hand, or one that has counted, can always go on.\<close>

lemma busy_worker_steps:
  assumes "i < length (workers s)" and "holds (workers s ! i) \<noteq> {#} \<or> fst (workers s ! i) = W_counted"
  shows "\<exists>t. jstep s t"
proof -
  obtain pc b where w: "workers s ! i = (pc, b)" by fastforce
  have "\<exists>s' w'. wstep s (pc, b) s' w'"
  proof (cases pc)
    case (W_finished j)
    then show ?thesis
      using wstep.task_done [of j s b] wstep.task_done_raises [of j s b] wstep.no_handler [of j s b]
      by (cases "j \<in> attached s"; cases "unfinished s") blast+
  qed (use assms(2) w in \<open>auto intro: wstep.intros\<close>)
  with w assms(1) show ?thesis by (metis jstep.work)
qed

lemma held_nonempty: "held ws \<noteq> {#} \<Longrightarrow> \<exists>w \<in> set ws. holds w \<noteq> {#}"
  by (induction ws) (auto simp: held_def)

lemma unfinished_steps:
  assumes inv: "started_inv js s" and u: "0 < unfinished s" and js: "js \<noteq> []"
  shows "\<exists>t. jstep s t"
proof (cases "held (workers s) = {#}")
  case False
  then show ?thesis using held_nonempty busy_worker_steps by (metis in_set_conv_nth)
next
  case True
  have p: "prog s = join_cmds" using inv u unfolding started_inv_parts flags_ok_def by (auto split: if_splits)
  have "queue s \<noteq> []" using inv u True unfolding started_inv_def jobs_left_def by auto
  then obtain j r where q: "queue s = j # r" by (cases "queue s") auto
  have ws: "0 < length (workers s)" using inv js unfolding started_inv_def by blast
  obtain pc b where w: "workers s ! 0 = (pc, b)" by fastforce
  have "fst (workers s ! 0) \<noteq> W_stopped"
    using inv p ws nth_mem unfolding started_inv_parts flags_ok_def by auto
  then have "pc = W_new \<or> pc = W_idle \<or> holds (workers s ! 0) \<noteq> {#} \<or> fst (workers s ! 0) = W_counted"
    using w by (cases pc) auto
  moreover have "pc = W_new \<or> pc = W_idle \<Longrightarrow> \<exists>s' w'. wstep s (workers s ! 0) s' w'"
    unfolding w using wstep.boot wstep.take [OF q] by blast
  ultimately show ?thesis using busy_worker_steps [OF ws] jstep.work [OF ws] by blast
qed

lemma filling_steps: "filling js s \<Longrightarrow> \<exists>t. jstep s t"
proof -
  assume "filling js s"
  then obtain rest where "prog s = client rest \<or> (\<exists>j. prog s = Attach j # client rest)"
    unfolding filling_def by blast
  then show ?thesis
    by (cases rest) (auto simp: client_simps intro: jstep.put jstep.attach jstep.start)
qed

lemma jstep_bounded:
  assumes "distinct js" and "(jstep ^^ k) (JobsSet n (client js)) s"
  shows "work_left (max n (length js)) s + k \<le> work_left (max n (length js)) (JobsSet n (client js))"
  using assms(2)
proof (induction k arbitrary: s)
  case (Suc k)
  then obtain t where t: "(jstep ^^ k) (JobsSet n (client js)) t" "jstep t s" by auto
  then have "jstep\<^sup>*\<^sup>* (JobsSet n (client js)) s"
    by (metis rtranclp.rtrancl_into_rtrancl relpowp_imp_rtranclp)
  then have "length (workers s) \<le> max n (length js)"
    using jobs_inv_reach [OF assms(1)] unfolding jobs_inv_def by blast
  from jstep_work [OF t(2) this] Suc.IH [OF t(1)] show ?case by simp
qed simp

lemma client_work: "work_left K (JobsSet n (client js)) = 7 * length js + 4 * K + 4"
proof -
  have "sum_list (map (cmd_work K) (client js)) = 7 * length js + 4 * K + 4"
    by (induction js) (auto simp: client_simps join_cmds_def)
  then show ?thesis by (simp add: work_left_def JobsSet_def workers_work_def)
qed

text \<open>
  C9. Liveness of the set: with distinct jobs added before the start, no interleaving of
  main program and workers is longer than \<open>7 |jobs| + 4 max(threads, |jobs|) + 4\<close> steps,
  and one that cannot go on has all jobs FINISHED and, if there was a job, \<open>allDone\<close> set:
  the workers neither starve nor deadlock before that.
\<close>

theorem jobs_all_finish:
  assumes "distinct js" and "(jstep ^^ k) (JobsSet n (addJobs js @ Start # join_cmds)) s"
  shows "k \<le> 7 * length js + 4 * max n (length js) + 4 \<and>
    ((\<nexists>t. jstep s t) \<longrightarrow> (\<forall>j \<in> set js. jstate s j = FINISHED) \<and> (js \<noteq> [] \<longrightarrow> all_done s))"
proof -
  note run = assms(2) [folded client_def]
  have "jobs_inv js n s" using jobs_inv_reach [OF assms(1)] run relpowp_imp_rtranclp by metis
  moreover have "filling js s \<Longrightarrow> \<exists>t. jstep s t" by (rule filling_steps)
  ultimately have inv: "started_inv js s" if "\<nexists>t. jstep s t" using that unfolding jobs_inv_def by blast
  have "(\<forall>j \<in> set js. jstate s j = FINISHED) \<and> (js \<noteq> [] \<longrightarrow> all_done s)" if stuck: "\<nexists>t. jstep s t"
  proof (cases "js = []")
    case False
    have u: "unfinished s = 0" using unfinished_steps [OF inv [OF stuck] _ False] stuck by auto
    have "W_counted \<notin> fst ` set (workers s)"
      using busy_worker_steps stuck by (auto simp: in_set_conv_nth) (metis fst_conv)
    then show ?thesis
      using nothing_left [OF inv [OF stuck] u] inv [OF stuck] u False unfolding started_inv_parts done_ok_def by blast
  qed simp
  then show ?thesis using jstep_bounded [OF assms(1) run] client_work by simp
qed

section \<open>What goes wrong\<close>

definition jst ::
  "nat list \<Rightarrow> nat \<Rightarrow> bool \<times> bool \<Rightarrow> nat set \<Rightarrow> (nat \<Rightarrow> job_state) \<Rightarrow> (wpc \<times> bool) list \<Rightarrow> cmd list \<Rightarrow> nat \<Rightarrow> jobs_st" where
  "jst q u d a f ws p n = \<lparr>queue = q, unfinished = u, all_done = fst d, any_done = snd d, attached = a,
     jstate = f, workers = ws, prog = p, num_worker_threads = n\<rparr>"

lemma jstep_to: "jstep s t \<Longrightarrow> t = t' \<Longrightarrow> jstep s t'"
  by simp

lemma work_to:
  "wstep s w s' w' \<Longrightarrow> workers s ! i = w \<Longrightarrow> i < length (workers s) \<Longrightarrow>
     t = s'\<lparr>workers := (workers s)[i := w']\<rparr> \<Longrightarrow> jstep s t"
  using jstep.work by metis

lemma reach_step: "jstep s t \<Longrightarrow> jstep\<^sup>*\<^sup>* t u \<Longrightarrow> jstep\<^sup>*\<^sup>* s u"
  by (rule converse_rtranclp_into_rtranclp)

abbreviation (input) is_job :: "nat \<Rightarrow> job_state \<Rightarrow> nat \<Rightarrow> job_state" where
  "is_job j x \<equiv> (\<lambda>_. INITED)(j := x)"

definition late_end :: "nat \<Rightarrow> jobs_st" where
  "late_end j = jst [] 1 (False, False) {j} (is_job j FINISHED) [(W_idle, False)] join_cmds 1"

lemma stuck_idle:
  assumes "queue s = []" and "\<forall>w \<in> set (workers s). w = (W_idle, False) \<or> fst w = W_stopped"
    and "prog s = WaitQueue # p \<and> 0 < unfinished s \<or>
      prog s = JoinW i # p \<and> (i < length (workers s) \<longrightarrow> fst (workers s ! i) \<noteq> W_stopped)"
  shows "\<nexists>t. jstep s t"
proof
  assume "\<exists>t. jstep s t"
  then obtain t where "jstep s t" by blast
  then show False
  proof cases
    case (work k s' w')
    then have "workers s ! k = (W_idle, False) \<or> fst (workers s ! k) = W_stopped"
      using assms(2) nth_mem by blast
    with work(3) assms(1) show False by (cases rule: wstep.cases) auto
  qed (use assms(3) in auto)
qed

text \<open>
  A job added after the start can be lost: the handler that counts it is attached only
  after it is in the queue, so a quick worker finishes it uncounted. Then \<open>allDone\<close> stays
  False, \<open>join\<close> waits for a job that is FINISHED, and nothing can move.
\<close>

theorem late_job_hangs_join:
  "jstep\<^sup>*\<^sup>* (JobsSet 1 (Start # addJobs [j] @ join_cmds)) (late_end j) \<and>
   jstate (late_end j) j = FINISHED \<and> \<not> all_done (late_end j) \<and> (\<nexists>t. jstep (late_end j) t)"
proof (intro conjI)
  let ?d = "(False, False)" and ?p = "Attach j # join_cmds"
  have "JobsSet 1 (Start # addJobs [j] @ join_cmds) = jst [] 0 ?d {} (\<lambda>_. INITED) [] (Start # Put j # ?p) 1"
    by (simp add: JobsSet_def jst_def addJobs_def)
  also have "jstep\<^sup>*\<^sup>* \<dots> (late_end j)"
  proof -
    have a1: "jstep (jst [] 0 ?d {} (\<lambda>_. INITED) [] (Start # Put j # ?p) 1)
        (jst [] 0 ?d {} (\<lambda>_. INITED) [(W_new, False)] (Put j # ?p) 1)"
      by (rule jstep_to [OF jstep.start]) (simp_all add: jst_def)
    have a2: "jstep (jst [] 0 ?d {} (\<lambda>_. INITED) [(W_new, False)] (Put j # ?p) 1)
        (jst [j] 1 ?d {} (\<lambda>_. INITED) [(W_new, False)] ?p 1)"
      by (rule jstep_to [OF jstep.put]) (simp_all add: jst_def)
    have a3: "jstep (jst [j] 1 ?d {} (\<lambda>_. INITED) [(W_new, False)] ?p 1)
        (jst [j] 1 ?d {} (\<lambda>_. INITED) [(W_idle, False)] ?p 1)"
      by (rule work_to [OF wstep.boot [where b = False], of _ 0]) (simp_all add: jst_def)
    have a4: "jstep (jst [j] 1 ?d {} (\<lambda>_. INITED) [(W_idle, False)] ?p 1)
        (jst [] 1 ?d {} (\<lambda>_. INITED) [(W_took j, False)] ?p 1)"
      by (rule work_to [OF wstep.take [where b = False], of _ j "[]" 0]) (simp_all add: jst_def)
    have a5: "jstep (jst [] 1 ?d {} (\<lambda>_. INITED) [(W_took j, False)] ?p 1)
        (jst [] 1 ?d {} (is_job j RUNNING) [(W_running j, False)] ?p 1)"
      by (rule work_to [OF wstep.begin_job [where b = False and j = j], of _ 0]) (simp_all add: jst_def)
    have a6: "jstep (jst [] 1 ?d {} (is_job j RUNNING) [(W_running j, False)] ?p 1)
        (jst [] 1 ?d {} (is_job j FINISHED) [(W_finished j, False)] ?p 1)"
      by (rule work_to [OF wstep.end_job [where b = False and j = j], of _ 0]) (simp_all add: jst_def)
    have a7: "jstep (jst [] 1 ?d {} (is_job j FINISHED) [(W_finished j, False)] ?p 1)
        (jst [] 1 ?d {} (is_job j FINISHED) [(W_idle, False)] ?p 1)"
      by (rule work_to [OF wstep.no_handler [where b = False], of j _ 0]) (simp_all add: jst_def)
    have a8: "jstep (jst [] 1 ?d {} (is_job j FINISHED) [(W_idle, False)] ?p 1) (late_end j)"
      by (rule jstep_to [OF jstep.attach]) (simp_all add: jst_def late_end_def)
    show ?thesis
      by (rule reach_step [OF a1 reach_step [OF a2 reach_step [OF a3 reach_step [OF a4 reach_step [OF a5 reach_step [OF a6 reach_step [OF a7 reach_step [OF a8 rtranclp.rtrancl_refl]]]]]]]])
  qed
  finally show "jstep\<^sup>*\<^sup>* (JobsSet 1 (Start # addJobs [j] @ join_cmds)) (late_end j)" .
  show "\<nexists>t. jstep (late_end j) t"
    by (rule stuck_idle [of _ "[StopAll, JoinAll]"]) (simp_all add: late_end_def jst_def join_cmds_def)
qed (simp_all add: late_end_def jst_def)

definition lost_stop_end :: jobs_st where
  "lost_stop_end = jst [] 0 (False, False) {} (\<lambda>_. INITED) [(W_idle, False)] [JoinW 0] 1"

text \<open>
  A stop can be lost: \<open>run\<close> sets the state to RUNNING when its thread gets going and so
  overwrites a STOPPING set before. The worker then polls for ever and \<open>join\<close> never
  returns, though no job is left.
\<close>

theorem early_stop_is_lost:
  "jstep\<^sup>*\<^sup>* (JobsSet 1 (addJobs [] @ Start # join_cmds)) lost_stop_end \<and>
   unfinished lost_stop_end = 0 \<and> (\<nexists>t. jstep lost_stop_end t)"
proof (intro conjI)
  let ?s = "jst [] 0 (False, False) {} (\<lambda>_. INITED)"
  have "JobsSet 1 (addJobs [] @ Start # join_cmds) = ?s [] (Start # join_cmds) 1"
    by (simp add: JobsSet_def jst_def addJobs_def)
  also have "jstep\<^sup>*\<^sup>* \<dots> lost_stop_end"
  proof -
    have a1: "jstep (?s [] (Start # join_cmds) 1) (?s [(W_new, False)] join_cmds 1)"
      by (rule jstep_to [OF jstep.start]) (simp_all add: jst_def)
    have a2: "jstep (?s [(W_new, False)] join_cmds 1) (?s [(W_new, False)] [StopAll, JoinAll] 1)"
      by (rule jstep_to [OF jstep.wait_queue]) (simp_all add: jst_def join_cmds_def)
    have a3: "jstep (?s [(W_new, False)] [StopAll, JoinAll] 1) (?s [(W_new, False)] [StopW 0, JoinAll] 1)"
      by (rule jstep_to [OF jstep.stop_all]) (simp_all add: jst_def)
    have a4: "jstep (?s [(W_new, False)] [StopW 0, JoinAll] 1) (?s [(W_new, True)] [JoinAll] 1)"
      by (rule jstep_to [OF jstep.stop [where i = 0]]) (simp_all add: jst_def)
    have a5: "jstep (?s [(W_new, True)] [JoinAll] 1) (?s [(W_idle, False)] [JoinAll] 1)"
      by (rule work_to [OF wstep.boot [where b = True], of _ 0]) (simp_all add: jst_def)
    have a6: "jstep (?s [(W_idle, False)] [JoinAll] 1) lost_stop_end"
      by (rule jstep_to [OF jstep.join_all]) (simp_all add: jst_def lost_stop_end_def)
    show ?thesis
      by (rule reach_step [OF a1 reach_step [OF a2 reach_step [OF a3 reach_step [OF a4 reach_step [OF a5 reach_step [OF a6 rtranclp.rtrancl_refl]]]]]])
  qed
  finally show "jstep\<^sup>*\<^sup>* (JobsSet 1 (addJobs [] @ Start # join_cmds)) lost_stop_end" .
  show "\<nexists>t. jstep lost_stop_end t"
    by (rule stuck_idle [of _ "[]" 0]) (simp_all add: lost_stop_end_def jst_def)
qed (simp add: lost_stop_end_def jst_def)

section \<open>Parallel functions\<close>

text \<open>
  \<open>runParallel\<close>: a thread per function; a thread whose function raises keeps the return
  value \<open>None\<close>. Waiting for all, it returns the values in the order of the functions.
\<close>

definition retValue :: "exn + 'a \<Rightarrow> 'a option" where
  "retValue outcome = (case outcome of Inl e \<Rightarrow> None | Inr v \<Rightarrow> Some v)"

fun runParallel :: "('p \<Rightarrow> exn + 'a) list \<Rightarrow> 'p list \<Rightarrow> exn + 'a option list" where
  "runParallel [] params = Inr []"
| "runParallel (f # fs) [] = Inl IndexError"
| "runParallel (f # fs) (p # ps) =
     (case runParallel fs ps of Inl e \<Rightarrow> Inl e | Inr rs \<Rightarrow> Inr (retValue (f p) # rs))"

lemma runParallel_values:
  "runParallel fs ps = (if length fs \<le> length ps then Inr (map2 (\<lambda>f p. retValue (f p)) fs ps) else Inl IndexError)"
  by (induction fs ps rule: runParallel.induct) auto

section \<open>Witnesses\<close>

definition demo_job :: "(nat list, nat) job" where
  "demo_job = \<lparr>target = raise ValueError, running_event = [modify (\<lambda>l. l @ [1])],
     exception_event = [\<lambda>e. modify (\<lambda>l. l @ [2])], finished_event = [modify (\<lambda>l. l @ [3])]\<rparr>"

theorem job_start_finishes_witness:
  "job_start demo_job \<lparr>job_st = INITED, job_result = None, job_exception = None, outside = []\<rparr> =
     (Inr (), \<lparr>job_st = FINISHED, job_result = None, job_exception = Some ValueError, outside = [1, 2, 3]\<rparr>)"
  using job_start_finishes [of "\<lparr>job_st = INITED, job_result = None, job_exception = None, outside = []\<rparr>"
      demo_job "[1]" "Inl ValueError" "[1]" "[1, 2]" "[1, 2, 3]"]
  by (simp add: demo_job_def invoke_def comp_simps)

text \<open>One job and one worker, up to the moment all is done.\<close>

definition demo_done :: jobs_st where
  "demo_done = jst [] 0 (True, True) {0} (is_job 0 FINISHED) [(W_idle, False)] join_cmds 1"

lemma demo_run: "jstep\<^sup>*\<^sup>* (JobsSet 1 (addJobs [0] @ Start # join_cmds)) demo_done"
proof -
  let ?d = "(False, False)" and ?f = "\<lambda>_. INITED" and ?p = "Start # join_cmds"
  have "JobsSet 1 (addJobs [0] @ Start # join_cmds) = jst [] 0 ?d {} ?f [] (Put 0 # Attach 0 # ?p) 1"
    by (simp add: JobsSet_def jst_def addJobs_def)
  also have "jstep\<^sup>*\<^sup>* \<dots> demo_done"
  proof -
    have a1: "jstep (jst [] 0 ?d {} ?f [] (Put 0 # Attach 0 # ?p) 1) (jst [0] 1 ?d {} ?f [] (Attach 0 # ?p) 1)"
      by (rule jstep_to [OF jstep.put]) (simp_all add: jst_def)
    have a2: "jstep (jst [0] 1 ?d {} ?f [] (Attach 0 # ?p) 1) (jst [0] 1 ?d {0} ?f [] ?p 1)"
      by (rule jstep_to [OF jstep.attach]) (simp_all add: jst_def)
    have a3: "jstep (jst [0] 1 ?d {0} ?f [] ?p 1) (jst [0] 1 ?d {0} ?f [(W_new, False)] join_cmds 1)"
      by (rule jstep_to [OF jstep.start]) (simp_all add: jst_def)
    have a4: "jstep (jst [0] 1 ?d {0} ?f [(W_new, False)] join_cmds 1) (jst [0] 1 ?d {0} ?f [(W_idle, False)] join_cmds 1)"
      by (rule work_to [OF wstep.boot [where b = False], of _ 0]) (simp_all add: jst_def)
    have a5: "jstep (jst [0] 1 ?d {0} ?f [(W_idle, False)] join_cmds 1) (jst [] 1 ?d {0} ?f [(W_took 0, False)] join_cmds 1)"
      by (rule work_to [OF wstep.take [where b = False], of _ 0 "[]" 0]) (simp_all add: jst_def)
    have a6: "jstep (jst [] 1 ?d {0} ?f [(W_took 0, False)] join_cmds 1)
        (jst [] 1 ?d {0} (is_job 0 RUNNING) [(W_running 0, False)] join_cmds 1)"
      by (rule work_to [OF wstep.begin_job [where b = False and j = 0], of _ 0]) (simp_all add: jst_def)
    have a7: "jstep (jst [] 1 ?d {0} (is_job 0 RUNNING) [(W_running 0, False)] join_cmds 1)
        (jst [] 1 ?d {0} (is_job 0 FINISHED) [(W_finished 0, False)] join_cmds 1)"
      by (rule work_to [OF wstep.end_job [where b = False and j = 0], of _ 0]) (simp_all add: jst_def)
    have a8: "jstep (jst [] 1 ?d {0} (is_job 0 FINISHED) [(W_finished 0, False)] join_cmds 1)
        (jst [] 0 (False, True) {0} (is_job 0 FINISHED) [(W_counted, False)] join_cmds 1)"
      by (rule work_to [OF wstep.task_done [where b = False], of 0 _ 0]) (simp_all add: jst_def)
    have a9: "jstep (jst [] 0 (False, True) {0} (is_job 0 FINISHED) [(W_counted, False)] join_cmds 1) demo_done"
      by (rule work_to [OF wstep.check_zero [where b = False], of _ 0]) (simp_all add: jst_def demo_done_def)
    show ?thesis
      by (rule reach_step [OF a1 reach_step [OF a2 reach_step [OF a3 reach_step [OF a4 reach_step [OF a5 reach_step [OF a6 reach_step [OF a7 reach_step [OF a8 reach_step [OF a9 rtranclp.rtrancl_refl]]]]]]]]])
  qed
  finally show ?thesis .
qed

theorem all_done_means_finished_witness:
  "queue demo_done = [] \<and> jstate demo_done 0 = FINISHED"
  using all_done_means_finished [OF _ demo_run] by (simp add: demo_done_def jst_def)

theorem jobs_all_finish_witness:
  "\<exists>k \<le> 15. (jstep ^^ k) (JobsSet 1 (addJobs [0] @ Start # join_cmds)) demo_done"
proof -
  obtain k where k: "(jstep ^^ k) (JobsSet 1 (addJobs [0] @ Start # join_cmds)) demo_done"
    using demo_run by (auto simp: rtranclp_power)
  from jobs_all_finish [OF _ k] k show ?thesis by auto
qed

end
