(* ===== verification/Mac2ip.thy ===== *)
theory Mac2ip
  imports Pyval
begin

text \<open>
  \<open>art/rhevm_api/utils/mac2ip.py\<close>: the automaton that reads the output of tcpdump line by
  line and learns the leases of a DHCP server, the producers that feed it, and the cache.
  The regular expressions of the code are matched by hand-written functions; their classes
  of characters do not overlap, so reading as far as possible is what they do.
\<close>

section \<open>The patterns\<close>

definition unify_mac_format :: "string \<Rightarrow> string" where
  "unify_mac_format mac = replace (upper mac) ''-'' '':''"

definition is_letter :: "char \<Rightarrow> bool" where
  "is_letter c \<longleftrightarrow> (let n = of_char (lower_char c) :: nat in 97 \<le> n \<and> n \<le> 122)"

definition is_hex :: "char \<Rightarrow> bool" where
  "is_hex c \<longleftrightarrow> is_digit c \<or> (let n = of_char (lower_char c) :: nat in 97 \<le> n \<and> n \<le> 102)"

text \<open>One or more characters of a class; the match and the rest.\<close>

definition many1 :: "(char \<Rightarrow> bool) \<Rightarrow> string \<Rightarrow> (string \<times> string) option" where
  "many1 P s = (if takeWhile P s = [] then None else Some (takeWhile P s, dropWhile P s))"

definition one_of :: "string \<Rightarrow> string \<Rightarrow> (string \<times> string) option" where
  "one_of cs s = (case s of [] \<Rightarrow> None | c # r \<Rightarrow> if c \<in> set cs then Some ([c], r) else None)"

text \<open>\<open>(P+[seps]){n}P+\<close>.\<close>

fun groups :: "(char \<Rightarrow> bool) \<Rightarrow> string \<Rightarrow> nat \<Rightarrow> string \<Rightarrow> string option" where
  "groups P seps 0 s = map_option fst (many1 P s)"
| "groups P seps (Suc n) s =
     (case many1 P s of
        None \<Rightarrow> None
      | Some (x, r) \<Rightarrow>
          (case one_of seps r of
             None \<Rightarrow> None
           | Some (d, r') \<Rightarrow> map_option (\<lambda>y. x @ d @ y) (groups P seps n r')))"

text \<open>\<open>search\<close>: the first position where a matcher succeeds.\<close>

fun search :: "(string \<Rightarrow> 'a option) \<Rightarrow> string \<Rightarrow> 'a option" where
  "search m [] = m []"
| "search m (c # s) = (case m (c # s) of Some x \<Rightarrow> Some x | None \<Rightarrow> search m s)"

definition after_prefix :: "string \<Rightarrow> string \<Rightarrow> string option" where
  "after_prefix p s = (if startswith s p then Some (drop (length p) s) else None)"

definition after_prefix_nocase :: "string \<Rightarrow> string \<Rightarrow> string option" where
  "after_prefix_nocase p s = (if startswith (lower s) (lower p) then Some (drop (length p) s) else None)"

definition match_ip :: "string \<Rightarrow> string option" where
  "match_ip s = Option.bind (after_prefix ''Your-IP '' s) (groups is_digit ''.'' 3)"

definition match_mac :: "string \<Rightarrow> string option" where
  "match_mac s = Option.bind (after_prefix_nocase ''Client-Ethernet-Address '' s) (groups is_hex ''-:'' 5)"

definition match_msg :: "string \<Rightarrow> string option" where
  "match_msg s =
     Option.bind (after_prefix_nocase ''DHCP-Message Option '' s) (\<lambda>s1.
     Option.bind (many1 is_digit s1) (\<lambda>(_, s2).
     Option.bind (after_prefix_nocase '', length '' s2) (\<lambda>s3.
     Option.bind (many1 is_digit s3) (\<lambda>(_, s4).
     Option.bind (after_prefix '': '' s4) (\<lambda>s5. map_option fst (many1 is_letter s5))))))"

definition P_REPLY :: "string \<Rightarrow> bool" where "P_REPLY line = contains line ''BOOTP/DHCP, Reply''"
definition P_YOUR_IP :: "string \<Rightarrow> string option" where "P_YOUR_IP line = search match_ip line"
definition P_SERVER_IP :: "string \<Rightarrow> bool" where "P_SERVER_IP line = contains line ''Server-IP''"
definition P_GW_IP :: "string \<Rightarrow> bool" where "P_GW_IP line = contains line ''Gateway-IP''"
definition P_MAC :: "string \<Rightarrow> string option" where "P_MAC line = search match_mac line"
definition P_MSG :: "string \<Rightarrow> string option" where "P_MSG line = search match_msg line"

section \<open>The automaton\<close>

datatype pstate = S_UNKNOWN | S_REPLY | S_CL_IP | S_SER_IP | S_GW_IP | S_MAC_ADDR | S_MSG

record parser =
  cache :: "string \<rightharpoonup> string"
  st :: pstate
  ip :: string
  mac :: string

definition TCPDumpParser :: "(string \<rightharpoonup> string) \<Rightarrow> parser" where
  "TCPDumpParser c = \<lparr>cache = c, st = S_UNKNOWN, ip = [], mac = []\<rparr>"

definition read_mac :: "string \<Rightarrow> parser \<Rightarrow> parser option" where
  "read_mac line p = map_option (\<lambda>m. p\<lparr>mac := unify_mac_format m, st := S_MSG\<rparr>) (P_MAC line)"

definition store_mac :: "parser \<Rightarrow> parser" where
  "store_mac p = p\<lparr>cache := (cache p)(mac p \<mapsto> ip p)\<rparr>"

definition parse_line :: "parser \<Rightarrow> string \<Rightarrow> parser" where
  "parse_line p line =
     (let reset = p\<lparr>st := S_UNKNOWN\<rparr> in
      case st p of
        S_UNKNOWN \<Rightarrow> if P_REPLY line then p\<lparr>st := S_REPLY\<rparr> else reset
      | S_REPLY \<Rightarrow> (case P_YOUR_IP line of Some i \<Rightarrow> p\<lparr>ip := i, st := S_CL_IP\<rparr> | None \<Rightarrow> reset)
      | S_CL_IP \<Rightarrow> if P_SERVER_IP line then p\<lparr>st := S_SER_IP\<rparr> else reset
      | S_SER_IP \<Rightarrow>
          if P_GW_IP line then p\<lparr>st := S_GW_IP\<rparr>
          else (case read_mac line p of Some p' \<Rightarrow> p' | None \<Rightarrow> reset)
      | S_GW_IP \<Rightarrow> (case read_mac line p of Some p' \<Rightarrow> p' | None \<Rightarrow> reset)
      | S_MAC_ADDR \<Rightarrow> reset
      | S_MSG \<Rightarrow>
          (case P_MSG line of
             None \<Rightarrow> p
           | Some m \<Rightarrow> (if lower m = ''ack'' then store_mac p else p)\<lparr>st := S_UNKNOWN\<rparr>))"

definition parse_lines :: "parser \<Rightarrow> string list \<Rightarrow> parser" where
  "parse_lines p ls = foldl parse_line p ls"

definition get_ip :: "parser \<Rightarrow> string \<Rightarrow> string option" where
  "get_ip p m = cache p (unify_mac_format m)"

section \<open>What is learnt was said\<close>

text \<open>
  A lease in the output: a reply, the client's address, the server's, perhaps the
  gateway's, the client's hardware address, each right after the other, then after lines
  without a message type the message ACK. \<open>heard\<close> is what the lines before say in a state.
\<close>

definition lease_head :: "string list \<Rightarrow> string \<Rightarrow> string \<Rightarrow> bool" where
  "lease_head ls m i \<longleftrightarrow> (\<exists>r y s g h hm.
     ls = [r, y, s] @ g @ [h] \<and> P_REPLY r \<and> P_YOUR_IP y = Some i \<and> P_SERVER_IP s \<and>
     (g = [] \<or> (\<exists>x. g = [x] \<and> P_GW_IP x)) \<and> P_MAC h = Some hm \<and> m = unify_mac_format hm)"

definition lease_block :: "string list \<Rightarrow> string \<Rightarrow> string \<Rightarrow> bool" where
  "lease_block ls m i \<longleftrightarrow> (\<exists>hd mid a w.
     ls = hd @ mid @ [a] \<and> lease_head hd m i \<and> (\<forall>l \<in> set mid. P_MSG l = None) \<and>
     P_MSG a = Some w \<and> lower w = ''ack'')"

definition heard :: "parser \<Rightarrow> string list \<Rightarrow> bool" where
  "heard p ls \<longleftrightarrow>
     (case st p of
        S_REPLY \<Rightarrow> \<exists>pre r. ls = pre @ [r] \<and> P_REPLY r
      | S_CL_IP \<Rightarrow> \<exists>pre r y. ls = pre @ [r, y] \<and> P_REPLY r \<and> P_YOUR_IP y = Some (ip p)
      | S_SER_IP \<Rightarrow> \<exists>pre r y s. ls = pre @ [r, y, s] \<and> P_REPLY r \<and> P_YOUR_IP y = Some (ip p) \<and> P_SERVER_IP s
      | S_GW_IP \<Rightarrow> \<exists>pre r y s g. ls = pre @ [r, y, s, g] \<and> P_REPLY r \<and> P_YOUR_IP y = Some (ip p) \<and>
          P_SERVER_IP s \<and> P_GW_IP g
      | S_MSG \<Rightarrow> \<exists>pre hd mid. ls = pre @ hd @ mid \<and> lease_head hd (mac p) (ip p) \<and> (\<forall>l \<in> set mid. P_MSG l = None)
      | _ \<Rightarrow> True)"

lemma heard_step: "heard p ls \<Longrightarrow> heard (parse_line p line) (ls @ [line])"
proof (cases "st p")
  case S_SER_IP
  assume h: "heard p ls"
  then obtain pre r y s where ls: "ls = pre @ [r, y, s]" "P_REPLY r" "P_YOUR_IP y = Some (ip p)" "P_SERVER_IP s"
    using S_SER_IP by (auto simp: heard_def)
  have "lease_head ([r, y, s] @ [] @ [line]) (unify_mac_format m) (ip p)" if "P_MAC line = Some m" for m
    using ls that unfolding lease_head_def by blast
  then show ?thesis
    using S_SER_IP ls
    by (auto simp: heard_def parse_line_def read_mac_def Let_def split: option.split)
      (metis append_Cons append_Nil append_Nil2 empty_iff empty_set)
next
  case S_GW_IP
  assume h: "heard p ls"
  then obtain pre r y s g where ls: "ls = pre @ [r, y, s, g]" "P_REPLY r" "P_YOUR_IP y = Some (ip p)"
      "P_SERVER_IP s" "P_GW_IP g"
    using S_GW_IP by (auto simp: heard_def)
  have "lease_head ([r, y, s] @ [g] @ [line]) (unify_mac_format m) (ip p)" if "P_MAC line = Some m" for m
    using ls that unfolding lease_head_def by blast
  then show ?thesis
    using S_GW_IP ls
    by (auto simp: heard_def parse_line_def read_mac_def Let_def split: option.split)
      (metis append_Cons append_Nil append_Nil2 empty_iff empty_set)
next
  case S_MSG
  assume "heard p ls"
  then obtain pre hd mid where "ls = pre @ hd @ mid" "lease_head hd (mac p) (ip p)" "\<forall>l \<in> set mid. P_MSG l = None"
    using S_MSG by (auto simp: heard_def)
  moreover from this have "P_MSG line = None \<Longrightarrow> ls @ [line] = pre @ hd @ (mid @ [line])" by simp
  ultimately show ?thesis
    using S_MSG by (fastforce simp: heard_def parse_line_def Let_def split: option.split)
qed (auto simp: heard_def parse_line_def Let_def split: option.split)

lemma parse_line_cache:
  assumes "heard p ls" and "cache (parse_line p line) m = Some i"
  shows "cache p m = Some i \<or> (\<exists>pre blk. ls @ [line] = pre @ blk \<and> lease_block blk m i)"
proof (cases "st p = S_MSG \<and> (\<exists>w. P_MSG line = Some w \<and> lower w = ''ack'') \<and> m = mac p \<and> i = ip p")
  case True
  then obtain w pre hd mid where "P_MSG line = Some w" "lower w = ''ack''"
    and ls: "ls = pre @ hd @ mid" "lease_head hd m i" "\<forall>l \<in> set mid. P_MSG l = None"
    using assms(1) by (auto simp: heard_def)
  then have "lease_block (hd @ mid @ [line]) m i" unfolding lease_block_def by blast
  with ls(1) show ?thesis by (metis append.assoc)
next
  case False
  with assms(2) show ?thesis
    by (auto simp: parse_line_def Let_def read_mac_def store_mac_def split: pstate.splits option.splits if_splits)
qed

text \<open>
  C10. Every lease in the cache was announced: after any lines, started from an empty
  cache, an entry maps a hardware address to an IP address only if some block of
  consecutive lines is a DHCP reply with that IP and that hardware address, acknowledged.
\<close>

theorem cache_entries_were_acked:
  assumes "cache (parse_lines (TCPDumpParser Map.empty) ls) m = Some i"
  shows "\<exists>pre blk post. ls = pre @ blk @ post \<and> lease_block blk m i"
proof -
  have "heard (parse_lines (TCPDumpParser Map.empty) ls) ls \<and>
    (\<forall>m i. cache (parse_lines (TCPDumpParser Map.empty) ls) m = Some i \<longrightarrow>
       (\<exists>pre blk post. ls = pre @ blk @ post \<and> lease_block blk m i))"
  proof (induction ls rule: rev_induct)
    case Nil
    show ?case by (simp add: parse_lines_def TCPDumpParser_def heard_def)
  next
    case (snoc line ls)
    let ?p = "parse_lines (TCPDumpParser Map.empty) ls"
    have p: "parse_lines (TCPDumpParser Map.empty) (ls @ [line]) = parse_line ?p line"
      by (simp add: parse_lines_def)
    have "\<exists>pre blk post. ls @ [line] = pre @ blk @ post \<and> lease_block blk m i"
      if "cache (parse_line ?p line) m = Some i" for m i
    proof -
      from parse_line_cache [OF conjunct1 [OF snoc] that]
      consider "cache ?p m = Some i" | pre blk where "ls @ [line] = pre @ blk" "lease_block blk m i" by blast
      then show ?thesis
      proof cases
        case 1
        then obtain pre blk post where "ls = pre @ blk @ post" "lease_block blk m i" using snoc by blast
        then show ?thesis by (metis append.assoc)
      next
        case 2
        then show ?thesis by (metis append_Nil2)
      qed
    qed
    then show ?case using heard_step [OF conjunct1 [OF snoc]] unfolding p by blast
  qed
  with assms show ?thesis by blast
qed

text \<open>
  An announced lease is learnt: from the waiting state, the lines of a lease block
  whose hardware line is not itself taken for the gateway leave the address in the cache,
  where \<open>get_ip\<close> finds it for any spelling of the hardware address.
\<close>

theorem acked_lease_is_learnt:
  assumes "st p = S_UNKNOWN" and "P_REPLY r" and "P_YOUR_IP y = Some i" and "P_SERVER_IP s"
    and "g = [] \<and> \<not> P_GW_IP h \<or> (\<exists>x. g = [x] \<and> P_GW_IP x)" and "P_MAC h = Some hm"
    and "\<forall>l \<in> set mid. P_MSG l = None" and "P_MSG a = Some w" and "lower w = ''ack''"
    and "unify_mac_format m = unify_mac_format hm"
  shows "get_ip (parse_lines p ([r, y, s] @ g @ [h] @ mid @ [a])) m = Some i"
proof -
  have skip: "st q = S_MSG \<Longrightarrow> parse_lines q mid = q" for q
    using assms(7) by (induction mid) (auto simp: parse_lines_def parse_line_def Let_def)
  let ?q = "p\<lparr>ip := i, mac := unify_mac_format hm, st := S_MSG\<rparr>"
  have "parse_lines p ([r, y, s] @ g @ [h]) = ?q"
    using assms(1-6) by (auto simp: parse_lines_def parse_line_def read_mac_def Let_def)
  then have "parse_lines p (([r, y, s] @ g @ [h]) @ mid @ [a]) = parse_line ?q a"
    using skip [of ?q] by (simp add: parse_lines_def)
  then show ?thesis
    using assms(8-10) by (simp add: parse_line_def Let_def get_ip_def store_mac_def)
qed

section \<open>The producers\<close>

text \<open>\<open>str.splitlines(True)\<close>: lines with their ends, a line feed, a carriage return, or both.\<close>

function lines_acc :: "string \<Rightarrow> string \<Rightarrow> string list" where
  "lines_acc acc [] = (if acc = [] then [] else [rev acc])"
| "lines_acc acc (c # s) =
     (if c = CHR 0x0A then rev (c # acc) # lines_acc [] s
      else if c = CHR 0x0D then
        (if startswith s [CHR 0x0A] then rev (CHR 0x0A # c # acc) # lines_acc [] (tl s)
         else rev (c # acc) # lines_acc [] s)
      else lines_acc (c # acc) s)"
  by pat_completeness auto
termination
  by (relation "measure (\<lambda>(acc, s). length s)") auto

definition splitlines :: "string \<Rightarrow> string list" where
  "splitlines s = lines_acc [] s"

text \<open>
  \<open>SSHProducer.parse\<close>: the lines of the buffer go to the parser; the last one stays in the
  buffer unless a line feed ends it.
\<close>

definition take_lines :: "string \<Rightarrow> string list \<times> string" where
  "take_lines out =
     (let data = splitlines out in
      if data = [] then ([], out)
      else if endswith (last data) [CHR 0x0A] then (data, [])
      else (butlast data, last data))"

definition ssh_parse :: "parser \<times> string \<Rightarrow> parser \<times> string" where
  "ssh_parse s = (case s of (p, out) \<Rightarrow> case take_lines out of (ls, out') \<Rightarrow> (parse_lines p ls, out'))"

text \<open>One round of \<open>collecting\<close>: what \<open>recv\<close> gave is appended, then parsed.\<close>

definition ssh_receive :: "parser \<times> string \<Rightarrow> string \<Rightarrow> parser \<times> string" where
  "ssh_receive s chunk = ssh_parse (fst s, snd s @ chunk)"

lemma lines_acc_acc: "acc \<noteq> [] \<Longrightarrow> lines_acc acc s \<noteq> []"
  by (induction acc s rule: lines_acc.induct) auto

lemma splitlines_Nil: "splitlines s = [] \<longleftrightarrow> s = []"
proof (cases s)
  case (Cons c t)
  then show ?thesis using lines_acc_acc [of "[c]" t] by (auto simp: splitlines_def)
qed (simp add: splitlines_def)

text \<open>The last line, when no line feed ends it, can be split again with what follows.\<close>

definition inside_line :: "string \<Rightarrow> bool" where
  "inside_line acc \<longleftrightarrow> CHR 0x0A \<notin> set acc \<and> CHR 0x0D \<notin> set acc"

lemma lines_acc_skip: "inside_line xs \<Longrightarrow> lines_acc acc (xs @ s) = lines_acc (rev xs @ acc) s"
  by (induction xs arbitrary: acc) (auto simp: inside_line_def)

lemma endswith_char: "endswith (xs @ [c]) [d] \<longleftrightarrow> c = d" "endswith (xs @ [b, c]) [d] \<longleftrightarrow> c = d"
  by (simp_all add: endswith_def)

lemma inside_line_end: "inside_line acc \<Longrightarrow> acc \<noteq> [] \<Longrightarrow> \<not> endswith (rev acc) [CHR 0x0A]"
  by (cases acc) (auto simp: inside_line_def endswith_char)

definition resplit :: "string list \<Rightarrow> string \<Rightarrow> string list" where
  "resplit d t =
     (if d = [] then lines_acc [] t
      else if endswith (last d) [CHR 0x0A] then d @ lines_acc [] t
      else butlast d @ lines_acc [] (last d @ t))"

lemma resplit_Cons: "endswith x [CHR 0x0A] \<or> d \<noteq> [] \<Longrightarrow> resplit (x # d) t = x # resplit d t"
  by (auto simp: resplit_def)

lemma lines_acc_append: "inside_line acc \<Longrightarrow> lines_acc acc (s @ t) = resplit (lines_acc acc s) t"
proof (induction acc s rule: lines_acc.induct)
  case (1 acc)
  show ?case
  proof (cases "acc = []")
    case False
    then have "resplit [rev acc] t = lines_acc [] (rev acc @ t)"
      using inside_line_end [OF 1] by (simp add: resplit_def)
    also have "\<dots> = lines_acc acc t"
      using lines_acc_skip [of "rev acc" "[]" t] 1 by (simp add: inside_line_def)
    finally show ?thesis using False by simp
  qed (simp add: resplit_def)
next
  case (2 acc c s)
  have empty: "inside_line []" by (simp add: inside_line_def)
  consider (nl) "c = CHR 0x0A" | (both) "c = CHR 0x0D" "startswith s [CHR 0x0A]"
    | (last) "c = CHR 0x0D" "s = []" | (cr) "c = CHR 0x0D" "s \<noteq> []" "\<not> startswith s [CHR 0x0A]"
    | (other) "c \<noteq> CHR 0x0A" "c \<noteq> CHR 0x0D" by blast
  then show ?case
  proof cases
    case nl
    then show ?thesis using "2.IH"(1) empty by (simp add: resplit_Cons endswith_char)
  next
    case both
    then have "startswith (s @ t) [CHR 0x0A]" "tl (s @ t) = tl s @ t" by (cases s; simp)+
    then show ?thesis using both "2.IH"(2) empty by (simp add: resplit_Cons endswith_char)
  next
    case last
    have "resplit [rev acc @ [c]] t = lines_acc [] (rev acc @ c # t)"
      using last by (simp add: resplit_def endswith_char)
    also have "\<dots> = lines_acc acc (c # t)"
      using lines_acc_skip [of "rev acc" "[]" "c # t"] "2.prems" by (simp add: inside_line_def)
    finally show ?thesis using last by simp
  next
    case cr
    then have "\<not> startswith (s @ t) [CHR 0x0A]" by (cases s) simp_all
    moreover have "lines_acc [] s \<noteq> []" using cr(2) splitlines_Nil by (simp add: splitlines_def)
    ultimately show ?thesis using cr "2.IH"(3) empty by (simp add: resplit_Cons)
  next
    case other
    then show ?thesis using "2.IH"(4) "2.prems" by (simp add: inside_line_def)
  qed
qed

lemma splitlines_append: "splitlines (s @ t) = resplit (splitlines s) t"
  unfolding splitlines_def by (rule lines_acc_append) (simp add: inside_line_def)

lemma take_lines_append:
  assumes "take_lines a = (ls, r)" and "take_lines (r @ t) = (ls', r')"
  shows "take_lines (a @ t) = (ls @ ls', r')"
proof -
  consider (none) "splitlines a = []" | (ended) "splitlines a \<noteq> []" "endswith (last (splitlines a)) [CHR 0x0A]"
    | (open_line) "splitlines a \<noteq> []" "\<not> endswith (last (splitlines a)) [CHR 0x0A]" by blast
  then show ?thesis
  proof cases
    case none
    then show ?thesis using assms by (simp add: take_lines_def splitlines_Nil)
  next
    case ended
    then have "ls = splitlines a" "r = []" using assms(1) by (simp_all add: take_lines_def)
    moreover have "splitlines (a @ t) = splitlines a @ splitlines t"
      unfolding splitlines_append resplit_def using ended by (simp add: splitlines_def)
    ultimately show ?thesis
      using assms(2) ended by (auto simp: take_lines_def Let_def splitlines_Nil butlast_append split: if_splits)
  next
    case open_line
    then have ls: "ls = butlast (splitlines a)" "r = last (splitlines a)"
      using assms(1) by (simp_all add: take_lines_def Let_def)
    have split: "splitlines (a @ t) = butlast (splitlines a) @ splitlines (r @ t)"
      unfolding splitlines_append [of a t] resplit_def using open_line ls by (simp add: splitlines_def)
    have "r \<noteq> []"
    proof
      assume "r = []"
      then have "[] \<in> set (splitlines a)" using ls open_line last_in_set by metis
      moreover have "[] \<notin> set (lines_acc acc s)" for acc s
        by (induction acc s rule: lines_acc.induct) auto
      ultimately show False by (simp add: splitlines_def)
    qed
    then have "splitlines (r @ t) \<noteq> []" by (simp add: splitlines_Nil)
    then show ?thesis
      using assms(2) split ls by (auto simp: take_lines_def Let_def butlast_append split: if_splits)
  qed
qed

text \<open>
  C11. The size of the pieces does not matter: whatever chunks the connection delivers, the
  parser and the buffer end as if the whole output had arrived at once.
\<close>

theorem chunks_do_not_matter:
  "foldl ssh_receive (p, []) chunks = ssh_parse (p, concat chunks)"
proof (induction chunks rule: rev_induct)
  case Nil
  then show ?case by (simp add: ssh_parse_def take_lines_def splitlines_Nil parse_lines_def)
next
  case (snoc c cs)
  obtain ls r where t: "take_lines (concat cs) = (ls, r)" by fastforce
  obtain ls' r' where t': "take_lines (r @ c) = (ls', r')" by fastforce
  from snoc t t' take_lines_append [OF t t'] show ?case
    by (simp add: ssh_receive_def ssh_parse_def parse_lines_def)
qed

text \<open>
  \<open>StreamProducer.run\<close> loops over \<open>readline()\<close>, that is over the characters of the first
  line of the stream, and hands each of them to the parser as a line.
\<close>

definition stream_run :: "parser \<Rightarrow> string \<Rightarrow> parser" where
  "stream_run p stream =
     (case splitlines stream of [] \<Rightarrow> p | first # rest \<Rightarrow> parse_lines p (map (\<lambda>c. [c]) first))"

text \<open>
  A stream producer learns nothing: started on a fresh parser, whatever the stream,
  it leaves the cache empty, since no single character is a line of a lease.
\<close>

theorem stream_producer_learns_nothing:
  "cache (stream_run (TCPDumpParser Map.empty) stream) = Map.empty"
proof -
  have "\<not> P_REPLY [c]" for c
    by (simp add: P_REPLY_def startswith_def)
  then have "parse_line (TCPDumpParser Map.empty) [c] = TCPDumpParser Map.empty" for c
    by (simp add: parse_line_def TCPDumpParser_def Let_def)
  then have "parse_lines (TCPDumpParser Map.empty) (map (\<lambda>c. [c]) l) = TCPDumpParser Map.empty" for l
    by (induction l) (simp_all add: parse_lines_def)
  then show ?thesis by (auto simp: stream_run_def TCPDumpParser_def split: list.split)
qed

section \<open>Waiting for a reader\<close>

text \<open>
  The loop of \<open>add_reader\<close>, in fifths of the timeout over a thousand so that the random
  part of a step is a number from 0 to 999: what \<open>ready\<close> was at each look, and the random
  number drawn after it.
\<close>

fun add_reader_wait :: "int \<Rightarrow> int \<Rightarrow> (bool \<times> int) list \<Rightarrow> (exn + unit) option" where
  "add_reader_wait limit waited [] = None"
| "add_reader_wait limit waited ((ready, rnd) # obs) =
     (if ready then Some (Inr ())
      else if waited > limit then Some (Inl ReaderIsNotReady)
      else add_reader_wait limit (waited + rnd) obs)"

section \<open>Witnesses\<close>

definition demo_lease :: "string list" where
  "demo_lease = [''BOOTP/DHCP, Reply'', ''Your-IP 10.0.0.7'', ''Server-IP 10.0.0.1'',
     ''Client-Ethernet-Address 00-1a-4A-00-00-07'', ''Vendor'', ''DHCP-Message Option 53, length 1: ACK'']"

lemma demo_parts:
  "P_REPLY (demo_lease ! 0)" "P_YOUR_IP (demo_lease ! 1) = Some ''10.0.0.7''" "P_SERVER_IP (demo_lease ! 2)"
  "\<not> P_GW_IP (demo_lease ! 3)" "P_MAC (demo_lease ! 3) = Some ''00-1a-4A-00-00-07''"
  "P_MSG (demo_lease ! 4) = None" "P_MSG (demo_lease ! 5) = Some ''ACK''" "lower ''ACK'' = ''ack''"
  "unify_mac_format ''00:1A:4a:00:00:07'' = unify_mac_format ''00-1a-4A-00-00-07''"
  by code_simp+

lemma demo_lease_split: "demo_lease = [demo_lease ! 0, demo_lease ! 1, demo_lease ! 2] @ [] @ [demo_lease ! 3] @ [demo_lease ! 4] @ [demo_lease ! 5]"
  by (simp add: demo_lease_def)

theorem acked_lease_is_learnt_witness:
  "get_ip (parse_lines (TCPDumpParser Map.empty) demo_lease) ''00:1A:4a:00:00:07'' = Some ''10.0.0.7''"
proof -
  have "get_ip (parse_lines (TCPDumpParser Map.empty) ([demo_lease ! 0, demo_lease ! 1, demo_lease ! 2] @ [] @
      [demo_lease ! 3] @ [demo_lease ! 4] @ [demo_lease ! 5])) ''00:1A:4a:00:00:07'' = Some ''10.0.0.7''"
    by (rule acked_lease_is_learnt [OF _ demo_parts(1-3) _ demo_parts(5) _ demo_parts(7-9)])
      (simp_all add: TCPDumpParser_def demo_parts)
  then show ?thesis by (simp only: demo_lease_split [symmetric])
qed

lemma demo_cache: "cache (parse_lines (TCPDumpParser Map.empty) demo_lease) (unify_mac_format ''00-1a-4A-00-00-07'') = Some ''10.0.0.7''"
  using demo_parts
  by (subst demo_lease_split)
    (simp add: parse_lines_def parse_line_def TCPDumpParser_def read_mac_def store_mac_def Let_def del: nth_Cons_numeral)

theorem cache_entries_were_acked_witness:
  "\<exists>pre blk post. demo_lease = pre @ blk @ post \<and> lease_block blk (unify_mac_format ''00-1a-4A-00-00-07'') ''10.0.0.7''"
  by (rule cache_entries_were_acked [OF demo_cache])

end
