(* ===== verification/Name2ip.thy ===== *)
theory Name2ip
  imports Pyval Timeout
begin

text \<open>
  \<open>art/rhevm_api/utils/name2ip.py\<close>: the shared cache of IP addresses by entity name, the
  resolvers of VMs and hosts, and the decorator that replaces a name parameter by an
  address. The clock, the REST queries for NICs and hosts and \<open>convertMacToIp\<close> (a
  third-party package) are parameters.
\<close>

section \<open>The cache\<close>

record cache_rec =
  rec_ip :: "string option"
  rec_exp :: int

type_synonym 'w look_st = "(string \<rightharpoonup> cache_rec) \<times> 'w"
type_synonym 'w resolver = "pyval \<Rightarrow> ('w, string option) comp"

definition cache_rec_name :: "string \<Rightarrow> pyval \<Rightarrow> string" where
  "cache_rec_name entity source_value = entity @ ''-'' @ py_str source_value"

definition look_up :: "'w os_time \<Rightarrow> string \<Rightarrow> int \<Rightarrow> 'w resolver \<Rightarrow> pyval \<Rightarrow> ('w look_st, string option) comp" where
  "look_up E entity exp get_ip source_value = (\<lambda>(cache, w).
     (let name = cache_rec_name entity source_value;
          rec = (case cache name of Some r \<Rightarrow> r | None \<Rightarrow> \<lparr>rec_ip = None, rec_exp = 0\<rparr>)
      in case os_now E w of (time_stmp, w1) \<Rightarrow>
         if rec_exp rec < time_stmp then
           (case get_ip source_value w1 of
              (Inl e, w2) \<Rightarrow> (Inl e, (cache, w2))
            | (Inr None, w2) \<Rightarrow> (Inl IpLookUpError, (cache, w2))
            | (Inr (Some ip), w2) \<Rightarrow>
                (Inr (Some ip), (cache(name \<mapsto> \<lparr>rec_ip = Some ip, rec_exp = time_stmp + exp\<rparr>), w2)))
         else (Inr (rec_ip rec), (cache, w1))))"

text \<open>\<open>reset_cache\<close>; what the compiled pattern matches is a parameter.\<close>

definition reset_cache :: "(string \<Rightarrow> bool) \<Rightarrow> ('w look_st, unit) comp" where
  "reset_cache reg = modify (\<lambda>(cache, w). (\<lambda>k. if reg k then None else cache k, w))"

definition resetName2IpCache :: "(string \<Rightarrow> bool) \<Rightarrow> ('w look_st, bool) comp" where
  "resetName2IpCache reg = bindE (reset_cache reg) (\<lambda>_. ret True)"

section \<open>The resolvers\<close>

text \<open>
  A reported NIC: the reported devices, if any, each with its list of versioned addresses,
  if any, and the MAC address of the NIC, if it has one.
\<close>

record nic =
  reported_devices :: "(string \<times> string) list option list option"
  mac_address :: "string option"

record 'w name_env =
  get_vm_nics_obj :: "pyval \<Rightarrow> ('w, nic list) comp"
  convertMacToIp :: "string \<Rightarrow> ('w, string option) comp"
  host_find :: "pyval \<Rightarrow> ('w, string option) comp"

definition nic_ips :: "string \<Rightarrow> nic \<Rightarrow> string list" where
  "nic_ips ip_version n =
     (case reported_devices n of
        None \<Rightarrow> []
      | Some devices \<Rightarrow>
          concat (map (\<lambda>ips. case ips of
                         None \<Rightarrow> []
                       | Some l \<Rightarrow> map snd (filter (\<lambda>(v, a). v = ip_version) l)) devices))"

definition get_ip_from_vm :: "'w name_env \<Rightarrow> string \<Rightarrow> pyval \<Rightarrow> ('w, string list) comp" where
  "get_ip_from_vm N ip_version vm_name =
     bindE (get_vm_nics_obj N vm_name) (\<lambda>nics. ret (concat (map (nic_ips ip_version) nics)))"

definition get_ip_from_mac :: "'w name_env \<Rightarrow> nat \<Rightarrow> pyval \<Rightarrow> ('w, string option) comp" where
  "get_ip_from_mac N nic_no vm_name =
     bindE (get_vm_nics_obj N vm_name) (\<lambda>nics.
     if nics = [] then ret None
     else if length nics \<le> nic_no then raise IndexError
     else case mac_address (nics ! nic_no) of
            None \<Rightarrow> raise AttributeError
          | Some m \<Rightarrow> convertMacToIp N m)"

definition vm_get_ip :: "'w name_env \<Rightarrow> nat \<Rightarrow> bool \<Rightarrow> 'w resolver" where
  "vm_get_ip N nic_no check_mac src_val =
     bindE (get_ip_from_vm N ''v4'' src_val) (\<lambda>ips.
     case ips of
       ip # _ \<Rightarrow> ret (Some ip)
     | [] \<Rightarrow> if check_mac then get_ip_from_mac N nic_no src_val else ret None)"

definition host_get_ip :: "'w name_env \<Rightarrow> 'w resolver" where
  "host_get_ip N host_name = host_find N host_name"

section \<open>Dispatch\<close>

datatype entity = Vms | Hosts

fun entity_name :: "entity \<Rightarrow> string" where
  "entity_name Vms = ''vms''"
| "entity_name Hosts = ''hosts''"

definition ENTITY :: "string \<Rightarrow> entity option" where
  "ENTITY s = (if s = ''vms'' then Some Vms else if s = ''hosts'' then Some Hosts else None)"

definition entity_look_up :: "'w os_time \<Rightarrow> 'w name_env \<Rightarrow> int \<Rightarrow> entity \<Rightarrow> pyval \<Rightarrow> ('w look_st, string option) comp" where
  "entity_look_up E N exp e =
     look_up E (entity_name e) exp (case e of Vms \<Rightarrow> vm_get_ip N 0 True | Hosts \<Rightarrow> host_get_ip N)"

text \<open>
  The pattern of \<open>name2ip.look_up\<close>: something before the first colon, and after it a
  non-empty rest of one line, whose final line feed is not part of the name.
\<close>

definition match_source :: "string \<Rightarrow> (string \<times> string) option" where
  "match_source s =
     (let e = takeWhile (\<lambda>c. c \<noteq> CHR '':'') s;
          r = tl (dropWhile (\<lambda>c. c \<noteq> CHR '':'') s);
          n = takeWhile (\<lambda>c. c \<noteq> CHR 0x0A) r
      in if CHR '':'' \<in> set s \<and> e \<noteq> [] \<and> n \<noteq> [] \<and> drop (length n) r \<in> set [[], [CHR 0x0A]] then Some (e, n) else None)"

text \<open>
  All resolvers are tried in the order of the dictionary, which is a parameter; the loop
  goes on only after the two exceptions of a name that is not found.
\<close>

fun try_all :: "(entity \<Rightarrow> ('s, string option) comp) \<Rightarrow> entity list \<Rightarrow> ('s, string option) comp" where
  "try_all look [] = raise IpLookUpError"
| "try_all look (e # es) = (\<lambda>w.
     case look e w of
       (Inl x, w') \<Rightarrow>
         if isinstance x IpLookUpError \<or> isinstance x EntityNotFound then try_all look es w' else (Inl x, w')
     | (Inr ip, w') \<Rightarrow> (Inr ip, w'))"

definition name2ip_look_up :: "'w os_time \<Rightarrow> 'w name_env \<Rightarrow> int \<Rightarrow> entity list \<Rightarrow> pyval \<Rightarrow> ('w look_st, string option) comp" where
  "name2ip_look_up E N exp order source_value =
     (case source_value of
        PStr s \<Rightarrow>
          (case match_source s of
             Some (ent, name) \<Rightarrow>
               (case ENTITY ent of
                  None \<Rightarrow> raise ValueError
                | Some e \<Rightarrow> entity_look_up E N exp e (PStr name))
           | None \<Rightarrow> try_all (\<lambda>e. entity_look_up E N exp e source_value) order)
      | _ \<Rightarrow> raise TypeError)"

section \<open>The decorator\<close>

definition opt_py :: "string option \<Rightarrow> pyval" where
  "opt_py x = (case x of None \<Rightarrow> PNone | Some s \<Rightarrow> PStr s)"

definition truthy_kw :: "(string, pyval) dict \<Rightarrow> string \<Rightarrow> bool" where
  "truthy_kw kwargs k = (case map_of kwargs k of None \<Rightarrow> False | Some v \<Rightarrow> truthy v)"

definition look_up_value :: "(pyval \<Rightarrow> ('s, string option) comp) \<Rightarrow> pyval \<Rightarrow> ('s, pyval) comp" where
  "look_up_value look src_val =
     (case src_val of
        PList vals \<Rightarrow>
          bindE (for_each vals (\<lambda>v res. bindE (look v) (\<lambda>ip. ret (res @ [opt_py ip]))) []) (\<lambda>res. ret (PList res))
      | _ \<Rightarrow> bindE (look src_val) (\<lambda>ip. ret (opt_py ip)))"

definition wrapper ::
  "string \<Rightarrow> string \<Rightarrow> (pyval \<Rightarrow> ('s, string option) comp) \<Rightarrow> ((string, pyval) dict \<Rightarrow> ('s, 'a) comp) \<Rightarrow>
   (string, pyval) dict \<Rightarrow> ('s, 'a) comp" where
  "wrapper tv sv look func kwargs =
     (if truthy_kw kwargs tv then func kwargs
      else if \<not> truthy_kw kwargs sv then raise ValueError
      else bindE (look_up_value look (the (map_of kwargs sv))) (\<lambda>r.
           func (dict_del (dict_set kwargs tv r) sv)))"

section \<open>Cached addresses\<close>

lemma look_up_cases:
  assumes "look_up E entity exp get v (c, w) = (r, (c', w'))" and "os_now E w = (t, w1)"
  obtains (cached) i e where "c (cache_rec_name entity v) = Some \<lparr>rec_ip = i, rec_exp = e\<rparr>" "t \<le> e" "r = Inr i" "c' = c" "w' = w1"
  | (no_time) "c (cache_rec_name entity v) = None" "t \<le> 0" "r = Inr None" "c' = c" "w' = w1"
  | (failed) x where "r = Inl x" "c' = c"
  | (asked) ip where "get v w1 = (Inr (Some ip), w')" "r = Inr (Some ip)"
      "c' = c(cache_rec_name entity v \<mapsto> \<lparr>rec_ip = Some ip, rec_exp = t + exp\<rparr>)"
  using assms
  by (cases "c (cache_rec_name entity v)")
    (auto simp: look_up_def Let_def split: if_splits prod.splits sum.splits option.splits, metis cache_rec.surjective not_less unit.exhaust)

text \<open>
  An address is looked up once per validity: after a look-up at time \<open>t\<close> returned an
  address there is a record for the name whose expiry is not in the past, \<open>t\<close> plus the
  configured time if the resolver was asked; until then every look-up of the name returns
  that address, whatever the resolver would say now, and changes nothing but the clock.
  Nothing is forgotten or changed about other names.
\<close>

theorem cached_address_is_reused:
  assumes "os_now E w = (t, w1)" and "0 < t" and "0 \<le> exp"
    and "look_up E entity exp get v (c, w) = (Inr (Some ip), (c', w'))"
  shows "\<exists>e. t \<le> e \<and> (e = t + exp \<or> c' = c) \<and>
    (\<forall>get' w2 t2 w3. os_now E w2 = (t2, w3) \<longrightarrow> t2 \<le> e \<longrightarrow>
       look_up E entity exp get' v (c', w2) = (Inr (Some ip), (c', w3))) \<and>
    (\<forall>k. k \<noteq> cache_rec_name entity v \<longrightarrow> c' k = c k)"
  using assms(4,1)
proof (cases rule: look_up_cases)
  case (cached i e)
  then show ?thesis by (intro exI [of _ e]) (auto simp: look_up_def Let_def)
next
  case no_time
  with assms(2) show ?thesis by simp
next
  case (failed x)
  then show ?thesis by simp
next
  case (asked i)
  with assms(3) show ?thesis by (intro exI [of _ "t + exp"]) (auto simp: look_up_def Let_def)
qed

section \<open>Which resolver answers\<close>

definition misses :: "('s, 'a) comp \<Rightarrow> 's \<Rightarrow> bool" where
  "misses m st \<longleftrightarrow> (\<exists>x st'. m st = (Inl x, st') \<and> (isinstance x IpLookUpError \<or> isinstance x EntityNotFound))"

lemma try_all_skips:
  assumes "\<forall>e \<in> set es. \<forall>w. misses (look e) w"
  shows "\<exists>w'. try_all look (es @ rest) w = try_all look rest w'"
  using assms
proof (induction es arbitrary: w)
  case (Cons e es)
  then obtain x w' where "look e w = (Inl x, w')" "isinstance x IpLookUpError \<or> isinstance x EntityNotFound"
    unfolding misses_def by (meson list.set_intros(1))
  with Cons.IH [of w'] Cons.prems show ?case by auto
qed auto

lemma try_all_hit: "\<not> misses (look e) w \<Longrightarrow> try_all look (e # rest) w = look e w"
  by (auto simp: misses_def split: prod.split sum.split)

lemma match_source_prefixed:
  assumes "ent \<noteq> []" "CHR '':'' \<notin> set ent" "name \<noteq> []" "CHR 0x0A \<notin> set name"
  shows "match_source (ent @ '':'' @ name) = Some (ent, name)"
proof -
  have "takeWhile (\<lambda>c. c \<noteq> CHR '':'') (ent @ '':'' @ name) = ent"
    "dropWhile (\<lambda>c. c \<noteq> CHR '':'') (ent @ '':'' @ name) = '':'' @ name"
    using assms(2) by (induction ent) auto
  moreover have "takeWhile (\<lambda>c. c \<noteq> CHR 0x0A) name = name"
    using assms(4) by (auto simp: takeWhile_eq_all_conv)
  ultimately show ?thesis using assms(1,3)
    by (simp add: match_source_def Let_def del: takeWhile_eq_all_conv)
qed

lemma match_source_plain: "CHR '':'' \<notin> set s \<Longrightarrow> match_source s = None"
  by (simp add: match_source_def)

text \<open>
  How a source value is resolved: \<open>entity:name\<close> asks exactly the resolver of that
  entity for the name and rejects an unknown entity; a name without a colon is IpLookUpError
  if every resolver misses it, and otherwise the outcome of the first resolver that does
  not miss it.
\<close>

theorem name2ip_dispatch:
  assumes "CHR '':'' \<notin> set s" and "s \<noteq> []" and "CHR 0x0A \<notin> set name" and "name \<noteq> []"
  shows "name2ip_look_up E N exp order (PStr (s @ '':'' @ name)) =
      (case ENTITY s of None \<Rightarrow> raise ValueError | Some e \<Rightarrow> entity_look_up E N exp e (PStr name)) \<and>
    (\<forall>es e rest. order = es @ e # rest \<longrightarrow>
       (\<forall>x \<in> set es. \<forall>st. misses (entity_look_up E N exp x (PStr s)) st) \<longrightarrow>
       (\<forall>st. \<not> misses (entity_look_up E N exp e (PStr s)) st) \<longrightarrow>
       (\<forall>st. \<exists>st0. name2ip_look_up E N exp order (PStr s) st = entity_look_up E N exp e (PStr s) st0)) \<and>
    ((\<forall>x \<in> set order. \<forall>st. misses (entity_look_up E N exp x (PStr s)) st) \<longrightarrow>
       (\<forall>st. fst (name2ip_look_up E N exp order (PStr s) st) = Inl IpLookUpError))"
    (is "?prefixed \<and> ?first \<and> ?none")
proof (intro conjI)
  show ?prefixed
    using match_source_prefixed [OF assms(2,1,4,3)] by (simp add: name2ip_look_up_def)
  have plain: "name2ip_look_up E N exp order (PStr s) = try_all (\<lambda>e. entity_look_up E N exp e (PStr s)) order"
    using match_source_plain [OF assms(1)] by (simp add: name2ip_look_up_def)
  show ?first
  proof (intro allI impI)
    fix es e rest st
    assume order: "order = es @ e # rest"
      and miss: "\<forall>x \<in> set es. \<forall>st. misses (entity_look_up E N exp x (PStr s)) st"
      and hit: "\<forall>st. \<not> misses (entity_look_up E N exp e (PStr s)) st"
    from try_all_skips [OF miss] order obtain st0 where
      "name2ip_look_up E N exp order (PStr s) st = try_all (\<lambda>e. entity_look_up E N exp e (PStr s)) (e # rest) st0"
      unfolding plain by blast
    also have "\<dots> = entity_look_up E N exp e (PStr s) st0"
      by (rule try_all_hit [where look = "\<lambda>e. entity_look_up E N exp e (PStr s)"]) (use hit in blast)
    finally show "\<exists>st0. name2ip_look_up E N exp order (PStr s) st = entity_look_up E N exp e (PStr s) st0" by blast
  qed
  show ?none
  proof (intro allI impI)
    fix st
    assume "\<forall>x \<in> set order. \<forall>st. misses (entity_look_up E N exp x (PStr s)) st"
    from try_all_skips [OF this, of "[]" st]
    show "fst (name2ip_look_up E N exp order (PStr s) st) = Inl IpLookUpError"
      unfolding plain by (auto simp: raise_def)
  qed
qed

section \<open>The decorated function\<close>

text \<open>
  The decorated function never sees the name parameter: when it is called, either the
  address parameter was given, and its arguments are the caller's, or the address
  parameter holds the resolved address (a list of them for a list of names) and the name
  parameter is gone, the other arguments being the caller's.
\<close>

theorem wrapper_arguments:
  assumes "tv \<noteq> sv"
  and "wrapper tv sv look ret kwargs st = (Inr kw, st')"
  shows "(kw = kwargs \<and> truthy_kw kwargs tv) \<or>
      (map_of kw sv = None \<and> (\<forall>k. k \<noteq> tv \<and> k \<noteq> sv \<longrightarrow> map_of kw k = map_of kwargs k) \<and>
       (\<exists>src addr. map_of kwargs sv = Some src \<and> truthy src \<and> map_of kw tv = Some addr \<and>
          look_up_value look src st = (Inr addr, st')))"
  using assms
  by (auto simp: wrapper_def truthy_kw_def comp_simps split: if_splits option.splits prod.splits sum.splits)

section \<open>Witnesses\<close>

definition demo_names :: "(int \<times> int) name_env" where
  "demo_names = \<lparr>
     get_vm_nics_obj = (\<lambda>n. ret (if n = PStr ''vm1'' then
        [\<lparr>reported_devices = Some [None, Some [(''v6'', ''fe80::1''), (''v4'', ''10.0.0.7'')]], mac_address = None\<rparr>] else [])),
     convertMacToIp = (\<lambda>m. ret None),
     host_find = (\<lambda>n. if n = PStr ''h1'' then ret (Some ''10.0.0.1'') else raise EntityNotFound)\<rparr>"

lemmas name_run_simps = name2ip_look_up_def entity_look_up_def look_up_def vm_get_ip_def host_get_ip_def
  get_ip_from_vm_def get_ip_from_mac_def nic_ips_def demo_names_def tick_os_def comp_simps Let_def py_str_def

theorem cached_address_is_reused_witness:
  "look_up tick_os ''hosts'' 600 (\<lambda>n. raise EntityNotFound) (PStr ''h1'')
     (fst (snd (look_up tick_os ''hosts'' 600 (host_get_ip demo_names) (PStr ''h1'') (Map.empty, (7, 0)))), (600, 1))
   = (Inr (Some ''10.0.0.1''), ([''hosts-h1'' \<mapsto> \<lparr>rec_ip = Some ''10.0.0.1'', rec_exp = 607\<rparr>], (600, 1)))"
proof -
  let ?c = "[''hosts-h1'' \<mapsto> \<lparr>rec_ip = Some ''10.0.0.1'', rec_exp = 607\<rparr>]"
  have now: "os_now tick_os (7, 0) = (7, (7, 0))" "os_now tick_os (600, 1) = (600, (600, 1))"
    by (simp_all add: tick_os_def)
  have first: "look_up tick_os ''hosts'' 600 (host_get_ip demo_names) (PStr ''h1'') (Map.empty, (7, 0))
    = (Inr (Some ''10.0.0.1''), (?c, (7, 0)))"
    by (simp add: name_run_simps cache_rec_name_def)
  from cached_address_is_reused [OF now(1) _ _ first] obtain e where
    e: "e = 607 \<or> ?c = Map.empty" "\<forall>get' w2 t2 w3. os_now tick_os w2 = (t2, w3) \<longrightarrow> t2 \<le> e \<longrightarrow>
       look_up tick_os ''hosts'' 600 get' (PStr ''h1'') (?c, w2) = (Inr (Some ''10.0.0.1''), (?c, w3))"
    by auto
  then have "e = 607" by (metis map_upd_nonempty)
  with e(2) now(2) show ?thesis unfolding first by simp
qed

lemma demo_host_name: "fst (name2ip_look_up tick_os demo_names 600 [Vms, Hosts] (PStr ''hosts:h1'') (Map.empty, (7, 0))) = Inr (Some ''10.0.0.1'')"
  by (simp add: name_run_simps match_source_def ENTITY_def cache_rec_name_def)

theorem name2ip_dispatch_witness:
  "name2ip_look_up tick_os demo_names 600 [Vms, Hosts] (PStr ''hosts:h1'') =
     entity_look_up tick_os demo_names 600 Hosts (PStr ''h1'')"
  using name2ip_dispatch [of "''hosts''" "''h1''" tick_os demo_names 600 "[Vms, Hosts]"] by (simp add: ENTITY_def)

lemma demo_wrapped:
  "wrapper ''ip'' ''host'' (entity_look_up tick_os demo_names 600 Hosts) ret
     [(''n'', PInt 1), (''host'', PStr ''h1'')] (Map.empty, (7, 0)) =
   (Inr [(''n'', PInt 1), (''ip'', PStr ''10.0.0.1'')],
    ([''hosts-h1'' \<mapsto> \<lparr>rec_ip = Some ''10.0.0.1'', rec_exp = 607\<rparr>], (7, 0)))"
  by (simp add: name_run_simps wrapper_def truthy_kw_def look_up_value_def cache_rec_name_def opt_py_def dict_del_def)

theorem wrapper_arguments_witness:
  "map_of [(''n'', PInt 1), (''ip'', PStr ''10.0.0.1'')] ''host'' = None \<and>
   look_up_value (entity_look_up tick_os demo_names 600 Hosts) (PStr ''h1'') (Map.empty, (7, 0)) =
     (Inr (PStr ''10.0.0.1''), ([''hosts-h1'' \<mapsto> \<lparr>rec_ip = Some ''10.0.0.1'', rec_exp = 607\<rparr>], (7, 0)))"
  using wrapper_arguments [OF _ demo_wrapped] by (simp add: truthy_kw_def)

end
