(* ===== verification/Cpu_Model.thy ===== *)
theory Cpu_Model
  imports Pyval
begin

text \<open>
  \<open>art/rhevm_api/utils/cpumodel.py\<close>: the CPU models of the compatibility versions and the
  choice of a model that a list of hosts has in common. The cluster levels read from the
  engine, and what a host answers to the two commands run on it, are data of the model.
\<close>

section \<open>The table of models\<close>

definition MIN_MODEL :: "string \<rightharpoonup> string" where
  "MIN_MODEL = [''Intel'' \<mapsto> ''model_Conroe'', ''AMD'' \<mapsto> ''model_Opteron_G1'', ''IBM POWER'' \<mapsto> ''model_POWER7_v2.0'']"

definition min_model_get :: "string option \<Rightarrow> string option" where
  "min_model_get v = Option.bind v MIN_MODEL"

record cpu_info =
  cpu :: string
  level :: int
  model :: "string option"
  vendor :: "string option"

definition id_to_model :: "string \<Rightarrow> exn + string option" where
  "id_to_model cpu_id =
     (if contains cpu_id ''Intel'' then
        (case split_on cpu_id '' '' of a # b # _ \<Rightarrow> Inr (Some (''model_'' @ b)) | _ \<Rightarrow> Inl IndexError)
      else if contains cpu_id ''AMD'' then Inr (Some (''model_'' @ replace (drop 4 cpu_id) '' '' ''_''))
      else if contains cpu_id ''IBM POWER'' then
        (case split_ws cpu_id of
           [a, b, c, d] \<Rightarrow> Inr (Some (''model_'' @ b @ c @ ''_'' @ d))
         | [a, b, c] \<Rightarrow> Inr (Some (''model_'' @ b @ c))
         | _ \<Rightarrow> Inr None)
      else Inr None)"

definition id_to_vendor :: "string \<Rightarrow> string option" where
  "id_to_vendor cpu_id =
     (if contains cpu_id ''Intel'' then Some ''Intel''
      else if contains cpu_id ''AMD'' then Some ''AMD''
      else if contains cpu_id ''POWER'' then Some ''IBM POWER''
      else None)"

text \<open>Results of a list of fallible calls, up to the first that raises.\<close>

fun collect :: "('a \<Rightarrow> exn + 'b) \<Rightarrow> 'a list \<Rightarrow> exn + 'b list" where
  "collect f [] = Inr []"
| "collect f (x # xs) =
     (case f x of Inl e \<Rightarrow> Inl e | Inr y \<Rightarrow> (case collect f xs of Inl e \<Rightarrow> Inl e | Inr ys \<Rightarrow> Inr (y # ys)))"

definition cpu_entry :: "string \<times> int \<Rightarrow> exn + cpu_info" where
  "cpu_entry = (\<lambda>(name, lvl).
     case id_to_model name of
       Inl e \<Rightarrow> Inl e
     | Inr m \<Rightarrow> Inr \<lparr>cpu = name, level = lvl, model = m, vendor = id_to_vendor name\<rparr>)"

text \<open>
  One entry per cluster level, in the order of the dictionary: its list of models and its
  \<open>current\<close> field, which is the id of the level itself.
\<close>

record level_info =
  cpus :: "cpu_info list"
  current :: string

definition CpuModelDenominator :: "(string \<times> (string \<times> int) list) list \<Rightarrow> exn + (string, level_info) dict" where
  "CpuModelDenominator levels =
     collect (\<lambda>(v_id, types).
       case collect cpu_entry types of
         Inl e \<Rightarrow> Inl e
       | Inr l \<Rightarrow> Inr (v_id, \<lparr>cpus = l, current = v_id\<rparr>)) levels"

text \<open>
  Without a version and without a level whose \<open>current\<close> is non-empty the list is not
  raised as an error: the error object is what is returned.
\<close>

datatype cpu_list = CpuList "cpu_info list" | ErrorObject exn

definition get_cpu_list :: "(string, level_info) dict \<Rightarrow> string option \<Rightarrow> exn + cpu_list" where
  "get_cpu_list d version =
     (case version of
        None \<Rightarrow>
          (case [cpus (snd c). c \<leftarrow> d, current (snd c) \<noteq> []] of
             l # _ \<Rightarrow> Inr (CpuList l)
           | [] \<Rightarrow> Inr (ErrorObject CpuModelError))
      | Some v \<Rightarrow> (case map_of d v of Some i \<Rightarrow> Inr (CpuList (cpus i)) | None \<Rightarrow> Inl CpuModelError))"

text \<open>
  Iterating over an error object yields its message, which has no item of a string key.
\<close>

definition get_cpu_info :: "(string, level_info) dict \<Rightarrow> 'k \<Rightarrow> (cpu_info \<Rightarrow> 'k) \<Rightarrow> string option \<Rightarrow> exn + cpu_info" where
  "get_cpu_info d val key version =
     (case get_cpu_list d version of
        Inl e \<Rightarrow> Inl e
      | Inr (ErrorObject x) \<Rightarrow> Inl TypeError
      | Inr (CpuList l) \<Rightarrow>
          (case filter (\<lambda>c. key c = val) l of c # _ \<Rightarrow> Inr c | [] \<Rightarrow> Inl UnknownCpuModel))"

fun list_cpu_info :: "(string, level_info) dict \<Rightarrow> string option list \<Rightarrow> string option \<Rightarrow> exn + cpu_info list" where
  "list_cpu_info d [] version = Inr []"
| "list_cpu_info d (m # ms) version =
     (case get_cpu_info d m model version of
        Inl e \<Rightarrow> if isinstance e UnknownCpuModel then list_cpu_info d ms version else Inl e
      | Inr c \<Rightarrow> (case list_cpu_info d ms version of Inl e \<Rightarrow> Inl e | Inr cs \<Rightarrow> Inr (c # cs)))"

section \<open>Hosts\<close>

text \<open>
  What a host answers: the return code and output of the look into \<open>/proc/cpuinfo\<close>, and
  the flags among its capabilities, \<open>None\<close> when the client gave nothing at all.
\<close>

record host =
  cpuinfo_rc :: int
  cpuinfo_out :: string
  vds_cpuFlags :: "string option option"

record host_caps =
  models :: "string option list"
  host_vendor :: string

definition fetch_host_caps :: "host \<Rightarrow> exn + host_caps" where
  "fetch_host_caps h =
     (let v = strip (cpuinfo_out h) in
      if cpuinfo_rc h \<noteq> 0 \<or> v = [] then Inl CpuModelError
      else
        let flags = split_on (case Option.bind (vds_cpuFlags h) id of None \<Rightarrow> [] | Some s \<Rightarrow> s) '','';
            ms = filter (\<lambda>i. contains i ''model_'') flags
        in Inr \<lparr>models = (if ms = [] then [min_model_get (id_to_vendor v)] else map Some ms), host_vendor = v\<rparr>)"

definition best_cpu :: "(string, level_info) dict \<Rightarrow> string option \<Rightarrow> host \<Rightarrow> exn + cpu_info" where
  "best_cpu d version h =
     (case fetch_host_caps h of
        Inl e \<Rightarrow> Inl e
      | Inr caps \<Rightarrow> (case list_cpu_info d (models caps) version of Inl e \<Rightarrow> Inl e | Inr l \<Rightarrow> py_max level l))"

section \<open>Choosing a model for the hosts\<close>

fun common_loop :: "(string, level_info) dict \<Rightarrow> string option \<Rightarrow> cpu_info option \<Rightarrow> host list \<Rightarrow> exn + cpu_info option" where
  "common_loop d version sel [] = Inr sel"
| "common_loop d version sel (h # hs) =
     (case best_cpu d version h of
        Inl e \<Rightarrow> Inl e
      | Inr b \<Rightarrow>
          (case sel of
             None \<Rightarrow> common_loop d version (Some b) hs
           | Some s \<Rightarrow>
               if vendor b \<noteq> vendor s then Inl HostVendorMismatch
               else common_loop d version (Some (if level b < level s then b else s)) hs))"

definition get_common_cpu_model :: "(string, level_info) dict \<Rightarrow> host list \<Rightarrow> string option \<Rightarrow> exn + cpu_info option" where
  "get_common_cpu_model d hosts version = common_loop d version None hosts"

fun minimal_loop :: "string option \<Rightarrow> host list \<Rightarrow> exn + string option" where
  "minimal_loop v [] = Inr v"
| "minimal_loop v (h # hs) =
     (case fetch_host_caps h of
        Inl e \<Rightarrow> Inl e
      | Inr caps \<Rightarrow>
          if v = None then minimal_loop (id_to_vendor (host_vendor caps)) hs
          else if v \<noteq> id_to_vendor (host_vendor caps) then Inl HostVendorMismatch
          else minimal_loop v hs)"

definition get_minimal_cpu_model :: "(string, level_info) dict \<Rightarrow> host list \<Rightarrow> string option \<Rightarrow> exn + cpu_info" where
  "get_minimal_cpu_model d hosts version =
     (case minimal_loop None hosts of
        Inl e \<Rightarrow> Inl e
      | Inr v \<Rightarrow> get_cpu_info d (min_model_get v) model version)"

fun maximal_loop :: "(string, level_info) dict \<Rightarrow> string option \<Rightarrow> cpu_info option \<Rightarrow> host list \<Rightarrow> exn + cpu_info option" where
  "maximal_loop d version sel [] = Inr sel"
| "maximal_loop d version sel (h # hs) =
     (case best_cpu d version h of
        Inl e \<Rightarrow> Inl e
      | Inr b \<Rightarrow>
          (case sel of
             None \<Rightarrow> maximal_loop d version (Some b) hs
           | Some s \<Rightarrow>
               if vendor b \<noteq> vendor s then Inl HostVendorMismatch
               else maximal_loop d version (Some (if level s < level b then b else s)) hs))"

definition get_maximal_cpu_model :: "(string, level_info) dict \<Rightarrow> host list \<Rightarrow> string option \<Rightarrow> exn + cpu_info" where
  "get_maximal_cpu_model d hosts version =
     (case maximal_loop d version None hosts of
        Inl e \<Rightarrow> Inl e
      | Inr None \<Rightarrow> Inl AttributeError
      | Inr (Some c) \<Rightarrow> Inr c)"

definition get_relative_cpu_model :: "(string, level_info) dict \<Rightarrow> string \<Rightarrow> bool \<Rightarrow> string option \<Rightarrow> exn + cpu_info option" where
  "get_relative_cpu_model d cpu_name higher version =
     (case get_cpu_info d cpu_name cpu version of
        Inl e \<Rightarrow> Inl e
      | Inr info \<Rightarrow>
          (case get_cpu_list d version of
             Inr (CpuList l) \<Rightarrow>
               Inr (find (\<lambda>c. vendor c = vendor info \<and>
                      (if higher then level info < level c else level c < level info)) l)
           | Inr (ErrorObject x) \<Rightarrow> Inl AttributeError
           | Inl e \<Rightarrow> Inl e))"

section \<open>The chosen model\<close>

text \<open>The reference: the first least (greatest) of the hosts' best models.\<close>

definition least_level :: "cpu_info list \<Rightarrow> cpu_info" where
  "least_level l = max_by (\<lambda>c. - level c) (hd l) (tl l)"

definition greatest_level :: "cpu_info list \<Rightarrow> cpu_info" where
  "greatest_level l = max_by level (hd l) (tl l)"

text \<open>Both loops over the best models of the hosts, from a model already selected.\<close>

lemma common_loop_bests:
  assumes "map (best_cpu d version) hs = map Inr bs"
  shows "common_loop d version (Some s) hs =
    (if \<forall>b \<in> set bs. vendor b = vendor s then Inr (Some (max_by (\<lambda>c. - level c) s bs)) else Inl HostVendorMismatch)"
  using assms
proof (induction hs arbitrary: s bs)
  case (Cons h hs)
  then obtain b bs' where b: "bs = b # bs'" "best_cpu d version h = Inr b" "map (best_cpu d version) hs = map Inr bs'"
    by (cases bs) auto
  with Cons.IH [OF b(3)] show ?case by (auto split: if_splits)
qed simp

lemma maximal_loop_bests:
  assumes "map (best_cpu d version) hs = map Inr bs"
  shows "maximal_loop d version (Some s) hs =
    (if \<forall>b \<in> set bs. vendor b = vendor s then Inr (Some (max_by level s bs)) else Inl HostVendorMismatch)"
  using assms
proof (induction hs arbitrary: s bs)
  case (Cons h hs)
  then obtain b bs' where b: "bs = b # bs'" "best_cpu d version h = Inr b" "map (best_cpu d version) hs = map Inr bs'"
    by (cases bs) auto
  with Cons.IH [OF b(3)] show ?case by (auto split: if_splits)
qed simp

lemma best_cpu_sound:
  assumes "best_cpu d version h = Inr b"
  shows "\<exists>caps l. fetch_host_caps h = Inr caps \<and> list_cpu_info d (models caps) version = Inr l \<and> b \<in> set l \<and>
    (\<forall>c \<in> set l. level c \<le> level b)"
proof -
  from assms obtain caps x xs where "fetch_host_caps h = Inr caps"
    and "list_cpu_info d (models caps) version = Inr (x # xs)" and "b = max_by level x xs"
    by (auto simp: best_cpu_def py_max_def split: sum.splits list.splits)
  then show ?thesis using max_by_in [of level x xs] max_by_ge [of _ x xs level] by (metis list.simps(15))
qed

text \<open>
  C12. The common model is the least of the best: for hosts each of which supports some
  model of the version, \<open>get_common_cpu_model\<close> and \<open>get_maximal_cpu_model\<close> raise
  HostVendorMismatch exactly if two best models differ in vendor, and otherwise return the
  first of the best models of least, respectively greatest, level; the best model of a host
  is one of greatest level among its models.
\<close>

theorem common_model_is_least_of_best:
  assumes "map (best_cpu d version) hosts = map Inr bests" and "hosts \<noteq> []"
  shows "get_common_cpu_model d hosts version =
      (if \<forall>b \<in> set bests. vendor b = vendor (hd bests) then Inr (Some (least_level bests)) else Inl HostVendorMismatch) \<and>
    get_maximal_cpu_model d hosts version =
      (if \<forall>b \<in> set bests. vendor b = vendor (hd bests) then Inr (greatest_level bests) else Inl HostVendorMismatch) \<and>
    least_level bests \<in> set bests \<and> (\<forall>b \<in> set bests. level (least_level bests) \<le> level b) \<and>
    greatest_level bests \<in> set bests \<and> (\<forall>b \<in> set bests. level b \<le> level (greatest_level bests))"
proof -
  from assms obtain h hs b bs where l: "hosts = h # hs" "bests = b # bs"
    and b: "best_cpu d version h = Inr b" and bs: "map (best_cpu d version) hs = map Inr bs"
    by (cases hosts; cases bests) auto
  have "least_level bests \<in> set bests" "greatest_level bests \<in> set bests"
    using max_by_in [of _ b bs] by (simp_all add: least_level_def greatest_level_def l)
  moreover have "level (least_level bests) \<le> level c" "level c \<le> level (greatest_level bests)" if "c \<in> set bests" for c
    using max_by_ge [of c b bs "\<lambda>c. - level c"] max_by_ge [of c b bs level] that
    by (simp_all add: least_level_def greatest_level_def l)
  ultimately show ?thesis
    using common_loop_bests [OF bs, of b] maximal_loop_bests [OF bs, of b] b
    by (auto simp: get_common_cpu_model_def get_maximal_cpu_model_def least_level_def greatest_level_def l)
qed

text \<open>
  \<open>get_relative_cpu_model\<close> returns a model of the version, of the same vendor and of
  strictly higher (lower) level than the named one, the first such in the list, and the
  empty result only if there is none.
\<close>

theorem relative_model_spec:
  assumes "get_relative_cpu_model d cpu_name higher version = Inr r"
  shows "\<exists>l info. get_cpu_list d version = Inr (CpuList l) \<and> info \<in> set l \<and> cpu info = cpu_name \<and>
    (case r of
       None \<Rightarrow> \<forall>c \<in> set l. vendor c = vendor info \<longrightarrow> (if higher then level c \<le> level info else level info \<le> level c)
     | Some c \<Rightarrow> c \<in> set l \<and> vendor c = vendor info \<and> (if higher then level info < level c else level c < level info))"
proof -
  from assms obtain l info where l: "get_cpu_list d version = Inr (CpuList l)"
    and info: "get_cpu_info d cpu_name cpu version = Inr info"
    and r: "r = find (\<lambda>c. vendor c = vendor info \<and> (if higher then level info < level c else level c < level info)) l"
    by (auto simp: get_relative_cpu_model_def split: sum.splits cpu_list.splits)
  from info l obtain cs where "filter (\<lambda>c. cpu c = cpu_name) l = info # cs"
    by (simp add: get_cpu_info_def split: list.splits)
  then have "info \<in> set (filter (\<lambda>c. cpu c = cpu_name) l)" by simp
  then have info: "info \<in> set l" "cpu info = cpu_name" by auto
  show ?thesis
  proof (cases r)
    case None
    with r have "\<forall>c \<in> set l. vendor c = vendor info \<longrightarrow> (if higher then level c \<le> level info else level info \<le> level c)"
      by (auto simp: find_None_iff2)
    with l info None show ?thesis by auto
  next
    case (Some c)
    with r have "c \<in> set l \<and> vendor c = vendor info \<and> (if higher then level info < level c else level c < level info)"
      by (auto simp: find_Some_iff2)
    with l info Some show ?thesis by auto
  qed
qed

text \<open>
  The fallback that the class recommends is missed: a first host none of whose models
  the version supports makes \<open>get_common_cpu_model\<close> raise ValueError, which a handler of
  CpuModelError does not catch.
\<close>

theorem unsupported_models_escape_fallback:
  assumes "fetch_host_caps h = Inr caps"
    and "get_cpu_list d version = Inr (CpuList l)" and "\<forall>m \<in> set (models caps). \<forall>c \<in> set l. model c \<noteq> m"
  shows "get_common_cpu_model d (h # hs) version = Inl ValueError \<and> \<not> isinstance ValueError CpuModelError"
proof -
  have "\<forall>m \<in> set ms. \<forall>c \<in> set l. model c \<noteq> m \<Longrightarrow> list_cpu_info d ms version = Inr []" for ms
    using assms(2) by (induction ms) (auto simp: get_cpu_info_def filter_empty_conv isinstance_def split: list.splits)
  with assms show ?thesis
    by (simp add: get_common_cpu_model_def best_cpu_def py_max_def isinstance_def)
qed

section \<open>Witnesses\<close>

definition demo_levels :: "(string, level_info) dict" where
  "demo_levels = [(''4.1'', \<lparr>cpus =
     [\<lparr>cpu = ''Intel Conroe Family'', level = 3, model = Some ''model_Conroe'', vendor = Some ''Intel''\<rparr>,
      \<lparr>cpu = ''Intel Penryn Family'', level = 4, model = Some ''model_Penryn'', vendor = Some ''Intel''\<rparr>],
     current = ''4.1''\<rparr>)]"

definition demo_host :: "string \<Rightarrow> host" where
  "demo_host flags = \<lparr>cpuinfo_rc = 0, cpuinfo_out = ''GenuineIntel'', vds_cpuFlags = Some (Some flags)\<rparr>"

lemma demo_denominator:
  "CpuModelDenominator [(''4.1'', [(''Intel Conroe Family'', 3), (''Intel Penryn Family'', 4)])] = Inr demo_levels"
  by code_simp

lemma demo_caps:
  "best_cpu demo_levels None (demo_host ''fpu,model_Conroe,model_Penryn'') = Inr (cpus (snd (hd demo_levels)) ! 1)"
  "best_cpu demo_levels None (demo_host ''model_Conroe'') = Inr (cpus (snd (hd demo_levels)) ! 0)"
  by code_simp+

theorem common_model_is_least_of_best_witness:
  "get_common_cpu_model demo_levels [demo_host ''fpu,model_Conroe,model_Penryn'', demo_host ''model_Conroe''] None =
     Inr (Some (cpus (snd (hd demo_levels)) ! 0))"
proof -
  have "map (best_cpu demo_levels None) [demo_host ''fpu,model_Conroe,model_Penryn'', demo_host ''model_Conroe''] =
     map Inr [cpus (snd (hd demo_levels)) ! 1, cpus (snd (hd demo_levels)) ! 0]"
    by (simp add: demo_caps)
  from common_model_is_least_of_best [OF this] show ?thesis
    by (simp add: demo_levels_def least_level_def)
qed

lemma demo_relative: "get_relative_cpu_model demo_levels ''Intel Conroe Family'' True None = Inr (Some (cpus (snd (hd demo_levels)) ! 1))"
  by code_simp

theorem relative_model_spec_witness:
  "\<exists>info :: cpu_info. cpu info = ''Intel Conroe Family'' \<and> level info < level (cpus (snd (hd demo_levels)) ! 1)"
  using relative_model_spec [OF demo_relative] by auto

lemma demo_unsupported: "fetch_host_caps (demo_host ''model_Haswell'') = Inr \<lparr>models = [Some ''model_Haswell''], host_vendor = ''GenuineIntel''\<rparr>"
  by code_simp

theorem unsupported_models_escape_fallback_witness:
  "get_common_cpu_model demo_levels [demo_host ''model_Haswell''] None = Inl ValueError"
  using unsupported_models_escape_fallback [OF demo_unsupported, of demo_levels None "cpus (snd (hd demo_levels))"]
  by (simp add: demo_levels_def get_cpu_list_def)

end
