(* ===== verification/Inventory.thy ===== *)
theory Inventory
  imports Api_Util
begin

text \<open>
  \<open>art/rhevm_api/utils/inventory.py\<close>: snapshots of the resources of the engine and their
  difference. What the API returns for a collection, and which members the generated class
  of a resource declares with which types, are parameters.
\<close>

section \<open>Snapshots\<close>

type_synonym rsrc = "(string, pyval) dict"
type_synonym ge_state = "(string, rsrc list) dict"

definition ignored_rsrc_names :: "pyval list" where
  "ignored_rsrc_names = [PStr ''OVF_STORE'']"

definition whitelisted_attr :: "string list" where
  "whitelisted_attr = [''used'', ''available'', ''actual_size'', ''committed'', ''stop_time'', ''total_size'',
     ''update_available'', ''max_scheduling_memory'']"

text \<open>Element and collection; the storage domains are one attribute further down.\<close>

definition resource_types_to_dump :: "(string \<times> string) list" where
  "resource_types_to_dump =
     [(''storagedomain'', ''storagedomains''), (''host'', ''hosts''), (''cluster'', ''clusters''),
      (''data_center'', ''datacenters''), (''vm'', ''vms''), (''network'', ''networks''),
      (''mac_pool'', ''macpools''), (''template'', ''templates''), (''disk'', ''disks''),
      (''vnic_profile'', ''vnicprofiles'')]"

definition resources_of :: "string \<Rightarrow> pyval \<Rightarrow> exn + pyval" where
  "resources_of element x = (if element = ''storagedomain'' then getattr x ''storage_domain'' else Inr x)"

record ge_env =
  api_get :: "string \<times> string \<Rightarrow> exn + pyval"
  member_data_items :: "pyval \<Rightarrow> (string \<times> string) list"

fun read_attrs :: "pyval \<Rightarrow> string list \<Rightarrow> rsrc \<Rightarrow> exn + rsrc" where
  "read_attrs r [] acc = Inr acc"
| "read_attrs r (k # ks) acc =
     (case getattr r k of Inl e \<Rightarrow> Inl e | Inr v \<Rightarrow> read_attrs r ks (dict_set acc k v))"

definition dump_one :: "ge_env \<Rightarrow> pyval \<Rightarrow> exn + rsrc" where
  "dump_one G r =
     (let members = [k. (k, ty) \<leftarrow> member_data_items G r, startswith ty ''xs:'' \<and> k \<notin> set whitelisted_attr]
      in read_attrs r (members @ [''name'', ''id'']) [])"

fun dump_all :: "ge_env \<Rightarrow> pyval list \<Rightarrow> exn + rsrc list" where
  "dump_all G [] = Inr []"
| "dump_all G (r # rs) =
     (case dump_one G r of
        Inl e \<Rightarrow> Inl e
      | Inr d \<Rightarrow> (case dump_all G rs of Inl e \<Rightarrow> Inl e | Inr ds \<Rightarrow> Inr (d # ds)))"

definition dump_ge_resource :: "ge_env \<Rightarrow> string \<times> string \<Rightarrow> (ge_state, unit) comp" where
  "dump_ge_resource G rt =
     bindE (lift_res (api_get G rt)) (\<lambda>x.
     bindE (lift_res (resources_of (fst rt) x)) (\<lambda>rs.
     bindE (lift_res (py_iter rs)) (\<lambda>l.
     bindE (lift_res (dump_all G l)) (\<lambda>data.
     modify (\<lambda>s. dict_set s (snd rt) data)))))"

text \<open>
  A failed dump is to be logged and skipped, but the log message has one place for a tuple
  of three, so formatting it raises TypeError inside the handler.
\<close>

definition get_summary_report :: "ge_env \<Rightarrow> (ge_state, ge_state) comp" where
  "get_summary_report G =
     bindE (for_each resource_types_to_dump
              (\<lambda>rt _. try_except (dump_ge_resource G rt) PyException (\<lambda>e. raise TypeError)) ()) (\<lambda>_.
     gets (\<lambda>s. s))"

section \<open>Differences\<close>

text \<open>Equality of dictionaries: the same keys, with equal values.\<close>

definition dict_eq :: "rsrc \<Rightarrow> rsrc \<Rightarrow> bool" where
  "dict_eq a b \<longleftrightarrow>
     (\<forall>(k, v) \<in> set a. case map_of b k of Some v' \<Rightarrow> py_eq v v' | None \<Rightarrow> False) \<and>
     (\<forall>(k, v) \<in> set b. map_of a k \<noteq> None)"

fun list_remove :: "rsrc \<Rightarrow> rsrc list \<Rightarrow> exn + rsrc list" where
  "list_remove x [] = Inl ValueError"
| "list_remove x (y # ys) =
     (if dict_eq y x then Inr ys
      else case list_remove x ys of Inl e \<Rightarrow> Inl e | Inr zs \<Rightarrow> Inr (y # zs))"

type_synonym changes = "(string, string) dict"

definition change_text :: "pyval \<Rightarrow> pyval \<Rightarrow> string" where
  "change_text old_val new_val = ''old_value: '' @ py_str old_val @ '', new_value: '' @ py_str new_val"

fun params_loop :: "rsrc \<Rightarrow> (string \<times> pyval) list \<Rightarrow> changes \<Rightarrow> exn + changes" where
  "params_loop cur [] acc = Inr acc"
| "params_loop cur ((k, v) # r) acc =
     (case dict_getitem cur k of
        Inl e \<Rightarrow> Inl e
      | Inr v' \<Rightarrow> params_loop cur r (if py_eq v v' then acc else dict_set acc k (change_text v v')))"

definition find_params_changed :: "rsrc \<Rightarrow> rsrc \<Rightarrow> exn + pyval \<times> changes" where
  "find_params_changed old cur =
     (case dict_getitem old ''name'' of
        Inl e \<Rightarrow> Inl e
      | Inr n \<Rightarrow> (case params_loop cur old [] of Inl e \<Rightarrow> Inl e | Inr ch \<Rightarrow> Inr (n, ch)))"

fun find_by_id :: "pyval \<Rightarrow> rsrc list \<Rightarrow> exn + rsrc option" where
  "find_by_id i [] = Inr None"
| "find_by_id i (r # rs) =
     (case dict_getitem r ''id'' of
        Inl e \<Rightarrow> Inl e
      | Inr j \<Rightarrow> if py_eq j i then Inr (Some r) else find_by_id i rs)"

record diff_acc =
  not_seen :: "rsrc list"
  changed :: "(pyval \<times> changes) list"
  removed :: "pyval list"

definition diff_step :: "rsrc list \<Rightarrow> rsrc \<Rightarrow> diff_acc \<Rightarrow> exn + diff_acc" where
  "diff_step cur_state old acc =
     (case dict_getitem old ''id'' of Inl e \<Rightarrow> Inl e | Inr i \<Rightarrow>
      case dict_getitem old ''name'' of Inl e \<Rightarrow> Inl e | Inr n \<Rightarrow>
      case find_by_id i cur_state of
        Inl e \<Rightarrow> Inl e
      | Inr None \<Rightarrow> Inr (acc\<lparr>removed := removed acc @ [n]\<rparr>)
      | Inr (Some cur) \<Rightarrow>
          (case list_remove cur (not_seen acc) of
             Inl e \<Rightarrow> Inl e
           | Inr rest \<Rightarrow>
               let acc1 = acc\<lparr>not_seen := rest\<rparr> in
               if dict_eq cur old then Inr acc1
               else case find_params_changed old cur of
                      Inl e \<Rightarrow> Inl e
                    | Inr (m, ch) \<Rightarrow> Inr (if ch \<noteq> [] then acc1\<lparr>changed := changed acc1 @ [(m, ch)]\<rparr> else acc1)))"

fun diff_loop :: "rsrc list \<Rightarrow> rsrc list \<Rightarrow> diff_acc \<Rightarrow> exn + diff_acc" where
  "diff_loop cur_state [] acc = Inr acc"
| "diff_loop cur_state (old # olds) acc =
     (case diff_step cur_state old acc of Inl e \<Rightarrow> Inl e | Inr acc' \<Rightarrow> diff_loop cur_state olds acc')"

fun added_names :: "rsrc list \<Rightarrow> exn + pyval list" where
  "added_names [] = Inr []"
| "added_names (r # rs) =
     (case dict_getitem r ''name'' of
        Inl e \<Rightarrow> Inl e
      | Inr n \<Rightarrow>
          (case added_names rs of
             Inl e \<Rightarrow> Inl e
           | Inr ns \<Rightarrow> Inr (if n \<in> set ignored_rsrc_names then ns else n # ns)))"

definition find_resources_diff ::
  "rsrc list \<Rightarrow> rsrc list \<Rightarrow> exn + (pyval \<times> changes) list \<times> pyval list \<times> pyval list" where
  "find_resources_diff old_state cur_state =
     (case diff_loop cur_state old_state \<lparr>not_seen = cur_state, changed = [], removed = []\<rparr> of
        Inl e \<Rightarrow> Inl e
      | Inr acc \<Rightarrow>
          (case added_names (not_seen acc) of
             Inl e \<Rightarrow> Inl e
           | Inr added \<Rightarrow> Inr (changed acc, added, removed acc)))"

record type_diff =
  d_added :: "pyval list"
  d_removed :: "pyval list"
  d_changed :: "(pyval \<times> changes) list"

text \<open>Empty parts have no entry, and a type without entries has none either.\<close>

fun compare_types :: "(string \<times> string) list \<Rightarrow> ge_state \<Rightarrow> ge_state \<Rightarrow> (string, type_diff) dict \<Rightarrow> exn + (string, type_diff) dict" where
  "compare_types [] old new diff = Inr diff"
| "compare_types ((el, coll) # ts) old new diff =
     (case dict_getitem old coll of Inl e \<Rightarrow> Inl e | Inr o_rs \<Rightarrow>
      case dict_getitem new coll of Inl e \<Rightarrow> Inl e | Inr n_rs \<Rightarrow>
      case find_resources_diff o_rs n_rs of
        Inl e \<Rightarrow> Inl e
      | Inr (ch, ad, re) \<Rightarrow>
          compare_types ts old new
            (if ch = [] \<and> ad = [] \<and> re = [] then dict_del diff coll
             else dict_set diff coll \<lparr>d_added = ad, d_removed = re, d_changed = ch\<rparr>))"

definition compare_ge_state :: "ge_state \<Rightarrow> ge_state \<Rightarrow> exn + (string, type_diff) dict" where
  "compare_ge_state old_state new_state = compare_types resource_types_to_dump old_state new_state []"

section \<open>What a difference is\<close>

definition the_id :: "rsrc \<Rightarrow> pyval option" where
  "the_id r = map_of r ''id''"

definition the_name :: "rsrc \<Rightarrow> pyval" where
  "the_name r = the (map_of r ''name'')"

text \<open>A snapshot of one type: named resources with distinct ids, which are strings.\<close>

definition wf_snapshot :: "rsrc list \<Rightarrow> bool" where
  "wf_snapshot l \<longleftrightarrow> distinct (map the_id l) \<and>
     (\<forall>r \<in> set l. wf_dict r \<and> (\<exists>i. the_id r = Some (PStr i)) \<and> map_of r ''name'' \<noteq> None)"

definition changes_spec :: "rsrc \<Rightarrow> rsrc \<Rightarrow> changes" where
  "changes_spec old cur =
     [(k, change_text v (the (map_of cur k))). (k, v) \<leftarrow> old, \<not> py_eq v (the (map_of cur k))]"

definition removed_spec :: "rsrc list \<Rightarrow> rsrc list \<Rightarrow> pyval list" where
  "removed_spec old cur = map the_name (filter (\<lambda>r. the_id r \<notin> the_id ` set cur) old)"

definition added_spec :: "rsrc list \<Rightarrow> rsrc list \<Rightarrow> pyval list" where
  "added_spec old cur =
     filter (\<lambda>n. n \<notin> set ignored_rsrc_names) (map the_name (filter (\<lambda>r. the_id r \<notin> the_id ` set old) cur))"

definition changed_spec :: "rsrc list \<Rightarrow> rsrc list \<Rightarrow> (pyval \<times> changes) list" where
  "changed_spec old cur =
     concat (map (\<lambda>r. case find (\<lambda>c. the_id c = the_id r) cur of
                        None \<Rightarrow> []
                      | Some c \<Rightarrow> if changes_spec r c = [] then [] else [(the_name r, changes_spec r c)]) old)"

text \<open>The current resource has every attribute that the old one of its id has.\<close>

definition same_members :: "rsrc list \<Rightarrow> rsrc list \<Rightarrow> bool" where
  "same_members old cur \<longleftrightarrow>
     (\<forall>r \<in> set old. \<forall>c \<in> set cur. the_id c = the_id r \<longrightarrow> (\<forall>k \<in> set (dict_keys r). map_of c k \<noteq> None))"

lemma py_eq_sym: "py_eq a b \<longleftrightarrow> py_eq b a"
  by (auto simp: py_eq_def split: option.split)

lemma dict_getitem_Inr: "dict_getitem d k = Inr v \<longleftrightarrow> map_of d k = Some v"
  by (simp add: dict_getitem_def split: option.split)

lemma dict_eq_refl: "wf_dict a \<Longrightarrow> dict_eq a a"
  by (auto simp: dict_eq_def wf_dict_map_of split: option.split)

lemma dict_eq_id:
  assumes "dict_eq y x" and "the_id y = Some (PStr i)" and "the_id x = Some j"
  shows "j = PStr i"
proof -
  have "(''id'', PStr i) \<in> set y" using assms(2) by (simp add: the_id_def map_of_SomeD)
  with assms(1,3) show ?thesis by (fastforce simp: dict_eq_def the_id_def)
qed

lemma list_remove_id:
  assumes "wf_snapshot l" and "x \<in> set l"
  shows "list_remove x l = Inr (filter (\<lambda>r. the_id r \<noteq> the_id x) l)"
  using assms
proof (induction l)
  case (Cons y ys)
  have wf: "wf_snapshot ys" using Cons.prems(1) by (simp add: wf_snapshot_def)
  show ?case
  proof (cases "the_id y = the_id x")
    case True
    then have "y = x" using Cons.prems by (auto simp: wf_snapshot_def rev_image_eqI)
    moreover from this have "filter (\<lambda>r. the_id r \<noteq> the_id x) ys = ys"
      using Cons.prems(1) by (auto simp: wf_snapshot_def filter_id_conv rev_image_eqI)
    ultimately show ?thesis using Cons.prems(1) dict_eq_refl by (simp add: wf_snapshot_def)
  next
    case False
    obtain i j where "the_id y = Some (PStr i)" "the_id x = Some (PStr j)"
      using Cons.prems unfolding wf_snapshot_def by (meson list.set_intros(1))
    with False have "\<not> dict_eq y x" using dict_eq_id by metis
    with False Cons wf show ?thesis by auto
  qed
qed simp

lemma dict_set_new: "k \<notin> set (dict_keys d) \<Longrightarrow> dict_set d k v = d @ [(k, v)]"
  by (induction d k v rule: dict_set.induct) (auto simp: dict_keys_def)

lemma params_loop_spec:
  assumes "wf_dict l" and "\<forall>k \<in> set (dict_keys l). map_of cur k \<noteq> None" and "set (dict_keys l) \<inter> set (dict_keys acc) = {}"
  shows "params_loop cur l acc = Inr (acc @ changes_spec l cur)"
  using assms
proof (induction l arbitrary: acc)
  case (Cons p l)
  obtain k v where p: "p = (k, v)" by (cases p)
  from Cons.prems p obtain v' where v': "map_of cur k = Some v'" by (auto simp: dict_keys_def)
  have "wf_dict l" "\<forall>k \<in> set (dict_keys l). map_of cur k \<noteq> None" "k \<notin> set (dict_keys l)" "k \<notin> set (dict_keys acc)"
    using Cons.prems p by (auto simp: wf_dict_def dict_keys_def)
  with Cons.IH [of acc] Cons.IH [of "dict_set acc k (change_text v v')"] Cons.prems p v'
  show ?case by (auto simp: dict_getitem_def changes_spec_def dict_set_new dict_keys_def)
qed (simp add: changes_spec_def)

lemma dict_eq_changes:
  assumes "wf_dict old" and "dict_eq cur old"
  shows "changes_spec old cur = []"
proof -
  have "py_eq v (the (map_of cur k))" if kv: "(k, v) \<in> set old" for k v
  proof -
    from kv assms(2) obtain v' where v': "map_of cur k = Some v'" by (auto simp: dict_eq_def)
    moreover from this have "(k, v') \<in> set cur" by (rule map_of_SomeD)
    ultimately show ?thesis
      using assms(2) wf_dict_map_of [OF assms(1) kv] py_eq_sym [of v v'] by (fastforce simp: dict_eq_def)
  qed
  then show ?thesis by (fastforce simp: changes_spec_def)
qed

lemma find_by_id_spec:
  assumes "\<forall>r \<in> set cur. \<exists>i. the_id r = Some (PStr i)"
  shows "find_by_id (PStr i) cur = Inr (find (\<lambda>c. the_id c = Some (PStr i)) cur)"
  using assms by (induction cur) (auto simp: dict_getitem_def the_id_def split: option.split)

lemma wf_snapshot_filter: "wf_snapshot l \<Longrightarrow> wf_snapshot (filter P l)"
  by (auto simp: wf_snapshot_def distinct_map intro: inj_on_subset)

lemma find_params_changed_spec:
  assumes "wf_dict old" and "map_of old ''name'' \<noteq> None" and "\<forall>k \<in> set (dict_keys old). map_of cur k \<noteq> None"
  shows "find_params_changed old cur = Inr (the_name old, changes_spec old cur)"
  using assms params_loop_spec [OF assms(1,3), of "[]"]
  by (auto simp: find_params_changed_def dict_getitem_def the_name_def dict_keys_def)

lemma diff_step_spec:
  assumes "wf_snapshot cur" and "wf_snapshot [r]" and "same_members [r] cur"
    and "not_seen acc = filter (\<lambda>c. the_id c \<notin> S) cur" and "the_id r \<notin> S"
  shows "diff_step cur r acc = Inr \<lparr>not_seen = filter (\<lambda>c. the_id c \<notin> insert (the_id r) S) cur,
    changed = changed acc @ changed_spec [r] cur, removed = removed acc @ removed_spec [r] cur\<rparr>"
proof -
  obtain i n where r: "wf_dict r" "the_id r = Some (PStr i)" "map_of r ''name'' = Some n"
    using assms(2) by (auto simp: wf_snapshot_def)
  then have items: "dict_getitem r ''id'' = Inr (PStr i)" "dict_getitem r ''name'' = Inr n" "the_name r = n"
    by (simp_all add: dict_getitem_def the_id_def the_name_def)
  have fid: "find_by_id (PStr i) cur = Inr (find (\<lambda>c. the_id c = the_id r) cur)"
    using find_by_id_spec [of cur i] assms(1) r(2) by (simp add: wf_snapshot_def)
  show ?thesis
  proof (cases "find (\<lambda>c. the_id c = the_id r) cur")
    case None
    then have gone: "\<forall>c \<in> set cur. the_id c \<noteq> the_id r" by (auto simp: find_None_iff)
    then have "filter (\<lambda>c. the_id c \<notin> insert (the_id r) S) cur = filter (\<lambda>c. the_id c \<notin> S) cur"
      by (auto intro: filter_cong)
    moreover have "removed_spec [r] cur = [n]" "changed_spec [r] cur = []"
      using gone None items by (auto simp: removed_spec_def changed_spec_def)
    ultimately show ?thesis using items fid None assms(4) by (simp add: diff_step_def)
  next
    case (Some c)
    then have c: "c \<in> set cur" "the_id c = the_id r"
      by (auto simp: find_Some_iff)
    have "wf_snapshot (not_seen acc)" "c \<in> set (not_seen acc)"
      using assms(1,4,5) c wf_snapshot_filter by auto
    from list_remove_id [OF this] have rest:
      "list_remove c (not_seen acc) = Inr (filter (\<lambda>c. the_id c \<notin> insert (the_id r) S) cur)"
      using c assms(4) by (simp add: conj_commute)
    have wfc: "wf_dict c" and has: "\<forall>k \<in> set (dict_keys r). map_of c k \<noteq> None"
      using c assms(1,3) by (auto simp: wf_snapshot_def same_members_def)
    have "find_params_changed r c = Inr (n, changes_spec r c)"
      using find_params_changed_spec [OF r(1) _ has] r(3) items(3) by simp
    moreover have "removed_spec [r] cur = []"
      using c by (auto simp: removed_spec_def rev_image_eqI)
    moreover have "changed_spec [r] cur = (if changes_spec r c = [] then [] else [(n, changes_spec r c)])"
      using Some items(3) by (simp add: changed_spec_def)
    ultimately show ?thesis
      using items fid Some rest dict_eq_changes [OF r(1), of c] by (auto simp: diff_step_def Let_def)
  qed
qed

lemma diff_loop_spec:
  assumes "wf_snapshot cur" and "wf_snapshot old" and "same_members old cur"
    and "not_seen acc = filter (\<lambda>c. the_id c \<notin> S) cur" and "S \<inter> the_id ` set old = {}"
  shows "diff_loop cur old acc = Inr \<lparr>not_seen = filter (\<lambda>c. the_id c \<notin> S \<union> the_id ` set old) cur,
    changed = changed acc @ changed_spec old cur, removed = removed acc @ removed_spec old cur\<rparr>"
  using assms(2-)
proof (induction old arbitrary: acc S)
  case Nil
  then show ?case by (cases acc) (simp add: changed_spec_def removed_spec_def)
next
  case (Cons r old)
  let ?acc = "\<lparr>not_seen = filter (\<lambda>c. the_id c \<notin> insert (the_id r) S) cur,
    changed = changed acc @ changed_spec [r] cur, removed = removed acc @ removed_spec [r] cur\<rparr>"
  have "diff_step cur r acc = Inr ?acc"
    by (rule diff_step_spec [OF assms(1) _ _ Cons.prems(3)])
      (use Cons.prems in \<open>auto simp: wf_snapshot_def same_members_def\<close>)
  moreover have "diff_loop cur old ?acc = Inr \<lparr>not_seen = filter (\<lambda>c. the_id c \<notin> insert (the_id r) S \<union> the_id ` set old) cur,
    changed = changed ?acc @ changed_spec old cur, removed = removed ?acc @ removed_spec old cur\<rparr>"
    by (rule Cons.IH) (use Cons.prems in \<open>auto simp: wf_snapshot_def same_members_def\<close>)
  ultimately show ?case by (simp add: changed_spec_def removed_spec_def)
qed

lemma added_names_spec:
  "\<forall>r \<in> set l. map_of r ''name'' \<noteq> None \<Longrightarrow>
     added_names l = Inr (filter (\<lambda>n. n \<notin> set ignored_rsrc_names) (map the_name l))"
  by (induction l) (auto simp: dict_getitem_def the_name_def)

lemma find_resources_diff_eq:
  assumes "wf_snapshot old" and "wf_snapshot cur" and "same_members old cur"
  shows "find_resources_diff old cur = Inr (changed_spec old cur, added_spec old cur, removed_spec old cur)"
proof -
  have "\<forall>r \<in> set (filter (\<lambda>c. the_id c \<notin> the_id ` set old) cur). map_of r ''name'' \<noteq> None"
    using assms(2) by (simp add: wf_snapshot_def)
  from added_names_spec [OF this] diff_loop_spec [OF assms(2,1,3), of "\<lparr>not_seen = cur, changed = [], removed = []\<rparr>" "{}"]
  show ?thesis by (simp add: find_resources_diff_def added_spec_def)
qed

text \<open>
  C13. The difference of two snapshots of a type is the one by ids: the changed resources
  with exactly the attributes of the old one whose value differs, the names of the new ids
  that are not ignored names, and the names of the ids that are gone.
\<close>

theorem resources_diff_by_id:
  assumes "wf_snapshot old" and "wf_snapshot cur" and "same_members old cur"
  shows "find_resources_diff old cur = Inr (changed_spec old cur, added_spec old cur, removed_spec old cur)"
  using assms by (rule find_resources_diff_eq)

lemma changes_spec_self: "wf_dict r \<Longrightarrow> changes_spec r r = []"
  by (auto simp: changes_spec_def wf_dict_map_of)

lemma find_resources_diff_self:
  assumes "wf_snapshot l"
  shows "find_resources_diff l l = Inr ([], [], [])"
proof -
  have "changes_spec r c = []" if "find (\<lambda>c. the_id c = the_id r) l = Some c" "r \<in> set l" for r c
  proof -
    have "c \<in> set l" "the_id c = the_id r" using that(1) by (auto simp: find_Some_iff)
    then have "c = r" using assms that(2) by (auto simp: wf_snapshot_def distinct_map inj_on_def)
    then show ?thesis using assms that(2) by (simp add: wf_snapshot_def changes_spec_self)
  qed
  then have "changed_spec l l = []" by (auto simp: changed_spec_def split: option.split)
  moreover have "map_of c k \<noteq> None" if "r \<in> set l" "c \<in> set l" "the_id c = the_id r" "k \<in> set (dict_keys r)" for r c k
  proof -
    have "c = r" using assms that(1-3) by (auto simp: wf_snapshot_def distinct_map dest: inj_onD)
    with that(4) show ?thesis by (simp add: dict_keys_def map_of_eq_None_iff)
  qed
  then have "same_members l l" by (simp add: same_members_def)
  moreover have "added_spec l l = []" "removed_spec l l = []"
    by (auto simp: added_spec_def removed_spec_def filter_empty_conv)
  ultimately show ?thesis using find_resources_diff_eq [OF assms assms] by simp
qed

text \<open>
  A state does not differ from itself: for a state with a snapshot of every type,
  comparing it with itself gives the empty difference.
\<close>

theorem state_equals_itself:
  assumes "\<forall>t \<in> set resource_types_to_dump. \<exists>l. map_of state (snd t) = Some l \<and> wf_snapshot l"
  shows "compare_ge_state state state = Inr []"
proof -
  have "\<forall>t \<in> set ts. \<exists>l. map_of state (snd t) = Some l \<and> wf_snapshot l \<Longrightarrow> compare_types ts state state [] = Inr []" for ts
    by (induction ts) (auto simp: dict_getitem_def find_resources_diff_self dict_del_def)
  with assms show ?thesis unfolding compare_ge_state_def by blast
qed

text \<open>
  The report of a state is all or nothing: it raises TypeError as soon as the dump of
  one type fails, though the loop means to log the failure and go on.
\<close>

theorem failing_dump_ends_report:
  assumes "resource_types_to_dump = ts @ t # ts'"
    and "\<forall>x \<in> set ts. \<forall>s. \<exists>s'. dump_ge_resource G x s = (Inr (), s')"
    and "\<forall>s. \<exists>e s'. dump_ge_resource G t s = (Inl e, s')"
  shows "fst (get_summary_report G s) = Inl TypeError"
proof -
  let ?f = "\<lambda>rt _. try_except (dump_ge_resource G rt) PyException (\<lambda>e. raise TypeError)"
  have "\<exists>s'. for_each (xs @ t # ts') ?f () s = (Inl TypeError, s')"
    if "\<forall>x \<in> set xs. \<forall>s. \<exists>s'. dump_ge_resource G x s = (Inr (), s')" for xs s
    using that
  proof (induction xs arbitrary: s)
    case Nil
    from assms(3) obtain e s' where "dump_ge_resource G t s = (Inl e, s')" by blast
    then show ?case by (simp add: comp_simps)
  next
    case (Cons x xs)
    then obtain s1 where "dump_ge_resource G x s = (Inr (), s1)" by force
    with Cons.IH [of s1] Cons.prems show ?case by (auto simp: comp_simps)
  qed
  from this [OF assms(2)] obtain s' where "for_each resource_types_to_dump ?f () s = (Inl TypeError, s')"
    unfolding assms(1) by blast
  then show ?thesis by (simp add: get_summary_report_def bindE_def)
qed

section \<open>Witnesses\<close>

definition demo_old :: "rsrc list" where
  "demo_old = [[(''id'', PStr ''1''), (''name'', PStr ''vm1''), (''state'', PStr ''old'')],
     [(''id'', PStr ''2''), (''name'', PStr ''OVF_STORE'')]]"

definition demo_new :: "rsrc list" where
  "demo_new = [[(''id'', PStr ''1''), (''name'', PStr ''vm1''), (''state'', PStr ''new'')],
     [(''id'', PStr ''3''), (''name'', PStr ''OVF_STORE'')]]"

lemma demo_snapshots: "wf_snapshot demo_old" "wf_snapshot demo_new" "same_members demo_old demo_new"
  by (simp_all add: wf_snapshot_def same_members_def demo_old_def demo_new_def the_id_def wf_dict_def dict_keys_def)

text \<open>A replaced OVF_STORE disk is not reported as added, but it is as removed.\<close>

theorem resources_diff_by_id_witness:
  "find_resources_diff demo_old demo_new =
     Inr ([(PStr ''vm1'', [(''state'', ''old_value: old, new_value: new'')])], [], [PStr ''OVF_STORE''])"
  using resources_diff_by_id [OF demo_snapshots]
  by (simp add: demo_old_def demo_new_def changed_spec_def added_spec_def removed_spec_def the_id_def the_name_def
      changes_spec_def change_text_def ignored_rsrc_names_def py_str_def)

definition demo_state :: ge_state where
  "demo_state = map (\<lambda>t. (snd t, demo_old)) resource_types_to_dump"

theorem state_equals_itself_witness: "compare_ge_state demo_state demo_state = Inr []"
  by (rule state_equals_itself)
    (simp add: demo_state_def resource_types_to_dump_def demo_snapshots)

definition demo_ge :: ge_env where
  "demo_ge = \<lparr>api_get = (\<lambda>t. if snd t = ''hosts'' then Inl EntityNotFound else Inr (PObj ''x'' [(''storage_domain'', PList [])])),
     member_data_items = (\<lambda>r. [])\<rparr>"

theorem failing_dump_ends_report_witness: "fst (get_summary_report demo_ge []) = Inl TypeError"
  by (rule failing_dump_ends_report [of "[(''storagedomain'', ''storagedomains'')]" "(''host'', ''hosts'')"
        "drop 2 resource_types_to_dump"])
    (simp_all add: resource_types_to_dump_def dump_ge_resource_def demo_ge_def resources_of_def getattr_def comp_simps)

end
