(* ===== verification/Log_Listener.thy ===== *)
theory Log_Listener
  imports Pyval Timeout
begin

text \<open>
  \<open>art/rhevm_api/utils/log_listener.py\<close>: waiting until the output of \<open>tail\<close> matches a
  pattern, and running a command when it does. The channel, the subprocess, the executor
  and the search for the pattern are parameters over the world; the listener's own state
  is whether it has an executor and a channel, and its timeout.
\<close>

section \<open>The listener\<close>

text \<open>
  What the environment does: opening a session to an address (paramiko), starting
  \<open>tail\<close>, receiving the next piece of its output, running a command remotely, and locally.
\<close>

record 'w tail_env =
  os_time :: "'w os_time"
  open_session :: "string option \<Rightarrow> ('w, unit) comp"
  exec_tail :: "string \<Rightarrow> ('w, unit) comp"
  recv_remote :: "('w, string) comp"
  popen_tail :: "string \<Rightarrow> ('w, unit) comp"
  readline_local :: "('w, string) comp"
  run_cmd :: "string \<Rightarrow> ('w, int) comp"
  os_system :: "string \<Rightarrow> ('w, int) comp"

record listener =
  time_out :: "int option"
  channel :: bool

definition initiate_executor :: "'w tail_env \<Rightarrow> listener \<Rightarrow> string option \<Rightarrow> ('w, listener) comp" where
  "initiate_executor E L ip =
     (if ip \<noteq> None \<and> ip \<noteq> Some [] then bindE (open_session E ip) (\<lambda>_. ret (L\<lparr>channel := True\<rparr>)) else ret L)"

definition LogListener :: "'w tail_env \<Rightarrow> string option \<Rightarrow> int option \<Rightarrow> ('w, listener) comp" where
  "LogListener E ip_for_files t = initiate_executor E \<lparr>time_out = t, channel = False\<rparr> ip_for_files"

definition execute_command :: "'w tail_env \<Rightarrow> listener \<Rightarrow> bool \<Rightarrow> string \<Rightarrow> string option \<Rightarrow> ('w, pyval) comp" where
  "execute_command E L run_locally command_to_exec ip =
     (if \<not> run_locally then
        bindE (initiate_executor E L ip) (\<lambda>L1.
        if \<not> channel L1 then raise AttributeError
        else bindE (run_cmd E command_to_exec) (\<lambda>rc.
             if rc = 0 then raise AssertionError else ret (PInt rc)))
      else
        try_except (bindE (os_system E command_to_exec) (\<lambda>rc. ret (PBool (rc = 0))))
          RuntimeError (\<lambda>_. ret PNone))"

text \<open>
  The loop of both watchers: the deadline is looked at only with a timeout that is set and
  not zero, then the next piece is read and the whole output searched. \<open>None\<close> is a loop
  that never ends; the empty string and a match are the results.
\<close>

definition past_deadline :: "'w os_time \<Rightarrow> int option \<Rightarrow> int \<Rightarrow> 'w \<Rightarrow> bool \<times> 'w" where
  "past_deadline E t start w =
     (if t = None \<or> t = Some 0 then (False, w)
      else case os_now E w of (now, w1) \<Rightarrow> (the t < now - start, w1))"

partial_function (option) watch_loop ::
  "'w os_time \<Rightarrow> ('w, string) comp \<Rightarrow> (string \<Rightarrow> 'm option) \<Rightarrow> int option \<Rightarrow> int \<Rightarrow> string \<Rightarrow> 'w
   \<Rightarrow> ((exn + 'm option) \<times> 'w) option" where
  "watch_loop E read_more match t start recv w =
     (case past_deadline E t start w of (late, w1) \<Rightarrow>
      if late then Some (Inr None, w1)
      else case read_more w1 of
             (Inl e, w2) \<Rightarrow> Some (Inl e, w2)
           | (Inr piece, w2) \<Rightarrow>
               (case match (recv @ piece) of
                  Some m \<Rightarrow> Some (Inr (Some m), w2)
                | None \<Rightarrow> watch_loop E read_more match t start (recv @ piece) w2))"

text \<open>
  A tail that cannot be started is logged only; without a channel there is no
  \<open>exec_command\<close> to call, and without a process no \<open>stdout\<close> to read.
\<close>

definition watch_for_remote_changes ::
  "'w tail_env \<Rightarrow> listener \<Rightarrow> string \<Rightarrow> (string \<Rightarrow> 'm option) \<Rightarrow> 'w \<Rightarrow> ((exn + 'm option) \<times> 'w) option" where
  "watch_for_remote_changes E L files match w =
     (case os_now (os_time E) w of (start, w1) \<Rightarrow>
      if \<not> channel L then Some (Inl AttributeError, w1)
      else case try_except (exec_tail E files) RuntimeError (\<lambda>_. ret ()) w1 of
             (Inl e, w2) \<Rightarrow> Some (Inl e, w2)
           | (Inr _, w2) \<Rightarrow> watch_loop (os_time E) (recv_remote E) match (time_out L) start [] w2)"

definition watch_for_local_changes ::
  "'w tail_env \<Rightarrow> listener \<Rightarrow> string \<Rightarrow> (string \<Rightarrow> 'm option) \<Rightarrow> 'w \<Rightarrow> ((exn + 'm option) \<times> 'w) option" where
  "watch_for_local_changes E L files match w =
     (case os_now (os_time E) w of (start, w1) \<Rightarrow>
      case popen_tail E files w1 of
        (Inr _, w2) \<Rightarrow> watch_loop (os_time E) (readline_local E) match (time_out L) start [] w2
      | (Inl e, w2) \<Rightarrow>
          if isinstance e RuntimeError
          then watch_loop (os_time E) (raise UnboundLocalError) match (time_out L) start [] w2
          else Some (Inl e, w2))"

definition watch_for_changes ::
  "'w tail_env \<Rightarrow> listener \<Rightarrow> bool \<Rightarrow> string \<Rightarrow> (string \<Rightarrow> 'm option) \<Rightarrow> 'w \<Rightarrow> ((exn + 'm option) \<times> 'w) option" where
  "watch_for_changes E L run_locally files match =
     (if \<not> run_locally then watch_for_remote_changes E L files match else watch_for_local_changes E L files match)"

definition given :: "string option \<Rightarrow> bool" where
  "given x \<longleftrightarrow> x \<noteq> None \<and> x \<noteq> Some []"

definition watch_logs ::
  "'w tail_env \<Rightarrow> string \<Rightarrow> (string \<Rightarrow> 'm option) \<Rightarrow> string option \<Rightarrow> int option \<Rightarrow> string option \<Rightarrow> string option \<Rightarrow> 'w
   \<Rightarrow> ((exn + 'm option \<times> pyval) \<times> 'w) option" where
  "watch_logs E files match command_to_exec t ip_for_files ip_for_execute w =
     (let run_locally = (\<not> given ip_for_execute \<and> \<not> given ip_for_files);
          ip_exec = (if given ip_for_execute \<or> \<not> given ip_for_files then ip_for_execute else ip_for_files)
      in case LogListener E ip_for_files t w of
           (Inl e, w1) \<Rightarrow> Some (Inl e, w1)
         | (Inr L, w1) \<Rightarrow>
             (case watch_for_changes E L run_locally files match w1 of
                None \<Rightarrow> None
              | Some (Inl e, w2) \<Rightarrow> Some (Inl e, w2)
              | Some (Inr found, w2) \<Rightarrow>
                  (if found \<noteq> None \<and> given command_to_exec
                   then (case execute_command E L run_locally (the command_to_exec) ip_exec w2 of
                           (Inl e, w3) \<Rightarrow> Some (Inl e, w3)
                         | (Inr rc, w3) \<Rightarrow> Some (Inr (found, rc), w3))
                   else Some (Inr (found, PNone), w2))))"

section \<open>The loop ends\<close>

text \<open>
  Reading takes at least one unit of the clock's time on a silent stream: this is what
  \<open>recv\<close> and \<open>readline\<close> do, they wait.
\<close>

definition takes_time :: "('w \<Rightarrow> int) \<Rightarrow> ('w, 'a) comp \<Rightarrow> bool" where
  "takes_time clk m \<longleftrightarrow> (\<forall>w. clk w + 1 \<le> clk (snd (m w)))"

lemma takes_timeD: "takes_time clk m \<Longrightarrow> m w = (r, w1) \<Longrightarrow> clk w + 1 \<le> clk w1"
  unfolding takes_time_def by (metis snd_conv)

lemma past_deadline_clock:
  assumes "clock_laws E clk" and "past_deadline E t start w = (late, w1)"
  shows "clk w \<le> clk w1"
    and "late \<Longrightarrow> \<exists>d. t = Some d \<and> d \<noteq> 0 \<and> start + d < clk w1"
    and "\<not> late \<Longrightarrow> t = Some d \<Longrightarrow> d \<noteq> 0 \<Longrightarrow> clk w \<le> start + d"
  using assms(2) by (auto simp: past_deadline_def split: if_splits prod.splits dest: os_now_bounds [OF assms(1)])

lemma watch_loop_ends:
  assumes "clock_laws E clk" and "takes_time clk read_more" and "t \<noteq> 0"
  shows "\<exists>r. watch_loop E read_more match (Some t) start recv w = Some r"
proof (induction "nat (start + t + 1 - clk w)" arbitrary: recv w rule: less_induct)
  case less
  obtain late w1 where now: "past_deadline E (Some t) start w = (late, w1)" by fastforce
  note b = past_deadline_clock [OF assms(1) now]
  show ?case
  proof (cases late)
    case True
    with now show ?thesis by (subst watch_loop.simps) simp
  next
    case False
    obtain r w2 where r: "read_more w1 = (r, w2)" by fastforce
    have "nat (start + t + 1 - clk w2) < nat (start + t + 1 - clk w)"
      using takes_timeD [OF assms(2) r] b False assms(3) by fastforce
    from less.hyps [OF this] have "\<exists>x. watch_loop E read_more match (Some t) start recv' w2 = Some x" for recv' by blast
    with now False r show ?thesis
      by (subst watch_loop.simps) (auto split: sum.split option.split)
  qed
qed

text \<open>What the loop's result says: a match of the output read so far, or the deadline.\<close>

lemma watch_loop_verdict:
  assumes "clock_laws E clk" and "watch_loop E read_more match t start recv w = Some (r, w')"
  shows "case r of
      Inl e \<Rightarrow> \<exists>v. read_more v = (Inl e, w')
    | Inr (Some m) \<Rightarrow> \<exists>out. match (recv @ out) = Some m
    | Inr None \<Rightarrow> \<exists>d. t = Some d \<and> d \<noteq> 0 \<and> start + d < clk w'"
proof -
  let ?V = "\<lambda>recv r w'. case r of
      Inl e \<Rightarrow> \<exists>v. read_more v = (Inl e, w')
    | Inr (Some m) \<Rightarrow> \<exists>out. match (recv @ out) = Some m
    | Inr None \<Rightarrow> \<exists>d. t = Some d \<and> d \<noteq> 0 \<and> start + d < clk w'"
  let ?P = "\<lambda>E0 rm match0 t0 start0 recv w (r, w'). E0 = E \<longrightarrow> rm = read_more \<longrightarrow> match0 = match \<longrightarrow> t0 = t \<longrightarrow>
    start0 = start \<longrightarrow> ?V recv r w'"
  have "?P E read_more match t start recv w (r, w')"
  proof (rule watch_loop.raw_induct [where P = ?P, OF _ assms(2)])
    fix rec E0 rm match0 t0 start0 recv w res
    assume IH: "\<And>E0 rm match0 t0 start0 recv w res. rec E0 rm match0 t0 start0 recv w = Some res \<Longrightarrow>
        ?P E0 rm match0 t0 start0 recv w res"
      and eq: "(case past_deadline E0 t0 start0 w of (late, w1) \<Rightarrow>
        if late then Some (Inr None, w1)
        else case rm w1 of
             (Inl e, w2) \<Rightarrow> Some (Inl e, w2)
           | (Inr piece, w2) \<Rightarrow>
               (case match0 (recv @ piece) of
                  Some m \<Rightarrow> Some (Inr (Some m), w2)
                | None \<Rightarrow> rec E0 rm match0 t0 start0 (recv @ piece) w2)) = Some res"
    have more: "?V (recv @ piece) r w' \<Longrightarrow> ?V recv r w'" for piece r w'
      by (fastforce split: sum.splits option.splits)
    show "?P E0 rm match0 t0 start0 recv w res"
    proof (clarify)
      fix r w'
      assume *: "E0 = E" "rm = read_more" "match0 = match" "t0 = t" "start0 = start" "res = (r, w')"
      obtain late w1 where p: "past_deadline E t start w = (late, w1)" by fastforce
      show "?V recv r w'"
      proof (cases late)
        case True
        with eq * p past_deadline_clock(2) [OF assms(1) p] show ?thesis by auto
      next
        case False
        obtain q w2 where q: "read_more w1 = (q, w2)" by fastforce
        show ?thesis
        proof (cases q)
          case (Inl e)
          with eq * p q False show ?thesis by auto
        next
          case (Inr piece)
          show ?thesis
          proof (cases "match (recv @ piece)")
            case None
            with eq * p q False Inr have "rec E0 rm match0 t0 start0 (recv @ piece) w2 = Some (r, w')" by simp
            from IH [OF this] * have "?V (recv @ piece) r w'" by simp
            then show ?thesis by (rule more)
          next
            case (Some m)
            with eq * p q False Inr show ?thesis by auto
          qed
        qed
      qed
    qed
  qed
  then show ?thesis by simp
qed

text \<open>
  A watcher with a timeout that is set and not zero comes back, with a match of what
  was read, the empty result only past the deadline, or the error of a read.
\<close>

theorem watch_with_timeout_returns:
  assumes "clock_laws (os_time E) clk" and "takes_time clk (recv_remote E)"
    and "channel L" and "time_out L = Some t" and "t \<noteq> 0"
    and "exec_tail E files (snd (os_now (os_time E) w)) = (Inr (), w2)"
  shows "\<exists>r w'. watch_for_remote_changes E L files match w = Some (r, w') \<and>
    (case r of
       Inl e \<Rightarrow> \<exists>v. recv_remote E v = (Inl e, w')
     | Inr (Some m) \<Rightarrow> \<exists>out. match out = Some m
     | Inr None \<Rightarrow> clk w + t < clk w')"
proof -
  obtain start w1 where now: "os_now (os_time E) w = (start, w1)" by fastforce
  obtain r w' where r: "watch_loop (os_time E) (recv_remote E) match (Some t) start [] w2 = Some (r, w')"
    using watch_loop_ends [OF assms(1,2,5)] by (metis prod.exhaust)
  then have "watch_for_remote_changes E L files match w = Some (r, w')"
    using assms(3,4,6) now by (simp add: watch_for_remote_changes_def try_except_def)
  moreover have "clk w \<le> start" using os_now_bounds [OF assms(1) now] by simp
  ultimately show ?thesis
    using watch_loop_verdict [OF assms(1) r] by (fastforce split: sum.splits option.splits)
qed

lemma watch_loop_silent:
  assumes "t = None \<or> t = Some 0" and "\<And>w. \<exists>w'. read_more w = (Inr [], w')" and "match recv = None"
  shows "watch_loop E read_more match t start recv w = None"
proof (rule ccontr)
  assume "watch_loop E read_more match t start recv w \<noteq> None"
  then obtain res where res: "watch_loop E read_more match t start recv w = Some res" by blast
  let ?P = "\<lambda>E0 rm match0 t0 start0 recv0 w res. rm = read_more \<longrightarrow> match0 = match \<longrightarrow> t0 = t \<longrightarrow> recv0 = recv \<longrightarrow> False"
  have "?P E read_more match t start recv w res"
  proof (rule watch_loop.raw_induct [where P = ?P, OF _ res])
    fix rec E0 rm match0 t0 start0 recv0 w res
    assume IH: "\<And>E0 rm match0 t0 start0 recv0 w res. rec E0 rm match0 t0 start0 recv0 w = Some res \<Longrightarrow>
        ?P E0 rm match0 t0 start0 recv0 w res"
      and eq: "(case past_deadline E0 t0 start0 w of (late, w1) \<Rightarrow>
        if late then Some (Inr None, w1)
        else case rm w1 of
             (Inl e, w2) \<Rightarrow> Some (Inl e, w2)
           | (Inr piece, w2) \<Rightarrow>
               (case match0 (recv0 @ piece) of
                  Some m \<Rightarrow> Some (Inr (Some m), w2)
                | None \<Rightarrow> rec E0 rm match0 t0 start0 (recv0 @ piece) w2)) = Some res"
    show "?P E0 rm match0 t0 start0 recv0 w res"
    proof (intro impI)
      assume *: "rm = read_more" "match0 = match" "t0 = t" "recv0 = recv"
      obtain w' where "read_more w = (Inr [], w')" using assms(2) by blast
      with eq * assms(1,3) have "rec E0 rm match0 t0 start0 recv0 w' = Some res"
        by (auto simp: past_deadline_def)
      from IH [OF this] * show False by simp
    qed
  qed
  then show False by simp
qed

text \<open>
  Without a timeout, or with timeout zero, a watcher of an output in which the pattern
  never occurs does not return, even when the output has ended: the default of
  \<open>watch_logs\<close> is to wait for ever.
\<close>

theorem watch_without_timeout_hangs:
  assumes "time_out L = None \<or> time_out L = Some 0" and "channel L"
    and "\<And>w. \<exists>w'. recv_remote E w = (Inr [], w')" and "match [] = None"
    and "exec_tail E files (snd (os_now (os_time E) w)) = (Inr (), w2)"
  shows "watch_for_remote_changes E L files match w = None"
  using watch_loop_silent [where recv = "[]" and match = match and read_more = "recv_remote E", OF assms(1,3,4)] assms(2,5)
  by (auto simp: watch_for_remote_changes_def try_except_def split: prod.split)

text \<open>
  A command that succeeds on the remote machine makes \<open>watch_logs\<close> fail: with the
  pattern found and exit code 0 the result is AssertionError, while a command that fails
  with a non-zero code is reported as if it had succeeded.
\<close>

theorem remote_command_verdict_inverted:
  assumes "given ip" and "given cmd" and "LogListener E ip t w = (Inr L, w1)"
    and "watch_for_remote_changes E L files match w1 = Some (Inr (Some m), w2)"
    and "open_session E ip w2 = (Inr (), w3)" and "run_cmd E (the cmd) w3 = (Inr rc, w4)"
  shows "watch_logs E files match cmd t ip None w =
    Some (if rc = 0 then (Inl AssertionError, w4) else (Inr (Some m, PInt rc), w4))"
proof -
  have "initiate_executor E L ip w2 = (Inr (L\<lparr>channel := True\<rparr>), w3)"
    using assms(1,5) by (simp add: initiate_executor_def given_def comp_simps)
  with assms show ?thesis
    by (simp add: watch_logs_def watch_for_changes_def execute_command_def given_def comp_simps)
qed

section \<open>Witnesses\<close>

text \<open>A world that is a clock; the output is silent until the time of a line.\<close>

definition demo_tail :: "int \<Rightarrow> int tail_env" where
  "demo_tail ready = \<lparr>os_time = \<lparr>os_now = (\<lambda>t. (t, t)), os_sleep = (\<lambda>d t. t + d)\<rparr>,
     open_session = (\<lambda>ip. ret ()), exec_tail = (\<lambda>f. ret ()),
     recv_remote = (\<lambda>t. (Inr (if t < ready then [] else ''ok''), t + 1)),
     popen_tail = (\<lambda>f. ret ()), readline_local = ret [], run_cmd = (\<lambda>c. ret 0), os_system = (\<lambda>c. ret 0)\<rparr>"

definition demo_match :: "string \<Rightarrow> string option" where
  "demo_match s = (if contains s ''ok'' then Some ''ok'' else None)"

lemma demo_tail_laws: "clock_laws (os_time (demo_tail n)) id" "takes_time id (recv_remote (demo_tail n))"
  by (simp_all add: clock_laws_def takes_time_def demo_tail_def)

theorem watch_with_timeout_returns_witness:
  "\<exists>r. watch_for_remote_changes (demo_tail 50) \<lparr>time_out = Some 30, channel = True\<rparr> ''log'' demo_match 0 = Some r"
  using watch_with_timeout_returns [OF demo_tail_laws [of 50], of "\<lparr>time_out = Some 30, channel = True\<rparr>" 30 "''log''" 0 0 demo_match]
  by (auto simp: demo_tail_def ret_def)

definition silent_tail :: "int tail_env" where
  "silent_tail = (demo_tail 0)\<lparr>recv_remote := (\<lambda>t. (Inr [], t + 1))\<rparr>"

theorem watch_without_timeout_hangs_witness:
  "watch_for_remote_changes silent_tail \<lparr>time_out = None, channel = True\<rparr> ''log'' demo_match 0 = None"
  by (rule watch_without_timeout_hangs [where ?w2.0 = 0])
    (simp_all add: silent_tail_def demo_tail_def demo_match_def ret_def)

lemma demo_found:
  "watch_for_remote_changes (demo_tail 1) \<lparr>time_out = Some 30, channel = True\<rparr> ''log'' demo_match 0 = Some (Inr (Some ''ok''), 2)"
  by (simp add: watch_for_remote_changes_def demo_tail_def watch_loop.simps past_deadline_def demo_match_def comp_simps startswith_def)

theorem remote_command_verdict_inverted_witness:
  "watch_logs (demo_tail 1) ''log'' demo_match (Some ''true'') (Some 30) (Some ''10.0.0.1'') None 0 = Some (Inl AssertionError, 2)"
  using remote_command_verdict_inverted [OF _ _ _ demo_found, of "Some ''10.0.0.1''" "Some ''true''" "Some 30" 0 2 0 2]
  by (simp add: given_def LogListener_def initiate_executor_def demo_tail_def comp_simps)

end
