(* ===== verification/Engine_Jobs.thy ===== *)
theory Engine_Jobs
  imports Rest_Time
begin

text \<open>
  \<open>art/rhevm_api/tests_lib/low_level/jobs.py\<close>: the jobs and steps that the engine reports,
  on top of the REST backend. \<open>re.match\<close> on a description is a parameter; a start time is
  a number. The two APIs of the module are two environments of the backend.
\<close>

section \<open>Constants and helpers\<close>

definition job_started :: string where "job_started = ''started''"
definition job_finished :: string where "job_finished = ''finished''"
definition job_failed :: string where "job_failed = ''failed''"
definition job_aborted :: string where "job_aborted = ''aborted''"
definition job_unknown :: string where "job_unknown = ''unknown''"

definition get_jobs :: "'w rest_env \<Rightarrow> ('w rest_st, pyval) comp" where
  "get_jobs J = rest_get J None (get_default\<lparr>ga_abs_link := False\<rparr>)"

definition re_match :: "(string \<Rightarrow> string \<Rightarrow> bool) \<Rightarrow> string \<Rightarrow> pyval \<Rightarrow> exn + bool" where
  "re_match M pat v = (case v of PStr s \<Rightarrow> Inr (M pat s) | _ \<Rightarrow> Inl TypeError)"

definition job_matches :: "(string \<Rightarrow> string \<Rightarrow> bool) \<Rightarrow> string \<Rightarrow> string \<Rightarrow> pyval \<Rightarrow> exn + bool" where
  "job_matches M description job_status job =
     (case getattr job ''description'' of Inl e \<Rightarrow> Inl e | Inr d \<Rightarrow>
      case re_match M description d of
        Inl e \<Rightarrow> Inl e
      | Inr False \<Rightarrow> Inr False
      | Inr True \<Rightarrow> (case getattr job ''status'' of Inl e \<Rightarrow> Inl e | Inr st \<Rightarrow> Inr (st = PStr job_status)))"

definition latest :: "pyval list \<Rightarrow> exn + pyval" where
  "latest jobs =
     (case keyed (\<lambda>j. getattr j ''start_time'') jobs of
        Inl e \<Rightarrow> Inl e
      | Inr kjs \<Rightarrow> (case py_max (\<lambda>(k, j). sort_key_of k) kjs of Inl e \<Rightarrow> Inl e | Inr (k, j) \<Rightarrow> Inr j))"

definition first_n :: "int option \<Rightarrow> pyval list \<Rightarrow> pyval list" where
  "first_n n xs =
     (case n of
        None \<Rightarrow> xs
      | Some k \<Rightarrow> take (nat (if k < 0 then max 0 (int (length xs) + k) else k)) xs)"

section \<open>Searching jobs\<close>

text \<open>The result is a tuple; of an empty description it has three elements.\<close>

definition check_recent_job ::
  "'w rest_env \<Rightarrow> (string \<Rightarrow> string \<Rightarrow> bool) \<Rightarrow> string \<Rightarrow> int option \<Rightarrow> string \<Rightarrow> ('w rest_st, pyval list) comp" where
  "check_recent_job J M description last_jobs_num job_status =
     bindE (get_jobs J) (\<lambda>js.
     bindE (lift_res (py_iter js)) (\<lambda>all_jobs.
     if description = [] then ret [PBool False, PNone, PNone]
     else
       bindE (lift_res (filter_res (job_matches M description (lower job_status)) (first_n last_jobs_num all_jobs))) (\<lambda>required.
       bindE (lift_res (latest required)) (\<lambda>last_job.
       ret (if truthy last_job then [PBool True, last_job] else [PBool False, PNone])))))"

definition get_job_object ::
  "'w rest_env \<Rightarrow> (string \<Rightarrow> string \<Rightarrow> bool) \<Rightarrow> string \<Rightarrow> string \<Rightarrow> ('w rest_st, pyval option) comp" where
  "get_job_object J M description job_status =
     bindE (get_jobs J) (\<lambda>js.
     bindE (lift_res (py_iter js)) (\<lambda>all_jobs.
     bindE (lift_res (filter_res (job_matches M description job_status) all_jobs)) (\<lambda>jobs.
     if jobs \<noteq> [] then bindE (lift_res (latest jobs)) (\<lambda>j. ret (Some j)) else ret None)))"

definition get_job_execution_time :: "pyval \<Rightarrow> exn + int" where
  "get_job_execution_time job =
     (case getattr job ''last_updated'' of Inl e \<Rightarrow> Inl e | Inr b \<Rightarrow>
      case getattr job ''start_time'' of Inl e \<Rightarrow> Inl e | Inr a \<Rightarrow>
      (case (b, a) of (PInt y, PInt x) \<Rightarrow> Inr (y - x) | _ \<Rightarrow> Inl TypeError))"

text \<open>For every description the first active job that matches it.\<close>

fun relevant_jobs :: "(string \<Rightarrow> string \<Rightarrow> bool) \<Rightarrow> string list \<Rightarrow> pyval list \<Rightarrow> exn + pyval list" where
  "relevant_jobs M [] jobs = Inr []"
| "relevant_jobs M (d # ds) jobs =
     (case find_res (\<lambda>j. case getattr j ''description'' of Inl e \<Rightarrow> Inl e | Inr x \<Rightarrow> re_match M d x) jobs of
        Inl e \<Rightarrow> Inl e
      | Inr found \<Rightarrow>
          (case relevant_jobs M ds jobs of
             Inl e \<Rightarrow> Inl e
           | Inr rs \<Rightarrow> Inr (case found of None \<Rightarrow> rs | Some j \<Rightarrow> j # rs)))"

definition active_of :: "(string \<Rightarrow> string \<Rightarrow> bool) \<Rightarrow> string list \<Rightarrow> pyval \<Rightarrow> exn + pyval list" where
  "active_of M job_descriptions js =
     (if js = PNone then Inr [PBool True]
      else case py_iter js of Inl e \<Rightarrow> Inl e | Inr l \<Rightarrow>
           case filter_res (\<lambda>j. case getattr j ''status'' of Inl e \<Rightarrow> Inl e | Inr st \<Rightarrow> Inr (st = PStr job_started)) l of
             Inl e \<Rightarrow> Inl e
           | Inr act \<Rightarrow> if job_descriptions \<noteq> [] then relevant_jobs M job_descriptions act else Inr act)"

definition get_active_jobs ::
  "'w rest_env \<Rightarrow> (string \<Rightarrow> string \<Rightarrow> bool) \<Rightarrow> string list \<Rightarrow> ('w rest_st, pyval list) comp" where
  "get_active_jobs J M job_descriptions =
     bindE (get_jobs J) (\<lambda>js. lift_res (active_of M job_descriptions js))"

section \<open>Waiting\<close>

text \<open>What is logged when the jobs are gone: the execution time of each described job.\<close>

definition log_times ::
  "'w rest_env \<Rightarrow> (string \<Rightarrow> string \<Rightarrow> bool) \<Rightarrow> string list \<Rightarrow> ('w rest_st, unit) comp" where
  "log_times J M ds =
     for_each ds (\<lambda>d _. bindE (get_job_object J M d job_finished) (\<lambda>j.
       case j of None \<Rightarrow> ret () | Some x \<Rightarrow> bindE (lift_res (get_job_execution_time x)) (\<lambda>_. ret ()))) ()"

definition wait_for_jobs ::
  "'w rest_st os_time \<Rightarrow> 'w rest_env \<Rightarrow> (string \<Rightarrow> string \<Rightarrow> bool) \<Rightarrow> string list \<Rightarrow> int \<Rightarrow> int \<Rightarrow> bool \<Rightarrow> 'w rest_st
   \<Rightarrow> ((exn + unit) \<times> 'w rest_st) option" where
  "wait_for_jobs T J M job_descriptions t s exec_time w =
     (case for_sample T (get_active_jobs J M job_descriptions)
             (\<lambda>jobs. if jobs = [] then bindE (if exec_time then log_times J M job_descriptions else ret ()) (\<lambda>_. ret (Some ()))
                     else ret None)
             (API_TimeoutingSampler t s) w of
        None \<Rightarrow> None
      | Some (r, s1, w1) \<Rightarrow> Some (r, w1))"

fun find_step :: "string \<Rightarrow> pyval list \<Rightarrow> exn + pyval option" where
  "find_step d [] = Inr None"
| "find_step d (x # xs) =
     (case getattr x ''description'' of
        Inl e \<Rightarrow> Inl e
      | Inr (PStr s) \<Rightarrow> if contains s d then Inr (Some x) else find_step d xs
      | Inr v \<Rightarrow> Inl TypeError)"

definition step_by_description :: "'w rest_env \<Rightarrow> pyval \<Rightarrow> string \<Rightarrow> ('w rest_st, pyval option) comp" where
  "step_by_description S job step_description =
     bindE (getElemFromLink S job ''steps'' ''step'' False False) (\<lambda>v.
     bindE (lift_res (py_iter v)) (\<lambda>steps. lift_res (find_step step_description steps)))"

definition wait_for_step_to_start ::
  "'w rest_st os_time \<Rightarrow> 'w rest_env \<Rightarrow> pyval \<Rightarrow> string \<Rightarrow> int \<Rightarrow> int \<Rightarrow> 'w rest_st
   \<Rightarrow> ((exn + unit) \<times> 'w rest_st) option" where
  "wait_for_step_to_start T S job step_description t s w =
     (case for_sample T (step_by_description S job step_description)
             (\<lambda>st. ret (if st \<noteq> None then Some () else None)) (API_TimeoutingSampler t s) w of
        None \<Rightarrow> None
      | Some (r, s1, w1) \<Rightarrow> Some (r, w1))"

section \<open>Changing jobs\<close>

definition add_job :: "'w rest_env \<Rightarrow> string \<Rightarrow> bool \<Rightarrow> ('w rest_st, bool) comp" where
  "add_job J job_description auto_cleared =
     bindE (rest_create J (setattr (setattr (new_ds J ''Job'') ''description'' (PStr job_description))
                             ''auto_cleared'' (PBool auto_cleared)) True create_default) (\<lambda>r.
     ret (snd r))"

definition unpack_pair :: "pyval list \<Rightarrow> exn + pyval \<times> pyval" where
  "unpack_pair l = (case l of [a, b] \<Rightarrow> Inr (a, b) | _ \<Rightarrow> Inl ValueError)"

text \<open>The loop of \<open>add_step\<close> over the statuses, with the job and the parent step found so far.\<close>

fun find_job_for_step ::
  "'w rest_env \<Rightarrow> 'w rest_env \<Rightarrow> (string \<Rightarrow> string \<Rightarrow> bool) \<Rightarrow> string \<Rightarrow> string \<Rightarrow> string list \<Rightarrow> pyval \<times> pyval option \<Rightarrow>
   ('w rest_st, pyval \<times> pyval option) comp" where
  "find_job_for_step J S M job_description parent_description [] acc = ret acc"
| "find_job_for_step J S M job_description parent_description (status # sts) acc =
     bindE (check_recent_job J M job_description None status) (\<lambda>t.
     bindE (lift_res (unpack_pair t)) (\<lambda>(_, job_obj).
     if truthy job_obj then
       (if parent_description \<noteq> [] then
          bindE (step_by_description S job_obj parent_description) (\<lambda>parent.
          if parent \<noteq> None then ret (job_obj, parent)
          else find_job_for_step J S M job_description parent_description sts (job_obj, parent))
        else ret (job_obj, snd acc))
     else find_job_for_step J S M job_description parent_description sts (job_obj, snd acc)))"

definition add_step ::
  "'w rest_env \<Rightarrow> 'w rest_env \<Rightarrow> (string \<Rightarrow> string \<Rightarrow> bool) \<Rightarrow> string \<Rightarrow> string \<Rightarrow> string \<Rightarrow> string \<Rightarrow> string \<Rightarrow>
   ('w rest_st, bool) comp" where
  "add_step J S M job_description step_description step_type step_state parent_description =
     bindE (find_job_for_step J S M job_description parent_description
              [job_started, job_finished, job_failed, job_aborted, job_unknown] (PNone, None)) (\<lambda>(job_obj, parent).
     if \<not> truthy job_obj then ret False
     else if parent_description \<noteq> [] \<and> parent = None then ret False
     else
       bindE (getElemFromLink S job_obj [] [] True False) (\<lambda>steps_obj.
       let step = fold (\<lambda>(a, v) o'. setattr o' a v)
                    [(''description'', PStr step_description), (''job'', job_obj), (''parent_step'', opt_val parent),
                     (''status'', PStr step_state), (''type_'', PStr (lower step_type))] (new_ds S ''Step'')
       in bindE (lift_res (if truthy steps_obj then as_string steps_obj else Inr [])) (\<lambda>coll.
          bindE (rest_create S step True (create_default\<lparr>ca_collection := coll\<rparr>)) (\<lambda>r. ret (snd r)))))"

definition end_job ::
  "'w rest_env \<Rightarrow> (string \<Rightarrow> string \<Rightarrow> bool) \<Rightarrow> string \<Rightarrow> string \<Rightarrow> string \<Rightarrow> ('w rest_st, bool) comp" where
  "end_job J M job_description job_status end_status =
     bindE (check_recent_job J M job_description None job_status) (\<lambda>t.
     bindE (lift_res (unpack_pair t)) (\<lambda>(_, job_obj).
     if \<not> truthy job_obj then ret False
     else bindE (syncAction J job_obj ''end'' True (action_default\<lparr>aa_params := [(''status'', PStr end_status)]\<rparr>))
            (\<lambda>r. ret (truthy r))))"

definition end_step ::
  "'w rest_env \<Rightarrow> 'w rest_env \<Rightarrow> (string \<Rightarrow> string \<Rightarrow> bool) \<Rightarrow> string \<Rightarrow> string \<Rightarrow> string \<Rightarrow> bool \<Rightarrow> ('w rest_st, bool) comp" where
  "end_step J S M job_description job_status step_description end_status =
     bindE (check_recent_job J M job_description None job_status) (\<lambda>t.
     let job_obj = t ! 1 in
     if \<not> truthy job_obj then ret False
     else bindE (step_by_description S job_obj step_description) (\<lambda>step.
          bindE (syncAction S (opt_val step) ''end'' True (action_default\<lparr>aa_params := [(''succeeded'', PBool end_status)]\<rparr>))
            (\<lambda>r. ret (truthy r))))"

section \<open>What a search finds\<close>

definition started_before :: "pyval \<Rightarrow> pyval \<Rightarrow> bool" where
  "started_before a b \<longleftrightarrow>
     (\<exists>x y. getattr a ''start_time'' = Inr x \<and> getattr b ''start_time'' = Inr y \<and> sort_key_of x \<le> sort_key_of y)"

lemma latest_Inr:
  assumes "latest jobs = Inr j"
  shows "j \<in> set jobs \<and> (\<forall>i \<in> set jobs. started_before i j)"
proof -
  from assms obtain ks k where ks: "keyed (\<lambda>j. getattr j ''start_time'') jobs = Inr ks"
    and m: "py_max (\<lambda>(k, j). sort_key_of k) ks = Inr (k, j)"
    by (auto simp: latest_def split: sum.splits)
  note keys = keyed_Inr [OF ks]
  have max: "(k, j) \<in> set ks" "\<forall>x \<in> set ks. (case x of (k', j) \<Rightarrow> sort_key_of k') \<le> sort_key_of k"
    using py_max_Inr [OF m] by simp_all
  have "started_before i j" if i: "i \<in> set jobs" for i
  proof -
    from i keys have "i \<in> snd ` set ks" by (metis list.set_map)
    then obtain k' where k': "(k', i) \<in> set ks" by force
    with keys max(2) have "getattr i ''start_time'' = Inr k'" "getattr j ''start_time'' = Inr k"
        "sort_key_of k' \<le> sort_key_of k" using max(1) by fastforce+
    then show ?thesis unfolding started_before_def by blast
  qed
  moreover have "j \<in> set jobs"
  proof -
    have "j \<in> snd ` set ks" using max(1) by force
    then show ?thesis using keys by (metis list.set_map)
  qed
  ultimately show ?thesis by blast
qed

lemma latest_Nil: "latest [] = Inl ValueError"
  by (simp add: latest_def py_max_def)

lemma check_recent_job_cases:
  assumes "description \<noteq> []" and "get_jobs J w = (Inr (PList js), w1)"
    and "check_recent_job J M description n status w = (r, w')"
  obtains (found) j where "r = Inr [PBool True, j]" "j \<in> set (first_n n js)" "job_matches M description (lower status) j = Inr True"
      "\<forall>i \<in> set (first_n n js). job_matches M description (lower status) i = Inr True \<longrightarrow> started_before i j"
  | (error) e where "r = Inl e"
proof -
  from assms have run: "(case filter_res (job_matches M description (lower status)) (first_n n js) of
      Inl e \<Rightarrow> Inl e | Inr required \<Rightarrow>
      case latest required of Inl e \<Rightarrow> Inl e
      | Inr j \<Rightarrow> Inr (if truthy j then [PBool True, j] else [PBool False, PNone])) = r"
    by (auto simp: check_recent_job_def comp_simps split: sum.splits)
  show thesis
  proof (cases r)
    case (Inr l)
    with run obtain required j where req: "filter_res (job_matches M description (lower status)) (first_n n js) = Inr required"
      and j: "latest required = Inr j" and l: "l = (if truthy j then [PBool True, j] else [PBool False, PNone])"
      by (auto split: sum.splits)
    note j' = latest_Inr [OF j] and req' = filter_res_Inr [OF req]
    have m: "job_matches M description (lower status) j = Inr True" using j' req' by simp
    then have "getattr j ''description'' \<noteq> Inl AttributeError" by (auto simp: job_matches_def)
    then have "truthy j" by (cases j) (auto simp: getattr_def)
    with found [of j] Inr l j' req' m show thesis by simp
  qed (use error in blast)
qed

text \<open>
  \<open>check_recent_job\<close> with a description reports the newest: a result says True with a
  job among the looked-at ones, whose description matches and whose status is the wanted
  one, no such job being newer. It never reports that there is none: then it raises
  ValueError.
\<close>

theorem recent_job_is_newest:
  assumes "description \<noteq> []" and "get_jobs J w = (Inr (PList js), w1)"
  shows "(\<forall>l w'. check_recent_job J M description n status w = (Inr l, w') \<longrightarrow>
      (\<exists>j \<in> set (first_n n js). l = [PBool True, j] \<and> job_matches M description (lower status) j = Inr True \<and>
         (\<forall>i \<in> set (first_n n js). job_matches M description (lower status) i = Inr True \<longrightarrow> started_before i j))) \<and>
    ((\<forall>j \<in> set (first_n n js). job_matches M description (lower status) j = Inr False) \<longrightarrow>
      check_recent_job J M description n status w = (Inl ValueError, w1))"
proof (intro conjI allI impI)
  fix l w'
  assume "check_recent_job J M description n status w = (Inr l, w')"
  from check_recent_job_cases [OF assms this]
  show "\<exists>j \<in> set (first_n n js). l = [PBool True, j] \<and> job_matches M description (lower status) j = Inr True \<and>
         (\<forall>i \<in> set (first_n n js). job_matches M description (lower status) i = Inr True \<longrightarrow> started_before i j)"
    by cases auto
next
  assume none: "\<forall>j \<in> set (first_n n js). job_matches M description (lower status) j = Inr False"
  from filter_res_none [OF none] assms show "check_recent_job J M description n status w = (Inl ValueError, w1)"
    by (simp add: check_recent_job_def comp_simps latest_Nil)
qed

text \<open>
  \<open>add_step\<close> reaches no status but the first: if no job that matches the description
  is started, it raises ValueError, whatever jobs in the other statuses it means to search.
\<close>

theorem add_step_needs_started_job:
  assumes "job_description \<noteq> []" and "get_jobs J w = (Inr (PList js), w1)"
    and "\<forall>j \<in> set js. job_matches M job_description job_started j = Inr False"
  shows "add_step J S M job_description step_description ty st parent w = (Inl ValueError, w1)"
proof -
  have "lower job_started = job_started" by code_simp
  with filter_res_none [OF assms(3)] have "check_recent_job J M job_description None job_started w = (Inl ValueError, w1)"
    using assms by (simp add: check_recent_job_def comp_simps latest_Nil first_n_def)
  then show ?thesis by (simp add: add_step_def bindE_def)
qed

section \<open>Waiting moves on\<close>

lemma active_jobs_move_on: "moves_on clk (srv J) \<Longrightarrow> never_back (server_time clk) (get_active_jobs J M ds)"
  unfolding get_active_jobs_def get_jobs_def by (intro never_back_intros rest_get_moves_on)

lemma log_times_moves_on: "moves_on clk (srv J) \<Longrightarrow> never_back (server_time clk) (log_times J M ds)"
  unfolding log_times_def get_job_object_def get_jobs_def
  by (intro never_back_intros rest_get_moves_on) (auto split: option.split intro!: never_back_intros)

section \<open>What the wait tells\<close>

text \<open>A job that \<open>get_active_jobs\<close> is after: started, and described if descriptions are given.\<close>

definition active_job :: "(string \<Rightarrow> string \<Rightarrow> bool) \<Rightarrow> string list \<Rightarrow> pyval \<Rightarrow> bool" where
  "active_job M ds j \<longleftrightarrow> getattr j ''status'' = Inr (PStr job_started) \<and>
     (ds \<noteq> [] \<longrightarrow> (\<exists>d \<in> set ds. \<exists>x. getattr j ''description'' = Inr (PStr x) \<and> M d x))"

lemma relevant_jobs_Nil:
  "relevant_jobs M ds jobs = Inr [] \<Longrightarrow> j \<in> set jobs \<Longrightarrow> d \<in> set ds \<Longrightarrow>
     \<not> (\<exists>x. getattr j ''description'' = Inr (PStr x) \<and> M d x)"
proof (induction ds)
  case (Cons e ds)
  then have "find_res (\<lambda>j. case getattr j ''description'' of Inl e \<Rightarrow> Inl e | Inr x \<Rightarrow> re_match M e x) jobs = Inr None"
    and rest: "relevant_jobs M ds jobs = Inr []"
    by (auto split: sum.splits option.splits)
  from find_res_None [OF this(1) Cons.prems(2)] have "\<not> (\<exists>x. getattr j ''description'' = Inr (PStr x) \<and> M e x)"
    by (auto simp: re_match_def)
  with Cons.IH [OF rest Cons.prems(2)] Cons.prems(3) show ?case by auto
qed simp

lemma active_of_Nil:
  assumes "active_of M ds x = Inr []"
  shows "x \<noteq> PNone \<and> (\<exists>js. py_iter x = Inr js \<and> (\<forall>j \<in> set js. \<not> active_job M ds j))"
proof -
  let ?p = "\<lambda>j. case getattr j ''status'' of Inl e \<Rightarrow> Inl e | Inr st \<Rightarrow> Inr (st = PStr job_started)"
  from assms obtain js act where x: "x \<noteq> PNone" "py_iter x = Inr js" "filter_res ?p js = Inr act"
    and act: "(if ds \<noteq> [] then relevant_jobs M ds act else Inr act) = Inr []"
    by (auto simp: active_of_def split: sum.splits if_splits)
  have "\<not> active_job M ds j" if "j \<in> set js" for j
  proof
    assume a: "active_job M ds j"
    then have "j \<in> set act" using that filter_res_Inr [OF x(3)] by (simp add: active_job_def)
    then show False
      using act a relevant_jobs_Nil [of M ds act j] by (auto simp: active_job_def split: if_splits)
  qed
  with x show ?thesis by blast
qed

text \<open>
  C14. \<open>wait_for_jobs\<close> comes back and tells the truth: it returns only after the engine
  answered with a list that holds no active job it was asked about (a failed request is no
  such answer), and otherwise raises an error of a request, of the logging of times, or
  APITimeout past the deadline.
\<close>

theorem wait_for_jobs_verdict:
  fixes T :: "'w rest_st os_time"
  assumes "clock_laws T (server_time clk)" and "moves_on clk (srv J)" and "0 < s"
  shows "\<exists>r w'. wait_for_jobs T J M ds t s exec_time w = Some (r, w') \<and>
    (case r of
       Inr u \<Rightarrow> \<exists>v v' x js. get_jobs J v = (Inr x, v') \<and> x \<noteq> PNone \<and> py_iter x = Inr js \<and> (\<forall>j \<in> set js. \<not> active_job M ds j)
     | Inl e \<Rightarrow> (\<exists>v. fst (get_active_jobs J M ds v) = Inl e) \<or> (\<exists>v. fst (log_times J M ds v) = Inl e) \<or>
         e = APITimeout \<and> server_time clk w + t < server_time clk w')"
proof -
  let ?body = "\<lambda>jobs. if jobs = [] then bindE (if exec_time then log_times J M ds else ret ()) (\<lambda>_. ret (Some ())) else ret None"
  let ?f = "get_active_jobs J M ds" and ?s = "API_TimeoutingSampler t s"
  let ?V = "\<lambda>r t1 w'. case r of
       Inr u \<Rightarrow> \<exists>v v' x js. get_jobs J v = (Inr x, v') \<and> x \<noteq> PNone \<and> py_iter x = Inr js \<and> (\<forall>j \<in> set js. \<not> active_job M ds j)
     | Inl e \<Rightarrow> (\<exists>v. fst (?f v) = Inl e) \<or> (\<exists>v. fst (log_times J M ds v) = Inl e) \<or> e = APITimeout \<and> t1 < server_time clk w'"
  have body: "never_back (server_time clk) (?body jobs)" for jobs
    by (intro never_back_intros log_times_moves_on assms(2))
  have fields: "timeout ?s = t" "sleep_interval ?s = s" "start_time ?s = None" "timeout_exc_cls ?s = APITimeout"
    by (simp_all add: API_TimeoutingSampler_def TimeoutingSampler_def)
  have "\<exists>res. for_sample T ?f ?body ?s w = Some res"
    by (rule for_sample_ends [OF assms(1) active_jobs_move_on [OF assms(2)] body]) (simp add: fields assms(3))
  then obtain r s' w' where loop: "for_sample T ?f ?body ?s w = Some (r, s', w')" by (metis prod_cases3)
  obtain t0 w1 where now: "os_now T w = (t0, w1)" by fastforce
  then have "sample_loop T ?f ?body (?s\<lparr>start_time := Some t0\<rparr>) w1 = Some (r, s', w')"
    using loop by (simp add: for_sample_def begin_iteration_def fields)
  moreover have "start_time (?s\<lparr>start_time := Some t0\<rparr>) = Some t0 \<and> timeout (?s\<lparr>start_time := Some t0\<rparr>) = t \<and>
      timeout_exc_cls (?s\<lparr>start_time := Some t0\<rparr>) = APITimeout"
    by (simp add: fields)
  ultimately have "?V r (t0 + t) w'"
  proof (induction rule: sample_loop_rule)
    case (sample_raises s w e s1 w1)
    then obtain v where "?f v = (Inl e, w1)" by (auto simp: take_sample_def split: prod.splits)
    then have "fst (?f v) = Inl e" by simp
    then show ?case by auto
  next
    case (body_raises s w x s1 w1 e w2)
    then show ?case by (auto simp: bindE_def ret_def split: if_splits prod.splits sum.splits) (metis fst_conv)+
  next
    case (leaves s w x s1 w1 r w2)
    then have x: "x = []" by (simp add: ret_def split: if_splits)
    from leaves(1) obtain v where "?f v = (Inr x, w1)" by (auto simp: take_sample_def split: prod.splits)
    then obtain y v' where "get_jobs J v = (Inr y, v')" "active_of M ds y = Inr x"
      unfolding get_active_jobs_def by (auto simp: lift_res_def elim!: bindE_InrE)
    with active_of_Nil [of M ds y] x show ?case by auto
  next
    case (expires s w x s1 w1 w2 e w3)
    then show ?case
      using after_yield_expires [OF assms(1) _ expires(3), of t0] take_sample_fields [OF expires(1)] by simp
  next
    case (goes_on s w x s1 w1 w2 w3 r s' w')
    then show ?case using take_sample_fields [OF goes_on(1)] by simp
  qed
  moreover have "wait_for_jobs T J M ds t s exec_time w = Some (r, w')"
    using loop by (simp add: wait_for_jobs_def)
  ultimately show ?thesis using os_now_bounds [OF assms(1) now] by (fastforce split: sum.splits)
qed

section \<open>Witnesses\<close>

definition engine_job :: "string \<Rightarrow> string \<Rightarrow> int \<Rightarrow> pyval" where
  "engine_job d st t = PObj ''Job'' [(''description'', PStr d), (''status'', PStr st), (''start_time'', PInt t), (''last_updated'', PInt (t + 1))]"

definition engine_jobs :: "pyval list" where
  "engine_jobs = [engine_job ''Adding VM a'' ''finished'' 5, engine_job ''Adding VM b'' ''finished'' 9, engine_job ''Removing VM'' ''failed'' 7]"

definition job_rest :: "nat rest_env" where
  "job_rest = demo_rest\<lparr>element_name := ''job'', parse := (\<lambda>s. Inr (PObj ''Jobs'' [(''job'', PList engine_jobs)]))\<rparr>"

lemma demo_get_jobs: "get_jobs job_rest demo_rest_st = (Inr (PList engine_jobs), snd (get_jobs job_rest demo_rest_st))"
  by code_simp

definition demo_re :: "string \<Rightarrow> string \<Rightarrow> bool" where
  "demo_re pat s = startswith s pat"

lemma demo_recent:
  "check_recent_job job_rest demo_re ''Adding'' None ''FINISHED'' demo_rest_st =
     (Inr [PBool True, engine_jobs ! 1], snd (check_recent_job job_rest demo_re ''Adding'' None ''FINISHED'' demo_rest_st))"
  by code_simp

theorem recent_job_is_newest_witness:
  "started_before (engine_jobs ! 0) (engine_jobs ! 1)"
proof -
  have "job_matches demo_re ''Adding'' (lower ''FINISHED'') (engine_jobs ! 0) = Inr True" by code_simp
  moreover have "engine_jobs ! 0 \<in> set (first_n None engine_jobs)" by (simp add: first_n_def engine_jobs_def)
  moreover have "\<exists>j \<in> set (first_n None engine_jobs). [PBool True, engine_jobs ! 1] = [PBool True, j] \<and>
      job_matches demo_re ''Adding'' (lower ''FINISHED'') j = Inr True \<and>
      (\<forall>i \<in> set (first_n None engine_jobs). job_matches demo_re ''Adding'' (lower ''FINISHED'') i = Inr True \<longrightarrow> started_before i j)"
    using recent_job_is_newest [OF _ demo_get_jobs, of "''Adding''" demo_re None "''FINISHED''"] demo_recent by blast
  ultimately show ?thesis by auto
qed

theorem add_step_needs_started_job_witness:
  "fst (add_step job_rest job_rest demo_re ''Adding'' ''step'' ''EXECUTING'' ''STARTED'' [] demo_rest_st) = Inl ValueError"
proof -
  have "\<forall>j \<in> set engine_jobs. job_matches demo_re ''Adding'' job_started j = Inr False" by code_simp
  from add_step_needs_started_job [OF _ demo_get_jobs this] show ?thesis by simp
qed

theorem wait_for_jobs_verdict_witness:
  "\<exists>r. wait_for_jobs demo_clock job_rest demo_re [''Adding''] 30 5 True demo_rest_st = Some r"
proof -
  have "moves_on int (srv job_rest)"
    by (simp add: moves_on_def job_rest_def demo_rest_def demo_srv_def)
  from wait_for_jobs_verdict [OF demo_clock_laws this, of 5 demo_re "[''Adding'']" 30 True demo_rest_st]
  show ?thesis by auto
qed

end
