(* ===== verification/Settings.thy ===== *)
theory Settings
  imports Pyval
begin

text \<open>
  \<open>art/test_handler/settings.py\<close>: the configuration as nested mappings, its deep merge, the
  parameters of the command line and the runtime configuration made of them. Reading and
  rendering the YAML files (third-party packages), the check that a file exists and the
  \<open>%\<close> formatting of the URI are parameters.
\<close>

section \<open>Configurations\<close>

text \<open>What YAML gives: scalars, sequences and mappings, the latter in iteration order.\<close>

datatype conf = Leaf pyval | Seq "conf list" | Node "(string \<times> conf) list"

fun is_node :: "conf \<Rightarrow> bool" where
  "is_node (Node d) = True"
| "is_node c = False"

text \<open>
  \<open>update_dict\<close> merges into \<open>master\<close>, which a nested call may find to be no mapping: then
  there is no \<open>get\<close> to call, or no item to assign.
\<close>

function update_dict :: "conf \<Rightarrow> (string \<times> conf) list \<Rightarrow> exn + conf" where
  "update_dict m [] = Inr m"
| "update_dict m ((k, v) # u) =
     (case m of
        Node d \<Rightarrow>
          (case v of
             Node vd \<Rightarrow>
               (case update_dict (case map_of d k of None \<Rightarrow> Node [] | Some c \<Rightarrow> c) vd of
                  Inl e \<Rightarrow> Inl e
                | Inr r \<Rightarrow> update_dict (Node (dict_set d k r)) u)
           | _ \<Rightarrow> update_dict (Node (dict_set d k v)) u)
      | _ \<Rightarrow> Inl (if is_node v then AttributeError else TypeError))"
  by pat_completeness auto
termination
  by (relation "measure (\<lambda>(m, u). size_list (size_prod (\<lambda>_. 0) size) u)") auto

definition update_conf :: "conf \<Rightarrow> conf \<Rightarrow> exn + conf" where
  "update_conf m c = (case c of Node u \<Rightarrow> update_dict m u | _ \<Rightarrow> Inl AttributeError)"

section \<open>The command line\<close>

definition list_vars :: "string list" where
  "list_vars = [''engines'', ''storages'']"

text \<open>\<open>param.split('=', 1)\<close>.\<close>

definition split_once :: "string \<Rightarrow> (string \<times> string) option" where
  "split_once s =
     (if CHR ''='' \<in> set s
      then Some (takeWhile (\<lambda>c. c \<noteq> CHR ''='') s, tl (dropWhile (\<lambda>c. c \<noteq> CHR ''='') s)) else None)"

definition cmd_line_param :: "string \<Rightarrow> exn + string \<times> string \<times> conf" where
  "cmd_line_param param =
     (case split_once param of
        None \<Rightarrow> Inl PyException
      | Some (key, val) \<Rightarrow>
          (case split_on key ''.'' of
             [sect, var] \<Rightarrow>
               Inr (sect, var, if var \<in> set list_vars then Seq (map (\<lambda>x. Leaf (PStr x)) (split_on val '','')) else Leaf (PStr val))
           | _ \<Rightarrow> Inl ValueError))"

fun set_cmd_line_params :: "string list \<Rightarrow> conf \<Rightarrow> exn + conf" where
  "set_cmd_line_params [] acc = Inr acc"
| "set_cmd_line_params (param # params) acc =
     (case cmd_line_param param of
        Inl e \<Rightarrow> Inl e
      | Inr (sect, var, val) \<Rightarrow>
          (case update_dict acc [(sect, Node [(var, val)])] of
             Inl e \<Rightarrow> Inl e
           | Inr acc' \<Rightarrow> set_cmd_line_params params acc'))"

definition set_cmd_line_params_in_dict :: "string list \<Rightarrow> exn + conf" where
  "set_cmd_line_params_in_dict cmd_line = set_cmd_line_params cmd_line (Node [])"

section \<open>The runtime configuration\<close>

definition none :: conf where
  "none = Leaf PNone"

text \<open>\<open>c.get(k)\<close>, \<open>c[k]\<close>, \<open>c[0]\<close>, iteration and assignment of an item.\<close>

definition conf_get :: "conf \<Rightarrow> string \<Rightarrow> exn + conf" where
  "conf_get c k = (case c of Node d \<Rightarrow> Inr (case map_of d k of None \<Rightarrow> none | Some x \<Rightarrow> x) | _ \<Rightarrow> Inl AttributeError)"

definition conf_item :: "conf \<Rightarrow> string \<Rightarrow> exn + conf" where
  "conf_item c k =
     (case c of Node d \<Rightarrow> (case map_of d k of None \<Rightarrow> Inl KeyError | Some x \<Rightarrow> Inr x) | _ \<Rightarrow> Inl TypeError)"

definition conf_first :: "conf \<Rightarrow> exn + conf" where
  "conf_first c =
     (case c of
        Seq (x # xs) \<Rightarrow> Inr x
      | Seq [] \<Rightarrow> Inl IndexError
      | Node d \<Rightarrow> Inl KeyError
      | Leaf (PStr (x # xs)) \<Rightarrow> Inr (Leaf (PStr [x]))
      | Leaf (PStr []) \<Rightarrow> Inl IndexError
      | Leaf v \<Rightarrow> Inl TypeError)"

definition conf_iter :: "conf \<Rightarrow> exn + conf list" where
  "conf_iter c =
     (case c of
        Seq l \<Rightarrow> Inr l
      | Node d \<Rightarrow> Inr (map (\<lambda>(k, _). Leaf (PStr k)) d)
      | Leaf (PStr s) \<Rightarrow> Inr (map (\<lambda>x. Leaf (PStr [x])) s)
      | Leaf v \<Rightarrow> Inl TypeError)"

definition set_item :: "conf \<Rightarrow> string \<Rightarrow> conf \<Rightarrow> exn + conf" where
  "set_item c k v = (case c of Node d \<Rightarrow> Inr (Node (dict_set d k v)) | _ \<Rightarrow> Inl TypeError)"

definition set_item2 :: "conf \<Rightarrow> string \<Rightarrow> string \<Rightarrow> conf \<Rightarrow> exn + conf" where
  "set_item2 c a b v =
     (case conf_item c a of Inl e \<Rightarrow> Inl e | Inr x \<Rightarrow>
      case set_item x b v of Inl e \<Rightarrow> Inl e | Inr y \<Rightarrow> set_item c a y)"

definition conf_truthy :: "conf \<Rightarrow> bool" where
  "conf_truthy c = (case c of Leaf v \<Rightarrow> truthy v | Seq l \<Rightarrow> l \<noteq> [] | Node d \<Rightarrow> d \<noteq> [])"

definition conf_replace :: "conf \<Rightarrow> string \<Rightarrow> string \<Rightarrow> exn + conf" where
  "conf_replace c a b = (case c of Leaf (PStr s) \<Rightarrow> Inr (Leaf (PStr (replace s a b))) | _ \<Rightarrow> Inl AttributeError)"

text \<open>The two global dictionaries.\<close>

record config_st =
  ART_CONFIG :: conf
  GE :: conf

record conf_env =
  path_exists :: "conf \<Rightarrow> bool"
  generate_ge :: "conf \<Rightarrow> exn + conf"
  format_with :: "conf \<Rightarrow> conf \<Rightarrow> exn + conf"

definition get_ge_yaml :: "conf_env \<Rightarrow> conf \<Rightarrow> exn + conf" where
  "get_ge_yaml F cmd_line =
     (case conf_get cmd_line ''RUN'' of Inl e \<Rightarrow> Inl e | Inr r \<Rightarrow>
      case conf_get r ''golden_environment'' of Inl e \<Rightarrow> Inl e | Inr y \<Rightarrow>
      if path_exists F y then Inr y else Inl AssertionError)"

fun collect_hosts :: "conf list \<Rightarrow> conf list \<Rightarrow> conf list \<Rightarrow> exn + conf list \<times> conf list" where
  "collect_hosts [] vds pws = Inr (vds, pws)"
| "collect_hosts (h # hs) vds pws =
     (case conf_get h ''password'' of Inl e \<Rightarrow> Inl e | Inr p \<Rightarrow>
      case conf_get h ''address'' of Inl e \<Rightarrow> Inl e | Inr a \<Rightarrow> collect_hosts hs (vds @ [a]) (pws @ [p]))"

definition get_vds_n_passwords :: "(config_st, conf list \<times> conf list) comp" where
  "get_vds_n_passwords =
     bindE (gets GE) (\<lambda>ge.
     bindE (lift_res (conf_item ge ''hosts'')) (\<lambda>h.
     bindE (lift_res (conf_iter h)) (\<lambda>hs. lift_res (collect_hosts hs [] []))))"

definition set_art :: "string \<Rightarrow> string \<Rightarrow> conf \<Rightarrow> (config_st, unit) comp" where
  "set_art sect var v =
     bindE (gets ART_CONFIG) (\<lambda>c.
     bindE (lift_res (set_item2 c sect var v)) (\<lambda>c'. modify (\<lambda>s. s\<lparr>ART_CONFIG := c'\<rparr>)))"

definition art_item :: "string \<Rightarrow> string \<Rightarrow> (config_st, conf) comp" where
  "art_item sect var =
     bindE (gets ART_CONFIG) (\<lambda>c.
     bindE (lift_res (conf_item c sect)) (\<lambda>s. lift_res (conf_item s var)))"

definition ge_item :: "string \<Rightarrow> (config_st, conf) comp" where
  "ge_item k = bindE (gets GE) (\<lambda>g. lift_res (conf_item g k))"

text \<open>\<open>d.update(c)\<close> is shallow: a section replaces the one before.\<close>

definition shallow_update :: "conf \<Rightarrow> conf \<Rightarrow> exn + conf" where
  "shallow_update d c =
     (case (d, c) of (Node x, Node y) \<Rightarrow> Inr (Node (dict_update x y)) | _ \<Rightarrow> Inl TypeError)"

definition set_mac_ranges :: "(config_st, unit) comp" where
  "set_mac_ranges =
     bindE (gets GE) (\<lambda>g.
     bindE (lift_res (conf_get g ''mac_pools'')) (\<lambda>pools.
     bindE (lift_res (conf_first pools)) (\<lambda>pool.
     bindE (lift_res (conf_get pool ''mac_pool_ranges'')) (\<lambda>ranges.
     bindE (lift_res (conf_first ranges)) (\<lambda>r.
     bindE (lift_res (conf_replace r '','' ''-'')) (\<lambda>v.
     bindE (lift_res (set_item g ''mac_ranges'' v)) (\<lambda>g'. modify (\<lambda>s. s\<lparr>GE := g'\<rparr>))))))))"

text \<open>
  The two halves of \<open>create_runtime_config\<close>: the merge of the defaults and the command line,
  and what the description of the environment fills in.
\<close>

definition merge_config :: "conf_env \<Rightarrow> conf \<Rightarrow> string list \<Rightarrow> (config_st, conf) comp" where
  "merge_config F defaults art_define_args =
     bindE (lift_res (update_conf (Node []) defaults)) (\<lambda>context.
     bindE (lift_res (set_cmd_line_params_in_dict art_define_args)) (\<lambda>cmd_line.
     bindE (lift_res (get_ge_yaml F cmd_line)) (\<lambda>ge_yaml.
     bindE (lift_res (update_conf context cmd_line)) (\<lambda>context'.
     bindE (gets ART_CONFIG) (\<lambda>c.
     bindE (lift_res (shallow_update c context')) (\<lambda>c'.
     bindE (modify (\<lambda>s. s\<lparr>ART_CONFIG := c'\<rparr>)) (\<lambda>_. ret ge_yaml)))))))"

definition fix_uri :: "conf_env \<Rightarrow> (config_st, unit) comp" where
  "fix_uri F =
     bindE (art_item ''REST_CONNECTION'' ''uri'') (\<lambda>uri.
     bindE (gets ART_CONFIG) (\<lambda>c.
     bindE (lift_res (conf_item c ''REST_CONNECTION'')) (\<lambda>conn.
     bindE (lift_res (format_with F uri conn)) (\<lambda>uri'.
     bindE (set_art ''REST_CONNECTION'' ''uri'' uri') (\<lambda>_.
     bindE (art_item ''REST_CONNECTION'' ''urisuffix'') (\<lambda>suffix.
     if conf_truthy suffix then ret ()
     else
       bindE (art_item ''REST_CONNECTION'' ''uri'') (\<lambda>u.
       bindE (lift_res (conf_replace u ''None'' [])) (\<lambda>u'. set_art ''REST_CONNECTION'' ''uri'' u'))))))))"

definition fill_config :: "conf_env \<Rightarrow> conf \<Rightarrow> (config_st, unit) comp" where
  "fill_config F ge_yaml =
     bindE (lift_res (generate_ge F ge_yaml)) (\<lambda>desc.
     bindE (gets GE) (\<lambda>g.
     bindE (lift_res (shallow_update g desc)) (\<lambda>g'.
     bindE (modify (\<lambda>s. s\<lparr>GE := g'\<rparr>)) (\<lambda>_.
     bindE (ge_item ''product'') (\<lambda>x. bindE (set_art ''DEFAULT'' ''PRODUCT'' x) (\<lambda>_.
     bindE (ge_item ''version'') (\<lambda>x. bindE (set_art ''DEFAULT'' ''VERSION'' x) (\<lambda>_.
     bindE (ge_item ''engine_fqdn'') (\<lambda>x. bindE (set_art ''REST_CONNECTION'' ''host'' x) (\<lambda>_.
     bindE (fix_uri F) (\<lambda>_.
     bindE get_vds_n_passwords (\<lambda>(vds, pws).
     bindE (set_art ''PARAMETERS'' ''vds'' (Seq vds)) (\<lambda>_.
     bindE (set_art ''PARAMETERS'' ''vds_password'' (Seq pws)) (\<lambda>_.
     set_mac_ranges))))))))))))))"

definition create_runtime_config :: "conf_env \<Rightarrow> conf \<Rightarrow> string list \<Rightarrow> (config_st, unit) comp" where
  "create_runtime_config F defaults art_define_args =
     bindE (merge_config F defaults art_define_args) (fill_config F)"

section \<open>The merge by paths\<close>

fun conf_at :: "conf \<Rightarrow> string list \<Rightarrow> conf option" where
  "conf_at c [] = Some c"
| "conf_at c (k # p) = (case c of Node d \<Rightarrow> Option.bind (map_of d k) (\<lambda>x. conf_at x p) | _ \<Rightarrow> None)"

text \<open>The value at a path that ends in no mapping.\<close>

definition value_at :: "conf \<Rightarrow> string list \<Rightarrow> conf option" where
  "value_at c p = (case conf_at c p of Some x \<Rightarrow> if is_node x then None else Some x | None \<Rightarrow> None)"

text \<open>Some proper prefix of the path is a value.\<close>

fun cut_off :: "conf \<Rightarrow> string list \<Rightarrow> bool" where
  "cut_off c [] = False"
| "cut_off c (k # p) =
     (case c of Node d \<Rightarrow> (case map_of d k of None \<Rightarrow> False | Some x \<Rightarrow> \<not> is_node x \<and> p \<noteq> [] \<or> cut_off x p) | _ \<Rightarrow> False)"

text \<open>A mapping has distinct keys, at every depth.\<close>

function wf_conf :: "conf \<Rightarrow> bool" where
  "wf_conf (Leaf v) = True"
| "wf_conf (Seq l) = True"
| "wf_conf (Node d) = (distinct (map fst d) \<and> (\<forall>(k, c) \<in> set d. wf_conf c))"
  by pat_completeness auto
termination
  by (relation "measure size")
    (auto dest!: size_list_estimation' [where f = "size_prod (\<lambda>_. 0) size", OF _ order_refl] simp: less_Suc_eq_le)

lemma value_at_Cons: "value_at (Node d) (k # p) = (case map_of d k of None \<Rightarrow> None | Some x \<Rightarrow> value_at x p)"
  by (simp add: value_at_def split: option.split)

lemma value_at_Nil: "value_at c [] = (if is_node c then None else Some c)"
  by (simp add: value_at_def)

lemma value_at_no_node: "\<not> is_node c \<Longrightarrow> value_at c (k # p) = None"
  by (cases c) (simp_all add: value_at_def)

lemma value_at_empty: "value_at (Node []) p = None"
  by (cases p) (simp_all add: value_at_Nil value_at_Cons)

definition merged_at :: "conf \<Rightarrow> conf \<Rightarrow> string list \<Rightarrow> conf option" where
  "merged_at m c p =
     (case value_at c p of Some x \<Rightarrow> Some x | None \<Rightarrow> if cut_off c p then None else value_at m p)"

lemma merged_at_skip: "map_of u k = None \<Longrightarrow> merged_at m (Node u) (k # q) = value_at m (k # q)"
  by (simp add: merged_at_def value_at_Cons)

lemma merged_at_node: "merged_at (Node d) (Node ((k, Node vd) # u)) (k # q) =
    merged_at (case map_of d k of None \<Rightarrow> Node [] | Some c \<Rightarrow> c) (Node vd) q"
  by (simp add: merged_at_def value_at_Cons value_at_empty split: option.split)

lemma merged_at_value: "\<not> is_node v \<Longrightarrow> merged_at m (Node ((k, v) # u)) (k # q) = value_at v q"
  by (cases q) (simp_all add: merged_at_def value_at_Cons value_at_Nil value_at_no_node)

lemma merged_at_other:
  "j \<noteq> k \<Longrightarrow> merged_at (Node (dict_set d k r)) (Node u) (j # q) = merged_at (Node d) (Node ((k, v) # u)) (j # q)"
  by (simp add: merged_at_def value_at_Cons split: option.split)

lemma update_dict_merges:
  assumes "wf_conf (Node u)" and "update_dict m u = Inr m'"
  shows "value_at m' p = merged_at m (Node u) p"
  using assms
proof (induction m u arbitrary: m' p rule: update_dict.induct)
  case (1 m)
  then show ?case by (cases p) (simp_all add: merged_at_def value_at_Nil value_at_Cons)
next
  case (2 m k v u)
  from "2.prems"(2) obtain d where m: "m = Node d" by (cases m) auto
  have wf: "wf_conf v" "wf_conf (Node u)" and fresh: "map_of u k = None"
    using "2.prems"(1) by (auto simp: map_of_eq_None_iff)
  obtain x where x: "update_dict (Node (dict_set d k x)) u = Inr m'"
    and val: "value_at x q = merged_at m (Node ((k, v) # u)) (k # q)"
    and rest: "value_at m' p = merged_at (Node (dict_set d k x)) (Node u) p" for q p
  proof (cases "is_node v")
    case True
    then obtain vd where v: "v = Node vd" by (cases v) auto
    with "2.prems"(2) m obtain r where
      r: "update_dict (case map_of d k of None \<Rightarrow> Node [] | Some c \<Rightarrow> c) vd = Inr r"
      and rest: "update_dict (Node (dict_set d k r)) u = Inr m'" by (auto split: sum.splits)
    have "wf_conf (Node vd)" using wf v by simp
    note sub = "2.IH"(3) [OF m v this r] and tail = "2.IH"(4) [OF m v r wf(2) rest]
    have "value_at r q = merged_at m (Node ((k, v) # u)) (k # q)" for q
      using sub [of q] by (simp only: v m merged_at_node)
    then show thesis using that rest tail by blast
  next
    case False
    then have rest: "update_dict (Node (dict_set d k v)) u = Inr m'"
      using "2.prems"(2) m by (cases v) auto
    have tail: "value_at m' p = merged_at (Node (dict_set d k v)) (Node u) p" for p
    proof (cases v)
      case (Leaf y)
      show ?thesis using "2.IH"(1) [OF m Leaf wf(2)] rest by simp
    next
      case (Seq y)
      show ?thesis using "2.IH"(2) [OF m Seq wf(2)] rest by simp
    next
      case (Node y)
      with False show ?thesis by simp
    qed
    have "value_at v q = merged_at m (Node ((k, v) # u)) (k # q)" for q
      using merged_at_value [OF False] by simp
    then show thesis using that rest tail by blast
  qed
  show ?case
  proof (cases p)
    case Nil
    then show ?thesis using rest [of "[]"] m by (simp add: merged_at_def value_at_Nil)
  next
    case (Cons j q)
    show ?thesis
    proof (cases "j = k")
      case True
      then show ?thesis using rest [of p] val Cons fresh
        by (simp add: merged_at_skip) (simp add: value_at_Cons)
    next
      case False
      then show ?thesis using rest [of p] Cons m merged_at_other by simp
    qed
  qed
qed

text \<open>
  C15. The merge by paths: the merged configuration has at every path the value of the
  update if it has one there; the value of the master if the update has neither a value
  there nor one on the way to it; and no value otherwise.
\<close>

theorem update_dict_by_paths:
  assumes "wf_conf (Node u)" and "update_dict m u = Inr m'"
  shows "value_at m' p =
    (case value_at (Node u) p of
       Some x \<Rightarrow> Some x
     | None \<Rightarrow> if cut_off (Node u) p then None else value_at m p)"
  using update_dict_merges [OF assms] by (simp add: merged_at_def)

section \<open>The merge keeps mappings\<close>

lemma wf_conf_dict_set: "wf_conf (Node d) \<Longrightarrow> wf_conf c \<Longrightarrow> wf_conf (Node (dict_set d k c))"
proof (induction d k c rule: dict_set.induct)
  case (2 k' v' d k v)
  have "k' \<in> set (map fst (dict_set d k v)) \<longleftrightarrow> k' = k \<or> k' \<in> set (map fst d)"
    using keys_dict_set [of d k v] by (auto simp: dict_keys_def)
  with 2 show ?case by auto
qed simp

lemma wf_conf_map_of: "wf_conf (Node d) \<Longrightarrow> map_of d k = Some c \<Longrightarrow> wf_conf c"
  by (auto dest: map_of_SomeD)

lemma update_dict_wf:
  assumes "wf_conf m" and "wf_conf (Node u)" and "update_dict m u = Inr m'"
  shows "wf_conf m' \<and> is_node m' = is_node m"
  using assms
proof (induction m u arbitrary: m' rule: update_dict.induct)
  case (2 m k v u)
  from "2.prems"(3) obtain d where m: "m = Node d" by (cases m) auto
  have wf: "wf_conf v" "wf_conf (Node u)" using "2.prems"(2) by auto
  show ?case
  proof (cases v)
    case (Node vd)
    with "2.prems"(3) m obtain r where
      r: "update_dict (case map_of d k of None \<Rightarrow> Node [] | Some c \<Rightarrow> c) vd = Inr r"
      and rest: "update_dict (Node (dict_set d k r)) u = Inr m'" by (auto split: sum.splits)
    have "wf_conf (case map_of d k of None \<Rightarrow> Node [] | Some c \<Rightarrow> c)"
      using "2.prems"(1) m wf_conf_map_of by (auto split: option.split)
    with "2.IH"(3) [OF m Node _ _ r] wf Node have "wf_conf r" by blast
    then have "wf_conf (Node (dict_set d k r))" using "2.prems"(1) m wf_conf_dict_set by blast
    from "2.IH"(4) [OF m Node r this wf(2) rest] m show ?thesis by simp
  next
    case (Leaf x)
    then have "update_dict (Node (dict_set d k v)) u = Inr m'" using "2.prems"(3) m by simp
    moreover have "wf_conf (Node (dict_set d k v))" using "2.prems"(1) m wf wf_conf_dict_set by blast
    ultimately show ?thesis using "2.IH"(1) [OF m Leaf _ wf(2)] m by simp
  next
    case (Seq x)
    then have "update_dict (Node (dict_set d k v)) u = Inr m'" using "2.prems"(3) m by simp
    moreover have "wf_conf (Node (dict_set d k v))" using "2.prems"(1) m wf wf_conf_dict_set by blast
    ultimately show ?thesis using "2.IH"(2) [OF m Seq _ wf(2)] m by simp
  qed
qed simp

section \<open>The command line wins\<close>

text \<open>The last value that the parameters give to a variable of a section.\<close>

fun last_given :: "string list \<Rightarrow> string \<Rightarrow> string \<Rightarrow> conf option \<Rightarrow> conf option" where
  "last_given [] sect var r = r"
| "last_given (p # ps) sect var r =
     (case cmd_line_param p of
        Inl e \<Rightarrow> None
      | Inr (a, b, val) \<Rightarrow> last_given ps sect var (if (a, b) = (sect, var) then Some val else r))"

lemma cmd_line_param_value: "cmd_line_param p = Inr (a, b, val) \<Longrightarrow> \<not> is_node val \<and> wf_conf val"
  by (auto simp: cmd_line_param_def split: option.splits list.splits if_splits)

lemma set_one_value:
  assumes "\<not> is_node val" and "update_dict acc [(a, Node [(b, val)])] = Inr acc'" and "wf_conf val"
  shows "value_at acc' [sect, var] = (if (a, b) = (sect, var) then Some val else value_at acc [sect, var])"
proof -
  have "wf_conf (Node [(a, Node [(b, val)])])" using assms(3) by simp
  from update_dict_merges [OF this assms(2), of "[sect, var]"] assms(1) show ?thesis
    by (auto simp: merged_at_def value_at_Cons value_at_Nil)
qed

lemma set_cmd_line_params_spec:
  assumes "wf_conf acc" and "set_cmd_line_params params acc = Inr c"
  shows "wf_conf c \<and> is_node c = is_node acc \<and> value_at c [sect, var] = last_given params sect var (value_at acc [sect, var])"
  using assms
proof (induction params arbitrary: acc)
  case (Cons p ps)
  then obtain a b val acc' where p: "cmd_line_param p = Inr (a, b, val)"
    and acc': "update_dict acc [(a, Node [(b, val)])] = Inr acc'" and rest: "set_cmd_line_params ps acc' = Inr c"
    by (auto split: sum.splits)
  note val = cmd_line_param_value [OF p]
  have "wf_conf acc' \<and> is_node acc' = is_node acc"
    by (rule update_dict_wf [OF Cons.prems(1) _ acc']) (use val in simp)
  with Cons.IH [OF _ rest] set_one_value [OF _ acc'] val p show ?case by simp
qed simp

text \<open>The variables that the description of the environment fills in.\<close>

definition filled_in :: "(string \<times> string) list" where
  "filled_in = [(''DEFAULT'', ''PRODUCT''), (''DEFAULT'', ''VERSION''), (''REST_CONNECTION'', ''host''),
     (''REST_CONNECTION'', ''uri''), (''PARAMETERS'', ''vds''), (''PARAMETERS'', ''vds_password'')]"

definition holds_value :: "string \<Rightarrow> string \<Rightarrow> conf \<Rightarrow> config_st \<Rightarrow> bool" where
  "holds_value sect var x s \<longleftrightarrow> value_at (ART_CONFIG s) [sect, var] = Some x"

lemma set_item2_other:
  assumes "set_item2 c a b v = Inr c'" and "(a, b) \<noteq> (sect, var)"
  shows "value_at c' [sect, var] = value_at c [sect, var]"
  using assms
  by (auto simp: set_item2_def conf_item_def set_item_def value_at_Cons split: sum.splits conf.splits option.splits)

lemma preserves_set_art [preserves_intros]:
  assumes "(a, b) \<noteq> (sect, var)"
  shows "preserves (holds_value sect var x) (set_art a b v)"
proof (rule preservesI)
  fix s r s'
  assume "holds_value sect var x s" "set_art a b v s = (r, s')"
  then show "holds_value sect var x s'"
    using set_item2_other [OF _ assms]
    by (auto simp: set_art_def comp_simps holds_value_def split: sum.splits)
qed

lemma preserves_set_GE [preserves_intros]: "preserves (holds_value sect var x) (modify (\<lambda>s. s\<lparr>GE := g\<rparr>))"
  by (simp add: preserves_def modify_def holds_value_def)

lemma preserves_fill_config:
  assumes "(sect, var) \<notin> set filled_in"
  shows "preserves (holds_value sect var x) (fill_config F y)"
  using assms unfolding fill_config_def fix_uri_def get_vds_n_passwords_def art_item_def ge_item_def set_mac_ranges_def
  by (intro preserves_intros) (auto simp: filled_in_def split: prod.split intro!: preserves_intros)

lemma shallow_update_value:
  assumes "shallow_update c c2 = Inr c'" and "wf_conf c2" and "value_at c2 (k # p) = Some x"
  shows "value_at c' (k # p) = Some x"
proof -
  from assms(1) obtain d d2 where d: "c = Node d" "c2 = Node d2" "c' = Node (dict_update d d2)"
    by (auto simp: shallow_update_def split: conf.splits)
  with assms(2) have "map_of (rev d2) = map_of d2" by (simp add: distinct_map_of_rev)
  then show ?thesis
    using assms(3) d by (auto simp: value_at_Cons map_of_dict_update map_add_def split: option.splits)
qed

lemma merge_config_value:
  assumes "merge_config F defaults args s = (Inr y, s')" and "wf_conf defaults" and "last_given args sect var None = Some x"
  shows "holds_value sect var x s'"
proof -
  from assms(1) obtain conf1 cmd conf2 c where
    ctx: "update_conf (Node []) defaults = Inr conf1" and cmd: "set_cmd_line_params args (Node []) = Inr cmd"
    and ctx': "update_conf conf1 cmd = Inr conf2" and c: "shallow_update (ART_CONFIG s) conf2 = Inr c"
    and s': "ART_CONFIG s' = c"
    by (auto simp: merge_config_def set_cmd_line_params_in_dict_def comp_simps split: sum.splits)
  from ctx assms(2) have wf: "wf_conf conf1"
    using update_dict_wf [of "Node []"] by (auto simp: update_conf_def split: conf.splits)
  have val: "wf_conf cmd" "is_node cmd" "value_at cmd [sect, var] = Some x"
    using set_cmd_line_params_spec [OF _ cmd, of sect var] assms(3) by (simp_all add: value_at_empty)
  then obtain u where u: "cmd = Node u" by (cases cmd) auto
  with ctx' have merge: "update_dict conf1 u = Inr conf2" by (simp add: update_conf_def)
  have "value_at conf2 [sect, var] = Some x"
    using update_dict_merges [OF _ merge, of "[sect, var]"] val u by (simp add: merged_at_def)
  moreover have "wf_conf conf2" using update_dict_wf [OF wf _ merge] val u by simp
  ultimately show ?thesis using shallow_update_value [OF c] s' by (simp add: holds_value_def)
qed

text \<open>
  C16. The command line wins: after a runtime configuration was made, every variable that
  the command line gives has the last value given there, over the defaults and what was
  configured before, except the six variables that the description of the environment
  fills in.
\<close>

theorem command_line_wins:
  assumes "create_runtime_config F defaults args s = (Inr (), s')" and "wf_conf defaults"
    and "last_given args sect var None = Some x" and "(sect, var) \<notin> set filled_in"
  shows "value_at (ART_CONFIG s') [sect, var] = Some x"
proof -
  from assms(1) obtain y s1 where "merge_config F defaults args s = (Inr y, s1)" and fill: "fill_config F y s1 = (Inr (), s')"
    unfolding create_runtime_config_def by (rule bindE_InrE)
  then have "holds_value sect var x s1" using merge_config_value assms(2,3) by blast
  with preserves_fill_config [OF assms(4)] fill have "holds_value sect var x s'" by (blast intro: preservesD)
  then show ?thesis by (simp add: holds_value_def)
qed

section \<open>Witnesses\<close>

definition str_conf :: "string \<Rightarrow> conf" where
  "str_conf s = Leaf (PStr s)"

definition demo_defaults :: conf where
  "demo_defaults = Node [(''DEFAULT'', Node [(''LOG'', str_conf ''info'')]), (''PARAMETERS'', Node []),
     (''REST_CONNECTION'', Node [(''uri'', str_conf ''u''), (''urisuffix'', none), (''user'', str_conf ''admin'')])]"

definition demo_ge_conf :: conf where
  "demo_ge_conf = Node [(''product'', str_conf ''rhv''), (''version'', str_conf ''4.1''), (''engine_fqdn'', str_conf ''e''),
     (''hosts'', Seq [Node [(''address'', str_conf ''h1''), (''password'', str_conf ''p'')]]),
     (''mac_pools'', Seq [Node [(''mac_pool_ranges'', Seq [str_conf ''a,b''])]])]"

definition demo_conf_env :: conf_env where
  "demo_conf_env = \<lparr>path_exists = (\<lambda>p. True), generate_ge = (\<lambda>p. Inr demo_ge_conf), format_with = (\<lambda>u c. Inr u)\<rparr>"

definition demo_args :: "string list" where
  "demo_args = [''RUN.golden_environment=ge.yaml'', ''REST_CONNECTION.user=bob'', ''REST_CONNECTION.user=eve'']"

theorem update_dict_by_paths_witness:
  "value_at (case update_dict demo_defaults [(''DEFAULT'', Node [(''LOG'', str_conf ''debug'')])] of Inr c \<Rightarrow> c | Inl e \<Rightarrow> none)
     [''REST_CONNECTION'', ''user''] = Some (str_conf ''admin'')"
proof -
  let ?u = "[(''DEFAULT'', Node [(''LOG'', str_conf ''debug'')])]"
  have "wf_conf (Node ?u)" by (simp add: str_conf_def)
  moreover obtain c where "update_dict demo_defaults ?u = Inr c" by (simp add: demo_defaults_def str_conf_def)
  ultimately show ?thesis using update_dict_by_paths [of ?u demo_defaults c "[''REST_CONNECTION'', ''user'']"]
    by (simp add: value_at_Cons value_at_Nil demo_defaults_def str_conf_def)
qed

lemma demo_runtime_config: "create_runtime_config demo_conf_env demo_defaults demo_args \<lparr>ART_CONFIG = Node [], GE = Node []\<rparr> =
    (Inr (), snd (create_runtime_config demo_conf_env demo_defaults demo_args \<lparr>ART_CONFIG = Node [], GE = Node []\<rparr>))"
  by code_simp

theorem command_line_wins_witness:
  "value_at (ART_CONFIG (snd (create_runtime_config demo_conf_env demo_defaults demo_args \<lparr>ART_CONFIG = Node [], GE = Node []\<rparr>)))
     [''REST_CONNECTION'', ''user''] = Some (str_conf ''eve'')"
proof (rule command_line_wins [OF demo_runtime_config])
  show "wf_conf demo_defaults" by (simp add: demo_defaults_def str_conf_def none_def)
  show "last_given demo_args ''REST_CONNECTION'' ''user'' None = Some (str_conf ''eve'')" by code_simp
qed (simp add: filled_in_def)

end
