(* ===== verification/Test_Utils.thy ===== *)
theory Test_Utils
  imports Rest_Time Settings
begin

text \<open>
  \<open>art/rhevm_api/utils/test_utils.py\<close>: the cache of API objects behind \<open>get_api\<close>, the checks
  of an element's status and of search results, and the waits for tasks, for the engine and
  for objects to go. Outside: the constructor and logout of the REST backend, \<open>re.match\<close>, the
  engine's database, the machines and the clock.
\<close>

section \<open>The cache of API objects\<close>

type_synonym api_key = "string \<times> string \<times> conf"

record ('w, 'a) get_api_st =
  util_cache :: "(api_key, 'a) dict"
  run_settings :: config_st
  outside_st :: 'w

definition on_outside_st :: "('w, 'b) comp \<Rightarrow> (('w, 'a) get_api_st, 'b) comp" where
  "on_outside_st m s = (case m (outside_st s) of (r, w) \<Rightarrow> (r, s\<lparr>outside_st := w\<rparr>))"

definition update_util_cache :: "api_key \<Rightarrow> 'a \<Rightarrow> (('w, 'a) get_api_st, unit) comp" where
  "update_util_cache key a = modify (\<lambda>s. s\<lparr>util_cache := dict_set (util_cache s) key a\<rparr>)"

definition clear_util_cache :: "(('w, 'a) get_api_st, unit) comp" where
  "clear_util_cache = modify (\<lambda>s. s\<lparr>util_cache := []\<rparr>)"

text \<open>
  Any attribute of a \<open>GetApi\<close> object first gets the API object of its element, collection and
  the configured engine. Only the engine \<open>rest\<close> binds one.
\<close>

definition configured_engine :: "config_st \<Rightarrow> exn + conf" where
  "configured_engine c = res_bind (conf_get (ART_CONFIG c) ''RUN'') (\<lambda>run. conf_get run ''engine'')"

definition get_api_object ::
  "(string \<Rightarrow> string \<Rightarrow> ('w, 'a) comp) \<Rightarrow> string \<Rightarrow> string \<Rightarrow> (('w, 'a) get_api_st, 'a) comp" where
  "get_api_object RestUtil element collection =
     bindE (gets (\<lambda>s. configured_engine (run_settings s))) (\<lambda>r.
     bindE (lift_res r) (\<lambda>engine.
     let key = (element, collection, engine) in
     bindE (gets (\<lambda>s. map_of (util_cache s) key)) (\<lambda>cached.
     case cached of
       Some a \<Rightarrow> ret a
     | None \<Rightarrow>
         if engine = Leaf (PStr ''rest'') then
           bindE (on_outside_st (RestUtil element collection)) (\<lambda>a.
           bindE (update_util_cache key a) (\<lambda>_. ret a))
         else raise UnboundLocalError)))"

text \<open>All cached objects are of the one class that is ever constructed.\<close>

definition logoff_api :: "('w, unit) comp \<Rightarrow> (('w, 'a) get_api_st, unit) comp" where
  "logoff_api rest_logout =
     bindE (gets util_cache) (\<lambda>c.
     bindE (if c = [] then ret () else on_outside_st rest_logout) (\<lambda>_. clear_util_cache))"

section \<open>Small parts\<close>

text \<open>\<open>s.replace(',', ' ').split()\<close>.\<close>

definition split :: "string \<Rightarrow> string list" where
  "split s = split_ws (replace s '','' '' '')"

text \<open>\<open>x in c\<close> for a configuration value, and \<open>c.keys()\<close>.\<close>

definition conf_in :: "string \<Rightarrow> conf \<Rightarrow> exn + bool" where
  "conf_in x c =
     (case c of
        Node d \<Rightarrow> Inr (x \<in> set (dict_keys d))
      | Seq l \<Rightarrow> Inr (Leaf (PStr x) \<in> set l)
      | Leaf (PStr s) \<Rightarrow> Inr (contains s x)
      | Leaf v \<Rightarrow> Inl TypeError)"

definition conf_keys :: "conf \<Rightarrow> exn + string list" where
  "conf_keys c = (case c of Node d \<Rightarrow> Inr (dict_keys d) | _ \<Rightarrow> Inl AttributeError)"

definition supported_elements :: "config_st \<Rightarrow> exn + conf" where
  "supported_elements c = res_bind (conf_item (ART_CONFIG c) ''elements_conf'') (\<lambda>x. conf_item x ''elements'')"

text \<open>\<open>v.upper()\<close> and the statuses of a comma-separated list.\<close>

fun upper_of :: "pyval \<Rightarrow> exn + string" where
  "upper_of (PStr s) = Inr (upper s)"
| "upper_of v = Inl AttributeError"

definition expected_statuses :: "string \<Rightarrow> string list" where
  "expected_statuses s = map (\<lambda>x. upper (strip x)) (split_on s '','')"

section \<open>Statistics and status of an element\<close>

text \<open>\<open>stat.get_values().get_value()[0].get_datum()\<close>.\<close>

definition stat_datum :: "pyval \<Rightarrow> exn + pyval" where
  "stat_datum stat =
     res_bind (getattr stat ''values'') (\<lambda>vs.
     res_bind (getattr vs ''value'') (\<lambda>l.
     case l of
       PList (v # _) \<Rightarrow> getattr v ''datum''
     | PList [] \<Rightarrow> Inl IndexError
     | PStr (x # _) \<Rightarrow> getattr (PStr [x]) ''datum''
     | PStr [] \<Rightarrow> Inl IndexError
     | _ \<Rightarrow> Inl TypeError))"

fun collect_stats ::
  "(pyval \<Rightarrow> exn + 'f) \<Rightarrow> pyval list \<Rightarrow> pyval list \<Rightarrow> (pyval, 'f) dict \<Rightarrow> exn + (pyval, 'f) dict" where
  "collect_stats py_float stat_types [] values = Inr values"
| "collect_stats py_float stat_types (stat # stats) values =
     res_bind (getattr stat ''name'') (\<lambda>n.
     if list_ex (\<lambda>t. py_eq n t) stat_types then
       res_bind (stat_datum stat) (\<lambda>d.
       res_bind (py_float d) (\<lambda>x. collect_stats py_float stat_types stats (dict_set values n x)))
     else collect_stats py_float stat_types stats values)"

definition find_named :: "'w rest_env \<Rightarrow> string \<Rightarrow> ('w rest_st, pyval) comp" where
  "find_named E n = rest_find E (PStr n) ''name'' True PNone False []"

definition getStat ::
  "(pyval \<Rightarrow> exn + 'f) \<Rightarrow> 'w rest_env \<Rightarrow> string \<Rightarrow> pyval list \<Rightarrow> ('w rest_st, (pyval, 'f) dict) comp" where
  "getStat py_float E n stat_types =
     bindE (find_named E n) (\<lambda>elm_obj.
     bindE (getElemFromLink E elm_obj ''statistics'' ''statistic'' False False) (\<lambda>v.
     bindE (lift_res (py_iter v)) (\<lambda>stats. lift_res (collect_stats py_float stat_types stats []))))"

text \<open>The object whose status is looked at; \<open>None\<close> when the function has answered False.\<close>

definition status_object ::
  "'w rest_env \<Rightarrow> 'w rest_env \<Rightarrow> string \<Rightarrow> string \<Rightarrow> string option \<Rightarrow> ('w rest_st, pyval option) comp" where
  "status_object E DC element elementName dcName =
     (if lower element = ''storagedomain'' then
        (case dcName of
           None \<Rightarrow> ret None
         | Some dc \<Rightarrow>
             bindE (try_except (bindE (find_named DC dc) (\<lambda>x. ret (Some x))) EntityNotFound (\<lambda>_. ret None)) (\<lambda>d.
             case d of
               None \<Rightarrow> ret None
             | Some dcObj \<Rightarrow>
                 bindE (rest_getElemFromElemColl E dcObj (PStr elementName) ''storagedomains'' ''storage_domain'' ''name'' False)
                   (\<lambda>x. ret (Some x))))
      else
        bindE (try_except (bindE (find_named E elementName) (\<lambda>x. ret (Some x))) PyException (\<lambda>_. ret None)) (\<lambda>d.
        case d of
          None \<Rightarrow> ret None
        | Some x \<Rightarrow>
            bindE (lift_res (getattr x ''status'')) (\<lambda>st.
            ret (if hasattr st ''state'' then Some x else None))))"

definition validateElementStatus ::
  "config_st \<Rightarrow> 'w rest_env \<Rightarrow> 'w rest_env \<Rightarrow> string \<Rightarrow> string \<Rightarrow> string \<Rightarrow> string option \<Rightarrow> ('w rest_st, bool) comp" where
  "validateElementStatus c E DC element elementName expectedStatus dcName =
     (case supported_elements c of
        Inl e \<Rightarrow> ret False
      | Inr supported \<Rightarrow>
          bindE (lift_res (conf_in element supported)) (\<lambda>b.
          if \<not> b then bindE (lift_res (conf_keys supported)) (\<lambda>_. ret False)
          else
            bindE (status_object E DC element elementName dcName) (\<lambda>d.
            case d of
              None \<Rightarrow> ret False
            | Some elementObj \<Rightarrow>
                bindE (lift_res (getattr elementObj ''status'')) (\<lambda>st.
                bindE (lift_res (upper_of st)) (\<lambda>s. ret (s \<in> set (expected_statuses expectedStatus)))))))"

section \<open>Searching\<close>

definition query_with :: "'w rest_env \<Rightarrow> string \<Rightarrow> (string \<times> string) list \<Rightarrow> ('w rest_st, pyval) comp" where
  "query_with E constraint params =
     rest_query E constraint \<lparr>qa_expected_status = [], qa_href = [], qa_event_id = [], qa_all_content = False, qa_params = params\<rparr>"

definition searchElement ::
  "config_st \<Rightarrow> 'w rest_env \<Rightarrow> string \<Rightarrow> string \<Rightarrow> string \<Rightarrow> ('w rest_st, bool \<times> pyval) comp" where
  "searchElement c E element keyName searchValue =
     (case supported_elements c of
        Inl e \<Rightarrow> ret (False, PNone)
      | Inr supported \<Rightarrow>
          bindE (lift_res (conf_in element supported)) (\<lambda>b.
          if \<not> b then bindE (lift_res (conf_keys supported)) (\<lambda>_. ret (False, PNone))
          else
            bindE (query_with E (keyName @ ''='' @ searchValue) []) (\<lambda>elements.
            ret (if truthy elements then (True, elements) else (False, PNone)))))"

text \<open>\<open>re.match(r'(.*)\*$', s)\<close>: a star ends the string or its last line break.\<close>

definition ends_with_star :: "string \<Rightarrow> bool" where
  "ends_with_star s \<longleftrightarrow>
     (let t = (if s \<noteq> [] \<and> last s = CHR 0x0A then butlast s else s)
      in t \<noteq> [] \<and> last t = CHR ''*'' \<and> CHR 0x0A \<notin> set t)"

definition search_pattern :: "string \<Rightarrow> bool \<Rightarrow> string" where
  "search_pattern query_val case_sensitive =
     (let p = (if case_sensitive then query_val else ''(?i)'' @ query_val)
      in if ends_with_star query_val then ''^'' @ p else p)"

definition count_matching :: "(string \<Rightarrow> pyval \<Rightarrow> exn + bool) \<Rightarrow> string \<Rightarrow> string \<Rightarrow> pyval list \<Rightarrow> exn + int" where
  "count_matching M pattern key_name objs =
     res_bind (filter_res (\<lambda>x. res_bind (getattr x key_name) (\<lambda>v. if v = PNone then Inl TestCaseError else M pattern v)) objs)
       (\<lambda>l. Inr (int (length l)))"

text \<open>\<open>len(c)\<close> of a search result.\<close>

definition sized :: "pyval \<Rightarrow> exn + pyval list option" where
  "sized v =
     (case v of
        PNone \<Rightarrow> Inr None
      | PList l \<Rightarrow> Inr (Some l)
      | PStr s \<Rightarrow> Inr (Some (map (\<lambda>c. PStr [c]) s))
      | _ \<Rightarrow> Inl TypeError)"

text \<open>A missing maximum is written into the query as \<open>max=None\<close>.\<close>

definition searchForObj ::
  "(string \<Rightarrow> pyval \<Rightarrow> exn + bool) \<Rightarrow> 'w rest_env \<Rightarrow> string \<Rightarrow> string \<Rightarrow> string \<Rightarrow> int option \<Rightarrow> bool \<Rightarrow> int option \<Rightarrow>
   ('w rest_st, bool) comp" where
  "searchForObj M E query_key query_val key_name mx case_sensitive expected_count =
     bindE (case expected_count of
        Some n \<Rightarrow> ret n
      | None \<Rightarrow>
          bindE (rest_get E None (get_default\<lparr>ga_abs_link := False\<rparr>)) (\<lambda>v.
          bindE (lift_res (py_iter v)) (\<lambda>objs.
          bindE (lift_res (count_matching M (search_pattern query_val case_sensitive) key_name objs)) (\<lambda>n.
          ret (case mx of Some m \<Rightarrow> if 0 < m then min n m else n | None \<Rightarrow> n))))) (\<lambda>expected.
     bindE (query_with E (query_key @ ''='' @ query_val)
        (map (\<lambda>k. (k, if k = ''max'' then (case mx of None \<Rightarrow> ''None'' | Some m \<Rightarrow> show_int m)
                        else (if case_sensitive then ''true'' else ''false'')))
           (kw_order E [''max'', ''case_sensitive'']))) (\<lambda>query_objs.
     bindE (lift_res (sized query_objs)) (\<lambda>coll. ret (compareCollectionSize coll (Exactly expected)))))"

section \<open>Waiting\<close>

text \<open>The database of the engine answers a query with rows, or raises.\<close>

type_synonym 's psql = "string \<Rightarrow> ('s, pyval) comp"

definition get_running_tasks :: "'s psql \<Rightarrow> pyval \<Rightarrow> ('s, pyval) comp" where
  "get_running_tasks psql sp_id =
     psql (''select task_id, action_type, status, vdsm_task_id from async_tasks where storage_pool_id = '' @
           [CHR 0x27] @ py_str sp_id @ [CHR 0x27])"

text \<open>
  The wait ends normally on a timeout too; the last look at the tasks, in the \<open>finally\<close>
  clause, replaces the outcome when it raises.
\<close>

definition wait_for_tasks ::
  "'w rest_st os_time \<Rightarrow> 'w rest_env \<Rightarrow> 'w rest_st psql \<Rightarrow> string \<Rightarrow> int \<Rightarrow> int \<Rightarrow> 'w rest_st \<Rightarrow> ((exn + unit) \<times> 'w rest_st) option" where
  "wait_for_tasks T DC psql datacenter t s w =
     (case bindE (find_named DC datacenter) (\<lambda>d. lift_res (getattr d ''id'')) w of
        (Inl e, w1) \<Rightarrow> Some (Inl e, w1)
      | (Inr sp_id, w1) \<Rightarrow>
          (case for_sample T (get_running_tasks psql sp_id)
                  (\<lambda>tasks. ret (if \<not> truthy tasks then Some () else None)) (API_TimeoutingSampler t s) w1 of
             None \<Rightarrow> None
           | Some (r, s1, w2) \<Rightarrow>
               (case get_running_tasks psql sp_id w2 of
                  (Inl e, w3) \<Rightarrow> Some (Inl e, w3)
                | (Inr tasks, w3) \<Rightarrow>
                    Some (case r of Inl e \<Rightarrow> if isinstance e APITimeout then Inr () else Inl e | Inr u \<Rightarrow> Inr u, w3))))"

definition restart_engine ::
  "'s os_time \<Rightarrow> ('s, unit) comp \<Rightarrow> ('s, pyval) comp \<Rightarrow> int \<Rightarrow> int \<Rightarrow> 's \<Rightarrow> ((exn + unit) \<times> 's) option" where
  "restart_engine T restart health_page_status interval t w =
     (case restart w of
        (Inl e, w1) \<Rightarrow> Some (Inl e, w1)
      | (Inr _, w1) \<Rightarrow>
          (case for_sample T health_page_status (\<lambda>st. ret (if truthy st then Some () else None)) (API_TimeoutingSampler t interval) w1 of
             None \<Rightarrow> None
           | Some (r, s1, w2) \<Rightarrow> Some (r, w2)))"

definition gone_query :: "string \<Rightarrow> string list \<Rightarrow> string" where
  "gone_query search_by objlist = join '' or '' (map (\<lambda>n. search_by @ ''='' @ [CHR 0x22] @ n @ [CHR 0x22]) objlist)"

datatype names_arg = Names_string string | Names_list "string list"

definition names_of :: "names_arg \<Rightarrow> string list" where
  "names_of a = (case a of Names_string s \<Rightarrow> split s | Names_list l \<Rightarrow> l)"

definition waitUntilGone ::
  "'w rest_st os_time \<Rightarrow> 'w rest_env \<Rightarrow> bool \<Rightarrow> names_arg \<Rightarrow> int \<Rightarrow> int \<Rightarrow> string \<Rightarrow> 'w rest_st
   \<Rightarrow> ((exn + bool) \<times> 'w rest_st) option" where
  "waitUntilGone T E positive names t samplingPeriod search_by w =
     (case for_sample T (query_with E (gone_query search_by (names_of names)) [])
             (\<lambda>sample. ret (if \<not> truthy sample then Some positive else None)) (API_TimeoutingSampler t samplingPeriod) w of
        None \<Rightarrow> None
      | Some (r, s1, w1) \<Rightarrow> Some (r, w1))"

section \<open>Names of operating systems\<close>

text \<open>
  \<open>re.search('Linux\s+(\d+)', s, re.I)\<close>: the digits after the first place where the word,
  white space and a digit follow one another.
\<close>

fun linux_version :: "string \<Rightarrow> string option" where
  "linux_version [] = None"
| "linux_version (c # s) =
     (let t = drop 5 (c # s); d = takeWhile is_digit (dropWhile is_space t) in
      if lower (take 5 (c # s)) = ''linux'' \<and> t \<noteq> [] \<and> is_space (hd t) \<and> d \<noteq> [] then Some d else linux_version s)"

definition convertOsNameToOsTypeElement :: "string \<Rightarrow> exn + bool \<times> string option" where
  "convertOsNameToOsTypeElement osName =
     (let l = lower osName in
      if contains l ''win'' then Inr (True, Some (replace osName '' '' []))
      else if contains l ''linux'' then
        (case linux_version osName of
           None \<Rightarrow> Inl AttributeError
         | Some v \<Rightarrow>
             Inr (True, Some (''RHEL'' @ v @ (if contains l ''x64'' then ''x64'' else []) @
                              (if contains l ''rhevm'' then ''_RHEVM'' else []))))
      else Inr (False, None))"

section \<open>Machines\<close>

text \<open>What the code calls on a remote machine: its services, its files and its commands.\<close>

record 'w machine_api =
  service_start :: "string \<Rightarrow> ('w, bool) comp"
  service_stop :: "string \<Rightarrow> ('w, bool) comp"
  service_restart :: "string \<Rightarrow> ('w, bool) comp"
  service_running :: "string \<Rightarrow> ('w, bool) comp"
  fs_unlink :: "string \<Rightarrow> ('w, bool) comp"
  fs_exists :: "string \<Rightarrow> ('w, bool) comp"
  fs_listdir :: "string \<Rightarrow> ('w, string list) comp"
  fs_isfile :: "string \<Rightarrow> ('w, bool) comp"
  run_cmd :: "string list \<Rightarrow> ('w, int) comp"
  read_file :: "string \<Rightarrow> ('w, string) comp"
  set_hostname :: "string \<Rightarrow> ('w, unit) comp"

definition SUPERVDSMD :: string where "SUPERVDSMD = ''supervdsmd''"
definition VDSMD :: string where "VDSMD = ''vdsmd''"

definition startVdsmd :: "'w machine_api \<Rightarrow> ('w, bool) comp" where
  "startVdsmd m = service_start m VDSMD"

definition stopVdsmd :: "'w machine_api \<Rightarrow> ('w, bool) comp" where
  "stopVdsmd m = service_stop m VDSMD"

definition restartVdsmd :: "'w machine_api \<Rightarrow> bool \<Rightarrow> ('w, bool) comp" where
  "restartVdsmd m supervdsm =
     bindE (if supervdsm then service_stop m SUPERVDSMD else ret True) (\<lambda>ok.
     if \<not> ok then ret False else service_restart m VDSMD)"

definition isServiceRunning :: "'w machine_api option \<Rightarrow> bool \<Rightarrow> string \<Rightarrow> ('w, bool) comp" where
  "isServiceRunning machine positive service =
     bindE (case machine of None \<Rightarrow> ret False | Some m \<Rightarrow> service_running m service) (\<lambda>result. ret (result = positive))"

definition isVdsmdRunning :: "'w machine_api option \<Rightarrow> ('w, bool) comp" where
  "isVdsmdRunning machine = isServiceRunning machine True VDSMD"

definition persistent_rule :: string where "persistent_rule = ''/etc/udev/rules.d/70-persistent-net.rules''"
definition net_scripts_dir :: string where "net_scripts_dir = ''/etc/sysconfig/network-scripts''"
definition network_configuration :: string where "network_configuration = ''/etc/sysconfig/network''"

definition remove_ifcfg_attrs_cmd :: "string list" where
  "remove_ifcfg_attrs_cmd = [''sed'', ''-i'', ''-e'', ''/HWADDR/d'', ''-e'', ''/HOSTNAME/d'', ''-e'', ''/DHCP_HOSTNAME/d'', ''-e'', ''/UUID/d'']"

text \<open>The loop over the interface files: False at the first command that fails.\<close>

fun clean_ifcfgs :: "'w machine_api \<Rightarrow> string list \<Rightarrow> ('w, bool) comp" where
  "clean_ifcfgs m [] = ret True"
| "clean_ifcfgs m (ifcfg # rest) =
     (let path = net_scripts_dir @ ''/'' @ ifcfg in
      bindE (fs_isfile m path) (\<lambda>b.
      if \<not> b then clean_ifcfgs m rest
      else
        bindE (run_cmd m (remove_ifcfg_attrs_cmd @ [path])) (\<lambda>rc.
        if rc \<noteq> 0 then ret False
        else bindE (read_file m path) (\<lambda>_. clean_ifcfgs m rest))))"

definition setPersistentNetwork :: "'w machine_api \<Rightarrow> ('w, bool) comp" where
  "setPersistentNetwork m =
     bindE (fs_unlink m persistent_rule) (\<lambda>ok.
     if \<not> ok then ret False
     else
       bindE (fs_exists m persistent_rule) (\<lambda>_.
       bindE (fs_listdir m net_scripts_dir) (\<lambda>names.
       let ifcfg_files = filter (\<lambda>i. contains i ''ifcfg-'' \<and> \<not> contains i ''-lo'') names in
       if ifcfg_files = [] then ret False
       else
         bindE (clean_ifcfgs m ifcfg_files) (\<lambda>done_all.
         if \<not> done_all then ret False
         else
           bindE (set_hostname m ''localhost.localdomain'') (\<lambda>_.
           bindE (read_file m network_configuration) (\<lambda>_.
           bindE (run_cmd m [''sync'']) (\<lambda>_. ret True)))))))"

text \<open>\<open>%d\<close> of the status and the id of the machine go into the statement.\<close>

definition update_vm_status_in_database ::
  "'w rest_env \<Rightarrow> 'w rest_st psql \<Rightarrow> string \<Rightarrow> int \<Rightarrow> ('w rest_st, pyval) comp" where
  "update_vm_status_in_database VM psql vm_name status =
     bindE (find_named VM vm_name) (\<lambda>vm.
     bindE (lift_res (getattr vm ''id'')) (\<lambda>i.
     psql (''UPDATE vm_dynamic SET status='' @ show_int status @ '' WHERE vm_guid='' @ [CHR 0x27] @ py_str i @ [CHR 0x27] @ '';'')))"

section \<open>What the operations guarantee\<close>

text \<open>The configured engine of a state, if there is one.\<close>

definition engine_of :: "('w, 'a) get_api_st \<Rightarrow> exn + conf" where
  "engine_of s = configured_engine (run_settings s)"

text \<open>Only API objects of the REST engine are ever cached.\<close>

definition rest_cached :: "('w, 'a) get_api_st \<Rightarrow> bool" where
  "rest_cached s \<longleftrightarrow> (\<forall>(e, c, g) \<in> set (dict_keys (util_cache s)). g = Leaf (PStr ''rest''))"

lemma get_api_object_cases:
  assumes "get_api_object R e c s = (r, s')"
  obtains (no_engine) x where "engine_of s = Inl x" "r = Inl x" "s' = s"
  | (cached) g a where "engine_of s = Inr g" "map_of (util_cache s) (e, c, g) = Some a" "r = Inr a" "s' = s"
  | (other_engine) g where "engine_of s = Inr g" "map_of (util_cache s) (e, c, g) = None" "g \<noteq> Leaf (PStr ''rest'')"
      "r = Inl UnboundLocalError" "s' = s"
  | (failed) x w where "engine_of s = Inr (Leaf (PStr ''rest''))" "map_of (util_cache s) (e, c, Leaf (PStr ''rest'')) = None"
      "R e c (outside_st s) = (Inl x, w)" "r = Inl x" "s' = s\<lparr>outside_st := w\<rparr>"
  | (made) a w where "engine_of s = Inr (Leaf (PStr ''rest''))" "map_of (util_cache s) (e, c, Leaf (PStr ''rest'')) = None"
      "R e c (outside_st s) = (Inr a, w)" "r = Inr a"
      "s' = s\<lparr>outside_st := w, util_cache := dict_set (util_cache s) (e, c, Leaf (PStr ''rest'')) a\<rparr>"
proof (cases "engine_of s")
  case (Inl x)
  with assms show thesis by (intro no_engine) (auto simp: get_api_object_def engine_of_def comp_simps)
next
  case (Inr g)
  show thesis
  proof (cases "map_of (util_cache s) (e, c, g)")
    case (Some a)
    with assms Inr show thesis by (intro cached) (auto simp: get_api_object_def engine_of_def comp_simps Let_def)
  next
    case None
    show thesis
    proof (cases "g = Leaf (PStr ''rest'')")
      case False
      with assms Inr None show thesis by (intro other_engine) (auto simp: get_api_object_def engine_of_def comp_simps Let_def)
    next
      case True
      obtain x w where R: "R e c (outside_st s) = (x, w)" by fastforce
      show thesis
        using assms Inr None True R failed made
        by (cases x) (auto simp: get_api_object_def engine_of_def comp_simps Let_def on_outside_st_def update_util_cache_def)
    qed
  qed
qed

text \<open>
  One API object per element, collection and engine: after a use of \<open>get_api\<close> the next
  use returns the same object and constructs nothing, the objects of other keys stay as they
  were, and only objects of the REST engine are cached; another engine is an
  UnboundLocalError that leaves cache and world alone; a logoff forgets every object.
\<close>

theorem api_objects_are_shared:
  assumes "rest_cached s"
  shows "(get_api_object R e c s = (Inr a, s') \<longrightarrow>
      get_api_object R' e c s' = (Inr a, s') \<and> rest_cached s' \<and> engine_of s' = engine_of s \<and>
      (\<forall>k. map_of (util_cache s) k \<noteq> None \<longrightarrow> map_of (util_cache s') k = map_of (util_cache s) k)) \<and>
    (engine_of s = Inr g \<and> g \<noteq> Leaf (PStr ''rest'') \<longrightarrow> get_api_object R e c s = (Inl UnboundLocalError, s)) \<and>
    (logoff_api out s = (Inr (), s2) \<longrightarrow> util_cache s2 = [])"
proof (intro conjI impI)
  assume get: "get_api_object R e c s = (Inr a, s')"
  then show "get_api_object R' e c s' = (Inr a, s')"
    by (cases rule: get_api_object_cases) (auto simp: get_api_object_def engine_of_def comp_simps Let_def)
  from get show "rest_cached s'"
    using assms by (cases rule: get_api_object_cases) (auto simp: rest_cached_def)
  from get show "engine_of s' = engine_of s"
    by (cases rule: get_api_object_cases) (auto simp: engine_of_def)
  from get show "\<forall>k. map_of (util_cache s) k \<noteq> None \<longrightarrow> map_of (util_cache s') k = map_of (util_cache s) k"
    by (cases rule: get_api_object_cases) auto
next
  assume g: "engine_of s = Inr g \<and> g \<noteq> Leaf (PStr ''rest'')"
  have "map_of (util_cache s) (e, c, g) = None"
  proof (rule ccontr)
    assume "map_of (util_cache s) (e, c, g) \<noteq> None"
    then have "(e, c, g) \<in> set (dict_keys (util_cache s))"
      by (simp add: dict_keys_def map_of_eq_None_iff)
    with g assms show False by (auto simp: rest_cached_def)
  qed
  with g show "get_api_object R e c s = (Inl UnboundLocalError, s)"
    by (simp add: get_api_object_def engine_of_def comp_simps Let_def)
next
  assume "logoff_api out s = (Inr (), s2)"
  then show "util_cache s2 = []"
    by (auto simp: logoff_api_def clear_util_cache_def comp_simps split: prod.splits sum.splits)
qed

lemma no_state_attribute:
  assumes "hasattr st ''state''"
  shows "upper_of st = Inl AttributeError"
  using assms by (cases st) (simp_all add: hasattr_def)

text \<open>
  \<open>validateElementStatus\<close> never confirms a status of anything but a storage domain: it
  looks for an attribute \<open>state\<close> of the status and then reads the status as a string, and no
  value is both.
\<close>

theorem status_never_confirmed:
  assumes "lower element \<noteq> ''storagedomain''"
  shows "fst (validateElementStatus c E DC element elementName expectedStatus dcName s) \<noteq> Inr True"
proof
  assume "fst (validateElementStatus c E DC element elementName expectedStatus dcName s) = Inr True"
  then obtain s' where "validateElementStatus c E DC element elementName expectedStatus dcName s = (Inr True, s')"
    by (metis prod.collapse)
  then obtain x st u s1 where obj: "status_object E DC element elementName dcName s1 = (Inr (Some x), u)"
    and st: "getattr x ''status'' = Inr st" and up: "\<exists>t. upper_of st = Inr t"
    by (auto simp: validateElementStatus_def lift_res_def ret_def
        split: sum.splits if_splits option.splits elim!: bindE_InrE)
  from obj assms have "hasattr st ''state''"
    using st by (auto simp: status_object_def lift_res_def ret_def split: option.splits if_splits elim!: bindE_InrE)
  with no_state_attribute up show False by auto
qed

text \<open>
  \<open>wait_for_tasks\<close> always comes back. It returns normally after an answer without tasks,
  but also when the deadline passed or a query timed out; an error comes from a request or a
  query, and is never a timeout of the wait itself.
\<close>

theorem wait_for_tasks_verdict:
  fixes T :: "'w rest_st os_time"
  assumes "clock_laws T clk" and "\<And>q. never_back clk (psql q)" and "0 < s"
    and "bindE (find_named DC dc) (\<lambda>d. lift_res (getattr d ''id'')) w = (Inr sp_id, w1)"
  shows "\<exists>r w' w2. wait_for_tasks T DC psql dc t s w = Some (r, w') \<and> snd (get_running_tasks psql sp_id w2) = w' \<and>
    (case r of
       Inr u \<Rightarrow> (\<exists>v x. get_running_tasks psql sp_id v = (Inr x, w2) \<and> \<not> truthy x) \<or>
         (\<exists>v e. get_running_tasks psql sp_id v = (Inl e, w2) \<and> isinstance e APITimeout) \<or> clk w1 + t < clk w2
     | Inl e \<Rightarrow> fst (get_running_tasks psql sp_id w2) = Inl e \<or>
         \<not> isinstance e APITimeout \<and> (\<exists>v. get_running_tasks psql sp_id v = (Inl e, w2)))"
proof -
  let ?f = "get_running_tasks psql sp_id" and ?s = "API_TimeoutingSampler t s"
  have "never_back clk ?f" unfolding get_running_tasks_def by (rule assms(2))
  then obtain r s' w2 t0 where loop: "for_sample T ?f (\<lambda>tasks. ret (if \<not> truthy tasks then Some () else None)) ?s w1 = Some (r, s', w2)"
    and t0: "clk w1 \<le> t0"
    and verdict: "case r of Inr y \<Rightarrow> \<exists>v x. ?f v = (Inr x, w2) \<and> \<not> truthy x \<and> y = ()
       | Inl e \<Rightarrow> (\<exists>v. ?f v = (Inl e, w2)) \<or> e = timeout_exc_cls ?s \<and> t0 + timeout ?s < clk w2"
    using wait_until [OF assms(1), of ?f ?s "\<lambda>x. \<not> truthy x" "\<lambda>_. ()" w1] assms(3) by fastforce
  obtain fin w3 where fin: "?f w2 = (fin, w3)" by fastforce
  let ?r = "case fin of Inl e \<Rightarrow> Inl e | Inr _ \<Rightarrow> (case r of Inl e \<Rightarrow> if isinstance e APITimeout then Inr () else Inl e | Inr u \<Rightarrow> Inr u)"
  have "wait_for_tasks T DC psql dc t s w = Some (?r, w3)"
    using assms(4) loop fin by (simp add: wait_for_tasks_def split: sum.split)
  moreover have "snd (?f w2) = w3" using fin by simp
  moreover have "case ?r of
       Inr u \<Rightarrow> (\<exists>v x. ?f v = (Inr x, w2) \<and> \<not> truthy x) \<or> (\<exists>v e. ?f v = (Inl e, w2) \<and> isinstance e APITimeout) \<or> clk w1 + t < clk w2
     | Inl e \<Rightarrow> fst (?f w2) = Inl e \<or> \<not> isinstance e APITimeout \<and> (\<exists>v. ?f v = (Inl e, w2))"
    using verdict fin t0 by (auto split: sum.splits if_splits)
  ultimately show ?thesis by blast
qed

text \<open>
  \<open>waitUntilGone\<close> always comes back, and reports \<open>positive\<close>, whatever it is, right after a
  query that found nothing (a failed query counts as that); otherwise it raises APITimeout
  past the deadline or an error of a query.
\<close>

theorem waitUntilGone_verdict:
  fixes T :: "'w rest_st os_time"
  assumes "clock_laws T (server_time clk)" and "moves_on clk (srv E)" and "0 < s"
  shows "\<exists>r w'. waitUntilGone T E positive names t s search_by w = Some (r, w') \<and>
    (case r of
       Inr b \<Rightarrow> b = positive \<and> (\<exists>v x. query_with E (gone_query search_by (names_of names)) [] v = (Inr x, w') \<and> \<not> truthy x)
     | Inl e \<Rightarrow> (\<exists>v. query_with E (gone_query search_by (names_of names)) [] v = (Inl e, w')) \<or>
         e = APITimeout \<and> server_time clk w + t < server_time clk w')"
proof -
  let ?f = "query_with E (gone_query search_by (names_of names)) []" and ?s = "API_TimeoutingSampler t s"
  have "never_back (server_time clk) ?f" unfolding query_with_def by (rule query_moves_on [OF assms(2)])
  then obtain r s' w2 t0 where "for_sample T ?f (\<lambda>x. ret (if \<not> truthy x then Some positive else None)) ?s w = Some (r, s', w2)"
    and "server_time clk w \<le> t0"
    and "case r of Inr y \<Rightarrow> \<exists>v x. ?f v = (Inr x, w2) \<and> \<not> truthy x \<and> y = positive
       | Inl e \<Rightarrow> (\<exists>v. ?f v = (Inl e, w2)) \<or> e = timeout_exc_cls ?s \<and> t0 + timeout ?s < server_time clk w2"
    using wait_until [OF assms(1), of ?f ?s "\<lambda>x. \<not> truthy x" "\<lambda>_. positive" w] assms(3) by fastforce
  then show ?thesis by (cases r) (auto simp: waitUntilGone_def)
qed

text \<open>
  \<open>setPersistentNetwork\<close> answers True only if every interface file that is a regular file was
  cleaned by a command that succeeded; stated of the loop over them.
\<close>

lemma clean_ifcfgs_True:
  assumes "clean_ifcfgs m fs w = (Inr True, w')" and "f \<in> set fs"
  shows "\<exists>v v'. fs_isfile m (net_scripts_dir @ ''/'' @ f) v = (Inr False, v') \<or>
    run_cmd m (remove_ifcfg_attrs_cmd @ [net_scripts_dir @ ''/'' @ f]) v = (Inr 0, v')"
  using assms
proof (induction m fs arbitrary: w rule: clean_ifcfgs.induct)
  case (2 m g rest)
  then show ?case
    by (auto simp: Let_def ret_def split: if_splits elim!: bindE_InrE) blast+
qed simp

section \<open>Witnesses\<close>

definition demo_run_settings :: config_st where
  "demo_run_settings = \<lparr>ART_CONFIG = Node [(''RUN'', Node [(''engine'', Leaf (PStr ''rest''))]),
     (''elements_conf'', Node [(''elements'', Node [(''vm'', Leaf (PStr ''vms''))])])], GE = Node []\<rparr>"

definition demo_util :: "string \<Rightarrow> string \<Rightarrow> (nat, string \<times> string) comp" where
  "demo_util e c = (\<lambda>n. (Inr (e, c), n + 1))"

definition demo_cache :: "(nat, string \<times> string) get_api_st" where
  "demo_cache = \<lparr>util_cache = [], run_settings = demo_run_settings, outside_st = 0\<rparr>"

theorem api_objects_are_shared_witness:
  "map_of (util_cache (snd (get_api_object demo_util ''vm'' ''vms'' demo_cache))) (''vm'', ''vms'', Leaf (PStr ''rest'')) = Some (''vm'', ''vms'') \<and>
   fst (get_api_object demo_util ''vm'' ''vms'' (snd (get_api_object demo_util ''vm'' ''vms'' demo_cache))) = Inr (''vm'', ''vms'')"
proof -
  have get: "get_api_object demo_util ''vm'' ''vms'' demo_cache =
      (Inr (''vm'', ''vms''), snd (get_api_object demo_util ''vm'' ''vms'' demo_cache))"
    by code_simp
  have "rest_cached demo_cache" by (simp add: rest_cached_def demo_cache_def dict_keys_def)
  from api_objects_are_shared [OF this, of demo_util "''vm''" "''vms''" "(''vm'', ''vms'')" _ demo_util] get
  have "get_api_object demo_util ''vm'' ''vms'' (snd (get_api_object demo_util ''vm'' ''vms'' demo_cache)) =
      (Inr (''vm'', ''vms''), snd (get_api_object demo_util ''vm'' ''vms'' demo_cache))"
    by blast
  moreover have "map_of (util_cache (snd (get_api_object demo_util ''vm'' ''vms'' demo_cache))) (''vm'', ''vms'', Leaf (PStr ''rest'')) =
      Some (''vm'', ''vms'')"
    by code_simp
  ultimately show ?thesis by simp
qed

definition demo_dc :: "nat rest_env" where
  "demo_dc = demo_rest\<lparr>element_name := ''data_center'', collection_name := ''datacenters'', links := [(''datacenters'', ''/api/datacenters'')],
     parse := (\<lambda>s. Inr (PObj ''DataCenters'' [(''data_center'',
       PList [PObj ''DataCenter'' [(''name'', PStr ''dc''), (''id'', PStr ''7''), (''status'', PStr ''up'')]])]))\<rparr>"

theorem status_never_confirmed_witness:
  "fst (validateElementStatus demo_run_settings demo_dc demo_dc ''vm'' ''dc'' ''up'' None demo_rest_st) \<noteq> Inr True"
  by (rule status_never_confirmed) code_simp

definition demo_tasks :: "nat rest_st psql" where
  "demo_tasks q s = (Inr (PList (if server (api s) < 20 then [PNone] else [])), s)"

lemma demo_sp_id: "bindE (find_named demo_dc ''dc'') (\<lambda>d. lift_res (getattr d ''id'')) demo_rest_st =
    (Inr (PStr ''7''), snd (find_named demo_dc ''dc'' demo_rest_st))"
  by code_simp

theorem wait_for_tasks_verdict_witness:
  "\<exists>r w'. wait_for_tasks demo_clock demo_dc demo_tasks ''dc'' 300 5 demo_rest_st = Some (r, w')"
proof -
  have "never_back (server_time int) (demo_tasks q)" for q by (simp add: never_back_def demo_tasks_def)
  then show ?thesis
    using wait_for_tasks_verdict [OF demo_clock_laws _ _ demo_sp_id, where psql = demo_tasks and s = 5 and t = 300] by fastforce
qed

theorem waitUntilGone_verdict_witness:
  "\<exists>r w'. waitUntilGone demo_clock demo_rest True (Names_string ''a,b'') 60 5 ''name'' demo_rest_st = Some (r, w')"
proof -
  have "moves_on int (srv demo_rest)" by (simp add: moves_on_def demo_rest_def demo_srv_def)
  from waitUntilGone_verdict [OF demo_clock_laws this, where s = 5 and t = 60 and positive = True and names = "Names_string ''a,b''" and search_by = "''name''" and w = demo_rest_st]
  show ?thesis by auto
qed

end
