(* ===== verification/Events.thy ===== *)
theory Events
  imports Test_Utils
begin

text \<open>
  \<open>art/rhevm_api/tests_lib/low_level/events.py\<close>: the event log of the engine. The API object
  of the events is a parameter, and so is the clock.
\<close>

section \<open>Reading the log\<close>

definition DEF_TIMEOUT_EVENTS :: int where "DEF_TIMEOUT_EVENTS = 120"
definition SAMPLER_TIMEOUT :: int where "SAMPLER_TIMEOUT = 210"
definition MAX_EVENTS :: int where "MAX_EVENTS = 100"

text \<open>\<open>int(event.get_id())\<close>, and \<open>text in event.get_description()\<close>.\<close>

definition event_id :: "pyval \<Rightarrow> exn + int" where
  "event_id ev = res_bind (getattr ev ''id'') py_int"

definition describes :: "string \<Rightarrow> pyval \<Rightarrow> exn + bool" where
  "describes content ev = res_bind (getattr ev ''description'') (str_in content)"

definition query_events :: "'w rest_env \<Rightarrow> string \<Rightarrow> int \<Rightarrow> ('w rest_st, pyval) comp" where
  "query_events EV constraint max_events = query_with EV constraint [(''max'', show_int max_events)]"

definition get_max_event_id :: "'w rest_env \<Rightarrow> string \<Rightarrow> int \<Rightarrow> ('w rest_st, int option) comp" where
  "get_max_event_id EV query max_events =
     bindE (query_events EV query max_events) (\<lambda>events.
     if \<not> truthy events then ret None
     else
       bindE (lift_res (py_iter events)) (\<lambda>evs.
       bindE (lift_res (map_res event_id evs)) (\<lambda>ids.
       bindE (lift_res (py_max id ids)) (\<lambda>m. ret (Some m)))))"

text \<open>The events after an id are asked for with the \<open>event_id\<close> parameter of the search.\<close>

definition query_after :: "'w rest_env \<Rightarrow> string \<Rightarrow> string \<Rightarrow> ('w rest_st, pyval) comp" where
  "query_after EV query start_id =
     rest_query EV query \<lparr>qa_expected_status = [], qa_href = [], qa_event_id = start_id, qa_all_content = False, qa_params = []\<rparr>"

definition search_for_recent_event_from_event_id ::
  "'w rest_env \<Rightarrow> string \<Rightarrow> string \<Rightarrow> int \<Rightarrow> ('w rest_st, bool) comp" where
  "search_for_recent_event_from_event_id EV win_start_event_id query expected_count =
     bindE (query_after EV query win_start_event_id) (\<lambda>found_ev.
     bindE (lift_res (sized found_ev)) (\<lambda>coll. ret (compareCollectionSize coll (Exactly expected_count))))"

definition search_for_recent_event ::
  "'w rest_env \<Rightarrow> bool \<Rightarrow> string \<Rightarrow> string \<Rightarrow> int \<Rightarrow> int \<Rightarrow> ('w rest_st, bool) comp" where
  "search_for_recent_event EV positive win_start_query query expected_count max_events =
     bindE (get_max_event_id EV win_start_query max_events) (\<lambda>start.
     case start of
       None \<Rightarrow> ret False
     | Some i \<Rightarrow>
         bindE (query_after EV query (show_int i)) (\<lambda>found_ev.
         bindE (lift_res (sized found_ev)) (\<lambda>coll.
         ret (positive = compareCollectionSize coll (Exactly expected_count)))))"

definition newer_than :: "pyval \<Rightarrow> pyval \<Rightarrow> exn + bool" where
  "newer_than start_id x = res_bind (event_id x) (\<lambda>i. res_bind (py_int start_id) (\<lambda>j. Inr (j < i)))"

definition get_events_after_some_event :: "'w rest_env \<Rightarrow> pyval \<Rightarrow> int \<Rightarrow> ('w rest_st, pyval list) comp" where
  "get_events_after_some_event EV start_id max_events =
     bindE (query_events EV [] max_events) (\<lambda>v.
     bindE (lift_res (py_iter v)) (\<lambda>evs. lift_res (filter_res (newer_than start_id) evs)))"

definition opt_int :: "int option \<Rightarrow> pyval" where
  "opt_int x = (case x of None \<Rightarrow> PNone | Some i \<Rightarrow> PInt i)"

definition wait_for_event ::
  "'w rest_st os_time \<Rightarrow> 'w rest_env \<Rightarrow> string \<Rightarrow> pyval \<Rightarrow> string \<Rightarrow> int \<Rightarrow> int \<Rightarrow> int \<Rightarrow> 'w rest_st
   \<Rightarrow> ((exn + bool) \<times> 'w rest_st) option" where
  "wait_for_event T EV query start_id win_start_query t s max_events w =
     (case bindE (if win_start_query \<noteq> [] then
                    bindE (get_max_event_id EV win_start_query max_events) (\<lambda>i. ret (opt_int i))
                  else ret start_id) (\<lambda>start.
           if start = PNone then bindE (get_max_event_id EV [] max_events) (\<lambda>i. ret (opt_int i)) else ret start) w of
        (Inl e, w1) \<Rightarrow> Some (Inl e, w1)
      | (Inr start, w1) \<Rightarrow>
          (case for_sample T (get_events_after_some_event EV start MAX_EVENTS)
                  (\<lambda>evs. bindE (lift_res (find_res (describes query) evs))
                     (\<lambda>found. ret (if found \<noteq> None then Some True else None)))
                  (API_TimeoutingSampler t s) w1 of
             None \<Rightarrow> None
           | Some (Inl e, s1, w2) \<Rightarrow> if isinstance e APITimeout then Some (Inr False, w2) else Some (Inl e, w2)
           | Some (Inr b, s1, w2) \<Rightarrow> Some (Inr b, w2)))"

section \<open>Events by their code\<close>

definition get_all_events_by_event_code :: "'w rest_env \<Rightarrow> int \<Rightarrow> int \<Rightarrow> ('w rest_st, pyval) comp" where
  "get_all_events_by_event_code EV code max_events = query_events EV (''type='' @ show_int code) max_events"

definition get_all_events_from_specific_event_id ::
  "'w rest_env \<Rightarrow> int \<Rightarrow> int \<Rightarrow> int \<Rightarrow> ('w rest_st, pyval list) comp" where
  "get_all_events_from_specific_event_id EV code start_event_id max_events =
     bindE (get_all_events_by_event_code EV code max_events) (\<lambda>v.
     bindE (lift_res (py_iter v)) (\<lambda>evs. lift_res (filter_res (newer_than (PInt start_event_id)) evs)))"

definition get_last_event :: "'w rest_env \<Rightarrow> int \<Rightarrow> int \<Rightarrow> ('w rest_st, pyval) comp" where
  "get_last_event EV code max_events =
     bindE (get_all_events_by_event_code EV code max_events) (\<lambda>v.
     if truthy v then bindE (lift_res (py_iter v)) (\<lambda>evs. ret (hd evs))
     else ret (setattr (setattr (new_ds EV ''Event'') ''id'' (PStr ''1''))
                 ''description'' (PStr ''Dummy object (get_last_event())'')))"

text \<open>One pass over the new events: matches still wanted, and the ids found so far.\<close>

fun note_events :: "string \<Rightarrow> int \<Rightarrow> pyval list \<Rightarrow> int \<Rightarrow> int list \<Rightarrow> exn + int \<times> int list" where
  "note_events content last_id [] matches found = Inr (matches, found)"
| "note_events content last_id (ev # evs) matches found =
     (case event_id ev of Inl e \<Rightarrow> Inl e | Inr i \<Rightarrow>
      case describes content ev of Inl e \<Rightarrow> Inl e | Inr b \<Rightarrow>
      if b \<and> last_id < i then note_events content last_id evs (matches - 1) (found @ [i])
      else note_events content last_id evs matches found)"

definition find_round ::
  "'w rest_env \<Rightarrow> int \<Rightarrow> string \<Rightarrow> int \<Rightarrow> int \<Rightarrow> int \<times> int list \<Rightarrow> ('w rest_st, int \<times> int list) comp" where
  "find_round EV code content last_id max_events acc =
     bindE (get_all_events_from_specific_event_id EV code last_id max_events) (\<lambda>evs.
     bindE (lift_res (filter_res (\<lambda>v. res_bind (event_id v) (\<lambda>i. Inr (i \<notin> set (snd acc)))) evs)) (\<lambda>new.
     lift_res (note_events content last_id new (fst acc) (snd acc))))"

text \<open>The loop itself, over what one round does.\<close>

partial_function (option) find_event_loop ::
  "'s os_time \<Rightarrow> (int \<times> int list \<Rightarrow> ('s, int \<times> int list) comp) \<Rightarrow> int \<Rightarrow> int \<times> int list \<Rightarrow> 's
   \<Rightarrow> ((exn + bool) \<times> 's) option" where
  "find_event_loop T find_more deadline acc w =
     (if fst acc \<le> 0 then Some (Inr True, w)
      else
        (case os_now T w of (now, w1) \<Rightarrow>
         if deadline < now then Some (Inr False, w1)
         else
           (case find_more acc w1 of
              (Inl e, w2) \<Rightarrow> Some (Inl e, w2)
            | (Inr acc', w2) \<Rightarrow> find_event_loop T find_more deadline acc' w2)))"

definition find_event ::
  "'w rest_st os_time \<Rightarrow> 'w rest_env \<Rightarrow> pyval \<Rightarrow> int \<Rightarrow> string \<Rightarrow> int \<Rightarrow> int \<Rightarrow> int \<Rightarrow> 'w rest_st
   \<Rightarrow> ((exn + bool) \<times> 'w rest_st) option" where
  "find_event T EV last_event code content matches t max_events w =
     (case os_now T w of (start, w1) \<Rightarrow>
      case event_id last_event of
        Inl e \<Rightarrow> Some (Inl e, w1)
      | Inr last_id \<Rightarrow> find_event_loop T (find_round EV code content last_id max_events) (start + t) (matches, []) w1)"

section \<open>The loop of \<open>find_event\<close>\<close>

lemma find_event_loop_ends:
  assumes "clock_laws T clk" and "\<And>acc v acc' v'. find_more acc v = (Inr acc', v') \<Longrightarrow> clk v + 1 \<le> clk v'"
  shows "\<exists>res. find_event_loop T find_more deadline acc w = Some res"
proof (induction "nat (deadline + 1 - clk w)" arbitrary: acc w rule: less_induct)
  case less
  obtain now w1 where now: "os_now T w = (now, w1)" by fastforce
  obtain r w2 where more: "find_more acc w1 = (r, w2)" by fastforce
  note bounds = os_now_bounds [OF assms(1) now]
  show ?case
  proof (cases "\<exists>acc'. r = Inr acc' \<and> 0 < fst acc \<and> now \<le> deadline")
    case True
    then obtain acc' where "r = Inr acc'" by blast
    with assms(2) more bounds True have "nat (deadline + 1 - clk w2) < nat (deadline + 1 - clk w)" by fastforce
    from less.hyps [OF this] \<open>r = Inr acc'\<close> True show ?thesis
      using now more by (subst find_event_loop.simps) simp
  next
    case False
    then show ?thesis
      using now more by (subst find_event_loop.simps) (auto split: sum.split)
  qed
qed

lemma find_event_loop_verdict:
  assumes "clock_laws T clk"
    and step: "\<And>acc v acc' v'. I acc \<Longrightarrow> find_more acc v = (Inr acc', v') \<Longrightarrow> I acc'"
    and "find_event_loop T find_more deadline acc w = Some (r, w')" and "I acc"
  shows "case r of
      Inr b \<Rightarrow> (if b then \<exists>acc'. I acc' \<and> fst acc' \<le> 0 else deadline < clk w' \<and> 0 < fst acc)
    | Inl e \<Rightarrow> \<exists>acc' v. I acc' \<and> fst (find_more acc' v) = Inl e"
proof -
  let ?V = "\<lambda>acc r w'. I acc \<longrightarrow> (case r of
      Inr b \<Rightarrow> (if b then \<exists>acc'. I acc' \<and> fst acc' \<le> 0 else deadline < clk w' \<and> 0 < fst acc)
    | Inl e \<Rightarrow> \<exists>acc' v. I acc' \<and> fst (find_more acc' v) = Inl e)"
  let ?P = "\<lambda>T0 f0 d0 acc w (r, w'). T0 = T \<longrightarrow> f0 = find_more \<longrightarrow> d0 = deadline \<longrightarrow> ?V acc r w'"
  have "?P T find_more deadline acc w (r, w')"
  proof (rule find_event_loop.raw_induct [where P = ?P, OF _ assms(3)])
    fix rec T0 f0 d0 acc w res
    assume IH: "\<And>T0 f0 d0 acc w res. rec T0 f0 d0 acc w = Some res \<Longrightarrow> ?P T0 f0 d0 acc w res"
      and eq: "(if fst acc \<le> 0 then Some (Inr True, w)
        else case os_now T0 w of (now, w1) \<Rightarrow>
         if d0 < now then Some (Inr False, w1)
         else case f0 acc w1 of
              (Inl e, w2) \<Rightarrow> Some (Inl e, w2)
            | (Inr acc', w2) \<Rightarrow> rec T0 f0 d0 acc' w2) = Some res"
    obtain now w1 where now: "os_now T0 w = (now, w1)" by fastforce
    obtain x w2 where more: "f0 acc w1 = (x, w2)" by fastforce
    show "?P T0 f0 d0 acc w res"
    proof (cases "0 < fst acc \<and> now \<le> d0")
      case False
      then show ?thesis using eq now os_now_bounds [OF assms(1), of w now w1] by (cases acc) (auto split: if_splits; blast)
    next
      case True
      show ?thesis
      proof (cases x)
        case (Inl e)
        with True eq now more have res: "res = (Inl e, w2)" by simp
        from Inl more have "fst (f0 acc w1) = Inl e" by simp
        with res show ?thesis by (cases acc) (auto; blast)
      next
        case (Inr acc')
        with True eq now more have "rec T0 f0 d0 acc' w2 = Some res" by simp
        moreover have "f0 = find_more \<Longrightarrow> I acc \<Longrightarrow> I acc'" using step [of acc w1 acc' w2] more Inr by simp
        ultimately show ?thesis using IH [of T0 f0 d0 acc' w2 res] True by (cases res) (auto split: sum.splits)
      qed
    qed
  qed
  with assms(4) show ?thesis by simp
qed

section \<open>What \<open>find_event\<close> reports\<close>

definition hit :: "string \<Rightarrow> int \<Rightarrow> pyval \<Rightarrow> bool" where
  "hit content last_id ev \<longleftrightarrow> describes content ev = Inr True \<and> (\<exists>i. event_id ev = Inr i \<and> last_id < i)"

lemma note_events_spec:
  assumes "note_events content last_id evs m found = Inr (m', found')"
  shows "\<exists>ids. found' = found @ ids \<and> m' = m - int (length ids) \<and>
    map Inr ids = map event_id (filter (hit content last_id) evs)"
  using assms
proof (induction content last_id evs m found rule: note_events.induct)
  case (2 content last_id ev evs m found)
  then obtain i b where i: "event_id ev = Inr i" and b: "describes content ev = Inr b"
    by (auto split: sum.splits)
  show ?case
  proof (cases "b \<and> last_id < i")
    case True
    with 2 i b obtain ids where "found' = (found @ [i]) @ ids \<and> m' = m - 1 - int (length ids) \<and>
        map Inr ids = map event_id (filter (hit content last_id) evs)"
      by auto
    then have "found' = found @ (i # ids) \<and> m' = m - int (length (i # ids)) \<and>
        map Inr (i # ids) = map event_id (filter (hit content last_id) (ev # evs))"
      using True i b by (simp add: hit_def)
    then show ?thesis by blast
  next
    case False
    with 2 i b show ?thesis by (auto simp: hit_def)
  qed
qed simp

text \<open>The engine lists no event twice in one answer.\<close>

definition unique_ids :: "'w rest_env \<Rightarrow> int \<Rightarrow> int \<Rightarrow> int \<Rightarrow> bool" where
  "unique_ids EV code last_id max_events \<longleftrightarrow>
     (\<forall>v evs v'. get_all_events_from_specific_event_id EV code last_id max_events v = (Inr evs, v') \<longrightarrow>
        distinct (map event_id evs))"

text \<open>An event id that an answer of the engine gave to an event that counts.\<close>

definition reported :: "'w rest_env \<Rightarrow> int \<Rightarrow> string \<Rightarrow> int \<Rightarrow> int \<Rightarrow> int \<Rightarrow> bool" where
  "reported EV code content last_id max_events i \<longleftrightarrow> last_id < i \<and>
     (\<exists>v evs v'. get_all_events_from_specific_event_id EV code last_id max_events v = (Inr evs, v') \<and>
        (\<exists>ev \<in> set evs. event_id ev = Inr i \<and> describes content ev = Inr True))"

lemma find_round_step:
  assumes "unique_ids EV code last_id max_events"
    and "find_round EV code content last_id max_events acc v = (Inr acc', v')" and "distinct (snd acc)"
  shows "\<exists>ids. snd acc' = snd acc @ ids \<and> fst acc' = fst acc - int (length ids) \<and> distinct (snd acc') \<and>
    (\<forall>i \<in> set ids. reported EV code content last_id max_events i)"
proof -
  let ?p = "\<lambda>v. res_bind (event_id v) (\<lambda>i. Inr (i \<notin> set (snd acc)))"
  from assms(2) obtain evs v1 new where evs: "get_all_events_from_specific_event_id EV code last_id max_events v = (Inr evs, v1)"
    and new: "filter_res ?p evs = Inr new" and note_ev: "note_events content last_id new (fst acc) (snd acc) = Inr acc'"
    unfolding find_round_def by (auto simp: lift_res_def elim!: bindE_InrE)
  obtain m' found' where acc': "acc' = (m', found')" by fastforce
  from note_events_spec [OF note_ev [unfolded acc']] obtain ids where ids: "found' = snd acc @ ids"
    "m' = fst acc - int (length ids)" "map Inr ids = map event_id (filter (hit content last_id) new)" by blast
  note new' = filter_res_Inr [OF new]
  have "distinct (map event_id evs)" using assms(1) evs unfolding unique_ids_def by blast
  then have "distinct (map event_id (filter (hit content last_id) new))"
    unfolding new' filter_filter by (rule distinct_map_filter)
  then have "distinct ids" unfolding ids(3) [symmetric] by (simp add: distinct_map)
  moreover have "i \<notin> set (snd acc) \<and> reported EV code content last_id max_events i" if "i \<in> set ids" for i
  proof -
    from that have "Inr i \<in> set (map event_id (filter (hit content last_id) new))" unfolding ids(3) [symmetric] by simp
    then obtain ev where "ev \<in> set new" "hit content last_id ev" "event_id ev = Inr i" by auto
    with new' evs show ?thesis by (auto simp: hit_def reported_def)
  qed
  ultimately show ?thesis using assms(3) ids acc' by auto
qed

lemma events_ticks:
  assumes "ticks clk (srv EV)" and "find_round EV code content last_id max_events acc v = (Inr acc', v')"
  shows "server_time clk v + 1 \<le> server_time clk v'"
proof -
  from assms(2) obtain x where "query_events EV (''type='' @ show_int code) max_events v = (Inr x, v')"
    unfolding find_round_def get_all_events_from_specific_event_id_def get_all_events_by_event_code_def
    by (auto simp: lift_res_def elim!: bindE_InrE)
  then show ?thesis unfolding query_events_def query_with_def by (rule query_ticks [OF assms(1)])
qed

text \<open>
  \<open>find_event\<close> comes back when every answered request takes time. True means that the
  engine has reported as many events as asked for, with different ids, newer than the given
  one and with the text in their description; False that events were still missing past the
  deadline; an error is one of the last event's id or of a round.
\<close>

theorem find_event_verdict:
  fixes T :: "'w rest_st os_time"
  assumes "clock_laws T (server_time clk)" and "ticks clk (srv EV)"
    and "event_id last_event = Inr last_id" and "unique_ids EV code last_id max_events"
  shows "\<exists>r w'. find_event T EV last_event code content matches t max_events w = Some (r, w') \<and>
    (case r of
       Inr True \<Rightarrow> \<exists>ids. matches \<le> int (length ids) \<and> distinct ids \<and> (\<forall>i \<in> set ids. reported EV code content last_id max_events i)
     | Inr False \<Rightarrow> 0 < matches \<and> server_time clk w + t < server_time clk w'
     | Inl e \<Rightarrow> \<exists>acc v. fst (find_round EV code content last_id max_events acc v) = Inl e)"
proof -
  let ?more = "find_round EV code content last_id max_events"
  let ?I = "\<lambda>acc. int (length (snd acc)) = matches - fst acc \<and> distinct (snd acc) \<and>
    (\<forall>i \<in> set (snd acc). reported EV code content last_id max_events i)"
  obtain start w1 where now: "os_now T w = (start, w1)" by fastforce
  have "\<exists>res. find_event_loop T ?more (start + t) (matches, []) w1 = Some res"
    by (rule find_event_loop_ends [OF assms(1)]) (rule events_ticks [OF assms(2)])
  then obtain r w' where loop: "find_event_loop T ?more (start + t) (matches, []) w1 = Some (r, w')" by auto
  have step: "?I acc \<Longrightarrow> ?more acc v = (Inr acc', v') \<Longrightarrow> ?I acc'" for acc v acc' v'
    using find_round_step [OF assms(4), of content acc v acc' v'] by auto
  have "case r of Inr b \<Rightarrow> (if b then \<exists>acc'. ?I acc' \<and> fst acc' \<le> 0 else start + t < server_time clk w' \<and> 0 < fst (matches, [] :: int list))
    | Inl e \<Rightarrow> \<exists>acc' v. ?I acc' \<and> fst (?more acc' v) = Inl e"
    by (rule find_event_loop_verdict [where I = ?I, OF assms(1) _ loop]) (erule (1) step, simp)
  moreover have "find_event T EV last_event code content matches t max_events w = Some (r, w')"
    using now loop assms(3) by (simp add: find_event_def)
  moreover have "server_time clk w \<le> start" using os_now_bounds [OF assms(1) now] by simp
  moreover have "\<exists>acc. ?I acc \<and> fst acc \<le> 0 \<Longrightarrow> \<exists>ids. matches \<le> int (length ids) \<and> distinct ids \<and>
      (\<forall>i \<in> set ids. reported EV code content last_id max_events i)"
    by (elim exE, rule exI [of _ "snd _"]) auto
  ultimately show ?thesis
    by (intro exI [of _ r] exI [of _ w']) (cases r; (auto split: bool.splits if_splits; blast))
qed

section \<open>Recent events\<close>

lemma max_event_id_Some:
  assumes "get_max_event_id EV query max_events w = (Inr (Some m), w')"
  shows "\<exists>evs. query_events EV query max_events w = (Inr (PList evs), w') \<and> (\<exists>ev \<in> set evs. event_id ev = Inr m) \<and>
    (\<forall>ev \<in> set evs. \<exists>i. event_id ev = Inr i \<and> i \<le> m)"
proof -
  from assms obtain v evs ids where v: "query_events EV query max_events w = (Inr v, w')" and evs: "py_iter v = Inr evs"
    and ids: "map_res event_id evs = Inr ids" and m: "py_max id ids = Inr m"
    unfolding get_max_event_id_def by (auto simp: lift_res_def ret_def split: if_splits elim!: bindE_InrE)
  note eq = map_res_Inr [OF ids] and max = py_max_Inr [OF m]
  have "v = PList evs"
  proof (cases v)
    case (PStr s)
    with evs ids m show ?thesis by (cases s) (auto simp: event_id_def getattr_def py_max_def)
  qed (use evs in auto)
  moreover have "\<exists>ev \<in> set evs. event_id ev = Inr m"
  proof -
    from max have "Inr m \<in> set (map event_id evs)" unfolding eq by simp
    then show ?thesis by auto
  qed
  moreover have "\<exists>i. event_id ev = Inr i \<and> i \<le> m" if "ev \<in> set evs" for ev
  proof -
    from that have "event_id ev \<in> set (map Inr ids)" unfolding eq [symmetric] by simp
    with max show ?thesis by auto
  qed
  ultimately show ?thesis using v by blast
qed

text \<open>
  \<open>search_for_recent_event\<close> counts after the newest marker: an answer equal to
  \<open>positive\<close> means that the event with the greatest id that matches the first query was found
  and that the second query, sent with this id, listed exactly as many events as expected;
  without a marker the answer is False whatever \<open>positive\<close> says.
\<close>

theorem recent_event_counts:
  assumes "search_for_recent_event EV positive start_query query n max_events w = (Inr b, w')"
  shows "(\<exists>evs m w1 v coll. query_events EV start_query max_events w = (Inr (PList evs), w1) \<and>
      (\<exists>ev \<in> set evs. event_id ev = Inr m) \<and> (\<forall>ev \<in> set evs. \<exists>i. event_id ev = Inr i \<and> i \<le> m) \<and>
      query_after EV query (show_int m) w1 = (Inr v, w') \<and> sized v = Inr coll \<and>
      b = (positive = (case coll of None \<Rightarrow> False | Some l \<Rightarrow> int (length l) = n))) \<or>
    \<not> b \<and> (\<exists>v. query_events EV start_query max_events w = (Inr v, w') \<and> \<not> truthy v)"
proof -
  from assms obtain start w1 where start: "get_max_event_id EV start_query max_events w = (Inr start, w1)"
    and rest: "(case start of
       None \<Rightarrow> ret False
     | Some i \<Rightarrow>
         bindE (query_after EV query (show_int i)) (\<lambda>found_ev.
         bindE (lift_res (sized found_ev)) (\<lambda>coll.
         ret (positive = compareCollectionSize coll (Exactly n))))) w1 = (Inr b, w')"
    unfolding search_for_recent_event_def by (rule bindE_InrE)
  show ?thesis
  proof (cases start)
    case None
    with rest have "w1 = w'" "\<not> b" by (auto simp: ret_def)
    moreover have "\<exists>v. query_events EV start_query max_events w = (Inr v, w1) \<and> \<not> truthy v"
      using start None unfolding get_max_event_id_def
      by (auto simp: lift_res_def ret_def split: if_splits elim!: bindE_InrE)
    ultimately show ?thesis by simp
  next
    case (Some m)
    with rest obtain v coll where "query_after EV query (show_int m) w1 = (Inr v, w')" "sized v = Inr coll"
      "b = (positive = compareCollectionSize coll (Exactly n))"
      by (auto simp: lift_res_def ret_def elim!: bindE_InrE)
    moreover from this have "b = (positive = (case coll of None \<Rightarrow> False | Some l \<Rightarrow> int (length l) = n))"
      by (cases coll) auto
    ultimately show ?thesis
      using max_event_id_Some [OF start [unfolded Some]] by blast
  qed
qed

section \<open>Witnesses\<close>

definition demo_event :: "string \<Rightarrow> string \<Rightarrow> pyval" where
  "demo_event i d = PObj ''Event'' [(''id'', PStr i), (''description'', PStr d)]"

definition demo_events :: "nat rest_env" where
  "demo_events = demo_rest\<lparr>element_name := ''event'', collection_name := ''events'',
     links := [(''events/search'', ''/api/events;from={event_id}?search={query}'')],
     parse := (\<lambda>s. Inr (PObj ''Events'' [(''event'',
       PList [demo_event ''12'' ''VM a started'', demo_event ''11'' ''VM b stopped''])]))\<rparr>"

lemma demo_recent_event: "search_for_recent_event demo_events True ''a'' ''b'' 2 100 demo_rest_st =
    (Inr True, snd (search_for_recent_event demo_events True ''a'' ''b'' 2 100 demo_rest_st))"
  by code_simp

theorem recent_event_counts_witness:
  "\<exists>evs w1. query_events demo_events ''a'' 100 demo_rest_st = (Inr (PList evs), w1)"
  using recent_event_counts [OF demo_recent_event] by blast

lemma query_answer:
  assumes "query_with E constraint params w = (Inr x, w')"
  shows "x = PNone \<or> (\<exists>body v. parse E body = Inr v \<and> getattr v (element_name E) = Inr x)"
  using assms unfolding query_with_def rest_query_def
  by (auto simp: lift_res_def ret_def split: if_splits elim!: bindE_InrE)

lemma demo_unique_ids: "unique_ids demo_events code 10 100"
proof -
  let ?l = "[demo_event ''12'' ''VM a started'', demo_event ''11'' ''VM b stopped'']"
  have "distinct (map event_id evs)"
    if got: "get_all_events_from_specific_event_id demo_events code 10 100 v = (Inr evs, v')" for v evs v'
  proof -
    from got obtain x l v1 where q: "query_with demo_events (''type='' @ show_int code) [(''max'', show_int 100)] v = (Inr x, v1)"
      and l: "py_iter x = Inr l" "filter_res (newer_than (PInt 10)) l = Inr evs"
      unfolding get_all_events_from_specific_event_id_def get_all_events_by_event_code_def query_events_def
      by (auto simp: lift_res_def elim!: bindE_InrE)
    from query_answer [OF q] l(1) have "x = PList ?l" by (auto simp: demo_events_def getattr_def)
    with l(1) have "l = ?l" by simp
    with filter_res_Inr [OF l(2)] have "evs = filter (\<lambda>x. newer_than (PInt 10) x = Inr True) ?l" by (simp only:)
    moreover have "distinct (map event_id ?l)" by code_simp
    ultimately show ?thesis by (simp only: distinct_map_filter)
  qed
  then show ?thesis unfolding unique_ids_def by blast
qed

theorem find_event_verdict_witness:
  "\<exists>r w'. find_event demo_clock demo_events (demo_event ''10'' []) 30 ''VM'' 2 210 100 demo_rest_st = Some (r, w')"
proof -
  have "ticks int (srv demo_events)" by (simp add: ticks_def demo_events_def demo_rest_def demo_srv_def)
  moreover have "event_id (demo_event ''10'' []) = Inr 10" by code_simp
  ultimately show ?thesis
    using find_event_verdict [OF demo_clock_laws _ _ demo_unique_ids] by fast
qed

end
