(* ===== verification/General.thy ===== *)
theory General
  imports Test_Utils
begin

text \<open>
  \<open>art/rhevm_api/tests_lib/low_level/general.py\<close>: making data-structure objects, names of
  objects, the product name and version of the engine and its summary of counts. The texts that
  \<open>get_log_msg\<close> and the \<open>generate_logs\<close> decorator write are not modelled: a decorated function is
  the function. Also here: the contract of a search by name that the libraries of named
  elements rely on.
\<close>

section \<open>Objects\<close>

text \<open>\<open>getDS(object_name)()\<close> is \<open>ds object_name\<close>; attributes are set in the order of the keywords.\<close>

fun set_known_attrs :: "pyval \<Rightarrow> (string \<times> pyval) list \<Rightarrow> exn + pyval" where
  "set_known_attrs v [] = Inr v"
| "set_known_attrs v ((key, val) # kw) =
     (if hasattr v key then set_known_attrs (setattr v key val) kw else Inl (TestExc RHEVMEntityException))"

definition prepare_ds_object :: "(string \<Rightarrow> pyval) \<Rightarrow> string \<Rightarrow> (string \<times> pyval) list \<Rightarrow> exn + pyval" where
  "prepare_ds_object ds object_name kw = set_known_attrs (ds object_name) kw"

definition find_by :: "'w rest_env \<Rightarrow> string \<Rightarrow> pyval \<Rightarrow> ('w rest_st, pyval) comp" where
  "find_by E attribute v = rest_find E v attribute True PNone False []"

definition get_object_name_by_id :: "'w rest_env \<Rightarrow> pyval \<Rightarrow> ('w rest_st, pyval) comp" where
  "get_object_name_by_id E object_id = bindE (find_by E ''id'' object_id) (\<lambda>x. lift_res (getattr x ''name''))"

text \<open>\<open>util.get(href='', abs_link=False)\<close> reads the root of the API, and \<open>get(abs_link=False)\<close> a collection.\<close>

definition get_root :: "'w rest_env \<Rightarrow> ('w rest_st, pyval) comp" where
  "get_root U = rest_get U (Some []) (get_default\<lparr>ga_abs_link := False\<rparr>)"

definition get_all :: "'w rest_env \<Rightarrow> ('w rest_st, pyval) comp" where
  "get_all E = rest_get E None (get_default\<lparr>ga_abs_link := False\<rparr>)"

section \<open>The engine\<close>

definition checkResponsesAreXsdValid :: "('w rest_st, bool) comp" where
  "checkResponsesAreXsdValid = bindE (gets xsd_schema_errors) (\<lambda>errors. ret (errors = []))"

definition getProductName :: "'w rest_env \<Rightarrow> ('w rest_st, bool \<times> pyval) comp" where
  "getProductName U =
     try_except
       (bindE (get_root U) (\<lambda>root.
        bindE (lift_res (getattr_chain [''product_info'', ''name''] root)) (\<lambda>n. ret (True, n))))
       IndexError (\<lambda>_. ret (False, PStr []))"

definition checkProductName :: "'w rest_env \<Rightarrow> string \<Rightarrow> ('w rest_st, bool) comp" where
  "checkProductName U n =
     bindE (getProductName U) (\<lambda>(status, product_name).
     ret (status \<and> py_eq product_name (PStr n)))"

fun convToInt :: "pyval \<Rightarrow> exn + bool" where
  "convToInt num = (case py_int num of Inr i \<Rightarrow> Inr True | Inl e \<Rightarrow> if isinstance e ValueError then Inr False else Inl e)"

text \<open>
  \<open>StrictVersion\<close> of the standard library is the parameter \<open>strict\<close>: a comparable value, or
  ValueError. The value \<open>version_caps\<close> of the first statement is unbound after a KeyError.
\<close>

fun has_version :: "(string \<Rightarrow> 'v option) \<Rightarrow> 'v \<Rightarrow> pyval list \<Rightarrow> exn + bool" where
  "has_version strict system_version [] = Inr False"
| "has_version strict system_version (v # vs) =
     res_bind (getattr v ''id'') (\<lambda>i.
     case i of
       PStr s \<Rightarrow>
         (case strict s of
            None \<Rightarrow> Inr False
          | Some cv \<Rightarrow> if system_version = cv then Inr True else has_version strict system_version vs)
     | PNone \<Rightarrow> Inl AttributeError
     | _ \<Rightarrow> Inl TypeError)"

definition check_system_version_tag ::
  "(string \<Rightarrow> 'v option) \<Rightarrow> 'w rest_env \<Rightarrow> 'w rest_env \<Rightarrow> bool \<Rightarrow> ('w rest_st, bool) comp" where
  "check_system_version_tag strict U P positive =
     (if \<not> positive then raise AssertionError
      else
        bindE (try_except (bindE (get_all P) (\<lambda>v. ret (Some v))) KeyError (\<lambda>_. ret None)) (\<lambda>version_caps.
        bindE (get_root U) (\<lambda>root.
        bindE (lift_res (getattr_chain [''product_info'', ''version''] root)) (\<lambda>product_version.
        bindE (lift_res (getattr product_version ''major'')) (\<lambda>major.
        bindE (lift_res (getattr product_version ''minor'')) (\<lambda>minor.
        bindE (lift_res (case strict (py_str major @ ''.'' @ py_str minor) of None \<Rightarrow> Inl ValueError | Some v \<Rightarrow> Inr v)) (\<lambda>system_version.
        if \<not> truthy product_version then ret False
        else
          (case version_caps of
             None \<Rightarrow> raise UnboundLocalError
           | Some caps \<Rightarrow>
               lift_res (has_version strict system_version (case caps of PList l \<Rightarrow> l | v \<Rightarrow> [v]))))))))))"

section \<open>The summary\<close>

definition summary_count :: "pyval \<Rightarrow> string \<Rightarrow> string \<Rightarrow> exn + pyval" where
  "summary_count root coll a = getattr_chain [''summary'', coll, a] root"

text \<open>\<open>compareCollectionSize\<close> with a number from the summary.\<close>

definition same_size :: "pyval list option \<Rightarrow> pyval \<Rightarrow> bool" where
  "same_size coll v = (case v of PInt n \<Rightarrow> compareCollectionSize coll (Exactly n) | _ \<Rightarrow> False)"

text \<open>A total: all elements of a collection. An active count: those with the given status.\<close>

definition check_total :: "'w rest_env \<Rightarrow> pyval \<Rightarrow> string \<Rightarrow> ('w rest_st, bool) comp" where
  "check_total E root coll =
     bindE (get_all E) (\<lambda>v.
     bindE (lift_res (summary_count root coll ''total'')) (\<lambda>n.
     bindE (lift_res (sized v)) (\<lambda>l. ret (same_size l n))))"

definition check_active :: "'w rest_env \<Rightarrow> pyval \<Rightarrow> string \<Rightarrow> ('w rest_st, bool) comp" where
  "check_active E root coll =
     bindE (get_all E) (\<lambda>v.
     bindE (lift_res (summary_count root coll ''active'')) (\<lambda>n.
     bindE (lift_res (py_iter v)) (\<lambda>xs.
     bindE (lift_res (filter_res (\<lambda>x. res_bind (getattr x ''status'') (\<lambda>st. Inr (py_eq st (PStr ''up'')))) xs)) (\<lambda>l.
     ret (same_size (Some l) n)))))"

text \<open>\<open>len(users) <= total\<close>; Python orders a number after \<open>None\<close> and before a string.\<close>

definition check_users :: "'w rest_env \<Rightarrow> pyval \<Rightarrow> ('w rest_st, bool) comp" where
  "check_users E root =
     bindE (get_all E) (\<lambda>v.
     bindE (lift_res (summary_count root ''users'' ''total'')) (\<lambda>n.
     bindE (lift_res (sized v)) (\<lambda>l.
     (case l of
        None \<Rightarrow> raise TypeError
      | Some us \<Rightarrow> ret (sort_key_of (PInt (int (length us))) \<le> sort_key_of n)))))"

definition active_storage :: "pyval list \<Rightarrow> pyval list" where
  "active_storage sds = filter (\<lambda>x. case getattr x ''status'' of Inl e \<Rightarrow> False | Inr st \<Rightarrow> py_eq st (PStr ''active'')) sds"

definition check_active_storage :: "'w rest_env \<Rightarrow> 'w rest_env \<Rightarrow> pyval \<Rightarrow> ('w rest_st, bool) comp" where
  "check_active_storage U DC root =
     bindE (lift_res (summary_count root ''storage_domains'' ''active'')) (\<lambda>n.
     bindE (get_all DC) (\<lambda>v.
     bindE (lift_res (py_iter v)) (\<lambda>dcs.
     bindE (for_each dcs (\<lambda>dc acc.
       bindE (getElemFromLink U dc ''storagedomains'' ''storage_domain'' False False) (\<lambda>l.
       bindE (lift_res (py_iter l)) (\<lambda>sds. ret (acc @ active_storage sds)))) []) (\<lambda>sd_active.
     ret (same_size (Some sd_active) n)))))"

definition check_storage_total :: "'w rest_env \<Rightarrow> pyval \<Rightarrow> ('w rest_st, bool) comp" where
  "check_storage_total SD root =
     bindE (lift_res (summary_count root ''storage_domains'' ''total'')) (\<lambda>n.
     bindE (get_all SD) (\<lambda>v.
     bindE (lift_res (sized v)) (\<lambda>l. ret (same_size l n))))"

definition checkSummary ::
  "'w rest_env \<Rightarrow> 'w rest_env \<Rightarrow> 'w rest_env \<Rightarrow> 'w rest_env \<Rightarrow> 'w rest_env \<Rightarrow> 'w rest_env \<Rightarrow> ('w rest_st, bool) comp" where
  "checkSummary U VM HOST USER SD DC =
     bindE (get_root U) (\<lambda>root.
     for_each
       [check_total VM root ''vms'', check_active VM root ''vms'', check_total HOST root ''hosts'', check_active HOST root ''hosts'',
        check_users USER root, check_storage_total SD root, check_active_storage U DC root]
       (\<lambda>check status. bindE check (\<lambda>b. ret (status \<and> b))) True)"

section \<open>The contract of a search\<close>

text \<open>
  The libraries of named elements search by an attribute and act on what was found. They rely
  on this: what is found has the attribute, and a search keeps an invariant of the world.
\<close>

locale element_search =
  fixes find :: "'k \<Rightarrow> ('s, pyval) comp" and is_called :: "'k \<Rightarrow> pyval \<Rightarrow> bool"
  assumes found: "find k s = (Inr x, s') \<Longrightarrow> is_called k x"
begin

lemma act_on_found:
  assumes "bindE (find k) act s = (Inr y, s')"
  shows "\<exists>x s1. find k s = (Inr x, s1) \<and> is_called k x \<and> act x s1 = (Inr y, s')"
  using assms by (elim bindE_InrE) (blast intro: found)

lemma nothing_found: "find k s = (Inl e, s') \<Longrightarrow> bindE (find k) act s = (Inl e, s')"
  by (simp add: bindE_def)

lemma act_error:
  assumes "bindE (find k) act s = (Inl e, s')"
  shows "find k s = (Inl e, s') \<or> (\<exists>x s1. find k s = (Inr x, s1) \<and> is_called k x \<and> act x s1 = (Inl e, s'))"
  using assms by (elim bindE_InlE) (blast intro: found)+

end

locale quiet_search = element_search +
  fixes I :: "'s \<Rightarrow> bool"
  assumes search_preserves: "preserves I (find k)"
begin

lemma act_preserves: "(\<And>x. preserves I (act x)) \<Longrightarrow> preserves I (bindE (find k) act)"
  by (intro preserves_intros search_preserves)

end

text \<open>The search of the REST backend keeps the contract.\<close>

lemma rest_find_found:
  assumes "rest_find E v attribute abs_link collection all_content [] s = (Inr x, s')"
  shows "\<exists>u. getattr x attribute = Inr u \<and> py_eq u v"
proof -
  from assms obtain xs rs where "filter_chain [attribute] v xs = Inr rs" and "pick_unique rs = Inr x"
    unfolding rest_find_def Let_def
    by (auto simp: lift_res_def raise_def split: if_splits elim!: bindE_InrE)
  from this(2) have "x \<in> set rs" by (auto simp: pick_unique_def split: list.splits)
  with filter_chain_Inr [OF \<open>filter_chain [attribute] v xs = Inr rs\<close>]
  have "\<exists>u. getattr_chain [attribute] x = Inr u \<and> py_eq u v" by simp
  then show ?thesis by (auto split: sum.splits)
qed

definition has_attr :: "string \<Rightarrow> pyval \<Rightarrow> pyval \<Rightarrow> bool" where
  "has_attr attribute v x \<longleftrightarrow> (\<exists>u. getattr x attribute = Inr u \<and> py_eq u v)"

interpretation by_attr: quiet_search "find_by E attribute" "has_attr attribute" "headers_are H" for E attribute H
proof unfold_locales
  show "find_by E attribute k s = (Inr x, s') \<Longrightarrow> has_attr attribute k x" for k s x s'
    by (simp add: find_by_def has_attr_def rest_find_found)
  show "preserves (headers_are H) (find_by E attribute k)" for k
    unfolding find_by_def by (rule preserves_find)
qed

end
