(* ===== verification/Named_Elements.thy ===== *)
theory Named_Elements
  imports General
begin

text \<open>
  \<open>tags.py\<close>, \<open>bookmarks.py\<close> and \<open>mac_pool.py\<close> of \<open>art/rhevm_api/tests_lib/low_level\<close>:
  elements that are made, changed and removed by their name. Then the composition with the
  engine: against an engine that serves a collection as its API documents it, a removal by
  name is the removal from the collection.
\<close>

section \<open>What the three libraries share\<close>

definition update_default :: update_args where
  "update_default = \<lparr>ua_expected_pos = POSITIVE_CODES, ua_expected_neg = NEGATIVE_CODES, ua_current = False, ua_compare = True\<rparr>"

definition create_element :: "'w rest_env \<Rightarrow> pyval \<Rightarrow> bool \<Rightarrow> ('w rest_st, bool) comp" where
  "create_element E x positive = bindE (rest_create E x positive create_default) (\<lambda>r. ret (snd r))"

definition update_element :: "'w rest_env \<Rightarrow> pyval \<Rightarrow> pyval \<Rightarrow> bool \<Rightarrow> ('w rest_st, bool) comp" where
  "update_element E x y positive = bindE (rest_update E x y positive update_default) (\<lambda>r. ret (snd r))"

definition delete_element :: "'w rest_env \<Rightarrow> pyval \<Rightarrow> bool \<Rightarrow> ('w rest_st, bool) comp" where
  "delete_element E x positive = rest_delete E x positive [200, 202, 204] NEGATIVE_CODES []"

text \<open>\<open>if k in kwargs: obj.set_k(kwargs.get(k))\<close>.\<close>

definition set_given :: "(string \<times> pyval) list \<Rightarrow> string \<Rightarrow> pyval \<Rightarrow> pyval" where
  "set_given kw k v = (case map_of kw k of None \<Rightarrow> v | Some x \<Rightarrow> setattr v k x)"

section \<open>Tags\<close>

definition prepareTagObject :: "'w rest_env \<Rightarrow> (string \<times> pyval) list \<Rightarrow> ('w rest_st, pyval) comp" where
  "prepareTagObject E kw =
     (let tag = set_given kw ''description'' (set_given kw ''name'' (new_ds E ''Tag'')) in
      case map_of kw ''parent'' of
        None \<Rightarrow> ret tag
      | Some p \<Rightarrow> bindE (find_by E ''name'' p) (\<lambda>parent. ret (setattr tag ''parent'' parent)))"

definition addTag :: "'w rest_env \<Rightarrow> bool \<Rightarrow> (string \<times> pyval) list \<Rightarrow> ('w rest_st, bool) comp" where
  "addTag E positive kw = bindE (prepareTagObject E kw) (\<lambda>tag. create_element E tag positive)"

definition updateTag :: "'w rest_env \<Rightarrow> bool \<Rightarrow> string \<Rightarrow> (string \<times> pyval) list \<Rightarrow> ('w rest_st, bool) comp" where
  "updateTag E positive tag kw =
     bindE (find_by E ''name'' (PStr tag)) (\<lambda>tagObj.
     bindE (prepareTagObject E kw) (\<lambda>tagUpd. update_element E tagObj tagUpd positive))"

definition removeTag :: "'w rest_env \<Rightarrow> bool \<Rightarrow> string \<Rightarrow> ('w rest_st, bool) comp" where
  "removeTag E positive tag = bindE (find_by E ''name'' (PStr tag)) (\<lambda>tagObj. delete_element E tagObj positive)"

section \<open>Bookmarks\<close>

definition create_bookmark :: "'w rest_env \<Rightarrow> pyval \<Rightarrow> pyval \<Rightarrow> ('w rest_st, bool) comp" where
  "create_bookmark E n v = create_element E (setattr (setattr (new_ds E ''Bookmark'') ''name'' n) ''value'' v) True"

definition get_bookmark_object :: "'w rest_env \<Rightarrow> string \<Rightarrow> string \<Rightarrow> ('w rest_st, pyval) comp" where
  "get_bookmark_object E bookmark_name attribute = find_by E attribute (PStr bookmark_name)"

definition update_bookmark :: "'w rest_env \<Rightarrow> string \<Rightarrow> pyval \<Rightarrow> pyval \<Rightarrow> ('w rest_st, bool) comp" where
  "update_bookmark E bookmark n v =
     bindE (get_bookmark_object E bookmark ''name'') (\<lambda>bookmark_obj.
     (let b0 = new_ds E ''Bookmark'';
          b1 = (if truthy n then setattr b0 ''name'' n else b0);
          b2 = (if truthy v then setattr b1 ''value'' v else b1)
      in update_element E bookmark_obj b2 True))"

definition remove_bookmark :: "'w rest_env \<Rightarrow> string \<Rightarrow> ('w rest_st, bool) comp" where
  "remove_bookmark E bookmark = bindE (get_bookmark_object E bookmark ''name'') (\<lambda>x. delete_element E x True)"

definition get_bookmark_list :: "'w rest_env \<Rightarrow> ('w rest_st, pyval) comp" where
  "get_bookmark_list E = get_all E"

definition get_bookmark_names_list :: "'w rest_env \<Rightarrow> ('w rest_st, pyval list) comp" where
  "get_bookmark_names_list E =
     bindE (get_bookmark_list E) (\<lambda>v.
     bindE (lift_res (py_iter v)) (\<lambda>bs. lift_res (map_res (\<lambda>b. getattr b ''name'') bs)))"

section \<open>MAC pools\<close>

definition get_mac_pool :: "'w rest_env \<Rightarrow> string \<Rightarrow> ('w rest_st, pyval) comp" where
  "get_mac_pool E pool_name = find_by E ''name'' (PStr pool_name)"

definition get_mac_pool_from_cluster :: "'w rest_env \<Rightarrow> 'w rest_env \<Rightarrow> string \<Rightarrow> ('w rest_st, pyval) comp" where
  "get_mac_pool_from_cluster E CL cluster =
     bindE (find_by CL ''name'' (PStr cluster)) (\<lambda>cluster_obj.
     bindE (lift_res (getattr_chain [''mac_pool'', ''id''] cluster_obj)) (\<lambda>i. find_by E ''id'' i))"

definition get_mac_pool_ranges_list :: "pyval \<Rightarrow> exn + pyval" where
  "get_mac_pool_ranges_list pool =
     res_bind (getattr pool ''name'') (\<lambda>_. getattr_chain [''ranges'', ''range''] pool)"

definition get_mac_pool_range_obj :: "pyval \<Rightarrow> string \<Rightarrow> string \<Rightarrow> exn + pyval option" where
  "get_mac_pool_range_obj pool start fin =
     res_bind (get_mac_pool_ranges_list pool) (\<lambda>v.
     res_bind (py_iter v) (\<lambda>ranges.
     find_res (\<lambda>r. res_bind (getattr r ''from'') (\<lambda>a.
       if a \<noteq> PStr start then Inr False else res_bind (getattr r ''to'') (\<lambda>b. Inr (b = PStr fin)))) ranges))"

definition get_all_mac_pools :: "'w rest_env \<Rightarrow> ('w rest_st, pyval) comp" where
  "get_all_mac_pools E = get_all E"

definition get_mac_range_values :: "pyval \<Rightarrow> exn + (pyval \<times> pyval) list" where
  "get_mac_range_values pool =
     res_bind (get_mac_pool_ranges_list pool) (\<lambda>v.
     res_bind (py_iter v) (\<lambda>ranges.
     map_res (\<lambda>r. res_bind (getattr r ''from'') (\<lambda>a. res_bind (getattr r ''to'') (\<lambda>b. Inr (a, b)))) ranges))"

definition remove_mac_pool :: "'w rest_env \<Rightarrow> string \<Rightarrow> ('w rest_st, bool) comp" where
  "remove_mac_pool E mac_pool_name = bindE (get_mac_pool E mac_pool_name) (\<lambda>x. delete_element E x True)"

definition prepare_range_obj :: "(string \<Rightarrow> pyval) \<Rightarrow> string \<times> string \<Rightarrow> pyval" where
  "prepare_range_obj ds r = setattr (setattr (ds ''Range'') ''from'' (PStr (fst r))) ''to'' (PStr (snd r))"

definition prepare_ranges_obj :: "(string \<Rightarrow> pyval) \<Rightarrow> (string \<times> string) list \<Rightarrow> pyval" where
  "prepare_ranges_obj ds ranges_list =
     (case getattr_opt (ds ''Ranges'') ''range'' of
        Some (PList old) \<Rightarrow> setattr (ds ''Ranges'') ''range'' (PList (old @ map (prepare_range_obj ds) ranges_list))
      | _ \<Rightarrow> ds ''Ranges'')"

text \<open>The keyword \<open>ranges\<close> comes as a list of pairs; an empty list is left as it is.\<close>

definition prepare_macpool_obj ::
  "(string \<Rightarrow> pyval) \<Rightarrow> (string \<times> string) list option \<Rightarrow> (string \<times> pyval) list \<Rightarrow> exn + pyval" where
  "prepare_macpool_obj ds ranges kw =
     prepare_ds_object ds ''MacPool''
       (kw @ (case ranges of None \<Rightarrow> [] | Some [] \<Rightarrow> [(''ranges'', PList [])] | Some l \<Rightarrow> [(''ranges'', prepare_ranges_obj ds l)]))"

definition get_default_mac_pool :: "'w rest_env \<Rightarrow> ('w rest_st, pyval) comp" where
  "get_default_mac_pool E =
     bindE (get_all_mac_pools E) (\<lambda>v.
     bindE (lift_res (py_iter v)) (\<lambda>pools.
     bindE (lift_res (filter_res (\<lambda>x. res_bind (getattr x ''default_pool'') (\<lambda>d. Inr (truthy d))) pools)) (\<lambda>l.
     (case l of [] \<Rightarrow> raise IndexError | p # _ \<Rightarrow> ret p))))"

definition create_mac_pool ::
  "'w rest_env \<Rightarrow> string \<Rightarrow> (string \<times> string) list \<Rightarrow> bool \<Rightarrow> (string \<times> pyval) list \<Rightarrow> ('w rest_st, bool) comp" where
  "create_mac_pool E n ranges positive kw =
     bindE (lift_res (prepare_macpool_obj (new_ds E) (Some ranges) (dict_set kw ''name'' (PStr n)))) (\<lambda>x.
     create_element E x positive)"

definition update_mac_pool ::
  "'w rest_env \<Rightarrow> string \<Rightarrow> (string \<times> string) list option \<Rightarrow> (string \<times> pyval) list \<Rightarrow> ('w rest_st, bool) comp" where
  "update_mac_pool E mac_pool_name ranges kw =
     bindE (get_mac_pool E mac_pool_name) (\<lambda>x.
     bindE (lift_res (prepare_macpool_obj (new_ds E) ranges kw)) (\<lambda>y. update_element E x y True))"

section \<open>Acting on what was named\<close>

text \<open>The three removals are one operation.\<close>

definition remove_by_name :: "'w rest_env \<Rightarrow> string \<Rightarrow> bool \<Rightarrow> ('w rest_st, bool) comp" where
  "remove_by_name E n positive = bindE (find_by E ''name'' (PStr n)) (\<lambda>x. delete_element E x positive)"

lemma removals [simp]:
  "removeTag E positive n = remove_by_name E n positive"
  "remove_bookmark E n = remove_by_name E n True"
  "remove_mac_pool E n = remove_by_name E n True"
  by (simp_all add: removeTag_def remove_bookmark_def remove_mac_pool_def get_mac_pool_def get_bookmark_object_def remove_by_name_def)

section \<open>An engine that serves a collection\<close>

text \<open>
  The engine answers a request, whatever its headers, with a status other than 401 and a
  body that decodes to a text, and its world is the given one afterwards.
\<close>

definition charset_of :: "http_response \<Rightarrow> string" where
  "charset_of resp = (let charset = encoding_from_headers resp in if truthy_opt charset then str_opt charset else ''utf-8'')"

definition answers :: "'w rest_env \<Rightarrow> string \<Rightarrow> string \<Rightarrow> string option \<Rightarrow> 'w \<Rightarrow> int \<Rightarrow> string \<Rightarrow> 'w \<Rightarrow> bool" where
  "answers E m u b w st content w' \<longleftrightarrow> st \<noteq> 401 \<and>
     (\<forall>hs. \<exists>resp t. srv E \<lparr>req_method = m, req_url = u, req_body = b, req_headers = hs\<rparr> w = (Inr resp, w') \<and>
        resp_status resp = st \<and> codec_of E (charset_of resp) (resp_data resp) = Inr t \<and> strip_xml_declaration t = content)"

text \<open>
  A collection \<open>ents\<close> in the world of the engine, as its API documents it: reading lists it and
  changes nothing in it, deleting an element by its address takes it out, and making a
  correlation id does not touch it.
\<close>

definition collection_url :: "'w rest_env \<Rightarrow> string" where
  "collection_url E = (let u = with_max E (the (map_of (links E) (collection_name E))) in if u = [] then ''/'' else u)"

definition with_href :: "string \<Rightarrow> pyval \<Rightarrow> bool" where
  "with_href h x \<longleftrightarrow> getattr x ''href'' = Inr (PStr h)"

definition called :: "string \<Rightarrow> pyval \<Rightarrow> bool" where
  "called n x \<longleftrightarrow> getattr x ''name'' = Inr (PStr n)"

definition serves_collection :: "'w rest_env \<Rightarrow> ('w \<Rightarrow> pyval list) \<Rightarrow> bool" where
  "serves_collection E ents \<longleftrightarrow> map_of (links E) (collection_name E) \<noteq> None \<and>
     (\<forall>w. \<exists>content w' doc. answers E ''GET'' (collection_url E) None w 200 content w' \<and> ents w' = ents w \<and>
        parse E content = Inr doc \<and> getattr_opt doc (element_name E) = Some (PList (ents w))) \<and>
     (\<forall>w h. (\<exists>x \<in> set (ents w). with_href h x) \<longrightarrow> (\<exists>content w'. answers E ''DELETE'' h None w 200 content w' \<and>
        ents w' = filter (\<lambda>y. \<not> with_href h y) (ents w))) \<and>
     (\<forall>w. ents (snd (short_guid E w)) = ents w)"

text \<open>Every element has a name and an address of its own.\<close>

definition well_named :: "pyval list \<Rightarrow> bool" where
  "well_named l \<longleftrightarrow> (\<forall>x \<in> set l. (\<exists>n. called n x) \<and> (\<exists>h. with_href h x)) \<and>
     distinct (map (\<lambda>x. getattr x ''name'') l) \<and> distinct (map (\<lambda>x. getattr x ''href'') l)"

text \<open>The proxy has its configured headers, which it asks for as soon as it has any.\<close>

definition proxy_ready :: "'w rest_st \<Rightarrow> bool" where
  "proxy_ready s \<longleftrightarrow> HTTP_HEADERS (opts (api s)) \<noteq> None"

lemma basic_headers_ready: "HTTP_HEADERS (opts st) \<noteq> None \<Longrightarrow> \<exists>hs. basic_headers st = Inr hs"
  by (auto simp: basic_headers_def Let_def split: option.split)

lemma send_answered:
  assumes "answers E m u b (server (api s)) st content w'" and "proxy_ready s"
  shows "\<exists>r s'. send E (m, u, b) s = (Inr r, s') \<and> ret_status r = st \<and> ret_body r = content \<and>
    server (api s') = w' \<and> proxy_ready s'"
proof -
  obtain hs where hs: "basic_headers (api s) = Inr hs"
    using basic_headers_ready assms(2) unfolding proxy_ready_def by blast
  let ?hs = "if truthy_opt b then dict_set hs ''Content-type'' (media_type (opts (api s))) else hs"
  obtain resp t where resp: "srv E \<lparr>req_method = m, req_url = u, req_body = b, req_headers = ?hs\<rparr> (server (api s)) = (Inr resp, w')"
    and st: "resp_status resp = st" "st \<noteq> 401" and t: "codec_of E (charset_of resp) (resp_data resp) = Inr t" "strip_xml_declaration t = content"
    using assms(1) unfolding answers_def by metis
  let ?s1 = "(api s)\<lparr>server := w'\<rparr>"
  let ?s2 = "if truthy_opt (map_of ?hs ''Authorization'') then note_session resp ?s1 else ?s1"
  have "exchange (srv E) (codec_of E) m u b (api s) = (Inr (resp, content), ?s2)"
    using hs resp t by (simp add: exchange_def comp_simps Let_def run_server_def charset_of_def)
  then have "do_request (srv E) (codec_of E) m u b None (api s) = (Inr (make_ret resp content None), ?s2)"
    using st by (simp add: do_request_def comp_simps)
  then have "send E (m, u, b) s = (Inr (make_ret resp content None), s\<lparr>api := ?s2\<rparr>)"
    by (simp add: send_def on_api_def run_request_def)
  moreover have "server ?s2 = w'" "HTTP_HEADERS (opts ?s2) \<noteq> None"
    using assms(2) by (simp_all add: note_session_def proxy_ready_def)
  ultimately show ?thesis using st by (simp add: make_ret_def proxy_ready_def)
qed

lemma xsd_keeps_world:
  "validateResponseViaXSD E h r s = (x, s') \<Longrightarrow> x = Inr () \<and> api s' = api s"
  by (auto simp: validateResponseViaXSD_def comp_simps split: if_splits)

lemma get_collection:
  assumes "serves_collection E ents" and "proxy_ready s"
  shows "\<exists>s'. rest_get E (Some (with_max E (the (map_of (links E) (collection_name E))))) get_default s =
      (Inr (PList (ents (server (api s)))), s') \<and> ents (server (api s')) = ents (server (api s)) \<and> proxy_ready s'"
proof -
  let ?s = "upd_headers (\<lambda>hs. dict_update hs []) s"
  have s: "server (api ?s) = server (api s)" "proxy_ready ?s"
    using assms(2) by (simp_all add: upd_headers_def proxy_ready_def)
  obtain content w' doc where ans: "answers E ''GET'' (collection_url E) None (server (api s)) 200 content w'"
    and w': "ents w' = ents (server (api s))" and doc: "parse E content = Inr doc"
      "getattr_opt doc (element_name E) = Some (PList (ents (server (api s))))"
    using assms(1) unfolding serves_collection_def by blast
  from send_answered [of E _ _ _ ?s, unfolded s(1), OF ans s(2)] obtain r s1 where
    r: "send E (''GET'', collection_url E, None) ?s = (Inr r, s1)" "ret_status r = 200" "ret_body r = content"
    and s1: "server (api s1) = w'" "proxy_ready s1" by blast
  obtain x s2 where xsd: "validateResponseViaXSD E (collection_url E) r s1 = (x, s2)" by fastforce
  note s2 = xsd_keeps_world [OF xsd]
  have url: "get_url E base (Some (with_max E (the (map_of (links E) (collection_name E))))) True = collection_url E" for base
    by (simp add: get_url_def collection_url_def Let_def)
  have "rest_get E (Some (with_max E (the (map_of (links E) (collection_name E))))) get_default s =
      (Inr (PList (ents (server (api s)))), s2)"
    using r xsd s2 doc by (simp add: rest_get_def get_default_def comp_simps Let_def url compareResponseCode_def POSITIVE_CODES_def)
  then show ?thesis using s1 s2 w' by (auto simp: proxy_ready_def)
qed

lemma filter_chain_named:
  "(\<And>x. x \<in> set l \<Longrightarrow> \<exists>n. called n x) \<Longrightarrow> filter_chain [''name''] (PStr n) l = Inr (filter (called n) l)"
  by (induction l) (force simp: called_def)+

lemma find_in_collection:
  assumes "serves_collection E ents" and "proxy_ready s" and "well_named (ents (server (api s)))"
  shows "\<exists>s'. ents (server (api s')) = ents (server (api s)) \<and> proxy_ready s' \<and>
    find_by E ''name'' (PStr n) s =
      ((case filter (called n) (ents (server (api s))) of [] \<Rightarrow> Inl EntityNotFound | x # _ \<Rightarrow> Inr x), s')"
proof -
  let ?l = "ents (server (api s))"
  from get_collection [OF assms(1,2)] obtain s1 where
    get: "rest_get E (Some (with_max E (the (map_of (links E) (collection_name E))))) get_default s = (Inr (PList ?l), s1)"
    and s1: "ents (server (api s1)) = ?l" "proxy_ready s1" by blast
  have link: "dict_getitem (links E) (collection_name E) = Inr (the (map_of (links E) (collection_name E)))"
    using assms(1) by (auto simp: serves_collection_def dict_getitem_def)
  have chain: "filter_chain [''name''] (PStr n) ?l = Inr (filter (called n) ?l)"
    using assms(3) by (intro filter_chain_named) (simp add: well_named_def)
  have "distinct (map (\<lambda>x. getattr x ''name'') (filter (called n) ?l))"
    using assms(3) by (intro distinct_map_filter) (simp add: well_named_def)
  then have "pick_unique (filter (called n) ?l) = (case filter (called n) ?l of [] \<Rightarrow> Inl EntityNotFound | x # _ \<Rightarrow> Inr x)"
  proof (cases "filter (called n) ?l")
    case (Cons x xs)
    then have "set (x # xs) = {y \<in> set ?l. called n y}" by (metis set_filter)
    then have "called n y" if "y \<in> set (x # xs)" for y using that by blast
    with Cons \<open>distinct _\<close> have "xs = []" by (cases xs) (auto simp: called_def)
    then show ?thesis using Cons by (simp add: pick_unique_def)
  qed (simp add: pick_unique_def)
  then have "find_by E ''name'' (PStr n) s = (case ?l of [] \<Rightarrow> (Inl EntityNotFound, s1)
      | _ \<Rightarrow> (case filter (called n) ?l of [] \<Rightarrow> (Inl EntityNotFound, s1) | x # _ \<Rightarrow> (Inr x, s1)))"
    using get link chain
    by (auto simp: find_by_def rest_find_def comp_simps Let_def split: list.split)
  with s1 show ?thesis by (auto split: list.splits)
qed

lemma correlated_answered:
  assumes "answers E m u b w1 st content w'" and "proxy_ready s"
    and "w1 = (if configured_id E = None then snd (short_guid E (server (api s))) else server (api s))"
  shows "\<exists>r s'. correlationIdContext E p (send E (m, u, b)) s = (Inr r, s') \<and> ret_status r = st \<and>
    server (api s') = w' \<and> proxy_ready s'"
proof -
  let ?s1 = "s\<lparr>api := (api s)\<lparr>server := w1\<rparr>\<rparr>"
  obtain g where g: "(if configured_id E = None then on_world (short_guid E) else ret []) s = (Inr g, ?s1)"
  proof (cases "configured_id E")
    case None
    then show thesis using assms(3) that [of "fst (short_guid E (server (api s)))"] by (simp add: on_world_def split: prod.split)
  next
    case (Some y)
    with assms(3) have "?s1 = s" by simp
    with Some that [of "[]"] show thesis by (simp add: ret_def)
  qed
  let ?n = "''Correlation-Id''" and ?v = "getCorrelationId (configured_id E) (collection_name E) (Some p) g"
  let ?s2 = "upd_headers (\<lambda>hs. dict_set hs ?n ?v) ?s1"
  have s2: "server (api ?s2) = w1" "proxy_ready ?s2"
    using assms(2) by (simp_all add: upd_headers_def proxy_ready_def)
  from send_answered [of E m u b ?s2, unfolded s2(1), OF assms(1) s2(2)] obtain r s3 where
    r: "send E (m, u, b) ?s2 = (Inr r, s3)" "ret_status r = st" and s3: "server (api s3) = w'" "proxy_ready s3" by blast
  have "correlationIdContext E p (send E (m, u, b)) s = (Inr r, upd_headers (\<lambda>hs. dict_del hs ?n) s3)"
    using g r rest.with_header_request [of ?n ?v E "(m, u, b)" ?s1]
    by (simp add: correlationIdContext_def bindE_def)
  then show ?thesis using r s3 by (simp add: upd_headers_def proxy_ready_def)
qed

lemma delete_served:
  assumes "serves_collection E ents" and "proxy_ready s" and "x \<in> set (ents (server (api s)))" and "with_href h x"
  shows "\<exists>s'. delete_element E x True s = (Inr True, s') \<and>
    ents (server (api s')) = filter (\<lambda>y. \<not> with_href h y) (ents (server (api s)))"
proof -
  let ?w1 = "if configured_id E = None then snd (short_guid E (server (api s))) else server (api s)"
  have w1: "ents ?w1 = ents (server (api s))" using assms(1) by (simp add: serves_collection_def)
  with assms obtain content w' where ans: "answers E ''DELETE'' h None ?w1 200 content w'"
    and w': "ents w' = filter (\<lambda>y. \<not> with_href h y) (ents (server (api s)))"
    unfolding serves_collection_def by metis
  from correlated_answered [OF ans assms(2) refl, of Op_delete] obtain r s1 where
    r: "correlationIdContext E Op_delete (send E (''DELETE'', h, None)) s = (Inr r, s1)" "ret_status r = 200"
    and s1: "server (api s1) = w'" by blast
  obtain y s2 where xsd: "validateResponseViaXSD E h r s1 = (y, s2)" by fastforce
  note s2 = xsd_keeps_world [OF xsd]
  have codes: "responseCodesMatch True [200, 202, 204] NEGATIVE_CODES r"
    using r(2) by (simp add: responseCodesMatch_def compareResponseCode_def)
  have "delete_element E x True s = (Inr True, if run_validate E then s2 else s1)"
    using assms(4) r(1) xsd s2 codes
    by (simp add: delete_element_def rest_delete_def with_href_def with_operations_def bindE_def lift_res_def ret_def Let_def)
  then show ?thesis using s1 s2 w' by simp
qed

text \<open>
  C17. Removing by name is removing from the collection: against an engine that serves a
  collection of elements with names and addresses of their own, \<open>removeTag\<close>,
  \<open>remove_bookmark\<close> and \<open>remove_mac_pool\<close> answer True and take out exactly the element of
  that name, or raise EntityNotFound and change nothing when there is none.
\<close>

theorem removal_refines_collection:
  assumes "serves_collection E ents" and "proxy_ready s" and "well_named (ents (server (api s)))"
  shows "\<exists>r s'. removeTag E True n s = (r, s') \<and> remove_bookmark E n s = (r, s') \<and> remove_mac_pool E n s = (r, s') \<and>
    ents (server (api s')) = filter (\<lambda>x. \<not> called n x) (ents (server (api s))) \<and>
    r = (if \<exists>x \<in> set (ents (server (api s))). called n x then Inr True else Inl EntityNotFound)"
proof -
  let ?l = "ents (server (api s))"
  from find_in_collection [OF assms, of n] obtain s1 where s1: "ents (server (api s1)) = ?l" "proxy_ready s1"
    and find: "find_by E ''name'' (PStr n) s = ((case filter (called n) ?l of [] \<Rightarrow> Inl EntityNotFound | x # _ \<Rightarrow> Inr x), s1)"
    by blast
  show ?thesis
  proof (cases "filter (called n) ?l")
    case Nil
    then have "filter (\<lambda>x. \<not> called n x) ?l = ?l" "\<not> (\<exists>x \<in> set ?l. called n x)"
      by (auto simp: filter_empty_conv)
    moreover have "remove_by_name E n True s = (Inl EntityNotFound, s1)"
      unfolding remove_by_name_def using find Nil by (intro by_attr.nothing_found) simp
    ultimately show ?thesis using s1 by (intro exI [of _ "Inl EntityNotFound"] exI [of _ s1]) simp
  next
    case (Cons x xs)
    then have "x \<in> set (filter (called n) ?l)" by simp
    then have x: "x \<in> set ?l" "called n x" by simp_all
    then obtain h where h: "with_href h x" using assms(3) unfolding well_named_def by blast
    have same: "with_href h y = called n y" if "y \<in> set ?l" for y
    proof -
      have "inj_on (\<lambda>x. getattr x ''href'') (set ?l)" "inj_on (\<lambda>x. getattr x ''name'') (set ?l)"
        using assms(3) by (simp_all add: well_named_def distinct_map)
      from inj_on_eq_iff [OF this(1) that x(1)] inj_on_eq_iff [OF this(2) that x(1)]
      have "getattr y ''href'' = getattr x ''href'' \<longleftrightarrow> y = x" "getattr y ''name'' = getattr x ''name'' \<longleftrightarrow> y = x" by -
      then show ?thesis using x(2) h by (simp add: with_href_def called_def)
    qed
    from delete_served [OF assms(1) s1(2), of x h, unfolded s1(1), OF x(1) h] obtain s2 where
      del: "delete_element E x True s1 = (Inr True, s2)" "ents (server (api s2)) = filter (\<lambda>y. \<not> with_href h y) ?l" by blast
    have "remove_by_name E n True s = (Inr True, s2)"
      unfolding remove_by_name_def bindE_def using find Cons del(1) by simp
    moreover have "filter (\<lambda>y. \<not> with_href h y) ?l = filter (\<lambda>y. \<not> called n y) ?l"
      using same by (intro filter_cong) auto
    moreover have "\<exists>x \<in> set ?l. called n x" using x by blast
    ultimately show ?thesis using del(2) by (intro exI [of _ "Inr True"] exI [of _ s2]) simp
  qed
qed

section \<open>Witnesses\<close>

text \<open>An engine with at most one tag; its world says whether the tag is there.\<close>

definition demo_tag :: pyval where
  "demo_tag = PObj ''Tag'' [(''name'', PStr ''a''), (''href'', PStr ''/api/tags/1'')]"

definition demo_tags :: "bool \<Rightarrow> pyval list" where
  "demo_tags w = (if w then [demo_tag] else [])"

definition tag_srv :: "bool server_fun" where
  "tag_srv rq w =
     (let resp = (\<lambda>d. \<lparr>resp_status = 200, resp_reason = ''OK'', resp_headers = [], resp_data = d\<rparr>) in
      if req_method rq = ''GET'' then (Inr (resp (if w then ''a'' else [])), w)
      else if req_method rq = ''DELETE'' then (Inr (resp []), False)
      else (Inr (resp []), w))"

definition tag_rest :: "bool rest_env" where
  "tag_rest = \<lparr>srv = tag_srv, codec_of = id_codec, do_sleep = (\<lambda>d w. w), short_guid = (\<lambda>w. (''guid'', w)),
     element_name = ''tag'', collection_name = ''tags'', links = [(''tags'', ''/api/tags'')], max_collection = None,
     entry_point = ''api'', run_validate = True, configured_id = None, kw_order = id,
     parse = (\<lambda>s. Inr (PObj ''Tags'' [(''tag'', PList (demo_tags (s \<noteq> [])))])),
     dump_entity = (\<lambda>v n. ''<'' @ n @ ''/>''), xsd_check = (\<lambda>s. Xsd_valid),
     template_sub = (\<lambda>t ps. t), new_ds = (\<lambda>c. PObj c []), compare_env = demo_env\<rparr>"

definition tag_st :: "bool rest_st" where
  "tag_st = \<lparr>api = demo_st True None, xsd_schema_errors = []\<rparr>"

lemma demo_serves: "serves_collection tag_rest demo_tags"
proof -
  have strip: "strip_xml_declaration [] = []" "strip_xml_declaration ''a'' = ''a''" by code_simp+
  have get: "answers tag_rest ''GET'' u None w 200 (if w then ''a'' else []) w" for u w
    by (simp add: answers_def tag_rest_def tag_srv_def id_codec_def strip)
  have del: "answers tag_rest ''DELETE'' h None w 200 [] False" for h w
    by (simp add: answers_def tag_rest_def tag_srv_def id_codec_def strip)
  have "\<exists>content w' doc. answers tag_rest ''GET'' (collection_url tag_rest) None w 200 content w' \<and> demo_tags w' = demo_tags w \<and>
      parse tag_rest content = Inr doc \<and> getattr_opt doc (element_name tag_rest) = Some (PList (demo_tags w))" for w
    using get [of "collection_url tag_rest" w]
    by (intro exI [of _ "if w then ''a'' else []"] exI [of _ w]) (simp add: tag_rest_def demo_tags_def)
  moreover have "\<exists>content w'. answers tag_rest ''DELETE'' h None w 200 content w' \<and>
      demo_tags w' = filter (\<lambda>y. \<not> with_href h y) (demo_tags w)" if "\<exists>x \<in> set (demo_tags w). with_href h x" for h w
    using del [of h w] that by (intro exI [of _ "[]"] exI [of _ False]) (auto simp: demo_tags_def split: if_splits)
  ultimately show ?thesis
    unfolding serves_collection_def by (auto simp: tag_rest_def)
qed

theorem removal_refines_collection_witness:
  "\<exists>s'. removeTag tag_rest True ''a'' tag_st = (Inr True, s') \<and> demo_tags (server (api s')) = []"
proof -
  have "proxy_ready tag_st" by (simp add: proxy_ready_def tag_st_def demo_st_def HTTPProxy_def demo_opts_def)
  moreover have "server (api tag_st) = True" by (simp add: tag_st_def demo_st_def HTTPProxy_def)
  moreover have tag: "demo_tags True = [demo_tag]" by (simp add: demo_tags_def)
  moreover have called: "called n demo_tag \<longleftrightarrow> n = ''a''" for n by (auto simp: called_def demo_tag_def getattr_def)
  moreover have "with_href ''/api/tags/1'' demo_tag" by (simp add: with_href_def demo_tag_def getattr_def)
  then have "well_named [demo_tag]" using called by (auto simp: well_named_def)
  ultimately show ?thesis
    using removal_refines_collection [OF demo_serves, of tag_st "''a''"] by auto
qed

end
