(* ===== verification/Engine_Lookups.thy ===== *)
theory Engine_Lookups
  imports Named_Elements
begin

text \<open>
  The look-ups of \<open>hosts.py\<close>, \<open>clusters.py\<close> and \<open>datacenters.py\<close> that the network libraries
  are built on, and the quality-of-service objects of a data center. \<open>A element collection\<close>
  is the API object that \<open>get_api(element, collection)\<close> gives; all share one world.
\<close>

type_synonym 'w apis = "string \<Rightarrow> string \<Rightarrow> 'w rest_env"

definition HOST_API :: "'w apis \<Rightarrow> 'w rest_env" where "HOST_API A = A ''host'' ''hosts''"
definition HOST_NICS_API :: "'w apis \<Rightarrow> 'w rest_env" where "HOST_NICS_API A = A ''host_nic'' ''host_nics''"
definition NET_API :: "'w apis \<Rightarrow> 'w rest_env" where "NET_API A = A ''network'' ''networks''"
definition CL_API :: "'w apis \<Rightarrow> 'w rest_env" where "CL_API A = A ''cluster'' ''clusters''"
definition DC_API :: "'w apis \<Rightarrow> 'w rest_env" where "DC_API A = A ''data_center'' ''datacenters''"
definition QOS_API :: "'w apis \<Rightarrow> 'w rest_env" where "QOS_API A = A ''qos'' ''datacenters''"
definition VNIC_PROFILE_API :: "'w apis \<Rightarrow> 'w rest_env" where "VNIC_PROFILE_API A = A ''vnic_profile'' ''vnicprofiles''"
definition LABEL_API :: "'w apis \<Rightarrow> 'w rest_env" where "LABEL_API A = A ''network_label'' ''network_labels''"
definition NF_API :: "'w apis \<Rightarrow> 'w rest_env" where "NF_API A = A ''networkfilter'' ''networkfilters''"
definition OPENSTACK_NETWORK_PROVIDER_API :: "'w apis \<Rightarrow> 'w rest_env" where
  "OPENSTACK_NETWORK_PROVIDER_API A = A ''openstack_network_provider'' ''openstacknetworkproviders''"

text \<open>The generated class of a name, from any of the API objects.\<close>

definition new_object :: "'w apis \<Rightarrow> string \<Rightarrow> pyval" where
  "new_object A c = new_ds (NET_API A) c"

text \<open>\<open>getElemFromLink\<close> for the elements behind a link, and for its address.\<close>

definition linked :: "'w rest_env \<Rightarrow> pyval \<Rightarrow> string \<Rightarrow> string \<Rightarrow> ('w rest_st, pyval) comp" where
  "linked E x link_name attr = getElemFromLink E x link_name attr False False"

definition link_address :: "'w rest_env \<Rightarrow> pyval \<Rightarrow> string \<Rightarrow> string \<Rightarrow> ('w rest_st, pyval) comp" where
  "link_address E x link_name attr = getElemFromLink E x link_name attr True False"

definition linked_list :: "'w rest_env \<Rightarrow> pyval \<Rightarrow> string \<Rightarrow> string \<Rightarrow> ('w rest_st, pyval list) comp" where
  "linked_list E x link_name attr = bindE (linked E x link_name attr) (\<lambda>v. lift_res (py_iter v))"

definition listed :: "'w rest_env \<Rightarrow> ('w rest_st, pyval list) comp" where
  "listed E = bindE (get_all E) (\<lambda>v. lift_res (py_iter v))"

text \<open>Creating in a given collection: \<open>collection\<close> is used only when it is true.\<close>

definition create_in ::
  "'w rest_env \<Rightarrow> pyval \<Rightarrow> bool \<Rightarrow> pyval \<Rightarrow> string \<Rightarrow> bool \<Rightarrow> ('w rest_st, pyval \<times> bool) comp" where
  "create_in E x positive collection coll_elm_name is_async =
     bindE (lift_res (if truthy collection then as_string collection else Inr [])) (\<lambda>c.
     rest_create E x positive (create_default\<lparr>ca_collection := c, ca_coll_elm_name := coll_elm_name, ca_async := is_async\<rparr>))"

section \<open>Hosts, clusters and data centers\<close>

definition get_host_object :: "'w apis \<Rightarrow> string \<Rightarrow> string \<Rightarrow> ('w rest_st, pyval) comp" where
  "get_host_object A host_name attribute = find_by (HOST_API A) attribute (PStr host_name)"

definition get_host_nics_list :: "'w apis \<Rightarrow> pyval \<Rightarrow> bool \<Rightarrow> ('w rest_st, pyval) comp" where
  "get_host_nics_list A host all_content = getElemFromLink (HOST_API A) host ''nics'' ''host_nic'' False all_content"

definition get_host_nic :: "'w apis \<Rightarrow> pyval \<Rightarrow> pyval \<Rightarrow> bool \<Rightarrow> ('w rest_st, pyval option) comp" where
  "get_host_nic A host nic all_content =
     bindE (get_host_nics_list A host all_content) (\<lambda>v.
     bindE (lift_res (py_iter v)) (\<lambda>nics.
     bindE (lift_res (filter_res (\<lambda>x. res_bind (getattr x ''name'') (\<lambda>n. Inr (py_eq nic n))) nics)) (\<lambda>l.
     ret (case l of [] \<Rightarrow> None | x # _ \<Rightarrow> Some x))))"

definition get_host_nic_statistics :: "'w apis \<Rightarrow> pyval \<Rightarrow> pyval \<Rightarrow> ('w rest_st, pyval) comp" where
  "get_host_nic_statistics A host nic =
     bindE (get_host_nic A host nic False) (\<lambda>x.
     linked (HOST_NICS_API A) (opt_val x) ''statistics'' ''statistic'')"

definition get_cluster_object :: "'w apis \<Rightarrow> string \<Rightarrow> bool \<Rightarrow> ('w rest_st, pyval) comp" where
  "get_cluster_object A cluster_name all_content = rest_find (CL_API A) (PStr cluster_name) ''name'' True PNone all_content []"

definition get_cluster_list :: "'w apis \<Rightarrow> ('w rest_st, pyval) comp" where
  "get_cluster_list A = get_all (CL_API A)"

definition get_data_center :: "'w apis \<Rightarrow> pyval \<Rightarrow> string \<Rightarrow> ('w rest_st, pyval) comp" where
  "get_data_center A datacenter key = find_by (DC_API A) key datacenter"

section \<open>Quality of service\<close>

definition get_qoss_from_datacenter :: "'w apis \<Rightarrow> pyval \<Rightarrow> ('w rest_st, pyval) comp" where
  "get_qoss_from_datacenter A datacenter =
     bindE (get_data_center A datacenter ''name'') (\<lambda>dc. linked (DC_API A) dc ''qoss'' ''qos'')"

text \<open>The first of that name, or False.\<close>

definition get_qos_from_datacenter :: "'w apis \<Rightarrow> pyval \<Rightarrow> pyval \<Rightarrow> ('w rest_st, pyval) comp" where
  "get_qos_from_datacenter A datacenter qos_name =
     bindE (get_qoss_from_datacenter A datacenter) (\<lambda>v.
     bindE (lift_res (py_iter v)) (\<lambda>qoss.
     bindE (lift_res (find_res (\<lambda>q. res_bind (getattr q ''name'') (\<lambda>n. Inr (py_eq n qos_name))) qoss)) (\<lambda>found.
     ret (case found of None \<Rightarrow> PBool False | Some q \<Rightarrow> q))))"

fun set_qos_attrs :: "pyval \<Rightarrow> (string \<times> pyval) list \<Rightarrow> exn + pyval" where
  "set_qos_attrs v [] = Inr v"
| "set_qos_attrs v ((key, val) # kw) =
     (if hasattr v key then set_qos_attrs (setattr v key val) kw
      else if key \<noteq> ''new_name'' then Inl (TestExc DataCenterException)
      else set_qos_attrs v kw)"

definition prepare_qos_obj :: "(string \<Rightarrow> pyval) \<Rightarrow> (string \<times> pyval) list \<Rightarrow> exn + pyval" where
  "prepare_qos_obj ds kw = set_qos_attrs (ds ''Qos'') kw"

definition add_qos_to_datacenter ::
  "'w apis \<Rightarrow> pyval \<Rightarrow> pyval \<Rightarrow> pyval \<Rightarrow> (string, pyval) dict \<Rightarrow> ('w rest_st, bool) comp" where
  "add_qos_to_datacenter A datacenter qos_name qos_type kw =
     bindE (lift_res (prepare_qos_obj (new_object A) (dict_set (dict_set kw ''name'' qos_name) ''type_'' qos_type))) (\<lambda>qos_obj.
     bindE (get_data_center A datacenter ''name'') (\<lambda>dc.
     bindE (link_address (DC_API A) dc ''qoss'' ''qos'') (\<lambda>href.
     bindE (create_in (QOS_API A) qos_obj True href ''qos'' False) (\<lambda>r. ret (snd r)))))"

section \<open>Facts about look-ups\<close>

lemma get_host_nic_Some:
  assumes "get_host_nic A host nic b s = (Inr (Some x), s')"
  shows "\<exists>l. get_host_nics_list A host b s = (Inr l, s') \<and> (\<exists>xs. py_iter l = Inr xs \<and> x \<in> set xs) \<and>
    (\<exists>n. getattr x ''name'' = Inr n \<and> py_eq nic n)"
proof -
  let ?p = "\<lambda>x. res_bind (getattr x ''name'') (\<lambda>n. Inr (py_eq nic n))"
  from assms obtain v nics l where v: "get_host_nics_list A host b s = (Inr v, s')" and nics: "py_iter v = Inr nics"
    and l: "filter_res ?p nics = Inr l" and x: "(case l of [] \<Rightarrow> None | x # _ \<Rightarrow> Some x) = Some x"
    unfolding get_host_nic_def by (auto simp: lift_res_def ret_def elim!: bindE_InrE)
  from x have "x \<in> set l" by (auto split: list.splits)
  with filter_res_Inr [OF l] have "x \<in> set nics" "?p x = Inr True" by simp_all
  with v nics show ?thesis by (auto simp: res_bind_Inr)
qed

end
