(* ===== verification/Networks.thy ===== *)
theory Networks
  imports Engine_Lookups
begin

text \<open>
  \<open>art/rhevm_api/tests_lib/low_level/networks.py\<close>: logical networks, their vNIC profiles and
  labels, and what a host's files tell about them. Keyword arguments are a dictionary; a missing
  one is None. Members of generated objects are read and set by their names.
\<close>

section \<open>Keywords\<close>

definition kwget :: "(string, pyval) dict \<Rightarrow> string \<Rightarrow> pyval" where
  "kwget kw k = (case map_of kw k of None \<Rightarrow> PNone | Some v \<Rightarrow> v)"

definition set_if :: "bool \<Rightarrow> string \<Rightarrow> pyval \<Rightarrow> pyval \<Rightarrow> pyval" where
  "set_if b a v x = (if b then setattr x a v else x)"

text \<open>\<open>if v: obj.set_a(v)\<close> and \<open>if v is not None: obj.set_a(v)\<close> for a keyword.\<close>

definition set_true :: "(string, pyval) dict \<Rightarrow> string \<Rightarrow> pyval \<Rightarrow> pyval" where
  "set_true kw a x = set_if (truthy (kwget kw a)) a (kwget kw a) x"

definition set_some :: "(string, pyval) dict \<Rightarrow> string \<Rightarrow> pyval \<Rightarrow> pyval" where
  "set_some kw a x = set_if (kwget kw a \<noteq> PNone) a (kwget kw a) x"

definition split_commas :: "pyval \<Rightarrow> exn + pyval" where
  "split_commas v = (case v of PStr s \<Rightarrow> Inr (PList (map PStr (split_on s '',''))) | _ \<Rightarrow> Inl AttributeError)"

section \<open>Finding networks\<close>

definition in_data_center :: "pyval \<Rightarrow> pyval \<Rightarrow> pyval \<Rightarrow> exn + bool" where
  "in_data_center dc_obj network net =
     res_bind (getattr_chain [''data_center'', ''id''] net) (\<lambda>i.
     res_bind (getattr dc_obj ''id'') (\<lambda>j.
     if \<not> py_eq i j then Inr False
     else res_bind (getattr net ''name'') (\<lambda>n. res_bind (lower_of n) (\<lambda>l.
       res_bind (lower_of network) (\<lambda>m. Inr (l = m))))))"

definition network_in :: "'w apis \<Rightarrow> pyval \<Rightarrow> pyval \<Rightarrow> ('w rest_st, pyval) comp" where
  "network_in A data_center network =
     bindE (find_by (DC_API A) ''name'' data_center) (\<lambda>dc_obj.
     bindE (listed (NET_API A)) (\<lambda>nets.
     bindE (lift_res (find_res (in_data_center dc_obj network) nets)) (\<lambda>found.
     (case found of None \<Rightarrow> raise EntityNotFound | Some net \<Rightarrow> ret net))))"

text \<open>\<open>data_center\<close> and \<open>cluster\<close> are None (or empty) or names; None is the answer for a cluster elsewhere.\<close>

definition find_network :: "'w apis \<Rightarrow> pyval \<Rightarrow> pyval \<Rightarrow> pyval \<Rightarrow> ('w rest_st, pyval) comp" where
  "find_network A network data_center cluster =
     (if truthy cluster then
        bindE (find_by (CL_API A) ''name'' cluster) (\<lambda>cluster_object.
        bindE (lift_res (getattr_chain [''data_center'', ''id''] cluster_object)) (\<lambda>data_center_id.
        bindE (get_object_name_by_id (DC_API A) data_center_id) (\<lambda>data_center_name.
        if truthy data_center \<and> \<not> py_eq data_center_name data_center then ret PNone
        else if truthy data_center_name then network_in A data_center_name network
        else find_by (NET_API A) ''name'' network)))
      else if truthy data_center then network_in A data_center network
      else find_by (NET_API A) ''name'' network)"

section \<open>Preparing networks\<close>

text \<open>
  The caller's \<open>qos_dict\<close> is a dictionary of its own; its entries for the name and the data
  center, and for a new object the type, are taken out before the rest is used.
\<close>

definition dict_pop :: "(string, pyval) dict \<Rightarrow> string \<Rightarrow> exn + pyval \<times> (string, pyval) dict" where
  "dict_pop d k = (case map_of d k of None \<Rightarrow> Inl KeyError | Some v \<Rightarrow> Inr (v, dict_del d k))"

definition prepare_qos_on_net :: "'w apis \<Rightarrow> (string, pyval) dict \<Rightarrow> ('w rest_st, pyval) comp" where
  "prepare_qos_on_net A qos_dict =
     (if qos_dict = [] then ret (new_object A ''Qos'')
      else
        bindE (lift_res (dict_pop qos_dict ''qos_name'')) (\<lambda>(qos_name, d1).
        bindE (lift_res (dict_pop d1 ''datacenter'')) (\<lambda>(datacenter, d2).
        bindE (get_qos_from_datacenter A datacenter qos_name) (\<lambda>qos_obj.
        if truthy qos_obj then ret qos_obj
        else
          bindE (lift_res (dict_pop d2 ''qos_type'')) (\<lambda>(qos_type, d3).
          bindE (add_qos_to_datacenter A datacenter qos_name qos_type d3) (\<lambda>_.
          get_qos_from_datacenter A datacenter qos_name))))))"

definition prepare_network_dns_object :: "'w apis \<Rightarrow> pyval \<Rightarrow> pyval" where
  "prepare_network_dns_object A dns_servers =
     setattr (new_object A ''DnsResolverConfiguration'') ''name_servers''
       (setattr (new_object A ''name_serversType'') ''name_server'' dns_servers)"

definition usages_of :: "'w apis \<Rightarrow> pyval \<Rightarrow> exn + pyval" where
  "usages_of A usages = res_bind (split_commas usages) (\<lambda>l. Inr (setattr (new_object A ''Usages'') ''usage'' l))"

definition prepare_network_object ::
  "'w apis \<Rightarrow> (string, pyval) dict \<Rightarrow> (string, pyval) dict option \<Rightarrow> ('w rest_st, pyval) comp" where
  "prepare_network_object A kw qos_dict =
     (let net1 = set_true kw ''stp'' (set_true kw ''description'' (set_true kw ''name'' (new_object A ''Network'')));
          dc = kwget kw ''data_center''; usages = kwget kw ''usages''; provider = kwget kw ''external_provider_name'' in
     bindE (if truthy dc then bindE (find_by (DC_API A) ''name'' dc) (\<lambda>d. ret (setattr net1 ''data_center'' d)) else ret net1) (\<lambda>net2.
     let net3 = set_if (map_of kw ''vlan_id'' \<noteq> None) ''vlan'' (setattr (new_object A ''Vlan'') ''id'' (kwget kw ''vlan_id'')) net2 in
     bindE (if usages = PNone then ret net3
            else if truthy usages then bindE (lift_res (usages_of A usages)) (\<lambda>u. ret (setattr net3 ''usages'' u))
            else ret (setattr net3 ''usages'' (new_object A ''Usages''))) (\<lambda>net4.
     let net5 = set_true kw ''profile_required'' (set_true kw ''mtu'' net4) in
     bindE (case qos_dict of
         Some (q # qs) \<Rightarrow> bindE (prepare_qos_on_net A (q # qs)) (\<lambda>qos. ret (setattr net5 ''qos'' qos))
       | _ \<Rightarrow> ret net5) (\<lambda>net6.
     let net7 = set_if (kwget kw ''dns'' \<noteq> PNone) ''dns_resolver_configuration'' (prepare_network_dns_object A (kwget kw ''dns'')) net6 in
     if truthy provider then
       bindE (find_by (OPENSTACK_NETWORK_PROVIDER_API A) ''name'' provider) (\<lambda>enp. ret (setattr net7 ''external_provider'' enp))
     else ret net7))))"

definition add_network ::
  "'w apis \<Rightarrow> bool \<Rightarrow> (string, pyval) dict \<Rightarrow> (string, pyval) dict option \<Rightarrow> ('w rest_st, bool) comp" where
  "add_network A positive kw qos_dict =
     bindE (prepare_network_object A kw qos_dict) (\<lambda>net_obj. create_element (NET_API A) net_obj positive)"

definition update_network ::
  "'w apis \<Rightarrow> bool \<Rightarrow> string \<Rightarrow> (string, pyval) dict \<Rightarrow> (string, pyval) dict option \<Rightarrow> ('w rest_st, bool) comp" where
  "update_network A positive network kw qos_dict =
     bindE (find_network A (PStr network) (kwget kw ''data_center'') PNone) (\<lambda>net.
     bindE (prepare_network_object A kw qos_dict) (\<lambda>net_update. update_element (NET_API A) net net_update positive))"

definition remove_network :: "'w apis \<Rightarrow> bool \<Rightarrow> string \<Rightarrow> pyval \<Rightarrow> ('w rest_st, bool) comp" where
  "remove_network A positive network data_center =
     bindE (find_network A (PStr network) data_center PNone) (\<lambda>net. delete_element (NET_API A) net positive)"

section \<open>Networks of a cluster\<close>

text \<open>\<open>base\<close> is the network given by the keyword \<open>net\<close>.\<close>

definition prepare_cluster_network_object :: "'w apis \<Rightarrow> pyval option \<Rightarrow> (string, pyval) dict \<Rightarrow> exn + pyval" where
  "prepare_cluster_network_object A base kw =
     (let net0 = (case base of None \<Rightarrow> new_object A ''Network'' | Some n \<Rightarrow> n); usages = kwget kw ''usages'' in
      res_bind (if usages = PNone then Inr net0 else res_bind (usages_of A usages) (\<lambda>u. Inr (setattr net0 ''usages'' u))) (\<lambda>net1.
      let net2 = set_if (map_of kw ''required'' \<noteq> None) ''required'' (PStr (lower (py_str (kwget kw ''required'')))) net1
      in Inr (set_if (map_of kw ''display'' \<noteq> None) ''display'' (kwget kw ''display'') net2)))"

definition get_cluster_network :: "'w apis \<Rightarrow> pyval \<Rightarrow> string \<Rightarrow> ('w rest_st, pyval) comp" where
  "get_cluster_network A cluster network =
     try_except (rest_getElemFromElemColl (CL_API A) cluster (PStr network) ''networks'' ''network'' ''name'' False)
       EntityNotFound (\<lambda>_. ret PNone)"

definition get_cluster_networks :: "'w apis \<Rightarrow> string \<Rightarrow> bool \<Rightarrow> ('w rest_st, pyval) comp" where
  "get_cluster_networks A cluster href =
     bindE (find_by (CL_API A) ''name'' (PStr cluster)) (\<lambda>cluster_obj.
     getElemFromLink (CL_API A) cluster_obj ''networks'' ''network'' href False)"

definition add_network_to_cluster ::
  "'w apis \<Rightarrow> bool \<Rightarrow> string \<Rightarrow> string \<Rightarrow> (string, pyval) dict \<Rightarrow> ('w rest_st, bool) comp" where
  "add_network_to_cluster A positive network cluster kw =
     bindE (find_network A (PStr network) (kwget kw ''data_center'') PNone) (\<lambda>base.
     bindE (lift_res (prepare_cluster_network_object A (Some base) kw)) (\<lambda>net.
     bindE (get_cluster_networks A cluster True) (\<lambda>cluster_nets.
     bindE (create_in (NET_API A) net positive cluster_nets [] False) (\<lambda>r. ret (snd r)))))"

definition update_cluster_network ::
  "'w apis \<Rightarrow> bool \<Rightarrow> pyval \<Rightarrow> string \<Rightarrow> (string, pyval) dict \<Rightarrow> ('w rest_st, bool) comp" where
  "update_cluster_network A positive cluster network kw =
     bindE (get_cluster_network A cluster network) (\<lambda>net.
     bindE (lift_res (prepare_cluster_network_object A None kw)) (\<lambda>net_update. update_element (NET_API A) net net_update positive))"

definition remove_network_from_cluster :: "'w apis \<Rightarrow> bool \<Rightarrow> string \<Rightarrow> pyval \<Rightarrow> ('w rest_st, bool) comp" where
  "remove_network_from_cluster A positive network cluster =
     bindE (get_cluster_network A cluster network) (\<lambda>net_obj. delete_element (NET_API A) net_obj positive)"

definition is_network_required :: "'w apis \<Rightarrow> string \<Rightarrow> pyval \<Rightarrow> ('w rest_st, pyval) comp" where
  "is_network_required A network cluster =
     bindE (get_cluster_network A cluster network) (\<lambda>net_obj. lift_res (getattr net_obj ''required''))"

text \<open>\<open>attr in net.get_usages().get_usage()\<close>.\<close>

definition has_usage :: "string \<Rightarrow> pyval \<Rightarrow> exn + bool" where
  "has_usage attr net = res_bind (getattr_chain [''usages'', ''usage''] net) (str_in attr)"

fun has_usages :: "string list \<Rightarrow> pyval \<Rightarrow> exn + bool" where
  "has_usages [] net = Inr True"
| "has_usages (a # as) net = res_bind (has_usage a net) (\<lambda>b. if b then has_usages as net else Inr False)"

definition check_network_usage :: "'w apis \<Rightarrow> pyval \<Rightarrow> string \<Rightarrow> string list \<Rightarrow> ('w rest_st, bool) comp" where
  "check_network_usage A cluster network attrs =
     bindE (get_cluster_network A cluster network) (\<lambda>net_obj.
     if \<not> truthy net_obj then ret False else lift_res (has_usages attrs net_obj))"

definition is_gluster_network :: "'w apis \<Rightarrow> string \<Rightarrow> pyval \<Rightarrow> ('w rest_st, bool) comp" where
  "is_gluster_network A network cluster = check_network_usage A cluster network [''gluster'']"

definition get_management_network :: "'w apis \<Rightarrow> string \<Rightarrow> ('w rest_st, pyval option) comp" where
  "get_management_network A cluster_name =
     bindE (get_cluster_networks A cluster_name False) (\<lambda>v.
     bindE (lift_res (py_iter v)) (\<lambda>nets.
     bindE (lift_res (filter_res (has_usage ''management'') nets)) (\<lambda>l.
     ret (case l of [] \<Rightarrow> None | x # _ \<Rightarrow> Some x))))"

section \<open>Networks of a data center\<close>

definition get_networks_in_datacenter :: "'w apis \<Rightarrow> string \<Rightarrow> ('w rest_st, pyval) comp" where
  "get_networks_in_datacenter A datacenter =
     bindE (find_by (DC_API A) ''name'' (PStr datacenter)) (\<lambda>dc. linked (NET_API A) dc [] [])"

definition name_is :: "pyval \<Rightarrow> pyval \<Rightarrow> exn + bool" where
  "name_is n x = res_bind (getattr x ''name'') (\<lambda>m. Inr (py_eq m n))"

definition get_network_in_datacenter :: "'w apis \<Rightarrow> pyval \<Rightarrow> string \<Rightarrow> ('w rest_st, pyval option) comp" where
  "get_network_in_datacenter A network datacenter =
     bindE (get_networks_in_datacenter A datacenter) (\<lambda>v.
     bindE (lift_res (py_iter v)) (\<lambda>nets. lift_res (find_res (name_is network) nets)))"

definition create_network_in_datacenter ::
  "'w apis \<Rightarrow> bool \<Rightarrow> string \<Rightarrow> (string, pyval) dict \<Rightarrow> (string, pyval) dict option \<Rightarrow> ('w rest_st, bool) comp" where
  "create_network_in_datacenter A positive datacenter kw qos_dict =
     bindE (find_by (DC_API A) ''name'' (PStr datacenter)) (\<lambda>dc.
     bindE (prepare_network_object A kw qos_dict) (\<lambda>net_obj.
     bindE (link_address (NET_API A) dc [] []) (\<lambda>coll.
     bindE (create_in (NET_API A) net_obj positive coll [] False) (\<lambda>r. ret (snd r)))))"

definition delete_network_in_datacenter :: "'w apis \<Rightarrow> bool \<Rightarrow> pyval \<Rightarrow> string \<Rightarrow> ('w rest_st, bool) comp" where
  "delete_network_in_datacenter A positive network datacenter =
     bindE (get_network_in_datacenter A network datacenter) (\<lambda>found.
     (case found of
        Some net \<Rightarrow> if truthy net then delete_element (NET_API A) net positive else ret False
      | None \<Rightarrow> ret False))"

definition update_network_in_datacenter ::
  "'w apis \<Rightarrow> bool \<Rightarrow> pyval \<Rightarrow> string \<Rightarrow> (string, pyval) dict \<Rightarrow> (string, pyval) dict option \<Rightarrow> ('w rest_st, bool) comp" where
  "update_network_in_datacenter A positive network datacenter kw qos_dict =
     bindE (get_network_in_datacenter A network datacenter) (\<lambda>net.
     bindE (prepare_network_object A kw qos_dict) (\<lambda>net_update. update_element (NET_API A) (opt_val net) net_update positive))"

fun map_comp :: "('a \<Rightarrow> ('w, 'b) comp) \<Rightarrow> 'a list \<Rightarrow> ('w, 'b list) comp" where
  "map_comp f [] = ret []"
| "map_comp f (x # xs) = bindE (f x) (\<lambda>y. bindE (map_comp f xs) (\<lambda>ys. ret (y # ys)))"

fun delete_all_but :: "'w apis \<Rightarrow> string \<Rightarrow> string \<Rightarrow> pyval list \<Rightarrow> ('w rest_st, bool) comp" where
  "delete_all_but A datacenter mgmt_net [] = ret True"
| "delete_all_but A datacenter mgmt_net (net # nets) =
     bindE (lift_res (getattr net ''name'')) (\<lambda>net_name.
     if py_eq net_name (PStr mgmt_net) then delete_all_but A datacenter mgmt_net nets
     else
       bindE (delete_network_in_datacenter A True net_name datacenter) (\<lambda>ok.
       if \<not> ok then ret False else delete_all_but A datacenter mgmt_net nets))"

definition delete_networks_in_datacenter :: "'w apis \<Rightarrow> string \<Rightarrow> string \<Rightarrow> string list \<Rightarrow> ('w rest_st, bool) comp" where
  "delete_networks_in_datacenter A datacenter mgmt_net networks =
     bindE (if networks = [] then
              bindE (get_networks_in_datacenter A datacenter) (\<lambda>v. lift_res (py_iter v))
            else map_comp (\<lambda>n. bindE (get_network_in_datacenter A (PStr n) datacenter) (\<lambda>x. ret (opt_val x))) networks)
       (delete_all_but A datacenter mgmt_net)"

section \<open>Facts\<close>

text \<open>What it takes for a network to be the one looked for.\<close>

definition right_network :: "pyval \<Rightarrow> string \<Rightarrow> pyval \<Rightarrow> bool" where
  "right_network dc_obj n net \<longleftrightarrow>
     (\<exists>i j. getattr_chain [''data_center'', ''id''] net = Inr i \<and> getattr dc_obj ''id'' = Inr j \<and> py_eq i j) \<and>
     (\<exists>m. getattr net ''name'' = Inr (PStr m) \<and> lower m = lower n)"

lemma lower_of_Inr: "lower_of v = Inr l \<longleftrightarrow> (\<exists>s. v = PStr s \<and> l = lower s)"
  by (cases v) auto

lemma in_data_center_right: "in_data_center dc_obj (PStr n) net = Inr b \<Longrightarrow> right_network dc_obj n net = b"
  unfolding in_data_center_def right_network_def
  by (auto simp: res_bind_Inr lower_of_Inr split: if_splits)

lemma network_in_Inr:
  assumes "network_in A d (PStr n) s = (Inr net, s')"
  obtains dc_obj s1 pre post where "find_by (DC_API A) ''name'' d s = (Inr dc_obj, s1)"
    and "listed (NET_API A) s1 = (Inr (pre @ net # post), s')"
    and "right_network dc_obj n net" and "\<And>y. y \<in> set pre \<Longrightarrow> \<not> right_network dc_obj n y"
proof -
  from assms obtain dc_obj s1 nets where dc: "find_by (DC_API A) ''name'' d s = (Inr dc_obj, s1)"
    and nets: "listed (NET_API A) s1 = (Inr nets, s')" "find_res (in_data_center dc_obj (PStr n)) nets = Inr (Some net)"
    unfolding network_in_def by (auto simp: lift_res_def ret_def raise_def elim!: bindE_InrE split: option.splits)
  from nets(2) obtain pre post where "nets = pre @ net # post" "in_data_center dc_obj (PStr n) net = Inr True"
    "\<And>y. y \<in> set pre \<Longrightarrow> in_data_center dc_obj (PStr n) y = Inr False" by (rule find_res_first) blast
  with dc nets(1) that show thesis by (metis in_data_center_right)
qed

text \<open>
  What \<open>find_network\<close> answers is what its documentation says, with one exception. With a
  data center, its own or that of the cluster, the network is the first of all networks of the
  engine that is in that data center and has the name in any mixture of cases; without one it
  is the one network of exactly that name. None, where the documentation promises
  EntityNotFound, is the answer when the cluster is in another data center than the given one,
  and never otherwise unless the engine lists None itself.
\<close>

theorem find_network_verdict:
  assumes "find_network A (PStr n) data_center cluster s = (Inr net, s')"
  shows "(\<exists>d dc_obj s1 s2 pre post.
      (if truthy cluster then truthy data_center \<longrightarrow> py_eq d data_center else d = data_center) \<and> truthy d \<and>
      find_by (DC_API A) ''name'' d s1 = (Inr dc_obj, s2) \<and>
      listed (NET_API A) s2 = (Inr (pre @ net # post), s') \<and>
      right_network dc_obj n net \<and> (\<forall>y \<in> set pre. \<not> right_network dc_obj n y)) \<or>
    (\<exists>s1. find_by (NET_API A) ''name'' (PStr n) s1 = (Inr net, s') \<and> (\<not> truthy data_center \<or> truthy cluster)) \<or>
    (net = PNone \<and> truthy cluster \<and> truthy data_center \<and>
      (\<exists>s1 i d. get_object_name_by_id (DC_API A) i s1 = (Inr d, s') \<and> \<not> py_eq d data_center))"
proof (cases "truthy cluster")
  case True
  from assms True obtain c s1 i d s2 where
    "find_by (CL_API A) ''name'' cluster s = (Inr c, s1)" "getattr_chain [''data_center'', ''id''] c = Inr i"
    and d: "get_object_name_by_id (DC_API A) i s1 = (Inr d, s2)"
    and rest: "(if truthy data_center \<and> \<not> py_eq d data_center then ret PNone
        else if truthy d then network_in A d (PStr n) else find_by (NET_API A) ''name'' (PStr n)) s2 = (Inr net, s')"
    unfolding find_network_def by (auto simp: lift_res_def elim!: bindE_InrE)
  consider "truthy data_center" "\<not> py_eq d data_center" | "truthy data_center \<longrightarrow> py_eq d data_center" "truthy d"
    | "truthy data_center \<longrightarrow> py_eq d data_center" "\<not> truthy d" by blast
  then show ?thesis
  proof cases
    case 1
    with rest d True show ?thesis by (auto simp: ret_def)
  next
    case 2
    with rest have "network_in A d (PStr n) s2 = (Inr net, s')" by auto
    then obtain dc_obj s3 pre post where "find_by (DC_API A) ''name'' d s2 = (Inr dc_obj, s3)"
      "listed (NET_API A) s3 = (Inr (pre @ net # post), s')" "right_network dc_obj n net"
      "\<And>y. y \<in> set pre \<Longrightarrow> \<not> right_network dc_obj n y" by (rule network_in_Inr) blast
    with 2 True show ?thesis by metis
  next
    case 3
    with rest have "find_by (NET_API A) ''name'' (PStr n) s2 = (Inr net, s')" by auto
    with True show ?thesis by blast
  qed
next
  case False
  show ?thesis
  proof (cases "truthy data_center")
    case True
    with assms False have "network_in A data_center (PStr n) s = (Inr net, s')" by (simp add: find_network_def)
    then obtain dc_obj s3 pre post where "find_by (DC_API A) ''name'' data_center s = (Inr dc_obj, s3)"
      "listed (NET_API A) s3 = (Inr (pre @ net # post), s')" "right_network dc_obj n net"
      "\<And>y. y \<in> set pre \<Longrightarrow> \<not> right_network dc_obj n y" by (rule network_in_Inr) blast
    with True False show ?thesis by metis
  qed (use assms False in \<open>auto simp: find_network_def\<close>)
qed

section \<open>Witnesses\<close>

text \<open>An engine with two data centers, a cluster in the second and a network of one name in each.\<close>

definition demo_net :: "string \<Rightarrow> string \<Rightarrow> string \<Rightarrow> pyval" where
  "demo_net n dc i = PObj ''Network'' [(''name'', PStr n), (''id'', PStr i), (''data_center'', PObj ''DataCenter'' [(''id'', PStr dc)]),
     (''link'', PList [PObj ''Link'' [(''rel'', PStr ''networklabels''), (''href'', PStr (''/api/networks/'' @ i @ ''/networklabels''))]])]"

definition demo_elements :: "string \<Rightarrow> pyval list" where
  "demo_elements el =
     (if el = ''network'' then [demo_net ''red'' ''1'' ''n1'', demo_net ''Red'' ''2'' ''n2'', demo_net ''blue'' ''2'' ''n3'']
      else if el = ''data_center'' then
        [PObj ''DataCenter'' [(''name'', PStr ''dc1''), (''id'', PStr ''1'')], PObj ''DataCenter'' [(''name'', PStr ''dc2''), (''id'', PStr ''2'')]]
      else if el = ''cluster'' then [PObj ''Cluster'' [(''name'', PStr ''cl''), (''data_center'', PObj ''DataCenter'' [(''id'', PStr ''2'')])]]
      else [])"

definition demo_label :: pyval where
  "demo_label = PObj ''NetworkLabel'' [(''id'', PStr ''lb''), (''href'', PStr ''/api/labels/lb'')]"

definition net_srv :: "nat server_fun" where
  "net_srv rq w = (Inr \<lparr>resp_status = 200, resp_reason = ''OK'', resp_headers = [], resp_data = req_url rq\<rparr>, w + 1)"

definition demo_apis :: "nat apis" where
  "demo_apis el col = demo_rest\<lparr>srv := net_srv, element_name := el, collection_name := col, links := [(col, ''/api/'' @ col)],
     parse := (\<lambda>s. Inr (if s = ''/api/networks/n1/networklabels'' then PObj [] [(''network_label'', PList [demo_label])]
                    else PObj [] [(el, PList (demo_elements el))]))\<rparr>"

lemma demo_find_network:
  "fst (find_network demo_apis (PStr ''RED'') (PStr ''dc2'') PNone demo_rest_st) = Inr (demo_net ''Red'' ''2'' ''n2'')"
  by code_simp

theorem find_network_verdict_witness:
  "\<exists>s1 s2 pre post. listed (NET_API demo_apis) s1 = (Inr (pre @ demo_net ''Red'' ''2'' ''n2'' # post), s2)"
proof -
  obtain s' where "find_network demo_apis (PStr ''RED'') (PStr ''dc2'') PNone demo_rest_st = (Inr (demo_net ''Red'' ''2'' ''n2''), s')"
    using demo_find_network by (metis prod.collapse)
  from find_network_verdict [OF this] show ?thesis by auto
qed

end
