(* ===== verification/Vnic_Profiles.thy ===== *)
theory Vnic_Profiles
  imports Networks
begin

text \<open>
  \<open>art/rhevm_api/tests_lib/low_level/networks.py\<close>, continued: vNIC profiles, labels, bonds and
  what the files of a host tell about its networks. Outside are the host's commands and files
  and \<open>re.findall\<close> of a given pattern.
\<close>

section \<open>Profiles\<close>

definition get_vnic_profile_objects :: "'w apis \<Rightarrow> ('w rest_st, pyval) comp" where
  "get_vnic_profile_objects A = get_all (VNIC_PROFILE_API A)"

definition get_all_vnics_profiles :: "'w apis \<Rightarrow> ('w rest_st, pyval) comp" where
  "get_all_vnics_profiles A = get_all (VNIC_PROFILE_API A)"

definition get_all_networks :: "'w apis \<Rightarrow> ('w rest_st, pyval) comp" where
  "get_all_networks A = get_all (NET_API A)"

definition get_network_vnic_profiles :: "'w apis \<Rightarrow> pyval \<Rightarrow> pyval \<Rightarrow> pyval \<Rightarrow> ('w rest_st, pyval) comp" where
  "get_network_vnic_profiles A network cluster data_center =
     bindE (find_network A network data_center cluster) (\<lambda>network_object.
     linked (NET_API A) network_object ''vnicprofiles'' ''vnic_profile'')"

text \<open>The first profile of the name; \<open>filter\<close> looks at all of them.\<close>

definition first_named :: "pyval \<Rightarrow> pyval list \<Rightarrow> exn + pyval option" where
  "first_named n xs = res_bind (filter_res (name_is n) xs) (\<lambda>l. Inr (case l of [] \<Rightarrow> None | x # _ \<Rightarrow> Some x))"

definition get_vnic_profile_obj :: "'w apis \<Rightarrow> pyval \<Rightarrow> pyval \<Rightarrow> pyval \<Rightarrow> pyval \<Rightarrow> ('w rest_st, pyval) comp" where
  "get_vnic_profile_obj A n network cluster data_center =
     bindE (get_network_vnic_profiles A network cluster data_center) (\<lambda>v.
     bindE (lift_res (py_iter v)) (\<lambda>profiles.
     bindE (lift_res (first_named n profiles)) (\<lambda>found.
     (case found of Some p \<Rightarrow> ret p | None \<Rightarrow> raise EntityNotFound))))"

definition get_vnic_profile_object ::
  "'w apis \<Rightarrow> pyval \<Rightarrow> pyval \<Rightarrow> pyval \<Rightarrow> pyval \<Rightarrow> ('w rest_st, pyval) comp" where
  "get_vnic_profile_object A vnic_profile network cluster data_center =
     (if truthy network then get_vnic_profile_obj A vnic_profile network cluster data_center
      else
        bindE (get_all_vnics_profiles A) (\<lambda>v.
        bindE (lift_res (py_iter v)) (\<lambda>profiles.
        bindE (lift_res (first_named vnic_profile profiles)) (\<lambda>found. ret (opt_val found)))))"

definition of_network :: "pyval \<Rightarrow> pyval \<Rightarrow> pyval \<Rightarrow> exn + bool" where
  "of_network vnic_profile net_id p =
     res_bind (name_is vnic_profile p) (\<lambda>b.
     if \<not> b then Inr False
     else res_bind (getattr_chain [''network'', ''id''] p) (\<lambda>i. Inr (py_eq i net_id)))"

definition get_vnic_profile_from_network ::
  "'w apis \<Rightarrow> pyval \<Rightarrow> pyval \<Rightarrow> pyval \<Rightarrow> pyval \<Rightarrow> ('w rest_st, pyval option) comp" where
  "get_vnic_profile_from_network A network vnic_profile cluster data_center =
     bindE (find_network A network data_center cluster) (\<lambda>net.
     bindE (lift_res (getattr net ''id'')) (\<lambda>net_id.
     bindE (get_vnic_profile_objects A) (\<lambda>v.
     bindE (lift_res (py_iter v)) (\<lambda>profiles. lift_res (find_res (of_network vnic_profile net_id) profiles)))))"

text \<open>A dictionary of the filters by their names; later ones win.\<close>

definition get_supported_network_filters :: "'w apis \<Rightarrow> ('w rest_st, (pyval, pyval) dict) comp" where
  "get_supported_network_filters A =
     bindE (get_all (NF_API A)) (\<lambda>v.
     bindE (lift_res (getattr v ''network_filter'')) (\<lambda>l.
     bindE (lift_res (py_iter l)) (\<lambda>fs.
     bindE (lift_res (keyed (\<lambda>f. getattr f ''name'') fs)) (\<lambda>kfs. ret (dict_update [] kfs)))))"

text \<open>\<open>createCustomPropertiesFromArg\<close> of \<open>vms.py\<close>: pairs separated by semicolons.\<close>

definition custom_property :: "'w apis \<Rightarrow> string \<Rightarrow> exn + pyval" where
  "custom_property A prop =
     (case split_once prop of
        None \<Rightarrow> Inl PyException
      | Some (n, v) \<Rightarrow> Inr (setattr (setattr (new_object A ''CustomProperty'') ''name'' (PStr n)) ''value'' (PStr v)))"

definition createCustomPropertiesFromArg :: "'w apis \<Rightarrow> string \<Rightarrow> exn + pyval" where
  "createCustomPropertiesFromArg A prop_arg =
     (let cps = new_object A ''CustomProperties'' in
      if prop_arg = ''clear'' then Inr cps
      else res_bind (map_res (custom_property A) (split_on prop_arg '';'')) (\<lambda>l.
           Inr (setattr cps ''custom_property'' (PList l))))"

definition network_filter_for :: "'w apis \<Rightarrow> pyval \<Rightarrow> ('w rest_st, pyval) comp" where
  "network_filter_for A network_filter =
     (if \<not> py_eq network_filter (PStr ''None'') then
        bindE (get_supported_network_filters A) (\<lambda>fs. ret (opt_val (map_of fs network_filter)))
      else ret (new_object A ''NetworkFilter''))"

definition prepare_vnic_profile_object :: "'w apis \<Rightarrow> (string, pyval) dict \<Rightarrow> ('w rest_st, pyval) comp" where
  "prepare_vnic_profile_object A kw =
     (let p1 = set_true kw ''description'' (set_some kw ''port_mirroring'' (set_true kw ''name'' (new_object A ''VnicProfile'')));
          net = (if truthy (kwget kw ''network'') then kwget kw ''network'' else kwget kw ''new_network'');
          props = kwget kw ''custom_properties''; nf = kwget kw ''network_filter''; pt = kwget kw ''pass_through'' in
     bindE (if truthy net then
              bindE (find_network A net (kwget kw ''data_center'') (kwget kw ''cluster'')) (\<lambda>n. ret (setattr p1 ''network'' n))
            else ret p1) (\<lambda>p2.
     let p3 = set_true kw ''qos'' p2 in
     bindE (if truthy props then
              bindE (lift_res (as_string props)) (\<lambda>s.
              bindE (lift_res (createCustomPropertiesFromArg A s)) (\<lambda>c. ret (setattr p3 ''custom_properties'' c)))
            else ret p3) (\<lambda>p4.
     let p5 = set_if (pt \<noteq> PNone) ''pass_through''
                (setattr (new_object A ''VnicPassThrough'') ''mode'' (PStr (if truthy pt then ''enabled'' else ''disabled''))) p4 in
     bindE (if truthy nf then bindE (network_filter_for A nf) (\<lambda>f. ret (setattr p5 ''network_filter'' f)) else ret p5) (\<lambda>p6.
     ret (set_some kw ''migratable'' p6)))))"

definition add_vnic_profile :: "'w apis \<Rightarrow> bool \<Rightarrow> string \<Rightarrow> (string, pyval) dict \<Rightarrow> ('w rest_st, bool) comp" where
  "add_vnic_profile A positive n kw =
     bindE (prepare_vnic_profile_object A (dict_set kw ''name'' (PStr n))) (\<lambda>p. create_element (VNIC_PROFILE_API A) p positive)"

definition update_vnic_profile :: "'w apis \<Rightarrow> string \<Rightarrow> pyval \<Rightarrow> (string, pyval) dict \<Rightarrow> ('w rest_st, bool) comp" where
  "update_vnic_profile A n network kw0 =
     (let kw = dict_set kw0 ''name'' (PStr n) in
      bindE (get_vnic_profile_from_network A network (PStr n) (kwget kw ''cluster'') (kwget kw ''data_center'')) (\<lambda>found.
      (case found of
         None \<Rightarrow> ret False
       | Some p \<Rightarrow>
           if \<not> truthy p then ret False
           else bindE (prepare_vnic_profile_object A kw) (\<lambda>q. update_element (VNIC_PROFILE_API A) p q True))))"

definition update_qos_on_vnic_profile ::
  "'w apis \<Rightarrow> pyval \<Rightarrow> pyval \<Rightarrow> string \<Rightarrow> pyval \<Rightarrow> pyval \<Rightarrow> ('w rest_st, bool) comp" where
  "update_qos_on_vnic_profile A datacenter qos_name vnic_profile_name network_name cluster =
     bindE (get_qos_from_datacenter A datacenter qos_name) (\<lambda>qos.
     update_vnic_profile A vnic_profile_name network_name [(''cluster'', cluster), (''data_center'', datacenter), (''qos'', qos)])"

definition remove_vnic_profile ::
  "'w apis \<Rightarrow> bool \<Rightarrow> string \<Rightarrow> pyval \<Rightarrow> pyval \<Rightarrow> pyval \<Rightarrow> ('w rest_st, bool) comp" where
  "remove_vnic_profile A positive vnic_profile_name network cluster data_center =
     bindE (get_vnic_profile_object A (PStr vnic_profile_name) network cluster data_center) (\<lambda>p.
     delete_element (VNIC_PROFILE_API A) p positive)"

definition is_vnic_profile_exist :: "'w apis \<Rightarrow> string \<Rightarrow> ('w rest_st, bool) comp" where
  "is_vnic_profile_exist A vnic_profile_name =
     bindE (get_vnic_profile_objects A) (\<lambda>v.
     bindE (lift_res (py_iter v)) (\<lambda>profiles.
     bindE (lift_res (find_res (name_is (PStr vnic_profile_name)) profiles)) (\<lambda>found. ret (found \<noteq> None))))"

text \<open>
  The attributes of a profile: a filter is shown by the name the engine lists for its id, and
  any value with a name by that name.
\<close>

definition filter_name :: "pyval \<Rightarrow> (pyval, pyval) dict \<Rightarrow> exn + pyval list" where
  "filter_name i fs =
     res_bind (filter_res (\<lambda>(x, y). res_bind (getattr y ''id'') (\<lambda>j. Inr (py_eq j i))) fs) (\<lambda>l. Inr (map fst l))"

definition profile_attr :: "'w apis \<Rightarrow> pyval \<Rightarrow> string \<Rightarrow> ('w rest_st, string \<times> pyval) comp" where
  "profile_attr A p arg0 =
     (let arg = (if arg0 = ''network_obj'' then ''network'' else arg0) in
     bindE (lift_res (getattr p arg)) (\<lambda>v0.
     bindE (if arg = ''network_filter'' then
              (case getattr_opt v0 ''id'' of
                 None \<Rightarrow> ret v0
               | Some i \<Rightarrow>
                   bindE (get_supported_network_filters A) (\<lambda>fs.
                   bindE (lift_res (filter_name i fs)) (\<lambda>l. ret (case l of [] \<Rightarrow> v0 | n # _ \<Rightarrow> n))))
            else ret v0) (\<lambda>v.
     ret (arg, case getattr_opt v ''name'' of Some n \<Rightarrow> n | None \<Rightarrow> v))))"

definition get_vnic_profile_attr ::
  "'w apis \<Rightarrow> pyval \<Rightarrow> pyval \<Rightarrow> pyval \<Rightarrow> pyval \<Rightarrow> string list \<Rightarrow> ('w rest_st, (string, pyval) dict) comp" where
  "get_vnic_profile_attr A n network cluster data_center attr_list =
     bindE (get_vnic_profile_obj A n network cluster data_center) (\<lambda>p.
     bindE (map_comp (profile_attr A p) attr_list) (\<lambda>kvs. ret (dict_update [] kvs)))"

section \<open>Mappings for an import\<close>

text \<open>
  A mapping names the profile it comes from (a name and a network) and the profile it goes to,
  first by name; the object found for the name is written back into the caller's mapping.
\<close>

record network_mapping =
  nm_from :: "(pyval \<times> pyval) option"
  nm_to :: pyval
  nm_network :: pyval
  nm_cluster :: pyval
  nm_datacenter :: pyval

definition resolve_target :: "'w apis \<Rightarrow> network_mapping \<Rightarrow> ('w rest_st, network_mapping) comp" where
  "resolve_target A m =
     (if truthy (nm_to m) then
        bindE (get_vnic_profile_obj A (nm_to m) (nm_network m) (nm_cluster m) (nm_datacenter m)) (\<lambda>p. ret (m\<lparr>nm_to := p\<rparr>))
      else ret m)"

definition registration_mapping :: "'w apis \<Rightarrow> network_mapping \<Rightarrow> exn + pyval" where
  "registration_mapping A m =
     (let r0 = new_object A ''RegistrationVnicProfileMapping'';
          profile = new_object A ''VnicProfile'';
          r1 = (case nm_from m of
                  None \<Rightarrow> r0
                | Some (vnic_name, network_name) \<Rightarrow>
                    setattr r0 ''from'' (setattr (setattr profile ''name'' vnic_name) ''network''
                      (setattr (new_object A ''Network'') ''name'' network_name)))
      in if truthy (nm_to m) then res_bind (getattr (nm_to m) ''id'') (\<lambda>i. Inr (setattr r1 ''to'' (setattr profile ''id'' i)))
         else Inr r1)"

text \<open>\<open>add_registration_vnic_profile_mapping\<close> appends to the list of the new object.\<close>

definition mappings_with :: "'w apis \<Rightarrow> pyval list \<Rightarrow> pyval" where
  "mappings_with A l = setattr (new_object A ''RegistrationVnicProfileMappings'') ''registration_vnic_profile_mapping'' (PList l)"

definition prepare_vnic_profile_mappings_object ::
  "'w apis \<Rightarrow> network_mapping list \<Rightarrow> ('w rest_st, pyval \<times> network_mapping list) comp" where
  "prepare_vnic_profile_mappings_object A network_mappings =
     for_each network_mappings (\<lambda>m0 (_, changed).
       bindE (resolve_target A m0) (\<lambda>m.
       bindE (lift_res (registration_mapping A m)) (\<lambda>r. ret (mappings_with A [r], changed @ [m])))) (PNone, [])"

section \<open>Labels\<close>

definition create_label :: "'w apis \<Rightarrow> string \<Rightarrow> pyval" where
  "create_label A label = setattr (new_object A ''NetworkLabel'') ''id'' (PStr label)"

text \<open>
  What a label is to be added to: networks by name, and NICs of a host. A label is a name or a
  label object; the keyword \<open>nic\<close> is a name, or missing.
\<close>

record label_params =
  lp_networks :: "pyval list"
  lp_datacenter :: pyval
  lp_cluster :: pyval
  lp_host :: pyval
  lp_nic :: pyval

text \<open>The log message reads the id of the label, and the name of the host when there is one.\<close>

definition label_on :: "'w apis \<Rightarrow> 'w rest_env \<Rightarrow> pyval \<Rightarrow> exn + pyval \<Rightarrow> pyval \<Rightarrow> ('w rest_st, bool) comp" where
  "label_on A E label_obj host_name entity_obj =
     bindE (link_address E entity_obj ''networklabels'' ''networklabel'') (\<lambda>labels_href.
     bindE (lift_res (getattr label_obj ''id'')) (\<lambda>_.
     bindE (lift_res host_name) (\<lambda>_.
     bindE (create_in (LABEL_API A) label_obj True labels_href ''network_label'' False) (\<lambda>r. ret (snd r)))))"

fun label_networks :: "'w apis \<Rightarrow> pyval \<Rightarrow> label_params \<Rightarrow> pyval list \<Rightarrow> ('w rest_st, bool) comp" where
  "label_networks A label_obj p [] = ret True"
| "label_networks A label_obj p (network # networks) =
     bindE (find_network A network (lp_datacenter p) (lp_cluster p)) (\<lambda>entity_obj.
     bindE (label_on A (NET_API A) label_obj (Inr PNone) entity_obj) (\<lambda>ok.
     if \<not> ok then ret False else label_networks A label_obj p networks))"

definition add_one_label :: "'w apis \<Rightarrow> string + pyval \<Rightarrow> label_params \<Rightarrow> ('w rest_st, bool) comp" where
  "add_one_label A label p =
     (let label_obj = (case label of Inl s \<Rightarrow> create_label A s | Inr x \<Rightarrow> x) in
      bindE (label_networks A label_obj p (lp_networks p)) (\<lambda>ok.
      if \<not> ok then ret False
      else if truthy (lp_nic p) then
        bindE (get_host_nic A (lp_host p) (lp_nic p) False) (\<lambda>x.
        label_on A (HOST_NICS_API A) label_obj (getattr (lp_host p) ''name'') (opt_val x))
      else ret True))"

fun add_label :: "'w apis \<Rightarrow> ((string + pyval) \<times> label_params) list \<Rightarrow> ('w rest_st, bool) comp" where
  "add_label A [] = ret True"
| "add_label A ((label, p) # rest) = bindE (add_one_label A label p) (\<lambda>ok. if \<not> ok then ret False else add_label A rest)"

definition labels_of_nics :: "'w apis \<Rightarrow> (pyval \<times> pyval list) list \<Rightarrow> ('w rest_st, pyval list) comp" where
  "labels_of_nics A host_nics =
     for_each host_nics (\<lambda>(host, nics) acc.
       for_each nics (\<lambda>nic acc.
         bindE (get_host_nic A host nic False) (\<lambda>x.
         bindE (linked_list (HOST_NICS_API A) (opt_val x) ''networklabels'' ''network_label'') (\<lambda>ls. ret (acc @ ls)))) acc) []"

definition labels_of_networks :: "'w apis \<Rightarrow> pyval list \<Rightarrow> pyval \<Rightarrow> pyval \<Rightarrow> ('w rest_st, pyval list) comp" where
  "labels_of_networks A networks datacenter cluster =
     for_each networks (\<lambda>network acc.
       bindE (find_network A network datacenter cluster) (\<lambda>x.
       bindE (linked_list (NET_API A) x ''networklabels'' ''network_label'') (\<lambda>ls. ret (acc @ ls)))) []"

definition get_label_objects ::
  "'w apis \<Rightarrow> (pyval \<times> pyval list) list \<Rightarrow> pyval list \<Rightarrow> pyval \<Rightarrow> pyval \<Rightarrow> ('w rest_st, pyval list) comp" where
  "get_label_objects A host_nic_dict networks datacenter cluster =
     bindE (labels_of_nics A host_nic_dict) (\<lambda>l1.
     bindE (labels_of_networks A networks datacenter cluster) (\<lambda>l2.
     if networks = [] \<and> host_nic_dict = [] then raise EntityNotFound else ret (l1 @ l2)))"

text \<open>Removing goes on after a label that could not be removed.\<close>

definition remove_label ::
  "'w apis \<Rightarrow> (pyval \<times> pyval list) list \<Rightarrow> pyval list \<Rightarrow> pyval \<Rightarrow> pyval \<Rightarrow> pyval list option \<Rightarrow> ('w rest_st, bool) comp" where
  "remove_label A host_nic_dict networks datacenter cluster labels =
     bindE (get_label_objects A host_nic_dict networks datacenter cluster) (\<lambda>labels_obj.
     bindE (case labels of
         None \<Rightarrow> ret labels_obj
       | Some ls \<Rightarrow>
           lift_res (filter_res (\<lambda>x. res_bind (getattr x ''id'') (\<lambda>i. Inr (list_ex (py_eq i) ls))) labels_obj)) (\<lambda>objs.
     for_each objs (\<lambda>x status.
       bindE (lift_res (getattr x ''id'')) (\<lambda>_.
       bindE (delete_element (LABEL_API A) x True) (\<lambda>ok. ret (status \<and> ok)))) True))"

definition get_host_nic_labels :: "'w apis \<Rightarrow> pyval \<Rightarrow> ('w rest_st, pyval) comp" where
  "get_host_nic_labels A nic = linked (HOST_NICS_API A) nic ''networklabels'' ''network_label''"

definition get_host_nic_label_objs_by_id :: "'w apis \<Rightarrow> pyval list \<Rightarrow> pyval list \<Rightarrow> ('w rest_st, pyval list) comp" where
  "get_host_nic_label_objs_by_id A host_nics labels_id =
     for_each host_nics (\<lambda>nic acc.
       bindE (get_host_nic_labels A nic) (\<lambda>v.
       bindE (lift_res (py_iter v)) (\<lambda>ls.
       bindE (lift_res (filter_res (\<lambda>x. res_bind (getattr x ''id'') (\<lambda>i. Inr (list_ex (py_eq i) labels_id))) ls)) (\<lambda>l.
       ret (acc @ l))))) []"

section \<open>NICs, bonds and clusters\<close>

definition get_network_on_host_nic :: "'w apis \<Rightarrow> pyval \<Rightarrow> pyval \<Rightarrow> ('w rest_st, pyval) comp" where
  "get_network_on_host_nic A host nic =
     bindE (get_host_nic A host nic False) (\<lambda>x.
     bindE (lift_res (getattr_chain [''network'', ''id''] (opt_val x))) (\<lambda>i. get_object_name_by_id (NET_API A) i))"

definition get_bond_bonding_property :: "'w apis \<Rightarrow> pyval \<Rightarrow> string \<Rightarrow> string \<Rightarrow> ('w rest_st, pyval) comp" where
  "get_bond_bonding_property A host bond property_name =
     bindE (get_host_nics_list A host False) (\<lambda>v.
     bindE (lift_res (py_iter v)) (\<lambda>nics.
     bindE (lift_res (first_named (PStr bond) nics)) (\<lambda>found.
     (case found of
        None \<Rightarrow> ret PNone
      | Some b \<Rightarrow> bindE (lift_res (getattr b ''bonding'')) (\<lambda>x. lift_res (getattr x property_name))))))"

definition get_bond_active_slave_object :: "'w apis \<Rightarrow> pyval \<Rightarrow> string \<Rightarrow> ('w rest_st, pyval) comp" where
  "get_bond_active_slave_object A host bond =
     bindE (get_host_nics_list A host False) (\<lambda>v.
     bindE (lift_res (py_iter v)) (\<lambda>nics.
     bindE (lift_res (first_named (PStr bond) nics)) (\<lambda>found.
     bindE (case found of None \<Rightarrow> ret PNone | Some b \<Rightarrow> lift_res (getattr_chain [''bonding'', ''active_slave''] b)) (\<lambda>slave.
     if \<not> truthy slave then ret PNone
     else
       bindE (lift_res (filter_res (\<lambda>x. res_bind (getattr x ''id'') (\<lambda>i. res_bind (getattr slave ''id'') (\<lambda>j. Inr (py_eq i j)))) nics)) (\<lambda>l.
       (case l of [] \<Rightarrow> raise IndexError | x # _ \<Rightarrow> ret x))))))"

text \<open>The clusters that are in a data center, with its id.\<close>

fun clusters_in_dcs :: "pyval list \<Rightarrow> exn + (pyval \<times> pyval) list" where
  "clusters_in_dcs [] = Inr []"
| "clusters_in_dcs (cl # cls) =
     res_bind (getattr cl ''data_center'') (\<lambda>dc.
     if truthy dc then
       res_bind (getattr dc ''id'') (\<lambda>i. res_bind (clusters_in_dcs cls) (\<lambda>l. Inr ((cl, i) # l)))
     else clusters_in_dcs cls)"

definition get_network_cluster :: "'w apis \<Rightarrow> pyval \<Rightarrow> pyval \<Rightarrow> ('w rest_st, pyval) comp" where
  "get_network_cluster A network datacenter =
     bindE (find_network A network datacenter PNone) (\<lambda>net_obj.
     bindE (if truthy datacenter then ret datacenter else lift_res (getattr_chain [''data_center'', ''id''] net_obj)) (\<lambda>dc.
     bindE (get_data_center A dc (if truthy datacenter then ''name'' else ''id'')) (\<lambda>network_dc.
     bindE (get_cluster_list A) (\<lambda>v.
     bindE (lift_res (py_iter v)) (\<lambda>cls.
     bindE (lift_res (clusters_in_dcs cls)) (\<lambda>pairs.
     bindE (lift_res (filter_res (\<lambda>(cl, i). res_bind (getattr network_dc ''id'') (\<lambda>j. Inr (py_eq i j))) pairs)) (\<lambda>l.
     ret (case l of [] \<Rightarrow> PNone | (cl, _) # _ \<Rightarrow> cl))))))))"

definition create_properties :: "'w apis \<Rightarrow> (string, pyval) dict \<Rightarrow> pyval" where
  "create_properties A kw =
     (if truthy (kwget kw ''bridge_opts'') \<or> truthy (kwget kw ''ethtool_opts'') then
        setattr (new_object A ''Properties'') ''property''
          (PList (map (\<lambda>(k, v). setattr (setattr (new_object A ''Property'') ''name'' (PStr k)) ''value'' v) kw))
      else new_object A ''Properties'')"

section \<open>Networks on a host\<close>

text \<open>A command on the host gives its exit code and output; the host tells whether a path exists.\<close>

record 'v vds =
  vds_run :: "string list \<Rightarrow> ('v, int \<times> string) comp"
  vds_exists :: "string \<Rightarrow> ('v, bool) comp"

definition SYS_CLASS_NET_DIR :: string where "SYS_CLASS_NET_DIR = ''/sys/class/net''"
definition PROC_NET_DIR :: string where "PROC_NET_DIR = ''/proc/net''"
definition ETHTOOL_CMD :: string where "ETHTOOL_CMD = ''ethtool''"

definition check_ip_rule :: "(string \<Rightarrow> string \<Rightarrow> string list) \<Rightarrow> 'v vds \<Rightarrow> string \<Rightarrow> int \<Rightarrow> ('v, bool) comp" where
  "check_ip_rule findall vds subnet matches =
     bindE (vds_run vds [''ip'', ''rule'']) (\<lambda>(rc, out).
     ret (rc = 0 \<and> matches \<le> int (length (findall (replace subnet ''.'' ''[.]'') out))))"

definition is_host_network_is_vm :: "'v vds \<Rightarrow> string \<Rightarrow> ('v, bool) comp" where
  "is_host_network_is_vm vds net_name = vds_exists vds (SYS_CLASS_NET_DIR @ ''/'' @ net_name)"

text \<open>\<open>re.search("VID: ([0-9]+)", out)\<close>.\<close>

fun vid_of :: "string \<Rightarrow> string option" where
  "vid_of [] = None"
| "vid_of (c # s) =
     (let d = takeWhile is_digit (drop 5 (c # s)) in
      if startswith (c # s) ''VID: '' \<and> d \<noteq> [] then Some d else vid_of s)"

definition is_vlan_on_host_network :: "'v vds \<Rightarrow> string \<Rightarrow> pyval \<Rightarrow> ('v, bool) comp" where
  "is_vlan_on_host_network vds interface vlan =
     bindE (vds_run vds [''cat'', PROC_NET_DIR @ ''/vlan/'' @ interface @ ''.'' @ py_str vlan]) (\<lambda>(rc, out).
     if rc \<noteq> 0 then ret False
     else ret (py_eq (case vid_of out of None \<Rightarrow> PNone | Some v \<Rightarrow> PStr v) vlan))"

definition check_bridge_opts :: "'v vds \<Rightarrow> string \<Rightarrow> string \<Rightarrow> string \<Rightarrow> ('v, bool) comp" where
  "check_bridge_opts vds bridge_name opt_name value =
     bindE (vds_run vds [''cat'', SYS_CLASS_NET_DIR @ ''/'' @ bridge_name @ ''/bridge/'' @ opt_name]) (\<lambda>(rc, out).
     ret (rc = 0 \<and> strip out = value))"

fun ethtool_value :: "string \<Rightarrow> string list \<Rightarrow> exn + string option" where
  "ethtool_value opt_name [] = Inr None"
| "ethtool_value opt_name (line # lines) =
     (if contains line opt_name then
        (case split_on line '':'' of _ # v # _ \<Rightarrow> Inr (Some (lstrip v)) | _ \<Rightarrow> Inl IndexError)
      else ethtool_value opt_name lines)"

definition check_ethtool_opts :: "(string \<Rightarrow> string list) \<Rightarrow> 'v vds \<Rightarrow> string \<Rightarrow> string \<Rightarrow> string \<Rightarrow> ('v, bool) comp" where
  "check_ethtool_opts splitlines vds nic opt_name value =
     (if opt_name \<noteq> ''tx-checksumming'' \<and> opt_name \<noteq> ''rx-checksumming'' then ret False
      else
        bindE (vds_run vds [ETHTOOL_CMD, ''-k'', nic]) (\<lambda>(rc, out).
        if rc \<noteq> 0 then ret False
        else bindE (lift_res (ethtool_value opt_name (splitlines out))) (\<lambda>v. ret (v = Some value))))"

definition check_bridge_file_exist :: "bool \<Rightarrow> 'v vds \<Rightarrow> string \<Rightarrow> ('v, bool) comp" where
  "check_bridge_file_exist positive vds bridge_name =
     bindE (vds_exists vds (SYS_CLASS_NET_DIR @ ''/'' @ bridge_name @ ''/bridge'')) (\<lambda>res. ret (res = positive))"

section \<open>What the mappings keep\<close>

lemma for_each_append:
  "for_each (xs @ ys) f = (\<lambda>s. bindE (for_each xs f s) (for_each ys f))"
proof (induction xs)
  case (Cons x xs)
  have "for_each ((x # xs) @ ys) f s = bindE (f x s) (for_each (xs @ ys) f)" for s by simp
  then show ?case by (simp only: Cons.IH for_each.simps bindE_assoc)
qed (simp add: fun_eq_iff)

text \<open>
  The mappings for an import are not all passed on: the object that collects them is made anew
  for every mapping, so what is returned holds the registration of the last one only, while the
  targets of all of them have been looked up and written into the caller's list.
\<close>

theorem only_last_mapping_survives:
  assumes "prepare_vnic_profile_mappings_object A (ms @ [m]) s = (Inr (v, changed), s')"
  shows "\<exists>m' r s1. resolve_target A m s1 = (Inr m', s') \<and> registration_mapping A m' = Inr r \<and>
    v = mappings_with A [r] \<and> last changed = m'"
  using assms unfolding prepare_vnic_profile_mappings_object_def for_each_append
  by (auto simp: lift_res_def ret_def elim!: bindE_InrE) metis

section \<open>What removing labels reports\<close>

lemma remove_each_verdict:
  assumes "for_each objs (\<lambda>x status. bindE (lift_res (getattr x ''id'')) (\<lambda>_.
      bindE (delete_element E x True) (\<lambda>ok. ret (status \<and> ok)))) b s = (Inr r, s')"
  shows "\<exists>oks. length oks = length objs \<and> (r \<longleftrightarrow> b \<and> (\<forall>ok \<in> set oks. ok)) \<and>
    (\<forall>(x, ok) \<in> set (zip objs oks). \<exists>v v'. delete_element E x True v = (Inr ok, v'))"
  using assms
proof (induction objs arbitrary: b s)
  case (Cons x xs)
  then obtain ok s1 where x: "delete_element E x True s = (Inr ok, s1)"
    and rest: "for_each xs (\<lambda>x status. bindE (lift_res (getattr x ''id'')) (\<lambda>_.
      bindE (delete_element E x True) (\<lambda>ok. ret (status \<and> ok)))) (b \<and> ok) s1 = (Inr r, s')"
    by (auto simp: lift_res_def ret_def elim!: bindE_InrE)
  from Cons.IH [OF rest] obtain oks where "length oks = length xs" "r \<longleftrightarrow> (b \<and> ok) \<and> (\<forall>ok \<in> set oks. ok)"
    "\<forall>(x, ok) \<in> set (zip xs oks). \<exists>v v'. delete_element E x True v = (Inr ok, v')" by blast
  with x show ?case by (intro exI [of _ "ok # oks"]) auto
qed (simp add: ret_def)

text \<open>
  Removing labels goes through all labels found, whether or not an earlier one could be removed:
  of the labels that are on the given NICs and networks each one with a wanted id is asked to be
  deleted, and the answer is True exactly when every deletion was.
\<close>

theorem remove_label_verdict:
  assumes "remove_label A host_nics networks dc cluster labels s = (Inr r, s')"
  shows "\<exists>found objs oks s1. get_label_objects A host_nics networks dc cluster s = (Inr found, s1) \<and>
    objs = (case labels of None \<Rightarrow> found
      | Some ls \<Rightarrow> filter (\<lambda>x. \<exists>i. getattr x ''id'' = Inr i \<and> list_ex (py_eq i) ls) found) \<and>
    length oks = length objs \<and> (r \<longleftrightarrow> (\<forall>ok \<in> set oks. ok)) \<and>
    (\<forall>(x, ok) \<in> set (zip objs oks). \<exists>v v'. delete_element (LABEL_API A) x True v = (Inr ok, v'))"
proof -
  let ?p = "\<lambda>ls x. res_bind (getattr x ''id'') (\<lambda>i. Inr (list_ex (py_eq i) ls))"
  from assms obtain found s1 objs where found: "get_label_objects A host_nics networks dc cluster s = (Inr found, s1)"
    and objs: "(case labels of None \<Rightarrow> ret found | Some ls \<Rightarrow> lift_res (filter_res (?p ls) found)) s1 = (Inr objs, s1)"
    and run: "for_each objs (\<lambda>x status. bindE (lift_res (getattr x ''id'')) (\<lambda>_.
      bindE (delete_element (LABEL_API A) x True) (\<lambda>ok. ret (status \<and> ok)))) True s1 = (Inr r, s')"
    unfolding remove_label_def by (auto simp: lift_res_def ret_def elim!: bindE_InrE split: option.splits)
  have "objs = (case labels of None \<Rightarrow> found
      | Some ls \<Rightarrow> filter (\<lambda>x. \<exists>i. getattr x ''id'' = Inr i \<and> list_ex (py_eq i) ls) found)"
    using objs by (auto simp: lift_res_def ret_def res_bind_Inr dest: filter_res_Inr split: option.splits)
  moreover from remove_each_verdict [OF run] obtain oks where "length oks = length objs" "r \<longleftrightarrow> (\<forall>ok \<in> set oks. ok)"
    "\<forall>(x, ok) \<in> set (zip objs oks). \<exists>v v'. delete_element (LABEL_API A) x True v = (Inr ok, v')" by auto
  ultimately show ?thesis using found by blast
qed

section \<open>Witnesses\<close>

definition demo_mapping :: "string \<Rightarrow> network_mapping" where
  "demo_mapping n = \<lparr>nm_from = Some (PStr n, PStr ''red''), nm_to = PNone, nm_network = PNone, nm_cluster = PNone, nm_datacenter = PNone\<rparr>"

theorem only_last_mapping_survives_witness:
  "\<exists>v changed r. fst (prepare_vnic_profile_mappings_object demo_apis [demo_mapping ''a'', demo_mapping ''b''] demo_rest_st) = Inr (v, changed) \<and>
     registration_mapping demo_apis (demo_mapping ''b'') = Inr r \<and> v = mappings_with demo_apis [r]"
proof -
  obtain v changed s' where
    run: "prepare_vnic_profile_mappings_object demo_apis [demo_mapping ''a'', demo_mapping ''b''] demo_rest_st = (Inr (v, changed), s')"
    by (simp add: prepare_vnic_profile_mappings_object_def resolve_target_def demo_mapping_def registration_mapping_def comp_simps)
  have "fst (resolve_target demo_apis (demo_mapping ''b'') s) = Inr (demo_mapping ''b'')" for s
    by (simp add: resolve_target_def demo_mapping_def comp_simps)
  then have same: "m' = demo_mapping ''b''" if "resolve_target demo_apis (demo_mapping ''b'') s = (Inr m', t)" for s t m'
    using that by (metis fst_conv sum.inject(2))
  show ?thesis
    using only_last_mapping_survives [of demo_apis "[demo_mapping ''a'']", simplified, OF run] run same by fastforce
qed

lemma demo_remove_label:
  "fst (remove_label demo_apis [] [PStr ''red''] (PStr ''dc1'') PNone None demo_rest_st) = Inr True"
  by code_simp

theorem remove_label_verdict_witness:
  "\<exists>found s1. get_label_objects demo_apis [] [PStr ''red''] (PStr ''dc1'') PNone demo_rest_st = (Inr found, s1)"
proof -
  obtain s' where "remove_label demo_apis [] [PStr ''red''] (PStr ''dc1'') PNone None demo_rest_st = (Inr True, s')"
    using demo_remove_label by (metis prod.collapse)
  from remove_label_verdict [OF this] show ?thesis by blast
qed

end
