(* ===== verification/Sriov.thy ===== *)
theory Sriov
  imports Vnic_Profiles
begin

text \<open>
  \<open>art/rhevm_api/tests_lib/low_level/sriov.py\<close>: NICs of a host that have virtual functions.
  The three classes are records; a method that changes its object returns the changed record.
  When a method raises, the record is not returned: \<open>update_nic\<close> is written before it is read
  in every method.
\<close>

section \<open>NICs\<close>

record sriov_nic =
  update_nic :: pyval
  sn_host :: string
  nic_name :: pyval
  host_obj :: pyval
  nic_obj :: pyval
  vf_config :: pyval
  is_vf :: bool
  is_pf :: bool

definition update_vf_action :: string where "update_vf_action = ''updatevirtualfunctionsconfiguration''"
definition vf_allowed_labels_api :: string where "vf_allowed_labels_api = ''virtualfunctionallowedlabels''"
definition vf_allowed_networks_api :: string where "vf_allowed_networks_api = ''virtualfunctionallowednetworks''"

definition PF_LABEL_API :: "'w apis \<Rightarrow> 'w rest_env" where "PF_LABEL_API A = A ''network_label'' ''virtualfunctionallowedlabels''"
definition PF_NETWORK_API :: "'w apis \<Rightarrow> 'w rest_env" where "PF_NETWORK_API A = A ''network'' ''virtualfunctionallowednetworks''"

definition SriovNic :: "'w apis \<Rightarrow> string \<Rightarrow> pyval \<Rightarrow> ('w rest_st, sriov_nic) comp" where
  "SriovNic A host nic =
     bindE (get_host_object A host ''name'') (\<lambda>h.
     bindE (get_host_nic A h nic True) (\<lambda>found.
     let x = opt_val found in
     bindE (lift_res (getattr x ''virtual_functions_configuration'')) (\<lambda>conf.
     bindE (lift_res (getattr x ''physical_function'')) (\<lambda>pf.
     ret \<lparr>update_nic = PBool False, sn_host = host, nic_name = nic, host_obj = h, nic_obj = x,
          vf_config = conf, is_vf = truthy pf, is_pf = truthy conf\<rparr>))))"

definition SriovNicVF :: "'w apis \<Rightarrow> string \<Rightarrow> pyval \<Rightarrow> ('w rest_st, sriov_nic) comp" where
  "SriovNicVF A host nic =
     bindE (SriovNic A host nic) (\<lambda>o'. if \<not> is_vf o' then raise (TestExc SriovException) else ret o')"

definition get_pf_of_vf :: "sriov_nic \<Rightarrow> exn + pyval" where
  "get_pf_of_vf o' = getattr (nic_obj o') ''physical_function''"

text \<open>A PF also keeps the addresses of its allowed labels and networks.\<close>

record sriov_pf = sriov_nic +
  vf_label_href :: string
  vf_network_href :: string

definition SriovNicPF :: "'w apis \<Rightarrow> string \<Rightarrow> pyval \<Rightarrow> ('w rest_st, sriov_pf) comp" where
  "SriovNicPF A host nic =
     bindE (SriovNic A host nic) (\<lambda>o'.
     if \<not> is_pf o' then raise (TestExc SriovException)
     else
       bindE (lift_res (getattr (nic_obj o') ''href'')) (\<lambda>href.
       ret (sriov_nic.extend o' (sriov_pf.fields
         (py_str href @ ''/'' @ vf_allowed_labels_api) (py_str href @ ''/'' @ vf_allowed_networks_api)))))"

section \<open>The NICs of a host\<close>

text \<open>\<open>DUMMY_NIC or "dpdk"\<close> is \<open>DUMMY_NIC\<close>.\<close>

definition DUMMY_NIC :: string where "DUMMY_NIC = ''dummy''"

record sriov_host_nics =
  sh_host :: string
  host_nics :: "pyval list"

definition get_host_nics :: "'w apis \<Rightarrow> string \<Rightarrow> ('w rest_st, pyval list) comp" where
  "get_host_nics A host =
     bindE (get_host_object A host ''name'') (\<lambda>h.
     bindE (get_host_nics_list A h True) (\<lambda>v.
     bindE (lift_res (py_iter v)) (\<lambda>nics.
     lift_res (filter_res (\<lambda>x. res_bind (getattr x ''name'') (\<lambda>n. res_bind (str_in DUMMY_NIC n) (\<lambda>b. Inr (\<not> b)))) nics))))"

definition SriovHostNics :: "'w apis \<Rightarrow> string \<Rightarrow> ('w rest_st, sriov_host_nics) comp" where
  "SriovHostNics A host = bindE (get_host_nics A host) (\<lambda>l. ret \<lparr>sh_host = host, host_nics = l\<rparr>)"

text \<open>The NICs for which the constructor does not raise SriovException.\<close>

fun constructible :: "(pyval \<Rightarrow> ('w, 'a) comp) \<Rightarrow> pyval list \<Rightarrow> ('w, pyval list) comp" where
  "constructible mk [] = ret []"
| "constructible mk (nic # nics) =
     bindE (lift_res (getattr nic ''name'')) (\<lambda>n.
     bindE (try_except (bindE (mk n) (\<lambda>_. ret True)) (TestExc SriovException) (\<lambda>_. ret False)) (\<lambda>ok.
     bindE (constructible mk nics) (\<lambda>rest. ret (if ok then nic # rest else rest))))"

definition get_all_pf_nics_objects :: "'w apis \<Rightarrow> sriov_host_nics \<Rightarrow> ('w rest_st, pyval list) comp" where
  "get_all_pf_nics_objects A o' =
     bindE (constructible (SriovNicPF A (sh_host o')) (host_nics o')) (\<lambda>pfs_nics.
     if pfs_nics = [] then raise (TestExc SriovException) else ret pfs_nics)"

definition get_all_vf_nics_objects :: "'w apis \<Rightarrow> sriov_host_nics \<Rightarrow> ('w rest_st, pyval list) comp" where
  "get_all_vf_nics_objects A o' = constructible (SriovNicVF A (sh_host o')) (host_nics o')"

definition names_sorted :: "pyval list \<Rightarrow> exn + pyval list" where
  "names_sorted xs = res_bind (map_res (\<lambda>x. getattr x ''name'') xs) (\<lambda>ns. Inr (py_sort ns))"

definition get_all_pf_nics_names :: "'w apis \<Rightarrow> sriov_host_nics \<Rightarrow> ('w rest_st, pyval list) comp" where
  "get_all_pf_nics_names A o' = bindE (get_all_pf_nics_objects A o') (\<lambda>l. lift_res (names_sorted l))"

definition get_all_vf_nics_names :: "'w apis \<Rightarrow> sriov_host_nics \<Rightarrow> ('w rest_st, pyval list) comp" where
  "get_all_vf_nics_names A o' = bindE (get_all_vf_nics_objects A o') (\<lambda>l. lift_res (names_sorted l))"

section \<open>Operations of a PF\<close>

definition update_nic_obj :: "'w apis \<Rightarrow> sriov_pf \<Rightarrow> ('w rest_st, pyval \<times> sriov_pf) comp" where
  "update_nic_obj A o' =
     (if truthy (update_nic o') then
        bindE (get_host_nic A (host_obj o') (nic_name o') True) (\<lambda>found.
        let x = opt_val found in
        bindE (lift_res (getattr x ''virtual_functions_configuration'')) (\<lambda>conf.
        ret (update_nic o', o'\<lparr>nic_obj := x, vf_config := conf\<rparr>)))
      else ret (update_nic o', o'))"

definition get_allowed_labels_obj :: "'w apis \<Rightarrow> sriov_pf \<Rightarrow> ('w rest_st, pyval) comp" where
  "get_allowed_labels_obj A o' = linked (HOST_NICS_API A) (nic_obj o') vf_allowed_labels_api ''network_label''"

definition get_allowed_networks_obj :: "'w apis \<Rightarrow> sriov_pf \<Rightarrow> ('w rest_st, pyval) comp" where
  "get_allowed_networks_obj A o' = linked (HOST_NICS_API A) (nic_obj o') vf_allowed_networks_api ''network''"

definition get_allowed_labels :: "'w apis \<Rightarrow> sriov_pf \<Rightarrow> ('w rest_st, pyval list) comp" where
  "get_allowed_labels A o' =
     bindE (get_allowed_labels_obj A o') (\<lambda>v.
     bindE (lift_res (py_iter v)) (\<lambda>ls. lift_res (map_res (\<lambda>l. getattr l ''id'') ls)))"

definition network_name_of :: "'w apis \<Rightarrow> pyval \<Rightarrow> ('w rest_st, pyval) comp" where
  "network_name_of A net = bindE (lift_res (getattr net ''id'')) (get_object_name_by_id (NET_API A))"

definition get_allowed_networks :: "'w apis \<Rightarrow> sriov_pf \<Rightarrow> ('w rest_st, pyval list) comp" where
  "get_allowed_networks A o' =
     bindE (get_allowed_networks_obj A o') (\<lambda>v.
     bindE (lift_res (py_iter v)) (\<lambda>nets. map_comp (network_name_of A) nets))"

definition get_label_obj_by_id :: "'w apis \<Rightarrow> sriov_pf \<Rightarrow> string \<Rightarrow> ('w rest_st, pyval) comp" where
  "get_label_obj_by_id A o' label_id =
     try_except
       (bindE (get_allowed_labels_obj A o') (\<lambda>v.
        bindE (lift_res (py_iter v)) (\<lambda>ls.
        bindE (lift_res (filter_res (\<lambda>x. res_bind (getattr x ''id'') (\<lambda>i. Inr (py_eq i (PStr label_id)))) ls)) (\<lambda>l.
        (case l of [] \<Rightarrow> raise IndexError | x # _ \<Rightarrow> ret x)))))
       IndexError (\<lambda>_. raise (TestExc SriovException))"

text \<open>Every allowed network's name is looked up, also after a match.\<close>

definition get_network_obj_by_name :: "'w apis \<Rightarrow> sriov_pf \<Rightarrow> string \<Rightarrow> ('w rest_st, pyval) comp" where
  "get_network_obj_by_name A o' network_name =
     try_except
       (bindE (get_allowed_networks_obj A o') (\<lambda>v.
        bindE (lift_res (py_iter v)) (\<lambda>nets.
        bindE (map_comp (network_name_of A) nets) (\<lambda>ns.
        (case filter (\<lambda>(x, n). py_eq n (PStr network_name)) (zip nets ns) of
           [] \<Rightarrow> raise IndexError | (x, _) # _ \<Rightarrow> ret x)))))
       IndexError (\<lambda>_. raise (TestExc SriovException))"

definition vf_of_pf :: "sriov_pf \<Rightarrow> pyval \<Rightarrow> exn + bool" where
  "vf_of_pf o' vf =
     res_bind (getattr vf ''physical_function'') (\<lambda>p.
     if \<not> (truthy p \<and> truthy vf) then Inr False
     else res_bind (getattr p ''id'') (\<lambda>i. res_bind (getattr (nic_obj o') ''id'') (\<lambda>j. Inr (py_eq i j))))"

definition get_all_vf_objects :: "'w apis \<Rightarrow> sriov_pf \<Rightarrow> ('w rest_st, pyval list) comp" where
  "get_all_vf_objects A o' =
     bindE (SriovHostNics A (sn_host o')) (\<lambda>h.
     bindE (get_all_vf_nics_objects A h) (\<lambda>all_vfs. lift_res (filter_res (vf_of_pf o') all_vfs)))"

definition get_all_vf_names :: "'w apis \<Rightarrow> sriov_pf \<Rightarrow> ('w rest_st, pyval list) comp" where
  "get_all_vf_names A o' =
     bindE (get_all_vf_objects A o') (\<lambda>l. lift_res (map_res (\<lambda>x. getattr x ''name'') l))"

text \<open>An empty response of the engine is false, so it counts as a failure of the action.\<close>

definition set_sriov_host_nic_params :: "'w apis \<Rightarrow> (string, pyval) dict \<Rightarrow> sriov_pf \<Rightarrow> ('w rest_st, pyval \<times> sriov_pf) comp" where
  "set_sriov_host_nic_params A kw o' =
     (let vf_obj = foldl (\<lambda>x (k, v). setattr x k v) (new_object A ''HostNicVirtualFunctionsConfiguration'') kw in
      bindE (syncAction (HOST_NICS_API A) (nic_obj o') update_vf_action True
               (action_default\<lparr>aa_params := [(''virtual_functions_configuration'', vf_obj)]\<rparr>)) (\<lambda>r.
      update_nic_obj A (o'\<lparr>update_nic := PBool (truthy r)\<rparr>)))"

definition set_number_of_vf :: "'w apis \<Rightarrow> int \<Rightarrow> sriov_pf \<Rightarrow> ('w rest_st, pyval \<times> sriov_pf) comp" where
  "set_number_of_vf A num_of_vf = set_sriov_host_nic_params A [(''number_of_virtual_functions'', PInt num_of_vf)]"

definition set_all_networks_allowed :: "'w apis \<Rightarrow> bool \<Rightarrow> sriov_pf \<Rightarrow> ('w rest_st, pyval \<times> sriov_pf) comp" where
  "set_all_networks_allowed A enable = set_sriov_host_nic_params A [(''all_networks_allowed'', PBool enable)]"

definition get_max_number_of_vf :: "sriov_pf \<Rightarrow> exn + pyval" where
  "get_max_number_of_vf o' = getattr (vf_config o') ''max_number_of_virtual_functions''"

definition get_number_of_vf :: "sriov_pf \<Rightarrow> exn + pyval" where
  "get_number_of_vf o' = getattr (vf_config o') ''number_of_virtual_functions''"

definition get_all_networks_allowed :: "sriov_pf \<Rightarrow> exn + pyval" where
  "get_all_networks_allowed o' = getattr (vf_config o') ''all_networks_allowed''"

definition delete_allowed_label :: "'w apis \<Rightarrow> string \<Rightarrow> sriov_pf \<Rightarrow> ('w rest_st, pyval \<times> sriov_pf) comp" where
  "delete_allowed_label A label_id o' =
     bindE (get_label_obj_by_id A o' label_id) (\<lambda>l.
     bindE (delete_element (PF_LABEL_API A) l True) (\<lambda>ok. update_nic_obj A (o'\<lparr>update_nic := PBool ok\<rparr>)))"

definition delete_allowed_network :: "'w apis \<Rightarrow> string \<Rightarrow> sriov_pf \<Rightarrow> ('w rest_st, pyval \<times> sriov_pf) comp" where
  "delete_allowed_network A network o' =
     bindE (get_network_obj_by_name A o' network) (\<lambda>n.
     bindE (delete_element (PF_NETWORK_API A) n True) (\<lambda>ok. update_nic_obj A (o'\<lparr>update_nic := PBool ok\<rparr>)))"

text \<open>
  The pair that \<open>create\<close> returns is stored as it is; a pair is a list of two here, and true
  whatever it holds.
\<close>

definition pair_val :: "pyval \<times> bool \<Rightarrow> pyval" where
  "pair_val r = PList [fst r, PBool (snd r)]"

definition add_label_to_allowed_labels :: "'w apis \<Rightarrow> string \<Rightarrow> sriov_pf \<Rightarrow> ('w rest_st, pyval \<times> sriov_pf) comp" where
  "add_label_to_allowed_labels A label o' =
     bindE (lift_res (get_all_networks_allowed o')) (\<lambda>all_allowed.
     if truthy all_allowed then raise (TestExc SriovException)
     else
       bindE (create_in (PF_LABEL_API A) (create_label A label) True (PStr (vf_label_href o')) ''network_label'' True) (\<lambda>r.
       update_nic_obj A (o'\<lparr>update_nic := pair_val r\<rparr>)))"

definition add_network_to_allowed_networks :: "'w apis \<Rightarrow> string \<Rightarrow> pyval \<Rightarrow> sriov_pf \<Rightarrow> ('w rest_st, pyval \<times> sriov_pf) comp" where
  "add_network_to_allowed_networks A network data_center o' =
     bindE (lift_res (get_all_networks_allowed o')) (\<lambda>all_allowed.
     if truthy all_allowed then raise (TestExc SriovException)
     else
       bindE (find_network A (PStr network) data_center PNone) (\<lambda>n.
       bindE (create_in (PF_NETWORK_API A) n True (PStr (vf_network_href o')) ''network'' True) (\<lambda>r.
       update_nic_obj A (o'\<lparr>update_nic := pair_val r\<rparr>))))"

section \<open>The object follows the engine\<close>

text \<open>
  After a method answered \<open>r\<close>: the object has what the engine told about the NIC last when
  \<open>r\<close> is true, and is as it was, its flag apart, when it is false.
\<close>

definition follows :: "'w apis \<Rightarrow> sriov_pf \<Rightarrow> pyval \<Rightarrow> sriov_pf \<Rightarrow> 'w rest_st \<Rightarrow> bool" where
  "follows A o1 r o2 s' \<longleftrightarrow>
     (\<exists>x conf. o2 = o1\<lparr>update_nic := r, nic_obj := x, vf_config := conf\<rparr> \<and>
       (if truthy r then
          \<exists>s1 found. get_host_nic A (host_obj o1) (nic_name o1) True s1 = (Inr found, s') \<and> x = opt_val found \<and>
            getattr x ''virtual_functions_configuration'' = Inr conf
        else x = nic_obj o1 \<and> conf = vf_config o1))"

lemma update_follows:
  assumes "update_nic_obj A (o1\<lparr>update_nic := u\<rparr>) s = (Inr (r, o2), s')"
  shows "follows A o1 r o2 s' \<and> r = u"
  using assms unfolding update_nic_obj_def follows_def Let_def
  by (auto simp: lift_res_def ret_def elim!: bindE_InrE split: if_splits)

text \<open>
  C18. Whatever changes a PF, setting parameters, adding or deleting allowed labels and networks,
  leaves the object in step with the engine: when the method reports success the NIC and its
  configuration have been read again as the last thing it did, otherwise the object is as before.
  Adding and deleting never change the host, the name or the addresses of the object.
\<close>

theorem changed_pf_follows_engine:
  assumes "m \<in> {set_sriov_host_nic_params A kw, delete_allowed_label A l, delete_allowed_network A n,
      add_label_to_allowed_labels A l, add_network_to_allowed_networks A n dc}"
    and "m o1 s = (Inr (r, o2), s')"
  shows "follows A o1 r o2 s'"
  using assms
  by (auto simp: set_sriov_host_nic_params_def delete_allowed_label_def delete_allowed_network_def
      add_label_to_allowed_labels_def add_network_to_allowed_networks_def Let_def raise_def lift_res_def
      elim!: bindE_InrE split: if_splits dest!: update_follows)

text \<open>
  Adding an allowed label or network always reports success, and reads the NIC again, even when the
  engine refused: the pair that \<open>create\<close> returns is taken for its verdict.
\<close>

theorem adding_always_succeeds:
  assumes "m \<in> {add_label_to_allowed_labels A l, add_network_to_allowed_networks A n dc}"
    and "m o1 s = (Inr (r, o2), s')"
  shows "truthy r \<and> (\<exists>v ok. r = PList [v, PBool ok]) \<and>
    (\<exists>s1 found. get_host_nic A (host_obj o1) (nic_name o1) True s1 = (Inr found, s') \<and> nic_obj o2 = opt_val found)"
proof -
  obtain p s1 where p: "update_nic_obj A (o1\<lparr>update_nic := pair_val p\<rparr>) s1 = (Inr (r, o2), s')"
    using assms by (auto simp: add_label_to_allowed_labels_def add_network_to_allowed_networks_def raise_def lift_res_def
        elim!: bindE_InrE split: if_splits)
  from update_follows [OF p] show ?thesis
    by (auto simp: follows_def pair_val_def) blast
qed

section \<open>Witnesses\<close>

definition demo_pf_nic :: pyval where
  "demo_pf_nic = PObj ''HostNic'' [(''name'', PStr ''eth0''), (''href'', PStr ''/api/nics/1''), (''physical_function'', PNone),
     (''virtual_functions_configuration'', PObj ''C'' [(''all_networks_allowed'', PBool False)])]"

definition demo_host :: pyval where
  "demo_host = PObj ''Host'' [(''name'', PStr ''h''),
     (''link'', PList [PObj ''Link'' [(''rel'', PStr ''nics''), (''href'', PStr ''/api/hosts/1/nics'')]])]"

text \<open>An engine that refuses every label.\<close>

definition pf_srv :: "nat server_fun" where
  "pf_srv rq w = (Inr \<lparr>resp_status = (if req_method rq = ''GET'' then 200 else 400), resp_reason = ''OK'', resp_headers = [],
     resp_data = req_url rq\<rparr>, w + 1)"

definition pf_apis :: "nat apis" where
  "pf_apis el col = demo_rest\<lparr>srv := pf_srv, element_name := el, collection_name := col, links := [(col, ''/api/'' @ col)],
     parse := (\<lambda>s. Inr (if s = ''/api/hosts/1/nics'' then PObj [] [(''host'', PList [demo_pf_nic])]
                    else PObj [] [(el, PList [demo_host])]))\<rparr>"

definition demo_pf :: sriov_pf where
  "demo_pf = \<lparr>update_nic = PBool False, sn_host = ''h'', nic_name = PStr ''eth0'', host_obj = demo_host, nic_obj = demo_pf_nic,
     vf_config = PObj ''C'' [(''all_networks_allowed'', PBool False)], is_vf = False, is_pf = True,
     vf_label_href = ''/l'', vf_network_href = ''/n''\<rparr>"

lemma demo_add_label:
  "case add_label_to_allowed_labels pf_apis ''lb'' demo_pf demo_rest_st of (x, s') \<Rightarrow>
     (case x of Inl e \<Rightarrow> False | Inr (r, o2) \<Rightarrow> r = PList [PNone, PBool False])"
  by code_simp

lemma demo_add_label_run:
  "\<exists>o2 s'. add_label_to_allowed_labels pf_apis ''lb'' demo_pf demo_rest_st = (Inr (PList [PNone, PBool False], o2), s')"
  using demo_add_label by (auto split: prod.splits sum.splits)

theorem changed_pf_follows_engine_witness:
  "\<exists>r o2 s'. follows pf_apis demo_pf r o2 s'"
proof -
  from demo_add_label_run obtain r o2 s' where run: "add_label_to_allowed_labels pf_apis ''lb'' demo_pf demo_rest_st = (Inr (r, o2), s')" by blast
  from changed_pf_follows_engine [of "add_label_to_allowed_labels pf_apis ''lb''" pf_apis "[]" "''lb''", OF _ run] show ?thesis by blast
qed

theorem adding_always_succeeds_witness:
  "\<exists>o2 s'. add_label_to_allowed_labels pf_apis ''lb'' demo_pf demo_rest_st = (Inr (PList [PNone, PBool False], o2), s') \<and>
     truthy (PList [PNone, PBool False])"
proof -
  from demo_add_label_run obtain o2 s' where
    run: "add_label_to_allowed_labels pf_apis ''lb'' demo_pf demo_rest_st = (Inr (PList [PNone, PBool False], o2), s')" by blast
  from adding_always_succeeds [of "add_label_to_allowed_labels pf_apis ''lb''" pf_apis "''lb''", OF _ run] run show ?thesis by blast
qed

end
