(* ===== verification/Data_Centers.thy ===== *)
theory Data_Centers
  imports Networks
begin

text \<open>
  \<open>art/rhevm_api/tests_lib/low_level/datacenters.py\<close>: data centers, their quality of service
  (begun in \<open>Engine_Lookups\<close>) and their quotas. Keyword arguments are a dictionary; the default
  states of the configuration are parameters.
\<close>

section \<open>Constructors of generated classes\<close>

text \<open>\<open>Class(k = v, ...)\<close>: a keyword that is no member raises TypeError.\<close>

fun construct :: "pyval \<Rightarrow> (string \<times> pyval) list \<Rightarrow> exn + pyval" where
  "construct x [] = Inr x"
| "construct x ((k, v) # kw) = (if hasattr x k then construct (setattr x k v) kw else Inl TypeError)"

text \<open>\<open>x.add_member(v)\<close> of the generated classes appends to the list of the member.\<close>

definition add_member :: "string \<Rightarrow> pyval \<Rightarrow> pyval \<Rightarrow> exn + pyval" where
  "add_member a v x =
     res_bind (getattr x a) (\<lambda>l. case l of PList ys \<Rightarrow> Inr (setattr x a (PList (ys @ [v]))) | _ \<Rightarrow> Inl AttributeError)"

text \<open>\<open>major, minor = version.split(".")\<close> as numbers.\<close>

definition version_parts :: "pyval \<Rightarrow> exn + int \<times> int" where
  "version_parts v =
     (case v of
        PStr s \<Rightarrow>
          (case split_on s ''.'' of
             [a, b] \<Rightarrow> res_bind (py_int (PStr a)) (\<lambda>i. res_bind (py_int (PStr b)) (\<lambda>j. Inr (i, j)))
           | _ \<Rightarrow> Inl ValueError)
      | _ \<Rightarrow> Inl AttributeError)"

section \<open>Data centers\<close>

definition version_newer :: "pyval \<Rightarrow> pyval \<Rightarrow> exn + bool" where
  "version_newer v u =
     res_bind (getattr v ''major'') (\<lambda>a. res_bind (getattr u ''major'') (\<lambda>b.
     if sort_key_of b < sort_key_of a then Inr True
     else if \<not> py_eq a b then Inr False
     else res_bind (getattr v ''minor'') (\<lambda>c. res_bind (getattr u ''minor'') (\<lambda>d. Inr (sort_key_of d < sort_key_of c)))))"

definition checkSupportedVersions :: "'w apis \<Rightarrow> pyval \<Rightarrow> ('w rest_st, bool) comp" where
  "checkSupportedVersions A n =
     bindE (find_by (DC_API A) ''name'' n) (\<lambda>datacenter.
     bindE (lift_res (getattr datacenter ''version'')) (\<lambda>dc_version.
     bindE (lift_res (getattr_chain [''supported_versions'', ''version''] datacenter)) (\<lambda>v.
     bindE (lift_res (py_iter v)) (\<lambda>versions.
     bindE (lift_res (find_res (version_newer dc_version) versions)) (\<lambda>found. ret (found = None))))))"

text \<open>The name is only looked at after the request, and only in a positive test.\<close>

definition addDataCenter :: "'w apis \<Rightarrow> bool \<Rightarrow> (string, pyval) dict \<Rightarrow> ('w rest_st, bool) comp" where
  "addDataCenter A positive kw =
     (let local = (case map_of kw ''local'' of None \<Rightarrow> PBool False | Some l \<Rightarrow> l); kw1 = dict_del kw ''local'' in
      bindE (lift_res (dict_pop kw1 ''version'')) (\<lambda>(version, kw2).
      bindE (lift_res (version_parts version)) (\<lambda>(major, minor).
      bindE (lift_res (construct (new_object A ''Version'') [(''major'', PInt major), (''minor'', PInt minor)])) (\<lambda>dc_version.
      bindE (lift_res (construct (new_object A ''DataCenter'') ([(''version'', dc_version), (''local'', local)] @ kw2))) (\<lambda>dc.
      bindE (create_element (DC_API A) dc positive) (\<lambda>status.
      if positive then
        bindE (lift_res (dict_pop kw2 ''name'')) (\<lambda>(n, _).
        bindE (checkSupportedVersions A n) (\<lambda>valid. ret (status \<and> valid)))
      else ret status))))))"

definition update_datacenter :: "'w apis \<Rightarrow> bool \<Rightarrow> string \<Rightarrow> (string, pyval) dict \<Rightarrow> ('w rest_st, bool) comp" where
  "update_datacenter A positive datacenter kw =
     bindE (find_by (DC_API A) ''name'' (PStr datacenter)) (\<lambda>dc.
     bindE (if truthy (kwget kw ''version'') then
              bindE (lift_res (version_parts (kwget kw ''version''))) (\<lambda>(major, minor).
              bindE (lift_res (prepare_ds_object (new_object A) ''Version'' [(''major'', PInt major), (''minor'', PInt minor)])) (\<lambda>v.
              ret (dict_set kw ''version'' v)))
            else ret kw) (\<lambda>kw1.
     bindE (lift_res (prepare_ds_object (new_object A) ''DataCenter'' kw1)) (\<lambda>dc_update.
     update_element (DC_API A) dc dc_update positive)))"

definition remove_datacenter :: "'w apis \<Rightarrow> bool \<Rightarrow> string \<Rightarrow> bool \<Rightarrow> ('w rest_st, bool) comp" where
  "remove_datacenter A positive datacenter force =
     bindE (find_by (DC_API A) ''name'' (PStr datacenter)) (\<lambda>dc.
     rest_delete (DC_API A) dc positive [200, 202, 204] NEGATIVE_CODES (if force then [''force=true''] else []))"

definition searchForDataCenter ::
  "(string \<Rightarrow> pyval \<Rightarrow> exn + bool) \<Rightarrow> 'w apis \<Rightarrow> string \<Rightarrow> string \<Rightarrow> string \<Rightarrow> int option \<Rightarrow> bool \<Rightarrow> int option
   \<Rightarrow> ('w rest_st, bool) comp" where
  "searchForDataCenter M A = searchForObj M (DC_API A)"

text \<open>Waiting by the search engine, and by looking at the data center again and again.\<close>

definition state_query :: "'w rest_env \<Rightarrow> string \<Rightarrow> ('w rest_st, pyval) comp" where
  "state_query E query =
     rest_query E query \<lparr>qa_expected_status = [200, 201], qa_href = [], qa_event_id = [], qa_all_content = False, qa_params = []\<rparr>"

definition waitForDataCenterState ::
  "'w rest_st os_time \<Rightarrow> 'w apis \<Rightarrow> string \<Rightarrow> string \<Rightarrow> int \<Rightarrow> int \<Rightarrow> 'w rest_st \<Rightarrow> ((exn + bool) \<times> 'w rest_st) option" where
  "waitForDataCenterState T A n state t s w =
     (case find_by (DC_API A) ''name'' (PStr n) w of
        (Inl e, w1) \<Rightarrow> Some (Inl e, w1)
      | (Inr _, w1) \<Rightarrow> waitForQuery T (state_query (DC_API A) (''name='' @ n @ '' and status='' @ state)) t s w1)"

partial_function (option) poll_status ::
  "'s os_time \<Rightarrow> ('s, pyval) comp \<Rightarrow> pyval \<Rightarrow> int \<Rightarrow> int \<Rightarrow> int \<Rightarrow> pyval \<Rightarrow> 's \<Rightarrow> ((exn + pyval) \<times> 's) option" where
  "poll_status T look status start t s x w =
     (case getattr x ''status'' of
        Inl e \<Rightarrow> Some (Inl e, w)
      | Inr st \<Rightarrow>
          if py_eq st status then Some (Inr x, w)
          else
            (case os_now T w of (now, w1) \<Rightarrow>
             if t \<le> now - start then Some (Inr x, w1)
             else
               (case look (os_sleep T s w1) of
                  (Inl e, w2) \<Rightarrow> Some (Inl e, w2)
                | (Inr x', w2) \<Rightarrow> poll_status T look status start t s x' w2)))"

definition wait_for_datacenter_state_api ::
  "'w rest_st os_time \<Rightarrow> 'w apis \<Rightarrow> string \<Rightarrow> pyval \<Rightarrow> int \<Rightarrow> int \<Rightarrow> 'w rest_st \<Rightarrow> ((exn + unit) \<times> 'w rest_st) option" where
  "wait_for_datacenter_state_api T A n status t s w =
     (let look = find_by (DC_API A) ''name'' (PStr n) in
      case look w of
        (Inl e, w1) \<Rightarrow> Some (Inl e, w1)
      | (Inr dc, w1) \<Rightarrow>
          (case os_now T w1 of (start, w2) \<Rightarrow>
           (case poll_status T look status start t s dc w2 of
              None \<Rightarrow> None
            | Some (Inl e, w3) \<Rightarrow> Some (Inl e, w3)
            | Some (Inr x, w3) \<Rightarrow>
                Some (res_bind (getattr x ''status'')
                  (\<lambda>st. if py_eq st status then Inr () else Inl (TestExc DataCenterException)), w3))))"

text \<open>The data center that a storage domain is attached to, or False.\<close>

definition STORAGE_API :: "'w apis \<Rightarrow> 'w rest_env" where "STORAGE_API A = A ''storage_domain'' ''storagedomains''"

definition id_is :: "pyval \<Rightarrow> pyval \<Rightarrow> exn + bool" where
  "id_is i x = res_bind (getattr x ''id'') (\<lambda>j. Inr (py_eq j i))"

fun dc_with_storage :: "'w apis \<Rightarrow> pyval \<Rightarrow> pyval list \<Rightarrow> ('w rest_st, pyval) comp" where
  "dc_with_storage A sd_id [] = ret (PBool False)"
| "dc_with_storage A sd_id (dc # dcs) =
     bindE (linked_list (STORAGE_API A) dc [] []) (\<lambda>sds.
     bindE (lift_res (find_res (id_is sd_id) sds)) (\<lambda>found.
     if found \<noteq> None then ret dc else dc_with_storage A sd_id dcs))"

definition get_sd_datacenter :: "'w apis \<Rightarrow> string \<Rightarrow> ('w rest_st, pyval) comp" where
  "get_sd_datacenter A storage_domain_name =
     bindE (find_by (STORAGE_API A) ''name'' (PStr storage_domain_name)) (\<lambda>sd.
     bindE (lift_res (getattr sd ''id'')) (\<lambda>i.
     bindE (listed (DC_API A)) (dc_with_storage A i)))"

definition get_datacenters_list :: "'w apis \<Rightarrow> ('w rest_st, pyval) comp" where
  "get_datacenters_list A = get_all (DC_API A)"

definition get_datacenters_names_list :: "'w apis \<Rightarrow> ('w rest_st, pyval list) comp" where
  "get_datacenters_names_list A =
     bindE (get_datacenters_list A) (\<lambda>v.
     bindE (lift_res (py_iter v)) (\<lambda>dcs. lift_res (map_res (\<lambda>d. getattr d ''name'') dcs)))"

section \<open>Quality of service\<close>

definition delete_qos_from_datacenter :: "'w apis \<Rightarrow> pyval \<Rightarrow> pyval \<Rightarrow> ('w rest_st, bool) comp" where
  "delete_qos_from_datacenter A datacenter qos_name =
     bindE (get_qos_from_datacenter A datacenter qos_name) (\<lambda>qos. delete_element (DC_API A) qos True)"

definition update_qos_in_datacenter :: "'w apis \<Rightarrow> pyval \<Rightarrow> pyval \<Rightarrow> (string, pyval) dict \<Rightarrow> ('w rest_st, bool) comp" where
  "update_qos_in_datacenter A datacenter qos_name kw =
     bindE (get_qos_from_datacenter A datacenter qos_name) (\<lambda>qos_obj.
     if \<not> truthy qos_obj then ret False
     else
       (let kw1 = (if truthy (kwget kw ''new_name'') then dict_set kw ''name'' (kwget kw ''new_name'') else kw) in
        bindE (try_except (bindE (lift_res (prepare_qos_obj (new_object A) kw1)) (\<lambda>q. ret (Some q)))
                 (TestExc DataCenterException) (\<lambda>_. ret None)) (\<lambda>new_qos.
        (case new_qos of None \<Rightarrow> ret False | Some q \<Rightarrow> update_element (QOS_API A) qos_obj q True))))"

section \<open>Quotas\<close>

definition QUOTA_API :: "'w apis \<Rightarrow> 'w rest_env" where "QUOTA_API A = A ''quota'' ''quotas''"

definition prepare_quota_obj :: "'w apis \<Rightarrow> (string, pyval) dict \<Rightarrow> ('w rest_st, pyval) comp" where
  "prepare_quota_obj A kw =
     try_except (lift_res (prepare_ds_object (new_object A) ''Quota'' kw)) (TestExc RHEVMEntityException) (\<lambda>_. ret PNone)"

definition get_quotas_obj_from_dc :: "'w apis \<Rightarrow> pyval \<Rightarrow> ('w rest_st, pyval) comp" where
  "get_quotas_obj_from_dc A dc_name =
     bindE (get_data_center A dc_name ''name'') (\<lambda>dc_obj.
     try_except (linked (DC_API A) dc_obj ''quotas'' ''quota'') EntityNotFound (\<lambda>_. ret PNone))"

definition get_quotas_href :: "'w apis \<Rightarrow> pyval \<Rightarrow> ('w rest_st, pyval) comp" where
  "get_quotas_href A dc_name =
     bindE (get_data_center A dc_name ''name'') (\<lambda>dc_obj. link_address (DC_API A) dc_obj ''quotas'' [])"

definition get_quota_obj_from_dc :: "'w apis \<Rightarrow> pyval \<Rightarrow> pyval \<Rightarrow> ('w rest_st, pyval) comp" where
  "get_quota_obj_from_dc A dc_name quota_name =
     bindE (get_quotas_obj_from_dc A dc_name) (\<lambda>quotas.
     if \<not> truthy quotas then ret PNone
     else
       bindE (lift_res (py_iter quotas)) (\<lambda>qs.
       bindE (lift_res (find_res (name_is quota_name) qs)) (\<lambda>found. ret (opt_val found))))"

definition get_quota_id_by_name :: "'w apis \<Rightarrow> pyval \<Rightarrow> pyval \<Rightarrow> ('w rest_st, pyval) comp" where
  "get_quota_id_by_name A dc_name quota_name =
     bindE (get_quota_obj_from_dc A dc_name quota_name) (\<lambda>q.
     if \<not> truthy q then ret (PStr []) else lift_res (getattr q ''id''))"

definition create_dc_quota :: "'w apis \<Rightarrow> pyval \<Rightarrow> pyval \<Rightarrow> (string, pyval) dict \<Rightarrow> ('w rest_st, bool) comp" where
  "create_dc_quota A dc_name quota_name kw =
     bindE (get_quotas_href A dc_name) (\<lambda>href.
     bindE (prepare_quota_obj A ((''name'', quota_name) # kw)) (\<lambda>q.
     if \<not> truthy q then ret False
     else bindE (create_in (QUOTA_API A) q True href [] False) (\<lambda>r. ret (snd r))))"

definition update_dc_quota :: "'w apis \<Rightarrow> pyval \<Rightarrow> pyval \<Rightarrow> (string, pyval) dict \<Rightarrow> ('w rest_st, bool) comp" where
  "update_dc_quota A dc_name quota_name kw =
     bindE (get_quota_obj_from_dc A dc_name quota_name) (\<lambda>old.
     bindE (prepare_quota_obj A kw) (\<lambda>new.
     if \<not> (truthy old \<and> truthy new) then ret False else update_element (QUOTA_API A) old new True))"

definition delete_dc_quota :: "'w apis \<Rightarrow> pyval \<Rightarrow> pyval \<Rightarrow> ('w rest_st, bool) comp" where
  "delete_dc_quota A dc_name quota_name =
     bindE (get_quota_obj_from_dc A dc_name quota_name) (\<lambda>q.
     if \<not> truthy q then ret False else delete_element (QUOTA_API A) q True)"

text \<open>The two kinds of limits a quota has.\<close>

record 'w limit_kind =
  lk_class :: string
  lk_api :: "'w rest_env"
  lk_obj_api :: "'w rest_env"
  lk_link :: string
  lk_attr :: string

definition QUOTA_LIMITS :: "'w apis \<Rightarrow> string \<Rightarrow> exn + 'w limit_kind" where
  "QUOTA_LIMITS A limit_type =
     (if limit_type = ''cluster'' then
        Inr \<lparr>lk_class = ''QuotaClusterLimit'', lk_api = A ''quota_cluster_limit'' ''quota_cluster_limits'', lk_obj_api = CL_API A,
             lk_link = ''quotaclusterlimits'', lk_attr = ''quota_cluster_limit''\<rparr>
      else if limit_type = ''storage_domain'' then
        Inr \<lparr>lk_class = ''QuotaStorageLimit'', lk_api = A ''quota_storage_limit'' ''quota_storage_limits'', lk_obj_api = STORAGE_API A,
             lk_link = ''quotastoragelimits'', lk_attr = ''quota_storage_limit''\<rparr>
      else Inl KeyError)"

definition prepare_quota_limit_object :: "'w apis \<Rightarrow> string \<Rightarrow> pyval \<Rightarrow> (string, pyval) dict \<Rightarrow> ('w rest_st, pyval) comp" where
  "prepare_quota_limit_object A limit_type object_name kw =
     bindE (if truthy object_name then
              bindE (lift_res (QUOTA_LIMITS A limit_type)) (\<lambda>k. find_by (lk_obj_api k) ''name'' object_name)
            else ret PNone) (\<lambda>x.
     bindE (try_except
              (bindE (lift_res (QUOTA_LIMITS A limit_type)) (\<lambda>k. lift_res (prepare_ds_object (new_object A) (lk_class k) kw)))
              (TestExc RHEVMEntityException) (\<lambda>_. ret PNone)) (\<lambda>l.
     if l = PNone then ret PNone
     else ret (set_if (hasattr l limit_type) limit_type x l)))"

definition get_quota_limits_object :: "'w apis \<Rightarrow> pyval \<Rightarrow> pyval \<Rightarrow> string \<Rightarrow> ('w rest_st, pyval) comp" where
  "get_quota_limits_object A dc_name quota_name limit_type =
     bindE (get_quota_obj_from_dc A dc_name quota_name) (\<lambda>q.
     if \<not> truthy q then ret PNone
     else
       try_except
         (bindE (lift_res (QUOTA_LIMITS A limit_type)) (\<lambda>k. linked (QUOTA_API A) q (lk_link k) (lk_attr k)))
         EntityNotFound (\<lambda>_. ret PNone))"

definition get_quota_limits_href :: "'w apis \<Rightarrow> pyval \<Rightarrow> pyval \<Rightarrow> string \<Rightarrow> ('w rest_st, pyval) comp" where
  "get_quota_limits_href A dc_name quota_name limit_type =
     bindE (get_quota_obj_from_dc A dc_name quota_name) (\<lambda>q.
     if \<not> truthy q then ret (PStr [])
     else bindE (lift_res (QUOTA_LIMITS A limit_type)) (\<lambda>k. link_address (QUOTA_API A) q (lk_link k) []))"

text \<open>The limit for the object, or with no name the one for all objects.\<close>

definition limit_for :: "string \<Rightarrow> pyval \<Rightarrow> pyval \<Rightarrow> pyval \<Rightarrow> exn + bool" where
  "limit_for limit_type obj_name x l =
     res_bind (getattr l limit_type) (\<lambda>y.
     res_bind (if truthy y \<and> truthy x then res_bind (getattr x ''id'') (\<lambda>i. res_bind (getattr y ''id'') (\<lambda>j. Inr (py_eq i j)))
               else Inr False) (\<lambda>same. Inr (same \<or> y = PNone \<and> obj_name = PNone)))"

definition get_quota_limit :: "'w apis \<Rightarrow> pyval \<Rightarrow> pyval \<Rightarrow> string \<Rightarrow> pyval \<Rightarrow> ('w rest_st, pyval) comp" where
  "get_quota_limit A dc_name quota_name limit_type obj_name =
     bindE (get_quota_limits_object A dc_name quota_name limit_type) (\<lambda>limits.
     if \<not> truthy limits then ret PNone
     else
       bindE (if truthy obj_name then
                bindE (lift_res (QUOTA_LIMITS A limit_type)) (\<lambda>k. find_by (lk_obj_api k) ''name'' obj_name)
              else ret PNone) (\<lambda>x.
       bindE (lift_res (py_iter limits)) (\<lambda>ls.
       bindE (lift_res (find_res (limit_for limit_type obj_name x) ls)) (\<lambda>found. ret (opt_val found)))))"

fun create_limits :: "'w apis \<Rightarrow> string \<Rightarrow> pyval \<Rightarrow> (pyval \<times> (string, pyval) dict) list \<Rightarrow> ('w rest_st, bool) comp" where
  "create_limits A limit_type href [] = ret True"
| "create_limits A limit_type href ((obj_name, limits) # rest) =
     bindE (prepare_quota_limit_object A limit_type obj_name limits) (\<lambda>l.
     if \<not> truthy l then ret False
     else
       bindE (lift_res (QUOTA_LIMITS A limit_type)) (\<lambda>k.
       bindE (create_in (lk_api k) l True href [] False) (\<lambda>r.
       if \<not> snd r then ret False else create_limits A limit_type href rest)))"

definition create_quota_limits ::
  "'w apis \<Rightarrow> pyval \<Rightarrow> pyval \<Rightarrow> string \<Rightarrow> (pyval \<times> (string, pyval) dict) list \<Rightarrow> ('w rest_st, bool) comp" where
  "create_quota_limits A dc_name quota_name limit_type limits_d =
     bindE (get_quota_limits_href A dc_name quota_name limit_type) (\<lambda>href.
     if \<not> truthy href then ret False else create_limits A limit_type href limits_d)"

fun delete_limits :: "'w apis \<Rightarrow> pyval \<Rightarrow> pyval \<Rightarrow> string \<Rightarrow> pyval list \<Rightarrow> ('w rest_st, bool) comp" where
  "delete_limits A dc_name quota_name limit_type [] = ret True"
| "delete_limits A dc_name quota_name limit_type (obj_name # rest) =
     bindE (get_quota_limit A dc_name quota_name limit_type obj_name) (\<lambda>l.
     if \<not> truthy l then ret False
     else
       bindE (lift_res (QUOTA_LIMITS A limit_type)) (\<lambda>k.
       bindE (delete_element (lk_api k) l True) (\<lambda>ok.
       if \<not> ok then ret False else delete_limits A dc_name quota_name limit_type rest)))"

definition delete_quota_limits :: "'w apis \<Rightarrow> pyval \<Rightarrow> pyval \<Rightarrow> string \<Rightarrow> pyval list \<Rightarrow> ('w rest_st, bool) comp" where
  "delete_quota_limits A dc_name quota_name limit_type objects_names_l =
     bindE (get_quota_limits_object A dc_name quota_name limit_type) (\<lambda>limits.
     if \<not> truthy limits then ret False else delete_limits A dc_name quota_name limit_type objects_names_l)"

text \<open>Floating point numbers are a parameter: \<open>float(v)\<close>.\<close>

definition get_quota_limit_usage ::
  "(pyval \<Rightarrow> exn + 'f) \<Rightarrow> 'w apis \<Rightarrow> pyval \<Rightarrow> pyval \<Rightarrow> string \<Rightarrow> string \<Rightarrow> pyval \<Rightarrow> ('w rest_st, 'f) comp" where
  "get_quota_limit_usage float A dc_name quota_name limit_type usage obj_name =
     bindE (get_quota_limit A dc_name quota_name limit_type obj_name) (\<lambda>l.
     lift_res (float (if \<not> truthy l then PInt 0 else (case getattr_opt l usage of None \<Rightarrow> PInt 0 | Some u \<Rightarrow> u))))"

section \<open>Waiting for a status\<close>

lemma poll_status_verdict:
  assumes laws: "clock_laws T clk" and look: "never_back clk look" and s: "0 < s"
  shows "\<exists>r w'. poll_status T look status start t s x w = Some (r, w') \<and>
    (case r of
       Inl e \<Rightarrow> (\<exists>v. fst (look v) = Inl e) \<or> e = AttributeError
     | Inr y \<Rightarrow> \<exists>st. getattr y ''status'' = Inr st \<and> (py_eq st status \<or> start + t \<le> clk w') \<and>
         (y = x \<or> (\<exists>v v'. look v = (Inr y, v'))))"
proof (induction "nat (start + t + 1 - clk w)" arbitrary: x w rule: less_induct)
  case less
  obtain now w1 where now: "os_now T w = (now, w1)" by fastforce
  obtain r w2 where r: "look (os_sleep T s w1) = (r, w2)" by fastforce
  show ?case
  proof (cases "\<exists>st y. getattr x ''status'' = Inr st \<and> \<not> py_eq st status \<and> now - start < t \<and> r = Inr y")
    case True
    then obtain st y where st: "getattr x ''status'' = Inr st" "\<not> py_eq st status" "now - start < t" "r = Inr y" by blast
    have "clk w + s \<le> clk w2"
      using os_now_bounds [OF laws now] os_sleep_bound [OF laws, of s w1] never_backD [OF look r] s by linarith
    then have "nat (start + t + 1 - clk w2) < nat (start + t + 1 - clk w)"
      using os_now_bounds [OF laws now] st(3) s by linarith
    from less.hyps [OF this, of y] obtain q w' where q: "poll_status T look status start t s y w2 = Some (q, w')"
      and v: "case q of
         Inl e \<Rightarrow> (\<exists>v. fst (look v) = Inl e) \<or> e = AttributeError
       | Inr z \<Rightarrow> \<exists>st. getattr z ''status'' = Inr st \<and> (py_eq st status \<or> start + t \<le> clk w') \<and>
           (z = y \<or> (\<exists>v v'. look v = (Inr z, v')))" by blast
    have "poll_status T look status start t s x w = Some (q, w')"
      using st now r q by (subst poll_status.simps) simp
    moreover have "look (os_sleep T s w1) = (Inr y, w2)" using r st(4) by simp
    ultimately show ?thesis using v by (intro exI [of _ q] exI [of _ w']) (cases q; fastforce)
  next
    case False
    show ?thesis
    proof (cases "getattr x ''status''")
      case (Inl e)
      then have "e = AttributeError" by (auto simp: getattr_def split: option.splits)
      with Inl show ?thesis by (subst poll_status.simps) simp
    next
      case (Inr st)
      show ?thesis
      proof (cases "py_eq st status \<or> t \<le> now - start")
        case True
        then show ?thesis
          using Inr now os_now_bounds [OF laws now] by (subst poll_status.simps) (auto split: if_splits)
      next
        case ongoing: False
        with False Inr obtain e where "r = Inl e" by (cases r) auto
        then show ?thesis
          using ongoing Inr now r by (subst poll_status.simps) (auto, metis fst_conv)
      qed
    qed
  qed
qed

text \<open>
  Waiting for the state of a data center by looking at it always comes back when sleeping takes
  time. It returns normally only after a look that showed the wanted status; it raises
  DataCenterException only when the time is over and the last look showed another one, and any
  other error is one of a look.
\<close>

theorem wait_for_datacenter_verdict:
  fixes T :: "'w rest_st os_time"
  assumes "clock_laws T (server_time clk)" and "moves_on clk (srv (DC_API A))" and "0 < s"
  shows "\<exists>r w'. wait_for_datacenter_state_api T A n status t s w = Some (r, w') \<and>
    (case r of
       Inr u \<Rightarrow> \<exists>v v' dc st. find_by (DC_API A) ''name'' (PStr n) v = (Inr dc, v') \<and> getattr dc ''status'' = Inr st \<and> py_eq st status
     | Inl e \<Rightarrow> (\<exists>v. fst (find_by (DC_API A) ''name'' (PStr n) v) = Inl e) \<or> e = AttributeError \<or>
         e = TestExc DataCenterException \<and> server_time clk w + t \<le> server_time clk w')"
proof -
  let ?look = "find_by (DC_API A) ''name'' (PStr n)"
  have nb: "never_back (server_time clk) ?look"
    unfolding find_by_def by (rule rest_find_moves_on [OF assms(2)])
  obtain r w1 where r: "?look w = (r, w1)" by fastforce
  show ?thesis
  proof (cases r)
    case (Inl e)
    with r have "wait_for_datacenter_state_api T A n status t s w = Some (Inl e, w1)" "fst (?look w) = Inl e"
      by (simp_all add: wait_for_datacenter_state_api_def)
    then show ?thesis by auto
  next
    case (Inr dc)
    obtain start w2 where now: "os_now T w1 = (start, w2)" by fastforce
    have start: "server_time clk w \<le> start" using never_backD [OF nb r] os_now_bounds [OF assms(1) now] by simp
    from poll_status_verdict [OF assms(1) nb assms(3), of status start t dc w2] obtain q w' where
      q: "poll_status T ?look status start t s dc w2 = Some (q, w')"
      and v: "case q of Inl e \<Rightarrow> (\<exists>v. fst (?look v) = Inl e) \<or> e = AttributeError
       | Inr y \<Rightarrow> \<exists>st. getattr y ''status'' = Inr st \<and> (py_eq st status \<or> start + t \<le> server_time clk w') \<and>
         (y = dc \<or> (\<exists>v v'. ?look v = (Inr y, v')))" by blast
    show ?thesis
    proof (cases q)
      case (Inl e)
      then have "wait_for_datacenter_state_api T A n status t s w = Some (Inl e, w')"
        using r Inr now q by (simp add: wait_for_datacenter_state_api_def)
      with v Inl show ?thesis by auto
    next
      case found: (Inr y)
      with v obtain st where st: "getattr y ''status'' = Inr st" "py_eq st status \<or> start + t \<le> server_time clk w'"
        "\<exists>v v'. ?look v = (Inr y, v')" using r Inr by auto
      then have "wait_for_datacenter_state_api T A n status t s w =
          Some (if py_eq st status then Inr () else Inl (TestExc DataCenterException), w')"
        using r Inr now q found by (simp add: wait_for_datacenter_state_api_def)
      with st start show ?thesis by (cases "py_eq st status") auto
    qed
  qed
qed

section \<open>Adding a data center\<close>

text \<open>
  A positive test that adds a data center answers only when a data center of that name is there
  afterwards: True exactly when the engine accepted it and no supported version is older than its
  own. A refused request for a name that is not there raises EntityNotFound instead of the
  documented False.
\<close>

theorem addDataCenter_verdict:
  assumes "addDataCenter A True kw s = (Inr b, s')"
  shows "\<exists>n dc status s1 s2 dc_version versions. map_of kw ''name'' = Some n \<and>
    (\<exists>v v'. create_element (DC_API A) dc True v = (Inr status, v')) \<and>
    (\<exists>found. find_by (DC_API A) ''name'' n s1 = (Inr found, s') \<and> getattr found ''version'' = Inr dc_version \<and>
      (\<exists>l. getattr_chain [''supported_versions'', ''version''] found = Inr l \<and> py_iter l = Inr versions)) \<and>
    b = (status \<and> (\<forall>u \<in> set versions. version_newer dc_version u \<noteq> Inr True))"
proof -
  from assms obtain kw2 dc status s1 s2 n kw3 valid where
    dc: "create_element (DC_API A) dc True s1 = (Inr status, s2)" and n: "dict_pop kw2 ''name'' = Inr (n, kw3)"
    and kw: "\<exists>v. dict_pop (dict_del kw ''local'') ''version'' = Inr (v, kw2)"
    and check: "checkSupportedVersions A n s2 = (Inr valid, s')" and b: "b = (status \<and> valid)"
    unfolding addDataCenter_def Let_def
    by (clarsimp simp: lift_res_def ret_def simp del: construct.simps elim!: bindE_InrE)
  have "map_of kw ''name'' = Some n"
    using n kw by (auto simp: dict_pop_def split: option.splits)
  moreover from check obtain found dc_version l versions x where
    found: "find_by (DC_API A) ''name'' n s2 = (Inr found, s')" "getattr found ''version'' = Inr dc_version"
    "getattr_chain [''supported_versions'', ''version''] found = Inr l" "py_iter l = Inr versions"
    and x: "find_res (version_newer dc_version) versions = Inr x" "valid = (x = None)"
    unfolding checkSupportedVersions_def by (auto simp: lift_res_def ret_def simp del: getattr_chain.simps elim!: bindE_InrE)
  have "valid = (\<forall>u \<in> set versions. version_newer dc_version u \<noteq> Inr True)"
  proof (cases x)
    case None
    with find_res_None x show ?thesis by fastforce
  next
    case (Some u)
    with find_res_Some x show ?thesis by fastforce
  qed
  with b dc found show ?thesis using calculation by blast
qed

section \<open>Witnesses\<close>

theorem wait_for_datacenter_verdict_witness:
  "\<exists>r. wait_for_datacenter_state_api demo_clock demo_apis ''dc1'' (PStr ''up'') 180 10 demo_rest_st = Some r"
proof -
  have "moves_on int (srv (DC_API demo_apis))"
    by (simp add: moves_on_def DC_API_def demo_apis_def net_srv_def)
  from wait_for_datacenter_verdict [OF demo_clock_laws this, of 10 "''dc1''" "PStr ''up''" 180 demo_rest_st]
  show ?thesis by auto
qed

definition demo_version :: "int \<Rightarrow> int \<Rightarrow> pyval" where
  "demo_version i j = PObj ''Version'' [(''major'', PInt i), (''minor'', PInt j)]"

definition demo_dc :: pyval where
  "demo_dc = PObj ''DataCenter'' [(''name'', PStr ''dc''), (''version'', demo_version 4 1), (''local'', PBool False),
     (''supported_versions'', PObj ''SupportedVersions'' [(''version'', PList [demo_version 4 1, demo_version 4 2])])]"

definition dc_apis :: "nat apis" where
  "dc_apis el col = demo_rest\<lparr>srv := net_srv, element_name := el, collection_name := col, links := [(col, ''/api/'' @ col)],
     run_validate := False, new_ds := (\<lambda>c. if c = ''Version'' then demo_version 0 0 else demo_dc),
     parse := (\<lambda>s. Inr (PObj [] [(el, PList [demo_dc])]))\<rparr>"

lemma demo_add_dc:
  "fst (addDataCenter dc_apis True [(''version'', PStr ''4.1''), (''name'', PStr ''dc'')] demo_rest_st) = Inr True"
  by code_simp

theorem addDataCenter_verdict_witness:
  "\<exists>found s1 s2. find_by (DC_API dc_apis) ''name'' (PStr ''dc'') s1 = (Inr found, s2)"
proof -
  obtain s' where "addDataCenter dc_apis True [(''version'', PStr ''4.1''), (''name'', PStr ''dc'')] demo_rest_st = (Inr True, s')"
    using demo_add_dc by (metis prod.collapse)
  from addDataCenter_verdict [OF this] show ?thesis by auto
qed

end
