(* ===== verification/Scheduling_Policies.thy ===== *)
theory Scheduling_Policies
  imports Data_Centers
begin

text \<open>
  \<open>scheduling_policies.py\<close> and \<open>affinitylabels.py\<close> of \<open>art/rhevm_api/tests_lib/low_level\<close>:
  scheduling policies and their units, and the labels that keep hosts and virtual machines
  together.
\<close>

section \<open>Scheduling policies\<close>

definition SCH_POL_API :: "'w apis \<Rightarrow> 'w rest_env" where "SCH_POL_API A = A ''scheduling_policy'' ''schedulingpolicies''"
definition SCH_POL_UNITS_API :: "'w apis \<Rightarrow> 'w rest_env" where
  "SCH_POL_UNITS_API A = A ''scheduling_policy_unit'' ''schedulingpolicyunits''"

text \<open>The three types of units by their names in the configuration, with their API, class, link and attribute; other types raise KeyError.\<close>

record 'w unit_kind =
  uk_api :: "'w rest_env"
  uk_class :: string
  uk_link :: string
  uk_attr :: string

definition UNIT_KIND :: "'w apis \<Rightarrow> string \<Rightarrow> exn + 'w unit_kind" where
  "UNIT_KIND A t =
     (if t = ''filter'' then Inr \<lparr>uk_api = A ''filter'' ''filters'', uk_class = ''Filter'', uk_link = ''filters'', uk_attr = ''filter''\<rparr>
      else if t = ''weight'' then Inr \<lparr>uk_api = A ''weight'' ''weights'', uk_class = ''Weight'', uk_link = ''weights'', uk_attr = ''weight''\<rparr>
      else if t = ''load_balancing'' then Inr \<lparr>uk_api = A ''balance'' ''balances'', uk_class = ''Balance'', uk_link = ''balances'', uk_attr = ''balance''\<rparr>
      else Inl KeyError)"

definition get_scheduling_policies :: "'w apis \<Rightarrow> ('w rest_st, pyval) comp" where
  "get_scheduling_policies A = get_all (SCH_POL_API A)"

text \<open>Properties are \<open>Property\<close> objects; keywords that are no members are ignored.\<close>

definition property_objects :: "'w apis \<Rightarrow> (string, pyval) dict \<Rightarrow> pyval" where
  "property_objects A d =
     setattr (new_object A ''Properties'') ''property''
       (PList (map (\<lambda>(k, v). setattr (setattr (new_object A ''Property'') ''name'' (PStr k)) ''value'' v) d))"

definition prepare_scheduling_policy_object :: "'w apis \<Rightarrow> (string, pyval) dict \<Rightarrow> (string, pyval) dict \<Rightarrow> pyval" where
  "prepare_scheduling_policy_object A properties kw =
     (let x0 = new_object A ''SchedulingPolicy'';
          x1 = (if properties \<noteq> [] then setattr x0 ''properties'' (property_objects A properties) else x0)
      in foldl (\<lambda>x (k, v). if hasattr x k then setattr x k v else x) x1 kw)"

definition add_new_scheduling_policy :: "'w apis \<Rightarrow> (string, pyval) dict \<Rightarrow> (string, pyval) dict \<Rightarrow> ('w rest_st, bool) comp" where
  "add_new_scheduling_policy A properties kw =
     create_element (SCH_POL_API A) (prepare_scheduling_policy_object A properties kw) True"

definition update_scheduling_policy ::
  "'w apis \<Rightarrow> string \<Rightarrow> (string, pyval) dict \<Rightarrow> (string, pyval) dict \<Rightarrow> ('w rest_st, bool) comp" where
  "update_scheduling_policy A policy_name properties kw =
     bindE (find_by (SCH_POL_API A) ''name'' (PStr policy_name)) (\<lambda>old.
     update_element (SCH_POL_API A) old (prepare_scheduling_policy_object A properties kw) True)"

definition get_scheduling_policy :: "'w apis \<Rightarrow> string \<Rightarrow> ('w rest_st, pyval) comp" where
  "get_scheduling_policy A policy_name =
     try_except (find_by (SCH_POL_API A) ''name'' (PStr policy_name)) EntityNotFound (\<lambda>_. ret PNone)"

definition remove_scheduling_policy :: "'w apis \<Rightarrow> string \<Rightarrow> ('w rest_st, bool) comp" where
  "remove_scheduling_policy A policy_name =
     bindE (get_scheduling_policy A policy_name) (\<lambda>x. if truthy x then delete_element (SCH_POL_API A) x True else ret False)"

definition is_unit :: "string \<Rightarrow> string \<Rightarrow> pyval \<Rightarrow> exn + bool" where
  "is_unit unit_name unit_type u =
     res_bind (getattr u ''name'') (\<lambda>n. if \<not> py_eq n (PStr unit_name) then Inr False
     else res_bind (getattr u ''type_'') (\<lambda>t. Inr (py_eq t (PStr unit_type))))"

definition get_policy_unit :: "'w apis \<Rightarrow> string \<Rightarrow> string \<Rightarrow> ('w rest_st, pyval) comp" where
  "get_policy_unit A unit_name unit_type =
     bindE (listed (SCH_POL_UNITS_API A)) (\<lambda>units.
     bindE (lift_res (find_res (is_unit unit_name unit_type) units)) (\<lambda>found. ret (opt_val found)))"

definition get_sch_policy_units :: "'w apis \<Rightarrow> string \<Rightarrow> string \<Rightarrow> bool \<Rightarrow> ('w rest_st, pyval) comp" where
  "get_sch_policy_units A policy_name unit_type get_href =
     bindE (find_by (SCH_POL_API A) ''name'' (PStr policy_name)) (\<lambda>policy.
     bindE (lift_res (UNIT_KIND A unit_type)) (\<lambda>k.
     getElemFromLink (SCH_POL_API A) policy (uk_link k) (uk_attr k) get_href False))"

text \<open>
  The type is compared by identity: \<open>interned\<close> says whether the caller's string is the very
  object of the module's constant. Another string of the same text loses position and factor.
\<close>

definition add_scheduling_policy_unit ::
  "'w apis \<Rightarrow> string \<Rightarrow> string \<Rightarrow> string \<Rightarrow> bool \<Rightarrow> pyval \<Rightarrow> pyval \<Rightarrow> ('w rest_st, bool) comp" where
  "add_scheduling_policy_unit A policy_name unit_name unit_type interned position factor =
     bindE (get_policy_unit A unit_name unit_type) (\<lambda>u.
     bindE (lift_res (getattr u ''id'')) (\<lambda>i.
     bindE (get_sch_policy_units A policy_name unit_type True) (\<lambda>href.
     bindE (lift_res (construct (new_object A ''SchedulingPolicyUnit'') [(''id'', i)])) (\<lambda>pl_unit.
     bindE (lift_res (UNIT_KIND A unit_type)) (\<lambda>k.
     bindE (lift_res (construct (new_object A (uk_class k))
              ((''scheduling_policy_unit'', pl_unit) #
               (if interned \<and> unit_type = ''filter'' \<and> truthy position then [(''position'', position)]
                else if interned \<and> unit_type = ''weight'' \<and> truthy factor then [(''factor'', factor)] else [])))) (\<lambda>unit_obj.
     bindE (create_in (uk_api k) unit_obj True href [] True) (\<lambda>r. ret (snd r))))))))"

definition get_scheduling_policy_id :: "'w apis \<Rightarrow> pyval \<Rightarrow> ('w rest_st, pyval) comp" where
  "get_scheduling_policy_id A scheduling_policy_name =
     bindE (get_scheduling_policies A) (\<lambda>v.
     bindE (lift_res (py_iter v)) (\<lambda>ps.
     bindE (lift_res (find_res (name_is scheduling_policy_name) ps)) (\<lambda>found.
     (case found of None \<Rightarrow> ret (PStr []) | Some p \<Rightarrow> lift_res (getattr p ''id'')))))"

definition get_all_policy_units_names :: "'w apis \<Rightarrow> ('w rest_st, pyval list) comp" where
  "get_all_policy_units_names A =
     bindE (listed (SCH_POL_UNITS_API A)) (\<lambda>us. lift_res (map_res (\<lambda>u. getattr u ''name'') us))"

definition remove_scheduling_policy_unit :: "'w apis \<Rightarrow> string \<Rightarrow> ('w rest_st, bool) comp" where
  "remove_scheduling_policy_unit A unit_name =
     bindE (find_by (SCH_POL_UNITS_API A) ''name'' (PStr unit_name)) (\<lambda>u. delete_element (SCH_POL_UNITS_API A) u True)"

section \<open>Affinity labels\<close>

definition AFFINITY_LABEL_API :: "'w apis \<Rightarrow> 'w rest_env" where "AFFINITY_LABEL_API A = A ''affinity_label'' ''affinitylabels''"
definition VM_API :: "'w apis \<Rightarrow> 'w rest_env" where "VM_API A = A ''vm'' ''vms''"

definition get_label_object :: "'w apis \<Rightarrow> string \<Rightarrow> ('w rest_st, pyval) comp" where
  "get_label_object A label_name = find_by (AFFINITY_LABEL_API A) ''name'' (PStr label_name)"

definition collection_link_from_element :: "'w rest_env \<Rightarrow> pyval \<Rightarrow> ('w rest_st, pyval) comp" where
  "collection_link_from_element element_api element_obj = link_address element_api element_obj ''affinitylabels'' []"

definition add_affinity_label_to_element :: "'w apis \<Rightarrow> pyval \<Rightarrow> 'w rest_env \<Rightarrow> string \<Rightarrow> ('w rest_st, bool) comp" where
  "add_affinity_label_to_element A element_obj element_api affinity_label_name =
     bindE (collection_link_from_element element_api element_obj) (\<lambda>link.
     if \<not> truthy link then ret False
     else
       bindE (get_label_object A affinity_label_name) (\<lambda>l.
       bindE (lift_res (getattr l ''id'')) (\<lambda>i.
       bindE (lift_res (prepare_ds_object (new_object A) ''AffinityLabel'' [(''id'', i)])) (\<lambda>label_obj.
       bindE (lift_res (getattr element_obj ''name'')) (\<lambda>_.
       bindE (create_in (AFFINITY_LABEL_API A) label_obj True link [] False) (\<lambda>r. ret (snd r)))))))"

text \<open>The address of an element in a collection: the collection's address and the element's id.\<close>

definition address_in :: "pyval \<Rightarrow> pyval \<Rightarrow> pyval" where
  "address_in collection i = PStr (py_str collection @ ''/'' @ py_str i)"

definition remove_affinity_label_from_element :: "'w apis \<Rightarrow> pyval \<Rightarrow> 'w rest_env \<Rightarrow> string \<Rightarrow> ('w rest_st, bool) comp" where
  "remove_affinity_label_from_element A element_obj element_api affinity_label_name =
     bindE (collection_link_from_element element_api element_obj) (\<lambda>link.
     bindE (get_label_object A affinity_label_name) (\<lambda>l.
     bindE (lift_res (getattr l ''id'')) (\<lambda>i.
     bindE (lift_res (prepare_ds_object (new_object A) ''AffinityLabel'' [(''href'', address_in link i)])) (\<lambda>label_obj.
     bindE (lift_res (getattr element_obj ''name'')) (\<lambda>_. delete_element (AFFINITY_LABEL_API A) label_obj True)))))"

definition create_affinity_label :: "'w apis \<Rightarrow> string \<Rightarrow> (string, pyval) dict \<Rightarrow> ('w rest_st, bool) comp" where
  "create_affinity_label A n kw =
     bindE (lift_res (prepare_ds_object (new_object A) ''AffinityLabel'' ((''name'', PStr n) # kw))) (\<lambda>l.
     create_element (AFFINITY_LABEL_API A) l True)"

definition update_affinity_label :: "'w apis \<Rightarrow> string \<Rightarrow> (string, pyval) dict \<Rightarrow> ('w rest_st, bool) comp" where
  "update_affinity_label A old_name kw =
     bindE (get_label_object A old_name) (\<lambda>old.
     bindE (lift_res (prepare_ds_object (new_object A) ''AffinityLabel'' kw)) (\<lambda>new. update_element (AFFINITY_LABEL_API A) old new True))"

definition delete_affinity_label :: "'w apis \<Rightarrow> string \<Rightarrow> ('w rest_st, bool) comp" where
  "delete_affinity_label A n = bindE (get_label_object A n) (\<lambda>l. delete_element (AFFINITY_LABEL_API A) l True)"

definition get_collection_link :: "'w apis \<Rightarrow> string \<Rightarrow> string \<Rightarrow> ('w rest_st, pyval) comp" where
  "get_collection_link A label_name collection =
     bindE (get_label_object A label_name) (\<lambda>l. link_address (AFFINITY_LABEL_API A) l collection [])"

definition add_label_to_element :: "'w apis \<Rightarrow> string \<Rightarrow> string \<Rightarrow> 'w rest_env \<Rightarrow> string \<Rightarrow> string \<Rightarrow> ('w rest_st, bool) comp" where
  "add_label_to_element A label_name elm_name element_api element_type collection =
     bindE (get_collection_link A label_name collection) (\<lambda>link.
     bindE (find_by element_api ''name'' (PStr elm_name)) (\<lambda>x.
     bindE (lift_res (getattr x ''id'')) (\<lambda>i.
     bindE (lift_res (prepare_ds_object (new_object A) element_type [(''id'', i)])) (\<lambda>element_obj.
     bindE (create_in element_api element_obj True link [] False) (\<lambda>r. ret (snd r))))))"

definition remove_label_from_element :: "'w apis \<Rightarrow> string \<Rightarrow> string \<Rightarrow> 'w rest_env \<Rightarrow> string \<Rightarrow> string \<Rightarrow> ('w rest_st, bool) comp" where
  "remove_label_from_element A label_name elm_name element_api element_type collection =
     bindE (get_collection_link A label_name collection) (\<lambda>link.
     bindE (find_by element_api ''name'' (PStr elm_name)) (\<lambda>x.
     bindE (lift_res (getattr x ''id'')) (\<lambda>i.
     bindE (lift_res (prepare_ds_object (new_object A) element_type [(''href'', address_in link i)])) (\<lambda>element_obj.
     delete_element element_api element_obj True))))"

definition add_label_to_host :: "'w apis \<Rightarrow> string \<Rightarrow> string \<Rightarrow> ('w rest_st, bool) comp" where
  "add_label_to_host A label_name host_name = add_label_to_element A label_name host_name (HOST_API A) ''Host'' ''hosts''"

definition remove_label_from_host :: "'w apis \<Rightarrow> string \<Rightarrow> string \<Rightarrow> ('w rest_st, bool) comp" where
  "remove_label_from_host A label_name host_name = remove_label_from_element A label_name host_name (HOST_API A) ''Host'' ''hosts''"

definition add_label_to_vm :: "'w apis \<Rightarrow> string \<Rightarrow> string \<Rightarrow> ('w rest_st, bool) comp" where
  "add_label_to_vm A label_name vm_name = add_label_to_element A label_name vm_name (VM_API A) ''Vm'' ''vms''"

definition remove_label_from_vm :: "'w apis \<Rightarrow> string \<Rightarrow> string \<Rightarrow> ('w rest_st, bool) comp" where
  "remove_label_from_vm A label_name vm_name = remove_label_from_element A label_name vm_name (VM_API A) ''Vm'' ''vms''"

end
