(* ===== verification/Sla.thy ===== *)
theory Sla
  imports Pyval
begin

text \<open>
  \<open>art/rhevm_api/tests_lib/low_level/sla.py\<close>: loading the CPUs of a machine. A machine runs a
  command, which gives its exit code and output, and creates files; both are parameters.
\<close>

section \<open>The online CPUs\<close>

text \<open>\<open>re.search(r'On-line CPU\(s\) list:\s+(\S+)', out)\<close>: the group of the first match.\<close>

definition ONLINE :: string where "ONLINE = ''On-line CPU(s) list:''"

fun search_online :: "string \<Rightarrow> string option" where
  "search_online [] = None"
| "search_online (c # s) =
     (let r = drop (length ONLINE) (c # s); ws = takeWhile is_space r; w = takeWhile (\<lambda>c. \<not> is_space c) (dropWhile is_space r) in
      if startswith (c # s) ONLINE \<and> ws \<noteq> [] \<and> w \<noteq> [] then Some w else search_online s)"

definition int_of_str :: "string \<Rightarrow> exn + int" where
  "int_of_str s = py_int (PStr s)"

definition cpus_of :: "string \<Rightarrow> exn + int list" where
  "cpus_of cpus =
     (if CHR ''-'' \<in> set cpus then
        (case split_on cpus ''-'' of
           a # b # _ \<Rightarrow> res_bind (int_of_str a) (\<lambda>i. res_bind (int_of_str b) (\<lambda>j. Inr [i..j]))
         | _ \<Rightarrow> Inl IndexError)
      else res_bind (int_of_str cpus) (\<lambda>i. Inr [i]))"

fun online_cpus :: "string list \<Rightarrow> exn + int list" where
  "online_cpus [] = Inr []"
| "online_cpus (cpus # rest) = res_bind (cpus_of cpus) (\<lambda>l. res_bind (online_cpus rest) (\<lambda>ls. Inr (l @ ls)))"

record 'v machine =
  mc_run :: "string list \<Rightarrow> ('v, int \<times> string) comp"
  mc_create_script :: "string \<Rightarrow> string \<Rightarrow> ('v, unit) comp"

definition get_list_of_online_cpus_on_resource :: "'v machine \<Rightarrow> ('v, int list) comp" where
  "get_list_of_online_cpus_on_resource resource =
     bindE (mc_run resource [''lscpu'']) (\<lambda>(rc, out).
     if rc \<noteq> 0 then ret []
     else
       (case search_online out of
          None \<Rightarrow> raise AttributeError
        | Some l \<Rightarrow> lift_res (online_cpus (split_on l '',''))))"

section \<open>Loading them\<close>

definition LOAD_SCRIPT_DIR :: string where "LOAD_SCRIPT_DIR = ''/tmp''"
definition LOAD_SCRIPT_NAME :: string where "LOAD_SCRIPT_NAME = ''load_host.sh''"
definition script_path :: string where "script_path = LOAD_SCRIPT_DIR @ ''/'' @ LOAD_SCRIPT_NAME"

text \<open>\<open>num_of_cpus /= 100 / load\<close>, both divisions of integers.\<close>

definition py_div :: "int \<Rightarrow> int \<Rightarrow> exn + int" where
  "py_div a b = (if b = 0 then Inl ZeroDivisionError else Inr (a div b))"

definition busy_loops :: "int \<Rightarrow> int \<Rightarrow> exn + int" where
  "busy_loops num_of_cpus load = res_bind (py_div 100 load) (\<lambda>d. py_div num_of_cpus d)"

definition script_body :: "int \<Rightarrow> string" where
  "script_body n =
     join [CHR 0x0A] [''#!/bin/bash'', ''for i in `seq 1 '' @ show_int n @ ''`;'', ''do while :'', '' do :'', '' done &'', '' done'']"

definition load_resource_cpu :: "'v machine \<Rightarrow> int \<Rightarrow> ('v, bool) comp" where
  "load_resource_cpu resource load =
     bindE (get_list_of_online_cpus_on_resource resource) (\<lambda>cpus.
     if cpus = [] then ret False
     else
       bindE (lift_res (busy_loops (int (length cpus)) load)) (\<lambda>n.
       bindE (mc_create_script resource (script_body n) script_path) (\<lambda>_.
       bindE (mc_run resource [''sh'', script_path, ''&>'', ''/tmp/OUT1'', ''&'', ''echo'', ''$!'']) (\<lambda>(rc, out). ret (rc = 0)))))"

definition stop_cpu_load_on_resource :: "'v machine \<Rightarrow> ('v, bool) comp" where
  "stop_cpu_load_on_resource resource =
     bindE (mc_run resource [''kill'', ''$(pidof'', ''sh'', script_path @ '')'']) (\<lambda>(rc, out). ret (rc = 0))"

text \<open>
  Each machine is worked on by a thread of its own, in a world of its own; the results are looked
  at in order, and a raised exception is raised again when its turn comes. A pool of no threads is
  a ValueError.
\<close>

fun all_results :: "(exn + bool) list \<Rightarrow> exn + bool" where
  "all_results [] = Inr True"
| "all_results (r # rs) = res_bind r (\<lambda>b. if b then all_results rs else Inr False)"

definition on_all :: "('v machine \<Rightarrow> ('v, bool) comp) \<Rightarrow> ('v machine \<times> 'v) list \<Rightarrow> exn + bool" where
  "on_all f resources =
     (if resources = [] then Inl ValueError else all_results (map (\<lambda>(resource, v). fst (f resource v)) resources))"

definition load_resources_cpu :: "('v machine \<times> 'v) list \<Rightarrow> int \<Rightarrow> exn + bool" where
  "load_resources_cpu resources load = on_all (\<lambda>resource. load_resource_cpu resource load) resources"

definition stop_cpu_load_on_resources :: "('v machine \<times> 'v) list \<Rightarrow> exn + bool" where
  "stop_cpu_load_on_resources resources = on_all stop_cpu_load_on_resource resources"

section \<open>Numerals read back\<close>

lemma digit_chars:
  "\<forall>d \<in> set [0..<10]. is_digit (digit_char d) \<and> int (of_char (digit_char d)) - 48 = int d \<and> \<not> is_space (digit_char d) \<and>
     digit_char d \<noteq> CHR ''-'' \<and> digit_char d \<noteq> CHR '','' \<and> digit_char d \<noteq> CHR ''+''"
  by code_simp

lemma digit_char_facts:
  assumes "d < 10"
  shows "is_digit (digit_char d)" and "int (of_char (digit_char d)) - 48 = int d" and "\<not> is_space (digit_char d)"
    and "digit_char d \<noteq> CHR ''-''" and "digit_char d \<noteq> CHR '',''" and "digit_char d \<noteq> CHR ''+''"
  using bspec [OF digit_chars, of d] assms by simp_all

lemma show_nat_chars: "c \<in> set (show_nat n) \<Longrightarrow> \<exists>d < 10. c = digit_char d"
proof (induction n rule: show_nat.induct)
  case (1 n)
  show ?case
  proof (cases "n < 10")
    case True
    with 1 show ?thesis by (subst (asm) show_nat.simps) auto
  next
    case False
    with 1 have "c \<in> set (show_nat (n div 10)) \<or> c = digit_char (n mod 10)" by (subst (asm) (2) show_nat.simps) auto
    then show ?thesis
    proof
      assume "c \<in> set (show_nat (n div 10))"
      with 1(1) False show ?thesis by blast
    next
      assume "c = digit_char (n mod 10)"
      then show ?thesis by (intro exI [of _ "n mod 10"]) simp
    qed
  qed
qed

lemma show_nat_Nil [simp]: "show_nat n \<noteq> []"
  by (subst show_nat.simps) simp

lemma numeral_value_snoc: "numeral_value (s @ [c]) = 10 * numeral_value s + (int (of_char c) - 48)"
  by (simp add: numeral_value_def)

lemma numeral_show_nat: "numeral_value (show_nat n) = int n"
proof (induction n rule: show_nat.induct)
  case (1 n)
  show ?case
  proof (cases "n < 10")
    case True
    then show ?thesis using digit_char_facts(2) [of n] by (subst show_nat.simps) (simp add: numeral_value_def)
  next
    case False
    with 1 have "numeral_value (show_nat (n div 10)) = int (n div 10)" by simp
    moreover have "10 * int (n div 10) + int (n mod 10) = int n"
      using div_mult_mod_eq [of n 10] by linarith
    ultimately show ?thesis
      using False digit_char_facts(2) [of "n mod 10"] by (subst show_nat.simps) (simp add: numeral_value_snoc)
  qed
qed

lemma strip_no_space: "(\<And>c. c \<in> set s \<Longrightarrow> \<not> is_space c) \<Longrightarrow> strip s = s"
proof -
  assume no: "\<And>c. c \<in> set s \<Longrightarrow> \<not> is_space c"
  have "dropWhile is_space t = t" if "set t \<subseteq> set s" for t
    using that no by (cases t) auto
  then show ?thesis by (simp add: strip_def lstrip_def)
qed

lemma int_of_show_nat: "int_of_str (show_nat n) = Inr (int n)"
proof -
  have no: "\<not> is_space c" "is_digit c" "c \<noteq> CHR ''-''" "c \<noteq> CHR ''+''" if "c \<in> set (show_nat n)" for c
    using show_nat_chars [OF that] digit_char_facts by auto
  then have "strip (show_nat n) = show_nat n" by (intro strip_no_space) simp
  moreover have "hd (show_nat n) \<noteq> CHR ''-''" "hd (show_nat n) \<noteq> CHR ''+''" using no hd_in_set [OF show_nat_Nil] by blast+
  moreover have "list_all is_digit (show_nat n)" using no by (simp add: list_all_iff)
  ultimately show ?thesis by (simp add: int_of_str_def parse_int_def Let_def numeral_show_nat)
qed

section \<open>The list of CPUs read back\<close>

text \<open>A list of single CPUs and of ranges, as lscpu writes it.\<close>

definition show_range :: "nat \<times> nat \<Rightarrow> string" where
  "show_range r = (if fst r = snd r then show_nat (fst r) else show_nat (fst r) @ ''-'' @ show_nat (snd r))"

definition show_ranges :: "(nat \<times> nat) list \<Rightarrow> string" where
  "show_ranges rs = join '','' (map show_range rs)"

lemma cpus_of_range: "cpus_of (show_range r) = Inr [int (fst r)..int (snd r)]"
proof -
  have no: "CHR ''-'' \<notin> set (show_nat n)" for n
    using show_nat_chars digit_char_facts(4) by metis
  show ?thesis
  proof (cases "fst r = snd r")
    case True
    then show ?thesis using no by (simp add: cpus_of_def show_range_def int_of_show_nat)
  next
    case False
    have "split_on (show_nat (fst r) @ ''-'' @ show_nat (snd r)) ''-'' = [show_nat (fst r), show_nat (snd r)]"
      using split_on_join [of "[show_nat (fst r), show_nat (snd r)]" "CHR ''-''"] no by auto
    with False show ?thesis by (simp add: cpus_of_def show_range_def int_of_show_nat)
  qed
qed


section \<open>How much is loaded\<close>

text \<open>
  C20. The number of busy loops for a load in per cent is never less, by a whole CPU, than asked for, but
  the rounding of the inner division can double it: any load above 50 keeps all CPUs busy. No load
  at all, or one above 100, is a ZeroDivisionError.
\<close>

theorem busy_loops_rounding:
  assumes "0 \<le> n"
  shows "(0 < load \<and> load \<le> 100 \<longrightarrow>
      (\<exists>k. busy_loops n load = Inr k \<and> n * load < 100 * (k + 1) \<and> 100 * k \<le> 2 * (n * load) \<and> k \<le> n)) \<and>
    (50 < load \<and> load \<le> 100 \<longrightarrow> busy_loops n load = Inr n) \<and>
    (load = 0 \<or> 100 < load \<longrightarrow> busy_loops n load = Inl ZeroDivisionError)"
proof (intro conjI impI)
  assume load: "0 < load \<and> load \<le> 100"
  let ?d = "100 div load" let ?k = "n div ?d"
  have d: "1 \<le> ?d" "?d * load \<le> 100" "100 < (?d + 1) * load"
  proof -
    have e: "?d * load + 100 mod load = 100" by (rule div_mult_mod_eq)
    have m: "0 \<le> 100 mod load" "100 mod load < load" using load by simp_all
    show "?d * load \<le> 100" using e m by linarith
    show "100 < (?d + 1) * load" unfolding distrib_right mult_1 using e m by linarith
    show "1 \<le> ?d" using load by (simp add: pos_imp_zdiv_pos_iff int_one_le_iff_zero_less)
  qed
  have k: "0 \<le> ?k" "?k * ?d \<le> n" "n < (?k + 1) * ?d"
  proof -
    have e: "?k * ?d + n mod ?d = n" by (rule div_mult_mod_eq)
    have m: "0 \<le> n mod ?d" "n mod ?d < ?d" using d(1) by simp_all
    show "?k * ?d \<le> n" using e m by linarith
    show "n < (?k + 1) * ?d" unfolding distrib_right mult_1 using e m by linarith
    show "0 \<le> ?k" using d(1) assms by (simp add: pos_imp_zdiv_nonneg_iff)
  qed
  have "n * load < (?k + 1) * ?d * load" using k(3) load by (simp add: mult_less_cancel_right)
  also have "\<dots> = (?k + 1) * (?d * load)" by (simp add: algebra_simps)
  also have "\<dots> \<le> (?k + 1) * 100" using d(2) k(1) by (intro mult_left_mono) auto
  finally have low: "n * load < 100 * (?k + 1)" by simp
  have kn: "?k \<le> n" using k(1,2) d(1) by (metis mult_left_mono mult.right_neutral order_trans)
  have "100 * ?k \<le> ?k * ((?d + 1) * load)" using d(3) k(1) by (metis less_imp_le mult.commute mult_left_mono)
  also have "\<dots> = (?k * ?d + ?k) * load" by (simp add: algebra_simps)
  also have "\<dots> \<le> (n + n) * load" using k(2) kn load by (intro mult_right_mono) auto
  finally have "100 * ?k \<le> 2 * (n * load)" by (simp add: algebra_simps)
  moreover have "busy_loops n load = Inr ?k" using load d(1) by (auto simp: busy_loops_def py_div_def)
  ultimately show "\<exists>k. busy_loops n load = Inr k \<and> n * load < 100 * (k + 1) \<and> 100 * k \<le> 2 * (n * load) \<and> k \<le> n"
    using low kn by blast
next
  assume load: "50 < load \<and> load \<le> 100"
  then have "100 div load = 1" using int_div_pos_eq [of 100 load 1 "100 - load"] by auto
  then show "busy_loops n load = Inr n" using load by (simp add: busy_loops_def py_div_def)
next
  assume "load = 0 \<or> 100 < load"
  then show "busy_loops n load = Inl ZeroDivisionError" by (auto simp: busy_loops_def py_div_def)
qed

section \<open>Witnesses\<close>

definition demo_machine :: "nat machine" where
  "demo_machine = \<lparr>mc_run = (\<lambda>cmd v. (Inr (0, ''CPU(s): 4'' @ [CHR 0x0A] @ ONLINE @ '' '' @ show_ranges [(0, 1), (3, 3)] @ [CHR 0x0A] @ []), v + 1)),
     mc_create_script = (\<lambda>b p v. (Inr (), v + 1))\<rparr>"


theorem busy_loops_rounding_witness: "busy_loops 8 60 = Inr 8"
  using busy_loops_rounding [of 8 60] by simp

end
