(* ===== verification/Vm_Pools.thy ===== *)
theory Vm_Pools
  imports Scheduling_Policies
begin

text \<open>
  \<open>art/rhevm_api/tests_lib/low_level/vmpools.py\<close>: pools of virtual machines, with the wait for
  machines to be gone from \<open>vms.py\<close>. The names of states come from the configuration and are
  given as a function from the keys of the table of enumerations.
\<close>

type_synonym enums = "string \<Rightarrow> string"

definition VM_POOL_API :: "'w apis \<Rightarrow> 'w rest_env" where "VM_POOL_API A = A ''vm_pool'' ''vmpools''"
definition TEMPLATE_API :: "'w apis \<Rightarrow> 'w rest_env" where "TEMPLATE_API A = A ''template'' ''templates''"

definition VM_ACTION_TIMEOUT :: int where "VM_ACTION_TIMEOUT = 600"

text \<open>\<open>time.sleep(d)\<close> refuses a negative duration.\<close>

definition sleep_for :: "'w rest_env \<Rightarrow> int \<Rightarrow> ('w rest_st, unit) comp" where
  "sleep_for E d = (if d < 0 then raise IOError else on_world (\<lambda>w. ((), do_sleep E d w)))"

section \<open>The object of a pool\<close>

definition prepareVmPoolObject :: "'w apis \<Rightarrow> (string, pyval) dict \<Rightarrow> ('w rest_st, pyval) comp" where
  "prepareVmPoolObject A kw =
     (let p1 = set_true kw ''size'' (set_true kw ''description'' (set_true kw ''name'' (new_object A ''VmPool'')));
          cluster = kwget kw ''cluster''; template = kwget kw ''template'' in
     bindE (if truthy cluster then bindE (find_by (CL_API A) ''name'' cluster) (\<lambda>c. ret (setattr p1 ''cluster'' c)) else ret p1) (\<lambda>p2.
     bindE (if truthy template then
              bindE (find_by (TEMPLATE_API A) ''name'' template) (\<lambda>t.
              bindE (lift_res (getattr t ''id'')) (\<lambda>i.
              bindE (lift_res (construct (new_object A ''Template'') [(''id'', i)])) (\<lambda>x. ret (setattr p2 ''template'' x))))
            else ret p2) (\<lambda>p3.
     let p4 = set_true kw ''type_'' (set_true kw ''id'' p3);
         p5 = set_some kw ''stateful'' (set_some kw ''max_user_vms'' (set_some kw ''prestarted_vms'' p4));
         vm = set_true kw ''initialization'' (set_some kw ''custom_emulated_machine'' (set_some kw ''custom_cpu_model'' (new_object A ''Vm'')))
     in ret (setattr p5 ''vm'' vm))))"

section \<open>The machines of a pool\<close>

definition in_pool :: "pyval \<Rightarrow> pyval \<Rightarrow> exn + bool" where
  "in_pool vm_pool vm =
     (case getattr_opt vm ''vm_pool'' of
        None \<Rightarrow> Inr False
      | Some p \<Rightarrow>
          if \<not> truthy p then Inr False
          else res_bind (getattr p ''id'') (\<lambda>i. res_bind (getattr vm_pool ''id'') (\<lambda>j. Inr (py_eq i j))))"

definition get_vms_in_pool :: "'w apis \<Rightarrow> pyval \<Rightarrow> ('w rest_st, pyval list) comp" where
  "get_vms_in_pool A vm_pool = bindE (listed (VM_API A)) (\<lambda>vms. lift_res (filter_res (in_pool vm_pool) vms))"

definition get_vms_in_pool_by_name :: "'w apis \<Rightarrow> string \<Rightarrow> ('w rest_st, pyval list) comp" where
  "get_vms_in_pool_by_name A vm_pool =
     bindE (find_by (VM_POOL_API A) ''name'' (PStr vm_pool)) (\<lambda>p.
     bindE (get_vms_in_pool A p) (\<lambda>vms. lift_res (map_res (\<lambda>v. getattr v ''name'') vms)))"

text \<open>
  \<open>x in states\<close>: for a list of names membership, for one name the test for a substring.
\<close>

datatype states_arg = States_default | States_list "pyval list" | States_string string

definition status_in :: "enums \<Rightarrow> states_arg \<Rightarrow> pyval \<Rightarrow> exn + bool" where
  "status_in N states st =
     (case states of
        States_default \<Rightarrow> Inr (\<exists>s \<in> set [N ''vm_state_up'', N ''vm_state_powering_up'']. py_eq st (PStr s))
      | States_list l \<Rightarrow> Inr (\<exists>s \<in> set l. py_eq st s)
      | States_string t \<Rightarrow> (case st of PStr s \<Rightarrow> Inr (contains t s) | _ \<Rightarrow> Inl TypeError))"

definition get_vms_in_pool_by_states :: "'w apis \<Rightarrow> enums \<Rightarrow> string \<Rightarrow> states_arg \<Rightarrow> ('w rest_st, pyval list) comp" where
  "get_vms_in_pool_by_states A N vmpool states =
     bindE (find_by (VM_POOL_API A) ''name'' (PStr vmpool)) (\<lambda>p.
     bindE (get_vms_in_pool A p) (\<lambda>vms.
     lift_res (filter_res (\<lambda>v. res_bind (getattr v ''status'') (status_in N states)) vms)))"

section \<open>Adding, changing and removing\<close>

fun all_reach_status :: "'w rest_env \<Rightarrow> string \<Rightarrow> int \<Rightarrow> pyval list \<Rightarrow> ('w rest_st, bool) comp" where
  "all_reach_status E status t [] = ret True"
| "all_reach_status E status t (v # vs) =
     bindE (waitForElemStatus E v status t False) (\<lambda>ok. if ok then all_reach_status E status t vs else ret False)"

definition addVmPool :: "'w apis \<Rightarrow> enums \<Rightarrow> bool \<Rightarrow> bool \<Rightarrow> (string, pyval) dict \<Rightarrow> ('w rest_st, bool) comp" where
  "addVmPool A N positive wait kw =
     (let size = (case map_of kw ''size'' of None \<Rightarrow> PInt 0 | Some v \<Rightarrow> v) in
     bindE (prepareVmPoolObject A kw) (\<lambda>pool_obj.
     bindE (rest_create (VM_POOL_API A) pool_obj positive create_default) (\<lambda>(pool, status).
     if \<not> status then ret False
     else if \<not> positive then ret True
     else
       bindE (lift_res (py_int size)) (\<lambda>n.
       bindE (sleep_for (VM_POOL_API A) (n * 3)) (\<lambda>_.
       bindE (get_vms_in_pool A pool) (\<lambda>vms.
       if \<not> compareCollectionSize (Some vms) (Exactly n) then ret False
       else if wait then all_reach_status (VM_API A) (N ''vm_state_down'') VM_ACTION_TIMEOUT vms
       else ret True))))))"

definition updateVmPool :: "'w apis \<Rightarrow> bool \<Rightarrow> string \<Rightarrow> (string, pyval) dict \<Rightarrow> ('w rest_st, bool) comp" where
  "updateVmPool A positive vmpool kw =
     (let size = (case map_of kw ''size'' of None \<Rightarrow> PInt 0 | Some v \<Rightarrow> v) in
     bindE (find_by (VM_POOL_API A) ''name'' (PStr vmpool)) (\<lambda>pool.
     bindE (lift_res (getattr_chain [''template'', ''id''] pool)) (\<lambda>ti.
     bindE (find_by (TEMPLATE_API A) ''id'' ti) (\<lambda>t.
     bindE (lift_res (getattr t ''name'')) (\<lambda>tn.
     bindE (lift_res (getattr_chain [''cluster'', ''id''] pool)) (\<lambda>ci.
     bindE (find_by (CL_API A) ''id'' ci) (\<lambda>c.
     bindE (lift_res (getattr c ''name'')) (\<lambda>cn.
     bindE (lift_res (getattr pool ''id'')) (\<lambda>i.
     bindE (prepareVmPoolObject A (dict_set (dict_set (dict_set kw ''template'' tn) ''cluster'' cn) ''id'' i)) (\<lambda>new.
     bindE (rest_update (VM_POOL_API A) pool new positive update_default) (\<lambda>(pool', status).
     if \<not> status then ret False
     else if truthy size \<and> truthy pool' then
       (case num_of size of
          None \<Rightarrow> raise TypeError
        | Some n \<Rightarrow>
            bindE (sleep_for (VM_POOL_API A) (n * 3)) (\<lambda>_.
            bindE (get_vms_in_pool A pool') (\<lambda>vms. ret (compareCollectionSize (Some vms) (Exactly n)))))
     else ret status)))))))))))"

definition waitForVmsGone ::
  "'w rest_st os_time \<Rightarrow> 'w apis \<Rightarrow> bool \<Rightarrow> names_arg \<Rightarrow> int \<Rightarrow> int \<Rightarrow> 'w rest_st \<Rightarrow> ((exn + bool) \<times> 'w rest_st) option" where
  "waitForVmsGone T A positive vms t samplingPeriod = waitUntilGone T (VM_API A) positive vms t samplingPeriod ''name''"

definition removeVmPool ::
  "'w rest_st os_time \<Rightarrow> 'w apis \<Rightarrow> bool \<Rightarrow> string \<Rightarrow> bool \<Rightarrow> 'w rest_st \<Rightarrow> ((exn + bool) \<times> 'w rest_st) option" where
  "removeVmPool T A positive vmpool wait w =
     (case bindE (find_by (VM_POOL_API A) ''name'' (PStr vmpool)) (\<lambda>pool.
           bindE (get_vms_in_pool_by_name A vmpool) (\<lambda>pool_vms.
           bindE (delete_element (VM_POOL_API A) pool positive) (\<lambda>status. ret (pool_vms, status)))) w of
        (Inl e, w1) \<Rightarrow> Some (Inl e, w1)
      | (Inr (pool_vms, status), w1) \<Rightarrow>
          if wait \<and> positive then
            (case waitForVmsGone T A positive (Names_list (map py_str pool_vms)) 60 10 w1 of
               None \<Rightarrow> None
             | Some (Inl e, w2) \<Rightarrow> Some (if isinstance e APITimeout then Inr False else Inl e, w2)
             | Some (Inr _, w2) \<Rightarrow> Some (Inr status, w2))
          else Some (Inr status, w1))"

definition allocateVmFromPool :: "'w apis \<Rightarrow> bool \<Rightarrow> string \<Rightarrow> ('w rest_st, bool) comp" where
  "allocateVmFromPool A positive vmpool =
     bindE (find_by (VM_POOL_API A) ''name'' (PStr vmpool)) (\<lambda>pool.
     bindE (syncAction (VM_POOL_API A) pool ''allocatevm'' positive action_default) (\<lambda>r. ret (truthy r)))"

section \<open>Reading\<close>

definition get_vm_pool_object :: "'w apis \<Rightarrow> string \<Rightarrow> ('w rest_st, pyval) comp" where
  "get_vm_pool_object A vm_pool = try_except (find_by (VM_POOL_API A) ''name'' (PStr vm_pool)) EntityNotFound (\<lambda>_. ret PNone)"

definition does_vm_pool_exist :: "'w apis \<Rightarrow> string \<Rightarrow> ('w rest_st, bool) comp" where
  "does_vm_pool_exist A vmpool_name = bindE (get_vm_pool_object A vmpool_name) (\<lambda>p. ret (p \<noteq> PNone))"

definition pool_member :: "'w apis \<Rightarrow> string \<Rightarrow> string \<Rightarrow> ('w rest_st, pyval) comp" where
  "pool_member A vmpool a = bindE (find_by (VM_POOL_API A) ''name'' (PStr vmpool)) (\<lambda>p. lift_res (getattr p a))"

definition get_vm_pool_size :: "'w apis \<Rightarrow> string \<Rightarrow> ('w rest_st, pyval) comp" where
  "get_vm_pool_size A vmpool = pool_member A vmpool ''size''"

definition get_vm_pool_number_of_prestarted_vms :: "'w apis \<Rightarrow> string \<Rightarrow> ('w rest_st, pyval) comp" where
  "get_vm_pool_number_of_prestarted_vms A vmpool = pool_member A vmpool ''prestarted_vms''"

definition get_vm_pool_max_user_vms :: "'w apis \<Rightarrow> string \<Rightarrow> ('w rest_st, pyval) comp" where
  "get_vm_pool_max_user_vms A vmpool = pool_member A vmpool ''max_user_vms''"

definition get_vm_pool_type :: "'w apis \<Rightarrow> string \<Rightarrow> ('w rest_st, pyval) comp" where
  "get_vm_pool_type A vmpool = pool_member A vmpool ''type_''"

definition get_all_vm_pools :: "'w apis \<Rightarrow> ('w rest_st, pyval) comp" where
  "get_all_vm_pools A = get_all (VM_POOL_API A)"

definition get_all_vm_pools_names :: "'w apis \<Rightarrow> ('w rest_st, pyval list) comp" where
  "get_all_vm_pools_names A =
     bindE (listed (VM_POOL_API A)) (\<lambda>ps. lift_res (map_res (\<lambda>p. getattr p ''name'') ps))"

section \<open>A pool that was added\<close>

lemma all_reach_status_True:
  assumes "all_reach_status E status t vms s = (Inr True, s')" and "v \<in> set vms"
  shows "\<exists>s1 s2. waitForElemStatus E v status t False s1 = (Inr True, s2)"
  using assms
proof (induction vms arbitrary: s)
  case (Cons u us)
  then show ?case by (auto simp: ret_def split: if_splits elim!: bindE_InrE) metis+
qed simp

text \<open>
  A positive \<open>addVmPool\<close> that answers True, with waiting on, means that the engine accepted the
  pool, that the pool then held exactly the number of machines asked for, and that each of them
  was seen down.
\<close>

theorem addVmPool_positive_sound:
  assumes "addVmPool A N True True kw s = (Inr True, s')"
  shows "\<exists>x pool n vms. (\<exists>v v'. rest_create (VM_POOL_API A) x True create_default v = (Inr (pool, True), v')) \<and>
    py_int (case map_of kw ''size'' of None \<Rightarrow> PInt 0 | Some i \<Rightarrow> i) = Inr n \<and>
    (\<exists>v v'. get_vms_in_pool A pool v = (Inr vms, v')) \<and> int (length vms) = n \<and>
    (\<forall>vm \<in> set vms. \<exists>v v'. waitForElemStatus (VM_API A) vm (N ''vm_state_down'') VM_ACTION_TIMEOUT False v = (Inr True, v'))"
proof -
  from assms obtain x s1 pool s2 n vms s3 s4 where
    "rest_create (VM_POOL_API A) x True create_default s1 = (Inr (pool, True), s2)"
    "py_int (case map_of kw ''size'' of None \<Rightarrow> PInt 0 | Some i \<Rightarrow> i) = Inr n"
    "get_vms_in_pool A pool s3 = (Inr vms, s4)" "int (length vms) = n"
    and w: "all_reach_status (VM_API A) (N ''vm_state_down'') VM_ACTION_TIMEOUT vms s4 = (Inr True, s')"
    unfolding addVmPool_def Let_def
    by (auto simp: lift_res_def ret_def split: if_splits prod.splits elim!: bindE_InrE)
  then show ?thesis using all_reach_status_True [OF w] by blast
qed

text \<open>Two machines of the pool and one outside it.\<close>

definition pool_elements :: "string \<Rightarrow> pyval list" where
  "pool_elements el =
     (let p = PObj ''VmPool'' [(''id'', PStr ''p1''), (''name'', PStr ''pool'')];
          vm = (\<lambda>n v. PObj ''Vm'' [(''name'', PStr n), (''href'', PStr (''/api/vms/'' @ n)), (''vm_pool'', v), (''status'', PStr ''down'')]) in
      if el = ''vm'' then [vm ''a'' p, vm ''b'' PNone, vm ''c'' p] else [p])"

definition pool_srv :: "nat server_fun" where
  "pool_srv rq w = (Inr \<lparr>resp_status = 200, resp_reason = ''OK'', resp_headers = [],
     resp_data = (if req_method rq = ''POST'' then ''new'' else req_url rq)\<rparr>, w + 1)"

definition pool_apis :: "nat apis" where
  "pool_apis el col = demo_rest\<lparr>srv := pool_srv, element_name := el, collection_name := col, links := [(col, ''/api/'' @ col)],
     compare_env := demo_env\<lparr>ds_classes := (\<lambda>c. Some (DsClass c [] None))\<rparr>, new_ds := (\<lambda>c. PObj c []),
     parse := (\<lambda>s. Inr (if s = ''new'' then PObj ''VmPool'' [(''id'', PStr ''p1'')]
                    else if contains s ''/api/vms/'' then PObj ''Vm'' [(''status'', PStr ''down'')]
                    else PObj [] [(el, PList (pool_elements el))])), dump_entity := (\<lambda>v n. ''new'')\<rparr>"

lemma demo_add_pool: "fst (addVmPool pool_apis (\<lambda>k. ''down'') True True [(''size'', PInt 2)] demo_rest_st) = Inr True"
  by code_simp

theorem addVmPool_positive_sound_witness:
  "\<exists>x pool v v'. rest_create (VM_POOL_API pool_apis) x True create_default v = (Inr (pool, True), v')"
proof -
  obtain s' where "addVmPool pool_apis (\<lambda>k. ''down'') True True [(''size'', PInt 2)] demo_rest_st = (Inr True, s')"
    using demo_add_pool by (metis prod.collapse)
  from addVmPool_positive_sound [OF this] show ?thesis by blast
qed

end
