(* ===== verification/Clusters.thy ===== *)
theory Clusters
  imports Vm_Pools
begin

text \<open>
  \<open>art/rhevm_api/tests_lib/low_level/clusters.py\<close>: clusters, their affinity groups and their CPU
  profiles. Keyword arguments are a dictionary of values; those that are dictionaries themselves
  (scheduling properties, affinity rules) are arguments of their own, empty when not given.
\<close>

section \<open>The object of a cluster\<close>

definition external_providers :: "'w apis \<Rightarrow> pyval \<Rightarrow> ('w rest_st, pyval) comp" where
  "external_providers A enp_name =
     (let ps = new_object A ''ExternalProviders'' in
      if truthy enp_name then
        bindE (find_by (A ''openstack_network_provider'' ''openstacknetworkproviders'') ''name'' enp_name) (\<lambda>x.
        bindE (lift_res (getattr x ''id'')) (\<lambda>i.
        lift_res (add_member ''external_provider'' (setattr (new_object A ''ExternalProvider'') ''id'' i) ps)))
      else ret ps)"

text \<open>A memory policy is sent whenever one of the two keywords is there, even with a false value.\<close>

definition memory_policy :: "'w apis \<Rightarrow> (string, pyval) dict \<Rightarrow> exn + pyval" where
  "memory_policy A kw =
     res_bind (if truthy (kwget kw ''mem_ovrcmt_prc'')
               then construct (new_object A ''MemoryOverCommit'') [(''percent'', kwget kw ''mem_ovrcmt_prc'')] else Inr PNone) (\<lambda>overcommit.
     res_bind (if truthy (kwget kw ''transparent_hugepages'')
               then construct (new_object A ''TransparentHugePages'') [(''enabled'', kwget kw ''transparent_hugepages'')] else Inr PNone) (\<lambda>thp.
     construct (new_object A ''MemoryPolicy'') [(''over_commit'', overcommit), (''transparent_hugepages'', thp)]))"

text \<open>The migration options are set on every call, with an empty policy if none is asked for.\<close>

definition migration_options :: "'w apis \<Rightarrow> (string, pyval) dict \<Rightarrow> exn + pyval" where
  "migration_options A kw =
     (let policy_id = kwget kw ''migration_policy_id''; bw = kwget kw ''migration_bandwidth''; custom = kwget kw ''migration_custom_bandwidth'' in
      res_bind (construct (new_object A ''MigrationPolicy'') (if truthy policy_id then [(''id'', policy_id)] else [])) (\<lambda>policy.
      if truthy bw then
        res_bind (construct (new_object A ''MigrationBandwidth'')
                    ((''assignment_method'', bw) # (if truthy custom then [(''custom_value'', custom)] else []))) (\<lambda>b.
        construct (new_object A ''MigrationOptions'') [(''policy'', policy), (''bandwidth'', b)])
      else construct (new_object A ''MigrationOptions'') [(''policy'', policy)]))"

definition required_rng_sources :: "'w apis \<Rightarrow> pyval \<Rightarrow> exn + pyval" where
  "required_rng_sources A sources =
     (let x = new_object A ''required_rng_sourcesType'' in
      if sources = PNone then Inr x else construct x [(''required_rng_source'', sources)])"

definition cluster_version :: "'w apis \<Rightarrow> pyval \<Rightarrow> exn + pyval" where
  "cluster_version A v =
     res_bind (version_parts v) (\<lambda>(major, minor). construct (new_object A ''Version'') [(''major'', PInt major), (''minor'', PInt minor)])"

text \<open>\<open>if key in kwargs: x.set_member(f(kwargs[key]))\<close>.\<close>

definition set_by ::
  "(string, pyval) dict \<Rightarrow> string \<Rightarrow> string \<Rightarrow> (pyval \<Rightarrow> ('s, pyval) comp) \<Rightarrow> pyval \<Rightarrow> ('s, pyval) comp" where
  "set_by kw key member f x =
     (case map_of kw key of None \<Rightarrow> ret x | Some v \<Rightarrow> bindE (f v) (\<lambda>y. ret (setattr x member y)))"

text \<open>\<open>if kwargs.get(key): ...\<close>.\<close>

definition set_by_true ::
  "(string, pyval) dict \<Rightarrow> string \<Rightarrow> string \<Rightarrow> (pyval \<Rightarrow> ('s, pyval) comp) \<Rightarrow> pyval \<Rightarrow> ('s, pyval) comp" where
  "set_by_true kw key member f x =
     (if truthy (kwget kw key) then bindE (f (kwget kw key)) (\<lambda>y. ret (setattr x member y)) else ret x)"

definition scheduling_policy_object :: "'w apis \<Rightarrow> pyval \<Rightarrow> ('w rest_st, pyval) comp" where
  "scheduling_policy_object A n =
     bindE (get_scheduling_policy_id A n) (\<lambda>i. lift_res (construct (new_object A ''SchedulingPolicy'') [(''id'', i)]))"

definition prepareClusterObject ::
  "'w apis \<Rightarrow> (string, pyval) dict \<Rightarrow> (string, pyval) dict \<Rightarrow> ('w rest_st, pyval) comp" where
  "prepareClusterObject A properties kw =
     bindE (set_by_true kw ''management_network'' ''management_network''
              (\<lambda>n. find_network A n (kwget kw ''data_center'') PNone) (new_object A ''Cluster'')) (\<lambda>c1.
     bindE (set_by kw ''name'' ''name'' ret c1) (\<lambda>c2.
     bindE (set_by kw ''description'' ''description'' ret c2) (\<lambda>c3.
     bindE (set_by kw ''version'' ''version'' (\<lambda>v. lift_res (cluster_version A v)) c3) (\<lambda>c4.
     bindE (set_by kw ''cpu'' ''cpu'' (\<lambda>t. ret (setattr (new_object A ''Cpu'') ''type_'' t)) c4) (\<lambda>c5.
     bindE (set_by kw ''data_center'' ''data_center'' (find_by (DC_API A) ''name'') c5) (\<lambda>c6.
     bindE (set_by kw ''external_network_provider'' ''external_network_providers'' (external_providers A) c6) (\<lambda>c7.
     bindE (set_by kw ''gluster_support'' ''gluster_service'' ret c7) (\<lambda>c8.
     bindE (set_by kw ''virt_support'' ''virt_service'' ret c8) (\<lambda>c9.
     bindE (if map_of kw ''mem_ovrcmt_prc'' \<noteq> None \<or> map_of kw ''transparent_hugepages'' \<noteq> None
            then bindE (lift_res (memory_policy A kw)) (\<lambda>m. ret (setattr c9 ''memory_policy'' m)) else ret c9) (\<lambda>c10.
     bindE (set_by_true kw ''scheduling_policy'' ''scheduling_policy'' (scheduling_policy_object A) c10) (\<lambda>c11.
     let c12 = set_if (properties \<noteq> []) ''custom_scheduling_policy_properties'' (property_objects A properties) c11;
         c13 = set_some kw ''ballooning_enabled'' c12 in
     bindE (set_by kw ''on_error'' ''error_handling''
              (\<lambda>v. lift_res (construct (new_object A ''ErrorHandling'') [(''on_error'', v)])) c13) (\<lambda>c14.
     bindE (set_by kw ''ksm_enabled'' ''ksm''
              (\<lambda>v. lift_res (construct (new_object A ''Ksm'') [(''enabled'', v), (''merge_across_nodes'', kwget kw ''ksm_merge_across_nodes'')]))
              (set_some kw ''threads_as_cores'' c14)) (\<lambda>c15.
     bindE (set_by kw ''rng_sources'' ''required_rng_sources'' (\<lambda>v. lift_res (required_rng_sources A v)) c15) (\<lambda>c16.
     bindE (set_by kw ''ha_reservation'' ''ha_reservation'' ret c16) (\<lambda>c17.
     bindE (lift_res (migration_options A kw)) (\<lambda>m.
     ret (set_true kw ''mac_pool'' (setattr c17 ''migration'' m))))))))))))))))))"

section \<open>Clusters\<close>

definition addCluster :: "'w apis \<Rightarrow> bool \<Rightarrow> (string, pyval) dict \<Rightarrow> (string, pyval) dict \<Rightarrow> ('w rest_st, bool) comp" where
  "addCluster A positive properties kw =
     bindE (prepareClusterObject A properties kw) (\<lambda>cl. create_element (CL_API A) cl positive)"

definition updateCluster ::
  "'w apis \<Rightarrow> bool \<Rightarrow> string \<Rightarrow> (string, pyval) dict \<Rightarrow> (string, pyval) dict \<Rightarrow> ('w rest_st, bool) comp" where
  "updateCluster A positive cluster properties kw =
     (let compare = (case map_of kw ''compare'' of None \<Rightarrow> True | Some v \<Rightarrow> truthy v) in
      bindE (find_by (CL_API A) ''name'' (PStr cluster)) (\<lambda>old.
      bindE (prepareClusterObject A properties kw) (\<lambda>new.
      bindE (rest_update (CL_API A) old new positive (update_default\<lparr>ua_compare := compare\<rparr>)) (\<lambda>r. ret (snd r)))))"

definition removeCluster :: "'w apis \<Rightarrow> bool \<Rightarrow> string \<Rightarrow> ('w rest_st, bool) comp" where
  "removeCluster A positive cluster =
     bindE (find_by (CL_API A) ''name'' (PStr cluster)) (\<lambda>c. delete_element (CL_API A) c positive)"

definition searchForCluster ::
  "(string \<Rightarrow> pyval \<Rightarrow> exn + bool) \<Rightarrow> 'w apis \<Rightarrow> string \<Rightarrow> string \<Rightarrow> string \<Rightarrow> int option \<Rightarrow> bool \<Rightarrow> int option
   \<Rightarrow> ('w rest_st, bool) comp" where
  "searchForCluster M A = searchForObj M (CL_API A)"

text \<open>
  The scheduling properties are compared by name in a fixed order; \<open>properties_obj\<close> must be
  something a loop can run over, or TypeError is raised as soon as one of the names is asked for.
\<close>

definition property_mismatch :: "string \<Rightarrow> pyval \<Rightarrow> pyval \<Rightarrow> exn + bool" where
  "property_mismatch n expected p =
     res_bind (getattr p ''name'') (\<lambda>m.
     if py_eq m (PStr n) then res_bind (getattr_chain [''value'', ''datum''] p) (\<lambda>v. Inr (\<not> py_eq v expected)) else Inr False)"

fun properties_match :: "(string, pyval) dict \<Rightarrow> pyval \<Rightarrow> string list \<Rightarrow> exn + bool" where
  "properties_match properties ps [] = Inr True"
| "properties_match properties ps (n # ns) =
     res_bind (case map_of properties n of
                 None \<Rightarrow> Inr True
               | Some v \<Rightarrow> res_bind (py_iter ps) (\<lambda>l. res_bind (filter_res (property_mismatch n v) l) (\<lambda>wrong. Inr (wrong = []))))
       (\<lambda>ok. res_bind (properties_match properties ps ns) (\<lambda>ok'. Inr (ok \<and> ok')))"

definition cluster_param_names :: "string list" where
  "cluster_param_names = [''LowUtilization'', ''HighUtilization'', ''CpuOverCommitDurationMinutes'']"

definition cluster_matches :: "pyval \<Rightarrow> (string, pyval) dict \<Rightarrow> (string, pyval) dict \<Rightarrow> exn + bool" where
  "cluster_matches c properties kw =
     res_bind (getattr c ''scheduling_policy'') (\<lambda>sp.
     res_bind (if truthy (kwget kw ''scheduling_policy'')
               then res_bind (getattr sp ''name'') (\<lambda>n. Inr (py_eq n (kwget kw ''scheduling_policy''))) else Inr True) (\<lambda>b1.
     res_bind (if properties = [] then Inr True
               else res_bind (getattr sp ''properties'') (\<lambda>ps. properties_match properties ps cluster_param_names)) (\<lambda>b2.
     res_bind (if truthy (kwget kw ''over_commit'')
               then res_bind (getattr_chain [''memory_policy'', ''over_commit'', ''percent''] c)
                      (\<lambda>p. Inr (py_eq p (kwget kw ''over_commit''))) else Inr True) (\<lambda>b3.
     Inr (b1 \<and> b2 \<and> b3)))))"

definition check_cluster_params ::
  "'w apis \<Rightarrow> bool \<Rightarrow> string \<Rightarrow> (string, pyval) dict \<Rightarrow> (string, pyval) dict \<Rightarrow> ('w rest_st, bool) comp" where
  "check_cluster_params A positive cluster properties kw =
     bindE (find_by (CL_API A) ''name'' (PStr cluster)) (\<lambda>c.
     bindE (lift_res (cluster_matches c properties kw)) (\<lambda>status. ret (status = positive)))"

definition get_external_network_providers_objects :: "'w apis \<Rightarrow> pyval \<Rightarrow> ('w rest_st, pyval) comp" where
  "get_external_network_providers_objects A cluster_object = linked (CL_API A) cluster_object ''externalnetworkproviders'' ''external_provider''"

section \<open>Affinity groups\<close>

definition AFFINITY_API :: "'w apis \<Rightarrow> 'w rest_env" where "AFFINITY_API A = A ''affinity_group'' ''affinity_groups''"

record affinity_params =
  ap_hosts_rule :: "(string, pyval) dict"
  ap_vms_rule :: "(string, pyval) dict"
  ap_members :: "(string, pyval) dict"
  ap_rest :: "(string, pyval) dict"

definition affinity_rule :: "'w apis \<Rightarrow> string \<Rightarrow> (string, pyval) dict \<Rightarrow> exn + (string, pyval) dict" where
  "affinity_rule A rule params =
     (if params = [] then Inr [] else res_bind (construct (new_object A ''AffinityRule'') params) (\<lambda>x. Inr [(rule, x)]))"

text \<open>\<open>AFFINITY_GROUP_PARAMS\<close>: the API, the classes and the member of a collection of a group.\<close>

definition AFFINITY_GROUP_PARAMS :: "'w apis \<Rightarrow> string \<Rightarrow> 'w rest_env \<times> string \<times> string \<times> string" where
  "AFFINITY_GROUP_PARAMS A coll =
     (if coll = ''vms'' then (VM_API A, ''Vms'', ''Vm'', ''vm'') else (HOST_API A, ''Hosts'', ''Host'', ''host''))"

fun add_affinity_members ::
  "'w apis \<Rightarrow> 'w rest_env \<Rightarrow> string \<Rightarrow> string \<Rightarrow> pyval list \<Rightarrow> pyval \<Rightarrow> ('w rest_st, pyval) comp" where
  "add_affinity_members A E cls member [] x = ret x"
| "add_affinity_members A E cls member (n # ns) x =
     bindE (find_by E ''name'' n) (\<lambda>e.
     bindE (lift_res (getattr e ''id'')) (\<lambda>i.
     bindE (lift_res (construct (new_object A cls) [(''id'', i)])) (\<lambda>y.
     bindE (lift_res (add_member member y x)) (add_affinity_members A E cls member ns))))"

fun affinity_members ::
  "'w apis \<Rightarrow> (string, pyval) dict \<Rightarrow> string list \<Rightarrow> ('w rest_st, (string, pyval) dict) comp" where
  "affinity_members A members [] = ret []"
| "affinity_members A members (coll # rest) =
     (case map_of members coll of
        None \<Rightarrow> affinity_members A members rest
      | Some names \<Rightarrow>
          (case AFFINITY_GROUP_PARAMS A coll of (E, cls, elm_cls, member) \<Rightarrow>
           bindE (lift_res (py_iter names)) (\<lambda>ns.
           bindE (add_affinity_members A E elm_cls member ns (new_object A cls)) (\<lambda>x.
           bindE (affinity_members A members rest) (\<lambda>xs. ret ((coll, x) # xs))))))"

definition prepare_affinity_group_object :: "'w apis \<Rightarrow> affinity_params \<Rightarrow> ('w rest_st, pyval) comp" where
  "prepare_affinity_group_object A p =
     bindE (lift_res (affinity_rule A ''hosts_rule'' (ap_hosts_rule p))) (\<lambda>r1.
     bindE (lift_res (affinity_rule A ''vms_rule'' (ap_vms_rule p))) (\<lambda>r2.
     bindE (affinity_members A (ap_members p) (kw_order (CL_API A) [''vms'', ''hosts''])) (\<lambda>ms.
     lift_res (prepare_ds_object (new_object A) ''AffinityGroup'' (ap_rest p @ r1 @ r2 @ ms)))))"

text \<open>The loops below return the first element of the name, or None.\<close>

definition linked_named :: "'w rest_env \<Rightarrow> pyval \<Rightarrow> string \<Rightarrow> string \<Rightarrow> string \<Rightarrow> ('w rest_st, pyval) comp" where
  "linked_named E x link_name attr n =
     bindE (linked_list E x link_name attr) (\<lambda>l.
     bindE (lift_res (find_res (name_is (PStr n)) l)) (\<lambda>found. ret (opt_val found)))"

definition get_affinity_group_obj :: "'w apis \<Rightarrow> string \<Rightarrow> string \<Rightarrow> ('w rest_st, pyval) comp" where
  "get_affinity_group_obj A affinity_name cluster_name =
     bindE (get_cluster_object A cluster_name False) (\<lambda>c. linked_named (CL_API A) c ''affinitygroups'' ''affinity_group'' affinity_name)"

definition get_affinity_groups_obj :: "'w apis \<Rightarrow> string \<Rightarrow> ('w rest_st, pyval) comp" where
  "get_affinity_groups_obj A cluster_name =
     bindE (get_cluster_object A cluster_name False) (\<lambda>c. link_address (CL_API A) c ''affinitygroups'' [])"

text \<open>A keyword that no affinity group has makes both operations answer False.\<close>

definition group_or_none :: "'w apis \<Rightarrow> affinity_params \<Rightarrow> ('w rest_st, pyval option) comp" where
  "group_or_none A p =
     try_except (bindE (prepare_affinity_group_object A p) (\<lambda>g. ret (Some g))) (TestExc RHEVMEntityException) (\<lambda>_. ret None)"

definition create_affinity_group :: "'w apis \<Rightarrow> string \<Rightarrow> affinity_params \<Rightarrow> ('w rest_st, bool) comp" where
  "create_affinity_group A cluster_name p =
     bindE (get_affinity_groups_obj A cluster_name) (\<lambda>groups.
     bindE (group_or_none A p) (\<lambda>g.
     (case g of None \<Rightarrow> ret False | Some x \<Rightarrow> bindE (create_in (AFFINITY_API A) x True groups [] False) (\<lambda>r. ret (snd r)))))"

definition update_affinity_group :: "'w apis \<Rightarrow> string \<Rightarrow> string \<Rightarrow> affinity_params \<Rightarrow> ('w rest_st, bool) comp" where
  "update_affinity_group A cluster_name old_name p =
     bindE (get_affinity_group_obj A old_name cluster_name) (\<lambda>old.
     bindE (group_or_none A p) (\<lambda>g.
     (case g of None \<Rightarrow> ret False | Some x \<Rightarrow> update_element (AFFINITY_API A) old x True)))"

definition remove_affinity_group :: "'w apis \<Rightarrow> string \<Rightarrow> string \<Rightarrow> ('w rest_st, bool) comp" where
  "remove_affinity_group A affinity_name cluster_name =
     bindE (get_affinity_group_obj A affinity_name cluster_name) (\<lambda>g. delete_element (AFFINITY_API A) g True)"

definition vm_exists_under_affinity_group :: "'w apis \<Rightarrow> string \<Rightarrow> string \<Rightarrow> string \<Rightarrow> ('w rest_st, bool) comp" where
  "vm_exists_under_affinity_group A affinity_name cluster_name vm_name =
     bindE (find_by (VM_API A) ''name'' (PStr vm_name)) (\<lambda>v.
     bindE (lift_res (getattr v ''id'')) (\<lambda>i.
     bindE (get_affinity_group_obj A affinity_name cluster_name) (\<lambda>g.
     bindE (linked_list (AFFINITY_API A) g ''vms'' ''vm'') (\<lambda>vms.
     bindE (lift_res (find_res (id_is i) vms)) (\<lambda>found. ret (found \<noteq> None))))))"

section \<open>CPU profiles\<close>

definition CPU_PROFILE_API :: "'w apis \<Rightarrow> 'w rest_env" where "CPU_PROFILE_API A = A ''cpu_profile'' ''cpu_profiles''"

definition prepare_cpu_profile_object :: "'w apis \<Rightarrow> (string, pyval) dict \<Rightarrow> exn + pyval" where
  "prepare_cpu_profile_object A kw = prepare_ds_object (new_object A) ''CpuProfile'' kw"

definition get_cpu_profile_obj :: "'w apis \<Rightarrow> string \<Rightarrow> string \<Rightarrow> ('w rest_st, pyval) comp" where
  "get_cpu_profile_obj A cluster_name cpu_prof_name =
     bindE (get_cluster_object A cluster_name False) (\<lambda>c. linked_named (CL_API A) c ''cpuprofiles'' ''cpu_profile'' cpu_prof_name)"

definition add_cpu_profile :: "'w apis \<Rightarrow> string \<Rightarrow> (string, pyval) dict \<Rightarrow> ('w rest_st, bool) comp" where
  "add_cpu_profile A cluster_name kw =
     bindE (get_cluster_object A cluster_name False) (\<lambda>c.
     bindE (link_address (CL_API A) c ''cpuprofiles'' []) (\<lambda>profiles.
     bindE (try_except (bindE (lift_res (prepare_cpu_profile_object A kw)) (\<lambda>p. ret (Some p)))
              (TestExc RHEVMEntityException) (\<lambda>_. ret None)) (\<lambda>p.
     (case p of None \<Rightarrow> ret False
      | Some x \<Rightarrow> bindE (create_in (CPU_PROFILE_API A) x True profiles [] False) (\<lambda>r. ret (snd r))))))"

definition remove_cpu_profile :: "'w apis \<Rightarrow> string \<Rightarrow> string \<Rightarrow> ('w rest_st, bool) comp" where
  "remove_cpu_profile A cluster_name cpu_prof_name =
     bindE (get_cpu_profile_obj A cluster_name cpu_prof_name) (\<lambda>p.
     if \<not> truthy p then ret False else delete_element (CPU_PROFILE_API A) p True)"

definition get_cpu_profile_id_by_name :: "'w apis \<Rightarrow> string \<Rightarrow> string \<Rightarrow> ('w rest_st, pyval) comp" where
  "get_cpu_profile_id_by_name A cluster_name cpu_profile_name =
     bindE (get_cpu_profile_obj A cluster_name cpu_profile_name) (\<lambda>p. if truthy p then lift_res (getattr p ''id'') else ret PNone)"

section \<open>Reading\<close>

definition get_cluster_management_network :: "pyval \<Rightarrow> exn + pyval" where
  "get_cluster_management_network cluster = getattr cluster ''management_network''"

definition get_cluster_names_list :: "'w apis \<Rightarrow> ('w rest_st, pyval list) comp" where
  "get_cluster_names_list A =
     bindE (get_cluster_list A) (\<lambda>v.
     bindE (lift_res (py_iter v)) (\<lambda>cs. lift_res (map_res (\<lambda>c. getattr c ''name'') cs)))"

definition get_rng_sources_from_cluster :: "'w apis \<Rightarrow> string \<Rightarrow> ('w rest_st, pyval) comp" where
  "get_rng_sources_from_cluster A cluster_name =
     bindE (get_cluster_object A cluster_name False) (\<lambda>c.
     lift_res (getattr_chain [''required_rng_sources'', ''required_rng_source''] c))"

definition get_all_vm_pools_in_cluster :: "'w apis \<Rightarrow> string \<Rightarrow> ('w rest_st, pyval list) comp" where
  "get_all_vm_pools_in_cluster A cluster_name =
     bindE (get_all_vm_pools A) (\<lambda>v.
     bindE (get_cluster_object A cluster_name False) (\<lambda>c.
     bindE (lift_res (py_iter v)) (\<lambda>pools.
     bindE (lift_res (filter_res (\<lambda>p. res_bind (getattr_chain [''cluster'', ''id''] p) (\<lambda>i. res_bind (getattr c ''id'') (\<lambda>j. Inr (py_eq i j)))) pools))
       (\<lambda>l. lift_res (map_res (\<lambda>p. getattr p ''name'') l)))))"

definition get_cluster_cpu_level :: "'w apis \<Rightarrow> string \<Rightarrow> ('w rest_st, pyval) comp" where
  "get_cluster_cpu_level A cluster_name =
     bindE (get_cluster_object A cluster_name False) (\<lambda>c. lift_res (getattr_chain [''cpu'', ''type_''] c))"

definition set_cluster_cpu_level :: "'w apis \<Rightarrow> string \<Rightarrow> pyval \<Rightarrow> ('w rest_st, bool) comp" where
  "set_cluster_cpu_level A cluster_name level =
     bindE (get_cluster_cpu_level A cluster_name) (\<lambda>l.
     if py_eq level l then ret True
     else
       bindE (updateCluster A True cluster_name [] [(''cpu'', level)]) (\<lambda>ok.
       if \<not> ok then ret False
       else bindE (get_cluster_cpu_level A cluster_name) (\<lambda>l'. ret (py_eq level l'))))"

definition get_cluster_data_center_name :: "'w apis \<Rightarrow> string \<Rightarrow> ('w rest_st, pyval) comp" where
  "get_cluster_data_center_name A cluster_name =
     bindE (get_cluster_object A cluster_name False) (\<lambda>c.
     bindE (lift_res (getattr_chain [''data_center'', ''id''] c)) (\<lambda>i.
     bindE (get_data_center A i ''id'') (\<lambda>d. lift_res (getattr d ''name''))))"

section \<open>What an update sends\<close>

lemma getattr_opt_setattr [simp]:
  "a \<noteq> b \<Longrightarrow> getattr_opt (setattr x b v) a = getattr_opt x a"
  "getattr_opt (setattr (PObj c as) b v) b = Some v"
  by (cases x) simp_all

lemma set_frame [simp]:
  "a = b \<longrightarrow> map_of kw b = None \<Longrightarrow> getattr_opt (set_some kw b x) a = getattr_opt x a"
  "a = b \<longrightarrow> map_of kw b = None \<Longrightarrow> getattr_opt (set_true kw b x) a = getattr_opt x a"
  "a = b \<longrightarrow> \<not> p \<Longrightarrow> getattr_opt (set_if p b v x) a = getattr_opt x a"
  by (auto simp: set_some_def set_true_def set_if_def kwget_def)

text \<open>\<open>yields P m\<close>: what the computation returns, when it returns, satisfies \<open>P\<close>.\<close>

definition yields :: "('a \<Rightarrow> bool) \<Rightarrow> ('s, 'a) comp \<Rightarrow> bool" where
  "yields P m \<longleftrightarrow> (\<forall>s x s'. m s = (Inr x, s') \<longrightarrow> P x)"

lemma yieldsD: "yields P m \<Longrightarrow> m s = (Inr x, s') \<Longrightarrow> P x"
  unfolding yields_def by blast

lemma yields_ret [simp]: "yields P (ret x) \<longleftrightarrow> P x"
  by (simp add: yields_def ret_def)

lemma yields_bindE: "yields Q m \<Longrightarrow> (\<And>x. Q x \<Longrightarrow> yields P (f x)) \<Longrightarrow> yields P (bindE m f)"
  unfolding yields_def by (fastforce elim!: bindE_InrE)

lemma yields_bindE_any: "(\<And>x. yields P (f x)) \<Longrightarrow> yields P (bindE m f)"
  by (rule yields_bindE [of "\<lambda>_. True"]) (simp_all add: yields_def)

lemma yields_if:
  "(b \<Longrightarrow> yields P m) \<Longrightarrow> (\<not> b \<Longrightarrow> yields P n) \<Longrightarrow> yields P (if b then m else n)"
  by simp

text \<open>Setting members keeps the member \<open>a\<close> as it is.\<close>

abbreviation member_is :: "string \<Rightarrow> pyval option \<Rightarrow> pyval \<Rightarrow> bool" where
  "member_is a g x \<equiv> getattr_opt x a = g"

lemma yields_set_by:
  assumes "member_is a g x" and "a = member \<longrightarrow> map_of kw key = None"
  shows "yields (member_is a g) (set_by kw key member f x)" "yields (member_is a g) (set_by_true kw key member f x)"
  using assms by (auto simp: set_by_def set_by_true_def kwget_def split: option.splits intro!: yields_bindE_any)

text \<open>The member of the cluster that each keyword sets.\<close>

definition cluster_keywords :: "(string \<times> string) list" where
  "cluster_keywords =
     [(''management_network'', ''management_network''), (''name'', ''name''), (''description'', ''description''), (''version'', ''version''),
      (''cpu'', ''cpu''), (''data_center'', ''data_center''), (''external_network_provider'', ''external_network_providers''),
      (''gluster_support'', ''gluster_service''), (''virt_support'', ''virt_service''), (''mem_ovrcmt_prc'', ''memory_policy''),
      (''transparent_hugepages'', ''memory_policy''), (''scheduling_policy'', ''scheduling_policy''),
      (''ballooning_enabled'', ''ballooning_enabled''), (''on_error'', ''error_handling''), (''ksm_enabled'', ''ksm''),
      (''threads_as_cores'', ''threads_as_cores''), (''rng_sources'', ''required_rng_sources''), (''ha_reservation'', ''ha_reservation''),
      (''mac_pool'', ''mac_pool'')]"


text \<open>
  An update of a cluster sends no more than it was asked for, with one exception: a member that
  no given keyword sets is the one of a fresh object, but the migration options are always sent,
  so an update that does not mention migration resets its policy.
\<close>

theorem cluster_update_frame:
  assumes "prepareClusterObject A properties kw s = (Inr c, s')"
    and "a \<noteq> ''migration''" and "a = ''custom_scheduling_policy_properties'' \<Longrightarrow> properties = []"
    and "\<And>k m. (k, m) \<in> set cluster_keywords \<Longrightarrow> m = a \<Longrightarrow> map_of kw k = None"
  shows "getattr_opt c a = getattr_opt (new_object A ''Cluster'') a"
proof -
  let ?g = "getattr_opt (new_object A ''Cluster'') a"
  have kw: "a = m \<longrightarrow> map_of kw k = None" if "(k, m) \<in> set cluster_keywords" for k m
    using assms(4) that by blast
  have same: "yields (member_is a ?g) m \<Longrightarrow> (\<And>x. member_is a ?g x \<Longrightarrow> yields (member_is a ?g) (f x)) \<Longrightarrow>
    yields (member_is a ?g) (bindE m f)" for m :: "('w rest_st, pyval) comp" and f
    by (rule yields_bindE)
  have last: "(\<And>m. member_is a ?g (h m)) \<Longrightarrow> yields (member_is a ?g) (bindE (lift_res r) (\<lambda>m. ret (h m)))"
    for r and h :: "pyval \<Rightarrow> pyval"
    by (rule yields_bindE_any) simp
  have mem: "a \<noteq> ''memory_policy''" if "map_of kw ''mem_ovrcmt_prc'' \<noteq> None \<or> map_of kw ''transparent_hugepages'' \<noteq> None"
    using kw [of "''mem_ovrcmt_prc''"] kw [of "''transparent_hugepages''"] that by (auto simp: cluster_keywords_def)
  have "yields (member_is a ?g) (prepareClusterObject A properties kw)"
    unfolding prepareClusterObject_def Let_def
    by (rule last | rule same | rule yields_set_by | rule yields_if | frule mem, simp | simp add: assms(2,3) kw cluster_keywords_def)+
  from yieldsD [OF this assms(1)] show ?thesis .
qed

section \<open>The CPU level\<close>

text \<open>
  \<open>set_cluster_cpu_level\<close> answers True only when its last look at the cluster, after any update,
  showed the level; it answers False only when the update was refused or that look showed another.
\<close>

theorem set_cluster_cpu_level_verdict:
  assumes "set_cluster_cpu_level A n level s = (Inr b, s')"
  shows "if b then \<exists>v c l. get_cluster_object A n False v = (Inr c, s') \<and> getattr_chain [''cpu'', ''type_''] c = Inr l \<and> py_eq level l
    else (\<exists>v. updateCluster A True n [] [(''cpu'', level)] v = (Inr False, s')) \<or>
      (\<exists>v c l. get_cluster_object A n False v = (Inr c, s') \<and> getattr_chain [''cpu'', ''type_''] c = Inr l \<and> \<not> py_eq level l)"
proof -
  have look: "\<exists>c. get_cluster_object A n False v = (Inr c, v') \<and> getattr_chain [''cpu'', ''type_''] c = Inr l"
    if "get_cluster_cpu_level A n v = (Inr l, v')" for v l v'
    using that unfolding get_cluster_cpu_level_def by (auto simp: lift_res_def simp del: getattr_chain.simps elim!: bindE_InrE)
  from assms show ?thesis
    unfolding set_cluster_cpu_level_def
    by (auto simp: ret_def simp del: getattr_chain.simps split: if_splits elim!: bindE_InrE dest!: look) blast+
qed

section \<open>Witnesses\<close>

definition demo_cluster :: pyval where
  "demo_cluster = PObj ''Cluster'' [(''name'', PStr ''cl''), (''href'', PStr ''/api/clusters/cl''), (''cpu'', PObj ''Cpu'' [(''type_'', PStr ''Intel'')])]"

definition cluster_apis :: "nat apis" where
  "cluster_apis el col = demo_rest\<lparr>srv := net_srv, element_name := el, collection_name := col, links := [(col, ''/api/'' @ col)],
     run_validate := False,
     new_ds := (\<lambda>c. PObj c (map (\<lambda>k. (k, PNone)) [''name'', ''description'', ''cpu'', ''policy'', ''migration''])),
     parse := (\<lambda>s. Inr (PObj [] [(el, PList [demo_cluster])]))\<rparr>"

lemma demo_prepare_cluster: "fst (prepareClusterObject cluster_apis [] [(''cpu'', PStr ''AMD'')] demo_rest_st) =
    Inr (PObj ''Cluster'' [(''name'', PNone), (''description'', PNone), (''cpu'', PObj ''Cpu'' [(''name'', PNone), (''description'', PNone), (''cpu'', PNone), (''policy'', PNone), (''migration'', PNone), (''type_'', PStr ''AMD'')]), (''policy'', PNone),
      (''migration'', PObj ''MigrationOptions'' [(''name'', PNone), (''description'', PNone), (''cpu'', PNone),
         (''policy'', PObj ''MigrationPolicy'' [(''name'', PNone), (''description'', PNone), (''cpu'', PNone), (''policy'', PNone), (''migration'', PNone)]), (''migration'', PNone)])])"
  by code_simp

theorem cluster_update_frame_witness:
  "\<exists>c s'. prepareClusterObject cluster_apis [] [(''cpu'', PStr ''AMD'')] demo_rest_st = (Inr c, s') \<and> getattr_opt c ''name'' = Some PNone"
proof -
  obtain c s' where c: "prepareClusterObject cluster_apis [] [(''cpu'', PStr ''AMD'')] demo_rest_st = (Inr c, s')"
    using demo_prepare_cluster by (metis prod.collapse)
  have "getattr_opt c ''name'' = getattr_opt (new_object cluster_apis ''Cluster'') ''name''"
    by (rule cluster_update_frame [OF c]) (auto simp: cluster_keywords_def)
  with c show ?thesis by (auto simp: new_object_def NET_API_def cluster_apis_def)
qed

lemma demo_cpu_level: "fst (set_cluster_cpu_level cluster_apis ''cl'' (PStr ''Intel'') demo_rest_st) = Inr True"
  by code_simp

theorem set_cluster_cpu_level_verdict_witness:
  "\<exists>s' v c l. get_cluster_object cluster_apis ''cl'' False v = (Inr c, s') \<and> getattr_chain [''cpu'', ''type_''] c = Inr l \<and> py_eq (PStr ''Intel'') l"
proof -
  obtain s' where "set_cluster_cpu_level cluster_apis ''cl'' (PStr ''Intel'') demo_rest_st = (Inr True, s')"
    using demo_cpu_level by (metis prod.collapse)
  from set_cluster_cpu_level_verdict [OF this] show ?thesis unfolding if_True by blast
qed

end
