(* ===== verification/Users.thy ===== *)
theory Users
  imports Vm_Pools Vnic_Profiles
begin

text \<open>
  \<open>users.py\<close> and \<open>mla.py\<close> of \<open>art/rhevm_api/tests_lib/low_level\<close>: users, groups, roles and the
  permissions that users and groups have on objects.
\<close>

definition USER_API :: "'w apis \<Rightarrow> 'w rest_env" where "USER_API A = A ''user'' ''users''"
definition DOMAIN_API :: "'w apis \<Rightarrow> 'w rest_env" where "DOMAIN_API A = A ''domain'' ''domains''"
definition ROLE_API :: "'w apis \<Rightarrow> 'w rest_env" where "ROLE_API A = A ''role'' ''roles''"
definition TAG_API :: "'w apis \<Rightarrow> 'w rest_env" where "TAG_API A = A ''tag'' ''tags''"
definition GROUP_API :: "'w apis \<Rightarrow> 'w rest_env" where "GROUP_API A = A ''group'' ''groups''"
definition PERMISSION_API :: "'w apis \<Rightarrow> 'w rest_env" where "PERMISSION_API A = A ''permission'' ''permissions''"
definition SSH_PUBLIC_KEYS_API :: "'w apis \<Rightarrow> 'w rest_env" where "SSH_PUBLIC_KEYS_API A = A ''ssh_public_key'' ''sshpublickeys''"

section \<open>Users and groups\<close>

definition domain_object :: "'w apis \<Rightarrow> pyval \<Rightarrow> exn + pyval" where
  "domain_object A n = construct (new_object A ''Domain'') [(''name'', n)]"

definition user_object :: "'w apis \<Rightarrow> pyval \<Rightarrow> pyval \<Rightarrow> pyval \<Rightarrow> pyval \<Rightarrow> exn + pyval" where
  "user_object A user_name domain namespace upn =
     res_bind (domain_object A domain) (\<lambda>d.
     construct (new_object A ''User'') [(''domain'', d), (''user_name'', user_name), (''namespace'', namespace), (''principal'', upn)])"

text \<open>\<open>user_name + "@" + domain\<close> of two strings.\<close>

definition at_domain :: "pyval \<Rightarrow> pyval \<Rightarrow> exn + pyval" where
  "at_domain u d = (case (u, d) of (PStr a, PStr b) \<Rightarrow> Inr (PStr (a @ ''@'' @ b)) | _ \<Rightarrow> Inl TypeError)"

definition addUser :: "'w apis \<Rightarrow> bool \<Rightarrow> (string, pyval) dict \<Rightarrow> ('w rest_st, bool) comp" where
  "addUser A positive kw =
     bindE (lift_res (dict_pop kw ''domain'')) (\<lambda>(domain, kw1).
     bindE (lift_res (dict_pop kw1 ''user_name'')) (\<lambda>(user_name, kw2).
     bindE (lift_res (domain_object A domain)) (\<lambda>_.
     bindE (lift_res (at_domain user_name domain)) (\<lambda>n.
     bindE (lift_res (user_object A n domain (kwget kw2 ''namespace'') (kwget kw2 ''principal''))) (\<lambda>u.
     create_element (USER_API A) u positive)))))"

definition addExternalUser :: "'w apis \<Rightarrow> bool \<Rightarrow> pyval \<Rightarrow> pyval \<Rightarrow> pyval \<Rightarrow> pyval \<Rightarrow> ('w rest_st, bool) comp" where
  "addExternalUser A positive user_name domain namespace upn =
     bindE (lift_res (user_object A user_name domain namespace upn)) (\<lambda>u.
     bindE (rest_create (USER_API A) u positive (create_default\<lparr>ca_compare := False\<rparr>)) (\<lambda>r. ret (snd r)))"

definition addRoleToUser :: "'w apis \<Rightarrow> bool \<Rightarrow> string \<Rightarrow> string \<Rightarrow> ('w rest_st, bool) comp" where
  "addRoleToUser A positive user role =
     bindE (find_by (USER_API A) ''name'' (PStr user)) (\<lambda>u.
     bindE (find_by (ROLE_API A) ''name'' (PStr role)) (\<lambda>r.
     create_element (PERMISSION_API A) (setattr (setattr (new_object A ''Permission'') ''role'' r) ''user'' u) positive))"

definition user_query :: "'w apis \<Rightarrow> string \<Rightarrow> ('w rest_st, pyval) comp" where
  "user_query A user_name = query_with (USER_API A) (''usrname='' @ user_name) []"

definition in_namespace :: "string \<Rightarrow> pyval \<Rightarrow> exn + bool" where
  "in_namespace namespace u =
     res_bind (getattr u ''namespace'') (\<lambda>n. res_bind (lower_of n) (\<lambda>l. Inr (l = lower namespace)))"

text \<open>
  The user to remove: with a domain the first match of the query, in the namespace if one is
  given. Nothing found is \<open>None\<close>; no user in the namespace leaves the value None to be deleted.
\<close>

definition user_to_remove :: "'w apis \<Rightarrow> string \<Rightarrow> string option \<Rightarrow> string option \<Rightarrow> ('w rest_st, pyval option) comp" where
  "user_to_remove A user domain namespace =
     (case domain of
        None \<Rightarrow> bindE (find_by (USER_API A) ''name'' (PStr user)) (\<lambda>u. ret (Some u))
      | Some d \<Rightarrow>
          bindE (user_query A (user @ ''@'' @ d)) (\<lambda>v.
          bindE (lift_res (sized v)) (\<lambda>us.
          (case us of
             None \<Rightarrow> raise TypeError
           | Some [] \<Rightarrow> ret None
           | Some (u # l) \<Rightarrow>
               (case namespace of
                  None \<Rightarrow> ret (Some u)
                | Some n \<Rightarrow>
                    bindE (lift_res (filter_res (in_namespace n) (u # l))) (\<lambda>found.
                    ret (Some (case found of [] \<Rightarrow> PNone | x # _ \<Rightarrow> x))))))))"

definition removeUser :: "'w apis \<Rightarrow> bool \<Rightarrow> string \<Rightarrow> string option \<Rightarrow> string option \<Rightarrow> ('w rest_st, bool) comp" where
  "removeUser A positive user domain namespace =
     bindE (user_to_remove A user domain namespace) (\<lambda>found.
     (case found of None \<Rightarrow> ret (\<not> positive) | Some u \<Rightarrow> delete_element (USER_API A) u positive))"

definition addTagToUser :: "'w apis \<Rightarrow> bool \<Rightarrow> string \<Rightarrow> pyval \<Rightarrow> ('w rest_st, bool) comp" where
  "addTagToUser A positive user tag =
     bindE (find_by (USER_API A) ''name'' (PStr user)) (\<lambda>u.
     bindE (link_address (USER_API A) u ''tags'' ''tag'') (\<lambda>tags.
     bindE (lift_res (construct (new_object A ''Tag'') [(''name'', tag)])) (\<lambda>t.
     bindE (create_in (TAG_API A) t positive tags [] False) (\<lambda>r. ret (snd r)))))"

definition verifyADUserProperties :: "'w apis \<Rightarrow> string \<Rightarrow> string \<Rightarrow> pyval \<Rightarrow> pyval \<Rightarrow> ('w rest_st, bool) comp" where
  "verifyADUserProperties A domain user expected_username expected_department =
     bindE (find_by (DOMAIN_API A) ''name'' (PStr domain)) (\<lambda>d.
     bindE (rest_getElemFromElemColl (USER_API A) d (PStr user) [] [] ''name'' False) (\<lambda>found.
     bindE (lift_res (construct (new_object A ''User'') [(''user_name'', expected_username), (''department'', expected_department)])) (\<lambda>u.
     lift_res (compareElements (compare_env (USER_API A)) [] u found True))))"

definition search_user :: "'w apis \<Rightarrow> string \<Rightarrow> string \<Rightarrow> string \<Rightarrow> ('w rest_st, pyval) comp" where
  "search_user A authz key v =
     (let D = DOMAIN_API A in
     bindE (lift_res (dict_getitem (links D) (collection_name D))) (\<lambda>href.
     bindE (find_by D ''name'' (PStr authz)) (\<lambda>d.
     bindE (lift_res (getattr d ''id'')) (\<lambda>i.
     bindE (rest_query (USER_API A) (key @ ''='' @ v)
              \<lparr>qa_expected_status = [], qa_href = href @ ''/'' @ py_str i @ ''/users?search={query}'', qa_event_id = [], qa_all_content = False,
               qa_params = []\<rparr>) (\<lambda>us.
     if \<not> truthy us then ret PNone
     else bindE (lift_res (py_iter us)) (\<lambda>l. ret (hd l)))))))"

definition groupExists :: "'w apis \<Rightarrow> string \<Rightarrow> ('w rest_st, bool) comp" where
  "groupExists A group_name = bindE (find_by (GROUP_API A) ''name'' (PStr group_name)) (\<lambda>_. ret True)"

definition addGroup :: "'w apis \<Rightarrow> bool \<Rightarrow> pyval \<Rightarrow> pyval \<Rightarrow> pyval \<Rightarrow> ('w rest_st, bool) comp" where
  "addGroup A positive group_name domain namespace =
     bindE (lift_res (if truthy domain then domain_object A domain else Inr domain)) (\<lambda>d.
     bindE (lift_res (construct (new_object A ''Group'') [(''name'', group_name), (''domain'', d), (''namespace'', namespace)])) (\<lambda>g.
     create_element (GROUP_API A) g positive))"

definition deleteGroup :: "'w apis \<Rightarrow> bool \<Rightarrow> string \<Rightarrow> ('w rest_st, bool) comp" where
  "deleteGroup A positive group_name =
     bindE (find_by (GROUP_API A) ''name'' (PStr group_name)) (\<lambda>g. delete_element (GROUP_API A) g positive)"

text \<open>
  The next request of any API logs in as the user: the cached objects are dropped and the
  connection in the configuration is changed in place.
\<close>

definition set_connection :: "(string \<times> conf) list \<Rightarrow> conf \<Rightarrow> exn + conf" where
  "set_connection vs c =
     (case c of
        Node d \<Rightarrow>
          res_bind (dict_getitem d ''REST_CONNECTION'') (\<lambda>conn.
          (case conn of Node r \<Rightarrow> Inr (Node (dict_set d ''REST_CONNECTION'' (Node (dict_update r vs)))) | _ \<Rightarrow> Inl TypeError))
      | _ \<Rightarrow> Inl TypeError)"

definition loginAsUser ::
  "('w, unit) comp \<Rightarrow> pyval \<Rightarrow> pyval \<Rightarrow> pyval \<Rightarrow> pyval \<Rightarrow> (('w, 'a) get_api_st, unit) comp" where
  "loginAsUser rest_logout user domain pwd only_user =
     bindE (logoff_api rest_logout) (\<lambda>_.
     bindE (gets (\<lambda>s. set_connection
              [(''filter'', Leaf only_user), (''user'', Leaf user), (''user_domain'', Leaf domain), (''password'', Leaf pwd)]
              (ART_CONFIG (run_settings s)))) (\<lambda>r.
     bindE (lift_res r) (\<lambda>c. modify (\<lambda>s. s\<lparr>run_settings := (run_settings s)\<lparr>ART_CONFIG := c\<rparr>\<rparr>))))"

definition get_user_obj :: "'w apis \<Rightarrow> string \<Rightarrow> ('w rest_st, pyval) comp" where
  "get_user_obj A user_name = find_by (USER_API A) ''name'' (PStr user_name)"

definition get_ssh_private_keys :: "'w apis \<Rightarrow> string \<Rightarrow> ('w rest_st, pyval) comp" where
  "get_ssh_private_keys A user_name = bindE (get_user_obj A user_name) (\<lambda>u. linked (SSH_PUBLIC_KEYS_API A) u [] [])"

definition del_ssh_private_key :: "'w apis \<Rightarrow> pyval \<Rightarrow> ('w rest_st, bool) comp" where
  "del_ssh_private_key A ssh_obj = delete_element (SSH_PUBLIC_KEYS_API A) ssh_obj True"

definition set_ssh_private_key :: "'w apis \<Rightarrow> string \<Rightarrow> pyval \<Rightarrow> ('w rest_st, pyval \<times> bool) comp" where
  "set_ssh_private_key A user_name key =
     bindE (get_user_obj A user_name) (\<lambda>u.
     bindE (link_address (SSH_PUBLIC_KEYS_API A) u [] []) (\<lambda>c.
     bindE (lift_res (construct (new_object A ''SshPublicKey'') [(''content'', key)])) (\<lambda>k.
     create_in (SSH_PUBLIC_KEYS_API A) k True c [] True)))"

definition get_user_id :: "'w apis \<Rightarrow> string \<Rightarrow> ('w rest_st, pyval) comp" where
  "get_user_id A user_name = bindE (find_by (USER_API A) ''name'' (PStr user_name)) (\<lambda>u. lift_res (getattr u ''id''))"

end
