(* ===== verification/Permissions.thy ===== *)
theory Permissions
  imports Users "HOL-Library.Multiset"
begin

text \<open>
  \<open>art/rhevm_api/tests_lib/low_level/mla.py\<close>: roles with their permits, and the permissions of
  users and groups on objects. The permits that the configuration lists are a parameter.
\<close>

definition PERMIT_API :: "'w apis \<Rightarrow> 'w rest_env" where "PERMIT_API A = A ''cluster_level'' ''clusterlevels''"
definition DISK_API :: "'w apis \<Rightarrow> 'w rest_env" where "DISK_API A = A ''disk'' ''disks''"

section \<open>Permits\<close>

definition getPermits :: "'w apis \<Rightarrow> ('w rest_st, pyval) comp" where
  "getPermits A =
     bindE (try_except
              (bindE (get_all (PERMIT_API A)) (\<lambda>v.
               (case v of PList [] \<Rightarrow> raise IndexError | PList (x # _) \<Rightarrow> ret x | _ \<Rightarrow> ret v)))
              KeyError (\<lambda>_. raise EntityNotFound)) (\<lambda>caps.
     lift_res (getattr_chain [''permits'', ''permit''] caps))"

text \<open>One pass over the permits takes each off the list of expected names.\<close>

fun take_permits :: "pyval list \<Rightarrow> pyval list \<Rightarrow> bool \<Rightarrow> bool \<times> pyval list" where
  "take_permits [] expected status = (status, expected)"
| "take_permits (n # ns) expected status =
     (if n \<in> set expected then take_permits ns (remove1 n expected) status else take_permits ns expected False)"

definition check_system_permits :: "'w apis \<Rightarrow> pyval list \<Rightarrow> ('w rest_st, bool) comp" where
  "check_system_permits A conf_permits =
     bindE (getPermits A) (\<lambda>v.
     bindE (lift_res (py_iter v)) (\<lambda>ps.
     bindE (lift_res (map_res (\<lambda>p. getattr p ''name'') ps)) (\<lambda>ns.
     (case take_permits ns conf_permits True of (status, rest) \<Rightarrow> ret (status \<and> rest = [])))))"

section \<open>Roles\<close>

text \<open>\<open>permitUtil.find(permit, collection=getPermits())\<close>.\<close>

definition find_permit :: "'w apis \<Rightarrow> pyval \<Rightarrow> ('w rest_st, pyval) comp" where
  "find_permit A n = bindE (getPermits A) (\<lambda>c. rest_find (PERMIT_API A) n ''name'' True c False [])"

fun add_permits :: "'w apis \<Rightarrow> string list \<Rightarrow> pyval \<Rightarrow> ('w rest_st, pyval) comp" where
  "add_permits A [] x = ret x"
| "add_permits A (n # ns) x =
     bindE (find_permit A (PStr n)) (\<lambda>p. bindE (lift_res (add_member ''permit'' p x)) (add_permits A ns))"

definition prepareRoleObject :: "'w apis \<Rightarrow> (string, pyval) dict \<Rightarrow> ('w rest_st, pyval) comp" where
  "prepareRoleObject A kw =
     (let r1 = set_true kw ''name'' (new_object A ''Role''); permits = kwget kw ''permits'' in
     bindE (if truthy permits then
              (case permits of
                 PStr s \<Rightarrow> bindE (add_permits A (split s) (new_object A ''Permits'')) (\<lambda>ps. ret (setattr r1 ''permits'' ps))
               | _ \<Rightarrow> raise AttributeError)
            else ret r1) (\<lambda>r2.
     ret (set_true kw ''administrative'' r2)))"

definition addRole :: "'w apis \<Rightarrow> bool \<Rightarrow> pyval \<Rightarrow> (string, pyval) dict \<Rightarrow> ('w rest_st, bool) comp" where
  "addRole A positive administrative kw =
     bindE (prepareRoleObject A (dict_set kw ''administrative'' administrative)) (\<lambda>r. create_element (ROLE_API A) r positive)"

definition updateRole :: "'w apis \<Rightarrow> bool \<Rightarrow> string \<Rightarrow> (string, pyval) dict \<Rightarrow> ('w rest_st, bool) comp" where
  "updateRole A positive role kw =
     bindE (find_by (ROLE_API A) ''name'' (PStr role)) (\<lambda>old.
     bindE (prepareRoleObject A kw) (\<lambda>new. update_element (ROLE_API A) old new positive))"

definition add_permission_to_role :: "'w apis \<Rightarrow> bool \<Rightarrow> string \<Rightarrow> string \<Rightarrow> ('w rest_st, bool) comp" where
  "add_permission_to_role A positive permission role =
     bindE (find_by (ROLE_API A) ''name'' (PStr role)) (\<lambda>r.
     bindE (find_permit A (PStr permission)) (\<lambda>p.
     bindE (link_address (ROLE_API A) r ''permits'' ''permit'') (\<lambda>c.
     bindE (lift_res (getattr p ''id'')) (\<lambda>i.
     bindE (lift_res (if truthy c then as_string c else Inr [])) (\<lambda>href.
     bindE (rest_create (PERMIT_API A) (setattr (new_object A ''Permit'') ''id'' i) positive
              (create_default\<lparr>ca_collection := href, ca_coll_elm_name := ''permit'', ca_expected_entity := Some p\<rparr>)) (\<lambda>x. ret (snd x)))))))"

definition removeRole :: "'w apis \<Rightarrow> bool \<Rightarrow> string \<Rightarrow> ('w rest_st, bool) comp" where
  "removeRole A positive role = bindE (find_by (ROLE_API A) ''name'' (PStr role)) (\<lambda>r. delete_element (ROLE_API A) r positive)"

section \<open>Giving permissions\<close>

text \<open>The log message of an operation on an object needs its name.\<close>

definition named_for_log :: "pyval \<Rightarrow> ('s, pyval) comp" where
  "named_for_log x = lift_res (getattr x ''name'')"

text \<open>The first user of the name at the domain; without one IndexError, or TypeError for a failed query.\<close>

definition first_of :: "pyval \<Rightarrow> exn + pyval" where
  "first_of v = (case v of PList [] \<Rightarrow> Inl IndexError | PList (x # _) \<Rightarrow> Inr x | _ \<Rightarrow> Inl TypeError)"

definition permit_holder :: "'w apis \<Rightarrow> string \<Rightarrow> string option \<Rightarrow> ('w rest_st, pyval) comp" where
  "permit_holder A user domain =
     (case domain of
        Some d \<Rightarrow> bindE (user_query A (user @ ''@'' @ d)) (\<lambda>v. lift_res (first_of v))
      | None \<Rightarrow> find_by (USER_API A) ''name'' (PStr user))"

definition give_permission :: "'w apis \<Rightarrow> bool \<Rightarrow> pyval \<Rightarrow> pyval \<Rightarrow> ('w rest_st, bool) comp" where
  "give_permission A positive permit owner =
     bindE (link_address (PERMISSION_API A) owner [] []) (\<lambda>c.
     bindE (create_in (PERMISSION_API A) permit positive c [] False) (\<lambda>r. ret (snd r)))"

definition addPermitsToUser ::
  "'w apis \<Rightarrow> bool \<Rightarrow> string \<Rightarrow> string option \<Rightarrow> string \<Rightarrow> pyval \<Rightarrow> string \<Rightarrow> ('w rest_st, bool) comp" where
  "addPermitsToUser A positive user domain role obj attr =
     bindE (named_for_log obj) (\<lambda>_.
     bindE (permit_holder A user domain) (\<lambda>u.
     bindE (find_by (ROLE_API A) ''name'' (PStr role)) (\<lambda>r.
     give_permission A positive (setattr (setattr (new_object A ''Permission'') ''role'' r) attr obj) u)))"

definition addPermitsToGroup :: "'w apis \<Rightarrow> bool \<Rightarrow> string \<Rightarrow> string \<Rightarrow> pyval \<Rightarrow> string \<Rightarrow> ('w rest_st, bool) comp" where
  "addPermitsToGroup A positive grp role obj attr =
     bindE (find_by (GROUP_API A) ''name'' (PStr grp)) (\<lambda>g.
     bindE (find_by (ROLE_API A) ''name'' (PStr role)) (\<lambda>r.
     give_permission A positive (setattr (setattr (new_object A ''Permission'') ''role'' r) attr obj) g))"

definition permits_to_user_on ::
  "'w rest_env \<Rightarrow> string \<Rightarrow> 'w apis \<Rightarrow> bool \<Rightarrow> string \<Rightarrow> string \<Rightarrow> string \<Rightarrow> string option \<Rightarrow> ('w rest_st, bool) comp" where
  "permits_to_user_on E attr A positive user n role domain =
     bindE (find_by E ''name'' (PStr n)) (\<lambda>x. addPermitsToUser A positive user domain role x attr)"

definition addVMPermissionsToUser :: "'w apis \<Rightarrow> bool \<Rightarrow> string \<Rightarrow> string \<Rightarrow> string \<Rightarrow> string option \<Rightarrow> ('w rest_st, bool) comp" where
  "addVMPermissionsToUser A = permits_to_user_on (VM_API A) ''vm'' A"

definition addStoragePermissionsToUser :: "'w apis \<Rightarrow> bool \<Rightarrow> string \<Rightarrow> string \<Rightarrow> string \<Rightarrow> string option \<Rightarrow> ('w rest_st, bool) comp" where
  "addStoragePermissionsToUser A = permits_to_user_on (STORAGE_API A) ''storage_domain'' A"

definition addClusterPermissionsToUser :: "'w apis \<Rightarrow> bool \<Rightarrow> string \<Rightarrow> string \<Rightarrow> string \<Rightarrow> string option \<Rightarrow> ('w rest_st, bool) comp" where
  "addClusterPermissionsToUser A = permits_to_user_on (CL_API A) ''cluster'' A"

definition addVmPoolPermissionToUser :: "'w apis \<Rightarrow> bool \<Rightarrow> string \<Rightarrow> string \<Rightarrow> string \<Rightarrow> string option \<Rightarrow> ('w rest_st, bool) comp" where
  "addVmPoolPermissionToUser A = permits_to_user_on (VM_POOL_API A) ''vm_pool'' A"

definition addClusterPermissionsToGroup :: "'w apis \<Rightarrow> bool \<Rightarrow> string \<Rightarrow> string \<Rightarrow> string \<Rightarrow> ('w rest_st, bool) comp" where
  "addClusterPermissionsToGroup A positive grp cluster role =
     bindE (find_by (CL_API A) ''name'' (PStr cluster)) (\<lambda>c. addPermitsToGroup A positive grp role c ''cluster'')"

definition addUserPermitsForObj :: "'w apis \<Rightarrow> bool \<Rightarrow> string \<Rightarrow> string \<Rightarrow> pyval \<Rightarrow> bool \<Rightarrow> ('w rest_st, bool) comp" where
  "addUserPermitsForObj A positive user role obj grp =
     bindE (named_for_log obj) (\<lambda>_.
     bindE (find_by (if grp then GROUP_API A else USER_API A) ''name'' (PStr user)) (\<lambda>u.
     bindE (find_by (ROLE_API A) ''name'' (PStr role)) (\<lambda>r.
     give_permission A positive
       (setattr (setattr (new_object A ''Permission'') ''role'' r) (if grp then ''group'' else ''user'') u) obj)))"

definition addPermissionsForVnicProfile ::
  "'w apis \<Rightarrow> bool \<Rightarrow> string \<Rightarrow> pyval \<Rightarrow> pyval \<Rightarrow> pyval \<Rightarrow> string \<Rightarrow> ('w rest_st, bool) comp" where
  "addPermissionsForVnicProfile A positive user vnicprofile network data_center role =
     bindE (get_vnic_profile_obj A vnicprofile network PNone data_center) (\<lambda>v. addUserPermitsForObj A positive user role v False)"

definition addPermissionsForNetwork :: "'w apis \<Rightarrow> bool \<Rightarrow> string \<Rightarrow> pyval \<Rightarrow> pyval \<Rightarrow> string \<Rightarrow> ('w rest_st, bool) comp" where
  "addPermissionsForNetwork A positive user network data_center role =
     bindE (find_network A network data_center PNone) (\<lambda>n. addUserPermitsForObj A positive user role n False)"

definition permits_for :: "'w rest_env \<Rightarrow> bool \<Rightarrow> 'w apis \<Rightarrow> bool \<Rightarrow> string \<Rightarrow> string \<Rightarrow> string \<Rightarrow> ('w rest_st, bool) comp" where
  "permits_for E grp A positive user n role =
     bindE (find_by E ''name'' (PStr n)) (\<lambda>x. addUserPermitsForObj A positive user role x grp)"

definition addPermissionsForDisk :: "'w apis \<Rightarrow> bool \<Rightarrow> string \<Rightarrow> string \<Rightarrow> string \<Rightarrow> ('w rest_st, bool) comp" where
  "addPermissionsForDisk A = permits_for (DISK_API A) False A"

definition addPermissionsForTemplate :: "'w apis \<Rightarrow> bool \<Rightarrow> string \<Rightarrow> string \<Rightarrow> string \<Rightarrow> ('w rest_st, bool) comp" where
  "addPermissionsForTemplate A = permits_for (TEMPLATE_API A) False A"

definition addVnicProfilePermissionsToGroup ::
  "'w apis \<Rightarrow> bool \<Rightarrow> string \<Rightarrow> pyval \<Rightarrow> pyval \<Rightarrow> pyval \<Rightarrow> string \<Rightarrow> ('w rest_st, bool) comp" where
  "addVnicProfilePermissionsToGroup A positive grp vnicprofile network data_center role =
     bindE (get_vnic_profile_obj A vnicprofile network PNone data_center) (\<lambda>v. addUserPermitsForObj A positive grp role v True)"

definition addTemplatePermissionsToGroup :: "'w apis \<Rightarrow> bool \<Rightarrow> string \<Rightarrow> string \<Rightarrow> string \<Rightarrow> ('w rest_st, bool) comp" where
  "addTemplatePermissionsToGroup A = permits_for (TEMPLATE_API A) True A"

definition addPermissionsForDataCenter :: "'w apis \<Rightarrow> bool \<Rightarrow> string \<Rightarrow> string \<Rightarrow> string \<Rightarrow> ('w rest_st, bool) comp" where
  "addPermissionsForDataCenter A = permits_for (DC_API A) False A"

section \<open>Taking permissions\<close>

fun delete_all :: "'w rest_env \<Rightarrow> pyval list \<Rightarrow> ('w rest_st, bool) comp" where
  "delete_all E [] = ret True"
| "delete_all E (x # xs) = bindE (delete_element E x True) (\<lambda>ok. if ok then delete_all E xs else ret False)"

definition remove_all_permissions_from_user :: "'w apis \<Rightarrow> string \<Rightarrow> ('w rest_st, bool) comp" where
  "remove_all_permissions_from_user A user =
     bindE (find_by (USER_API A) ''name'' (PStr user)) (\<lambda>u.
     bindE (linked_list (PERMISSION_API A) u [] []) (delete_all (PERMISSION_API A)))"

definition findUserByUserName :: "'w apis \<Rightarrow> string \<Rightarrow> ('w rest_st, pyval) comp" where
  "findUserByUserName A user_name =
     bindE (user_query A user_name) (\<lambda>v.
     bindE (lift_res (py_iter v)) (\<lambda>us.
     bindE (lift_res (filter_res (\<lambda>u. res_bind (getattr u ''user_name'') (\<lambda>n. Inr (py_eq n (PStr user_name)))) us)) (\<lambda>found.
     ret (case found of [] \<Rightarrow> PNone | u # _ \<Rightarrow> u))))"

text \<open>
  The loops delete every permission that is picked, going on after a refusal; the answer is then
  False.
\<close>

fun delete_picked ::
  "'w rest_env \<Rightarrow> bool \<Rightarrow> (pyval \<Rightarrow> exn + bool) \<Rightarrow> pyval list \<Rightarrow> bool \<Rightarrow> ('w rest_st, bool) comp" where
  "delete_picked E positive pick [] status = ret status"
| "delete_picked E positive pick (p # ps) status =
     bindE (lift_res (pick p)) (\<lambda>b.
     if b then bindE (delete_element E p positive) (\<lambda>ok. delete_picked E positive pick ps (status \<and> ok))
     else delete_picked E positive pick ps status)"

definition of_user :: "(pyval \<Rightarrow> bool) \<Rightarrow> pyval \<Rightarrow> exn + bool" where
  "of_user is_it perm =
     res_bind (getattr perm ''user'') (\<lambda>u. if \<not> truthy u then Inr False else res_bind (getattr u ''id'') (\<lambda>i. Inr (is_it i)))"

definition of_user_role :: "pyval \<Rightarrow> pyval \<Rightarrow> pyval \<Rightarrow> exn + bool" where
  "of_user_role user role_id perm =
     res_bind (of_user (\<lambda>i. py_eq i user) perm) (\<lambda>b.
     if \<not> b then Inr False else res_bind (getattr_chain [''role'', ''id''] perm) (\<lambda>j. Inr (py_eq j role_id)))"

definition removeUserRoleFromObject :: "'w apis \<Rightarrow> bool \<Rightarrow> pyval \<Rightarrow> string \<Rightarrow> string \<Rightarrow> ('w rest_st, bool) comp" where
  "removeUserRoleFromObject A positive obj user_name role_name =
     bindE (named_for_log obj) (\<lambda>_.
     bindE (find_by (ROLE_API A) ''name'' (PStr role_name)) (\<lambda>r.
     bindE (lift_res (getattr r ''id'')) (\<lambda>role_id.
     bindE (linked (PERMISSION_API A) obj [] []) (\<lambda>v.
     bindE (findUserByUserName A user_name) (\<lambda>user.
     if user = PNone then ret (\<not> positive)
     else
       bindE (lift_res (getattr user ''id'')) (\<lambda>i.
       bindE (lift_res (py_iter v)) (\<lambda>permits.
       delete_picked (PERMISSION_API A) positive (of_user_role i role_id) permits True)))))))"

definition removeUsersPermissionsFromObject :: "'w apis \<Rightarrow> bool \<Rightarrow> pyval \<Rightarrow> string list \<Rightarrow> ('w rest_st, bool) comp" where
  "removeUsersPermissionsFromObject A positive obj user_names =
     bindE (named_for_log obj) (\<lambda>_.
     bindE (linked (PERMISSION_API A) obj [] []) (\<lambda>v.
     bindE (map_comp (\<lambda>n. bindE (user_query A n) (\<lambda>us. lift_res (res_bind (first_of us) (\<lambda>u. getattr u ''id'')))) user_names) (\<lambda>ids.
     bindE (lift_res (py_iter v)) (\<lambda>permits.
     delete_picked (PERMISSION_API A) positive (of_user (\<lambda>i. \<exists>j \<in> set ids. py_eq i j)) permits True))))"

definition removeUsersPermissionsFromNetwork ::
  "'w apis \<Rightarrow> bool \<Rightarrow> pyval \<Rightarrow> pyval \<Rightarrow> string list \<Rightarrow> ('w rest_st, bool) comp" where
  "removeUsersPermissionsFromNetwork A positive network data_center user_names =
     bindE (find_network A network data_center PNone) (\<lambda>n. removeUsersPermissionsFromObject A positive n user_names)"

definition removeUserPermissionsFromNetwork :: "'w apis \<Rightarrow> bool \<Rightarrow> pyval \<Rightarrow> pyval \<Rightarrow> string \<Rightarrow> ('w rest_st, bool) comp" where
  "removeUserPermissionsFromNetwork A positive network data_center user_name =
     removeUsersPermissionsFromNetwork A positive network data_center [user_name]"

text \<open>The profile is not looked at: the permissions of the network go.\<close>

definition removeUserPermissionsFromVnicProfile ::
  "'w apis \<Rightarrow> bool \<Rightarrow> pyval \<Rightarrow> pyval \<Rightarrow> pyval \<Rightarrow> string \<Rightarrow> ('w rest_st, bool) comp" where
  "removeUserPermissionsFromVnicProfile A positive vnicprofile network data_center user_name =
     removeUsersPermissionsFromNetwork A positive network data_center [user_name]"

definition remove_users_permissions :: "'w rest_env \<Rightarrow> 'w apis \<Rightarrow> bool \<Rightarrow> string \<Rightarrow> string list \<Rightarrow> ('w rest_st, bool) comp" where
  "remove_users_permissions E A positive n user_names =
     bindE (find_by E ''name'' (PStr n)) (\<lambda>x. removeUsersPermissionsFromObject A positive x user_names)"

definition removeUsersPermissionsFromDatacenter :: "'w apis \<Rightarrow> bool \<Rightarrow> string \<Rightarrow> string list \<Rightarrow> ('w rest_st, bool) comp" where
  "removeUsersPermissionsFromDatacenter A = remove_users_permissions (DC_API A) A"

definition removeUserPermissionsFromDatacenter :: "'w apis \<Rightarrow> bool \<Rightarrow> string \<Rightarrow> string \<Rightarrow> ('w rest_st, bool) comp" where
  "removeUserPermissionsFromDatacenter A positive n user_name = removeUsersPermissionsFromDatacenter A positive n [user_name]"

definition removeUsersPermissionsFromCluster :: "'w apis \<Rightarrow> bool \<Rightarrow> string \<Rightarrow> string list \<Rightarrow> ('w rest_st, bool) comp" where
  "removeUsersPermissionsFromCluster A = remove_users_permissions (CL_API A) A"

definition removeUserPermissionsFromCluster :: "'w apis \<Rightarrow> bool \<Rightarrow> string \<Rightarrow> string \<Rightarrow> ('w rest_st, bool) comp" where
  "removeUserPermissionsFromCluster A positive n user_name = removeUsersPermissionsFromCluster A positive n [user_name]"

definition removeUsersPermissionsFromVm :: "'w apis \<Rightarrow> bool \<Rightarrow> string \<Rightarrow> string list \<Rightarrow> ('w rest_st, bool) comp" where
  "removeUsersPermissionsFromVm A = remove_users_permissions (VM_API A) A"

definition removeUserPermissionsFromVm :: "'w apis \<Rightarrow> bool \<Rightarrow> string \<Rightarrow> string \<Rightarrow> ('w rest_st, bool) comp" where
  "removeUserPermissionsFromVm A positive n user_name = removeUsersPermissionsFromVm A positive n [user_name]"

definition removeUsersPermissionsFromTemplate :: "'w apis \<Rightarrow> bool \<Rightarrow> string \<Rightarrow> string list \<Rightarrow> ('w rest_st, bool) comp" where
  "removeUsersPermissionsFromTemplate A = remove_users_permissions (TEMPLATE_API A) A"

definition removeUserPermissionsFromTemplate :: "'w apis \<Rightarrow> bool \<Rightarrow> string \<Rightarrow> string \<Rightarrow> ('w rest_st, bool) comp" where
  "removeUserPermissionsFromTemplate A positive n user_name = removeUsersPermissionsFromTemplate A positive n [user_name]"

definition removeUsersPermissionsFromSD :: "'w apis \<Rightarrow> bool \<Rightarrow> string \<Rightarrow> string list \<Rightarrow> ('w rest_st, bool) comp" where
  "removeUsersPermissionsFromSD A = remove_users_permissions (STORAGE_API A) A"

definition removeUserPermissionsFromSD :: "'w apis \<Rightarrow> bool \<Rightarrow> string \<Rightarrow> string \<Rightarrow> ('w rest_st, bool) comp" where
  "removeUserPermissionsFromSD A positive n user_name = removeUsersPermissionsFromSD A positive n [user_name]"

definition removeUserRoleFromDataCenter :: "'w apis \<Rightarrow> bool \<Rightarrow> string \<Rightarrow> string \<Rightarrow> string \<Rightarrow> ('w rest_st, bool) comp" where
  "removeUserRoleFromDataCenter A positive datacenter user_name role_name =
     bindE (find_by (DC_API A) ''name'' (PStr datacenter)) (\<lambda>d. removeUserRoleFromObject A positive d user_name role_name)"

definition removeUserRoleFromVm :: "'w apis \<Rightarrow> bool \<Rightarrow> string \<Rightarrow> string \<Rightarrow> string \<Rightarrow> ('w rest_st, bool) comp" where
  "removeUserRoleFromVm A positive vm user_name role_name =
     bindE (find_by (VM_API A) ''name'' (PStr vm)) (\<lambda>v. removeUserRoleFromObject A positive v user_name role_name)"

section \<open>Asking for permissions\<close>

text \<open>The pairs of holder and role of the permissions that have a holder of the kind.\<close>

fun holders :: "string \<Rightarrow> pyval list \<Rightarrow> exn + (pyval \<times> pyval) list" where
  "holders kind [] = Inr []"
| "holders kind (p # ps) =
     res_bind (getattr p kind) (\<lambda>h.
     res_bind (if h = PNone then Inr []
               else res_bind (getattr h ''id'') (\<lambda>i. res_bind (getattr_chain [''role'', ''id''] p) (\<lambda>j. Inr [(i, j)]))) (\<lambda>pair.
     res_bind (holders kind ps) (\<lambda>rest. Inr (pair @ rest))))"

definition has_user_or_group_permissions_on_object ::
  "'w apis \<Rightarrow> string \<Rightarrow> pyval \<Rightarrow> string \<Rightarrow> bool \<Rightarrow> ('w rest_st, bool) comp" where
  "has_user_or_group_permissions_on_object A n obj role grp =
     bindE (named_for_log obj) (\<lambda>_.
     bindE (linked (PERMISSION_API A) obj [] []) (\<lambda>v.
     bindE (find_by (ROLE_API A) ''name'' (PStr role)) (\<lambda>r.
     bindE (lift_res (getattr r ''id'')) (\<lambda>role_id.
     bindE (if grp then find_by (GROUP_API A) ''name'' (PStr n) else findUserByUserName A n) (\<lambda>user.
     if user = PNone then ret False
     else
       bindE (lift_res (py_iter v)) (\<lambda>permits.
       bindE (lift_res (holders (if grp then ''group'' else ''user'') permits)) (\<lambda>pairs.
       bindE (lift_res (getattr user ''id'')) (\<lambda>i.
       ret (\<exists>(j, k) \<in> set pairs. py_eq i j \<and> py_eq role_id k)))))))))"

definition hasGroupPermissionsOnObject :: "'w apis \<Rightarrow> string \<Rightarrow> pyval \<Rightarrow> string \<Rightarrow> ('w rest_st, bool) comp" where
  "hasGroupPermissionsOnObject A group_name obj role = has_user_or_group_permissions_on_object A group_name obj role True"

definition has_user_permissions_on_object :: "'w apis \<Rightarrow> string \<Rightarrow> pyval \<Rightarrow> string \<Rightarrow> ('w rest_st, bool) comp" where
  "has_user_permissions_on_object A user_name obj role = has_user_or_group_permissions_on_object A user_name obj role False"

text \<open>The first column of the first row the database answers.\<close>

definition allows_view_children :: "'s psql \<Rightarrow> string \<Rightarrow> ('s, bool) comp" where
  "allows_view_children psql role =
     try_except
       (bindE (psql (''select allows_viewing_children from roles where name = '' @ [CHR 0x27] @ role @ [CHR 0x27])) (\<lambda>rows.
        bindE (lift_res (res_bind (first_of rows) first_of)) (\<lambda>x. ret (x = PStr ''t''))))
       IndexError (\<lambda>_. ret False)"

section \<open>What they do\<close>

lemma take_permits_iff:
  "(case take_permits ns expected status of (st, rest) \<Rightarrow> st \<and> rest = []) \<longleftrightarrow> status \<and> mset ns = mset expected"
proof (induction ns expected status rule: take_permits.induct)
  case (2 n ns expected status)
  have "mset (n # ns) \<noteq> mset expected" if "n \<notin> set expected" using that by (metis list.set_intros(1) set_mset_mset)
  moreover have "mset ns = mset (remove1 n expected) \<longleftrightarrow> mset (n # ns) = mset expected" if "n \<in> set expected"
    using that by (metis mset.simps(2) mset_remove1 add_mset_remove_trivial insert_DiffM set_mset_mset)
  ultimately show ?case using 2 by auto
qed auto

text \<open>
  C21. \<open>check_system_permits\<close> compares two multisets: it answers True exactly if the permits of the
  engine are the configured ones, each as often. The flag \<open>positive\<close> is not used.
\<close>

theorem check_system_permits_iff:
  assumes "check_system_permits A conf s = (Inr b, s')"
  shows "\<exists>v ps ns. getPermits A s = (Inr v, s') \<and> py_iter v = Inr ps \<and> map (\<lambda>p. getattr p ''name'') ps = map Inr ns \<and>
    b = (mset ns = mset conf)"
proof -
  from assms obtain v ps ns where "getPermits A s = (Inr v, s')" "py_iter v = Inr ps" "map_res (\<lambda>p. getattr p ''name'') ps = Inr ns"
    "b = (case take_permits ns conf True of (st, rest) \<Rightarrow> st \<and> rest = [])"
    unfolding check_system_permits_def by (auto simp: lift_res_def ret_def split: prod.splits elim!: bindE_InrE)
  with map_res_Inr [of _ ps ns] show ?thesis by (auto simp: take_permits_iff)
qed

text \<open>
  What a removal asks for, independent of how the loops are written. A permission names one of the
  users if it has a user, and the id of that user is one of the ids.
\<close>

definition names_user :: "pyval list \<Rightarrow> pyval \<Rightarrow> bool" where
  "names_user ids p \<longleftrightarrow>
     (\<exists>u i. getattr p ''user'' = Inr u \<and> truthy u \<and> getattr u ''id'' = Inr i \<and> (\<exists>j \<in> set ids. py_eq i j))"

text \<open>
  The ids of the users of some names, each found by a query for the name, and the requests that delete
  some elements with their verdicts: one after the other, from one state to another.
\<close>

inductive users_found :: "'w apis \<Rightarrow> string list \<Rightarrow> pyval list \<Rightarrow> 'w rest_st \<Rightarrow> 'w rest_st \<Rightarrow> bool" for A where
  no_user: "users_found A [] [] s s"
| next_user: "user_query A n s = (Inr (PList (u # us)), t) \<Longrightarrow> getattr u ''id'' = Inr i \<Longrightarrow> users_found A ns ids t s' \<Longrightarrow>
    users_found A (n # ns) (i # ids) s s'"

inductive deleted_in_turn :: "'w rest_env \<Rightarrow> bool \<Rightarrow> pyval list \<Rightarrow> bool list \<Rightarrow> 'w rest_st \<Rightarrow> 'w rest_st \<Rightarrow> bool" for E positive where
  nothing_deleted: "deleted_in_turn E positive [] [] s s"
| next_deleted: "delete_element E p positive s = (Inr ok, t) \<Longrightarrow> deleted_in_turn E positive ps oks t s' \<Longrightarrow>
    deleted_in_turn E positive (p # ps) (ok # oks) s s'"

lemma first_of_Inr: "first_of v = Inr x \<longleftrightarrow> (\<exists>xs. v = PList (x # xs))"
  by (auto simp: first_of_def split: pyval.splits list.splits)

lemma users_foundI:
  "map_comp (\<lambda>n. bindE (user_query A n) (\<lambda>us. lift_res (res_bind (first_of us) (\<lambda>u. getattr u ''id'')))) ns s = (Inr ids, s') \<Longrightarrow>
     users_found A ns ids s s'"
proof (induction ns arbitrary: s ids)
  case Nil
  then show ?case by (simp add: ret_def users_found.intros)
next
  case (Cons n ns)
  then obtain u us i t more where "user_query A n s = (Inr (PList (u # us)), t)" "getattr u ''id'' = Inr i" "ids = i # more"
    and rest: "map_comp (\<lambda>n. bindE (user_query A n) (\<lambda>us. lift_res (res_bind (first_of us) (\<lambda>u. getattr u ''id'')))) ns t = (Inr more, s')"
    by (auto simp: lift_res_def ret_def res_bind_Inr first_of_Inr elim!: bindE_InrE)
  with Cons.IH [OF rest] show ?case by (auto intro: users_found.intros)
qed

lemma of_user_names: "of_user (\<lambda>i. \<exists>j \<in> set ids. py_eq i j) p = Inr b \<Longrightarrow> b = names_user ids p"
  by (auto simp: of_user_def names_user_def res_bind_Inr split: if_splits)

lemma delete_picked_in_turn:
  assumes "delete_picked E positive (of_user (\<lambda>i. \<exists>j \<in> set ids. py_eq i j)) ps status s = (Inr b, s')"
  shows "\<exists>oks. deleted_in_turn E positive (filter (names_user ids) ps) oks s s' \<and> b = (status \<and> (\<forall>ok \<in> set oks. ok))"
  using assms
proof (induction ps arbitrary: status s)
  case Nil
  then show ?case by (auto simp: ret_def intro: exI [of _ "[]"] deleted_in_turn.intros)
next
  case (Cons p ps)
  from Cons.prems obtain picked where picked: "of_user (\<lambda>i. \<exists>j \<in> set ids. py_eq i j) p = Inr picked"
    by (auto simp: lift_res_def elim!: bindE_InrE)
  show ?case
  proof (cases picked)
    case True
    with Cons.prems picked obtain ok t where ok: "delete_element E p positive s = (Inr ok, t)"
      and rest: "delete_picked E positive (of_user (\<lambda>i. \<exists>j \<in> set ids. py_eq i j)) ps (status \<and> ok) t = (Inr b, s')"
      by (auto simp: lift_res_def elim!: bindE_InrE)
    from Cons.IH [OF rest] obtain oks where oks: "deleted_in_turn E positive (filter (names_user ids) ps) oks t s'"
      "b = ((status \<and> ok) \<and> (\<forall>ok \<in> set oks. ok))" by blast
    moreover have "names_user ids p" using of_user_names [OF picked] True by simp
    ultimately show ?thesis using ok by (intro exI [of _ "ok # oks"]) (auto intro: deleted_in_turn.intros)
  next
    case False
    with Cons.prems picked Cons.IH of_user_names [OF picked] show ?thesis
      by (auto simp: lift_res_def elim!: bindE_InrE)
  qed
qed

text \<open>
  C22. Taking the permissions of users from an object: the permissions of the object are listed, each
  user name is looked up and the first user found counts, and then exactly the listed permissions whose
  user has one of these ids are asked to be deleted, one request each and in the order listed, whatever
  the answers to the others; the answer is True exactly if every deletion went as expected.
\<close>

theorem removeUsersPermissionsFromObject_exact:
  assumes "removeUsersPermissionsFromObject A positive obj user_names s = (Inr b, s')"
  shows "\<exists>v permits ids oks s1 s2.
    linked (PERMISSION_API A) obj [] [] s = (Inr v, s1) \<and> py_iter v = Inr permits \<and>
    users_found A user_names ids s1 s2 \<and>
    deleted_in_turn (PERMISSION_API A) positive (filter (names_user ids) permits) oks s2 s' \<and> b = (\<forall>ok \<in> set oks. ok)"
proof -
  from assms obtain v s1 ids s2 permits where "linked (PERMISSION_API A) obj [] [] s = (Inr v, s1)" "py_iter v = Inr permits"
    "map_comp (\<lambda>n. bindE (user_query A n) (\<lambda>us. lift_res (res_bind (first_of us) (\<lambda>u. getattr u ''id'')))) user_names s1 = (Inr ids, s2)"
    "delete_picked (PERMISSION_API A) positive (of_user (\<lambda>i. \<exists>j \<in> set ids. py_eq i j)) permits True s2 = (Inr b, s')"
    unfolding removeUsersPermissionsFromObject_def named_for_log_def
    by (auto simp: lift_res_def elim!: bindE_InrE)
  with delete_picked_in_turn [OF this(4)] users_foundI [OF this(3)] show ?thesis by blast
qed

definition holds_role :: "string \<Rightarrow> pyval \<Rightarrow> pyval \<Rightarrow> pyval \<Rightarrow> bool" where
  "holds_role kind i j p \<longleftrightarrow>
     (\<exists>h. getattr p kind = Inr h \<and> h \<noteq> PNone \<and> getattr h ''id'' = Inr i \<and> getattr_chain [''role'', ''id''] p = Inr j)"

lemma holders_set: "holders kind ps = Inr pairs \<Longrightarrow> (i, j) \<in> set pairs \<longleftrightarrow> (\<exists>p \<in> set ps. holds_role kind i j p)"
proof (induction ps arbitrary: pairs)
  case (Cons p ps)
  from Cons.prems obtain h pair rest where h: "getattr p kind = Inr h" "holders kind ps = Inr rest" "pairs = pair @ rest"
    and pair: "(if h = PNone then Inr []
       else res_bind (getattr h ''id'') (\<lambda>i. res_bind (getattr_chain [''role'', ''id''] p) (\<lambda>j. Inr [(i, j)]))) = Inr pair"
    by (auto simp: res_bind_Inr simp del: getattr_chain.simps)
  have "(i, j) \<in> set pair \<longleftrightarrow> holds_role kind i j p"
    using pair h(1) by (auto simp: holds_role_def res_bind_Inr simp del: getattr_chain.simps split: if_splits)
  with Cons.IH [OF h(2)] h(3) show ?case by simp
qed simp

text \<open>
  A user or a group has a role on an object, by \<open>has_user_or_group_permissions_on_object\<close>, exactly
  if it exists and one permission on the object names it and the role.
\<close>

theorem has_permissions_iff:
  assumes "has_user_or_group_permissions_on_object A n obj role grp s = (Inr b, s')"
  shows "\<exists>v r role_id user.
    (\<exists>s1. linked (PERMISSION_API A) obj [] [] s = (Inr v, s1)) \<and>
    (\<exists>s1 s2. find_by (ROLE_API A) ''name'' (PStr role) s1 = (Inr r, s2)) \<and> getattr r ''id'' = Inr role_id \<and>
    (\<exists>s1. (if grp then find_by (GROUP_API A) ''name'' (PStr n) else findUserByUserName A n) s1 = (Inr user, s')) \<and>
    (if user = PNone then \<not> b
     else \<exists>i permits. getattr user ''id'' = Inr i \<and> py_iter v = Inr permits \<and>
       b = (\<exists>p \<in> set permits. \<exists>j k. holds_role (if grp then ''group'' else ''user'') j k p \<and> py_eq i j \<and> py_eq role_id k))"
proof -
  let ?kind = "if grp then ''group'' else ''user''" and ?find = "if grp then find_by (GROUP_API A) ''name'' (PStr n) else findUserByUserName A n"
  from assms obtain v s1 r s2 role_id user s3 where
    v: "linked (PERMISSION_API A) obj [] [] s = (Inr v, s1)" and r: "find_by (ROLE_API A) ''name'' (PStr role) s1 = (Inr r, s2)"
      "getattr r ''id'' = Inr role_id" and u: "?find s2 = (Inr user, s3)"
    and rest: "(if user = PNone then ret False
      else bindE (lift_res (py_iter v)) (\<lambda>permits. bindE (lift_res (holders ?kind permits)) (\<lambda>pairs.
        bindE (lift_res (getattr user ''id'')) (\<lambda>i. ret (\<exists>(j, k) \<in> set pairs. py_eq i j \<and> py_eq role_id k))))) s3 = (Inr b, s')"
    unfolding has_user_or_group_permissions_on_object_def named_for_log_def
    by (elim bindE_InrE) (auto simp: lift_res_def)
  have "s' = s3 \<and> (if user = PNone then \<not> b
     else \<exists>i permits. getattr user ''id'' = Inr i \<and> py_iter v = Inr permits \<and>
       b = (\<exists>p \<in> set permits. \<exists>j k. holds_role ?kind j k p \<and> py_eq i j \<and> py_eq role_id k))"
  proof (cases "user = PNone")
    case True
    with rest show ?thesis by (simp add: ret_def)
  next
    case False
    with rest obtain permits pairs i where "py_iter v = Inr permits" "holders ?kind permits = Inr pairs" "getattr user ''id'' = Inr i"
      "b = (\<exists>(j, k) \<in> set pairs. py_eq i j \<and> py_eq role_id k)" "s' = s3"
      by (auto simp: lift_res_def ret_def elim!: bindE_InrE)
    with False show ?thesis using holders_set [of ?kind permits pairs] by (auto simp: Bex_def split: prod.splits)
  qed
  with v r u show ?thesis by blast
qed

section \<open>Witnesses\<close>

definition demo_permission :: "string \<Rightarrow> string \<Rightarrow> string \<Rightarrow> pyval" where
  "demo_permission i u r = PObj ''Permission'' [(''id'', PStr i), (''href'', PStr (''/api/permissions/'' @ i)),
     (''user'', PObj ''User'' [(''id'', PStr u)]), (''role'', PObj ''Role'' [(''id'', PStr r)])]"

definition permit_elements :: "string \<Rightarrow> pyval list" where
  "permit_elements el =
     (if el = ''user'' then [PObj ''User'' [(''id'', PStr ''u1''), (''user_name'', PStr ''bob@internal'')]]
      else if el = ''role'' then [PObj ''Role'' [(''id'', PStr ''r1''), (''name'', PStr ''VmAdmin'')]]
      else if el = ''permission'' then [demo_permission ''1'' ''u1'' ''r1'', demo_permission ''2'' ''u2'' ''r1'', demo_permission ''3'' ''u1'' ''r2'']
      else [PObj ''ClusterLevel'' [(''permits'', PObj ''Permits''
        [(''permit'', PList [PObj ''Permit'' [(''name'', PStr ''b'')], PObj ''Permit'' [(''name'', PStr ''a'')]])])]])"

definition permit_apis :: "nat apis" where
  "permit_apis el col = demo_rest\<lparr>srv := net_srv, element_name := el, collection_name := col,
     links := [(col, ''/api/'' @ col), (col @ ''/search'', ''/api/'' @ col @ ''?search'')],
     parse := (\<lambda>s. Inr (PObj [] [(el, PList (permit_elements el))]))\<rparr>"

definition demo_object :: pyval where
  "demo_object = PObj ''Vm'' [(''name'', PStr ''vm1''), (''link'', PList [PObj ''Link''
     [(''rel'', PStr ''permissions''), (''href'', PStr ''/api/vms/1/permissions'')]])]"

lemma demo_permits: "fst (check_system_permits permit_apis [PStr ''a'', PStr ''b''] demo_rest_st) = Inr True"
  by code_simp

theorem check_system_permits_iff_witness:
  "\<exists>v s'. getPermits permit_apis demo_rest_st = (Inr v, s')"
proof -
  obtain s' where "check_system_permits permit_apis [PStr ''a'', PStr ''b''] demo_rest_st = (Inr True, s')"
    using demo_permits by (metis prod.collapse)
  from check_system_permits_iff [OF this] show ?thesis by blast
qed

lemma demo_removal: "fst (removeUsersPermissionsFromObject permit_apis True demo_object [''bob@internal''] demo_rest_st) = Inr True"
  by code_simp

theorem removeUsersPermissionsFromObject_exact_witness:
  "\<exists>v ids s1 s2. linked (PERMISSION_API permit_apis) demo_object [] [] demo_rest_st = (Inr v, s1) \<and>
     users_found permit_apis [''bob@internal''] ids s1 s2 \<and> length ids = 1"
proof -
  obtain s' where "removeUsersPermissionsFromObject permit_apis True demo_object [''bob@internal''] demo_rest_st = (Inr True, s')"
    using demo_removal by (metis prod.collapse)
  from removeUsersPermissionsFromObject_exact [OF this]
  show ?thesis by (elim exE conjE) (intro exI conjI, assumption+, erule users_found.cases, auto elim: users_found.cases)
qed

lemma demo_has_permission:
  "fst (has_user_or_group_permissions_on_object permit_apis ''bob@internal'' demo_object ''VmAdmin'' False demo_rest_st) = Inr True"
  by code_simp

theorem has_permissions_iff_witness:
  "\<exists>r s1 s2. find_by (ROLE_API permit_apis) ''name'' (PStr ''VmAdmin'') s1 = (Inr r, s2)"
proof -
  obtain s' where
    "has_user_or_group_permissions_on_object permit_apis ''bob@internal'' demo_object ''VmAdmin'' False demo_rest_st = (Inr True, s')"
    using demo_has_permission by (metis prod.collapse)
  from has_permissions_iff [OF this] show ?thesis by blast
qed

end
