(* ===== verification/Instance_Types.thy ===== *)
theory Instance_Types
  imports Vm_Pools
begin

text \<open>
  \<open>instance_types.py\<close>, \<open>graphics_console.py\<close>, \<open>storageconnections.py\<close> and \<open>hooks.py\<close> of
  \<open>art/rhevm_api/tests_lib/low_level\<close>.
\<close>

section \<open>Instance types\<close>

definition INSTANCE_TYPE_API :: "'w apis \<Rightarrow> 'w rest_env" where "INSTANCE_TYPE_API A = A ''instance_type'' ''instancetypes''"

text \<open>\<open>x.set_member(Class(k = v, ...))\<close> under a condition.\<close>

definition set_new :: "'w apis \<Rightarrow> bool \<Rightarrow> string \<Rightarrow> string \<Rightarrow> (string \<times> pyval) list \<Rightarrow> pyval \<Rightarrow> exn + pyval" where
  "set_new A b member cls kw x =
     (if b then res_bind (construct (new_object A cls) kw) (\<lambda>y. Inr (setattr x member y)) else Inr x)"

text \<open>\<open>cls(k = kwargs.get(k'), ...)\<close>.\<close>

definition given :: "(string, pyval) dict \<Rightarrow> (string \<times> string) list \<Rightarrow> (string \<times> pyval) list" where
  "given kw names = map (\<lambda>(a, k). (a, kwget kw k)) names"

definition any_true :: "(string, pyval) dict \<Rightarrow> string list \<Rightarrow> bool" where
  "any_true kw ks \<longleftrightarrow> (\<exists>k \<in> set ks. truthy (kwget kw k))"

definition instance_cpu :: "'w apis \<Rightarrow> (string, pyval) dict \<Rightarrow> pyval \<Rightarrow> exn + pyval" where
  "instance_cpu A kw x =
     (if any_true kw [''cpu_sockets'', ''cpu_cores'', ''cpu_threads''] then
        res_bind (construct (new_object A ''CpuTopology'')
                    (given kw [(''sockets'', ''cpu_sockets''), (''cores'', ''cpu_cores''), (''threads'', ''cpu_threads'')])) (\<lambda>t.
        set_new A True ''cpu'' ''Cpu'' [(''topology'', t)] x)
      else Inr x)"

definition instance_display :: "'w apis \<Rightarrow> (string, pyval) dict \<Rightarrow> pyval \<Rightarrow> exn + pyval" where
  "instance_display A kw =
     set_new A (any_true kw [''monitors'', ''display_type'', ''disconnect_action'']) ''display'' ''Display''
       (given kw [(''type_'', ''display_type''), (''monitors'', ''monitors''), (''disconnect_action'', ''disconnect_action''),
                  (''smartcard_enabled'', ''smartcard_enabled''), (''single_qxl_pci'', ''single_qxl_pci'')])"

text \<open>Migration options are set on every call; an empty policy is one without id.\<close>

definition instance_migration :: "'w apis \<Rightarrow> (string, pyval) dict \<Rightarrow> pyval \<Rightarrow> exn + pyval" where
  "instance_migration A kw x =
     (let p = kwget kw ''migration_policy'' in
      res_bind (if p = PNone then Inr PNone
                else construct (new_object A ''MigrationPolicy'') (if truthy p then [(''id'', p)] else [])) (\<lambda>policy.
      set_new A True ''migration'' ''MigrationOptions''
        (given kw [(''auto_converge'', ''auto_converge''), (''compressed'', ''compressed'')] @ [(''policy'', policy)]) x))"

definition instance_boot :: "'w apis \<Rightarrow> (string, pyval) dict \<Rightarrow> pyval \<Rightarrow> exn + pyval" where
  "instance_boot A kw x =
     (let boot = kwget kw ''boot'' in
      if truthy boot then
        (let boot_seq = (case boot of PStr s \<Rightarrow> PList (map PStr (split_ws s)) | _ \<Rightarrow> boot) in
         res_bind (construct (new_object A ''devicesType'') [(''device'', boot_seq)]) (\<lambda>d.
         res_bind (construct (new_object A ''Boot'') [(''devices'', d)]) (\<lambda>b.
         Inr (setattr x ''os'' (setattr (new_object A ''OperatingSystem'') ''boot'' b)))))
      else Inr x)"

definition prepare_instance_type_object :: "'w apis \<Rightarrow> (string, pyval) dict \<Rightarrow> exn + pyval" where
  "prepare_instance_type_object A kw =
     (let x0 = setattr (new_object A ''InstanceType'') ''name'' (kwget kw ''name'');
          x1 = set_true kw ''memory'' (set_true kw ''description'' x0);
          x2 = set_if (truthy (kwget kw ''type'')) ''type_'' (kwget kw ''type'') x1 in
      res_bind (instance_cpu A kw x2) (\<lambda>x3.
      res_bind (set_new A (kwget kw ''virtio_scsi'' \<noteq> PNone) ''virtio_scsi'' ''VirtioScsi'' (given kw [(''enabled'', ''virtio_scsi'')])
                  (set_true kw ''custom_cpu_model'' (set_true kw ''custom_emulated_machine'' x3))) (\<lambda>x4.
      res_bind (instance_display A kw x4) (\<lambda>x5.
      res_bind (set_new A (kwget kw ''serial_console'' \<noteq> PNone) ''console'' ''Console'' (given kw [(''enabled'', ''serial_console'')]) x5) (\<lambda>x6.
      res_bind (instance_migration A kw (set_some kw ''migration_downtime'' x6)) (\<lambda>x7.
      res_bind (instance_boot A kw x7) (\<lambda>x8.
      let usb = kwget kw ''usb_type'';
          x9 = set_if (truthy usb) ''usb'' (setattr (setattr (new_object A ''Usb'') ''enabled'' (PBool True)) ''type_'' usb) x8;
          x10 = set_some kw ''soundcard_enabled'' x9;
          io = kwget kw ''io_threads'';
          x11 = set_if (truthy io) ''io'' (setattr (new_object A ''Io'') ''threads'' io) x10 in
      res_bind (set_new A (kwget kw ''ballooning'' \<noteq> PNone \<or> any_true kw [''memory_guaranteed'', ''max_memory'']) ''memory_policy'' ''MemoryPolicy''
                  (given kw [(''guaranteed'', ''memory_guaranteed''), (''ballooning'', ''ballooning''), (''max'', ''max_memory'')]) x11) (\<lambda>x12.
      set_new A (kwget kw ''highly_available'' \<noteq> PNone \<or> any_true kw [''availablity_priority'']) ''high_availability'' ''HighAvailability''
        (given kw [(''enabled'', ''highly_available''), (''priority'', ''availablity_priority'')]) x12))))))))"

definition get_instance_type_object :: "'w apis \<Rightarrow> string \<Rightarrow> ('w rest_st, pyval) comp" where
  "get_instance_type_object A instance_type =
     bindE (rest_query (INSTANCE_TYPE_API A) (''name='' @ instance_type)
              \<lparr>qa_expected_status = [], qa_href = [], qa_event_id = [], qa_all_content = True, qa_params = []\<rparr>) (\<lambda>v.
     if \<not> truthy v then ret PNone else bindE (lift_res (py_iter v)) (\<lambda>l. ret (hd l)))"

text \<open>A \<open>name\<close> among the keywords clashes with the one that is passed on.\<close>

definition create_instance_type :: "'w apis \<Rightarrow> string \<Rightarrow> (string, pyval) dict \<Rightarrow> ('w rest_st, bool) comp" where
  "create_instance_type A instance_type_name kw =
     (if map_of kw ''name'' \<noteq> None then raise TypeError
      else
        bindE (lift_res (prepare_instance_type_object A ((''name'', PStr instance_type_name) # kw))) (\<lambda>x.
        create_element (INSTANCE_TYPE_API A) x True))"

definition update_instance_type :: "'w apis \<Rightarrow> string \<Rightarrow> (string, pyval) dict \<Rightarrow> ('w rest_st, bool) comp" where
  "update_instance_type A instance_type_name kw =
     bindE (get_instance_type_object A instance_type_name) (\<lambda>old.
     if \<not> truthy old then ret False
     else bindE (lift_res (prepare_instance_type_object A kw)) (\<lambda>new. update_element (INSTANCE_TYPE_API A) old new True))"

definition remove_instance_type :: "'w apis \<Rightarrow> string \<Rightarrow> ('w rest_st, bool) comp" where
  "remove_instance_type A instance_type_name =
     bindE (get_instance_type_object A instance_type_name) (\<lambda>x.
     if \<not> truthy x then ret False else delete_element (INSTANCE_TYPE_API A) x True)"

section \<open>Graphics consoles\<close>

definition GRAPHIC_CONSOLE_API :: "'w apis \<Rightarrow> 'w rest_env" where "GRAPHIC_CONSOLE_API A = A ''graphics_console'' ''graphicsconsoles''"

definition create_graphics_console :: "'w apis \<Rightarrow> pyval \<Rightarrow> pyval \<Rightarrow> ('w rest_st, bool) comp" where
  "create_graphics_console A obj protocol =
     bindE (lift_res (construct (new_object A ''GraphicsConsole'') [(''protocol'', protocol)])) (\<lambda>c.
     bindE (link_address (GRAPHIC_CONSOLE_API A) obj [] []) (\<lambda>collection.
     bindE (create_in (GRAPHIC_CONSOLE_API A) c True collection [] False) (\<lambda>r. ret (snd r))))"

definition delete_virt_console :: "'w apis \<Rightarrow> pyval \<Rightarrow> ('w rest_st, bool) comp" where
  "delete_virt_console A console = delete_element (GRAPHIC_CONSOLE_API A) console True"

text \<open>
  A GET leaves its custom headers in the headers of the API, so the function puts \<open>Accept\<close> back
  to what it was, or takes it away.
\<close>

definition put_back :: "string \<Rightarrow> (string, string) dict \<Rightarrow> (string, string) dict \<Rightarrow> (string, string) dict" where
  "put_back n saved hs = (case map_of saved n of None \<Rightarrow> dict_del hs n | Some v \<Rightarrow> dict_set hs n v)"

definition get_console_vv_file :: "'w apis \<Rightarrow> pyval \<Rightarrow> ('w rest_st, pyval) comp" where
  "get_console_vv_file A console =
     bindE get_headers (\<lambda>saved.
     try_finally
       (bindE (lift_res (res_bind (getattr console ''href'') as_string)) (\<lambda>href.
        rest_get (GRAPHIC_CONSOLE_API A) (Some href)
          (get_default\<lparr>ga_custom_headers := [(''Accept'', ''application/x-virt-viewer'')], ga_no_parse := True\<rparr>)))
       (upd_headers (put_back ''Accept'' saved)))"

definition get_graphics_consoles_values :: "'w apis \<Rightarrow> pyval \<Rightarrow> ('w rest_st, pyval) comp" where
  "get_graphics_consoles_values A obj = linked (GRAPHIC_CONSOLE_API A) obj [] []"

section \<open>Storage connections\<close>

definition STORAGE_CONNECTION_API :: "'w apis \<Rightarrow> 'w rest_env" where
  "STORAGE_CONNECTION_API A = A ''storage_connection'' ''storageconnections''"

text \<open>
  The members that a type of storage takes, each from the keyword of the same or the given name;
  the address of an iSCSI server is resolved by a function of another package.
\<close>

definition set_from :: "(string, pyval) dict \<Rightarrow> (string \<times> string) list \<Rightarrow> pyval \<Rightarrow> pyval" where
  "set_from kw names x = foldl (\<lambda>y (a, k). setattr y a (kwget kw k)) x names"

definition prepare_connection_object ::
  "(pyval \<Rightarrow> ('w rest_st, pyval) comp) \<Rightarrow> 'w apis \<Rightarrow> enums \<Rightarrow> (string, pyval) dict \<Rightarrow> ('w rest_st, pyval) comp" where
  "prepare_connection_object getIpAddressByHostName A N kw =
     (let ty = kwget kw ''type''; host = kwget kw ''host''; conn0 = setattr (new_object A ''StorageConnection'') ''type_'' ty;
          is_type = (\<lambda>k. py_eq ty (PStr (N k))); same = (\<lambda>ks. map (\<lambda>k. (k, k)) ks) in
     bindE (if truthy host then
              bindE (find_by (HOST_API A) ''name'' host) (\<lambda>h.
              bindE (lift_res (getattr h ''name'')) (\<lambda>n.
              bindE (lift_res (construct (new_object A ''Host'') [(''name'', n)])) (\<lambda>x. ret (setattr conn0 ''host'' x))))
            else ret conn0) (\<lambda>conn.
     if is_type ''storage_type_iscsi'' then
       bindE (if truthy (kwget kw ''lun_address'') then getIpAddressByHostName (kwget kw ''lun_address'') else ret (kwget kw ''lun_address'')) (\<lambda>address.
       ret (set_from kw [(''target'', ''lun_target''), (''port'', ''lun_port''), (''portal'', ''lun_portal''), (''username'', ''username''), (''password'', ''password'')]
              (setattr conn ''address'' address)))
     else if is_type ''storage_type_nfs'' then ret (set_from kw (same [''address'', ''path'', ''nfs_timeo'', ''nfs_version'', ''nfs_retrans'']) conn)
     else if is_type ''storage_type_posixfs'' then ret (set_from kw (same [''address'', ''path'', ''mount_options'', ''vfs_type'']) conn)
     else if is_type ''storage_type_gluster'' then ret (set_from kw (same [''address'', ''path'', ''vfs_type'']) conn)
     else if is_type ''storage_type_local'' then ret (set_from kw (same [''path'']) conn)
     else raise PyException))"

definition add_connection ::
  "(pyval \<Rightarrow> ('w rest_st, pyval) comp) \<Rightarrow> 'w apis \<Rightarrow> enums \<Rightarrow> bool \<Rightarrow> (string, pyval) dict \<Rightarrow> ('w rest_st, pyval \<times> bool) comp" where
  "add_connection R A N wait kw =
     bindE (prepare_connection_object R A N kw) (\<lambda>c.
     rest_create (STORAGE_CONNECTION_API A) c True (create_default\<lparr>ca_async := \<not> wait\<rparr>))"

definition update_connection ::
  "(pyval \<Rightarrow> ('w rest_st, pyval) comp) \<Rightarrow> 'w apis \<Rightarrow> enums \<Rightarrow> bool \<Rightarrow> pyval \<Rightarrow> (string, pyval) dict \<Rightarrow> ('w rest_st, pyval \<times> bool) comp" where
  "update_connection R A N positive conn_id kw =
     bindE (find_by (STORAGE_CONNECTION_API A) ''id'' conn_id) (\<lambda>old.
     bindE (prepare_connection_object R A N kw) (\<lambda>new. rest_update (STORAGE_CONNECTION_API A) old new positive update_default))"

definition remove_storage_connection :: "'w apis \<Rightarrow> pyval \<Rightarrow> pyval \<Rightarrow> ('w rest_st, bool) comp" where
  "remove_storage_connection A conn_id host =
     bindE (find_by (STORAGE_CONNECTION_API A) ''id'' conn_id) (\<lambda>c.
     bindE (if truthy host then
              bindE (lift_res (getattr c ''href'')) (\<lambda>h.
              (case h of PStr s \<Rightarrow> ret (setattr c ''href'' (PStr (s @ '';host='' @ py_str host))) | _ \<Rightarrow> raise TypeError))
            else ret c) (\<lambda>c'. delete_element (STORAGE_CONNECTION_API A) c' True))"

definition get_all_storage_connections :: "'w apis \<Rightarrow> ('w rest_st, pyval) comp" where
  "get_all_storage_connections A = get_all (STORAGE_CONNECTION_API A)"

definition get_storage_connection_object :: "'w apis \<Rightarrow> pyval \<Rightarrow> string \<Rightarrow> ('w rest_st, pyval) comp" where
  "get_storage_connection_object A connection attribute = find_by (STORAGE_CONNECTION_API A) attribute connection"

section \<open>Hooks\<close>

text \<open>A machine whose files are read and written over SSH.\<close>

record 's host_fs =
  hf_exists :: "string \<Rightarrow> ('s, bool) comp"
  hf_read_file :: "string \<Rightarrow> ('s, string) comp"
  hf_create_script :: "string \<Rightarrow> string \<Rightarrow> ('s, unit) comp"

definition HOOK_TIMEOUT :: int where "HOOK_TIMEOUT = 60"

definition same_content :: "'s host_fs \<Rightarrow> string \<Rightarrow> string \<Rightarrow> bool \<Rightarrow> ('s, bool) comp" where
  "same_content host filename content positive =
     (if content \<noteq> [] then
        bindE (hf_read_file host filename) (\<lambda>c. ret (if strip c \<noteq> strip content then False else positive))
      else ret positive)"

definition check_for_file_existence_and_content ::
  "'s os_time \<Rightarrow> bool \<Rightarrow> 's host_fs \<Rightarrow> string \<Rightarrow> string \<Rightarrow> 's \<Rightarrow> ((exn + bool) \<times> 's) option" where
  "check_for_file_existence_and_content T positive host filename content w =
     (case for_sample T (hf_exists host filename) (\<lambda>b. ret (if b then Some () else None)) (API_TimeoutingSampler HOOK_TIMEOUT 1) w of
        None \<Rightarrow> None
      | Some (Inl e, s1, w1) \<Rightarrow>
          if isinstance e APITimeout then
            (if positive then Some (Inr False, w1) else Some (same_content host filename content positive w1))
          else Some (Inl e, w1)
      | Some (Inr _, s1, w1) \<Rightarrow> Some (same_content host filename content positive w1))"

text \<open>\<open>os.path.join(target, name)\<close>.\<close>

definition path_join :: "string \<Rightarrow> string \<Rightarrow> string" where
  "path_join a b = (if startswith b ''/'' then b else if a = [] \<or> last a = CHR ''/'' then a @ b else a @ ''/'' @ b)"

abbreviation NL :: string where "NL \<equiv> [CHR 0x0A]"
abbreviation TAB :: string where "TAB \<equiv> [CHR 0x09]"
abbreviation QUOTE :: string where "QUOTE \<equiv> [CHR 0x22]"

definition create_script :: "'s host_fs \<Rightarrow> string \<Rightarrow> string \<Rightarrow> string \<Rightarrow> ('s, bool) comp" where
  "create_script host content target script_name =
     try_except (bindE (hf_create_script host content (path_join target script_name)) (\<lambda>_. ret True)) PyException (\<lambda>_. ret False)"

definition create_one_line_shell_script :: "'s host_fs \<Rightarrow> string \<Rightarrow> string \<Rightarrow> string \<Rightarrow> string \<Rightarrow> ('s, bool) comp" where
  "create_one_line_shell_script host script_name command arguments target =
     create_script host (''#!/bin/bash'' @ NL @ NL @ command @ '' '' @ arguments @ NL) target script_name"

definition create_python_script_to_verify_custom_hook ::
  "'s host_fs \<Rightarrow> string \<Rightarrow> string \<Rightarrow> string \<Rightarrow> string \<Rightarrow> ('s, bool) comp" where
  "create_python_script_to_verify_custom_hook host script_name custom_hook target output_file =
     create_script host
       (''#!/usr/bin/python'' @ NL @ NL @ ''import os'' @ NL @ ''import sys'' @ NL @
        ''if os.environ.has_key('' @ QUOTE @ custom_hook @ QUOTE @ ''):'' @ NL @
        TAB @ ''with open('' @ QUOTE @ output_file @ QUOTE @ '', '' @ QUOTE @ ''w'' @ QUOTE @ '') as fo:'' @ NL @
        TAB @ TAB @ ''fo.write(os.environ['' @ QUOTE @ custom_hook @ QUOTE @ ''])'' @ NL @
        ''else:'' @ NL @ TAB @ ''sys.exit(0)'' @ NL)
       target script_name"

section \<open>The header that is put back\<close>

definition other_headers_are :: "string \<Rightarrow> (string \<rightharpoonup> string) \<Rightarrow> 'w rest_st \<Rightarrow> bool" where
  "other_headers_are n H s \<longleftrightarrow> (map_of (api_headers s))(n := None) = H(n := None)"

lemma keeps_other_headers: "keeps api_headers m \<Longrightarrow> preserves (other_headers_are n H) m"
  by (simp add: keeps_def preserves_def other_headers_are_def)

lemma preserves_get_custom:
  "preserves (other_headers_are n H) (rest_get E href (get_default\<lparr>ga_custom_headers := [(n, v)], ga_no_parse := b\<rparr>))"
proof -
  have "preserves (other_headers_are n H) (modify (upd_headers (\<lambda>hs. dict_update hs [(n, v)])))"
    by (auto simp: preserves_def modify_def other_headers_are_def api_headers_def upd_headers_def dict_update_def fun_eq_iff)
  then show ?thesis
    unfolding rest_get_def Let_def
    by (intro preserves_intros)
      (auto intro!: preserves_intros keeps_other_headers keeps_intros split: sum.split)
qed

text \<open>
  Reading a console's file asks for another media type and puts the old one back: the headers of
  the API are the same map before and after, whether the request succeeds, is refused or raises.
\<close>

theorem console_file_keeps_headers:
  "map_of (api_headers (snd (get_console_vv_file A console s))) = map_of (api_headers s)"
proof -
  let ?saved = "api_headers s"
  let ?m = "bindE (lift_res (res_bind (getattr console ''href'') as_string)) (\<lambda>href. rest_get (GRAPHIC_CONSOLE_API A) (Some href)
    (get_default\<lparr>ga_custom_headers := [(''Accept'', ''application/x-virt-viewer'')], ga_no_parse := True\<rparr>))"
  obtain r s1 where m: "?m s = (r, s1)" by fastforce
  have "preserves (other_headers_are ''Accept'' (map_of ?saved)) ?m"
    by (intro preserves_intros preserves_get_custom)
  from preservesD [OF this _ m] have same: "(map_of (api_headers s1))(''Accept'' := None) = (map_of ?saved)(''Accept'' := None)"
    by (simp add: other_headers_are_def)
  have "get_console_vv_file A console s = (r, upd_headers (put_back ''Accept'' ?saved) s1)"
    using m unfolding get_console_vv_file_def get_headers_def bindE_def [of "gets _"]
    by (simp add: gets_def try_finally_def)
  moreover have "map_of (put_back ''Accept'' ?saved (api_headers s1)) = map_of ?saved"
    using same by (auto simp: put_back_def fun_eq_iff split: option.splits) metis+
  ultimately show ?thesis by (simp add: api_headers_def upd_headers_def)
qed

end
