(* ===== verification/Disks.thy ===== *)
theory Disks
  imports Permissions Events
begin

text \<open>
  \<open>art/rhevm_api/tests_lib/low_level/disks.py\<close>: disks, their attachments to machines and
  templates, and the waits of the storage tests. Names from the table of enumerations are given as
  a function from its keys, the choice among several storage domains is a computation.
\<close>

definition DISK_ATTACHMENTS_API :: "'w apis \<Rightarrow> 'w rest_env" where "DISK_ATTACHMENTS_API A = A ''disk_attachment'' ''diskattachments''"
definition DISK_SNAPSHOT_API :: "'w apis \<Rightarrow> 'w rest_env" where "DISK_SNAPSHOT_API A = A ''disk_snapshot'' ''disk_snapshots''"
definition EVENT_API :: "'w apis \<Rightarrow> 'w rest_env" where "EVENT_API A = A ''event'' ''events''"

definition DEFAULT_DISK_TIMEOUT :: int where "DEFAULT_DISK_TIMEOUT = 180"
definition COPY_MOVE_DISK_TIMEOUT :: int where "COPY_MOVE_DISK_TIMEOUT = 300"
definition DEFAULT_SLEEP :: int where "DEFAULT_SLEEP = 5"

definition BLOCK_DEVICES :: "enums \<Rightarrow> string list" where
  "BLOCK_DEVICES N = [N ''storage_type_iscsi'', N ''storage_type_fcp'']"

definition FILE_DEVICES :: "enums \<Rightarrow> string list" where
  "FILE_DEVICES N = [N ''storage_type_gluster'', N ''storage_type_nfs'', N ''storage_type_ceph'', N ''storage_type_posixfs'']"

definition is_one_of :: "string list \<Rightarrow> pyval \<Rightarrow> bool" where
  "is_one_of l v \<longleftrightarrow> (\<exists>s \<in> set l. v = PStr s)"

section \<open>Looking disks up\<close>

definition getStorageDomainDisks :: "'w apis \<Rightarrow> string \<Rightarrow> bool \<Rightarrow> ('w rest_st, pyval) comp" where
  "getStorageDomainDisks A storagedomain get_href =
     bindE (find_by (STORAGE_API A) ''name'' (PStr storagedomain)) (\<lambda>sd.
     getElemFromLink (DISK_API A) sd [] [] get_href False)"

definition get_disk_obj :: "'w apis \<Rightarrow> pyval \<Rightarrow> string \<Rightarrow> ('w rest_st, pyval) comp" where
  "get_disk_obj A disk_alias attribute = find_by (DISK_API A) attribute disk_alias"

definition get_disk_obj_from_disk_attachment :: "'w apis \<Rightarrow> pyval \<Rightarrow> ('w rest_st, pyval) comp" where
  "get_disk_obj_from_disk_attachment A x = bindE (lift_res (getattr x ''id'')) (\<lambda>i. get_disk_obj A i ''id'')"

definition get_disk_list_from_disk_attachments :: "'w apis \<Rightarrow> pyval \<Rightarrow> ('w rest_st, pyval list) comp" where
  "get_disk_list_from_disk_attachments A l =
     bindE (lift_res (py_iter l)) (map_comp (get_disk_obj_from_disk_attachment A))"

definition get_disk_attachments :: "'w apis \<Rightarrow> string \<Rightarrow> string \<Rightarrow> bool \<Rightarrow> ('w rest_st, pyval) comp" where
  "get_disk_attachments A n object_type get_href =
     bindE (find_by (A object_type (object_type @ ''s'')) ''name'' (PStr n)) (\<lambda>x.
     getElemFromLink (DISK_ATTACHMENTS_API A) x [] [] get_href False)"

text \<open>The id of the first attached disk with the alias: every look costs a request.\<close>

fun attached_id :: "'w apis \<Rightarrow> pyval \<Rightarrow> pyval list \<Rightarrow> ('w rest_st, pyval) comp" where
  "attached_id A disk [] = ret PNone"
| "attached_id A disk (d # ds) =
     bindE (lift_res (getattr d ''id'')) (\<lambda>i.
     bindE (get_disk_obj A i ''id'') (\<lambda>x.
     bindE (lift_res (getattr x ''alias'')) (\<lambda>a.
     if py_eq a disk then ret i else attached_id A disk ds)))"

definition get_disk_attachment :: "'w apis \<Rightarrow> string \<Rightarrow> pyval \<Rightarrow> string \<Rightarrow> string \<Rightarrow> ('w rest_st, pyval) comp" where
  "get_disk_attachment A n disk attr object_type =
     bindE (get_disk_attachments A n object_type False) (\<lambda>v.
     bindE (if attr = ''name'' \<or> attr = ''alias'' then bindE (lift_res (py_iter v)) (attached_id A disk)
            else ret (if attr = ''id'' then disk else PNone)) (\<lambda>disk_id.
     bindE (lift_res (py_iter v)) (\<lambda>l.
     bindE (lift_res (find_res (id_is disk_id) l)) (\<lambda>found. ret (opt_val found)))))"

definition getVmDisk :: "'w apis \<Rightarrow> string \<Rightarrow> pyval \<Rightarrow> pyval \<Rightarrow> ('w rest_st, pyval) comp" where
  "getVmDisk A vmName alias disk_id =
     (if truthy disk_id then bindE (get_disk_attachment A vmName disk_id ''id'' ''vm'') (get_disk_obj_from_disk_attachment A)
      else if truthy alias then bindE (get_disk_attachment A vmName alias ''name'' ''vm'') (get_disk_obj_from_disk_attachment A)
      else ret PNone)"

text \<open>\<open>getObjDisks\<close> gives the address of the attachments or the disks themselves.\<close>

definition getObjDisks :: "'w apis \<Rightarrow> string \<Rightarrow> bool \<Rightarrow> bool \<Rightarrow> ('w rest_st, pyval) comp" where
  "getObjDisks A n get_href is_template =
     bindE (get_disk_attachments A n (if is_template then ''template'' else ''vm'') get_href) (\<lambda>v.
     if get_href then ret v else bindE (get_disk_list_from_disk_attachments A v) (\<lambda>l. ret (PList l)))"

definition alias_is :: "pyval \<Rightarrow> pyval \<Rightarrow> exn + bool" where
  "alias_is n x = res_bind (getattr x ''alias'') (\<lambda>m. Inr (py_eq n m))"

definition getTemplateDisk :: "'w apis \<Rightarrow> string \<Rightarrow> pyval \<Rightarrow> ('w rest_st, pyval) comp" where
  "getTemplateDisk A template_name alias =
     bindE (getObjDisks A template_name False True) (\<lambda>v.
     bindE (lift_res (py_iter v)) (\<lambda>l.
     bindE (lift_res (find_res (alias_is alias) l)) (\<lambda>found.
     case found of Some d \<Rightarrow> ret d | None \<Rightarrow> raise EntityNotFound)))"

definition get_disk_ids :: "'w apis \<Rightarrow> pyval list \<Rightarrow> ('w rest_st, pyval list) comp" where
  "get_disk_ids A disk_names =
     map_comp (\<lambda>n. bindE (get_disk_obj A n ''name'') (\<lambda>d. lift_res (getattr d ''id''))) disk_names"

definition get_all_disks :: "'w apis \<Rightarrow> ('w rest_st, pyval) comp" where
  "get_all_disks A = get_all (DISK_API A)"

definition get_non_ovf_disks :: "'w apis \<Rightarrow> enums \<Rightarrow> ('w rest_st, pyval list) comp" where
  "get_non_ovf_disks A N =
     bindE (get_all_disks A) (\<lambda>v.
     bindE (lift_res (py_iter v)) (\<lambda>ds.
     lift_res (res_bind (filter_res (\<lambda>d. res_bind (getattr d ''alias'') (\<lambda>a. Inr (\<not> py_eq a (PStr (N ''ovf_disk_alias''))))) ds)
                 (map_res (\<lambda>d. getattr d ''id'')))))"

definition get_qcow_version_disk :: "'w apis \<Rightarrow> pyval \<Rightarrow> string \<Rightarrow> ('w rest_st, pyval) comp" where
  "get_qcow_version_disk A disk_name attribute =
     bindE (get_disk_obj A disk_name attribute) (\<lambda>d. lift_res (getattr d ''qcow_version''))"

definition get_snapshot_disks_by_snapshot_obj :: "'w apis \<Rightarrow> pyval \<Rightarrow> ('w rest_st, pyval) comp" where
  "get_snapshot_disks_by_snapshot_obj A snapshot = linked (DISK_API A) snapshot [] []"

definition get_storage_domain_obj :: "'w apis \<Rightarrow> pyval \<Rightarrow> string \<Rightarrow> ('w rest_st, pyval) comp" where
  "get_storage_domain_obj A storage_domain key = find_by (STORAGE_API A) key storage_domain"

definition get_storage_domain_diskssnapshots_objects :: "'w apis \<Rightarrow> pyval \<Rightarrow> bool \<Rightarrow> ('w rest_st, pyval) comp" where
  "get_storage_domain_diskssnapshots_objects A storagedomain get_href =
     bindE (get_storage_domain_obj A storagedomain ''name'') (\<lambda>sd.
     getElemFromLink (DISK_SNAPSHOT_API A) sd ''disksnapshots'' ''disk_snapshot'' get_href False)"

definition get_read_only :: "'w apis \<Rightarrow> string \<Rightarrow> pyval \<Rightarrow> ('w rest_st, pyval) comp" where
  "get_read_only A vm_name disk_id =
     bindE (get_disk_attachment A vm_name disk_id ''id'' ''vm'') (\<lambda>d. lift_res (getattr d ''read_only''))"

definition check_disk_visibility :: "pyval \<Rightarrow> pyval list \<Rightarrow> exn + bool" where
  "check_disk_visibility disk disks_list =
     res_bind (map_res (\<lambda>d. getattr d ''alias'') disks_list) (\<lambda>l. Inr (\<exists>a \<in> set l. py_eq a disk))"

definition storage_domain_id_of :: "pyval \<Rightarrow> exn + pyval" where
  "storage_domain_id_of disk =
     res_bind (getattr_chain [''storage_domains'', ''storage_domain''] disk) (\<lambda>l. res_bind (first_of l) (\<lambda>sd. getattr sd ''id''))"

definition get_disk_storage_domain_name ::
  "'w apis \<Rightarrow> pyval \<Rightarrow> string option \<Rightarrow> string option \<Rightarrow> ('w rest_st, pyval) comp" where
  "get_disk_storage_domain_name A disk_name vm_name template_name =
     (if truthy_opt vm_name \<and> truthy_opt template_name then ret PNone
      else
        bindE (case (vm_name, template_name) of
                 (None, None) \<Rightarrow> find_by (DISK_API A) ''name'' disk_name
               | (Some v, _) \<Rightarrow> getVmDisk A v disk_name PNone
               | (None, Some t) \<Rightarrow> getTemplateDisk A t disk_name) (\<lambda>disk.
        bindE (lift_res (storage_domain_id_of disk)) (\<lambda>i.
        bindE (find_by (STORAGE_API A) ''id'' i) (\<lambda>sd. lift_res (getattr sd ''name'')))))"

section \<open>The object of a disk\<close>

text \<open>\<open>kwargs.pop(k, d)\<close>.\<close>

definition pop_or :: "(string, pyval) dict \<Rightarrow> string \<Rightarrow> pyval \<Rightarrow> pyval" where
  "pop_or kw k d = (case map_of kw k of None \<Rightarrow> d | Some v \<Rightarrow> v)"

definition without :: "(string, pyval) dict \<Rightarrow> string list \<Rightarrow> (string, pyval) dict" where
  "without kw ks = filter (\<lambda>(k, v). k \<notin> set ks) kw"

definition lun_of :: "(string, pyval) dict \<Rightarrow> pyval list" where
  "lun_of kw = [kwget kw ''lun_address'', kwget kw ''lun_target'', kwget kw ''lun_id'', pop_or kw ''lun_port'' (PInt 3260)]"

text \<open>\<open>lun != (None, None, None, 3260)\<close>.\<close>

definition lun_given :: "(string, pyval) dict \<Rightarrow> bool" where
  "lun_given kw \<longleftrightarrow> \<not> list_all2 py_eq (lun_of kw) [PNone, PNone, PNone, PInt 3260]"

text \<open>The keywords taken away before the others go to the constructor of the disk.\<close>

definition disk_storage_keywords :: "string list" where
  "disk_storage_keywords = [''storagedomain'', ''lun_address'', ''lun_target'', ''lun_id'', ''lun_port'', ''lun_username'',
     ''lun_password'', ''type_'', ''storage_connection'', ''active'', ''update'']"

definition direct_lun :: "'w apis \<Rightarrow> (string, pyval) dict \<Rightarrow> exn + pyval" where
  "direct_lun A kw =
     (let user = kwget kw ''lun_username''; pw = kwget kw ''lun_password'' in
      res_bind (construct (new_object A ''LogicalUnit'') (zip [''address'', ''target'', ''id'', ''port''] (lun_of kw))) (\<lambda>x.
      let lu = (if user \<noteq> PNone \<or> pw \<noteq> PNone then setattr (setattr x ''username'' user) ''password'' pw else x) in
      res_bind (construct (new_object A ''LogicalUnits'') [(''logical_unit'', PList [lu])]) (\<lambda>lus.
      construct (new_object A ''HostStorage'') [(''logical_units'', lus), (''type_'', kwget kw ''type_'')])))"

definition with_quota :: "'w apis \<Rightarrow> pyval \<Rightarrow> pyval \<Rightarrow> exn + pyval" where
  "with_quota A quota_id disk =
     (if quota_id = PStr [] then Inr (setattr disk ''quota'' (new_object A ''Quota''))
      else if truthy quota_id then
        res_bind (construct (new_object A ''Quota'') [(''id'', quota_id)]) (\<lambda>q. Inr (setattr disk ''quota'' q))
      else Inr disk)"

text \<open>
  A storage connection together with a LUN is refused with None. Otherwise the disk is the one given
  as \<open>update\<close> or a new one made of the remaining keywords.
\<close>

definition prepareDiskObject :: "'w apis \<Rightarrow> (string, pyval) dict \<Rightarrow> ('w rest_st, pyval) comp" where
  "prepareDiskObject A kw =
     (let sd_name = kwget kw ''storagedomain''; connection = kwget kw ''storage_connection'' in
      if lun_given kw \<and> truthy connection then ret PNone
      else
        bindE (lift_res (if kwget kw ''update'' \<noteq> PNone then Inr (kwget kw ''update'')
                         else construct (new_object A ''Disk'') (without kw disk_storage_keywords))) (\<lambda>d1.
        let d2 = (if connection \<noteq> PNone
                  then setattr d1 ''lun_storage'' (setattr (new_object A ''HostStorage'') ''id'' connection) else d1) in
        bindE (if sd_name = PNone then ret d2
               else
                 bindE (find_by (STORAGE_API A) ''name'' sd_name) (\<lambda>sd.
                 bindE (lift_res (add_member ''storage_domain'' sd (new_object A ''StorageDomains''))) (\<lambda>sds.
                 ret (setattr d2 ''storage_domains'' sds)))) (\<lambda>d3.
        bindE (lift_res (with_quota A (kwget kw ''quota'') d3)) (\<lambda>d4.
        bindE (lift_res (if lun_given kw then res_bind (direct_lun A kw) (\<lambda>hs. Inr (setattr d4 ''lun_storage'' hs)) else Inr d4)) (\<lambda>d5.
        ret (set_true kw ''qcow_version'' (set_some kw ''description'' (set_true kw ''snapshot''
               (set_some kw ''read_only'' (set_true kw ''id'' d5))))))))))"

definition prepare_disk_attachment_object :: "'w apis \<Rightarrow> pyval \<Rightarrow> pyval \<Rightarrow> (string, pyval) dict \<Rightarrow> exn + pyval" where
  "prepare_disk_attachment_object A disk_id disk kw =
     res_bind (if truthy disk then Inr disk else prepare_ds_object (new_object A) ''Disk'' [(''id'', disk_id)]) (\<lambda>d.
     prepare_ds_object (new_object A) ''DiskAttachment'' ((''disk'', d) # kw))"

section \<open>Adding, changing and removing\<close>

definition addDisk :: "'w apis \<Rightarrow> bool \<Rightarrow> (string, pyval) dict \<Rightarrow> ('w rest_st, bool \<times> pyval) comp" where
  "addDisk A positive kw =
     bindE (prepareDiskObject A kw) (\<lambda>d.
     bindE (rest_create (DISK_API A) d positive create_default) (\<lambda>(disk, status).
     bindE (lift_res (if truthy disk \<and> class_name disk \<noteq> ''Fault'' then getattr disk ''id'' else Inr PNone)) (\<lambda>i.
     ret (status, i))))"

definition updateDisk :: "'w apis \<Rightarrow> bool \<Rightarrow> (string, pyval) dict \<Rightarrow> ('w rest_st, bool) comp" where
  "updateDisk A positive kw =
     (if \<not> truthy (kwget kw ''vmName'') then raise TypeError
      else
        (let vm_name = py_str (kwget kw ''vmName''); disk_id = kwget kw ''id''; alias = kwget kw ''alias'' in
        bindE (if truthy disk_id then getVmDisk A vm_name PNone disk_id
               else if truthy alias then getVmDisk A vm_name alias PNone
               else raise UnboundLocalError) (\<lambda>disk_object.
        bindE (lift_res (getattr disk_object ''id'')) (\<lambda>i.
        bindE (get_disk_attachment A vm_name i ''id'' ''vm'') (\<lambda>old.
        bindE (prepareDiskObject A (without kw [''vmName'', ''id'', ''interface'', ''bootable'', ''active''])) (\<lambda>new_disk.
        bindE (lift_res (prepare_disk_attachment_object A i new_disk
                 [(''interface'', kwget kw ''interface''), (''bootable'', kwget kw ''bootable''), (''active'', kwget kw ''active'')])) (\<lambda>new.
        bindE (rest_update (DISK_ATTACHMENTS_API A) old new positive update_default) (\<lambda>(_, status). ret status))))))))"

definition deleteDisk :: "'w apis \<Rightarrow> bool \<Rightarrow> pyval \<Rightarrow> pyval \<Rightarrow> ('w rest_st, bool) comp" where
  "deleteDisk A positive alias disk_id =
     bindE (if truthy disk_id then find_by (DISK_API A) ''id'' disk_id else find_by (DISK_API A) ''name'' alias) (\<lambda>d.
     delete_element (DISK_API A) d positive)"

definition attachDisk ::
  "'w apis \<Rightarrow> bool \<Rightarrow> pyval \<Rightarrow> string \<Rightarrow> pyval \<Rightarrow> pyval \<Rightarrow> pyval \<Rightarrow> pyval \<Rightarrow> pyval \<Rightarrow> ('w rest_st, bool) comp" where
  "attachDisk A positive alias vm_name active read_only disk_id interface bootable =
     bindE (if truthy disk_id then get_disk_obj A disk_id ''id'' else get_disk_obj A alias ''name'') (\<lambda>d.
     bindE (lift_res (getattr d ''id'')) (\<lambda>i.
     bindE (prepareDiskObject A [(''id'', i), (''read_only'', read_only)]) (\<lambda>updated.
     bindE (getObjDisks A vm_name True False) (\<lambda>vm_disks.
     bindE (lift_res (getattr updated ''id'')) (\<lambda>j.
     bindE (lift_res (prepare_disk_attachment_object A j updated
              [(''interface'', interface), (''bootable'', bootable), (''active'', active)])) (\<lambda>x.
     bindE (create_in (DISK_ATTACHMENTS_API A) x positive vm_disks [] False) (\<lambda>(_, status). ret status)))))))"

definition detachDisk :: "'w apis \<Rightarrow> bool \<Rightarrow> pyval \<Rightarrow> string \<Rightarrow> ('w rest_st, bool) comp" where
  "detachDisk A positive alias vmName =
     bindE (get_disk_attachment A vmName alias ''name'' ''vm'') (\<lambda>x. delete_element (DISK_ATTACHMENTS_API A) x positive)"

definition checkDiskExists :: "'w apis \<Rightarrow> bool \<Rightarrow> pyval \<Rightarrow> string \<Rightarrow> ('w rest_st, bool) comp" where
  "checkDiskExists A positive disk attr =
     try_except (bindE (find_by (DISK_API A) attr disk) (\<lambda>_. ret positive)) EntityNotFound (\<lambda>_. ret (\<not> positive))"

definition export_disk_to_glance ::
  "'w apis \<Rightarrow> bool \<Rightarrow> pyval \<Rightarrow> string \<Rightarrow> pyval \<Rightarrow> string \<Rightarrow> ('w rest_st, bool) comp" where
  "export_disk_to_glance A positive disk target_domain is_async attr =
     bindE (find_by (STORAGE_API A) ''name'' (PStr target_domain)) (\<lambda>sd.
     bindE (find_by (DISK_API A) attr disk) (\<lambda>d.
     bindE (syncAction (DISK_API A) d ''export'' positive (action_default\<lparr>aa_async := is_async, aa_params := [(''storage_domain'', sd)]\<rparr>)) (\<lambda>r.
     ret (truthy r))))"

section \<open>Waiting\<close>

text \<open>
  The disks of one listing that are asked for and have another status; for any other key the loop
  is left at its first disk.
\<close>

fun wrong_disks :: "string \<Rightarrow> pyval list \<Rightarrow> pyval \<Rightarrow> pyval list \<Rightarrow> exn + pyval list" where
  "wrong_disks key wanted status [] = Inr []"
| "wrong_disks key wanted status (d # ds) =
     (if key \<noteq> ''name'' \<and> key \<noteq> ''id'' then Inr []
      else
        res_bind (getattr d key) (\<lambda>k.
        res_bind (if \<exists>n \<in> set wanted. py_eq n k then res_bind (getattr d ''status'') (\<lambda>st. Inr (\<not> py_eq st status)) else Inr False) (\<lambda>wrong.
        res_bind (wrong_disks key wanted status ds) (\<lambda>l. Inr (if wrong then d # l else l)))))"

definition disks_round :: "string \<Rightarrow> pyval list \<Rightarrow> pyval \<Rightarrow> pyval \<Rightarrow> exn + bool option" where
  "disks_round key wanted status v =
     res_bind (py_iter v) (\<lambda>ds.
     res_bind (wrong_disks key wanted status ds) (\<lambda>wrong. Inr (if wrong = [] then Some True else None)))"

definition wait_for_disks_status ::
  "'w rest_st os_time \<Rightarrow> 'w apis \<Rightarrow> names_arg \<Rightarrow> string \<Rightarrow> pyval \<Rightarrow> int \<Rightarrow> int \<Rightarrow> 'w rest_st \<Rightarrow> ((exn + bool) \<times> 'w rest_st) option" where
  "wait_for_disks_status T A disks key status t s w =
     (case for_sample T (get_all_disks A) (\<lambda>v. lift_res (disks_round key (map PStr (names_of disks)) status v)) (API_TimeoutingSampler t s) w of
        None \<Rightarrow> None
      | Some (Inl e, s1, w1) \<Rightarrow> Some (if isinstance e APITimeout then Inr False else Inl e, w1)
      | Some (Inr b, s1, w1) \<Rightarrow> Some (Inr b, w1))"

definition waitForDisksGone ::
  "'w rest_st os_time \<Rightarrow> 'w apis \<Rightarrow> bool \<Rightarrow> names_arg \<Rightarrow> int \<Rightarrow> int \<Rightarrow> 'w rest_st \<Rightarrow> ((exn + bool) \<times> 'w rest_st) option" where
  "waitForDisksGone T A positive disksNames t s = waitUntilGone T (DISK_API A) positive disksNames t s ''alias''"

definition wait_for_disk_storage_domain ::
  "'w rest_st os_time \<Rightarrow> 'w apis \<Rightarrow> pyval \<Rightarrow> pyval \<Rightarrow> string \<Rightarrow> int \<Rightarrow> int \<Rightarrow> 'w rest_st \<Rightarrow> ((exn + unit) \<times> 'w rest_st) option" where
  "wait_for_disk_storage_domain T A disk storage_domain key t interval w =
     (case (if key = ''id'' then bindE (get_disk_obj A disk key) (\<lambda>d. lift_res (getattr d ''name'')) else ret disk) w of
        (Inl e, w1) \<Rightarrow> Some (Inl e, w1)
      | (Inr disk_name, w1) \<Rightarrow>
          (case for_sample T (get_disk_storage_domain_name A disk_name None None)
                  (\<lambda>x. ret (if py_eq x storage_domain then Some () else None)) (API_TimeoutingSampler t interval) w1 of
             None \<Rightarrow> None
           | Some (r, s1, w2) \<Rightarrow> Some (r, w2)))"

section \<open>Copying, moving and sparsifying\<close>

text \<open>
  The first listing of the target domain decides: a disk that is ok (for a move, the disk itself)
  makes it True, otherwise the loop returns False at once without another look.
\<close>

definition target_disk_ok :: "enums \<Rightarrow> string \<Rightarrow> pyval \<Rightarrow> pyval \<Rightarrow> exn + bool" where
  "target_disk_ok N action disk_id d =
     res_bind (if action = ''move'' then res_bind (getattr d ''id'') (\<lambda>i. Inr (py_eq disk_id i)) else Inr True) (\<lambda>same.
     if same then res_bind (getattr d ''status'') (\<lambda>st. Inr (py_eq st (PStr (N ''disk_state_ok'')))) else Inr False)"

definition target_round :: "enums \<Rightarrow> string \<Rightarrow> pyval \<Rightarrow> pyval \<Rightarrow> exn + bool option" where
  "target_round N action disk v =
     res_bind (getattr disk ''id'') (\<lambda>i.
     res_bind (py_iter v) (\<lambda>ds.
     res_bind (find_res (target_disk_ok N action i) ds) (\<lambda>found. Inr (Some (found \<noteq> None)))))"

definition start_disk_action ::
  "'w apis \<Rightarrow> string \<Rightarrow> pyval \<Rightarrow> string \<Rightarrow> pyval \<Rightarrow> bool \<Rightarrow> pyval \<Rightarrow> ('w rest_st, pyval \<times> bool) comp" where
  "start_disk_action A action disk_name target_domain disk_id positive new_disk_alias =
     bindE (find_by (STORAGE_API A) ''name'' (PStr target_domain)) (\<lambda>sd.
     bindE (if truthy disk_id then find_by (DISK_API A) ''id'' disk_id
            else if truthy disk_name then find_by (DISK_API A) ''name'' disk_name
            else raise ValueError) (\<lambda>disk.
     bindE (lift_res (getattr disk ''alias'')) (\<lambda>_.
     bindE (lift_res (getattr disk ''id'')) (\<lambda>_.
     bindE (lift_res (if truthy new_disk_alias \<and> action = ''copy''
                      then construct (new_object A ''Disk'') [(''alias'', new_disk_alias)] else Inr PNone)) (\<lambda>updated.
     bindE (syncAction (DISK_API A) disk action positive
              (action_default\<lparr>aa_params := [(''storage_domain'', sd), (''disk'', updated)]\<rparr>)) (\<lambda>r.
     ret (disk, truthy r)))))))"

definition do_disk_action ::
  "'w rest_st os_time \<Rightarrow> 'w apis \<Rightarrow> enums \<Rightarrow> string \<Rightarrow> pyval \<Rightarrow> string \<Rightarrow> pyval \<Rightarrow> bool \<Rightarrow> int \<Rightarrow> int \<Rightarrow> bool \<Rightarrow> pyval
   \<Rightarrow> 'w rest_st \<Rightarrow> ((exn + bool) \<times> 'w rest_st) option" where
  "do_disk_action T A N action disk_name target_domain disk_id wait t s positive new_disk_alias w =
     (case start_disk_action A action disk_name target_domain disk_id positive new_disk_alias w of
        (Inl e, w1) \<Rightarrow> Some (Inl e, w1)
      | (Inr (disk, ok), w1) \<Rightarrow>
          if \<not> ok then Some (Inr False, w1)
          else if wait \<and> positive then
            (case for_sample T (getStorageDomainDisks A target_domain False) (\<lambda>v. lift_res (target_round N action disk v)) (API_TimeoutingSampler t s) w1 of
               None \<Rightarrow> None
             | Some (r, s1, w2) \<Rightarrow> Some (r, w2))
          else Some (Inr True, w1))"

definition copy_disk ::
  "'w rest_st os_time \<Rightarrow> 'w apis \<Rightarrow> enums \<Rightarrow> pyval \<Rightarrow> string \<Rightarrow> pyval \<Rightarrow> bool \<Rightarrow> int \<Rightarrow> int \<Rightarrow> bool \<Rightarrow> pyval
   \<Rightarrow> 'w rest_st \<Rightarrow> ((exn + bool) \<times> 'w rest_st) option" where
  "copy_disk T A N = do_disk_action T A N ''copy''"

definition move_disk ::
  "'w rest_st os_time \<Rightarrow> 'w apis \<Rightarrow> enums \<Rightarrow> pyval \<Rightarrow> string \<Rightarrow> pyval \<Rightarrow> bool \<Rightarrow> int \<Rightarrow> int \<Rightarrow> bool \<Rightarrow> pyval
   \<Rightarrow> 'w rest_st \<Rightarrow> ((exn + bool) \<times> 'w rest_st) option" where
  "move_disk T A N = do_disk_action T A N ''move''"

definition quoted :: "string \<Rightarrow> string" where
  "quoted s = [CHR 0x22] @ s @ [CHR 0x22]"

definition wait_for_sparsify_event ::
  "'w rest_st os_time \<Rightarrow> 'w apis \<Rightarrow> pyval \<Rightarrow> bool \<Rightarrow> 'w rest_st \<Rightarrow> ((exn + bool) \<times> 'w rest_st) option" where
  "wait_for_sparsify_event T A disk_id success w =
     (case bindE (get_disk_obj A disk_id ''id'') (\<lambda>d.
           bindE (lift_res (getattr d ''name'')) (\<lambda>n.
           bindE (get_max_event_id (EVENT_API A) (quoted (''Started to sparsify '' @ py_str n)) MAX_EVENTS) (\<lambda>i.
           ret (n, i)))) w of
        (Inl e, w1) \<Rightarrow> Some (Inl e, w1)
      | (Inr (n, i), w1) \<Rightarrow>
          wait_for_event T (EVENT_API A)
            (if success then py_str n @ '' sparsified successfully'' else ''Failed to sparsify '' @ py_str n)
            (opt_int i) [] DEF_TIMEOUT_EVENTS 5 MAX_EVENTS w1)"

definition sparsify_disk ::
  "'w rest_st os_time \<Rightarrow> 'w apis \<Rightarrow> enums \<Rightarrow> pyval \<Rightarrow> string \<Rightarrow> bool \<Rightarrow> 'w rest_st \<Rightarrow> ((exn + bool) \<times> 'w rest_st) option" where
  "sparsify_disk T A N disk_id storage_domain_name wait w =
     (case do_disk_action T A N ''sparsify'' PNone storage_domain_name disk_id wait COPY_MOVE_DISK_TIMEOUT 10 True PNone w of
        None \<Rightarrow> None
      | Some (Inl e, w1) \<Rightarrow> Some (Inl e, w1)
      | Some (Inr ok, w1) \<Rightarrow>
          if \<not> ok then Some (Inr False, w1)
          else if wait then wait_for_sparsify_event T A disk_id True w1
          else Some (Inr True, w1))"

section \<open>Another storage domain for a disk\<close>

definition other_domain ::
  "enums \<Rightarrow> pyval \<Rightarrow> pyval \<Rightarrow> pyval \<Rightarrow> bool \<Rightarrow> pyval list \<Rightarrow> pyval \<Rightarrow> exn + bool" where
  "other_domain N disk_sd_id disk_sd_type storage_type force_type ignore_type sd =
     res_bind (getattr sd ''id'') (\<lambda>i.
     if py_eq i disk_sd_id then Inr False
     else
       res_bind (getattr sd ''status'') (\<lambda>st.
       if \<not> py_eq st (PStr (N ''storage_domain_state_active'')) then Inr False
       else
         res_bind (getattr sd ''type_'') (\<lambda>ty.
         if \<not> py_eq ty (PStr (N ''storage_dom_type_data'')) then Inr False
         else
           res_bind (getattr_chain [''storage'', ''type_''] sd) (\<lambda>sd_type.
           Inr (\<not> (truthy storage_type \<and> \<not> py_eq storage_type sd_type) \<and>
                \<not> (force_type \<and> \<not> py_eq disk_sd_type sd_type) \<and>
                \<not> (\<not> force_type \<and> is_one_of (if is_one_of (FILE_DEVICES N) disk_sd_type then FILE_DEVICES N else BLOCK_DEVICES N) sd_type) \<and>
                \<not> (\<exists>t \<in> set ignore_type. py_eq sd_type t))))))"

definition get_other_storage_domain ::
  "(pyval list \<Rightarrow> ('w rest_st, pyval) comp) \<Rightarrow> 'w apis \<Rightarrow> enums \<Rightarrow> pyval \<Rightarrow> string \<Rightarrow> pyval \<Rightarrow> bool \<Rightarrow> pyval list \<Rightarrow> string
   \<Rightarrow> ('w rest_st, pyval) comp" where
  "get_other_storage_domain choice A N disk vm_name storage_type force_type ignore_type key =
     bindE (if vm_name \<noteq> [] then if key = ''id'' then getVmDisk A vm_name PNone disk else getVmDisk A vm_name disk PNone
            else find_by (DISK_API A) key disk) (\<lambda>d.
     bindE (lift_res (storage_domain_id_of d)) (\<lambda>disk_sd_id.
     bindE (find_by (STORAGE_API A) ''id'' disk_sd_id) (\<lambda>disk_sd.
     bindE (lift_res (getattr_chain [''storage'', ''type_''] disk_sd)) (\<lambda>disk_sd_type.
     bindE (named_for_log d) (\<lambda>_.
     bindE (lift_res (getattr disk_sd ''name'')) (\<lambda>sd_name.
     bindE (get_sd_datacenter A (py_str sd_name)) (\<lambda>dc.
     bindE (linked_list (STORAGE_API A) dc [] []) (\<lambda>sds.
     bindE (lift_res (filter_res (other_domain N disk_sd_id disk_sd_type storage_type force_type ignore_type) sds)) (\<lambda>fit.
     bindE (lift_res (map_res (\<lambda>sd. getattr sd ''name'') fit)) (\<lambda>sd_list.
     if sd_list = [] then ret PNone else choice sd_list))))))))))"

section \<open>Combinations of format, interface and allocation\<close>

record disk_permutation =
  dp_format :: string
  dp_interface :: string
  dp_sparse :: bool

definition excluded_permutation :: "enums \<Rightarrow> bool \<Rightarrow> bool \<Rightarrow> string \<Rightarrow> bool \<Rightarrow> bool" where
  "excluded_permutation N block shared disk_format sparse \<longleftrightarrow>
     disk_format = N ''format_raw'' \<and> sparse \<and> block \<or>
     disk_format = N ''format_cow'' \<and> \<not> sparse \<or>
     shared \<and> disk_format = N ''format_cow'' \<or>
     \<not> sparse \<and> \<not> block"

definition get_all_disk_permutation :: "enums \<Rightarrow> bool \<Rightarrow> bool \<Rightarrow> string list \<Rightarrow> disk_permutation list" where
  "get_all_disk_permutation N block shared interfaces =
     concat (map (\<lambda>disk_format. concat (map (\<lambda>interface.
       concat (map (\<lambda>sparse.
         if excluded_permutation N block shared disk_format sparse then []
         else [\<lparr>dp_format = disk_format, dp_interface = interface, dp_sparse = sparse\<rparr>]) [True, False])) interfaces))
       [N ''format_cow'', N ''format_raw''])"

section \<open>The checksum of a disk\<close>

text \<open>The host that holds the disk and \<open>shlex.split\<close> are parameters.\<close>

record 's disk_host =
  lvchange :: "pyval \<Rightarrow> pyval \<Rightarrow> bool \<Rightarrow> ('s, unit) comp"
  run_words :: "string list \<Rightarrow> ('s, string) comp"

definition checksum_disk ::
  "(string \<Rightarrow> exn + string list) \<Rightarrow> (string \<Rightarrow> string \<Rightarrow> string \<Rightarrow> 'w rest_st disk_host) \<Rightarrow> 'w apis \<Rightarrow> enums
   \<Rightarrow> string \<Rightarrow> string \<Rightarrow> string \<Rightarrow> pyval \<Rightarrow> pyval \<Rightarrow> ('w rest_st, string) comp" where
  "checksum_disk shlex_split hosts A N hostname usr pw disk_object dc_obj =
     (let h = hosts hostname usr pw in
     bindE (lift_res (getattr disk_object ''image_id'')) (\<lambda>vol_id.
     bindE (lift_res (storage_domain_id_of disk_object)) (\<lambda>sd_id.
     bindE (lift_res (getattr disk_object ''id'')) (\<lambda>_.
     bindE (find_by (STORAGE_API A) ''id'' sd_id) (\<lambda>sd.
     bindE (lift_res (getattr dc_obj ''id'')) (\<lambda>_.
     bindE (lift_res (getattr sd ''type_'')) (\<lambda>ty.
     let block = is_one_of (BLOCK_DEVICES N) ty in
     bindE (if block then lvchange h sd_id vol_id True else ret ()) (\<lambda>_.
     bindE (bindE (lift_res (shlex_split (''lvs -o path | grep '' @ py_str vol_id))) (run_words h)) (\<lambda>vol_path.
     bindE (bindE (lift_res (shlex_split (''md5sum '' @ vol_path))) (run_words h)) (\<lambda>checksum.
     bindE (if block then lvchange h sd_id vol_id False else ret ()) (\<lambda>_.
     ret checksum)))))))))))"

section \<open>What the waits and the choices say\<close>

definition asked_for :: "string \<Rightarrow> pyval list \<Rightarrow> pyval \<Rightarrow> bool" where
  "asked_for key wanted d \<longleftrightarrow> (\<exists>k n. getattr d key = Inr k \<and> n \<in> set wanted \<and> py_eq n k)"

definition has_status :: "pyval \<Rightarrow> pyval \<Rightarrow> bool" where
  "has_status status d \<longleftrightarrow> (\<exists>st. getattr d ''status'' = Inr st \<and> py_eq st status)"

lemma wrong_disks_none:
  assumes "wrong_disks key wanted status ds = Inr []" and "key = ''name'' \<or> key = ''id''"
    and "d \<in> set ds" and "asked_for key wanted d"
  shows "has_status status d"
  using assms
  by (induction ds) (auto simp: res_bind_def asked_for_def has_status_def split: sum.splits if_splits)

lemma wrong_disks_raises: "wrong_disks key wanted status ds = Inl e \<Longrightarrow> e = AttributeError"
  by (induction ds) (auto simp: res_bind_def getattr_def split: sum.splits if_splits option.splits)

lemma py_iter_raises: "py_iter v = Inl e \<Longrightarrow> e = TypeError"
  by (cases v) auto

lemma disks_round_raises: "disks_round key wanted status v = Inl e \<Longrightarrow> \<not> isinstance e APITimeout"
  by (auto simp: disks_round_def res_bind_def isinstance_def dest!: wrong_disks_raises py_iter_raises split: sum.splits if_splits)

text \<open>
  Waiting for the status of disks always comes back. True means that in the last listing every disk
  asked for, by name or by id, had the status; a disk that is not listed does not count, and for any
  other key nothing is asked for. False means that the time was over, or that the listing timed out.
\<close>

theorem wait_for_disks_status_verdict:
  assumes "clock_laws T (server_time clk)" and "moves_on clk (srv (DISK_API A))" and "0 < s"
  shows "\<exists>r w'. wait_for_disks_status T A disks key status t s w = Some (r, w') \<and>
    (r = Inr True \<longrightarrow> (\<exists>v l ds. get_all_disks A v = (Inr l, w') \<and> py_iter l = Inr ds \<and>
       (key = ''name'' \<or> key = ''id'' \<longrightarrow> (\<forall>d \<in> set ds. asked_for key (map PStr (names_of disks)) d \<longrightarrow> has_status status d)))) \<and>
    (r = Inr False \<longrightarrow> server_time clk w + t < server_time clk w' \<or>
       (\<exists>v e. get_all_disks A v = (Inl e, w') \<and> isinstance e APITimeout))"
proof -
  let ?h = "disks_round key (map PStr (names_of disks)) status"
  have "never_back (server_time clk) (get_all_disks A)"
    unfolding get_all_disks_def get_all_def by (rule rest_get_moves_on [OF assms(2)])
  from wait_until_res [OF assms(1) this, of "API_TimeoutingSampler t s" ?h w] assms(3)
  obtain r s' w' where run: "for_sample T (get_all_disks A) (\<lambda>v. lift_res (?h v)) (API_TimeoutingSampler t s) w = Some (r, s', w')"
    and ok: "\<And>y. r = Inr y \<Longrightarrow> \<exists>v x. get_all_disks A v = (Inr x, w') \<and> ?h x = Inr (Some y)"
    and err: "\<And>e. r = Inl e \<Longrightarrow> (\<exists>v. get_all_disks A v = (Inl e, w')) \<or> (\<exists>v x. get_all_disks A v = (Inr x, w') \<and> ?h x = Inl e) \<or>
         e = APITimeout \<and> server_time clk w + t < server_time clk w'"
    by (fastforce split: sum.splits)
  show ?thesis
  proof (cases r)
    case (Inl e)
    with run have "wait_for_disks_status T A disks key status t s w = Some (if isinstance e APITimeout then Inr False else Inl e, w')"
      by (simp add: wait_for_disks_status_def)
    moreover have "isinstance e APITimeout \<Longrightarrow> server_time clk w + t < server_time clk w' \<or>
        (\<exists>v e. get_all_disks A v = (Inl e, w') \<and> isinstance e APITimeout)"
      using err [OF Inl] disks_round_raises by blast
    ultimately show ?thesis
      by (intro exI [of _ "if isinstance e APITimeout then Inr False else Inl e"] exI [of _ w']) auto
  next
    case (Inr y)
    with run have w: "wait_for_disks_status T A disks key status t s w = Some (Inr y, w')"
      by (simp add: wait_for_disks_status_def)
    from ok [OF Inr] obtain v x where x: "get_all_disks A v = (Inr x, w')" "?h x = Inr (Some y)" by blast
    then obtain ds where ds: "py_iter x = Inr ds" "wrong_disks key (map PStr (names_of disks)) status ds = Inr []" "y = True"
      by (auto simp: disks_round_def res_bind_def split: sum.splits if_splits)
    from w ds x(1) wrong_disks_none [OF ds(2)] show ?thesis by (intro exI [of _ "Inr y"] exI [of _ w']) auto
  qed
qed

text \<open>
  A copy, a move or a sparsify that was accepted is judged by one listing of the target domain, made
  at once: neither the timeout nor the pause between looks has any effect, so a disk still
  being copied gives False, and for a copy any disk of the domain that is ok gives True.
\<close>

theorem do_disk_action_looks_once:
  assumes "start_disk_action A action disk_name target_domain disk_id True new_disk_alias w = (Inr (disk, True), w1)"
  shows "do_disk_action T A N action disk_name target_domain disk_id True t s True new_disk_alias w =
    (case os_now T w1 of (_, w2) \<Rightarrow> case os_now T w2 of (_, w3) \<Rightarrow>
     case getStorageDomainDisks A target_domain False w3 of
       (Inl e, w4) \<Rightarrow> Some (Inl e, w4)
     | (Inr l, w4) \<Rightarrow> Some (res_bind (getattr disk ''id'') (\<lambda>i. res_bind (py_iter l) (\<lambda>ds.
         res_bind (find_res (target_disk_ok N action i) ds) (\<lambda>found. Inr (found \<noteq> None)))), w4))"
proof -
  have none: "target_round N action disk v \<noteq> Inr None" for v
    by (auto simp: target_round_def res_bind_def split: sum.splits)
  have "res_bind (target_round N action disk v) (\<lambda>y. Inr (the y)) =
      res_bind (getattr disk ''id'') (\<lambda>i. res_bind (py_iter v) (\<lambda>ds.
        res_bind (find_res (target_disk_ok N action i) ds) (\<lambda>found. Inr (found \<noteq> None))))" for v
    by (auto simp: target_round_def res_bind_def split: sum.splits)
  then show ?thesis using assms
    by (simp add: do_disk_action_def for_sample_once [OF _ none] split: prod.splits sum.splits)
qed

lemma other_domain_True:
  assumes "other_domain N i ty st force ign sd = Inr True"
  shows "\<exists>j sty. getattr sd ''id'' = Inr j \<and> \<not> py_eq j i \<and> has_status (PStr (N ''storage_domain_state_active'')) sd \<and>
    getattr_chain [''storage'', ''type_''] sd = Inr sty \<and> (truthy st \<longrightarrow> py_eq st sty) \<and> (force \<longrightarrow> py_eq ty sty) \<and> (\<forall>x \<in> set ign. \<not> py_eq sty x)"
  using assms by (auto simp: other_domain_def has_status_def res_bind_def simp del: getattr_chain.simps split: sum.splits if_splits)

text \<open>\<open>random.choice\<close> returns an element of the list.\<close>

definition chooses :: "(pyval list \<Rightarrow> ('s, pyval) comp) \<Rightarrow> bool" where
  "chooses choice \<longleftrightarrow> (\<forall>l v x v'. choice l v = (Inr x, v') \<longrightarrow> x \<in> set l)"

lemma map_res_mem: "map_res f xs = Inr ys \<Longrightarrow> y \<in> set ys \<Longrightarrow> \<exists>x \<in> set xs. f x = Inr y"
  by (induction xs arbitrary: ys) (auto split: sum.splits)

text \<open>
  Another storage domain for a disk is never its own: what is chosen is the name of an active domain
  of the same data center with another id, of the storage type asked for, of the disk's own
  storage type unless \<open>force_type\<close> is off, and of none of the types to ignore.
\<close>

theorem other_storage_domain_sound:
  assumes "get_other_storage_domain choice A N disk vm_name storage_type force_type ignore_type key s = (Inr n, s')"
    and "chooses choice"
    and "n \<noteq> PNone"
  shows "\<exists>d i own ty dc sds sd j sty.
    storage_domain_id_of d = Inr i \<and> (\<exists>v v'. find_by (STORAGE_API A) ''id'' i v = (Inr own, v')) \<and>
    getattr_chain [''storage'', ''type_''] own = Inr ty \<and>
    (\<exists>v v'. linked_list (STORAGE_API A) dc [] [] v = (Inr sds, v')) \<and> sd \<in> set sds \<and> getattr sd ''name'' = Inr n \<and>
    getattr sd ''id'' = Inr j \<and> \<not> py_eq j i \<and> has_status (PStr (N ''storage_domain_state_active'')) sd \<and>
    getattr_chain [''storage'', ''type_''] sd = Inr sty \<and> (truthy storage_type \<longrightarrow> py_eq storage_type sty) \<and>
    (force_type \<longrightarrow> py_eq ty sty) \<and> (\<forall>x \<in> set ignore_type. \<not> py_eq sty x)"
proof -
  from assms(1) obtain d i own v1 v2 ty dc sds v3 v4 fit names v5 where
    d: "storage_domain_id_of d = Inr i" "find_by (STORAGE_API A) ''id'' i v1 = (Inr own, v2)"
      "getattr_chain [''storage'', ''type_''] own = Inr ty"
      "linked_list (STORAGE_API A) dc [] [] v3 = (Inr sds, v4)"
    and fit: "filter_res (other_domain N i ty storage_type force_type ignore_type) sds = Inr fit"
    and names: "map_res (\<lambda>sd. getattr sd ''name'') fit = Inr names"
    and pick: "(if names = [] then ret PNone else choice names) v5 = (Inr n, s')"
    unfolding get_other_storage_domain_def
    by (elim bindE_InrE) (auto simp: lift_res_def simp del: getattr_chain.simps)
  from pick assms(2,3) have "n \<in> set names" by (auto simp: ret_def chooses_def split: if_splits)
  with map_res_mem [OF names] obtain sd where sd: "sd \<in> set fit" "getattr sd ''name'' = Inr n" by blast
  with fit have "sd \<in> set sds" "other_domain N i ty storage_type force_type ignore_type sd = Inr True"
    using filter_res_Inr [OF fit] by auto
  with other_domain_True [OF this(2)] d sd(2) show ?thesis by blast
qed

text \<open>
  The combinations of format, interface and allocation: copy-on-write disks are always sparse
  and never shared, raw disks are sparse exactly on file storage, and copy-on-write on either.
\<close>

theorem disk_permutations_exact:
  assumes "N ''format_raw'' \<noteq> N ''format_cow''"
  shows "set (get_all_disk_permutation N block shared interfaces) =
    {p. dp_interface p \<in> set interfaces \<and>
        (dp_format p = N ''format_cow'' \<and> dp_sparse p \<and> \<not> shared \<or> dp_format p = N ''format_raw'' \<and> dp_sparse p = (\<not> block))}"
  using assms by (auto simp: get_all_disk_permutation_def excluded_permutation_def split: if_splits)

section \<open>Witnesses\<close>

text \<open>A disk on the first of three storage domains; only the third one fits.\<close>

definition disk_elements :: "string \<Rightarrow> pyval list" where
  "disk_elements el =
     (let link = (\<lambda>rel. (''link'', PList [PObj ''Link'' [(''rel'', PStr rel), (''href'', PStr (''/api/x/'' @ rel))]]));
          sd = (\<lambda>n i st ty. PObj ''StorageDomain'' [(''name'', PStr n), (''id'', PStr i), (''status'', PStr st), (''type_'', PStr ''data''),
                 (''storage'', PObj ''HostStorage'' [(''type_'', PStr ty)]), link ''disks'']);
          d = PObj ''Disk'' [(''name'', PStr ''d1''), (''alias'', PStr ''d1''), (''id'', PStr ''i1''), (''status'', PStr ''ok''),
                (''storage_domains'', PObj ''StorageDomains'' [(''storage_domain'', PList [PObj ''StorageDomain'' [(''id'', PStr ''s1'')]])]),
                (''actions'', PObj ''Actions'' [(''link'', PList [PObj ''Link'' [(''rel'', PStr ''move''), (''href'', PStr ''/api/x/move'')]])])] in
      if el = ''storage_domain'' then [sd ''a'' ''s1'' ''active'' ''nfs'', sd ''b'' ''s2'' ''maintenance'' ''nfs'', sd ''c'' ''s3'' ''active'' ''nfs'']
      else if el = ''disk'' then [d]
      else [PObj ''DataCenter'' [(''name'', PStr ''dc''), (''id'', PStr ''d''), link ''storagedomains'']])"

definition disk_apis :: "nat apis" where
  "disk_apis el col = demo_rest\<lparr>srv := net_srv, element_name := el, collection_name := col, links := [(col, ''/api/'' @ col)],
     parse := (\<lambda>s. Inr (if contains s ''move'' then PObj ''Action'' [(''status'', PStr ''complete'')] else PObj [] [(el, PList (disk_elements el))]))\<rparr>"

definition disk_names :: enums where
  "disk_names k = (if k = ''storage_domain_state_active'' then ''active'' else if k = ''storage_dom_type_data'' then ''data''
     else if k = ''disk_state_ok'' then ''ok'' else k)"

theorem wait_for_disks_status_verdict_witness:
  "\<exists>r. wait_for_disks_status demo_clock disk_apis (Names_string ''d1'') ''name'' (PStr ''ok'') 180 5 demo_rest_st = Some r"
proof -
  have "moves_on int (srv (DISK_API disk_apis))"
    by (simp add: moves_on_def DISK_API_def disk_apis_def net_srv_def)
  from wait_for_disks_status_verdict [OF demo_clock_laws this, of 5] show ?thesis by fastforce
qed

definition first_choice :: "pyval list \<Rightarrow> ('s, pyval) comp" where
  "first_choice l = (case l of [] \<Rightarrow> raise IndexError | x # _ \<Rightarrow> ret x)"

lemma first_choice_in: "chooses first_choice"
  by (auto simp: chooses_def first_choice_def raise_def ret_def split: list.splits)

lemma demo_other_domain:
  "fst (get_other_storage_domain first_choice disk_apis disk_names (PStr ''d1'') [] PNone True [] ''name'' demo_rest_st) = Inr (PStr ''c'')"
  by code_simp

theorem other_storage_domain_sound_witness:
  "\<exists>d i. storage_domain_id_of d = Inr i"
proof -
  obtain s' where run: "get_other_storage_domain first_choice disk_apis disk_names (PStr ''d1'') [] PNone True [] ''name'' demo_rest_st = (Inr (PStr ''c''), s')"
    using demo_other_domain by (metis prod.collapse)
  from other_storage_domain_sound [OF run first_choice_in] show ?thesis by auto
qed

lemma demo_move: "map_sum id snd (fst (start_disk_action disk_apis ''move'' (PStr ''d1'') ''c'' PNone True PNone demo_rest_st)) = Inr True"
  by code_simp

theorem do_disk_action_looks_once_witness:
  "\<exists>w1 disk r. start_disk_action disk_apis ''move'' (PStr ''d1'') ''c'' PNone True PNone demo_rest_st = (Inr (disk, True), w1) \<and>
    do_disk_action demo_clock disk_apis disk_names ''move'' (PStr ''d1'') ''c'' PNone True 300 10 True PNone demo_rest_st = Some r"
proof -
  obtain disk w1 where w1: "start_disk_action disk_apis ''move'' (PStr ''d1'') ''c'' PNone True PNone demo_rest_st = (Inr (disk, True), w1)"
    using demo_move by (cases "start_disk_action disk_apis ''move'' (PStr ''d1'') ''c'' PNone True PNone demo_rest_st") (auto simp: map_sum_def split: sum.splits)
  from do_disk_action_looks_once [OF this] w1 show ?thesis by (auto split: prod.splits sum.splits)
qed

theorem disk_permutations_exact_witness:
  "\<lparr>dp_format = ''format_raw'', dp_interface = ''virtio'', dp_sparse = False\<rparr> \<in> set (get_all_disk_permutation (\<lambda>k. k) True True [''virtio''])"
  using disk_permutations_exact [of "\<lambda>k. k"] by simp

end
