(* ===== verification/Waiting.thy ===== *)
theory Waiting
  imports Permissions
begin

text \<open>
  Functions of the libraries that wait: a computation that may not come back, as the loops over a
  sampler in \<open>timeout.py\<close> are \<open>partial_function\<close>s. They are put together with the operations
  below, and the rules show that what is put together comes back when its parts do.
\<close>

section \<open>Computations that may not come back\<close>

type_synonym ('w, 'a) wcomp = "'w \<Rightarrow> ((exn + 'a) \<times> 'w) option"

definition run :: "('w, 'a) comp \<Rightarrow> ('w, 'a) wcomp" where
  "run m w = Some (m w)"

definition bindW :: "('w, 'a) wcomp \<Rightarrow> ('a \<Rightarrow> ('w, 'b) wcomp) \<Rightarrow> ('w, 'b) wcomp" where
  "bindW m f w =
     (case m w of
        None \<Rightarrow> None
      | Some (Inl e, w1) \<Rightarrow> Some (Inl e, w1)
      | Some (Inr x, w1) \<Rightarrow> f x w1)"

abbreviation retW :: "'a \<Rightarrow> ('w, 'a) wcomp" where "retW x \<equiv> run (ret x)"
abbreviation raiseW :: "exn \<Rightarrow> ('w, 'a) wcomp" where "raiseW e \<equiv> run (raise e)"

text \<open>\<open>try: m except c as e: h\<close>.\<close>

definition tryW :: "('w, 'a) wcomp \<Rightarrow> exn \<Rightarrow> (exn \<Rightarrow> ('w, 'a) wcomp) \<Rightarrow> ('w, 'a) wcomp" where
  "tryW m c h w =
     (case m w of
        None \<Rightarrow> None
      | Some (Inl e, w1) \<Rightarrow> if isinstance e c then h e w1 else Some (Inl e, w1)
      | Some (Inr x, w1) \<Rightarrow> Some (Inr x, w1))"

primrec eachW :: "'a list \<Rightarrow> ('a \<Rightarrow> 's \<Rightarrow> ('w, 's) wcomp) \<Rightarrow> 's \<Rightarrow> ('w, 's) wcomp" where
  "eachW [] f s = retW s"
| "eachW (x # xs) f s = bindW (f x s) (eachW xs f)"

text \<open>\<open>for x in TimeoutingSampler(t, s, f): ...\<close> with a body that only judges the sample.\<close>

definition sampling :: "'w os_time \<Rightarrow> ('w, 'a) comp \<Rightarrow> ('a \<Rightarrow> exn + 'r option) \<Rightarrow> int \<Rightarrow> int \<Rightarrow> ('w, 'r) wcomp" where
  "sampling T f h t s w =
     (case for_sample T f (\<lambda>x. lift_res (h x)) (API_TimeoutingSampler t s) w of
        None \<Rightarrow> None
      | Some (r, _, w1) \<Rightarrow> Some (r, w1))"

lemma run_Inr [simp]: "run m w = Some (r, w') \<longleftrightarrow> m w = (r, w')"
  by (simp add: run_def)

lemma bindW_InrE:
  assumes "bindW m f w = Some (Inr y, w')"
  obtains x w1 where "m w = Some (Inr x, w1)" and "f x w1 = Some (Inr y, w')"
  using assms by (auto simp: bindW_def split: option.splits prod.splits sum.splits)

lemma tryW_InrE:
  assumes "tryW m c h w = Some (Inr y, w')"
  obtains "m w = Some (Inr y, w')"
  | e w1 where "m w = Some (Inl e, w1)" and "isinstance e c" and "h e w1 = Some (Inr y, w')"
  using assms by (auto simp: tryW_def split: option.splits prod.splits sum.splits if_splits)

section \<open>Coming back\<close>

text \<open>It comes back, and not before it was called.\<close>

definition comes_back :: "('w \<Rightarrow> int) \<Rightarrow> ('w, 'a) wcomp \<Rightarrow> bool" where
  "comes_back clk m \<longleftrightarrow> (\<forall>w. \<exists>r w'. m w = Some (r, w') \<and> clk w \<le> clk w')"

named_theorems comes_back_intros "rules that show a computation comes back"

lemma comes_back_run [comes_back_intros]: "never_back clk m \<Longrightarrow> comes_back clk (run m)"
  by (auto simp: comes_back_def never_back_def run_def) (metis prod.collapse)

lemma comes_back_bindW [comes_back_intros]:
  assumes "comes_back clk m" and "\<And>x. comes_back clk (f x)"
  shows "comes_back clk (bindW m f)"
  unfolding comes_back_def
proof
  fix w
  obtain r w1 where m: "m w = Some (r, w1)" "clk w \<le> clk w1" using assms(1) unfolding comes_back_def by blast
  show "\<exists>r w'. bindW m f w = Some (r, w') \<and> clk w \<le> clk w'"
  proof (cases r)
    case (Inr x)
    obtain r' w2 where "f x w1 = Some (r', w2)" "clk w1 \<le> clk w2" using assms(2) unfolding comes_back_def by blast
    with m Inr show ?thesis by (auto simp: bindW_def)
  qed (use m in \<open>auto simp: bindW_def\<close>)
qed

lemma comes_back_tryW [comes_back_intros]:
  assumes "comes_back clk m" and "\<And>e. comes_back clk (h e)"
  shows "comes_back clk (tryW m c h)"
  unfolding comes_back_def
proof
  fix w
  obtain r w1 where m: "m w = Some (r, w1)" "clk w \<le> clk w1" using assms(1) unfolding comes_back_def by blast
  show "\<exists>r w'. tryW m c h w = Some (r, w') \<and> clk w \<le> clk w'"
  proof (cases r)
    case (Inl e)
    obtain r' w2 where "h e w1 = Some (r', w2)" "clk w1 \<le> clk w2" using assms(2) unfolding comes_back_def by blast
    with m Inl show ?thesis by (auto simp: tryW_def)
  qed (use m in \<open>auto simp: tryW_def\<close>)
qed

lemma comes_back_if [comes_back_intros]:
  "comes_back clk a \<Longrightarrow> comes_back clk b \<Longrightarrow> comes_back clk (if c then a else b)"
  by simp

lemma comes_back_eachW [comes_back_intros]:
  "(\<And>x s. comes_back clk (f x s)) \<Longrightarrow> comes_back clk (eachW xs f s)"
  by (induction xs arbitrary: s) (auto intro: comes_back_intros never_back_intros)

lemma sample_loop_never_back:
  assumes "clock_laws E clk" and "never_back clk f" and "\<And>x. never_back clk (body x)" and "0 \<le> sleep_interval s"
    and "start_time s = Some t0" and "sample_loop E f body s w = Some (r, s', w')"
  shows "clk w \<le> clk w'"
  using assms(6,4,5)
proof (induction rule: sample_loop_rule)
  case (sample_raises s w e s1 w1)
  then show ?case by (blast intro: take_sample_clock [OF assms(1,2)])
next
  case (body_raises s w x s1 w1 e w2)
  then show ?case
    using take_sample_clock [OF assms(1,2) body_raises(1)] never_backD [OF assms(3) body_raises(2)] by linarith
next
  case (leaves s w x s1 w1 r w2)
  then show ?case
    using take_sample_clock [OF assms(1,2) leaves(1)] never_backD [OF assms(3) leaves(2)] by linarith
next
  case (expires s w x s1 w1 w2 e w3)
  then have "clk w2 \<le> clk w3"
    using os_now_bounds [OF assms(1)] take_sample_fields [OF expires(1)]
    by (fastforce simp: after_yield_def split: prod.splits option.splits if_splits)
  then show ?case
    using take_sample_clock [OF assms(1,2) expires(1)] never_backD [OF assms(3) expires(2)] by linarith
next
  case (goes_on s w x s1 w1 w2 w3 r s' w')
  note f = take_sample_fields [OF goes_on(1)]
  have "clk w2 + sleep_interval s1 \<le> clk w3"
    using after_yield_goes_on [OF assms(1) _ _ goes_on(3), of t0] f goes_on(5,6) by auto
  moreover have "clk w3 \<le> clk w'" using goes_on(4) goes_on(5,6) f by auto
  ultimately show ?case
    using take_sample_clock [OF assms(1,2) goes_on(1)] never_backD [OF assms(3) goes_on(2)] f goes_on(5) by linarith
qed

lemma comes_back_sampling [comes_back_intros]:
  assumes "clock_laws T clk" and "never_back clk f" and "0 < s"
  shows "comes_back clk (sampling T f h t s)"
  unfolding comes_back_def
proof
  fix w
  let ?body = "\<lambda>x. lift_res (h x)" and ?s = "API_TimeoutingSampler t s"
  have nb: "never_back clk (?body x)" for x by (rule never_back_intros)
  have "\<exists>res. for_sample T f ?body ?s w = Some res"
    by (rule for_sample_ends [OF assms(1,2) nb]) (simp add: assms(3))
  then obtain res where res: "for_sample T f ?body ?s w = Some res" by blast
  obtain r s' w' where run: "for_sample T f ?body ?s w = Some (r, s', w')" using res by (metis prod_cases3)
  obtain t0 w1 where now: "os_now T w = (t0, w1)" by fastforce
  with run have loop: "sample_loop T f ?body (?s\<lparr>start_time := Some t0\<rparr>) w1 = Some (r, s', w')"
    by (simp add: for_sample_def begin_iteration_def)
  have "clk w1 \<le> clk w'"
    using sample_loop_never_back [OF assms(1,2) nb _ _ loop, of t0] assms(3) by simp
  with os_now_bounds [OF assms(1) now] run
  show "\<exists>r w'. sampling T f h t s w = Some (r, w') \<and> clk w \<le> clk w'" by (auto simp: sampling_def)
qed

text \<open>A loop over a sampler that returned normally stopped at its last sample.\<close>

lemma sampling_Inr:
  assumes "clock_laws T clk" and "sampling T f h t s w = Some (Inr y, w')"
  shows "\<exists>v x. f v = (Inr x, w') \<and> h x = Inr (Some y)"
proof -
  obtain t0 w1 where now: "os_now T w = (t0, w1)" by fastforce
  with assms(2) obtain s' where
    "sample_loop T f (\<lambda>x. lift_res (h x)) ((API_TimeoutingSampler t s)\<lparr>start_time := Some t0\<rparr>) w1 = Some (Inr y, s', w')"
    by (auto simp: sampling_def for_sample_def begin_iteration_def split: option.splits)
  from sample_loop_stops_res [OF assms(1) this, of t0] show ?thesis by simp
qed

lemma sampling_Inl:
  assumes "clock_laws T clk" and "sampling T f h t s w = Some (Inl e, w')"
  shows "(\<exists>v. f v = (Inl e, w')) \<or> (\<exists>v x. f v = (Inr x, w') \<and> h x = Inl e) \<or> e = APITimeout \<and> clk w + t < clk w'"
proof -
  obtain t0 w1 where now: "os_now T w = (t0, w1)" by fastforce
  with assms(2) obtain s' where
    "sample_loop T f (\<lambda>x. lift_res (h x)) ((API_TimeoutingSampler t s)\<lparr>start_time := Some t0\<rparr>) w1 = Some (Inl e, s', w')"
    by (auto simp: sampling_def for_sample_def begin_iteration_def split: option.splits)
  from sample_loop_stops_res [OF assms(1) this, of t0] os_now_bounds [OF assms(1) now] show ?thesis by auto
qed

section \<open>The requests of the backend\<close>

lemma never_back_res [never_back_intros]:
  "(\<And>x. never_back clk (f x)) \<Longrightarrow> (\<And>e. never_back clk (g e)) \<Longrightarrow> never_back clk (case r of Inl e \<Rightarrow> g e | Inr x \<Rightarrow> f x)"
  by (auto split: sum.split)

lemma never_back_option [never_back_intros]:
  "(\<And>x. never_back clk (f x)) \<Longrightarrow> never_back clk g \<Longrightarrow> never_back clk (case r of None \<Rightarrow> g | Some x \<Rightarrow> f x)"
  by (auto split: option.split)

lemma never_back_prod [never_back_intros]:
  "(\<And>x y. never_back clk (f x y)) \<Longrightarrow> never_back clk (case r of (x, y) \<Rightarrow> f x y)"
  by (auto split: prod.split)

lemma never_back_try [never_back_intros]:
  assumes "never_back clk m" and "\<And>e. never_back clk (h e)"
  shows "never_back clk (try_except m c h)"
  unfolding never_back_def
proof
  fix w
  obtain r w1 where m: "m w = (r, w1)" by fastforce
  with never_backD [OF assms(1) m] assms(2) show "clk w \<le> clk (snd (try_except m c h w))"
    by (cases r) (auto simp: try_except_def never_back_def intro: order_trans)
qed

lemma never_back_map_comp [never_back_intros]:
  "(\<And>x. never_back clk (f x)) \<Longrightarrow> never_back clk (map_comp f xs)"
  by (induction xs) (auto intro!: never_back_intros)

lemma never_back_headers [never_back_intros]: "never_back (server_time clk) (modify (upd_headers f))"
  and never_back_xsd [never_back_intros]: "never_back (server_time clk) (validateResponseViaXSD E u r)"
  by (simp_all add: never_back_def comp_simps server_time_def upd_headers_def validateResponseViaXSD_def)

lemma never_back_all_content [never_back_intros]:
  "never_back (server_time clk) m \<Longrightarrow> never_back (server_time clk) (all_content_context b m)"
  unfolding all_content_context_def by (intro never_back_intros)

text \<open>The server, the generator of correlation ids and the sleeping of a backend keep to one clock.\<close>

definition keeps_time :: "('w \<Rightarrow> int) \<Rightarrow> 'w rest_env \<Rightarrow> bool" where
  "keeps_time clk E \<longleftrightarrow> moves_on clk (srv E) \<and> (\<forall>w. clk w \<le> clk (snd (short_guid E w))) \<and>
     (\<forall>d w. 0 \<le> d \<longrightarrow> clk w \<le> clk (do_sleep E d w))"

lemma server_moves_on: "keeps_time clk E \<Longrightarrow> moves_on clk (srv E)"
  by (simp add: keeps_time_def)

lemma correlation_never_back:
  "keeps_time clk E \<Longrightarrow> never_back (server_time clk) m \<Longrightarrow> never_back (server_time clk) (correlationIdContext E p m)"
  unfolding correlationIdContext_def
proof (intro never_back_intros)
  show "never_back (server_time clk) (on_world (short_guid E))"
    if "keeps_time clk E" using that by (auto simp: never_back_def on_world_def server_time_def keeps_time_def split: prod.split) (metis snd_conv)
qed assumption

lemma send_never_back: "keeps_time clk E \<Longrightarrow> never_back (server_time clk) (send E q)"
  by (rule send_moves_on [OF server_moves_on])

lemma get_never_back: "keeps_time clk E \<Longrightarrow> never_back (server_time clk) (rest_get E href a)"
  by (rule rest_get_moves_on [OF server_moves_on])

lemma find_never_back: "keeps_time clk E \<Longrightarrow> never_back (server_time clk) (find_by E attribute v)"
  unfolding find_by_def by (rule rest_find_moves_on [OF server_moves_on])

lemma query_never_back: "keeps_time clk E \<Longrightarrow> never_back (server_time clk) (rest_query E constraint a)"
  by (rule query_moves_on [OF server_moves_on])

lemma get_all_never_back: "keeps_time clk E \<Longrightarrow> never_back (server_time clk) (get_all E)"
  unfolding get_all_def by (rule get_never_back)

lemma listed_never_back: "keeps_time clk E \<Longrightarrow> never_back (server_time clk) (listed E)"
  unfolding listed_def by (intro never_back_intros get_all_never_back)

lemma delete_never_back: "keeps_time clk E \<Longrightarrow> never_back (server_time clk) (rest_delete E x positive pos neg ops)"
  unfolding rest_delete_def Let_def by (intro never_back_intros correlation_never_back send_never_back)

lemma delete_element_never_back: "keeps_time clk E \<Longrightarrow> never_back (server_time clk) (delete_element E x positive)"
  unfolding delete_element_def by (rule delete_never_back)

lemma update_never_back: "keeps_time clk E \<Longrightarrow> never_back (server_time clk) (rest_update E x y positive a)"
  unfolding rest_update_def Let_def by (intro never_back_intros correlation_never_back send_never_back)

lemma create_never_back: "keeps_time clk E \<Longrightarrow> never_back (server_time clk) (rest_create E x positive a)"
  unfolding rest_create_def check_created_def Let_def
  by (intro never_back_intros correlation_never_back send_never_back get_never_back rest_find_moves_on [OF server_moves_on])

lemma action_never_back: "keeps_time clk E \<Longrightarrow> never_back (server_time clk) (syncAction E x action positive a)"
  unfolding syncAction_def check_action_def Let_def
  by (intro never_back_intros correlation_never_back send_never_back)

lemma link_never_back:
  assumes "keeps_time clk E"
  shows "never_back (server_time clk) (getElemFromLink E x link_name attr get_href all_content)"
proof -
  have "never_back (server_time clk) (follow_link E x l a b)" for l a b
    unfolding follow_link_def Let_def
    by (intro never_back_intros get_never_back [OF assms]) (auto split: pyval.split intro!: never_back_intros)
  then show ?thesis unfolding getElemFromLink_def by (intro never_back_intros)
qed

lemma linked_never_back: "keeps_time clk E \<Longrightarrow> never_back (server_time clk) (linked E x link_name attr)"
  and link_address_never_back: "keeps_time clk E \<Longrightarrow> never_back (server_time clk) (link_address E x link_name attr)"
  and linked_list_never_back: "keeps_time clk E \<Longrightarrow> never_back (server_time clk) (linked_list E x link_name attr)"
  unfolding linked_def link_address_def linked_list_def
  by (rule link_never_back, assumption)+ (intro never_back_intros link_never_back)

lemma elem_coll_never_back: "keeps_time clk E \<Longrightarrow> never_back (server_time clk) (rest_getElemFromElemColl E x n coll elm prop all_content)"
  unfolding rest_getElemFromElemColl_def getElemFromElemColl_def Let_def
  by (intro never_back_intros link_never_back) 

lemma wait_loop_never_back:
  assumes "keeps_time clk E"
  shows "never_back (server_time clk) (wait_loop E wanted limit ig elm t)"
proof (induction "nat (limit + 1 - t)" arbitrary: elm t rule: less_induct)
  case less
  have again: "\<not> limit < t \<Longrightarrow> never_back (server_time clk) (wait_loop E wanted limit ig e (t + DEF_SLEEP))" for e
    by (rule less) (simp add: DEF_SLEEP_def)
  have "never_back (server_time clk) (wait_pause E)"
    using assms by (auto simp: never_back_def wait_pause_def on_world_def server_time_def keeps_time_def DEF_SLEEP_def)
  moreover have "never_back (server_time clk) (refresh E elm)"
    unfolding refresh_def by (intro never_back_intros get_never_back [OF assms])
  ultimately show ?case
    by (subst wait_loop.simps) (auto intro!: never_back_intros again)
qed

lemma wait_status_never_back: "keeps_time clk E \<Longrightarrow> never_back (server_time clk) (waitForElemStatus E x status limit ig)"
  unfolding waitForElemStatus_def by (intro never_back_intros wait_loop_never_back)

text \<open>All the backends of a run keep to the clock of one engine.\<close>

definition apis_keep_time :: "('w \<Rightarrow> int) \<Rightarrow> 'w apis \<Rightarrow> bool" where
  "apis_keep_time clk A \<longleftrightarrow> (\<forall>e c. keeps_time clk (A e c))"

lemma apis_keep_timeD: "apis_keep_time clk A \<Longrightarrow> keeps_time clk (A e c)"
  by (simp add: apis_keep_time_def)

lemmas request_intros = server_moves_on correlation_never_back send_never_back get_never_back find_never_back
  query_never_back get_all_never_back listed_never_back delete_never_back delete_element_never_back
  update_never_back create_never_back action_never_back link_never_back linked_never_back
  link_address_never_back linked_list_never_back elem_coll_never_back wait_status_never_back

text \<open>The names the libraries give to their backends.\<close>

lemmas api_defs = HOST_API_def HOST_NICS_API_def NET_API_def CL_API_def DC_API_def QOS_API_def VNIC_PROFILE_API_def
  LABEL_API_def NF_API_def OPENSTACK_NETWORK_PROVIDER_API_def VM_API_def VM_POOL_API_def TEMPLATE_API_def STORAGE_API_def
  QUOTA_API_def USER_API_def ROLE_API_def PERMISSION_API_def DISK_API_def

lemma api_keeps_time:
  assumes "apis_keep_time clk A"
  shows "keeps_time clk (HOST_API A)" "keeps_time clk (CL_API A)" "keeps_time clk (DC_API A)" "keeps_time clk (NET_API A)"
    "keeps_time clk (VM_API A)" "keeps_time clk (TEMPLATE_API A)" "keeps_time clk (STORAGE_API A)" "keeps_time clk (DISK_API A)"
    "keeps_time clk (VM_POOL_API A)"
  using apis_keep_timeD [OF assms] by (simp_all add: api_defs)

end
