(* ===== verification/Storage_Domains.thy ===== *)
theory Storage_Domains
  imports Disks Waiting Instance_Types
begin

text \<open>
  \<open>art/rhevm_api/tests_lib/low_level/storagedomains.py\<close>: storage domains, their attachment to data
  centers, and their waits. The resolver of host names, the machine that mounts an export domain
  and the host of the image service are parameters.
\<close>

section \<open>Compatibility versions\<close>

definition get_cluster_compatibility_version :: "'w apis \<Rightarrow> pyval \<Rightarrow> ('w rest_st, pyval) comp" where
  "get_cluster_compatibility_version A cluster =
     bindE (try_except (bindE (find_by (CL_API A) ''name'' cluster) (\<lambda>c. ret (Some c))) EntityNotFound (\<lambda>_. ret None)) (\<lambda>found.
     case found of
       None \<Rightarrow> ret PNone
     | Some c \<Rightarrow>
         lift_res (res_bind (getattr_chain [''version'', ''major''] c) (\<lambda>major.
           res_bind (getattr_chain [''version'', ''minor''] c) (\<lambda>minor.
           Inr (PStr (py_str major @ ''.'' @ py_str minor))))))"

definition get_host_compatibility_version :: "'w apis \<Rightarrow> string \<Rightarrow> ('w rest_st, pyval) comp" where
  "get_host_compatibility_version A host =
     bindE (try_except (bindE (get_host_object A host ''name'') (\<lambda>h. ret (Some h))) EntityNotFound (\<lambda>_. ret None)) (\<lambda>found.
     case found of
       None \<Rightarrow> ret PNone
     | Some h \<Rightarrow>
         bindE (lift_res (getattr_chain [''cluster'', ''id''] h)) (\<lambda>cl_id.
         bindE (find_by (CL_API A) ''id'' cl_id) (\<lambda>c.
         bindE (lift_res (getattr c ''name'')) (get_cluster_compatibility_version A))))"

section \<open>The object of a storage domain\<close>

definition is_kind :: "enums \<Rightarrow> pyval \<Rightarrow> string \<Rightarrow> bool" where
  "is_kind N v k \<longleftrightarrow> v = PStr (N k)"

definition storage_format_for :: "enums \<Rightarrow> pyval \<Rightarrow> pyval \<Rightarrow> pyval" where
  "storage_format_for N storage_type version =
     PStr (N (if version = PStr ''2.2'' then ''storage_format_version_v1''
              else if version = PStr ''3.0'' then
                if is_kind N storage_type ''storage_type_iscsi'' then ''storage_format_version_v2'' else ''storage_format_version_v1''
              else ''storage_format_version_v3''))"

text \<open>The format of a data domain: as given, or by the version of the host; no version makes it None.\<close>

definition data_format :: "'w apis \<Rightarrow> enums \<Rightarrow> (string, pyval) dict \<Rightarrow> ('w rest_st, pyval option) comp" where
  "data_format A N kw =
     (let host = kwget kw ''host''; storage_format = kwget kw ''storage_format'' in
      if truthy host \<and> storage_format = PNone then
        bindE (get_host_compatibility_version A (py_str host)) (\<lambda>v.
        ret (if truthy v then Some (storage_format_for N (kwget kw ''storage_type'') v) else None))
      else ret (Some storage_format))"

definition host_storage :: "'w apis \<Rightarrow> (string, pyval) dict \<Rightarrow> string list \<Rightarrow> (string, pyval) dict \<Rightarrow> exn + pyval" where
  "host_storage A kw keys extra =
     construct (new_object A ''HostStorage'') ((''type_'', kwget kw ''storage_type'') # map (\<lambda>k. (k, kwget kw k)) keys @ extra)"

definition with_luns :: "'w apis \<Rightarrow> (string, pyval) dict \<Rightarrow> (string, pyval) dict list \<Rightarrow> exn + pyval" where
  "with_luns A kw luns =
     res_bind (map_res (construct (new_object A ''LogicalUnit'')) luns) (\<lambda>us.
     res_bind (foldl (\<lambda>r u. res_bind r (add_member ''logical_unit'' u)) (Inr (new_object A ''LogicalUnits'')) us) (\<lambda>lus.
     host_storage A kw [] [(''logical_units'', lus), (''override_luns'', kwget kw ''override_luns'')]))"

text \<open>The storage of the domain by its type; for an unknown type none is set.\<close>

definition domain_storage ::
  "(pyval \<Rightarrow> ('w rest_st, pyval) comp) \<Rightarrow> 'w apis \<Rightarrow> enums \<Rightarrow> (string, pyval) dict \<Rightarrow> ('w rest_st, pyval option) comp" where
  "domain_storage getIpAddressByHostName A N kw =
     (let kind = is_kind N (kwget kw ''storage_type''); lun = kwget kw ''lun''; address = kwget kw ''lun_address''; target = kwget kw ''lun_target'';
          done = (\<lambda>r. lift_res (res_bind r (\<lambda>x. Inr (Some x)))) in
      case map_of kw ''storage_connection'' of
        Some c \<Rightarrow> ret (Some (setattr (new_object A ''HostStorage'') ''id'' c))
      | None \<Rightarrow>
          if kind ''storage_type_local'' then done (host_storage A kw [''path''] [])
          else if kind ''storage_type_nfs'' then
            done (host_storage A kw [''path'', ''address'', ''nfs_version'', ''nfs_retrans'', ''nfs_timeo'', ''mount_options''] [])
          else if kind ''storage_type_iscsi'' then
            bindE (if truthy lun \<and> truthy address \<and> truthy target
                   then bindE (getIpAddressByHostName address) (\<lambda>a.
                        ret [[(''address'', a), (''target'', target), (''id'', lun), (''port'', kwget kw ''lun_port'')]])
                   else ret []) (\<lambda>luns. done (with_luns A kw luns))
          else if kind ''storage_type_fcp'' then done (with_luns A kw (if truthy lun then [[(''id'', lun)]] else []))
          else if kind ''storage_type_posixfs'' \<or> kind ''storage_type_gluster'' then
            done (host_storage A kw [''path'', ''address'', ''vfs_type'', ''mount_options''] [])
          else ret None)"

definition is_data_type :: "enums \<Rightarrow> pyval \<Rightarrow> exn + bool" where
  "is_data_type N ty =
     (if \<not> truthy ty then Inr False
      else case ty of PStr s \<Rightarrow> Inr (lower s = N ''storage_dom_type_data'') | _ \<Rightarrow> Inl AttributeError)"

definition prepareStorageDomainObject ::
  "(pyval \<Rightarrow> ('w rest_st, pyval) comp) \<Rightarrow> 'w apis \<Rightarrow> enums \<Rightarrow> (string, pyval) dict \<Rightarrow> ('w rest_st, pyval) comp" where
  "prepareStorageDomainObject R A N kw =
     (let ty = kwget kw ''type''; host = kwget kw ''host''; storage_type = kwget kw ''storage_type'';
          sd0 = set_if (truthy ty) ''type_'' ty (set_true kw ''description'' (set_true kw ''name'' (new_object A ''StorageDomain''))) in
     bindE (if truthy host then
              bindE (find_by (HOST_API A) ''name'' host) (\<lambda>h.
              bindE (lift_res (getattr h ''name'')) (\<lambda>n.
              bindE (lift_res (construct (new_object A ''Host'') [(''name'', n)])) (\<lambda>x. ret (setattr sd0 ''host'' x))))
            else ret sd0) (\<lambda>sd1.
     let sd2 = (if is_kind N storage_type ''storage_type_iscsi'' \<or> is_kind N storage_type ''storage_type_fcp''
                then set_some kw ''discard_after_delete'' sd1 else sd1) in
     bindE (lift_res (is_data_type N ty)) (\<lambda>data.
     bindE (if data then bindE (data_format A N kw) (\<lambda>f.
              ret (case f of None \<Rightarrow> None | Some v \<Rightarrow> Some (setattr sd2 ''storage_format'' v))) else ret (Some sd2)) (\<lambda>sd3.
     case sd3 of
       None \<Rightarrow> ret (PBool False)
     | Some x \<Rightarrow>
         bindE (domain_storage R A N kw) (\<lambda>st.
         ret (case st of None \<Rightarrow> x | Some v \<Rightarrow> setattr x ''storage'' v))))))"

section \<open>Adding, changing and attaching\<close>

definition addStorageDomain ::
  "(pyval \<Rightarrow> ('w rest_st, pyval) comp) \<Rightarrow> 'w apis \<Rightarrow> enums \<Rightarrow> bool \<Rightarrow> bool \<Rightarrow> (string, pyval) dict \<Rightarrow> ('w rest_st, bool) comp" where
  "addStorageDomain R A N positive wait kw =
     bindE (prepareStorageDomainObject R A N kw) (\<lambda>sd.
     try_except
       (bindE (rest_create (STORAGE_API A) sd positive
                 (create_default\<lparr>ca_async := \<not> wait, ca_operations := (if truthy (kwget kw ''format'') then [''format=true''] else [])\<rparr>))
          (\<lambda>(_, status). ret status))
       TypeError (\<lambda>_. ret (\<not> positive)))"

definition updateStorageDomain ::
  "(pyval \<Rightarrow> ('w rest_st, pyval) comp) \<Rightarrow> 'w apis \<Rightarrow> enums \<Rightarrow> bool \<Rightarrow> string \<Rightarrow> (string, pyval) dict \<Rightarrow> ('w rest_st, bool) comp" where
  "updateStorageDomain R A N positive storagedomain kw =
     bindE (get_storage_domain_obj A (PStr storagedomain) ''name'') (\<lambda>old.
     bindE (prepareStorageDomainObject R A N kw) (\<lambda>new. update_element (STORAGE_API A) old new positive))"

definition extendStorageDomain ::
  "(pyval \<Rightarrow> ('w rest_st, pyval) comp) \<Rightarrow> 'w apis \<Rightarrow> enums \<Rightarrow> bool \<Rightarrow> string \<Rightarrow> (string, pyval) dict \<Rightarrow> ('w rest_st, bool) comp" where
  "extendStorageDomain R A N positive storagedomain kw =
     bindE (get_storage_domain_obj A (PStr storagedomain) ''name'') (\<lambda>old.
     bindE (prepareStorageDomainObject R A N kw) (\<lambda>new. update_element (STORAGE_API A) old new positive))"

definition getDCStorages :: "'w apis \<Rightarrow> string \<Rightarrow> bool \<Rightarrow> ('w rest_st, pyval) comp" where
  "getDCStorages A datacenter get_href =
     bindE (find_by (DC_API A) ''name'' (PStr datacenter)) (\<lambda>dc. getElemFromLink (STORAGE_API A) dc [] [] get_href False)"

definition getDCStorage :: "'w apis \<Rightarrow> string \<Rightarrow> string \<Rightarrow> ('w rest_st, pyval) comp" where
  "getDCStorage A datacenter storagedomain =
     bindE (find_by (DC_API A) ''name'' (PStr datacenter)) (\<lambda>dc.
     rest_getElemFromElemColl (STORAGE_API A) dc (PStr storagedomain) [] [] ''name'' False)"

text \<open>The collection handed to \<open>waitForElemStatus\<close> is its fourth parameter, \<open>ignoreFinalStates\<close>, and true.\<close>

definition attachStorageDomain :: "'w apis \<Rightarrow> bool \<Rightarrow> string \<Rightarrow> string \<Rightarrow> bool \<Rightarrow> bool \<Rightarrow> ('w rest_st, bool) comp" where
  "attachStorageDomain A positive datacenter storagedomain wait compare =
     bindE (get_storage_domain_obj A (PStr storagedomain) ''name'') (\<lambda>sd.
     bindE (lift_res (getattr sd ''id'')) (\<lambda>i.
     bindE (lift_res (construct (new_object A ''StorageDomain'') [(''id'', i)])) (\<lambda>x.
     bindE (getDCStorages A datacenter True) (\<lambda>href.
     bindE (lift_res (if truthy href then as_string href else Inr [])) (\<lambda>c.
     bindE (rest_create (STORAGE_API A) x positive (create_default\<lparr>ca_collection := c, ca_async := \<not> wait, ca_compare := compare\<rparr>)) (\<lambda>(_, status).
     if status \<and> positive \<and> wait then
       bindE (find_by (DC_API A) ''name'' (PStr datacenter)) (\<lambda>dc. waitForElemStatus (DC_API A) dc ''UP'' 60 True)
     else ret status))))))"

definition detachStorageDomain :: "'w apis \<Rightarrow> bool \<Rightarrow> string \<Rightarrow> string \<Rightarrow> ('w rest_st, bool) comp" where
  "detachStorageDomain A positive datacenter storagedomain =
     bindE (getDCStorage A datacenter storagedomain) (\<lambda>sd. delete_element (STORAGE_API A) sd positive)"

text \<open>Both waits return or raise APITimeout; the \<open>return\<close> after their loops is never reached.\<close>

definition wait_for_storage_domain_available_size ::
  "'w rest_st os_time \<Rightarrow> 'w apis \<Rightarrow> string \<Rightarrow> string \<Rightarrow> int \<Rightarrow> int \<Rightarrow> ('w rest_st, bool) wcomp" where
  "wait_for_storage_domain_available_size T A datacenter storagedomain t interval =
     sampling T (bindE (getDCStorage A datacenter storagedomain) (\<lambda>sd.
                 bindE (lift_res (getattr sd ''available'')) (\<lambda>a. ret (truthy a))))
       (\<lambda>size. Inr (if size then Some True else None)) t interval"

definition wait_for_storage_domain_status ::
  "'w rest_st os_time \<Rightarrow> 'w apis \<Rightarrow> bool \<Rightarrow> string \<Rightarrow> string \<Rightarrow> string \<Rightarrow> int \<Rightarrow> int \<Rightarrow> ('w rest_st, bool) wcomp" where
  "wait_for_storage_domain_status T A positive data_center_name storage_domain_name expected_status t s =
     sampling T (getDCStorage A data_center_name storage_domain_name)
       (\<lambda>sd. res_bind (getattr sd ''status'') (\<lambda>st. Inr (if py_eq st (PStr expected_status) then Some positive else None))) t s"

definition domain_action :: "'w apis \<Rightarrow> pyval \<Rightarrow> string \<Rightarrow> bool \<Rightarrow> bool \<Rightarrow> ('w rest_st, bool) comp" where
  "domain_action A sd action positive wait =
     bindE (syncAction (STORAGE_API A) sd action positive (action_default\<lparr>aa_async := PStr (if wait then ''false'' else ''true'')\<rparr>))
       (\<lambda>r. ret (truthy r))"

definition activateStorageDomain ::
  "config_st \<Rightarrow> 'w rest_st os_time \<Rightarrow> 'w apis \<Rightarrow> enums \<Rightarrow> bool \<Rightarrow> string \<Rightarrow> string \<Rightarrow> bool \<Rightarrow> ('w rest_st, bool) wcomp" where
  "activateStorageDomain c T A N positive datacenter storagedomain wait =
     bindW (run (getDCStorage A datacenter storagedomain)) (\<lambda>sd.
     bindW (run (if positive then validateElementStatus c (STORAGE_API A) (DC_API A) ''storagedomain'' storagedomain ''active'' (Some datacenter)
                 else ret False)) (\<lambda>already.
     if already then retW True
     else
       bindW (run (domain_action A sd ''activate'' positive wait)) (\<lambda>status.
       if status \<and> positive \<and> wait then
         wait_for_storage_domain_status T A True datacenter storagedomain (N ''storage_domain_state_active'') 180 10
       else retW status)))"

definition deactivateStorageDomain ::
  "'w rest_st os_time \<Rightarrow> 'w apis \<Rightarrow> enums \<Rightarrow> bool \<Rightarrow> string \<Rightarrow> string \<Rightarrow> bool \<Rightarrow> ('w rest_st, bool) wcomp" where
  "deactivateStorageDomain T A N positive datacenter storagedomain wait =
     bindW (run (getDCStorage A datacenter storagedomain)) (\<lambda>sd.
     bindW (run (domain_action A sd ''deactivate'' positive wait)) (\<lambda>status.
     if status \<and> positive \<and> wait then
       wait_for_storage_domain_status T A True datacenter storagedomain (N ''storage_domain_state_maintenance'') 300 10
     else retW status))"

section \<open>ISCSI and import\<close>

definition iscsiDiscover :: "'w apis \<Rightarrow> bool \<Rightarrow> string \<Rightarrow> pyval \<Rightarrow> ('w rest_st, string list option) comp" where
  "iscsiDiscover A positive host address =
     bindE (find_by (HOST_API A) ''name'' (PStr host)) (\<lambda>h.
     bindE (lift_res (construct (new_object A ''IscsiDetails'') [(''address'', address)])) (\<lambda>iscsi.
     bindE (syncAction (HOST_API A) h ''iscsidiscover'' positive (action_default\<lparr>aa_params := [(''iscsi'', iscsi)]\<rparr>)) (\<lambda>r.
     case r of
       PStr b \<Rightarrow> ret (extract_attribute b ''iscsi_target'')
     | PNone \<Rightarrow> ret None
     | _ \<Rightarrow> raise TypeError)))"

fun log_in_each :: "'w apis \<Rightarrow> bool \<Rightarrow> pyval \<Rightarrow> pyval \<Rightarrow> pyval \<Rightarrow> (pyval \<times> pyval) list \<Rightarrow> ('w rest_st, bool) comp" where
  "log_in_each A positive h username pw [] = ret True"
| "log_in_each A positive h username pw ((address, target) # rest) =
     bindE (lift_res (construct (new_object A ''IscsiDetails'')
              [(''address'', address), (''target'', target), (''username'', username), (''password'', pw)])) (\<lambda>iscsi.
     bindE (syncAction (HOST_API A) h ''iscsilogin'' positive (action_default\<lparr>aa_params := [(''iscsi'', iscsi)]\<rparr>)) (\<lambda>r.
     if truthy r then log_in_each A positive h username pw rest else ret False))"

definition iscsiLogin ::
  "'w apis \<Rightarrow> bool \<Rightarrow> string \<Rightarrow> pyval list \<Rightarrow> pyval list \<Rightarrow> pyval \<Rightarrow> pyval \<Rightarrow> ('w rest_st, bool) comp" where
  "iscsiLogin A positive host addresses targets username pw =
     bindE (find_by (HOST_API A) ''name'' (PStr host)) (\<lambda>h. log_in_each A positive h username pw (zip addresses targets))"

definition removeStorageDomain :: "'w apis \<Rightarrow> bool \<Rightarrow> string \<Rightarrow> string \<Rightarrow> string \<Rightarrow> bool \<Rightarrow> bool \<Rightarrow> ('w rest_st, bool) comp" where
  "removeStorageDomain A positive storagedomain host format destroy force =
     bindE (get_storage_domain_obj A (PStr storagedomain) ''name'') (\<lambda>sd.
     rest_delete (STORAGE_API A) sd positive [200, 202, 204] NEGATIVE_CODES
       ([''host='' @ host, ''format='' @ format] @ (if destroy then [''destroy=true''] else []) @ (if force then [''force=true''] else [])))"

text \<open>The machine mounts the export domain and runs one command in it.\<close>

definition cleanExportDomainMetadata ::
  "(string \<Rightarrow> (string \<Rightarrow> string list) \<Rightarrow> ('s, bool \<times> string) comp) \<Rightarrow> string \<Rightarrow> string \<Rightarrow> ('s, bool \<times> string) comp" where
  "cleanExportDomainMetadata run_mounted address path =
     run_mounted (address @ '':'' @ path) (\<lambda>mounted_path.
       [''sed'', ''-i'', ''-e'', ''s/^POOL_UUID=.*/POOL_UUID=/'', ''-e'', ''/^_SHA_CKSUM=/ d'',
        ''$(find '' @ mounted_path @ '' -name metadata)''])"

definition importStorageDomain ::
  "(string \<Rightarrow> (string \<Rightarrow> string list) \<Rightarrow> ('w rest_st, bool \<times> string) comp) \<Rightarrow> 'w apis \<Rightarrow> bool \<Rightarrow> (string, pyval) dict \<Rightarrow> ('w rest_st, bool) comp" where
  "importStorageDomain run_mounted A positive p =
     bindE (if truthy (kwget p ''clean_export_domain_metadata'')
            then bindE (cleanExportDomainMetadata run_mounted (py_str (kwget p ''address'')) (py_str (kwget p ''path''))) (\<lambda>_. ret ())
            else ret ()) (\<lambda>_.
     bindE (lift_res (host_storage A p [''address'', ''path'', ''nfs_version'', ''nfs_retrans'', ''nfs_timeo'', ''vfs_type'', ''mount_options''] [])) (\<lambda>st.
     bindE (lift_res (construct (new_object A ''Host'') [(''name'', kwget p ''host'')])) (\<lambda>h.
     bindE (lift_res (construct (new_object A ''StorageDomain'') [(''type_'', kwget p ''type''), (''host'', h), (''storage'', st)])) (\<lambda>sd.
     create_element (STORAGE_API A) (set_true p ''storage_format'' sd) positive))))"

section \<open>Removing many\<close>

definition get_storage_domains :: "'w apis \<Rightarrow> ('w rest_st, pyval) comp" where
  "get_storage_domains A = get_all (STORAGE_API A)"

text \<open>
  The first part of \<open>removeStorageDomains\<close>: in every data center the named domains that are not
  the master are deactivated and detached. The pair is (status, detach_status).
\<close>

definition detach_one ::
  "'w rest_st os_time \<Rightarrow> 'w apis \<Rightarrow> enums \<Rightarrow> bool \<Rightarrow> string list \<Rightarrow> pyval \<Rightarrow> pyval \<Rightarrow> bool \<times> bool \<Rightarrow> ('w rest_st, bool \<times> bool) wcomp" where
  "detach_one T A N positive names dc sd st =
     bindW (run (lift_res (getattr sd ''name''))) (\<lambda>n.
     if \<not> is_one_of names n then retW st
     else
       bindW (run (lift_res (getattr sd ''master''))) (\<lambda>master.
       if truthy master then retW st
       else
         bindW (run (lift_res (getattr dc ''name''))) (\<lambda>dn.
         bindW (deactivateStorageDomain T A N positive (py_str dn) (py_str n) True) (\<lambda>deactivated.
         if deactivated then
           bindW (run (detachStorageDomain A positive (py_str dn) (py_str n))) (\<lambda>detached. retW (fst st \<and> detached, detached))
         else retW (False, snd st)))))"

fun remove_listed :: "'w apis \<Rightarrow> bool \<Rightarrow> string list \<Rightarrow> string \<Rightarrow> string \<Rightarrow> pyval list \<Rightarrow> bool \<Rightarrow> ('w rest_st, bool) comp" where
  "remove_listed A positive names host format [] status = ret status"
| "remove_listed A positive names host format (sd # sds) status =
     bindE (lift_res (getattr sd ''name'')) (\<lambda>n.
     if is_one_of names n then
       bindE (removeStorageDomain A positive (py_str n) host format False False) (\<lambda>ok. remove_listed A positive names host format sds (status \<and> ok))
     else remove_listed A positive names host format sds status)"

definition removeStorageDomains ::
  "'w rest_st os_time \<Rightarrow> 'w apis \<Rightarrow> enums \<Rightarrow> bool \<Rightarrow> names_arg \<Rightarrow> string \<Rightarrow> string \<Rightarrow> ('w rest_st, bool) wcomp" where
  "removeStorageDomains T A N positive storagedomains host format =
     (let names = (case storagedomains of Names_string s \<Rightarrow> split_on s '','' | Names_list l \<Rightarrow> l) in
     bindW (run (listed (DC_API A))) (\<lambda>dcs.
     bindW (eachW dcs (\<lambda>dc st.
              bindW (run (linked_list (STORAGE_API A) dc [] [])) (\<lambda>sds. eachW sds (detach_one T A N positive names dc) st)) (True, False)) (\<lambda>st.
     bindW (run (bindE (get_storage_domains A) (\<lambda>v. lift_res (py_iter v)))) (\<lambda>sds.
     run (remove_listed A positive names host format sds (fst st))))))"

text \<open>Success is None, for the last line is missing its \<open>return True\<close>.\<close>

fun delete_disks :: "'w apis \<Rightarrow> pyval list \<Rightarrow> ('w rest_st, bool) comp" where
  "delete_disks A [] = ret True"
| "delete_disks A (i # is) = bindE (deleteDisk A True PNone i) (\<lambda>ok. if ok then delete_disks A is else ret False)"

definition remove_floating_disks :: "'w rest_st os_time \<Rightarrow> 'w apis \<Rightarrow> enums \<Rightarrow> pyval \<Rightarrow> ('w rest_st, pyval) wcomp" where
  "remove_floating_disks T A N storage_domain =
     bindW (run (lift_res (getattr storage_domain ''name''))) (\<lambda>n.
     bindW (run (getStorageDomainDisks A (py_str n) False)) (\<lambda>v.
     bindW (run (lift_res (res_bind (py_iter v) (filter_res (\<lambda>d. res_bind (getattr d ''name'') (\<lambda>m. Inr (m \<noteq> PStr (N ''ovf_disk_alias'')))))))) (\<lambda>ds.
     if ds = [] then retW PNone
     else
       bindW (run (lift_res (map_res (\<lambda>d. getattr d ''id'') ds))) (\<lambda>ids.
       bindW (run (lift_res (map_res (\<lambda>d. getattr d ''alias'') ds))) (\<lambda>aliases.
       bindW (run (delete_disks A ids)) (\<lambda>ok.
       if \<not> ok then retW (PBool False)
       else
         bindW (waitForDisksGone T A True (Names_string (join '','' (map py_str aliases))) DEFAULT_DISK_TIMEOUT 10) (\<lambda>gone.
         retW (if gone then PNone else PBool False))))))))"

fun remove_storage_domains :: "'w apis \<Rightarrow> enums \<Rightarrow> string \<Rightarrow> string \<Rightarrow> string \<Rightarrow> pyval list \<Rightarrow> ('w rest_st, bool) comp" where
  "remove_storage_domains A N host format_export format_iso [] = ret True"
| "remove_storage_domains A N host format_export format_iso (sd # sds) =
     bindE (lift_res (getattr sd ''name'')) (\<lambda>n.
     bindE (try_except (bindE (get_storage_domain_obj A n ''name'') (\<lambda>_. ret True)) EntityNotFound (\<lambda>_. ret False)) (\<lambda>there.
     if \<not> there then remove_storage_domains A N host format_export format_iso sds
     else
       bindE (lift_res (getattr sd ''type_'')) (\<lambda>ty.
       let format = (if is_kind N ty ''storage_dom_type_export'' then format_export
                     else if is_kind N ty ''storage_dom_type_iso'' then format_iso else ''True'') in
       bindE (removeStorageDomain A True (py_str n) host format False False) (\<lambda>ok.
       if ok then remove_storage_domains A N host format_export format_iso sds else ret False))))"

section \<open>The domains of a data center\<close>

definition names_where :: "(pyval \<Rightarrow> exn + bool) \<Rightarrow> pyval \<Rightarrow> exn + pyval list" where
  "names_where p v = res_bind (py_iter v) (\<lambda>l. res_bind (filter_res p l) (map_res (\<lambda>sd. getattr sd ''name'')))"

definition typed :: "enums \<Rightarrow> string \<Rightarrow> pyval \<Rightarrow> exn + bool" where
  "typed N k sd = res_bind (getattr sd ''type_'') (\<lambda>ty. Inr (is_kind N ty k))"

definition findNonMasterStorageDomains :: "'w apis \<Rightarrow> enums \<Rightarrow> bool \<Rightarrow> string \<Rightarrow> ('w rest_st, bool \<times> pyval) comp" where
  "findNonMasterStorageDomains A N positive datacenter =
     bindE (getDCStorages A datacenter False) (\<lambda>v.
     bindE (lift_res (names_where (\<lambda>sd. res_bind (typed N ''storage_dom_type_data'' sd) (\<lambda>d.
              if d then res_bind (getattr sd ''master'') (\<lambda>m. Inr (\<not> truthy m)) else Inr False)) v)) (\<lambda>names.
     ret (if names \<noteq> [] \<and> positive then (positive, PList names) else (\<not> positive, PStr []))))"

definition domains_of :: "'w apis \<Rightarrow> string option \<Rightarrow> ('w rest_st, pyval) comp" where
  "domains_of A datacenter = (if truthy_opt datacenter then getDCStorages A (str_opt datacenter) False else get_storage_domains A)"

definition findIsoStorageDomains :: "'w apis \<Rightarrow> enums \<Rightarrow> string option \<Rightarrow> ('w rest_st, pyval list) comp" where
  "findIsoStorageDomains A N datacenter =
     bindE (domains_of A datacenter) (\<lambda>v. lift_res (names_where (typed N ''storage_dom_type_iso'') v))"

definition findExportStorageDomains :: "'w apis \<Rightarrow> enums \<Rightarrow> string option \<Rightarrow> ('w rest_st, pyval list) comp" where
  "findExportStorageDomains A N datacenter =
     bindE (domains_of A datacenter) (\<lambda>v. lift_res (names_where (typed N ''storage_dom_type_export'') v))"

definition is_master :: "enums \<Rightarrow> pyval \<Rightarrow> exn + bool" where
  "is_master N sd =
     res_bind (typed N ''storage_dom_type_data'' sd) (\<lambda>d.
     if d then res_bind (getattr sd ''master'') (\<lambda>m. Inr (py_eq m (PBool True) \<or> m = PStr ''true'')) else Inr False)"

text \<open>Without exactly one master its name is a blank, which is true.\<close>

definition findMasterStorageDomain :: "'w apis \<Rightarrow> enums \<Rightarrow> string \<Rightarrow> ('w rest_st, bool \<times> pyval) comp" where
  "findMasterStorageDomain A N datacenter =
     bindE (getDCStorages A datacenter False) (\<lambda>v.
     bindE (lift_res (res_bind (py_iter v) (filter_res (is_master N)))) (\<lambda>masters.
     case masters of
       [m] \<Rightarrow> bindE (lift_res (getattr m ''name'')) (\<lambda>n. ret (True, n))
     | _ \<Rightarrow> ret (False, PStr '' '')))"

definition get_master_storage_domain_name :: "'w apis \<Rightarrow> enums \<Rightarrow> string \<Rightarrow> ('w rest_st, pyval) comp" where
  "get_master_storage_domain_name A N datacenter_name =
     bindE (findMasterStorageDomain A N datacenter_name) (\<lambda>(rc, master).
     if rc then ret master else raise (TestExc StorageDomainException))"

definition deactivate_master_storage_domain ::
  "config_st \<Rightarrow> 'w rest_st os_time \<Rightarrow> 'w apis \<Rightarrow> enums \<Rightarrow> bool \<Rightarrow> string \<Rightarrow> ('w rest_st, bool) wcomp" where
  "deactivate_master_storage_domain c T A N positive datacenter =
     bindW (run (findMasterStorageDomain A N datacenter)) (\<lambda>(status, master).
     if truthy master then
       bindW (run (validateElementStatus c (STORAGE_API A) (DC_API A) ''storagedomain'' (py_str master) ''active'' (Some datacenter))) (\<lambda>active.
       if active then
         bindW (deactivateStorageDomain T A N positive datacenter (py_str master) True) (\<lambda>ok. retW (status \<and> ok))
       else retW status)
     else retW status)"

section \<open>Reading storage domains\<close>

definition get_storage_domain_storage_type :: "'w apis \<Rightarrow> pyval \<Rightarrow> ('w rest_st, pyval) comp" where
  "get_storage_domain_storage_type A storage_domain =
     bindE (get_storage_domain_obj A storage_domain ''name'') (\<lambda>sd. lift_res (getattr_chain [''storage'', ''type_''] sd))"

definition get_storage_domain_logical_units :: "'w apis \<Rightarrow> enums \<Rightarrow> pyval \<Rightarrow> string \<Rightarrow> ('w rest_st, pyval) comp" where
  "get_storage_domain_logical_units A N storage_domain attribute =
     bindE (get_storage_domain_storage_type A storage_domain) (\<lambda>ty.
     if \<not> is_one_of (BLOCK_DEVICES N) ty then raise AssertionError
     else
       bindE (get_storage_domain_obj A storage_domain attribute) (\<lambda>sd.
       lift_res (getattr_chain [''storage'', ''volume_group'', ''logical_units'', ''logical_unit''] sd)))"

definition unit_members :: "'w apis \<Rightarrow> enums \<Rightarrow> pyval \<Rightarrow> string \<Rightarrow> string \<Rightarrow> ('w rest_st, pyval list) comp" where
  "unit_members A N storage_domain attribute member =
     bindE (get_storage_domain_logical_units A N storage_domain attribute) (\<lambda>v.
     lift_res (res_bind (py_iter v) (map_res (\<lambda>u. getattr u member))))"

definition get_storage_domain_luns_ids :: "'w apis \<Rightarrow> enums \<Rightarrow> pyval \<Rightarrow> string \<Rightarrow> ('w rest_st, pyval list) comp" where
  "get_storage_domain_luns_ids A N storage_domain attribute = unit_members A N storage_domain attribute ''id''"

definition get_storage_domain_luns_serials :: "'w apis \<Rightarrow> enums \<Rightarrow> pyval \<Rightarrow> string \<Rightarrow> ('w rest_st, pyval list) comp" where
  "get_storage_domain_luns_serials A N storage_domain attribute = unit_members A N storage_domain attribute ''serial''"

definition getDomainAddress :: "'w apis \<Rightarrow> enums \<Rightarrow> bool \<Rightarrow> pyval \<Rightarrow> ('w rest_st, bool \<times> pyval) comp" where
  "getDomainAddress A N positive storage_domain =
     try_except
       (bindE (get_storage_domain_storage_type A storage_domain) (\<lambda>ty.
        if ty = PStr ''iscsi'' then
          bindE (unit_members A N storage_domain ''name'' ''address'') (\<lambda>l. ret (positive, PList l))
        else
          bindE (get_storage_domain_obj A storage_domain ''name'') (\<lambda>sd.
          bindE (lift_res (getattr_chain [''storage'', ''address''] sd)) (\<lambda>a. ret (positive, PList [a])))))
       EntityNotFound (\<lambda>_. ret (\<not> positive, PStr []))"

text \<open>For a domain that is not iSCSI the function logs and returns nothing.\<close>

definition get_iscsi_storage_domin_addresses :: "'w apis \<Rightarrow> enums \<Rightarrow> pyval \<Rightarrow> ('w rest_st, pyval) comp" where
  "get_iscsi_storage_domin_addresses A N storage_domain =
     try_except
       (bindE (get_storage_domain_storage_type A storage_domain) (\<lambda>ty.
        if ty = PStr ''iscsi'' then bindE (unit_members A N storage_domain ''name'' ''address'') (\<lambda>l. ret (PList l)) else ret PNone))
       EntityNotFound (\<lambda>_. ret (PList []))"

definition get_iso_domain_files :: "'w apis \<Rightarrow> pyval \<Rightarrow> ('w rest_st, pyval) comp" where
  "get_iso_domain_files A iso_domain_name =
     bindE (get_storage_domain_obj A iso_domain_name ''name'') (\<lambda>sd. linked (STORAGE_API A) sd ''files'' ''file'')"

definition checkIfStorageDomainExist :: "'w apis \<Rightarrow> bool \<Rightarrow> pyval \<Rightarrow> ('w rest_st, bool) comp" where
  "checkIfStorageDomainExist A positive storagedomain =
     bindE (get_storage_domains A) (\<lambda>v.
     bindE (lift_res (res_bind (py_iter v) (filter_res (name_is storagedomain)))) (\<lambda>l.
     ret ((length l = 1) = positive)))"

definition checkStorageFormatVersion :: "'w apis \<Rightarrow> bool \<Rightarrow> pyval \<Rightarrow> pyval \<Rightarrow> ('w rest_st, bool) comp" where
  "checkStorageFormatVersion A positive storagedomain version =
     bindE (get_storage_domain_obj A storagedomain ''name'') (\<lambda>sd.
     bindE (lift_res (getattr sd ''storage_format'')) (\<lambda>f. ret (py_eq f version = positive)))"

definition getObjList :: "'w apis \<Rightarrow> pyval \<Rightarrow> string \<Rightarrow> ('w rest_st, pyval) comp" where
  "getObjList A sd coll = linked (STORAGE_API A) sd coll (butlast coll)"

definition is_storage_domain_active :: "'w apis \<Rightarrow> enums \<Rightarrow> string \<Rightarrow> string \<Rightarrow> ('w rest_st, bool) comp" where
  "is_storage_domain_active A N datacenter domain =
     bindE (try_except (bindE (getDCStorage A datacenter domain) (\<lambda>sd. ret (Some sd))) EntityNotFound (\<lambda>_. ret None)) (\<lambda>found.
     case found of
       None \<Rightarrow> ret False
     | Some sd \<Rightarrow> bindE (lift_res (getattr sd ''status'')) (\<lambda>st. ret (is_kind N st ''storage_domain_state_active'')))"

definition getConnectionsForStorageDomain :: "'w apis \<Rightarrow> pyval \<Rightarrow> ('w rest_st, pyval) comp" where
  "getConnectionsForStorageDomain A storagedomain =
     bindE (get_storage_domain_obj A storagedomain ''name'') (\<lambda>sd. linked (STORAGE_CONNECTION_API A) sd [] [])"

definition addConnectionToStorageDomain :: "'w apis \<Rightarrow> pyval \<Rightarrow> pyval \<Rightarrow> ('w rest_st, bool) comp" where
  "addConnectionToStorageDomain A storagedomain conn_id =
     bindE (get_storage_domain_obj A storagedomain ''name'') (\<lambda>sd.
     bindE (find_by (STORAGE_CONNECTION_API A) ''id'' conn_id) (\<lambda>conn.
     bindE (link_address (STORAGE_API A) sd ''storageconnections'' ''storage_connection'') (\<lambda>href.
     bindE (create_in (STORAGE_CONNECTION_API A) conn True href [] True) (\<lambda>(_, status). ret status))))"

definition detachConnectionFromStorageDomain :: "'w apis \<Rightarrow> pyval \<Rightarrow> pyval \<Rightarrow> ('w rest_st, bool) comp" where
  "detachConnectionFromStorageDomain A storagedomain conn_id =
     bindE (get_storage_domain_obj A storagedomain ''name'') (\<lambda>sd.
     bindE (linked_list (STORAGE_API A) sd ''storageconnections'' ''storage_connection'') (\<lambda>conns.
     bindE (lift_res (find_res (id_is conn_id) conns)) (\<lambda>found.
     case found of
       None \<Rightarrow> ret False
     | Some c \<Rightarrow>
         bindE (lift_res (getattr sd ''href'')) (\<lambda>h.
         delete_element (STORAGE_API A) (setattr c ''href'' (PStr (py_str h @ ''/storageconnections/'' @ py_str conn_id))) True))))"

definition domain_member :: "'w apis \<Rightarrow> pyval \<Rightarrow> string \<Rightarrow> ('w rest_st, pyval) comp" where
  "domain_member A storagedomain a = bindE (get_storage_domain_obj A storagedomain ''name'') (\<lambda>sd. lift_res (getattr sd a))"

definition get_allocated_size :: "'w apis \<Rightarrow> pyval \<Rightarrow> ('w rest_st, pyval) comp" where
  "get_allocated_size A storagedomain = domain_member A storagedomain ''committed''"

definition get_free_space :: "'w apis \<Rightarrow> pyval \<Rightarrow> ('w rest_st, pyval) comp" where
  "get_free_space A storagedomain = domain_member A storagedomain ''available''"

definition get_used_size :: "'w apis \<Rightarrow> pyval \<Rightarrow> ('w rest_st, pyval) comp" where
  "get_used_size A storagedomain = domain_member A storagedomain ''used''"

definition get_discard_after_delete :: "'w apis \<Rightarrow> pyval \<Rightarrow> string \<Rightarrow> ('w rest_st, pyval) comp" where
  "get_discard_after_delete A storage_domain attribute =
     bindE (get_storage_domain_obj A storage_domain attribute) (\<lambda>sd. lift_res (getattr sd ''discard_after_delete''))"

definition get_total_size :: "'w rest_st os_time \<Rightarrow> 'w apis \<Rightarrow> string \<Rightarrow> string option \<Rightarrow> ('w rest_st, int option) wcomp" where
  "get_total_size T A storagedomain data_center =
     bindW (case data_center of
              None \<Rightarrow> retW True
            | Some dc \<Rightarrow> wait_for_storage_domain_available_size T A dc storagedomain 60 5) (\<lambda>there.
     if \<not> there then retW None
     else
       run (bindE (get_storage_domain_obj A (PStr storagedomain) ''name'') (\<lambda>sd.
            bindE (lift_res (getattr sd ''available'')) (\<lambda>a.
            bindE (lift_res (getattr sd ''used'')) (\<lambda>u.
            case (num_of a, num_of u) of (Some m, Some n) \<Rightarrow> ret (Some (m + n)) | _ \<Rightarrow> raise TypeError)))))"

definition unregistered :: "'w apis \<Rightarrow> pyval \<Rightarrow> string \<Rightarrow> string \<Rightarrow> ('w rest_st, pyval) comp" where
  "unregistered A storage_domain coll member =
     bindE (domain_member A storage_domain ''href'') (\<lambda>h.
     bindE (rest_get (STORAGE_API A) (Some (py_str h @ ''/'' @ coll @ '';unregistered'')) get_default) (\<lambda>v. lift_res (getattr v member)))"

definition get_unregistered_vms :: "'w apis \<Rightarrow> pyval \<Rightarrow> ('w rest_st, pyval) comp" where
  "get_unregistered_vms A storage_domain = unregistered A storage_domain ''vms'' ''vm''"

definition get_unregistered_templates :: "'w apis \<Rightarrow> pyval \<Rightarrow> ('w rest_st, pyval) comp" where
  "get_unregistered_templates A storage_domain = unregistered A storage_domain ''templates'' ''template''"

text \<open>\<open>reassign_bad_macs\<close> is True unless given; the mappings are set only when there are some.\<close>

definition register_object ::
  "'w apis \<Rightarrow> pyval \<Rightarrow> pyval \<Rightarrow> pyval \<Rightarrow> network_mapping list \<Rightarrow> pyval \<Rightarrow> ('w rest_st, bool) comp" where
  "register_object A x cluster reassign_bad_macs network_mappings partial_import =
     bindE (lift_res (construct (new_object A ''Cluster'') [(''name'', cluster)])) (\<lambda>cl.
     let conf = new_object A ''RegistrationConfiguration'' in
     bindE (if network_mappings = [] then ret conf
            else bindE (prepare_vnic_profile_mappings_object A network_mappings) (\<lambda>(m, _). ret (setattr conf ''vnic_profile_mappings'' m))) (\<lambda>conf'.
     bindE (syncAction (STORAGE_API A) x ''register'' True
              (action_default\<lparr>aa_params := [(''cluster'', cl), (''reassign_bad_macs'', reassign_bad_macs),
                 (''registration_configuration'', conf'), (''allow_partial_import'', partial_import)]\<rparr>)) (\<lambda>r. ret (truthy r))))"

definition get_storagedomain_names :: "'w apis \<Rightarrow> ('w rest_st, pyval list) comp" where
  "get_storagedomain_names A = bindE (get_storage_domains A) (\<lambda>v. lift_res (names_where (\<lambda>_. Inr True) v))"

definition get_storagedomain_objects :: "'w apis \<Rightarrow> ('w rest_st, pyval) comp" where
  "get_storagedomain_objects A = get_all (STORAGE_API A)"

definition get_storage_domains_by_type :: "'w apis \<Rightarrow> pyval \<Rightarrow> ('w rest_st, pyval list) comp" where
  "get_storage_domains_by_type A storage_domain_type =
     bindE (get_storage_domains A) (\<lambda>v.
     lift_res (res_bind (py_iter v) (filter_res (\<lambda>sd. res_bind (getattr sd ''type_'') (\<lambda>ty. Inr (py_eq ty storage_domain_type))))))"

definition get_nfs_version :: "'w apis \<Rightarrow> enums \<Rightarrow> pyval \<Rightarrow> ('w rest_st, pyval) comp" where
  "get_nfs_version A N storage_domain =
     bindE (get_storage_domain_storage_type A storage_domain) (\<lambda>ty.
     if \<not> is_kind N ty ''storage_type_nfs'' then ret (PStr [])
     else bindE (get_storage_domain_obj A storage_domain ''name'') (\<lambda>sd. lift_res (getattr_chain [''storage'', ''nfs_version''] sd)))"

section \<open>Storage domains of a storage type\<close>

fun posix_type :: "enums \<Rightarrow> pyval list \<Rightarrow> exn + pyval" where
  "posix_type N [] = Inr PNone"
| "posix_type N (c # cs) =
     res_bind (getattr c ''type_'') (\<lambda>ty. if is_kind N ty ''storage_type_posixfs'' then getattr c ''vfs_type'' else posix_type N cs)"

definition get_posix_backend_type :: "'w apis \<Rightarrow> enums \<Rightarrow> pyval \<Rightarrow> ('w rest_st, pyval) comp" where
  "get_posix_backend_type A N storagedomain_name =
     bindE (get_storage_domain_obj A storagedomain_name ''name'') (\<lambda>sd.
     bindE (linked_list (STORAGE_CONNECTION_API A) sd ''storageconnections'' []) (\<lambda>cs. lift_res (posix_type N cs)))"

definition validate_domain_storage_type :: "'w apis \<Rightarrow> enums \<Rightarrow> pyval \<Rightarrow> pyval \<Rightarrow> ('w rest_st, bool) comp" where
  "validate_domain_storage_type A N sd storage_type =
     bindE (lift_res (getattr sd ''status'')) (\<lambda>state.
     bindE (lift_res (getattr sd ''type_'')) (\<lambda>sd_type.
     bindE (lift_res (getattr_chain [''storage'', ''type_''] sd)) (\<lambda>st.
     if is_kind N sd_type ''storage_dom_type_data'' \<or> is_kind N sd_type ''storage_dom_type_cinder'' then
       if py_eq st storage_type then bindE (lift_res (getattr sd ''name'')) (\<lambda>n. ret (n \<noteq> PStr ''hosted_storage''))
       else if is_kind N st ''storage_type_posixfs'' \<and> is_kind N state ''storage_domain_state_active'' \<and>
               (is_kind N storage_type ''storage_type_ceph'' \<or> is_kind N storage_type ''storage_type_nfs'') then
         bindE (lift_res (getattr sd ''name'')) (\<lambda>n. bindE (get_posix_backend_type A N n) (\<lambda>b. ret (py_eq storage_type b)))
       else ret False
     else ret False)))"

definition name_if_active ::
  "'w rest_st os_time \<Rightarrow> 'w apis \<Rightarrow> enums \<Rightarrow> string \<Rightarrow> pyval \<Rightarrow> pyval \<Rightarrow> pyval list \<Rightarrow> ('w rest_st, pyval list) wcomp" where
  "name_if_active T A N datacenter_name storage_type sd names =
     bindW (run (validate_domain_storage_type A N sd storage_type)) (\<lambda>ok.
     if \<not> ok then retW names
     else
       bindW (run (lift_res (getattr sd ''status''))) (\<lambda>st.
       bindW (run (lift_res (getattr sd ''name''))) (\<lambda>n.
       if is_kind N st ''storage_domain_state_active'' then retW (names @ [n])
       else if is_kind N st ''storage_domain_state_maintenance'' then retW names
       else
         tryW (bindW (wait_for_storage_domain_status T A True datacenter_name (py_str n) (N ''storage_domain_state_active'') 120 1)
                 (\<lambda>_. retW (names @ [n])))
           APITimeout (\<lambda>_. retW names))))"

definition getStorageDomainNamesForType ::
  "'w rest_st os_time \<Rightarrow> 'w apis \<Rightarrow> enums \<Rightarrow> string \<Rightarrow> pyval \<Rightarrow> ('w rest_st, pyval list) wcomp" where
  "getStorageDomainNamesForType T A N datacenter_name storage_type =
     bindW (run (bindE (getDCStorages A datacenter_name False) (\<lambda>v. lift_res (py_iter v)))) (\<lambda>sds.
     eachW sds (name_if_active T A N datacenter_name storage_type) [])"

section \<open>Images\<close>

definition get_storage_domain_images :: "'w apis \<Rightarrow> pyval \<Rightarrow> ('w rest_st, pyval) comp" where
  "get_storage_domain_images A storage_domain_name =
     bindE (get_storage_domain_obj A storage_domain_name ''name'') (\<lambda>sd. linked (STORAGE_API A) sd ''images'' ''image'')"

definition verify_image_exists_in_storage_domain :: "'w apis \<Rightarrow> pyval \<Rightarrow> pyval \<Rightarrow> ('w rest_st, bool) comp" where
  "verify_image_exists_in_storage_domain A storage_domain_name image_name =
     bindE (get_storage_domain_images A storage_domain_name) (\<lambda>v.
     bindE (lift_res (names_where (\<lambda>_. Inr True) v)) (\<lambda>names. ret (\<exists>n \<in> set names. py_eq image_name n)))"

record GlanceImage =
  image_name :: pyval
  glance_repository_name :: pyval
  imported_disk_name :: "string option"
  imported_template_name :: "string option"
  disk_status :: pyval
  destination_storage_domain :: pyval
  is_imported_as_template :: pyval
  glance_timeout :: int

definition new_GlanceImage :: "pyval \<Rightarrow> pyval \<Rightarrow> int \<Rightarrow> GlanceImage" where
  "new_GlanceImage n repository t =
     \<lparr>image_name = n, glance_repository_name = repository, imported_disk_name = None, imported_template_name = None,
      disk_status = PNone, destination_storage_domain = PNone, is_imported_as_template = PNone, glance_timeout = t\<rparr>"

definition is_import_success ::
  "'w rest_st os_time \<Rightarrow> 'w apis \<Rightarrow> enums \<Rightarrow> GlanceImage \<Rightarrow> int option \<Rightarrow> ('w rest_st, GlanceImage \<times> bool) wcomp" where
  "is_import_success T A N g t =
     (case imported_disk_name g of
        None \<Rightarrow> retW (g, False)
      | Some n \<Rightarrow>
          bindW (wait_for_disks_status T A (Names_list [n]) ''name'' (PStr (N ''disk_state_ok''))
                   (case t of None \<Rightarrow> glance_timeout g | Some i \<Rightarrow> if i = 0 then glance_timeout g else i) DEFAULT_SLEEP) (\<lambda>ok.
          retW (if ok then (g\<lparr>disk_status := PStr (N ''disk_state_ok'')\<rparr>, True) else (g, False))))"

definition import_image ::
  "'w rest_st os_time \<Rightarrow> 'w apis \<Rightarrow> enums \<Rightarrow> GlanceImage \<Rightarrow> pyval \<Rightarrow> pyval \<Rightarrow> string option \<Rightarrow> string option \<Rightarrow> bool \<Rightarrow> bool \<Rightarrow> bool
   \<Rightarrow> ('w rest_st, GlanceImage \<times> pyval) wcomp" where
  "import_image T A N g0 destination cluster_name new_disk_alias new_template_name as_template is_async return_response_body =
     (let g = g0\<lparr>destination_storage_domain := destination, is_imported_as_template := PBool as_template,
                 imported_disk_name := new_disk_alias, imported_template_name := new_template_name\<rparr>;
          optional = (\<lambda>cls n. if truthy_opt n then construct (new_object A cls) [(''name'', PStr (str_opt n))] else Inr PNone) in
     bindW (run (bindE (get_storage_domain_obj A (glance_repository_name g) ''name'') (\<lambda>source.
       bindE (lift_res (construct (new_object A ''StorageDomain'') [(''name'', destination)])) (\<lambda>dst.
       bindE (linked_list (STORAGE_API A) source ''images'' ''image'') (\<lambda>images.
       bindE (lift_res (res_bind (filter_res (name_is (image_name g)) images) (\<lambda>l. first_of (PList l)))) (\<lambda>image.
       bindE (lift_res (construct (new_object A ''Cluster'') [(''name'', cluster_name)])) (\<lambda>cl.
       bindE (lift_res (optional ''Disk'' new_disk_alias)) (\<lambda>disk.
       bindE (lift_res (optional ''Template'' new_template_name)) (\<lambda>template.
       syncAction (STORAGE_API A) image ''import'' True
         (action_default\<lparr>aa_async := PBool is_async, aa_params := [(''storage_domain'', dst), (''cluster'', cl),
            (''import_as_template'', PBool as_template), (''template'', template), (''disk'', disk)]\<rparr>)))))))))) (\<lambda>status.
     if \<not> is_async \<and> truthy_opt new_disk_alias \<and> \<not> return_response_body then
       bindW (is_import_success T A N g None) (\<lambda>(g', ok). retW (g', PBool ok))
     else retW (g, if return_response_body then status else PBool (truthy status))))"

definition import_glance_image ::
  "'w rest_st os_time \<Rightarrow> 'w apis \<Rightarrow> enums \<Rightarrow> pyval \<Rightarrow> pyval \<Rightarrow> pyval \<Rightarrow> pyval \<Rightarrow> string option \<Rightarrow> string option \<Rightarrow> bool \<Rightarrow> bool \<Rightarrow> bool
   \<Rightarrow> ('w rest_st, pyval) wcomp" where
  "import_glance_image T A N repository glance_image target_domain target_cluster new_disk_alias new_template_name as_template is_async return_response_body =
     bindW (import_image T A N (new_GlanceImage glance_image repository 600) target_domain target_cluster new_disk_alias new_template_name
              as_template is_async return_response_body) (\<lambda>(g, status). retW status)"

text \<open>The host of the image service runs a command given as a list of words.\<close>

definition remove_glance_image :: "(string list \<Rightarrow> ('s, int) comp) \<Rightarrow> string \<Rightarrow> ('s, bool) comp" where
  "remove_glance_image on_host image_id =
     bindE (on_host (split_ws (''source keystonerc_admin && glance image-delete '' @ image_id))) (\<lambda>rc. ret (rc = 0))"

section \<open>OVF stores and LUNs\<close>

definition get_number_of_ovf_store_disks :: "'w apis \<Rightarrow> string \<Rightarrow> ('w rest_st, int) comp" where
  "get_number_of_ovf_store_disks A storage_domain =
     bindE (getStorageDomainDisks A storage_domain False) (\<lambda>v.
     bindE (lift_res (res_bind (py_iter v) (filter_res (alias_is (PStr ''OVF_STORE''))))) (\<lambda>l. ret (int (length l))))"

definition get_storage_domain_ovf_store_disks :: "'w apis \<Rightarrow> string \<Rightarrow> ('w rest_st, pyval list) comp" where
  "get_storage_domain_ovf_store_disks A storage_domain =
     bindE (getStorageDomainDisks A storage_domain False) (\<lambda>v.
     lift_res (res_bind (py_iter v) (\<lambda>ds. res_bind (filter_res (name_is (PStr ''OVF_STORE'')) ds) (map_res (\<lambda>d. getattr d ''id'')))))"

definition get_logical_units_obj :: "'w apis \<Rightarrow> pyval list \<Rightarrow> exn + pyval" where
  "get_logical_units_obj A ids =
     foldl (\<lambda>r i. res_bind r (\<lambda>lus. res_bind (construct (new_object A ''LogicalUnit'') [(''id'', i)]) (\<lambda>u. add_member ''logical_unit'' u lus)))
       (Inr (new_object A ''LogicalUnits'')) ids"

definition luns_action :: "'w apis \<Rightarrow> string \<Rightarrow> pyval \<Rightarrow> pyval list \<Rightarrow> ('w rest_st, bool) comp" where
  "luns_action A action storage_domain ids =
     bindE (get_storage_domain_obj A storage_domain ''name'') (\<lambda>sd.
     bindE (lift_res (get_logical_units_obj A ids)) (\<lambda>lus.
     bindE (syncAction (STORAGE_API A) sd action True (action_default\<lparr>aa_params := [(''logical_units'', lus)]\<rparr>)) (\<lambda>r. ret (truthy r))))"

definition reduce_storage_domain_luns :: "'w apis \<Rightarrow> pyval \<Rightarrow> pyval list \<Rightarrow> ('w rest_st, bool) comp" where
  "reduce_storage_domain_luns A = luns_action A ''reduceluns''"

definition refresh_storage_domain_luns :: "'w apis \<Rightarrow> pyval \<Rightarrow> pyval list \<Rightarrow> ('w rest_st, bool) comp" where
  "refresh_storage_domain_luns A = luns_action A ''refreshluns''"

definition update_ovf_store :: "'w apis \<Rightarrow> pyval \<Rightarrow> ('w rest_st, bool) comp" where
  "update_ovf_store A storage_domain =
     bindE (get_storage_domain_obj A storage_domain ''name'') (\<lambda>sd.
     bindE (syncAction (STORAGE_API A) sd ''updateovfstore'' True action_default) (\<lambda>r. ret (truthy r)))"

definition wait_storage_domain_status_is_unchanged ::
  "'w rest_st os_time \<Rightarrow> 'w apis \<Rightarrow> string \<Rightarrow> string \<Rightarrow> pyval \<Rightarrow> int \<Rightarrow> int \<Rightarrow> ('w rest_st, bool) wcomp" where
  "wait_storage_domain_status_is_unchanged T A data_center_name storage_domain_name status t s =
     tryW (sampling T (getDCStorage A data_center_name storage_domain_name)
             (\<lambda>sd. res_bind (getattr sd ''status'') (\<lambda>st. Inr (if py_eq st status then None else Some False))) t s)
       APITimeout (\<lambda>_. retW True)"

section \<open>What the waits say\<close>

lemma getDCStorage_never_back:
  assumes "apis_keep_time clk A"
  shows "never_back (server_time clk) (getDCStorage A dc sd)"
  unfolding getDCStorage_def by (intro never_back_intros request_intros api_keeps_time [OF assms])

lemma wait_for_status_Inr:
  assumes "clock_laws T (server_time clk)"
    and "wait_for_storage_domain_status T A positive dc sd status t s w = Some (Inr b, w')"
  shows "b = positive \<and> (\<exists>v x. getDCStorage A dc sd v = (Inr x, w') \<and> has_status (PStr status) x)"
proof -
  from sampling_Inr [OF assms(1) assms(2) [unfolded wait_for_storage_domain_status_def]]
  obtain v x where "getDCStorage A dc sd v = (Inr x, w')"
    and "res_bind (getattr x ''status'') (\<lambda>st. Inr (if py_eq st (PStr status) then Some positive else None)) = Inr (Some b)" by blast
  then show ?thesis by (cases "getattr x ''status''") (auto simp: res_bind_def has_status_def split: if_splits)
qed

text \<open>
  Waiting for the status of a storage domain always comes back, and when it returns it returns
  \<open>positive\<close>, right after a look that showed the status: a negative wait can not succeed. Otherwise
  it raises, APITimeout when the time is over.
\<close>

theorem wait_for_storage_domain_status_verdict:
  assumes "clock_laws T (server_time clk)" and "apis_keep_time clk A" and "0 < s"
  shows "\<exists>r w'. wait_for_storage_domain_status T A positive dc sd status t s w = Some (r, w') \<and>
    (case r of
       Inr b \<Rightarrow> b = positive \<and> (\<exists>v x. getDCStorage A dc sd v = (Inr x, w') \<and> has_status (PStr status) x)
     | Inl e \<Rightarrow> (\<exists>v. getDCStorage A dc sd v = (Inl e, w')) \<or> e = AttributeError \<or>
         e = APITimeout \<and> server_time clk w + t < server_time clk w')"
proof -
  have "comes_back (server_time clk) (wait_for_storage_domain_status T A positive dc sd status t s)"
    unfolding wait_for_storage_domain_status_def
    by (intro comes_back_intros assms getDCStorage_never_back [OF assms(2)])
  then obtain r w' where run: "wait_for_storage_domain_status T A positive dc sd status t s w = Some (r, w')"
    unfolding comes_back_def by blast
  show ?thesis
  proof (cases r)
    case (Inl e)
    from sampling_Inl [OF assms(1) run [unfolded Inl wait_for_storage_domain_status_def]] run Inl
    show ?thesis by (auto simp: res_bind_def getattr_def split: option.splits)
  next
    case (Inr b)
    with wait_for_status_Inr [OF assms(1) run [unfolded Inr]] run show ?thesis by auto
  qed
qed

text \<open>
  A positive activation with waiting answers True only when the domain was found active before, or
  its action was accepted and a later look at it, the last one, showed it active; it never
  answers False for a domain that only takes too long, for then APITimeout is raised.
\<close>

theorem activateStorageDomain_sound:
  assumes "clock_laws T (server_time clk)"
    and "activateStorageDomain c T A N True dc sd True w = Some (Inr b, w')"
  shows "if b then
      (\<exists>v. validateElementStatus c (STORAGE_API A) (DC_API A) ''storagedomain'' sd ''active'' (Some dc) v = (Inr True, w')) \<or>
      (\<exists>x v v'. domain_action A x ''activate'' True True v = (Inr True, v') \<and>
         (\<exists>u y. getDCStorage A dc sd u = (Inr y, w') \<and> has_status (PStr (N ''storage_domain_state_active'')) y))
    else \<exists>x v. domain_action A x ''activate'' True True v = (Inr False, w')"
  using assms(2) unfolding activateStorageDomain_def
  by (elim bindW_InrE) (cases b; auto simp: ret_def split: if_splits elim!: bindW_InrE dest!: wait_for_status_Inr [OF assms(1)]; blast)

lemma domain_action_never_back:
  assumes "apis_keep_time clk A"
  shows "never_back (server_time clk) (domain_action A sd action positive wait)"
  unfolding domain_action_def by (intro never_back_intros request_intros api_keeps_time [OF assms])

lemma deactivate_comes_back:
  assumes "clock_laws T (server_time clk)" and "apis_keep_time clk A"
  shows "comes_back (server_time clk) (deactivateStorageDomain T A N positive dc sd wait)"
  unfolding deactivateStorageDomain_def wait_for_storage_domain_status_def
  by (intro comes_back_intros never_back_intros getDCStorage_never_back domain_action_never_back assms) simp

text \<open>
  Removing storage domains always comes back, with a verdict or an exception, however many data
  centers and domains there are and whatever they answer, for every wait of it has its timeout.
\<close>

theorem removeStorageDomains_returns:
  assumes "clock_laws T (server_time clk)" and "apis_keep_time clk A"
  shows "\<exists>r w'. removeStorageDomains T A N positive names host format w = Some (r, w') \<and> server_time clk w \<le> server_time clk w'"
proof -
  have rem: "never_back (server_time clk) (remove_listed A positive ns host format sds st)" for ns sds st
    by (induction sds arbitrary: st)
      (auto intro!: never_back_intros request_intros api_keeps_time [OF assms(2)]
        simp: removeStorageDomain_def get_storage_domain_obj_def)
  have one: "comes_back (server_time clk) (detach_one T A N positive ns dc sd st)" for ns dc sd st
    unfolding detach_one_def detachStorageDomain_def
    by (intro comes_back_intros never_back_intros deactivate_comes_back [OF assms] request_intros
        getDCStorage_never_back [OF assms(2)] api_keeps_time [OF assms(2)])
  have "comes_back (server_time clk) (removeStorageDomains T A N positive names host format)"
    unfolding removeStorageDomains_def Let_def get_storage_domains_def
    by (intro comes_back_intros never_back_intros one rem request_intros api_keeps_time [OF assms(2)])
  then show ?thesis unfolding comes_back_def by blast
qed

section \<open>Witnesses\<close>

lemma disk_apis_keep_time: "apis_keep_time int disk_apis"
  by (simp add: apis_keep_time_def keeps_time_def moves_on_def disk_apis_def net_srv_def demo_rest_def)

theorem wait_for_storage_domain_status_verdict_witness:
  "\<exists>r. wait_for_storage_domain_status demo_clock disk_apis True ''dc'' ''a'' ''active'' 180 10 demo_rest_st = Some r"
proof -
  from wait_for_storage_domain_status_verdict [OF demo_clock_laws disk_apis_keep_time, of 10] show ?thesis by fastforce
qed

theorem removeStorageDomains_returns_witness:
  "\<exists>r. removeStorageDomains demo_clock disk_apis disk_names True (Names_string ''a,b'') ''h'' ''true'' demo_rest_st = Some r"
  using removeStorageDomains_returns [OF demo_clock_laws disk_apis_keep_time] by blast

text \<open>The domain of the witness is active, which the configuration lets the check see.\<close>

definition sd_conf :: config_st where
  "sd_conf = \<lparr>ART_CONFIG = Node [(''elements_conf'', Node [(''elements'', Node [(''storagedomain'', Leaf PNone)])])], GE = Node []\<rparr>"

lemma demo_activate:
  "map_option fst (activateStorageDomain sd_conf demo_clock disk_apis disk_names True ''dc'' ''a'' True demo_rest_st) = Some (Inr True)"
  by code_simp

theorem activateStorageDomain_sound_witness:
  "\<exists>w'. activateStorageDomain sd_conf demo_clock disk_apis disk_names True ''dc'' ''a'' True demo_rest_st = Some (Inr True, w') \<and>
    ((\<exists>v. validateElementStatus sd_conf (STORAGE_API disk_apis) (DC_API disk_apis) ''storagedomain'' ''a'' ''active'' (Some ''dc'') v = (Inr True, w')) \<or>
     (\<exists>x v v'. domain_action disk_apis x ''activate'' True True v = (Inr True, v')))"
proof -
  obtain w' where run: "activateStorageDomain sd_conf demo_clock disk_apis disk_names True ''dc'' ''a'' True demo_rest_st = Some (Inr True, w')"
    using demo_activate by auto
  from activateStorageDomain_sound [OF demo_clock_laws run] run show ?thesis by (simp; blast)
qed

end
