(* ===== verification/Nfs_Mounts.thy ===== *)
theory Nfs_Mounts
  imports Sla
begin

text \<open>
  The part of \<open>art/rhevm_api/tests_lib/low_level/storagedomains.py\<close> that reads the NFS mounts of a
  host from the output of \<open>mount\<close> and compares their options with the expected ones. The host is a
  computation that runs the command.
\<close>

section \<open>Lines of the mount command\<close>

record nfs_mount =
  nm_address :: string
  nm_path :: string
  nm_timeo :: int
  nm_retrans :: int
  nm_nfsvers :: string
  nm_sync :: bool

definition note_option :: "(string, pyval) dict \<Rightarrow> string \<Rightarrow> exn + (string, pyval) dict" where
  "note_option d opt =
     (if contains opt ''='' then (case split_on opt ''='' of [n, v] \<Rightarrow> Inr (dict_set d n (PStr v)) | _ \<Rightarrow> Inl ValueError)
      else if opt = ''sync'' then Inr (dict_set d opt (PBool True))
      else Inr d)"

definition note_options :: "string list \<Rightarrow> (string, pyval) dict \<Rightarrow> exn + (string, pyval) dict" where
  "note_options os d = foldl (\<lambda>r opt. res_bind r (\<lambda>d. note_option d opt)) (Inr d) os"

definition option_value :: "(string, pyval) dict \<Rightarrow> string \<Rightarrow> pyval" where
  "option_value d k = opt_val (map_of d k)"

definition int_option :: "(string, pyval) dict \<Rightarrow> string \<Rightarrow> exn + int" where
  "int_option d k = res_bind (dict_getitem d k) py_int"

definition parse_mount_output_line :: "string \<Rightarrow> exn + nfs_mount option" where
  "parse_mount_output_line line =
     (if \<not> contains line ''type nfs '' then Inr None
      else
        (let parts = split_on line '' '' in
         case split_on (hd parts) '':'' of
           [address, path] \<Rightarrow>
             res_bind (note_options (split_on (slice (last parts) 1 (-1)) '','') []) (\<lambda>d.
             res_bind (if truthy (option_value d ''nfsvers'') then Inr (option_value d ''nfsvers'')
                       else if truthy (option_value d ''vers'') then Inr (option_value d ''vers'')
                       else Inl PyException) (\<lambda>nfsvers.
             res_bind (int_option d ''timeo'') (\<lambda>timeo.
             res_bind (int_option d ''retrans'') (\<lambda>retrans.
             Inr (Some \<lparr>nm_address = address, nm_path = path, nm_timeo = timeo, nm_retrans = retrans,
                        nm_nfsvers = ''v'' @ py_str nfsvers, nm_sync = (map_of d ''sync'' \<noteq> None)\<rparr>)))))
         | _ \<Rightarrow> Inl ValueError))"

fun parse_mount_lines :: "string list \<Rightarrow> exn + nfs_mount list" where
  "parse_mount_lines [] = Inr []"
| "parse_mount_lines (l # ls) =
     res_bind (parse_mount_output_line l) (\<lambda>m. res_bind (parse_mount_lines ls) (\<lambda>ms.
     Inr (case m of None \<Rightarrow> ms | Some x \<Rightarrow> x # ms)))"

definition parse_mount_output :: "string \<Rightarrow> exn + nfs_mount list" where
  "parse_mount_output output = parse_mount_lines (split_on output [CHR 0x0A])"

text \<open>The last mount of an address and a path counts. A failed command raises TestException.\<close>

definition by_resource :: "nfs_mount list \<Rightarrow> (string \<times> string, int \<times> int \<times> string \<times> bool) dict" where
  "by_resource ms =
     foldl (\<lambda>d m. dict_set d (nm_address m, nm_path m) (nm_timeo m, nm_retrans m, nm_nfsvers m, nm_sync m)) [] ms"

definition get_mounted_nfs_resources ::
  "('s, int \<times> string) comp \<Rightarrow> ('s, (string \<times> string, int \<times> int \<times> string \<times> bool) dict) comp" where
  "get_mounted_nfs_resources mount =
     bindE mount (\<lambda>(rc, out).
     if rc \<noteq> 0 then raise (TestExc TestException)
     else bindE (lift_res (parse_mount_output out)) (\<lambda>ms. ret (by_resource ms)))"

definition get_options_of_resource ::
  "('s, int \<times> string) comp \<Rightarrow> string \<Rightarrow> string \<Rightarrow> ('s, (int \<times> int \<times> string \<times> bool) option) comp" where
  "get_options_of_resource mount address path =
     bindE (get_mounted_nfs_resources mount) (\<lambda>d. ret (map_of d (address, path)))"

section \<open>Expected options\<close>

definition verify_one_option :: "pyval \<Rightarrow> pyval \<Rightarrow> bool" where
  "verify_one_option real expected \<longleftrightarrow> expected = PNone \<or> py_eq expected real"

text \<open>No mount options are the empty string here. \<open>None\<close>, or the name of the first wrong option with what was expected and what is there.\<close>

definition verify_nfs_options ::
  "pyval \<Rightarrow> pyval \<Rightarrow> pyval \<Rightarrow> string \<Rightarrow> pyval \<Rightarrow> pyval \<Rightarrow> pyval \<Rightarrow> pyval \<Rightarrow> (string \<times> pyval \<times> pyval) option" where
  "verify_nfs_options exp_timeout exp_retrans exp_nfsvers exp_mount_options timeo retrans nfsvers sync =
     (if \<not> verify_one_option timeo exp_timeout then Some (''timeo'', exp_timeout, timeo)
      else if \<not> verify_one_option retrans exp_retrans then Some (''retrans'', exp_retrans, retrans)
      else if \<not> verify_one_option nfsvers exp_nfsvers then Some (''nfsvers'', exp_nfsvers, nfsvers)
      else if contains exp_mount_options ''sync'' \<and> \<not> verify_one_option sync (PBool True) then Some (''sync'', PBool True, sync)
      else None)"

section \<open>Printing and parsing a mount\<close>

datatype mount_option = Flag string | Setting string string

fun show_option :: "mount_option \<Rightarrow> string" where
  "show_option (Flag f) = f"
| "show_option (Setting n v) = n @ ''='' @ v"

fun settings :: "mount_option list \<Rightarrow> (string \<times> string) list" where
  "settings [] = []"
| "settings (Setting n v # os) = (n, v) # settings os"
| "settings (Flag f # os) = settings os"

definition show_mount :: "string \<Rightarrow> string \<Rightarrow> string \<Rightarrow> mount_option list \<Rightarrow> string" where
  "show_mount address path mount_point os =
     join '' '' [address @ '':'' @ path, ''on'', mount_point, ''type'', ''nfs'', ''('' @ join '','' (map show_option os) @ '')'']"

definition plain :: "string \<Rightarrow> bool" where
  "plain s \<longleftrightarrow> set s \<inter> {CHR '' '', CHR '','', CHR ''='', CHR '':''} = {}"

fun plain_option :: "mount_option \<Rightarrow> bool" where
  "plain_option (Flag f) = plain f"
| "plain_option (Setting n v) = (plain n \<and> plain v)"

lemma contains_char: "contains s [c] \<longleftrightarrow> c \<in> set s"
  unfolding contains_iff by (auto simp: in_set_conv_decomp)

lemma note_Flag: "plain f \<Longrightarrow> note_option d f = Inr (if f = ''sync'' then dict_set d f (PBool True) else d)"
  by (auto simp: note_option_def contains_char plain_def)

lemma note_Setting:
  assumes "plain n" and "plain v"
  shows "note_option d (n @ ''='' @ v) = Inr (dict_set d n (PStr v))"
proof -
  have "split_on (join ''='' [n, v]) ''='' = [n, v]"
    using assms by (intro split_on_join) (auto simp: plain_def)
  then show ?thesis by (simp add: note_option_def contains_char)
qed

lemma note_options_all:
  assumes "\<And>x. x \<in> set os \<Longrightarrow> plain_option x" and "''sync'' \<notin> fst ` set (settings os)"
  shows "\<exists>d'. note_options (map show_option os) d = Inr d' \<and>
    (\<forall>k. k \<noteq> ''sync'' \<longrightarrow> map_of d' k = (case map_of (rev (settings os)) k of Some v \<Rightarrow> Some (PStr v) | None \<Rightarrow> map_of d k)) \<and>
    (map_of d' ''sync'' \<noteq> None \<longleftrightarrow> Flag ''sync'' \<in> set os \<or> map_of d ''sync'' \<noteq> None)"
  using assms
proof (induction os arbitrary: d)
  case Nil
  then show ?case by (simp add: note_options_def)
next
  case (Cons x os)
  have step: "note_options (map show_option (x # os)) d =
      res_bind (note_option d (show_option x)) (\<lambda>d1. note_options (map show_option os) d1)"
  proof (cases "note_option d (show_option x)")
    case (Inl e)
    have "foldl (\<lambda>r opt. res_bind r (\<lambda>d. note_option d opt)) (Inl e) l = Inl e" for l
      by (induction l) (simp_all add: res_bind_def)
    with Inl show ?thesis by (simp add: note_options_def res_bind_def)
  qed (simp add: note_options_def res_bind_def)
  show ?case
  proof (cases x)
    case (Flag f)
    with Cons.prems have n: "note_option d (show_option x) = Inr (if f = ''sync'' then dict_set d f (PBool True) else d)"
      using note_Flag by fastforce
    have prems: "\<And>y. y \<in> set os \<Longrightarrow> plain_option y" "''sync'' \<notin> fst ` set (settings os)"
      using Cons.prems Flag by auto
    from Cons.IH [OF prems, of "if f = ''sync'' then dict_set d f (PBool True) else d"] show ?thesis
      unfolding step n using Flag by (cases "f = ''sync''") (auto simp: res_bind_def split: option.split)
  next
    case (Setting n v)
    with Cons.prems have noted: "note_option d (show_option x) = Inr (dict_set d n (PStr v))" and "n \<noteq> ''sync''"
      using note_Setting by fastforce+
    have prems: "\<And>y. y \<in> set os \<Longrightarrow> plain_option y" "''sync'' \<notin> fst ` set (settings os)"
      using Cons.prems Setting by auto
    from Cons.IH [OF prems, of "dict_set d n (PStr v)"] show ?thesis
      unfolding step noted using Setting \<open>n \<noteq> ''sync''\<close>
      by (auto simp: res_bind_def map_of_dict_set map_add_def split: option.split)
  qed
qed

text \<open>
  C23. The option parser reads back what \<open>mount\<close> prints for an NFS mount: address, path, the last
  setting of timeo and retrans as numbers, the version from nfsvers or, without it, from vers, and
  whether the flag sync is there, in whatever order the options come and with any others between
  them. Address and path must be free of colons, so no IPv6 address is understood.
\<close>

theorem parse_mount_roundtrip:
  assumes "plain address" and "plain path" and "CHR '' '' \<notin> set mount_point"
    and os: "\<And>x. x \<in> set os \<Longrightarrow> plain_option x" "''sync'' \<notin> fst ` set (settings os)"
    and timeo: "map_of (rev (settings os)) ''timeo'' = Some (show_nat t)"
    and retrans: "map_of (rev (settings os)) ''retrans'' = Some (show_nat r)"
    and vers: "map_of (rev (settings os)) (if map_of (rev (settings os)) ''nfsvers'' = None then ''vers'' else ''nfsvers'') = Some v" "v \<noteq> []"
  shows "parse_mount_output_line (show_mount address path mount_point os) =
    Inr (Some \<lparr>nm_address = address, nm_path = path, nm_timeo = int t, nm_retrans = int r, nm_nfsvers = ''v'' @ v,
               nm_sync = (Flag ''sync'' \<in> set os)\<rparr>)"
proof -
  let ?body = "join '','' (map show_option os)" and ?line = "show_mount address path mount_point os"
  have plain_show: "CHR '' '' \<notin> set (show_option x)" "CHR '','' \<notin> set (show_option x)" if "x \<in> set os" for x
    using os(1) [OF that] by (cases x; auto simp: plain_def)+
  then have body: "CHR '' '' \<notin> set ?body"
  proof (induction os)
    case (Cons x xs)
    then show ?case by (cases xs) auto
  qed simp
  have "?line = (address @ '':'' @ path @ '' on '' @ mount_point @ '' '') @ ''type nfs '' @ (''('' @ ?body @ '')'')"
    by (simp add: show_mount_def)
  then have nfs: "contains ?line ''type nfs ''" unfolding contains_iff by blast
  have parts: "split_on ?line '' '' = [address @ '':'' @ path, ''on'', mount_point, ''type'', ''nfs'', ''('' @ ?body @ '')'']"
    unfolding show_mount_def using assms(1-3) body by (intro split_on_join) (auto simp: plain_def)
  have "split_on (join '':'' [address, path]) '':'' = [address, path]"
    using assms(1,2) by (intro split_on_join) (auto simp: plain_def)
  then have place: "split_on (address @ '':'' @ path) '':'' = [address, path]" by simp
  have "os \<noteq> []" using timeo by auto
  then have opts_split: "split_on ?body '','' = map show_option os"
    using plain_show(2) by (intro split_on_join) auto
  have inner: "slice (''('' @ ?body @ '')'') 1 (-1) = ?body"
    using nat_int [of "Suc (length ?body)"] by (simp add: slice_def slice_to_def norm_index_def)
  from note_options_all [OF os, of "[]"] obtain d where d: "note_options (map show_option os) [] = Inr d"
    and l: "\<forall>k. k \<noteq> ''sync'' \<longrightarrow> map_of d k = (case map_of (rev (settings os)) k of Some v \<Rightarrow> Some (PStr v) | None \<Rightarrow> map_of [] k)"
    and sync: "map_of d ''sync'' \<noteq> None \<longleftrightarrow> Flag ''sync'' \<in> set os \<or> map_of ([] :: (string, pyval) dict) ''sync'' \<noteq> None" by blast
  have lookup: "map_of d k = map_option PStr (map_of (rev (settings os)) k)" if "k \<noteq> ''sync''" for k
    using l that by (simp split: option.split)
  have version: "(if truthy (option_value d ''nfsvers'') then Inr (option_value d ''nfsvers'')
      else if truthy (option_value d ''vers'') then Inr (option_value d ''vers'') else Inl PyException) = Inr (PStr v)"
    using vers lookup [of "''nfsvers''"] lookup [of "''vers''"] by (auto simp: option_value_def opt_val_def split: if_splits option.splits)
  have "int_option d ''timeo'' = Inr (int t)" "int_option d ''retrans'' = Inr (int r)"
    using lookup [of "''timeo''"] lookup [of "''retrans''"] timeo retrans int_of_show_nat
    by (simp_all add: int_option_def dict_getitem_def res_bind_def int_of_str_def)
  with nfs parts place inner opts_split d version sync show ?thesis
    by (simp add: parse_mount_output_line_def Let_def res_bind_def py_str_def)
qed

text \<open>
  No option is reported wrong exactly when every option that is expected has the expected value and
  a mount expected to be synchronous is.
\<close>

theorem verify_nfs_options_None_iff:
  "verify_nfs_options exp_timeout exp_retrans exp_nfsvers exp_mount_options timeo retrans nfsvers sync = None \<longleftrightarrow>
     (\<forall>(e, x) \<in> set [(exp_timeout, timeo), (exp_retrans, retrans), (exp_nfsvers, nfsvers)]. e = PNone \<or> py_eq e x) \<and>
     (contains exp_mount_options ''sync'' \<longrightarrow> py_eq (PBool True) sync)"
  by (simp add: verify_nfs_options_def verify_one_option_def)

definition demo_mount :: string where
  "demo_mount = show_mount ''10.0.0.1'' ''/exp/nfs'' ''/mnt/x'' [Flag ''rw'', Setting ''timeo'' (show_nat 600), Flag ''sync'', Setting ''retrans'' (show_nat 6), Setting ''vers'' ''3'']"

theorem parse_mount_roundtrip_witness:
  "parse_mount_output_line demo_mount =
     Inr (Some \<lparr>nm_address = ''10.0.0.1'', nm_path = ''/exp/nfs'', nm_timeo = 600, nm_retrans = 6, nm_nfsvers = ''v3'', nm_sync = True\<rparr>)"
proof -
  have "plain (show_nat 600)" "plain (show_nat 6)" by code_simp+
  then show ?thesis unfolding demo_mount_def
    by (subst parse_mount_roundtrip [where t = 600 and r = 6 and v = "''3''"]) (auto simp: plain_def)
qed

theorem verify_nfs_options_None_iff_witness:
  "verify_nfs_options (PInt 600) PNone (PStr ''v3'') ''sync'' (PInt 600) (PInt 6) (PStr ''v3'') (PBool True) = None"
  using verify_nfs_options_None_iff [of "PInt 600" PNone "PStr ''v3''" "''sync''" "PInt 600" "PInt 6" "PStr ''v3''" "PBool True"]
  by simp

end
