(* ===== verification/Vm_Objects.thy ===== *)
theory Vm_Objects
  imports Storage_Domains
begin

text \<open>
  The objects that \<open>art/rhevm_api/tests_lib/low_level/vms.py\<close> sends: machines, custom properties and
  NICs, with the look-ups they need. \<open>get_template_obj\<close> of \<open>templates.py\<close> is here too, for the object
  of a machine calls it. Arguments given by position to generated classes are written with the
  member that the schema of the API has there.
\<close>

definition SNAPSHOT_API :: "'w apis \<Rightarrow> 'w rest_env" where "SNAPSHOT_API A = A ''snapshot'' ''snapshots''"
definition NIC_API :: "'w apis \<Rightarrow> 'w rest_env" where "NIC_API A = A ''nic'' ''nics''"

definition DEFAULT_CLUSTER :: string where "DEFAULT_CLUSTER = ''Default''"

text \<open>\<open>ENUMS.get\<close>: the table itself, where an entry may be missing.\<close>

type_synonym enum_table = "string \<Rightarrow> string option"

definition enum_or :: "enum_table \<Rightarrow> string \<Rightarrow> string" where
  "enum_or En k = (case En k of None \<Rightarrow> k | Some v \<Rightarrow> v)"

section \<open>Look-ups by query\<close>

definition named_query :: "'w rest_env \<Rightarrow> string \<Rightarrow> bool \<Rightarrow> ('w rest_st, pyval) comp" where
  "named_query E n all_content =
     rest_query E (''name='' @ n) \<lparr>qa_expected_status = [], qa_href = [], qa_event_id = [], qa_all_content = all_content, qa_params = []\<rparr>"

definition get_vm_obj :: "'w apis \<Rightarrow> string \<Rightarrow> bool \<Rightarrow> ('w rest_st, pyval) comp" where
  "get_vm_obj A vm_name all_content =
     bindE (named_query (VM_API A) vm_name all_content) (\<lambda>v. lift_res (first_of v))"

definition get_vm :: "'w apis \<Rightarrow> string \<Rightarrow> ('w rest_st, pyval) comp" where
  "get_vm A vm = find_by (VM_API A) ''name'' (PStr vm)"

definition get_templates_obj :: "'w apis \<Rightarrow> string \<Rightarrow> bool \<Rightarrow> ('w rest_st, pyval) comp" where
  "get_templates_obj A template_name all_content = named_query (TEMPLATE_API A) template_name all_content"

definition version_is :: "pyval \<Rightarrow> pyval \<Rightarrow> exn + bool" where
  "version_is version t = res_bind (getattr_chain [''version'', ''version_number''] t) (\<lambda>n. Inr (py_eq n version))"

definition get_template_obj :: "'w apis \<Rightarrow> string \<Rightarrow> bool \<Rightarrow> pyval \<Rightarrow> ('w rest_st, pyval) comp" where
  "get_template_obj A template_name all_content version =
     bindE (get_templates_obj A template_name all_content) (\<lambda>v.
     if \<not> truthy v then ret PNone
     else if template_name = ''Blank'' then lift_res (first_of v)
     else
       bindE (lift_res (py_iter v)) (\<lambda>l.
       bindE (lift_res (find_res (version_is version) l)) (\<lambda>found. ret (opt_val found))))"

section \<open>Snapshots of a machine\<close>

definition getVmSnapshots :: "'w apis \<Rightarrow> string \<Rightarrow> bool \<Rightarrow> bool \<Rightarrow> ('w rest_st, pyval) comp" where
  "getVmSnapshots A vm get_href all_content =
     bindE (find_by (VM_API A) ''name'' (PStr vm)) (\<lambda>x.
     getElemFromLink (SNAPSHOT_API A) x [] [] get_href all_content)"

definition description_is :: "pyval \<Rightarrow> pyval \<Rightarrow> exn + bool" where
  "description_is d x = res_bind (getattr x ''description'') (\<lambda>e. Inr (py_eq e d))"

text \<open>None when there is none; the descriptions are all read for the log first.\<close>

definition getVmSnapshot :: "'w apis \<Rightarrow> string \<Rightarrow> pyval \<Rightarrow> bool \<Rightarrow> ('w rest_st, pyval) comp" where
  "getVmSnapshot A vm snap all_content =
     bindE (getVmSnapshots A vm False all_content) (\<lambda>v.
     bindE (lift_res (py_iter v)) (\<lambda>l.
     bindE (lift_res (map_res (\<lambda>x. getattr x ''description'') l)) (\<lambda>_.
     bindE (lift_res (find_res (description_is snap) l)) (\<lambda>found. ret (opt_val found)))))"

section \<open>Custom properties\<close>

text \<open>\<open>prop.split('=', 1)\<close> with two parts.\<close>

definition split_pair :: "char \<Rightarrow> string \<Rightarrow> (string \<times> string) option" where
  "split_pair c s =
     (case dropWhile (\<lambda>x. x \<noteq> c) s of [] \<Rightarrow> None | _ # v \<Rightarrow> Some (takeWhile (\<lambda>x. x \<noteq> c) s, v))"

definition add_property :: "'w apis \<Rightarrow> string \<Rightarrow> pyval \<Rightarrow> exn + pyval" where
  "add_property A p cps =
     (case split_pair CHR ''='' p of
        None \<Rightarrow> Inl PyException
      | Some (n, v) \<Rightarrow>
          res_bind (construct (new_object A ''CustomProperty'') [(''name'', PStr n), (''value'', PStr v)]) (\<lambda>c.
          add_member ''custom_property'' c cps))"

fun fold_res :: "('a \<Rightarrow> 's \<Rightarrow> exn + 's) \<Rightarrow> 'a list \<Rightarrow> 's \<Rightarrow> exn + 's" where
  "fold_res f [] s = Inr s"
| "fold_res f (x # xs) s = res_bind (f x s) (fold_res f xs)"

definition createCustomPropertiesFromArg :: "'w apis \<Rightarrow> string \<Rightarrow> exn + pyval" where
  "createCustomPropertiesFromArg A prop_arg =
     (let cps = new_object A ''CustomProperties'' in
      if prop_arg = ''clear'' then Inr cps else fold_res (add_property A) (split_on prop_arg '';'') cps)"

section \<open>The object of a machine\<close>

text \<open>An object under construction passes through its parts, some of which ask the engine.\<close>

fun through :: "(pyval \<Rightarrow> ('w rest_st, pyval) comp) list \<Rightarrow> pyval \<Rightarrow> ('w rest_st, pyval) comp" where
  "through [] x = ret x"
| "through (f # fs) x = bindE (f x) (through fs)"

definition local_step :: "(pyval \<Rightarrow> exn + pyval) \<Rightarrow> pyval \<Rightarrow> ('w rest_st, pyval) comp" where
  "local_step f x = lift_res (f x)"

text \<open>
  The first machine whose snapshots can be listed ends the search, with its snapshot of the name or,
  when it has none, with None in the list.
\<close>

fun first_snapshot :: "'w apis \<Rightarrow> pyval \<Rightarrow> pyval list \<Rightarrow> ('w rest_st, pyval option) comp" where
  "first_snapshot A snapshot_name [] = ret None"
| "first_snapshot A snapshot_name (vm # vms) =
     bindE (try_except
              (bindE (lift_res (getattr vm ''name'')) (\<lambda>n.
               bindE (getVmSnapshot A (py_str n) snapshot_name False) (\<lambda>s. ret (Some s))))
              EntityNotFound (\<lambda>_. ret None)) (\<lambda>found.
     case found of Some s \<Rightarrow> ret (Some s) | None \<Rightarrow> first_snapshot A snapshot_name vms)"

definition vm_snapshot :: "'w apis \<Rightarrow> (string, pyval) dict \<Rightarrow> pyval \<Rightarrow> ('w rest_st, pyval) comp" where
  "vm_snapshot A kw vm =
     (let snapshot_name = kwget kw ''snapshot'' in
      if \<not> truthy snapshot_name then ret vm
      else
        bindE (listed (VM_API A)) (\<lambda>vms.
        bindE (first_snapshot A snapshot_name vms) (\<lambda>found.
        case found of
          None \<Rightarrow> ret vm
        | Some s \<Rightarrow> lift_res (res_bind (add_member ''snapshot'' s (new_object A ''Snapshots'')) (\<lambda>l. Inr (setattr vm ''snapshots'' l))))))"

text \<open>\<open>add\<close> holds only while no snapshot is named.\<close>

definition adding :: "(string, pyval) dict \<Rightarrow> bool" where
  "adding kw \<longleftrightarrow> truthy (kwget kw ''add'') \<and> \<not> truthy (kwget kw ''snapshot'')"

definition vm_template :: "'w apis \<Rightarrow> (string, pyval) dict \<Rightarrow> pyval \<Rightarrow> ('w rest_st, pyval) comp" where
  "vm_template A kw vm =
     (let n = pop_or kw ''template'' (if adding kw then PStr ''Blank'' else PNone); i = kwget kw ''templateUuid'' in
      bindE (if truthy i then find_by (TEMPLATE_API A) ''id'' i
             else if truthy n then get_template_obj A (py_str n) False (pop_or kw ''template_version'' (PInt 1))
             else ret PNone) (\<lambda>t.
      lift_res (if truthy t then res_bind (getattr t ''id'') (\<lambda>j. set_new A True ''template'' ''Template'' [(''id'', j)] vm) else Inr vm)))"

definition vm_cluster :: "'w apis \<Rightarrow> (string, pyval) dict \<Rightarrow> pyval \<Rightarrow> ('w rest_st, pyval) comp" where
  "vm_cluster A kw vm =
     (let n = pop_or kw ''cluster'' (if adding kw then PStr DEFAULT_CLUSTER else PNone); i = kwget kw ''clusterUuid'' in
      if truthy i then bindE (find_by (CL_API A) ''id'' i) (\<lambda>c. ret (setattr vm ''cluster'' c))
      else if truthy n then bindE (find_by (CL_API A) ''name'' n) (\<lambda>c. ret (setattr vm ''cluster'' c))
      else ret vm)"

definition vm_instance_type :: "'w apis \<Rightarrow> (string, pyval) dict \<Rightarrow> pyval \<Rightarrow> ('w rest_st, pyval) comp" where
  "vm_instance_type A kw vm =
     (let n = kwget kw ''instance_type'' in
      if truthy n then bindE (find_by (INSTANCE_TYPE_API A) ''name'' n) (\<lambda>t. ret (setattr vm ''instance_type'' t)) else ret vm)"

text \<open>
  A pinning is a list of dictionaries with one entry, the CPU and its set; an empty list clears it.
  An empty mode is CUSTOM.
\<close>

definition vcpu_pin :: "'w apis \<Rightarrow> pyval \<Rightarrow> exn + pyval" where
  "vcpu_pin A elm =
     (case elm of
        PObj _ ((k, v) # _) \<Rightarrow>
          res_bind (py_int (PStr k)) (\<lambda>i. construct (new_object A ''VcpuPin'') [(''vcpu'', PInt i), (''cpu_set'', v)])
      | PObj _ [] \<Rightarrow> Inl IndexError
      | _ \<Rightarrow> Inl AttributeError)"

definition vm_pinning :: "'w apis \<Rightarrow> pyval \<Rightarrow> pyval \<Rightarrow> exn + pyval" where
  "vm_pinning A p cpu =
     (if py_eq p (PList []) then Inr (setattr cpu ''cpu_tune'' (new_object A ''CpuTune''))
      else if truthy p then
        res_bind (py_iter p) (\<lambda>l.
        res_bind (map_res (vcpu_pin A) l) (\<lambda>pins.
        res_bind (construct (new_object A ''VcpuPins'') [(''vcpu_pin'', PList pins)]) (\<lambda>v.
        set_new A True ''cpu_tune'' ''CpuTune'' [(''vcpu_pins'', v)] cpu)))
      else Inr cpu)"

definition vm_cpu :: "'w apis \<Rightarrow> (string, pyval) dict \<Rightarrow> pyval \<Rightarrow> exn + pyval" where
  "vm_cpu A kw vm =
     (let sizes = any_true kw [''cpu_socket'', ''cpu_cores'', ''cpu_threads'']; p = kwget kw ''vcpu_pinning''; mode = kwget kw ''cpu_mode'' in
      if sizes \<or> p \<noteq> PNone \<or> mode \<noteq> PNone then
        res_bind (if sizes then
                    res_bind (construct (new_object A ''CpuTopology'')
                                (given kw [(''sockets'', ''cpu_socket''), (''cores'', ''cpu_cores''), (''threads'', ''cpu_threads'')])) (\<lambda>t.
                    Inr (setattr (new_object A ''Cpu'') ''topology'' t))
                  else Inr (new_object A ''Cpu'')) (\<lambda>c1.
        res_bind (vm_pinning A p c1) (\<lambda>c2.
        let c3 = (if py_eq mode (PStr []) then setattr c2 ''mode'' (PStr ''CUSTOM'') else set_if (truthy mode) ''mode'' mode c2) in
        Inr (setattr vm ''cpu'' c3)))
      else Inr vm)"

text \<open>The operating system: its type, the options of the kernel and the order of the boot devices.\<close>

definition os_options :: "string list" where
  "os_options = [''kernel'', ''initrd'', ''cmdline'']"

definition with_boot :: "'w apis \<Rightarrow> pyval \<Rightarrow> pyval \<Rightarrow> exn + pyval" where
  "with_boot A boot os =
     (if truthy boot then
        (let boot_seq = (case boot of PStr s \<Rightarrow> PList (map PStr (split_ws s)) | _ \<Rightarrow> boot) in
         res_bind (construct (new_object A ''devicesType'') [(''device'', boot_seq)]) (\<lambda>d.
         set_new A True ''boot'' ''Boot'' [(''devices'', d)] os))
      else Inr os)"

definition with_os :: "'w apis \<Rightarrow> pyval \<Rightarrow> (string, pyval) dict \<Rightarrow> pyval \<Rightarrow> exn + pyval" where
  "with_os A os_type kw x =
     res_bind (construct (new_object A ''OperatingSystem'') [(''type_'', os_type)]) (\<lambda>os1.
     res_bind (with_boot A (kwget kw ''boot'') (foldl (\<lambda>os k. set_some kw k os) os1 os_options)) (\<lambda>os2.
     Inr (if os_type \<noteq> PNone \<or> (\<exists>k \<in> set os_options. kwget kw k \<noteq> PNone) \<or> truthy (kwget kw ''boot'')
          then setattr x ''os'' os2 else x)))"

definition vm_os_type :: "enum_table \<Rightarrow> pyval \<Rightarrow> exn + pyval" where
  "vm_os_type En v =
     (case v of
        PNone \<Rightarrow> Inr PNone
      | PStr s \<Rightarrow> Inr (PStr (enum_or En (if startswith s ''windows_'' then s else lower s)))
      | _ \<Rightarrow> Inl AttributeError)"

definition vm_os :: "'w apis \<Rightarrow> enum_table \<Rightarrow> (string, pyval) dict \<Rightarrow> pyval \<Rightarrow> exn + pyval" where
  "vm_os A En kw vm =
     res_bind (vm_os_type En (kwget kw ''os_type'')) (\<lambda>t.
     res_bind (with_os A t kw vm) (\<lambda>x. Inr (setattr x ''type_'' (kwget kw ''type''))))"

definition vm_display :: "'w apis \<Rightarrow> (string, pyval) dict \<Rightarrow> pyval \<Rightarrow> exn + pyval" where
  "vm_display A kw =
     set_new A (any_true kw [''monitors'', ''display_type'', ''disconnect_action'', ''single_qxl_pci'']) ''display'' ''Display''
       (given kw [(''type_'', ''display_type''), (''monitors'', ''monitors''), (''disconnect_action'', ''disconnect_action''),
                  (''file_transfer_enabled'', ''file_transfer_enabled''), (''single_qxl_pci'', ''single_qxl_pci'')])"

text \<open>The same for machines and templates: high availability, the console, the time zone.\<close>

definition with_availability :: "'w apis \<Rightarrow> (string, pyval) dict \<Rightarrow> pyval \<Rightarrow> exn + pyval" where
  "with_availability A kw =
     set_new A (kwget kw ''highly_available'' \<noteq> PNone \<or> any_true kw [''availablity_priority'']) ''high_availability'' ''HighAvailability''
       (given kw [(''enabled'', ''highly_available''), (''priority'', ''availablity_priority'')])"

definition with_time_zone :: "'w apis \<Rightarrow> (string, pyval) dict \<Rightarrow> pyval \<Rightarrow> exn + pyval" where
  "with_time_zone A kw =
     set_new A (kwget kw ''time_zone'' \<noteq> PNone \<or> kwget kw ''time_zone_offset'' \<noteq> PNone) ''time_zone'' ''TimeZone''
       (given kw [(''name'', ''time_zone''), (''utc_offset'', ''time_zone_offset'')])"

definition with_serial_number :: "'w apis \<Rightarrow> (string, pyval) dict \<Rightarrow> pyval \<Rightarrow> pyval" where
  "with_serial_number A kw x =
     (let n = kwget kw ''serial_number'' in
      set_if (n \<noteq> PNone) ''serial_number''
        (setattr (setattr (new_object A ''SerialNumber'') ''policy'' (PStr ''custom'')) ''value'' n) x)"

definition with_usb :: "'w apis \<Rightarrow> (string, pyval) dict \<Rightarrow> pyval \<Rightarrow> pyval" where
  "with_usb A kw x =
     (let u = kwget kw ''usb_type'' in
      set_if (truthy u) ''usb'' (setattr (setattr (new_object A ''Usb'') ''enabled'' (PBool True)) ''type_'' u) x)"

definition with_io :: "'w apis \<Rightarrow> (string, pyval) dict \<Rightarrow> pyval \<Rightarrow> pyval" where
  "with_io A kw x =
     (let n = kwget kw ''io_threads'' in set_if (truthy n) ''io'' (setattr (new_object A ''Io'') ''threads'' n) x)"

definition with_boot_menu :: "'w apis \<Rightarrow> (string, pyval) dict \<Rightarrow> pyval \<Rightarrow> exn + pyval" where
  "with_boot_menu A kw x =
     (if truthy (kwget kw ''boot_menu'') then
        res_bind (construct (new_object A ''BootMenu'') (given kw [(''enabled'', ''boot_menu'')])) (\<lambda>m.
        Inr (setattr x ''bios'' (setattr (new_object A ''Bios'') ''boot_menu'' m)))
      else Inr x)"

definition with_custom_properties :: "'w apis \<Rightarrow> (string, pyval) dict \<Rightarrow> pyval \<Rightarrow> exn + pyval" where
  "with_custom_properties A kw x =
     (let p = kwget kw ''custom_properties'' in
      if \<not> truthy p then Inr x
      else case p of
             PStr s \<Rightarrow> res_bind (createCustomPropertiesFromArg A s) (\<lambda>cps. Inr (setattr x ''custom_properties'' cps))
           | _ \<Rightarrow> Inl AttributeError)"

text \<open>A lease that is given but empty is an empty lease.\<close>

definition vm_lease :: "'w apis \<Rightarrow> (string, pyval) dict \<Rightarrow> pyval \<Rightarrow> ('w rest_st, pyval) comp" where
  "vm_lease A kw vm =
     (let lease = kwget kw ''lease'' in
      if lease = PNone then ret vm
      else if truthy lease then
        bindE (get_storage_domain_obj A lease ''name'') (\<lambda>sd.
        lift_res (res_bind (getattr sd ''id'') (\<lambda>i.
                  res_bind (construct (new_object A ''StorageDomain'') [(''id'', i)]) (\<lambda>x.
                  set_new A True ''lease'' ''StorageDomainLease'' [(''storage_domain'', x)] vm))))
      else ret (setattr vm ''lease'' (new_object A ''StorageDomainLease'')))"

definition vm_memory_policy :: "'w apis \<Rightarrow> (string, pyval) dict \<Rightarrow> pyval \<Rightarrow> exn + pyval" where
  "vm_memory_policy A kw =
     set_new A (kwget kw ''ballooning'' \<noteq> PNone \<or> any_true kw [''memory_guaranteed'', ''max_memory'']) ''memory_policy'' ''MemoryPolicy''
       (given kw [(''guaranteed'', ''memory_guaranteed''), (''ballooning'', ''ballooning''), (''max'', ''max_memory'')])"

section \<open>The hosts of a machine\<close>

text \<open>
  The single host is appended to the list the caller gave, so that the caller's list is longer
  afterwards; without a list, or with an empty one, the list is a new one.
\<close>

definition given_hosts :: "(string, pyval) dict \<Rightarrow> pyval list" where
  "given_hosts kw = (case kwget kw ''placement_hosts'' of PList l \<Rightarrow> l | _ \<Rightarrow> [])"

definition appended_host :: "enums \<Rightarrow> (string, pyval) dict \<Rightarrow> pyval list" where
  "appended_host N kw =
     (let h = kwget kw ''placement_host'' in
      if truthy h \<and> \<not> py_eq h (PStr (N ''placement_host_any_host_in_cluster'')) then [h] else [])"

definition hosts_after :: "enums \<Rightarrow> (string, pyval) dict \<Rightarrow> (string, pyval) dict" where
  "hosts_after N kw =
     (if given_hosts kw = [] then kw else dict_set kw ''placement_hosts'' (PList (given_hosts kw @ appended_host N kw)))"

definition host_reference :: "'w apis \<Rightarrow> pyval \<Rightarrow> ('w rest_st, pyval) comp" where
  "host_reference A h =
     bindE (find_by (HOST_API A) ''name'' h) (\<lambda>x.
     lift_res (res_bind (getattr x ''id'') (\<lambda>i. construct (new_object A ''Host'') [(''id'', i)])))"

definition vm_placement :: "'w apis \<Rightarrow> enums \<Rightarrow> (string, pyval) dict \<Rightarrow> pyval \<Rightarrow> ('w rest_st, pyval) comp" where
  "vm_placement A N kw vm =
     (let affinity = kwget kw ''placement_affinity''; hosts = given_hosts kw @ appended_host N kw in
      if \<not> truthy (kwget kw ''placement_host'') \<and> \<not> truthy affinity \<and> given_hosts kw = [] then ret vm
      else
        (let p = set_if (truthy affinity) ''affinity'' affinity (new_object A ''VmPlacementPolicy'') in
        if hosts = [] then ret (setattr vm ''placement_policy'' p)
        else
          bindE (map_comp (host_reference A) hosts) (\<lambda>hs.
          lift_res (res_bind (set_new A True ''hosts'' ''Hosts'' [(''host'', PList hs)] p) (\<lambda>q.
                    Inr (setattr vm ''placement_policy'' q))))))"

definition vm_storage_domain :: "'w apis \<Rightarrow> (string, pyval) dict \<Rightarrow> pyval \<Rightarrow> ('w rest_st, pyval) comp" where
  "vm_storage_domain A kw vm =
     (let n = kwget kw ''storagedomain'' in
      if truthy n then bindE (find_by (STORAGE_API A) ''name'' n) (\<lambda>sd. ret (setattr vm ''storage_domain'' sd)) else ret vm)"

section \<open>Payloads\<close>

text \<open>
  All payloads hold one and the same object of files, to which each adds its own: in the end every
  payload has the files of all of them.
\<close>

definition payload_file :: "'w apis \<Rightarrow> pyval \<Rightarrow> exn + pyval \<times> pyval" where
  "payload_file A p =
     res_bind (py_iter p) (\<lambda>l.
     case l of
       [kind, fname, content] \<Rightarrow>
         res_bind (construct (new_object A ''File'') [(''name'', fname), (''content'', content)]) (\<lambda>f. Inr (kind, f))
     | _ \<Rightarrow> Inl ValueError)"

definition vm_payloads :: "'w apis \<Rightarrow> (string, pyval) dict \<Rightarrow> pyval \<Rightarrow> exn + pyval" where
  "vm_payloads A kw vm =
     (let payloads = kwget kw ''payloads'' in
      if \<not> truthy payloads then Inr vm
      else
        res_bind (py_iter payloads) (\<lambda>l.
        res_bind (map_res (payload_file A) l) (\<lambda>fs.
        res_bind (fold_res (add_member ''file'') (map snd fs) (new_object A ''Files'')) (\<lambda>files.
        res_bind (map_res (\<lambda>(kind, f). construct (new_object A ''Payload'') [(''files'', files), (''type_'', kind)]) fs) (\<lambda>ps.
        set_new A True ''payloads'' ''Payloads'' [(''payload'', PList ps)] vm)))))"

definition vm_migration :: "'w apis \<Rightarrow> (string, pyval) dict \<Rightarrow> pyval \<Rightarrow> exn + pyval" where
  "vm_migration A kw vm =
     (case map_of kw ''migration_policy_id'' of
        None \<Rightarrow> Inr vm
      | Some p \<Rightarrow>
          res_bind (construct (new_object A ''MigrationPolicy'') (if p = PStr ''inherit'' then [] else [(''id'', p)])) (\<lambda>policy.
          set_new A True ''migration'' ''MigrationOptions''
            [(''policy'', policy), (''auto_converge'', PStr (lower (py_str (pop_or kw ''auto_converge'' (PStr ''inherit''))))),
             (''compressed'', PStr (lower (py_str (pop_or kw ''compressed'' (PStr ''inherit'')))))] vm))"

definition vm_rng :: "'w apis \<Rightarrow> (string, pyval) dict \<Rightarrow> pyval \<Rightarrow> exn + pyval" where
  "vm_rng A kw vm =
     (if truthy (kwget kw ''rng_device'') then
        res_bind (construct (new_object A ''Rate'') (given kw [(''bytes'', ''rng_bytes''), (''period'', ''rng_period'')])) (\<lambda>rate.
        set_new A True ''rng_device'' ''RngDevice'' (given kw [(''source'', ''rng_device'')] @ [(''rate'', rate)]) vm)
      else Inr vm)"

definition vm_settings :: "'w apis \<Rightarrow> (string, pyval) dict \<Rightarrow> pyval \<Rightarrow> exn + pyval" where
  "vm_settings A kw v0 =
     res_bind (set_new A (any_true kw [''domainName'']) ''domain'' ''Domain'' (given kw [(''name'', ''domainName'')]) v0) (\<lambda>v1.
     res_bind (with_quota A (kwget kw ''quota'') v1) (\<lambda>v2.
     res_bind (vm_payloads A kw v2) (\<lambda>v3.
     let protected = kwget kw ''protected'' in
     res_bind (with_time_zone A kw (set_true kw ''initialization'' (set_if (protected \<noteq> PNone) ''delete_protected'' protected v3))) (\<lambda>v4.
     res_bind (set_new A (any_true kw [''cpu_profile_id'']) ''cpu_profile'' ''CpuProfile'' (given kw [(''id'', ''cpu_profile_id'')]) v4) (\<lambda>v5.
     res_bind (set_new A (kwget kw ''virtio_scsi'' \<noteq> PNone) ''virtio_scsi'' ''VirtioScsi'' (given kw [(''enabled'', ''virtio_scsi'')]) v5) (\<lambda>v6.
     let numa = kwget kw ''numa_mode''; paused = kwget kw ''start_in_pause'';
         v7 = with_serial_number A kw (set_some kw ''cpu_shares'' (set_if (truthy numa) ''numa_tune_mode'' numa v6));
         v8 = with_usb A kw (set_true kw ''comment'' (set_if (truthy paused) ''start_paused'' paused v7));
         v9 = set_some kw ''soundcard_enabled'' (set_some kw ''custom_cpu_model'' (set_some kw ''custom_emulated_machine'' v8)) in
     res_bind (with_boot_menu A kw (with_io A kw (set_true kw ''migration_downtime'' v9))) (\<lambda>v10.
     res_bind (vm_migration A kw (set_true kw ''start_paused'' v10)) (\<lambda>v11.
     res_bind (vm_rng A kw v11) (\<lambda>v12. Inr (set_true kw ''storage_error_resume_behaviour'' v12))))))))))"

definition prepare_vm_object :: "'w apis \<Rightarrow> enums \<Rightarrow> enum_table \<Rightarrow> (string, pyval) dict \<Rightarrow> ('w rest_st, pyval) comp" where
  "prepare_vm_object A N En kw =
     bindE (lift_res (construct (new_object A ''Vm'') (given kw [(''name'', ''name''), (''description'', ''description''), (''id'', ''uuid'')])))
       (through
          [vm_snapshot A kw, vm_template A kw, vm_cluster A kw, vm_instance_type A kw,
           \<lambda>vm. ret (setattr vm ''memory'' (kwget kw ''memory'')),
           local_step (vm_cpu A kw), local_step (vm_os A En kw), local_step (vm_display A kw),
           \<lambda>vm. ret (setattr vm ''stateless'' (kwget kw ''stateless'')),
           local_step (set_new A (kwget kw ''serial_console'' \<noteq> PNone) ''console'' ''Console'' (given kw [(''enabled'', ''serial_console'')])),
           local_step (with_availability A kw), vm_lease A kw, local_step (with_custom_properties A kw),
           local_step (vm_memory_policy A kw), vm_placement A N kw, vm_storage_domain A kw, local_step (vm_settings A kw)])"


section \<open>What is shown\<close>

definition show_properties :: "(string \<times> string) list \<Rightarrow> string" where
  "show_properties ps = join '';'' (map (\<lambda>(n, v). n @ ''='' @ v) ps)"

definition property_obj :: "string \<times> string \<Rightarrow> pyval" where
  "property_obj p = PObj ''CustomProperty'' [(''name'', PStr (fst p)), (''value'', PStr (snd p))]"

definition properties_obj :: "pyval list \<Rightarrow> pyval" where
  "properties_obj l = PObj ''CustomProperties'' [(''custom_property'', PList l)]"

text \<open>The generated classes of custom properties, without values.\<close>

definition property_classes :: "'w apis \<Rightarrow> bool" where
  "property_classes A \<longleftrightarrow> new_object A ''CustomProperty'' = PObj ''CustomProperty'' [(''name'', PNone), (''value'', PNone)] \<and>
     new_object A ''CustomProperties'' = properties_obj []"

lemma split_pair_shown: "CHR ''='' \<notin> set n \<Longrightarrow> split_pair CHR ''='' (n @ ''='' @ v) = Some (n, v)"
  by (subgoal_tac "\<forall>x \<in> set n. x \<noteq> CHR ''=''") (auto simp: split_pair_def takeWhile_append2 dropWhile_append2)

lemma add_property_shown:
  assumes "property_classes A" and "CHR ''='' \<notin> set n"
  shows "add_property A (n @ ''='' @ v) (properties_obj l) = Inr (properties_obj (l @ [property_obj (n, v)]))"
  using assms split_pair_shown [OF assms(2), of v]
  by (simp add: add_property_def property_classes_def properties_obj_def property_obj_def add_member_def hasattr_def getattr_def)

lemma fold_add_property:
  assumes "property_classes A"
  shows "\<forall>p \<in> set ps. CHR ''='' \<notin> set (fst p) \<Longrightarrow>
    fold_res (add_property A) (map (\<lambda>(n, v). n @ ''='' @ v) ps) (properties_obj l) = Inr (properties_obj (l @ map property_obj ps))"
proof (induction ps arbitrary: l)
  case (Cons p ps)
  obtain n v where "p = (n, v)" by (cases p)
  with Cons add_property_shown [OF assms, of n v] show ?case by simp
qed simp

text \<open>
  Custom properties written as \<open>name1=value1;name2=value2\<close> are read back exactly, in their
  order, also when a value holds further equality signs or is empty.
\<close>

theorem custom_properties_roundtrip:
  assumes "property_classes A" and "ps \<noteq> []"
    and "\<And>n v. (n, v) \<in> set ps \<Longrightarrow> CHR '';'' \<notin> set n \<and> CHR ''='' \<notin> set n \<and> CHR '';'' \<notin> set v"
  shows "createCustomPropertiesFromArg A (show_properties ps) = Inr (properties_obj (map property_obj ps))"
proof -
  have split: "split_on (show_properties ps) '';'' = map (\<lambda>(n, v). n @ ''='' @ v) ps"
    unfolding show_properties_def using assms(2,3) by (intro split_on_join) auto
  have "show_properties ps \<noteq> ''clear''"
  proof
    assume "show_properties ps = ''clear''"
    with split have "map (\<lambda>(n, v). n @ ''='' @ v) ps = split_on ''clear'' '';''" by simp
    also have "\<dots> = [''clear'']" by code_simp
    finally obtain n v where "n @ ''='' @ v = ''clear''" by (cases ps) auto
    then have "CHR ''='' \<in> set ''clear''" by (metis in_set_conv_decomp append_Cons append_Nil)
    then show False by simp
  qed
  with split fold_add_property [OF assms(1), of ps "[]"] assms(1,3) show ?thesis
    by (fastforce simp: createCustomPropertiesFromArg_def property_classes_def)
qed

section \<open>Witnesses\<close>

definition vm_classes :: "string \<Rightarrow> pyval" where
  "vm_classes c =
     (if c = ''CustomProperty'' then PObj c [(''name'', PNone), (''value'', PNone)]
      else if c = ''CustomProperties'' then PObj c [(''custom_property'', PList [])]
      else new_object disk_apis c)"

definition vm_apis :: "nat apis" where
  "vm_apis el col = (disk_apis el col)\<lparr>new_ds := vm_classes\<rparr>"

lemma vm_property_classes: "property_classes vm_apis"
  by (simp add: property_classes_def new_object_def NET_API_def vm_apis_def vm_classes_def properties_obj_def)

theorem custom_properties_roundtrip_witness:
  "createCustomPropertiesFromArg vm_apis (show_properties [(''sap_agent'', ''true''), (''hugepages'', ''1=2'')])
   = Inr (properties_obj (map property_obj [(''sap_agent'', ''true''), (''hugepages'', ''1=2'')]))"
  by (rule custom_properties_roundtrip [OF vm_property_classes]) auto

end
