(* ===== verification/Vms.thy ===== *)
theory Vms
  imports Vm_Objects
begin

text \<open>
  The life cycle of machines in \<open>art/rhevm_api/tests_lib/low_level/vms.py\<close>: creation, removal,
  starting, stopping, migration, export and import, and the waits for their states. VDSM on the host,
  pings and the copying of logs are parameters. Jobs and the threads of an executor run one after the
  other, in the order they are started.
\<close>

definition DEF_SLEEP_VM :: int where "DEF_SLEEP_VM = 10"
definition VM_DISK_CLONE_TIMEOUT :: int where "VM_DISK_CLONE_TIMEOUT = 720"
definition VM_IMAGE_OPT_TIMEOUT :: int where "VM_IMAGE_OPT_TIMEOUT = 900"
definition MIGRATION_TIMEOUT :: int where "MIGRATION_TIMEOUT = 300"
definition VM_WAIT_FOR_IP_TIMEOUT :: int where "VM_WAIT_FOR_IP_TIMEOUT = 600"
definition EXPORT_DOMAIN_TIMEOUT :: int where "EXPORT_DOMAIN_TIMEOUT = 120"
definition EXPORT_DOMAIN_SLEEP :: int where "EXPORT_DOMAIN_SLEEP = 5"

definition BLANK_TEMPLATE :: string where "BLANK_TEMPLATE = ''00000000-0000-0000-0000-000000000000''"

section \<open>Adding and changing\<close>

definition is_true_text :: "pyval \<Rightarrow> exn + bool" where
  "is_true_text v = (if \<not> truthy v then Inr False else res_bind (lower_of v) (\<lambda>s. Inr (s = ''true'')))"

definition int_or :: "(string, pyval) dict \<Rightarrow> string \<Rightarrow> int \<Rightarrow> int" where
  "int_or kw k d = (case map_of kw k of Some (PInt n) \<Rightarrow> n | _ \<Rightarrow> d)"

definition blank_template :: "'w apis \<Rightarrow> pyval \<Rightarrow> exn + pyval" where
  "blank_template A = set_new A True ''template'' ''Template'' [(''id'', PStr BLANK_TEMPLATE)]"

text \<open>
  Two objects are made of the same keywords, one to send and one to compare with; the list of hosts is
  shared by both calls.
\<close>

definition addVm :: "'w apis \<Rightarrow> enums \<Rightarrow> enum_table \<Rightarrow> bool \<Rightarrow> bool \<Rightarrow> (string, pyval) dict \<Rightarrow> ('w rest_st, bool) comp" where
  "addVm A N En positive wait kw =
     (let kw1 = dict_set kw ''add'' (PBool True) in
      bindE (prepare_vm_object A N En kw1) (\<lambda>vm.
      bindE (prepare_vm_object A N En (hosts_after N kw1)) (\<lambda>expected.
      bindE (lift_res (is_true_text (kwget kw ''disk_clone''))) (\<lambda>cloned.
      let ops = (if cloned then [''clone=true''] else []) @ (if truthy (kwget kw ''copy_permissions'') then [''clone_permissions''] else []) in
      if \<not> positive \<or> \<not> wait then
        bindE (rest_create (VM_API A) vm positive (create_default\<lparr>ca_expected_entity := Some expected, ca_operations := ops\<rparr>))
          (\<lambda>(_, status). ret status)
      else
        bindE (lift_res (if cloned then blank_template A expected else Inr expected)) (\<lambda>wanted.
        bindE (rest_create (VM_API A) vm positive (create_default\<lparr>ca_expected_entity := Some wanted, ca_operations := ops\<rparr>)) (\<lambda>(x, status).
        if status then
          waitForElemStatus (VM_API A) x ''DOWN'' (if cloned then VM_DISK_CLONE_TIMEOUT else int_or kw ''timeout'' VM_ACTION_TIMEOUT) False
        else ret False))))))"

definition updateVm :: "'w apis \<Rightarrow> enums \<Rightarrow> enum_table \<Rightarrow> bool \<Rightarrow> string \<Rightarrow> (string, pyval) dict \<Rightarrow> ('w rest_st, bool) comp" where
  "updateVm A N En positive vm kw =
     bindE (find_by (VM_API A) ''name'' (PStr vm)) (\<lambda>old.
     bindE (prepare_vm_object A N En kw) (\<lambda>new.
     bindE (rest_update (VM_API A) old new positive (update_default\<lparr>ua_compare := truthy (pop_or kw ''compare'' (PBool True))\<rparr>))
       (\<lambda>(_, status). ret status)))"

section \<open>States\<close>

text \<open>\<open>VM_API.waitForQuery\<close> on the state as the search engine spells it.\<close>

definition search_state :: "string \<Rightarrow> string" where
  "search_state state = replace ''_'' [] (lower state)"

definition waitForVMState :: "'w rest_st os_time \<Rightarrow> 'w apis \<Rightarrow> string \<Rightarrow> string \<Rightarrow> int \<Rightarrow> int \<Rightarrow> ('w rest_st, bool) wcomp" where
  "waitForVMState T A vm state t s =
     waitForQuery T (state_query (VM_API A) (''name='' @ vm @ '' and status='' @ search_state state)) t s"

text \<open>The further arguments, such as a timeout, are accepted and not used.\<close>

fun waitForVmsStates_each :: "'w rest_st os_time \<Rightarrow> 'w apis \<Rightarrow> string \<Rightarrow> string list \<Rightarrow> ('w rest_st, bool) wcomp" where
  "waitForVmsStates_each T A states [] = retW True"
| "waitForVmsStates_each T A states (vm # vms) =
     bindW (waitForVMState T A vm states DEF_TIMEOUT DEF_SLEEP) (\<lambda>ok. if ok then waitForVmsStates_each T A states vms else retW False)"

definition waitForVmsStates :: "'w rest_st os_time \<Rightarrow> 'w apis \<Rightarrow> names_arg \<Rightarrow> string \<Rightarrow> ('w rest_st, bool) wcomp" where
  "waitForVmsStates T A names states =
     bindW (run (map_comp (\<lambda>n. find_by (VM_API A) ''name'' (PStr n)) (names_of names)))
       (\<lambda>_. waitForVmsStates_each T A states (names_of names))"

definition get_vm_state :: "'w apis \<Rightarrow> string \<Rightarrow> ('w rest_st, pyval) comp" where
  "get_vm_state A vm_name = bindE (find_by (VM_API A) ''name'' (PStr vm_name)) (\<lambda>x. lift_res (getattr x ''status''))"

definition does_vm_exist :: "'w apis \<Rightarrow> string \<Rightarrow> ('w rest_st, bool) comp" where
  "does_vm_exist A vm_name =
     try_except (bindE (find_by (VM_API A) ''name'' (PStr vm_name)) (\<lambda>_. ret True)) EntityNotFound (\<lambda>_. ret False)"

definition checkVmState :: "'w apis \<Rightarrow> bool \<Rightarrow> string \<Rightarrow> string \<Rightarrow> pyval \<Rightarrow> ('w rest_st, bool) comp" where
  "checkVmState A positive vmName state host =
     bindE (find_by (VM_API A) ''name'' (PStr vmName)) (\<lambda>vm.
     bindE (lift_res (getattr vm ''status'')) (\<lambda>st.
     let general_check = py_eq st (PStr state) in
     if truthy host then
       bindE (find_by (HOST_API A) ''name'' host) (\<lambda>h.
       lift_res (res_bind (getattr_chain [''host'', ''id''] vm) (\<lambda>i. res_bind (getattr h ''id'') (\<lambda>j.
                 Inr (positive = (py_eq i j \<and> general_check))))))
     else ret (positive = general_check)))"

definition wait_for_vm_states :: "'w rest_st os_time \<Rightarrow> 'w apis \<Rightarrow> string \<Rightarrow> string list \<Rightarrow> int \<Rightarrow> int \<Rightarrow> ('w rest_st, unit) wcomp" where
  "wait_for_vm_states T A vm_name states t s =
     sampling T (find_by (VM_API A) ''name'' (PStr vm_name))
       (\<lambda>vm. res_bind (getattr vm ''status'') (\<lambda>st. Inr (if is_one_of states st then Some () else None))) t s"

section \<open>Stopping\<close>

text \<open>A status that is asked for synchronously is waited for until it is there.\<close>

definition changeVMStatus :: "'w apis \<Rightarrow> bool \<Rightarrow> string \<Rightarrow> string \<Rightarrow> string \<Rightarrow> string \<Rightarrow> ('w rest_st, bool) comp" where
  "changeVMStatus A positive vm action expectedStatus is_async =
     bindE (get_vm A vm) (\<lambda>x.
     bindE (syncAction (VM_API A) x action positive (action_default\<lparr>aa_async := PStr is_async\<rparr>)) (\<lambda>r.
     if truthy r \<and> positive \<and> lower is_async \<noteq> ''true'' then waitForElemStatus (VM_API A) x expectedStatus VM_ACTION_TIMEOUT True
     else ret (truthy r)))"

definition stopVm :: "'w apis \<Rightarrow> bool \<Rightarrow> string \<Rightarrow> string \<Rightarrow> ('w rest_st, bool) comp" where
  "stopVm A positive vm is_async = changeVMStatus A positive vm ''stop'' ''DOWN'' is_async"

text \<open>\<open>all(results)\<close>: every machine is stopped, whatever became of the ones before.\<close>

definition stop_vms :: "'w apis \<Rightarrow> names_arg \<Rightarrow> string \<Rightarrow> ('w rest_st, bool) comp" where
  "stop_vms A vms is_async =
     bindE (map_comp (\<lambda>vm. stopVm A True vm is_async) (names_of vms)) (\<lambda>rs. ret (list_all id rs))"

text \<open>
  The machines that could not be stopped and those that were: the two sets of the code, as lists without
  duplicates. The code goes through the second one in the order of its hash table, the model in the order
  in which the machines were stopped.
\<close>

fun stop_running :: "'w apis \<Rightarrow> enums \<Rightarrow> string list \<Rightarrow> string list \<times> string list \<Rightarrow> ('w rest_st, string list \<times> string list) comp" where
  "stop_running A N [] st = ret st"
| "stop_running A N (vm # vms) (failed, stopped) =
     bindE (does_vm_exist A vm) (\<lambda>there.
     bindE (if \<not> there then ret (failed, stopped)
            else
              bindE (get_vm_state A vm) (\<lambda>state.
              if py_eq state (PStr (N ''vm_state_down'')) then ret (failed, stopped)
              else
                bindE (stopVm A True vm ''true'') (\<lambda>ok.
                ret (if ok then (failed, if vm \<in> set stopped then stopped else stopped @ [vm])
                     else (if vm \<in> set failed then failed else failed @ [vm], stopped))))) (\<lambda>st. stop_running A N vms st))"

fun all_go_down :: "'w rest_st os_time \<Rightarrow> 'w apis \<Rightarrow> enums \<Rightarrow> string list \<Rightarrow> bool \<Rightarrow> ('w rest_st, bool) wcomp" where
  "all_go_down T A N [] ok = retW ok"
| "all_go_down T A N (vm # vms) ok =
     bindW (waitForVMState T A vm (N ''vm_state_down'') DEF_TIMEOUT DEF_SLEEP) (\<lambda>down. all_go_down T A N vms (ok \<and> down))"

definition stop_vms_safely :: "'w rest_st os_time \<Rightarrow> 'w apis \<Rightarrow> enums \<Rightarrow> string list \<Rightarrow> ('w rest_st, bool) wcomp" where
  "stop_vms_safely T A N vms_list =
     bindW (run (stop_running A N vms_list ([], []))) (\<lambda>(failed, stopped). all_go_down T A N stopped (failed = []))"

section \<open>Removing\<close>

definition removeVm :: "'w rest_st os_time \<Rightarrow> 'w apis \<Rightarrow> enums \<Rightarrow> bool \<Rightarrow> string \<Rightarrow> (string, pyval) dict \<Rightarrow> ('w rest_st, bool) wcomp" where
  "removeVm T A N positive vm kw =
     bindW (run (find_by (VM_API A) ''name'' (PStr vm))) (\<lambda>x.
     bindW (run (lift_res (res_bind (getattr x ''status'') lower_of))) (\<lambda>status.
     bindW (run (if lower (py_str (pop_or kw ''stopVM'' (PStr ''false''))) = ''true'' \<and> status \<noteq> N ''vm_state_down''
                 then stopVm A positive vm ''false'' else ret True)) (\<lambda>stopped.
     if \<not> stopped then retW False
     else
       bindW (run (rest_delete (VM_API A) x positive [200, 202, 204] NEGATIVE_CODES
                     (if truthy (kwget kw ''force'') then [''force=true''] else []))) (\<lambda>ok.
       if positive \<and> truthy (pop_or kw ''wait'' (PBool True)) \<and> ok then
         waitForVmsGone T A positive (Names_string vm) (int_or kw ''timeout'' 60) (int_or kw ''waitTime'' 10)
       else retW ok))))"

text \<open>
  What a worker puts in the queue of results: a machine that is not found counts as removed, another
  exception ends the thread after a False has been put.
\<close>

definition removeVmAsynch :: "'w apis \<Rightarrow> bool \<Rightarrow> bool \<Rightarrow> string \<Rightarrow> ('w rest_st, bool) comp" where
  "removeVmAsynch A positive stopVmBool vm =
     try_except
       (try_except
          (bindE (find_by (VM_API A) ''name'' (PStr vm)) (\<lambda>x.
           bindE (lift_res (if stopVmBool then res_bind (getattr x ''status'') (\<lambda>st. Inr (\<not> py_eq st (PStr ''down''))) else Inr False)) (\<lambda>up.
           bindE (if up then stopVm A positive vm ''false'' else ret True) (\<lambda>ok.
           if ok then delete_element (VM_API A) x positive else ret False))))
          EntityNotFound (\<lambda>_. ret True))
       PyException (\<lambda>_. ret False)"

definition removeVms :: "'w rest_st os_time \<Rightarrow> 'w apis \<Rightarrow> bool \<Rightarrow> names_arg \<Rightarrow> pyval \<Rightarrow> int \<Rightarrow> ('w rest_st, bool) wcomp" where
  "removeVms T A positive vms stop t =
     (if \<not> positive then raiseW AssertionError
      else if names_of vms = [] then raiseW ValueError
      else
        bindW (run (if lower (py_str stop) = ''true'' then stop_vms A vms ''true'' else ret True)) (\<lambda>_.
        bindW (run (map_comp (removeVmAsynch A positive False) (names_of vms))) (\<lambda>results.
        bindW (waitForVmsGone T A positive (Names_list (names_of vms)) t 10) (\<lambda>gone.
        retW (gone \<and> list_all id results)))))"

text \<open>The verdicts of the removals are dropped; the machines have to be gone.\<close>

fun remove_each :: "'w rest_st os_time \<Rightarrow> 'w apis \<Rightarrow> enums \<Rightarrow> string list \<Rightarrow> ('w rest_st, unit) wcomp" where
  "remove_each T A N [] = retW ()"
| "remove_each T A N (vm # vms) = bindW (removeVm T A N True vm [(''wait'', PBool False)]) (\<lambda>_. remove_each T A N vms)"

definition safely_remove_vms :: "'w rest_st os_time \<Rightarrow> 'w apis \<Rightarrow> enums \<Rightarrow> string list \<Rightarrow> ('w rest_st, bool) wcomp" where
  "safely_remove_vms T A N vms =
     bindW (run (map_comp (\<lambda>v. bindE (does_vm_exist A v) (\<lambda>b. ret (v, b))) vms)) (\<lambda>found.
     let existing = map fst (filter snd found) in
     if existing = [] then retW True
     else
       bindW (stop_vms_safely T A N existing) (\<lambda>stopped.
       if \<not> stopped then retW False
       else bindW (remove_each T A N existing) (\<lambda>_. waitForVmsGone T A True (Names_list existing) 60 10)))"

definition remove_locked_vm ::
  "'w rest_st os_time \<Rightarrow> 'w apis \<Rightarrow> enums \<Rightarrow> 'w rest_st psql \<Rightarrow> string \<Rightarrow> ('w rest_st, bool) wcomp" where
  "remove_locked_vm T A N psql vm_name =
     bindW (removeVm T A N True vm_name [(''force'', PStr ''true'')]) (\<lambda>ok.
     if ok then retW True
     else
       bindW (run (update_vm_status_in_database (VM_API A) psql vm_name 0)) (\<lambda>updated.
       if truthy updated then removeVm T A N True vm_name [] else retW False))"

section \<open>Addresses\<close>

text \<open>
  VDSM of a host answers a command with lists of dictionaries, which are objects whose members are the
  entries, and pings an address.
\<close>

record 'w vdsm =
  vdsm_call :: "pyval \<Rightarrow> string \<Rightarrow> (string \<times> pyval) list \<Rightarrow> ('w rest_st, pyval) comp"
  send_icmp :: "pyval \<Rightarrow> pyval \<Rightarrow> ('w rest_st, bool) comp"

definition dict_get :: "pyval \<Rightarrow> string \<Rightarrow> exn + pyval" where
  "dict_get d k = (case d of PObj _ _ \<Rightarrow> Inr (opt_val (getattr_opt d k)) | _ \<Rightarrow> Inl AttributeError)"

definition get_vm_host :: "'w apis \<Rightarrow> string \<Rightarrow> ('w rest_st, pyval) comp" where
  "get_vm_host A vm_name =
     bindE (try_except (try_except
              (bindE (find_by (VM_API A) ''name'' (PStr vm_name)) (\<lambda>vm.
               bindE (lift_res (getattr_chain [''host'', ''id''] vm)) (\<lambda>i.
               bindE (find_by (HOST_API A) ''id'' i) (\<lambda>h. ret (Some h)))))
              EntityNotFound (\<lambda>_. ret None)) AttributeError (\<lambda>_. ret None)) (\<lambda>h.
     case h of None \<Rightarrow> ret PNone | Some x \<Rightarrow> lift_res (getattr x ''name''))"

definition get_host_ip_from_engine :: "'w apis \<Rightarrow> pyval \<Rightarrow> ('w rest_st, pyval) comp" where
  "get_host_ip_from_engine A host = bindE (get_host_object A (py_str host) ''name'') (\<lambda>h. lift_res (getattr h ''address''))"

definition inet_of :: "pyval \<Rightarrow> exn + pyval list" where
  "inet_of interface = res_bind (dict_get interface ''inet'') py_iter"

definition reported_ips :: "string \<Rightarrow> pyval \<Rightarrow> exn + pyval list" where
  "reported_ips vm vm_info =
     res_bind (dict_get vm_info ''vmName'') (\<lambda>n.
     if \<not> py_eq n (PStr vm) then Inr []
     else
       res_bind (dict_get vm_info ''netIfaces'') (\<lambda>interfaces.
       if \<not> truthy interfaces then Inr []
       else res_bind (py_iter interfaces) (\<lambda>l. res_bind (map_res inet_of l) (\<lambda>ips. Inr (concat ips)))))"

fun first_pinged :: "'w vdsm \<Rightarrow> pyval \<Rightarrow> pyval list \<Rightarrow> ('w rest_st, pyval) comp" where
  "first_pinged V host_ip [] = ret PNone"
| "first_pinged V host_ip (ip # ips) =
     bindE (send_icmp V host_ip ip) (\<lambda>ok. if ok then ret ip else first_pinged V host_ip ips)"

definition get_ip_once :: "'w vdsm \<Rightarrow> pyval \<Rightarrow> string \<Rightarrow> bool \<Rightarrow> ('w rest_st, pyval) comp" where
  "get_ip_once V host_ip vm get_all_ips =
     bindE (vdsm_call V host_ip ''Host.getVMFullList'' []) (\<lambda>v.
     bindE (lift_res (py_iter v)) (\<lambda>vms_info.
     bindE (lift_res (filter_res (\<lambda>i. res_bind (dict_get i ''vmName'') (\<lambda>n. Inr (py_eq n (PStr vm)))) vms_info)) (\<lambda>mine.
     bindE (lift_res (map_res (\<lambda>i. dict_get i ''vmId'') mine)) (\<lambda>vm_id.
     case vm_id of
       [] \<Rightarrow> ret (PStr [])
     | i # _ \<Rightarrow>
         bindE (vdsm_call V host_ip ''VM.getStats'' [(''vmID'', i)]) (\<lambda>info.
         if \<not> truthy info then ret (PStr [])
         else
           bindE (lift_res (first_of info)) (\<lambda>vm_info.
           bindE (lift_res (reported_ips vm vm_info)) (\<lambda>ips.
           if ips = [] then ret (PStr [])
           else if get_all_ips then ret (PList ips)
           else first_pinged V host_ip ips)))))))"

text \<open>The pair (found, address).\<close>

definition wait_for_vm_ip ::
  "'w rest_st os_time \<Rightarrow> 'w apis \<Rightarrow> 'w vdsm \<Rightarrow> string \<Rightarrow> int \<Rightarrow> int \<Rightarrow> bool \<Rightarrow> ('w rest_st, bool \<times> pyval) wcomp" where
  "wait_for_vm_ip T A V vm t s get_all_ips =
     bindW (run (get_vm_host A vm)) (\<lambda>vm_host.
     if \<not> truthy vm_host then retW (False, PNone)
     else
       bindW (run (get_host_ip_from_engine A vm_host)) (\<lambda>host_ip.
       tryW (sampling T (get_ip_once V host_ip vm get_all_ips)
               (\<lambda>ip. Inr (if truthy ip then Some (True, ip) else None)) t s)
         APITimeout (\<lambda>_. retW (False, PNone))))"

section \<open>Starting\<close>

text \<open>The keywords of an action: \<open>async\<close> and \<open>operations\<close> belong to the request, the others to the action.\<close>

definition action_of :: "(string, pyval) dict \<Rightarrow> action_args" where
  "action_of kw = action_default\<lparr>aa_async := pop_or kw ''async'' (PBool False), aa_params := without kw [''async'']\<rparr>"

record start_args =
  sa_wait_for_status :: "string option"
  sa_wait_for_ip :: bool
  sa_timeout :: int
  sa_placement_host :: pyval
  sa_use_cloud_init :: bool
  sa_pause :: pyval
  sa_kwargs :: "(string, pyval) dict"

definition start_default :: "enums \<Rightarrow> start_args" where
  "start_default N =
     \<lparr>sa_wait_for_status = Some (N ''vm_state_powering_up''), sa_wait_for_ip = False, sa_timeout = VM_ACTION_TIMEOUT,
      sa_placement_host = PNone, sa_use_cloud_init = False, sa_pause = PNone, sa_kwargs = []\<rparr>"

definition start_params :: "start_args \<Rightarrow> (string, pyval) dict" where
  "start_params a =
     dict_update ((if sa_use_cloud_init a then [(''use_cloud_init'', PStr ''true'')] else []) @
                  (if truthy (sa_pause a) then [(''pause'', sa_pause a)] else [])) (sa_kwargs a)"

definition status_after_start :: "enums \<Rightarrow> bool \<Rightarrow> start_args \<Rightarrow> string option" where
  "status_after_start N positive a =
     (if truthy (sa_pause a) then Some (N ''vm_state_paused'') else if positive then sa_wait_for_status a else None)"

definition start_query :: "string \<Rightarrow> string \<Rightarrow> string" where
  "start_query vm st = ''name='' @ vm @ '' and status='' @ search_state st @ '' or name='' @ vm @ '' and status=up''"

definition startVm ::
  "'w rest_st os_time \<Rightarrow> 'w apis \<Rightarrow> enums \<Rightarrow> enum_table \<Rightarrow> 'w vdsm \<Rightarrow> bool \<Rightarrow> string \<Rightarrow> start_args \<Rightarrow> ('w rest_st, bool) wcomp" where
  "startVm T A N En V positive vm a =
     bindW (run (find_by (VM_API A) ''name'' (PStr vm))) (\<lambda>x.
     bindW (run (if truthy (sa_placement_host a) then updateVm A N En True vm [(''placement_host'', sa_placement_host a)] else ret True)) (\<lambda>placed.
     if \<not> placed then retW False
     else
       bindW (run (syncAction (VM_API A) x ''start'' positive (action_of (start_params a)))) (\<lambda>r.
       if \<not> truthy r then retW False
       else
         case status_after_start N positive a of
           None \<Rightarrow> retW True
         | Some st \<Rightarrow>
             bindW (waitForQuery T (state_query (VM_API A) (start_query vm st)) (sa_timeout a) 10) (\<lambda>started.
             bindW (if started \<and> sa_wait_for_ip a
                    then bindW (wait_for_vm_ip T A V vm 600 DEF_SLEEP_VM False) (\<lambda>found. retW (fst found))
                    else retW started) (\<lambda>done. retW (done = positive))))))"

definition restartVm ::
  "'w rest_st os_time \<Rightarrow> 'w apis \<Rightarrow> enums \<Rightarrow> enum_table \<Rightarrow> 'w vdsm \<Rightarrow> string \<Rightarrow> bool \<Rightarrow> int \<Rightarrow> string \<Rightarrow> string option \<Rightarrow> pyval
   \<Rightarrow> ('w rest_st, bool) wcomp" where
  "restartVm T A N En V vm wait_for_ip t is_async wait_for_status placement_host =
     bindW (run (checkVmState A True vm (N ''vm_state_down'') PNone)) (\<lambda>down.
     bindW (run (if down then ret True else stopVm A True vm is_async)) (\<lambda>ok.
     if \<not> ok then retW False
     else
       startVm T A N En V True vm
         ((start_default N)\<lparr>sa_wait_for_status := wait_for_status, sa_wait_for_ip := wait_for_ip, sa_timeout := t,
                            sa_placement_host := placement_host\<rparr>)))"

text \<open>A job keeps the exception of its function, so that one machine does not stop the others.\<close>

definition startVms_one ::
  "'w rest_st os_time \<Rightarrow> 'w apis \<Rightarrow> enums \<Rightarrow> enum_table \<Rightarrow> 'w vdsm \<Rightarrow> start_args \<Rightarrow> string \<Rightarrow> bool \<Rightarrow> ('w rest_st, bool) wcomp" where
  "startVms_one T A N En V a vm status =
     bindW (tryW (startVm T A N En V True vm a) PyException (\<lambda>_. retW False)) (\<lambda>ok. retW (status \<and> ok))"

definition startVms ::
  "'w rest_st os_time \<Rightarrow> 'w apis \<Rightarrow> enums \<Rightarrow> enum_table \<Rightarrow> 'w vdsm \<Rightarrow> names_arg \<Rightarrow> string option \<Rightarrow> ('w rest_st, bool) wcomp" where
  "startVms T A N En V vms wait_for_status =
     eachW (names_of vms) (startVms_one T A N En V ((start_default N)\<lparr>sa_wait_for_status := wait_for_status\<rparr>)) True"

definition reboot_vms ::
  "'w rest_st os_time \<Rightarrow> 'w apis \<Rightarrow> enums \<Rightarrow> enum_table \<Rightarrow> 'w vdsm \<Rightarrow> string list \<Rightarrow> ('w rest_st, bool) wcomp" where
  "reboot_vms T A N En V vms =
     bindW (stop_vms_safely T A N vms) (\<lambda>_. startVms T A N En V (Names_list vms) (Some (N ''vm_state_powering_up'')))"

text \<open>What a future of the executor holds, and the first that failed decides.\<close>

definition caught :: "('w rest_st, bool) wcomp \<Rightarrow> ('w rest_st, exn + bool) wcomp" where
  "caught m w = (case m w of None \<Rightarrow> None | Some (r, w1) \<Rightarrow> Some (Inr r, w1))"

fun check_started :: "(exn + bool) list \<Rightarrow> exn + unit" where
  "check_started [] = Inr ()"
| "check_started (Inl e # rs) = Inl e"
| "check_started (Inr ok # rs) = (if ok then check_started rs else Inl (TestExc VMException))"

definition submit_down ::
  "'w apis \<Rightarrow> enums \<Rightarrow> (string \<Rightarrow> ('w rest_st, bool) wcomp) \<Rightarrow> string \<Rightarrow> (exn + bool) list \<Rightarrow> ('w rest_st, (exn + bool) list) wcomp" where
  "submit_down A N job machine results =
     bindW (run (get_vm_state A machine)) (\<lambda>st.
     if py_eq st (PStr (N ''vm_state_down'')) then bindW (caught (job machine)) (\<lambda>r. retW (results @ [r]))
     else retW results)"

definition start_vms ::
  "'w rest_st os_time \<Rightarrow> 'w apis \<Rightarrow> enums \<Rightarrow> enum_table \<Rightarrow> 'w vdsm \<Rightarrow> string list \<Rightarrow> string option \<Rightarrow> bool \<Rightarrow> ('w rest_st, unit) wcomp" where
  "start_vms T A N En V vm_list wait_for_status wait_for_ip =
     bindW (eachW vm_list
              (submit_down A N (\<lambda>m. startVm T A N En V True m
                 ((start_default N)\<lparr>sa_wait_for_status := wait_for_status, sa_wait_for_ip := wait_for_ip\<rparr>))) [])
       (\<lambda>results. run (lift_res (check_started results)))"

definition run_vms_once ::
  "'w apis \<Rightarrow> enums \<Rightarrow> (string \<Rightarrow> ('w rest_st, bool) wcomp) \<Rightarrow> string list \<Rightarrow> ('w rest_st, unit) wcomp" where
  "run_vms_once A N run_one vms = bindW (eachW vms (submit_down A N run_one) []) (\<lambda>results. run (lift_res (check_started results)))"

text \<open>The object of an action: what the keywords give, and an operating system in any case.\<close>

definition once_media :: "'w apis \<Rightarrow> string \<Rightarrow> string \<Rightarrow> string \<Rightarrow> string \<Rightarrow> pyval \<Rightarrow> pyval \<Rightarrow> exn + pyval" where
  "once_media A cls coll_cls coll_member item image_id x =
     (if truthy image_id then
        res_bind (construct (new_object A ''File'') [(''id'', image_id)]) (\<lambda>f.
        res_bind (add_member item (setattr (new_object A cls) ''file'' f) (new_object A coll_cls)) (\<lambda>c.
        Inr (setattr x coll_member c)))
      else Inr x)"

definition once_os :: "'w apis \<Rightarrow> (string, pyval) dict \<Rightarrow> pyval \<Rightarrow> exn + pyval" where
  "once_os A kw x =
     (let boot_dev = kwget kw ''boot_dev''; os = new_object A ''OperatingSystem'' in
      res_bind (if \<not> truthy boot_dev then Inr os
                else
                  res_bind (as_string boot_dev) (\<lambda>s.
                  res_bind (construct (new_object A ''devicesType'') [(''device'', PList (map PStr (split_on s '','')))]) (\<lambda>d.
                  set_new A True ''boot'' ''Boot'' [(''devices'', d)] os))) (\<lambda>os1.
      Inr (setattr x ''os'' (foldl (\<lambda>o1 k. set_some kw k o1) os1 os_options))))"

definition once_host :: "'w apis \<Rightarrow> (string, pyval) dict \<Rightarrow> pyval \<Rightarrow> ('w rest_st, pyval) comp" where
  "once_host A kw x =
     (let host = kwget kw ''host'' in
      if \<not> truthy host then ret x
      else
        bindE (find_by (HOST_API A) ''name'' host) (\<lambda>h.
        lift_res (res_bind (add_member ''host'' h (new_object A ''Hosts'')) (\<lambda>hs.
                  Inr (setattr x ''placement_policy'' (setattr (new_object A ''VmPlacementPolicy'') ''hosts'' hs))))))"

definition vm_for_action :: "'w apis \<Rightarrow> (string, pyval) dict \<Rightarrow> ('w rest_st, pyval) comp" where
  "vm_for_action A kw =
     bindE (through
       [local_step (set_new A (any_true kw [''display_type'']) ''display'' ''Display'' (given kw [(''type_'', ''display_type'')])),
        \<lambda>x. ret (set_true kw ''initialization'' (set_some kw ''stateless'' x)),
        local_step (once_media A ''Cdrom'' ''Cdroms'' ''cdroms'' ''cdrom'' (kwget kw ''cdrom_image'')),
        local_step (once_media A ''Floppy'' ''Floppies'' ''floppies'' ''floppy'' (kwget kw ''floppy_image'')),
        local_step (once_os A kw), once_host A kw,
        \<lambda>x. ret (set_some kw ''custom_emulated_machine'' (set_some kw ''custom_cpu_model'' x))] (new_object A ''Vm'')) ret"

definition runVmOnce ::
  "'w apis \<Rightarrow> enums \<Rightarrow> bool \<Rightarrow> string \<Rightarrow> string \<Rightarrow> pyval \<Rightarrow> bool \<Rightarrow> bool \<Rightarrow> (string, pyval) dict \<Rightarrow> ('w rest_st, bool) comp" where
  "runVmOnce A N positive vm wait_for_state pause use_cloud_init use_sysprep kw =
     bindE (get_vm A vm) (\<lambda>x.
     bindE (vm_for_action A kw) (\<lambda>v.
     let params = [(''vm'', v), (''use_sysprep'', PBool use_sysprep), (''use_cloud_init'', PBool use_cloud_init)] @
                  (if truthy pause then [(''pause'', pause)] else []);
         state = (if truthy pause then N ''vm_state_paused'' else wait_for_state) in
     bindE (syncAction (VM_API A) x ''start'' positive (action_default\<lparr>aa_params := params\<rparr>)) (\<lambda>r.
     if truthy r \<and> positive then waitForElemStatus (VM_API A) x state VM_ACTION_TIMEOUT False else ret (truthy r))))"

section \<open>Suspending, shutting down and migrating\<close>

definition suspendVm :: "'w apis \<Rightarrow> bool \<Rightarrow> string \<Rightarrow> bool \<Rightarrow> ('w rest_st, bool) comp" where
  "suspendVm A positive vm wait =
     bindE (find_by (VM_API A) ''name'' (PStr vm)) (\<lambda>x.
     bindE (waitForElemStatus (VM_API A) x ''up'' VM_ACTION_TIMEOUT False) (\<lambda>up.
     if \<not> up then ret False
     else
       bindE (syncAction (VM_API A) x ''suspend'' positive
                (action_default\<lparr>aa_async := PStr (if wait then ''false'' else ''true'')\<rparr>)) (\<lambda>r.
       if \<not> truthy r then ret False
       else if wait \<and> positive then waitForElemStatus (VM_API A) x ''suspended'' VM_ACTION_TIMEOUT True
       else ret True)))"

text \<open>The logs of a machine are fetched only from Linux; what fails on the way makes it False.\<close>

definition collect_vm_logs ::
  "'w apis \<Rightarrow> (string \<Rightarrow> ('w rest_st, pyval) comp) \<Rightarrow> (pyval \<Rightarrow> string \<Rightarrow> ('w rest_st, bool) comp) \<Rightarrow> string \<Rightarrow> ('w rest_st, bool) comp" where
  "collect_vm_logs A get_ip copy_messages vm_name =
     bindE (find_by (VM_API A) ''name'' (PStr vm_name)) (\<lambda>vm.
     bindE (lift_res (res_bind (getattr_chain [''os'', ''type_''] vm) lower_of)) (\<lambda>os_type.
     if \<not> (contains os_type ''linux'' \<or> contains os_type ''rhel'') then ret False
     else
       bindE (try_except (bindE (get_ip vm_name) (\<lambda>i. ret (Some i))) PyException (\<lambda>_. ret None)) (\<lambda>found.
       case found of None \<Rightarrow> ret False | Some vm_ip \<Rightarrow> copy_messages vm_ip vm_name)))"

definition shutdownVm ::
  "'w apis \<Rightarrow> (string \<Rightarrow> ('w rest_st, pyval) comp) \<Rightarrow> (pyval \<Rightarrow> string \<Rightarrow> ('w rest_st, bool) comp) \<Rightarrow> bool \<Rightarrow> string \<Rightarrow> string
   \<Rightarrow> ('w rest_st, bool) comp" where
  "shutdownVm A get_ip copy_messages positive vm is_async =
     bindE (collect_vm_logs A get_ip copy_messages vm) (\<lambda>_. changeVMStatus A positive vm ''shutdown'' ''down'' is_async)"

text \<open>
  After the wait the machine is looked up again: its host has to be another one, in the same cluster.
\<close>

definition migrated :: "pyval \<Rightarrow> pyval \<Rightarrow> pyval \<Rightarrow> exn + bool" where
  "migrated vm real_dest_host_id dest =
     res_bind (getattr_chain [''cluster'', ''id''] vm) (\<lambda>c. res_bind (getattr_chain [''cluster'', ''id''] dest) (\<lambda>d.
     if \<not> py_eq c d then Inr False
     else res_bind (getattr_chain [''host'', ''id''] vm) (\<lambda>h. Inr (\<not> py_eq h real_dest_host_id))))"

definition migrateVm :: "'w apis \<Rightarrow> bool \<Rightarrow> string \<Rightarrow> pyval \<Rightarrow> bool \<Rightarrow> bool \<Rightarrow> int \<Rightarrow> string \<Rightarrow> ('w rest_st, bool) comp" where
  "migrateVm A positive vm host wait force t wait_for_status =
     bindE (find_by (VM_API A) ''name'' (PStr vm)) (\<lambda>x.
     bindE (lift_res (getattr x ''host'')) (\<lambda>h.
     if \<not> truthy h then ret False
     else
       bindE (if truthy host then bindE (host_reference A host) (\<lambda>d. ret [(''host'', d)]) else ret []) (\<lambda>to_host.
       bindE (syncAction (VM_API A) x ''migrate'' positive
                (action_default\<lparr>aa_params := to_host @ (if force then [(''force'', PBool True)] else [])\<rparr>)) (\<lambda>r.
       if \<not> truthy r then ret False
       else if \<not> wait \<or> \<not> positive then ret True
       else
         bindE (waitForElemStatus (VM_API A) x wait_for_status t False) (\<lambda>up.
         if \<not> up then ret False
         else
           bindE (find_by (VM_API A) ''name'' (PStr vm)) (\<lambda>now.
           bindE (lift_res (getattr_chain [''host'', ''id''] now)) (\<lambda>i.
           bindE (find_by (HOST_API A) ''id'' i) (\<lambda>dest. lift_res (migrated x i dest)))))))))"

section \<open>Other actions\<close>

text \<open>\<open>waitForElemStatus\<close> with a status that was read from an element.\<close>

definition wait_for_old_status :: "'w rest_env \<Rightarrow> pyval \<Rightarrow> pyval \<Rightarrow> int \<Rightarrow> ('w rest_st, bool) comp" where
  "wait_for_old_status E x st t =
     (case st of
        PStr s \<Rightarrow> waitForElemStatus E x s t False
      | _ \<Rightarrow> bindE (refresh E x) (\<lambda>e. bindE (lift_res (elem_status e)) (\<lambda>found. if found = None then ret False else raise AttributeError)))"

definition detachVm :: "'w apis \<Rightarrow> bool \<Rightarrow> string \<Rightarrow> ('w rest_st, bool) comp" where
  "detachVm A positive vm =
     bindE (find_by (VM_API A) ''name'' (PStr vm)) (\<lambda>x.
     bindE (lift_res (getattr x ''status'')) (\<lambda>st.
     bindE (syncAction (VM_API A) x ''detach'' positive action_default) (\<lambda>r.
     if truthy r \<and> positive then wait_for_old_status (VM_API A) x st VM_ACTION_TIMEOUT else ret (truthy r))))"

definition vm_action :: "'w apis \<Rightarrow> string \<Rightarrow> string \<Rightarrow> bool \<Rightarrow> (string, pyval) dict \<Rightarrow> ('w rest_st, pyval) comp" where
  "vm_action A vm action positive params =
     bindE (find_by (VM_API A) ''name'' (PStr vm)) (\<lambda>x. syncAction (VM_API A) x action positive (action_of params))"

definition ticketVm :: "'w apis \<Rightarrow> bool \<Rightarrow> string \<Rightarrow> pyval \<Rightarrow> ('w rest_st, bool) comp" where
  "ticketVm A positive vm expiry =
     bindE (find_by (VM_API A) ''name'' (PStr vm)) (\<lambda>x.
     bindE (lift_res (py_int expiry)) (\<lambda>n.
     bindE (syncAction (VM_API A) x ''ticket'' positive
              (action_default\<lparr>aa_params := [(''ticket'', setattr (new_object A ''Ticket'') ''expiry'' (PInt n))]\<rparr>)) (\<lambda>r.
     ret (truthy r))))"

definition reorder_vm_mac_address :: "'w apis \<Rightarrow> string \<Rightarrow> ('w rest_st, pyval) comp" where
  "reorder_vm_mac_address A vm_name = vm_action A vm_name ''reordermacaddresses'' True [(''async'', PBool True)]"

definition freeze_vm :: "'w apis \<Rightarrow> bool \<Rightarrow> string \<Rightarrow> ('w rest_st, pyval) comp" where
  "freeze_vm A positive vm = vm_action A vm ''freezefilesystems'' positive []"

definition thaw_vm :: "'w apis \<Rightarrow> bool \<Rightarrow> string \<Rightarrow> ('w rest_st, pyval) comp" where
  "thaw_vm A positive vm = vm_action A vm ''thawfilesystems'' positive []"

definition reboot_vm :: "'w apis \<Rightarrow> bool \<Rightarrow> string \<Rightarrow> ('w rest_st, pyval) comp" where
  "reboot_vm A positive vm = vm_action A vm ''reboot'' positive []"

definition set_he_global_maintenance :: "'w apis \<Rightarrow> string \<Rightarrow> pyval \<Rightarrow> ('w rest_st, bool) comp" where
  "set_he_global_maintenance A vm_name enabled =
     bindE (vm_action A vm_name ''maintenance'' True [(''maintenance_enabled'', enabled)]) (\<lambda>r. ret (truthy r))"

definition set_sso_ticket :: "'w apis \<Rightarrow> string \<Rightarrow> pyval \<Rightarrow> pyval \<Rightarrow> ('w rest_st, bool) comp" where
  "set_sso_ticket A vm_name v expiry =
     bindE (vm_action A vm_name ''ticket'' True [(''value'', v), (''expiry'', expiry)]) (\<lambda>r. ret (truthy r))"

definition logon_vm :: "'w apis \<Rightarrow> string \<Rightarrow> ('w rest_st, bool) comp" where
  "logon_vm A vm_name = bindE (vm_action A vm_name ''logon'' True []) (\<lambda>r. ret (truthy r))"

definition addTagToVm :: "'w apis \<Rightarrow> bool \<Rightarrow> string \<Rightarrow> pyval \<Rightarrow> ('w rest_st, bool) comp" where
  "addTagToVm A positive vm tag_name =
     bindE (find_by (VM_API A) ''name'' (PStr vm)) (\<lambda>x.
     bindE (link_address (VM_API A) x ''tags'' ''tag'') (\<lambda>vm_tags.
     bindE (create_in (TAG_API A) (setattr (new_object A ''Tag'') ''name'' tag_name) positive vm_tags [] False) (\<lambda>r. ret (snd r))))"

definition removeTagFromVm :: "'w apis \<Rightarrow> bool \<Rightarrow> string \<Rightarrow> pyval \<Rightarrow> ('w rest_st, bool) comp" where
  "removeTagFromVm A positive vm tag_name =
     bindE (find_by (VM_API A) ''name'' (PStr vm)) (\<lambda>x.
     bindE (rest_getElemFromElemColl (VM_API A) x tag_name ''tags'' ''tag'' ''name'' False) (\<lambda>t.
     delete_element (VM_API A) t positive))"

section \<open>Export and import\<close>

definition exportVm :: "'w apis \<Rightarrow> bool \<Rightarrow> string \<Rightarrow> pyval \<Rightarrow> pyval \<Rightarrow> pyval \<Rightarrow> int \<Rightarrow> pyval \<Rightarrow> ('w rest_st, bool) comp" where
  "exportVm A positive vm storagedomain exclusive discard_snapshots t is_async =
     bindE (find_by (VM_API A) ''name'' (PStr vm)) (\<lambda>x.
     bindE (lift_res (construct (new_object A ''StorageDomain'') [(''name'', storagedomain)])) (\<lambda>sd.
     bindE (lift_res (getattr x ''status'')) (\<lambda>st.
     bindE (syncAction (VM_API A) x ''export'' positive
              (action_default\<lparr>aa_async := is_async,
                 aa_params := [(''storage_domain'', sd), (''exclusive'', exclusive), (''discard_snapshots'', discard_snapshots)]\<rparr>)) (\<lambda>r.
     if truthy r \<and> positive then wait_for_old_status (VM_API A) x st t else ret (truthy r)))))"

definition vms_of_domain :: "'w apis \<Rightarrow> pyval \<Rightarrow> ('w rest_st, pyval) comp" where
  "vms_of_domain A sd = linked (VM_API A) sd ''vms'' ''vm''"

text \<open>A new name makes a clone, and a clone collapses the snapshots.\<close>

definition import_params ::
  "'w apis \<Rightarrow> pyval \<Rightarrow> pyval \<Rightarrow> pyval \<Rightarrow> pyval \<Rightarrow> pyval \<Rightarrow> bool \<Rightarrow> bool \<Rightarrow> action_args" where
  "import_params A sd cl is_async n new_vm collapse clone =
     (let cloned = clone \<or> truthy n; collapsed = collapse \<or> cloned in
      action_default\<lparr>aa_async := is_async, aa_operations := (if collapsed then [''collapse_snapshots''] else []),
        aa_params := [(''storage_domain'', sd), (''cluster'', cl)] @ (if cloned then [(''clone'', PBool True)] else []) @
                     (if collapsed then [(''vm'', new_vm)] else [])\<rparr>)"

definition importVm ::
  "'w rest_st os_time \<Rightarrow> 'w apis \<Rightarrow> bool \<Rightarrow> pyval \<Rightarrow> string \<Rightarrow> pyval \<Rightarrow> pyval \<Rightarrow> pyval \<Rightarrow> pyval \<Rightarrow> bool \<Rightarrow> bool \<Rightarrow> int
   \<Rightarrow> ('w rest_st, bool) wcomp" where
  "importVm T A positive vm export_storagedomain import_storagedomain cluster n is_async collapse clone t =
     bindW (run (find_by (STORAGE_API A) ''name'' (PStr export_storagedomain))) (\<lambda>export.
     bindW (run (vms_of_domain A export)) (\<lambda>sd_vms.
     bindW (run (rest_find (VM_API A) vm ''name'' True sd_vms False [])) (\<lambda>x.
     bindW (run (lift_res (getattr x ''status''))) (\<lambda>st.
     bindW (run (lift_res (getattr x ''name''))) (\<lambda>old_name.
     bindW (run (lift_res (construct (new_object A ''StorageDomain'') [(''name'', import_storagedomain)]))) (\<lambda>sd.
     bindW (run (lift_res (construct (new_object A ''Cluster'') [(''name'', cluster)]))) (\<lambda>cl.
     let new_vm = set_if (truthy n) ''name'' n (new_object A ''Vm'') in
     bindW (run (syncAction (VM_API A) x ''import'' positive (import_params A sd cl is_async n new_vm collapse clone))) (\<lambda>r.
     if truthy is_async then retW (truthy r)
     else if truthy r \<and> positive then
       bindW (run (lift_res (lower_of st))) (\<lambda>_.
       waitForVMState T A (py_str (if truthy n then n else old_name)) (py_str st) t DEF_SLEEP)
     else retW (truthy r)))))))))"

text \<open>A machine that is there, though it should not be, is True as well.\<close>

definition is_vm_exists_in_export_domain :: "'w apis \<Rightarrow> string \<Rightarrow> string \<Rightarrow> bool \<Rightarrow> ('w rest_st, bool) comp" where
  "is_vm_exists_in_export_domain A vm export_domain positive =
     bindE (find_by (STORAGE_API A) ''name'' (PStr export_domain)) (\<lambda>sd.
     try_except (bindE (rest_getElemFromElemColl (VM_API A) sd (PStr vm) [] [] ''name'' False) (\<lambda>_. ret True))
       EntityNotFound (\<lambda>_. ret (\<not> positive)))"

definition func_status :: "'w rest_st os_time \<Rightarrow> ('w rest_st, bool) comp \<Rightarrow> int \<Rightarrow> int \<Rightarrow> ('w rest_st, bool) wcomp" where
  "func_status T f t s w =
     (case waitForFuncStatus T f True (API_TimeoutingSampler t s) w of None \<Rightarrow> None | Some (r, _, w1) \<Rightarrow> Some (r, w1))"

definition remove_vm_from_export_domain :: "'w rest_st os_time \<Rightarrow> 'w apis \<Rightarrow> bool \<Rightarrow> string \<Rightarrow> string \<Rightarrow> int \<Rightarrow> int \<Rightarrow> ('w rest_st, bool) wcomp" where
  "remove_vm_from_export_domain T A positive vm export_storagedomain t s =
     bindW (run (find_by (STORAGE_API A) ''name'' (PStr export_storagedomain))) (\<lambda>sd.
     bindW (run (rest_getElemFromElemColl (VM_API A) sd (PStr vm) [] [] ''name'' False)) (\<lambda>x.
     bindW (run (delete_element (VM_API A) x positive)) (\<lambda>ok.
     if \<not> ok then retW False
     else func_status T (is_vm_exists_in_export_domain A vm export_storagedomain False) t s)))"

section \<open>What is known of a machine\<close>

definition get_vms_objects_from_storage_domain :: "'w apis \<Rightarrow> pyval \<Rightarrow> ('w rest_st, pyval) comp" where
  "get_vms_objects_from_storage_domain A storage_domain_name =
     bindE (try_except (bindE (get_storage_domain_obj A storage_domain_name ''name'') (\<lambda>sd. ret (Some sd))) EntityNotFound (\<lambda>_. ret None)) (\<lambda>found.
     case found of None \<Rightarrow> ret (PList []) | Some sd \<Rightarrow> vms_of_domain A sd)"

definition names_in :: "pyval \<Rightarrow> exn + pyval" where
  "names_in v = res_bind (py_iter v) (\<lambda>l. res_bind (map_res (\<lambda>x. getattr x ''name'') l) (\<lambda>ns. Inr (PList ns)))"

definition get_vms_from_storage_domain :: "'w apis \<Rightarrow> pyval \<Rightarrow> ('w rest_st, pyval) comp" where
  "get_vms_from_storage_domain A storage_domain_name =
     bindE (get_vms_objects_from_storage_domain A storage_domain_name) (\<lambda>v.
     if truthy v then lift_res (names_in v) else ret v)"

definition get_vms_from_cluster :: "'w apis \<Rightarrow> string \<Rightarrow> ('w rest_st, pyval list) comp" where
  "get_vms_from_cluster A cluster =
     bindE (find_by (CL_API A) ''name'' (PStr cluster)) (\<lambda>c.
     bindE (lift_res (getattr c ''id'')) (\<lambda>i.
     bindE (listed (VM_API A)) (\<lambda>vms.
     lift_res (res_bind (filter_res (\<lambda>x. res_bind (getattr_chain [''cluster'', ''id''] x) (\<lambda>j. Inr (py_eq j i))) vms)
                 (map_res (\<lambda>x. getattr x ''name''))))))"

definition get_all_vms :: "'w apis \<Rightarrow> ('w rest_st, pyval) comp" where
  "get_all_vms A = get_all (VM_API A)"

definition get_all_vms_names :: "'w apis \<Rightarrow> ('w rest_st, pyval list) comp" where
  "get_all_vms_names A = bindE (get_all_vms A) (\<lambda>v. lift_res (res_bind (py_iter v) (map_res (\<lambda>x. getattr x ''name''))))"

text \<open>A member of the machine found by query, behind a path.\<close>

definition vm_member :: "'w apis \<Rightarrow> string \<Rightarrow> string list \<Rightarrow> ('w rest_st, pyval) comp" where
  "vm_member A vm_name path = bindE (get_vm_obj A vm_name False) (\<lambda>vm. lift_res (getattr_chain path vm))"

definition getVmTemplateId :: "'w apis \<Rightarrow> string \<Rightarrow> ('w rest_st, pyval) comp" where
  "getVmTemplateId A vm =
     bindE (try_except (find_by (VM_API A) ''name'' (PStr vm)) EntityNotFound (\<lambda>_. raise (TestExc VMException)))
       (\<lambda>x. lift_res (getattr_chain [''template'', ''id''] x))"

definition get_vm_boot_sequence :: "'w apis \<Rightarrow> string \<Rightarrow> ('w rest_st, pyval) comp" where
  "get_vm_boot_sequence A vm_name = vm_member A vm_name [''os'', ''boot'', ''devices'', ''device'']"

definition get_vm_display_port :: "'w apis \<Rightarrow> string \<Rightarrow> ('w rest_st, pyval) comp" where
  "get_vm_display_port A vm_name = vm_member A vm_name [''display'', ''port'']"

definition get_vm_display_address :: "'w apis \<Rightarrow> string \<Rightarrow> ('w rest_st, pyval) comp" where
  "get_vm_display_address A vm_name = vm_member A vm_name [''display'', ''address'']"

definition get_vm_stateless_status :: "'w apis \<Rightarrow> string \<Rightarrow> ('w rest_st, pyval) comp" where
  "get_vm_stateless_status A vm_name = vm_member A vm_name [''stateless'']"

definition get_vm_memory :: "'w apis \<Rightarrow> string \<Rightarrow> ('w rest_st, pyval) comp" where
  "get_vm_memory A vm_name =
     bindE (get_vm_obj A vm_name False) (\<lambda>vm. if \<not> truthy vm then ret (PInt 0) else lift_res (getattr vm ''memory''))"

definition get_vm_cores :: "'w apis \<Rightarrow> string \<Rightarrow> ('w rest_st, pyval) comp" where
  "get_vm_cores A vm_name =
     bindE (get_vm_obj A vm_name False) (\<lambda>vm.
     if \<not> truthy vm then ret (PInt 0) else lift_res (getattr_chain [''cpu'', ''topology'', ''cores''] vm))"

definition or_zero :: "pyval \<Rightarrow> pyval" where
  "or_zero v = (if truthy v then v else PInt 0)"

definition get_vm_sockets :: "'w apis \<Rightarrow> string \<Rightarrow> ('w rest_st, pyval) comp" where
  "get_vm_sockets A vm_name = bindE (vm_member A vm_name [''cpu'', ''topology'', ''sockets'']) (\<lambda>v. ret (or_zero v))"

definition get_vm_threads :: "'w apis \<Rightarrow> string \<Rightarrow> ('w rest_st, pyval) comp" where
  "get_vm_threads A vm_name = bindE (vm_member A vm_name [''cpu'', ''topology'', ''threads'']) (\<lambda>v. ret (or_zero v))"

text \<open>The product of three numbers; each costs a query of its own.\<close>

definition product :: "pyval list \<Rightarrow> exn + int" where
  "product vs = res_bind (map_res (\<lambda>v. case num_of v of Some n \<Rightarrow> Inr n | None \<Rightarrow> Inl TypeError) vs) (\<lambda>ns. Inr (prod_list ns))"

definition get_vm_processing_units_number :: "'w apis \<Rightarrow> string \<Rightarrow> ('w rest_st, int) comp" where
  "get_vm_processing_units_number A vm_name =
     bindE (get_vm_cores A vm_name) (\<lambda>c.
     bindE (get_vm_sockets A vm_name) (\<lambda>s.
     bindE (lift_res (product [c, s])) (\<lambda>_.
     bindE (get_vm_threads A vm_name) (\<lambda>t. lift_res (product [c, s, t])))))"

definition get_vm_uuid :: "'w apis \<Rightarrow> string \<Rightarrow> ('w rest_st, pyval) comp" where
  "get_vm_uuid A vm_name = bindE (get_vm A vm_name) (\<lambda>x. lift_res (getattr x ''id''))"

definition get_vm_type :: "'w apis \<Rightarrow> string \<Rightarrow> ('w rest_st, pyval) comp" where
  "get_vm_type A vm_name = bindE (get_vm A vm_name) (\<lambda>x. lift_res (getattr x ''type_''))"

definition get_vm_sessions :: "'w apis \<Rightarrow> string \<Rightarrow> ('w rest_st, pyval) comp" where
  "get_vm_sessions A vm_name =
     bindE (get_vm A vm_name) (\<lambda>x.
     bindE (linked (VM_API A) x ''sessions'' ''session'') (\<lambda>v. ret (if truthy v then v else PList [])))"

definition get_vm_applications :: "'w apis \<Rightarrow> string \<Rightarrow> ('w rest_st, pyval list) comp" where
  "get_vm_applications A vm_name =
     bindE (find_by (VM_API A) ''name'' (PStr vm_name)) (\<lambda>x.
     bindE (linked_list (VM_API A) x ''applications'' ''application'') (\<lambda>l. lift_res (map_res (\<lambda>a. getattr a ''name'') l)))"

definition get_cpu_profile_id :: "'w apis \<Rightarrow> string \<Rightarrow> ('w rest_st, pyval) comp" where
  "get_cpu_profile_id A vm_name =
     bindE (find_by (VM_API A) ''name'' (PStr vm_name)) (\<lambda>x. lift_res (getattr_chain [''cpu_profile'', ''id''] x))"

definition get_vm_placement_hosts :: "'w apis \<Rightarrow> string \<Rightarrow> ('w rest_st, pyval list) comp" where
  "get_vm_placement_hosts A vm_name =
     bindE (vm_member A vm_name [''placement_policy'', ''hosts'', ''host'']) (\<lambda>v.
     bindE (lift_res (py_iter v)) (map_comp (\<lambda>h.
       bindE (lift_res (getattr h ''id'')) (\<lambda>i.
       bindE (find_by (HOST_API A) ''id'' i) (\<lambda>x. lift_res (getattr x ''name''))))))"

definition vm_add_affinity_label :: "'w apis \<Rightarrow> string \<Rightarrow> string \<Rightarrow> ('w rest_st, bool) comp" where
  "vm_add_affinity_label A vm_name affinity_label_name =
     bindE (get_vm_obj A vm_name False) (\<lambda>vm. add_affinity_label_to_element A vm (VM_API A) affinity_label_name)"

definition vm_remove_affinity_label :: "'w apis \<Rightarrow> string \<Rightarrow> string \<Rightarrow> ('w rest_st, bool) comp" where
  "vm_remove_affinity_label A vm_name affinity_label_name =
     bindE (get_vm_obj A vm_name False) (\<lambda>vm. remove_affinity_label_from_element A vm (VM_API A) affinity_label_name)"

text \<open>Processes and commands on the machine itself, over its address.\<close>

definition is_pid_running_on_vm ::
  "'w rest_st os_time \<Rightarrow> 'w apis \<Rightarrow> 'w vdsm \<Rightarrow> (pyval \<Rightarrow> pyval \<Rightarrow> ('w rest_st, bool) comp) \<Rightarrow> string \<Rightarrow> pyval \<Rightarrow> ('w rest_st, bool) wcomp" where
  "is_pid_running_on_vm T A V process_exists vm_name pid =
     bindW (wait_for_vm_ip T A V vm_name 600 DEF_SLEEP_VM False) (\<lambda>(found, ip).
     if found then run (process_exists ip pid) else raiseW (TestExc CanNotFindIP))"

definition run_cmd_on_vm ::
  "'w rest_st os_time \<Rightarrow> 'w apis \<Rightarrow> 'w vdsm \<Rightarrow> (pyval \<Rightarrow> pyval \<Rightarrow> ('w rest_st, bool \<times> pyval) comp) \<Rightarrow> string \<Rightarrow> pyval
   \<Rightarrow> ('w rest_st, bool \<times> pyval) wcomp" where
  "run_cmd_on_vm T A V run_machine_command vm_name cmd =
     bindW (wait_for_vm_ip T A V vm_name 600 DEF_SLEEP_VM False) (\<lambda>(found, ip). run (run_machine_command ip cmd))"

definition check_vm_connectivity ::
  "'w rest_st os_time \<Rightarrow> 'w apis \<Rightarrow> 'w vdsm \<Rightarrow> (pyval \<Rightarrow> ('w rest_st, bool) comp) \<Rightarrow> string \<Rightarrow> int \<Rightarrow> ('w rest_st, bool) wcomp" where
  "check_vm_connectivity T A V reaches vm t =
     bindW (wait_for_vm_ip T A V vm t DEF_SLEEP_VM False) (\<lambda>(found, ip). if truthy ip then run (reaches ip) else retW False)"

section \<open>What is shown\<close>

lemma lift_res_Inr: "lift_res (Inr x) = ret x" and ret_apply: "ret x w = (Inr x, w)"
  by (simp_all add: comp_simps)

lemma waitForQuery_sampling:
  "waitForQuery T f t s = tryW (sampling T f (\<lambda>ok. Inr (if truthy ok then Some True else None)) t s) APITimeout (\<lambda>_. retW False)"
  by (rule ext) (simp add: waitForQuery_def tryW_def sampling_def run_def lift_res_Inr ret_apply split: option.split prod.split sum.split)

lemma waitForQuery_True:
  assumes "clock_laws T clk" and "waitForQuery T f t s w = Some (Inr True, w')"
  shows "\<exists>v ok. f v = (Inr ok, w') \<and> truthy ok"
proof -
  from assms(2) have "sampling T f (\<lambda>ok. Inr (if truthy ok then Some True else None)) t s w = Some (Inr True, w')"
    unfolding waitForQuery_sampling by (auto elim!: tryW_InrE simp: ret_def)
  from sampling_Inr [OF assms(1) this] show ?thesis by (auto split: if_splits)
qed

lemma query_comes_back:
  "clock_laws T clk \<Longrightarrow> never_back clk f \<Longrightarrow> 0 < s \<Longrightarrow> comes_back clk (waitForQuery T f t s)"
  unfolding waitForQuery_sampling by (intro comes_back_intros never_back_intros)

lemma waitUntilGone_sampling:
  "waitUntilGone T E positive names t s attr =
     sampling T (query_with E (gone_query attr (names_of names)) []) (\<lambda>v. Inr (if \<not> truthy v then Some positive else None)) t s"
  by (rule ext) (simp add: waitUntilGone_def sampling_def lift_res_Inr)

lemma func_status_sampling:
  "func_status T f t s = tryW (sampling T f (\<lambda>b. Inr (if b then Some True else None)) t s) APITimeout (\<lambda>_. retW False)"
  unfolding func_status_def waitForFuncStatus_def sampling_def tryW_def lift_res_Inr
  by (rule ext) (auto simp: run_def ret_def eq_commute [of True] split: option.splits prod.splits sum.splits)

lemma func_status_comes_back [comes_back_intros]:
  "clock_laws T (server_time clk) \<Longrightarrow> never_back (server_time clk) f \<Longrightarrow> 0 < s \<Longrightarrow> comes_back (server_time clk) (func_status T f t s)"
  unfolding func_status_sampling by (intro comes_back_intros never_back_intros)

text \<open>True right after a look that was True, False after the time or after a look that ran into a time-out.\<close>

lemma func_status_Inr:
  assumes "clock_laws T clk" and "func_status T f t s w = Some (Inr b, w')"
  shows "if b then \<exists>v. f v = (Inr True, w') else clk w + t < clk w' \<or> (\<exists>v e. f v = (Inl e, w') \<and> isinstance e APITimeout)"
proof -
  from assms(2) consider "sampling T f (\<lambda>b. Inr (if b then Some True else None)) t s w = Some (Inr b, w')"
    | e where "sampling T f (\<lambda>b. Inr (if b then Some True else None)) t s w = Some (Inl e, w')" "isinstance e APITimeout" "\<not> b"
    unfolding func_status_sampling by (auto elim!: tryW_InrE simp: ret_def)
  then show ?thesis
  proof cases
    case 1
    from sampling_Inr [OF assms(1) this] show ?thesis by (auto split: if_splits)
  next
    case 2
    from sampling_Inl [OF assms(1) 2(1)] 2(2,3) show ?thesis by (auto split: if_splits)
  qed
qed

lemma delay_positive [simp]: "0 < DEF_SLEEP" and "0 < DEF_SLEEP_VM"
  by (simp_all add: DEF_SLEEP_def DEF_SLEEP_VM_def)

lemma state_query_never_back: "keeps_time clk E \<Longrightarrow> never_back (server_time clk) (state_query E q)"
  unfolding state_query_def by (rule query_never_back)

lemma query_with_never_back: "keeps_time clk E \<Longrightarrow> never_back (server_time clk) (query_with E q p)"
  unfolding query_with_def by (rule query_never_back)

lemma does_vm_exist_never_back: "apis_keep_time clk A \<Longrightarrow> never_back (server_time clk) (does_vm_exist A vm)"
  and get_vm_state_never_back: "apis_keep_time clk A \<Longrightarrow> never_back (server_time clk) (get_vm_state A vm)"
  and stopVm_never_back: "apis_keep_time clk A \<Longrightarrow> never_back (server_time clk) (stopVm A positive vm is_async)"
  unfolding does_vm_exist_def get_vm_state_def stopVm_def changeVMStatus_def get_vm_def
  by (intro never_back_intros request_intros api_keeps_time, assumption?)+

lemma stop_running_never_back: "apis_keep_time clk A \<Longrightarrow> never_back (server_time clk) (stop_running A N vms st)"
  by (induction A N vms st rule: stop_running.induct)
    (auto intro!: never_back_intros does_vm_exist_never_back get_vm_state_never_back stopVm_never_back)

lemma waitForVMState_comes_back:
  "clock_laws T (server_time clk) \<Longrightarrow> apis_keep_time clk A \<Longrightarrow> 0 < s \<Longrightarrow> comes_back (server_time clk) (waitForVMState T A vm state t s)"
  unfolding waitForVMState_def by (intro query_comes_back state_query_never_back api_keeps_time)

lemma waitForVmsGone_comes_back:
  "clock_laws T (server_time clk) \<Longrightarrow> apis_keep_time clk A \<Longrightarrow> 0 < s \<Longrightarrow> comes_back (server_time clk) (waitForVmsGone T A positive vms t s)"
  unfolding waitForVmsGone_def waitUntilGone_sampling by (intro comes_back_intros query_with_never_back api_keeps_time)

lemma all_go_down_comes_back:
  "clock_laws T (server_time clk) \<Longrightarrow> apis_keep_time clk A \<Longrightarrow> comes_back (server_time clk) (all_go_down T A N vms ok)"
  by (induction T A N vms ok rule: all_go_down.induct) (auto intro!: comes_back_intros never_back_intros waitForVMState_comes_back)

lemma stop_vms_safely_comes_back:
  "clock_laws T (server_time clk) \<Longrightarrow> apis_keep_time clk A \<Longrightarrow> comes_back (server_time clk) (stop_vms_safely T A N vms)"
  unfolding stop_vms_safely_def by (auto intro!: comes_back_intros stop_running_never_back all_go_down_comes_back)

lemma removeVm_comes_back:
  assumes "clock_laws T (server_time clk)" and "apis_keep_time clk A" and "0 < int_or kw ''waitTime'' 10"
  shows "comes_back (server_time clk) (removeVm T A N positive vm kw)"
  unfolding removeVm_def
  by (intro comes_back_intros never_back_intros request_intros api_keeps_time stopVm_never_back waitForVmsGone_comes_back assms)

lemma remove_each_comes_back:
  "clock_laws T (server_time clk) \<Longrightarrow> apis_keep_time clk A \<Longrightarrow> comes_back (server_time clk) (remove_each T A N vms)"
  by (induction T A N vms rule: remove_each.induct)
    (auto intro!: comes_back_intros never_back_intros removeVm_comes_back simp: int_or_def)

definition look_up_all :: "'w apis \<Rightarrow> string list \<Rightarrow> ('w rest_st, (string \<times> bool) list) comp" where
  "look_up_all A vms = map_comp (\<lambda>v. bindE (does_vm_exist A v) (\<lambda>b. ret (v, b))) vms"

lemma waitForVmsGone_True:
  assumes "clock_laws T clk" and "waitForVmsGone T A True vms t s w = Some (Inr True, w')"
  shows "\<exists>v x. query_with (VM_API A) (gone_query ''name'' (names_of vms)) [] v = (Inr x, w') \<and> \<not> truthy x"
  using sampling_Inr [OF assms(1) assms(2) [unfolded waitForVmsGone_def waitUntilGone_sampling]] by (auto split: if_splits)

text \<open>
  C24. Removing machines safely always comes back. Its True means that none of the machines was found,
  or that the last query for those that were found, whose answer ends the wait, was empty.
\<close>

theorem safely_remove_vms_verdict:
  assumes "clock_laws T (server_time clk)" and "apis_keep_time clk A"
  shows "\<exists>r w'. safely_remove_vms T A N vms w = Some (r, w') \<and> server_time clk w \<le> server_time clk w' \<and>
    (r = Inr True \<longrightarrow> (\<exists>found v. look_up_all A vms w = (Inr found, v) \<and>
       (filter snd found = [] \<or>
        (\<exists>u x. query_with (VM_API A) (gone_query ''name'' (map fst (filter snd found))) [] u = (Inr x, w') \<and> \<not> truthy x))))"
proof -
  have "comes_back (server_time clk) (safely_remove_vms T A N vms)"
    unfolding safely_remove_vms_def Let_def
    by (intro comes_back_intros never_back_intros does_vm_exist_never_back stop_vms_safely_comes_back
        remove_each_comes_back waitForVmsGone_comes_back assms) simp
  then obtain r w' where r: "safely_remove_vms T A N vms w = Some (r, w')" "server_time clk w \<le> server_time clk w'"
    unfolding comes_back_def by blast
  have "\<exists>found v. look_up_all A vms w = (Inr found, v) \<and>
       (filter snd found = [] \<or>
        (\<exists>u x. query_with (VM_API A) (gone_query ''name'' (map fst (filter snd found))) [] u = (Inr x, w') \<and> \<not> truthy x))"
    if "r = Inr True"
  proof -
    from r(1) that obtain found v where f: "look_up_all A vms w = (Inr found, v)"
      and rest: "(let existing = map fst (filter snd found) in
         if existing = [] then retW True
         else bindW (stop_vms_safely T A N existing) (\<lambda>stopped.
           if \<not> stopped then retW False
           else bindW (remove_each T A N existing) (\<lambda>_. waitForVmsGone T A True (Names_list existing) 60 10))) v = Some (Inr True, w')"
      by (auto simp: safely_remove_vms_def look_up_all_def elim!: bindW_InrE)
    show ?thesis
    proof (cases "filter snd found = []")
      case False
      with rest obtain u where "waitForVmsGone T A True (Names_list (map fst (filter snd found))) 60 10 u = Some (Inr True, w')"
        by (auto simp: Let_def ret_apply elim!: bindW_InrE split: if_splits)
      from waitForVmsGone_True [OF assms(1) this] f show ?thesis by (auto simp: names_of_def)
    qed (use f in blast)
  qed
  with r show ?thesis by blast
qed

text \<open>
  C25. A start that was asked to wait and reports True was accepted by the engine, and the last query of
  the wait, which ends it, found the machine in the wanted state or up.
\<close>

theorem startVm_sound:
  assumes "clock_laws T clk" and "startVm T A N En V True vm a w = Some (Inr True, w')"
    and "status_after_start N True a = Some st" and "\<not> sa_wait_for_ip a"
  shows "(\<exists>x u v r. syncAction (VM_API A) x ''start'' True (action_of (start_params a)) u = (Inr r, v) \<and> truthy r) \<and>
    (\<exists>v ok. state_query (VM_API A) (start_query vm st) v = (Inr ok, w') \<and> truthy ok)"
proof -
  from assms(2-4) have "(\<exists>x u v r. syncAction (VM_API A) x ''start'' True (action_of (start_params a)) u = (Inr r, v) \<and> truthy r) \<and>
    (\<exists>u. waitForQuery T (state_query (VM_API A) (start_query vm st)) (sa_timeout a) 10 u = Some (Inr True, w'))"
    unfolding startVm_def by (auto simp: ret_apply elim!: bindW_InrE split: if_splits; blast)
  with waitForQuery_True [OF assms(1)] show ?thesis by blast
qed

text \<open>
  C26. A migration that was waited for and reports True: the machine was found, the engine accepted the
  migration of it, to the host asked for if there is one, the wait saw it in the status asked for, and then the machine was looked up by its name
  again and the host it was on then was looked up by its id; this host is not the one the machine was on
  at first, and is of the cluster the machine was in.
\<close>

theorem migrateVm_sound:
  assumes "migrateVm A True vm host True force t wait_for_status w = (Inr True, w')"
  shows "\<exists>x w1 to_host w2 r w3 w4 now w5 i dest h c d.
    find_by (VM_API A) ''name'' (PStr vm) w = (Inr x, w1) \<and>
    (if truthy host then \<exists>y. host_reference A host w1 = (Inr y, w2) \<and> to_host = [(''host'', y)] else w2 = w1 \<and> to_host = []) \<and>
    syncAction (VM_API A) x ''migrate'' True
      (action_default\<lparr>aa_params := to_host @ (if force then [(''force'', PBool True)] else [])\<rparr>) w2 = (Inr r, w3) \<and> truthy r \<and>
    waitForElemStatus (VM_API A) x wait_for_status t False w3 = (Inr True, w4) \<and>
    find_by (VM_API A) ''name'' (PStr vm) w4 = (Inr now, w5) \<and> getattr_chain [''host'', ''id''] now = Inr i \<and>
    find_by (HOST_API A) ''id'' i w5 = (Inr dest, w') \<and>
    getattr_chain [''host'', ''id''] x = Inr h \<and> \<not> py_eq h i \<and>
    getattr_chain [''cluster'', ''id''] x = Inr c \<and> getattr_chain [''cluster'', ''id''] dest = Inr d \<and> py_eq c d"
proof -
  from assms obtain x w1 hv where x: "find_by (VM_API A) ''name'' (PStr vm) w = (Inr x, w1)" and hv: "truthy hv"
    and rest: "bindE (if truthy host then bindE (host_reference A host) (\<lambda>d. ret [(''host'', d)]) else ret []) (\<lambda>to_host.
       bindE (syncAction (VM_API A) x ''migrate'' True
                (action_default\<lparr>aa_params := to_host @ (if force then [(''force'', PBool True)] else [])\<rparr>)) (\<lambda>r.
       if \<not> truthy r then ret False
       else
         bindE (waitForElemStatus (VM_API A) x wait_for_status t False) (\<lambda>up.
         if \<not> up then ret False
         else
           bindE (find_by (VM_API A) ''name'' (PStr vm)) (\<lambda>now.
           bindE (lift_res (getattr_chain [''host'', ''id''] now)) (\<lambda>i.
           bindE (find_by (HOST_API A) ''id'' i) (\<lambda>dest. lift_res (migrated x i dest))))))) w1 = (Inr True, w')"
    unfolding migrateVm_def
    by (elim bindE_InrE) (auto simp: ret_apply lift_res_def simp del: getattr_chain.simps split: if_splits)
  from rest obtain to_host w2 r w3 w4 now w5 i dest where
    to_host: "(if truthy host then bindE (host_reference A host) (\<lambda>d. ret [(''host'', d)]) else ret []) w1 = (Inr to_host, w2)"
    and act: "syncAction (VM_API A) x ''migrate'' True
        (action_default\<lparr>aa_params := to_host @ (if force then [(''force'', PBool True)] else [])\<rparr>) w2 = (Inr r, w3)" "truthy r"
      "waitForElemStatus (VM_API A) x wait_for_status t False w3 = (Inr True, w4)"
    and now: "find_by (VM_API A) ''name'' (PStr vm) w4 = (Inr now, w5)" "getattr_chain [''host'', ''id''] now = Inr i"
      "find_by (HOST_API A) ''id'' i w5 = (Inr dest, w')" and m: "migrated x i dest = Inr True"
    by (elim bindE_InrE [where m = "if truthy host then _ else _"])
      (auto simp: ret_apply lift_res_def simp del: getattr_chain.simps elim!: bindE_InrE split: if_splits; blast)
  have "if truthy host then \<exists>y. host_reference A host w1 = (Inr y, w2) \<and> to_host = [(''host'', y)] else w2 = w1 \<and> to_host = []"
    using to_host by (auto simp: ret_apply elim!: bindE_InrE split: if_splits)
  moreover from m obtain h c d where "getattr_chain [''host'', ''id''] x = Inr h" "\<not> py_eq h i"
    "getattr_chain [''cluster'', ''id''] x = Inr c" "getattr_chain [''cluster'', ''id''] dest = Inr d" "py_eq c d"
    by (auto simp: migrated_def res_bind_Inr simp del: getattr_chain.simps split: if_splits)
  ultimately show ?thesis using x act now by blast
qed

text \<open>
  The check used for the removal from an export domain does not see a machine that is still there:
  with \<open>positive=False\<close> it answers True in every case, found or not.
\<close>

theorem export_domain_check_blind:
  assumes "is_vm_exists_in_export_domain A vm export_domain positive s = (Inr b, s')"
  shows "\<exists>sd v. find_by (STORAGE_API A) ''name'' (PStr export_domain) s = (Inr sd, v) \<and>
    ((\<exists>x. rest_getElemFromElemColl (VM_API A) sd (PStr vm) [] [] ''name'' False v = (Inr x, s') \<and> b) \<or>
     (\<exists>e. rest_getElemFromElemColl (VM_API A) sd (PStr vm) [] [] ''name'' False v = (Inl e, s') \<and> isinstance e EntityNotFound \<and> b = (\<not> positive)))
    \<and> (\<not> positive \<longrightarrow> b)"
  using assms
  by (auto simp: is_vm_exists_in_export_domain_def try_except_def bindE_def ret_def elim!: bindE_InrE split: prod.splits sum.splits if_splits)

section \<open>Witnesses\<close>

text \<open>An engine with one machine, which is on another host after the first two requests.\<close>

definition vm_srv :: "nat server_fun" where
  "vm_srv rq w =
     (Inr \<lparr>resp_status = 200, resp_reason = ''OK'', resp_headers = [], resp_data = req_url rq @ (if 2 \<le> w then ''#late'' else [])\<rparr>, w + 1)"

definition demo_vm :: "string \<Rightarrow> pyval" where
  "demo_vm host =
     (let l = (\<lambda>rel. PObj ''Link'' [(''rel'', PStr rel), (''href'', PStr (''/api/do/'' @ rel))]) in
      PObj ''Vm'' [(''name'', PStr ''v1''), (''id'', PStr ''i1''), (''status'', PStr ''up''), (''href'', PStr ''/api/vms/v1''),
        (''host'', PObj ''Host'' [(''id'', PStr host)]), (''cluster'', PObj ''Cluster'' [(''id'', PStr ''c1'')]),
        (''link'', PList [PObj ''Link'' [(''rel'', PStr ''diskattachments''), (''href'', PStr ''/api/x'')]]),
        (''actions'', PObj ''Actions'' [(''link'', PList (map l [''start'', ''stop'', ''migrate'']))])])"

definition live_elements :: "string \<Rightarrow> string \<Rightarrow> pyval list" where
  "live_elements el s =
     (if el = ''vm'' then [demo_vm (if contains s ''#late'' then ''h2'' else ''h1'')]
      else if el = ''host'' then
        map (\<lambda>h. PObj ''Host'' [(''name'', PStr h), (''id'', PStr h), (''cluster'', PObj ''Cluster'' [(''id'', PStr ''c1'')])]) [''h1'', ''h2'']
      else [PObj ''StorageDomain'' [(''name'', PStr ''export''), (''id'', PStr ''s1''),
              (''link'', PList [PObj ''Link'' [(''rel'', PStr ''vms''), (''href'', PStr ''/api/s/vms'')]])]])"

definition live_apis :: "nat apis" where
  "live_apis el col = demo_rest\<lparr>srv := vm_srv, element_name := el, collection_name := col,
     links := [(col, ''/api/'' @ col), (col @ ''/search'', ''/api/'' @ col)], new_ds := (\<lambda>c. PObj c [(''id'', PNone), (''name'', PNone)]),
     parse := (\<lambda>s. Inr (if contains s ''/do/'' then PObj ''Action'' [(''status'', PStr ''complete'')]
                      else if contains s ''/vms/v1'' then demo_vm ''h1''
                      else PObj [] [(el, PList (live_elements el s))]))\<rparr>"

lemma live_apis_keep_time: "apis_keep_time int live_apis"
  by (simp add: apis_keep_time_def keeps_time_def moves_on_def live_apis_def vm_srv_def demo_rest_def)

definition no_vdsm :: "nat vdsm" where
  "no_vdsm = \<lparr>vdsm_call = (\<lambda>_ _ _. ret PNone), send_icmp = (\<lambda>_ _. ret False)\<rparr>"

theorem safely_remove_vms_verdict_witness:
  "\<exists>r. safely_remove_vms demo_clock live_apis disk_names [''v1''] demo_rest_st = Some r"
  using safely_remove_vms_verdict [OF demo_clock_laws live_apis_keep_time] by blast

declare sample_loop.simps [code]

lemma demo_start:
  "map_option fst (startVm demo_clock live_apis disk_names (\<lambda>_. None) no_vdsm True ''v1'' (start_default disk_names) demo_rest_st) = Some (Inr True)"
  by code_simp

theorem startVm_sound_witness:
  "\<exists>v w' ok. state_query (VM_API live_apis) (start_query ''v1'' ''vm_state_powering_up'') v = (Inr ok, w') \<and> truthy ok"
proof -
  obtain w' where run: "startVm demo_clock live_apis disk_names (\<lambda>_. None) no_vdsm True ''v1'' (start_default disk_names) demo_rest_st = Some (Inr True, w')"
    using demo_start by auto
  have "status_after_start disk_names True (start_default disk_names) = Some ''vm_state_powering_up''"
    "\<not> sa_wait_for_ip (start_default disk_names)"
    by (simp_all add: status_after_start_def start_default_def disk_names_def)
  from startVm_sound [OF demo_clock_laws run this] show ?thesis by blast
qed

lemma demo_migrate:
  "fst (migrateVm live_apis True ''v1'' (PStr ''h2'') True False 300 ''up'' demo_rest_st) = Inr True"
  by code_simp

theorem migrateVm_sound_witness:
  "\<exists>w4 now w5 i x w1 h. find_by (VM_API live_apis) ''name'' (PStr ''v1'') w4 = (Inr now, w5) \<and>
     getattr_chain [''host'', ''id''] now = Inr i \<and>
     find_by (VM_API live_apis) ''name'' (PStr ''v1'') demo_rest_st = (Inr x, w1) \<and>
     getattr_chain [''host'', ''id''] x = Inr h \<and> \<not> py_eq h i"
proof -
  obtain w' where "migrateVm live_apis True ''v1'' (PStr ''h2'') True False 300 ''up'' demo_rest_st = (Inr True, w')"
    using demo_migrate by (metis prod.collapse)
  from migrateVm_sound [OF this] show ?thesis by blast
qed

lemma demo_blind: "fst (is_vm_exists_in_export_domain live_apis ''v1'' ''export'' False demo_rest_st) = Inr True"
  by code_simp

theorem export_domain_check_blind_witness:
  "\<exists>s'. is_vm_exists_in_export_domain live_apis ''v1'' ''export'' False demo_rest_st = (Inr True, s') \<and>
    (\<exists>sd v. find_by (STORAGE_API live_apis) ''name'' (PStr ''export'') demo_rest_st = (Inr sd, v))"
proof -
  obtain s' where run: "is_vm_exists_in_export_domain live_apis ''v1'' ''export'' False demo_rest_st = (Inr True, s')"
    using demo_blind by (metis prod.collapse)
  from export_domain_check_blind [OF run] run show ?thesis by blast
qed

end
