(* ===== verification/Hosts.thy ===== *)
theory Hosts
  imports Vms
begin

text \<open>
  \<open>art/rhevm_api/tests_lib/low_level/hosts.py\<close>: hosts, their states, their storage pool manager (SPM),
  fencing, NUMA nodes, devices and the hosted engine. Commands on a host, the name service, the
  database and the state of the hosted engine on a host are parameters. The look-ups of the networks of
  a host are in \<open>Engine_Lookups\<close>, those of compatibility versions in \<open>Storage_Domains\<close>.
\<close>

definition AGENT_API :: "'w apis \<Rightarrow> 'w rest_env" where "AGENT_API A = A ''agent'' ''agents''"

definition HOST_STATE_TIMEOUT :: int where "HOST_STATE_TIMEOUT = 1000"
definition HOST_TIMEOUT :: int where "HOST_TIMEOUT = 120"
definition TIMEOUT_NON_RESPONSIVE_HOST :: int where "TIMEOUT_NON_RESPONSIVE_HOST = 360"
definition SPM_TIMEOUT :: int where "SPM_TIMEOUT = 180"
definition ACTIVATION_MAX_TIME :: int where "ACTIVATION_MAX_TIME = 300"
definition VIRSH_CMD :: "string list" where "VIRSH_CMD = [''virsh'', ''-r'']"
definition VDSM_MAC_SPOOFING :: string where "VDSM_MAC_SPOOFING = ''vdsm-no-mac-spoofing''"
definition LLDPS :: string where "LLDPS = ''linklayerdiscoveryprotocolelements''"
definition LLDP :: string where "LLDP = ''link_layer_discovery_protocol_element''"

section \<open>Looking hosts up\<close>

definition get_host_list :: "'w apis \<Rightarrow> ('w rest_st, pyval) comp" where
  "get_host_list A = get_all (HOST_API A)"

definition get_host_names_list :: "'w apis \<Rightarrow> ('w rest_st, pyval list) comp" where
  "get_host_names_list A = bindE (get_host_list A) (\<lambda>v. lift_res (res_bind (py_iter v) (map_res (\<lambda>h. getattr h ''name''))))"

definition host_member :: "'w apis \<Rightarrow> string \<Rightarrow> string list \<Rightarrow> ('w rest_st, pyval) comp" where
  "host_member A host path = bindE (get_host_object A host ''name'') (\<lambda>h. lift_res (getattr_chain path h))"

definition get_host_status :: "'w apis \<Rightarrow> string \<Rightarrow> ('w rest_st, pyval) comp" where
  "get_host_status A host = host_member A host [''status'']"

definition get_host_ip :: "'w apis \<Rightarrow> string \<Rightarrow> ('w rest_st, pyval) comp" where
  "get_host_ip A host = host_member A host [''address'']"

definition get_host_cluster :: "'w apis \<Rightarrow> string \<Rightarrow> ('w rest_st, pyval) comp" where
  "get_host_cluster A host =
     bindE (host_member A host [''cluster'', ''id'']) (\<lambda>i.
     bindE (find_by (CL_API A) ''id'' i) (\<lambda>c. lift_res (getattr c ''name'')))"

definition is_host_up :: "'w apis \<Rightarrow> enums \<Rightarrow> bool \<Rightarrow> string \<Rightarrow> ('w rest_st, bool) comp" where
  "is_host_up A N positive host =
     bindE (get_host_status A host) (\<lambda>st. ret (py_eq st (PStr (N ''host_state_up'')) = positive))"

definition is_host_exist :: "'w apis \<Rightarrow> string \<Rightarrow> ('w rest_st, bool) comp" where
  "is_host_exist A host = bindE (get_host_names_list A) (\<lambda>l. ret (\<exists>n \<in> set l. py_eq n (PStr host)))"

definition is_host_in_maintenance :: "'w apis \<Rightarrow> enums \<Rightarrow> bool \<Rightarrow> string \<Rightarrow> ('w rest_st, bool) comp" where
  "is_host_in_maintenance A N positive host =
     bindE (try_except (bindE (get_host_status A host) (\<lambda>st. ret (Some st))) EntityNotFound (\<lambda>_. ret None)) (\<lambda>found.
     ret (case found of None \<Rightarrow> False | Some st \<Rightarrow> py_eq st (PStr (N ''host_state_maintenance'')) = positive))"

section \<open>Waiting for states\<close>

text \<open>\<open>x in names\<close> for a list, and the test for a part of the text when the names are one string.\<close>

definition in_arg :: "names_arg \<Rightarrow> pyval \<Rightarrow> exn + bool" where
  "in_arg a v =
     (case a of
        Names_list l \<Rightarrow> Inr (is_one_of l v)
      | Names_string s \<Rightarrow> (case v of PStr u \<Rightarrow> Inr (contains s u) | _ \<Rightarrow> Inl TypeError))"

text \<open>
  One listing: a named host in a state that stops the wait gives False, as many named hosts in the
  wanted states as names were given gives True.
\<close>

fun hosts_round :: "names_arg \<Rightarrow> names_arg \<Rightarrow> string list \<Rightarrow> nat \<Rightarrow> nat \<Rightarrow> pyval list \<Rightarrow> exn + bool option" where
  "hosts_round names states stop_states n ok [] = Inr None"
| "hosts_round names states stop_states n ok (h # hs) =
     res_bind (getattr h ''name'') (\<lambda>name.
     res_bind (in_arg names name) (\<lambda>mine.
     if \<not> mine then hosts_round names states stop_states n ok hs
     else
       res_bind (getattr h ''status'') (\<lambda>st.
       if is_one_of stop_states st then Inr (Some False)
       else
         res_bind (in_arg states st) (\<lambda>there.
         let ok' = (if there then Suc ok else ok) in
         if ok' = n then Inr (Some True) else hosts_round names states stop_states n ok' hs))))"

definition wait_for_hosts_states ::
  "'w rest_st os_time \<Rightarrow> 'w apis \<Rightarrow> names_arg \<Rightarrow> names_arg \<Rightarrow> string list \<Rightarrow> int \<Rightarrow> int \<Rightarrow> ('w rest_st, bool) wcomp" where
  "wait_for_hosts_states T A names states stop_states t s =
     bindW (run (map_comp (\<lambda>h. get_host_object A h ''name'') (names_of names))) (\<lambda>_.
     tryW (sampling T (get_host_list A)
             (\<lambda>v. res_bind (py_iter v) (hosts_round names states stop_states (List.length (names_of names)) 0)) t s)
       APITimeout (\<lambda>_. retW False))"

definition host_states :: "'w rest_st os_time \<Rightarrow> 'w apis \<Rightarrow> enums \<Rightarrow> names_arg \<Rightarrow> names_arg \<Rightarrow> int \<Rightarrow> ('w rest_st, bool) wcomp" where
  "host_states T A N names states t = wait_for_hosts_states T A names states [N ''host_state_install_failed''] t 10"

section \<open>The hosted engine\<close>

definition get_hosted_engine_obj :: "'w apis \<Rightarrow> string \<Rightarrow> ('w rest_st, pyval) comp" where
  "get_hosted_engine_obj A host_name =
     bindE (named_query (HOST_API A) host_name True) (\<lambda>v.
     if truthy v then lift_res (res_bind (first_of v) (\<lambda>h. getattr h ''hosted_engine'')) else ret PNone)"

definition is_hosted_engine_configured :: "'w apis \<Rightarrow> string \<Rightarrow> ('w rest_st, pyval) comp" where
  "is_hosted_engine_configured A host_name =
     bindE (get_hosted_engine_obj A host_name) (\<lambda>x. if truthy x then lift_res (getattr x ''configured'') else ret (PBool False))"

definition is_hosted_engine_active :: "'w apis \<Rightarrow> string \<Rightarrow> ('w rest_st, pyval) comp" where
  "is_hosted_engine_active A host_name =
     bindE (is_hosted_engine_configured A host_name) (\<lambda>c.
     if \<not> truthy c then ret (PBool False)
     else bindE (get_hosted_engine_obj A host_name) (\<lambda>x. lift_res (getattr x ''active'')))"

text \<open>The state of the hosted engine on a host, a dictionary or nothing.\<close>

definition he_maintenance_is :: "bool \<Rightarrow> pyval \<Rightarrow> exn + bool option" where
  "he_maintenance_is enabled sample =
     (if \<not> truthy sample then Inr None
      else case getattr_opt sample ''maintenance'' of
             None \<Rightarrow> Inl KeyError
           | Some m \<Rightarrow> Inr (if py_eq m (PBool enabled) then Some True else None))"

definition wait_for_hosted_engine_maintenance_state ::
  "'w rest_st os_time \<Rightarrow> ('w rest_st, pyval) comp \<Rightarrow> bool \<Rightarrow> int \<Rightarrow> int \<Rightarrow> ('w rest_st, bool) wcomp" where
  "wait_for_hosted_engine_maintenance_state T get_he_stats enabled t s =
     tryW (sampling T get_he_stats (he_maintenance_is enabled) t s) APITimeout (\<lambda>_. retW False)"

section \<open>Adding, changing and removing\<close>

definition add_host :: "'w apis \<Rightarrow> pyval \<Rightarrow> pyval \<Rightarrow> pyval \<Rightarrow> bool \<Rightarrow> (string, pyval) dict \<Rightarrow> ('w rest_st, bool) comp" where
  "add_host A n address root_password wait kw =
     bindE (get_cluster_object A (py_str (pop_or kw ''cluster'' (PStr ''Default''))) False) (\<lambda>c.
     bindE (lift_res (construct (new_object A ''Host'')
              ([(''name'', n), (''cluster'', c), (''address'', address), (''root_password'', root_password)] @
               without kw [''cluster'', ''deploy_hosted_engine'']))) (\<lambda>h.
     bindE (rest_create (HOST_API A) h True
              (create_default\<lparr>ca_deploy_hosted_engine := truthy (pop_or kw ''deploy_hosted_engine'' (PBool False))\<rparr>)) (\<lambda>(host, status).
     if wait \<and> status then waitForElemStatus (HOST_API A) host ''up'' 800 False else ret status)))"

definition host_power_management :: "'w apis \<Rightarrow> (string, pyval) dict \<Rightarrow> pyval \<Rightarrow> exn + pyval" where
  "host_power_management A kw x =
     (let pm = kwget kw ''pm''; proxies = kwget kw ''pm_proxies'' in
      if pm = PNone then Inr x
      else
        res_bind (if truthy proxies then
                    res_bind (py_iter proxies) (\<lambda>l.
                    res_bind (map_res (\<lambda>p. construct (new_object A ''PmProxy'') [(''type_'', p)]) l) (\<lambda>ps.
                    construct (new_object A ''PmProxies'') [(''pm_proxy'', PList ps)]))
                  else Inr proxies) (\<lambda>pm_proxies.
        set_new A True ''power_management'' ''PowerManagement''
          [(''enabled'', pm), (''pm_proxies'', pm_proxies), (''automatic_pm_enabled'', kwget kw ''pm_automatic'')] x))"

definition host_update :: "'w apis \<Rightarrow> (string, pyval) dict \<Rightarrow> ('w rest_st, pyval) comp" where
  "host_update A kw =
     (let h1 = set_given kw ''root_password'' (set_given kw ''address'' (set_given kw ''name'' (new_object A ''Host''))) in
      bindE (case map_of kw ''cluster'' of
               None \<Rightarrow> ret h1
             | Some c \<Rightarrow> bindE (find_by (CL_API A) ''name'' c) (\<lambda>cl. ret (setattr h1 ''cluster'' cl))) (\<lambda>h2.
      lift_res (
        res_bind (case map_of kw ''spm_priority'' of
                    None \<Rightarrow> Inr h2
                  | Some p \<Rightarrow> set_new A True ''spm'' ''Spm'' [(''priority'', p)] h2) (\<lambda>h3.
        res_bind (case map_of kw ''rng_sources'' of
                    None \<Rightarrow> Inr h3
                  | Some r \<Rightarrow>
                      res_bind (construct (new_object A ''supported_rng_sourcesType'') [(''supported_rng_source'', r)]) (\<lambda>s.
                      set_new A True ''hardware_information'' ''HardwareInformation'' [(''supported_rng_sources'', s)] h3)) (\<lambda>h4.
        host_power_management A kw h4)))))"

definition update_host :: "'w apis \<Rightarrow> bool \<Rightarrow> string \<Rightarrow> (string, pyval) dict \<Rightarrow> ('w rest_st, bool) comp" where
  "update_host A positive host kw =
     bindE (get_host_object A host ''name'') (\<lambda>old.
     bindE (host_update A kw) (\<lambda>new.
     try_except (update_element (HOST_API A) old new positive) TypeError (\<lambda>e. if \<not> positive then ret True else raise e)))"

definition activate_host :: "'w rest_st os_time \<Rightarrow> 'w apis \<Rightarrow> ('w rest_st, pyval) comp option \<Rightarrow> bool \<Rightarrow> string \<Rightarrow> bool \<Rightarrow> ('w rest_st, bool) wcomp" where
  "activate_host T A he_stats positive host wait =
     bindW (run (get_host_object A host ''name'')) (\<lambda>h.
     bindW (run (syncAction (HOST_API A) h ''activate'' positive action_default)) (\<lambda>r.
     if \<not> truthy r then retW False
     else if wait \<and> positive then
       bindW (run (waitForElemStatus (HOST_API A) h ''up'' ACTIVATION_MAX_TIME False)) (\<lambda>up.
       if \<not> up then retW False
       else
         case he_stats of
           None \<Rightarrow> retW True
         | Some stats \<Rightarrow>
             bindW (run (is_hosted_engine_configured A host)) (\<lambda>he.
             if truthy he then wait_for_hosted_engine_maintenance_state T stats False 300 10 else retW True))
     else retW True))"

text \<open>
  The status of the SPM is read from the host that was looked up before, so every sample of the loop
  has the same value.
\<close>

definition deactivate_rest ::
  "'w rest_st os_time \<Rightarrow> 'w apis \<Rightarrow> ('w rest_st, pyval) comp option \<Rightarrow> bool \<Rightarrow> pyval \<Rightarrow> pyval \<Rightarrow> string \<Rightarrow> int \<Rightarrow> ('w rest_st, bool) wcomp" where
  "deactivate_rest T A he_stats positive h he_host expected_status t =
     bindW (run (syncAction (HOST_API A) h ''deactivate'' positive action_default)) (\<lambda>r.
     if \<not> truthy r then retW False
     else if \<not> positive then retW True
     else
       bindW (run (waitForElemStatus (HOST_API A) h expected_status t False)) (\<lambda>ok.
       if \<not> ok then retW False
       else case (he_stats, truthy he_host) of
              (Some stats, True) \<Rightarrow> wait_for_hosted_engine_maintenance_state T stats True 300 10
            | _ \<Rightarrow> retW True))"

definition deactivate_host ::
  "'w rest_st os_time \<Rightarrow> 'w apis \<Rightarrow> enums \<Rightarrow> ('w rest_st, pyval) comp option \<Rightarrow> bool \<Rightarrow> string \<Rightarrow> string \<Rightarrow> int \<Rightarrow> ('w rest_st, bool) wcomp" where
  "deactivate_host T A N he_stats positive host expected_status t0 =
     bindW (run (get_host_object A host ''name'')) (\<lambda>h.
     bindW (run (is_hosted_engine_configured A host)) (\<lambda>he_host.
     let t = (if t0 \<noteq> 0 then t0 else if truthy he_host then 600 else 180) in
     tryW
       (bindW (sampling T (lift_res (getattr_chain [''spm'', ''status''] h))
                 (\<lambda>st. Inr (if py_eq st (PStr (N ''spm_state_contending'')) then None else Some ())) t 1)
          (\<lambda>_. deactivate_rest T A he_stats positive h he_host expected_status t))
       APITimeout (\<lambda>_. retW (\<not> positive))))"

definition remove_host :: "'w rest_st os_time \<Rightarrow> 'w apis \<Rightarrow> enums \<Rightarrow> bool \<Rightarrow> string \<Rightarrow> bool \<Rightarrow> bool \<Rightarrow> ('w rest_st, bool) wcomp" where
  "remove_host T A N positive host deactivate force =
     bindW (run (get_host_object A host ''name'')) (\<lambda>h.
     bindW (if deactivate then
              bindW (run (is_host_in_maintenance A N positive host)) (\<lambda>down.
              if down then retW True else deactivate_host T A N None positive host (N ''host_state_maintenance'') 0)
            else retW True) (\<lambda>ok.
     if \<not> ok then retW False
     else run (rest_delete (HOST_API A) h positive [200, 202, 204] NEGATIVE_CODES (if force then [''force=true''] else []))))"

text \<open>The keyword \<open>override_iptables\<close>, when it is given, is passed twice, which is a TypeError.\<close>

definition install_host :: "'w apis \<Rightarrow> enums \<Rightarrow> string \<Rightarrow> pyval \<Rightarrow> (string, pyval) dict \<Rightarrow> ('w rest_st, bool) comp" where
  "install_host A N host root_password kw =
     bindE (get_host_object A host ''name'') (\<lambda>h.
     if map_of kw ''override_iptables'' \<noteq> None then raise TypeError
     else
       bindE (syncAction (HOST_API A) h ''install'' True
                (action_of ([(''root_password'', root_password), (''override_iptables'', PBool True)] @ kw))) (\<lambda>r.
       bindE (if truthy r then waitForElemStatus (HOST_API A) h (N ''host_state_installing'') 120 False else ret False) (\<lambda>installing.
       if \<not> installing then ret False
       else waitForElemStatus (HOST_API A) h (N ''host_state_maintenance'') 800 False)))"

definition commit_network_config :: "'w apis \<Rightarrow> string \<Rightarrow> ('w rest_st, bool) comp" where
  "commit_network_config A host =
     bindE (get_host_object A host ''name'') (\<lambda>h.
     bindE (syncAction (HOST_API A) h ''commitnetconfig'' True action_default) (\<lambda>r. ret (truthy r)))"

definition status_after_fence :: "string \<Rightarrow> bool \<Rightarrow> string option" where
  "status_after_fence fence_type was_in_maintenance =
     (if fence_type = ''restart'' \<or> fence_type = ''start'' then Some (if was_in_maintenance then ''maintenance'' else ''up'')
      else if fence_type = ''stop'' then Some ''down''
      else None)"

definition fence_host :: "'w apis \<Rightarrow> enums \<Rightarrow> string \<Rightarrow> string \<Rightarrow> int \<Rightarrow> bool \<Rightarrow> ('w rest_st, pyval) comp" where
  "fence_host A N host fence_type t wait_for_status =
     bindE (get_host_object A host ''name'') (\<lambda>h.
     bindE (get_host_status A host) (\<lambda>st.
     bindE (syncAction (HOST_API A) h ''fence'' True (action_default\<lparr>aa_params := [(''fence_type'', PStr (upper fence_type))]\<rparr>)) (\<lambda>status.
     if \<not> wait_for_status \<or> \<not> truthy status then ret status
     else
       case status_after_fence fence_type (py_eq st (PStr (N ''host_state_maintenance''))) of
         None \<Rightarrow> ret (PBool True)
       | Some wanted \<Rightarrow> bindE (waitForElemStatus (HOST_API A) h wanted t False) (\<lambda>b. ret (PBool b)))))"

definition upgrade_host :: "'w rest_st os_time \<Rightarrow> 'w apis \<Rightarrow> enums \<Rightarrow> string \<Rightarrow> pyval \<Rightarrow> ('w rest_st, bool) wcomp" where
  "upgrade_host T A N host_name img =
     bindW (run (get_host_object A host_name ''name'')) (\<lambda>h.
     bindW (run (syncAction (HOST_API A) h ''upgrade'' True (action_default\<lparr>aa_params := [(''image'', img)]\<rparr>))) (\<lambda>r.
     if truthy r then host_states T A N (Names_list [host_name]) (Names_string ''up'') HOST_STATE_TIMEOUT else retW False))"

definition check_host_upgrade :: "'w apis \<Rightarrow> string \<Rightarrow> ('w rest_st, bool) comp" where
  "check_host_upgrade A host_name =
     bindE (get_host_object A host_name ''name'') (\<lambda>h.
     bindE (syncAction (HOST_API A) h ''upgradecheck'' True action_default) (\<lambda>r. ret (truthy r)))"

definition is_upgrade_available :: "'w apis \<Rightarrow> string \<Rightarrow> ('w rest_st, bool) comp" where
  "is_upgrade_available A host_name = bindE (host_member A host_name [''update_available'']) (\<lambda>v. ret (truthy v))"

section \<open>The storage pool manager\<close>

definition check_host_spm_status :: "'w apis \<Rightarrow> bool \<Rightarrow> string \<Rightarrow> ('w rest_st, bool) comp" where
  "check_host_spm_status A positive host =
     bindE (get_host_object A host ''name'') (\<lambda>h.
     if \<not> hasattr h ''spm'' then ret False
     else bindE (lift_res (getattr_chain [''spm'', ''status''] h)) (\<lambda>st. ret (py_eq st (PStr ''spm'') = positive)))"

definition get_spm_priority :: "'w apis \<Rightarrow> string \<Rightarrow> ('w rest_st, pyval) comp" where
  "get_spm_priority A host =
     bindE (get_host_object A host ''name'') (\<lambda>h.
     if \<not> hasattr h ''spm'' then ret (PBool False) else lift_res (getattr_chain [''spm'', ''priority''] h))"

text \<open>\<open>sorted(..., reverse=True)\<close> keeps the order of equal keys; the hosts come in the order of the dictionary.\<close>

definition sort_hosts_by_priority :: "'w apis \<Rightarrow> (string list \<Rightarrow> string list) \<Rightarrow> string list \<Rightarrow> bool \<Rightarrow> ('w rest_st, string list) comp" where
  "sort_hosts_by_priority A dict_order hosts reverse =
     bindE (map_comp (\<lambda>h. bindE (get_spm_priority A h) (\<lambda>p. ret (h, p))) hosts) (\<lambda>l.
     let ks = map (\<lambda>h. (the (map_of (rev l) h), h)) (dict_order (remdups hosts)); key = sort_key_of \<circ> fst in
     ret (map snd (if reverse then rev (sort_key key (rev ks)) else sort_key key ks)))"

definition in_cluster_named :: "'w apis \<Rightarrow> pyval \<Rightarrow> pyval \<Rightarrow> ('w rest_st, bool) comp" where
  "in_cluster_named A cluster_name h =
     (if \<not> truthy cluster_name then ret True
      else
        bindE (lift_res (getattr_chain [''cluster'', ''id''] h)) (\<lambda>i.
        bindE (find_by (CL_API A) ''id'' i) (\<lambda>c.
        bindE (lift_res (getattr c ''name'')) (\<lambda>n. ret (py_eq cluster_name n)))))"

fun first_non_spm :: "'w apis \<Rightarrow> pyval \<Rightarrow> pyval list \<Rightarrow> ('w rest_st, bool \<times> pyval) comp" where
  "first_non_spm A cluster_name [] = ret (False, PNone)"
| "first_non_spm A cluster_name (h # hs) =
     bindE (in_cluster_named A cluster_name h) (\<lambda>mine.
     if \<not> mine then first_non_spm A cluster_name hs
     else
       bindE (lift_res (getattr_chain [''spm'', ''status''] h)) (\<lambda>st.
       if \<not> py_eq st (PStr ''spm'') then bindE (lift_res (getattr h ''name'')) (\<lambda>n. ret (True, n))
       else first_non_spm A cluster_name hs))"

definition get_any_non_spm_host :: "'w apis \<Rightarrow> string list \<Rightarrow> string list \<Rightarrow> pyval \<Rightarrow> ('w rest_st, bool \<times> pyval) comp" where
  "get_any_non_spm_host A hosts expected_states cluster_name =
     bindE (map_comp (\<lambda>h. get_host_object A h ''name'') hosts) (\<lambda>l.
     bindE (lift_res (if expected_states = [] then Inr l
              else filter_res (\<lambda>h. res_bind (getattr h ''status'') (\<lambda>st. Inr (is_one_of expected_states st))) l)) (\<lambda>m.
     first_non_spm A cluster_name m))"

text \<open>The priority is compared as text; \<open>positive\<close> is not used.\<close>

definition check_spm_priority :: "'w apis \<Rightarrow> bool \<Rightarrow> string \<Rightarrow> string \<Rightarrow> ('w rest_st, bool) comp" where
  "check_spm_priority A positive host expected_priority =
     bindE (get_spm_priority A host) (\<lambda>p. ret (py_str p = expected_priority))"

definition set_spm_priority :: "'w apis \<Rightarrow> bool \<Rightarrow> string \<Rightarrow> pyval \<Rightarrow> ('w rest_st, bool) comp" where
  "set_spm_priority A positive host spm_priority =
     bindE (get_host_object A host ''name'') (\<lambda>h.
     if \<not> hasattr h ''spm'' then ret False
     else
       bindE (update_host A positive host [(''spm_priority'', spm_priority)]) (\<lambda>updated.
       if \<not> positive then ret updated
       else if \<not> updated then ret False
       else
         bindE (get_spm_priority A host) (\<lambda>new_priority.
         bindE (lift_res (py_int spm_priority)) (\<lambda>n. ret (py_eq new_priority (PInt n))))))"

fun get_spm_host :: "'w apis \<Rightarrow> string list \<Rightarrow> ('w rest_st, string) comp" where
  "get_spm_host A [] = raise EntityNotFound"
| "get_spm_host A (h # hs) = bindE (check_host_spm_status A True h) (\<lambda>b. if b then ret h else get_spm_host A hs)"

fun get_hsm_host :: "'w apis \<Rightarrow> string list \<Rightarrow> ('w rest_st, string) comp" where
  "get_hsm_host A [] = raise EntityNotFound"
| "get_hsm_host A (h # hs) = bindE (check_host_spm_status A True h) (\<lambda>b. if \<not> b then ret h else get_hsm_host A hs)"

text \<open>The clusters of the data center, and the first host that is, or is not, the SPM.\<close>

definition of_data_center :: "pyval \<Rightarrow> pyval \<Rightarrow> exn + bool" where
  "of_data_center dc cl =
     (case getattr_opt cl ''data_center'' of
        None \<Rightarrow> Inr False
      | Some d \<Rightarrow>
          if \<not> truthy d then Inr False
          else res_bind (getattr d ''id'') (\<lambda>i. res_bind (getattr dc ''id'') (\<lambda>j. Inr (py_eq i j))))"

fun spm_among :: "'w apis \<Rightarrow> bool \<Rightarrow> bool \<Rightarrow> pyval \<Rightarrow> pyval list \<Rightarrow> ('w rest_st, pyval option) comp" where
  "spm_among A positive spm host [] = ret None"
| "spm_among A positive spm host (h # hs) =
     bindE (lift_res (getattr h ''name'')) (\<lambda>n.
     bindE (check_host_spm_status A positive (py_str n)) (\<lambda>spm_status.
     if spm \<and> spm_status then ret (Some n)
     else if \<not> spm \<and> \<not> spm_status \<and> (\<not> truthy host \<or> py_eq host n) then ret (Some n)
     else spm_among A positive spm host hs))"

fun spm_in_clusters :: "config_st \<Rightarrow> 'w apis \<Rightarrow> bool \<Rightarrow> bool \<Rightarrow> pyval \<Rightarrow> pyval \<Rightarrow> pyval list \<Rightarrow> ('w rest_st, bool \<times> pyval) comp" where
  "spm_in_clusters c A positive spm host dc [] = ret (False, PNone)"
| "spm_in_clusters c A positive spm host dc (cl # cls) =
     bindE (lift_res (of_data_center dc cl)) (\<lambda>mine.
     if \<not> mine then spm_in_clusters c A positive spm host dc cls
     else
       bindE (lift_res (getattr cl ''name'')) (\<lambda>n.
       bindE (searchElement c (HOST_API A) ''host'' ''cluster'' (py_str n)) (\<lambda>(found, hosts).
       if \<not> found then spm_in_clusters c A positive spm host dc cls
       else
         bindE (lift_res (py_iter hosts)) (\<lambda>l.
         bindE (spm_among A positive spm host l) (\<lambda>r.
         case r of Some h \<Rightarrow> ret (True, h) | None \<Rightarrow> spm_in_clusters c A positive spm host dc cls)))))"

definition get_host :: "config_st \<Rightarrow> 'w apis \<Rightarrow> bool \<Rightarrow> string \<Rightarrow> bool \<Rightarrow> pyval \<Rightarrow> ('w rest_st, bool \<times> pyval) comp" where
  "get_host c A positive datacenter spm host =
     bindE (try_except
              (bindE (get_all (CL_API A)) (\<lambda>cls. bindE (find_by (DC_API A) ''name'' (PStr datacenter)) (\<lambda>dc. ret (Some (cls, dc)))))
              EntityNotFound (\<lambda>_. ret None)) (\<lambda>found.
     case found of
       None \<Rightarrow> ret (False, PNone)
     | Some (cls, dc) \<Rightarrow> bindE (lift_res (py_iter cls)) (\<lambda>l. spm_in_clusters c A positive spm host dc l))"

definition wait_for_spm :: "config_st \<Rightarrow> 'w rest_st os_time \<Rightarrow> 'w apis \<Rightarrow> string \<Rightarrow> int \<Rightarrow> int \<Rightarrow> ('w rest_st, bool) wcomp" where
  "wait_for_spm c T A datacenter t s =
     sampling T (get_host c A True datacenter True PNone) (\<lambda>r. Inr (if fst r then Some True else None)) t s"

text \<open>\<open>response == positive\<close> for an answer that is not true: None equals neither.\<close>

definition select_host_as_spm ::
  "config_st \<Rightarrow> 'w rest_st os_time \<Rightarrow> 'w apis \<Rightarrow> bool \<Rightarrow> string \<Rightarrow> string \<Rightarrow> int \<Rightarrow> int \<Rightarrow> bool \<Rightarrow> ('w rest_st, bool) wcomp" where
  "select_host_as_spm c T A positive host data_center t s wait =
     bindW (run (check_host_spm_status A True host)) (\<lambda>is_spm.
     if is_spm then retW positive
     else
       bindW (run (get_host_object A host ''name'')) (\<lambda>h.
       bindW (run (syncAction (HOST_API A) h ''forceselectspm'' positive action_default)) (\<lambda>response.
       if truthy response then
         if positive \<and> wait then
           bindW (wait_for_spm c T A data_center t s) (\<lambda>_. run (check_host_spm_status A True host))
         else retW positive
       else retW (py_eq response (PBool positive)))))"

section \<open>NUMA nodes, processors and devices\<close>

definition get_numa_nodes_from_host :: "'w apis \<Rightarrow> string \<Rightarrow> ('w rest_st, pyval) comp" where
  "get_numa_nodes_from_host A host_name =
     bindE (get_host_object A host_name ''name'') (\<lambda>h. linked (HOST_API A) h ''numanodes'' ''host_numa_node'')"

definition get_numa_node_memory :: "pyval \<Rightarrow> exn + pyval" where
  "get_numa_node_memory x = getattr x ''memory''"

definition get_numa_node_index :: "pyval \<Rightarrow> exn + pyval" where
  "get_numa_node_index x = getattr x ''index''"

definition get_numa_node_cpus :: "pyval \<Rightarrow> exn + pyval list" where
  "get_numa_node_cpus x =
     res_bind (getattr x ''cpu'') (\<lambda>cpu.
     if \<not> truthy cpu then Inr []
     else res_bind (getattr_chain [''cores'', ''core''] cpu) (\<lambda>v. res_bind (py_iter v) (map_res (\<lambda>c. getattr c ''index''))))"

definition index_is :: "pyval \<Rightarrow> pyval \<Rightarrow> exn + bool" where
  "index_is i x = res_bind (getattr x ''index'') (\<lambda>j. Inr (py_eq j i))"

definition get_numa_node_by_index :: "'w apis \<Rightarrow> string \<Rightarrow> pyval \<Rightarrow> ('w rest_st, pyval) comp" where
  "get_numa_node_by_index A host_name index =
     bindE (get_numa_nodes_from_host A host_name) (\<lambda>v.
     lift_res (res_bind (py_iter v) (\<lambda>l. res_bind (find_res (index_is index) l) (\<lambda>found. Inr (opt_val found)))))"

definition get_num_of_numa_nodes_on_host :: "'w apis \<Rightarrow> string \<Rightarrow> ('w rest_st, int) comp" where
  "get_num_of_numa_nodes_on_host A host_name =
     bindE (get_numa_nodes_from_host A host_name) (\<lambda>v. lift_res (res_bind (py_iter v) (\<lambda>l. Inr (int (List.length l)))))"

definition get_numa_nodes_indexes :: "'w apis \<Rightarrow> string \<Rightarrow> ('w rest_st, pyval list) comp" where
  "get_numa_nodes_indexes A host_name =
     bindE (get_numa_nodes_from_host A host_name) (\<lambda>v. lift_res (res_bind (py_iter v) (map_res get_numa_node_index)))"

definition get_host_topology :: "'w apis \<Rightarrow> string \<Rightarrow> ('w rest_st, pyval) comp" where
  "get_host_topology A host_name =
     bindE (get_host_object A host_name ''name'') (\<lambda>h.
     if \<not> truthy h then raise EntityNotFound else lift_res (getattr_chain [''cpu'', ''topology''] h))"

definition topology_count :: "'w apis \<Rightarrow> string \<Rightarrow> string \<Rightarrow> ('w rest_st, pyval) comp" where
  "topology_count A host_name member = bindE (get_host_topology A host_name) (\<lambda>t. bindE (lift_res (getattr t member)) (\<lambda>v. ret (or_zero v)))"

definition get_host_cores :: "'w apis \<Rightarrow> string \<Rightarrow> ('w rest_st, pyval) comp" where
  "get_host_cores A host_name = topology_count A host_name ''cores''"

definition get_host_sockets :: "'w apis \<Rightarrow> string \<Rightarrow> ('w rest_st, pyval) comp" where
  "get_host_sockets A host_name = topology_count A host_name ''sockets''"

definition get_host_threads :: "'w apis \<Rightarrow> string \<Rightarrow> ('w rest_st, pyval) comp" where
  "get_host_threads A host_name = topology_count A host_name ''threads''"

definition get_host_processing_units_number :: "'w apis \<Rightarrow> string \<Rightarrow> ('w rest_st, int) comp" where
  "get_host_processing_units_number A host_name =
     bindE (get_host_cores A host_name) (\<lambda>c.
     bindE (get_host_sockets A host_name) (\<lambda>s.
     bindE (lift_res (product [c, s])) (\<lambda>_.
     bindE (get_host_threads A host_name) (\<lambda>t. lift_res (product [c, s, t])))))"

definition get_host_devices :: "'w apis \<Rightarrow> string \<Rightarrow> ('w rest_st, pyval) comp" where
  "get_host_devices A host_name =
     bindE (get_host_object A host_name ''name'') (\<lambda>h. linked (HOST_API A) h ''devices'' ''host_device'')"

definition device_named :: "pyval \<Rightarrow> pyval \<Rightarrow> exn + pyval" where
  "device_named n v =
     res_bind (py_iter v) (\<lambda>l.
     res_bind (filter_res (\<lambda>d. res_bind (getattr d ''name'') (\<lambda>m. Inr (py_eq m n))) l) (\<lambda>ds.
     Inr (case ds of [] \<Rightarrow> PNone | d # _ \<Rightarrow> d)))"

definition get_host_device_by_name :: "'w apis \<Rightarrow> string \<Rightarrow> pyval \<Rightarrow> ('w rest_st, pyval) comp" where
  "get_host_device_by_name A host_name device_name =
     bindE (get_host_devices A host_name) (\<lambda>v. lift_res (device_named device_name v))"

definition get_host_device_id_by_name :: "'w apis \<Rightarrow> string \<Rightarrow> pyval \<Rightarrow> ('w rest_st, pyval) comp" where
  "get_host_device_id_by_name A host_name device_name =
     bindE (get_host_device_by_name A host_name device_name) (\<lambda>d. if truthy d then lift_res (getattr d ''id'') else ret PNone)"

section \<open>Fence agents\<close>

definition get_fence_agents_list :: "'w apis \<Rightarrow> string \<Rightarrow> ('w rest_st, pyval) comp" where
  "get_fence_agents_list A host_name =
     bindE (get_host_object A host_name ''name'') (\<lambda>h. linked (HOST_API A) h ''fenceagents'' ''agent'')"

definition get_fence_agents_link :: "'w apis \<Rightarrow> string \<Rightarrow> ('w rest_st, pyval) comp" where
  "get_fence_agents_link A host_name =
     bindE (get_host_object A host_name ''name'') (\<lambda>h. link_address (HOST_API A) h ''fenceagents'' [])"

definition get_fence_agent_by_address :: "'w apis \<Rightarrow> string \<Rightarrow> pyval \<Rightarrow> ('w rest_st, pyval) comp" where
  "get_fence_agent_by_address A host_name agent_address =
     bindE (get_fence_agents_list A host_name) (\<lambda>v.
     lift_res (res_bind (py_iter v) (\<lambda>l.
       res_bind (find_res (\<lambda>a. res_bind (getattr a ''address'') (\<lambda>d. Inr (py_eq d agent_address))) l) (\<lambda>found. Inr (opt_val found)))))"

definition prepare_fence_agent_object :: "'w apis \<Rightarrow> (string \<times> pyval) list \<Rightarrow> (string, pyval) dict \<Rightarrow> exn + pyval" where
  "prepare_fence_agent_object A options kw =
     res_bind (if options = [] then Inr PNone
               else
                 res_bind (map_res (\<lambda>(n, v). construct (new_object A ''Option'') [(''name'', PStr n), (''value'', v)]) options) (\<lambda>os.
                 fold_res (add_member ''option'') os (new_object A ''Options''))) (\<lambda>opts_obj.
     res_bind (prepare_ds_object (new_object A) ''Agent'' kw) (\<lambda>a. Inr (setattr a ''options'' opts_obj)))"

definition add_fence_agent ::
  "'w apis \<Rightarrow> string \<Rightarrow> pyval \<Rightarrow> pyval \<Rightarrow> pyval \<Rightarrow> pyval \<Rightarrow> pyval \<Rightarrow> pyval \<Rightarrow> (string \<times> pyval) list \<Rightarrow> (string, pyval) dict \<Rightarrow> ('w rest_st, bool) comp" where
  "add_fence_agent A host_name agent_type agent_address agent_username agent_password concurrent order options kw =
     bindE (lift_res (prepare_fence_agent_object A options
              ([(''type_'', agent_type), (''address'', agent_address), (''username'', agent_username), (''password'', agent_password),
                (''concurrent'', concurrent), (''order'', order)] @ kw))) (\<lambda>agent.
     bindE (get_fence_agents_link A host_name) (\<lambda>agents_link.
     bindE (create_in (AGENT_API A) agent True agents_link [] False) (\<lambda>r. ret (snd r))))"

definition update_fence_agent :: "'w apis \<Rightarrow> string \<Rightarrow> pyval \<Rightarrow> (string \<times> pyval) list \<Rightarrow> (string, pyval) dict \<Rightarrow> ('w rest_st, bool) comp" where
  "update_fence_agent A host_name agent_address options kw =
     bindE (get_fence_agent_by_address A host_name agent_address) (\<lambda>old.
     bindE (lift_res (prepare_fence_agent_object A options
              (dict_set (without kw [''agent_type'']) ''type_'' (kwget kw ''agent_type'')))) (\<lambda>new.
     update_element (AGENT_API A) old new True))"

definition remove_fence_agent :: "'w apis \<Rightarrow> pyval \<Rightarrow> ('w rest_st, bool) comp" where
  "remove_fence_agent A fence_agent_obj =
     bindE (lift_res (getattr fence_agent_obj ''address'')) (\<lambda>_. delete_element (AGENT_API A) fence_agent_obj True)"

section \<open>Tags, statistics and labels\<close>

definition add_tag_to_host :: "'w apis \<Rightarrow> bool \<Rightarrow> string \<Rightarrow> pyval \<Rightarrow> ('w rest_st, bool) comp" where
  "add_tag_to_host A positive host tag_name =
     bindE (get_host_object A host ''name'') (\<lambda>h.
     bindE (lift_res (construct (new_object A ''Tag'') [(''name'', tag_name)])) (\<lambda>t.
     bindE (link_address (HOST_API A) h ''tags'' ''tag'') (\<lambda>host_tags.
     bindE (create_in (TAG_API A) t positive host_tags [] False) (\<lambda>r. ret (snd r)))))"

definition remove_tag_from_host :: "'w apis \<Rightarrow> bool \<Rightarrow> string \<Rightarrow> pyval \<Rightarrow> ('w rest_st, bool) comp" where
  "remove_tag_from_host A positive host tag_name =
     bindE (get_host_object A host ''name'') (\<lambda>h.
     bindE (rest_getElemFromElemColl (HOST_API A) h tag_name ''tags'' ''tag'' ''name'' False) (\<lambda>t.
     if truthy t then delete_element (HOST_API A) t positive else ret False))"

definition search_for_host ::
  "(string \<Rightarrow> pyval \<Rightarrow> exn + bool) \<Rightarrow> 'w apis \<Rightarrow> string \<Rightarrow> string \<Rightarrow> string \<Rightarrow> int option \<Rightarrow> bool \<Rightarrow> int option \<Rightarrow> ('w rest_st, bool) comp" where
  "search_for_host M A = searchForObj M (HOST_API A)"

definition host_stat :: "(pyval \<Rightarrow> exn + 'f) \<Rightarrow> 'w apis \<Rightarrow> string \<Rightarrow> string \<Rightarrow> ('w rest_st, 'f) comp" where
  "host_stat py_float A host_name stat =
     bindE (getStat py_float (HOST_API A) host_name [PStr stat]) (\<lambda>d. lift_res (dict_getitem d (PStr stat)))"

definition get_host_free_memory :: "(pyval \<Rightarrow> exn + 'f) \<Rightarrow> 'w apis \<Rightarrow> string \<Rightarrow> ('w rest_st, 'f) comp" where
  "get_host_free_memory py_float A host_name = host_stat py_float A host_name ''memory.free''"

definition get_host_cpu_load :: "(pyval \<Rightarrow> exn + 'f) \<Rightarrow> 'w apis \<Rightarrow> string \<Rightarrow> ('w rest_st, 'f) comp" where
  "get_host_cpu_load py_float A host_name = host_stat py_float A host_name ''cpu.current.user''"

text \<open>A missing entry is None here.\<close>

definition get_host_free_nr_hugepages :: "(pyval \<Rightarrow> exn + 'f) \<Rightarrow> 'w apis \<Rightarrow> string \<Rightarrow> pyval \<Rightarrow> ('w rest_st, 'f option) comp" where
  "get_host_free_nr_hugepages py_float A host_name hugepage_size =
     (let stat = PStr (''hugepages.'' @ py_str hugepage_size @ ''.free'') in
      bindE (getStat py_float (HOST_API A) host_name [stat]) (\<lambda>d. ret (map_of d stat)))"

definition get_host_max_scheduling_memory :: "'w apis \<Rightarrow> string \<Rightarrow> ('w rest_st, pyval) comp" where
  "get_host_max_scheduling_memory A host_name = host_member A host_name [''max_scheduling_memory'']"

definition get_host_vm_run_on :: "'w apis \<Rightarrow> string \<Rightarrow> ('w rest_st, pyval) comp" where
  "get_host_vm_run_on A vm_name =
     bindE (find_by (VM_API A) ''name'' (PStr vm_name)) (\<lambda>vm.
     bindE (lift_res (getattr_chain [''host'', ''id''] vm)) (\<lambda>i.
     bindE (find_by (HOST_API A) ''id'' i) (\<lambda>h. lift_res (getattr h ''address''))))"

definition get_cluster_hosts :: "config_st \<Rightarrow> 'w apis \<Rightarrow> string \<Rightarrow> string \<Rightarrow> ('w rest_st, pyval list) comp" where
  "get_cluster_hosts c A cluster_name host_status =
     bindE (searchElement c (HOST_API A) ''host'' ''cluster'' cluster_name) (\<lambda>(found, hosts).
     if \<not> found then ret []
     else
       lift_res (res_bind (py_iter hosts) (\<lambda>l.
         res_bind (filter_res (\<lambda>h. res_bind (getattr h ''status'') (\<lambda>st. Inr (py_eq st (PStr host_status)))) l)
           (map_res (\<lambda>h. getattr h ''name'')))))"

definition host_add_affinity_label :: "'w apis \<Rightarrow> string \<Rightarrow> string \<Rightarrow> ('w rest_st, bool) comp" where
  "host_add_affinity_label A host_name affinity_label_name =
     bindE (get_host_object A host_name ''name'') (\<lambda>h. add_affinity_label_to_element A h (HOST_API A) affinity_label_name)"

definition host_remove_affinity_label :: "'w apis \<Rightarrow> string \<Rightarrow> string \<Rightarrow> ('w rest_st, bool) comp" where
  "host_remove_affinity_label A host_name affinity_label_name =
     bindE (get_host_object A host_name ''name'') (\<lambda>h. remove_affinity_label_from_element A h (HOST_API A) affinity_label_name)"

text \<open>The entries of a dictionary that is built from a list: a later one replaces an earlier one of the name.\<close>

definition lldp_entry :: "pyval \<Rightarrow> exn + pyval \<times> pyval" where
  "lldp_entry elm =
     res_bind (getattr elm ''name'') (\<lambda>n.
     res_bind (getattr_chain [''properties'', ''property''] elm) (\<lambda>ps.
     res_bind (first_of ps) (\<lambda>p. res_bind (getattr p ''value'') (\<lambda>v. Inr (n, v)))))"

definition get_lldp_nic_info :: "'w apis \<Rightarrow> pyval \<Rightarrow> pyval \<Rightarrow> ('w rest_st, (pyval, pyval) dict) comp" where
  "get_lldp_nic_info A host nic =
     bindE (get_host_nic A host nic False) (\<lambda>host_nic.
     bindE (linked (HOST_NICS_API A) (opt_val host_nic) LLDPS LLDP) (\<lambda>v.
     lift_res (res_bind (py_iter v) (\<lambda>l. res_bind (map_res lldp_entry l) (\<lambda>es. Inr (dict_update [] es))))))"

text \<open>
  The events of the answer, newest first: one older than the start ends the search, as does one with
  a wanted code, of which only the first is a success.
\<close>

fun refreshed :: "int \<Rightarrow> pyval list \<Rightarrow> exn + bool" where
  "refreshed start [] = Inr False"
| "refreshed start (e # es) =
     res_bind (res_bind (getattr e ''id'') py_int) (\<lambda>i.
     if i < start then Inr False
     else
       res_bind (getattr e ''code'') (\<lambda>code.
       if py_eq code (PInt 606) then Inr True
       else if py_eq code (PInt 607) then Inr False
       else refreshed start es))"

definition refresh_host_capabilities :: "'w apis \<Rightarrow> string \<Rightarrow> pyval \<Rightarrow> ('w rest_st, bool) comp" where
  "refresh_host_capabilities A host start_event_id =
     bindE (get_host_object A host ''name'') (\<lambda>h.
     bindE (syncAction (HOST_API A) h ''refresh'' True action_default) (\<lambda>_.
     bindE (query_with (EVENT_API A) ''type=606 OR type=607'' []) (\<lambda>v.
     bindE (lift_res (py_iter v)) (\<lambda>es.
     if es = [] then ret False
     else lift_res (res_bind (py_int start_event_id) (\<lambda>start. refreshed start es))))))"

section \<open>On the host\<close>

text \<open>A host under test: its names, and what is done on it.\<close>

record 'w host_res =
  hr_fqdn :: string
  hr_ip :: string
  hr_run :: "string list \<Rightarrow> ('w rest_st, int \<times> string) comp"
  hr_exists :: "string \<Rightarrow> ('w rest_st, bool) comp"
  hr_if_down :: "pyval \<Rightarrow> ('w rest_st, bool) comp"
  hr_vm_pid :: "string \<Rightarrow> ('w rest_st, string) comp"

fun host_of_resource :: "(pyval \<Rightarrow> ('w rest_st, string) comp) \<Rightarrow> 'w host_res \<Rightarrow> pyval list \<Rightarrow> ('w rest_st, pyval) comp" where
  "host_of_resource gethostbyname R [] = ret PNone"
| "host_of_resource gethostbyname R (h # hs) =
     bindE (lift_res (getattr h ''address'')) (\<lambda>a.
     bindE (lift_res (getattr h ''name'')) (\<lambda>n.
     bindE (if py_eq a (PStr (hr_fqdn R)) \<or> py_eq a (PStr (hr_ip R)) \<or> py_eq n (PStr (hr_fqdn R)) then ret True
            else bindE (gethostbyname a) (\<lambda>ip. ret (hr_ip R = ip))) (\<lambda>same.
     if same then ret n else host_of_resource gethostbyname R hs)))"

definition get_host_name_from_engine :: "(pyval \<Rightarrow> ('w rest_st, string) comp) \<Rightarrow> 'w apis \<Rightarrow> 'w host_res \<Rightarrow> ('w rest_st, pyval) comp" where
  "get_host_name_from_engine gethostbyname A R =
     bindE (get_host_list A) (\<lambda>v. bindE (lift_res (py_iter v)) (host_of_resource gethostbyname R))"

text \<open>No name of the engine is None, which cannot be sliced.\<close>

definition names_arg_of :: "pyval \<Rightarrow> exn + names_arg" where
  "names_arg_of v = (case v of PStr s \<Rightarrow> Inr (Names_string s) | _ \<Rightarrow> Inl TypeError)"

text \<open>An exit code of zero is False: a reboot that was accepted is reported as a failure.\<close>

definition reboot_host ::
  "'w rest_st os_time \<Rightarrow> (pyval \<Rightarrow> ('w rest_st, string) comp) \<Rightarrow> 'w apis \<Rightarrow> enums \<Rightarrow> 'w host_res \<Rightarrow> ('w rest_st, bool) wcomp" where
  "reboot_host T gethostbyname A N R =
     bindW (run (get_host_name_from_engine gethostbyname A R)) (\<lambda>n.
     bindW (run (hr_run R [''reboot''])) (\<lambda>(rc, out).
     if rc = 0 then retW False
     else
       bindW (run (lift_res (names_arg_of n))) (\<lambda>names.
       host_states T A N names (Names_string (N ''host_state_non_responsive'')) TIMEOUT_NON_RESPONSIVE_HOST)))"

definition set_host_non_operational_nic_down ::
  "'w rest_st os_time \<Rightarrow> (pyval \<Rightarrow> ('w rest_st, string) comp) \<Rightarrow> 'w apis \<Rightarrow> enums \<Rightarrow> 'w host_res \<Rightarrow> pyval \<Rightarrow> ('w rest_st, bool) wcomp" where
  "set_host_non_operational_nic_down T gethostbyname A N R nic =
     bindW (run (get_host_name_from_engine gethostbyname A R)) (\<lambda>n.
     bindW (run (hr_if_down R nic)) (\<lambda>down.
     if \<not> down then retW False
     else
       bindW (run (lift_res (names_arg_of n))) (\<lambda>names.
       host_states T A N names (Names_string ''non_operational'') (HOST_TIMEOUT * 2))))"

definition start_vdsm ::
  "'w rest_st os_time \<Rightarrow> 'w apis \<Rightarrow> enums \<Rightarrow> (pyval \<Rightarrow> ('w rest_st, bool) comp) \<Rightarrow> string \<Rightarrow> string \<Rightarrow> ('w rest_st, bool) wcomp" where
  "start_vdsm T A N start_service host datacenter =
     bindW (run (get_host_ip A host)) (\<lambda>ip.
     bindW (run (start_service ip)) (\<lambda>ok.
     if \<not> ok then retW False
     else
       bindW (run (is_host_up A N True host)) (\<lambda>up.
       bindW (if up then retW True else activate_host T A None True host True) (\<lambda>active.
       if \<not> active then retW False else waitForDataCenterState T A datacenter (N ''data_center_state_up'') 180 10))))"

text \<open>
  The machine itself, not its name, is looked for by name: no machine has such a name, so that the
  first machine that is not down ends the function with False.
\<close>

definition get_vm_host_of_object :: "'w apis \<Rightarrow> pyval \<Rightarrow> ('w rest_st, pyval) comp" where
  "get_vm_host_of_object A vm =
     bindE (try_except (try_except
              (bindE (find_by (VM_API A) ''name'' vm) (\<lambda>x.
               bindE (lift_res (getattr_chain [''host'', ''id''] x)) (\<lambda>i.
               bindE (find_by (HOST_API A) ''id'' i) (\<lambda>h. ret (Some h)))))
              EntityNotFound (\<lambda>_. ret None)) AttributeError (\<lambda>_. ret None)) (\<lambda>h.
     case h of None \<Rightarrow> ret PNone | Some x \<Rightarrow> lift_res (getattr x ''name''))"

fun stop_vms_on_host :: "'w apis \<Rightarrow> enums \<Rightarrow> string \<Rightarrow> pyval list \<Rightarrow> ('w rest_st, bool) comp" where
  "stop_vms_on_host A N host [] = ret True"
| "stop_vms_on_host A N host (vm # vms) =
     bindE (lift_res (getattr vm ''name'')) (\<lambda>n.
     bindE (get_vm_state A (py_str n)) (\<lambda>st.
     if py_eq st (PStr (N ''vm_state_down'')) then stop_vms_on_host A N host vms
     else
       bindE (get_vm_host_of_object A vm) (\<lambda>vm_host.
       if \<not> truthy vm_host then ret False
       else
         bindE (if py_eq vm_host (PStr host) then stopVm A True (py_str n) ''false'' else ret True) (\<lambda>ok.
         if \<not> ok then ret False else stop_vms_on_host A N host vms))))"

definition stop_vdsm ::
  "'w rest_st os_time \<Rightarrow> 'w apis \<Rightarrow> enums \<Rightarrow> (pyval \<Rightarrow> ('w rest_st, bool) comp) \<Rightarrow> string \<Rightarrow> ('w rest_st, bool) wcomp" where
  "stop_vdsm T A N stop_service host =
     bindW (run (listed (VM_API A))) (\<lambda>vms.
     bindW (run (stop_vms_on_host A N host vms)) (\<lambda>ok.
     if \<not> ok then retW False
     else
       bindW (run (get_host_ip A host)) (\<lambda>ip.
       bindW (run (stop_service ip)) (\<lambda>stopped.
       if \<not> stopped then retW False
       else
         host_states T A N (Names_string host)
           (Names_list [N ''host_state_down'', N ''host_state_non_responsive'', N ''host_state_connecting'']) HOST_STATE_TIMEOUT))))"

definition kill_vm_process :: "'w host_res \<Rightarrow> string \<Rightarrow> ('w rest_st, bool) comp" where
  "kill_vm_process R vm_name =
     bindE (hr_vm_pid R vm_name) (\<lambda>pid.
     if pid = [] then ret False else bindE (hr_run R [''kill'', ''-9'', pid]) (\<lambda>(rc, out). ret (rc = 0)))"

definition pid_lines :: "string \<Rightarrow> string list" where
  "pid_lines out = split_on (rstrip_chars [CHR 0x0A] out) [CHR 0x0A]"

text \<open>The processes in one list but not in the other; which of them is taken is not fixed by the code.\<close>

definition only_in_one :: "string list \<Rightarrow> string list \<Rightarrow> string list" where
  "only_in_one a b = remdups (filter (\<lambda>x. x \<notin> set b) a @ filter (\<lambda>x. x \<notin> set a) b)"

definition kill_vdsmd :: "(string list \<Rightarrow> string) \<Rightarrow> 'w host_res \<Rightarrow> ('w rest_st, bool) comp" where
  "kill_vdsmd pick R =
     bindE (hr_run R [''pgrep'', ''vdsm'']) (\<lambda>(rc1, out1).
     if rc1 \<noteq> 0 then ret False
     else
       bindE (hr_run R [''pgrep'', ''super'']) (\<lambda>(rc2, out2).
       if rc2 \<noteq> 0 then ret False
       else
         (case only_in_one (pid_lines out1) (pid_lines out2) of
            [] \<Rightarrow> raise KeyError
          | p # ps \<Rightarrow> bindE (hr_run R [''kill'', ''-9'', pick (p # ps)]) (\<lambda>(rc3, out3). ret (rc3 = 0)))))"

section \<open>Network filters\<close>

text \<open>\<open>x not in (out1 and out2)\<close> looks into the second output unless the first is empty.\<close>

definition check_nwfilter_virsh :: "string \<Rightarrow> 'w host_res \<Rightarrow> ('w rest_st, bool) comp" where
  "check_nwfilter_virsh NWF_XML_FILE R =
     bindE (hr_run R [''cat'', NWF_XML_FILE]) (\<lambda>(rc1, out1).
     bindE (hr_run R (VIRSH_CMD @ [''nwfilter-dumpxml'', VDSM_MAC_SPOOFING])) (\<lambda>(rc2, out2).
     ret (rc1 = 0 \<and> rc2 = 0 \<and> contains (if out1 = [] then out1 else out2) VDSM_MAC_SPOOFING)))"

definition check_network_filtering :: "string \<Rightarrow> bool \<Rightarrow> 'w host_res \<Rightarrow> ('w rest_st, bool) comp" where
  "check_network_filtering NWF_XML_FILE positive R =
     bindE (hr_run R (VIRSH_CMD @ [''nwfilter-list''])) (\<lambda>(rc, out).
     if rc \<noteq> 0 then ret False
     else if \<not> contains out VDSM_MAC_SPOOFING then ret (\<not> positive)
     else
       bindE (hr_exists R NWF_XML_FILE) (\<lambda>there.
       if \<not> there then ret (\<not> positive)
       else bindE (check_nwfilter_virsh NWF_XML_FILE R) (\<lambda>same. ret (if same then positive else \<not> positive))))"

text \<open>\<open>text.count(p)\<close> of a pattern that is not empty.\<close>

definition count_text :: "string \<Rightarrow> string \<Rightarrow> int" where
  "count_text out p = int (List.length (split_on out p)) - 1"

definition spoofing_filter :: string where
  "spoofing_filter = ''<filterref filter='' @ [CHR 0x27] @ VDSM_MAC_SPOOFING @ [CHR 0x27] @ ''/>''"

definition check_network_filtering_dumpxml :: "bool \<Rightarrow> 'w host_res \<Rightarrow> string \<Rightarrow> pyval \<Rightarrow> ('w rest_st, bool) comp" where
  "check_network_filtering_dumpxml positive R vm nics =
     bindE (hr_run R (VIRSH_CMD @ [''dumpxml'', vm])) (\<lambda>(rc, out).
     bindE (lift_res (py_int nics)) (\<lambda>n. ret (if count_text out spoofing_filter = n then positive else \<not> positive)))"

text \<open>The way ebtables prints an address: one leading zero of each byte is left out.\<close>

definition short_byte :: "string \<Rightarrow> exn + string" where
  "short_byte i = (case i of c # cs \<Rightarrow> if c = CHR ''0'' then (case cs of [] \<Rightarrow> Inl IndexError | d # _ \<Rightarrow> Inr [d]) else Inr i | [] \<Rightarrow> Inr i)"

definition ebtables_mac :: "string \<Rightarrow> exn + string" where
  "ebtables_mac mac = res_bind (map_res short_byte (split_on mac '':'')) (\<lambda>bs. Inr (join '':'' bs))"

fun macs_twice :: "string \<Rightarrow> string list \<Rightarrow> exn + bool" where
  "macs_twice out [] = Inr True"
| "macs_twice out (mac # macs) =
     res_bind (ebtables_mac mac) (\<lambda>m. if count_text out m \<noteq> 2 then Inr False else macs_twice out macs)"

definition check_network_filtering_ebtables :: "'w host_res \<Rightarrow> string list \<Rightarrow> ('w rest_st, bool) comp" where
  "check_network_filtering_ebtables R vm_macs =
     bindE (hr_run R [''ebtables'', ''-t'', ''nat'', ''-L'']) (\<lambda>(rc, out).
     if rc \<noteq> 0 then ret False else lift_res (macs_twice out vm_macs))"

section \<open>Power management\<close>

text \<open>
  The longest of the waits that the database names; an exception on the way keeps what was found so far
  and makes the answer False.
\<close>

definition first_cell :: "pyval \<Rightarrow> exn + pyval" where
  "first_cell rows = res_bind (first_of rows) first_of"

fun longest_wait :: "(string \<Rightarrow> pyval \<Rightarrow> ('w rest_st, pyval) comp) \<Rightarrow> pyval \<Rightarrow> string list \<Rightarrow> int \<Rightarrow> ('w rest_st, bool \<times> int) comp" where
  "longest_wait seconds wait_sec [] t = ret (True, t)"
| "longest_wait seconds wait_sec (e # es) t =
     bindE (try_except
              (bindE (seconds e wait_sec) (\<lambda>rows. lift_res (res_bind (first_cell rows) (\<lambda>c. res_bind (py_int c) (\<lambda>n. Inr (Some n))))))
              PyException (\<lambda>_. ret None)) (\<lambda>found.
     case found of
       None \<Rightarrow> ret (False, t)
     | Some n \<Rightarrow> longest_wait seconds wait_sec es (if t < n then n else t))"

definition wait_for_host_pm_operation ::
  "'w rest_env \<Rightarrow> ('w rest_st, pyval) comp \<Rightarrow> (string \<Rightarrow> pyval \<Rightarrow> ('w rest_st, pyval) comp) \<Rightarrow> ('w rest_st, bool) comp" where
  "wait_for_host_pm_operation E quiet_time seconds =
     bindE (try_except (bindE quiet_time (\<lambda>rows. lift_res (res_bind (first_cell rows) (\<lambda>c. Inr (Some c))))) PyException (\<lambda>_. ret None)) (\<lambda>found.
     bindE (case found of
              None \<Rightarrow> ret (False, 0)
            | Some w \<Rightarrow> longest_wait seconds w [''USER_VDS_STOP'', ''USER_VDS_START'', ''USER_VDS_RESTART''] 0) (\<lambda>(ok, t).
     bindE (if 0 < t then sleep_for E t else ret ()) (\<lambda>_. ret ok)))"

section \<open>What is shown\<close>

text \<open>A loop over samples that are always the same, and never good enough, ends with its timeout.\<close>

lemma sampling_constant:
  assumes "clock_laws T clk" and "0 < s" and "\<And>v. f v = (Inr x, v)" and "h x = Inr None"
  shows "\<exists>w'. sampling T f h t s w = Some (Inl APITimeout, w') \<and> clk w + t < clk w'"
proof -
  have "never_back clk f" using assms(3) by (simp add: never_back_def)
  from comes_back_sampling [OF assms(1) this assms(2), of h t] obtain r w' where r: "sampling T f h t s w = Some (r, w')"
    unfolding comes_back_def by blast
  show ?thesis
  proof (cases r)
    case (Inr y)
    with sampling_Inr [OF assms(1)] r assms(3,4) show ?thesis by fastforce
  next
    case (Inl e)
    with sampling_Inl [OF assms(1)] r assms(3,4) show ?thesis by fastforce
  qed
qed

text \<open>A host that is named and in a wanted state, and not in one that stops the wait.\<close>

definition named_in_state :: "names_arg \<Rightarrow> names_arg \<Rightarrow> string list \<Rightarrow> pyval \<Rightarrow> bool" where
  "named_in_state names states stop_states h \<longleftrightarrow>
     (case (getattr h ''name'', getattr h ''status'') of
        (Inr n, Inr st) \<Rightarrow> in_arg names n = Inr True \<and> in_arg states st = Inr True \<and> \<not> is_one_of stop_states st
      | _ \<Rightarrow> False)"

lemma hosts_round_Cons:
  assumes "hosts_round names states stop_states n ok (h # hs) = Inr (Some True)"
  shows "hosts_round names states stop_states n ok hs = Inr (Some True) \<or> n = ok \<or>
    (named_in_state names states stop_states h \<and> (n = Suc ok \<or> hosts_round names states stop_states n (Suc ok) hs = Inr (Some True)))"
proof -
  from assms obtain name mine where m: "getattr h ''name'' = Inr name" "in_arg names name = Inr mine"
    by (auto simp: res_bind_Inr)
  show ?thesis
  proof (cases mine)
    case False
    with assms m show ?thesis by simp
  next
    case True
    with assms m obtain st there where st: "getattr h ''status'' = Inr st" "\<not> is_one_of stop_states st" "in_arg states st = Inr there"
      by (auto simp: res_bind_Inr split: if_splits)
    show ?thesis
    proof (cases there)
      case False
      with assms m st True show ?thesis by (simp add: split: if_splits)
    next
      case there: True
      have "named_in_state names states stop_states h" using m st True there by (simp add: named_in_state_def)
      with assms m st True there show ?thesis by (simp add: split: if_splits)
    qed
  qed
qed

lemma hosts_round_True:
  "hosts_round names states stop_states n ok hs = Inr (Some True) \<Longrightarrow> n \<le> ok + List.length (filter (named_in_state names states stop_states) hs)"
proof (induction hs arbitrary: ok)
  case (Cons h hs)
  from hosts_round_Cons [OF Cons.prems] Cons.IH [of ok] Cons.IH [of "Suc ok"] show ?case
    by (cases "named_in_state names states stop_states h") auto
qed simp

lemma enough_hosts:
  assumes "distinct (map (\<lambda>h. getattr h ''name'') hosts)" and "List.length l \<le> List.length (filter (named_in_state (Names_list l) states stop_states) hosts)"
    and "n \<in> set l"
  shows "\<exists>h \<in> set hosts. getattr h ''name'' = Inr (PStr n) \<and> named_in_state (Names_list l) states stop_states h"
proof -
  let ?good = "filter (named_in_state (Names_list l) states stop_states) hosts" and ?name = "\<lambda>h. getattr h ''name''"
  have dist: "distinct (map ?name ?good)" using assms(1) by (simp add: distinct_map_filter)
  have sub: "?name ` set ?good \<subseteq> (Inr \<circ> PStr) ` set l"
  proof
    fix v assume "v \<in> ?name ` set ?good"
    then obtain h where h: "v = getattr h ''name''" "named_in_state (Names_list l) states stop_states h" by auto
    then obtain n where n: "getattr h ''name'' = Inr n" by (auto simp: named_in_state_def split: sum.splits)
    with h have "is_one_of l n" by (auto simp: named_in_state_def in_arg_def split: sum.splits)
    with h n show "v \<in> (Inr \<circ> PStr) ` set l" by (auto simp: is_one_of_def)
  qed
  have "card (?name ` set ?good) = List.length ?good"
    using distinct_card [OF dist] by simp
  moreover have "card ((Inr \<circ> PStr :: string \<Rightarrow> exn + pyval) ` set l) \<le> List.length l"
    using card_image_le [of "set l" "Inr \<circ> PStr :: string \<Rightarrow> exn + pyval"] card_length [of l] by simp
  ultimately have "?name ` set ?good = (Inr \<circ> PStr) ` set l"
    using assms(2) sub by (intro card_seteq) simp_all
  with assms(3) have "Inr (PStr n) \<in> ?name ` set ?good" by auto
  then show ?thesis by force
qed


text \<open>
  A host whose SPM is contending when it is looked up is never deactivated: the status is read from
  that first answer again and again, until the time-out makes it False (True for a negative test).
\<close>

theorem deactivate_host_contending:
  assumes "clock_laws T (server_time clk)"
    and "get_host_object A host ''name'' w = (Inr h, w1)" and "is_hosted_engine_configured A host w1 = (Inr he, w2)"
    and "getattr_chain [''spm'', ''status''] h = Inr (PStr (N ''spm_state_contending''))"
  shows "\<exists>w'. deactivate_host T A N he_stats positive host expected_status t w = Some (Inr (\<not> positive), w') \<and>
    server_time clk w2 + (if t \<noteq> 0 then t else if truthy he then 600 else 180) < server_time clk w'"
proof -
  let ?t = "if t \<noteq> 0 then t else if truthy he then 600 else 180"
  let ?judge = "\<lambda>st. Inr (if py_eq st (PStr (N ''spm_state_contending'')) then None else Some ())"
  have "py_eq (PStr (N ''spm_state_contending'')) (PStr (N ''spm_state_contending''))" by (simp add: py_eq_def)
  with sampling_constant [OF assms(1), of 1 "lift_res (Inr (PStr (N ''spm_state_contending'')))" _ ?judge ?t w2] obtain w' where
    "sampling T (lift_res (Inr (PStr (N ''spm_state_contending'')))) ?judge ?t 1 w2 = Some (Inl APITimeout, w')"
    "server_time clk w2 + ?t < server_time clk w'"
    by (auto simp: lift_res_def)
  then show ?thesis
    using assms(2-4) by (auto simp: deactivate_host_def Let_def bindW_def tryW_def run_def ret_def simp del: getattr_chain.simps)
qed

text \<open>
  VDSM is stopped only when every machine of the engine is down, also those on other hosts: a
  machine that is not down is looked for by itself instead of its name, and is never found. The names
  of machines are texts.
\<close>

theorem stop_vdsm_needs_all_down:
  assumes "\<And>v x u u'. find_by (VM_API A) ''name'' v u = (Inr x, u') \<Longrightarrow> \<exists>n. v = PStr n"
    and "stop_vms_on_host A N host vms w = (Inr True, w')" and "\<And>vm. vm \<in> set vms \<Longrightarrow> \<exists>c m. vm = PObj c m"
  shows "\<forall>vm \<in> set vms. \<exists>n st v v'. getattr vm ''name'' = Inr n \<and> get_vm_state A (py_str n) v = (Inr st, v') \<and>
    py_eq st (PStr (N ''vm_state_down''))"
  using assms(2,3)
proof (induction vms arbitrary: w)
  case (Cons vm vms)
  from Cons.prems(2) [of vm] obtain c m where vm: "vm = PObj c m" by auto
  have no_host: "\<not> truthy r" if r: "get_vm_host_of_object A vm u = (Inr r, u')" for r u u'
  proof (cases "find_by (VM_API A) ''name'' vm u")
    case (Pair found v)
    with assms(1) [of vm u] vm obtain e where "found = Inl e" by (cases found) auto
    with r Pair show ?thesis
      by (auto simp: get_vm_host_of_object_def try_except_def bindE_def ret_def split: if_splits)
  qed
  from Cons.prems(1) obtain n st v v' u where st: "getattr vm ''name'' = Inr n" "get_vm_state A (py_str n) v = (Inr st, v')"
    and rest: "(if py_eq st (PStr (N ''vm_state_down'')) then stop_vms_on_host A N host vms
     else bindE (get_vm_host_of_object A vm) (\<lambda>vm_host.
       if \<not> truthy vm_host then ret False
       else bindE (if py_eq vm_host (PStr host) then stopVm A True (py_str n) ''false'' else ret True) (\<lambda>ok.
         if \<not> ok then ret False else stop_vms_on_host A N host vms))) v' = (Inr True, w')"
    by (auto simp: ret_apply lift_res_def elim!: bindE_InrE)
  have down: "py_eq st (PStr (N ''vm_state_down''))"
  proof (rule ccontr)
    assume "\<not> py_eq st (PStr (N ''vm_state_down''))"
    with rest obtain r u where "get_vm_host_of_object A vm v' = (Inr r, u)" "truthy r"
      by (auto simp: ret_apply elim!: bindE_InrE split: if_splits)
    with no_host show False by blast
  qed
  with rest have "stop_vms_on_host A N host vms v' = (Inr True, w')" by simp
  from Cons.IH [OF this] Cons.prems(2)
  have "\<forall>vm \<in> set vms. \<exists>n st v v'. getattr vm ''name'' = Inr n \<and> get_vm_state A (py_str n) v = (Inr st, v') \<and>
    py_eq st (PStr (N ''vm_state_down''))" by auto
  with st down show ?case by auto
qed simp

section \<open>Witnesses\<close>

text \<open>An engine with one element in every collection: a host that contends for the SPM, or a machine that is down.\<close>

definition demo_host :: pyval where
  "demo_host = PObj ''Host'' [(''name'', PStr ''h1''), (''id'', PStr ''h1''), (''status'', PStr ''up''),
     (''spm'', PObj ''Spm'' [(''status'', PStr ''spm_state_contending'')]),
     (''hosted_engine'', PObj ''HostedEngine'' [(''configured'', PBool False)])]"

definition down_vm :: pyval where
  "down_vm = PObj ''Vm'' [(''name'', PStr ''v1''), (''status'', PStr ''vm_state_down'')]"

definition quiet_apis :: "nat apis" where
  "quiet_apis el col = demo_rest\<lparr>srv := vm_srv, element_name := el, collection_name := col,
     links := [(col, ''/api/'' @ col), (col @ ''/search'', ''/api/'' @ col)],
     parse := (\<lambda>s. Inr (PObj [] [(el, PList [if el = ''host'' then demo_host else down_vm])]))\<rparr>"

lemma quiet_apis_keep_time: "apis_keep_time int quiet_apis"
  by (simp add: apis_keep_time_def keeps_time_def moves_on_def quiet_apis_def vm_srv_def demo_rest_def)


lemma demo_contending:
  "fst (get_host_object quiet_apis ''h1'' ''name'' demo_rest_st) = Inr demo_host"
  "fst (is_hosted_engine_configured quiet_apis ''h1'' (snd (get_host_object quiet_apis ''h1'' ''name'' demo_rest_st))) = Inr (PBool False)"
  by code_simp+

theorem deactivate_host_contending_witness:
  "\<exists>w'. deactivate_host demo_clock quiet_apis disk_names None True ''h1'' ''maintenance'' 0 demo_rest_st = Some (Inr False, w')"
proof -
  obtain w1 where h: "get_host_object quiet_apis ''h1'' ''name'' demo_rest_st = (Inr demo_host, w1)"
    using demo_contending(1) by (metis prod.collapse)
  with demo_contending(2) obtain w2 where he: "is_hosted_engine_configured quiet_apis ''h1'' w1 = (Inr (PBool False), w2)"
    by (metis prod.collapse snd_conv)
  have "getattr_chain [''spm'', ''status''] demo_host = Inr (PStr (disk_names ''spm_state_contending''))"
    by code_simp
  from deactivate_host_contending [where N = disk_names, OF demo_clock_laws h he this, of None True "''maintenance''" 0] show ?thesis by auto
qed

lemma quiet_get:
  assumes "rest_get (VM_API quiet_apis) (Some href) get_default u = (Inr x, u')"
  shows "x = PNone \<or> x = PList [down_vm]"
  using assms
  by (auto simp: rest_get_def Let_def get_default_def VM_API_def quiet_apis_def ret_apply
      elim!: bindE_InrE split: if_splits)

lemma quiet_find:
  assumes "find_by (VM_API quiet_apis) ''name'' v u = (Inr x, u')"
  shows "\<exists>n. v = PStr n"
proof -
  have found: "\<exists>n. v = PStr n" if "filter_chain [''name''] v [down_vm] = Inr rs" "pick_unique rs = Inr x" for rs
  proof -
    have "getattr down_vm ''name'' = Inr (PStr ''v1'')" by code_simp
    with that show ?thesis by (auto simp: pick_unique_def split: if_splits)
  qed
  from assms show ?thesis
    by (auto simp: find_by_def rest_find_def Let_def lift_res_def raise_def simp del: filter_chain.simps dest!: quiet_get
        elim!: bindE_InrE split: if_splits intro: found)
qed

lemma demo_all_down: "fst (stop_vms_on_host quiet_apis disk_names ''h1'' [down_vm] demo_rest_st) = Inr True"
  by code_simp

theorem stop_vdsm_needs_all_down_witness:
  "\<exists>n st v v'. getattr down_vm ''name'' = Inr n \<and> get_vm_state quiet_apis (py_str n) v = (Inr st, v') \<and>
    py_eq st (PStr (disk_names ''vm_state_down''))"
proof -
  obtain w' where "stop_vms_on_host quiet_apis disk_names ''h1'' [down_vm] demo_rest_st = (Inr True, w')"
    using demo_all_down by (metis prod.collapse)
  from stop_vdsm_needs_all_down [OF quiet_find this] show ?thesis by (simp add: down_vm_def)
qed

end
