(* ===== verification/Vm_Devices.thy ===== *)
theory Vm_Devices
  imports Hosts
begin

text \<open>
  The devices of machines in \<open>art/rhevm_api/tests_lib/low_level/vms.py\<close>: disks, NICs, CD-ROMs,
  watchdogs, NUMA nodes and host devices, and the creation of a machine with its devices.
\<close>

definition CDROM_API :: "'w apis \<Rightarrow> 'w rest_env" where "CDROM_API A = A ''cdrom'' ''cdroms''"
definition WATCHDOG_API :: "'w apis \<Rightarrow> 'w rest_env" where "WATCHDOG_API A = A ''watchdog'' ''watchdogs''"
definition NUMA_NODE_API :: "'w apis \<Rightarrow> 'w rest_env" where "NUMA_NODE_API A = A ''vm_numa_node'' ''vm_numa_nodes''"
definition HOST_DEVICE_API :: "'w apis \<Rightarrow> 'w rest_env" where "HOST_DEVICE_API A = A ''host_device'' ''host_devices''"
definition NETWORK_FILTER_PARAMETER :: string where "NETWORK_FILTER_PARAMETER = ''network_filter_parameter''"
definition NETWORK_FILTER_PARAMETERS :: string where "NETWORK_FILTER_PARAMETERS = ''networkfilterparameters''"
definition NETWORK_FILTER_API :: "'w apis \<Rightarrow> 'w rest_env" where
  "NETWORK_FILTER_API A = A NETWORK_FILTER_PARAMETER NETWORK_FILTER_PARAMETERS"

definition VM_SAMPLING_PERIOD :: int where "VM_SAMPLING_PERIOD = 3"
definition GUEST_AGENT_TIMEOUT :: int where "GUEST_AGENT_TIMEOUT = 360"

definition ADD_DISK_KWARGS :: "string list" where
  "ADD_DISK_KWARGS = [''size'', ''type'', ''format'', ''sparse'', ''wipe_after_delete'', ''propagate_errors'', ''alias'', ''read_only'']"

section \<open>Disks\<close>

text \<open>\<open>disks.sort(key=lambda disk: disk.get_alias())\<close>.\<close>

definition sort_by_alias :: "pyval list \<Rightarrow> exn + pyval list" where
  "sort_by_alias ds =
     res_bind (keyed (\<lambda>d. getattr d ''alias'') ds) (\<lambda>l. Inr (map snd (sort_key (sort_key_of \<circ> fst) l)))"

definition getVmDisks :: "'w apis \<Rightarrow> string \<Rightarrow> pyval \<Rightarrow> ('w rest_st, pyval list) comp" where
  "getVmDisks A vm storage_domain =
     bindE (if truthy storage_domain then
              bindE (find_by (STORAGE_API A) ''name'' storage_domain) (\<lambda>sd.
              bindE (vms_of_domain A sd) (\<lambda>sd_vms. rest_find (VM_API A) (PStr vm) ''name'' True sd_vms False []))
            else find_by (VM_API A) ''name'' (PStr vm)) (\<lambda>x.
     bindE (linked (VM_API A) x ''diskattachments'' ''disk_attachment'') (\<lambda>l.
     bindE (get_disk_list_from_disk_attachments A l) (\<lambda>ds. lift_res (sort_by_alias ds))))"

definition get_storage_domain_disks :: "'w apis \<Rightarrow> pyval \<Rightarrow> ('w rest_st, pyval) comp" where
  "get_storage_domain_disks A storage_domain =
     try_except
       (bindE (get_storage_domain_obj A storage_domain ''name'') (\<lambda>sd. getObjList A sd ''disks''))
       EntityNotFound (\<lambda>_. ret (PList []))"

definition first_match :: "exn + pyval list \<Rightarrow> exn + pyval" where
  "first_match r = res_bind r (\<lambda>l. case l of [] \<Rightarrow> Inl DiskNotFound | d # _ \<Rightarrow> Inr d)"

definition getVmDiskById :: "'w apis \<Rightarrow> string \<Rightarrow> pyval \<Rightarrow> ('w rest_st, pyval) comp" where
  "getVmDiskById A vm diskId =
     bindE (getVmDisks A vm PNone) (\<lambda>ds. lift_res (first_match (filter_res (id_is diskId) ds)))"

definition name_of_is :: "pyval \<Rightarrow> pyval \<Rightarrow> exn + bool" where
  "name_of_is n x = res_bind (getattr x ''name'') (\<lambda>m. Inr (py_eq m n))"

text \<open>\<open>found[idx]\<close>: negative indices count from the end.\<close>

definition nth_found :: "int \<Rightarrow> pyval list \<Rightarrow> exn + pyval" where
  "nth_found idx l =
     (let n = int (List.length l); i = (if idx < 0 then idx + n else idx) in
      if l = [] then Inl DiskNotFound else if 0 \<le> i \<and> i < n then Inr (l ! nat i) else Inl IndexError)"

definition getVmFirstDiskByName :: "'w apis \<Rightarrow> string \<Rightarrow> pyval \<Rightarrow> int \<Rightarrow> ('w rest_st, pyval) comp" where
  "getVmFirstDiskByName A vm diskName idx =
     bindE (getVmDisks A vm PNone) (\<lambda>ds. lift_res (res_bind (filter_res (name_of_is diskName) ds) (nth_found idx)))"

text \<open>
  The keywords of \<open>addDisk\<close> that are none of its own raise TypeError, as does a size that is no
  number, which the log formats with \<open>%d\<close>.
\<close>

definition new_disk :: "'w apis \<Rightarrow> enums \<Rightarrow> pyval \<Rightarrow> (string, pyval) dict \<Rightarrow> exn + pyval" where
  "new_disk A N provisioned_size kw =
     res_bind (construct (new_object A ''Disk'')
                 ([(''provisioned_size'', provisioned_size), (''format'', PStr (N ''format_cow'')), (''sparse'', PBool True)] @
                  given kw [(''alias'', ''alias''), (''description'', ''description'')])) (\<lambda>d.
     if num_of provisioned_size = None then Inl TypeError
     else with_quota A (kwget kw ''quota'')
            (set_some kw ''shareable'' (foldl (\<lambda>x k. if k = ''alias'' then x else set_some kw k x) d ADD_DISK_KWARGS)))"

definition add_disk_keywords :: "string list" where
  "add_disk_keywords = [''alias'', ''description'', ''shareable'', ''quota'', ''interface'', ''bootable'', ''active''] @ ADD_DISK_KWARGS"

definition addDisk_vm :: "'w apis \<Rightarrow> enums \<Rightarrow> bool \<Rightarrow> string \<Rightarrow> pyval \<Rightarrow> bool \<Rightarrow> pyval \<Rightarrow> int \<Rightarrow> (string, pyval) dict \<Rightarrow> ('w rest_st, bool) comp" where
  "addDisk_vm A N positive vm provisioned_size wait storagedomain t kw =
     bindE (lift_res (new_disk A N provisioned_size kw)) (\<lambda>d1.
     if without kw add_disk_keywords \<noteq> [] then raise TypeError
     else
       bindE (if truthy storagedomain then
                bindE (find_by (STORAGE_API A) ''name'' storagedomain) (\<lambda>sd.
                lift_res (res_bind (add_member ''storage_domain'' sd (new_object A ''StorageDomains'')) (\<lambda>sds.
                          Inr (setattr d1 ''storage_domains'' sds))))
              else ret d1) (\<lambda>d.
       bindE (lift_res (prepare_disk_attachment_object A PNone d
                [(''interface'', pop_or kw ''interface'' (PStr (N ''interface_virtio''))), (''bootable'', kwget kw ''bootable''),
                 (''active'', pop_or kw ''active'' (PBool True))])) (\<lambda>x.
       bindE (get_disk_attachments A vm ''vm'' True) (\<lambda>disks.
       bindE (create_in (DISK_ATTACHMENTS_API A) x positive disks [] False) (\<lambda>(new, status).
       if status \<and> positive \<and> wait then
         bindE (lift_res (getattr new ''id'')) (\<lambda>i.
         bindE (find_by (DISK_API A) ''id'' i) (\<lambda>disk. waitForElemStatus (DISK_API A) disk ''OK'' t False))
       else ret status)))))"

definition does_disk_exist :: "pyval \<Rightarrow> pyval \<Rightarrow> pyval list \<Rightarrow> exn + pyval option" where
  "does_disk_exist disk disk_id ds =
     (if truthy disk_id then find_res (id_is disk_id) ds
      else if truthy disk then find_res (name_of_is disk) ds
      else Inr None)"

text \<open>
  The disks are listed once more after the removal, and the sampler then looks into this list again
  and again. A run that leaves the loop returns True; the loop has no other way out but an exception.
\<close>

definition removeDisk :: "'w rest_st os_time \<Rightarrow> 'w apis \<Rightarrow> bool \<Rightarrow> string \<Rightarrow> pyval \<Rightarrow> bool \<Rightarrow> pyval \<Rightarrow> ('w rest_st, bool) wcomp" where
  "removeDisk T A positive vm disk wait disk_id =
     bindW (run (getVmDisks A vm PNone)) (\<lambda>ds.
     bindW (run (lift_res (does_disk_exist disk disk_id ds))) (\<lambda>found.
     case found of
       None \<Rightarrow> retW False
     | Some d \<Rightarrow>
         bindW (run (delete_element (VM_API A) d positive)) (\<lambda>status.
         if positive \<and> status \<and> wait then
           bindW (run (getVmDisks A vm PNone)) (\<lambda>after.
           sampling T (ret after)
             (\<lambda>l. res_bind (does_disk_exist disk disk_id l) (\<lambda>x. Inr (if x = None \<or> \<not> truthy (the x) then Some True else None)))
             VM_IMAGE_OPT_TIMEOUT VM_SAMPLING_PERIOD)
         else retW status)))"

text \<open>The verdict is that of the last disk, whatever became of the others.\<close>

definition waitForDisksStat :: "'w apis \<Rightarrow> string \<Rightarrow> string \<Rightarrow> int \<Rightarrow> ('w rest_st, bool) comp" where
  "waitForDisksStat A vm stat t =
     bindE (getVmDisks A vm PNone) (\<lambda>ds. for_each ds (\<lambda>d _. waitForElemStatus (DISK_API A) d stat t False) True)"

definition wait_for_vm_disk_active_status ::
  "'w rest_st os_time \<Rightarrow> 'w apis \<Rightarrow> string \<Rightarrow> bool \<Rightarrow> pyval \<Rightarrow> pyval \<Rightarrow> int \<Rightarrow> int \<Rightarrow> ('w rest_st, bool) wcomp" where
  "wait_for_vm_disk_active_status T A vm active diskAlias diskId t s =
     (if \<not> truthy diskAlias \<and> \<not> truthy diskId then retW False
      else
        func_status T
          (bindE (if truthy diskAlias then get_disk_attachment A vm diskAlias ''name'' ''vm'' else get_disk_attachment A vm diskId ''id'' ''vm'') (\<lambda>x.
           bindE (lift_res (getattr x ''active'')) (\<lambda>a. ret (py_eq a (PBool active))))) t s)"

definition changeVmDiskState ::
  "'w rest_st os_time \<Rightarrow> 'w apis \<Rightarrow> bool \<Rightarrow> string \<Rightarrow> string \<Rightarrow> pyval \<Rightarrow> pyval \<Rightarrow> bool \<Rightarrow> ('w rest_st, bool) wcomp" where
  "changeVmDiskState T A positive vm action diskAlias diskId wait =
     (if diskAlias = PNone \<and> diskId = PNone then retW False
      else
        bindW (run (if diskId \<noteq> PNone then getVmDiskById A vm diskId else getVmFirstDiskByName A vm diskAlias 0)) (\<lambda>disk.
        bindW (run (lift_res (getattr disk ''id''))) (\<lambda>i.
        let active = (action = ''activate'') in
        bindW (run (updateDisk A positive [(''id'', i), (''vmName'', PStr vm), (''active'', PBool active)])) (\<lambda>status.
        if status \<and> wait then
          if positive then
            bindW (wait_for_vm_disk_active_status T A vm active PNone i 300 DEF_SLEEP_VM) (\<lambda>ok. retW (ok = positive))
          else run (waitForElemStatus (DISK_API A) disk ''ok'' 300 False)
        else retW status))))"

definition activateVmDisk :: "'w rest_st os_time \<Rightarrow> 'w apis \<Rightarrow> bool \<Rightarrow> string \<Rightarrow> pyval \<Rightarrow> pyval \<Rightarrow> bool \<Rightarrow> ('w rest_st, bool) wcomp" where
  "activateVmDisk T A positive vm = changeVmDiskState T A positive vm ''activate''"

definition deactivateVmDisk :: "'w rest_st os_time \<Rightarrow> 'w apis \<Rightarrow> bool \<Rightarrow> string \<Rightarrow> pyval \<Rightarrow> pyval \<Rightarrow> bool \<Rightarrow> ('w rest_st, bool) wcomp" where
  "deactivateVmDisk T A positive vm = changeVmDiskState T A positive vm ''deactivate''"

text \<open>The first disk that differs decides.\<close>

definition disk_differs :: "pyval \<Rightarrow> string \<Rightarrow> pyval \<Rightarrow> exn + bool" where
  "disk_differs sparse format d =
     res_bind (getattr d ''sparse'') (\<lambda>s.
     if \<not> py_eq s sparse then Inr True
     else res_bind (getattr d ''format'') (\<lambda>f. res_bind (lower_of f) (\<lambda>g. Inr (g \<noteq> lower format))))"

definition validateVmDisks :: "'w apis \<Rightarrow> bool \<Rightarrow> string \<Rightarrow> pyval \<Rightarrow> string \<Rightarrow> ('w rest_st, bool) comp" where
  "validateVmDisks A positive vm sparse format =
     bindE (get_disk_attachments A vm ''vm'' False) (\<lambda>v.
     bindE (get_disk_list_from_disk_attachments A v) (\<lambda>ds.
     bindE (lift_res (find_res (disk_differs sparse format) ds)) (\<lambda>found. ret (if found = None then positive else \<not> positive))))"

text \<open>Disks that are plain LUNs are not waited for.\<close>

definition all_disks_status :: "'w apis \<Rightarrow> enums \<Rightarrow> string \<Rightarrow> string \<Rightarrow> ('w rest_st, bool) comp" where
  "all_disks_status A N vm disks_status =
     bindE (getVmDisks A vm PNone) (\<lambda>ds.
     bindE (lift_res (filter_res (\<lambda>d. res_bind (getattr d ''storage_type'') (\<lambda>s. Inr (\<not> py_eq s (PStr (N ''storage_type_lun''))))) ds)) (\<lambda>l.
     bindE (lift_res (map_res (\<lambda>d. getattr d ''status'') l)) (\<lambda>sts. ret (list_all (\<lambda>s. py_eq s (PStr disks_status)) sts))))"

definition waitForVmsDisks :: "'w rest_st os_time \<Rightarrow> 'w apis \<Rightarrow> enums \<Rightarrow> string \<Rightarrow> string \<Rightarrow> int \<Rightarrow> int \<Rightarrow> ('w rest_st, bool) wcomp" where
  "waitForVmsDisks T A N vm disks_status t s = func_status T (all_disks_status A N vm disks_status) t s"

definition extend_vm_disk_size :: "'w apis \<Rightarrow> bool \<Rightarrow> string \<Rightarrow> pyval \<Rightarrow> pyval \<Rightarrow> ('w rest_st, bool) comp" where
  "extend_vm_disk_size A positive vm disk provisioned_size =
     updateDisk A positive [(''vmName'', PStr vm), (''alias'', disk), (''provisioned_size'', provisioned_size)]"

definition is_bootable_disk :: "'w apis \<Rightarrow> string \<Rightarrow> pyval \<Rightarrow> string \<Rightarrow> ('w rest_st, pyval) comp" where
  "is_bootable_disk A vm disk attr =
     bindE (get_disk_attachment A vm disk attr ''vm'') (\<lambda>x. lift_res (getattr x ''bootable''))"

definition is_active_disk :: "'w apis \<Rightarrow> string \<Rightarrow> pyval \<Rightarrow> string \<Rightarrow> ('w rest_st, pyval) comp" where
  "is_active_disk A vm disk attr =
     bindE (get_disk_attachment A vm disk attr ''vm'') (\<lambda>x. lift_res (getattr x ''active''))"

text \<open>Every disk is asked for before the first bootable one is taken.\<close>

definition get_vm_bootable_disk_object :: "'w apis \<Rightarrow> string \<Rightarrow> ('w rest_st, pyval) comp" where
  "get_vm_bootable_disk_object A vm =
     bindE (getVmDisks A vm PNone) (\<lambda>ds.
     bindE (map_comp (\<lambda>d. bindE (lift_res (getattr d ''id'')) (\<lambda>i. bindE (is_bootable_disk A vm i ''id'') (\<lambda>b. ret (d, truthy b)))) ds) (\<lambda>l.
     case filter snd l of [] \<Rightarrow> raise IndexError | (d, _) # _ \<Rightarrow> ret d))"

definition get_vm_bootable_disk :: "'w apis \<Rightarrow> string \<Rightarrow> ('w rest_st, pyval) comp" where
  "get_vm_bootable_disk A vm =
     bindE (get_vm_bootable_disk_object A vm) (\<lambda>d. if truthy d then lift_res (getattr d ''alias'') else ret PNone)"

definition get_vm_bootable_disk_id :: "'w apis \<Rightarrow> string \<Rightarrow> ('w rest_st, pyval) comp" where
  "get_vm_bootable_disk_id A vm =
     bindE (get_vm_bootable_disk_object A vm) (\<lambda>d. if truthy d then lift_res (getattr d ''id'') else ret PNone)"

definition get_vms_disks_storage_domain_name :: "'w apis \<Rightarrow> string \<Rightarrow> pyval \<Rightarrow> ('w rest_st, pyval) comp" where
  "get_vms_disks_storage_domain_name A vm_name disk_alias =
     bindE (getVmDisks A vm_name PNone) (\<lambda>ds.
     bindE (lift_res (if truthy disk_alias then
              res_bind (find_res (alias_is disk_alias) ds) (\<lambda>found. case found of Some d \<Rightarrow> Inr d | None \<Rightarrow> Inl EntityNotFound)
            else case ds of [] \<Rightarrow> Inl IndexError | d # _ \<Rightarrow> Inr d)) (\<lambda>d.
     bindE (lift_res (storage_domain_id_of d)) (\<lambda>i.
     bindE (find_by (STORAGE_API A) ''id'' i) (\<lambda>sd. lift_res (getattr sd ''name'')))))"

definition verify_vm_disk_moved :: "'w apis \<Rightarrow> string \<Rightarrow> pyval \<Rightarrow> pyval \<Rightarrow> pyval \<Rightarrow> ('w rest_st, bool) comp" where
  "verify_vm_disk_moved A vm_name disk_name source_sd target_sd =
     bindE (get_disk_storage_domain_name A disk_name (Some vm_name) None) (\<lambda>actual_sd.
     ret (if target_sd \<noteq> PNone then \<not> py_eq source_sd target_sd \<and> py_eq actual_sd target_sd else \<not> py_eq source_sd actual_sd))"

definition get_vm_disks_ids :: "'w apis \<Rightarrow> string \<Rightarrow> ('w rest_st, pyval list) comp" where
  "get_vm_disks_ids A vm =
     bindE (getObjDisks A vm False False) (\<lambda>v.
     if truthy v then lift_res (res_bind (py_iter v) (map_res (\<lambda>d. getattr d ''id''))) else ret [])"

text \<open>The name of the device inside the guest, once or until it is known.\<close>

definition get_logical_name :: "'w apis \<Rightarrow> string \<Rightarrow> string \<Rightarrow> pyval \<Rightarrow> ('w rest_st, pyval) comp" where
  "get_logical_name A vm_name key disk =
     bindE (if key = ''id'' \<and> truthy disk then get_disk_attachment A vm_name disk ''id'' ''vm''
            else get_disk_attachment A vm_name (if key = ''id'' then PNone else disk) ''name'' ''vm'') (\<lambda>x.
     lift_res (getattr x ''logical_name''))"

definition without_dev :: "bool \<Rightarrow> pyval \<Rightarrow> exn + pyval" where
  "without_dev parse_logical_name v =
     (if \<not> parse_logical_name then Inr v
      else case v of PStr s \<Rightarrow> Inr (PStr (replace ''/dev/'' [] s)) | _ \<Rightarrow> Inl AttributeError)"

definition get_vm_disk_logical_name ::
  "'w rest_st os_time \<Rightarrow> 'w apis \<Rightarrow> string \<Rightarrow> pyval \<Rightarrow> bool \<Rightarrow> int \<Rightarrow> int \<Rightarrow> bool \<Rightarrow> string \<Rightarrow> ('w rest_st, pyval) wcomp" where
  "get_vm_disk_logical_name T A vm_name disk wait t interval parse_logical_name key =
     (if \<not> wait then run (bindE (get_logical_name A vm_name key disk) (\<lambda>v. lift_res (without_dev parse_logical_name v)))
      else
        sampling T (get_logical_name A vm_name key disk)
          (\<lambda>v. if truthy v then res_bind (without_dev parse_logical_name v) (\<lambda>x. Inr (Some x)) else Inr None) t interval)"

text \<open>\<open>get_vm_storage_devices\<close>: what the machine reports, its boot disk first.\<close>

definition get_vm_storage_devices ::
  "'w rest_st os_time \<Rightarrow> 'w apis \<Rightarrow> enums \<Rightarrow> enum_table \<Rightarrow> 'w vdsm \<Rightarrow> (pyval \<Rightarrow> ('w rest_st, string) comp) \<Rightarrow>
   (pyval \<Rightarrow> string \<Rightarrow> ('w rest_st, string list) comp) \<Rightarrow> string \<Rightarrow> string \<Rightarrow> bool \<Rightarrow> ('w rest_st, string list \<times> string) wcomp" where
  "get_vm_storage_devices T A N En V boot_storage_device storage_devices vm_name filter_device ensure_vm_on =
     bindW (if ensure_vm_on then
              bindW (start_vms T A N En V [vm_name] (Some (N ''vm_state_powering_up'')) False) (\<lambda>_.
              waitForVMState T A vm_name ''up'' DEF_TIMEOUT DEF_SLEEP)
            else retW True) (\<lambda>_.
     bindW (wait_for_vm_ip T A V vm_name VM_WAIT_FOR_IP_TIMEOUT 10 False) (\<lambda>(_, ip).
     bindW (run (boot_storage_device ip)) (\<lambda>out.
     let boot_disk = (if contains out ''vd'' then ''vda'' else ''sda'') in
     bindW (run (storage_devices ip filter_device)) (\<lambda>devices.
     if devices = [] then run (raise EntityNotFound)
     else retW (filter (\<lambda>d. d \<noteq> boot_disk) devices, boot_disk)))))"

section \<open>NICs\<close>

definition prepare_vnic_network_filter_parameters :: "'w apis \<Rightarrow> pyval \<Rightarrow> pyval \<Rightarrow> exn + pyval" where
  "prepare_vnic_network_filter_parameters A n v =
     prepare_ds_object (new_object A) ''NetworkFilterParameter'' [(''name'', n), (''value'', v)]"

definition nic_filter :: "'w apis \<Rightarrow> pyval \<Rightarrow> exn + pyval" where
  "nic_filter A network_filter =
     res_bind (dict_get network_filter ''name'') (\<lambda>n.
     res_bind (dict_get network_filter ''value'') (\<lambda>v.
     res_bind (prepare_vnic_network_filter_parameters A n v) (\<lambda>x.
     add_member ''network_filter_parameter'' x (new_object A ''NetworkFilterParameters''))))"

text \<open>The profile is looked for in the cluster of the machine, by its own name or by that of the network.\<close>

definition nic_profile :: "'w apis \<Rightarrow> string \<Rightarrow> (string, pyval) dict \<Rightarrow> ('w rest_st, pyval) comp" where
  "nic_profile A vm kw =
     bindE (find_by (VM_API A) ''name'' (PStr vm)) (\<lambda>x.
     bindE (lift_res (getattr_chain [''cluster'', ''id''] x)) (\<lambda>i.
     bindE (find_by (CL_API A) ''id'' i) (\<lambda>c.
     let network = kwget kw ''network'' in
     if network = PNone then ret (new_object A ''VnicProfile'')
     else
       bindE (lift_res (getattr c ''name'')) (\<lambda>cluster.
       get_vnic_profile_obj A (if map_of kw ''vnic_profile'' \<noteq> None then kwget kw ''vnic_profile'' else network) network cluster PNone))))"

definition prepareNicObj :: "'w apis \<Rightarrow> string \<Rightarrow> (string, pyval) dict \<Rightarrow> ('w rest_st, pyval) comp" where
  "prepareNicObj A vm kw =
     through
       [local_step (\<lambda>x. Inr (set_given kw ''interface'' (set_given kw ''name'' x))),
        local_step (\<lambda>x. case map_of kw ''mac_address'' of None \<Rightarrow> Inr x
                     | Some m \<Rightarrow> res_bind (construct (new_object A ''Mac'') [(''address'', m)]) (\<lambda>mac. Inr (setattr x ''mac'' mac))),
        local_step (\<lambda>x. Inr (case map_of kw ''plugged'' of None \<Rightarrow> x | Some v \<Rightarrow> setattr x ''plugged'' (PStr (lower (py_str v))))),
        local_step (\<lambda>x. Inr (set_given kw ''linked'' x)),
        (\<lambda>x. if map_of kw ''network'' = None then ret x else bindE (nic_profile A vm kw) (\<lambda>p. ret (setattr x ''vnic_profile'' p))),
        local_step (\<lambda>x. case map_of kw ''network_filter'' of None \<Rightarrow> Inr x
                     | Some f \<Rightarrow> res_bind (nic_filter A f) (\<lambda>p. Inr (setattr x ''network_filter_parameters'' p)))]
       (new_object A ''Nic'')"

definition get_vm_nics :: "'w apis \<Rightarrow> string \<Rightarrow> ('w rest_st, pyval) comp" where
  "get_vm_nics A vm = bindE (find_by (VM_API A) ''name'' (PStr vm)) (\<lambda>x. link_address (VM_API A) x ''nics'' ''vm_nic'')"

definition get_vm_nics_obj :: "'w apis \<Rightarrow> string \<Rightarrow> ('w rest_st, pyval) comp" where
  "get_vm_nics_obj A vm_name = bindE (find_by (VM_API A) ''name'' (PStr vm_name)) (\<lambda>x. linked (VM_API A) x ''nics'' ''nic'')"

definition get_vm_nic :: "'w apis \<Rightarrow> string \<Rightarrow> pyval \<Rightarrow> ('w rest_st, pyval) comp" where
  "get_vm_nic A vm nic =
     bindE (find_by (VM_API A) ''name'' (PStr vm)) (\<lambda>x. rest_getElemFromElemColl (VM_API A) x nic ''nics'' ''nic'' ''name'' False)"

text \<open>The machine must come back to the state it had before the change.\<close>

definition addNic :: "'w apis \<Rightarrow> bool \<Rightarrow> string \<Rightarrow> (string, pyval) dict \<Rightarrow> ('w rest_st, bool) comp" where
  "addNic A positive vm kw =
     bindE (find_by (VM_API A) ''name'' (PStr vm)) (\<lambda>x.
     bindE (lift_res (getattr x ''status'')) (\<lambda>st.
     bindE (prepareNicObj A vm kw) (\<lambda>nic.
     bindE (get_vm_nics A vm) (\<lambda>nics.
     bindE (create_in (NIC_API A) nic positive nics [] False) (\<lambda>(_, status).
     if status \<and> positive then wait_for_old_status (VM_API A) x st VM_ACTION_TIMEOUT else ret status)))))"

definition updateNic :: "'w apis \<Rightarrow> bool \<Rightarrow> string \<Rightarrow> pyval \<Rightarrow> (string, pyval) dict \<Rightarrow> ('w rest_st, bool) comp" where
  "updateNic A positive vm nic kw =
     bindE (prepareNicObj A vm kw) (\<lambda>new.
     bindE (get_vm_nic A vm nic) (\<lambda>old. update_element (NIC_API A) old new positive))"

definition removeNic :: "'w apis \<Rightarrow> bool \<Rightarrow> string \<Rightarrow> pyval \<Rightarrow> ('w rest_st, bool) comp" where
  "removeNic A positive vm nic =
     bindE (find_by (VM_API A) ''name'' (PStr vm)) (\<lambda>x.
     bindE (get_vm_nic A vm nic) (\<lambda>n.
     bindE (lift_res (getattr x ''status'')) (\<lambda>st.
     bindE (delete_element (NIC_API A) n positive) (\<lambda>status.
     if status \<and> positive then wait_for_old_status (VM_API A) x st VM_ACTION_TIMEOUT else ret status))))"

definition mac_text :: "pyval \<Rightarrow> exn + string" where
  "mac_text nic = res_bind (getattr_chain [''mac'', ''address''] nic) (\<lambda>m. Inr (py_str m))"

definition nic_or_none :: "'w apis \<Rightarrow> string \<Rightarrow> pyval \<Rightarrow> ('w rest_st, pyval option) comp" where
  "nic_or_none A vm nic = try_except (bindE (get_vm_nic A vm nic) (\<lambda>n. ret (Some n))) EntityNotFound (\<lambda>_. ret None)"

definition getVmMacAddress :: "'w apis \<Rightarrow> string \<Rightarrow> pyval \<Rightarrow> ('w rest_st, bool \<times> string option) comp" where
  "getVmMacAddress A vm nic =
     bindE (nic_or_none A vm nic) (\<lambda>found.
     case found of None \<Rightarrow> ret (False, None) | Some n \<Rightarrow> bindE (lift_res (mac_text n)) (\<lambda>m. ret (True, Some m)))"

definition get_vm_nic_mac_address :: "'w apis \<Rightarrow> string \<Rightarrow> pyval \<Rightarrow> ('w rest_st, string) comp" where
  "get_vm_nic_mac_address A vm nic =
     bindE (nic_or_none A vm nic) (\<lambda>found. case found of None \<Rightarrow> ret [] | Some n \<Rightarrow> lift_res (mac_text n))"

definition check_vnic_on_vm_nic :: "'w apis \<Rightarrow> string \<Rightarrow> pyval \<Rightarrow> pyval \<Rightarrow> ('w rest_st, bool) comp" where
  "check_vnic_on_vm_nic A vm nic vnic =
     bindE (nic_or_none A vm nic) (\<lambda>found.
     case found of
       None \<Rightarrow> ret False
     | Some n \<Rightarrow>
         bindE (lift_res (getattr n ''vnic_profile'')) (\<lambda>p.
         if truthy p then
           bindE (lift_res (getattr p ''id'')) (\<lambda>i.
           bindE (find_by (VNIC_PROFILE_API A) ''id'' i) (\<lambda>v. lift_res (name_is vnic v)))
         else ret (vnic = PNone)))"

definition nic_member_is :: "'w apis \<Rightarrow> string \<Rightarrow> string \<Rightarrow> pyval \<Rightarrow> bool \<Rightarrow> ('w rest_st, bool) comp" where
  "nic_member_is A member vm nic positive =
     bindE (get_vm_nic A vm nic) (\<lambda>n. bindE (lift_res (getattr n member)) (\<lambda>v. ret (py_eq v (PBool positive))))"

definition get_vm_nic_plugged :: "'w apis \<Rightarrow> string \<Rightarrow> pyval \<Rightarrow> bool \<Rightarrow> ('w rest_st, bool) comp" where
  "get_vm_nic_plugged A = nic_member_is A ''plugged''"

definition get_vm_nic_linked :: "'w apis \<Rightarrow> string \<Rightarrow> pyval \<Rightarrow> bool \<Rightarrow> ('w rest_st, bool) comp" where
  "get_vm_nic_linked A = nic_member_is A ''linked''"

text \<open>The first profile of the name decides, also when the profile of the NIC has the same name in another network.\<close>

definition check_vm_nic_profile :: "'w apis \<Rightarrow> string \<Rightarrow> string \<Rightarrow> pyval \<Rightarrow> ('w rest_st, bool) comp" where
  "check_vm_nic_profile A vm vnic_profile_name nic =
     bindE (get_vm_nic A vm nic) (\<lambda>n.
     if vnic_profile_name = [] then bindE (lift_res (getattr n ''vnic_profile'')) (\<lambda>p. ret (\<not> truthy p))
     else
       bindE (listed (VNIC_PROFILE_API A)) (\<lambda>all_profiles.
       bindE (lift_res (find_res (name_is (PStr vnic_profile_name)) all_profiles)) (\<lambda>found.
       case found of
         None \<Rightarrow> ret False
       | Some p \<Rightarrow>
           bindE (lift_res (getattr p ''id'')) (\<lambda>i.
           bindE (lift_res (getattr_chain [''vnic_profile'', ''id''] n)) (\<lambda>j. ret (py_eq i j))))))"

definition get_vm_vnic_profile_obj :: "'w apis \<Rightarrow> pyval \<Rightarrow> ('w rest_st, pyval) comp" where
  "get_vm_vnic_profile_obj A nic =
     bindE (lift_res (getattr nic ''vnic_profile'')) (\<lambda>p.
     if \<not> truthy p then ret PNone
     else bindE (lift_res (getattr p ''id'')) (find_by (VNIC_PROFILE_API A) ''id''))"

definition get_vm_nic_statistics :: "'w apis \<Rightarrow> string \<Rightarrow> pyval \<Rightarrow> ('w rest_st, pyval) comp" where
  "get_vm_nic_statistics A vm nic = bindE (get_vm_nic A vm nic) (\<lambda>n. linked (NIC_API A) n ''statistics'' ''statistic'')"

definition get_vnic_network_filter_parameters :: "'w apis \<Rightarrow> string \<Rightarrow> pyval \<Rightarrow> ('w rest_st, pyval) comp" where
  "get_vnic_network_filter_parameters A vm nic =
     bindE (get_vm_nic A vm nic) (\<lambda>n. linked (NIC_API A) n NETWORK_FILTER_PARAMETERS NETWORK_FILTER_PARAMETER)"

definition delete_vnic_network_filter_parameters :: "'w apis \<Rightarrow> pyval \<Rightarrow> ('w rest_st, bool) comp" where
  "delete_vnic_network_filter_parameters A nf_object = delete_element (NETWORK_FILTER_API A) nf_object True"

definition add_vnic_network_filter_parameters :: "'w apis \<Rightarrow> string \<Rightarrow> pyval \<Rightarrow> pyval \<Rightarrow> pyval \<Rightarrow> ('w rest_st, pyval) comp" where
  "add_vnic_network_filter_parameters A vm nic param_name param_value =
     bindE (get_vm_nic A vm nic) (\<lambda>n.
     bindE (lift_res (prepare_vnic_network_filter_parameters A param_name param_value)) (\<lambda>f.
     bindE (lift_res (getattr n ''href'')) (\<lambda>h.
     bindE (create_in (NETWORK_FILTER_API A) f True (PStr (py_str h @ ''/'' @ NETWORK_FILTER_PARAMETERS)) NETWORK_FILTER_PARAMETER False)
       (\<lambda>(x, _). ret x))))"

definition update_vnic_network_filter_parameters :: "'w apis \<Rightarrow> pyval \<Rightarrow> pyval \<Rightarrow> pyval \<Rightarrow> ('w rest_st, pyval) comp" where
  "update_vnic_network_filter_parameters A nf_object param_name param_value =
     bindE (lift_res (prepare_vnic_network_filter_parameters A param_name param_value)) (\<lambda>f.
     bindE (rest_update (NETWORK_FILTER_API A) nf_object f True update_default) (\<lambda>(x, _). ret x))"

section \<open>CD-ROMs and payloads\<close>

definition getCdRomsObjList :: "'w apis \<Rightarrow> string \<Rightarrow> bool \<Rightarrow> ('w rest_st, pyval) comp" where
  "getCdRomsObjList A vm_name href =
     bindE (find_by (VM_API A) ''name'' (PStr vm_name)) (\<lambda>x. getElemFromLink (CDROM_API A) x ''cdroms'' ''cdrom'' href False)"

definition checkVmHasCdromAttached :: "'w apis \<Rightarrow> bool \<Rightarrow> string \<Rightarrow> ('w rest_st, bool) comp" where
  "checkVmHasCdromAttached A positive vmName =
     bindE (find_by (VM_API A) ''name'' (PStr vmName)) (\<lambda>x.
     bindE (link_address (VM_API A) x ''cdroms'' ''cdrom'') (\<lambda>cdroms. ret (truthy cdroms = positive)))"

definition set_cdrom :: "'w apis \<Rightarrow> string \<Rightarrow> (string, pyval) dict \<Rightarrow> bool \<Rightarrow> bool \<Rightarrow> ('w rest_st, bool) comp" where
  "set_cdrom A vm_name file positive now =
     bindE (getCdRomsObjList A vm_name False) (\<lambda>cdroms.
     bindE (lift_res (construct (new_object A ''File'') file)) (\<lambda>f.
     bindE (lift_res (first_of cdroms)) (\<lambda>old.
     bindE (rest_update (CDROM_API A) old (setattr (new_object A ''Cdrom'') ''file'' f) positive (update_default\<lparr>ua_current := now\<rparr>))
       (\<lambda>(_, status). ret status))))"

definition changeCDWhileRunning :: "'w apis \<Rightarrow> string \<Rightarrow> pyval \<Rightarrow> ('w rest_st, bool) comp" where
  "changeCDWhileRunning A vm_name cdrom_image = set_cdrom A vm_name [(''id'', cdrom_image)] True True"

definition attach_cdrom_vm :: "'w apis \<Rightarrow> bool \<Rightarrow> string \<Rightarrow> pyval \<Rightarrow> ('w rest_st, bool) comp" where
  "attach_cdrom_vm A positive vm_name cdrom_image = set_cdrom A vm_name [(''id'', cdrom_image)] positive False"

definition eject_cdrom_vm :: "'w apis \<Rightarrow> string \<Rightarrow> ('w rest_st, bool) comp" where
  "eject_cdrom_vm A vm_name = set_cdrom A vm_name [] True True"

definition getVmPayloads :: "'w apis \<Rightarrow> string \<Rightarrow> ('w rest_st, bool \<times> pyval) comp" where
  "getVmPayloads A vm =
     bindE (try_except (bindE (named_query (VM_API A) vm True) (\<lambda>v. bindE (lift_res (first_of v)) (\<lambda>x. ret (Some x))))
              IndexError (\<lambda>_. ret None)) (\<lambda>found.
     case found of
       None \<Rightarrow> ret (False, PNone)
     | Some x \<Rightarrow> bindE (lift_res (getattr x ''payloads'')) (\<lambda>p. ret (p \<noteq> PNone, p)))"

section \<open>Watchdogs\<close>

definition prepare_watchdog_obj :: "'w apis \<Rightarrow> (string, pyval) dict \<Rightarrow> exn + pyval" where
  "prepare_watchdog_obj A kw = prepare_ds_object (new_object A) ''Watchdog'' kw"

definition get_watchdog_collection :: "'w apis \<Rightarrow> string \<Rightarrow> ('w rest_st, pyval) comp" where
  "get_watchdog_collection A vm_name =
     bindE (get_vm_obj A vm_name False) (\<lambda>x. linked (VM_API A) x ''watchdogs'' ''watchdog'')"

definition add_watchdog :: "'w apis \<Rightarrow> string \<Rightarrow> pyval \<Rightarrow> pyval \<Rightarrow> ('w rest_st, bool) comp" where
  "add_watchdog A vm_name model action =
     bindE (get_vm_obj A vm_name False) (\<lambda>x.
     bindE (link_address (VM_API A) x ''watchdogs'' []) (\<lambda>link.
     bindE (lift_res (prepare_watchdog_obj A [(''model'', model), (''action'', action)])) (\<lambda>w.
     bindE (create_in (WATCHDOG_API A) w True link [] False) (\<lambda>(_, status). ret status))))"

text \<open>The first watchdog of a machine, with its model for the log; a machine without one is False.\<close>

definition on_first_watchdog :: "'w apis \<Rightarrow> string \<Rightarrow> (pyval \<Rightarrow> ('w rest_st, bool) comp) \<Rightarrow> ('w rest_st, bool) comp" where
  "on_first_watchdog A vm_name f =
     bindE (get_watchdog_collection A vm_name) (\<lambda>l.
     if \<not> truthy l then ret False
     else bindE (lift_res (first_of l)) (\<lambda>w. bindE (lift_res (getattr w ''model'')) (\<lambda>_. f w)))"

definition update_watchdog :: "'w apis \<Rightarrow> string \<Rightarrow> (string, pyval) dict \<Rightarrow> ('w rest_st, bool) comp" where
  "update_watchdog A vm_name kw =
     on_first_watchdog A vm_name (\<lambda>old.
     bindE (lift_res (prepare_watchdog_obj A kw)) (\<lambda>new. update_element (WATCHDOG_API A) old new True))"

definition delete_watchdog :: "'w apis \<Rightarrow> string \<Rightarrow> ('w rest_st, bool) comp" where
  "delete_watchdog A vm_name = on_first_watchdog A vm_name (\<lambda>w. delete_element (WATCHDOG_API A) w True)"

section \<open>NUMA nodes\<close>

definition get_vm_numa_nodes :: "'w apis \<Rightarrow> string \<Rightarrow> ('w rest_st, pyval) comp" where
  "get_vm_numa_nodes A vm_name =
     bindE (get_vm_obj A vm_name False) (\<lambda>x. linked (VM_API A) x ''numanodes'' ''vm_numa_node'')"

definition get_vm_numa_node_by_index :: "'w apis \<Rightarrow> string \<Rightarrow> pyval \<Rightarrow> ('w rest_st, pyval) comp" where
  "get_vm_numa_node_by_index A vm_name numa_node_index =
     bindE (get_vm_numa_nodes A vm_name) (\<lambda>v.
     lift_res (res_bind (py_iter v) (\<lambda>l. res_bind (find_res (index_is numa_node_index) l) (\<lambda>found. Inr (opt_val found)))))"

fun numa_pins :: "'w apis \<Rightarrow> string \<Rightarrow> pyval list \<Rightarrow> pyval \<Rightarrow> ('w rest_st, pyval option) comp" where
  "numa_pins A host_name [] pins = ret (Some pins)"
| "numa_pins A host_name (i # is) pins =
     bindE (get_numa_node_by_index A host_name i) (\<lambda>node.
     if \<not> truthy node then ret None
     else
       bindE (lift_res (construct (new_object A ''NumaNodePin'') [(''pinned'', PBool True), (''index'', i), (''host_numa_node'', node)])) (\<lambda>pin.
       bindE (lift_res (add_member ''numa_node_pin'' pin pins)) (numa_pins A host_name is)))"

definition numa_cores :: "'w apis \<Rightarrow> pyval \<Rightarrow> exn + pyval" where
  "numa_cores A cores =
     res_bind (py_iter cores) (\<lambda>l.
     res_bind (fold_res (\<lambda>i cs. res_bind (construct (new_object A ''Core'') [(''index'', i)]) (\<lambda>c. add_member ''core'' c cs)) l
                (new_object A ''Cores'')) (\<lambda>cs.
     Inr (setattr (new_object A ''Cpu'') ''cores'' cs)))"

text \<open>A node of the host that is missing makes the whole node \<open>None\<close>, and \<open>None\<close> is then what is created.\<close>

definition prepare_numa_node_object :: "'w apis \<Rightarrow> string \<Rightarrow> (string, pyval) dict \<Rightarrow> ('w rest_st, pyval) comp" where
  "prepare_numa_node_object A host_name kw =
     (let cores = kwget kw ''cores''; pin_list = kwget kw ''pin_list'' in
      bindE (lift_res (prepare_ds_object (new_object A) ''VirtualNumaNode'' (without kw [''cores'', ''pin_list'']))) (\<lambda>x.
      bindE (if truthy pin_list then
               bindE (lift_res (py_iter pin_list)) (\<lambda>l.
               bindE (numa_pins A host_name l (new_object A ''NumaNodePins'')) (\<lambda>pins.
               ret (map_option (setattr x ''numa_node_pins'') pins)))
             else ret (Some x)) (\<lambda>pinned.
      case pinned of
        None \<Rightarrow> ret PNone
      | Some y \<Rightarrow> if truthy cores then bindE (lift_res (numa_cores A cores)) (\<lambda>c. ret (setattr y ''cpu'' c)) else ret y)))"

definition add_numa_node_to_vm :: "'w apis \<Rightarrow> string \<Rightarrow> string \<Rightarrow> pyval \<Rightarrow> pyval \<Rightarrow> (string, pyval) dict \<Rightarrow> ('w rest_st, bool) comp" where
  "add_numa_node_to_vm A vm_name host_name index memory kw =
     bindE (try_except (bindE (prepare_numa_node_object A host_name ([(''index'', index), (''memory'', memory)] @ kw)) (\<lambda>x. ret (Some x)))
              (TestExc HostException) (\<lambda>_. ret None)) (\<lambda>node.
     case node of
       None \<Rightarrow> ret False
     | Some n \<Rightarrow>
         bindE (get_vm_obj A vm_name False) (\<lambda>x.
         bindE (link_address (VM_API A) x ''numanodes'' []) (\<lambda>link.
         bindE (create_in (NUMA_NODE_API A) n True link [] False) (\<lambda>(_, status). ret status))))"

definition remove_numa_node_from_vm :: "'w apis \<Rightarrow> string \<Rightarrow> pyval \<Rightarrow> ('w rest_st, bool) comp" where
  "remove_numa_node_from_vm A vm_name numa_node_index =
     bindE (get_vm_numa_node_by_index A vm_name numa_node_index) (\<lambda>n.
     if \<not> truthy n then ret False else delete_element (NUMA_NODE_API A) n True)"

section \<open>Host devices\<close>

definition get_vm_host_devices_link :: "'w apis \<Rightarrow> string \<Rightarrow> ('w rest_st, pyval) comp" where
  "get_vm_host_devices_link A vm_name = bindE (get_vm_obj A vm_name False) (\<lambda>x. link_address (VM_API A) x ''hostdevices'' [])"

definition get_vm_host_devices :: "'w apis \<Rightarrow> string \<Rightarrow> ('w rest_st, pyval) comp" where
  "get_vm_host_devices A vm_name = bindE (get_vm_obj A vm_name False) (\<lambda>x. linked (VM_API A) x ''hostdevices'' ''host_device'')"

definition get_vm_host_device_by_name :: "'w apis \<Rightarrow> string \<Rightarrow> pyval \<Rightarrow> ('w rest_st, pyval) comp" where
  "get_vm_host_device_by_name A vm_name device_name =
     bindE (get_vm_host_devices A vm_name) (\<lambda>v.
     lift_res (res_bind (py_iter v) (\<lambda>l. res_bind (first_named device_name l) (\<lambda>found. Inr (opt_val found)))))"

text \<open>A device that the host does not have has no id, and the machine is given a device without one.\<close>

definition add_vm_host_device :: "'w apis \<Rightarrow> string \<Rightarrow> string \<Rightarrow> pyval \<Rightarrow> ('w rest_st, bool) comp" where
  "add_vm_host_device A vm_name host_name device_name =
     bindE (get_host_device_id_by_name A host_name device_name) (\<lambda>i.
     bindE (lift_res (prepare_ds_object (new_object A) ''HostDevice'' [(''id'', i)])) (\<lambda>d.
     bindE (get_vm_host_devices_link A vm_name) (\<lambda>link.
     bindE (create_in (HOST_DEVICE_API A) d True link [] False) (\<lambda>(_, status). ret status))))"

definition remove_vm_host_device :: "'w apis \<Rightarrow> string \<Rightarrow> pyval \<Rightarrow> ('w rest_st, bool) comp" where
  "remove_vm_host_device A vm_name device_name =
     bindE (get_vm_host_device_by_name A vm_name device_name) (\<lambda>d.
     if \<not> truthy d then ret False
     else
       bindE (get_vm_host_devices_link A vm_name) (\<lambda>link.
       bindE (lift_res (getattr d ''id'')) (\<lambda>i.
       bindE (lift_res (prepare_ds_object (new_object A) ''HostDevice'' [(''href'', PStr (py_str link @ ''/'' @ py_str i))])) (\<lambda>x.
       delete_element (HOST_DEVICE_API A) x True))))"

section \<open>Statistics and other data\<close>

definition EXPECTED_STATISTICS :: "string list" where
  "EXPECTED_STATISTICS = [''memory.installed'', ''memory.used'', ''cpu.current.guest'', ''cpu.current.hypervisor'', ''cpu.current.total'']"

text \<open>\<open>re.match('(\d+\.\d+)|(\d+)', datum)\<close> looks at the beginning of the text only.\<close>

definition starts_with_number :: "string \<Rightarrow> bool" where
  "starts_with_number s = (case s of [] \<Rightarrow> False | c # _ \<Rightarrow> is_digit c)"

definition datum_of :: "pyval \<Rightarrow> exn + string" where
  "datum_of stat =
     res_bind (getattr_chain [''values'', ''value''] stat) (\<lambda>v.
     res_bind (first_of v) (\<lambda>d. res_bind (getattr d ''datum'') (\<lambda>x. Inr (py_str x))))"

definition see_statistic :: "pyval \<Rightarrow> bool \<times> string list \<Rightarrow> exn + bool \<times> string list" where
  "see_statistic stat acc =
     res_bind (datum_of stat) (\<lambda>datum.
     res_bind (getattr stat ''name'') (\<lambda>n.
     Inr (fst acc \<and> starts_with_number datum, filter (\<lambda>e. n \<noteq> PStr e) (snd acc))))"

definition checkVmStatistics :: "'w apis \<Rightarrow> string \<Rightarrow> ('w rest_st, bool) comp" where
  "checkVmStatistics A vm =
     bindE (find_by (VM_API A) ''name'' (PStr vm)) (\<lambda>x.
     bindE (linked_list (VM_API A) x ''statistics'' ''statistic'') (\<lambda>stats.
     bindE (lift_res (fold_res see_statistic stats (True, EXPECTED_STATISTICS))) (\<lambda>(ok, missing). ret (ok \<and> missing = []))))"

definition searchForVm ::
  "(string \<Rightarrow> pyval \<Rightarrow> exn + bool) \<Rightarrow> 'w apis \<Rightarrow> string \<Rightarrow> string \<Rightarrow> string \<Rightarrow> int option \<Rightarrow> bool \<Rightarrow> int option
   \<Rightarrow> ('w rest_st, bool) comp" where
  "searchForVm M A = searchForObj M (VM_API A)"

definition init_initialization_obj :: "'w apis \<Rightarrow> (string, pyval) dict \<Rightarrow> exn + pyval" where
  "init_initialization_obj A params = construct (new_object A ''Initialization'') params"

definition repo_text :: "string \<Rightarrow> string \<Rightarrow> (string, pyval) dict \<Rightarrow> string" where
  "repo_text repo_name baseurl kw =
     ''['' @ repo_name @ '']'' @ [CHR 0x0A] @ ''name='' @ repo_name @ [CHR 0x0A] @ ''baseurl='' @ baseurl @ [CHR 0x0A] @
     ''enabled='' @ py_str (pop_or kw ''enabled'' (PStr ''1'')) @ [CHR 0x0A] @
     ''gpgcheck='' @ py_str (pop_or kw ''gpgcheck'' (PStr ''0'')) @ [CHR 0x0A]"

definition add_repo_to_vm ::
  "(string \<Rightarrow> string \<Rightarrow> ('s, unit) comp) \<Rightarrow> string \<Rightarrow> string \<Rightarrow> string \<Rightarrow> (string, pyval) dict \<Rightarrow> ('s, unit) comp" where
  "add_repo_to_vm write_file repo_name baseurl path kw =
     write_file (path_join path repo_name @ ''.repo'') (repo_text repo_name baseurl kw)"

section \<open>A machine with its devices\<close>

text \<open>
  The keywords that \<open>createVm\<close> takes for itself: those it passes on to \<open>addVm\<close>, with their
  defaults, those for the devices, and those it never looks at. What is left goes to \<open>addVm\<close> too.
\<close>

definition create_vm_passed :: "string list" where
  "create_vm_passed =
     [''template'', ''templateUuid'', ''os_type'', ''type'', ''memory'', ''cpu_socket'', ''cpu_cores'', ''display_type'', ''async'',
      ''placement_affinity'', ''placement_host'', ''vcpu_pinning'', ''highly_available'', ''availablity_priority'', ''protected'',
      ''cpu_mode'', ''copy_permissions'', ''custom_properties'', ''cpu_profile_id'', ''numa_mode'', ''ballooning'',
      ''memory_guaranteed'', ''initialization'', ''cpu_shares'', ''serial_number'', ''placement_hosts'', ''max_memory'']"

definition create_vm_own :: "string list" where
  "create_vm_own =
     [''vmDescription'', ''cluster'', ''nic'', ''nicType'', ''mac_address'', ''storageDomainName'', ''provisioned_size'', ''diskType'',
      ''volumeType'', ''volumeFormat'', ''diskActive'', ''diskInterface'', ''bootable'', ''wipe_after_delete'', ''start'',
      ''installation'', ''slim'', ''user'', ''password'', ''attempt'', ''interval'', ''cobblerAddress'', ''cobblerUser'',
      ''cobblerPasswd'', ''image'', ''hostname'', ''network'', ''vnic_profile'', ''useAgent'', ''vm_quota'', ''disk_quota'', ''plugged'',
      ''linked'', ''watchdog_model'', ''watchdog_action'', ''lease'']"

definition create_vm_default :: "string \<Rightarrow> pyval" where
  "create_vm_default k =
     (if k = ''template'' then PStr ''Blank'' else if k = ''async'' \<or> k = ''copy_permissions'' then PBool False else PNone)"

definition create_vm_rest :: "(string, pyval) dict \<Rightarrow> (string, pyval) dict" where
  "create_vm_rest kw = without kw (create_vm_own @ create_vm_passed)"

definition add_vm_keywords :: "string \<Rightarrow> (string, pyval) dict \<Rightarrow> (string, pyval) dict" where
  "add_vm_keywords vmName kw =
     [(''name'', PStr vmName),
      (''description'', if truthy (kwget kw ''vmDescription'') then kwget kw ''vmDescription'' else PStr vmName),
      (''cluster'', pop_or kw ''cluster'' (PStr ''Default'')), (''quota'', kwget kw ''vm_quota'')] @
     map (\<lambda>k. (k, pop_or kw k (create_vm_default k))) create_vm_passed @ without (create_vm_rest kw) [''wait'']"

definition create_vm_nic :: "'w apis \<Rightarrow> bool \<Rightarrow> string \<Rightarrow> (string, pyval) dict \<Rightarrow> ('w rest_st, bool) comp" where
  "create_vm_nic A positive vmName kw =
     (let network = kwget kw ''network''; profile = kwget kw ''vnic_profile'' in
      if \<not> truthy (kwget kw ''nic'') then ret True
      else
        addNic A positive vmName
          [(''name'', kwget kw ''nic''), (''interface'', kwget kw ''nicType''), (''mac_address'', kwget kw ''mac_address''),
           (''network'', network), (''vnic_profile'', if profile \<noteq> PNone then profile else network),
           (''plugged'', pop_or kw ''plugged'' (PStr ''true'')), (''linked'', pop_or kw ''linked'' (PStr ''true''))])"

text \<open>A disk is added only to a machine of the blank template.\<close>

definition create_vm_disk :: "'w apis \<Rightarrow> enums \<Rightarrow> bool \<Rightarrow> string \<Rightarrow> (string, pyval) dict \<Rightarrow> ('w rest_st, bool) comp" where
  "create_vm_disk A N positive vmName kw =
     (if py_eq (pop_or kw ''template'' (PStr ''Blank'')) (PStr ''Blank'') \<and> truthy (kwget kw ''storageDomainName'') \<and>
         kwget kw ''templateUuid'' = PNone then
        addDisk_vm A N positive vmName (kwget kw ''provisioned_size'') True (kwget kw ''storageDomainName'') VM_IMAGE_OPT_TIMEOUT
          [(''type'', pop_or kw ''diskType'' (PStr (N ''disk_type_data''))), (''sparse'', pop_or kw ''volumeType'' (PStr ''true'')),
           (''interface'', pop_or kw ''diskInterface'' (PStr (N ''interface_virtio''))),
           (''format'', pop_or kw ''volumeFormat'' (PStr (N ''format_cow''))), (''bootable'', pop_or kw ''bootable'' (PStr ''true'')),
           (''quota'', kwget kw ''disk_quota''), (''wipe_after_delete'', pop_or kw ''wipe_after_delete'' (PStr ''false'')),
           (''active'', pop_or kw ''diskActive'' (PBool True))]
      else ret True)"

text \<open>
  The watchdog is asked for with keywords that \<open>add_watchdog\<close> does not have, a TypeError.
  With \<open>installation\<close> the function ends without a value. The keyword \<open>lease\<close> is dropped.
\<close>

definition createVm ::
  "'w rest_st os_time \<Rightarrow> 'w apis \<Rightarrow> enums \<Rightarrow> enum_table \<Rightarrow> 'w vdsm \<Rightarrow> bool \<Rightarrow> string \<Rightarrow> (string, pyval) dict \<Rightarrow> ('w rest_st, bool option) wcomp" where
  "createVm T A N En V positive vmName kw =
     (if \<exists>k \<in> set [''name'', ''description'', ''quota'']. map_of (create_vm_rest kw) k \<noteq> None then run (raise TypeError)
      else
        bindW (run (addVm A N En positive (truthy (pop_or kw ''wait'' (PBool True))) (add_vm_keywords vmName kw))) (\<lambda>added.
        if \<not> added then retW (Some False)
        else
          bindW (run (create_vm_nic A positive vmName kw)) (\<lambda>nic.
          if \<not> nic then retW (Some False)
          else
            bindW (run (create_vm_disk A N positive vmName kw)) (\<lambda>disk.
            if \<not> disk then retW (Some False)
            else if truthy (kwget kw ''watchdog_action'') \<and> truthy (kwget kw ''watchdog_model'') then run (raise TypeError)
            else if truthy (pop_or kw ''installation'' (PBool False)) then retW None
            else
              bindW (run (lift_res (lower_of (pop_or kw ''start'' (PStr ''false''))))) (\<lambda>start.
              if start = ''true'' then bindW (startVm T A N En V positive vmName (start_default N)) (\<lambda>ok. retW (Some ok))
              else retW (Some True))))))"

definition create_one ::
  "'w rest_st os_time \<Rightarrow> 'w apis \<Rightarrow> enums \<Rightarrow> enum_table \<Rightarrow> 'w vdsm \<Rightarrow> string \<times> (string, pyval) dict \<Rightarrow> ('w rest_st, bool) wcomp" where
  "create_one T A N En V vm = bindW (createVm T A N En V True (fst vm) (snd vm)) (\<lambda>r. retW (r = Some True))"

text \<open>All the machines are created, and an exception or a value that is not true makes the whole False.\<close>

definition create_vms ::
  "'w rest_st os_time \<Rightarrow> 'w apis \<Rightarrow> enums \<Rightarrow> enum_table \<Rightarrow> 'w vdsm \<Rightarrow> (string \<times> (string, pyval) dict) list \<Rightarrow> ('w rest_st, bool) wcomp" where
  "create_vms T A N En V vms_params =
     bindW (eachW vms_params (\<lambda>vm rs. bindW (caught (create_one T A N En V vm)) (\<lambda>r. retW (rs @ [r]))) [])
       (\<lambda>results. retW (list_all (\<lambda>r. r = Inr True) results))"

section \<open>Clones\<close>

definition domains_for_disk :: "'w apis \<Rightarrow> pyval \<Rightarrow> pyval \<Rightarrow> ('w rest_st, pyval list) comp" where
  "domains_for_disk A storagedomain disk_id =
     (if storagedomain \<noteq> PNone then bindE (find_by (STORAGE_API A) ''name'' storagedomain) (\<lambda>sd. ret [sd])
      else
        bindE (get_disk_obj A disk_id ''id'') (\<lambda>d.
        bindE (lift_res (res_bind (getattr_chain [''storage_domains'', ''storage_domain''] d) py_iter)) (\<lambda>l.
        map_comp (\<lambda>e. bindE (lift_res (getattr e ''id'')) (find_by (STORAGE_API A) ''id'')) l)))"

definition clone_disk ::
  "'w apis \<Rightarrow> bool \<Rightarrow> pyval \<Rightarrow> pyval \<Rightarrow> pyval \<Rightarrow> pyval \<Rightarrow> ('w rest_st, pyval) comp" where
  "clone_disk A from_template vol_sparse vol_format storagedomain dsk =
     bindE (lift_res (getattr dsk ''id'')) (\<lambda>i.
     bindE (lift_res (if from_template then construct (new_object A ''Disk'') [(''id'', i)]
                      else Inr (setattr (new_object A ''Disk'') ''image_id'' i))) (\<lambda>d.
     bindE (domains_for_disk A storagedomain i) (\<lambda>sds.
     bindE (lift_res (fold_res (add_member ''storage_domain'') sds (new_object A ''StorageDomains''))) (\<lambda>l.
     ret (setattr (set_if (vol_format \<noteq> PNone) ''format'' vol_format (set_if (vol_sparse \<noteq> PNone) ''sparse'' vol_sparse d))
            ''storage_domains'' l)))))"

definition clone_attachments :: "'w apis \<Rightarrow> pyval \<Rightarrow> pyval \<Rightarrow> pyval list \<Rightarrow> exn + pyval" where
  "clone_attachments A interface bootable disks =
     fold_res (\<lambda>d l.
         res_bind (getattr d ''id'') (\<lambda>i.
         res_bind (prepare_disk_attachment_object A i d [(''interface'', interface), (''bootable'', bootable)]) (\<lambda>x.
         add_member ''disk_attachment'' x l)))
       disks (new_object A ''DiskAttachments'')"

text \<open>Where the disks of a clone come from: a template, or the snapshot of a machine.\<close>

definition clone_source ::
  "'w apis \<Rightarrow> pyval \<Rightarrow> pyval \<Rightarrow> pyval \<Rightarrow> pyval \<Rightarrow> ('w rest_st, pyval \<times> pyval) comp" where
  "clone_source A template snapshot vm_name x =
     (if truthy template then
        bindE (find_by (TEMPLATE_API A) ''name'' template) (\<lambda>t.
        bindE (get_disk_attachments A (py_str template) ''template'' False) (\<lambda>disks. ret (setattr x ''template'' t, disks)))
      else if truthy snapshot \<and> truthy vm_name then
        bindE (getVmSnapshot A (py_str vm_name) snapshot False) (\<lambda>sn.
        bindE (lift_res (add_member ''snapshot'' sn (new_object A ''Snapshots''))) (\<lambda>sns.
        bindE (linked (DISK_API A) sn ''disks'' ''disk'') (\<lambda>disks. ret (setattr x ''snapshots'' sns, disks))))
      else raise ValueError)"

definition createVmForClone ::
  "'w apis \<Rightarrow> enums \<Rightarrow> enum_table \<Rightarrow> pyval \<Rightarrow> pyval \<Rightarrow> pyval \<Rightarrow> pyval \<Rightarrow> pyval \<Rightarrow> pyval \<Rightarrow> pyval \<Rightarrow> pyval \<Rightarrow> (string, pyval) dict
   \<Rightarrow> ('w rest_st, pyval) comp" where
  "createVmForClone A N En vm template cluster vol_sparse vol_format storagedomain snapshot vm_name kw =
     bindE (prepare_vm_object A N En ([(''name'', vm), (''cluster'', cluster)] @ without kw [''interface'', ''bootable''])) (\<lambda>x.
     bindE (clone_source A template snapshot vm_name x) (\<lambda>(y, disks).
     bindE (lift_res (py_iter disks)) (\<lambda>l.
     bindE (map_comp (clone_disk A (truthy template) vol_sparse vol_format storagedomain) l) (\<lambda>ds.
     bindE (lift_res (clone_attachments A (pop_or kw ''interface'' (PStr (N ''interface_virtio''))) (pop_or kw ''bootable'' (PStr ''True'')) ds)) (\<lambda>att.
     ret (setattr y ''disk_attachments'' att))))))"

definition wait_for_clone :: "'w apis \<Rightarrow> bool \<Rightarrow> bool \<Rightarrow> int \<Rightarrow> pyval \<times> bool \<Rightarrow> ('w rest_st, bool) comp" where
  "wait_for_clone A positive wait t r =
     (if positive \<and> snd r \<and> wait then waitForElemStatus (VM_API A) (fst r) ''DOWN'' t False else ret (snd r))"

text \<open>
  Two objects are made, the expected one first; the second time a list of hosts that the caller gave
  has the appended host already.
\<close>

definition cloneVmFromTemplate ::
  "'w apis \<Rightarrow> enums \<Rightarrow> enum_table \<Rightarrow> bool \<Rightarrow> string \<Rightarrow> pyval \<Rightarrow> pyval \<Rightarrow> int \<Rightarrow> bool \<Rightarrow> pyval \<Rightarrow> pyval \<Rightarrow> bool \<Rightarrow> pyval \<Rightarrow> (string, pyval) dict
   \<Rightarrow> ('w rest_st, bool) comp" where
  "cloneVmFromTemplate A N En positive vm template cluster t clone vol_sparse vol_format wait storagedomain kw =
     (let rest = without kw [''snapshot'', ''vm_name''];
          make = createVmForClone A N En (PStr vm) template cluster vol_sparse vol_format storagedomain (kwget kw ''snapshot'') (kwget kw ''vm_name'') in
      bindE (make rest) (\<lambda>expected0.
      bindE (make (hosts_after N rest)) (\<lambda>new.
      bindE (if clone then lift_res (blank_template A expected0) else ret expected0) (\<lambda>expected.
      bindE (rest_create (VM_API A) new positive
               (create_default\<lparr>ca_expected_entity := Some expected, ca_async := \<not> wait, ca_compare := wait,
                               ca_operations := if clone then [''clone=true''] else []\<rparr>))
        (wait_for_clone A positive wait t)))))"

definition cloneVmFromSnapshot ::
  "'w apis \<Rightarrow> enums \<Rightarrow> enum_table \<Rightarrow> bool \<Rightarrow> string \<Rightarrow> pyval \<Rightarrow> pyval \<Rightarrow> pyval \<Rightarrow> pyval \<Rightarrow> bool \<Rightarrow> pyval \<Rightarrow> pyval \<Rightarrow> int \<Rightarrow> bool \<Rightarrow> (string, pyval) dict
   \<Rightarrow> ('w rest_st, bool) comp" where
  "cloneVmFromSnapshot A N En positive new_name cluster vm snapshot storagedomain wait sparse vol_format t compare kw =
     (let rest = without kw [''template''];
          make = createVmForClone A N En (PStr new_name) (kwget kw ''template'') cluster sparse vol_format storagedomain snapshot vm in
      bindE (make rest) (\<lambda>expected0.
      bindE (make (hosts_after N rest)) (\<lambda>new.
      bindE (lift_res (blank_template A (setattr expected0 ''snapshots'' PNone))) (\<lambda>expected.
      bindE (rest_create (VM_API A) new positive
               (create_default\<lparr>ca_expected_entity := Some expected,
                               ca_compare := compare, ca_operations := [''clone=true'']\<rparr>))
        (wait_for_clone A positive wait t)))))"

section \<open>What is shown\<close>

text \<open>
  A removed disk that the engine still listed right after the deletion is waited for in vain: the
  same list is sampled until the time is over, whatever the engine does in the meantime.
\<close>

theorem removeDisk_stale_list:
  assumes "clock_laws T (server_time clk)"
    and "getVmDisks A vm PNone w = (Inr ds, w1)" and "does_disk_exist disk disk_id ds = Inr (Some d)"
    and "delete_element (VM_API A) d True w1 = (Inr True, w2)"
    and "getVmDisks A vm PNone w2 = (Inr after, w3)" and "does_disk_exist disk disk_id after = Inr (Some d')" and "truthy d'"
  shows "\<exists>w'. removeDisk T A True vm disk True disk_id w = Some (Inl APITimeout, w') \<and>
    server_time clk w3 + VM_IMAGE_OPT_TIMEOUT < server_time clk w'"
proof -
  let ?judge = "\<lambda>l. res_bind (does_disk_exist disk disk_id l) (\<lambda>x. Inr (if x = None \<or> \<not> truthy (the x) then Some True else None))"
  have "?judge after = Inr None" using assms(6,7) by simp
  with sampling_constant [OF assms(1), of VM_SAMPLING_PERIOD "ret after" after ?judge VM_IMAGE_OPT_TIMEOUT w3] obtain w' where
    "sampling T (ret after) ?judge VM_IMAGE_OPT_TIMEOUT VM_SAMPLING_PERIOD w3 = Some (Inl APITimeout, w')"
    "server_time clk w3 + VM_IMAGE_OPT_TIMEOUT < server_time clk w'"
    by (auto simp: ret_def VM_SAMPLING_PERIOD_def)
  with assms(2-5) show ?thesis by (simp add: removeDisk_def bindW_def run_def lift_res_def)
qed

lemma see_statistic_fold:
  assumes "fold_res see_statistic l (b, names) = Inr (ok, missing)"
  shows "(ok \<longleftrightarrow> b \<and> (\<forall>x \<in> set l. \<exists>d. datum_of x = Inr d \<and> starts_with_number d)) \<and>
    set missing = {e \<in> set names. \<forall>x \<in> set l. getattr x ''name'' \<noteq> Inr (PStr e)}"
  using assms
proof (induction l arbitrary: b names)
  case (Cons x l)
  from Cons.prems obtain d n where x: "datum_of x = Inr d" "getattr x ''name'' = Inr n"
    and "fold_res see_statistic l (b \<and> starts_with_number d, filter (\<lambda>e. n \<noteq> PStr e) names) = Inr (ok, missing)"
    by (auto simp: see_statistic_def [of x] res_bind_Inr)
  from Cons.IH [OF this(3)] x show ?case by auto
qed simp

text \<open>
  C28. The check of the statistics of a machine answers True exactly when the value of every statistic
  listed begins with a digit and each of the five expected names is the name of a listed one.
\<close>

theorem checkVmStatistics_verdict:
  assumes "find_by (VM_API A) ''name'' (PStr vm) w = (Inr x, u)" and "linked_list (VM_API A) x ''statistics'' ''statistic'' u = (Inr stats, w')"
    and "checkVmStatistics A vm w = (Inr ok, v)"
  shows "ok \<longleftrightarrow> (\<forall>x \<in> set stats. \<exists>c rest. datum_of x = Inr (c # rest) \<and> is_digit c) \<and>
    (\<forall>e \<in> set EXPECTED_STATISTICS. \<exists>x \<in> set stats. getattr x ''name'' = Inr (PStr e))"
proof -
  from assms obtain b missing where run: "fold_res see_statistic stats (True, EXPECTED_STATISTICS) = Inr (b, missing)"
    and ok: "ok \<longleftrightarrow> b \<and> missing = []"
    by (auto simp: checkVmStatistics_def ret_apply lift_res_def elim!: bindE_InrE)
  have digit: "starts_with_number d \<longleftrightarrow> (\<exists>c rest. d = c # rest \<and> is_digit c)" for d
    by (cases d) (simp_all add: starts_with_number_def)
  from see_statistic_fold [OF run] ok show ?thesis
    by (simp add: set_empty [symmetric] digit del: set_empty) blast
qed

section \<open>Witnesses\<close>

text \<open>An engine with one machine that is down, its disk and its statistics; deletions do not change the listings.\<close>

definition gear_link :: "string \<Rightarrow> pyval" where
  "gear_link rel = PObj ''Link'' [(''rel'', PStr rel), (''href'', PStr (''/api/x/'' @ rel))]"

definition gear_vm :: pyval where
  "gear_vm = PObj ''Vm'' [(''name'', PStr ''v1''), (''id'', PStr ''i1''), (''status'', PStr ''down''), (''href'', PStr ''/api/vms/v1''),
     (''link'', PList (map gear_link [''diskattachments'', ''statistics'']))]"

definition gear_disk :: pyval where
  "gear_disk = PObj ''Disk'' [(''id'', PStr ''d1''), (''name'', PStr ''disk''), (''alias'', PStr ''disk''), (''href'', PStr ''/api/disks/d1'')]"

definition gear_stat :: "string \<Rightarrow> pyval" where
  "gear_stat n = PObj ''Statistic'' [(''name'', PStr n), (''values'', PObj ''Values'' [(''value'', PList [PObj ''Value'' [(''datum'', PStr ''17'')]])])]"

definition gear_srv :: "nat server_fun" where
  "gear_srv rq w =
     (Inr \<lparr>resp_status = 200, resp_reason = ''OK'', resp_headers = [],
            resp_data = if req_method rq = ''POST'' then ''/vms/v1'' else req_url rq\<rparr>, w + 1)"

definition gear_apis :: "nat apis" where
  "gear_apis el col = demo_rest\<lparr>srv := gear_srv, element_name := el, collection_name := col,
     links := [(col, ''/api/'' @ col), (col @ ''/search'', ''/api/'' @ col)],
     dump_entity := (\<lambda>v n. ''/vms/v1''), compare_env := demo_env\<lparr>ds_classes := (\<lambda>n. Some (DsClass n [] None))\<rparr>,
     new_ds := (\<lambda>c. PObj c (map (\<lambda>a. (a, PNone)) [''name'', ''description'', ''id'', ''type_''])),
     parse := (\<lambda>s. Inr (if contains s ''/vms/v1'' then gear_vm
                      else if contains s ''diskattachments'' then
                        PObj [] [(''disk_attachment'', PList [PObj ''DiskAttachment'' [(''id'', PStr ''d1''), (''disk'', gear_disk)]])]
                      else if contains s ''statistics'' then PObj [] [(''statistic'', PList (map gear_stat EXPECTED_STATISTICS))]
                      else PObj [] [(''vm'', PList [gear_vm]), (''disk'', PList [gear_disk]),
                         (''cluster'', PList [PObj ''Cluster'' [(''name'', PStr ''Default''), (''id'', PStr ''c1'')]]),
                         (''template'', PList [PObj ''Template'' [(''name'', PStr ''Blank''), (''id'', PStr ''t1'')]])]))\<rparr>"

lemma demo_disks: "fst (getVmDisks gear_apis ''v1'' PNone demo_rest_st) = Inr [gear_disk]"
  "fst (delete_element (VM_API gear_apis) gear_disk True (snd (getVmDisks gear_apis ''v1'' PNone demo_rest_st))) = Inr True"
  "fst (getVmDisks gear_apis ''v1'' PNone
     (snd (delete_element (VM_API gear_apis) gear_disk True (snd (getVmDisks gear_apis ''v1'' PNone demo_rest_st))))) = Inr [gear_disk]"
  by code_simp+

theorem removeDisk_stale_list_witness:
  "\<exists>w'. removeDisk demo_clock gear_apis True ''v1'' (PStr ''disk'') True PNone demo_rest_st = Some (Inl APITimeout, w')"
proof -
  obtain w1 where a: "getVmDisks gear_apis ''v1'' PNone demo_rest_st = (Inr [gear_disk], w1)"
    using demo_disks(1) by (metis prod.collapse)
  obtain w2 where b: "delete_element (VM_API gear_apis) gear_disk True w1 = (Inr True, w2)"
    using demo_disks(2) a by (metis prod.collapse snd_conv)
  obtain w3 where c: "getVmDisks gear_apis ''v1'' PNone w2 = (Inr [gear_disk], w3)"
    using demo_disks(3) a b by (metis prod.collapse snd_conv)
  have d: "does_disk_exist (PStr ''disk'') PNone [gear_disk] = Inr (Some gear_disk)" "truthy gear_disk"
    by code_simp+
  from removeDisk_stale_list [OF demo_clock_laws a d(1) b c d] show ?thesis by blast
qed

lemma demo_statistics: "fst (find_by (VM_API gear_apis) ''name'' (PStr ''v1'') demo_rest_st) = Inr gear_vm"
  "fst (linked_list (VM_API gear_apis) gear_vm ''statistics'' ''statistic'' (snd (find_by (VM_API gear_apis) ''name'' (PStr ''v1'') demo_rest_st)))
     = Inr (map gear_stat EXPECTED_STATISTICS)"
  "fst (checkVmStatistics gear_apis ''v1'' demo_rest_st) = Inr True"
  by code_simp+

theorem checkVmStatistics_verdict_witness:
  "\<exists>x c rest. getattr x ''name'' = Inr (PStr ''memory.used'') \<and> datum_of x = Inr (c # rest) \<and> is_digit c"
proof -
  obtain u where a: "find_by (VM_API gear_apis) ''name'' (PStr ''v1'') demo_rest_st = (Inr gear_vm, u)"
    using demo_statistics(1) by (metis prod.collapse)
  obtain w' where b: "linked_list (VM_API gear_apis) gear_vm ''statistics'' ''statistic'' u = (Inr (map gear_stat EXPECTED_STATISTICS), w')"
    using demo_statistics(2) a by (metis prod.collapse snd_conv)
  obtain v where c: "checkVmStatistics gear_apis ''v1'' demo_rest_st = (Inr True, v)"
    using demo_statistics(3) by (metis prod.collapse)
  have "''memory.used'' \<in> set EXPECTED_STATISTICS" by (simp add: EXPECTED_STATISTICS_def)
  with checkVmStatistics_verdict [OF a b c] show ?thesis by blast
qed

end
