(* ===== verification/Vm_Snapshots.thy ===== *)
theory Vm_Snapshots
  imports Vm_Devices Engine_Jobs
begin

text \<open>
  Snapshots of machines in \<open>art/rhevm_api/tests_lib/low_level/vms.py\<close>, the disks in them, and the
  moves of disks between storage domains, which make snapshots. \<open>M\<close> matches the description of a job.
\<close>

definition JOB_API :: "'w apis \<Rightarrow> 'w rest_env" where "JOB_API A = A ''job'' ''jobs''"

definition JOB_TIMEOUT :: int where "JOB_TIMEOUT = 1200"
definition TASK_POLL :: int where "TASK_POLL = 5"
definition SNAPSHOT_SAMPLING_PERIOD :: int where "SNAPSHOT_SAMPLING_PERIOD = 5"
definition SNAPSHOT_TIMEOUT :: int where "SNAPSHOT_TIMEOUT = 15 * 60"
definition VM_REMOVE_SNAPSHOT_TIMEOUT :: int where "VM_REMOVE_SNAPSHOT_TIMEOUT = 2400"
definition VM_SNAPSHOT_ACTION :: int where "VM_SNAPSHOT_ACTION = 600"

definition jobs_done ::
  "'w rest_st os_time \<Rightarrow> 'w apis \<Rightarrow> (string \<Rightarrow> string \<Rightarrow> bool) \<Rightarrow> string list \<Rightarrow> ('w rest_st, unit) wcomp" where
  "jobs_done T A M descriptions = wait_for_jobs T (JOB_API A) M descriptions JOB_TIMEOUT TASK_POLL True"

section \<open>Looking at snapshots\<close>

definition get_vm_snapshots :: "'w apis \<Rightarrow> string \<Rightarrow> bool \<Rightarrow> ('w rest_st, pyval) comp" where
  "get_vm_snapshots A vm all_content = getVmSnapshots A vm False all_content"

definition get_vm_snapshot_ovf_obj :: "'w apis \<Rightarrow> string \<Rightarrow> pyval \<Rightarrow> ('w rest_st, pyval) comp" where
  "get_vm_snapshot_ovf_obj A vm snapshot = bindE (getVmSnapshot A vm snapshot True) (\<lambda>s. lift_res (getattr s ''initialization''))"

definition is_snapshot_with_memory_state :: "'w apis \<Rightarrow> string \<Rightarrow> pyval \<Rightarrow> ('w rest_st, pyval) comp" where
  "is_snapshot_with_memory_state A vm_name snapshot =
     bindE (getVmSnapshot A vm_name snapshot False) (\<lambda>s. lift_res (getattr s ''persist_memorystate''))"

definition get_snapshot_disks :: "'w apis \<Rightarrow> string \<Rightarrow> pyval \<Rightarrow> ('w rest_st, pyval) comp" where
  "get_snapshot_disks A vm snapshot = bindE (getVmSnapshot A vm snapshot False) (\<lambda>s. linked (DISK_API A) s [] [])"

definition get_qcow_version_disks_snapshot :: "'w apis \<Rightarrow> string \<Rightarrow> pyval \<Rightarrow> ('w rest_st, pyval list) comp" where
  "get_qcow_version_disks_snapshot A vm snapshot =
     bindE (get_snapshot_disks A vm snapshot) (\<lambda>v. lift_res (res_bind (py_iter v) (map_res (\<lambda>d. getattr d ''qcow_version''))))"

definition in_preview :: "enums \<Rightarrow> pyval \<Rightarrow> exn + bool" where
  "in_preview N s = res_bind (getattr s ''snapshot_status'') (\<lambda>st. Inr (py_eq st (PStr (N ''snapshot_state_in_preview''))))"

definition get_snapshot_description_in_preview :: "'w apis \<Rightarrow> enums \<Rightarrow> string \<Rightarrow> ('w rest_st, pyval) comp" where
  "get_snapshot_description_in_preview A N vm_name =
     bindE (getVmSnapshots A vm_name False False) (\<lambda>v.
     lift_res (res_bind (py_iter v) (\<lambda>l. res_bind (find_res (in_preview N) l) (\<lambda>found.
       case found of Some s \<Rightarrow> getattr s ''description'' | None \<Rightarrow> Inr (PStr [])))))"

text \<open>A missing snapshot is None and not an exception, so that the answer is always True.\<close>

definition validateSnapshot :: "'w apis \<Rightarrow> string \<Rightarrow> pyval \<Rightarrow> ('w rest_st, bool) comp" where
  "validateSnapshot A vm snapshot =
     try_except (bindE (getVmSnapshot A vm snapshot False) (\<lambda>_. ret True)) EntityNotFound (\<lambda>_. ret False)"

section \<open>Waiting\<close>

text \<open>\<open>description not in [...]\<close>; a loop that ends only by its return or by APITimeout.\<close>

definition snapshot_gone :: "pyval \<Rightarrow> pyval \<Rightarrow> exn + bool option" where
  "snapshot_gone snapshot v =
     res_bind (py_iter v) (\<lambda>l. res_bind (map_res (\<lambda>s. getattr s ''description'') l) (\<lambda>ds.
     Inr (if \<exists>d \<in> set ds. py_eq d snapshot then None else Some True)))"

definition wait_for_snapshot_gone :: "'w rest_st os_time \<Rightarrow> 'w apis \<Rightarrow> string \<Rightarrow> pyval \<Rightarrow> int \<Rightarrow> ('w rest_st, bool) wcomp" where
  "wait_for_snapshot_gone T A vm_name snapshot t =
     sampling T (get_vm_snapshots A vm_name False) (snapshot_gone snapshot) t SNAPSHOT_SAMPLING_PERIOD"

definition described_in :: "names_arg option \<Rightarrow> pyval list \<Rightarrow> exn + pyval list" where
  "described_in descriptions l =
     (case descriptions of
        None \<Rightarrow> Inr l
      | Some d \<Rightarrow> filter_res (\<lambda>s. res_bind (getattr s ''description'') (in_arg d)) l)"

definition not_in_state :: "names_arg \<Rightarrow> pyval \<Rightarrow> exn + bool" where
  "not_in_state statuses s = res_bind (getattr s ''snapshot_status'') (\<lambda>st. res_bind (in_arg statuses st) (\<lambda>b. Inr (\<not> b)))"

definition get_unsatisfying_snapshots :: "'w apis \<Rightarrow> string \<Rightarrow> names_arg \<Rightarrow> names_arg option \<Rightarrow> ('w rest_st, bool) comp" where
  "get_unsatisfying_snapshots A vm_name statuses descriptions =
     bindE (getVmSnapshots A vm_name False False) (\<lambda>v.
     lift_res (res_bind (py_iter v) (\<lambda>l. res_bind (described_in descriptions l) (\<lambda>m.
       res_bind (filter_res (not_in_state statuses) m) (\<lambda>bad. Inr (bad \<noteq> []))))))"

definition wait_for_vm_snapshots ::
  "'w rest_st os_time \<Rightarrow> 'w apis \<Rightarrow> string \<Rightarrow> names_arg \<Rightarrow> names_arg option \<Rightarrow> int \<Rightarrow> int \<Rightarrow> ('w rest_st, unit) wcomp" where
  "wait_for_vm_snapshots T A vm_name states descriptions t s =
     sampling T (get_unsatisfying_snapshots A vm_name states descriptions) (\<lambda>b. Inr (if b then None else Some ())) t s"

text \<open>
  One look for the snapshot: with a disk that it must include, every snapshot of the description is
  searched for a disk of that alias.
\<close>

fun has_started :: "'w apis \<Rightarrow> pyval \<Rightarrow> pyval \<Rightarrow> pyval list \<Rightarrow> ('w rest_st, bool) comp" where
  "has_started A description disk_alias [] = ret False"
| "has_started A description disk_alias (s # ss) =
     bindE (lift_res (description_is description s)) (\<lambda>same.
     if \<not> same then has_started A description disk_alias ss
     else if \<not> truthy disk_alias then ret True
     else
       bindE (get_snapshot_disks_by_snapshot_obj A s) (\<lambda>v.
       bindE (lift_res (res_bind (py_iter v) (find_res (alias_is disk_alias)))) (\<lambda>found.
       if found \<noteq> None then ret True else has_started A description disk_alias ss)))"

definition wait_for_snapshot_creation ::
  "'w rest_st os_time \<Rightarrow> 'w apis \<Rightarrow> string \<Rightarrow> string \<Rightarrow> int \<Rightarrow> int \<Rightarrow> names_arg option \<Rightarrow> pyval \<Rightarrow> ('w rest_st, bool) wcomp" where
  "wait_for_snapshot_creation T A vm_name description t s wait_for_status include_disk_alias =
     bindW (sampling T
              (bindE (get_vm_snapshots A vm_name False) (\<lambda>v.
               bindE (lift_res (py_iter v)) (has_started A (PStr description) include_disk_alias)))
              (\<lambda>b. Inr (if b then Some () else None)) t s) (\<lambda>_.
     case wait_for_status of
       None \<Rightarrow> retW True
     | Some states \<Rightarrow>
         bindW (wait_for_vm_snapshots T A vm_name states (Some (Names_string description)) SNAPSHOT_TIMEOUT SNAPSHOT_SAMPLING_PERIOD)
           (\<lambda>_. retW True))"

section \<open>Adding and removing\<close>

definition attached_disk :: "'w apis \<Rightarrow> pyval \<Rightarrow> ('w rest_st, pyval) comp" where
  "attached_disk A disk =
     bindE (get_disk_obj A disk ''name'') (\<lambda>d.
     bindE (lift_res (getattr d ''id'')) (\<lambda>i.
     bindE (lift_res (construct (new_object A ''Disk'') [(''id'', i)])) (\<lambda>x.
     ret (setattr (setattr (new_object A ''DiskAttachment'') ''id'' i) ''disk'' x))))"

definition snapshot_object :: "'w apis \<Rightarrow> pyval \<Rightarrow> pyval \<Rightarrow> pyval list \<Rightarrow> ('w rest_st, pyval) comp" where
  "snapshot_object A description persist_memory disks =
     (let s = setattr (setattr (new_object A ''Snapshot'') ''description'' description) ''persist_memorystate'' persist_memory in
      if disks = [] then ret s
      else
        bindE (map_comp (attached_disk A) disks) (\<lambda>ds.
        bindE (lift_res (fold_res (add_member ''disk_attachment'') ds (new_object A ''DiskAttachments''))) (\<lambda>coll.
        ret (setattr s ''disk_attachments'' coll))))"

definition addSnapshot ::
  "'w rest_st os_time \<Rightarrow> 'w apis \<Rightarrow> (string \<Rightarrow> string \<Rightarrow> bool) \<Rightarrow> enums \<Rightarrow> bool \<Rightarrow> string \<Rightarrow> pyval \<Rightarrow> bool \<Rightarrow> pyval \<Rightarrow> pyval list
   \<Rightarrow> ('w rest_st, bool) wcomp" where
  "addSnapshot T A M N positive vm description wait persist_memory disks_lst =
     bindW (run (snapshot_object A description persist_memory disks_lst)) (\<lambda>s.
     bindW (run (getVmSnapshots A vm True False)) (\<lambda>coll.
     bindW (run (bindE (lift_res (if truthy coll then as_string coll else Inr [])) (\<lambda>c.
                 rest_create (SNAPSHOT_API A) s positive (create_default\<lparr>ca_collection := c, ca_compare := wait\<rparr>)))) (\<lambda>(_, status).
     bindW (if wait then jobs_done T A M [N ''job_create_snapshot''] else retW ()) (\<lambda>_.
     bindW (run (try_except (bindE (getVmSnapshot A vm description False) (\<lambda>x. ret (Some x))) EntityNotFound (\<lambda>_. ret None))) (\<lambda>found.
     case found of
       None \<Rightarrow> retW (\<not> positive)
     | Some snapshot \<Rightarrow>
         if \<not> (status \<and> positive \<and> wait) then retW status
         else
           bindW (run (getVmSnapshots A vm False False)) (\<lambda>_.
           bindW (run (waitForElemStatus (SNAPSHOT_API A) snapshot ''ok'' VM_IMAGE_OPT_TIMEOUT False)) (\<lambda>ok.
           if \<not> ok then retW False else run (validateSnapshot A vm description))))))))"

definition removeSnapshot :: "'w rest_st os_time \<Rightarrow> 'w apis \<Rightarrow> bool \<Rightarrow> string \<Rightarrow> pyval \<Rightarrow> int \<Rightarrow> bool \<Rightarrow> ('w rest_st, bool) wcomp" where
  "removeSnapshot T A positive vm description t wait =
     bindW (run (getVmSnapshot A vm description False)) (\<lambda>s.
     bindW (run (delete_element (SNAPSHOT_API A) s positive)) (\<lambda>ok.
     if \<not> ok then retW False
     else if wait \<and> \<not> t < 0 \<and> positive then wait_for_snapshot_gone T A vm description t
     else retW True))"

section \<open>Previewing, restoring and committing\<close>

definition preview_disk :: "'w apis \<Rightarrow> string \<Rightarrow> pyval \<times> pyval \<Rightarrow> ('w rest_st, pyval) comp" where
  "preview_disk A vm d =
     bindE (if snd d = PStr ''Active VM'' then
              bindE (getVmDisk A vm (fst d) PNone) (\<lambda>x. bindE (getVmSnapshot A vm (snd d) False) (\<lambda>s. ret (x, s)))
            else
              bindE (get_snapshot_disks A vm (snd d)) (\<lambda>v.
              bindE (lift_res (res_bind (py_iter v) (filter_res (alias_is (fst d))))) (\<lambda>l.
              case l of [] \<Rightarrow> raise IndexError | x # _ \<Rightarrow> bindE (lift_res (getattr x ''snapshot'')) (\<lambda>s. ret (x, s))))) (\<lambda>(x, s).
     bindE (lift_res (getattr x ''id'')) (\<lambda>i.
     bindE (lift_res (getattr x ''image_id'')) (\<lambda>image.
     ret (setattr (setattr (setattr (new_object A ''Disk'') ''snapshot'' s) ''id'' i) ''image_id'' image))))"

definition preview_params ::
  "'w apis \<Rightarrow> string \<Rightarrow> pyval \<Rightarrow> pyval \<Rightarrow> (pyval \<times> pyval) list \<Rightarrow> ('w rest_st, (string, pyval) dict) comp" where
  "preview_params A vm description restore_memory disks_lst =
     bindE (getVmSnapshot A vm description False) (\<lambda>s.
     bindE (lift_res (getattr s ''id'')) (\<lambda>i.
     bindE (lift_res (construct (new_object A ''Snapshot'') [(''id'', i)])) (\<lambda>snap.
     let args = [(''snapshot'', snap), (''restore_memory'', restore_memory)] in
     if disks_lst = [] then ret args
     else
       bindE (map_comp (preview_disk A vm) disks_lst) (\<lambda>ds.
       bindE (lift_res (fold_res (add_member ''disk'') ds (new_object A ''Disks''))) (\<lambda>coll. ret (args @ [(''disks'', coll)]))))))"

text \<open>Only a preview uses the memory; a negative action is True whatever the engine answered.\<close>

definition snapshot_action ::
  "'w apis \<Rightarrow> enums \<Rightarrow> bool \<Rightarrow> string \<Rightarrow> string \<Rightarrow> pyval \<Rightarrow> pyval \<Rightarrow> (pyval \<times> pyval) list \<Rightarrow> ('w rest_st, bool) comp" where
  "snapshot_action A N positive vm action description restore_memory disks_lst =
     bindE (find_by (VM_API A) ''name'' (PStr vm)) (\<lambda>x.
     bindE (if action = N ''preview_snapshot'' then preview_params A vm description restore_memory disks_lst else ret []) (\<lambda>params.
     bindE (syncAction (VM_API A) x action positive (action_of params)) (\<lambda>r.
     if truthy r \<and> positive then waitForElemStatus (VM_API A) x (N ''vm_state_down'') VM_SNAPSHOT_ACTION False
     else ret (truthy r \<or> \<not> positive))))"

definition after_stop ::
  "'w rest_st os_time \<Rightarrow> 'w apis \<Rightarrow> enums \<Rightarrow> bool \<Rightarrow> string \<Rightarrow> ('w rest_st, bool) comp \<Rightarrow> ('w rest_st, bool) wcomp" where
  "after_stop T A N ensure_vm_down vm m =
     bindW (if ensure_vm_down then stop_vms_safely T A N [vm] else retW True) (\<lambda>_. run m)"

definition preview_snapshot ::
  "'w rest_st os_time \<Rightarrow> 'w apis \<Rightarrow> enums \<Rightarrow> bool \<Rightarrow> string \<Rightarrow> pyval \<Rightarrow> bool \<Rightarrow> pyval \<Rightarrow> (pyval \<times> pyval) list \<Rightarrow> ('w rest_st, bool) wcomp" where
  "preview_snapshot T A N positive vm description ensure_vm_down restore_memory disks_lst =
     after_stop T A N ensure_vm_down vm (snapshot_action A N positive vm (N ''preview_snapshot'') description restore_memory disks_lst)"

definition undo_snapshot_preview :: "'w rest_st os_time \<Rightarrow> 'w apis \<Rightarrow> enums \<Rightarrow> bool \<Rightarrow> string \<Rightarrow> bool \<Rightarrow> ('w rest_st, bool) wcomp" where
  "undo_snapshot_preview T A N positive vm ensure_vm_down =
     after_stop T A N ensure_vm_down vm (snapshot_action A N positive vm (N ''undo_snapshot'') PNone (PStr ''false'') [])"

definition commit_snapshot ::
  "'w rest_st os_time \<Rightarrow> 'w apis \<Rightarrow> enums \<Rightarrow> bool \<Rightarrow> string \<Rightarrow> bool \<Rightarrow> pyval \<Rightarrow> ('w rest_st, bool) wcomp" where
  "commit_snapshot T A N positive vm ensure_vm_down restore_memory =
     after_stop T A N ensure_vm_down vm (snapshot_action A N positive vm (N ''commit_snapshot'') PNone restore_memory [])"

definition restore_snapshot ::
  "'w rest_st os_time \<Rightarrow> 'w apis \<Rightarrow> enums \<Rightarrow> bool \<Rightarrow> string \<Rightarrow> pyval \<Rightarrow> bool \<Rightarrow> bool \<Rightarrow> ('w rest_st, bool) wcomp" where
  "restore_snapshot T A N positive vm description ensure_vm_down restore_memory =
     bindW (if ensure_vm_down then
              bindW (stop_vms_safely T A N [vm]) (\<lambda>_. waitForVMState T A vm (N ''vm_state_down'') DEF_TIMEOUT DEF_SLEEP)
            else retW True) (\<lambda>_.
     run (
       bindE (find_by (VM_API A) ''name'' (PStr vm)) (\<lambda>x.
       bindE (getVmSnapshot A vm description False) (\<lambda>s.
       bindE (syncAction (SNAPSHOT_API A) s ''restore'' positive (action_of [(''restore_memory'', PBool restore_memory)])) (\<lambda>r.
       if truthy r \<and> positive then waitForElemStatus (VM_API A) x (N ''vm_state_down'') VM_ACTION_TIMEOUT False
       else ret (truthy r))))))"

section \<open>Disks of snapshots\<close>

definition delete_snapshot_disks ::
  "'w rest_st os_time \<Rightarrow> 'w apis \<Rightarrow> (string \<Rightarrow> string \<Rightarrow> bool) \<Rightarrow> enums \<Rightarrow> string \<Rightarrow> pyval \<Rightarrow> pyval \<Rightarrow> bool \<Rightarrow> ('w rest_st, bool) wcomp" where
  "delete_snapshot_disks T A M N vm snapshot disk_id wait =
     bindW (run (bindE (get_snapshot_disks A vm snapshot) (\<lambda>v. lift_res (py_iter v)))) (\<lambda>disks.
     bindW (run (lift_res (map_res (\<lambda>d. getattr d ''id'') disks))) (\<lambda>snapshot_disk_ids.
     bindW (run (case disks of [] \<Rightarrow> raise IndexError | d # _ \<Rightarrow> lift_res (getattr d ''alias''))) (\<lambda>alias.
     bindW (run (get_disk_storage_domain_name A alias (Some vm) None)) (\<lambda>sd_name.
     bindW (run (get_storage_domain_obj A sd_name ''name'')) (\<lambda>sd.
     bindW (run (linked_list (STORAGE_API A) sd ''disksnapshots'' ''disk_snapshot'')) (\<lambda>all_disks.
     bindW (run (lift_res (filter_res (\<lambda>d. res_bind (getattr_chain [''disk'', ''id''] d) (\<lambda>i.
              Inr (if truthy disk_id then py_eq i disk_id else \<exists>j \<in> set snapshot_disk_ids. py_eq i j))) all_disks))) (\<lambda>mine.
     bindW (run (map_comp (\<lambda>d. bindE (delete_element (DISK_API A) d True) (\<lambda>ok.
                   if ok then ret True else bindE (lift_res (getattr d ''alias'')) (\<lambda>_. ret False))) mine)) (\<lambda>results.
     bindW (if wait then
              bindW (jobs_done T A M [N ''job_remove_snapshots_disk'']) (\<lambda>_.
              bindW (run (lift_res (map_res (\<lambda>d. res_bind (getattr_chain [''disk'', ''id''] d) as_string) mine))) (\<lambda>ids.
              bindW (wait_for_disks_status T A (Names_list ids) ''id'' (PStr (N ''disk_state_ok'')) 180 5) (\<lambda>_. retW ())))
            else retW ()) (\<lambda>_.
     retW (list_all id results))))))))))"

definition attach_snapshot_disk_to_vm :: "'w apis \<Rightarrow> enums \<Rightarrow> pyval \<Rightarrow> string \<Rightarrow> bool \<Rightarrow> bool \<Rightarrow> pyval \<Rightarrow> ('w rest_st, bool) comp" where
  "attach_snapshot_disk_to_vm A N disk_obj vm_name is_async activate interface =
     bindE (lift_res (getattr disk_obj ''id'')) (\<lambda>i.
     bindE (lift_res (getattr disk_obj ''snapshot'')) (\<lambda>s.
     bindE (prepareDiskObject A [(''id'', i), (''snapshot'', s)]) (\<lambda>d.
     bindE (lift_res (prepare_disk_attachment_object A i d [(''interface'', interface), (''active'', PBool activate)])) (\<lambda>x.
     bindE (getObjDisks A vm_name True False) (\<lambda>disks.
     bindE (create_in (DISK_ATTACHMENTS_API A) x True disks [] is_async) (\<lambda>(_, status). ret status))))))"

fun attach_each :: "'w apis \<Rightarrow> enums \<Rightarrow> string \<Rightarrow> bool \<Rightarrow> bool \<Rightarrow> pyval list \<Rightarrow> ('w rest_st, bool) comp" where
  "attach_each A N backup_vm is_async activate [] = ret True"
| "attach_each A N backup_vm is_async activate (d # ds) =
     bindE (lift_res (getattr d ''alias'')) (\<lambda>_.
     bindE (attach_snapshot_disk_to_vm A N d backup_vm is_async activate (PStr (N ''interface_virtio''))) (\<lambda>ok.
     if \<not> ok then ret False else attach_each A N backup_vm is_async activate ds))"

definition attach_backup_disk_to_vm :: "'w apis \<Rightarrow> enums \<Rightarrow> string \<Rightarrow> string \<Rightarrow> pyval \<Rightarrow> bool \<Rightarrow> bool \<Rightarrow> ('w rest_st, bool) comp" where
  "attach_backup_disk_to_vm A N src_vm backup_vm snapshot_description is_async activate =
     bindE (get_snapshot_disks A src_vm snapshot_description) (\<lambda>v.
     bindE (lift_res (py_iter v)) (attach_each A N backup_vm is_async activate))"

definition create_vm_from_ovf :: "'w apis \<Rightarrow> enums \<Rightarrow> enum_table \<Rightarrow> pyval \<Rightarrow> pyval \<Rightarrow> pyval \<Rightarrow> bool \<Rightarrow> ('w rest_st, bool) comp" where
  "create_vm_from_ovf A N En new_vm_name cluster_name ovf compare =
     bindE (prepare_vm_object A N En [(''name'', new_vm_name), (''cluster'', cluster_name), (''initialization'', ovf)]) (\<lambda>vm.
     bindE (rest_create (VM_API A) vm True (create_default\<lparr>ca_compare := compare\<rparr>)) (\<lambda>(_, status). ret status))"

section \<open>Moving disks\<close>

definition move_vm_disk ::
  "'w rest_st os_time \<Rightarrow> 'w apis \<Rightarrow> enums \<Rightarrow> string \<Rightarrow> pyval \<Rightarrow> pyval \<Rightarrow> bool \<Rightarrow> int \<Rightarrow> int \<Rightarrow> bool \<Rightarrow> ('w rest_st, unit) wcomp" where
  "move_vm_disk T A N vm_name disk_name target_sd wait t s no_snapshot_operation =
     bindW (run (get_disk_storage_domain_name A disk_name (Some vm_name) None)) (\<lambda>_.
     bindW (run (find_by (STORAGE_API A) ''name'' target_sd)) (\<lambda>sd.
     bindW (run (getVmDisk A vm_name disk_name PNone)) (\<lambda>disk.
     bindW (if no_snapshot_operation then
              wait_for_vm_snapshots T A vm_name (Names_string (N ''snapshot_state_ok'')) None SNAPSHOT_TIMEOUT SNAPSHOT_SAMPLING_PERIOD
            else retW ()) (\<lambda>_.
     bindW (run (syncAction (DISK_API A) disk ''move'' True (action_of [(''storage_domain'', sd)]))) (\<lambda>r.
     if \<not> truthy r then run (raise (TestExc DiskException))
     else if wait then bindW (wait_for_vm_disk_active_status T A vm_name True disk_name PNone t s) (\<lambda>_. retW ())
     else retW ())))))"

definition on_domain :: "'w apis \<Rightarrow> string \<Rightarrow> pyval \<Rightarrow> pyval \<Rightarrow> ('w rest_st, bool) comp" where
  "on_domain A vm_name disk_name new_sd =
     bindE (getVmDisk A vm_name disk_name PNone) (\<lambda>d.
     bindE (lift_res (storage_domain_id_of d)) (\<lambda>i.
     bindE (find_by (STORAGE_API A) ''id'' i) (\<lambda>sd. lift_res (res_bind (getattr sd ''name'') (\<lambda>n. Inr (py_eq n new_sd))))))"

definition migrate_vm_disk ::
  "'w rest_st os_time \<Rightarrow> 'w apis \<Rightarrow> (string \<Rightarrow> string \<Rightarrow> bool) \<Rightarrow> enums \<Rightarrow> string \<Rightarrow> pyval \<Rightarrow> pyval \<Rightarrow> int \<Rightarrow> int \<Rightarrow> bool \<Rightarrow> bool
   \<Rightarrow> ('w rest_st, unit) wcomp" where
  "migrate_vm_disk T A M N vm_name disk_name target_sd t s wait no_snapshot_operation =
     bindW (move_vm_disk T A N vm_name disk_name target_sd wait t DEF_SLEEP_VM no_snapshot_operation) (\<lambda>_.
     if \<not> wait then retW ()
     else
       bindW (sampling T (on_domain A vm_name disk_name target_sd) (\<lambda>b. Inr (if b then Some () else None)) t s) (\<lambda>_.
       bindW (run (lift_res (as_string disk_name))) (\<lambda>n.
       bindW (wait_for_disks_status T A (Names_list [n]) ''name'' (PStr (N ''disk_state_ok'')) t 5) (\<lambda>_.
       bindW (jobs_done T A M [N ''job_live_migrate_disk'']) (\<lambda>_.
       bindW (jobs_done T A M [N ''job_remove_snapshot'']) (\<lambda>_.
       wait_for_vm_snapshots T A vm_name (Names_string (N ''snapshot_state_ok'')) None SNAPSHOT_TIMEOUT SNAPSHOT_SAMPLING_PERIOD))))))"

definition migrate_one_disk ::
  "(pyval list \<Rightarrow> ('w rest_st, pyval) comp) \<Rightarrow> 'w rest_st os_time \<Rightarrow> 'w apis \<Rightarrow> (string \<Rightarrow> string \<Rightarrow> bool) \<Rightarrow> enums \<Rightarrow> string \<Rightarrow> int \<Rightarrow> bool \<Rightarrow> bool
   \<Rightarrow> pyval \<Rightarrow> pyval \<times> pyval \<Rightarrow> ('w rest_st, unit) wcomp" where
  "migrate_one_disk choice T A M N vm_name t wait same_type target_domain d =
     bindW (if target_domain \<noteq> PNone then retW target_domain
            else run (get_other_storage_domain choice A N (fst d) vm_name PNone same_type [] ''id'')) (\<lambda>sd.
     migrate_vm_disk T A M N vm_name (snd d) sd t SNAPSHOT_SAMPLING_PERIOD wait False)"

definition migrate_vm_disks ::
  "(pyval list \<Rightarrow> ('w rest_st, pyval) comp) \<Rightarrow> 'w rest_st os_time \<Rightarrow> 'w apis \<Rightarrow> (string \<Rightarrow> string \<Rightarrow> bool) \<Rightarrow> enums \<Rightarrow> enum_table \<Rightarrow> 'w vdsm
   \<Rightarrow> string \<Rightarrow> int \<Rightarrow> bool \<Rightarrow> bool \<Rightarrow> bool \<Rightarrow> pyval \<Rightarrow> ('w rest_st, unit) wcomp" where
  "migrate_vm_disks choice T A M N En V vm_name t wait ensure_on same_type target_domain =
     bindW (run (bindE (find_by (VM_API A) ''name'' (PStr vm_name)) (\<lambda>x. lift_res (getattr x ''status'')))) (\<lambda>st.
     bindW (if py_eq st (PStr (N ''vm_state_down'')) \<and> ensure_on then
              bindW (start_vms T A N En V [vm_name] (Some (N ''vm_state_powering_up'')) False) (\<lambda>_.
              waitForVMState T A vm_name ''up'' DEF_TIMEOUT DEF_SLEEP)
            else retW True) (\<lambda>_.
     bindW (run (bindE (getObjDisks A vm_name False False) (\<lambda>v. lift_res (py_iter v)))) (\<lambda>disks.
     bindW (run (lift_res (map_res (\<lambda>d. getattr d ''name'') disks))) (\<lambda>ns.
     bindW (run (lift_res (map_res (\<lambda>d. getattr d ''id'') disks))) (\<lambda>is.
     bindW (eachW (zip is ns) (\<lambda>d _. migrate_one_disk choice T A M N vm_name t wait same_type target_domain d) ()) (\<lambda>_.
     if wait then jobs_done T A M [N ''job_live_migrate_disk''] else retW ()))))))"

text \<open>The snapshots that live migrations left; each is removed by the description they all have.\<close>

definition remove_lsm_snapshot ::
  "'w rest_st os_time \<Rightarrow> 'w apis \<Rightarrow> (string \<Rightarrow> string \<Rightarrow> bool) \<Rightarrow> enums \<Rightarrow> string \<Rightarrow> pyval \<Rightarrow> bool \<Rightarrow> ('w rest_st, bool) wcomp" where
  "remove_lsm_snapshot T A M N vm_name s ok =
     (let d = PStr (N ''live_snapshot_description'') in
      bindW (run (lift_res (description_is d s))) (\<lambda>mine.
      bindW (if mine then removeSnapshot T A True vm_name d VM_REMOVE_SNAPSHOT_TIMEOUT True else retW True) (\<lambda>removed.
      bindW (jobs_done T A M [N ''job_remove_snapshot'']) (\<lambda>_.
      bindW (wait_for_vm_snapshots T A vm_name (Names_string (N ''snapshot_state_ok'')) None SNAPSHOT_TIMEOUT SNAPSHOT_SAMPLING_PERIOD) (\<lambda>_.
      retW (ok \<and> removed))))))"

definition remove_all_vm_lsm_snapshots ::
  "'w rest_st os_time \<Rightarrow> 'w apis \<Rightarrow> (string \<Rightarrow> string \<Rightarrow> bool) \<Rightarrow> enums \<Rightarrow> string \<Rightarrow> ('w rest_st, unit) wcomp" where
  "remove_all_vm_lsm_snapshots T A M N vm_name =
     bindW (stop_vms_safely T A N [vm_name]) (\<lambda>_.
     bindW (run (waitForDisksStat A vm_name (N ''disk_state_ok'') VM_IMAGE_OPT_TIMEOUT)) (\<lambda>_.
     bindW (run (bindE (getVmSnapshots A vm_name False False) (\<lambda>v. lift_res (py_iter v)))) (\<lambda>l.
     bindW (eachW l (remove_lsm_snapshot T A M N vm_name) True) (\<lambda>ok.
     if ok then retW () else run (raise (TestExc VMException))))))"

section \<open>What is shown\<close>

lemma snapshot_api_keeps_time: "apis_keep_time clk A \<Longrightarrow> keeps_time clk (SNAPSHOT_API A)"
  by (simp add: SNAPSHOT_API_def apis_keep_time_def)

lemma getVmSnapshots_never_back: "apis_keep_time clk A \<Longrightarrow> never_back (server_time clk) (getVmSnapshots A vm href all_content)"
  unfolding getVmSnapshots_def
  by (intro never_back_intros request_intros api_keeps_time snapshot_api_keeps_time, assumption?)

lemma getVmSnapshot_never_back: "apis_keep_time clk A \<Longrightarrow> never_back (server_time clk) (getVmSnapshot A vm s all_content)"
  unfolding getVmSnapshot_def by (intro never_back_intros getVmSnapshots_never_back)

lemma map_res_in: "map_res f xs = Inr ys \<Longrightarrow> x \<in> set xs \<Longrightarrow> \<exists>y \<in> set ys. f x = Inr y"
  by (drule map_res_Inr) (metis imageE image_eqI list.set_map)

lemma snapshot_gone_Some: "snapshot_gone s v = Inr (Some b) \<Longrightarrow>
  b \<and> (\<exists>l. py_iter v = Inr l \<and> (\<forall>x \<in> set l. \<exists>d. getattr x ''description'' = Inr d \<and> \<not> py_eq d s))"
  by (auto simp: snapshot_gone_def res_bind_Inr split: if_splits dest: map_res_in)

text \<open>
  C29. A removal of a snapshot that is waited for always comes back. False means that the engine refused
  it, True that the last listing, which ends the wait, had no snapshot of that description; anything
  else is an exception.
\<close>

theorem removeSnapshot_verdict:
  assumes "clock_laws T (server_time clk)" and "apis_keep_time clk A" and "0 \<le> t"
  shows "\<exists>r w'. removeSnapshot T A True vm description t True w = Some (r, w') \<and>
    (r = Inr False \<longrightarrow> (\<exists>s v. getVmSnapshot A vm description False w = (Inr s, v) \<and> delete_element (SNAPSHOT_API A) s True v = (Inr False, w'))) \<and>
    (r = Inr True \<longrightarrow> (\<exists>v x l. get_vm_snapshots A vm False v = (Inr x, w') \<and> py_iter x = Inr l \<and>
       (\<forall>s \<in> set l. \<exists>d. getattr s ''description'' = Inr d \<and> \<not> py_eq d description)))"
proof -
  have "comes_back (server_time clk) (removeSnapshot T A True vm description t True)"
    unfolding removeSnapshot_def wait_for_snapshot_gone_def get_vm_snapshots_def
    by (intro comes_back_intros never_back_intros getVmSnapshot_never_back getVmSnapshots_never_back request_intros snapshot_api_keeps_time assms)
      (simp_all add: SNAPSHOT_SAMPLING_PERIOD_def)
  then obtain r w' where r: "removeSnapshot T A True vm description t True w = Some (r, w')"
    unfolding comes_back_def by blast
  have waited: "b \<and> (\<exists>v x l. get_vm_snapshots A vm False v = (Inr x, w') \<and> py_iter x = Inr l \<and>
       (\<forall>s \<in> set l. \<exists>d. getattr s ''description'' = Inr d \<and> \<not> py_eq d description))"
    if "wait_for_snapshot_gone T A vm description t u = Some (Inr b, w')" for u b
    using sampling_Inr [OF assms(1) that [unfolded wait_for_snapshot_gone_def]] snapshot_gone_Some by blast
  have "\<exists>s v. getVmSnapshot A vm description False w = (Inr s, v) \<and> delete_element (SNAPSHOT_API A) s True v = (Inr False, w')"
    if "r = Inr False"
    using r that waited [of _ False] assms(3) by (auto simp: removeSnapshot_def ret_apply elim!: bindW_InrE split: if_splits)
  moreover have "\<exists>u. wait_for_snapshot_gone T A vm description t u = Some (Inr True, w')" if "r = Inr True"
    using r that assms(3) by (auto simp: removeSnapshot_def ret_apply elim!: bindW_InrE split: if_splits)
  ultimately show ?thesis using r waited [of _ True] by blast
qed

text \<open>
  Waiting for the states of snapshots always comes back, and normally only after a look at which
  every snapshot that was asked for was in one of the states.
\<close>

theorem wait_for_vm_snapshots_verdict:
  assumes "clock_laws T (server_time clk)" and "apis_keep_time clk A" and "0 < s"
  shows "\<exists>r w'. wait_for_vm_snapshots T A vm_name states descriptions t s w = Some (r, w') \<and>
    (r = Inr () \<longrightarrow> (\<exists>v x l m. getVmSnapshots A vm_name False False v = (Inr x, w') \<and> py_iter x = Inr l \<and> described_in descriptions l = Inr m \<and>
       (\<forall>y \<in> set m. \<exists>st. getattr y ''snapshot_status'' = Inr st \<and> in_arg states st = Inr True))) \<and>
    (\<forall>e. r = Inl e \<longrightarrow> e = APITimeout \<or> (\<exists>v. get_unsatisfying_snapshots A vm_name states descriptions v = (Inl e, w')))"
proof -
  let ?q = "get_unsatisfying_snapshots A vm_name states descriptions"
  have "never_back (server_time clk) ?q"
    unfolding get_unsatisfying_snapshots_def by (intro never_back_intros getVmSnapshots_never_back assms)
  from comes_back_sampling [OF assms(1) this assms(3)] obtain r w' where
    r: "wait_for_vm_snapshots T A vm_name states descriptions t s w = Some (r, w')"
    unfolding comes_back_def wait_for_vm_snapshots_def by blast
  have "\<exists>v x l m. getVmSnapshots A vm_name False False v = (Inr x, w') \<and> py_iter x = Inr l \<and> described_in descriptions l = Inr m \<and>
       (\<forall>y \<in> set m. \<exists>st. getattr y ''snapshot_status'' = Inr st \<and> in_arg states st = Inr True)" if "r = Inr ()"
  proof -
    from sampling_Inr [OF assms(1) r [unfolded wait_for_vm_snapshots_def that]] obtain v where "?q v = (Inr False, w')"
      by (auto split: if_splits)
    then obtain x l m where m: "getVmSnapshots A vm_name False False v = (Inr x, w')" "py_iter x = Inr l" "described_in descriptions l = Inr m"
      "filter_res (not_in_state states) m = Inr []"
      by (auto simp: get_unsatisfying_snapshots_def lift_res_def res_bind_Inr elim!: bindE_InrE)
    have "\<exists>st. getattr y ''snapshot_status'' = Inr st \<and> in_arg states st = Inr True" if "y \<in> set m" for y
    proof -
      from filter_res_decided [OF m(4) that] obtain b where "not_in_state states y = Inr b" ..
      moreover have "not_in_state states y \<noteq> Inr True"
        using filter_res_Inr [OF m(4)] that by (metis (mono_tags, lifting) filter_empty_conv)
      ultimately show ?thesis by (auto simp: not_in_state_def res_bind_Inr)
    qed
    with m show ?thesis by blast
  qed
  moreover have "e = APITimeout \<or> (\<exists>v. ?q v = (Inl e, w'))" if "r = Inl e" for e
    using sampling_Inl [OF assms(1) r [unfolded wait_for_vm_snapshots_def that]] by (auto split: if_splits)
  ultimately show ?thesis using r by blast
qed

section \<open>Witnesses\<close>

lemma gear_apis_keep_time: "apis_keep_time int gear_apis"
  by (simp add: apis_keep_time_def keeps_time_def moves_on_def gear_apis_def gear_srv_def demo_rest_def)

theorem removeSnapshot_verdict_witness:
  "\<exists>r. removeSnapshot demo_clock gear_apis True ''v1'' (PStr ''s1'') 100 True demo_rest_st = Some r"
  using removeSnapshot_verdict [OF demo_clock_laws gear_apis_keep_time, of 100] by fastforce

theorem wait_for_vm_snapshots_verdict_witness:
  "\<exists>r. wait_for_vm_snapshots demo_clock gear_apis ''v1'' (Names_string ''ok'') None 100 5 demo_rest_st = Some r"
  using wait_for_vm_snapshots_verdict [OF demo_clock_laws gear_apis_keep_time, of 5] by fastforce

end
