(* ===== verification/Templates.thy ===== *)
theory Templates
  imports Vm_Snapshots
begin

text \<open>
  \<open>art/rhevm_api/tests_lib/low_level/templates.py\<close>: templates, their versions, NICs, watchdogs and disks,
  and their export and import. The look-up \<open>get_template_obj\<close> is in \<open>Vm_Objects\<close>; functions that have
  the name of one of the machines carry \<open>template\<close> in theirs.
\<close>

definition CREATE_TEMPLATE_TIMEOUT :: int where "CREATE_TEMPLATE_TIMEOUT = 900"
definition SAMPLER_TIMEOUT :: int where "SAMPLER_TIMEOUT = 120"
definition SAMPLER_SLEEP :: int where "SAMPLER_SLEEP = 5"
definition BASE_TEMPLATE_VERSION :: pyval where "BASE_TEMPLATE_VERSION = PInt 1"

section \<open>The object of a template\<close>

definition id_object :: "'w apis \<Rightarrow> 'w rest_env \<Rightarrow> string \<Rightarrow> string \<Rightarrow> pyval \<Rightarrow> pyval \<Rightarrow> ('w rest_st, pyval) comp" where
  "id_object A E member cls n x =
     (if truthy n then
        bindE (find_by E ''name'' n) (\<lambda>y. lift_res (res_bind (getattr y ''id'') (\<lambda>i. set_new A True member cls [(''id'', i)] x)))
      else ret x)"

text \<open>
  The number of sockets and cores is taken out of the keywords by the first of two parts, so that
  the second one, which knows of threads, finds none and replaces the whole topology.
\<close>

definition template_cpu :: "'w apis \<Rightarrow> (string, pyval) dict \<Rightarrow> pyval \<Rightarrow> exn + pyval" where
  "template_cpu A kw x =
     (if any_true kw [''cpu_socket'', ''cpu_cores''] then
        res_bind (construct (new_object A ''CpuTopology'') (given kw [(''sockets'', ''cpu_socket''), (''cores'', ''cpu_cores'')])) (\<lambda>t.
        set_new A True ''cpu'' ''Cpu'' [(''topology'', t)] x)
      else Inr x)"

definition template_threads :: "'w apis \<Rightarrow> (string, pyval) dict \<Rightarrow> pyval \<Rightarrow> exn + pyval" where
  "template_threads A kw x =
     (if truthy (kwget kw ''cpu_threads'') then
        res_bind (construct (new_object A ''CpuTopology'')
                    ([(''sockets'', PNone), (''cores'', PNone)] @ given kw [(''threads'', ''cpu_threads'')])) (\<lambda>t.
        Inr (setattr x ''cpu'' (setattr (new_object A ''Cpu'') ''topology'' t)))
      else Inr x)"

definition template_display :: "'w apis \<Rightarrow> (string, pyval) dict \<Rightarrow> pyval \<Rightarrow> exn + pyval" where
  "template_display A kw =
     set_new A (any_true kw [''monitors'', ''display_type'', ''disconnect_action'']) ''display'' ''Display''
       (given kw [(''type_'', ''display_type''), (''monitors'', ''monitors''), (''disconnect_action'', ''disconnect_action''),
                  (''file_transfer_enabled'', ''file_transfer_enabled'')])"

definition template_memory_policy :: "'w apis \<Rightarrow> (string, pyval) dict \<Rightarrow> pyval \<Rightarrow> exn + pyval" where
  "template_memory_policy A kw =
     set_new A (any_true kw [''ballooning'', ''memory_guaranteed'', ''max_memory'']) ''memory_policy'' ''MemoryPolicy''
       (given kw [(''guaranteed'', ''memory_guaranteed''), (''ballooning'', ''ballooning''), (''max'', ''max_memory'')])"

definition set_trues :: "(string, pyval) dict \<Rightarrow> string list \<Rightarrow> pyval \<Rightarrow> pyval" where
  "set_trues kw ks x = foldl (\<lambda>y k. set_true kw k y) x ks"

definition prepareTemplateObject :: "'w apis \<Rightarrow> (string, pyval) dict \<Rightarrow> ('w rest_st, pyval) comp" where
  "prepareTemplateObject A kw =
     through
       [local_step (\<lambda>x. Inr (set_if (truthy (kwget kw ''type'')) ''type_'' (kwget kw ''type'') (set_trues kw [''name'', ''description'', ''memory''] x))),
        id_object A (CL_API A) ''cluster'' ''Cluster'' (kwget kw ''cluster''),
        local_step (template_cpu A kw),
        id_object A (VM_API A) ''vm'' ''Vm'' (kwget kw ''vm''),
        id_object A (STORAGE_API A) ''storage_domain'' ''StorageDomain'' (kwget kw ''storagedomain''),
        local_step (\<lambda>x. Inr (set_if (kwget kw ''protected'' \<noteq> PNone) ''delete_protected'' (kwget kw ''protected'') x)),
        local_step (with_custom_properties A kw),
        local_step (set_new A (kwget kw ''virtio_scsi'' \<noteq> PNone) ''virtio_scsi'' ''VirtioScsi'' (given kw [(''enabled'', ''virtio_scsi'')])),
        local_step (\<lambda>x. Inr (set_true kw ''start_paused'' (setattr (set_some kw ''version'' x) ''stateless'' (kwget kw ''stateless'')))),
        local_step (template_display A kw),
        local_step (with_os A (kwget kw ''os_type'') kw),
        local_step (\<lambda>x. Inr (set_trues kw [''custom_emulated_machine'', ''custom_cpu_model'', ''soundcard_enabled'', ''migration_downtime'']
                               (with_usb A kw (with_serial_number A kw x)))),
        local_step (\<lambda>x. with_boot_menu A kw (with_io A kw x)),
        local_step (\<lambda>x. template_threads A kw (set_some kw ''cpu_shares'' x)),
        local_step (with_time_zone A kw),
        local_step (template_memory_policy A kw),
        local_step (with_availability A kw)]
       (new_object A ''Template'')"

section \<open>Creating and updating\<close>

text \<open>The disks of the machine, each with the storage domain of the call.\<close>

definition disk_properties :: "pyval \<Rightarrow> pyval \<Rightarrow> exn + pyval \<times> (string, pyval) dict" where
  "disk_properties storage_domain d =
     res_bind (getattr d ''id'') (\<lambda>i. res_bind (getattr d ''alias'') (\<lambda>a.
     res_bind (getattr d ''format'') (\<lambda>f. res_bind (getattr d ''sparse'') (\<lambda>s.
     Inr (i, [(''alias'', a), (''format'', f), (''sparse'', s), (''storagedomain'', storage_domain)])))))"

definition template_disk :: "'w apis \<Rightarrow> pyval \<times> (string, pyval) dict \<Rightarrow> ('w rest_st, pyval) comp" where
  "template_disk A d =
     bindE (lift_res (construct (new_object A ''Disk'') [(''id'', fst d)])) (\<lambda>x.
     let y = foldl (\<lambda>z k. setattr z k (kwget (snd d) k)) x [''format'', ''sparse'', ''alias'']; sd = kwget (snd d) ''storagedomain'' in
     id_object A (STORAGE_API A) ''storage_domains'' ''StorageDomain'' sd y)"

text \<open>
  Each attachment is made with the id of the last disk, which is not used since the disk itself is given.
\<close>

definition template_attachments :: "'w apis \<Rightarrow> (pyval \<times> (string, pyval) dict) list \<Rightarrow> ('w rest_st, pyval) comp" where
  "template_attachments A disks =
     bindE (map_comp (template_disk A) disks) (\<lambda>ds.
     lift_res (fold_res (\<lambda>d l. res_bind (prepare_disk_attachment_object A PNone d []) (\<lambda>x. add_member ''disk_attachment'' x l))
                 ds (new_object A ''DiskAttachments'')))"

definition validateTemplate :: "'w apis \<Rightarrow> bool \<Rightarrow> string \<Rightarrow> pyval \<Rightarrow> ('w rest_st, bool) comp" where
  "validateTemplate A positive template version =
     bindE (get_template_obj A template False version) (\<lambda>t. ret (truthy t = positive))"

definition new_version :: "'w apis \<Rightarrow> string \<Rightarrow> (string, pyval) dict \<Rightarrow> ('w rest_st, (string, pyval) dict) comp" where
  "new_version A n kw =
     bindE (if truthy (kwget kw ''new_version'') then validateTemplate A True n BASE_TEMPLATE_VERSION else ret False) (\<lambda>new.
     if \<not> new then ret kw
     else
       bindE (get_template_obj A n False BASE_TEMPLATE_VERSION) (\<lambda>base.
       bindE (lift_res (construct (new_object A ''TemplateVersion'') [(''base_template'', base), (''version_name'', kwget kw ''version_name'')])) (\<lambda>v.
       ret (dict_set kw ''version'' v))))"

text \<open>
  The name and the machine are texts. Disks that are given are a dictionary from ids to properties;
  without it they are read from the machine.
\<close>

definition disks_for_template ::
  "'w apis \<Rightarrow> string \<Rightarrow> pyval \<Rightarrow> (pyval \<times> (string, pyval) dict) list option \<Rightarrow> ('w rest_st, (pyval \<times> (string, pyval) dict) list) comp" where
  "disks_for_template A vm_name storage_domain disks =
     (case disks of
        Some l \<Rightarrow> ret l
      | None \<Rightarrow>
          bindE (getVmDisks A vm_name PNone) (\<lambda>ds.
          bindE (lift_res (map_res (disk_properties storage_domain) ds)) (\<lambda>ps. ret (dict_update [] ps))))"

definition createTemplate ::
  "'w apis \<Rightarrow> bool \<Rightarrow> bool \<Rightarrow> int \<Rightarrow> string \<Rightarrow> string \<Rightarrow> (pyval \<times> (string, pyval) dict) list option \<Rightarrow> (string, pyval) dict
   \<Rightarrow> ('w rest_st, bool) comp" where
  "createTemplate A positive wait t n vm_name disks kw0 =
     (let kw = [(''name'', PStr n), (''vm'', PStr vm_name)] @ kw0 in
      bindE (new_version A n kw) (\<lambda>kw1.
      bindE (prepareTemplateObject A kw1) (\<lambda>x.
      bindE (disks_for_template A vm_name (kwget kw1 ''storagedomain'') disks) (\<lambda>ds.
      bindE (if ds = [] then ret x
             else
               bindE (template_attachments A ds) (\<lambda>att.
               lift_res (res_bind (getattr x ''vm'') (\<lambda>vm. if vm = PNone then Inl AttributeError else Inr (setattr x ''vm'' (setattr vm ''disk_attachments'' att)))))) (\<lambda>y.
      bindE (rest_create (TEMPLATE_API A) y positive
               (create_default\<lparr>ca_operations := if truthy (kwget kw1 ''copy_permissions'') then [''clone_permissions''] else []\<rparr>)) (\<lambda>(made, status).
      if wait \<and> status \<and> positive then waitForElemStatus (TEMPLATE_API A) made ''OK'' t False else ret status))))))"

definition updateTemplate :: "'w apis \<Rightarrow> bool \<Rightarrow> string \<Rightarrow> pyval \<Rightarrow> (string, pyval) dict \<Rightarrow> ('w rest_st, bool) comp" where
  "updateTemplate A positive template version_number kw =
     bindE (get_template_obj A template False version_number) (\<lambda>old.
     if \<not> truthy old then ret False
     else bindE (prepareTemplateObject A kw) (\<lambda>new. update_element (TEMPLATE_API A) old new positive))"

section \<open>Removing\<close>

definition remove_template ::
  "'w rest_st os_time \<Rightarrow> 'w apis \<Rightarrow> bool \<Rightarrow> string \<Rightarrow> pyval \<Rightarrow> bool \<Rightarrow> int \<Rightarrow> int \<Rightarrow> ('w rest_st, bool) wcomp" where
  "remove_template T A positive template version_number wait s t =
     bindW (run (get_template_obj A template False version_number)) (\<lambda>x.
     if \<not> truthy x then retW False
     else
       bindW (run (delete_element (TEMPLATE_API A) x positive)) (\<lambda>status.
       if status \<and> positive \<and> wait then func_status T (validateTemplate A False template version_number) t s
       else retW status))"

text \<open>A job keeps the exception of its function; a template that fails does not stop the others.\<close>

definition remove_template_job :: "'w rest_st os_time \<Rightarrow> 'w apis \<Rightarrow> string \<Rightarrow> bool \<Rightarrow> ('w rest_st, bool) wcomp" where
  "remove_template_job T A template status =
     bindW (tryW (remove_template T A True template BASE_TEMPLATE_VERSION True SAMPLER_SLEEP SAMPLER_TIMEOUT) PyException (\<lambda>_. retW False)) (\<lambda>ok.
     retW (status \<and> ok))"

definition remove_templates :: "'w rest_st os_time \<Rightarrow> 'w apis \<Rightarrow> names_arg \<Rightarrow> ('w rest_st, bool) wcomp" where
  "remove_templates T A templates = eachW (names_of templates) (remove_template_job T A) True"

definition check_template_existence :: "'w apis \<Rightarrow> string \<Rightarrow> ('w rest_st, bool) comp" where
  "check_template_existence A template_name =
     try_except
       (bindE (named_query (TEMPLATE_API A) template_name True) (\<lambda>v. bindE (lift_res (first_of v)) (\<lambda>x. ret (truthy x))))
       IndexError (\<lambda>_. ret False)"

definition waitForTemplatesGone :: "'w rest_st os_time \<Rightarrow> 'w apis \<Rightarrow> bool \<Rightarrow> names_arg \<Rightarrow> int \<Rightarrow> int \<Rightarrow> ('w rest_st, bool) wcomp" where
  "waitForTemplatesGone T A positive templates t s = waitUntilGone T (TEMPLATE_API A) positive templates t s ''name''"

text \<open>All the templates that were named are removed, also those that were not found.\<close>

definition safely_remove_templates :: "'w rest_st os_time \<Rightarrow> 'w apis \<Rightarrow> string list \<Rightarrow> ('w rest_st, bool) wcomp" where
  "safely_remove_templates T A templates =
     bindW (run (map_comp (\<lambda>t. bindE (check_template_existence A t) (\<lambda>b. ret (t, b))) templates)) (\<lambda>found.
     let existing = map fst (filter snd found) in
     if existing = [] then retW True
     else bindW (remove_templates T A (Names_list templates)) (\<lambda>_. waitForTemplatesGone T A True (Names_list existing) 600 10))"


definition get_template_state :: "'w apis \<Rightarrow> string \<Rightarrow> ('w rest_st, pyval) comp" where
  "get_template_state A template_name = bindE (find_by (TEMPLATE_API A) ''name'' (PStr template_name)) (\<lambda>x. lift_res (getattr x ''status''))"

definition searchForTemplate ::
  "(string \<Rightarrow> pyval \<Rightarrow> exn + bool) \<Rightarrow> 'w apis \<Rightarrow> string \<Rightarrow> string \<Rightarrow> string \<Rightarrow> int option \<Rightarrow> bool \<Rightarrow> int option
   \<Rightarrow> ('w rest_st, bool) comp" where
  "searchForTemplate M A = searchForObj M (TEMPLATE_API A)"

section \<open>NICs and watchdogs\<close>

text \<open>
  A network that is given and false, but not None, leaves the cluster without a value when its name is
  read for the look-up.
\<close>

definition template_nic_profile :: "'w apis \<Rightarrow> (string, pyval) dict \<Rightarrow> ('w rest_st, pyval) comp" where
  "template_nic_profile A kw =
     (let network = kwget kw ''network'' in
      bindE (if truthy network then bindE (find_by (CL_API A) ''id'' (kwget kw ''cluster'')) (\<lambda>c. ret (Some c)) else ret None) (\<lambda>cl.
      if network = PNone then ret (new_object A ''VnicProfile'')
      else
        (case cl of
           None \<Rightarrow> raise UnboundLocalError
         | Some c \<Rightarrow>
             bindE (lift_res (getattr c ''name'')) (\<lambda>cluster.
             get_vnic_profile_obj A (if map_of kw ''vnic_profile'' \<noteq> None then kwget kw ''vnic_profile'' else network) network cluster PNone))))"

definition template_prepareNicObj :: "'w apis \<Rightarrow> (string, pyval) dict \<Rightarrow> ('w rest_st, pyval) comp" where
  "template_prepareNicObj A kw =
     (let x = set_given kw ''interface'' (set_given kw ''name'' (new_object A ''Nic'')) in
      if map_of kw ''network'' = None then ret x
      else bindE (template_nic_profile A kw) (\<lambda>p. ret (setattr x ''vnic_profile'' p)))"

definition getTemplatesNics :: "'w apis \<Rightarrow> string \<Rightarrow> pyval \<Rightarrow> ('w rest_st, pyval) comp" where
  "getTemplatesNics A template version =
     bindE (get_template_obj A template False version) (\<lambda>x.
     if \<not> truthy x then ret PNone else link_address (TEMPLATE_API A) x ''nics'' ''nic'')"

definition get_template_nic :: "'w apis \<Rightarrow> string \<Rightarrow> pyval \<Rightarrow> pyval \<Rightarrow> ('w rest_st, pyval) comp" where
  "get_template_nic A template nic version =
     bindE (get_template_obj A template False version) (\<lambda>x.
     if \<not> truthy x then ret PNone else rest_getElemFromElemColl (TEMPLATE_API A) x nic ''nics'' ''nic'' ''name'' False)"

text \<open>The cluster of the template takes the place of one that was given.\<close>

definition addTemplateNic :: "'w apis \<Rightarrow> bool \<Rightarrow> string \<Rightarrow> pyval \<Rightarrow> (string, pyval) dict \<Rightarrow> ('w rest_st, bool) comp" where
  "addTemplateNic A positive template version kw =
     bindE (get_template_obj A template False version) (\<lambda>x.
     if \<not> truthy x then ret False
     else
       bindE (lift_res (getattr_chain [''cluster'', ''id''] x)) (\<lambda>i.
       bindE (template_prepareNicObj A (dict_set kw ''cluster'' i)) (\<lambda>nic.
       bindE (getTemplatesNics A template version) (\<lambda>nics.
       bindE (create_in (NIC_API A) nic positive nics [] False) (\<lambda>(_, status). ret status)))))"

definition updateTemplateNic :: "'w apis \<Rightarrow> bool \<Rightarrow> string \<Rightarrow> pyval \<Rightarrow> pyval \<Rightarrow> (string, pyval) dict \<Rightarrow> ('w rest_st, bool) comp" where
  "updateTemplateNic A positive template nic version kw =
     bindE (get_template_obj A template False version) (\<lambda>x.
     if \<not> truthy x then ret False
     else
       bindE (lift_res (getattr_chain [''cluster'', ''id''] x)) (\<lambda>i.
       bindE (get_template_nic A template nic version) (\<lambda>old.
       bindE (template_prepareNicObj A (dict_set kw ''cluster'' i)) (\<lambda>new. update_element (NIC_API A) old new positive))))"

definition removeTemplateNic :: "'w apis \<Rightarrow> bool \<Rightarrow> string \<Rightarrow> pyval \<Rightarrow> pyval \<Rightarrow> ('w rest_st, bool) comp" where
  "removeTemplateNic A positive template nic version =
     bindE (get_template_nic A template nic version) (\<lambda>n. delete_element (NIC_API A) n positive)"

definition template_watchdog_collection :: "'w apis \<Rightarrow> string \<Rightarrow> pyval \<Rightarrow> ('w rest_st, pyval) comp" where
  "template_watchdog_collection A template_name version =
     bindE (get_template_obj A template_name False version) (\<lambda>x.
     if \<not> truthy x then ret PNone else linked (VM_API A) x ''watchdogs'' ''watchdog'')"

definition template_add_watchdog :: "'w apis \<Rightarrow> string \<Rightarrow> pyval \<Rightarrow> pyval \<Rightarrow> pyval \<Rightarrow> ('w rest_st, bool) comp" where
  "template_add_watchdog A template_name model action version =
     bindE (get_template_obj A template_name False version) (\<lambda>x.
     if \<not> truthy x then ret False
     else
       bindE (link_address (VM_API A) x ''watchdogs'' []) (\<lambda>link.
       bindE (lift_res (prepare_watchdog_obj A [(''model'', model), (''action'', action)])) (\<lambda>w.
       bindE (create_in (WATCHDOG_API A) w True link [] False) (\<lambda>(_, status). ret status))))"

definition template_delete_watchdog :: "'w apis \<Rightarrow> string \<Rightarrow> ('w rest_st, bool) comp" where
  "template_delete_watchdog A template_name =
     bindE (template_watchdog_collection A template_name BASE_TEMPLATE_VERSION) (\<lambda>l.
     if \<not> truthy l then ret False
     else
       bindE (lift_res (first_of l)) (\<lambda>w. bindE (lift_res (getattr w ''model'')) (\<lambda>_. delete_element (WATCHDOG_API A) w True)))"

section \<open>Export domains\<close>

text \<open>The first template of the version: its name is not compared.\<close>

definition get_template_obj_from_export_domain :: "'w apis \<Rightarrow> pyval \<Rightarrow> string \<Rightarrow> pyval \<Rightarrow> ('w rest_st, pyval) comp" where
  "get_template_obj_from_export_domain A export_domain_object template_name version =
     bindE (try_except (bindE (linked (TEMPLATE_API A) export_domain_object [] []) (\<lambda>v. ret (Some v))) EntityNotFound (\<lambda>_. ret None)) (\<lambda>found.
     case found of
       None \<Rightarrow> ret PNone
     | Some v \<Rightarrow> lift_res (res_bind (py_iter v) (\<lambda>l. res_bind (find_res (version_is version) l) (\<lambda>x. Inr (opt_val x)))))"

definition export_domain_template_exist :: "'w apis \<Rightarrow> string \<Rightarrow> pyval \<Rightarrow> pyval \<Rightarrow> bool \<Rightarrow> ('w rest_st, bool) comp" where
  "export_domain_template_exist A template export_domain version positive =
     bindE (find_by (STORAGE_API A) ''name'' export_domain) (\<lambda>sd.
     bindE (get_template_obj_from_export_domain A sd template version) (\<lambda>x. ret (truthy x = positive)))"

text \<open>The wait looks for the first version, whatever version was removed.\<close>

definition removeTemplateFromExportDomain ::
  "'w rest_st os_time \<Rightarrow> 'w apis \<Rightarrow> bool \<Rightarrow> string \<Rightarrow> pyval \<Rightarrow> pyval \<Rightarrow> int \<Rightarrow> int \<Rightarrow> ('w rest_st, bool) wcomp" where
  "removeTemplateFromExportDomain T A positive template export_storagedomain version t s =
     bindW (run (find_by (STORAGE_API A) ''name'' export_storagedomain)) (\<lambda>sd.
     bindW (run (get_template_obj_from_export_domain A sd template version)) (\<lambda>x.
     if \<not> truthy x then retW False
     else
       bindW (run (delete_element (TEMPLATE_API A) x positive)) (\<lambda>status.
       if \<not> status then retW False
       else if positive then func_status T (export_domain_template_exist A template export_storagedomain BASE_TEMPLATE_VERSION False) t s
       else retW True)))"

definition wait_for_export_domain_template_state :: "'w apis \<Rightarrow> pyval \<Rightarrow> string \<Rightarrow> string \<Rightarrow> int \<Rightarrow> ('w rest_st, bool) comp" where
  "wait_for_export_domain_template_state A export_domain template state t =
     bindE (find_by (STORAGE_API A) ''name'' export_domain) (\<lambda>sd.
     bindE (rest_getElemFromElemColl (TEMPLATE_API A) sd (PStr template) [] [] ''name'' False) (\<lambda>x.
     waitForElemStatus (TEMPLATE_API A) x state t False))"

definition exportTemplate :: "'w apis \<Rightarrow> enums \<Rightarrow> bool \<Rightarrow> string \<Rightarrow> pyval \<Rightarrow> pyval \<Rightarrow> pyval \<Rightarrow> bool \<Rightarrow> ('w rest_st, bool) comp" where
  "exportTemplate A N positive template storagedomain version exclusive wait =
     bindE (get_template_obj A template False version) (\<lambda>x.
     if \<not> truthy x then ret False
     else
       bindE (lift_res (construct (new_object A ''StorageDomain'') [(''name'', storagedomain)])) (\<lambda>sd.
       bindE (syncAction (TEMPLATE_API A) x ''export'' positive
                (action_default\<lparr>aa_params := [(''storage_domain'', sd), (''exclusive'', exclusive)]\<rparr>)) (\<lambda>r.
       if wait \<and> truthy r then
         wait_for_export_domain_template_state A storagedomain template (N ''disk_state_ok'') CREATE_TEMPLATE_TIMEOUT
       else ret (truthy r))))"

text \<open>\<open>ART_CONFIG['RUN']['engine'] in ('cli', 'sdk')\<close>.\<close>

definition import_action :: "conf \<Rightarrow> string" where
  "import_action engine = (if engine \<in> {Leaf (PStr ''cli''), Leaf (PStr ''sdk'')} then ''import_template'' else ''import'')"

definition import_template_params :: "'w apis \<Rightarrow> pyval \<Rightarrow> pyval \<Rightarrow> bool \<Rightarrow> pyval \<Rightarrow> exn + action_args" where
  "import_template_params A sd cl is_async n =
     res_bind (if n = PNone then Inr []
               else res_bind (construct (new_object A ''Template'') [(''name'', n)]) (\<lambda>x. Inr [(''clone'', PBool True), (''template'', x)])) (\<lambda>cl_params.
     Inr (action_default\<lparr>aa_async := PBool is_async, aa_params := [(''storage_domain'', sd), (''cluster'', cl)] @ cl_params\<rparr>))"

text \<open>The jobs are waited for even when the engine refused the import.\<close>

definition import_template ::
  "config_st \<Rightarrow> 'w rest_st os_time \<Rightarrow> 'w apis \<Rightarrow> (string \<Rightarrow> string \<Rightarrow> bool) \<Rightarrow> enums \<Rightarrow> bool \<Rightarrow> string \<Rightarrow> pyval \<Rightarrow> pyval \<Rightarrow> pyval \<Rightarrow> pyval \<Rightarrow> pyval \<Rightarrow> bool
   \<Rightarrow> ('w rest_st, bool) wcomp" where
  "import_template c T A M N positive template source_storage_domain import_domain cluster version n is_async =
     bindW (run (find_by (STORAGE_API A) ''name'' source_storage_domain)) (\<lambda>export.
     bindW (run (get_template_obj_from_export_domain A export template version)) (\<lambda>x.
     if \<not> truthy x then retW False
     else
       bindW (run (lift_res (construct (new_object A ''StorageDomain'') [(''name'', import_domain)]))) (\<lambda>sd.
       bindW (run (lift_res (construct (new_object A ''Cluster'') [(''name'', cluster)]))) (\<lambda>cl.
       bindW (run (lift_res (configured_engine c))) (\<lambda>engine.
       bindW (run (lift_res (import_template_params A sd cl is_async n))) (\<lambda>params.
       bindW (run (syncAction (TEMPLATE_API A) x (import_action engine) positive params)) (\<lambda>r.
       bindW (if is_async then retW () else jobs_done T A M [N ''job_add_vm_template'']) (\<lambda>_.
       retW (truthy r)))))))))"


section \<open>Disks and states\<close>

definition getTemplateDisks :: "'w apis \<Rightarrow> string \<Rightarrow> ('w rest_st, pyval list) comp" where
  "getTemplateDisks A template = bindE (get_disk_attachments A template ''template'' False) (get_disk_list_from_disk_attachments A)"

definition getTemplateFirstDiskByName :: "'w apis \<Rightarrow> string \<Rightarrow> pyval \<Rightarrow> int \<Rightarrow> ('w rest_st, pyval) comp" where
  "getTemplateFirstDiskByName A template diskName idx =
     bindE (getTemplateDisks A template) (\<lambda>ds. lift_res (res_bind (filter_res (name_of_is diskName) ds) (nth_found idx)))"

definition copyTemplateDisk :: "'w apis \<Rightarrow> string \<Rightarrow> pyval \<Rightarrow> pyval \<Rightarrow> ('w rest_st, unit) comp" where
  "copyTemplateDisk A template disk_name target_sd =
     bindE (getTemplateFirstDiskByName A template disk_name 0) (\<lambda>d.
     bindE (find_by (STORAGE_API A) ''name'' target_sd) (\<lambda>sd.
     bindE (syncAction (DISK_API A) d ''copy'' True (action_default\<lparr>aa_params := [(''storage_domain'', sd)]\<rparr>)) (\<lambda>r.
     if truthy r then ret () else raise (TestExc DiskException))))"

text \<open>All the templates are looked up before the first status is compared.\<close>

definition get_pending_templates :: "'w apis \<Rightarrow> string list \<Rightarrow> pyval \<Rightarrow> ('w rest_st, pyval list) comp" where
  "get_pending_templates A template_names state =
     bindE (map_comp (\<lambda>n. find_by (TEMPLATE_API A) ''name'' (PStr n)) template_names) (\<lambda>l.
     lift_res (filter_res (\<lambda>x. res_bind (getattr x ''status'') (\<lambda>st. Inr (\<not> py_eq st state))) l))"

text \<open>A loop that ends only by its return or by APITimeout; the exception after it is not reached.\<close>

definition waitForTemplatesStates :: "'w rest_st os_time \<Rightarrow> 'w apis \<Rightarrow> names_arg \<Rightarrow> pyval \<Rightarrow> int \<Rightarrow> int \<Rightarrow> ('w rest_st, bool) wcomp" where
  "waitForTemplatesStates T A names state t s =
     sampling T (get_pending_templates A (names_of names) state) (\<lambda>bad. Inr (if bad = [] then Some True else None)) t s"

fun wait_for_each_disk :: "'w apis \<Rightarrow> string \<Rightarrow> int \<Rightarrow> pyval list \<Rightarrow> ('w rest_st, unit) comp" where
  "wait_for_each_disk A state t [] = ret ()"
| "wait_for_each_disk A state t (d # ds) =
     bindE (waitForElemStatus (DISK_API A) d state t False) (\<lambda>ok.
     if ok then wait_for_each_disk A state t ds
     else
       bindE (lift_res (getattr d ''alias'')) (\<lambda>_. bindE (lift_res (getattr d ''status'')) (\<lambda>_. raise (TestExc DiskException))))"

definition wait_for_template_disks_state :: "'w apis \<Rightarrow> string \<Rightarrow> string \<Rightarrow> int \<Rightarrow> ('w rest_st, unit) comp" where
  "wait_for_template_disks_state A template state t = bindE (getTemplateDisks A template) (wait_for_each_disk A state t)"

text \<open>
  The domain of the first disk stands for all of them, and a domain is passed over when its name is a
  part of that one's.
\<close>

fun copy_each_disk :: "'w apis \<Rightarrow> enums \<Rightarrow> string \<Rightarrow> string \<Rightarrow> pyval list \<Rightarrow> ('w rest_st, unit) comp" where
  "copy_each_disk A N template_name sd [] = ret ()"
| "copy_each_disk A N template_name sd (d # ds) =
     bindE (wait_for_template_disks_state A template_name (N ''disk_state_ok'') CREATE_TEMPLATE_TIMEOUT) (\<lambda>_.
     bindE (copyTemplateDisk A template_name d (PStr sd)) (\<lambda>_. copy_each_disk A N template_name sd ds))"

fun copy_to_each :: "'w apis \<Rightarrow> enums \<Rightarrow> string \<Rightarrow> bool \<Rightarrow> pyval list \<Rightarrow> pyval \<Rightarrow> string list \<Rightarrow> ('w rest_st, unit) comp" where
  "copy_to_each A N template_name wait disks disk_sd [] = ret ()"
| "copy_to_each A N template_name wait disks disk_sd (sd # sds) =
     bindE (lift_res (str_in sd disk_sd)) (\<lambda>there.
     bindE (if there then ret ()
            else
              bindE (copy_each_disk A N template_name sd disks) (\<lambda>_.
              if wait then wait_for_template_disks_state A template_name (N ''disk_state_ok'') CREATE_TEMPLATE_TIMEOUT else ret ())) (\<lambda>_.
     copy_to_each A N template_name wait disks disk_sd sds))"

definition copy_template_disks :: "'w apis \<Rightarrow> enums \<Rightarrow> string \<Rightarrow> string list \<Rightarrow> bool \<Rightarrow> ('w rest_st, unit) comp" where
  "copy_template_disks A N template_name storage_domains wait =
     bindE (getTemplateDisks A template_name) (\<lambda>ds.
     bindE (lift_res (map_res (\<lambda>d. getattr d ''name'') ds)) (\<lambda>names.
     bindE (lift_res (first_of (PList names))) (\<lambda>first_disk.
     bindE (get_disk_storage_domain_name A first_disk None (Some template_name)) (\<lambda>disk_sd.
     copy_to_each A N template_name wait names disk_sd storage_domains))))"

definition get_template_disk_by_id :: "'w apis \<Rightarrow> string \<Rightarrow> pyval \<Rightarrow> ('w rest_st, pyval) comp" where
  "get_template_disk_by_id A template_name disk_id =
     bindE (getTemplateDisks A template_name) (\<lambda>ds.
     lift_res (res_bind (filter_res (id_is disk_id) ds) (\<lambda>l. Inr (case l of [] \<Rightarrow> PNone | d # _ \<Rightarrow> d))))"

definition remove_template_disk_from_storagedomain ::
  "'w apis \<Rightarrow> bool \<Rightarrow> string \<Rightarrow> string \<Rightarrow> pyval \<Rightarrow> bool \<Rightarrow> ('w rest_st, bool) comp" where
  "remove_template_disk_from_storagedomain A positive template_name storage_domain disk_id force =
     bindE (get_template_disk_by_id A template_name disk_id) (\<lambda>d.
     rest_delete (DISK_ATTACHMENTS_API A) d positive [200, 202, 204] NEGATIVE_CODES
       ([''storage_domain='' @ storage_domain] @ (if force then [''force=true''] else [])))"

section \<open>What is known of templates\<close>

definition template_of_cluster :: "pyval \<Rightarrow> pyval \<Rightarrow> exn + bool" where
  "template_of_cluster i x =
     res_bind (getattr x ''cluster'') (\<lambda>c. if truthy c then res_bind (getattr c ''id'') (\<lambda>j. Inr (py_eq j i)) else Inr False)"

definition get_template_from_cluster :: "'w apis \<Rightarrow> pyval \<Rightarrow> ('w rest_st, pyval list) comp" where
  "get_template_from_cluster A cluster =
     bindE (find_by (CL_API A) ''name'' cluster) (\<lambda>c.
     bindE (lift_res (getattr c ''id'')) (\<lambda>i.
     bindE (listed (TEMPLATE_API A)) (\<lambda>ts.
     lift_res (res_bind (filter_res (template_of_cluster i) ts) (map_res (\<lambda>x. getattr x ''name''))))))"

definition get_all_template_objects :: "'w apis \<Rightarrow> ('w rest_st, pyval) comp" where
  "get_all_template_objects A = get_all (TEMPLATE_API A)"

definition get_all_template_objects_names :: "'w apis \<Rightarrow> ('w rest_st, pyval list) comp" where
  "get_all_template_objects_names A =
     bindE (get_all_template_objects A) (\<lambda>v. lift_res (res_bind (py_iter v) (map_res (\<lambda>x. getattr x ''name''))))"

definition get_template_nics_objects :: "'w apis \<Rightarrow> string \<Rightarrow> ('w rest_st, pyval) comp" where
  "get_template_nics_objects A template =
     bindE (find_by (TEMPLATE_API A) ''name'' (PStr template)) (\<lambda>x. linked (TEMPLATE_API A) x ''nics'' ''nic'')"

definition get_template_boot_sequence :: "'w apis \<Rightarrow> string \<Rightarrow> ('w rest_st, pyval) comp" where
  "get_template_boot_sequence A template_name =
     bindE (get_template_obj A template_name False BASE_TEMPLATE_VERSION) (\<lambda>x.
     lift_res (getattr_chain [''os'', ''boot'', ''devices'', ''device''] x))"

section \<open>What is shown\<close>

lemma get_template_obj_never_back: "apis_keep_time clk A \<Longrightarrow> never_back (server_time clk) (get_template_obj A n all_content version)"
  unfolding get_template_obj_def get_templates_obj_def named_query_def
  by (intro never_back_intros request_intros api_keeps_time, assumption?)

lemma validateTemplate_never_back: "apis_keep_time clk A \<Longrightarrow> never_back (server_time clk) (validateTemplate A positive n version)"
  unfolding validateTemplate_def by (intro never_back_intros get_template_obj_never_back)

lemma export_look_never_back:
  "apis_keep_time clk A \<Longrightarrow> never_back (server_time clk) (get_template_obj_from_export_domain A sd n version)"
  unfolding get_template_obj_from_export_domain_def by (intro never_back_intros request_intros api_keeps_time)

lemma export_exist_never_back:
  "apis_keep_time clk A \<Longrightarrow> never_back (server_time clk) (export_domain_template_exist A n edom version positive)"
  unfolding export_domain_template_exist_def by (intro never_back_intros export_look_never_back request_intros api_keeps_time)

text \<open>What a look that finds nothing says: no listing, or one without the version, whatever the names.\<close>

definition no_version_in :: "'w apis \<Rightarrow> pyval \<Rightarrow> pyval \<Rightarrow> 'w rest_st \<Rightarrow> 'w rest_st \<Rightarrow> bool" where
  "no_version_in A sd version v w' \<longleftrightarrow>
     (\<exists>e. linked (TEMPLATE_API A) sd [] [] v = (Inl e, w') \<and> isinstance e EntityNotFound) \<or>
     (\<exists>x l. linked (TEMPLATE_API A) sd [] [] v = (Inr x, w') \<and> py_iter x = Inr l \<and> (\<forall>y \<in> set l. version_is version y = Inr False))"

lemma version_truthy: "version_is version x = Inr True \<Longrightarrow> truthy x"
  by (cases x) (auto simp: version_is_def res_bind_Inr getattr_def)

lemma export_look_none:
  assumes "get_template_obj_from_export_domain A sd n version v = (Inr x, w')" and "\<not> truthy x"
  shows "no_version_in A sd version v w'"
proof (cases "linked (TEMPLATE_API A) sd [] [] v")
  case (Pair r u)
  show ?thesis
  proof (cases r)
    case (Inl e)
    with Pair assms show ?thesis
      by (auto simp: get_template_obj_from_export_domain_def no_version_in_def try_except_def bindE_def ret_def split: if_splits)
  next
    case (Inr y)
    with Pair assms(1) obtain l found where l: "py_iter y = Inr l" "find_res (version_is version) l = Inr found" "x = opt_val found" "u = w'"
      by (auto simp: get_template_obj_from_export_domain_def try_except_def bindE_def ret_def lift_res_def res_bind_Inr)
    have "found = None" using l(2,3) assms(2) version_truthy by (cases found) (auto simp: opt_val_def dest: find_res_Some)
    with l Pair Inr show ?thesis unfolding no_version_in_def by (blast dest: find_res_None)
  qed
qed

text \<open>
  The removal of a template that is waited for always comes back, and it tells the truth: True when
  the last look found no such version, False when there was none, when the engine refused, or when
  the wait ran out.
\<close>

theorem remove_template_verdict:
  assumes "clock_laws T (server_time clk)" and "apis_keep_time clk A" and "0 < s"
  shows "\<exists>r w'. remove_template T A True template version True s t w = Some (r, w') \<and>
    (r = Inr True \<longrightarrow> (\<exists>v x. get_template_obj A template False version v = (Inr x, w') \<and> \<not> truthy x)) \<and>
    (r = Inr False \<longrightarrow>
       (\<exists>x. get_template_obj A template False version w = (Inr x, w') \<and> \<not> truthy x) \<or>
       (\<exists>x v. delete_element (TEMPLATE_API A) x True v = (Inr False, w')) \<or>
       server_time clk w + t < server_time clk w' \<or>
       (\<exists>v e. validateTemplate A False template version v = (Inl e, w') \<and> isinstance e APITimeout))"
proof -
  let ?f = "validateTemplate A False template version"
  have "comes_back (server_time clk) (remove_template T A True template version True s t)"
    unfolding remove_template_def
    by (intro comes_back_intros never_back_intros validateTemplate_never_back get_template_obj_never_back request_intros api_keeps_time assms)
  then obtain r w' where r: "remove_template T A True template version True s t w = Some (r, w')"
    unfolding comes_back_def by blast
  have cases: "(\<not> b \<and> (\<exists>x. get_template_obj A template False version w = (Inr x, w') \<and> \<not> truthy x)) \<or>
      (\<not> b \<and> (\<exists>x v. delete_element (TEMPLATE_API A) x True v = (Inr False, w'))) \<or>
      (\<exists>v. server_time clk w \<le> server_time clk v \<and> func_status T ?f t s v = Some (Inr b, w'))" if b: "r = Inr b" for b
  proof -
    from r b obtain x u where x: "get_template_obj A template False version w = (Inr x, u)"
      and rest: "(if \<not> truthy x then retW False
        else bindW (run (delete_element (TEMPLATE_API A) x True)) (\<lambda>status.
          if status \<and> True \<and> True then func_status T ?f t s else retW status)) u = Some (Inr b, w')"
      by (auto simp: remove_template_def elim!: bindW_InrE)
    show ?thesis
    proof (cases "truthy x")
      case True
      with rest obtain ok v where d: "delete_element (TEMPLATE_API A) x True u = (Inr ok, v)"
        and w: "(if ok then func_status T ?f t s else retW ok) v = Some (Inr b, w')"
        by (auto elim!: bindW_InrE)
      have "server_time clk w \<le> server_time clk v"
        using never_backD [OF get_template_obj_never_back [OF assms(2)] x]
          never_backD [OF delete_element_never_back [OF api_keeps_time(6) [OF assms(2)]] d] by linarith
      with d w show ?thesis by (cases ok) (auto simp: ret_apply)
    qed (use rest x in \<open>auto simp: ret_apply\<close>)
  qed
  have "\<exists>v x. get_template_obj A template False version v = (Inr x, w') \<and> \<not> truthy x" if "r = Inr True"
  proof -
    from cases [OF that] obtain v where "func_status T ?f t s v = Some (Inr True, w')" by blast
    from func_status_Inr [OF assms(1) this] show ?thesis
      by (fastforce simp: validateTemplate_def ret_apply elim!: bindE_InrE)
  qed
  moreover have "server_time clk w + t < server_time clk w' \<or> (\<exists>v e. ?f v = (Inl e, w') \<and> isinstance e APITimeout)"
    if "server_time clk w \<le> server_time clk v" "func_status T ?f t s v = Some (Inr False, w')" for v
    using func_status_Inr [OF assms(1) that(2)] that(1) by auto
  ultimately show ?thesis using r cases [of False] by blast
qed

text \<open>
  C30. Removing a template from an export domain always comes back, and True means that at the last look
  the domain was not listed or that no template of it was a first version: the templates of other
  names count as well, so that one of those keeps the removal from being confirmed.
\<close>

theorem removeTemplateFromExportDomain_verdict:
  assumes "clock_laws T (server_time clk)" and "apis_keep_time clk A" and "0 < s"
  shows "\<exists>r w'. removeTemplateFromExportDomain T A True template edom version t s w = Some (r, w') \<and>
    (r = Inr True \<longrightarrow> (\<exists>v sd u. find_by (STORAGE_API A) ''name'' edom v = (Inr sd, u) \<and> no_version_in A sd BASE_TEMPLATE_VERSION u w'))"
proof -
  let ?f = "export_domain_template_exist A template edom BASE_TEMPLATE_VERSION False"
  have "comes_back (server_time clk) (removeTemplateFromExportDomain T A True template edom version t s)"
    unfolding removeTemplateFromExportDomain_def
    by (intro comes_back_intros never_back_intros export_look_never_back export_exist_never_back request_intros api_keeps_time assms)
  then obtain r w' where r: "removeTemplateFromExportDomain T A True template edom version t s w = Some (r, w')"
    unfolding comes_back_def by blast
  have "\<exists>v sd u. find_by (STORAGE_API A) ''name'' edom v = (Inr sd, u) \<and> no_version_in A sd BASE_TEMPLATE_VERSION u w'" if "r = Inr True"
  proof -
    from r that obtain v where "func_status T ?f t s v = Some (Inr True, w')"
      by (auto simp: removeTemplateFromExportDomain_def ret_apply elim!: bindW_InrE split: if_splits)
    from func_status_Inr [OF assms(1) this] obtain v sd u x where "find_by (STORAGE_API A) ''name'' edom v = (Inr sd, u)"
      "get_template_obj_from_export_domain A sd template BASE_TEMPLATE_VERSION u = (Inr x, w')" "\<not> truthy x"
      by (auto simp: export_domain_template_exist_def ret_apply elim!: bindE_InrE)
    with export_look_none show ?thesis by blast
  qed
  with r show ?thesis by blast
qed

lemma pending_never_back: "apis_keep_time clk A \<Longrightarrow> never_back (server_time clk) (get_pending_templates A ns state)"
  unfolding get_pending_templates_def by (intro never_back_intros request_intros api_keeps_time)

lemma map_comp_found:
  assumes "map_comp f xs w = (Inr ys, w')" and "x \<in> set xs"
  shows "\<exists>y \<in> set ys. \<exists>v v'. f x v = (Inr y, v')"
  using assms
proof (induction xs arbitrary: w ys)
  case (Cons z zs)
  then obtain y v ys' where "f z w = (Inr y, v)" "map_comp f zs v = (Inr ys', w')" "ys = y # ys'"
    by (auto simp: ret_apply elim!: bindE_InrE)
  with Cons show ?case by (cases "x = z") auto
qed simp

text \<open>
  Waiting for the states of templates always comes back. It is never False: True means that every
  template that was named was in the state when it was looked up, and the exceptions are APITimeout
  and those of a look.
\<close>

theorem waitForTemplatesStates_verdict:
  assumes "clock_laws T (server_time clk)" and "apis_keep_time clk A" and "0 < s"
  shows "\<exists>r w'. waitForTemplatesStates T A names state t s w = Some (r, w') \<and> r \<noteq> Inr False \<and>
    (r = Inr True \<longrightarrow> (\<forall>n \<in> set (names_of names). \<exists>v v' x st.
       find_by (TEMPLATE_API A) ''name'' (PStr n) v = (Inr x, v') \<and> getattr x ''status'' = Inr st \<and> py_eq st state)) \<and>
    (\<forall>e. r = Inl e \<longrightarrow> e = APITimeout \<or> (\<exists>v. get_pending_templates A (names_of names) state v = (Inl e, w')))"
proof -
  let ?q = "get_pending_templates A (names_of names) state"
  let ?p = "\<lambda>x. res_bind (getattr x ''status'') (\<lambda>st. Inr (\<not> py_eq st state))"
  from comes_back_sampling [OF assms(1) pending_never_back [OF assms(2)] assms(3)] obtain r w' where
    r: "waitForTemplatesStates T A names state t s w = Some (r, w')"
    unfolding comes_back_def waitForTemplatesStates_def by blast
  have ok: "b \<and> (\<forall>n \<in> set (names_of names). \<exists>v v' x st.
       find_by (TEMPLATE_API A) ''name'' (PStr n) v = (Inr x, v') \<and> getattr x ''status'' = Inr st \<and> py_eq st state)" if "r = Inr b" for b
  proof -
    from sampling_Inr [OF assms(1) r [unfolded waitForTemplatesStates_def that]] obtain v where "?q v = (Inr [], w')" and b: b
      by (auto split: if_splits)
    then obtain l u where l: "map_comp (\<lambda>n. find_by (TEMPLATE_API A) ''name'' (PStr n)) (names_of names) v = (Inr l, u)"
      and p: "filter_res ?p l = Inr []"
      by (auto simp: get_pending_templates_def lift_res_def elim!: bindE_InrE)
    have "\<exists>st. getattr x ''status'' = Inr st \<and> py_eq st state" if "x \<in> set l" for x
      using filter_res_decided [OF p that] filter_res_Inr [OF p, symmetric] that by (auto simp: res_bind_Inr filter_empty_conv)
    with b map_comp_found [OF l] show ?thesis by blast
  qed
  moreover have "e = APITimeout \<or> (\<exists>v. ?q v = (Inl e, w'))" if "r = Inl e" for e
    using sampling_Inl [OF assms(1) r [unfolded waitForTemplatesStates_def that]] by (auto split: if_splits)
  ultimately show ?thesis using r by blast
qed

section \<open>Witnesses\<close>

theorem remove_template_verdict_witness:
  "\<exists>r. remove_template demo_clock gear_apis True ''t1'' (PInt 1) True 5 120 demo_rest_st = Some r"
  using remove_template_verdict [OF demo_clock_laws gear_apis_keep_time, of 5] by fastforce

theorem removeTemplateFromExportDomain_verdict_witness:
  "\<exists>r. removeTemplateFromExportDomain demo_clock gear_apis True ''t1'' (PStr ''export'') (PInt 1) 120 5 demo_rest_st = Some r"
  using removeTemplateFromExportDomain_verdict [OF demo_clock_laws gear_apis_keep_time, of 5] by fastforce

theorem waitForTemplatesStates_verdict_witness:
  "\<exists>r. waitForTemplatesStates demo_clock gear_apis (Names_string ''Blank'') (PStr ''ok'') 900 10 demo_rest_st = Some r \<and> fst r \<noteq> Inr False"
  using waitForTemplatesStates_verdict [OF demo_clock_laws gear_apis_keep_time, of 10] by fastforce

end
