(* ===== verification/Host_Network.thy ===== *)
theory Host_Network
  imports Hosts
begin

text \<open>
  The set-up of the networks of a host: \<open>host_network.py\<close> of \<open>tests_lib/low_level\<close>, which makes the
  objects of attachments, bonds and labels, and that of \<open>tests_lib/high_level\<close>, which sends them.
  The nested dictionaries of the callers are records here.
\<close>

definition NETWORK_ATTACHMENT_API :: "'w apis \<Rightarrow> 'w rest_env" where
  "NETWORK_ATTACHMENT_API A = A ''network_attachment'' ''networkattachments''"

definition UNMANAGED_NETWORKS_API :: "'w apis \<Rightarrow> 'w rest_env" where
  "UNMANAGED_NETWORKS_API A = A ''unmanaged_network'' ''unmanagednetworks''"

definition CONNECTIVITY_TIMEOUT :: int where "CONNECTIVITY_TIMEOUT = 60"

section \<open>Attachments\<close>

definition get_host_network_attachments :: "'w apis \<Rightarrow> pyval \<Rightarrow> ('w rest_st, pyval) comp" where
  "get_host_network_attachments A host = getElemFromLink (HOST_API A) host ''networkattachments'' ''network_attachment'' False True"

definition get_host_nic_network_attachments :: "'w apis \<Rightarrow> pyval \<Rightarrow> ('w rest_st, pyval) comp" where
  "get_host_nic_network_attachments A nic = linked (HOST_NICS_API A) nic ''networkattachments'' ''network_attachment''"

definition get_network_name_from_attachment :: "'w apis \<Rightarrow> pyval \<Rightarrow> ('w rest_st, pyval) comp" where
  "get_network_name_from_attachment A att =
     bindE (lift_res (getattr_chain [''network'', ''id''] att)) (get_object_name_by_id (NET_API A))"

text \<open>A NIC goes before the host; the name of each network costs a request.\<close>

definition get_networks_attachments :: "'w apis \<Rightarrow> pyval list \<Rightarrow> pyval \<Rightarrow> pyval \<Rightarrow> ('w rest_st, pyval list) comp" where
  "get_networks_attachments A networks host nic =
     bindE (if truthy nic then get_host_nic_network_attachments A nic
            else if truthy host then get_host_network_attachments A host
            else ret (PList [])) (\<lambda>v.
     bindE (lift_res (py_iter v)) (\<lambda>l.
     bindE (map_comp (get_network_name_from_attachment A) l) (\<lambda>ns.
     ret (map fst (filter (\<lambda>(_, n). list_ex (py_eq n) networks) (zip l ns))))))"

definition get_host_unmanaged_objects :: "'w apis \<Rightarrow> pyval \<Rightarrow> ('w rest_st, pyval) comp" where
  "get_host_unmanaged_objects A host = linked (HOST_API A) host ''unmanagednetworks'' ''unmanaged_network''"

definition get_attachment_reported_configurations :: "pyval \<Rightarrow> exn + pyval" where
  "get_attachment_reported_configurations att = getattr_chain [''reported_configurations'', ''reported_configuration''] att"

definition get_attachment_href :: "'w apis \<Rightarrow> pyval \<Rightarrow> ('w rest_st, pyval) comp" where
  "get_attachment_href A nic = link_address (HOST_NICS_API A) nic ''networkattachments'' []"

section \<open>The objects of a set-up\<close>

text \<open>
  What is wanted of one network or bond. An address is a dictionary of its members, and the
  addresses are listed under names of the caller.
\<close>

type_synonym ip_dict = "(string, (string, pyval) dict) dict"

record sn_entry =
  en_network :: pyval
  en_nic :: pyval
  en_slaves :: "string list"
  en_mode :: pyval
  en_miimon :: pyval
  en_labels :: "string list"
  en_ip :: ip_dict
  en_update :: bool
  en_override :: pyval
  en_properties :: "(string, pyval) dict"
  en_datacenter :: pyval
  en_cluster :: pyval
  en_qos :: "(string, pyval) dict"
  en_dns :: pyval

definition ip_assignment :: "'w apis \<Rightarrow> (string, pyval) dict \<Rightarrow> pyval" where
  "ip_assignment A members =
     (let (a, ip) = foldl (\<lambda>(a, ip) (k, v). if k = ''boot_protocol'' then (setattr a ''assignment_method'' v, ip) else (a, setattr ip k v))
                      (new_object A ''IpAddressAssignment'', new_object A ''Ip'') members
      in setattr a ''ip'' ip)"

definition prepare_ip_object :: "'w apis \<Rightarrow> pyval \<Rightarrow> ip_dict \<Rightarrow> exn + pyval" where
  "prepare_ip_object A att ips =
     (if ips = [] then Inr att
      else
        res_bind (fold_res (\<lambda>(_, members). add_member ''ip_address_assignment'' (ip_assignment A members)) ips
                    (new_object A ''IpAddressAssignments'')) (\<lambda>l.
        Inr (setattr att ''ip_address_assignments'' l)))"

text \<open>Without an address the protocol is none, but an update leaves it as it is.\<close>

definition ip_of_entry :: "sn_entry \<Rightarrow> ip_dict" where
  "ip_of_entry e = (if en_ip e = [] \<and> \<not> en_update e then [(''ip'', [(''boot_protocol'', PStr ''none'')])] else en_ip e)"

text \<open>A bond may not be there yet; a NIC that is missing is None.\<close>

definition attachment_nic :: "'w apis \<Rightarrow> pyval \<Rightarrow> pyval \<Rightarrow> ('w rest_st, pyval) comp" where
  "attachment_nic A host nic =
     bindE (lift_res (str_in ''bond'' nic)) (\<lambda>is_bond.
     bindE (get_host_nic A host nic False) (\<lambda>found.
     ret (case found of
            None \<Rightarrow> if is_bond then setattr (new_object A ''HostNic'') ''name'' nic else PNone
          | Some x \<Rightarrow> if is_bond \<and> \<not> truthy x then setattr (new_object A ''HostNic'') ''name'' nic else x)))"

definition attachment_settings :: "'w apis \<Rightarrow> sn_entry \<Rightarrow> pyval \<Rightarrow> exn + pyval" where
  "attachment_settings A e att =
     (let x = set_if (truthy (en_override e)) ''override_configuration'' (en_override e) att;
          y = set_if (en_properties e \<noteq> []) ''properties'' (create_properties A (en_properties e)) x in
      if en_qos e = [] then Inr y
      else res_bind (prepare_qos_obj (new_object A) (en_qos e)) (\<lambda>q. Inr (setattr y ''qos'' q)))"

definition prepare_network_attachment_obj :: "'w apis \<Rightarrow> pyval \<Rightarrow> sn_entry \<Rightarrow> ('w rest_st, pyval) comp" where
  "prepare_network_attachment_obj A host e =
     bindE (if en_update e then
              bindE (get_networks_attachments A [en_network e] host PNone) (\<lambda>l. ret (case l of [] \<Rightarrow> None | x # _ \<Rightarrow> Some x))
            else ret (Some (new_object A ''NetworkAttachment''))) (\<lambda>start.
     case start of
       None \<Rightarrow> ret PNone
     | Some att \<Rightarrow>
         through
           [local_step (attachment_settings A e),
            (\<lambda>x. if truthy (en_nic e) then bindE (attachment_nic A host (en_nic e)) (\<lambda>n. ret (setattr x ''host_nic'' n)) else ret x),
            local_step (\<lambda>x. prepare_ip_object A x (ip_of_entry e)),
            local_step (\<lambda>x. Inr (set_if (en_dns e \<noteq> PNone) ''dns_resolver_configuration'' (prepare_network_dns_object A (en_dns e)) x)),
            (\<lambda>x. if truthy (en_network e) \<and> \<not> en_update e then
                   bindE (find_network A (en_network e) (en_datacenter e) (en_cluster e)) (\<lambda>n. ret (setattr x ''network'' n))
                 else ret x)]
           att)"

section \<open>Bonds\<close>

text \<open>The first option of the name gets the value; an option that is missing is an IndexError.\<close>

fun set_option :: "string \<Rightarrow> pyval \<Rightarrow> pyval list \<Rightarrow> exn + pyval list" where
  "set_option n v [] = Inl IndexError"
| "set_option n v (x # xs) =
     res_bind (getattr x ''name'') (\<lambda>m.
     if py_eq m (PStr n) then res_bind (map_res (\<lambda>y. getattr y ''name'') xs) (\<lambda>_. Inr (setattr x ''value'' v # xs))
     else res_bind (set_option n v xs) (\<lambda>ys. Inr (x # ys)))"

definition with_option :: "string \<Rightarrow> pyval \<Rightarrow> pyval \<Rightarrow> exn + pyval" where
  "with_option n v options =
     (if truthy v then
        res_bind (getattr options ''option'') (\<lambda>l. res_bind (py_iter l) (\<lambda>os.
        res_bind (set_option n v os) (\<lambda>os'. Inr (setattr options ''option'' (PList os')))))
      else Inr options)"

definition added_option :: "'w apis \<Rightarrow> bool \<Rightarrow> string \<Rightarrow> pyval \<Rightarrow> pyval \<Rightarrow> exn + pyval" where
  "added_option A wanted n v options =
     (if wanted then
        res_bind (construct (new_object A ''Option'') [(''name'', PStr n), (''value'', v)]) (\<lambda>x. add_member ''option'' x options)
      else Inr options)"

text \<open>NIC, bonding, slaves and options to start from: those of the host, or new ones.\<close>

definition bond_start :: "'w apis \<Rightarrow> pyval \<Rightarrow> sn_entry \<Rightarrow> ('w rest_st, pyval \<times> pyval \<times> pyval \<times> pyval) comp" where
  "bond_start A host e =
     (if en_update e then
        bindE (get_host_nic A host (en_nic e) False) (\<lambda>found.
        lift_res (res_bind (getattr (opt_val found) ''bonding'') (\<lambda>b.
          res_bind (getattr b ''slaves'') (\<lambda>sl. res_bind (getattr b ''options'') (\<lambda>os.
          res_bind (with_option ''mode'' (en_mode e) os) (\<lambda>os1. res_bind (with_option ''miimon'' (en_miimon e) os1) (\<lambda>os2.
          Inr (opt_val found, b, sl, os2))))))))
      else
        lift_res (res_bind (added_option A (en_mode e \<noteq> PNone) ''mode'' (PStr (py_str (en_mode e))) (new_object A ''Options'')) (\<lambda>os1.
          res_bind (added_option A (truthy (en_miimon e)) ''miimon'' (en_miimon e) os1) (\<lambda>os2.
          Inr (new_object A ''HostNic'', new_object A ''Bonding'', new_object A ''HostNics'', os2)))))"

text \<open>The slaves by id; none when the member is not a list.\<close>

definition slaves_by_id :: "pyval \<Rightarrow> exn + (pyval, pyval) dict" where
  "slaves_by_id slaves =
     res_bind (getattr slaves ''host_nic'') (\<lambda>v.
     case py_iter v of
       Inl _ \<Rightarrow> Inr []
     | Inr l \<Rightarrow> res_bind (map_res (\<lambda>x. res_bind (getattr x ''id'') (\<lambda>i. Inr (i, x))) l) (\<lambda>ps. Inr (dict_update [] ps)))"

text \<open>A slave that is there is taken out, one that is not is added under its name.\<close>

definition toggle_slave :: "'w apis \<Rightarrow> pyval \<Rightarrow> string \<Rightarrow> (pyval, pyval) dict \<Rightarrow> ('w rest_st, (pyval, pyval) dict) comp" where
  "toggle_slave A host slave d =
     bindE (get_host_nic A host (PStr slave) False) (\<lambda>found.
     bindE (if truthy (opt_val found) then lift_res (res_bind (getattr (opt_val found) ''id'') (\<lambda>i. Inr (Some i))) else ret None) (\<lambda>nic_id.
     case nic_id of
       Some i \<Rightarrow>
         if (case map_of d i of None \<Rightarrow> False | Some x \<Rightarrow> truthy x) then ret (dict_del d i)
         else lift_res (res_bind (construct (new_object A ''HostNic'') [(''name'', PStr (strip slave))]) (\<lambda>x. Inr (dict_set d (PStr slave) x)))
     | None \<Rightarrow> lift_res (res_bind (construct (new_object A ''HostNic'') [(''name'', PStr (strip slave))]) (\<lambda>x. Inr (dict_set d (PStr slave) x)))))"

definition prepare_bond_attachment_obj :: "'w apis \<Rightarrow> pyval \<Rightarrow> sn_entry \<Rightarrow> ('w rest_st, pyval) comp" where
  "prepare_bond_attachment_obj A host e =
     bindE (bond_start A host e) (\<lambda>(nic, bond, slaves, options).
     let nic1 = set_if (truthy (en_nic e)) ''name'' (en_nic e) nic in
     bindE (if en_slaves e = [] then ret bond
            else
              bindE (lift_res (slaves_by_id slaves)) (\<lambda>d.
              bindE (for_each (en_slaves e) (toggle_slave A host) d) (\<lambda>d1.
              ret (setattr bond ''slaves'' (setattr slaves ''host_nic'' (PList (map snd d1))))))) (\<lambda>bond1.
     ret (setattr nic1 ''bonding'' (setattr bond1 ''options'' options))))"


section \<open>Preparing a set-up\<close>

text \<open>What is to be removed: lists of names under the keys of the three kinds; other keys are passed over.\<close>

type_synonym sn_removed = "pyval \<times> pyval \<times> pyval"

definition remove_kind :: "'w apis \<Rightarrow> pyval \<Rightarrow> string \<times> pyval list \<Rightarrow> sn_removed \<Rightarrow> ('w rest_st, sn_removed) comp" where
  "remove_kind A host kn acc =
     (case acc of (bonds, attachments, labels) \<Rightarrow> case kn of (k, names) \<Rightarrow>
      if k = ''networks'' then
        bindE (get_networks_attachments A names host PNone) (\<lambda>l.
        lift_res (res_bind (fold_res (add_member ''network_attachment'') l attachments) (\<lambda>a. Inr (bonds, a, labels))))
      else if k = ''bonds'' then
        bindE (for_each names (\<lambda>b x. bindE (get_host_nic A host b False) (\<lambda>n. lift_res (add_member ''host_nic'' (opt_val n) x))) bonds) (\<lambda>b.
        ret (b, attachments, labels))
      else if k = ''labels'' then
        bindE (get_host_nics_list A host False) (\<lambda>v.
        bindE (lift_res (py_iter v)) (\<lambda>nics.
        bindE (get_host_nic_label_objs_by_id A nics names) (\<lambda>l.
        lift_res (res_bind (fold_res (add_member ''network_label'') l labels) (\<lambda>x. Inr (bonds, attachments, x))))))
      else ret acc)"

definition prepare_remove_for_setupnetworks :: "'w apis \<Rightarrow> pyval \<Rightarrow> (string, pyval list) dict \<Rightarrow> ('w rest_st, sn_removed) comp" where
  "prepare_remove_for_setupnetworks A host d =
     for_each d (remove_kind A host) (new_object A ''HostNics'', new_object A ''NetworkAttachments'', new_object A ''NetworkLabels'')"

definition create_host_nic_label_object :: "pyval \<Rightarrow> pyval \<Rightarrow> pyval" where
  "create_host_nic_label_object nic label = setattr label ''host_nic'' nic"

definition add_labels :: "'w apis \<Rightarrow> pyval \<Rightarrow> sn_entry \<Rightarrow> pyval \<Rightarrow> ('w rest_st, pyval) comp" where
  "add_labels A host e labels =
     (if en_labels e = [] then ret labels
      else
        bindE (get_host_nic A host (en_nic e) False) (\<lambda>nic.
        lift_res (fold_res (\<lambda>l. add_member ''network_label'' (create_host_nic_label_object (opt_val nic) (create_label A l))) (en_labels e) labels)))"

definition add_entry :: "'w apis \<Rightarrow> pyval \<Rightarrow> sn_entry \<Rightarrow> sn_removed \<Rightarrow> ('w rest_st, sn_removed) comp" where
  "add_entry A host e acc =
     (case acc of (attachments, bonds, labels) \<Rightarrow>
      bindE (if en_slaves e \<noteq> [] \<or> truthy (en_mode e) then
               bindE (prepare_bond_attachment_obj A host e) (\<lambda>b. lift_res (add_member ''host_nic'' b bonds))
             else ret bonds) (\<lambda>bonds1.
      bindE (if truthy (en_network e) then
               bindE (prepare_network_attachment_obj A host e) (\<lambda>a. lift_res (add_member ''network_attachment'' a attachments))
             else ret attachments) (\<lambda>attachments1.
      bindE (add_labels A host e labels) (\<lambda>labels1. ret (attachments1, bonds1, labels1)))))"

text \<open>Attachments and labels go on from what is there, the bonds from a new list.\<close>

definition prepare_add_for_setupnetworks ::
  "'w apis \<Rightarrow> pyval \<Rightarrow> pyval \<Rightarrow> pyval \<Rightarrow> sn_entry list \<Rightarrow> bool \<Rightarrow> ('w rest_st, sn_removed) comp" where
  "prepare_add_for_setupnetworks A attachments labels host entries update =
     for_each (map (\<lambda>e. if update then e\<lparr>en_update := True\<rparr> else e) entries) (add_entry A host)
       (attachments, new_object A ''HostNics'', labels)"

section \<open>Unmanaged networks\<close>

definition get_host_unmanaged_networks :: "'w apis \<Rightarrow> pyval \<Rightarrow> pyval list \<Rightarrow> ('w rest_st, pyval) comp" where
  "get_host_unmanaged_networks A host networks =
     bindE (get_host_unmanaged_objects A host) (\<lambda>v.
     if networks = [] then ret v
     else
       lift_res (res_bind (py_iter v) (\<lambda>l.
       res_bind (filter_res (\<lambda>x. res_bind (getattr x ''name'') (\<lambda>n. Inr (list_ex (py_eq n) networks))) l) (\<lambda>m. Inr (PList m)))))"

fun delete_each :: "'w rest_env \<Rightarrow> pyval list \<Rightarrow> ('w rest_st, bool) comp" where
  "delete_each E [] = ret True"
| "delete_each E (x # xs) = bindE (delete_element E x True) (\<lambda>ok. if ok then delete_each E xs else ret False)"

definition remove_unmanaged_networks :: "'w apis \<Rightarrow> pyval \<Rightarrow> pyval list \<Rightarrow> ('w rest_st, bool) comp" where
  "remove_unmanaged_networks A host networks =
     bindE (get_host_unmanaged_networks A host networks) (\<lambda>v.
     bindE (lift_res (py_iter v)) (delete_each (UNMANAGED_NETWORKS_API A)))"

section \<open>Networks on a NIC\<close>

definition host_and_nic :: "'w apis \<Rightarrow> string \<Rightarrow> pyval \<Rightarrow> ('w rest_st, pyval \<times> pyval) comp" where
  "host_and_nic A host_name nic =
     bindE (get_host_object A host_name ''name'') (\<lambda>h. bindE (get_host_nic A h nic False) (\<lambda>n. ret (h, opt_val n)))"

definition remove_networks_from_host :: "'w apis \<Rightarrow> string \<Rightarrow> pyval list \<Rightarrow> pyval \<Rightarrow> ('w rest_st, bool) comp" where
  "remove_networks_from_host A host_name networks nic =
     bindE (host_and_nic A host_name nic) (\<lambda>(h, n).
     bindE (get_networks_attachments A networks h n) (\<lambda>l.
     if l = [] then ret False else delete_each (NETWORK_ATTACHMENT_API A) l))"

definition add_network_to_host :: "'w apis \<Rightarrow> string \<Rightarrow> pyval \<Rightarrow> sn_entry \<Rightarrow> ('w rest_st, bool) comp" where
  "add_network_to_host A host_name nic_name e =
     bindE (host_and_nic A host_name (if truthy nic_name then nic_name else en_nic e)) (\<lambda>(h, n).
     bindE (prepare_network_attachment_obj A h e) (\<lambda>att.
     bindE (get_attachment_href A n) (\<lambda>href.
     bindE (create_in (NETWORK_ATTACHMENT_API A) att True href ''network_attachment'' False) (\<lambda>(_, status). ret status))))"

definition update_network_on_host :: "'w apis \<Rightarrow> string \<Rightarrow> pyval \<Rightarrow> sn_entry \<Rightarrow> ('w rest_st, bool) comp" where
  "update_network_on_host A host_name nic_name e =
     bindE (host_and_nic A host_name nic_name) (\<lambda>(h, n).
     bindE (get_networks_attachments A [en_network e] h n) (\<lambda>l.
     case l of
       [] \<Rightarrow> ret False
     | old # _ \<Rightarrow>
         bindE (prepare_network_attachment_obj A h e) (\<lambda>new. update_element (NETWORK_ATTACHMENT_API A) old new True)))"

section \<open>Setting up networks\<close>

record sn_args =
  sn_remove :: "(string, pyval list) dict"
  sn_add :: "sn_entry list"
  sn_update :: "sn_entry list"
  sn_sync :: "pyval list option"
  sn_persist :: bool
  sn_check :: pyval
  sn_timeout :: pyval

text \<open>
  The bonds of an update take the place of those to be added, while attachments and labels are
  collected from both.
\<close>

definition setup_changes :: "'w apis \<Rightarrow> pyval \<Rightarrow> sn_args \<Rightarrow> ('w rest_st, sn_removed) comp" where
  "setup_changes A host a =
     bindE (if sn_add a = [] then ret (new_object A ''NetworkAttachments'', new_object A ''HostNics'', new_object A ''NetworkLabels'')
            else prepare_add_for_setupnetworks A (new_object A ''NetworkAttachments'') (new_object A ''NetworkLabels'') host (sn_add a) False)
       (\<lambda>(attachments, bonds, labels).
     if sn_update a = [] then ret (attachments, bonds, labels)
     else prepare_add_for_setupnetworks A attachments labels host (sn_update a) True)"

definition setup_params :: "'w apis \<Rightarrow> pyval \<Rightarrow> sn_args \<Rightarrow> ('w rest_st, action_args) comp" where
  "setup_params A host a =
     bindE (if sn_remove a = [] then ret (new_object A ''HostNics'', new_object A ''NetworkAttachments'', new_object A ''NetworkLabels'')
            else prepare_remove_for_setupnetworks A host (sn_remove a)) (\<lambda>(removed_bonds, removed_attachments, removed_labels).
     bindE (setup_changes A host a) (\<lambda>(attachments, bonds, labels).
     bindE (case sn_sync a of
              None \<Rightarrow> ret (new_object A ''NetworkAttachments'')
            | Some names \<Rightarrow>
                bindE (get_networks_attachments A names host PNone) (\<lambda>l.
                ret (setattr (new_object A ''NetworkAttachments'') ''network_attachment'' (PList l)))) (\<lambda>synced.
     ret (action_default\<lparr>aa_params :=
       [(''modified_network_attachments'', attachments), (''removed_network_attachments'', removed_attachments),
        (''modified_bonds'', bonds), (''removed_bonds'', removed_bonds), (''modified_labels'', labels), (''removed_labels'', removed_labels),
        (''synchronized_network_attachments'', synced), (''connectivity_timeout'', sn_timeout a), (''check_connectivity'', sn_check a)]\<rparr>))))"

definition send_setup :: "'w apis \<Rightarrow> pyval \<Rightarrow> action_args \<Rightarrow> ('w rest_st, bool) comp" where
  "send_setup A host params = bindE (syncAction (HOST_API A) host ''setupnetworks'' True params) (\<lambda>r. ret (truthy r))"

text \<open>\<open>commit_network_config\<close> gets the name of the host.\<close>

definition setup_networks :: "'w rest_st os_time \<Rightarrow> 'w apis \<Rightarrow> string \<Rightarrow> bool \<Rightarrow> sn_args \<Rightarrow> ('w rest_st, bool) wcomp" where
  "setup_networks T A host_name retry a =
     bindW (run (get_host_object A host_name ''name'')) (\<lambda>host.
     bindW (run (setup_params A host a)) (\<lambda>params.
     bindW (run (send_setup A host params)) (\<lambda>ok.
     bindW (if \<not> ok \<and> retry then func_status T (send_setup A host params) 15 1 else retW ok) (\<lambda>res.
     if sn_persist a \<and> res then run (commit_network_config A host_name) else retW res))))"

section \<open>Cleaning a host\<close>

definition network_to_clean :: "'w apis \<Rightarrow> bool \<Rightarrow> pyval \<Rightarrow> pyval \<Rightarrow> pyval \<Rightarrow> ('w rest_st, pyval list) comp" where
  "network_to_clean A remove_gluster host mgmt att =
     bindE (get_network_name_from_attachment A att) (\<lambda>n.
     bindE (if remove_gluster then ret False
            else bindE (lift_res (getattr host ''cluster'')) (\<lambda>c. is_gluster_network A (py_str n) c)) (\<lambda>gluster.
     ret (if gluster \<or> py_eq n mgmt then [] else [n])))"

definition bond_to_clean :: "pyval \<Rightarrow> pyval \<Rightarrow> exn + pyval list" where
  "bond_to_clean mgmt nic =
     res_bind (getattr nic ''name'') (\<lambda>nm. res_bind (as_string nm) (\<lambda>n.
     if startswith n ''bond'' \<and> \<not> contains n ''.'' then
       res_bind (getattr nic ''network'') (\<lambda>net.
       if truthy net then res_bind (getattr net ''name'') (\<lambda>m. Inr (if py_eq m mgmt then [] else [nm])) else Inr [nm])
     else Inr []))"

definition nic_to_clean :: "'w apis \<Rightarrow> pyval \<Rightarrow> pyval \<Rightarrow> ('w rest_st, pyval list \<times> pyval list) comp" where
  "nic_to_clean A mgmt nic =
     bindE (lift_res (bond_to_clean mgmt nic)) (\<lambda>b.
     bindE (get_host_nic_labels A nic) (\<lambda>v.
     lift_res (res_bind (py_iter v) (\<lambda>ls. res_bind (map_res (\<lambda>x. getattr x ''id'') ls) (\<lambda>is. Inr (b, is))))))"

definition clean_args :: "pyval list \<Rightarrow> pyval list \<Rightarrow> pyval list \<Rightarrow> sn_args" where
  "clean_args networks bonds labels =
     \<lparr>sn_remove = [(''networks'', networks), (''bonds'', bonds), (''labels'', labels)], sn_add = [], sn_update = [], sn_sync = None,
      sn_persist = True, sn_check = PBool True, sn_timeout = PInt CONNECTIVITY_TIMEOUT\<rparr>"

definition things_to_clean :: "'w apis \<Rightarrow> pyval \<Rightarrow> bool \<Rightarrow> ('w rest_st, pyval list \<times> pyval list \<times> pyval list) comp" where
  "things_to_clean A host remove_gluster =
     bindE (get_host_network_attachments A host) (\<lambda>atts.
     bindE (lift_res (getattr host ''name'')) (\<lambda>host_name.
     bindE (get_host_cluster A (py_str host_name)) (\<lambda>cluster.
     bindE (get_cluster_object A (py_str cluster) True) (\<lambda>cl.
     bindE (lift_res (getattr_chain [''management_network'', ''id''] cl)) (\<lambda>i.
     bindE (get_object_name_by_id (NET_API A) i) (\<lambda>mgmt.
     bindE (get_host_nics_list A host False) (\<lambda>nv.
     bindE (lift_res (py_iter atts)) (\<lambda>al.
     bindE (map_comp (network_to_clean A remove_gluster host mgmt) al) (\<lambda>networks.
     bindE (lift_res (py_iter nv)) (\<lambda>nics.
     bindE (map_comp (nic_to_clean A mgmt) nics) (\<lambda>found.
     ret (concat networks, concat (map fst found), concat (map snd found)))))))))))))"

definition clean_host_interfaces :: "'w rest_st os_time \<Rightarrow> 'w apis \<Rightarrow> string \<Rightarrow> bool \<Rightarrow> ('w rest_st, bool) wcomp" where
  "clean_host_interfaces T A host_name remove_gluster =
     bindW (run (get_host_object A host_name ''name'')) (\<lambda>host.
     bindW (run (things_to_clean A host remove_gluster)) (\<lambda>(networks, bonds, labels).
     bindW (run (remove_unmanaged_networks A host [])) (\<lambda>ok.
     if \<not> ok then retW False
     else if networks @ bonds @ labels = [] then retW True
     else setup_networks T A host_name False (clean_args networks bonds labels))))"

section \<open>What is known of the networks of a host\<close>

definition get_attached_networks_names_from_host_nic :: "'w apis \<Rightarrow> string \<Rightarrow> pyval \<Rightarrow> ('w rest_st, pyval list) comp" where
  "get_attached_networks_names_from_host_nic A host_name nic =
     bindE (host_and_nic A host_name nic) (\<lambda>(_, n).
     bindE (get_host_nic_network_attachments A n) (\<lambda>v.
     bindE (lift_res (py_iter v)) (map_comp (get_network_name_from_attachment A))))"

definition get_host_unmanaged_networks_info :: "'w apis \<Rightarrow> string \<Rightarrow> ('w rest_st, (pyval, pyval) dict) comp" where
  "get_host_unmanaged_networks_info A host_name =
     bindE (get_host_object A host_name ''name'') (\<lambda>h.
     bindE (get_host_unmanaged_objects A h) (\<lambda>v.
     lift_res (res_bind (py_iter v) (\<lambda>l.
       fold_res (\<lambda>u d. res_bind (getattr u ''name'') (\<lambda>n. res_bind (getattr_chain [''host_nic'', ''name''] u) (\<lambda>m. Inr (dict_set d n m)))) l []))))"

definition get_unsync_network_attachments :: "'w apis \<Rightarrow> string \<Rightarrow> pyval list \<Rightarrow> ('w rest_st, pyval list) comp" where
  "get_unsync_network_attachments A host_name networks =
     bindE (get_host_object A host_name ''name'') (\<lambda>h.
     bindE (if networks \<noteq> [] then get_networks_attachments A networks h PNone
            else bindE (get_host_network_attachments A h) (\<lambda>v. lift_res (py_iter v))) (\<lambda>l.
     lift_res (filter_res (\<lambda>x. res_bind (getattr x ''in_sync'') (\<lambda>b. Inr (\<not> truthy b))) l)))"

text \<open>
  One dictionary of reasons is made before the loop, filled by all attachments and stored under every
  network: \<open>note_reasons\<close> changes it, and the result has it once for each name.
\<close>

type_synonym reasons = "(pyval, pyval \<times> pyval) dict"

definition note_reason :: "pyval \<Rightarrow> reasons \<Rightarrow> exn + reasons" where
  "note_reason r d =
     res_bind (getattr r ''name'') (\<lambda>n. res_bind (getattr r ''expected_value'') (\<lambda>x. res_bind (getattr r ''actual_value'') (\<lambda>y.
     Inr (dict_set d n (x, y)))))"

definition note_reasons :: "'w apis \<Rightarrow> pyval \<Rightarrow> pyval list \<times> reasons \<Rightarrow> ('w rest_st, pyval list \<times> reasons) comp" where
  "note_reasons A att acc =
     bindE (get_network_name_from_attachment A att) (\<lambda>n.
     lift_res (res_bind (get_attachment_reported_configurations att) (\<lambda>v. res_bind (py_iter v) (\<lambda>l.
       res_bind (fold_res note_reason l (snd acc)) (\<lambda>d. Inr (fst acc @ [n], d))))))"

definition get_networks_unsync_reason :: "'w apis \<Rightarrow> string \<Rightarrow> pyval list \<Rightarrow> ('w rest_st, (pyval, reasons) dict) comp" where
  "get_networks_unsync_reason A host_name networks =
     bindE (get_unsync_network_attachments A host_name networks) (\<lambda>l.
     bindE (for_each l (note_reasons A) ([], [])) (\<lambda>(names, d).
     ret (fold (\<lambda>n r. dict_set r n d) names [])))"

definition check_network_on_nic :: "'w apis \<Rightarrow> pyval \<Rightarrow> string \<Rightarrow> pyval \<Rightarrow> ('w rest_st, bool) comp" where
  "check_network_on_nic A network host nic =
     bindE (get_attached_networks_names_from_host_nic A host nic) (\<lambda>l. ret (list_ex (py_eq network) l))"


section \<open>What is shown\<close>

lemma through_never_back [never_back_intros]:
  "(\<And>f y. f \<in> set fs \<Longrightarrow> never_back clk (f y)) \<Longrightarrow> never_back clk (through fs x)"
  by (induction fs arbitrary: x) (auto intro!: never_back_intros)

lemma host_apis_keep_time:
  assumes "apis_keep_time clk A"
  shows "keeps_time clk (HOST_NICS_API A)" "keeps_time clk (NETWORK_ATTACHMENT_API A)" "keeps_time clk (UNMANAGED_NETWORKS_API A)"
  using apis_keep_timeD [OF assms] by (simp_all add: HOST_NICS_API_def NETWORK_ATTACHMENT_API_def UNMANAGED_NETWORKS_API_def)

lemmas host_look_ups = get_host_object_def get_host_nics_list_def get_host_nic_def get_object_name_by_id_def
  get_host_network_attachments_def get_host_nic_network_attachments_def get_network_name_from_attachment_def

lemma host_looks_never_back:
  assumes "apis_keep_time clk A"
  shows "never_back (server_time clk) (get_host_object A n a)"
    and "never_back (server_time clk) (get_host_nics_list A h ac)"
    and "never_back (server_time clk) (get_host_nic A h m ac)"
    and "never_back (server_time clk) (get_host_network_attachments A h)"
    and "never_back (server_time clk) (get_host_nic_network_attachments A h)"
    and "never_back (server_time clk) (get_network_name_from_attachment A h)"
    and "never_back (server_time clk) (get_host_nic_labels A h)"
  unfolding host_look_ups get_host_nic_labels_def
  by (intro never_back_intros request_intros api_keeps_time host_apis_keep_time assms)+

lemma networks_attachments_never_back: "apis_keep_time clk A \<Longrightarrow> never_back (server_time clk) (get_networks_attachments A ns h n)"
  unfolding get_networks_attachments_def by (intro never_back_intros host_looks_never_back)

lemma find_network_never_back: "apis_keep_time clk A \<Longrightarrow> never_back (server_time clk) (find_network A n dc cl)"
  unfolding find_network_def network_in_def get_object_name_by_id_def get_networks_in_datacenter_def
  by (intro never_back_intros request_intros api_keeps_time host_apis_keep_time, assumption?)

lemma attachment_obj_never_back: "apis_keep_time clk A \<Longrightarrow> never_back (server_time clk) (prepare_network_attachment_obj A h e)"
  unfolding prepare_network_attachment_obj_def attachment_nic_def local_step_def
  by (intro never_back_intros networks_attachments_never_back find_network_never_back host_looks_never_back)
    (auto intro!: never_back_intros find_network_never_back host_looks_never_back split: option.split)

lemma bond_obj_never_back: "apis_keep_time clk A \<Longrightarrow> never_back (server_time clk) (prepare_bond_attachment_obj A h e)"
  unfolding prepare_bond_attachment_obj_def bond_start_def toggle_slave_def Let_def
  by (intro never_back_intros host_looks_never_back)

lemma changes_never_back: "apis_keep_time clk A \<Longrightarrow> never_back (server_time clk) (setup_changes A h a)"
  unfolding setup_changes_def prepare_add_for_setupnetworks_def add_entry_def add_labels_def
  by (intro never_back_intros attachment_obj_never_back bond_obj_never_back host_looks_never_back)

lemma setup_params_never_back: "apis_keep_time clk A \<Longrightarrow> never_back (server_time clk) (setup_params A h a)"
  unfolding setup_params_def prepare_remove_for_setupnetworks_def remove_kind_def get_host_nic_label_objs_by_id_def
  by (intro never_back_intros changes_never_back networks_attachments_never_back host_looks_never_back)

lemma send_setup_never_back: "apis_keep_time clk A \<Longrightarrow> never_back (server_time clk) (send_setup A h p)"
  unfolding send_setup_def by (intro never_back_intros request_intros api_keeps_time)

lemma commit_never_back: "apis_keep_time clk A \<Longrightarrow> never_back (server_time clk) (commit_network_config A h)"
  unfolding commit_network_config_def by (intro never_back_intros request_intros host_looks_never_back api_keeps_time)

lemma map_comp_source:
  assumes "map_comp f xs w = (Inr ys, w')" and "y \<in> set ys"
  shows "\<exists>x v v'. x \<in> set xs \<and> f x v = (Inr y, v')"
  using assms
proof (induction xs arbitrary: w ys)
  case (Cons z zs)
  then obtain b v ys' where "f z w = (Inr b, v)" "map_comp f zs v = (Inr ys', w')" "ys = b # ys'"
    by (auto simp: ret_apply elim!: bindE_InrE)
  with Cons show ?case by (cases "y = b") fastforce+
qed (simp add: ret_apply)

text \<open>
  C31. A set-up of networks always comes back, also with retries. True means that the engine accepted
  the request last sent and, when the configuration is to be kept, the commit after it.
\<close>

theorem setup_networks_verdict:
  assumes "clock_laws T (server_time clk)" and "apis_keep_time clk A"
  shows "\<exists>r w'. setup_networks T A host_name retry a w = Some (r, w') \<and>
    (r = Inr True \<longrightarrow> (\<exists>host u params u' v v'. get_host_object A host_name ''name'' w = (Inr host, u) \<and>
       setup_params A host a u = (Inr params, u') \<and> send_setup A host params v = (Inr True, v') \<and>
       (if sn_persist a then commit_network_config A host_name v' = (Inr True, w') else v' = w')))"
proof -
  have "comes_back (server_time clk) (setup_networks T A host_name retry a)"
    unfolding setup_networks_def
    by (intro comes_back_intros host_looks_never_back setup_params_never_back send_setup_never_back commit_never_back never_back_intros assms) simp
  then obtain r w' where r: "setup_networks T A host_name retry a w = Some (r, w')"
    unfolding comes_back_def by blast
  have "\<exists>host u params u' v v'. get_host_object A host_name ''name'' w = (Inr host, u) \<and>
       setup_params A host a u = (Inr params, u') \<and> send_setup A host params v = (Inr True, v') \<and>
       (if sn_persist a then commit_network_config A host_name v' = (Inr True, w') else v' = w')" if "r = Inr True"
  proof -
    from r that obtain host u params u' ok v res v' where l: "get_host_object A host_name ''name'' w = (Inr host, u)"
      "setup_params A host a u = (Inr params, u')" and s: "send_setup A host params u' = (Inr ok, v)"
      and f: "(if \<not> ok \<and> retry then func_status T (send_setup A host params) 15 1 else retW ok) v = Some (Inr res, v')"
      and c: "(if sn_persist a \<and> res then run (commit_network_config A host_name) else retW res) v' = Some (Inr True, w')"
      by (auto simp: setup_networks_def elim!: bindW_InrE)
    from c have res and e: "if sn_persist a then commit_network_config A host_name v' = (Inr True, w') else v' = w'"
      by (auto simp: ret_apply split: if_splits)
    have "\<exists>v. send_setup A host params v = (Inr True, v')"
    proof (cases "\<not> ok \<and> retry")
      case True
      with f \<open>res\<close> func_status_Inr [OF assms(1), of "send_setup A host params" 15 1 v True v'] show ?thesis by simp
    next
      case False
      with f s \<open>res\<close> show ?thesis by (auto simp: ret_apply)
    qed
    with l e show ?thesis by blast
  qed
  with r show ?thesis by blast
qed

lemma for_each_Inr_inv:
  assumes "for_each xs f s w = (Inr s', w')" and "P s" and "\<And>x s w s' w'. x \<in> set xs \<Longrightarrow> P s \<Longrightarrow> f x s w = (Inr s', w') \<Longrightarrow> P s'"
  shows "P s'"
  using assms by (induction xs arbitrary: s w) (auto simp: ret_apply elim!: bindE_InrE, blast)

text \<open>
  With an update that is not about bonds the request carries no bond, whatever bonds were to be
  added in the same call: those are lost.
\<close>

theorem update_drops_added_bonds:
  assumes "setup_params A host a w = (Inr p, w')" and "sn_update a \<noteq> []"
    and "\<forall>e \<in> set (sn_update a). en_slaves e = [] \<and> \<not> truthy (en_mode e)"
  shows "map_of (aa_params p) ''modified_bonds'' = Some (new_object A ''HostNics'')"
proof -
  from assms(1) obtain att bonds labels v v' where b: "setup_changes A host a v = (Inr (att, bonds, labels), v')"
    "map_of (aa_params p) ''modified_bonds'' = Some bonds"
    by (auto simp: setup_params_def ret_apply split: prod.splits elim!: bindE_InrE)
  from b(1) assms(2) obtain att0 labels0 u where
    "prepare_add_for_setupnetworks A att0 labels0 host (sn_update a) True u = (Inr (att, bonds, labels), v')"
    by (auto simp: setup_changes_def split: prod.splits elim!: bindE_InrE)
  then have "fst (snd (att, bonds, labels)) = new_object A ''HostNics''"
    unfolding prepare_add_for_setupnetworks_def
    by (rule for_each_Inr_inv [where P = "\<lambda>acc. fst (snd acc) = new_object A ''HostNics''"])
      (use assms(3) in \<open>auto simp: add_entry_def ret_apply elim!: bindE_InrE split: prod.splits\<close>)
  with b(2) show ?thesis by simp
qed

text \<open>
  The reasons why networks are not in sync are one dictionary, stored under the name of every
  network: each network is given the reasons of all of them.
\<close>

theorem unsync_reasons_shared:
  assumes "get_networks_unsync_reason A host_name networks w = (Inr r, w')" and "(n, d) \<in> set r" and "(m, d') \<in> set r"
  shows "d = d'"
proof -
  from assms(1) obtain names d0 where r: "r = fold (\<lambda>n r. dict_set r n d0) names []"
    by (auto simp: get_networks_unsync_reason_def ret_apply split: prod.splits elim!: bindE_InrE)
  have set: "x \<in> set (dict_set q k v) \<Longrightarrow> x \<in> set q \<or> x = (k, v)" for x q k and v :: reasons
    by (induction q k v rule: dict_set.induct) (auto split: if_splits)
  have "\<forall>x \<in> set (fold (\<lambda>n r. dict_set r n d0) names q). x \<in> set q \<or> snd x = d0" for q
  proof (induction names arbitrary: q)
    case (Cons k names)
    then show ?case using set by fastforce
  qed simp
  then have "snd x = d0" if "x \<in> set r" for x using that r by (metis emptyE list.set(1))
  from this [OF assms(2)] this [OF assms(3)] show ?thesis by simp
qed

text \<open>
  The look-ups a cleaning begins with: the attachments of the host, the cluster of the host of its name,
  the network that this cluster names as its management network, and the NICs of the host.
\<close>

definition clean_look_ups :: "'w apis \<Rightarrow> pyval \<Rightarrow> 'w rest_st \<Rightarrow> pyval list \<Rightarrow> pyval \<Rightarrow> pyval \<Rightarrow> pyval \<Rightarrow> 'w rest_st \<Rightarrow> bool" where
  "clean_look_ups A host w al cl mgmt nv w' \<longleftrightarrow>
     (\<exists>atts w1 n cluster w2 w3 i w4.
        get_host_network_attachments A host w = (Inr atts, w1) \<and> py_iter atts = Inr al \<and> getattr host ''name'' = Inr n \<and>
        get_host_cluster A (py_str n) w1 = (Inr cluster, w2) \<and> get_cluster_object A (py_str cluster) True w2 = (Inr cl, w3) \<and>
        getattr_chain [''management_network'', ''id''] cl = Inr i \<and> get_object_name_by_id (NET_API A) i w3 = (Inr mgmt, w4) \<and>
        get_host_nics_list A host False w4 = (Inr nv, w'))"

lemma things_to_clean_begins:
  assumes "things_to_clean A host remove_gluster w = (Inr (networks, bonds, labels), w')"
  shows "\<exists>al cl mgmt nv u nets u1 nics found. clean_look_ups A host w al cl mgmt nv u \<and>
    map_comp (network_to_clean A remove_gluster host mgmt) al u = (Inr nets, u1) \<and> networks = concat nets \<and>
    py_iter nv = Inr nics \<and> map_comp (nic_to_clean A mgmt) nics u1 = (Inr found, w') \<and> bonds = concat (map fst found)"
  using assms unfolding things_to_clean_def clean_look_ups_def
  by (elim bindE_InrE) (auto simp: lift_res_def ret_apply simp del: getattr_chain.simps)

text \<open>
  C32. Cleaning a host that is found: what is named for removal does not hold the management network of
  the cluster of this host, every network named is attached to the host, and what is taken for a bond is
  a NIC of the host that has the name of a bond, not that of a VLAN on it, and does not carry the
  management network.
\<close>

theorem things_to_clean_safe:
  assumes "things_to_clean A host remove_gluster w = (Inr (networks, bonds, labels), w')"
  shows "\<exists>al cl mgmt nv nics u. clean_look_ups A host w al cl mgmt nv u \<and> py_iter nv = Inr nics \<and>
    (\<forall>n \<in> set networks. \<not> py_eq n mgmt \<and> (\<exists>att \<in> set al. \<exists>v v'. get_network_name_from_attachment A att v = (Inr n, v'))) \<and>
    (\<forall>b \<in> set bonds. \<exists>nic \<in> set nics. \<exists>n net. getattr nic ''name'' = Inr b \<and> as_string b = Inr n \<and>
       startswith n ''bond'' \<and> \<not> contains n ''.'' \<and>
       getattr nic ''network'' = Inr net \<and> (truthy net \<longrightarrow> (\<exists>m. getattr net ''name'' = Inr m \<and> \<not> py_eq m mgmt)))"
proof -
  from things_to_clean_begins [OF assms] obtain al cl mgmt nv u nets u1 nics found where
    found: "clean_look_ups A host w al cl mgmt nv u" "py_iter nv = Inr nics"
    and nets: "map_comp (network_to_clean A remove_gluster host mgmt) al u = (Inr nets, u1)" "networks = concat nets"
    and bonds: "map_comp (nic_to_clean A mgmt) nics u1 = (Inr found, w')" "bonds = concat (map fst found)" by blast
  have "\<not> py_eq n mgmt \<and> (\<exists>att \<in> set al. \<exists>v v'. get_network_name_from_attachment A att v = (Inr n, v'))"
    if "n \<in> set networks" for n
  proof -
    from nets that obtain ns att v v' where "n \<in> set ns" "att \<in> set al" "network_to_clean A remove_gluster host mgmt att v = (Inr ns, v')"
      by (auto dest!: map_comp_source)
    then have "\<not> py_eq n mgmt" and "\<exists>v v'. get_network_name_from_attachment A att v = (Inr n, v')"
      by (auto simp: network_to_clean_def ret_apply elim!: bindE_InrE split: if_splits) blast+
    with \<open>att \<in> set al\<close> show ?thesis by blast
  qed
  moreover have "\<exists>nic \<in> set nics. \<exists>n net. getattr nic ''name'' = Inr b \<and> as_string b = Inr n \<and>
       startswith n ''bond'' \<and> \<not> contains n ''.'' \<and>
       getattr nic ''network'' = Inr net \<and> (truthy net \<longrightarrow> (\<exists>m. getattr net ''name'' = Inr m \<and> \<not> py_eq m mgmt))"
    if "b \<in> set bonds" for b
  proof -
    from bonds that obtain bs lbls nic v v' where b: "b \<in> set bs" and nic: "nic \<in> set nics" "nic_to_clean A mgmt nic v = (Inr (bs, lbls), v')"
      by (auto dest!: map_comp_source)
    from nic(2) have "bond_to_clean mgmt nic = Inr bs"
      by (auto simp: nic_to_clean_def lift_res_def res_bind_Inr elim!: bindE_InrE)
    with b nic(1) show ?thesis by (fastforce simp: bond_to_clean_def res_bind_Inr split: if_splits)
  qed
  ultimately show ?thesis using found by blast
qed


section \<open>Witnesses\<close>

definition hn_link :: "string \<Rightarrow> pyval" where
  "hn_link rel = PObj ''Link'' [(''rel'', PStr rel), (''href'', PStr (''/api/x/'' @ rel))]"

definition hn_obj :: "string \<Rightarrow> string \<Rightarrow> string \<Rightarrow> string list \<Rightarrow> (string \<times> pyval) list \<Rightarrow> pyval" where
  "hn_obj c n i rels extra =
     PObj c ([(''name'', PStr n), (''id'', PStr i), (''href'', PStr (''/api/'' @ n)), (''link'', PList (map hn_link rels))] @ extra)"

definition hn_cluster :: pyval where
  "hn_cluster = hn_obj ''Cluster'' ''Default'' ''c1'' [''networks''] [(''management_network'', PObj ''Network'' [(''id'', PStr ''i0'')])]"

definition hn_host :: pyval where
  "hn_host = hn_obj ''Host'' ''h1'' ''h1'' [''networkattachments'', ''nics'', ''unmanagednetworks''] [(''cluster'', hn_cluster)]"

definition hn_attachment :: "string \<Rightarrow> string \<Rightarrow> pyval" where
  "hn_attachment i reason =
     PObj ''NetworkAttachment'' [(''network'', PObj ''Network'' [(''id'', PStr i)]), (''in_sync'', PBool False),
       (''reported_configurations'', PObj ''ReportedConfigurations'' [(''reported_configuration'', PList
          [PObj ''ReportedConfiguration'' [(''name'', PStr reason), (''expected_value'', PStr ''1''), (''actual_value'', PStr ''2'')]])])]"

definition hn_srv :: "nat server_fun" where
  "hn_srv rq w = (Inr \<lparr>resp_status = 200, resp_reason = ''OK'', resp_headers = [], resp_data = req_url rq\<rparr>, w + 1)"

definition hn_parse :: "string \<Rightarrow> pyval" where
  "hn_parse s =
     (if contains s ''networkattachments'' then
        PObj [] [(''network_attachment'', PList [hn_attachment ''i0'' ''mtu'', hn_attachment ''i1'' ''vlan''])]
      else if contains s ''networklabels'' then PObj [] [(''network_label'', PList [PObj ''NetworkLabel'' [(''id'', PStr ''l1'')]])]
      else if contains s ''nics'' then
        PObj [] [(''host_nic'', PList [hn_obj ''HostNic'' ''bond1'' ''b1'' [''networklabels''] [(''network'', PNone)],
                                       hn_obj ''HostNic'' ''eth0'' ''e0'' [''networklabels''] [(''network'', PNone)]])]
      else PObj [] [(''host'', PList [hn_host]), (''cluster'', PList [hn_cluster]),
             (''network'', PList [hn_obj ''Network'' ''ovirtmgmt'' ''i0'' [] [(''usages'', PObj ''Usages'' [(''usage'', PList [PStr ''management''])])],
                                  hn_obj ''Network'' ''net1'' ''i1'' [] [(''usages'', PObj ''Usages'' [(''usage'', PList [])])]])])"

definition hn_new :: "string \<Rightarrow> pyval" where
  "hn_new c = PObj c ([(a, PNone). a \<leftarrow> [''name'', ''id'', ''value'', ''mode'']] @ [(a, PList []). a \<leftarrow> [''host_nic'', ''network_attachment'', ''network_label'', ''option'']])"

definition hn_apis :: "nat apis" where
  "hn_apis el col = demo_rest\<lparr>srv := hn_srv, element_name := el, collection_name := col,
     links := [(col, ''/api/'' @ col), (col @ ''/search'', ''/api/'' @ col)],
     dump_entity := (\<lambda>v n. []), compare_env := demo_env\<lparr>ds_classes := (\<lambda>n. Some (DsClass n [] None))\<rparr>,
     new_ds := hn_new, parse := (\<lambda>s. Inr (hn_parse s))\<rparr>"

definition hn_entry :: sn_entry where
  "hn_entry = \<lparr>en_network = PNone, en_nic = PNone, en_slaves = [], en_mode = PNone, en_miimon = PNone, en_labels = [], en_ip = [],
     en_update = False, en_override = PNone, en_properties = [], en_datacenter = PNone, en_cluster = PNone, en_qos = [], en_dns = PNone\<rparr>"

definition hn_args :: sn_args where
  "hn_args = (clean_args [] [] [])\<lparr>sn_remove := [], sn_add := [hn_entry\<lparr>en_nic := PStr ''bond0'', en_mode := PInt 4\<rparr>], sn_update := [hn_entry]\<rparr>"

lemma hn_apis_keep_time: "apis_keep_time int hn_apis"
  by (simp add: apis_keep_time_def keeps_time_def moves_on_def hn_apis_def hn_srv_def demo_rest_def)

theorem setup_networks_verdict_witness:
  "\<exists>r. setup_networks demo_clock hn_apis ''h1'' True hn_args demo_rest_st = Some r"
  using setup_networks_verdict [OF demo_clock_laws hn_apis_keep_time] by blast

lemma hn_params: "map_sum id (\<lambda>_. ()) (fst (setup_params hn_apis hn_host hn_args demo_rest_st)) = Inr ()"
  by code_simp

lemma hn_reasons: "map_sum id (map fst) (fst (get_networks_unsync_reason hn_apis ''h1'' [] demo_rest_st)) = Inr [PStr ''ovirtmgmt'', PStr ''net1'']"
  by code_simp

lemma hn_clean: "fst (things_to_clean hn_apis hn_host False demo_rest_st) = Inr ([PStr ''net1''], [PStr ''bond1''], [PStr ''l1'', PStr ''l1''])"
  by code_simp

lemma map_sum_Inr: "map_sum id g x = Inr y \<longleftrightarrow> (\<exists>z. x = Inr z \<and> g z = y)"
  by (cases x) auto

theorem update_drops_added_bonds_witness:
  "\<exists>p w'. setup_params hn_apis hn_host hn_args demo_rest_st = (Inr p, w') \<and> map_of (aa_params p) ''modified_bonds'' = Some (hn_new ''HostNics'')"
proof -
  obtain p w' where run: "setup_params hn_apis hn_host hn_args demo_rest_st = (Inr p, w')"
    using hn_params by (cases "setup_params hn_apis hn_host hn_args demo_rest_st") (auto simp: map_sum_Inr)
  have "sn_update hn_args \<noteq> []" "\<forall>e \<in> set (sn_update hn_args). en_slaves e = [] \<and> \<not> truthy (en_mode e)" "new_object hn_apis = hn_new"
    by (auto simp: hn_args_def hn_entry_def new_object_def NET_API_def hn_apis_def)
  with update_drops_added_bonds [OF run] run show ?thesis by auto
qed

theorem unsync_reasons_shared_witness:
  "\<exists>r w' d. get_networks_unsync_reason hn_apis ''h1'' [] demo_rest_st = (Inr r, w') \<and> (PStr ''ovirtmgmt'', d) \<in> set r \<and> (PStr ''net1'', d) \<in> set r"
proof -
  obtain r w' where run: "get_networks_unsync_reason hn_apis ''h1'' [] demo_rest_st = (Inr r, w')" "map fst r = [PStr ''ovirtmgmt'', PStr ''net1'']"
    using hn_reasons by (cases "get_networks_unsync_reason hn_apis ''h1'' [] demo_rest_st") (auto simp: map_sum_Inr)
  then obtain d d' where r: "r = [(PStr ''ovirtmgmt'', d), (PStr ''net1'', d')]" by (cases r; cases "tl r") auto
  then have "d = d'" using unsync_reasons_shared [OF run(1), of "PStr ''ovirtmgmt''" d "PStr ''net1''" d'] by simp
  with run(1) r show ?thesis by auto
qed

theorem things_to_clean_safe_witness:
  "\<exists>al cl mgmt nv u. clean_look_ups hn_apis hn_host demo_rest_st al cl mgmt nv u \<and> \<not> py_eq (PStr ''net1'') mgmt"
proof -
  obtain w' where run: "things_to_clean hn_apis hn_host False demo_rest_st = (Inr ([PStr ''net1''], [PStr ''bond1''], [PStr ''l1'', PStr ''l1'']), w')"
    using hn_clean by (metis prod.collapse)
  from things_to_clean_safe [OF run] show ?thesis by (elim exE conjE) (intro exI conjI, assumption, simp)
qed

end
