(* ===== verification/High_Hosts.thy ===== *)
theory High_Hosts
  imports Host_Network Templates Clusters
begin

text \<open>
  \<open>hosts.py\<close> and \<open>clusters.py\<close> of \<open>tests_lib/high_level\<close>: hosts added, moved, taken out of use and
  brought back, power management, and the templates and hosts of a cluster.
\<close>

section \<open>Adding\<close>

text \<open>A call by keywords: \<open>name\<close>, \<open>address\<close> and \<open>root_password\<close> have no default.\<close>

definition call_add_host :: "'w apis \<Rightarrow> (string, pyval) dict \<Rightarrow> ('w rest_st, bool) comp" where
  "call_add_host A kw =
     (case (map_of kw ''name'', map_of kw ''address'', map_of kw ''root_password'') of
        (Some n, Some a, Some p) \<Rightarrow>
          add_host A n a p (truthy (pop_or kw ''wait'' (PBool True))) (without kw [''name'', ''address'', ''root_password'', ''wait''])
      | _ \<Rightarrow> raise TypeError)"

text \<open>The executor keeps the exception of a call until its result is asked for.\<close>

fun submit_hosts :: "'w apis \<Rightarrow> pyval \<Rightarrow> string list \<Rightarrow> pyval list \<Rightarrow> ('w rest_st, (exn + bool) list) wcomp" where
  "submit_hosts A cluster [] pws = retW []"
| "submit_hosts A cluster (h # hs) [] = raiseW IndexError"
| "submit_hosts A cluster (h # hs) (p # ps) =
     bindW (caught (run (call_add_host A [(''name'', PStr h), (''root_password'', p), (''cluster'', cluster)]))) (\<lambda>r.
     bindW (submit_hosts A cluster hs ps) (\<lambda>rs. retW (r # rs)))"

fun check_added :: "(exn + bool) list \<Rightarrow> exn + unit" where
  "check_added [] = Inr ()"
| "check_added (Inl e # rs) = Inl e"
| "check_added (Inr b # rs) = (if b then check_added rs else Inl (TestExc HostException))"

definition add_hosts :: "'w rest_st os_time \<Rightarrow> 'w apis \<Rightarrow> enums \<Rightarrow> string list \<Rightarrow> pyval list \<Rightarrow> pyval \<Rightarrow> ('w rest_st, unit) wcomp" where
  "add_hosts T A N hosts_list passwords cluster =
     bindW (submit_hosts A cluster hosts_list passwords) (\<lambda>rs.
     bindW (run (lift_res (check_added rs))) (\<lambda>_.
     bindW (wait_for_hosts_states T A (Names_string (join '','' hosts_list)) (Names_string ''up'') [N ''host_state_install_failed'']
              HOST_STATE_TIMEOUT 10) (\<lambda>up.
     if up then retW () else raiseW (TestExc HostException))))"

section \<open>In and out of use\<close>

text \<open>What the hosted engine says of a host is read through the resource of the host, where there is one.\<close>

definition deactivate_host_if_up ::
  "'w rest_st os_time \<Rightarrow> 'w apis \<Rightarrow> enums \<Rightarrow> string \<Rightarrow> ('w rest_st, pyval) comp option \<Rightarrow> ('w rest_st, bool) wcomp" where
  "deactivate_host_if_up T A N host he_stats =
     bindW (run (is_host_in_maintenance A N True host)) (\<lambda>down.
     if down then retW True else deactivate_host T A N he_stats True host (N ''host_state_maintenance'') 0)"

definition move_host_to_another_cluster ::
  "'w rest_st os_time \<Rightarrow> 'w apis \<Rightarrow> enums \<Rightarrow> string \<Rightarrow> pyval \<Rightarrow> bool \<Rightarrow> ('w rest_st, pyval) comp option \<Rightarrow> ('w rest_st, bool) wcomp" where
  "move_host_to_another_cluster T A N host cluster activate he_stats =
     bindW (deactivate_host_if_up T A N host he_stats) (\<lambda>down.
     if \<not> down then retW False
     else
       bindW (run (update_host A True host [(''cluster'', cluster)])) (\<lambda>moved.
       if \<not> moved then retW False
       else if activate then activate_host T A he_stats True host True
       else retW True))"

text \<open>
  The hosts by their priority, the storage pool manager last. The order of a dictionary with equal
  priorities is a parameter.
\<close>

definition deactivation_order :: "'w apis \<Rightarrow> (string list \<Rightarrow> string list) \<Rightarrow> string list \<Rightarrow> ('w rest_st, string list) comp" where
  "deactivation_order A dict_order hosts =
     bindE (try_except (bindE (get_spm_host A hosts) (\<lambda>h. ret (Some h))) EntityNotFound (\<lambda>_. ret None)) (\<lambda>spm.
     bindE (sort_hosts_by_priority A dict_order hosts False) (\<lambda>l.
     ret (case spm of Some s \<Rightarrow> if s = [] then l else remove1 s l @ [s] | None \<Rightarrow> l)))"

fun deactivate_each :: "'w rest_st os_time \<Rightarrow> 'w apis \<Rightarrow> enums \<Rightarrow> string list \<Rightarrow> ('w rest_st, bool) wcomp" where
  "deactivate_each T A N [] = retW True"
| "deactivate_each T A N (h # hs) = bindW (deactivate_host_if_up T A N h None) (\<lambda>ok. if ok then deactivate_each T A N hs else retW False)"

definition hosts_given :: "names_arg \<Rightarrow> string list" where
  "hosts_given n = (case n of Names_string s \<Rightarrow> split_on s '','' | Names_list l \<Rightarrow> l)"

definition deactivate_hosts_if_up ::
  "'w rest_st os_time \<Rightarrow> 'w apis \<Rightarrow> enums \<Rightarrow> (string list \<Rightarrow> string list) \<Rightarrow> names_arg \<Rightarrow> ('w rest_st, bool) wcomp" where
  "deactivate_hosts_if_up T A N dict_order hosts_list =
     bindW (run (deactivation_order A dict_order (hosts_given hosts_list))) (deactivate_each T A N)"

definition activate_host_if_not_up ::
  "'w rest_st os_time \<Rightarrow> 'w apis \<Rightarrow> enums \<Rightarrow> string \<Rightarrow> ('w rest_st, pyval) comp option \<Rightarrow> ('w rest_st, bool) wcomp" where
  "activate_host_if_not_up T A N host he_stats =
     bindW (run (get_host_status A host)) (\<lambda>st.
     if \<not> py_eq st (PStr (N ''host_state_up'')) then activate_host T A he_stats True host True else retW True)"

section \<open>Power management\<close>

text \<open>A fence agent: its options are a dictionary, what else is given are keywords.\<close>

record agent_args =
  ag_options :: "(string \<times> pyval) list"
  ag_kw :: "(string, pyval) dict"

definition call_add_fence_agent :: "'w apis \<Rightarrow> string \<Rightarrow> agent_args \<Rightarrow> ('w rest_st, bool) comp" where
  "call_add_fence_agent A host_name g =
     (let kw = ag_kw g; names = [''agent_type'', ''agent_address'', ''agent_username'', ''agent_password''] in
      if \<exists>k \<in> set names. map_of kw k = None then raise TypeError
      else
        add_fence_agent A host_name (kwget kw ''agent_type'') (kwget kw ''agent_address'') (kwget kw ''agent_username'') (kwget kw ''agent_password'')
          (pop_or kw ''concurrent'' (PBool False)) (pop_or kw ''order'' (PInt 1)) (ag_options g) (without kw (names @ [''concurrent'', ''order''])))"

fun add_agents :: "'w apis \<Rightarrow> string \<Rightarrow> agent_args list \<Rightarrow> ('w rest_st, bool) comp" where
  "add_agents A host_name [] = ret True"
| "add_agents A host_name (g # gs) = bindE (call_add_fence_agent A host_name g) (\<lambda>ok. if ok then add_agents A host_name gs else ret False)"

definition add_power_management :: "'w apis \<Rightarrow> string \<Rightarrow> agent_args list \<Rightarrow> (string, pyval) dict \<Rightarrow> ('w rest_st, bool) comp" where
  "add_power_management A host_name pm_agents kw =
     bindE (add_agents A host_name pm_agents) (\<lambda>ok.
     if \<not> ok then ret False
     else if \<exists>k \<in> set [''positive'', ''host'', ''pm'']. map_of kw k \<noteq> None then raise TypeError
     else update_host A True host_name ((''pm'', PBool True) # kw))"

fun remove_agents :: "'w apis \<Rightarrow> pyval list \<Rightarrow> ('w rest_st, bool) comp" where
  "remove_agents A [] = ret True"
| "remove_agents A (g # gs) = bindE (remove_fence_agent A g) (\<lambda>ok. if ok then remove_agents A gs else ret False)"

definition remove_power_management :: "'w apis \<Rightarrow> string \<Rightarrow> ('w rest_st, bool) comp" where
  "remove_power_management A host_name =
     bindE (get_fence_agents_list A host_name) (\<lambda>v.
     bindE (lift_res (py_iter v)) (\<lambda>l.
     bindE (remove_agents A l) (\<lambda>ok. if ok then update_host A True host_name [(''pm'', PBool False)] else ret False)))"

section \<open>Services\<close>

text \<open>\<open>host_resource.service(srv, timeout).restart()\<close> is a parameter; no service is a failure.\<close>

fun restart_each :: "(string \<Rightarrow> ('w rest_st, bool) comp) \<Rightarrow> bool \<Rightarrow> string list \<Rightarrow> ('w rest_st, bool) comp" where
  "restart_each restart done_ok [] = ret done_ok"
| "restart_each restart done_ok (s # ss) = bindE (restart s) (\<lambda>ok. if ok then restart_each restart True ss else ret False)"

definition restart_services_under_maintenance_state ::
  "'w rest_st os_time \<Rightarrow> 'w apis \<Rightarrow> enums \<Rightarrow> (pyval \<Rightarrow> ('w rest_st, string) comp) \<Rightarrow> (string \<Rightarrow> ('w rest_st, bool) comp) \<Rightarrow> string list \<Rightarrow> 'w host_res
   \<Rightarrow> ('w rest_st, bool) wcomp" where
  "restart_services_under_maintenance_state T A N gethostbyname restart services host_resource =
     bindW (run (get_host_name_from_engine gethostbyname A host_resource)) (\<lambda>n.
     bindW (deactivate_host T A N None True (py_str n) (N ''host_state_maintenance'') 0) (\<lambda>down.
     if \<not> down then retW False
     else
       bindW (run (restart_each restart False services)) (\<lambda>restarted.
       bindW (activate_host T A None True (py_str n) True) (\<lambda>up. retW (up \<and> restarted)))))"

fun restart_vdsm_each ::
  "'w rest_st os_time \<Rightarrow> 'w apis \<Rightarrow> enums \<Rightarrow> (pyval \<Rightarrow> ('w rest_st, string) comp) \<Rightarrow> ('w host_res \<Rightarrow> string \<Rightarrow> ('w rest_st, bool) comp) \<Rightarrow> 'w host_res list
   \<Rightarrow> ('w rest_st, bool) wcomp" where
  "restart_vdsm_each T A N gethostbyname restart [] = retW True"
| "restart_vdsm_each T A N gethostbyname restart (r # rs) =
     bindW (restart_services_under_maintenance_state T A N gethostbyname (restart r) [''vdsmd''] r) (\<lambda>ok.
     if ok then restart_vdsm_each T A N gethostbyname restart rs else retW False)"

definition restart_vdsm_and_wait_for_activation ::
  "'w rest_st os_time \<Rightarrow> 'w apis \<Rightarrow> enums \<Rightarrow> (pyval \<Rightarrow> ('w rest_st, string) comp) \<Rightarrow> ('w host_res \<Rightarrow> string \<Rightarrow> ('w rest_st, bool) comp) \<Rightarrow> 'w host_res list
   \<Rightarrow> string \<Rightarrow> string \<Rightarrow> ('w rest_st, bool) wcomp" where
  "restart_vdsm_and_wait_for_activation T A N gethostbyname restart hosts_resource dc_name storage_domain_name =
     bindW (restart_vdsm_each T A N gethostbyname restart hosts_resource) (\<lambda>ok.
     if \<not> ok then retW False
     else wait_for_storage_domain_status T A True dc_name storage_domain_name (N ''storage_domain_state_active'') 900 10)"

section \<open>The hosts and templates of a cluster\<close>

text \<open>A template that is not removed is only logged.\<close>

definition remove_templates_connected_cluster :: "'w rest_st os_time \<Rightarrow> 'w apis \<Rightarrow> pyval \<Rightarrow> ('w rest_st, unit) wcomp" where
  "remove_templates_connected_cluster T A cluster =
     bindW (run (get_template_from_cluster A cluster)) (\<lambda>l.
     eachW l (\<lambda>t _. bindW (remove_template T A True (py_str t) BASE_TEMPLATE_VERSION True SAMPLER_SLEEP Templates.SAMPLER_TIMEOUT) (\<lambda>_. retW ())) ())"

definition get_hosts_connected_to_cluster :: "'w apis \<Rightarrow> pyval \<Rightarrow> ('w rest_st, pyval list) comp" where
  "get_hosts_connected_to_cluster A cluster_id =
     bindE (listed (HOST_API A)) (\<lambda>hosts.
     lift_res (filter_res (\<lambda>h. res_bind (getattr_chain [''cluster'', ''id''] h) (\<lambda>i. Inr (py_eq i cluster_id))) hosts))"

definition get_external_network_provider_names :: "'w apis \<Rightarrow> string \<Rightarrow> ('w rest_st, pyval list) comp" where
  "get_external_network_provider_names A cluster =
     bindE (get_cluster_object A cluster False) (\<lambda>c.
     bindE (get_external_network_providers_objects A c) (\<lambda>v.
     lift_res (res_bind (py_iter v) (map_res (\<lambda>p. getattr p ''name'')))))"


section \<open>What is shown\<close>

lemma call_without_address: "call_add_host A [(''name'', n), (''root_password'', p), (''cluster'', c)] = raise TypeError"
  by (simp add: call_add_host_def)

lemma submit_hosts_fails:
  "submit_hosts A cluster hs ps w =
     Some (if List.length hs \<le> List.length ps then Inr (replicate (List.length hs) (Inl TypeError)) else Inl IndexError, w)"
  by (induction A cluster hs ps arbitrary: w rule: submit_hosts.induct)
    (simp_all add: bindW_def caught_def run_def ret_def raise_def call_without_address del: map_of.simps)

text \<open>
  Adding hosts never adds one: the address that every addition needs is not handed on, so that the
  call ends in a TypeError, or in an IndexError when there are too few passwords, before the engine
  is asked for anything. The error is not the HostException that callers wait for.
\<close>

theorem add_hosts_never_adds:
  assumes "hosts_list \<noteq> []"
  shows "add_hosts T A N hosts_list passwords cluster w =
    Some (Inl (if List.length hosts_list \<le> List.length passwords then TypeError else IndexError), w)"
  using assms by (cases hosts_list) (auto simp: add_hosts_def bindW_def submit_hosts_fails run_def lift_res_def)

lemma sort_hosts_permutes:
  assumes "sort_hosts_by_priority A dict_order hosts reverse w = (Inr l, w')" and "\<And>xs. mset (dict_order xs) = mset xs"
  shows "mset l = mset (remdups hosts)"
proof -
  from assms(1) obtain x where "let ks = map (\<lambda>h. (the (map_of (rev x) h), h)) (dict_order (remdups hosts)); key = sort_key_of \<circ> fst in
      l = map snd (if reverse then rev (sort_key key (rev ks)) else sort_key key ks)"
    by (auto simp: sort_hosts_by_priority_def Let_def ret_apply elim!: bindE_InrE)
  then show ?thesis by (simp add: Let_def assms(2) image_mset.compositionality comp_def)
qed

lemma get_spm_host_member: "get_spm_host A hs w = (Inr h, w') \<Longrightarrow> h \<in> set hs"
  by (induction hs arbitrary: w) (auto simp: raise_def ret_apply elim!: bindE_InrE split: if_splits, blast)

text \<open>
  C33. The order of deactivation has every host once, and the storage pool manager among them, if there
  is one, is the last.
\<close>

theorem deactivation_order_spm_last:
  assumes "deactivation_order A dict_order hosts w = (Inr l, w')" and "\<And>xs. mset (dict_order xs) = mset xs"
  shows "mset l = mset (remdups hosts) \<and>
    (\<forall>s v. get_spm_host A hosts w = (Inr s, v) \<and> s \<noteq> [] \<longrightarrow> last l = s)"
proof -
  from assms(1) obtain spm v l0 where spm: "try_except (bindE (get_spm_host A hosts) (\<lambda>h. ret (Some h))) EntityNotFound (\<lambda>_. ret None) w = (Inr spm, v)"
    and l0: "sort_hosts_by_priority A dict_order hosts False v = (Inr l0, w')"
    and l: "l = (case spm of Some s \<Rightarrow> if s = [] then l0 else remove1 s l0 @ [s] | None \<Rightarrow> l0)"
    by (auto simp: deactivation_order_def ret_apply elim!: bindE_InrE)
  note perm = sort_hosts_permutes [OF l0 assms(2)]
  have found: "spm = Some s" if "get_spm_host A hosts w = (Inr s, u)" for s u
    using spm that by (auto simp: try_except_def bindE_def ret_def)
  have member: "s \<in> set hosts" if "spm = Some s" for s
    using spm that get_spm_host_member by (fastforce simp: try_except_def bindE_def ret_def split: prod.splits sum.splits if_splits)
  have "mset l = mset l0"
  proof (cases "\<exists>s. spm = Some s \<and> s \<noteq> []")
    case True
    then obtain s where s: "spm = Some s" "s \<noteq> []" by blast
    have "s \<in># mset l0" using member [OF s(1)] perm by (metis set_mset_mset set_remdups)
    with l s show ?thesis by simp
  qed (use l in \<open>auto split: option.splits\<close>)
  with perm l found show ?thesis by fastforce
qed

section \<open>Witnesses\<close>

theorem add_hosts_never_adds_witness:
  "add_hosts demo_clock hn_apis id [''h1''] [PStr ''pw''] (PStr ''Default'') demo_rest_st = Some (Inl TypeError, demo_rest_st)"
  using add_hosts_never_adds [of "[''h1'']" demo_clock hn_apis id "[PStr ''pw'']"] by simp


definition spm_host :: "string \<Rightarrow> int \<Rightarrow> string \<Rightarrow> pyval" where
  "spm_host n p st = hn_obj ''Host'' n n [] [(''spm'', PObj ''Spm'' [(''priority'', PInt p), (''status'', PStr st)])]"

definition spm_apis :: "nat apis" where
  "spm_apis el col = (hn_apis el col)\<lparr>parse := (\<lambda>s. Inr (PObj [] [(''host'', PList [spm_host ''h1'' 1 ''spm'', spm_host ''h2'' 2 ''none''])]))\<rparr>"

lemma spm_order: "fst (deactivation_order spm_apis id [''h1'', ''h2''] demo_rest_st) = Inr [''h2'', ''h1'']"
  "fst (get_spm_host spm_apis [''h1'', ''h2''] demo_rest_st) = Inr ''h1''"
  by code_simp+

theorem deactivation_order_spm_last_witness:
  "\<exists>v w'. get_spm_host spm_apis [''h1'', ''h2''] demo_rest_st = (Inr ''h1'', v) \<and>
     deactivation_order spm_apis id [''h1'', ''h2''] demo_rest_st = (Inr [''h2'', ''h1''], w') \<and> last [''h2'', ''h1''] = ''h1''"
proof -
  obtain w' where o: "deactivation_order spm_apis id [''h1'', ''h2''] demo_rest_st = (Inr [''h2'', ''h1''], w')"
    using spm_order(1) by (metis prod.collapse)
  obtain v where s: "get_spm_host spm_apis [''h1'', ''h2''] demo_rest_st = (Inr ''h1'', v)"
    using spm_order(2) by (metis prod.collapse)
  from deactivation_order_spm_last [OF o] o s show ?thesis by fastforce
qed

end
