(* ===== verification/High_Networks.thy ===== *)
theory High_Networks
  imports High_Hosts Data_Centers Named_Elements Vm_Devices
begin

text \<open>
  \<open>networks.py\<close> and \<open>mac_pool.py\<close> of \<open>tests_lib/high_level\<close>: networks of data centers, clusters and
  hosts, interfaces on the hosts themselves, and the ranges of MAC pools.
\<close>

section \<open>Adding and removing networks\<close>

fun remove_each_network :: "'w apis \<Rightarrow> bool \<Rightarrow> pyval \<Rightarrow> string list \<Rightarrow> ('w rest_st, bool) comp" where
  "remove_each_network A positive data_center [] = ret True"
| "remove_each_network A positive data_center (n # ns) =
     bindE (remove_network A positive n data_center) (\<lambda>ok.
     bindE (remove_each_network A positive data_center ns) (\<lambda>oks. ret (ok \<and> oks)))"

definition remove_networks :: "'w apis \<Rightarrow> bool \<Rightarrow> string list \<Rightarrow> pyval \<Rightarrow> ('w rest_st, bool) comp" where
  "remove_networks A positive networks data_center = remove_each_network A positive data_center networks"

text \<open>The parameters of a network; its quality of service is a dictionary of its own.\<close>

record net_params =
  np_kw :: "(string, pyval) dict"
  np_qos :: "(string, pyval) dict option"

definition network_keywords :: "string \<Rightarrow> pyval \<Rightarrow> net_params \<Rightarrow> (string, pyval) dict" where
  "network_keywords net data_center p =
     [(''name'', PStr net), (''data_center'', data_center), (''usages'', pop_or (np_kw p) ''usages'' (PStr ''vm''))] @
     map (\<lambda>k. (k, kwget (np_kw p) k)) [''vlan_id'', ''mtu'', ''profile_required'', ''description'']"

definition attach_keywords :: "pyval \<Rightarrow> net_params \<Rightarrow> (string, pyval) dict" where
  "attach_keywords data_center p =
     [(''required'', pop_or (np_kw p) ''required'' (PStr ''true'')), (''usages'', kwget (np_kw p) ''cluster_usages''), (''data_center'', data_center)]"

fun attach_to_each :: "'w apis \<Rightarrow> string \<Rightarrow> (string, pyval) dict \<Rightarrow> string list \<Rightarrow> ('w rest_st, bool) comp" where
  "attach_to_each A net kw [] = ret True"
| "attach_to_each A net kw (c # cs) =
     bindE (add_network_to_cluster A True net c kw) (\<lambda>ok. if ok then attach_to_each A net kw cs else ret False)"

fun create_and_attach_networks :: "'w apis \<Rightarrow> pyval \<Rightarrow> string list \<Rightarrow> (string \<times> net_params) list \<Rightarrow> ('w rest_st, bool) comp" where
  "create_and_attach_networks A data_center clusters [] = ret True"
| "create_and_attach_networks A data_center clusters ((net, p) # ns) =
     bindE (if truthy data_center then add_network A True (network_keywords net data_center p) (np_qos p) else ret True) (\<lambda>added.
     if \<not> added then ret False
     else
       bindE (attach_to_each A net (attach_keywords data_center p) clusters) (\<lambda>ok.
       if ok then create_and_attach_networks A data_center clusters ns else ret False))"

text \<open>The name of a cluster, when one is given; otherwise all the clusters with a name.\<close>

fun management_ids :: "'w apis \<Rightarrow> pyval list \<Rightarrow> ('w rest_st, pyval list) comp" where
  "management_ids A [] = ret []"
| "management_ids A (c # cs) =
     bindE (get_management_network A (py_str c)) (\<lambda>m.
     bindE (case m of Some x \<Rightarrow> if truthy x then lift_res (res_bind (getattr x ''id'') (\<lambda>i. Inr [i])) else ret [] | None \<Rightarrow> ret []) (\<lambda>i.
     bindE (management_ids A cs) (\<lambda>is. ret (i @ is))))"

definition get_clusters_managements_networks_ids :: "'w apis \<Rightarrow> pyval \<Rightarrow> ('w rest_st, pyval list) comp" where
  "get_clusters_managements_networks_ids A cluster =
     bindE (get_cluster_names_list A) (\<lambda>all_clusters.
     let clusters = filter (\<lambda>x. if truthy cluster then py_eq x cluster else truthy x) all_clusters in
     bindE (lift_res (map_res as_string clusters)) (\<lambda>_. management_ids A clusters))"

definition network_to_remove :: "'w apis \<Rightarrow> pyval \<Rightarrow> pyval \<Rightarrow> bool \<Rightarrow> pyval list \<Rightarrow> pyval \<Rightarrow> ('w rest_st, string list) comp" where
  "network_to_remove A datacenter cl_obj remove_gluster mgmt net =
     bindE (lift_res (getattr net ''name'')) (\<lambda>n.
     bindE (if remove_gluster then ret False
            else
              bindE (if truthy cl_obj then ret cl_obj else get_network_cluster A n datacenter) (\<lambda>c. is_gluster_network A (py_str n) c)) (\<lambda>gluster.
     if gluster then ret []
     else bindE (lift_res (getattr net ''id'')) (\<lambda>i. ret (if list_ex (py_eq i) mgmt then [] else [py_str n]))))"

definition networks_to_remove :: "'w apis \<Rightarrow> pyval \<Rightarrow> pyval \<Rightarrow> bool \<Rightarrow> ('w rest_st, (pyval \<times> string list) list \<times> pyval list) comp" where
  "networks_to_remove A datacenter cluster remove_gluster =
     bindE (if truthy cluster then get_cluster_object A (py_str cluster) False else ret cluster) (\<lambda>cl_obj.
     bindE (get_clusters_managements_networks_ids A cluster) (\<lambda>mgmt.
     bindE (if truthy cluster then get_cluster_networks A (py_str cluster) False
            else if truthy datacenter then get_networks_in_datacenter A (py_str datacenter)
            else get_all_networks A) (\<lambda>v.
     bindE (lift_res (py_iter v)) (\<lambda>nets.
     bindE (map_comp (\<lambda>net. bindE (network_to_remove A datacenter cl_obj remove_gluster mgmt net) (\<lambda>ns. ret (net, ns))) nets) (\<lambda>l.
     ret (l, mgmt))))))"

definition remove_all_networks :: "'w apis \<Rightarrow> pyval \<Rightarrow> pyval \<Rightarrow> bool \<Rightarrow> ('w rest_st, bool) comp" where
  "remove_all_networks A datacenter cluster remove_gluster =
     bindE (networks_to_remove A datacenter cluster remove_gluster) (\<lambda>(l, _).
     let names = concat (map snd l) in
     if names = [] then ret True else remove_networks A True names datacenter)"

text \<open>Any exception while the hosts are cleaned is a failure.\<close>

fun clean_each :: "'w rest_st os_time \<Rightarrow> 'w apis \<Rightarrow> string list \<Rightarrow> ('w rest_st, bool) wcomp" where
  "clean_each T A [] = retW True"
| "clean_each T A (h # hs) = bindW (clean_host_interfaces T A h False) (\<lambda>ok. if ok then clean_each T A hs else retW False)"

definition remove_net_from_setup ::
  "'w rest_st os_time \<Rightarrow> 'w apis \<Rightarrow> string list \<Rightarrow> string list \<Rightarrow> pyval \<Rightarrow> bool \<Rightarrow> ('w rest_st, bool) wcomp" where
  "remove_net_from_setup T A hosts networks data_center all_net =
     bindW (tryW (clean_each T A hosts) PyException (\<lambda>_. retW False)) (\<lambda>cleaned.
     if \<not> cleaned then retW False
     else if all_net then run (remove_all_networks A data_center PNone False)
     else run (remove_networks A True networks data_center))"

text \<open>The profiles of all networks but the management networks of the clusters of the data center.\<close>

definition get_clusters_connected_to_datacenter :: "'w apis \<Rightarrow> pyval \<Rightarrow> bool \<Rightarrow> ('w rest_st, pyval list) comp" where
  "get_clusters_connected_to_datacenter A dc_id all_content =
     bindE (rest_get (CL_API A) None
              (get_default\<lparr>ga_abs_link := False, ga_custom_headers := if all_content then [(''All-content'', ''True'')] else []\<rparr>)) (\<lambda>v.
     bindE (lift_res (py_iter v)) (\<lambda>cls.
     lift_res (res_bind (filter_res (\<lambda>c. res_bind (getattr c ''data_center'') (\<lambda>d. Inr (d \<noteq> PNone))) cls)
       (filter_res (\<lambda>c. res_bind (getattr_chain [''data_center'', ''id''] c) (\<lambda>i. Inr (py_eq i dc_id)))))))"

definition unmanaged_ids :: "'w apis \<Rightarrow> pyval \<Rightarrow> ('w rest_st, pyval list) comp" where
  "unmanaged_ids A cluster =
     bindE (lift_res (getattr cluster ''name'')) (\<lambda>n.
     bindE (get_cluster_networks A (py_str n) False) (\<lambda>v.
     bindE (lift_res (get_cluster_management_network cluster)) (\<lambda>m.
     bindE (lift_res (py_iter v)) (\<lambda>nets.
     bindE (lift_res (map_res (\<lambda>x. getattr x ''id'') nets)) (\<lambda>is.
     if is = [] \<or> \<not> truthy m then ret is
     else lift_res (res_bind (getattr m ''id'') (\<lambda>j. Inr (filter (\<lambda>i. \<not> py_eq i j) is))))))))"

definition remove_profile :: "'w apis \<Rightarrow> pyval list \<Rightarrow> pyval \<Rightarrow> bool \<Rightarrow> ('w rest_st, bool) comp" where
  "remove_profile A ids profile ok =
     bindE (lift_res (getattr_chain [''network'', ''id''] profile)) (\<lambda>i.
     if list_ex (py_eq i) ids then bindE (delete_element (VNIC_PROFILE_API A) profile True) (\<lambda>b. ret (ok \<and> b)) else ret ok)"

definition remove_unneeded_vnic_profiles :: "'w apis \<Rightarrow> pyval \<Rightarrow> ('w rest_st, bool) comp" where
  "remove_unneeded_vnic_profiles A dc_name =
     bindE (get_data_center A dc_name ''name'') (\<lambda>dc.
     bindE (lift_res (getattr dc ''id'')) (\<lambda>i.
     bindE (get_clusters_connected_to_datacenter A i True) (\<lambda>clusters.
     bindE (map_comp (unmanaged_ids A) clusters) (\<lambda>ids.
     bindE (get_vnic_profile_objects A) (\<lambda>v.
     bindE (lift_res (py_iter v)) (\<lambda>l. for_each l (remove_profile A (concat ids)) True))))))"

section \<open>What is known of networks\<close>

definition get_ip_on_host_nic :: "'w apis \<Rightarrow> string \<Rightarrow> pyval \<Rightarrow> bool \<Rightarrow> ('w rest_st, pyval) comp" where
  "get_ip_on_host_nic A host nic ipv6 =
     bindE (host_and_nic A host nic) (\<lambda>(_, n).
     if truthy n then lift_res (getattr_chain (if ipv6 then [''ipv6'', ''address''] else [''ip'', ''address'']) n) else ret (PStr []))"

text \<open>
  The NIC of the VLAN is looked up, but a look-up that finds nothing is no exception: it is not noticed
  when it is missing.
\<close>

definition check_host_nic_params :: "'w apis \<Rightarrow> string \<Rightarrow> string \<Rightarrow> (string, pyval) dict \<Rightarrow> ('w rest_st, bool) comp" where
  "check_host_nic_params A host nic kw =
     bindE (host_and_nic A host (PStr nic)) (\<lambda>(h, n).
     let bridge = kwget kw ''bridge''; vlan = kwget kw ''vlan_id''; mtu = kwget kw ''mtu'' in
     bindE (if bridge = PNone then ret True else lift_res (res_bind (getattr n ''bridged'') (\<lambda>b. Inr (py_eq bridge b)))) (\<lambda>r1.
     bindE (if \<not> truthy vlan then ret True
            else
              bindE (lift_res (as_string vlan)) (\<lambda>v.
              try_except (bindE (get_host_nic A h (PStr (nic @ ''.'' @ v)) False) (\<lambda>_. ret True)) EntityNotFound (\<lambda>_. ret False))) (\<lambda>r2.
     bindE (if \<not> truthy mtu then ret True
            else lift_res (res_bind (getattr n ''mtu'') (\<lambda>m. res_bind (py_int mtu) (\<lambda>k. Inr (py_eq (PInt k) m))))) (\<lambda>r3.
     ret (r1 \<and> r2 \<and> r3)))))"

definition is_management_network :: "'w apis \<Rightarrow> string \<Rightarrow> pyval \<Rightarrow> ('w rest_st, bool) comp" where
  "is_management_network A cluster_name network =
     bindE (get_management_network A cluster_name) (\<lambda>m.
     bindE (get_cluster_object A cluster_name True) (\<lambda>cl.
     lift_res (res_bind (get_cluster_management_network cl) (\<lambda>c.
     res_bind (getattr (opt_val m) ''name'') (\<lambda>n.
     if \<not> py_eq n network then Inr False
     else res_bind (getattr (opt_val m) ''id'') (\<lambda>i. res_bind (getattr c ''id'') (\<lambda>j. Inr (py_eq i j))))))))"

definition stat_of_nic :: "pyval list \<Rightarrow> pyval \<Rightarrow> (pyval, pyval) dict \<Rightarrow> exn + (pyval, pyval) dict" where
  "stat_of_nic keys stat r =
     res_bind (getattr stat ''name'') (\<lambda>n.
     if \<not> list_ex (py_eq n) keys then Inr r
     else
       res_bind (getattr_chain [''values'', ''value''] stat) (\<lambda>v.
       if \<not> truthy v then Inr (dict_set r n (PInt 0))
       else res_bind (first_of v) (\<lambda>x. res_bind (getattr x ''datum'') (\<lambda>d. Inr (dict_set r n d)))))"

definition get_nic_statistics :: "'w apis \<Rightarrow> pyval \<Rightarrow> string \<Rightarrow> string \<Rightarrow> pyval list \<Rightarrow> ('w rest_st, (pyval, pyval) dict) comp" where
  "get_nic_statistics A nic host vm keys =
     bindE (if host \<noteq> [] then bindE (get_host_object A host ''name'') (\<lambda>h. get_host_nic_statistics A h nic)
            else get_vm_nic_statistics A vm nic) (\<lambda>v.
     lift_res (res_bind (py_iter v) (\<lambda>l. fold_res (stat_of_nic keys) l [])))"

definition get_management_network_host_nic :: "'w apis \<Rightarrow> string \<Rightarrow> string \<Rightarrow> ('w rest_st, pyval) comp" where
  "get_management_network_host_nic A host cluster =
     bindE (get_management_network A cluster) (\<lambda>m.
     bindE (get_host_object A host ''name'') (\<lambda>h.
     bindE (get_host_nics_list A h False) (\<lambda>v.
     lift_res (res_bind (py_iter v) (\<lambda>nics.
       res_bind (filter_res (\<lambda>n. res_bind (getattr n ''network'') (\<lambda>x. Inr (truthy x))) nics) (\<lambda>l.
       res_bind (find_res (\<lambda>n. res_bind (getattr_chain [''network'', ''id''] n) (\<lambda>i.
         res_bind (getattr (opt_val m) ''id'') (\<lambda>j. Inr (py_eq i j)))) l) (\<lambda>found. Inr (opt_val found))))))))"

definition get_network_names :: "'w apis \<Rightarrow> ('w rest_st, pyval list) comp" where
  "get_network_names A = bindE (get_all_networks A) (\<lambda>v. lift_res (res_bind (py_iter v) (map_res (\<lambda>n. getattr n ''name''))))"


section \<open>Interfaces on a machine\<close>

text \<open>
  The network of a machine behind SSH: what its commands and files do is not in the tree. A parameter
  is empty where Python has None.
\<close>

record 'w net_machine =
  mc_run :: "string list \<Rightarrow> ('w rest_st, int) comp"
  mc_interfaces :: "('w rest_st, string list) comp"
  mc_ifcfg :: "string \<Rightarrow> (string, string) dict \<Rightarrow> ('w rest_st, unit) comp"
  mc_delete :: "string \<Rightarrow> ('w rest_st, unit) comp"
  mc_isfile :: "string \<Rightarrow> ('w rest_st, bool) comp"
  mc_delete_ifcfg :: "string \<Rightarrow> ('w rest_st, unit) comp"
  mc_if_up :: "string \<Rightarrow> ('w rest_st, bool) comp"
  mc_mac :: "string \<Rightarrow> ('w rest_st, string) comp"

text \<open>A dummy that is there is passed over; the list of interfaces is read once.\<close>

fun create_dummies :: "'w net_machine \<Rightarrow> (string, string) dict \<Rightarrow> string list \<Rightarrow> string list \<Rightarrow> ('w rest_st, bool) comp" where
  "create_dummies R params there [] = ret True"
| "create_dummies R params there (n # ns) =
     (if n \<in> set there then create_dummies R params there ns
      else
        bindE (mc_run R [''ip'', ''link'', ''add'', n, ''type'', ''dummy'']) (\<lambda>rc.
        if rc \<noteq> 0 then ret False else bindE (mc_ifcfg R n params) (\<lambda>_. create_dummies R params there ns)))"

definition create_dummy_interfaces :: "'w net_machine \<Rightarrow> nat \<Rightarrow> (string, string) dict \<Rightarrow> ('w rest_st, bool) comp" where
  "create_dummy_interfaces R num_dummy params =
     bindE (mc_interfaces R) (\<lambda>there. create_dummies R params there (map (\<lambda>i. ''dummy_'' @ py_str (PInt (int i))) [0..<num_dummy]))"

definition delete_dummy :: "'w net_machine \<Rightarrow> string \<Rightarrow> ('w rest_st, unit) comp" where
  "delete_dummy R n =
     bindE (mc_delete R n) (\<lambda>_.
     bindE (mc_isfile R (''/etc/sysconfig/network-scripts/ifcfg-'' @ n)) (\<lambda>b. if b then mc_delete_ifcfg R n else ret ()))"

definition delete_dummy_interfaces :: "'w apis \<Rightarrow> (pyval \<Rightarrow> ('w rest_st, string) comp) \<Rightarrow> 'w host_res \<Rightarrow> 'w net_machine \<Rightarrow> ('w rest_st, bool) comp" where
  "delete_dummy_interfaces A gethostbyname host R =
     bindE (get_host_name_from_engine gethostbyname A host) (\<lambda>n.
     bindE (mc_interfaces R) (\<lambda>all_interfaces.
     bindE (for_each (filter (\<lambda>i. contains i ''dummy'') all_interfaces) (\<lambda>i _. delete_dummy R i) ()) (\<lambda>_.
     bindE (get_max_event_id (EVENT_API A) [] 100) (\<lambda>last_event.
     refresh_host_capabilities A (py_str n) (case last_event of None \<Rightarrow> PNone | Some i \<Rightarrow> PInt i)))))"

fun mac_interfaces :: "'w net_machine \<Rightarrow> string list \<Rightarrow> (string, string) dict \<Rightarrow> ('w rest_st, (string, string) dict) comp" where
  "mac_interfaces R [] d = ret d"
| "mac_interfaces R (i # is) d = bindE (mc_mac R i) (\<lambda>m. mac_interfaces R is (dict_set d m i))"

definition get_vm_interface_by_vnic :: "'w apis \<Rightarrow> string \<Rightarrow> 'w net_machine \<Rightarrow> pyval \<Rightarrow> ('w rest_st, string) comp" where
  "get_vm_interface_by_vnic A vm R vnic =
     bindE (mc_interfaces R) (\<lambda>is.
     bindE (get_vm_nic_mac_address A vm vnic) (\<lambda>mac.
     bindE (mac_interfaces R is []) (\<lambda>d. ret (case map_of d mac of None \<Rightarrow> [] | Some i \<Rightarrow> i))))"

definition bond_params :: "string \<Rightarrow> string \<Rightarrow> string \<Rightarrow> (string, string) dict" where
  "bond_params macaddr mode via =
     [(''BONDING_MASTER'', ''yes''), (''TYPE'', ''Bond''), (''BONDING_OPTS'', ''mode='' @ mode @ '' miimon=100''), (''BOOTPROTO'', ''none'')] @
     (if macaddr \<noteq> [] then [(''MACADDR'', macaddr)] else []) @ (if via = ''ifcfg'' then [(''NM_CONTROLLED'', ''no'')] else [])"

definition slave_params :: "string \<Rightarrow> string \<Rightarrow> (string, string) dict" where
  "slave_params bond via =
     [(''MASTER'', bond), (''SLAVE'', ''yes''), (''BOOTPROTO'', ''none''), (''TYPE'', ''Ethernet'')] @ (if via = ''ifcfg'' then [(''NM_CONTROLLED'', ''no'')] else [])"

text \<open>
  The network manager sets the mode active-backup whatever mode was asked for. The second word of a
  command has a space, which \<open>shlex\<close> keeps since it is escaped; a connection that cannot be taken down
  is not a failure.
\<close>

definition bond_by_nm :: "'w net_machine \<Rightarrow> string \<Rightarrow> string list \<Rightarrow> ('w rest_st, bool) comp" where
  "bond_by_nm R bond nics =
     (let con = ''Bond '' @ bond; nmcli = (\<lambda>ws. mc_run R ([''nmcli'', ''connection''] @ ws)) in
      bindE (nmcli [''reload'']) (\<lambda>rc0. if rc0 \<noteq> 0 then ret False else
      bindE (nmcli [''modify'', con, ''mode'', ''active-backup'']) (\<lambda>rc1. if rc1 \<noteq> 0 then ret False else
      bindE (nmcli [''down'', con]) (\<lambda>_.
      bindE (nmcli [''up'', con]) (\<lambda>rc3. if rc3 \<noteq> 0 then ret False else
      bindE (for_each nics (\<lambda>n _. bindE (nmcli [''up'', ''System '' @ n]) (\<lambda>_. ret ())) ()) (\<lambda>_. ret True))))))"

definition up_by_ifcfg :: "'w net_machine \<Rightarrow> string \<Rightarrow> ('w rest_st, bool) comp" where
  "up_by_ifcfg R n = bindE (mc_run R [''ifup'', n]) (\<lambda>rc. if rc \<noteq> 0 then ret False else mc_if_up R n)"

definition create_bond :: "'w net_machine \<Rightarrow> string \<Rightarrow> string list \<Rightarrow> string \<Rightarrow> string \<Rightarrow> string \<Rightarrow> ('w rest_st, bool) comp" where
  "create_bond R bond host_nics via macaddr mode =
     bindE (for_each host_nics (\<lambda>n _. mc_ifcfg R n (slave_params bond via)) ()) (\<lambda>_.
     bindE (mc_ifcfg R bond (bond_params macaddr mode via)) (\<lambda>_.
     if via = ''nm'' then bond_by_nm R bond host_nics else up_by_ifcfg R bond))"

text \<open>The first of the interfaces; of a single name it is the first letter.\<close>

definition first_interface :: "names_arg \<Rightarrow> exn + string" where
  "first_interface interface =
     (case interface of
        Names_list (i # _) \<Rightarrow> Inr i
      | Names_string (c # _) \<Rightarrow> Inr [c]
      | _ \<Rightarrow> Inl IndexError)"

definition create_interface :: "'w net_machine \<Rightarrow> names_arg \<Rightarrow> string \<Rightarrow> string \<Rightarrow> ('w rest_st, bool) comp" where
  "create_interface R interface vlan_id via =
     bindE (lift_res (res_bind (first_interface interface) (\<lambda>i. Inr (if vlan_id = [] then i else i @ ''.'' @ vlan_id)))) (\<lambda>n.
     bindE (mc_ifcfg R n ([(''DEVICE'', n), (''BOOTPROTO'', ''none'')] @ (if vlan_id \<noteq> [] then [(''VLAN'', ''yes'')] else []) @
              (if via = ''ifcfg'' then [(''NM_CONTROLLED'', ''no'')] else []))) (\<lambda>_.
     if via = ''nm'' then bindE (mc_run R [''nmcli'', ''connection'', ''reload'']) (\<lambda>rc. ret (rc = 0))
     else up_by_ifcfg R n))"

section \<open>Ranges of MAC pools\<close>

definition MACPOOL_API :: "'w apis \<Rightarrow> 'w rest_env" where "MACPOOL_API A = A ''mac_pool'' ''macpools''"

definition range_texts :: "(pyval \<times> pyval) list \<Rightarrow> exn + (string \<times> string) list" where
  "range_texts l = map_res (\<lambda>(a, b). res_bind (as_string a) (\<lambda>x. res_bind (as_string b) (\<lambda>y. Inr (x, y)))) l"

definition ranges_of_pool :: "pyval \<Rightarrow> exn + (string \<times> string) list" where
  "ranges_of_pool pool = res_bind (get_mac_range_values pool) range_texts"

text \<open>\<open>list.remove\<close> raises ValueError when the range is not in the list any more.\<close>

definition take_range :: "pyval \<Rightarrow> string \<times> string \<Rightarrow> (string \<times> string) list \<Rightarrow> exn + (string \<times> string) list" where
  "take_range pool r l =
     res_bind (get_mac_pool_range_obj pool (fst r) (snd r)) (\<lambda>found.
     if truthy (opt_val found) then (if r \<in> set l then Inr (remove1 r l) else Inl ValueError) else Inr l)"

definition update_pool_ranges :: "'w apis \<Rightarrow> pyval \<Rightarrow> (string \<times> string) list \<Rightarrow> ('w rest_st, bool) comp" where
  "update_pool_ranges A pool l =
     bindE (lift_res (prepare_macpool_obj (new_ds (MACPOOL_API A)) (Some l) [])) (\<lambda>new. update_element (MACPOOL_API A) pool new True)"

definition remove_ranges_from_mac_pool :: "'w apis \<Rightarrow> string \<Rightarrow> (string \<times> string) list \<Rightarrow> ('w rest_st, bool) comp" where
  "remove_ranges_from_mac_pool A mac_pool_name range_list =
     bindE (get_mac_pool (MACPOOL_API A) mac_pool_name) (\<lambda>pool.
     bindE (lift_res (res_bind (ranges_of_pool pool) (fold_res (take_range pool) range_list))) (update_pool_ranges A pool))"

definition add_ranges_to_mac_pool :: "'w apis \<Rightarrow> string \<Rightarrow> (string \<times> string) list \<Rightarrow> ('w rest_st, bool) comp" where
  "add_ranges_to_mac_pool A mac_pool_name range_list =
     bindE (get_mac_pool (MACPOOL_API A) mac_pool_name) (\<lambda>pool.
     bindE (lift_res (ranges_of_pool pool)) (\<lambda>l. update_mac_pool (MACPOOL_API A) mac_pool_name (Some (l @ range_list)) []))"

fun replace_ranges :: "pyval \<Rightarrow> ((string \<times> string) \<times> (string \<times> string)) list \<Rightarrow> (string \<times> string) list \<Rightarrow> exn + (string \<times> string) list option" where
  "replace_ranges pool [] l = Inr (Some l)"
| "replace_ranges pool ((orig, new) # rs) l =
     res_bind (get_mac_pool_range_obj pool (fst orig) (snd orig)) (\<lambda>found.
     if \<not> truthy (opt_val found) then Inr None
     else if orig \<in> set l then replace_ranges pool rs (remove1 orig l @ [new]) else Inl ValueError)"

definition update_ranges_on_mac_pool :: "'w apis \<Rightarrow> string \<Rightarrow> ((string \<times> string) \<times> (string \<times> string)) list \<Rightarrow> ('w rest_st, bool) comp" where
  "update_ranges_on_mac_pool A mac_pool_name range_dict =
     bindE (get_mac_pool (MACPOOL_API A) mac_pool_name) (\<lambda>pool.
     bindE (lift_res (res_bind (ranges_of_pool pool) (replace_ranges pool range_dict))) (\<lambda>l.
     case l of None \<Rightarrow> ret False | Some rs \<Rightarrow> update_pool_ranges A pool rs))"

text \<open>The range as its first and last address: how a text is read is a parameter.\<close>

definition update_default_mac_pool :: "(pyval \<Rightarrow> exn + string \<times> string) \<Rightarrow> 'w apis \<Rightarrow> pyval \<Rightarrow> ('w rest_st, bool) comp" where
  "update_default_mac_pool from_string A mac_range =
     (if \<not> truthy mac_range then ret False
      else
        bindE (lift_res (from_string mac_range)) (\<lambda>r.
        bindE (get_default_mac_pool (MACPOOL_API A)) (\<lambda>pool.
        bindE (lift_res (ranges_of_pool pool)) (\<lambda>old.
        bindE (add_ranges_to_mac_pool A ''Default'' [r]) (\<lambda>added.
        if \<not> added then ret False else remove_ranges_from_mac_pool A ''Default'' old)))))"


section \<open>What is shown\<close>

definition asks_all_content :: "'w rest_st \<Rightarrow> bool" where
  "asks_all_content s \<longleftrightarrow> map_of (api_headers s) ''All-content'' = Some ''True''"

lemma keeps_all_content: "keeps api_headers m \<Longrightarrow> preserves asks_all_content m"
  by (simp add: keeps_def preserves_def asks_all_content_def)

lemma get_leaves_header:
  "asks_all_content (snd (rest_get E href (get_default\<lparr>ga_abs_link := b, ga_custom_headers := [(''All-content'', ''True'')]\<rparr>) s))"
proof -
  let ?a = "get_default\<lparr>ga_abs_link := b, ga_custom_headers := [(''All-content'', ''True'')]\<rparr>"
  let ?set = "modify (upd_headers (\<lambda>hs. dict_update hs (ga_custom_headers ?a)))"
  obtain rest where get: "rest_get E href ?a = bindE (gets (\<lambda>s. conn_uri (REST_CONNECTION (opts (api s))))) (\<lambda>base. bindE ?set (\<lambda>_. rest base))"
    and rest: "\<And>base. preserves asks_all_content (rest base)"
  proof
    let ?rest = "\<lambda>base. let url = get_url E base href (ga_abs_link ?a); elm = (if ga_elm ?a = [] then element_name E else ga_elm ?a) in
      bindE (send E (''GET'', url, None)) (\<lambda>r.
       if \<not> compareResponseCode (ret_status r) POSITIVE_CODES then ret PNone
       else
         bindE (if ga_validate ?a then validateResponseViaXSD E url r else ret ()) (\<lambda>_.
         if ga_no_parse ?a then ret (PStr (ret_body r))
         else
           (case parse E (ret_body r) of
              Inl e \<Rightarrow> if isinstance e XMLSyntaxError then ret PNone else raise e
            | Inr v \<Rightarrow> ret (case getattr_opt v elm of Some x \<Rightarrow> x | None \<Rightarrow> v))))"
    show "rest_get E href ?a = bindE (gets (\<lambda>s. conn_uri (REST_CONNECTION (opts (api s))))) (\<lambda>base. bindE ?set (\<lambda>_. ?rest base))"
      by (simp add: rest_get_def Let_def)
    show "preserves asks_all_content (?rest base)" for base
      unfolding Let_def
      by (intro preserves_intros) (auto intro!: preserves_intros keeps_all_content keeps_intros split: sum.split)
  qed
  have "asks_all_content (snd (?set s))"
    by (simp add: modify_def asks_all_content_def api_headers_def upd_headers_def dict_update_def)
  then show ?thesis
    using rest unfolding get by (auto simp: bindE_def gets_def modify_def preserves_def split: prod.splits)
qed

text \<open>
  Listing the clusters of a data center with all their content leaves the header that asks for it
  in the headers of the session, whatever the outcome: every later request asks for all content.
\<close>

theorem clusters_listing_leaves_header:
  "map_of (api_headers (snd (get_clusters_connected_to_datacenter A dc_id True s))) ''All-content'' = Some ''True''"
proof -
  have "preserves asks_all_content (lift_res r)" for r :: "exn + pyval list"
    by (intro preserves_intros)
  then have "asks_all_content (snd (get_clusters_connected_to_datacenter A dc_id True s))"
    using get_leaves_header [of "CL_API A" None False s]
    unfolding get_clusters_connected_to_datacenter_def
    by (auto simp: bindE_def lift_res_def split: prod.splits sum.splits)
  then show ?thesis by (simp add: asks_all_content_def)
qed

text \<open>
  The check of the parameters of a NIC passes for a VLAN whose NIC is not on the host.
\<close>

theorem missing_vlan_passes:
  assumes "host_and_nic A host (PStr nic) w = (Inr (h, n), w1)" and "vlan \<noteq> []"
    and "get_host_nic A h (PStr (nic @ ''.'' @ vlan)) False w1 = (Inr None, w2)"
  shows "check_host_nic_params A host nic [(''vlan_id'', PStr vlan)] w = (Inr True, w2)"
  using assms by (simp add: check_host_nic_params_def kwget_def bindE_def ret_def lift_res_def try_except_def)

text \<open>The management networks of some clusters, looked up one after the other.\<close>

inductive managed_in_turn :: "'w apis \<Rightarrow> pyval list \<Rightarrow> pyval option list \<Rightarrow> 'w rest_st \<Rightarrow> 'w rest_st \<Rightarrow> bool" for A where
  no_cluster: "managed_in_turn A [] [] w w"
| next_cluster: "get_management_network A (py_str c) w = (Inr m, v) \<Longrightarrow> managed_in_turn A cs ms v w' \<Longrightarrow>
    managed_in_turn A (c # cs) (m # ms) w w'"

lemma management_ids_in_turn:
  assumes "management_ids A cs w = (Inr ids, w')"
  shows "\<exists>ms. managed_in_turn A cs ms w w' \<and> (\<forall>x. Some x \<in> set ms \<and> truthy x \<longrightarrow> (\<exists>i \<in> set ids. getattr x ''id'' = Inr i))"
  using assms
proof (induction cs arbitrary: w ids)
  case Nil
  then show ?case by (auto simp: ret_apply intro!: exI [of _ "[]"] managed_in_turn.intros)
next
  case (Cons c cs)
  from Cons.prems obtain m v i v' more where m: "get_management_network A (py_str c) w = (Inr m, v)"
    and i: "(case m of Some x \<Rightarrow> if truthy x then lift_res (res_bind (getattr x ''id'') (\<lambda>i. Inr [i])) else ret [] | None \<Rightarrow> ret []) v = (Inr i, v')"
    and rest: "management_ids A cs v' = (Inr more, w')" "ids = i @ more"
    by (auto simp: ret_apply elim!: bindE_InrE)
  have same: "v' = v" using i by (auto simp: ret_apply lift_res_def split: option.splits if_splits)
  have id_of: "\<exists>j. i = [j] \<and> getattr x ''id'' = Inr j" if "m = Some x" "truthy x" for x
    using i that by (auto simp: lift_res_def res_bind_Inr)
  from Cons.IH [OF rest(1)] obtain ms where ms: "managed_in_turn A cs ms v' w'"
    "\<And>x. Some x \<in> set ms \<Longrightarrow> truthy x \<Longrightarrow> \<exists>j \<in> set more. getattr x ''id'' = Inr j" by blast
  have "managed_in_turn A (c # cs) (m # ms) w w'" by (rule next_cluster [OF m ms(1) [unfolded same]])
  moreover have "\<exists>j \<in> set ids. getattr x ''id'' = Inr j" if "Some x \<in> set (m # ms)" "truthy x" for x
    using that id_of [of x] ms(2) [of x] rest(2) by auto
  ultimately show ?case by blast
qed

text \<open>
  C34. When networks are removed, the names of the clusters of the engine are listed and the management
  networks looked up: those of the clusters with the name given when a cluster is given, of all clusters
  otherwise. No network that has the id of one of them is chosen, and what is chosen is called by its
  own name. With a cluster given, the management network of another cluster is not spared.
\<close>

theorem networks_to_remove_spares_management:
  assumes "networks_to_remove A datacenter cluster remove_gluster w = (Inr (l, mgmt), w')"
  shows "\<exists>cl w1 names w2 ms w3.
    (if truthy cluster then get_cluster_object A (py_str cluster) False w = (Inr cl, w1) else w1 = w) \<and>
    get_cluster_names_list A w1 = (Inr names, w2) \<and>
    managed_in_turn A (filter (\<lambda>c. if truthy cluster then py_eq c cluster else truthy c) names) ms w2 w3 \<and>
    (\<forall>(net, ns) \<in> set l. ns \<noteq> [] \<longrightarrow>
       (\<exists>n i. getattr net ''name'' = Inr n \<and> ns = [py_str n] \<and> getattr net ''id'' = Inr i \<and>
          (\<forall>x j. Some x \<in> set ms \<and> truthy x \<and> getattr x ''id'' = Inr j \<longrightarrow> \<not> py_eq i j)))"
proof -
  from assms(1) obtain cl_obj w1 u1 nets v where
    cl: "(if truthy cluster then get_cluster_object A (py_str cluster) False else ret cluster) w = (Inr cl_obj, w1)"
    and ids: "get_clusters_managements_networks_ids A cluster w1 = (Inr mgmt, u1)"
    and l: "map_comp (\<lambda>net. bindE (network_to_remove A datacenter cl_obj remove_gluster mgmt net) (\<lambda>ns. ret (net, ns))) nets v = (Inr l, w')"
    unfolding networks_to_remove_def by (elim bindE_InrE) (auto simp: ret_apply)
  let ?of = "filter (\<lambda>c. if truthy cluster then py_eq c cluster else truthy c)"
  from ids obtain names w2 where names: "get_cluster_names_list A w1 = (Inr names, w2)"
    and mgmt: "management_ids A (?of names) w2 = (Inr mgmt, u1)"
    by (auto simp: get_clusters_managements_networks_ids_def Let_def lift_res_def elim!: bindE_InrE)
  from management_ids_in_turn [OF mgmt] obtain ms where ms: "managed_in_turn A (?of names) ms w2 u1"
    "\<And>x. Some x \<in> set ms \<Longrightarrow> truthy x \<Longrightarrow> \<exists>i \<in> set mgmt. getattr x ''id'' = Inr i" by blast
  have "\<exists>n i. getattr net ''name'' = Inr n \<and> ns = [py_str n] \<and> getattr net ''id'' = Inr i \<and> \<not> list_ex (py_eq i) mgmt"
    if net: "(net, ns) \<in> set l" "ns \<noteq> []" for net ns
  proof -
    from map_comp_source [OF l net(1)] obtain q q' where "network_to_remove A datacenter cl_obj remove_gluster mgmt net q = (Inr ns, q')"
      by (auto simp: ret_apply elim!: bindE_InrE)
    with net(2) show ?thesis
      by (auto simp: network_to_remove_def lift_res_def ret_apply elim!: bindE_InrE split: if_splits)
  qed
  note chosen = this
  have "\<exists>n i. getattr net ''name'' = Inr n \<and> ns = [py_str n] \<and> getattr net ''id'' = Inr i \<and>
      (\<forall>x j. Some x \<in> set ms \<and> truthy x \<and> getattr x ''id'' = Inr j \<longrightarrow> \<not> py_eq i j)"
    if "(net, ns) \<in> set l" "ns \<noteq> []" for net ns
    using chosen [OF that] ms(2) by (fastforce simp: list_ex_iff)
  moreover have "if truthy cluster then get_cluster_object A (py_str cluster) False w = (Inr cl_obj, w1) else w1 = w"
    using cl by (auto simp: ret_apply split: if_splits)
  ultimately show ?thesis using names ms(1) by blast
qed


section \<open>Witnesses\<close>

lemma vlan_look_ups:
  "fst (host_and_nic hn_apis ''h1'' (PStr ''eth0'') demo_rest_st) = Inr (hn_host, hn_obj ''HostNic'' ''eth0'' ''e0'' [''networklabels''] [(''network'', PNone)])"
  "fst (get_host_nic hn_apis hn_host (PStr (''eth0'' @ ''.'' @ ''7'')) False (snd (host_and_nic hn_apis ''h1'' (PStr ''eth0'') demo_rest_st))) = Inr None"
  by code_simp+

theorem missing_vlan_passes_witness:
  "\<exists>w2. check_host_nic_params hn_apis ''h1'' ''eth0'' [(''vlan_id'', PStr ''7'')] demo_rest_st = (Inr True, w2)"
proof -
  obtain w1 where a: "host_and_nic hn_apis ''h1'' (PStr ''eth0'') demo_rest_st =
      (Inr (hn_host, hn_obj ''HostNic'' ''eth0'' ''e0'' [''networklabels''] [(''network'', PNone)]), w1)"
    using vlan_look_ups(1) by (metis prod.collapse)
  obtain w2 where b: "get_host_nic hn_apis hn_host (PStr (''eth0'' @ ''.'' @ ''7'')) False w1 = (Inr None, w2)"
    using vlan_look_ups(2) a by (metis prod.collapse snd_conv)
  from missing_vlan_passes [OF a _ b] show ?thesis by auto
qed

text \<open>A link to the networks of a cluster answers with networks only.\<close>

definition linked_nets_apis :: "nat apis" where
  "linked_nets_apis el col = (hn_apis el col)\<lparr>parse := (\<lambda>s. Inr (if contains s ''x/networks'' then
     PObj [] [(''network'', PList [hn_obj ''Network'' ''ovirtmgmt'' ''i0'' [] [(''usages'', PObj ''Usages'' [(''usage'', PList [PStr ''management''])])]])]
     else hn_parse s))\<rparr>"

lemma chosen_networks:
  "map_sum id (map snd \<circ> fst) (fst (networks_to_remove linked_nets_apis PNone PNone True demo_rest_st)) = Inr [[], [''net1'']]"
  by code_simp

theorem networks_to_remove_spares_management_witness:
  "\<exists>l mgmt w' names w2 ms w3. networks_to_remove linked_nets_apis PNone PNone True demo_rest_st = (Inr (l, mgmt), w') \<and> map snd l = [[], [''net1'']] \<and>
     get_cluster_names_list linked_nets_apis demo_rest_st = (Inr names, w2) \<and>
     managed_in_turn linked_nets_apis (filter truthy names) ms w2 w3"
proof -
  obtain l mgmt w' where run: "networks_to_remove linked_nets_apis PNone PNone True demo_rest_st = (Inr (l, mgmt), w')" "map snd l = [[], [''net1'']]"
    using chosen_networks by (cases "networks_to_remove linked_nets_apis PNone PNone True demo_rest_st") (auto simp: map_sum_Inr)
  from networks_to_remove_spares_management [OF run(1)] run show ?thesis by auto
qed

end
