(* ===== verification/High_Vms.thy ===== *)
theory High_Vms
  imports High_Hosts Vm_Snapshots Instance_Types Sla
begin

text \<open>
  \<open>vms.py\<close>, \<open>vmpools.py\<close>, \<open>graphics_console.py\<close>, \<open>templates.py\<close> and \<open>disks.py\<close> of
  \<open>tests_lib/high_level\<close>: compositions of the operations on virtual machines, pools and disks.
\<close>

definition KB :: int where "KB = 1024"
definition MB :: int where "MB = 1024 ^ 2"
definition GB :: int where "GB = 1024 ^ 3"
definition SLEEP_TIME :: int where "SLEEP_TIME = 30"
definition WGT_INSTALL_TIMEOUT :: int where "WGT_INSTALL_TIMEOUT = 600"
definition CLONE_FROM_SNAPSHOT :: int where "CLONE_FROM_SNAPSHOT = 1500"
definition SLEEP_TIME_HOTPLUG_DEVICE :: int where "SLEEP_TIME_HOTPLUG_DEVICE = 6"
definition SLEEP_TIME_HOT_UNPLUG_DEVICE :: int where "SLEEP_TIME_HOT_UNPLUG_DEVICE = 20"

text \<open>
  The loops here use the sampler of \<open>core_api/timeout.py\<close> itself, which ends with
  \<open>TimeoutExpiredError\<close> and not with \<open>APITimeout\<close>.
\<close>

definition core_sampling :: "'w os_time \<Rightarrow> ('w, 'a) comp \<Rightarrow> ('a \<Rightarrow> exn + 'r option) \<Rightarrow> int \<Rightarrow> int \<Rightarrow> ('w, 'r) wcomp" where
  "core_sampling T f h t s w =
     (case for_sample T f (\<lambda>x. lift_res (h x)) (TimeoutingSampler t s) w of
        None \<Rightarrow> None
      | Some (r, _, w1) \<Rightarrow> Some (r, w1))"

section \<open>Addresses, hosts and migration\<close>

definition get_vm_ip ::
  "'w rest_st os_time \<Rightarrow> 'w apis \<Rightarrow> enums \<Rightarrow> enum_table \<Rightarrow> 'w vdsm \<Rightarrow> string \<Rightarrow> bool \<Rightarrow> ('w rest_st, pyval) wcomp" where
  "get_vm_ip T A N En V vm_name start_vm =
     bindW (run (if start_vm then checkVmState A True vm_name (N ''vm_state_down'') PNone else ret False)) (\<lambda>down.
     bindW (if down then startVm T A N En V True vm_name (start_default N) else retW True) (\<lambda>started.
     if \<not> started then raiseW (TestExc VMException)
     else
       bindW (wait_for_vm_ip T A V vm_name 600 DEF_SLEEP_VM False) (\<lambda>(found, ip).
       if found then retW ip else raiseW (TestExc VMException))))"

definition run_vm_once_specific_host ::
  "'w rest_st os_time \<Rightarrow> 'w apis \<Rightarrow> enums \<Rightarrow> string \<Rightarrow> string \<Rightarrow> bool \<Rightarrow> ('w rest_st, bool) wcomp" where
  "run_vm_once_specific_host T A N vm host wait_for_up_status =
     bindW (run (get_host_status A host)) (\<lambda>st.
     if \<not> py_eq st (PStr (N ''host_state_up'')) then retW False
     else
       bindW (run (runVmOnce A N True vm (N ''vm_state_powering_up_or_up'') (PBool False) False False [(''host'', PStr host)])) (\<lambda>ok.
       if \<not> ok then retW False
       else
         bindW (if wait_for_up_status then wait_for_vm_states T A vm [N ''vm_state_up''] VM_WAIT_FOR_IP_TIMEOUT DEF_SLEEP_VM else retW ()) (\<lambda>_.
         bindW (run (get_vm_host A vm)) (\<lambda>vm_host.
         retW (truthy vm_host \<and> py_eq (PStr host) vm_host)))))"

text \<open>The memory of every host, rounded down to megabytes, the largest first; a division by zero is an error.\<close>

definition memory_for_filter :: "int \<Rightarrow> pyval \<Rightarrow> exn + int" where
  "memory_for_filter difference v =
     (case num_of v of
        None \<Rightarrow> Inl TypeError
      | Some m \<Rightarrow> res_bind (py_div m difference) (\<lambda>d. Inr (m - d - (m - d) mod MB)))"

definition calculate_memory_for_memory_filter :: "'w apis \<Rightarrow> string list \<Rightarrow> int \<Rightarrow> ('w rest_st, int list) comp" where
  "calculate_memory_for_memory_filter A hosts_list difference =
     bindE (map_comp (get_host_max_scheduling_memory A) hosts_list) (\<lambda>ms.
     bindE (lift_res (map_res (memory_for_filter difference) ms)) (\<lambda>l. ret (rev (sort l))))"

text \<open>
  One machine after a migration: it has to show up on another host, to be up and to be reachable. The
  address of the host it was seen on is kept. The time-out of the sampler is no \<open>APITimeout\<close>.
\<close>

definition moved_from :: "string \<Rightarrow> pyval \<Rightarrow> exn + pyval option" where
  "moved_from src_host v = Inr (if py_eq v (PStr src_host) then None else Some v)"

definition check_migrated ::
  "'w rest_st os_time \<Rightarrow> 'w apis \<Rightarrow> 'w vdsm \<Rightarrow> (pyval \<Rightarrow> ('w rest_st, bool) comp) \<Rightarrow> string \<Rightarrow> string \<Rightarrow> ('w rest_st, pyval option) wcomp" where
  "check_migrated T A V reaches src_host vm =
     bindW (tryW (bindW (core_sampling T (get_vm_host A vm) (moved_from src_host) MIGRATION_TIMEOUT 1) (\<lambda>h. retW (Some h)))
              APITimeout (\<lambda>_. retW None)) (\<lambda>found.
     case found of
       None \<Rightarrow> retW None
     | Some h \<Rightarrow>
         bindW (run (find_by (VM_API A) ''name'' (PStr vm))) (\<lambda>x.
         bindW (run (waitForElemStatus (VM_API A) x ''up'' MIGRATION_TIMEOUT False)) (\<lambda>up.
         if \<not> up then retW None
         else
           bindW (check_vm_connectivity T A V reaches vm MIGRATION_TIMEOUT) (\<lambda>ok.
           retW (if ok then Some h else None)))))"

fun check_each_migrated ::
  "'w rest_st os_time \<Rightarrow> 'w apis \<Rightarrow> 'w vdsm \<Rightarrow> (pyval \<Rightarrow> ('w rest_st, bool) comp) \<Rightarrow> string \<Rightarrow> string list \<Rightarrow> ('w rest_st, pyval list option) wcomp" where
  "check_each_migrated T A V reaches src_host [] = retW (Some [])"
| "check_each_migrated T A V reaches src_host (vm # vms) =
     bindW (check_migrated T A V reaches src_host vm) (\<lambda>r.
     case r of
       None \<Rightarrow> retW None
     | Some h \<Rightarrow> bindW (check_each_migrated T A V reaches src_host vms) (\<lambda>hs. retW (map_option ((#) h) hs)))"

definition check_vms_after_migration ::
  "'w rest_st os_time \<Rightarrow> 'w apis \<Rightarrow> 'w vdsm \<Rightarrow> (pyval \<Rightarrow> ('w rest_st, bool) comp) \<Rightarrow> string list \<Rightarrow> string \<Rightarrow> pyval \<Rightarrow> ('w rest_st, bool) wcomp" where
  "check_vms_after_migration T A V reaches vms_list src_host dst_host =
     bindW (check_each_migrated T A V reaches src_host vms_list) (\<lambda>r.
     case r of
       None \<Rightarrow> retW False
     | Some vms_host \<Rightarrow>
         retW (if truthy dst_host then list_all (\<lambda>h. py_eq h dst_host) vms_host
               else list_all (\<lambda>h. \<not> py_eq h (PStr src_host)) vms_host))"

definition migrate_by_maintenance ::
  "'w rest_st os_time \<Rightarrow> 'w apis \<Rightarrow> enums \<Rightarrow> 'w vdsm \<Rightarrow> (pyval \<Rightarrow> ('w rest_st, bool) comp) \<Rightarrow> string list \<Rightarrow> string \<Rightarrow> bool
   \<Rightarrow> ('w rest_st, pyval) comp option \<Rightarrow> ('w rest_st, bool) wcomp" where
  "migrate_by_maintenance T A N V reaches vms_list src_host connectivity_check he_stats =
     bindW (deactivate_host T A N None True src_host (N ''host_state_maintenance'') 0) (\<lambda>down.
     if \<not> down then retW False
     else
       bindW (if connectivity_check then check_vms_after_migration T A V reaches vms_list src_host PNone else retW True) (\<lambda>status.
       bindW (activate_host_if_not_up T A N src_host he_stats) (\<lambda>up. retW (up \<and> status))))"

text \<open>The network of the host resource: setting a NIC up is a parameter.\<close>

definition migrate_by_nic_down ::
  "'w rest_st os_time \<Rightarrow> 'w apis \<Rightarrow> enums \<Rightarrow> 'w vdsm \<Rightarrow> (pyval \<Rightarrow> ('w rest_st, bool) comp) \<Rightarrow> (pyval \<Rightarrow> ('w rest_st, string) comp)
   \<Rightarrow> (pyval \<Rightarrow> 'w host_res) \<Rightarrow> ('w host_res \<Rightarrow> pyval \<Rightarrow> ('w rest_st, bool) comp) \<Rightarrow> string list \<Rightarrow> string \<Rightarrow> pyval \<Rightarrow> ('w rest_st, bool) wcomp" where
  "migrate_by_nic_down T A N V reaches gethostbyname vds if_up vms_list src_host nic =
     bindW (run (get_host_ip_from_engine A (PStr src_host))) (\<lambda>host_ip.
     bindW (set_host_non_operational_nic_down T gethostbyname A N (vds host_ip) nic) (\<lambda>down.
     if \<not> down then retW False
     else
       bindW (check_vms_after_migration T A V reaches vms_list src_host PNone) (\<lambda>status.
       bindW (run (if_up (vds host_ip) nic)) (\<lambda>nic_up.
       if \<not> nic_up then retW False
       else bindW (activate_host_if_not_up T A N src_host None) (\<lambda>up. retW (up \<and> status))))))"

text \<open>The executor: every migration has run, in order, before the first result is looked at.\<close>

definition submit_migrations :: "'w apis \<Rightarrow> pyval \<Rightarrow> string list \<Rightarrow> ('w rest_st, (exn + bool) list) wcomp" where
  "submit_migrations A dst_host vms_list =
     eachW vms_list (\<lambda>vm rs. bindW (caught (run (migrateVm A True vm dst_host True False MIGRATION_TIMEOUT ''up''))) (\<lambda>r. retW (rs @ [r]))) []"

fun check_migrations :: "(exn + bool) list \<Rightarrow> exn + unit" where
  "check_migrations [] = Inr ()"
| "check_migrations (Inl e # rs) = Inl e"
| "check_migrations (Inr ok # rs) = (if ok then check_migrations rs else Inl (TestExc VMException))"

definition migrate_vms ::
  "'w rest_st os_time \<Rightarrow> 'w apis \<Rightarrow> 'w vdsm \<Rightarrow> (pyval \<Rightarrow> ('w rest_st, bool) comp) \<Rightarrow> string list \<Rightarrow> string \<Rightarrow> pyval \<Rightarrow> ('w rest_st, bool) wcomp" where
  "migrate_vms T A V reaches vms_list src_host dst_host =
     bindW (submit_migrations A dst_host vms_list) (\<lambda>rs.
     bindW (run (lift_res (check_migrations rs))) (\<lambda>_.
     check_vms_after_migration T A V reaches vms_list src_host dst_host))"

definition cancel_vm_migrate :: "'w apis \<Rightarrow> enums \<Rightarrow> string \<Rightarrow> bool \<Rightarrow> int \<Rightarrow> ('w rest_st, bool) comp" where
  "cancel_vm_migrate A N vm wait t =
     bindE (find_by (VM_API A) ''name'' (PStr vm)) (\<lambda>x.
     bindE (get_vm_host A vm) (\<lambda>source.
     bindE (syncAction (VM_API A) x ''cancelmigration'' True action_default) (\<lambda>r.
     if \<not> truthy r then ret False
     else if \<not> wait then ret True
     else
       bindE (waitForElemStatus (VM_API A) x (N ''vm_state_up'') t False) (\<lambda>up.
       if \<not> up then ret False else bindE (get_vm_host A vm) (\<lambda>destination. ret (py_eq source destination))))))"

section \<open>Memory\<close>

fun update_os_type :: "'w apis \<Rightarrow> enums \<Rightarrow> enum_table \<Rightarrow> pyval \<Rightarrow> string list \<Rightarrow> ('w rest_st, bool) comp" where
  "update_os_type A N En os_type [] = ret True"
| "update_os_type A N En os_type (vm # vms) =
     bindE (updateVm A N En True vm [(''os_type'', os_type)]) (\<lambda>ok. if ok then update_os_type A N En os_type vms else ret False)"

definition hl_get_vm_memory :: "'w apis \<Rightarrow> string \<Rightarrow> ('w rest_st, pyval) comp" where
  "hl_get_vm_memory A vm = bindE (get_vm A vm) (\<lambda>x. lift_res (getattr x ''memory''))"

text \<open>
  \<open>getStat(host, 'host', 'hosts', 'memory.total')\<close>: with a string the test for the name of a
  statistic is the test for a part of the string.
\<close>

definition parts_of :: "string \<Rightarrow> pyval list" where
  "parts_of s = map PStr (concat (map (\<lambda>i. map (\<lambda>j. take j (drop i s)) [0..<Suc (List.length s)]) [0..<Suc (List.length s)]))"

definition host_memory :: "(pyval \<Rightarrow> exn + 'f) \<Rightarrow> 'w apis \<Rightarrow> string \<Rightarrow> ('w rest_st, (pyval, 'f) dict) comp" where
  "host_memory py_float A host = getStat py_float (HOST_API A) host (parts_of ''memory.total'')"

text \<open>
  Dictionaries are compared by their size, then by the least key at which they differ, then by the
  value there. \<open>l.index(max(l))\<close> is the first of the greatest.
\<close>

definition least_diff :: "(pyval, 'f) dict \<Rightarrow> (pyval, 'f) dict \<Rightarrow> (pyval \<times> 'f) option" where
  "least_diff a b =
     (case sort_key (sort_key_of \<circ> fst) (filter (\<lambda>(k, v). map_of b k \<noteq> Some v) a) of [] \<Rightarrow> None | x # _ \<Rightarrow> Some x)"

definition dict_less :: "(pyval, 'f :: linorder) dict \<Rightarrow> (pyval, 'f) dict \<Rightarrow> bool" where
  "dict_less a b =
     (if List.length a \<noteq> List.length b then List.length a < List.length b
      else
        (case (least_diff a b, least_diff b a) of
           (Some (k, x), Some (l, y)) \<Rightarrow> if k = l then x < y else sort_key_of k < sort_key_of l
         | _ \<Rightarrow> False))"

fun max_index :: "nat \<Rightarrow> nat \<Rightarrow> (pyval, 'f :: linorder) dict \<Rightarrow> (pyval, 'f) dict list \<Rightarrow> nat" where
  "max_index i n best [] = i"
| "max_index i n best (d # ds) = (if dict_less best d then max_index n (Suc n) d ds else max_index i (Suc n) best ds)"

definition index_of_max :: "(pyval, 'f :: linorder) dict list \<Rightarrow> exn + nat" where
  "index_of_max ds = (case ds of [] \<Rightarrow> Inl ValueError | d # rest \<Rightarrow> Inr (max_index 0 1 d rest))"

text \<open>
  \<open>long(long(total) * (float(percentage) / float(100)))\<close> in floating point is the parameter
  \<open>portion\<close>; \<open>long(None)\<close> is a TypeError.
\<close>

definition share_of_host :: "('f \<Rightarrow> int) \<Rightarrow> (pyval, 'f) dict \<Rightarrow> exn + int" where
  "share_of_host portion d =
     (case map_of d (PStr ''memory.total'') of None \<Rightarrow> Inl TypeError | Some x \<Rightarrow> Inr (portion x div MB * MB))"

text \<open>The inner loop: a machine gets the share of every host in turn, the last one stays.\<close>

fun update_by_hosts :: "('f \<Rightarrow> int) \<Rightarrow> 'w apis \<Rightarrow> enums \<Rightarrow> enum_table \<Rightarrow> string \<Rightarrow> (pyval, 'f) dict list \<Rightarrow> ('w rest_st, bool) comp" where
  "update_by_hosts portion A N En vm [] = ret True"
| "update_by_hosts portion A N En vm (d # ds) =
     bindE (lift_res (share_of_host portion d)) (\<lambda>new_memory.
     bindE (updateVm A N En True vm
              [(''memory'', PInt new_memory), (''max_memory'', PInt (new_memory + 2 * GB)), (''compare'', PBool False)]) (\<lambda>ok.
     if ok then update_by_hosts portion A N En vm ds else ret False))"

fun update_all_by_hosts :: "('f \<Rightarrow> int) \<Rightarrow> 'w apis \<Rightarrow> enums \<Rightarrow> enum_table \<Rightarrow> (pyval, 'f) dict list \<Rightarrow> string list \<Rightarrow> ('w rest_st, bool) comp" where
  "update_all_by_hosts portion A N En ds [] = ret True"
| "update_all_by_hosts portion A N En ds (vm # vms) =
     bindE (update_by_hosts portion A N En vm ds) (\<lambda>ok. if ok then update_all_by_hosts portion A N En ds vms else ret False)"

definition set_vms_with_host_memory_by_percentage ::
  "(pyval \<Rightarrow> exn + 'f :: linorder) \<Rightarrow> ('f \<Rightarrow> int) \<Rightarrow> 'w apis \<Rightarrow> enums \<Rightarrow> enum_table \<Rightarrow> string list \<Rightarrow> string list \<Rightarrow> ('w rest_st, bool \<times> int) comp" where
  "set_vms_with_host_memory_by_percentage py_float portion A N En test_hosts test_vms =
     bindE (map_comp (host_memory py_float A) test_hosts) (\<lambda>hosts_memory.
     bindE (lift_res (index_of_max hosts_memory)) (\<lambda>i.
     bindE (update_all_by_hosts portion A N En hosts_memory test_vms) (\<lambda>ok.
     ret (if ok then (True, int i) else (False, -1)))))"

fun update_vms_memory :: "'w apis \<Rightarrow> enums \<Rightarrow> enum_table \<Rightarrow> int \<Rightarrow> pyval \<Rightarrow> string list \<Rightarrow> ('w rest_st, bool) comp" where
  "update_vms_memory A N En memory max_memory [] = ret True"
| "update_vms_memory A N En memory max_memory (vm # vms) =
     bindE (updateVm A N En True vm
              [(''memory'', PInt memory), (''memory_guaranteed'', PInt (memory div 2)), (''max_memory'', max_memory), (''compare'', PBool False)])
       (\<lambda>ok. if ok then update_vms_memory A N En memory max_memory vms else ret False)"

text \<open>
  \<open>expand_vm_memory\<close> grows the memory step by step: \<open>i\<close> counts the steps, and the result is
  None when the engine refused one.
\<close>

definition pause_after_expansion :: "'w rest_st os_time \<Rightarrow> int \<Rightarrow> nat \<Rightarrow> nat \<Rightarrow> ('w rest_st, unit) comp" where
  "pause_after_expansion T step n_times i =
     (if 1 < n_times
      then modify (os_sleep T (if 0 \<le> step \<and> 2 < i then SLEEP_TIME_HOTPLUG_DEVICE else SLEEP_TIME_HOT_UNPLUG_DEVICE))
      else ret ())"

fun expand_steps ::
  "'w rest_st os_time \<Rightarrow> 'w apis \<Rightarrow> enums \<Rightarrow> enum_table \<Rightarrow> string \<Rightarrow> int \<Rightarrow> nat \<Rightarrow> nat list \<Rightarrow> int \<Rightarrow> ('w rest_st, int option) comp" where
  "expand_steps T A N En vm_name step n_times [] m = ret (Some m)"
| "expand_steps T A N En vm_name step n_times (i # is) m =
     (let m' = m + step in
      bindE (updateVm A N En True vm_name
               [(''memory'', PInt m'), (''memory_guaranteed'', PInt m'), (''compare'', PBool False)]) (\<lambda>ok.
      if \<not> ok then ret None
      else bindE (pause_after_expansion T step n_times i) (\<lambda>_. expand_steps T A N En vm_name step n_times is m')))"

definition expand_vm_memory ::
  "'w rest_st os_time \<Rightarrow> 'w apis \<Rightarrow> enums \<Rightarrow> enum_table \<Rightarrow> string \<Rightarrow> int \<Rightarrow> nat \<Rightarrow> ('w rest_st, int \<times> pyval \<times> int) comp" where
  "expand_vm_memory T A N En vm_name mem_size_to_expand number_of_times =
     bindE (hl_get_vm_memory A vm_name) (\<lambda>v.
     bindE (lift_res (py_int v)) (\<lambda>before.
     bindE (expand_steps T A N En vm_name mem_size_to_expand number_of_times [0..<number_of_times] before) (\<lambda>r.
     case r of
       None \<Rightarrow> ret (before, PInt (-1), -1)
     | Some new \<Rightarrow> bindE (hl_get_vm_memory A vm_name) (\<lambda>after. ret (before, after, new)))))"

text \<open>A command on the machine; \<open>shlex.split\<close> of its output is a parameter. Only the second word is read.\<close>

definition get_memory_on_vm :: "(string \<Rightarrow> exn + string list) \<Rightarrow> ('s, int \<times> string) comp \<Rightarrow> ('s, int option) comp" where
  "get_memory_on_vm shlex_split check_memory =
     bindE check_memory (\<lambda>(rc, out).
     if rc \<noteq> 0 then ret None
     else
       lift_res (res_bind (shlex_split out) (\<lambda>ws.
         case ws of _ # w # _ \<Rightarrow> res_bind (py_int (PStr w)) (\<lambda>n. Inr (Some (n * KB))) | _ \<Rightarrow> Inl IndexError)))"

definition get_vm_cpu_consumption_on_the_host ::
  "(pyval \<Rightarrow> exn + 'f) \<Rightarrow> ('f \<Rightarrow> int) \<Rightarrow> 'w apis \<Rightarrow> string \<Rightarrow> ('w rest_st, int) comp" where
  "get_vm_cpu_consumption_on_the_host py_float float_to_int A vm_name =
     bindE (getStat py_float (VM_API A) vm_name [PStr ''cpu.current.total'']) (\<lambda>stats.
     bindE (get_vm_processing_units_number A vm_name) (\<lambda>vm_cpus.
     lift_res (case map_of stats (PStr ''cpu.current.total'') of
         None \<Rightarrow> Inl KeyError
       | Some x \<Rightarrow> py_div (float_to_int x) vm_cpus)))"

section \<open>New machines\<close>

text \<open>A call of \<open>createVm\<close> by keywords.\<close>

definition call_createVm ::
  "'w rest_st os_time \<Rightarrow> 'w apis \<Rightarrow> enums \<Rightarrow> enum_table \<Rightarrow> 'w vdsm \<Rightarrow> (string, pyval) dict \<Rightarrow> ('w rest_st, bool) wcomp" where
  "call_createVm T A N En V kw =
     (case (map_of kw ''positive'', map_of kw ''vmName'') of
        (Some p, Some n) \<Rightarrow>
          bindW (createVm T A N En V (truthy p) (py_str n) (without kw [''positive'', ''vmName''])) (\<lambda>r. retW (r = Some True))
      | _ \<Rightarrow> raiseW TypeError)"

definition create_vm_using_glance_image ::
  "'w rest_st os_time \<Rightarrow> 'w apis \<Rightarrow> enums \<Rightarrow> enum_table \<Rightarrow> 'w vdsm \<Rightarrow> pyval \<Rightarrow> pyval \<Rightarrow> (string, pyval) dict \<Rightarrow> ('w rest_st, bool) wcomp" where
  "create_vm_using_glance_image T A N En V glance_storage_domain_name glance_image kw =
     bindW (run (verify_image_exists_in_storage_domain A glance_storage_domain_name glance_image)) (\<lambda>found.
     if \<not> found then retW False
     else
       case map_of kw ''vmName'' of
         None \<Rightarrow> raiseW KeyError
       | Some vm_name \<Rightarrow>
           let disk_alias = py_str vm_name @ ''_Disk_glance'';
               vm_kw = dict_update (without kw [''positive'', ''vmName'', ''vmDescription''])
                         [(''storageDomainName'', PNone), (''installation'', PBool False), (''start'', PStr ''false'')] in
           bindW (import_image T A N (new_GlanceImage glance_image glance_storage_domain_name 600) (kwget kw ''storageDomainName'')
                    (kwget kw ''cluster'') (Some disk_alias) None False False False) (\<lambda>(_, ok).
           if \<not> truthy ok then retW False
           else
             bindW (call_createVm T A N En V
                      ([(''positive'', pop_or kw ''positive'' (PBool True)), (''vmName'', vm_name),
                        (''vmDescription'', pop_or kw ''vmDescription'' vm_name)] @ vm_kw)) (\<lambda>created.
             if \<not> created then retW False
             else
               run (bindE (attachDisk A True (PStr disk_alias) (py_str vm_name) (PBool True) (PBool False) PNone (PStr ''virtio'') PNone) (\<lambda>attached.
                    if \<not> attached then ret False
                    else updateDisk A True [(''vmName'', vm_name), (''alias'', PStr disk_alias),
                           (''interface'', kwget kw ''diskInterface''), (''bootable'', PBool True)])))))"

text \<open>
  The installation of Windows tools. A query of the agent gives a code and a body; the agent, the
  look-up of the address and the text of its URL are parameters. A code other than 200 and 404 sets the
  request to None, whose code is then read: an AttributeError. The \<open>else\<close> of the loop runs only
  when the sampler ends without an exception, which it does not.
\<close>

definition quoted1 :: "string \<Rightarrow> string" where
  "quoted1 s = [CHR 0x27] @ s @ [CHR 0x27]"

record 'w agent =
  urlopen :: "string \<Rightarrow> pyval \<Rightarrow> ('w rest_st, int \<times> string) comp"
  lookup_ip :: "string \<Rightarrow> ('w rest_st, pyval) comp"

definition query_agent :: "'w agent \<Rightarrow> string \<Rightarrow> pyval \<Rightarrow> ('w rest_st, (int \<times> string) option option) comp" where
  "query_agent G vm_name vm_id =
     bindE (urlopen G ''query'' vm_id) (\<lambda>(status, body).
     if status = 200 then ret (Some (Some (status, body)))
     else if status = 404 then
       bindE (lookup_ip G vm_name) (\<lambda>ip. ret (if truthy ip then Some (Some (status, body)) else None))
     else ret (Some None))"

definition WGT_SUCCESS_CODE :: string where "WGT_SUCCESS_CODE = ''3010''"

definition get_install_status ::
  "'w rest_st os_time \<Rightarrow> 'w apis \<Rightarrow> 'w vdsm \<Rightarrow> 'w agent \<Rightarrow> string \<Rightarrow> pyval \<Rightarrow> ('w rest_st, string option) wcomp" where
  "get_install_status T A V G vm_name vm_id =
     bindW (core_sampling T (query_agent G vm_name vm_id) Inr WGT_INSTALL_TIMEOUT SLEEP_TIME) (\<lambda>r.
     case r of
       None \<Rightarrow> raiseW AttributeError
     | Some (code, body) \<Rightarrow>
         if code = 200 then retW (Some body)
         else
           bindW (run (lookup_ip G vm_name)) (\<lambda>ip.
           if truthy ip then retW (Some WGT_SUCCESS_CODE)
           else bindW (wait_for_vm_ip T A V vm_name 60 DEF_SLEEP_VM False) (\<lambda>_. retW (Some WGT_SUCCESS_CODE))))"

definition check_install ::
  "'w rest_st os_time \<Rightarrow> 'w apis \<Rightarrow> enums \<Rightarrow> 'w vdsm \<Rightarrow> 'w agent \<Rightarrow> string \<Rightarrow> pyval \<Rightarrow> ('w rest_st, bool \<times> string) wcomp" where
  "check_install T A N V G vm_name vm_id =
     bindW (get_install_status T A V G vm_name vm_id) (\<lambda>status_code.
     case status_code of
       None \<Rightarrow> retW (False, ''There was an error installing RHEV tools, please examine logs'')
     | Some c \<Rightarrow>
         if c \<noteq> WGT_SUCCESS_CODE then retW (False, ''RHEV Tools installation completed with code: '' @ quoted1 c)
         else
           bindW (wait_for_vm_states T A vm_name [N ''vm_state_up''] VM_WAIT_FOR_IP_TIMEOUT DEF_SLEEP_VM) (\<lambda>_.
           retW (True, ''Vm '' @ quoted1 vm_name @ '' successfully created'')))"

text \<open>Step after step; the first one that fails decides the message.\<close>

fun first_failure :: "(('w, bool) wcomp \<times> string) list \<Rightarrow> ('w, bool \<times> string) wcomp \<Rightarrow> ('w, bool \<times> string) wcomp" where
  "first_failure [] last_step = last_step"
| "first_failure ((m, msg) # steps) last_step = bindW m (\<lambda>ok. if ok then first_failure steps last_step else retW (False, msg))"

definition create_windows_vm ::
  "'w rest_st os_time \<Rightarrow> 'w apis \<Rightarrow> enums \<Rightarrow> enum_table \<Rightarrow> 'w vdsm \<Rightarrow> 'w agent \<Rightarrow> string \<Rightarrow> pyval \<Rightarrow> pyval \<Rightarrow> pyval \<Rightarrow> pyval \<Rightarrow> bool
   \<Rightarrow> (string, pyval) dict \<Rightarrow> ('w rest_st, bool \<times> string) wcomp" where
  "create_windows_vm T A N En V G disk_name iso_name disk_interface glance_domain storage_name use_sysprep vm_kw =
     (let vm_name = py_str (kwget vm_kw ''vmName'') in
      first_failure
        [(if truthy glance_domain \<and> truthy storage_name then
            bindW (import_glance_image T A N glance_domain (PStr disk_name) storage_name (kwget vm_kw ''cluster'') (Some disk_name) None
                     False False False) (\<lambda>ok. retW (truthy ok))
          else retW True, ''Failed to import image '' @ quoted1 disk_name),
         (call_createVm T A N En V vm_kw, ''Failed to create vm '' @ quoted1 vm_name),
         (run (attachDisk A True (PStr disk_name) vm_name (PBool True) (PBool False) PNone disk_interface PNone),
            ''Failed to attach disk to vm '' @ quoted1 vm_name),
         (run (updateDisk A True [(''vmName'', kwget vm_kw ''vmName''), (''alias'', PStr disk_name), (''bootable'', PBool True)]),
            ''Failed to update disk of vm '' @ quoted1 vm_name),
         (run (runVmOnce A N True vm_name (N ''vm_state_up'') (PBool False) False use_sysprep []), ''Failed to start vm '' @ quoted1 vm_name)]
        (bindW (run (bindE (get_vm A vm_name) (\<lambda>x. lift_res (getattr x ''id'')))) (\<lambda>vm_id.
         first_failure
           [(run (bindE (urlopen G ''reset'' vm_id) (\<lambda>(code, body). ret (code = 202))), ''Error resetting VM record''),
            (run (changeCDWhileRunning A vm_name iso_name), ''Failed to change CD to '' @ py_str iso_name)]
           (check_install T A N V G vm_name vm_id))))"

section \<open>Stateless machines, disks and clones\<close>

definition wait_for_restored_stateless_snapshot :: "'w rest_st os_time \<Rightarrow> 'w apis \<Rightarrow> enums \<Rightarrow> string \<Rightarrow> ('w rest_st, bool) wcomp" where
  "wait_for_restored_stateless_snapshot T A N vm =
     bindW (wait_for_snapshot_gone T A vm (PStr (N ''snapshot_stateless_description'')) VM_REMOVE_SNAPSHOT_TIMEOUT) (\<lambda>gone.
     if \<not> gone then retW False
     else
       bindW (wait_for_vm_snapshots T A vm (Names_string (N ''snapshot_state_ok'')) (Some (Names_string (N ''snapshot_active_vm_description'')))
                SNAPSHOT_TIMEOUT SNAPSHOT_SAMPLING_PERIOD) (\<lambda>_. retW True))"

definition stop_stateless_vm :: "'w rest_st os_time \<Rightarrow> 'w apis \<Rightarrow> enums \<Rightarrow> string \<Rightarrow> ('w rest_st, bool) wcomp" where
  "stop_stateless_vm T A N vm =
     bindW (stop_vms_safely T A N [vm]) (\<lambda>stopped. if stopped then wait_for_restored_stateless_snapshot T A N vm else retW False)"

definition get_vm_macs :: "'w apis \<Rightarrow> string \<Rightarrow> pyval list \<Rightarrow> ('w rest_st, string option list) comp" where
  "get_vm_macs A vm nics = map_comp (\<lambda>nic. bindE (getVmMacAddress A vm nic) (\<lambda>(_, m). ret m)) nics"

definition image_disk_ids :: "enums \<Rightarrow> pyval list \<Rightarrow> exn + pyval list" where
  "image_disk_ids N ds =
     res_bind (filter_res (\<lambda>d. res_bind (getattr d ''storage_type'') (\<lambda>t. Inr (py_eq t (PStr (N ''storage_dom_type_image''))))) ds)
       (map_res (\<lambda>d. getattr d ''id''))"

definition move_vm_disks :: "'w rest_st os_time \<Rightarrow> 'w apis \<Rightarrow> enums \<Rightarrow> string \<Rightarrow> string \<Rightarrow> ('w rest_st, unit) wcomp" where
  "move_vm_disks T A N vm_name target_storage_domain =
     bindW (run (bindE (getVmDisks A vm_name PNone) (\<lambda>ds. lift_res (image_disk_ids N ds)))) (\<lambda>ids.
     bindW (eachW ids (\<lambda>i _. bindW (move_disk T A N PNone target_storage_domain i False COPY_MOVE_DISK_TIMEOUT 10 True PNone) (\<lambda>_. retW ())) ()) (\<lambda>_.
     bindW (eachW ids (\<lambda>i _. wait_for_disk_storage_domain T A i (PStr target_storage_domain) ''id'' 600 5) ()) (\<lambda>_.
     bindW (waitForVmsDisks T A N vm_name (N ''disk_state_ok'') 600 10) (\<lambda>ok.
     if ok then retW () else raiseW (TestExc VMException)))))"

definition get_vms_objects_from_cluster :: "'w apis \<Rightarrow> pyval \<Rightarrow> ('w rest_st, pyval list) comp" where
  "get_vms_objects_from_cluster A cluster =
     bindE (find_by (CL_API A) ''name'' cluster) (\<lambda>c.
     bindE (lift_res (getattr c ''id'')) (\<lambda>cluster_id.
     bindE (listed (VM_API A)) (\<lambda>all_vms.
     lift_res (filter_res (\<lambda>v. res_bind (getattr_chain [''cluster'', ''id''] v) (\<lambda>i. Inr (py_eq i cluster_id))) all_vms))))"

fun remove_vms_from_cluster :: "'w rest_st os_time \<Rightarrow> 'w apis \<Rightarrow> enums \<Rightarrow> string list \<Rightarrow> bool \<Rightarrow> ('w rest_st, bool) wcomp" where
  "remove_vms_from_cluster T A N [] all_removed = retW all_removed"
| "remove_vms_from_cluster T A N (vm # vms) all_removed =
     bindW (removeVm T A N True vm [(''wait'', PBool False)]) (\<lambda>ok. remove_vms_from_cluster T A N vms (all_removed \<and> ok))"

definition remove_all_vms_from_cluster ::
  "'w rest_st os_time \<Rightarrow> 'w apis \<Rightarrow> enums \<Rightarrow> pyval \<Rightarrow> pyval list \<Rightarrow> bool \<Rightarrow> ('w rest_st, bool) wcomp" where
  "remove_all_vms_from_cluster T A N cluster_name skip wait =
     bindW (run (bindE (get_vms_objects_from_cluster A cluster_name) (\<lambda>l.
                 lift_res (res_bind (map_res (\<lambda>v. getattr v ''name'') l) (\<lambda>ns.
                   Inr (map py_str (filter (\<lambda>n. \<not> (\<exists>s \<in> set skip. py_eq n s)) ns))))))) (\<lambda>names.
     if names = [] then retW True
     else
       bindW (stop_vms_safely T A N names) (\<lambda>_.
       bindW (remove_vms_from_cluster T A N names True) (\<lambda>all_removed.
       if wait \<and> all_removed then
         tryW (bindW (waitForVmsGone T A True (Names_list names) 60 10) (\<lambda>_. retW True)) APITimeout (\<lambda>_. retW False)
       else retW all_removed)))"

text \<open>The result of the waiting is a plain value: \<open>disks_status and positive\<close>.\<close>

definition hl_clone_vm :: "'w rest_st os_time \<Rightarrow> 'w apis \<Rightarrow> enums \<Rightarrow> bool \<Rightarrow> string \<Rightarrow> string \<Rightarrow> bool \<Rightarrow> ('w rest_st, bool) wcomp" where
  "hl_clone_vm T A N positive vm clone_vm_name wait =
     bindW (run (find_by (VM_API A) ''name'' (PStr vm))) (\<lambda>x.
     bindW (run (syncAction (VM_API A) x ''clone'' positive
                   (action_default\<lparr>aa_async := PBool True,
                      aa_params := [(''vm'', setattr (new_object A ''Vm'') ''name'' (PStr clone_vm_name))]\<rparr>))) (\<lambda>r.
     if \<not> truthy r then retW False
     else if \<not> wait then retW positive
     else
       bindW (run (bindE (get_vm A clone_vm_name) (\<lambda>c. waitForElemStatus (VM_API A) c ''down'' VM_DISK_CLONE_TIMEOUT False))) (\<lambda>down.
       if \<not> down then retW False
       else
         bindW (run (get_vm_disks_ids A vm)) (\<lambda>base.
         bindW (run (get_vm_disks_ids A clone_vm_name)) (\<lambda>clone.
         bindW (wait_for_disks_status T A (Names_list (map py_str (base @ clone))) ''id'' (PStr (N ''disk_state_ok'')) CLONE_FROM_SNAPSHOT DEFAULT_SLEEP) (\<lambda>ok.
         retW (ok \<and> positive)))))))"

definition get_boot_device_logical_name :: "'w rest_st os_time \<Rightarrow> 'w apis \<Rightarrow> string \<Rightarrow> ('w rest_st, pyval) wcomp" where
  "get_boot_device_logical_name T A vm_name =
     bindW (run (get_vm_bootable_disk A vm_name)) (\<lambda>boot_disk.
     get_vm_disk_logical_name T A vm_name boot_disk True GUEST_AGENT_TIMEOUT DEF_SLEEP_VM False ''name'')"

definition reboot_to_state :: "'w rest_st os_time \<Rightarrow> 'w apis \<Rightarrow> string \<Rightarrow> string \<Rightarrow> ('w rest_st, bool) wcomp" where
  "reboot_to_state T A vm state =
     bindW (run (reboot_vm A True vm)) (\<lambda>r. if truthy r then waitForVMState T A vm state DEF_TIMEOUT DEF_SLEEP else retW False)"

section \<open>Pools\<close>

definition VM_POOL_ACTION_TIMEOUT :: int where "VM_POOL_ACTION_TIMEOUT = 300"
definition VM_POOL_ACTION_SLEEP :: int where "VM_POOL_ACTION_SLEEP = 5"

text \<open>The function of an action and the state it leads to; another action is a False.\<close>

definition pool_action ::
  "'w rest_st os_time \<Rightarrow> 'w apis \<Rightarrow> enums \<Rightarrow> enum_table \<Rightarrow> 'w vdsm \<Rightarrow> string \<Rightarrow> ((string \<Rightarrow> ('w rest_st, bool) wcomp) \<times> string) option" where
  "pool_action T A N En V action =
     (if action = N ''start_vm'' then Some (\<lambda>vm. startVm T A N En V True vm (start_default N), N ''vm_state_up'')
      else if action = N ''stop_vm'' then Some (\<lambda>vm. run (stopVm A True vm ''true''), N ''vm_state_down'')
      else if action = N ''detach_vm'' then Some (\<lambda>vm. run (detachVm A True vm), N ''vm_state_down'')
      else None)"

fun act_on_each ::
  "'w apis \<Rightarrow> (string \<Rightarrow> ('w rest_st, bool) wcomp) \<Rightarrow> string option \<Rightarrow> string list \<Rightarrow> ('w rest_st, bool) wcomp" where
  "act_on_each A f skip_state [] = retW True"
| "act_on_each A f skip_state (vm # vms) =
     bindW (run (get_vm_state A vm)) (\<lambda>st.
     bindW (if (case skip_state of None \<Rightarrow> False | Some s \<Rightarrow> py_eq st (PStr s)) then retW True else f vm) (\<lambda>ok.
     if ok then act_on_each A f skip_state vms else retW False))"

fun restore_each :: "'w rest_st os_time \<Rightarrow> 'w apis \<Rightarrow> enums \<Rightarrow> string list \<Rightarrow> ('w rest_st, bool) wcomp" where
  "restore_each T A N [] = retW True"
| "restore_each T A N (vm # vms) =
     bindW (wait_for_restored_stateless_snapshot T A N vm) (\<lambda>ok. if ok then restore_each T A N vms else retW False)"

definition control_vms_in_pool ::
  "'w rest_st os_time \<Rightarrow> 'w apis \<Rightarrow> enums \<Rightarrow> enum_table \<Rightarrow> 'w vdsm \<Rightarrow> string \<Rightarrow> string \<Rightarrow> ('w rest_st, bool) wcomp" where
  "control_vms_in_pool T A N En V vm_pool action =
     (case pool_action T A N En V action of
        None \<Rightarrow> retW False
      | Some (f, expected_status) \<Rightarrow>
          bindW (run (get_vms_in_pool_by_name A vm_pool)) (\<lambda>l.
          let vms_list = map py_str l in
          bindW (act_on_each A f (if action \<noteq> N ''detach_vm'' then Some expected_status else None) vms_list) (\<lambda>ok.
          if \<not> ok then retW False
          else
            bindW (if action = N ''stop_vm'' then restore_each T A N vms_list else retW True) (\<lambda>restored.
            if \<not> restored then retW False else waitForVmsStates T A (Names_list vms_list) expected_status))))"

definition start_vm_pool :: "'w rest_st os_time \<Rightarrow> 'w apis \<Rightarrow> enums \<Rightarrow> enum_table \<Rightarrow> 'w vdsm \<Rightarrow> string \<Rightarrow> ('w rest_st, bool) wcomp" where
  "start_vm_pool T A N En V vm_pool = control_vms_in_pool T A N En V vm_pool ''start''"

definition stop_vm_pool :: "'w rest_st os_time \<Rightarrow> 'w apis \<Rightarrow> enums \<Rightarrow> enum_table \<Rightarrow> 'w vdsm \<Rightarrow> string \<Rightarrow> ('w rest_st, bool) wcomp" where
  "stop_vm_pool T A N En V vm_pool = control_vms_in_pool T A N En V vm_pool ''stop''"

definition detach_vms_from_pool :: "'w rest_st os_time \<Rightarrow> 'w apis \<Rightarrow> enums \<Rightarrow> enum_table \<Rightarrow> 'w vdsm \<Rightarrow> string \<Rightarrow> ('w rest_st, bool) wcomp" where
  "detach_vms_from_pool T A N En V vm_pool = control_vms_in_pool T A N En V vm_pool ''detach''"

definition stop_and_detach_vms_from_pool ::
  "'w rest_st os_time \<Rightarrow> 'w apis \<Rightarrow> enums \<Rightarrow> enum_table \<Rightarrow> 'w vdsm \<Rightarrow> string \<Rightarrow> ('w rest_st, bool) wcomp" where
  "stop_and_detach_vms_from_pool T A N En V vm_pool =
     bindW (control_vms_in_pool T A N En V vm_pool ''stop'') (\<lambda>ok.
     if ok then control_vms_in_pool T A N En V vm_pool ''detach'' else retW False)"

text \<open>Exactly the number of machines asked for has to be down.\<close>

definition pool_start_vms ::
  "'w rest_st os_time \<Rightarrow> 'w apis \<Rightarrow> enums \<Rightarrow> enum_table \<Rightarrow> 'w vdsm \<Rightarrow> string \<Rightarrow> int \<Rightarrow> ('w rest_st, unit) wcomp" where
  "pool_start_vms T A N En V vmpool number_of_vms =
     bindW (run (get_vms_in_pool_by_states A N vmpool (States_string (N ''vm_state_down'')))) (\<lambda>free.
     if int (List.length free) \<noteq> number_of_vms then raiseW (TestExc VmPoolException)
     else
       bindW (run (lift_res (map_res (\<lambda>v. getattr v ''name'') free))) (\<lambda>names.
       start_vms T A N En V (map py_str names) (Some (N ''vm_state_powering_up'')) False))"

definition wait_for_vms_in_pool_to_start ::
  "'w rest_st os_time \<Rightarrow> 'w apis \<Rightarrow> enums \<Rightarrow> string \<Rightarrow> int \<Rightarrow> int \<Rightarrow> int \<Rightarrow> bool \<Rightarrow> ('w rest_st, bool) wcomp" where
  "wait_for_vms_in_pool_to_start T A N vmpool t interval number_of_vms wait_until_up =
     tryW (core_sampling T
             (get_vms_in_pool_by_states A N vmpool (if wait_until_up then States_list [PStr (N ''vm_state_up'')] else States_default))
             (\<lambda>found. Inr (if int (List.length found) = number_of_vms then Some True else None)) t interval)
       TimeoutExpiredError (\<lambda>_. retW False)"

definition wait_for_prestarted_vms ::
  "'w rest_st os_time \<Rightarrow> 'w apis \<Rightarrow> enums \<Rightarrow> string \<Rightarrow> int \<Rightarrow> bool \<Rightarrow> ('w rest_st, unit) wcomp" where
  "wait_for_prestarted_vms T A N vm_pool running_vms wait_until_up =
     bindW (run (bindE (get_vm_pool_number_of_prestarted_vms A vm_pool) (\<lambda>v.
                 lift_res (case num_of v of None \<Rightarrow> Inl TypeError | Some n \<Rightarrow> Inr n)))) (\<lambda>prestarted.
     bindW (wait_for_vms_in_pool_to_start T A N vm_pool VM_POOL_ACTION_TIMEOUT VM_POOL_ACTION_SLEEP (prestarted + running_vms) wait_until_up) (\<lambda>ok.
     if ok then retW () else raiseW (TestExc VmPoolException)))"

definition wait_for_vm_pool_gone :: "'w rest_st os_time \<Rightarrow> 'w apis \<Rightarrow> string \<Rightarrow> int \<Rightarrow> int \<Rightarrow> ('w rest_st, bool) wcomp" where
  "wait_for_vm_pool_gone T A vm_pool t interval =
     tryW (core_sampling T (does_vm_pool_exist A vm_pool) (\<lambda>b. Inr (if b then None else Some True)) t interval)
       TimeoutExpiredError (\<lambda>_. retW False)"

text \<open>
  Nothing here removes the pool itself: the wait for it relies on the engine, which drops a pool with
  its last machine. Every step runs, whatever became of the ones before.
\<close>

definition remove_whole_vm_pool ::
  "'w rest_st os_time \<Rightarrow> 'w apis \<Rightarrow> enums \<Rightarrow> enum_table \<Rightarrow> 'w vdsm \<Rightarrow> string \<Rightarrow> bool \<Rightarrow> bool \<Rightarrow> ('w rest_st, bool) wcomp" where
  "remove_whole_vm_pool T A N En V vmpool remove_vms stop_vms_first =
     bindW (run (get_vms_in_pool_by_name A vmpool)) (\<lambda>vms_in_pool.
     bindW (if stop_vms_first then stop_and_detach_vms_from_pool T A N En V vmpool else detach_vms_from_pool T A N En V vmpool) (\<lambda>detached.
     bindW (wait_for_vm_pool_gone T A vmpool VM_POOL_ACTION_TIMEOUT VM_POOL_ACTION_SLEEP) (\<lambda>gone.
     bindW (if remove_vms then safely_remove_vms T A N (map py_str vms_in_pool) else retW True) (\<lambda>removed.
     retW (detached \<and> gone \<and> removed)))))"

definition create_vm_pool ::
  "'w rest_st os_time \<Rightarrow> 'w apis \<Rightarrow> enums \<Rightarrow> bool \<Rightarrow> string \<Rightarrow> (string, pyval) dict \<Rightarrow> ('w rest_st, unit) wcomp" where
  "create_vm_pool T A N positive pool_name pool_params =
     (case map_of pool_params ''prestarted_vms'' of
        None \<Rightarrow> raiseW KeyError
      | Some prestarted \<Rightarrow>
          let wait = \<not> truthy prestarted in
          bindW (run (addVmPool A N positive wait (dict_set pool_params ''name'' (PStr pool_name)))) (\<lambda>ok.
          if \<not> ok then raiseW (TestExc VmPoolException)
          else if wait then retW ()
          else
            bindW (run (get_vms_in_pool_by_name A pool_name)) (\<lambda>vms.
            eachW vms (\<lambda>vm _. wait_for_vm_states T A (py_str vm)
                [N ''vm_state_up'', N ''vm_state_down'', N ''vm_state_powering_up'', N ''vm_state_wait_for_launch'']
                VM_WAIT_FOR_IP_TIMEOUT DEF_SLEEP_VM) ())))"

section \<open>Consoles, templates and disks\<close>

text \<open>The update of a machine that is not as expected is not compared, and the machine is restarted.\<close>

definition set_console_spice_plus_vnc ::
  "'w apis \<Rightarrow> enums \<Rightarrow> enum_table \<Rightarrow> string \<Rightarrow> string \<Rightarrow> string \<Rightarrow> bool \<Rightarrow> ('w rest_st, bool) comp" where
  "set_console_spice_plus_vnc A N En obj_type obj_name expected_vm_state reboot =
     bindE (if obj_type = ''instance_type'' then
              bindE (update_instance_type A obj_name [(''display_type'', PStr ''spice'')]) (\<lambda>_. get_instance_type_object A obj_name)
            else if obj_type = ''template'' then
              bindE (updateTemplate A True obj_name (PInt 1) [(''display_type'', PStr ''spice'')]) (\<lambda>_.
              get_template_obj A obj_name False (PInt 1))
            else
              bindE (get_vm_obj A obj_name False) (\<lambda>x.
              bindE (lift_res (getattr x ''status'')) (\<lambda>st.
              let compare = py_eq st (PStr expected_vm_state) in
              bindE (updateVm A N En True obj_name [(''display_type'', PStr ''spice''), (''compare'', PBool compare)]) (\<lambda>_.
              bindE (if \<not> compare \<and> reboot then bindE (reboot_vm A True obj_name) (\<lambda>_. ret ()) else ret ()) (\<lambda>_. ret x))))) (\<lambda>obj.
     create_graphics_console A obj (PStr ''vnc''))"

definition check_vnic_on_template_nic :: "'w apis \<Rightarrow> string \<Rightarrow> pyval \<Rightarrow> pyval \<Rightarrow> ('w rest_st, bool) comp" where
  "check_vnic_on_template_nic A template nic vnic =
     bindE (get_template_nic A template nic (PInt 1)) (\<lambda>n.
     if \<not> truthy n then ret False
     else
       bindE (get_vm_vnic_profile_obj A n) (\<lambda>p.
       if truthy p then lift_res (res_bind (getattr p ''name'') (\<lambda>x. Inr (py_eq x vnic))) else ret (vnic = PNone)))"

fun delete_each_disk :: "'w apis \<Rightarrow> string list \<Rightarrow> ('w rest_st, bool) comp" where
  "delete_each_disk A [] = ret True"
| "delete_each_disk A (d # ds) = bindE (deleteDisk A True (PStr d) PNone) (\<lambda>ok. if ok then delete_each_disk A ds else ret False)"

definition hl_delete_disks :: "'w rest_st os_time \<Rightarrow> 'w apis \<Rightarrow> enums \<Rightarrow> string list \<Rightarrow> int \<Rightarrow> int \<Rightarrow> ('w rest_st, bool) wcomp" where
  "hl_delete_disks T A N disks_names t s =
     (if disks_names = [] then retW False
      else
        bindW (wait_for_disks_status T A (Names_list disks_names) ''name'' (PStr (N ''disk_state_ok'')) t s) (\<lambda>ok.
        if \<not> ok then retW False
        else
          bindW (run (delete_each_disk A disks_names)) (\<lambda>deleted.
          if \<not> deleted then retW False else waitForDisksGone T A True (Names_list disks_names) t s)))"

definition setdefault :: "string \<Rightarrow> pyval \<Rightarrow> (string, pyval) dict \<Rightarrow> (string, pyval) dict" where
  "setdefault k v d = (if map_of d k = None then dict_set d k v else d)"

text \<open>The result of \<open>addDisk\<close> is a pair, which is true whatever the engine answered.\<close>

definition new_disk_args :: "pyval \<Rightarrow> pyval \<Rightarrow> pyval \<Rightarrow> pyval \<Rightarrow> (string, pyval) dict \<Rightarrow> (string, pyval) dict" where
  "new_disk_args sd_name disk_size block shared kw =
     (let d1 = setdefault ''sparse'' (PBool True) (setdefault ''interface'' (PStr ''virtio'') (setdefault ''format'' (PStr ''cow'') kw));
          alias = join ''_'' [py_str (kwget d1 ''interface''), py_str (kwget d1 ''format''), py_str (kwget d1 ''sparse''), ''disk''] in
      dict_update (setdefault ''alias'' (PStr alias) d1)
        [(''provisioned_size'', disk_size), (''wipe_after_delete'', block), (''storagedomain'', sd_name), (''bootable'', PBool False),
         (''shareable'', shared), (''active'', PBool True)])"

definition add_new_disk :: "'w apis \<Rightarrow> pyval \<Rightarrow> pyval \<Rightarrow> pyval \<Rightarrow> pyval \<Rightarrow> (string, pyval) dict \<Rightarrow> ('w rest_st, pyval) comp" where
  "add_new_disk A sd_name disk_size block shared kw =
     (let disk_args = new_disk_args sd_name disk_size block shared kw in
      bindE (addDisk A True disk_args) (\<lambda>_. ret (kwget disk_args ''alias'')))"

definition unlock_disks :: "'s psql \<Rightarrow> ('s, pyval) comp" where
  "unlock_disks psql = psql ''update images set imagestatus=1 where imagestatus=2;''"

text \<open>Every row of the answer is a list of one text.\<close>

definition check_no_locked_disks :: "'s psql \<Rightarrow> ('s, bool) comp" where
  "check_no_locked_disks psql =
     bindE (psql ''select imagestatus from images;'') (\<lambda>v.
     bindE (lift_res (py_iter v)) (\<lambda>rows. ret (\<not> (\<exists>r \<in> set rows. py_eq r (PList [PStr ''2''])))))"

section \<open>What is shown\<close>

text \<open>The same rules as for \<open>sampling\<close>, with the other exception.\<close>

lemma core_sampling_loop:
  assumes "clock_laws T clk" and "core_sampling T f h t s w = Some (r, w')"
  shows "case r of
      Inr y \<Rightarrow> \<exists>v x. f v = (Inr x, w') \<and> h x = Inr (Some y)
    | Inl e \<Rightarrow> (\<exists>v. f v = (Inl e, w')) \<or> (\<exists>v x. f v = (Inr x, w') \<and> h x = Inl e) \<or>
        e = TimeoutExpiredError \<and> clk w + t < clk w'"
proof -
  obtain t0 w1 where now: "os_now T w = (t0, w1)" by fastforce
  with assms(2) obtain s' where
    "sample_loop T f (\<lambda>x. lift_res (h x)) ((TimeoutingSampler t s)\<lparr>start_time := Some t0\<rparr>) w1 = Some (r, s', w')"
    by (auto simp: core_sampling_def for_sample_def begin_iteration_def TimeoutingSampler_def split: option.splits)
  from sample_loop_stops_res [OF assms(1) this, of t0] os_now_bounds [OF assms(1) now] show ?thesis
    by (auto simp: TimeoutingSampler_def split: sum.splits)
qed

lemma comes_back_core_sampling [comes_back_intros]:
  assumes "clock_laws T clk" and "never_back clk f" and "0 < s"
  shows "comes_back clk (core_sampling T f h t s)"
  unfolding comes_back_def
proof
  fix w
  let ?body = "\<lambda>x. lift_res (h x)" and ?s = "TimeoutingSampler t s"
  have nb: "never_back clk (?body x)" for x by (rule never_back_intros)
  have "\<exists>res. for_sample T f ?body ?s w = Some res"
    by (rule for_sample_ends [OF assms(1,2) nb]) (simp add: assms(3) TimeoutingSampler_def)
  then obtain r s' w' where run: "for_sample T f ?body ?s w = Some (r, s', w')" by auto
  obtain t0 w1 where now: "os_now T w = (t0, w1)" by fastforce
  with run have loop: "sample_loop T f ?body (?s\<lparr>start_time := Some t0\<rparr>) w1 = Some (r, s', w')"
    by (simp add: for_sample_def begin_iteration_def TimeoutingSampler_def)
  have "clk w1 \<le> clk w'"
    using sample_loop_never_back [OF assms(1,2) nb _ _ loop, of t0] assms(3) by (simp add: TimeoutingSampler_def)
  with os_now_bounds [OF assms(1) now] run
  show "\<exists>r w'. core_sampling T f h t s w = Some (r, w') \<and> clk w \<le> clk w'" by (auto simp: core_sampling_def)
qed

subsection \<open>After a migration\<close>

lemma get_vm_host_never_back: "apis_keep_time clk A \<Longrightarrow> never_back (server_time clk) (get_vm_host A vm)"
  unfolding get_vm_host_def by (intro never_back_intros request_intros api_keeps_time)

definition vdsm_keeps_time :: "('w \<Rightarrow> int) \<Rightarrow> 'w vdsm \<Rightarrow> bool" where
  "vdsm_keeps_time clk V \<longleftrightarrow>
     (\<forall>h q p. never_back (server_time clk) (vdsm_call V h q p)) \<and> (\<forall>h i. never_back (server_time clk) (send_icmp V h i))"

lemma first_pinged_never_back:
  "vdsm_keeps_time clk V \<Longrightarrow> never_back (server_time clk) (first_pinged V host_ip ips)"
  by (induction ips) (auto intro!: never_back_intros simp: vdsm_keeps_time_def)

lemma never_back_list [never_back_intros]:
  "never_back clk m \<Longrightarrow> (\<And>x xs. never_back clk (f x xs)) \<Longrightarrow> never_back clk (case l of [] \<Rightarrow> m | x # xs \<Rightarrow> f x xs)"
  by (cases l) auto

lemma get_ip_once_never_back:
  assumes "vdsm_keeps_time clk V"
  shows "never_back (server_time clk) (get_ip_once V host_ip vm get_all_ips)"
  unfolding get_ip_once_def using assms
  by (intro never_back_intros first_pinged_never_back) (simp_all add: vdsm_keeps_time_def)

lemma comes_back_case_prod [comes_back_intros]:
  "(\<And>x y. comes_back clk (f x y)) \<Longrightarrow> comes_back clk (case p of (x, y) \<Rightarrow> f x y)"
  by (cases p) simp

lemma comes_back_option [comes_back_intros]:
  "comes_back clk m \<Longrightarrow> (\<And>x. comes_back clk (f x)) \<Longrightarrow> comes_back clk (case r of None \<Rightarrow> m | Some x \<Rightarrow> f x)"
  by (cases r) auto

lemma wait_for_vm_ip_comes_back:
  assumes "clock_laws T (server_time clk)" and "apis_keep_time clk A" and "vdsm_keeps_time clk V" and "0 < s"
  shows "comes_back (server_time clk) (wait_for_vm_ip T A V vm t s all_ips)"
  unfolding wait_for_vm_ip_def get_host_ip_from_engine_def get_host_object_def
  by (intro comes_back_intros never_back_intros request_intros api_keeps_time get_vm_host_never_back get_ip_once_never_back assms)

lemma check_migrated_comes_back:
  assumes "clock_laws T (server_time clk)" and "apis_keep_time clk A" and "vdsm_keeps_time clk V"
    and "\<And>ip. never_back (server_time clk) (reaches ip)"
  shows "comes_back (server_time clk) (check_migrated T A V reaches src_host vm)"
  unfolding check_migrated_def check_vm_connectivity_def
  by (intro comes_back_intros never_back_intros request_intros api_keeps_time get_vm_host_never_back wait_for_vm_ip_comes_back
      assms delay_positive) (simp_all add: DEF_SLEEP_VM_def)

lemma check_each_migrated_comes_back:
  assumes "clock_laws T (server_time clk)" and "apis_keep_time clk A" and "vdsm_keeps_time clk V"
    and "\<And>ip. never_back (server_time clk) (reaches ip)"
  shows "comes_back (server_time clk) (check_each_migrated T A V reaches src_host vms)"
  by (induction vms) (auto intro!: comes_back_intros never_back_intros check_migrated_comes_back assms)

text \<open>
  A look-up of the host of a machine, from a time on. It names no host for a machine that is not running
  or not found at that moment.
\<close>

definition looked :: "('w rest_st \<Rightarrow> int) \<Rightarrow> 'w apis \<Rightarrow> string \<Rightarrow> exn + pyval \<Rightarrow> int \<Rightarrow> 'w rest_st \<Rightarrow> bool" where
  "looked clk A vm x t v' \<longleftrightarrow> (\<exists>v. get_vm_host A vm v = (x, v')) \<and> t \<le> clk v'"

definition not_on :: "string \<Rightarrow> pyval \<Rightarrow> bool" where
  "not_on src_host h \<longleftrightarrow> \<not> py_eq h (PStr src_host)"

text \<open>
  What the check sees of the machines, one after the other from one state to another: a look-up that does
  not name the source, and then the machine found, up and reachable.
\<close>

inductive moved_in_turn ::
  "('w rest_st \<Rightarrow> int) \<Rightarrow> 'w rest_st os_time \<Rightarrow> 'w apis \<Rightarrow> 'w vdsm \<Rightarrow> (pyval \<Rightarrow> ('w rest_st, bool) comp) \<Rightarrow> string
   \<Rightarrow> string list \<Rightarrow> pyval list \<Rightarrow> 'w rest_st \<Rightarrow> 'w rest_st \<Rightarrow> bool" for clk T A V reaches src_host where
  moved_all: "moved_in_turn clk T A V reaches src_host [] [] w w"
| moved_next: "looked clk A vm (Inr h) (clk w) v \<Longrightarrow> not_on src_host h \<Longrightarrow>
    find_by (VM_API A) ''name'' (PStr vm) v = (Inr x, v1) \<Longrightarrow>
    waitForElemStatus (VM_API A) x ''up'' MIGRATION_TIMEOUT False v1 = (Inr True, v2) \<Longrightarrow>
    check_vm_connectivity T A V reaches vm MIGRATION_TIMEOUT v2 = Some (Inr True, v3) \<Longrightarrow>
    moved_in_turn clk T A V reaches src_host vms hs v3 w' \<Longrightarrow>
    moved_in_turn clk T A V reaches src_host (vm # vms) (h # hs) w w'"

text \<open>A look that shows why the check gives up: the machine seen elsewhere, or a time-out of the engine.\<close>

definition given_up :: "('w rest_st \<Rightarrow> int) \<Rightarrow> 'w apis \<Rightarrow> string \<Rightarrow> string \<Rightarrow> int \<Rightarrow> int \<Rightarrow> bool" where
  "given_up clk A src_host vm t t' \<longleftrightarrow>
     (\<exists>x v. looked clk A vm x t v \<and> clk v \<le> t' \<and>
        (case x of Inr h \<Rightarrow> not_on src_host h | Inl e \<Rightarrow> isinstance e APITimeout))"

lemma given_up_later: "given_up clk A src_host vm u t' \<Longrightarrow> t \<le> u \<Longrightarrow> given_up clk A src_host vm t t'"
  by (fastforce simp: given_up_def looked_def)

lemma comes_back_time: "comes_back clk m \<Longrightarrow> m w = Some (r, w') \<Longrightarrow> clk w \<le> clk w'"
  unfolding comes_back_def by (drule spec [of _ w]) auto

lemma check_migrated_verdict:
  assumes "clock_laws T (server_time clk)" and "apis_keep_time clk A" and "vdsm_keeps_time clk V"
    and "\<And>ip. never_back (server_time clk) (reaches ip)"
    and run: "check_migrated T A V reaches src_host vm w = Some (Inr r, w')"
  shows "(r = None \<longrightarrow> given_up (server_time clk) A src_host vm (server_time clk w) (server_time clk w')) \<and>
    (\<forall>h. r = Some h \<longrightarrow>
       moved_in_turn (server_time clk) T A V reaches src_host [vm] [h] w w' \<and>
       given_up (server_time clk) A src_host vm (server_time clk w) (server_time clk w'))"
proof -
  let ?s = "core_sampling T (get_vm_host A vm) (moved_from src_host) MIGRATION_TIMEOUT 1"
  let ?rest = "\<lambda>found. case found of
       None \<Rightarrow> retW None
     | Some h \<Rightarrow>
         bindW (run (find_by (VM_API A) ''name'' (PStr vm))) (\<lambda>x.
         bindW (run (waitForElemStatus (VM_API A) x ''up'' MIGRATION_TIMEOUT False)) (\<lambda>up.
         if \<not> up then retW None
         else
           bindW (check_vm_connectivity T A V reaches vm MIGRATION_TIMEOUT) (\<lambda>ok.
           retW (if ok then Some h else None))))"
  from run obtain found w1 where
    found: "tryW (bindW ?s (\<lambda>h. retW (Some h))) APITimeout (\<lambda>_. retW None) w = Some (Inr found, w1)"
    and then_r: "?rest found w1 = Some (Inr r, w')"
    by (auto simp: check_migrated_def elim!: bindW_InrE)
  have "comes_back (server_time clk) (?rest found)"
    unfolding check_vm_connectivity_def
    by (intro comes_back_intros never_back_intros request_intros api_keeps_time wait_for_vm_ip_comes_back assms(1-4)
        delay_positive) (simp_all add: DEF_SLEEP_VM_def)
  from comes_back_time [OF this then_r] have t1: "server_time clk w1 \<le> server_time clk w'" .
  have "comes_back (server_time clk) ?s"
    by (intro comes_back_intros get_vm_host_never_back assms(1,2)) simp
  then have t0: "server_time clk w \<le> server_time clk u" if "?s w = Some (q, u)" for q u
    using that by (rule comes_back_time)
  from found consider h where "found = Some h" "?s w = Some (Inr h, w1)"
    | e where "found = None" "?s w = Some (Inl e, w1)" "isinstance e APITimeout"
    by (auto simp: ret_apply bindW_def elim!: tryW_InrE split: option.splits prod.splits sum.splits)
  then show ?thesis
  proof cases
    case (1 h)
    have h: "not_on src_host h" "looked (server_time clk) A vm (Inr h) (server_time clk w) w1"
      using core_sampling_loop [OF assms(1) 1(2)] t0 [OF 1(2)] by (auto simp: moved_from_def not_on_def looked_def split: if_splits)
    then have "given_up (server_time clk) A src_host vm (server_time clk w) (server_time clk w')"
      using t1 unfolding given_up_def by (intro exI [of _ "Inr h"] exI [of _ w1]) simp
    moreover have "moved_in_turn (server_time clk) T A V reaches src_host [vm] [k] w w'" if "r = Some k" for k
    proof -
      from then_r 1(1) that obtain x v1 v2 where "find_by (VM_API A) ''name'' (PStr vm) w1 = (Inr x, v1)"
        "waitForElemStatus (VM_API A) x ''up'' MIGRATION_TIMEOUT False v1 = (Inr True, v2)"
        "check_vm_connectivity T A V reaches vm MIGRATION_TIMEOUT v2 = Some (Inr True, w')" "k = h"
        by (auto simp: ret_apply elim!: bindW_InrE split: if_splits)
      with h show ?thesis by (auto intro: moved_in_turn.intros)
    qed
    ultimately show ?thesis by blast
  next
    case (2 e)
    have "\<not> isinstance TimeoutExpiredError APITimeout" by (simp add: isinstance_def)
    with 2(3) core_sampling_loop [OF assms(1) 2(2)] have "\<exists>v. get_vm_host A vm v = (Inl e, w1)"
      by (auto simp: moved_from_def split: if_splits)
    with 2(3) t0 [OF 2(2)] t1 have "given_up (server_time clk) A src_host vm (server_time clk w) (server_time clk w')"
      unfolding given_up_def by (intro exI [of _ "Inl e"] exI [of _ w1]) (auto simp: looked_def)
    moreover have "r = None" using then_r 2(1) by (auto simp: ret_apply)
    ultimately show ?thesis by simp
  qed
qed

lemma moved_then:
  assumes "moved_in_turn clk T A V reaches src_host [vm] [h] w u" and "moved_in_turn clk T A V reaches src_host vms hs u w'"
  shows "moved_in_turn clk T A V reaches src_host (vm # vms) (h # hs) w w'"
  using assms(1) by cases (use assms(2) in \<open>auto intro: moved_in_turn.intros elim: moved_in_turn.cases\<close>)

lemma check_each_migrated_verdict:
  assumes keep: "clock_laws T (server_time clk)" "apis_keep_time clk A" "vdsm_keeps_time clk V"
    "\<And>ip. never_back (server_time clk) (reaches ip)"
    and "check_each_migrated T A V reaches src_host vms w = Some (Inr r, w')"
  shows "(\<forall>hs. r = Some hs \<longrightarrow> moved_in_turn (server_time clk) T A V reaches src_host vms hs w w') \<and>
    (r = None \<or> vms \<noteq> [] \<longrightarrow> (\<exists>vm \<in> set vms. given_up (server_time clk) A src_host vm (server_time clk w) (server_time clk w')))"
  using assms(5)
proof (induction vms arbitrary: w r w')
  case Nil
  then show ?case by (auto simp: ret_apply intro: moved_in_turn.intros)
next
  case (Cons vm vms)
  let ?clk = "server_time clk"
  from Cons.prems obtain q w1 where q: "check_migrated T A V reaches src_host vm w = Some (Inr q, w1)"
    and rest: "(case q of None \<Rightarrow> retW None
       | Some h \<Rightarrow> bindW (check_each_migrated T A V reaches src_host vms) (\<lambda>hs. retW (map_option ((#) h) hs))) w1 = Some (Inr r, w')"
    by (auto elim!: bindW_InrE)
  note first = check_migrated_verdict [OF keep q]
  show ?case
  proof (cases q)
    case None
    with rest first show ?thesis by (auto simp: ret_apply)
  next
    case (Some h)
    with rest obtain hs where more: "check_each_migrated T A V reaches src_host vms w1 = Some (Inr hs, w')" "r = map_option ((#) h) hs"
      by (auto simp: ret_apply elim!: bindW_InrE)
    from comes_back_time [OF check_each_migrated_comes_back more(1)] keep have t: "?clk w1 \<le> ?clk w'" by blast
    from first Some have "given_up ?clk A src_host vm (?clk w) (?clk w1)" by blast
    with t have "given_up ?clk A src_host vm (?clk w) (?clk w')" unfolding given_up_def by (meson order_trans)
    moreover have "moved_in_turn ?clk T A V reaches src_host (vm # vms) l w w'" if "r = Some l" for l
      using Cons.IH [OF more(1)] first Some more(2) that moved_then by (cases hs) fastforce+
    ultimately show ?thesis by auto
  qed
qed

text \<open>
  C35. The check after a migration always comes back. True means that every machine, one after the other,
  was looked up with a host other than the source, or with none (as for a machine that was not running at
  that moment), and then found, seen up and reachable; with a destination named, each was looked up on it.
  False means that in the time of the call a look-up of some machine did not name the source, or ran into
  a time-out of the engine: a machine that stays where it is makes the check end in
  \<open>TimeoutExpiredError\<close>, never in False.
\<close>

theorem check_vms_after_migration_verdict:
  assumes "clock_laws T (server_time clk)" and "apis_keep_time clk A" and "vdsm_keeps_time clk V"
    and "\<And>ip. never_back (server_time clk) (reaches ip)"
  shows "\<exists>r w'. check_vms_after_migration T A V reaches vms src_host dst w = Some (r, w') \<and>
    (case r of
       Inr True \<Rightarrow> \<exists>hs. moved_in_turn (server_time clk) T A V reaches src_host vms hs w w' \<and>
         (truthy dst \<longrightarrow> (\<forall>h \<in> set hs. py_eq h dst))
     | Inr False \<Rightarrow> \<exists>vm \<in> set vms. given_up (server_time clk) A src_host vm (server_time clk w) (server_time clk w')
     | Inl e \<Rightarrow> True)"
proof -
  let ?clk = "server_time clk"
  from check_each_migrated_comes_back [of T clk A V reaches src_host vms] assms
  obtain q w' where q: "check_each_migrated T A V reaches src_host vms w = Some (q, w')"
    unfolding comes_back_def by blast
  show ?thesis
  proof (cases q)
    case (Inl e)
    with q show ?thesis by (auto simp: check_vms_after_migration_def bindW_def)
  next
    case (Inr r)
    note verdict = check_each_migrated_verdict [OF assms q [unfolded Inr]]
    show ?thesis
    proof (cases r)
      case None
      with q Inr verdict show ?thesis by (auto simp: check_vms_after_migration_def bindW_def run_def ret_def)
    next
      case (Some hs)
      with verdict have hs: "moved_in_turn ?clk T A V reaches src_host vms hs w w'" by simp
      let ?b = "if truthy dst then list_all (\<lambda>h. py_eq h dst) hs else list_all (\<lambda>h. \<not> py_eq h (PStr src_host)) hs"
      have res: "check_vms_after_migration T A V reaches vms src_host dst w = Some (Inr ?b, w')"
        using q Inr Some by (simp add: check_vms_after_migration_def bindW_def run_def ret_def)
      have "\<exists>vm \<in> set vms. given_up ?clk A src_host vm (?clk w) (?clk w')" if "\<not> ?b"
      proof -
        from that have "hs \<noteq> []" by (cases "truthy dst") auto
        with hs have "vms \<noteq> []" by (auto elim: moved_in_turn.cases)
        with verdict show ?thesis by blast
      qed
      with res hs show ?thesis by (cases ?b) (auto simp: list_all_iff split: if_splits)
    qed
  qed
qed

subsection \<open>Memory and pools\<close>

lemma expand_steps_sum:
  "expand_steps T A N En vm step n is m w = (Inr (Some k), w') \<Longrightarrow> k = m + int (List.length is) * step"
proof (induction "is" arbitrary: m w)
  case (Cons i rest)
  from Cons.prems obtain u where "expand_steps T A N En vm step n rest (m + step) u = (Inr (Some k), w')"
    by (auto simp: ret_apply Let_def elim!: bindE_InrE split: if_splits)
  from Cons.IH [OF this] show ?case by (simp add: algebra_simps)
qed (simp add: ret_apply)

text \<open>
  Growing the memory of a machine reports the memory before, and either -1 for both others, when the
  engine refused a step, or the memory asked for at last: the start and all the steps.
\<close>

theorem expand_vm_memory_result:
  assumes "expand_vm_memory T A N En vm step n w = (Inr (before, after, new), w')"
  shows "(\<exists>v u. hl_get_vm_memory A vm w = (Inr v, u) \<and> py_int v = Inr before) \<and>
    (after = PInt (-1) \<and> new = -1 \<or> new = before + int n * step \<and> (\<exists>u. hl_get_vm_memory A vm u = (Inr after, w')))"
proof -
  from assms obtain v u b r u' where v: "hl_get_vm_memory A vm w = (Inr v, u)" "py_int v = Inr b"
    and r: "expand_steps T A N En vm step n [0..<n] b u = (Inr r, u')"
    and rest: "(case r of None \<Rightarrow> ret (b, PInt (-1), -1) | Some k \<Rightarrow> bindE (hl_get_vm_memory A vm) (\<lambda>a. ret (b, a, k))) u' = (Inr (before, after, new), w')"
    unfolding expand_vm_memory_def by (elim bindE_InrE) (auto simp: lift_res_def)
  show ?thesis
  proof (cases r)
    case (Some k)
    with expand_steps_sum [of T A N En vm step n "[0..<n]" b u k] r have "k = b + int n * step" by simp
    with Some rest v show ?thesis by (auto simp: ret_apply elim!: bindE_InrE)
  qed (use v rest in \<open>auto simp: ret_apply\<close>)
qed

lemma does_vm_pool_exist_never_back: "apis_keep_time clk A \<Longrightarrow> never_back (server_time clk) (does_vm_pool_exist A p)"
  unfolding does_vm_pool_exist_def get_vm_pool_object_def by (intro never_back_intros request_intros api_keeps_time)

text \<open>
  Waiting for a pool to be gone always comes back: True after a look that found no pool, False after
  the time, and no other exception than that of a look-up.
\<close>

theorem wait_for_vm_pool_gone_verdict:
  assumes "clock_laws T (server_time clk)" and "apis_keep_time clk A" and "0 < s"
  shows "\<exists>r w'. wait_for_vm_pool_gone T A p t s w = Some (r, w') \<and>
    (case r of
       Inr True \<Rightarrow> \<exists>v. does_vm_pool_exist A p v = (Inr False, w')
     | Inr False \<Rightarrow> server_time clk w + t < server_time clk w' \<or> (\<exists>v e. does_vm_pool_exist A p v = (Inl e, w') \<and> isinstance e TimeoutExpiredError)
     | Inl e \<Rightarrow> \<exists>v. does_vm_pool_exist A p v = (Inl e, w'))"
proof -
  let ?h = "\<lambda>b. Inr (if b then None else Some True)"
  have "comes_back (server_time clk) (core_sampling T (does_vm_pool_exist A p) ?h t s)"
    by (intro comes_back_intros does_vm_pool_exist_never_back assms)
  then obtain r w' where r: "core_sampling T (does_vm_pool_exist A p) ?h t s w = Some (r, w')"
    unfolding comes_back_def by blast
  from core_sampling_loop [OF assms(1) r] r show ?thesis
    by (cases r) (auto simp: wait_for_vm_pool_gone_def tryW_def run_def ret_def isinstance_refl split: if_splits bool.splits)
qed

section \<open>Witnesses\<close>

lemma no_vdsm_keeps_time: "vdsm_keeps_time int no_vdsm"
  by (simp add: vdsm_keeps_time_def no_vdsm_def never_back_def ret_def)

theorem check_vms_after_migration_verdict_witness:
  "\<exists>r. check_vms_after_migration demo_clock live_apis no_vdsm (\<lambda>_. ret True) [''v1''] ''h2'' PNone demo_rest_st = Some r"
  using check_vms_after_migration_verdict [OF demo_clock_laws live_apis_keep_time no_vdsm_keeps_time, of "\<lambda>_. ret True"] by fastforce

theorem wait_for_vm_pool_gone_verdict_witness:
  "\<exists>r. wait_for_vm_pool_gone demo_clock live_apis ''pool'' 10 5 demo_rest_st = Some r"
  using wait_for_vm_pool_gone_verdict [OF demo_clock_laws live_apis_keep_time, of 5 "''pool''" 10 demo_rest_st] by fastforce

end
