(* ===== verification/High_Storage.thy ===== *)
theory High_Storage
  imports High_Hosts Storage_Domains Mac2ip
begin

text \<open>
  \<open>storagedomains.py\<close> of \<open>tests_lib/high_level\<close>: storage domains added with their shares and LUNs,
  extended, attached, and taken out of a data center, which is tried again while tasks are running.
\<close>

definition TIMEOUT_DEACTIVATE_DOMAIN :: int where "TIMEOUT_DEACTIVATE_DOMAIN = 90"
definition TASK_TIMEOUT :: int where "TASK_TIMEOUT = 300"

section \<open>Discovery and login\<close>

text \<open>
  A command on a host, by its address, gives a code and an output. Each line is \<open>address:port,n target\<close>.
  Without any line the unpacking of \<open>zip(*[])\<close> is a ValueError.
\<close>

definition parse_discovery :: "string \<Rightarrow> exn + (string list \<times> string list)" where
  "parse_discovery out =
     res_bind (map_res (\<lambda>line.
         case split_ws line of
           a # t # _ \<Rightarrow> Inr (hd (split_on a '':''), t)
         | _ \<Rightarrow> Inl IndexError) (filter (\<lambda>l. l \<noteq> []) (splitlines out))) (\<lambda>l.
     if l = [] then Inl ValueError else Inr (map fst l, map snd l))"

definition discover_addresses_and_targets ::
  "(string \<Rightarrow> exn + string list) \<Rightarrow> (pyval \<Rightarrow> string list \<Rightarrow> ('w rest_st, int \<times> string) comp) \<Rightarrow> 'w apis \<Rightarrow> string \<Rightarrow> string
   \<Rightarrow> ('w rest_st, (string list \<times> string list) option) comp" where
  "discover_addresses_and_targets shlex_split on_host A host server_address =
     bindE (find_by (HOST_API A) ''name'' (PStr host)) (\<lambda>h.
     bindE (lift_res (getattr h ''address'')) (\<lambda>a.
     bindE (lift_res (shlex_split (''iscsiadm -m discovery -t st -p '' @ server_address))) (\<lambda>cmd.
     bindE (on_host a cmd) (\<lambda>(rc, out).
     if rc \<noteq> 0 then ret None else bindE (lift_res (parse_discovery out)) (\<lambda>l. ret (Some l))))))"

text \<open>The positive of the discovery is the text \<open>'True'\<close>. After a failed discovery of all, the lists are None.\<close>

definition ISCSIdiscoverAndLogin ::
  "(string \<Rightarrow> exn + string list) \<Rightarrow> (pyval \<Rightarrow> string list \<Rightarrow> ('w rest_st, int \<times> string) comp) \<Rightarrow> 'w apis \<Rightarrow> string \<Rightarrow> string \<Rightarrow> string \<Rightarrow> bool
   \<Rightarrow> ('w rest_st, bool) comp" where
  "ISCSIdiscoverAndLogin shlex_split on_host A host lun_address lun_target login_all =
     (if login_all then
        bindE (discover_addresses_and_targets shlex_split on_host A host lun_address) (\<lambda>found.
        case found of
          None \<Rightarrow> bindE (find_by (HOST_API A) ''name'' (PStr host)) (\<lambda>_. raise TypeError)
        | Some (addresses, targets) \<Rightarrow> iscsiLogin A True host (map PStr addresses) (map PStr targets) PNone PNone)
      else
        bindE (iscsiDiscover A True host (PStr lun_address)) (\<lambda>targets.
        if targets = None \<or> targets = Some [] then ret False
        else iscsiLogin A True host [PStr lun_address] [PStr lun_target] PNone PNone))"

section \<open>Import\<close>

text \<open>The words \<open>id="..."\<close> of the response that close a tag.\<close>

definition closes_id :: "string \<Rightarrow> bool" where
  "closes_id w \<longleftrightarrow> startswith w ''id='' \<and> endswith w ([CHR 0x22] @ ''>'')"

definition id_of_word :: "string \<Rightarrow> string" where
  "id_of_word w = butlast (drop 1 (strip_chars w ''id=>''))"

definition imported_domain :: "'w apis \<Rightarrow> enums \<Rightarrow> pyval \<Rightarrow> pyval \<Rightarrow> string \<Rightarrow> exn + pyval" where
  "imported_domain A N host_id storage_type sd_id =
     res_bind (construct (new_object A ''StorageDomain'') [(''id'', PStr sd_id)]) (\<lambda>sd.
     Inr (setattr (setattr (setattr (setattr sd ''type_'' (PStr (N ''storage_dom_type_data''))) ''host'' host_id)
            ''storage'' (setattr (new_object A ''HostStorage'') ''type_'' storage_type)) ''import'' (PStr ''true'')))"

definition import_block_storage_domain :: "'w apis \<Rightarrow> enums \<Rightarrow> pyval \<Rightarrow> pyval \<Rightarrow> pyval \<Rightarrow> ('w rest_st, bool) comp" where
  "import_block_storage_domain A N host_id response storage_type =
     (if \<not> truthy response then ret False
      else
        bindE (lift_res (as_string response)) (\<lambda>text.
        bindE (map_comp (\<lambda>w.
            bindE (lift_res (imported_domain A N host_id storage_type (id_of_word w))) (\<lambda>sd.
            bindE (rest_create (STORAGE_API A) sd True (create_default\<lparr>ca_compare := False\<rparr>)) (\<lambda>(_, status). ret status)))
          (filter closes_id (split_ws text))) (\<lambda>sts. ret (list_all id sts))))"

definition import_iscsi_storage_domain ::
  "(string \<Rightarrow> exn + string list) \<Rightarrow> (pyval \<Rightarrow> string list \<Rightarrow> ('w rest_st, int \<times> string) comp) \<Rightarrow> 'w apis \<Rightarrow> enums \<Rightarrow> string \<Rightarrow> string \<Rightarrow> string
   \<Rightarrow> ('w rest_st, bool) comp" where
  "import_iscsi_storage_domain shlex_split on_host A N host lun_address lun_target =
     bindE (ISCSIdiscoverAndLogin shlex_split on_host A host lun_address lun_target False) (\<lambda>ok.
     if \<not> ok then ret False
     else
       bindE (find_by (HOST_API A) ''name'' (PStr host)) (\<lambda>h.
       bindE (lift_res (res_bind (getattr h ''id'') (\<lambda>i. construct (new_object A ''Host'') [(''id'', i)]))) (\<lambda>host_id.
       bindE (lift_res (construct (new_object A ''IscsiDetails'') [(''address'', PStr lun_address)])) (\<lambda>iscsi.
       bindE (lift_res (construct (new_object A ''iscsi_targetsType'') [(''iscsi_target'', PList [PStr lun_target])])) (\<lambda>targets.
       bindE (syncAction (HOST_API A) h ''unregisteredstoragedomainsdiscover'' True
                (action_default\<lparr>aa_params := [(''iscsi'', iscsi), (''iscsi_targets'', targets)]\<rparr>)) (\<lambda>response.
       import_block_storage_domain A N host_id response (PStr (N ''storage_type_iscsi''))))))))"

definition import_fcp_storage_domain :: "'w apis \<Rightarrow> enums \<Rightarrow> string \<Rightarrow> ('w rest_st, bool) comp" where
  "import_fcp_storage_domain A N host =
     bindE (find_by (HOST_API A) ''name'' (PStr host)) (\<lambda>h.
     bindE (lift_res (res_bind (getattr h ''id'') (\<lambda>i. construct (new_object A ''Host'') [(''id'', i)]))) (\<lambda>host_id.
     bindE (syncAction (HOST_API A) h ''unregisteredstoragedomainsdiscover'' True action_default) (\<lambda>response.
     import_block_storage_domain A N host_id response (PStr (N ''storage_type_fcp'')))))"

section \<open>Adding and extending\<close>

text \<open>
  What all the functions below need: the configuration, the clock, the backends, how a host name is
  resolved, and the commands on hosts.
\<close>

record 'w site =
  st_conf :: config_st
  st_time :: "'w rest_st os_time"
  st_resolve :: "pyval \<Rightarrow> ('w rest_st, pyval) comp"
  st_shlex :: "string \<Rightarrow> exn + string list"
  st_on_host :: "pyval \<Rightarrow> string list \<Rightarrow> ('w rest_st, int \<times> string) comp"

definition add_domain :: "'w site \<Rightarrow> 'w apis \<Rightarrow> enums \<Rightarrow> (string, pyval) dict \<Rightarrow> ('w rest_st, bool) wcomp" where
  "add_domain S A N kw = run (addStorageDomain (st_resolve S) A N True True kw)"

definition attach_then_activate :: "'w site \<Rightarrow> 'w apis \<Rightarrow> enums \<Rightarrow> string \<Rightarrow> string \<Rightarrow> ('w rest_st, bool) wcomp" where
  "attach_then_activate S A N data_center storage =
     bindW (run (attachStorageDomain A True data_center storage True True)) (\<lambda>status.
     if status then activateStorageDomain (st_conf S) (st_time S) A N True data_center storage True else retW False)"

definition add_iscsi_data_domain ::
  "'w site \<Rightarrow> 'w apis \<Rightarrow> enums \<Rightarrow> string \<Rightarrow> string \<Rightarrow> string \<Rightarrow> pyval \<Rightarrow> string \<Rightarrow> string \<Rightarrow> pyval \<Rightarrow> pyval \<Rightarrow> pyval \<Rightarrow> bool \<Rightarrow> pyval
   \<Rightarrow> ('w rest_st, bool) wcomp" where
  "add_iscsi_data_domain S A N host storage data_center lun lun_address lun_target lun_port storage_format override_luns login_all discard =
     bindW (run (ISCSIdiscoverAndLogin (st_shlex S) (st_on_host S) A host lun_address lun_target login_all)) (\<lambda>ok.
     if \<not> ok then retW False
     else
       bindW (add_domain S A N
                [(''host'', PStr host), (''name'', PStr storage), (''type'', PStr (N ''storage_dom_type_data'')),
                 (''storage_type'', PStr (N ''storage_type_iscsi'')), (''lun'', lun), (''lun_address'', PStr lun_address),
                 (''lun_target'', PStr lun_target), (''lun_port'', lun_port), (''storage_format'', storage_format),
                 (''override_luns'', override_luns), (''discard_after_delete'', discard)]) (\<lambda>added.
       if \<not> added then retW False else attach_then_activate S A N data_center storage))"

definition extendISCSIDomain ::
  "'w site \<Rightarrow> 'w apis \<Rightarrow> enums \<Rightarrow> string \<Rightarrow> string \<Rightarrow> pyval \<Rightarrow> string \<Rightarrow> string \<Rightarrow> pyval \<Rightarrow> pyval \<Rightarrow> ('w rest_st, bool) comp" where
  "extendISCSIDomain S A N storage_domain host extend_lun extend_lun_address extend_lun_target extend_lun_port override_luns =
     bindE (ISCSIdiscoverAndLogin (st_shlex S) (st_on_host S) A host extend_lun_address extend_lun_target False) (\<lambda>ok.
     if \<not> ok then ret False
     else
       extendStorageDomain (st_resolve S) A N True storage_domain
         [(''host'', PStr host), (''lun'', extend_lun), (''lun_address'', PStr extend_lun_address), (''lun_target'', PStr extend_lun_target),
          (''lun_port'', extend_lun_port), (''storage_type'', PStr (N ''storage_type_iscsi'')), (''override_luns'', override_luns)])"

definition extendFCPDomain :: "'w site \<Rightarrow> 'w apis \<Rightarrow> enums \<Rightarrow> string \<Rightarrow> string \<Rightarrow> pyval \<Rightarrow> pyval \<Rightarrow> ('w rest_st, bool) comp" where
  "extendFCPDomain S A N storage_domain host lun override_luns =
     extendStorageDomain (st_resolve S) A N True storage_domain
       [(''lun'', lun), (''host'', PStr host), (''storage_type'', PStr (N ''storage_type_fcp'')), (''override_luns'', override_luns)]"

definition addGlusterDomain ::
  "'w site \<Rightarrow> 'w apis \<Rightarrow> enums \<Rightarrow> string \<Rightarrow> string \<Rightarrow> string \<Rightarrow> pyval \<Rightarrow> pyval \<Rightarrow> pyval \<Rightarrow> pyval \<Rightarrow> pyval \<Rightarrow> ('w rest_st, bool) wcomp" where
  "addGlusterDomain S A N host name data_center address path vfs_type sd_type storage_format =
     bindW (add_domain S A N
              [(''host'', PStr host), (''name'', PStr name), (''type'', sd_type), (''storage_type'', PStr (N ''storage_type_gluster'')),
               (''address'', address), (''path'', path), (''storage_format'', storage_format), (''vfs_type'', vfs_type)]) (\<lambda>added.
     if \<not> added then retW False else attach_then_activate S A N data_center name)"

definition addNFSDomain ::
  "'w site \<Rightarrow> 'w apis \<Rightarrow> enums \<Rightarrow> string \<Rightarrow> string \<Rightarrow> string \<Rightarrow> pyval \<Rightarrow> pyval \<Rightarrow> pyval \<Rightarrow> pyval \<Rightarrow> pyval \<Rightarrow> bool \<Rightarrow> ('w rest_st, bool) wcomp" where
  "addNFSDomain S A N host storage data_center address path sd_type storage_format format activate =
     bindW (add_domain S A N
              [(''host'', PStr host), (''name'', PStr storage), (''type'', sd_type), (''storage_type'', PStr (N ''storage_type_nfs'')),
               (''address'', address), (''path'', path), (''storage_format'', storage_format), (''format'', format)]) (\<lambda>added.
     if \<not> added then retW False
     else if activate then attach_then_activate S A N data_center storage
     else retW True)"

definition addLocalDataDomain :: "'w site \<Rightarrow> 'w apis \<Rightarrow> enums \<Rightarrow> string \<Rightarrow> string \<Rightarrow> string \<Rightarrow> pyval \<Rightarrow> ('w rest_st, bool) wcomp" where
  "addLocalDataDomain S A N host storage data_center path =
     bindW (add_domain S A N
              [(''host'', PStr host), (''name'', PStr storage), (''type'', PStr (N ''storage_dom_type_data'')),
               (''storage_type'', PStr (N ''storage_type_local'')), (''path'', path)]) (\<lambda>added.
     if \<not> added then retW False else activateStorageDomain (st_conf S) (st_time S) A N True data_center storage True)"

definition addPosixfsDataDomain ::
  "'w site \<Rightarrow> 'w apis \<Rightarrow> enums \<Rightarrow> string \<Rightarrow> string \<Rightarrow> string \<Rightarrow> pyval \<Rightarrow> pyval \<Rightarrow> pyval \<Rightarrow> pyval \<Rightarrow> pyval \<Rightarrow> pyval \<Rightarrow> ('w rest_st, bool) wcomp" where
  "addPosixfsDataDomain S A N host storage data_center address path sd_type vfs_type nfs_version mount_options =
     bindW (add_domain S A N
              [(''host'', PStr host), (''name'', PStr storage), (''type'', sd_type), (''address'', address),
               (''storage_type'', PStr (N ''storage_type_posixfs'')), (''path'', path), (''vfs_type'', vfs_type),
               (''nfs_version'', nfs_version), (''mount_options'', mount_options)]) (\<lambda>added.
     if \<not> added then retW False else attach_then_activate S A N data_center storage)"

definition add_fcp_data_domain ::
  "'w site \<Rightarrow> 'w apis \<Rightarrow> enums \<Rightarrow> string \<Rightarrow> string \<Rightarrow> string \<Rightarrow> pyval \<Rightarrow> pyval \<Rightarrow> pyval \<Rightarrow> ('w rest_st, bool) wcomp" where
  "add_fcp_data_domain S A N host storage data_center lun override_luns discard =
     bindW (add_domain S A N
              [(''host'', PStr host), (''name'', PStr storage), (''type'', PStr (N ''storage_dom_type_data'')),
               (''storage_type'', PStr (N ''storage_type_fcp'')), (''lun'', lun), (''override_luns'', override_luns),
               (''discard_after_delete'', discard)]) (\<lambda>added.
     if \<not> added then retW False else attach_then_activate S A N data_center storage)"

fun extend_each_iscsi :: "'w site \<Rightarrow> 'w apis \<Rightarrow> enums \<Rightarrow> string \<Rightarrow> string \<Rightarrow> pyval \<Rightarrow> (pyval \<times> string \<times> string) list \<Rightarrow> ('w rest_st, unit) comp" where
  "extend_each_iscsi S A N storage_domain host override_luns [] = ret ()"
| "extend_each_iscsi S A N storage_domain host override_luns ((lun, address, target) # luns) =
     bindE (extendISCSIDomain S A N storage_domain host lun address target (PInt 3260) override_luns) (\<lambda>ok.
     if ok then extend_each_iscsi S A N storage_domain host override_luns luns else raise (TestExc StorageDomainException))"

text \<open>For FCP the keyword \<open>override_luns\<close> is not read.\<close>

fun extend_each_fcp :: "'w site \<Rightarrow> 'w apis \<Rightarrow> enums \<Rightarrow> string \<Rightarrow> string \<Rightarrow> pyval list \<Rightarrow> ('w rest_st, unit) comp" where
  "extend_each_fcp S A N storage_domain host [] = ret ()"
| "extend_each_fcp S A N storage_domain host (lun # luns) =
     bindE (extendFCPDomain S A N storage_domain host lun PNone) (\<lambda>ok.
     if ok then extend_each_fcp S A N storage_domain host luns else raise (TestExc StorageDomainException))"

definition kw_list :: "(string, pyval) dict \<Rightarrow> string \<Rightarrow> exn + pyval list" where
  "kw_list kw k = (case map_of kw k of None \<Rightarrow> Inl KeyError | Some v \<Rightarrow> py_iter v)"

definition extend_iscsi_domain :: "'w site \<Rightarrow> 'w apis \<Rightarrow> enums \<Rightarrow> string \<Rightarrow> string \<Rightarrow> (string, pyval) dict \<Rightarrow> ('w rest_st, unit) comp" where
  "extend_iscsi_domain S A N storage_domain host kw =
     bindE (lift_res (kw_list kw ''lun_targets'')) (\<lambda>targets.
     bindE (lift_res (kw_list kw ''lun_addresses'')) (\<lambda>addresses.
     bindE (lift_res (kw_list kw ''lun_list'')) (\<lambda>luns.
     extend_each_iscsi S A N storage_domain host (kwget kw ''override_luns'')
       (zip luns (zip (map py_str addresses) (map py_str targets))))))"

definition extend_fcp_domain :: "'w site \<Rightarrow> 'w apis \<Rightarrow> enums \<Rightarrow> string \<Rightarrow> string \<Rightarrow> (string, pyval) dict \<Rightarrow> ('w rest_st, unit) comp" where
  "extend_fcp_domain S A N storage_domain host kw =
     bindE (lift_res (kw_list kw ''lun_list'')) (extend_each_fcp S A N storage_domain host)"

definition extend_storage_domain :: "'w site \<Rightarrow> 'w apis \<Rightarrow> enums \<Rightarrow> string \<Rightarrow> string \<Rightarrow> string \<Rightarrow> (string, pyval) dict \<Rightarrow> ('w rest_st, unit) comp" where
  "extend_storage_domain S A N storage_domain storage_kind host kw =
     (if storage_kind = N ''storage_type_iscsi'' then extend_iscsi_domain S A N storage_domain host kw
      else if storage_kind = N ''storage_type_fcp'' then extend_fcp_domain S A N storage_domain host kw
      else raise (TestExc UnkownConfigurationException))"

section \<open>The storages of a configuration\<close>

text \<open>A section of the configuration: \<open>as_list\<close> makes a list of one value of anything else.\<close>

definition as_list :: "(string, pyval) dict \<Rightarrow> string \<Rightarrow> exn + pyval list" where
  "as_list conf k = (case map_of conf k of None \<Rightarrow> Inl KeyError | Some (PList l) \<Rightarrow> Inr l | Some v \<Rightarrow> Inr [v])"

definition item :: "pyval list \<Rightarrow> nat \<Rightarrow> exn + pyval" where
  "item l i = (if i < List.length l then Inr (l ! i) else Inl IndexError)"

text \<open>
  The adder of one type: how many data domains there are, the prefix of their names, and the function
  that adds the one of a number.
\<close>

record 'w adder =
  no_of_data_storages :: nat
  ad_prefix :: string
  ad_add :: "string \<Rightarrow> nat \<Rightarrow> ('w rest_st, bool) wcomp"

definition add_storage :: "'w adder \<Rightarrow> nat \<Rightarrow> ('w rest_st, string) wcomp" where
  "add_storage D i =
     (let name = ad_prefix D @ show_int (int i) in
      bindW (ad_add D name i) (\<lambda>ok. if ok then retW name else raiseW (TestExc StorageDomainException)))"

fun add_storage_each :: "'w adder \<Rightarrow> nat list \<Rightarrow> ('w rest_st, string list) wcomp" where
  "add_storage_each D [] = retW []"
| "add_storage_each D (i # is) = bindW (add_storage D i) (\<lambda>n. bindW (add_storage_each D is) (\<lambda>ns. retW (n # ns)))"

text \<open>
  The positional argument \<open>activate\<close> of the call of \<open>addNFSDomain\<close> is its parameter
  \<open>storage_format\<close>: the domain is activated always.
\<close>

definition add_nfs_domain ::
  "'w site \<Rightarrow> 'w apis \<Rightarrow> enums \<Rightarrow> string \<Rightarrow> string \<Rightarrow> pyval \<Rightarrow> pyval \<Rightarrow> pyval \<Rightarrow> string \<Rightarrow> bool \<Rightarrow> ('w rest_st, unit) wcomp" where
  "add_nfs_domain S A N datacenter host address path sd_type name activate =
     (if address \<noteq> PNone \<and> path \<noteq> PNone then
        bindW (addNFSDomain S A N host name datacenter address path sd_type (PBool activate) PNone True) (\<lambda>ok.
        if ok then retW () else raiseW (TestExc StorageDomainException))
      else retW ())"

fun add_exports ::
  "'w site \<Rightarrow> 'w apis \<Rightarrow> enums \<Rightarrow> string \<Rightarrow> string \<Rightarrow> string \<Rightarrow> bool \<Rightarrow> (pyval \<times> pyval) list \<Rightarrow> ('w rest_st, unit) wcomp" where
  "add_exports S A N datacenter host export_name activate [] = retW ()"
| "add_exports S A N datacenter host export_name activate ((address, path) # rest) =
     bindW (add_nfs_domain S A N datacenter host address path (PStr (N ''storage_dom_type_export'')) export_name activate) (\<lambda>_.
     add_exports S A N datacenter host export_name False rest)"

definition export_shares :: "(string, pyval) dict \<Rightarrow> (pyval \<times> pyval) list" where
  "export_shares conf =
     (case (as_list conf ''export_domain_address'', as_list conf ''export_domain_path'') of
        (Inr addresses, Inr paths) \<Rightarrow> zip addresses paths
      | _ \<Rightarrow> [])"

definition add_export_domains ::
  "'w site \<Rightarrow> 'w apis \<Rightarrow> enums \<Rightarrow> string \<Rightarrow> string \<Rightarrow> (string, pyval) dict \<Rightarrow> string \<Rightarrow> ('w rest_st, unit) wcomp" where
  "add_export_domains S A N datacenter host conf export_name =
     add_exports S A N datacenter host export_name True (export_shares conf)"

definition add_iso_domains ::
  "'w site \<Rightarrow> 'w apis \<Rightarrow> enums \<Rightarrow> string \<Rightarrow> string \<Rightarrow> (string, pyval) dict \<Rightarrow> string \<Rightarrow> ('w rest_st, unit) wcomp" where
  "add_iso_domains S A N datacenter host conf iso_name =
     add_nfs_domain S A N datacenter host (kwget conf ''iso_domain_address'') (kwget conf ''iso_domain_path'')
       (PStr (N ''storage_dom_type_iso'')) iso_name True"

definition add_storages ::
  "'w site \<Rightarrow> 'w apis \<Rightarrow> enums \<Rightarrow> string \<Rightarrow> string \<Rightarrow> (string, pyval) dict \<Rightarrow> string \<Rightarrow> string \<Rightarrow> 'w adder \<Rightarrow> ('w rest_st, string list) wcomp" where
  "add_storages S A N datacenter host conf export_name iso_name D =
     (if no_of_data_storages D = 0 then retW []
      else
        bindW (add_storage D 0) (\<lambda>first.
        bindW (wait_for_spm (st_conf S) (st_time S) A datacenter 600 10) (\<lambda>_.
        bindW (add_storage_each D [1..<no_of_data_storages D]) (\<lambda>others.
        bindW (add_export_domains S A N datacenter host conf export_name) (\<lambda>_.
        bindW (add_iso_domains S A N datacenter host conf iso_name) (\<lambda>_. retW (first # others)))))))"

definition with_item :: "pyval list \<Rightarrow> nat \<Rightarrow> (pyval \<Rightarrow> ('w, 'a) wcomp) \<Rightarrow> ('w, 'a) wcomp" where
  "with_item l i f = bindW (run (lift_res (item l i))) f"

definition NFSStorageAdder :: "'w site \<Rightarrow> 'w apis \<Rightarrow> enums \<Rightarrow> string \<Rightarrow> string \<Rightarrow> (string, pyval) dict \<Rightarrow> exn + 'w adder" where
  "NFSStorageAdder S A N datacenter host conf =
     res_bind (as_list conf ''data_domain_address'') (\<lambda>addresses.
     res_bind (as_list conf ''data_domain_path'') (\<lambda>paths.
     Inr \<lparr>no_of_data_storages = List.length paths, ad_prefix = ''nfs_'',
          ad_add = (\<lambda>name i. with_item addresses i (\<lambda>a. with_item paths i (\<lambda>p.
            addNFSDomain S A N host name datacenter a p (PStr (N ''storage_dom_type_data'')) PNone PNone True)))\<rparr>))"

definition ISCSIStorageAdder :: "'w site \<Rightarrow> 'w apis \<Rightarrow> enums \<Rightarrow> string \<Rightarrow> string \<Rightarrow> (string, pyval) dict \<Rightarrow> exn + 'w adder" where
  "ISCSIStorageAdder S A N datacenter host conf =
     res_bind (as_list conf ''lun_target'') (\<lambda>targets.
     res_bind (as_list conf ''lun_address'') (\<lambda>addresses.
     res_bind (as_list conf ''lun'') (\<lambda>luns.
     Inr \<lparr>no_of_data_storages = List.length luns, ad_prefix = ''iscsi_'',
          ad_add = (\<lambda>name i. with_item luns i (\<lambda>l. with_item addresses i (\<lambda>a. with_item targets i (\<lambda>t.
            add_iscsi_data_domain S A N host name datacenter l (py_str a) (py_str t) (PInt 3260) PNone PNone False PNone))))\<rparr>)))"

text \<open>The names of FCP domains begin with \<open>iscsi_\<close> too.\<close>

definition FCPStorageAdder :: "'w site \<Rightarrow> 'w apis \<Rightarrow> enums \<Rightarrow> string \<Rightarrow> string \<Rightarrow> (string, pyval) dict \<Rightarrow> exn + 'w adder" where
  "FCPStorageAdder S A N datacenter host conf =
     res_bind (as_list conf ''lun'') (\<lambda>luns.
     Inr \<lparr>no_of_data_storages = List.length luns, ad_prefix = ''iscsi_'',
          ad_add = (\<lambda>name i. with_item luns i (\<lambda>l. add_fcp_data_domain S A N host name datacenter l PNone PNone))\<rparr>)"

definition LocalFSStorageAdder :: "'w site \<Rightarrow> 'w apis \<Rightarrow> enums \<Rightarrow> string \<Rightarrow> string \<Rightarrow> (string, pyval) dict \<Rightarrow> exn + 'w adder" where
  "LocalFSStorageAdder S A N datacenter host conf =
     res_bind (as_list conf ''local_domain_path'') (\<lambda>paths.
     Inr \<lparr>no_of_data_storages = List.length paths, ad_prefix = ''local_'',
          ad_add = (\<lambda>name i. with_item paths i (\<lambda>p. addLocalDataDomain S A N host name datacenter p))\<rparr>)"

text \<open>
  The last arguments are positional: the type of the file system becomes the type of the domain, and the
  mount options become the type of the file system.
\<close>

definition PosixFSStorageAdder :: "'w site \<Rightarrow> 'w apis \<Rightarrow> enums \<Rightarrow> string \<Rightarrow> string \<Rightarrow> (string, pyval) dict \<Rightarrow> exn + 'w adder" where
  "PosixFSStorageAdder S A N datacenter host conf =
     (case map_of conf ''vfs_type'' of
        None \<Rightarrow> Inl KeyError
      | Some vfs_type \<Rightarrow>
          res_bind (as_list conf ''data_domain_path'') (\<lambda>paths.
          res_bind (as_list conf ''data_domain_address'') (\<lambda>addresses.
          Inr \<lparr>no_of_data_storages = List.length paths, ad_prefix = ''posixfs_'',
               ad_add = (\<lambda>name i. with_item addresses i (\<lambda>a. with_item paths i (\<lambda>p.
                 addPosixfsDataDomain S A N host name datacenter a p vfs_type (kwget conf ''data_domain_mount_options'') PNone PNone)))\<rparr>)))"

text \<open>The number of Gluster domains is that of the paths of the data domains.\<close>

definition GlusterStorageAdder :: "'w site \<Rightarrow> 'w apis \<Rightarrow> enums \<Rightarrow> string \<Rightarrow> string \<Rightarrow> (string, pyval) dict \<Rightarrow> exn + 'w adder" where
  "GlusterStorageAdder S A N datacenter host conf =
     res_bind (PosixFSStorageAdder S A N datacenter host conf) (\<lambda>D.
     Inr (D\<lparr>ad_prefix := ''gluster_'',
            ad_add := (\<lambda>name i.
              bindW (run (lift_res (as_list conf ''gluster_data_domain_address''))) (\<lambda>addresses.
              bindW (run (lift_res (as_list conf ''gluster_data_domain_path''))) (\<lambda>paths.
              with_item addresses i (\<lambda>a. with_item paths i (\<lambda>p.
              addGlusterDomain S A N host name datacenter a p (kwget conf ''vfs_type'') (PStr (N ''storage_dom_type_data'')) PNone)))))\<rparr>))"

definition adder_of :: "'w site \<Rightarrow> 'w apis \<Rightarrow> enums \<Rightarrow> string \<Rightarrow> string \<Rightarrow> (string, pyval) dict \<Rightarrow> string \<Rightarrow> exn + 'w adder" where
  "adder_of S A N datacenter host conf storage_kind =
     (if storage_kind = N ''storage_type_gluster'' then GlusterStorageAdder S A N datacenter host conf
      else if storage_kind = N ''storage_type_posixfs'' then PosixFSStorageAdder S A N datacenter host conf
      else if storage_kind = N ''storage_type_local'' then LocalFSStorageAdder S A N datacenter host conf
      else if storage_kind = N ''storage_type_fcp'' then FCPStorageAdder S A N datacenter host conf
      else if storage_kind = N ''storage_type_iscsi'' then ISCSIStorageAdder S A N datacenter host conf
      else if storage_kind = N ''storage_type_nfs'' then NFSStorageAdder S A N datacenter host conf
      else Inl (TestExc UnkownConfigurationException))"

definition create_storages ::
  "'w site \<Rightarrow> 'w apis \<Rightarrow> enums \<Rightarrow> (string, pyval) dict \<Rightarrow> string \<Rightarrow> string \<Rightarrow> string \<Rightarrow> string \<Rightarrow> string \<Rightarrow> ('w rest_st, string list) wcomp" where
  "create_storages S A N conf storage_kind host datacenter export_name iso_name =
     bindW (run (lift_res (adder_of S A N datacenter host conf storage_kind))) (add_storages S A N datacenter host conf export_name iso_name)"

section \<open>In and out of a data center\<close>

text \<open>
  A loop over a sampler whose function and body wait themselves: \<open>t0\<close> is when it began. What runs
  after a round is that of the sampler of \<open>apis_utils.py\<close>.
\<close>

definition next_round :: "'w os_time \<Rightarrow> int \<Rightarrow> int \<Rightarrow> int \<Rightarrow> ('w, unit) comp" where
  "next_round T t s t0 = after_yield T ((API_TimeoutingSampler t s)\<lparr>start_time := Some t0\<rparr>)"

partial_function (option) rounds ::
  "'w os_time \<Rightarrow> ('w, 'a) wcomp \<Rightarrow> ('a \<Rightarrow> ('w, 'r option) wcomp) \<Rightarrow> int \<Rightarrow> int \<Rightarrow> int \<Rightarrow> ('w, 'r) wcomp" where
  "rounds T f body t s t0 w =
     (case f (snd (os_now T w)) of
        None \<Rightarrow> None
      | Some (Inl e, w1) \<Rightarrow> Some (Inl e, w1)
      | Some (Inr x, w1) \<Rightarrow>
          (case body x w1 of
             None \<Rightarrow> None
           | Some (Inl e, w2) \<Rightarrow> Some (Inl e, w2)
           | Some (Inr (Some r), w2) \<Rightarrow> Some (Inr r, w2)
           | Some (Inr None, w2) \<Rightarrow>
               (case next_round T t s t0 w2 of
                  (Inl e, w3) \<Rightarrow> Some (Inl e, w3)
                | (Inr _, w3) \<Rightarrow> rounds T f body t s t0 w3)))"

definition waiting_rounds ::
  "'w os_time \<Rightarrow> ('w, 'a) wcomp \<Rightarrow> ('a \<Rightarrow> ('w, 'r option) wcomp) \<Rightarrow> int \<Rightarrow> int \<Rightarrow> ('w, 'r) wcomp" where
  "waiting_rounds T f body t s w = (case os_now T w of (t0, w1) \<Rightarrow> rounds T f body t s t0 w1)"

definition tasks_done :: "'w rest_st os_time \<Rightarrow> 'w apis \<Rightarrow> 'w rest_st psql \<Rightarrow> string \<Rightarrow> ('w rest_st, unit) wcomp" where
  "tasks_done T A psql datacenter = wait_for_tasks T (DC_API A) psql datacenter TASK_TIMEOUT 5"

definition still_active :: "'w rest_st os_time \<Rightarrow> 'w apis \<Rightarrow> enums \<Rightarrow> 'w rest_st psql \<Rightarrow> string \<Rightarrow> string \<Rightarrow> ('w rest_st, bool option) wcomp" where
  "still_active T A N psql dc_name sd_name =
     bindW (run (is_storage_domain_active A N dc_name sd_name)) (\<lambda>active.
     if \<not> active then retW (Some True) else bindW (tasks_done T A psql dc_name) (\<lambda>_. retW None))"

text \<open>A domain that is not active at first is a False.\<close>

definition deactivate_domain ::
  "'w rest_st os_time \<Rightarrow> 'w apis \<Rightarrow> enums \<Rightarrow> 'w rest_st psql \<Rightarrow> string \<Rightarrow> string \<Rightarrow> ('w rest_st, bool) wcomp" where
  "deactivate_domain T A N psql dc_name sd_name =
     bindW (run (is_storage_domain_active A N dc_name sd_name)) (\<lambda>active.
     if \<not> active then retW False
     else
       bindW (tasks_done T A psql dc_name) (\<lambda>_.
       waiting_rounds T (deactivateStorageDomain T A N True dc_name sd_name True)
         (\<lambda>_. still_active T A N psql dc_name sd_name) TIMEOUT_DEACTIVATE_DOMAIN 10))"

text \<open>Only a domain without a status makes the loop wait for the tasks.\<close>

definition still_attached :: "'w rest_st os_time \<Rightarrow> 'w apis \<Rightarrow> enums \<Rightarrow> 'w rest_st psql \<Rightarrow> string \<Rightarrow> string \<Rightarrow> ('w rest_st, bool option) wcomp" where
  "still_attached T A N psql dc_name sd_name =
     bindW (run (get_storage_domain_obj A (PStr sd_name) ''name'')) (\<lambda>sd.
     tryW (run (lift_res (res_bind (getattr sd ''status'') (\<lambda>st.
                Inr (if is_kind N st ''storage_domain_state_unattached'' then Some True else None)))))
       AttributeError (\<lambda>_. bindW (tasks_done T A psql dc_name) (\<lambda>_. retW None)))"

definition detach_domain ::
  "'w rest_st os_time \<Rightarrow> 'w apis \<Rightarrow> enums \<Rightarrow> 'w rest_st psql \<Rightarrow> string \<Rightarrow> string \<Rightarrow> ('w rest_st, bool) wcomp" where
  "detach_domain T A N psql dc_name sd_name =
     bindW (tasks_done T A psql dc_name) (\<lambda>_.
     waiting_rounds T (run (detachStorageDomain A True dc_name sd_name))
       (\<lambda>_. still_attached T A N psql dc_name sd_name) TIMEOUT_DEACTIVATE_DOMAIN 10)"

definition detach_and_deactivate_domain ::
  "'w rest_st os_time \<Rightarrow> 'w apis \<Rightarrow> enums \<Rightarrow> 'w rest_st psql \<Rightarrow> string \<Rightarrow> string \<Rightarrow> ('w rest_st, bool) wcomp" where
  "detach_and_deactivate_domain T A N psql datacenter domain =
     bindW (run (is_storage_domain_active A N datacenter domain)) (\<lambda>active.
     bindW (if active then deactivate_domain T A N psql datacenter domain else retW True) (\<lambda>down.
     if \<not> down then retW False
     else bindW (detach_domain T A N psql datacenter domain) (\<lambda>gone. retW gone)))"

definition attach_and_activate_domain :: "'w site \<Rightarrow> 'w apis \<Rightarrow> enums \<Rightarrow> string \<Rightarrow> string \<Rightarrow> ('w rest_st, bool) wcomp" where
  "attach_and_activate_domain S A N datacenter domain =
     bindW (run (bindE (getDCStorages A datacenter False) (\<lambda>v.
                 lift_res (res_bind (py_iter v) (filter_res (name_is (PStr domain))))))) (\<lambda>there.
     bindW (run (if there = [] then attachStorageDomain A True datacenter domain True True else ret True)) (\<lambda>attached.
     if \<not> attached then raiseW (TestExc StorageDomainException)
     else
       bindW (activateStorageDomain (st_conf S) (st_time S) A N True datacenter domain True) (\<lambda>ok.
       if ok then retW True else raiseW (TestExc StorageDomainException))))"

definition remove_storage_domain ::
  "'w rest_st os_time \<Rightarrow> 'w apis \<Rightarrow> enums \<Rightarrow> 'w rest_st psql \<Rightarrow> string \<Rightarrow> string option \<Rightarrow> string \<Rightarrow> bool \<Rightarrow> ('w rest_st, bool) wcomp" where
  "remove_storage_domain T A N psql name datacenter host format_disk =
     bindW (case datacenter of
              None \<Rightarrow> retW False
            | Some dc \<Rightarrow>
                run (bindE (getDCStorages A dc False) (\<lambda>v.
                     lift_res (res_bind (py_iter v) (\<lambda>l. res_bind (map_res (\<lambda>x. getattr x ''name'') l) (\<lambda>ns.
                       Inr (\<exists>n \<in> set ns. py_eq n (PStr name)))))))) (\<lambda>there.
     bindW (if there then detach_and_deactivate_domain T A N psql (the datacenter) name else retW True) (\<lambda>gone.
     if \<not> gone then retW False
     else run (removeStorageDomain A True name host (if format_disk then ''True'' else ''False'') False False)))"

definition destroy_storage_domain ::
  "'w rest_st os_time \<Rightarrow> 'w apis \<Rightarrow> enums \<Rightarrow> 'w rest_st psql \<Rightarrow> string \<Rightarrow> string \<Rightarrow> string \<Rightarrow> ('w rest_st, bool) wcomp" where
  "destroy_storage_domain T A N psql sd_name dc_name host_name =
     bindW (run (is_storage_domain_active A N dc_name sd_name)) (\<lambda>active.
     bindW (if active then bindW (deactivate_domain T A N psql dc_name sd_name) (\<lambda>_. retW ()) else retW ()) (\<lambda>_.
     run (removeStorageDomain A True sd_name host_name ''false'' True False)))"

text \<open>
  With wrong options for NFS the class of the storage object is replaced for the call: the caller's
  backends \<open>B\<close> are the ones with that class.
\<close>

definition create_nfs_domain_with_options ::
  "'w site \<Rightarrow> 'w apis \<Rightarrow> 'w apis \<Rightarrow> enums \<Rightarrow> string \<Rightarrow> pyval \<Rightarrow> string \<Rightarrow> pyval \<Rightarrow> pyval \<Rightarrow> (string, pyval) dict \<Rightarrow> string option \<Rightarrow> bool
   \<Rightarrow> ('w rest_st, unit) comp" where
  "create_nfs_domain_with_options S A B N name sd_type host address path nfs_opts datacenter positive =
     bindE (addStorageDomain (st_resolve S) (if positive then A else B) N positive True
              [(''name'', PStr name), (''type'', sd_type), (''host'', PStr host), (''address'', address),
               (''storage_type'', PStr (N ''storage_type_nfs'')), (''path'', path), (''nfs_version'', kwget nfs_opts ''version''),
               (''nfs_retrans'', kwget nfs_opts ''retrans''), (''nfs_timeo'', kwget nfs_opts ''timeo''),
               (''mount_options'', kwget nfs_opts ''mount_options'')]) (\<lambda>added.
     if \<not> added then raise (TestExc StorageDomainException)
     else
       case datacenter of
         None \<Rightarrow> ret ()
       | Some dc \<Rightarrow>
           if \<not> positive then ret ()
           else
             bindE (attachStorageDomain A True dc name True True) (\<lambda>ok.
             if ok then ret () else raise (TestExc StorageDomainException)))"

section \<open>Reading\<close>

definition get_master_storage_domain_ip :: "'w apis \<Rightarrow> enums \<Rightarrow> string \<Rightarrow> ('w rest_st, pyval) comp" where
  "get_master_storage_domain_ip A N datacenter =
     bindE (findMasterStorageDomain A N datacenter) (\<lambda>(found, master).
     if \<not> found then raise AssertionError
     else
       bindE (getDomainAddress A N True master) (\<lambda>(found_ip, address).
       if found_ip then ret address else raise AssertionError))"

text \<open>The message of the last assertion has one argument too few: its failure is a TypeError.\<close>

definition block_connection_to_iscsi_storage ::
  "'w apis \<Rightarrow> enums \<Rightarrow> (string \<Rightarrow> exn + string list) \<Rightarrow> (string list \<Rightarrow> ('w rest_st, int) comp) \<Rightarrow> pyval \<Rightarrow> ('w rest_st, unit) comp" where
  "block_connection_to_iscsi_storage A N shlex_split run_command storage_domain =
     bindE (get_iscsi_storage_domin_addresses A N storage_domain) (\<lambda>v.
     if \<not> truthy v then raise AssertionError
     else
       bindE (lift_res (res_bind (py_iter v) (map_res as_string))) (\<lambda>addresses.
       bindE (lift_res (shlex_split (''iptables -A OUTPUT -d '' @ join '','' addresses @ '' -j DROP''))) (\<lambda>cmd.
       bindE (run_command cmd) (\<lambda>rc. if rc = 0 then ret () else raise TypeError))))"

definition disk_path :: "'w apis \<Rightarrow> pyval \<Rightarrow> pyval \<Rightarrow> ('w rest_st, pyval \<times> string) comp" where
  "disk_path A storage_domain_name disk_id =
     bindE (get_disk_obj A disk_id ''id'') (\<lambda>d.
     bindE (lift_res (getattr d ''name'')) (\<lambda>n.
     bindE (get_storage_domain_obj A storage_domain_name ''name'') (\<lambda>sd.
     bindE (lift_res (getattr sd ''id'')) (\<lambda>sd_id.
     bindE (lift_res (res_bind (getattr_chain [''data_centers'', ''data_center''] sd) first_of)) (\<lambda>dc.
     bindE (lift_res (getattr dc ''id'')) (\<lambda>dc_id.
     ret (n, py_str dc_id @ ''/'' @ py_str sd_id @ ''/images/'' @ py_str disk_id)))))))"

fun get_file_storage_disks_paths :: "'w apis \<Rightarrow> pyval \<Rightarrow> pyval list \<Rightarrow> (pyval, string) dict \<Rightarrow> ('w rest_st, (pyval, string) dict) comp" where
  "get_file_storage_disks_paths A storage_domain_name [] d = ret d"
| "get_file_storage_disks_paths A storage_domain_name (i # is) d =
     bindE (disk_path A storage_domain_name i) (\<lambda>(n, p). get_file_storage_disks_paths A storage_domain_name is (dict_set d n p))"

definition get_storage_domain_addresses :: "'w apis \<Rightarrow> enums \<Rightarrow> pyval \<Rightarrow> ('w rest_st, pyval list) comp" where
  "get_storage_domain_addresses A N sd_name =
     bindE (get_storage_domain_obj A sd_name ''name'') (\<lambda>sd.
     bindE (lift_res (getattr_chain [''storage'', ''type_''] sd)) (\<lambda>ty.
     if is_kind N ty ''storage_type_iscsi'' \<or> is_kind N ty ''storage_type_fcp'' then
       bindE (get_storage_domain_logical_units A N sd_name ''name'') (\<lambda>v.
       lift_res (res_bind (py_iter v) (map_res (\<lambda>u. getattr u ''address''))))
     else lift_res (res_bind (getattr_chain [''storage'', ''address''] sd) (\<lambda>a. Inr [a]))))"

text \<open>No object of the name is an IndexError.\<close>

definition register_named :: "'w apis \<Rightarrow> pyval \<Rightarrow> pyval \<Rightarrow> pyval \<Rightarrow> ('w rest_st, unit) comp" where
  "register_named A unregistered_objects n cluster =
     bindE (lift_res (res_bind (py_iter unregistered_objects) (\<lambda>l. res_bind (filter_res (name_is n) l) (\<lambda>m. first_of (PList m))))) (\<lambda>x.
     if \<not> truthy x then raise AssertionError
     else
       bindE (register_object A x cluster (PBool True) [] PNone) (\<lambda>ok. if ok then ret () else raise AssertionError))"

definition register_vm_from_data_domain :: "'w apis \<Rightarrow> pyval \<Rightarrow> pyval \<Rightarrow> pyval \<Rightarrow> ('w rest_st, unit) comp" where
  "register_vm_from_data_domain A storage_domain vm_name cluster =
     bindE (get_unregistered_vms A storage_domain) (\<lambda>v. register_named A v vm_name cluster)"

definition register_templates_from_data_domain :: "'w apis \<Rightarrow> pyval \<Rightarrow> pyval \<Rightarrow> pyval \<Rightarrow> ('w rest_st, unit) comp" where
  "register_templates_from_data_domain A storage_domain template_name cluster =
     bindE (get_unregistered_templates A storage_domain) (\<lambda>v. register_named A v template_name cluster)"

section \<open>What is shown\<close>

lemma next_round_on:
  assumes "clock_laws T clk" and "0 < s" and "next_round T t s t0 w = (Inr u, w')"
  shows "clk w \<le> t0 + t" and "clk w + s \<le> clk w'"
  using after_yield_goes_on [OF assms(1), of "(API_TimeoutingSampler t s)\<lparr>start_time := Some t0\<rparr>" t0 w u w'] assms(2,3)
  by (auto simp: next_round_def)

lemma next_round_stops:
  assumes "clock_laws T clk" and "next_round T t s t0 w = (Inl e, w')"
  shows "e = APITimeout" and "t0 + t < clk w'"
  using after_yield_expires [OF assms(1), of "(API_TimeoutingSampler t s)\<lparr>start_time := Some t0\<rparr>" t0 w e w'] assms(2)
  by (auto simp: next_round_def)

lemma comes_backD: "comes_back clk m \<Longrightarrow> \<exists>r w'. m w = Some (r, w') \<and> clk w \<le> clk w'"
  by (auto simp: comes_back_def)

lemma os_now_later: "clock_laws T clk \<Longrightarrow> clk w \<le> clk (snd (os_now T w))"
  by (meson clock_laws_def order_trans)

text \<open>Each round but the last takes the time of its pause, so the rounds end.\<close>

lemma rounds_come_back:
  assumes "clock_laws T clk" and "comes_back clk f" and "\<And>x. comes_back clk (body x)" and "0 < s"
  shows "\<exists>r w'. rounds T f body t s t0 w = Some (r, w') \<and> clk w \<le> clk w'"
proof (induction "nat (t0 + t + 1 - clk w)" arbitrary: w rule: less_induct)
  case less
  obtain r1 w1 where f: "f (snd (os_now T w)) = Some (r1, w1)" and w1: "clk (snd (os_now T w)) \<le> clk w1"
    using comes_backD [OF assms(2)] by blast
  with os_now_later [OF assms(1), of w] have t1: "clk w \<le> clk w1" by linarith
  show ?case
  proof (cases r1)
    case (Inl e)
    with f t1 show ?thesis by (subst rounds.simps) simp
  next
    case (Inr x)
    obtain r2 w2 where b: "body x w1 = Some (r2, w2)" and t2: "clk w1 \<le> clk w2"
      using comes_backD [OF assms(3)] by blast
    show ?thesis
    proof (cases "\<exists>u w3. r2 = Inr None \<and> next_round T t s t0 w2 = (Inr u, w3)")
      case True
      then obtain u w3 where r2: "r2 = Inr None" and n: "next_round T t s t0 w2 = (Inr u, w3)" by blast
      note on = next_round_on [OF assms(1,4) n]
      have "nat (t0 + t + 1 - clk w3) < nat (t0 + t + 1 - clk w)" using on t1 t2 assms(4) by linarith
      from less [OF this] obtain r w' where "rounds T f body t s t0 w3 = Some (r, w')" "clk w3 \<le> clk w'" by blast
      with f Inr b r2 n on t1 t2 assms(4) show ?thesis by (subst rounds.simps) auto
    next
      case False
      have "clk w2 \<le> clk w3" if "next_round T t s t0 w2 = (Inl e, w3)" for e w3
        using that os_now_bounds [OF assms(1), of w2] unfolding next_round_def after_yield_def
        by (fastforce split: prod.splits option.splits if_splits)
      with False f Inr b t1 t2 show ?thesis
        by (subst rounds.simps) (cases r2; force split: sum.splits option.splits prod.splits)
    qed
  qed
qed

text \<open>They end with what the body found, with what the function or the body raised, or with the time.\<close>

lemma rounds_verdict:
  assumes "clock_laws T clk" and "comes_back clk f" and "\<And>x. comes_back clk (body x)" and "0 < s"
    and "rounds T f body t s t0 w = Some (r, w')"
  shows "case r of
      Inr y \<Rightarrow> \<exists>x v. body x v = Some (Inr (Some y), w')
    | Inl e \<Rightarrow> (\<exists>v. f v = Some (Inl e, w')) \<or> (\<exists>x v. body x v = Some (Inl e, w')) \<or> e = APITimeout \<and> t0 + t < clk w'"
  using assms(5)
proof (induction "nat (t0 + t + 1 - clk w)" arbitrary: w rule: less_induct)
  case less
  obtain r1 w1 where f: "f (snd (os_now T w)) = Some (r1, w1)" and w1: "clk (snd (os_now T w)) \<le> clk w1"
    using comes_backD [OF assms(2)] by blast
  with os_now_later [OF assms(1), of w] have t1: "clk w \<le> clk w1" by linarith
  show ?case
  proof (cases r1)
    case (Inl e)
    with less(2) f show ?thesis by (subst (asm) rounds.simps) auto
  next
    case (Inr x)
    obtain r2 w2 where b: "body x w1 = Some (r2, w2)" and t2: "clk w1 \<le> clk w2"
      using comes_backD [OF assms(3)] by blast
    consider e where "r2 = Inl e" | y where "r2 = Inr (Some y)"
      | e w3 where "r2 = Inr None" "next_round T t s t0 w2 = (Inl e, w3)"
      | u w3 where "r2 = Inr None" "next_round T t s t0 w2 = (Inr u, w3)"
      by (metis surj_pair old.sum.exhaust option.exhaust)
    then show ?thesis
    proof cases
      case (1 e)
      with less(2) f Inr b show ?thesis by (subst (asm) rounds.simps) auto
    next
      case (2 y)
      with less(2) f Inr b have "r = Inr y \<and> w2 = w'" by (subst (asm) rounds.simps) simp
      with b 2 show ?thesis by auto
    next
      case (3 e w3)
      with less(2) f Inr b next_round_stops [OF assms(1) 3(2)] show ?thesis by (subst (asm) rounds.simps) auto
    next
      case (4 u w3)
      note on = next_round_on [OF assms(1,4) 4(2)]
      have "nat (t0 + t + 1 - clk w3) < nat (t0 + t + 1 - clk w)" using on t1 t2 assms(4) by linarith
      moreover have "rounds T f body t s t0 w3 = Some (r, w')"
        using less(2) f Inr b 4 by (subst (asm) rounds.simps) auto
      ultimately show ?thesis by (rule less(1))
    qed
  qed
qed

lemma is_active_never_back: "apis_keep_time clk A \<Longrightarrow> never_back (server_time clk) (is_storage_domain_active A N dc sd)"
  unfolding is_storage_domain_active_def by (intro never_back_intros getDCStorage_never_back)

lemma tasks_done_comes_back:
  assumes "clock_laws T (server_time clk)" and "apis_keep_time clk A" and "\<And>q. never_back (server_time clk) (psql q)"
  shows "comes_back (server_time clk) (tasks_done T A psql dc)"
  unfolding comes_back_def
proof
  fix w
  let ?clk = "server_time clk" and ?h = "\<lambda>tasks. Inr (if \<not> truthy tasks then Some () else None)"
  let ?id = "bindE (find_named (DC_API A) dc) (\<lambda>d. lift_res (getattr d ''id''))"
  have tasks: "never_back ?clk (get_running_tasks psql i)" for i
    unfolding get_running_tasks_def by (rule assms(3))
  have "never_back ?clk ?id"
    using find_never_back [OF api_keeps_time(3) [OF assms(2)], of "''name''" "PStr dc"]
    by (intro never_back_intros) (simp_all add: find_named_def find_by_def)
  then obtain r w1 where i: "?id w = (r, w1)" "?clk w \<le> ?clk w1" by (metis never_backD surj_pair)
  show "\<exists>r w'. tasks_done T A psql dc w = Some (r, w') \<and> ?clk w \<le> ?clk w'"
  proof (cases r)
    case (Inr sp_id)
    have "comes_back ?clk (sampling T (get_running_tasks psql sp_id) ?h TASK_TIMEOUT 5)"
      by (intro comes_back_sampling assms(1) tasks) simp
    then obtain q w2 where q: "sampling T (get_running_tasks psql sp_id) ?h TASK_TIMEOUT 5 w1 = Some (q, w2)" "?clk w1 \<le> ?clk w2"
      unfolding comes_back_def by blast
    then obtain s1 where loop: "for_sample T (get_running_tasks psql sp_id) (\<lambda>tasks. ret (if \<not> truthy tasks then Some () else None))
        (API_TimeoutingSampler TASK_TIMEOUT 5) w1 = Some (q, s1, w2)"
      by (auto simp: sampling_def lift_res_Inr split: option.splits)
    obtain l w3 where l: "get_running_tasks psql sp_id w2 = (l, w3)" by fastforce
    with never_backD [OF tasks l] q(2) i Inr loop show ?thesis
      by (cases l) (auto simp: tasks_done_def wait_for_tasks_def)
  qed (use i in \<open>auto simp: tasks_done_def wait_for_tasks_def\<close>)
qed

lemma waiting_rounds_verdict:
  assumes "clock_laws T clk" and "comes_back clk f" and "\<And>x. comes_back clk (body x)" and "0 < s"
  shows "\<exists>r w'. waiting_rounds T f body t s w = Some (r, w') \<and> clk w \<le> clk w' \<and>
    (\<forall>y. r = Inr y \<longrightarrow> (\<exists>x v. body x v = Some (Inr (Some y), w')))"
proof -
  obtain t0 w1 where now: "os_now T w = (t0, w1)" by fastforce
  from rounds_come_back [of T clk f body s t t0 w1] assms obtain r w' where r: "rounds T f body t s t0 w1 = Some (r, w')" "clk w1 \<le> clk w'" by blast
  with rounds_verdict [of T clk f body s t t0 w1 r w'] assms now os_now_bounds [OF assms(1) now] show ?thesis
    by (auto simp: waiting_rounds_def)
qed

text \<open>
  C36. Deactivating a storage domain always comes back, with tasks running or not. A domain that the first
  look finds not active is a False at once, and nothing else is: False comes back only then. True means
  that the first look found the domain active and the last one, which ends the call and is not before the
  first, found it not active.
\<close>

theorem deactivate_domain_verdict:
  assumes "clock_laws T (server_time clk)" and "apis_keep_time clk A" and "\<And>q. never_back (server_time clk) (psql q)"
  shows "\<exists>r w'. deactivate_domain T A N psql dc sd w = Some (r, w') \<and>
    (r = Inr False \<longleftrightarrow> fst (is_storage_domain_active A N dc sd w) = Inr False) \<and>
    (r = Inr False \<longrightarrow> w' = snd (is_storage_domain_active A N dc sd w)) \<and>
    (r = Inr True \<longrightarrow> fst (is_storage_domain_active A N dc sd w) = Inr True \<and>
       (\<exists>v. is_storage_domain_active A N dc sd v = (Inr False, w') \<and>
          server_time clk (snd (is_storage_domain_active A N dc sd w)) \<le> server_time clk w'))"
proof -
  let ?loop = "waiting_rounds T (deactivateStorageDomain T A N True dc sd True) (\<lambda>_. still_active T A N psql dc sd) TIMEOUT_DEACTIVATE_DOMAIN 10"
  obtain a w1 where a: "is_storage_domain_active A N dc sd w = (a, w1)" by fastforce
  obtain q w2 where q: "tasks_done T A psql dc w1 = Some (q, w2)" "server_time clk w1 \<le> server_time clk w2"
    using tasks_done_comes_back [of T clk A psql dc] assms unfolding comes_back_def by blast
  have "comes_back (server_time clk) (still_active T A N psql dc sd)"
    unfolding still_active_def
    by (intro comes_back_intros never_back_intros is_active_never_back tasks_done_comes_back assms)
  with waiting_rounds_verdict [OF assms(1) deactivate_comes_back [OF assms(1,2), of N True dc sd True],
      of "\<lambda>_. still_active T A N psql dc sd" 10 TIMEOUT_DEACTIVATE_DOMAIN w2]
  obtain r w' where r: "?loop w2 = Some (r, w')" "server_time clk w2 \<le> server_time clk w'"
    and found: "\<And>y. r = Inr y \<Longrightarrow> \<exists>v. still_active T A N psql dc sd v = Some (Inr (Some y), w')"
    by auto
  have verdict: "y \<and> (\<exists>v. is_storage_domain_active A N dc sd v = (Inr False, w'))" if "r = Inr y" for y
    using found [OF that] by (auto simp: still_active_def ret_apply elim!: bindW_InrE split: if_splits)
  have run: "deactivate_domain T A N psql dc sd w =
      (case a of Inl e \<Rightarrow> Some (Inl e, w1) | Inr active \<Rightarrow>
         if \<not> active then Some (Inr False, w1) else case q of Inl e \<Rightarrow> Some (Inl e, w2) | Inr _ \<Rightarrow> Some (r, w'))"
    using a q(1) r(1) by (simp add: deactivate_domain_def bindW_def run_def ret_def split: sum.split)
  have first: "fst (is_storage_domain_active A N dc sd w) = a" "snd (is_storage_domain_active A N dc sd w) = w1"
    using a by simp_all
  consider e where "a = Inl e" | "a = Inr False" | e where "a = Inr True" "q = Inl e" | x where "a = Inr True" "q = Inr x"
    by (cases a; cases q) auto
  then show ?thesis
  proof cases
    case (4 x)
    then have "deactivate_domain T A N psql dc sd w = Some (r, w')" using run by simp
    moreover have "r \<noteq> Inr False" using verdict by blast
    ultimately show ?thesis using 4(1) first verdict q(2) r(2) by (metis (no_types, lifting) order_trans sum.inject(2))
  qed (use run first in simp_all)
qed

text \<open>
  Detaching a storage domain always comes back, and never with False: True means that the last look
  at the domain, which ends the call, found it unattached.
\<close>

theorem detach_domain_verdict:
  assumes "clock_laws T (server_time clk)" and "apis_keep_time clk A" and "\<And>q. never_back (server_time clk) (psql q)"
  shows "\<exists>r w'. detach_domain T A N psql dc sd w = Some (r, w') \<and>
    (\<forall>b. r = Inr b \<longrightarrow> b \<and> (\<exists>x v. get_storage_domain_obj A (PStr sd) ''name'' v = (Inr x, w') \<and>
       getattr x ''status'' = Inr (PStr (N ''storage_domain_state_unattached''))))"
proof -
  let ?loop = "waiting_rounds T (run (detachStorageDomain A True dc sd)) (\<lambda>_. still_attached T A N psql dc sd) TIMEOUT_DEACTIVATE_DOMAIN 10"
  obtain q w2 where q: "tasks_done T A psql dc w = Some (q, w2)"
    using comes_backD [OF tasks_done_comes_back [of T clk A psql dc]] assms by blast
  have "comes_back (server_time clk) (run (detachStorageDomain A True dc sd))"
    unfolding detachStorageDomain_def by (intro comes_back_intros never_back_intros request_intros getDCStorage_never_back api_keeps_time assms)
  moreover have "comes_back (server_time clk) (still_attached T A N psql dc sd)"
    unfolding still_attached_def get_storage_domain_obj_def
    by (intro comes_back_intros never_back_intros request_intros api_keeps_time tasks_done_comes_back assms)
  ultimately obtain r w' where r: "?loop w2 = Some (r, w')"
    and found: "\<And>y. r = Inr y \<Longrightarrow> \<exists>v. still_attached T A N psql dc sd v = Some (Inr (Some y), w')"
    using waiting_rounds_verdict [OF assms(1), of "run (detachStorageDomain A True dc sd)" "\<lambda>_. still_attached T A N psql dc sd" 10
        TIMEOUT_DEACTIVATE_DOMAIN w2] by auto
  have "y \<and> (\<exists>x v. get_storage_domain_obj A (PStr sd) ''name'' v = (Inr x, w') \<and>
       getattr x ''status'' = Inr (PStr (N ''storage_domain_state_unattached'')))" if "r = Inr y" for y
    using found [OF that]
    by (auto simp: still_attached_def is_kind_def ret_apply lift_res_def res_bind_Inr elim!: bindW_InrE tryW_InrE split: sum.splits if_splits; blast)
  with q r show ?thesis by (cases q) (auto simp: detach_domain_def bindW_def)
qed

text \<open>The names in \<open>create_storages\<close>: the prefix of the type with the numbers from 0.\<close>

lemma add_storage_each_names:
  "add_storage_each D is w = Some (Inr ns, w') \<Longrightarrow> ns = map (\<lambda>i. ad_prefix D @ show_int (int i)) is"
  by (induction "is" arbitrary: w ns) (auto simp: ret_apply raise_def add_storage_def Let_def elim!: bindW_InrE split: if_splits)

text \<open>
  What is created for a configuration has one name for each data domain of its type, in order, and
  every one of them was added.
\<close>

theorem create_storages_names:
  assumes "create_storages S A N conf kind host dc export_name iso_name w = Some (Inr ns, w')"
  shows "\<exists>D. adder_of S A N dc host conf kind = Inr D \<and>
    ns = map (\<lambda>i. ad_prefix D @ show_int (int i)) [0..<no_of_data_storages D]"
proof -
  from assms obtain D where D: "adder_of S A N dc host conf kind = Inr D"
    and add: "add_storages S A N dc host conf export_name iso_name D w = Some (Inr ns, w')"
    by (auto simp: create_storages_def lift_res_def ret_apply raise_def elim!: bindW_InrE split: sum.splits)
  show ?thesis
  proof (cases "no_of_data_storages D")
    case 0
    with D add show ?thesis by (auto simp: add_storages_def ret_apply)
  next
    case (Suc n)
    with add obtain first others u u' v v' where "add_storage D 0 u = Some (Inr first, u')"
      and "add_storage_each D [1..<Suc n] v = Some (Inr others, v')" and "ns = first # others"
      by (auto simp: add_storages_def ret_apply simp del: upt_Suc elim!: bindW_InrE)
    with add_storage_each_names [of D "[1..<Suc n]" v others v'] D Suc show ?thesis
      by (auto simp: add_storage_def Let_def ret_apply raise_def upt_conv_Cons simp del: upt_Suc elim!: bindW_InrE split: if_splits)
  qed
qed

section \<open>Witnesses\<close>

definition no_tasks :: "nat rest_st psql" where "no_tasks q = ret (PList [])"

lemma no_tasks_never_back: "never_back (server_time int) (no_tasks q)"
  by (simp add: no_tasks_def)

theorem deactivate_domain_verdict_witness:
  "\<exists>r. deactivate_domain demo_clock disk_apis disk_names no_tasks ''dc'' ''a'' demo_rest_st = Some r"
  using deactivate_domain_verdict [OF demo_clock_laws disk_apis_keep_time, of no_tasks disk_names "''dc''" "''a''" demo_rest_st] no_tasks_never_back by blast

theorem detach_domain_verdict_witness:
  "\<exists>r. detach_domain demo_clock disk_apis disk_names no_tasks ''dc'' ''a'' demo_rest_st = Some r"
  using detach_domain_verdict [OF demo_clock_laws disk_apis_keep_time, of no_tasks disk_names "''dc''" "''a''" demo_rest_st] no_tasks_never_back by blast

end
