(* ===== verification/External_Providers.thy ===== *)
theory External_Providers
  imports Vms Storage_Domains
begin

text \<open>
  \<open>external_providers.py\<close>, the providers of images and volumes: objects that keep what was given and
  what the engine told last.
\<close>

section \<open>The object and the engine\<close>

text \<open>
  The attributes of a provider. A keyword that was not given is \<open>PNone\<close>; \<open>p_class\<close> is the name of
  the class, from which the data structure and the collection are taken. An attribute that \<open>__init__\<close>
  sets only in some cases is an option.
\<close>

record provider =
  p_class :: string
  p_element :: string
  p_name :: pyval
  p_url :: pyval
  p_requires_authentication :: pyval
  p_username :: pyval
  p_password :: pyval
  p_authentication_url :: pyval
  p_tenant_name :: pyval
  osp_obj :: pyval

record volume_provider = provider +
  p_data_center :: pyval
  key_obj :: pyval
  key_uuid :: pyval
  key_value :: pyval

text \<open>A method runs on the object and the session of the engine.\<close>

type_synonym ('p, 'w, 'a) on_object = "('p \<times> 'w rest_st, 'a) comp"

definition engine :: "('w rest_st, 'a) comp \<Rightarrow> ('p, 'w, 'a) on_object" where
  "engine m = (\<lambda>(p, s). case m s of (r, s') \<Rightarrow> (r, (p, s')))"

definition self :: "('p \<Rightarrow> 'a) \<Rightarrow> ('p, 'w, 'a) on_object" where
  "self f = gets (\<lambda>(p, s). f p)"

definition set_self :: "('p \<Rightarrow> 'p) \<Rightarrow> ('p, 'w, unit) on_object" where
  "set_self u = modify (\<lambda>(p, s). (u p, s))"

definition provider_api :: "'w apis \<Rightarrow> 'b provider_scheme \<Rightarrow> 'w rest_env" where
  "provider_api A p = A (p_element p) (lower (p_class p) @ ''s'')"

section \<open>OpenStackProvider\<close>

definition provider_get :: "'w apis \<Rightarrow> pyval \<Rightarrow> string \<Rightarrow> ('b provider_scheme, 'w, pyval) on_object" where
  "provider_get A openstack_ep key =
     bindE (self id) (\<lambda>p.
     try_except
       (bindE (engine (find_by (provider_api A p) key openstack_ep)) (\<lambda>x.
        bindE (set_self (osp_obj_update (\<lambda>_. x))) (\<lambda>_. ret x)))
       EntityNotFound (\<lambda>_. ret PNone))"

text \<open>\<open>__init__\<close> ends with a look-up of the name.\<close>

definition new_provider ::
  "'w apis \<Rightarrow> string \<Rightarrow> string \<Rightarrow> (string, pyval) dict \<Rightarrow> (provider \<Rightarrow> 'b provider_scheme) \<Rightarrow> 'w rest_st \<Rightarrow> (exn + pyval) \<times> 'b provider_scheme \<times> 'w rest_st" where
  "new_provider A cls element kw more_fields s =
     provider_get A (kwget kw ''name'') ''name''
       (more_fields \<lparr>p_class = cls, p_element = element, p_name = kwget kw ''name'', p_url = kwget kw ''url'',
          p_requires_authentication = kwget kw ''requires_authentication'', p_username = kwget kw ''username'',
          p_password = kwget kw ''password'', p_authentication_url = kwget kw ''authentication_url'',
          p_tenant_name = kwget kw ''tenant_name'', osp_obj = PNone\<rparr>, s)"

definition provider_fields :: "'b provider_scheme \<Rightarrow> (string \<times> pyval) list" where
  "provider_fields p =
     [(''name'', p_name p), (''url'', p_url p), (''requires_authentication'', p_requires_authentication p),
      (''username'', p_username p), (''password'', p_password p), (''authentication_url'', p_authentication_url p),
      (''tenant_name'', p_tenant_name p)]"

definition set_fields :: "(string \<times> pyval) list \<Rightarrow> pyval \<Rightarrow> pyval" where
  "set_fields l x = fold (\<lambda>(k, v) y. setattr y k v) l x"

definition provider_init :: "'w apis \<Rightarrow> ('b provider_scheme, 'w, unit) on_object" where
  "provider_init A =
     set_self (\<lambda>p. osp_obj_update (\<lambda>_. set_fields (provider_fields p) (new_object A (p_class p))) p)"

text \<open>\<open>_init\<close> differs from class to class; a TypeError of the creation is a False.\<close>

definition provider_add :: "'w apis \<Rightarrow> ('b provider_scheme, 'w, unit) on_object \<Rightarrow> ('b provider_scheme, 'w, bool) on_object" where
  "provider_add A init =
     bindE init (\<lambda>_.
     bindE (self id) (\<lambda>p.
     try_except
       (bindE (engine (rest_create (provider_api A p) (osp_obj p) True create_default)) (\<lambda>(x, status).
        bindE (set_self (osp_obj_update (\<lambda>_. x))) (\<lambda>_. ret True)))
       TypeError (\<lambda>_. ret False)))"

text \<open>
  What an update is given goes into the new object, while the attribute of the provider is set to what
  the old object has. The answer is the pair of \<open>update\<close>.
\<close>

definition update_keys :: "string list" where
  "update_keys = [''url'', ''requires_authentication'', ''username'', ''password'', ''authentication_url'', ''tenant_name'']"

definition set_provider_field :: "string \<Rightarrow> pyval \<Rightarrow> 'b provider_scheme \<Rightarrow> 'b provider_scheme" where
  "set_provider_field k v p =
     (if k = ''url'' then p\<lparr>p_url := v\<rparr>
      else if k = ''requires_authentication'' then p\<lparr>p_requires_authentication := v\<rparr>
      else if k = ''username'' then p\<lparr>p_username := v\<rparr>
      else if k = ''password'' then p\<lparr>p_password := v\<rparr>
      else if k = ''authentication_url'' then p\<lparr>p_authentication_url := v\<rparr>
      else if k = ''tenant_name'' then p\<lparr>p_tenant_name := v\<rparr>
      else p)"

fun note_update :: "(string, pyval) dict \<Rightarrow> string list \<Rightarrow> pyval \<Rightarrow> ('b provider_scheme, 'w, pyval) on_object" where
  "note_update kw [] new = ret new"
| "note_update kw (k # ks) new =
     (if \<not> truthy (kwget kw k) then note_update kw ks new
      else
        bindE (self osp_obj) (\<lambda>old.
        bindE (lift_res (getattr old k)) (\<lambda>v.
        bindE (set_self (set_provider_field k v)) (\<lambda>_. note_update kw ks (setattr new k (kwget kw k))))))"

definition provider_update :: "'w apis \<Rightarrow> (string, pyval) dict \<Rightarrow> ('b provider_scheme, 'w, pyval \<times> bool) on_object" where
  "provider_update A kw =
     bindE (self p_class) (\<lambda>c.
     bindE (note_update kw update_keys (new_object A c)) (\<lambda>new.
     bindE (self id) (\<lambda>p. engine (rest_update (provider_api A p) (osp_obj p) new True update_default))))"

definition get_openstack_ep_objects :: "'w apis \<Rightarrow> ('b provider_scheme, 'w, pyval) on_object" where
  "get_openstack_ep_objects A = bindE (self id) (\<lambda>p. engine (get_all (provider_api A p)))"

text \<open>The argument \<open>key\<close> is not handed on: the element is looked up by its name.\<close>

definition provider_remove :: "'w apis \<Rightarrow> pyval \<Rightarrow> string \<Rightarrow> ('b provider_scheme, 'w, bool) on_object" where
  "provider_remove A openstack_ep key =
     bindE (provider_get A openstack_ep ''name'') (\<lambda>x.
     if truthy x then bindE (self id) (\<lambda>p. engine (delete_element (provider_api A p) x True)) else ret False)"

definition provider_is_exists :: "'w apis \<Rightarrow> ('b provider_scheme, 'w, bool) on_object" where
  "provider_is_exists A = bindE (self p_name) (\<lambda>n. bindE (provider_get A n ''name'') (\<lambda>x. ret (x \<noteq> PNone)))"

section \<open>Providers of images and volumes\<close>

definition new_image_provider :: "'w apis \<Rightarrow> (string, pyval) dict \<Rightarrow> 'w rest_st \<Rightarrow> (exn + pyval) \<times> provider \<times> 'w rest_st" where
  "new_image_provider A kw = new_provider A ''OpenStackImageProvider'' ''openstack_image_provider'' kw id"

definition new_volume_provider :: "'w apis \<Rightarrow> (string, pyval) dict \<Rightarrow> 'w rest_st \<Rightarrow> (exn + pyval) \<times> volume_provider \<times> 'w rest_st" where
  "new_volume_provider A kw =
     new_provider A ''OpenStackVolumeProvider'' ''openstack_volume_provider'' kw
       (\<lambda>p. provider.extend p (volume_provider.fields (kwget kw ''data_center'') PNone (kwget kw ''key_uuid'') (kwget kw ''key_value'')))"

definition volume_init :: "'w apis \<Rightarrow> (volume_provider, 'w, unit) on_object" where
  "volume_init A =
     bindE (provider_init A) (\<lambda>_. set_self (\<lambda>p. p\<lparr>osp_obj := setattr (osp_obj p) ''data_center'' (p_data_center p)\<rparr>))"

definition add_ceph_auth_key :: "'w apis \<Rightarrow> pyval \<Rightarrow> pyval \<Rightarrow> pyval \<Rightarrow> (volume_provider, 'w, bool) on_object" where
  "add_ceph_auth_key A uuid v usage_type =
     (let key = set_fields [(''uuid'', uuid), (''value'', v), (''usage_type'', usage_type)] (new_object A ''OpenstackVolumeAuthenticationKey'') in
      bindE (self id) (\<lambda>p.
      bindE (engine (getElemFromLink (provider_api A p) (osp_obj p) ''authenticationkeys'' ''authenticationkey'' True False)) (\<lambda>c.
      bindE (lift_res (if truthy c then as_string c else Inr [])) (\<lambda>collection.
      bindE (engine (rest_create (provider_api A p) key True
               (create_default\<lparr>ca_collection := collection, ca_coll_elm_name := ''openstack_volume_authentication_key'',
                  ca_expected_entity := Some key\<rparr>))) (\<lambda>(x, ok).
      bindE (set_self (\<lambda>q. q\<lparr>key_obj := x\<rparr>)) (\<lambda>_. ret ok))))))"

text \<open>A key that could not be added does not change the verdict.\<close>

definition volume_add :: "'w apis \<Rightarrow> (volume_provider, 'w, bool) on_object" where
  "volume_add A =
     bindE (provider_add A (volume_init A)) (\<lambda>added.
     if \<not> added then ret False
     else
       bindE (self id) (\<lambda>p.
       if truthy (key_uuid p) \<and> truthy (key_value p) then
         bindE (add_ceph_auth_key A (key_uuid p) (key_value p) (PStr ''ceph'')) (\<lambda>_. ret True)
       else ret True))"

text \<open>The functions make a provider without a name; its own look-up finds nothing or is left behind.\<close>

definition on_new :: "('w rest_st \<Rightarrow> (exn + pyval) \<times> 'p \<times> 'w rest_st) \<Rightarrow> ('p, 'w, 'a) on_object \<Rightarrow> ('w rest_st, 'a) comp" where
  "on_new new m s =
     (case new s of
        (Inl e, p, s1) \<Rightarrow> (Inl e, s1)
      | (Inr _, p, s1) \<Rightarrow> (case m (p, s1) of (r, (_, s2)) \<Rightarrow> (r, s2)))"

definition get_glance_ep_obj :: "'w apis \<Rightarrow> pyval \<Rightarrow> string \<Rightarrow> ('w rest_st, pyval) comp" where
  "get_glance_ep_obj A glance_ep key = on_new (new_image_provider A []) (provider_get A glance_ep key)"

definition get_glance_ep_objs :: "'w apis \<Rightarrow> ('w rest_st, pyval) comp" where
  "get_glance_ep_objs A = on_new (new_image_provider A []) (get_openstack_ep_objects A)"

definition names_of_objs :: "pyval \<Rightarrow> exn + pyval list" where
  "names_of_objs v = res_bind (py_iter v) (map_res (\<lambda>x. getattr x ''name''))"

definition get_glance_ep_objs_names :: "'w apis \<Rightarrow> ('w rest_st, pyval list) comp" where
  "get_glance_ep_objs_names A = bindE (get_glance_ep_objs A) (\<lambda>v. lift_res (names_of_objs v))"

definition remove_glance_ep :: "'w apis \<Rightarrow> pyval \<Rightarrow> string \<Rightarrow> ('w rest_st, bool) comp" where
  "remove_glance_ep A glance_ep key = on_new (new_image_provider A []) (provider_remove A glance_ep key)"

definition get_cinder_ep_obj :: "'w apis \<Rightarrow> pyval \<Rightarrow> string \<Rightarrow> ('w rest_st, pyval) comp" where
  "get_cinder_ep_obj A cinder_ep key = on_new (new_volume_provider A []) (provider_get A cinder_ep key)"

definition get_cinder_ep_objs :: "'w apis \<Rightarrow> ('w rest_st, pyval) comp" where
  "get_cinder_ep_objs A = on_new (new_volume_provider A []) (get_openstack_ep_objects A)"

definition get_cinder_ep_objs_names :: "'w apis \<Rightarrow> ('w rest_st, pyval list) comp" where
  "get_cinder_ep_objs_names A = bindE (get_cinder_ep_objs A) (\<lambda>v. lift_res (names_of_objs v))"

definition remove_cinder_ep :: "'w apis \<Rightarrow> pyval \<Rightarrow> string \<Rightarrow> ('w rest_st, bool) comp" where
  "remove_cinder_ep A cinder_ep key = on_new (new_volume_provider A []) (provider_remove A cinder_ep key)"

end
