(* ===== verification/Network_Providers.thy ===== *)
theory Network_Providers
  imports External_Providers Engine_Lookups Networks
begin

text \<open>
  \<open>ExternalNetworkProvider\<close> and \<open>OpenStackNetworkProvider\<close> of \<open>external_providers.py\<close>, which talk to the
  engine and, with a token, to the provider's own service; \<open>OvnProvider\<close> of \<open>extrenal_providers.py\<close>,
  which does it through the neutron client; and \<open>external_import.py\<close>.
\<close>

section \<open>The service\<close>

text \<open>What travels between the client and the service.\<close>

datatype json = JVal pyval | JList "json list" | JDict "(string \<times> json) list"

fun json_truthy :: "json \<Rightarrow> bool" where
  "json_truthy (JVal v) = truthy v"
| "json_truthy (JList l) = (l \<noteq> [])"
| "json_truthy (JDict d) = (d \<noteq> [])"

text \<open>\<open>v.get(k, d)\<close>, \<open>k in v\<close>, iteration, and comparison with a plain value.\<close>

fun json_get :: "json \<Rightarrow> string \<Rightarrow> json \<Rightarrow> exn + json" where
  "json_get (JDict d) k dflt = Inr (case map_of d k of None \<Rightarrow> dflt | Some v \<Rightarrow> v)"
| "json_get v k dflt = Inl AttributeError"

fun json_in :: "string \<Rightarrow> json \<Rightarrow> exn + bool" where
  "json_in k (JDict d) = Inr (k \<in> fst ` set d)"
| "json_in k (JList l) = Inr (JVal (PStr k) \<in> set l)"
| "json_in k (JVal v) = str_in k v"

fun json_iter :: "json \<Rightarrow> exn + json list" where
  "json_iter (JDict d) = Inr (map (\<lambda>(k, _). JVal (PStr k)) d)"
| "json_iter (JList l) = Inr l"
| "json_iter (JVal v) = res_bind (py_iter v) (\<lambda>l. Inr (map JVal l))"

fun json_eq :: "json \<Rightarrow> pyval \<Rightarrow> bool" where
  "json_eq (JVal v) x = py_eq v x"
| "json_eq _ x = False"

text \<open>The attributes of the object. What is set in some cases only is an option.\<close>

record network_provider = provider +
  p_unmanaged :: pyval
  p_plugin_type :: pyval
  p_read_only :: pyval
  keystone_username :: pyval
  keystone_password :: pyval
  api_keystone_token :: json
  api_url :: "string option"
  keystone_tokens_url :: "string option"
  agent_fields :: "(string \<times> pyval) list"
  agent_configuration :: pyval

text \<open>
  The session of \<open>requests\<close>: a method, an address, a payload and the headers give an answer, or None for a
  \<open>ConnectionError\<close>. An answer has a code, a text, and the payload if the text is JSON. \<open>show_json\<close> prints
  a payload. \<open>frames_left\<close> is how many calls of the two methods that call each other below the recursion
  limit of the interpreter still admits when one of them is called from outside.
\<close>

record answer =
  status_code :: int
  answer_text :: string
  answer_json :: "json option"

record 'w service =
  serve :: "string \<Rightarrow> string \<Rightarrow> json option \<Rightarrow> (string \<times> json) list option \<Rightarrow> ('w rest_st, answer option) comp"
  show_json :: "json \<Rightarrow> string"
  frames_left :: nat

definition token_expired_msg :: string where
  "token_expired_msg = ''The provided authorization grant for the auth code has expired''"

definition valid_return_codes :: "int list" where "valid_return_codes = [200, 201]"

text \<open>An answer is true below 400.\<close>

definition parse_answer :: "string \<Rightarrow> answer \<Rightarrow> int option \<times> json" where
  "parse_answer request r =
     (if request \<noteq> ''delete'' \<and> status_code r < 400 then
        (case answer_json r of None \<Rightarrow> (None, JVal PNone) | Some j \<Rightarrow> (Some (status_code r), j))
      else (Some (status_code r), JVal (PStr [])))"

definition token_header :: "network_provider \<Rightarrow> (string \<times> json) list option" where
  "token_header p = (if json_truthy (api_keystone_token p) then Some [(''X-Auth-Token'', api_keystone_token p)] else None)"

definition send_request :: "'w service \<Rightarrow> string \<Rightarrow> string \<Rightarrow> json option \<Rightarrow> (network_provider, 'w, answer option) on_object" where
  "send_request K request url payload =
     bindE (self id) (\<lambda>p.
     if api_url p = None then raise AttributeError else engine (serve K request url payload (token_header p)))"

definition is_expired :: "answer \<Rightarrow> bool" where
  "is_expired r \<longleftrightarrow> contains (answer_text r) token_expired_msg"

definition credentials :: "network_provider \<Rightarrow> json" where
  "credentials p =
     JDict [(''auth'', JDict [(''passwordCredentials'',
       JDict [(''username'', JVal (keystone_username p)), (''password'', JVal (keystone_password p))])])]"

text \<open>What is done with the answer to the request for a token. An empty one is stored, too.\<close>

definition token_of :: "json \<Rightarrow> exn + json" where
  "token_of response =
     res_bind (json_get response ''access'' (JDict [])) (\<lambda>a.
     res_bind (json_get a ''token'' (JDict [])) (\<lambda>t. json_get t ''id'' (JVal (PStr []))))"

definition take_token :: "int option \<times> json \<Rightarrow> (network_provider, 'w, unit) on_object" where
  "take_token = (\<lambda>(code, response).
     if code \<notin> Some ` set valid_return_codes then raise APITokenError
     else
       bindE (lift_res (token_of response)) (\<lambda>t.
       bindE (set_self (\<lambda>p. p\<lparr>api_keystone_token := t\<rparr>)) (\<lambda>_.
       if json_truthy t then ret () else raise APITokenError)))"

text \<open>
  A request that is answered with an expired token asks for a new one, by a request like any other, and is
  sent again. Both are calls of Python, one inside the other: \<open>d\<close> counts the calls that are left before
  the limit of the interpreter, which a call past it meets with a \<open>RuntimeError\<close>.
\<close>

fun api_request ::
    "'w service \<Rightarrow> nat \<Rightarrow> string \<Rightarrow> string \<Rightarrow> json option \<Rightarrow> (network_provider, 'w, int option \<times> json) on_object"
  and request_keystone_token :: "'w service \<Rightarrow> nat \<Rightarrow> (network_provider, 'w, unit) on_object" where
  "api_request K 0 request url payload = raise RuntimeError"
| "api_request K (Suc d) request url payload =
     bindE (send_request K request url payload) (\<lambda>answer.
     case answer of
       None \<Rightarrow> ret (None, JVal PNone)
     | Some r \<Rightarrow>
         if \<not> is_expired r then ret (parse_answer request r)
         else bindE (request_keystone_token K d) (\<lambda>_. api_request K d request url payload))"
| "request_keystone_token K 0 = raise RuntimeError"
| "request_keystone_token K (Suc d) =
     bindE (self id) (\<lambda>p.
     case keystone_tokens_url p of
       None \<Rightarrow> raise AttributeError
     | Some turl \<Rightarrow> bindE (api_request K d ''post'' turl (Some (credentials p))) take_token)"

section \<open>Making a provider\<close>

text \<open>
  The class gets the name \<open>OpenStackNetworkProvider\<close> while it runs. The token is asked for at once, and
  without an address of the service the session is missing.
\<close>

definition kw_or :: "(string, pyval) dict \<Rightarrow> string \<Rightarrow> pyval \<Rightarrow> pyval" where
  "kw_or kw k v = (case map_of kw k of None \<Rightarrow> v | Some x \<Rightarrow> x)"

definition network_fields :: "(string, pyval) dict \<Rightarrow> provider \<Rightarrow> network_provider" where
  "network_fields kw p =
     provider.extend (p\<lparr>p_requires_authentication := kw_or kw ''requires_authentication'' (PBool True)\<rparr>)
       (network_provider.fields (kw_or kw ''unmanaged'' (PBool False)) (kw_or kw ''plugin_type'' (PStr ''OVIRT_PROVIDER_OVN''))
          (kw_or kw ''read_only'' (PBool True)) (kwget kw ''keystone_username'') (kwget kw ''keystone_password'') (JVal PNone)
          (if kw_truthy kw ''api_url'' then Some (py_str (kwget kw ''api_url'')) else None)
          (if kw_truthy kw ''keystone_url'' \<and> kw_truthy kw ''keystone_username'' \<and> kw_truthy kw ''keystone_password''
           then Some (py_str (kwget kw ''keystone_url'') @ ''/tokens'') else None)
          [] PNone)"

definition new_external_provider ::
  "'w service \<Rightarrow> 'w apis \<Rightarrow> string \<Rightarrow> (string, pyval) dict \<Rightarrow> ('w rest_st, network_provider) comp" where
  "new_external_provider K A element kw s =
     (case new_provider A ''OpenStackNetworkProvider'' element kw (network_fields kw) s of
        (Inl e, p, s1) \<Rightarrow> (Inl e, s1)
      | (Inr _, p, s1) \<Rightarrow>
          if keystone_tokens_url p = None then (Inr p, s1)
          else
            (case request_keystone_token K (frames_left K) (p, s1) of
               (Inl e, _, s2) \<Rightarrow> (Inl e, s2)
             | (Inr _, p2, s2) \<Rightarrow> (Inr p2, s2)))"

definition ExternalNetworkProvider ::
  "'w service \<Rightarrow> 'w apis \<Rightarrow> (string, pyval) dict \<Rightarrow> ('w rest_st, network_provider) comp" where
  "ExternalNetworkProvider K A kw =
     new_external_provider K A
       (if kw_truthy kw ''provider_api_element_name'' then py_str (kwget kw ''provider_api_element_name'') else ''external_network_provider'') kw"

text \<open>
  \<open>plugin_type\<close> is set before the constructor of the parent class, which sets it to its own default. The
  names of the agent's fields are those of its data structure.
\<close>

definition OpenStackNetworkProvider ::
  "'w service \<Rightarrow> 'w apis \<Rightarrow> (string, pyval) dict \<Rightarrow> ('w rest_st, network_provider) comp" where
  "OpenStackNetworkProvider K A kw =
     bindE (new_external_provider K A ''openstack_network_provider''
             ([(k, kwget kw k). k \<leftarrow> [''name'', ''url'', ''username'', ''password'', ''tenant_name'', ''requires_authentication'', ''authentication_url'']] @
              [(''read_only'', kw_or kw ''read_only'' (PBool True))])) (\<lambda>p.
     ret (p\<lparr>agent_fields :=
            [(''network_mappings'', kwget kw ''network_mapping''), (''broker_type'', kwget kw ''broker_type''),
             (''port'', kwget kw ''agent_port''), (''address'', kwget kw ''agent_address''),
             (''username'', kwget kw ''agent_user''), (''password'', kwget kw ''agent_password'')]\<rparr>))"

definition external_init :: "'w apis \<Rightarrow> (network_provider, 'w, unit) on_object" where
  "external_init A =
     bindE (provider_init A) (\<lambda>_. set_self (\<lambda>p. p\<lparr>osp_obj :=
       set_fields [(''type_'', PStr ''external''), (''read_only'', p_read_only p), (''unmanaged'', p_unmanaged p),
                   (''external_plugin_type'', p_plugin_type p)] (osp_obj p)\<rparr>))"

definition prepare_agent_configuration :: "'w apis \<Rightarrow> (network_provider, 'w, unit) on_object" where
  "prepare_agent_configuration A =
     bindE (self agent_fields) (\<lambda>fs.
     bindE (lift_res (prepare_ds_object (new_object A) ''AgentConfiguration'' fs)) (\<lambda>x. set_self (\<lambda>p. p\<lparr>agent_configuration := x\<rparr>)))"

definition openstack_init :: "'w apis \<Rightarrow> (network_provider, 'w, unit) on_object" where
  "openstack_init A =
     bindE (external_init A) (\<lambda>_.
     bindE (set_self (\<lambda>p. p\<lparr>osp_obj := setattr (osp_obj p) ''type_'' (PStr ''neutron'')\<rparr>)) (\<lambda>_.
     bindE (prepare_agent_configuration A) (\<lambda>_.
     set_self (\<lambda>p. p\<lparr>osp_obj :=
       set_fields [(''agent_configuration'', agent_configuration p), (''plugin_type'', p_plugin_type p), (''read_only'', p_read_only p)] (osp_obj p)\<rparr>))))"

definition external_add :: "'w apis \<Rightarrow> (network_provider, 'w, bool) on_object" where
  "external_add A = provider_add A (external_init A)"

definition openstack_add :: "'w apis \<Rightarrow> (network_provider, 'w, bool) on_object" where
  "openstack_add A = provider_add A (openstack_init A)"

section \<open>Networks of the provider, by the engine\<close>

definition provider_all_networks :: "'w apis \<Rightarrow> (network_provider, 'w, pyval) on_object" where
  "provider_all_networks A =
     bindE (self id) (\<lambda>p.
     bindE (lift_res (getattr (osp_obj p) ''name'')) (\<lambda>_.
     bindE (lift_res (getattr (osp_obj p) ''href'')) (\<lambda>h.
     bindE (engine (rest_get (provider_api A p) (Some (py_str h @ ''/networks'')) get_default)) (\<lambda>c.
     lift_res (getattr c ''openstack_network'')))))"

definition get_network :: "'w apis \<Rightarrow> string \<Rightarrow> (network_provider, 'w, pyval) on_object" where
  "get_network A network =
     bindE (self osp_obj) (\<lambda>x.
     bindE (lift_res (getattr x ''name'')) (\<lambda>_.
     bindE (provider_all_networks A) (\<lambda>v.
     bindE (lift_res (res_bind (py_iter v) (filter_res (name_is (PStr network))))) (\<lambda>nets.
     ret (case nets of [] \<Rightarrow> PNone | n # _ \<Rightarrow> n)))))"

definition import_network :: "'w apis \<Rightarrow> string \<Rightarrow> string \<Rightarrow> string option \<Rightarrow> (network_provider, 'w, bool) on_object" where
  "import_network A network datacenter cluster =
     bindE (get_network A network) (\<lambda>net.
     if \<not> truthy net then ret False
     else
       bindE (engine (get_data_center A (PStr datacenter) ''name'')) (\<lambda>dc.
       if \<not> truthy dc then ret False
       else
         bindE (self id) (\<lambda>p.
         bindE (engine (syncAction (provider_api A p) net ''import'' True (action_default\<lparr>aa_params := [(''data_center'', dc)]\<rparr>))) (\<lambda>r.
         if \<not> truthy r then ret False
         else
           case cluster of
             None \<Rightarrow> ret True
           | Some c \<Rightarrow>
               if c = [] then ret True
               else engine (add_network_to_cluster A True network c [(''required'', PBool False)])))))"

definition provider_test_connection :: "'w apis \<Rightarrow> (network_provider, 'w, bool) on_object" where
  "provider_test_connection A =
     bindE (self id) (\<lambda>p.
     bindE (engine (syncAction (provider_api A p) (osp_obj p) ''testconnectivity'' True action_default)) (\<lambda>r. ret (truthy r)))"

section \<open>Networks of the provider, by its service\<close>

text \<open>\<open>api_url_networks\<close> and \<open>api_url_subnets\<close>, which a provider without an address does not have.\<close>

definition service_url :: "string \<Rightarrow> (network_provider, 'w, string) on_object" where
  "service_url what = bindE (self api_url) (\<lambda>u. case u of None \<Rightarrow> raise AttributeError | Some a \<Rightarrow> ret (a @ ''/'' @ what))"

definition call_service ::
  "'w service \<Rightarrow> string \<Rightarrow> string \<Rightarrow> string \<Rightarrow> json option \<Rightarrow> (network_provider, 'w, int option \<times> json) on_object" where
  "call_service K request what tail payload =
     bindE (service_url what) (\<lambda>u. api_request K (frames_left K) request (u @ tail) payload)"

definition list_of_service :: "'w service \<Rightarrow> string \<Rightarrow> (network_provider, 'w, json) on_object" where
  "list_of_service K what =
     bindE (call_service K ''get'' what [] None) (\<lambda>(code, response).
     if code \<noteq> Some 200 then ret (JList []) else lift_res (json_get response what (JList [])))"

definition get_networks_list_from_provider_server :: "'w service \<Rightarrow> (network_provider, 'w, json) on_object" where
  "get_networks_list_from_provider_server K = list_of_service K ''networks''"

text \<open>\<open>[s.get("id") for s in l if s.get(prop) == v]\<close>, and its first item or the empty text.\<close>

fun ids_with :: "string \<Rightarrow> pyval \<Rightarrow> json list \<Rightarrow> exn + json list" where
  "ids_with prop v [] = Inr []"
| "ids_with prop v (x # xs) =
     res_bind (json_get x prop (JVal PNone)) (\<lambda>y.
     if json_eq y v then
       res_bind (json_get x ''id'' (JVal PNone)) (\<lambda>i. res_bind (ids_with prop v xs) (\<lambda>is. Inr (i # is)))
     else ids_with prop v xs)"

definition first_id :: "string \<Rightarrow> pyval \<Rightarrow> json \<Rightarrow> exn + json" where
  "first_id prop v l =
     res_bind (json_iter l) (\<lambda>xs. res_bind (ids_with prop v xs) (\<lambda>is. Inr (case is of [] \<Rightarrow> JVal (PStr []) | i # _ \<Rightarrow> i)))"

definition provider_network_id :: "'w service \<Rightarrow> pyval \<Rightarrow> (network_provider, 'w, json) on_object" where
  "provider_network_id K network_name =
     bindE (get_networks_list_from_provider_server K) (\<lambda>l. lift_res (first_id ''name'' network_name l))"

definition get_subnets_list :: "'w service \<Rightarrow> (network_provider, 'w, json) on_object" where
  "get_subnets_list K = list_of_service K ''subnets''"

definition provider_subnet_id :: "'w service \<Rightarrow> pyval \<Rightarrow> pyval \<Rightarrow> (network_provider, 'w, json) on_object" where
  "provider_subnet_id K network_id subnet_name =
     bindE (get_subnets_list K) (\<lambda>l.
     if \<not> json_truthy l then ret (JVal (PStr []))
     else if truthy network_id then lift_res (first_id ''network_id'' network_id l)
     else lift_res (first_id ''name'' subnet_name l))"

definition create_subnet :: "'w service \<Rightarrow> json \<Rightarrow> (network_provider, 'w, json) on_object" where
  "create_subnet K subnet =
     bindE (call_service K ''post'' ''subnets'' [] (Some (JDict [(''subnet'', subnet)]))) (\<lambda>(code, response).
     if code \<notin> Some ` set valid_return_codes then ret (JVal (PStr []))
     else lift_res (res_bind (json_get response ''subnet'' (JDict [])) (\<lambda>x. json_get x ''id'' (JVal (PStr [])))))"

text \<open>
  The caller's dictionary of the subnet gets the id. Whether the subnet was made is not told.
\<close>

definition made_network_id :: "json \<Rightarrow> exn + json option" where
  "made_network_id response =
     res_bind (json_in ''network'' response) (\<lambda>a.
     if \<not> a then Inr None
     else
       res_bind (json_get response ''network'' (JVal PNone)) (\<lambda>n.
       res_bind (json_in ''id'' n) (\<lambda>b.
       if \<not> b then Inr None else res_bind (json_get n ''id'' (JVal PNone)) (\<lambda>i. Inr (Some i)))))"

definition provider_add_network ::
  "'w service \<Rightarrow> string \<Rightarrow> (string, json) dict \<Rightarrow> bool \<Rightarrow> (network_provider, 'w, json) on_object" where
  "provider_add_network K network_name subnet_dict admin_state_up =
     bindE (self p_tenant_name) (\<lambda>tenant.
     bindE (call_service K ''post'' ''networks'' []
              (Some (JDict [(''network'', JDict [(''name'', JVal (PStr network_name)), (''admin_state_up'', JVal (PBool admin_state_up)),
                 (''tenant_id'', JVal tenant)])]))) (\<lambda>(code, response).
     if code \<notin> Some ` set valid_return_codes then ret (JVal (PStr []))
     else
       bindE (lift_res (made_network_id response)) (\<lambda>made.
       case made of
         None \<Rightarrow> ret (JVal (PStr []))
       | Some net_id \<Rightarrow>
           if subnet_dict = [] then ret net_id
           else bindE (create_subnet K (JDict (dict_set subnet_dict ''network_id'' net_id))) (\<lambda>_. ret net_id))))"

definition delete_in_service :: "'w service \<Rightarrow> string \<Rightarrow> json \<Rightarrow> (network_provider, 'w, bool) on_object" where
  "delete_in_service K what i =
     bindE (call_service K ''delete'' what (''/'' @ show_json K i) None) (\<lambda>(code, response). ret (code = Some 204))"

definition provider_remove_network :: "'w service \<Rightarrow> string \<Rightarrow> (network_provider, 'w, bool) on_object" where
  "provider_remove_network K network_name =
     bindE (provider_network_id K (PStr network_name)) (\<lambda>i.
     if \<not> json_truthy i then ret False else delete_in_service K ''networks'' i)"

definition remove_subnet :: "'w service \<Rightarrow> pyval \<Rightarrow> pyval \<Rightarrow> (network_provider, 'w, bool) on_object" where
  "remove_subnet K subnet_id subnet_name =
     bindE (if truthy subnet_id then ret (JVal subnet_id) else provider_subnet_id K PNone subnet_name) (\<lambda>i.
     if \<not> json_truthy i then ret False else delete_in_service K ''subnets'' i)"

section \<open>OvnProvider\<close>

text \<open>
  The client of neutron, a library. A change answers False for a \<open>BadRequest\<close>; what else it raises goes
  through. Names are plain values.
\<close>

record 'w neutron =
  list_networks :: "('w, json) comp"
  list_subnets :: "('w, json) comp"
  create_network :: "json \<Rightarrow> ('w, bool) comp"
  create_neutron_subnet :: "json \<Rightarrow> ('w, bool) comp"
  update_neutron_network :: "json \<Rightarrow> json \<Rightarrow> ('w, bool) comp"
  delete_network :: "json \<Rightarrow> ('w, bool) comp"

definition plain_name :: "(string, json) dict \<Rightarrow> pyval" where
  "plain_name d = (case map_of d ''name'' of Some (JVal v) \<Rightarrow> v | _ \<Rightarrow> PNone)"

definition ovn_get_all_networks :: "'w neutron \<Rightarrow> ('w, json) comp" where
  "ovn_get_all_networks C = bindE (list_networks C) (\<lambda>r. lift_res (json_get r ''networks'' (JVal PNone)))"

definition ovn_get_all_subnets :: "'w neutron \<Rightarrow> ('w, json) comp" where
  "ovn_get_all_subnets C = bindE (list_subnets C) (\<lambda>r. lift_res (json_get r ''subnets'' (JVal PNone)))"

definition get_id_by_name :: "pyval \<Rightarrow> json \<Rightarrow> exn + json" where
  "get_id_by_name name collection = first_id ''name'' name collection"

definition ovn_get_network_id :: "'w neutron \<Rightarrow> pyval \<Rightarrow> ('w, json) comp" where
  "ovn_get_network_id C network = bindE (ovn_get_all_networks C) (\<lambda>l. lift_res (get_id_by_name network l))"

definition ovn_get_subnet_id :: "'w neutron \<Rightarrow> pyval \<Rightarrow> ('w, json) comp" where
  "ovn_get_subnet_id C subnet = bindE (ovn_get_all_subnets C) (\<lambda>l. lift_res (get_id_by_name subnet l))"

definition ovn_add_network :: "'w neutron \<Rightarrow> (string, json) dict \<Rightarrow> ('w, json) comp" where
  "ovn_add_network C network =
     bindE (create_network C (JDict [(''network'', JDict network)])) (\<lambda>ok.
     if \<not> ok then ret (JVal (PStr [])) else ovn_get_network_id C (plain_name network))"

definition add_subnet :: "'w neutron \<Rightarrow> (string, json) dict \<Rightarrow> pyval \<Rightarrow> ('w, json) comp" where
  "add_subnet C subnet network =
     bindE (ovn_get_network_id C network) (\<lambda>network_id.
     if \<not> json_truthy network_id then ret (JVal (PStr []))
     else
       bindE (create_neutron_subnet C (JDict [(''subnet'', JDict (dict_set subnet ''network_id'' network_id))])) (\<lambda>ok.
       if \<not> ok then ret (JVal (PStr [])) else ovn_get_subnet_id C (plain_name subnet)))"

definition update_network_properties :: "'w neutron \<Rightarrow> pyval \<Rightarrow> json \<Rightarrow> ('w, bool) comp" where
  "update_network_properties C network properties =
     bindE (ovn_get_network_id C network) (\<lambda>network_id.
     if \<not> json_truthy network_id then ret False
     else update_neutron_network C network_id (JDict [(''network'', properties)]))"

definition delete_network_by_name :: "'w neutron \<Rightarrow> pyval \<Rightarrow> ('w, bool) comp" where
  "delete_network_by_name C network =
     bindE (ovn_get_network_id C network) (\<lambda>network_id.
     if \<not> json_truthy network_id then ret False else delete_network C network_id)"

section \<open>Import of a machine from another system\<close>

definition prepare_external_vm_import_object ::
  "'w apis \<Rightarrow> string \<Rightarrow> pyval \<Rightarrow> pyval \<Rightarrow> (string, pyval) dict \<Rightarrow> ('w rest_st, pyval) comp" where
  "prepare_external_vm_import_object A cluster storage_domain vm kw =
     bindE (get_cluster_object A cluster False) (\<lambda>c.
     bindE (get_storage_domain_obj A storage_domain ''name'') (\<lambda>sd.
     bindE (if kw_truthy kw ''host'' then get_host_object A (py_str (kwget kw ''host'')) ''name'' else ret PNone) (\<lambda>h.
     bindE (lift_res (construct (new_object A ''Vm'') [(''name'', vm)])) (\<lambda>v.
     bindE (lift_res (if kw_truthy kw ''driver_iso'' then construct (new_object A ''File'') [(''id'', kwget kw ''driver_iso'')] else Inr PNone)) (\<lambda>d.
     lift_res (construct (new_object A ''ExternalVmImport'')
       [(''name'', kwget kw ''name''), (''cluster'', c), (''storage_domain'', sd), (''host'', h), (''vm'', v),
        (''sparse'', kwget kw ''sparse''), (''username'', kwget kw ''user_name''), (''password'', kwget kw ''password''),
        (''provider'', kwget kw ''provider''), (''url'', kwget kw ''url''), (''drivers_iso'', d)]))))))"

definition import_vm_from_external_provider ::
  "'w apis \<Rightarrow> string \<Rightarrow> string \<Rightarrow> pyval \<Rightarrow> pyval \<Rightarrow> (string, pyval) dict \<Rightarrow> pyval \<Rightarrow> ('w rest_st, bool) comp" where
  "import_vm_from_external_provider A provider_vm_name cluster storage_domain new_vm_name kw engine_url =
     bindE (prepare_external_vm_import_object A cluster storage_domain new_vm_name
              ([(k, kwget kw k). k \<leftarrow> [''host'', ''user_name'', ''password'', ''provider'', ''url'', ''driver_iso'']] @
               [(''name'', PStr provider_vm_name), (''sparse'', kw_or kw ''sparse'' (PBool True))])) (\<lambda>x.
     bindE (rest_create (A ''external_vm_import'' ''externalvmimports'') x True
              (create_default\<lparr>ca_collection := py_str engine_url @ ''/externalvmimports'', ca_validate := Some False\<rparr>)) (\<lambda>(_, status). ret status))"

section \<open>What is shown\<close>

lemma send_request_apply:
  "api_url p \<noteq> None \<Longrightarrow> send_request K request url payload (p, s) =
     (case serve K request url payload (token_header p) s of (r, s') \<Rightarrow> (r, p, s'))"
  by (auto simp: send_request_def self_def gets_def bindE_def engine_def)

lemma take_good_token:
  assumes "code \<in> set valid_return_codes" and "token_of j = Inr (JVal (PStr g))" and "g \<noteq> []"
  shows "take_token (Some code, j) (p, s) = (Inr (), p\<lparr>api_keystone_token := JVal (PStr g)\<rparr>, s)"
  using assms by (simp add: take_token_def bindE_def lift_res_def set_self_def modify_def ret_def)

text \<open>An answer that is not expired ends the request; one that is goes on with the token and the same request.\<close>

lemma api_request_accepted:
  assumes "api_url p \<noteq> None" and "serve K request url payload (token_header p) s = (Inr (Some r), s')" and "\<not> is_expired r"
  shows "api_request K (Suc d) request url payload (p, s) = (Inr (parse_answer request r), p, s')"
  by (simp only: api_request.simps bindE_def [of "send_request K request url payload"] send_request_apply [OF assms(1)] assms(2))
    (use assms(3) in \<open>simp add: ret_def\<close>)

lemma api_request_expired:
  assumes "api_url p \<noteq> None" and "serve K request url payload (token_header p) s = (Inr (Some r), s')" and "is_expired r"
  shows "api_request K (Suc d) request url payload (p, s) =
    bindE (request_keystone_token K d) (\<lambda>_. api_request K d request url payload) (p, s')"
  by (simp only: api_request.simps bindE_def [of "send_request K request url payload"] send_request_apply [OF assms(1)] assms(2))
    (use assms(3) in simp)

lemma bind_self: "bindE (self f) g (p, s) = g (f p) (p, s)"
  by (simp add: bindE_def self_def gets_def)

lemma request_keystone_token_apply:
  "keystone_tokens_url p = Some turl \<Longrightarrow>
     request_keystone_token K (Suc d) (p, s) = bindE (api_request K d ''post'' turl (Some (credentials p))) take_token (p, s)"
  by (simp add: bind_self)

declare api_request.simps(2) [simp del] request_keystone_token.simps(2) [simp del]

text \<open>
  C37. A request whose first answer does not say expired ends with that answer. If it does, the token is asked
  for once, with the name and password of the provider, and the same request is sent once more with the new
  token \<open>g\<close> where the service issues and accepts it: the result is this second answer, the requests are
  these three in this order, and the provider keeps the new token.
\<close>

theorem expired_token_is_renewed:
  assumes "api_url p \<noteq> None" and "keystone_tokens_url p = Some turl" and "3 \<le> d"
    and first: "serve K request url payload (token_header p) s = (Inr (Some r), s1)"
    and issued: "is_expired r \<Longrightarrow> serve K ''post'' turl (Some (credentials p)) (token_header p) s1 = (Inr (Some t), s2) \<and>
      \<not> is_expired t \<and> status_code t \<in> set valid_return_codes \<and> answer_json t = Some j \<and> token_of j = Inr (JVal (PStr g)) \<and> g \<noteq> []"
    and accepted: "is_expired r \<Longrightarrow>
      serve K request url payload (Some [(''X-Auth-Token'', JVal (PStr g))]) s2 = (Inr (Some a), s3) \<and> \<not> is_expired a"
  shows "api_request K d request url payload (p, s) =
    (if is_expired r then (Inr (parse_answer request a), p\<lparr>api_keystone_token := JVal (PStr g)\<rparr>, s3)
     else (Inr (parse_answer request r), p, s1))"
proof -
  obtain e where d: "d = Suc (Suc (Suc e))" using assms(3) that [of "d - 3"] by linarith
  show ?thesis
  proof (cases "is_expired r")
    case False
    with api_request_accepted [OF assms(1) first] d show ?thesis by simp
  next
    case True
    let ?q = "p\<lparr>api_keystone_token := JVal (PStr g)\<rparr>"
    from issued [OF True] have t: "serve K ''post'' turl (Some (credentials p)) (token_header p) s1 = (Inr (Some t), s2)" "\<not> is_expired t"
      and good: "status_code t \<in> set valid_return_codes" "answer_json t = Some j" "token_of j = Inr (JVal (PStr g))" "g \<noteq> []" by auto
    have "status_code t < 400" using good(1) by (auto simp: valid_return_codes_def)
    then have "parse_answer ''post'' t = (Some (status_code t), j)" using good(2) by (simp add: parse_answer_def)
    then have "request_keystone_token K (Suc (Suc e)) (p, s1) = (Inr (), ?q, s2)"
      using api_request_accepted [OF assms(1) t] take_good_token [OF good(1,3,4)]
      by (simp only: request_keystone_token_apply [OF assms(2)] bindE_def [of _ take_token]) simp
    moreover have "api_request K (Suc (Suc e)) request url payload (?q, s2) = (Inr (parse_answer request a), ?q, s3)"
      using accepted [OF True] assms(1) good(4) by (intro api_request_accepted) (auto simp: token_header_def)
    ultimately show ?thesis
      using api_request_expired [OF assms(1) first True, of "Suc (Suc e)"] True d by (simp add: bindE_def)
  qed
qed

text \<open>
  C38. A service that says expired to every request, the request for a token among them, is asked for a token
  again and again, each time from within the request before, until the interpreter's limit: the request ends
  in a \<open>RuntimeError\<close>, the provider keeps its old token, and one request was sent for every two of the
  calls that the limit admits.
\<close>

theorem always_expired_hits_limit:
  assumes "api_url p \<noteq> None" and "keystone_tokens_url p \<noteq> None"
    and expired: "\<And>rq u b h v. \<exists>r v'. serve K rq u b h v = (Inr (Some r), v') \<and> is_expired r \<and> sent v' = Suc (sent v)"
  shows "\<exists>s'. api_request K d request url payload (p, s) = (Inl RuntimeError, p, s') \<and> sent s' = sent s + (d + 1) div 2"
proof (induction d arbitrary: request url payload s rule: induct_nat_012)
  case 0
  then show ?case by (simp add: raise_def)
next
  case 1
  from expired obtain r s1 where "serve K request url payload (token_header p) s = (Inr (Some r), s1)" "is_expired r"
    "sent s1 = Suc (sent s)" by blast
  then have "api_request K (Suc 0) request url payload (p, s) = (Inl RuntimeError, p, s1)" "sent s1 = Suc (sent s)"
    using api_request_expired [OF assms(1), of K request url payload s r s1 0] by (simp_all add: bindE_def raise_def)
  then show ?case by simp
next
  case (ge2 n)
  from assms(2) obtain turl where turl: "keystone_tokens_url p = Some turl" by blast
  from expired obtain r s1 where r: "serve K request url payload (token_header p) s = (Inr (Some r), s1)" "is_expired r"
    "sent s1 = Suc (sent s)" by blast
  from ge2(1) obtain s' where t: "api_request K n ''post'' turl (Some (credentials p)) (p, s1) = (Inl RuntimeError, p, s')"
    "sent s' = sent s1 + (n + 1) div 2" by blast
  have "request_keystone_token K (Suc n) (p, s1) = (Inl RuntimeError, p, s')"
    using t(1) by (simp only: request_keystone_token_apply [OF turl]) (simp add: bindE_def)
  then have "api_request K (Suc (Suc n)) request url payload (p, s) = (Inl RuntimeError, p, s')"
    using api_request_expired [OF assms(1) r(1,2), of "Suc n"] by (simp add: bindE_def)
  with t(2) r(3) show ?case by simp
qed

text \<open>\<open>first_id\<close> is the id of the first item that fits, when every item is a dictionary.\<close>

lemma ids_with_dicts:
  "ids_with prop v (map JDict ds) =
     Inr (map (\<lambda>d. case map_of d ''id'' of None \<Rightarrow> JVal PNone | Some i \<Rightarrow> i)
       (filter (\<lambda>d. json_eq (case map_of d prop of None \<Rightarrow> JVal PNone | Some y \<Rightarrow> y) v) ds))"
  by (induction ds) (simp_all add: res_bind_def)

text \<open>
  A network is deleted by its name only if the list of the networks has an item with this name: the
  request names the first one's id, which is not empty.
\<close>

theorem delete_network_by_name_sound:
  assumes "delete_network_by_name C network w = (Inr True, w')"
  shows "\<exists>l i u. ovn_get_all_networks C w = (Inr l, u) \<and> first_id ''name'' network l = Inr i \<and> json_truthy i \<and>
    delete_network C i u = (Inr True, w')"
  using assms
  by (auto simp: delete_network_by_name_def ovn_get_network_id_def get_id_by_name_def bindE_def lift_res_def ret_def
      split: prod.splits sum.splits if_splits)

section \<open>Witnesses\<close>

definition demo_provider :: network_provider where
  "demo_provider =
     \<lparr>p_class = ''OpenStackNetworkProvider'', p_element = ''external_network_provider'', p_name = PStr ''ovn'', p_url = PNone,
      p_requires_authentication = PBool True, p_username = PNone, p_password = PNone, p_authentication_url = PNone,
      p_tenant_name = PNone, osp_obj = PNone, p_unmanaged = PBool False, p_plugin_type = PNone, p_read_only = PBool True,
      keystone_username = PStr ''u'', keystone_password = PStr ''p'', api_keystone_token = JVal (PStr ''old''),
      api_url = Some ''a'', keystone_tokens_url = Some ''k/tokens'', agent_fields = [], agent_configuration = PNone\<rparr>"

definition issue_token :: "string \<Rightarrow> json" where
  "issue_token g = JDict [(''access'', JDict [(''token'', JDict [(''id'', JVal (PStr g))])])]"

definition count_request :: "nat rest_st \<Rightarrow> nat rest_st" where
  "count_request s = s\<lparr>api := (api s)\<lparr>server := Suc (server (api s))\<rparr>\<rparr>"

definition demo_service :: "bool \<Rightarrow> nat service" where
  "demo_service good =
     \<lparr>serve = (\<lambda>rq u b h s.
        if good \<and> u = ''k/tokens'' then
          (Inr (Some \<lparr>status_code = 200, answer_text = [], answer_json = Some (issue_token ''new'')\<rparr>), count_request s)
        else if good \<and> h = Some [(''X-Auth-Token'', JVal (PStr ''new''))] then
          (Inr (Some \<lparr>status_code = 200, answer_text = [], answer_json = Some (JDict [])\<rparr>), count_request s)
        else (Inr (Some \<lparr>status_code = 401, answer_text = token_expired_msg, answer_json = None\<rparr>), count_request s)),
      show_json = (\<lambda>j. []), frames_left = 900\<rparr>"

theorem expired_token_is_renewed_witness:
  "api_request (demo_service True) 900 ''get'' ''a/networks'' None (demo_provider, demo_rest_st) =
     (Inr (Some 200, JDict []), demo_provider\<lparr>api_keystone_token := JVal (PStr ''new'')\<rparr>,
      count_request (count_request (count_request demo_rest_st)))"
  using expired_token_is_renewed [of demo_provider "''k/tokens''" 900 "demo_service True" "''get''" "''a/networks''" None demo_rest_st
      "\<lparr>status_code = 401, answer_text = token_expired_msg, answer_json = None\<rparr>" "count_request demo_rest_st"
      "\<lparr>status_code = 200, answer_text = [], answer_json = Some (issue_token ''new'')\<rparr>" "count_request (count_request demo_rest_st)"
      "issue_token ''new''" "''new''"
      "\<lparr>status_code = 200, answer_text = [], answer_json = Some (JDict [])\<rparr>" "count_request (count_request (count_request demo_rest_st))"]
  by (simp add: demo_provider_def demo_service_def issue_token_def is_expired_def token_expired_msg_def valid_return_codes_def token_of_def
      res_bind_def token_header_def parse_answer_def)

theorem always_expired_hits_limit_witness:
  "\<exists>s'. api_request (demo_service False) 900 ''get'' ''a/networks'' None (demo_provider, demo_rest_st) = (Inl RuntimeError, demo_provider, s') \<and>
     server (api s') = server (api demo_rest_st) + 450"
  using always_expired_hits_limit [of demo_provider "demo_service False" "\<lambda>s. server (api s)" 900 "''get''" "''a/networks''" None demo_rest_st]
  by (simp add: demo_provider_def demo_service_def is_expired_def token_expired_msg_def count_request_def)

definition demo_neutron :: "nat neutron" where
  "demo_neutron =
     \<lparr>list_networks = ret (JDict [(''networks'', JList [JDict [(''name'', JVal (PStr ''net'')), (''id'', JVal (PStr ''7''))]])]),
      list_subnets = ret (JDict []), create_network = (\<lambda>_. ret True), create_neutron_subnet = (\<lambda>_. ret True),
      update_neutron_network = (\<lambda>_ _. ret True), delete_network = (\<lambda>i. ret (i = JVal (PStr ''7'')))\<rparr>"

theorem delete_network_by_name_sound_witness:
  "\<exists>l i u. ovn_get_all_networks demo_neutron 0 = (Inr l, u) \<and> first_id ''name'' (PStr ''net'') l = Inr i \<and> json_truthy i \<and>
    delete_network demo_neutron i u = (Inr True, 0)"
  by (rule delete_network_by_name_sound)
    (simp add: delete_network_by_name_def ovn_get_network_id_def ovn_get_all_networks_def get_id_by_name_def first_id_def
      demo_neutron_def bindE_def lift_res_def ret_def res_bind_def)

end
