(* ===== verification/Storage_Wrapper.thy ===== *)
theory Storage_Wrapper
  imports Network_Providers High_Storage
begin

text \<open>
  \<open>storagewrapper.py\<close>: the devices of a test run on storage servers. They are made as the
  configuration says, written into the configuration, and removed at the end.
\<close>

section \<open>The libraries\<close>

text \<open>
  A storage manager, and the other packages the module calls: managers by address and type, servers by
  load or role, names of hosts, directories on machines, and the file of the configuration. What they
  raise is a \<open>PyException\<close>. The files and the pool they are given do not change and are left out. A device
  is a path, or a LUN with its items.
\<close>

datatype device = Path string | Lun "(string, string) dict"

type_synonym conf_sections = "(string, (string, pyval) dict) dict"

record 'w manager =
  host :: pyval
  mgr_class :: string
  createDevice :: "pyval \<Rightarrow> ('w, string) comp"
  removeDevice :: "device \<Rightarrow> ('w, unit) comp"
  createLun :: "pyval \<Rightarrow> pyval \<Rightarrow> ('w, string \<times> string) comp"
  getInitiatorHostGroups :: "string \<Rightarrow> ('w, pyval list) comp"
  unmapInitiator :: "pyval \<Rightarrow> string \<Rightarrow> ('w, unit) comp"
  mapLun :: "string \<Rightarrow> pyval \<Rightarrow> string list \<Rightarrow> ('w, unit) comp"
  getLun :: "string \<Rightarrow> string option \<Rightarrow> ('w, (string, string) dict) comp"
  removeLun :: "string \<Rightarrow> ('w, unit) comp"

record 'w storage_lib =
  StorageManagerWrapper :: "pyval \<Rightarrow> string \<Rightarrow> ('w, 'w manager) comp"
  capacity_servers :: "string \<Rightarrow> ('w, pyval list) comp"
  random_servers :: "string \<Rightarrow> ('w, pyval list) comp"
  servers_by_role :: "pyval \<Rightarrow> pyval \<Rightarrow> ('w, (string, (string, pyval) dict) dict) comp"
  ip_of_host_name :: "pyval \<Rightarrow> ('w, string) comp"
  host_name_of :: "string \<Rightarrow> ('w, string) comp"
  initiator_name :: "string \<Rightarrow> pyval \<Rightarrow> ('w, string) comp"
  create_local :: "pyval \<Rightarrow> pyval \<Rightarrow> string \<Rightarrow> ('w, bool option) comp"
  remove_local :: "pyval \<Rightarrow> pyval \<Rightarrow> device \<Rightarrow> ('w, bool) comp"
  time_stamp :: "('w, string) comp"
  write_conf :: "conf_sections \<Rightarrow> ('w, unit) comp"
  dict_order :: "string list \<Rightarrow> string list"

definition MAIN_SECTION :: string where "MAIN_SECTION = ''PARAMETERS''"

definition DEV_TYPES :: "string list" where
  "DEV_TYPES = [''gluster'', ''nfs'', ''iso'', ''export'', ''iscsi'', ''fcp'', ''pnfs'']"

definition DEVICES_TARGET_PATHS :: "(string, string) dict" where
  "DEVICES_TARGET_PATHS =
     map (\<lambda>(t, k). (t, MAIN_SECTION @ ''.'' @ k))
       [(''gluster'', ''data_domain''), (''nfs'', ''data_domain''), (''pnfs'', ''data_domain''), (''export'', ''export_domain''),
        (''iso'', ''tests_iso_domain''), (''iscsi'', ''lun''), (''fcp'', ''lun''), (''local'', ''local_domain'')]"

definition POSIXFS_COMPLIANT_TYPES :: "string list" where "POSIXFS_COMPLIANT_TYPES = [''gluster'', ''nfs'', ''pnfs'']"
definition NAS_STORAGE_TYPES :: "string list" where "NAS_STORAGE_TYPES = [''gluster'', ''nfs'', ''pnfs'']"
definition SAN_STORAGE_TYPES :: "string list" where "SAN_STORAGE_TYPES = [''iscsi'', ''fcp'']"
definition ISO_EXPORT_TYPE :: string where "ISO_EXPORT_TYPE = ''iso_export_domain_nas''"

section \<open>The object\<close>

text \<open>
  The devices that are wanted at a target of the configuration, and the object. A section of local
  directories has no \<open>total\<close>. The eight dictionaries of devices made are one, by their types.
\<close>

record share =
  s_ip :: pyval
  s_total :: "int option"
  s_capacity :: pyval
  s_is_specific :: bool
  s_password :: pyval
  s_paths :: "pyval list"

record 'w storage_utils =
  st_config :: conf_sections
  st_sections :: conf_sections
  st_host_group :: pyval
  st_roles :: "(string, (string, pyval) dict) dict"
  st_type :: string
  st_real_type :: string
  load_balancing :: pyval
  storages :: "(string, (string, share) dict) dict"
  devices :: "(string, (string, device list) dict) dict"
  storageServers :: "(string, 'w manager option) dict"
  vdsData :: "(string, string) dict"

type_synonym ('w, 'a) wr = "('w storage_utils \<times> 'w, 'a) comp"

definition outer :: "('w, 'a) comp \<Rightarrow> ('w, 'a) wr" where
  "outer m = (\<lambda>(p, w). case m w of (r, w') \<Rightarrow> (r, (p, w')))"

definition this :: "('w storage_utils \<Rightarrow> 'a) \<Rightarrow> ('w, 'a) wr" where
  "this f = gets (\<lambda>(p, w). f p)"

definition this_res :: "('w storage_utils \<Rightarrow> exn + 'a) \<Rightarrow> ('w, 'a) wr" where
  "this_res f = bindE (this f) lift_res"

definition set_this :: "('w storage_utils \<Rightarrow> 'w storage_utils) \<Rightarrow> ('w, unit) wr" where
  "set_this u = modify (\<lambda>(p, w). (u p, w))"

definition share_total :: "share \<Rightarrow> exn + int" where
  "share_total s = (case s_total s of None \<Rightarrow> Inl KeyError | Some n \<Rightarrow> Inr n)"

definition devices_of :: "'w storage_utils \<Rightarrow> string \<Rightarrow> (string, device list) dict" where
  "devices_of p ty = (case map_of (devices p) ty of None \<Rightarrow> [] | Some d \<Rightarrow> d)"

definition set_devices :: "string \<Rightarrow> string \<Rightarrow> device list \<Rightarrow> ('w, unit) wr" where
  "set_devices ty target ds =
     set_this (\<lambda>p. p\<lparr>devices := dict_set (devices p) ty (dict_set (devices_of p ty) target ds)\<rparr>)"

section \<open>Storage servers\<close>

text \<open>The loop of \<open>createStorageManager\<close> returns or raises in its first round; without addresses it answers None.\<close>

definition createStorageManager :: "'w storage_lib \<Rightarrow> pyval list \<Rightarrow> string \<Rightarrow> ('w, 'w manager option) wr" where
  "createStorageManager L ips ty =
     (case ips of
        [] \<Rightarrow> ret None
      | a # _ \<Rightarrow> bindE (outer (StorageManagerWrapper L a (upper ty))) (\<lambda>M. ret (Some M)))"

definition getStorageServer :: "'w storage_lib \<Rightarrow> string \<Rightarrow> pyval \<Rightarrow> ('w, pyval list) wr" where
  "getStorageServer L ty balancing =
     try_except
       (if balancing = PStr ''capacity'' then outer (capacity_servers L ty)
        else if balancing = PStr ''random'' then outer (random_servers L ty)
        else raise PyException)
       PyException (\<lambda>_. raise PyException)"

definition main_value :: "'w storage_utils \<Rightarrow> string \<Rightarrow> exn + pyval" where
  "main_value p k = res_bind (dict_getitem (st_config p) MAIN_SECTION) (\<lambda>m. dict_getitem m k)"

definition iso_fs :: "'w storage_utils \<Rightarrow> exn + string" where
  "iso_fs p = res_bind (main_value p ISO_EXPORT_TYPE) (\<lambda>v. Inr (py_str v))"

text \<open>The decorator \<open>getStorageServers\<close>: which type of server a set-up needs, and for which types of devices.\<close>

definition wanted_types :: "'w storage_utils \<Rightarrow> string \<Rightarrow> string \<Rightarrow> exn + (string \<times> string list)" where
  "wanted_types p storageType arg =
     (if storageType = ISO_EXPORT_TYPE then res_bind (iso_fs p) (\<lambda>s. Inr (s, [''iso'', ''export'']))
      else if storageType = ''none'' then Inr (arg, [arg])
      else Inr (storageType, [storageType]))"

definition devices_wanted :: "'w storage_utils \<Rightarrow> string \<Rightarrow> string \<Rightarrow> exn + bool" where
  "devices_wanted p stype target =
     res_bind (dict_getitem (storages p) stype) (\<lambda>d.
     if d = [] then Inr False
     else res_bind (dict_getitem d target) (\<lambda>s. res_bind (share_total s) (\<lambda>n. Inr (0 < n))))"

definition take_server :: "'w storage_lib \<Rightarrow> string \<Rightarrow> ('w, unit) wr" where
  "take_server L stype =
     bindE (this id) (\<lambda>p.
     if stype \<in> set (dict_keys (storageServers p)) then ret ()
     else
       bindE (getStorageServer L stype (load_balancing p)) (\<lambda>servers.
       bindE (createStorageManager L servers stype) (\<lambda>M.
       set_this (\<lambda>p. p\<lparr>storageServers := dict_set (storageServers p) stype M\<rparr>))))"

definition set_ips_of :: "string \<Rightarrow> string \<Rightarrow> ('w, unit) wr" where
  "set_ips_of stype ty =
     bindE (this id) (\<lambda>p.
     bindE (lift_res (dict_getitem (storages p) ty)) (\<lambda>d.
     if d = [] then ret ()
     else
       bindE (lift_res (dict_getitem (storageServers p) stype)) (\<lambda>m.
       case m of
         None \<Rightarrow> raise AttributeError
       | Some M \<Rightarrow> set_this (\<lambda>p. p\<lparr>storages := dict_set (storages p) ty (map (\<lambda>(k, s). (k, s\<lparr>s_ip := host M\<rparr>)) d)\<rparr>))))"

definition with_servers :: "'w storage_lib \<Rightarrow> string \<Rightarrow> string \<Rightarrow> ('w, unit) wr \<Rightarrow> ('w, unit) wr" where
  "with_servers L storageType arg f =
     bindE (this id) (\<lambda>p.
     if \<not> truthy (load_balancing p) then f
     else
       bindE (lift_res (wanted_types p storageType arg)) (\<lambda>(stype, dtypes).
       bindE (lift_res (dict_getitem DEVICES_TARGET_PATHS stype)) (\<lambda>target.
       bindE (lift_res (devices_wanted p stype target)) (\<lambda>wanted.
       bindE (if wanted then bindE (take_server L stype) (\<lambda>_. for_each dtypes (\<lambda>t _. set_ips_of stype t) ()) else ret ()) (\<lambda>_.
       bindE (this storageServers) (\<lambda>servers.
       if stype \<in> set (dict_keys servers) then f else ret ()))))))"

definition getStorageManager :: "'w storage_lib \<Rightarrow> string \<Rightarrow> pyval \<Rightarrow> ('w, 'w manager) wr" where
  "getStorageManager L ty a =
     bindE (this storageServers) (\<lambda>servers.
     bindE (if ty \<in> set (dict_keys servers) then ret ()
            else bindE (createStorageManager L [a] (upper ty)) (\<lambda>M.
                 set_this (\<lambda>p. p\<lparr>storageServers := dict_set (storageServers p) ty M\<rparr>))) (\<lambda>_.
     bindE (this_res (\<lambda>p. dict_getitem (storageServers p) ty)) (\<lambda>m.
     case m of None \<Rightarrow> raise AttributeError | Some M \<Rightarrow> ret M)))"

section \<open>Reading the configuration\<close>

definition getFromMainConfSection :: "conf_sections \<Rightarrow> string \<Rightarrow> string \<Rightarrow> bool \<Rightarrow> exn + pyval" where
  "getFromMainConfSection conf key mainSection aslist =
     res_bind (dict_getitem conf mainSection) (\<lambda>sec.
     if aslist then res_bind (as_list sec key) (\<lambda>l. Inr (PList l)) else Inr (kwget sec key))"

definition getDeviceTargetPath :: "string \<Rightarrow> string \<Rightarrow> exn + string" where
  "getDeviceTargetPath targetPath ty = (if targetPath \<noteq> [] then Inr targetPath else dict_getitem DEVICES_TARGET_PATHS ty)"

text \<open>The name of the host group: the first part of the host's name, which is looked up for an address.\<close>

definition is_digits :: "string \<Rightarrow> bool" where
  "is_digits s \<longleftrightarrow> s \<noteq> [] \<and> list_all (\<lambda>c. CHR ''0'' \<le> c \<and> c \<le> CHR ''9'') s"

definition is_address :: "string \<Rightarrow> bool" where
  "is_address vdc \<longleftrightarrow> contains vdc ''localhost'' \<or> (List.length (split_on vdc ''.'') = 4 \<and> list_all is_digits (split_on vdc ''.''))"

definition createHostGroupName :: "'w storage_lib \<Rightarrow> pyval \<Rightarrow> ('w, pyval) wr" where
  "createHostGroupName L vdc =
     try_except
       (bindE (lift_res (as_string vdc)) (\<lambda>v.
        bindE (if is_address v then outer (host_name_of L v) else ret v) (\<lambda>n. ret (PStr (hd (split_on n ''.''))))))
       PyException (\<lambda>_. raise PyException)"

definition update_storage_roles :: "'w storage_lib \<Rightarrow> (string, pyval) dict \<Rightarrow> ('w, unit) wr" where
  "update_storage_roles L sec =
     (let role = kwget sec ''storage_role'' in
      if \<not> truthy role then ret ()
      else
        bindE (this_res (\<lambda>p. dict_getitem (st_config p) ''DEFAULT'')) (\<lambda>c.
        bindE (outer (servers_by_role L (kwget c ''STORAGE_API_CONF'') role)) (\<lambda>d.
        if d = [] then ret () else set_this (\<lambda>p. p\<lparr>st_roles := dict_update (st_roles p) d\<rparr>))))"

definition server_of_section :: "'w storage_utils \<Rightarrow> (string, pyval) dict \<Rightarrow> string \<Rightarrow> exn + pyval" where
  "server_of_section p sec dev_type =
     (let srv = kwget sec (dev_type @ ''_server''); role = kwget sec ''storage_role'' in
      if srv = PNone \<and> truthy role \<and> kwget sec ''storage_type'' = PStr dev_type then
        res_bind (dict_getitem (st_roles p) (py_str role)) (\<lambda>d. dict_getitem d ''ip'')
      else Inr srv)"

definition set_share :: "string \<Rightarrow> string \<Rightarrow> share \<Rightarrow> ('w, unit) wr" where
  "set_share ty target sh =
     bindE (this_res (\<lambda>p. dict_getitem (storages p) ty)) (\<lambda>d.
     set_this (\<lambda>p. p\<lparr>storages := dict_set (storages p) ty (dict_set d target sh)\<rparr>))"

definition get_conf_of_type :: "'w storage_lib \<Rightarrow> (string, pyval) dict \<Rightarrow> string \<Rightarrow> string \<Rightarrow> ('w, unit) wr" where
  "get_conf_of_type L sec targetPath dev_type =
     bindE (this_res (\<lambda>p. server_of_section p sec dev_type)) (\<lambda>srv.
     bindE (lift_res (getDeviceTargetPath targetPath dev_type)) (\<lambda>target.
     bindE (if truthy srv then bindE (outer (ip_of_host_name L srv)) (\<lambda>a. ret (PStr a)) else ret PNone) (\<lambda>storage_ip.
     bindE (lift_res (py_int (kw_or sec (dev_type @ ''_devices'') (PStr ''0'')))) (\<lambda>total_devices.
     bindE (this load_balancing) (\<lambda>b.
     if (truthy storage_ip \<or> b \<in> {PStr ''capacity'', PStr ''random''}) \<and> 0 < total_devices then
       set_share dev_type target
         \<lparr>s_ip = storage_ip, s_total = Some total_devices,
          s_capacity = (if dev_type \<in> set SAN_STORAGE_TYPES then kw_or sec ''devices_capacity'' (PStr ''0'') else PNone),
          s_is_specific = False, s_password = PNone, s_paths = []\<rparr>
     else ret ())))))"

definition getStorageConfData :: "'w storage_lib \<Rightarrow> (string, pyval) dict \<Rightarrow> string \<Rightarrow> pyval \<Rightarrow> string \<Rightarrow> ('w, unit) wr" where
  "getStorageConfData L sec vds vdsPassw targetPath =
     bindE (update_storage_roles L sec) (\<lambda>_.
     bindE (for_each DEV_TYPES (\<lambda>t _. get_conf_of_type L sec targetPath t) ()) (\<lambda>_.
     if \<not> truthy (kwget sec ''local_devices'') then ret ()
     else
       bindE (lift_res (getDeviceTargetPath targetPath ''local'')) (\<lambda>target.
       bindE (lift_res (as_list sec ''local_devices'')) (\<lambda>paths.
       set_share ''local'' target
         \<lparr>s_ip = kw_or sec ''local_server'' (PStr vds), s_total = None, s_capacity = PNone, s_is_specific = False,
          s_password = kw_or sec ''password'' vdsPassw, s_paths = paths\<rparr>))))"

text \<open>\<open>__init__\<close>: \<open>storage_type\<close> with its part after \<open>posixfs_\<close>, and the passwords as many as the hosts.\<close>

definition read_storage_type :: "pyval \<Rightarrow> exn + (string \<times> string)" where
  "read_storage_type v =
     (let t0 = py_str v; t = (if t0 = ''glusterfs'' then ''gluster'' else t0) in
      if contains t ''posixfs_'' then
        (case split_on t ''_'' of [a, b] \<Rightarrow> Inr (a, b) | _ \<Rightarrow> Inl ValueError)
      else Inr (t, ''mixed''))"

definition read_balancing :: "(string, pyval) dict \<Rightarrow> pyval" where
  "read_balancing sec =
     (let b = kw_or sec ''devices_load_balancing'' (PBool False) in
      if b \<in> {PStr ''no'', PStr ''false''} then PBool False else b)"

definition pad_passwords :: "string list \<Rightarrow> pyval list \<Rightarrow> exn + pyval list" where
  "pad_passwords hosts pws =
     (if List.length pws < List.length hosts then
        res_bind (first_of (PList pws)) (\<lambda>x. Inr (pws @ replicate (List.length hosts - List.length pws) x))
      else Inr pws)"

definition new_wrapper :: "conf_sections \<Rightarrow> conf_sections \<Rightarrow> (string, pyval) dict \<Rightarrow> string \<times> string \<Rightarrow> 'w storage_utils" where
  "new_wrapper conf secs storage kinds =
     \<lparr>st_config = conf, st_sections = secs, st_host_group = kwget storage ''host_group'', st_roles = [], st_type = fst kinds,
      st_real_type = snd kinds, load_balancing = read_balancing storage,
      storages = map (\<lambda>t. (t, [])) [''gluster'', ''nfs'', ''iscsi'', ''fcp'', ''local'', ''iso'', ''export'', ''pnfs''],
      devices = [], storageServers = [], vdsData = []\<rparr>"

definition read_initiator :: "'w storage_lib \<Rightarrow> string \<times> pyval \<Rightarrow> ('w, unit) wr" where
  "read_initiator L = (\<lambda>(vds, pw).
     bindE (outer (initiator_name L vds pw)) (\<lambda>i. set_this (\<lambda>p. p\<lparr>vdsData := dict_set (vdsData p) vds i\<rparr>)))"

definition init_wrapper :: "'w storage_lib \<Rightarrow> conf_sections \<Rightarrow> (string, pyval) dict \<Rightarrow> conf_sections \<Rightarrow> ('w, unit) wr" where
  "init_wrapper L conf storage secs =
     bindE (lift_res (getFromMainConfSection conf ''vds'' MAIN_SECTION True)) (\<lambda>vds.
     bindE (lift_res (py_iter vds)) (\<lambda>names.
     bindE (map_comp (\<lambda>n. outer (ip_of_host_name L n)) names) (\<lambda>servers.
     bindE (lift_res (res_bind (getFromMainConfSection conf ''vds_password'' MAIN_SECTION True) py_iter)) (\<lambda>pws0.
     bindE (lift_res (pad_passwords servers pws0)) (\<lambda>pws.
     bindE (this st_type) (\<lambda>t.
     bindE (if t \<in> set SAN_STORAGE_TYPES \<or> t = ''none'' then for_each (zip servers pws) (\<lambda>x _. read_initiator L x) () else ret ()) (\<lambda>_.
     bindE (lift_res (case (servers, pws) of (v # _, w # _) \<Rightarrow> Inr (v, w) | _ \<Rightarrow> Inl IndexError)) (\<lambda>(vds0, pw0).
     bindE (getStorageConfData L storage vds0 pw0 []) (\<lambda>_.
     bindE (for_each secs (\<lambda>(k, sec) _. getStorageConfData L sec vds0 pw0 k) ()) (\<lambda>_.
     bindE (this st_host_group) (\<lambda>g.
     if truthy g then ret ()
     else
       bindE (lift_res (getFromMainConfSection conf ''host'' ''REST_CONNECTION'' False)) (\<lambda>h.
       bindE (createHostGroupName L h) (\<lambda>n. set_this (\<lambda>p. p\<lparr>st_host_group := n\<rparr>))))))))))))))"

definition StorageUtils :: "'w storage_lib \<Rightarrow> conf_sections \<Rightarrow> conf_sections \<Rightarrow> ('w, 'w storage_utils) comp" where
  "StorageUtils L conf secs w =
     (case res_bind (dict_getitem conf ''STORAGE'') (\<lambda>storage.
           res_bind (getFromMainConfSection conf ''storage_type'' MAIN_SECTION False) (\<lambda>v.
           res_bind (read_storage_type v) (\<lambda>kinds. Inr (storage, new_wrapper conf secs storage kinds)))) of
        Inl e \<Rightarrow> (Inl e, w)
      | Inr (storage, p) \<Rightarrow>
          (case init_wrapper L conf storage secs (p, w) of
             (Inl e, (_, w')) \<Rightarrow> (Inl e, w')
           | (Inr _, (q, w')) \<Rightarrow> (Inr q, w')))"

section \<open>Making and removing one device\<close>

definition create_nas_device :: "'w storage_lib \<Rightarrow> pyval \<Rightarrow> pyval \<Rightarrow> string \<Rightarrow> ('w, device) wr" where
  "create_nas_device L storageServerIp deviceName fsType =
     bindE (getStorageManager L fsType storageServerIp) (\<lambda>M.
     bindE (outer (createDevice M deviceName)) (\<lambda>path. ret (Path path)))"

text \<open>Whether the LUNs of a manager are specific is noted in the section, as soon as the LUN is made.\<close>

definition specific_class :: "string \<Rightarrow> bool" where
  "specific_class c \<longleftrightarrow> startswith (lower c) ''netapp'' \<or> startswith (lower c) ''xtreamio''"

definition set_specific :: "string \<Rightarrow> string \<Rightarrow> bool \<Rightarrow> ('w, unit) wr" where
  "set_specific stype target b =
     bindE (this_res (\<lambda>p. dict_getitem (storages p) stype)) (\<lambda>d.
     bindE (lift_res (dict_getitem d target)) (\<lambda>sh.
     set_this (\<lambda>p. p\<lparr>storages := dict_set (storages p) stype (dict_set d target (sh\<lparr>s_is_specific := b\<rparr>))\<rparr>)))"

definition unmap_other_groups :: "'w manager \<Rightarrow> pyval \<Rightarrow> string \<Rightarrow> ('w, unit) wr" where
  "unmap_other_groups M lunName initiator =
     bindE (outer (getInitiatorHostGroups M initiator)) (\<lambda>hgs.
     for_each (filter (\<lambda>hg. hg \<noteq> lunName) hgs) (\<lambda>hg _. outer (unmapInitiator M hg initiator)) ())"

definition initiators_for :: "'w manager \<Rightarrow> (string, string) dict \<Rightarrow> string list" where
  "initiators_for M servers =
     (if contains (lower (mgr_class M)) ''tgt'' \<or> contains (lower (mgr_class M)) ''fcp'' then dict_keys servers else map snd servers)"

definition create_block_device :: "'w storage_lib \<Rightarrow> string \<Rightarrow> string \<Rightarrow> share \<Rightarrow> pyval \<Rightarrow> ('w, device) wr" where
  "create_block_device L stype target sh lunName =
     bindE (getStorageManager L stype (s_ip sh)) (\<lambda>M.
     bindE (outer (createLun M lunName (s_capacity sh))) (\<lambda>(lunId, targetName).
     bindE (set_specific stype target (specific_class (mgr_class M))) (\<lambda>_.
     bindE (this vdsData) (\<lambda>servers.
     bindE (for_each (initiators_for M servers) (\<lambda>i _. unmap_other_groups M lunName i) ()) (\<lambda>_.
     bindE (outer (mapLun M lunId lunName (initiators_for M servers))) (\<lambda>_.
     bindE (if specific_class (mgr_class M) then
              (case servers of [] \<Rightarrow> raise PyException | (k, _) # _ \<Rightarrow> outer (getLun M lunId (Some k)))
            else outer (getLun M lunId None)) (\<lambda>info. ret (Lun info))))))))"

text \<open>A directory that is there already is a device, too.\<close>

definition create_local_device :: "'w storage_lib \<Rightarrow> pyval \<Rightarrow> pyval \<Rightarrow> pyval \<Rightarrow> ('w, device) wr" where
  "create_local_device L srv_name pw path0 =
     bindE (outer (time_stamp L)) (\<lambda>t.
     let path = py_str path0 @ ''_'' @ t in
     bindE (outer (create_local L srv_name pw path)) (\<lambda>r.
     if r = Some False then raise PyException else ret (Path path)))"

text \<open>What goes wrong in a removal is logged only.\<close>

definition logged_only :: "('w, unit) wr \<Rightarrow> ('w, unit) wr" where
  "logged_only m = try_except m PyException (\<lambda>_. ret ())"

definition remove_nas_device :: "'w storage_lib \<Rightarrow> pyval \<Rightarrow> device \<Rightarrow> string \<Rightarrow> ('w, unit) wr" where
  "remove_nas_device L storageServerIp path fsType =
     logged_only (bindE (getStorageManager L fsType storageServerIp) (\<lambda>M. outer (removeDevice M path)))"

definition remove_block_device :: "'w storage_lib \<Rightarrow> string \<Rightarrow> pyval \<Rightarrow> string \<Rightarrow> ('w, unit) wr" where
  "remove_block_device L stype storageServerIp deviceId =
     logged_only (bindE (getStorageManager L stype storageServerIp) (\<lambda>M. outer (removeLun M deviceId)))"

definition unmap_initiators :: "'w storage_lib \<Rightarrow> string \<Rightarrow> pyval \<Rightarrow> ('w, unit) wr" where
  "unmap_initiators L stype storageServerIp =
     bindE (getStorageManager L stype storageServerIp) (\<lambda>M.
     bindE (this id) (\<lambda>p.
     let n = lower (mgr_class M); initiators = initiators_for M (vdsData p) in
     bindE (case initiators of
              [] \<Rightarrow> ret (st_host_group p)
            | i # _ \<Rightarrow>
                if contains n ''solaris'' \<or> n = ''newnetappstoragemanageriscsi'' then
                  bindE (outer (getInitiatorHostGroups M i)) (\<lambda>hgs. lift_res (first_of (PList hgs)))
                else ret (st_host_group p)) (\<lambda>hostGroup.
     for_each initiators (\<lambda>i _. logged_only (outer (unmapInitiator M hostGroup i))) ())))"

definition remove_local_device :: "'w storage_lib \<Rightarrow> pyval \<Rightarrow> pyval \<Rightarrow> device \<Rightarrow> ('w, unit) wr" where
  "remove_local_device L srv_name pw path =
     logged_only (bindE (outer (remove_local L srv_name pw path)) (\<lambda>rc. if rc then ret () else raise PyException))"

section \<open>Set-up\<close>

text \<open>
  The devices of a section are assigned when all of them are made: the devices of a section that fails
  in the middle are known to nobody.
\<close>

definition make_devices :: "string \<Rightarrow> string \<Rightarrow> share \<Rightarrow> ('w, device) wr \<Rightarrow> ('w, unit) wr" where
  "make_devices ty target sh create =
     bindE (lift_res (share_total sh)) (\<lambda>n.
     bindE (map_comp (\<lambda>_. create) [0..<nat n]) (set_devices ty target))"

definition setup_nas :: "'w storage_lib \<Rightarrow> string \<Rightarrow> string \<Rightarrow> ('w, unit) wr" where
  "setup_nas L ty fsType =
     bindE (this_res (\<lambda>p. dict_getitem (storages p) ty)) (\<lambda>d.
     bindE (this st_host_group) (\<lambda>g.
     for_each d (\<lambda>(target, sh) _. make_devices ty target sh (create_nas_device L (s_ip sh) g fsType)) ()))"

definition storageSetupNAS :: "'w storage_lib \<Rightarrow> string \<Rightarrow> ('w, unit) wr" where
  "storageSetupNAS L ty = with_servers L ''none'' ty (if ty \<in> set NAS_STORAGE_TYPES then setup_nas L ty ty else ret ())"

definition storageSetupSAN :: "'w storage_lib \<Rightarrow> string \<Rightarrow> ('w, unit) wr" where
  "storageSetupSAN L ty =
     with_servers L ''none'' ty
       (bindE (this_res (\<lambda>p. dict_getitem (storages p) ty)) (\<lambda>d.
        bindE (this st_host_group) (\<lambda>g.
        for_each d (\<lambda>(target, sh) _. make_devices ty target sh (create_block_device L ty target sh g)) ())))"

definition storageSetupDAS :: "'w storage_lib \<Rightarrow> ('w, unit) wr" where
  "storageSetupDAS L =
     bindE (this_res (\<lambda>p. dict_getitem (storages p) ''local'')) (\<lambda>d.
     for_each d (\<lambda>(target, sh) _.
       bindE (map_comp (create_local_device L (s_ip sh) (s_password sh)) (s_paths sh)) (set_devices ''local'' target)) ())"

definition storageSetupISOandExportDomains :: "'w storage_lib \<Rightarrow> ('w, unit) wr" where
  "storageSetupISOandExportDomains L =
     with_servers L ISO_EXPORT_TYPE []
       (bindE (this_res iso_fs) (\<lambda>fs.
        bindE (setup_nas L ''iso'' fs) (\<lambda>_. setup_nas L ''export'' fs)))"

definition setup_each :: "(string \<Rightarrow> ('w, unit) wr) \<Rightarrow> string list \<Rightarrow> ('w, unit) wr" where
  "setup_each f tys = for_each tys (\<lambda>t _. f t) ()"

definition setup_data :: "'w storage_lib \<Rightarrow> string \<Rightarrow> string \<Rightarrow> ('w, unit) wr" where
  "setup_data L storage_type real_storage_type =
     (if storage_type = ''none'' then
        bindE (setup_each (storageSetupNAS L) NAS_STORAGE_TYPES) (\<lambda>_.
        bindE (setup_each (storageSetupSAN L) SAN_STORAGE_TYPES) (\<lambda>_.
        bindE (storageSetupDAS L) (\<lambda>_.
        setup_each (storageSetupNAS L) (filter (\<lambda>t. t \<notin> set NAS_STORAGE_TYPES) POSIXFS_COMPLIANT_TYPES))))
      else if storage_type \<in> set NAS_STORAGE_TYPES then storageSetupNAS L storage_type
      else if storage_type = ''posixfs'' then
        (if real_storage_type = ''mixed'' then setup_each (storageSetupNAS L) POSIXFS_COMPLIANT_TYPES
         else if real_storage_type \<in> set POSIXFS_COMPLIANT_TYPES then storageSetupNAS L real_storage_type
         else ret ())
      else if storage_type \<in> set SAN_STORAGE_TYPES then storageSetupSAN L storage_type
      else if storage_type = ''localfs'' then storageSetupDAS L
      else ret ())"

definition any_wanted :: "'w storage_utils \<Rightarrow> exn + bool" where
  "any_wanted p =
     res_bind (map_res (\<lambda>ty. res_bind (dict_getitem (storages p) ty) (\<lambda>d.
         res_bind (find_res (\<lambda>(_, sh). res_bind (share_total sh) (\<lambda>n. Inr (0 < n))) d) (\<lambda>r. Inr (r \<noteq> None))))
       [''iso'', ''export'']) (\<lambda>bs. Inr (list_ex id bs))"

definition storageSetup :: "'w storage_lib \<Rightarrow> ('w, unit) wr" where
  "storageSetup L =
     bindE (this id) (\<lambda>p.
     bindE (setup_data L (st_type p) (st_real_type p)) (\<lambda>_.
     bindE (this_res any_wanted) (\<lambda>create_iso_exp.
     if create_iso_exp then storageSetupISOandExportDomains L else ret ())))"

section \<open>Cleanup\<close>

definition clean_section :: "string \<Rightarrow> string \<Rightarrow> (device \<Rightarrow> ('w, unit) wr) \<Rightarrow> ('w, unit) wr" where
  "clean_section ty target rm =
     bindE (this (\<lambda>p. devices_of p ty)) (\<lambda>d.
     case map_of d target of None \<Rightarrow> ret () | Some ds \<Rightarrow> for_each ds (\<lambda>x _. rm x) ())"

definition clean_nas :: "'w storage_lib \<Rightarrow> string \<Rightarrow> string \<Rightarrow> ('w, unit) wr" where
  "clean_nas L ty fsType =
     bindE (this_res (\<lambda>p. dict_getitem (storages p) ty)) (\<lambda>d.
     for_each d (\<lambda>(target, sh) _. clean_section ty target (\<lambda>x. remove_nas_device L (s_ip sh) x fsType)) ())"

fun lun_item :: "string \<Rightarrow> device \<Rightarrow> exn + string" where
  "lun_item k (Lun d) = dict_getitem d k"
| "lun_item k (Path _) = Inl TypeError"

definition clean_san_section :: "'w storage_lib \<Rightarrow> string \<Rightarrow> string \<Rightarrow> share \<Rightarrow> ('w, unit) wr" where
  "clean_san_section L stype target sh =
     bindE (lift_res (share_total sh)) (\<lambda>n.
     if n \<le> 0 then ret ()
     else
       bindE (clean_section stype target (\<lambda>x.
           bindE (lift_res (lun_item (if s_is_specific sh then ''serial'' else ''uuid'') x)) (remove_block_device L stype (s_ip sh)))) (\<lambda>_.
       bindE (this (\<lambda>p. devices_of p stype)) (\<lambda>d.
       if map_of d target \<in> {None, Some []} then ret () else unmap_initiators L stype (s_ip sh))))"

definition clean_san :: "'w storage_lib \<Rightarrow> string \<Rightarrow> ('w, unit) wr" where
  "clean_san L stype =
     bindE (this_res (\<lambda>p. dict_getitem (storages p) stype)) (\<lambda>d.
     for_each d (\<lambda>(target, sh) _. clean_san_section L stype target sh) ())"

definition clean_local :: "'w storage_lib \<Rightarrow> ('w, unit) wr" where
  "clean_local L =
     bindE (this_res (\<lambda>p. dict_getitem (storages p) ''local'')) (\<lambda>d.
     for_each d (\<lambda>(target, sh) _. clean_section ''local'' target (remove_local_device L (s_ip sh) (s_password sh))) ())"

definition storageCleanup :: "'w storage_lib \<Rightarrow> ('w, unit) wr" where
  "storageCleanup L =
     bindE (for_each NAS_STORAGE_TYPES (\<lambda>t _. clean_nas L t t) ()) (\<lambda>_.
     bindE (for_each SAN_STORAGE_TYPES (\<lambda>t _. clean_san L t) ()) (\<lambda>_.
     bindE (clean_local L) (\<lambda>_.
     bindE (this_res iso_fs) (\<lambda>fs.
     bindE (clean_nas L ''iso'' fs) (\<lambda>_. clean_nas L ''export'' fs)))))"

section \<open>The configuration\<close>

definition processConfList :: "pyval list \<Rightarrow> pyval" where
  "processConfList l = (case l of [x] \<Rightarrow> x | _ \<Rightarrow> PList l)"

text \<open>\<open>len(data) == 1\<close> and \<open>data[0]\<close> for what a key has.\<close>

definition only_item :: "pyval \<Rightarrow> exn + pyval" where
  "only_item data =
     (case data of
        PList l \<Rightarrow> Inr (processConfList l)
      | PStr s \<Rightarrow> Inr (PStr s)
      | _ \<Rightarrow> Inl TypeError)"

definition next_value :: "(string, pyval) dict \<Rightarrow> string \<Rightarrow> pyval list \<Rightarrow> bool \<Rightarrow> bool \<Rightarrow> exn + pyval" where
  "next_value cfg k v backward clean =
     (if backward then res_bind (dict_getitem cfg k) only_item
      else if clean then Inr (PList [])
      else
        (case kwget cfg k of
           PNone \<Rightarrow> Inr (PList v)
         | PList l \<Rightarrow> Inr (PList (l @ v))
         | _ \<Rightarrow> Inl AttributeError))"

definition conf_section :: "conf_sections \<Rightarrow> string \<Rightarrow> (string, pyval) dict" where
  "conf_section conf sec = (case map_of conf sec of None \<Rightarrow> [] | Some c \<Rightarrow> c)"

definition setConfValueByKeyPath :: "conf_sections \<Rightarrow> string \<Rightarrow> pyval list \<Rightarrow> string \<Rightarrow> bool \<Rightarrow> bool \<Rightarrow> exn + conf_sections" where
  "setConfValueByKeyPath conf target v ext backward clean =
     (case split_on target ''.'' of
        [sec, k] \<Rightarrow>
          res_bind (next_value (conf_section conf sec) (k @ ext) v backward clean) (\<lambda>x.
          Inr (dict_set conf sec (dict_set (conf_section conf sec) (k @ ext) x)))
      | _ \<Rightarrow> Inl ValueError)"

definition filterNonEmptyDicts :: "(string, 'a list) dict \<Rightarrow> string list" where
  "filterNonEmptyDicts d = map fst (filter (\<lambda>(k, v). v \<noteq> []) d)"

text \<open>What is written for the devices of a target: the ends of the keys, and the values.\<close>

definition path_value :: "device \<Rightarrow> pyval" where
  "path_value x = (case x of Path s \<Rightarrow> PStr s | Lun d \<Rightarrow> PNone)"

definition lun_values :: "string \<Rightarrow> device list \<Rightarrow> exn + pyval list" where
  "lun_values k ds = map_res (\<lambda>x. res_bind (lun_item k x) (\<lambda>s. Inr (PStr s))) ds"

definition conf_values :: "string \<Rightarrow> share \<Rightarrow> device list \<Rightarrow> (string \<times> (exn + pyval list)) list" where
  "conf_values ty sh ds =
     (let times_total = (\<lambda>v. res_bind (share_total sh) (\<lambda>n. Inr (replicate (nat n) v))) in
      (''_address'', times_total (s_ip sh)) #
      (if ty \<in> set SAN_STORAGE_TYPES then [(''_target'', lun_values ''target'' ds), ([], lun_values ''uuid'' ds)]
       else
         (''_path'', Inr (map path_value ds)) #
         (if ty \<in> {''iso'', ''export''} then [] else [(''_real_storage_type'', times_total (PStr ty))])))"

definition set_conf :: "string \<Rightarrow> bool \<Rightarrow> bool \<Rightarrow> string \<times> (exn + pyval list) \<Rightarrow> ('w, unit) wr" where
  "set_conf target backward clean = (\<lambda>(ext, r).
     bindE (lift_res r) (\<lambda>v.
     bindE (this_res (\<lambda>p. setConfValueByKeyPath (st_config p) target v ext backward clean)) (\<lambda>c.
     set_this (\<lambda>p. p\<lparr>st_config := c\<rparr>))))"

definition write_target :: "bool \<Rightarrow> bool \<Rightarrow> string \<Rightarrow> string \<Rightarrow> ('w, unit) wr" where
  "write_target backward clean ty target =
     bindE (this (\<lambda>p. devices_of p ty)) (\<lambda>d.
     bindE (this_res (\<lambda>p. res_bind (dict_getitem (storages p) ty) (\<lambda>s. dict_getitem s target))) (\<lambda>sh.
     bindE (lift_res (dict_getitem d target)) (\<lambda>ds.
     for_each (conf_values ty sh ds) (\<lambda>e _. set_conf target backward clean e) ())))"

definition write_local :: "bool \<Rightarrow> bool \<Rightarrow> string \<Rightarrow> ('w, unit) wr" where
  "write_local backward clean target =
     bindE (this_res (\<lambda>p. dict_getitem (devices_of p ''local'') target)) (\<lambda>ds.
     set_conf target backward clean (''_path'', Inr (map path_value ds)))"

text \<open>The dictionary of the types is gone through in the order of the interpreter's hash table.\<close>

definition conf_order :: "'w storage_lib \<Rightarrow> string list" where
  "conf_order L = dict_order L DEV_TYPES"

definition update_conf_pass :: "'w storage_lib \<Rightarrow> bool \<Rightarrow> bool \<Rightarrow> ('w, unit) wr" where
  "update_conf_pass L backward clean =
     bindE (for_each (conf_order L) (\<lambda>ty _.
         bindE (this (\<lambda>p. filterNonEmptyDicts (devices_of p ty))) (\<lambda>targets.
         for_each targets (\<lambda>t _. write_target backward clean ty t) ())) ()) (\<lambda>_.
     bindE (this (\<lambda>p. filterNonEmptyDicts (devices_of p ''local''))) (\<lambda>targets.
     bindE (for_each targets (\<lambda>t _. write_local backward clean t) ()) (\<lambda>_.
     bindE (this st_config) (\<lambda>c. outer (write_conf L c)))))"

definition updateConfFile :: "'w storage_lib \<Rightarrow> ('w, unit) wr" where
  "updateConfFile L =
     bindE (update_conf_pass L False True) (\<lambda>_.
     bindE (update_conf_pass L False False) (\<lambda>_. update_conf_pass L True False))"

section \<open>What is shown\<close>

text \<open>
  A storage manager that does what it says, with a reading \<open>devs\<close> of the devices in the world: it makes new
  devices only, and removes what it is told to.
\<close>

definition honest_manager :: "('w \<Rightarrow> device set) \<Rightarrow> 'w manager \<Rightarrow> bool" where
  "honest_manager devs M \<longleftrightarrow>
     (\<forall>g w x w'. createDevice M g w = (Inr x, w') \<longrightarrow> Path x \<notin> devs w \<and> devs w' = insert (Path x) (devs w)) \<and>
     (\<forall>x w. \<exists>w'. removeDevice M x w = (Inr (), w') \<and> devs w' = devs w - {x})"

definition honest_lib :: "('w \<Rightarrow> device set) \<Rightarrow> 'w storage_lib \<Rightarrow> bool" where
  "honest_lib devs L \<longleftrightarrow> (\<forall>a ty w. \<exists>M. StorageManagerWrapper L a ty w = (Inr M, w) \<and> honest_manager devs M)"

definition honest_servers :: "('w \<Rightarrow> device set) \<Rightarrow> 'w storage_utils \<Rightarrow> bool" where
  "honest_servers devs p \<longleftrightarrow> (\<forall>k m. map_of (storageServers p) k = Some m \<longrightarrow> (\<exists>M. m = Some M \<and> honest_manager devs M))"

definition recorded :: "'w storage_utils \<Rightarrow> string \<Rightarrow> string set \<Rightarrow> device set" where
  "recorded p ty T = (\<Union>t \<in> T. case map_of (devices_of p ty) t of None \<Rightarrow> {} | Some ds \<Rightarrow> set ds)"

lemmas wr_simps = bindE_def ret_def raise_def lift_res_def this_def gets_def this_res_def set_this_def modify_def outer_def

lemma devices_of_servers [simp]: "devices_of (p\<lparr>storageServers := s\<rparr>) ty = devices_of p ty"
  by (simp add: devices_of_def)

lemma honest_servers_set [simp]:
  "honest_manager devs M \<Longrightarrow> honest_servers devs p \<Longrightarrow> honest_servers devs (p\<lparr>storageServers := dict_set (storageServers p) ty (Some M)\<rparr>)"
  by (auto simp: honest_servers_def)

lemma honest_servers_devices [simp]: "honest_servers devs (p\<lparr>devices := d\<rparr>) = honest_servers devs p"
  by (simp add: honest_servers_def)

lemma getStorageManager_honest:
  assumes "honest_lib devs L" and "honest_servers devs p"
  obtains M s where "getStorageManager L ty a (p, w) = (Inr M, (p\<lparr>storageServers := s\<rparr>, w))"
    and "honest_manager devs M" and "honest_servers devs (p\<lparr>storageServers := s\<rparr>)"
proof (cases "map_of (storageServers p) ty")
  case (Some m)
  with assms(2) obtain M where M: "m = Some M" "honest_manager devs M" by (auto simp: honest_servers_def)
  have "ty \<in> set (dict_keys (storageServers p))"
    using Some by (force simp: dict_keys_def dest: map_of_SomeD)
  with Some M have "getStorageManager L ty a (p, w) = (Inr M, (p\<lparr>storageServers := storageServers p\<rparr>, w))"
    by (simp add: getStorageManager_def wr_simps dict_getitem_def)
  with that [of M "storageServers p"] M assms(2) show ?thesis by simp
next
  case None
  then have new: "ty \<notin> set (dict_keys (storageServers p))"
    by (simp add: dict_keys_def map_of_eq_None_iff)
  from assms(1) obtain M where M: "StorageManagerWrapper L a (upper (upper ty)) w = (Inr M, w)" "honest_manager devs M"
    unfolding honest_lib_def by blast
  have "getStorageManager L ty a (p, w) = (Inr M, (p\<lparr>storageServers := dict_set (storageServers p) ty (Some M)\<rparr>, w))"
    using new M by (simp add: getStorageManager_def createStorageManager_def wr_simps dict_getitem_def)
  with that M assms(2) show ?thesis by (metis honest_servers_set)
qed

lemma create_nas_device_honest:
  assumes "honest_lib devs L" and "honest_servers devs p" and "create_nas_device L a g fs (p, w) = (Inr x, (q, w'))"
  obtains s where "q = p\<lparr>storageServers := s\<rparr>" and "honest_servers devs q" and "x \<notin> devs w" and "devs w' = insert x (devs w)"
proof -
  from getStorageManager_honest [OF assms(1,2)] obtain M s where M: "getStorageManager L fs a (p, w) = (Inr M, (p\<lparr>storageServers := s\<rparr>, w))"
    "honest_manager devs M" "honest_servers devs (p\<lparr>storageServers := s\<rparr>)" by blast
  from M(1) assms(3) obtain y where "createDevice M g w = (Inr y, w')" "x = Path y" "q = p\<lparr>storageServers := s\<rparr>"
    by (auto simp: create_nas_device_def wr_simps split: prod.splits sum.splits)
  with M(2,3) that show ?thesis unfolding honest_manager_def by blast
qed

lemma map_create_honest:
  assumes "honest_lib devs L"
  shows "honest_servers devs p \<Longrightarrow> map_comp (\<lambda>_. create_nas_device L a g fs) is (p, w) = (Inr xs, (q, w')) \<Longrightarrow>
    \<exists>s. q = p\<lparr>storageServers := s\<rparr> \<and> honest_servers devs q \<and> set xs \<inter> devs w = {} \<and> devs w' = devs w \<union> set xs"
proof (induction "is" arbitrary: p w xs)
  case Nil
  then show ?case by (auto simp: ret_def intro!: exI [of _ "storageServers p"])
next
  case (Cons i "is")
  from Cons.prems(2) obtain x p1 w1 ys where x: "create_nas_device L a g fs (p, w) = (Inr x, (p1, w1))"
    and ys: "map_comp (\<lambda>_. create_nas_device L a g fs) is (p1, w1) = (Inr ys, (q, w'))" and xs: "xs = x # ys"
    by (auto simp: bindE_def ret_def split: prod.splits sum.splits)
  from create_nas_device_honest [OF assms Cons.prems(1) x] obtain s where s: "p1 = p\<lparr>storageServers := s\<rparr>" "honest_servers devs p1"
    "x \<notin> devs w" "devs w1 = insert x (devs w)" by blast
  from Cons.IH [OF s(2) ys] s xs show ?case by auto
qed

lemma make_devices_honest:
  assumes "honest_lib devs L" and "honest_servers devs p"
    and "make_devices ty t sh (create_nas_device L a g fs) (p, w) = (Inr (), (q, w'))"
  obtains xs where "honest_servers devs q" and "devices_of q ty = dict_set (devices_of p ty) t xs" and "storages q = storages p"
    and "set xs \<inter> devs w = {}" and "devs w' = devs w \<union> set xs"
proof -
  from assms(3) obtain n xs p1 where xs: "map_comp (\<lambda>_. create_nas_device L a g fs) [0..<nat n] (p, w) = (Inr xs, (p1, w'))"
    and q: "q = p1\<lparr>devices := dict_set (devices p1) ty (dict_set (devices_of p1 ty) t xs)\<rparr>"
    by (auto simp: make_devices_def set_devices_def wr_simps split: prod.splits sum.splits)
  from map_create_honest [OF assms(1,2) xs] q that [of xs] show ?thesis by (auto simp: devices_of_def)
qed

lemma setup_loop_honest:
  assumes "honest_lib devs L"
  shows "honest_servers devs p \<Longrightarrow> distinct (map fst d) \<Longrightarrow> dom (map_of (devices_of p ty)) \<inter> fst ` set d = {} \<Longrightarrow>
    for_each d (\<lambda>(t, sh) _. make_devices ty t sh (create_nas_device L (s_ip sh) g fs)) u (p, w) = (Inr v, (q, w')) \<Longrightarrow>
    honest_servers devs q \<and> storages q = storages p \<and> dom (map_of (devices_of q ty)) = dom (map_of (devices_of p ty)) \<union> fst ` set d \<and>
    (\<forall>t. t \<notin> fst ` set d \<longrightarrow> map_of (devices_of q ty) t = map_of (devices_of p ty) t) \<and>
    recorded q ty (fst ` set d) \<inter> devs w = {} \<and> devs w' = devs w \<union> recorded q ty (fst ` set d)"
proof (induction d arbitrary: p w u)
  case Nil
  then show ?case by (simp add: ret_def recorded_def)
next
  case (Cons e d)
  obtain t sh where e: "e = (t, sh)" by fastforce
  from Cons.prems(4) e obtain p1 w1 where m: "make_devices ty t sh (create_nas_device L (s_ip sh) g fs) (p, w) = (Inr (), (p1, w1))"
    and rest: "for_each d (\<lambda>(t, sh) _. make_devices ty t sh (create_nas_device L (s_ip sh) g fs)) () (p1, w1) = (Inr v, (q, w'))"
    by (auto simp: bindE_def split: prod.splits sum.splits)
  from make_devices_honest [OF assms Cons.prems(1) m] obtain xs where xs: "honest_servers devs p1"
    "devices_of p1 ty = dict_set (devices_of p ty) t xs" "storages p1 = storages p" "set xs \<inter> devs w = {}" "devs w1 = devs w \<union> set xs" by blast
  have IH: "honest_servers devs q \<and> storages q = storages p1 \<and> dom (map_of (devices_of q ty)) = dom (map_of (devices_of p1 ty)) \<union> fst ` set d \<and>
    (\<forall>t. t \<notin> fst ` set d \<longrightarrow> map_of (devices_of q ty) t = map_of (devices_of p1 ty) t) \<and>
    recorded q ty (fst ` set d) \<inter> devs w1 = {} \<and> devs w' = devs w1 \<union> recorded q ty (fst ` set d)"
  proof (rule Cons.IH [OF xs(1) _ _ rest])
    have "dom (map_of (devices_of p1 ty)) = insert t (dom (map_of (devices_of p ty)))" by (simp add: xs(2))
    then show "dom (map_of (devices_of p1 ty)) \<inter> fst ` set d = {}" using Cons.prems(2,3) e by auto
  qed (use Cons.prems(2) in simp)
  have t: "t \<notin> fst ` set d" using Cons.prems(2) e by simp
  have "recorded q ty (fst ` set (e # d)) = set xs \<union> recorded q ty (fst ` set d)"
    using IH t xs(2) e by (simp add: recorded_def)
  with IH xs e t show ?case by auto
qed

lemma clean_section_honest:
  assumes "honest_lib devs L" and "honest_servers devs p"
  obtains s w' where "clean_section ty t (\<lambda>x. remove_nas_device L a x fs) (p, w) = (Inr (), (p\<lparr>storageServers := s\<rparr>, w'))"
    and "honest_servers devs (p\<lparr>storageServers := s\<rparr>)" and "devs w' = devs w - recorded p ty {t}"
proof -
  have one: "\<exists>s w'. remove_nas_device L a x fs (p, w) = (Inr (), (p\<lparr>storageServers := s\<rparr>, w')) \<and>
      honest_servers devs (p\<lparr>storageServers := s\<rparr>) \<and> devs w' = devs w - {x}" if "honest_servers devs p" for p x w
  proof -
    from getStorageManager_honest [OF assms(1) that] obtain M s where M: "getStorageManager L fs a (p, w) = (Inr M, (p\<lparr>storageServers := s\<rparr>, w))"
      "honest_manager devs M" "honest_servers devs (p\<lparr>storageServers := s\<rparr>)" by blast
    from M(2) obtain w' where "removeDevice M x w = (Inr (), w')" "devs w' = devs w - {x}" unfolding honest_manager_def by blast
    with M(1,3) show ?thesis by (auto simp: remove_nas_device_def logged_only_def try_except_def bindE_def outer_def)
  qed
  have each: "\<exists>s w'. for_each ds (\<lambda>x _. remove_nas_device L a x fs) () (p, w) = (Inr (), (p\<lparr>storageServers := s\<rparr>, w')) \<and>
      honest_servers devs (p\<lparr>storageServers := s\<rparr>) \<and> devs w' = devs w - set ds" if "honest_servers devs p" for ds p w
    using that
  proof (induction ds arbitrary: p w)
    case Nil
    then show ?case by (auto simp: ret_def intro!: exI [of _ "storageServers p"])
  next
    case (Cons x ds)
    from one [OF Cons.prems, of x w] obtain s w1 where o1: "remove_nas_device L a x fs (p, w) = (Inr (), (p\<lparr>storageServers := s\<rparr>, w1))"
      "honest_servers devs (p\<lparr>storageServers := s\<rparr>)" "devs w1 = devs w - {x}" by blast
    from Cons.IH [OF o1(2), of w1] obtain s2 w2 where
      "for_each ds (\<lambda>x _. remove_nas_device L a x fs) () (p\<lparr>storageServers := s\<rparr>, w1) = (Inr (), (p\<lparr>storageServers := s2\<rparr>, w2))"
      "honest_servers devs (p\<lparr>storageServers := s2\<rparr>)" "devs w2 = devs w1 - set ds" by auto
    with o1 show ?case by (auto simp: bindE_def)
  qed
  show ?thesis
  proof (cases "map_of (devices_of p ty) t")
    case None
    with that [of "storageServers p" w] assms(2) show ?thesis
      by (simp add: clean_section_def bindE_def this_def gets_def ret_def recorded_def)
  next
    case (Some ds)
    with each [OF assms(2), of ds w] that show ?thesis
      by (auto simp: clean_section_def bindE_def this_def gets_def recorded_def)
  qed
qed

lemma clean_loop_honest:
  assumes "honest_lib devs L" and "honest_servers devs p"
  shows "\<exists>s w'. for_each d (\<lambda>(t, sh) _. clean_section ty t (\<lambda>x. remove_nas_device L (s_ip sh) x fs)) () (p, w) =
      (Inr (), (p\<lparr>storageServers := s\<rparr>, w')) \<and> devs w' = devs w - recorded p ty (fst ` set d)"
  using assms(2)
proof (induction d arbitrary: p w)
  case Nil
  then show ?case by (auto simp: ret_def recorded_def intro!: exI [of _ "storageServers p"])
next
  case (Cons e d)
  obtain t sh where e: "e = (t, sh)" by fastforce
  from clean_section_honest [OF assms(1) Cons.prems] obtain s w1 where
    c: "clean_section ty t (\<lambda>x. remove_nas_device L (s_ip sh) x fs) (p, w) = (Inr (), (p\<lparr>storageServers := s\<rparr>, w1))"
    "honest_servers devs (p\<lparr>storageServers := s\<rparr>)" "devs w1 = devs w - recorded p ty {t}" by blast
  from Cons.IH [OF c(2), of w1] obtain s2 w2 where
    "for_each d (\<lambda>(t, sh) _. clean_section ty t (\<lambda>x. remove_nas_device L (s_ip sh) x fs)) () (p\<lparr>storageServers := s\<rparr>, w1) =
      (Inr (), (p\<lparr>storageServers := s2\<rparr>, w2))" "devs w2 = devs w1 - recorded (p\<lparr>storageServers := s\<rparr>) ty (fst ` set d)" by auto
  with c e show ?case by (auto simp: bindE_def recorded_def)
qed

text \<open>
  C39. With storage managers that do what they say, the cleanup of a type of network storage removes every
  device its set-up made, and no other.
\<close>

theorem nas_cleanup_undoes_setup:
  assumes "honest_lib devs L" and "honest_servers devs p"
    and "dict_getitem (storages p) ty = Inr d" and "wf_dict d" and "devices_of p ty = []"
    and "setup_nas L ty fs (p, w) = (Inr (), (p1, w1))"
  shows "\<exists>p2 w2. clean_nas L ty fs (p1, w1) = (Inr (), (p2, w2)) \<and> devs w2 = devs w"
proof -
  from assms(3,6) have "for_each d (\<lambda>(t, sh) _. make_devices ty t sh (create_nas_device L (s_ip sh) (st_host_group p) fs)) () (p, w) = (Inr (), (p1, w1))"
    by (simp add: setup_nas_def wr_simps)
  with setup_loop_honest [OF assms(1,2), of d ty] assms(4,5) have s: "honest_servers devs p1" "storages p1 = storages p"
    "recorded p1 ty (fst ` set d) \<inter> devs w = {}" "devs w1 = devs w \<union> recorded p1 ty (fst ` set d)"
    by (auto simp: wf_dict_def dict_keys_def)
  from clean_loop_honest [OF assms(1) s(1), of d ty fs w1] obtain p2 w2 where
    "clean_nas L ty fs (p1, w1) = (Inr (), (p2, w2))" "devs w2 = devs w1 - recorded p1 ty (fst ` set d)"
    using assms(3) s(2) by (auto simp: clean_nas_def wr_simps)
  with s show ?thesis by blast
qed

subsection \<open>The configuration after the three passes\<close>

text \<open>
  What is written, as a list of entries: a target, the end of its key, and values. The value a
  configuration has at a section and a key is \<open>conf_lookup\<close>.
\<close>

type_synonym conf_entry = "string \<times> string \<times> pyval list"

definition conf_lookup :: "conf_sections \<Rightarrow> string \<times> string \<Rightarrow> pyval option" where
  "conf_lookup conf = (\<lambda>(sec, k). map_of (conf_section conf sec) k)"

definition good_target :: "string \<Rightarrow> bool" where
  "good_target t \<longleftrightarrow> List.length (split_on t ''.'') = 2"

definition entry_key :: "conf_entry \<Rightarrow> string \<times> string" where
  "entry_key = (\<lambda>(t, ext, v). (hd (split_on t ''.''), last (split_on t ''.'') @ ext))"

definition values_at :: "conf_entry list \<Rightarrow> string \<times> string \<Rightarrow> pyval list" where
  "values_at E k = concat (map (\<lambda>(t, ext, v). v) (filter (\<lambda>e. entry_key e = k) E))"

fun conf_pass :: "bool \<Rightarrow> bool \<Rightarrow> conf_entry list \<Rightarrow> conf_sections \<Rightarrow> exn + conf_sections" where
  "conf_pass backward clean [] conf = Inr conf"
| "conf_pass backward clean ((t, ext, v) # E) conf =
     res_bind (setConfValueByKeyPath conf t v ext backward clean) (conf_pass backward clean E)"

lemma conf_section_set [simp]: "conf_section (dict_set conf s c) s' = (if s' = s then c else conf_section conf s')"
  by (simp add: conf_section_def)

lemma set_at:
  assumes "good_target t" and "next_value (conf_section conf (fst (entry_key (t, ext, v)))) (snd (entry_key (t, ext, v))) v b c = Inr x"
  obtains conf' where "setConfValueByKeyPath conf t v ext b c = Inr conf'"
    and "\<And>k. conf_lookup conf' k = (if k = entry_key (t, ext, v) then Some x else conf_lookup conf k)"
proof -
  from assms(1) obtain s k where "split_on t ''.'' = [s, k]"
    by (auto simp: good_target_def length_Suc_conv numeral_2_eq_2)
  with assms(2) that show ?thesis
    by (auto simp: setConfValueByKeyPath_def entry_key_def conf_lookup_def res_bind_def split: prod.splits)
qed

lemma conf_pass_clean:
  assumes "\<forall>(t, ext, v) \<in> set E. good_target t"
  shows "\<exists>conf'. conf_pass False True E conf = Inr conf' \<and>
    (\<forall>k. conf_lookup conf' k = (if k \<in> entry_key ` set E then Some (PList []) else conf_lookup conf k))"
  using assms
proof (induction E arbitrary: conf)
  case (Cons e E)
  obtain t ext v where e: "e = (t, ext, v)" by (cases e)
  have "good_target t" using Cons.prems e by auto
  then obtain conf1 where c1: "setConfValueByKeyPath conf t v ext False True = Inr conf1"
    "\<And>k. conf_lookup conf1 k = (if k = entry_key (t, ext, v) then Some (PList []) else conf_lookup conf k)"
    by (elim set_at [of t conf ext v False True "PList []"]) (auto simp: next_value_def)
  from Cons.IH [of conf1] Cons.prems obtain conf' where "conf_pass False True E conf1 = Inr conf'"
    "\<forall>k. conf_lookup conf' k = (if k \<in> entry_key ` set E then Some (PList []) else conf_lookup conf1 k)" by auto
  with c1 e show ?case by (auto simp: res_bind_def)
qed simp

lemma conf_pass_fill:
  assumes "\<forall>(t, ext, v) \<in> set E. good_target t" and "\<forall>k \<in> entry_key ` set E. conf_lookup conf k = Some (PList (f k))"
  shows "\<exists>conf'. conf_pass False False E conf = Inr conf' \<and>
    (\<forall>k. conf_lookup conf' k = (if k \<in> entry_key ` set E then Some (PList (f k @ values_at E k)) else conf_lookup conf k))"
  using assms
proof (induction E arbitrary: conf f)
  case (Cons e E)
  obtain t ext v where e: "e = (t, ext, v)" by (cases e)
  let ?k = "entry_key e"
  have "good_target t" using Cons.prems e by auto
  moreover have "conf_lookup conf ?k = Some (PList (f ?k))" using Cons.prems(2) by simp
  ultimately obtain conf1 where c1: "setConfValueByKeyPath conf t v ext False False = Inr conf1"
    "\<And>k. conf_lookup conf1 k = (if k = entry_key (t, ext, v) then Some (PList (f ?k @ v)) else conf_lookup conf k)"
    by (elim set_at [of t conf ext v False False "PList (f ?k @ v)"]) (auto simp: next_value_def e kwget_def conf_lookup_def split_beta)
  have "\<forall>k \<in> entry_key ` set E. conf_lookup conf1 k = Some (PList ((if k = ?k then f k @ v else f k)))"
    using Cons.prems(2) c1(2) e by auto
  from Cons.IH [OF _ this] Cons.prems(1) obtain conf' where r: "conf_pass False False E conf1 = Inr conf'"
    "\<forall>k. conf_lookup conf' k = (if k \<in> entry_key ` set E then Some (PList ((if k = ?k then f k @ v else f k) @ values_at E k)) else conf_lookup conf1 k)" by auto
  have v: "values_at ((t, ext, v) # E) k = (if k = entry_key (t, ext, v) then v @ values_at E k else values_at E k)" for k
    by (auto simp: values_at_def)
  have none: "values_at E k = []" if "k \<notin> entry_key ` set E" for k
    using that by (auto simp: values_at_def filter_empty_conv)
  have "conf_lookup conf' k = (if k \<in> entry_key ` set (e # E) then Some (PList (f k @ values_at (e # E) k)) else conf_lookup conf k)" for k
    by (cases "k \<in> entry_key ` set E"; cases "k = ?k") (simp_all add: r(2) c1(2) e v none)
  with r(1) c1(1) e show ?case by (auto simp: res_bind_def)
qed simp

lemma conf_pass_backward:
  assumes "\<forall>(t, ext, v) \<in> set E. good_target t" and "\<forall>k \<in> entry_key ` set E. conf_lookup conf k = Some (PList (f k))"
    and "\<forall>k. List.length (f k) = 1 \<longrightarrow> List.length (filter (\<lambda>e. entry_key e = k) E) \<le> 1"
  shows "\<exists>conf'. conf_pass True False E conf = Inr conf' \<and>
    (\<forall>k. conf_lookup conf' k = (if k \<in> entry_key ` set E then Some (processConfList (f k)) else conf_lookup conf k))"
  using assms
proof (induction E arbitrary: conf)
  case (Cons e E)
  obtain t ext v where e: "e = (t, ext, v)" by (cases e)
  let ?k = "entry_key e"
  have "good_target t" using Cons.prems e by auto
  moreover have at: "conf_lookup conf ?k = Some (PList (f ?k))" using Cons.prems(2) by simp
  ultimately obtain conf1 where c1: "setConfValueByKeyPath conf t v ext True False = Inr conf1"
    "\<And>k. conf_lookup conf1 k = (if k = entry_key (t, ext, v) then Some (processConfList (f ?k)) else conf_lookup conf k)"
    by (elim set_at [of t conf ext v True False "processConfList (f ?k)"])
      (auto simp: next_value_def e conf_lookup_def split_beta dict_getitem_def res_bind_def only_item_def)
  have again: "processConfList (f ?k) = PList (f ?k)" if "?k \<in> entry_key ` set E"
  proof -
    from that have "filter (\<lambda>x. entry_key x = ?k) E \<noteq> []" by (auto simp: filter_empty_conv)
    with Cons.prems(3) [rule_format, of ?k] have "List.length (f ?k) \<noteq> 1" by (cases "filter (\<lambda>x. entry_key x = ?k) E") auto
    then show ?thesis by (auto simp: processConfList_def split: list.splits)
  qed
  have "conf_lookup conf1 k = Some (PList (f k))" if "k \<in> entry_key ` set E" for k
    using Cons.prems(2) c1(2) [of k] e again that by (cases "k = ?k") auto
  then have "\<forall>k \<in> entry_key ` set E. conf_lookup conf1 k = Some (PList (f k))" by blast
  moreover have "\<forall>k. List.length (f k) = 1 \<longrightarrow> List.length (filter (\<lambda>e. entry_key e = k) E) \<le> 1"
    using Cons.prems(3) by (force split: if_splits)
  ultimately obtain conf' where "conf_pass True False E conf1 = Inr conf'"
    "\<forall>k. conf_lookup conf' k = (if k \<in> entry_key ` set E then Some (processConfList (f k)) else conf_lookup conf1 k)"
    using Cons.IH [of conf1] Cons.prems(1) by auto
  note r = this
  have "conf_lookup conf' k = (if k \<in> entry_key ` set (e # E) then Some (processConfList (f k)) else conf_lookup conf k)" for k
    by (cases "k \<in> entry_key ` set E"; cases "k = ?k") (simp_all add: r(2) c1(2) e)
  with r(1) c1(1) e show ?case by (auto simp: res_bind_def)
qed simp

lemma occurrences_le_values:
  "\<forall>(t, ext, v) \<in> set E. v \<noteq> [] \<Longrightarrow> List.length (filter (\<lambda>e. entry_key e = k) E) \<le> List.length (values_at E k)"
proof (induction E)
  case (Cons e E)
  obtain t ext v where e: "e = (t, ext, v)" by (cases e)
  with Cons.prems have "1 \<le> List.length v" by (cases v) auto
  with Cons.IH Cons.prems e show ?case by (auto simp: values_at_def)
qed (simp add: values_at_def)

lemma three_passes:
  assumes "\<forall>(t, ext, v) \<in> set E. good_target t \<and> v \<noteq> []"
  shows "\<exists>c1 c2 c3. conf_pass False True E conf = Inr c1 \<and> conf_pass False False E c1 = Inr c2 \<and> conf_pass True False E c2 = Inr c3 \<and>
    (\<forall>k. conf_lookup c3 k = (if k \<in> entry_key ` set E then Some (processConfList (values_at E k)) else conf_lookup conf k))"
proof -
  have good: "\<forall>(t, ext, v) \<in> set E. good_target t" using assms by auto
  from conf_pass_clean [OF good, of conf] obtain c1 where c1: "conf_pass False True E conf = Inr c1"
    "\<forall>k. conf_lookup c1 k = (if k \<in> entry_key ` set E then Some (PList []) else conf_lookup conf k)" by blast
  with conf_pass_fill [OF good, of c1 "\<lambda>_. []"] obtain c2 where c2: "conf_pass False False E c1 = Inr c2"
    "\<forall>k. conf_lookup c2 k = (if k \<in> entry_key ` set E then Some (PList (values_at E k)) else conf_lookup c1 k)" by auto
  have "\<forall>k. List.length (values_at E k) = 1 \<longrightarrow> List.length (filter (\<lambda>e. entry_key e = k) E) \<le> 1"
    using occurrences_le_values [of E] assms by (metis (no_types, lifting) case_prod_unfold)
  with conf_pass_backward [OF good, of c2 "values_at E"] c2 obtain c3 where "conf_pass True False E c2 = Inr c3"
    "\<forall>k. conf_lookup c3 k = (if k \<in> entry_key ` set E then Some (processConfList (values_at E k)) else conf_lookup c2 k)" by auto
  with c1 c2 show ?thesis by auto
qed

text \<open>
  A pass over the devices of an object writes its entries. \<open>writable\<close>: each device recorded is of a
  section that is known, at a target with two parts.
\<close>

definition entries_of :: "'w storage_utils \<Rightarrow> string \<Rightarrow> string \<Rightarrow> conf_entry list" where
  "entries_of p ty target =
     (case res_bind (dict_getitem (storages p) ty) (\<lambda>s. dict_getitem s target) of
        Inl e \<Rightarrow> []
      | Inr sh \<Rightarrow>
          (case dict_getitem (devices_of p ty) target of
             Inl e \<Rightarrow> []
           | Inr ds \<Rightarrow> map (\<lambda>(ext, r). (target, ext, case r of Inl e \<Rightarrow> [] | Inr v \<Rightarrow> v)) (conf_values ty sh ds)))"

definition local_entries :: "'w storage_utils \<Rightarrow> conf_entry list" where
  "local_entries p =
     map (\<lambda>t. (t, ''_path'', case dict_getitem (devices_of p ''local'') t of Inl e \<Rightarrow> [] | Inr ds \<Rightarrow> map path_value ds))
       (filterNonEmptyDicts (devices_of p ''local''))"

definition all_entries :: "string list \<Rightarrow> 'w storage_utils \<Rightarrow> conf_entry list" where
  "all_entries types p =
     concat (map (\<lambda>ty. concat (map (entries_of p ty) (filterNonEmptyDicts (devices_of p ty)))) types) @ local_entries p"

definition known_device :: "'w storage_utils \<Rightarrow> string \<Rightarrow> string \<Rightarrow> bool" where
  "known_device p ty target \<longleftrightarrow>
     (case res_bind (dict_getitem (storages p) ty) (\<lambda>s. dict_getitem s target) of
        Inl e \<Rightarrow> False
      | Inr sh \<Rightarrow>
          (case dict_getitem (devices_of p ty) target of
             Inl e \<Rightarrow> False
           | Inr ds \<Rightarrow> list_all (\<lambda>(ext, r). case r of Inl e \<Rightarrow> False | Inr v \<Rightarrow> True) (conf_values ty sh ds)))"

definition writable :: "string list \<Rightarrow> 'w storage_utils \<Rightarrow> bool" where
  "writable types p \<longleftrightarrow>
     (\<forall>(t, ext, v) \<in> set (all_entries types p). good_target t \<and> v \<noteq> []) \<and>
     (\<forall>ty \<in> set types. \<forall>target \<in> set (filterNonEmptyDicts (devices_of p ty)). known_device p ty target)"

definition writes :: "'w storage_utils \<Rightarrow> bool \<Rightarrow> bool \<Rightarrow> ('w, unit) wr \<Rightarrow> conf_entry list \<Rightarrow> bool" where
  "writes p backward clean m E \<longleftrightarrow>
     (\<forall>conf conf' w. conf_pass backward clean E conf = Inr conf' \<longrightarrow>
        m (p\<lparr>st_config := conf\<rparr>, w) = (Inr (), (p\<lparr>st_config := conf'\<rparr>, w)))"

lemma conf_pass_append:
  "conf_pass b c (E @ F) conf = res_bind (conf_pass b c E conf) (conf_pass b c F)"
  by (induction E arbitrary: conf) (auto simp: res_bind_def split: sum.splits)

lemma writes_set_conf: "writes p b c (set_conf t b c (ext, Inr v)) [(t, ext, v)]"
  by (auto simp: writes_def set_conf_def res_bind_def bindE_def ret_def lift_res_def this_def gets_def this_res_def set_this_def modify_def
      split: sum.splits)

lemma writes_for_each:
  "(\<And>x. x \<in> set xs \<Longrightarrow> writes p b c (f x) (E x)) \<Longrightarrow> writes p b c (for_each xs (\<lambda>x _. f x) ()) (concat (map E xs))"
proof (induction xs)
  case (Cons x xs)
  then have x: "writes p b c (f x) (E x)" and xs: "writes p b c (for_each xs (\<lambda>x _. f x) ()) (concat (map E xs))" by auto
  show ?case
    unfolding writes_def
  proof (intro allI impI)
    fix conf conf' w
    assume "conf_pass b c (concat (map E (x # xs))) conf = Inr conf'"
    then obtain c1 where "conf_pass b c (E x) conf = Inr c1" "conf_pass b c (concat (map E xs)) c1 = Inr conf'"
      by (auto simp: conf_pass_append res_bind_def split: sum.splits)
    with x xs show "for_each (x # xs) (\<lambda>x _. f x) () (p\<lparr>st_config := conf\<rparr>, w) = (Inr (), (p\<lparr>st_config := conf'\<rparr>, w))"
      by (auto simp: writes_def bindE_def)
  qed
qed (simp add: writes_def ret_def)

lemma same_rest [simp]:
  "devices_of (p\<lparr>st_config := conf\<rparr>) ty = devices_of p ty" "storages (p\<lparr>st_config := conf\<rparr>) = storages p"
  by (simp_all add: devices_of_def)

lemma writes_target:
  assumes "writable types p" and "ty \<in> set types" and "target \<in> set (filterNonEmptyDicts (devices_of p ty))"
  shows "writes p b c (write_target b c ty target) (entries_of p ty target)"
proof -
  from assms have "known_device p ty target" unfolding writable_def by blast
  then obtain sh ds where sh: "res_bind (dict_getitem (storages p) ty) (\<lambda>s. dict_getitem s target) = Inr sh"
    "dict_getitem (devices_of p ty) target = Inr ds"
    "list_all (\<lambda>(ext, r). case r of Inl e \<Rightarrow> False | Inr v \<Rightarrow> True) (conf_values ty sh ds)"
    unfolding known_device_def by (simp split: sum.splits)
  have "writes p b c (for_each (conf_values ty sh ds) (\<lambda>e _. set_conf target b c e) ())
      (concat (map (\<lambda>(ext, r). [(target, ext, case r of Inl e \<Rightarrow> [] | Inr v \<Rightarrow> v)]) (conf_values ty sh ds)))"
  proof (rule writes_for_each)
    fix e assume "e \<in> set (conf_values ty sh ds)"
    with sh(3) obtain ext v where "e = (ext, Inr v)" by (fastforce simp: list_all_iff split: sum.splits)
    then show "writes p b c (set_conf target b c e) ((\<lambda>(ext, r). [(target, ext, case r of Inl e \<Rightarrow> [] | Inr v \<Rightarrow> v)]) e)"
      by (simp add: writes_set_conf)
  qed
  moreover have "concat (map (\<lambda>(ext, r). [(target, ext, case r of Inl e \<Rightarrow> [] | Inr v \<Rightarrow> v)]) l) =
      map (\<lambda>(ext, r). (target, ext, case r of Inl e \<Rightarrow> [] | Inr v \<Rightarrow> v)) l" for l :: "(string \<times> (exn + pyval list)) list"
    by (induction l) auto
  ultimately show ?thesis
    using sh(1,2) by (auto simp: writes_def write_target_def entries_of_def bindE_def this_def this_res_def gets_def lift_res_def)
qed

lemma writes_local:
  assumes "t \<in> set (filterNonEmptyDicts (devices_of p ''local''))"
  shows "writes p b c (write_local b c t)
    [(t, ''_path'', case dict_getitem (devices_of p ''local'') t of Inl e \<Rightarrow> [] | Inr ds \<Rightarrow> map path_value ds)]"
proof -
  from assms have "map_of (devices_of p ''local'') t \<noteq> None"
    unfolding filterNonEmptyDicts_def map_of_eq_None_iff by force
  then obtain ds where ds: "dict_getitem (devices_of p ''local'') t = Inr ds" by (auto simp: dict_getitem_def)
  from writes_set_conf [of p b c t "''_path''" "map path_value ds"] ds show ?thesis
    by (simp add: writes_def write_local_def bindE_def this_def this_res_def gets_def lift_res_def)
qed

lemma update_conf_pass_writes:
  assumes "writable (conf_order L) p" and "conf_pass b c (all_entries (conf_order L) p) conf = Inr conf'" and "\<And>x w. \<exists>w'. write_conf L x w = (Inr (), w')"
  shows "\<exists>w'. update_conf_pass L b c (p\<lparr>st_config := conf\<rparr>, w) = (Inr (), (p\<lparr>st_config := conf'\<rparr>, w'))"
proof -
  let ?E = "concat (map (\<lambda>ty. concat (map (entries_of p ty) (filterNonEmptyDicts (devices_of p ty)))) (conf_order L))"
  from assms(2) obtain c1 where c1: "conf_pass b c ?E conf = Inr c1" "conf_pass b c (local_entries p) c1 = Inr conf'"
    by (auto simp: all_entries_def conf_pass_append res_bind_def split: sum.splits)
  have "writes p b c (for_each (conf_order L) (\<lambda>ty _. bindE (this (\<lambda>p. filterNonEmptyDicts (devices_of p ty))) (\<lambda>targets.
         for_each targets (\<lambda>t _. write_target b c ty t) ())) ()) ?E"
  proof (rule writes_for_each)
    fix ty assume ty: "ty \<in> set (conf_order L)"
    have "writes p b c (for_each (filterNonEmptyDicts (devices_of p ty)) (\<lambda>t _. write_target b c ty t) ())
        (concat (map (entries_of p ty) (filterNonEmptyDicts (devices_of p ty))))"
      by (rule writes_for_each) (rule writes_target [OF assms(1) ty])
    then show "writes p b c (bindE (this (\<lambda>p. filterNonEmptyDicts (devices_of p ty))) (\<lambda>targets.
         for_each targets (\<lambda>t _. write_target b c ty t) ())) (concat (map (entries_of p ty) (filterNonEmptyDicts (devices_of p ty))))"
      by (simp add: writes_def bindE_def this_def gets_def)
  qed
  moreover have "writes p b c (for_each (filterNonEmptyDicts (devices_of p ''local'')) (\<lambda>t _. write_local b c t) ()) (local_entries p)"
  proof -
    let ?T = "filterNonEmptyDicts (devices_of p ''local'')"
    have "writes p b c (for_each ?T (\<lambda>t _. write_local b c t) ()) (concat (map (\<lambda>t.
        [(t, ''_path'', case dict_getitem (devices_of p ''local'') t of Inl e \<Rightarrow> [] | Inr ds \<Rightarrow> map path_value ds)]) ?T))"
      by (rule writes_for_each) (rule writes_local)
    then show ?thesis by (simp add: local_entries_def concat_map_singleton)
  qed
  moreover obtain w' where "write_conf L conf' w = (Inr (), w')" using assms(3) by blast
  ultimately show ?thesis
    using c1 by (simp add: writes_def update_conf_pass_def bindE_def this_def gets_def outer_def)
qed

text \<open>
  C40. Writing the devices into the configuration replaces what was there. At the key of an entry the value
  is all the values of the entries with this key, in the order in which the types and then the devices are
  gone through, or the only one; other keys stay as they are.
\<close>

theorem updateConfFile_values:
  assumes "writable (conf_order L) p" and "\<And>x w. \<exists>w'. write_conf L x w = (Inr (), w')"
  shows "\<exists>conf w'. updateConfFile L (p, w) = (Inr (), (p\<lparr>st_config := conf\<rparr>, w')) \<and>
    (\<forall>k. conf_lookup conf k = (if k \<in> entry_key ` set (all_entries (conf_order L) p) then Some (processConfList (values_at (all_entries (conf_order L) p) k))
       else conf_lookup (st_config p) k))"
proof -
  from three_passes [of "all_entries (conf_order L) p" "st_config p"] assms(1) obtain c1 c2 c3 where
    c: "conf_pass False True (all_entries (conf_order L) p) (st_config p) = Inr c1" "conf_pass False False (all_entries (conf_order L) p) c1 = Inr c2"
    "conf_pass True False (all_entries (conf_order L) p) c2 = Inr c3" and
    k: "\<forall>k. conf_lookup c3 k = (if k \<in> entry_key ` set (all_entries (conf_order L) p) then Some (processConfList (values_at (all_entries (conf_order L) p) k)) else conf_lookup (st_config p) k)"
    unfolding writable_def by blast
  note pass = update_conf_pass_writes [OF assms(1) _ assms(2)]
  from pass [OF c(1)] obtain w1 where "update_conf_pass L False True (p, w) = (Inr (), (p\<lparr>st_config := c1\<rparr>, w1))"
    by (metis surjective storage_utils.update_convs(1))
  moreover from pass [OF c(2)] obtain w2 where "update_conf_pass L False False (p\<lparr>st_config := c1\<rparr>, w1) = (Inr (), (p\<lparr>st_config := c2\<rparr>, w2))" by blast
  moreover from pass [OF c(3)] obtain w3 where "update_conf_pass L True False (p\<lparr>st_config := c2\<rparr>, w2) = (Inr (), (p\<lparr>st_config := c3\<rparr>, w3))" by blast
  ultimately have "updateConfFile L (p, w) = (Inr (), (p\<lparr>st_config := c3\<rparr>, w3))" by (simp add: updateConfFile_def bindE_def)
  with k show ?thesis by blast
qed

text \<open>The devices of a section whose set-up fails are not recorded, though some may have been made.\<close>

lemma keeps_create_nas: "keeps (\<lambda>(p, w). devices p) (create_nas_device L a g fs)"
  by (auto simp: keeps_def create_nas_device_def getStorageManager_def createStorageManager_def wr_simps split: prod.splits sum.splits option.splits)

lemma keeps_map_comp: "(\<And>x. keeps g (f x)) \<Longrightarrow> keeps g (map_comp f xs)"
  by (induction xs) (auto intro!: keeps_intros)

lemma failed_section_not_recorded:
  assumes "make_devices ty t sh (create_nas_device L a g fs) (p, w) = (Inl e, (q, w'))"
  shows "devices q = devices p"
proof -
  from assms have "q = p \<or> (\<exists>is :: nat list. map_comp (\<lambda>_. create_nas_device L a g fs) is (p, w) = (Inl e, (q, w')))"
    by (auto simp: make_devices_def set_devices_def wr_simps split: prod.splits sum.splits)
  moreover have "keeps (\<lambda>(p, w). devices p) (map_comp (\<lambda>_. create_nas_device L a g fs) is)" for "is" :: "nat list"
    by (rule keeps_map_comp) (rule keeps_create_nas)
  ultimately show ?thesis using keepsD [of "\<lambda>(p, w). devices p" _ "(p, w)" "Inl e" "(q, w')"] by fastforce
qed

section \<open>Witnesses\<close>

definition demo_manager :: "device list manager" where
  "demo_manager =
     \<lparr>host = PStr ''10.0.0.1'', mgr_class = ''LinuxStorageManagerNFS'',
      createDevice = (\<lambda>g w. let x = show_nat (List.length w) in
        if Path x \<in> set w then (Inl PyException, w) else (Inr x, Path x # w)),
      removeDevice = (\<lambda>x w. (Inr (), filter (\<lambda>y. y \<noteq> x) w)),
      createLun = (\<lambda>_ _. raise PyException), getInitiatorHostGroups = (\<lambda>_. ret []), unmapInitiator = (\<lambda>_ _. ret ()),
      mapLun = (\<lambda>_ _ _. ret ()), getLun = (\<lambda>_ _. raise PyException), removeLun = (\<lambda>_. ret ())\<rparr>"

definition demo_storage_lib :: "device list storage_lib" where
  "demo_storage_lib =
     \<lparr>StorageManagerWrapper = (\<lambda>_ _. ret demo_manager), capacity_servers = (\<lambda>_. ret []), random_servers = (\<lambda>_. ret []),
      servers_by_role = (\<lambda>_ _. ret []), ip_of_host_name = (\<lambda>_. ret ''10.0.0.1''), host_name_of = ret,
      initiator_name = (\<lambda>_ _. ret ''iqn''), create_local = (\<lambda>_ _ _. ret (Some True)), remove_local = (\<lambda>_ _ _. ret True),
      time_stamp = ret ''0'', write_conf = (\<lambda>_. ret ()), dict_order = id\<rparr>"

definition demo_share :: share where
  "demo_share = \<lparr>s_ip = PStr ''10.0.0.1'', s_total = Some 2, s_capacity = PNone, s_is_specific = False, s_password = PNone, s_paths = []\<rparr>"

definition demo_wrapper :: "(string, (string, device list) dict) dict \<Rightarrow> device list storage_utils" where
  "demo_wrapper made =
     (new_wrapper [(''PARAMETERS'', [(''data_domain_path'', PStr ''old'')])] [] [] (''nfs'', ''mixed''))
       \<lparr>storages := [(''nfs'', [(''PARAMETERS.data_domain'', demo_share)])], devices := made\<rparr>"

lemma demo_lib_honest: "honest_lib set demo_storage_lib"
  by (auto simp: honest_lib_def honest_manager_def demo_storage_lib_def demo_manager_def ret_def Let_def split: if_splits)

lemma demo_setup: "fst (setup_nas demo_storage_lib ''nfs'' ''nfs'' (demo_wrapper [], [])) = Inr ()"
  by code_simp

theorem nas_cleanup_undoes_setup_witness:
  "\<exists>p1 w1 p2. setup_nas demo_storage_lib ''nfs'' ''nfs'' (demo_wrapper [], []) = (Inr (), (p1, w1)) \<and>
    clean_nas demo_storage_lib ''nfs'' ''nfs'' (p1, w1) = (Inr (), (p2, []))"
proof -
  obtain p1 w1 where s: "setup_nas demo_storage_lib ''nfs'' ''nfs'' (demo_wrapper [], []) = (Inr (), (p1, w1))"
    using demo_setup by (metis prod.collapse)
  have "\<exists>p2 w2. clean_nas demo_storage_lib ''nfs'' ''nfs'' (p1, w1) = (Inr (), (p2, w2)) \<and> set w2 = set []"
    by (rule nas_cleanup_undoes_setup [OF demo_lib_honest _ _ _ _ s, of "[(''PARAMETERS.data_domain'', demo_share)]"])
      (simp_all add: demo_wrapper_def new_wrapper_def honest_servers_def dict_getitem_def wf_dict_def dict_keys_def devices_of_def)
  with s show ?thesis by auto
qed

theorem updateConfFile_values_witness:
  "\<exists>conf w'. updateConfFile demo_storage_lib (demo_wrapper [(''nfs'', [(''PARAMETERS.data_domain'', [Path ''a'', Path ''b''])])], []) =
      (Inr (), ((demo_wrapper [(''nfs'', [(''PARAMETERS.data_domain'', [Path ''a'', Path ''b''])])])\<lparr>st_config := conf\<rparr>, w')) \<and>
    conf_lookup conf (''PARAMETERS'', ''data_domain_path'') = Some (PList [PStr ''a'', PStr ''b''])"
proof -
  let ?p = "demo_wrapper [(''nfs'', [(''PARAMETERS.data_domain'', [Path ''a'', Path ''b''])])]"
  have w: "writable (conf_order demo_storage_lib) ?p" by code_simp
  have at: "(''PARAMETERS'', ''data_domain_path'') \<in> entry_key ` set (all_entries (conf_order demo_storage_lib) ?p)"
    "processConfList (values_at (all_entries (conf_order demo_storage_lib) ?p) (''PARAMETERS'', ''data_domain_path'')) = PList [PStr ''a'', PStr ''b'']"
    by code_simp+
  have "\<exists>w'. write_conf demo_storage_lib x w = (Inr (), w')" for x w by (simp add: demo_storage_lib_def ret_def)
  from updateConfFile_values [OF w this, of "[]"] obtain conf w' where c:
    "updateConfFile demo_storage_lib (?p, []) = (Inr (), (?p\<lparr>st_config := conf\<rparr>, w'))"
    "conf_lookup conf (''PARAMETERS'', ''data_domain_path'') = Some (processConfList (values_at (all_entries (conf_order demo_storage_lib) ?p) (''PARAMETERS'', ''data_domain_path'')))"
    using at(1) by (metis (no_types, lifting))
  from c(2) have "conf_lookup conf (''PARAMETERS'', ''data_domain_path'') = Some (PList [PStr ''a'', PStr ''b''])"
    unfolding at(2) .
  with c(1) show ?thesis by blast
qed
end
