(* ===== verification/Spec2Isabelle.thy ===== *)
theory Spec2Isabelle
  imports Prelude Pyval Timeout Validator Http Api_Util Rest Rest_Verdicts Rest_Time Jobs
    Mac2ip Name2ip Cpu_Model Inventory Log_Listener Engine_Jobs Settings Test_Utils Events
    General Named_Elements Engine_Lookups Networks Vnic_Profiles Sriov Data_Centers
    Scheduling_Policies Sla Vm_Pools Clusters Users Permissions Instance_Types Disks Waiting
    Storage_Domains Nfs_Mounts Vm_Objects Vms Hosts Vm_Devices Vm_Snapshots Templates
    Host_Network High_Hosts High_Networks High_Vms High_Storage External_Providers Network_Providers
    Storage_Wrapper
begin

text \<open>
  The test framework of the oVirt manager (\<open>src/art\<close>), modelled from its Python sources.

  The program. Tests call the libraries under \<open>art/rhevm_api/tests_lib\<close>, which use one API
  object per kind of element of the engine (\<open>test_utils.get_api\<close>). Such an object is a REST
  backend (\<open>core_api/rest_utils.py\<close>) over a shared HTTP proxy (\<open>core_api/http.py\<close>) that keeps
  the headers, the session cookie and the credentials; what the engine answers is checked by
  status code, by the XSD schema and by comparing elements (\<open>core_api/validator.py\<close>). Waiting
  is done by a sampler with a deadline (\<open>core_api/timeout.py\<close>). Around that are the run's
  configuration (\<open>test_handler/settings.py\<close>) and utilities: job sets run by worker threads,
  watchers of logs and of DHCP leases, a cache of addresses, CPU models and snapshots of the
  engine's content.

  How it is modelled. A function that touches the outside or a shared object is a \<open>comp\<close>: a
  function from a world to a result and the world after it. The result is \<open>Inl\<close> of the raised
  exception or \<open>Inr\<close> of the value, and a world changed before an exception stays changed, as in
  Python. The exceptions are the constructors of \<open>exn\<close> with their class hierarchy as \<open>mro\<close>.
  Python values, where the code does not fix their type, are \<open>pyval\<close>: an object is its class
  and its members by name, so getters and setters of generated classes are \<open>getattr\<close> and
  \<open>setattr\<close>. Dictionaries whose order shows are association lists. Integers are \<open>int\<close>, which
  is what Python 2 has. What is not in the tree is a parameter: the server and the network, the
  clock, the XML parser and printer, URI templates, regular expressions given by the caller, SSH.

  Theories and sources.
    \<^item> \<open>Prelude\<close>: computations, exceptions (\<open>apis_exceptions.py\<close>, \<open>test_handler/exceptions.py\<close>),
      dictionaries, and the rules by which a computation keeps a reading of the world.
    \<^item> \<open>Pyval\<close>: values, strings, Python's equality and order.
    \<^item> \<open>Timeout\<close>: \<open>timeout.py\<close>, sampler and waits over a clock whose sleeps take time.
    \<^item> \<open>Validator\<close>: \<open>validator.py\<close>, comparison of elements and collections.
    \<^item> \<open>Http\<close>: \<open>http.py\<close> and the Base64 coding it uses.
    \<^item> \<open>Api_Util\<close>, \<open>Rest\<close>, \<open>Rest_Verdicts\<close>, \<open>Rest_Time\<close>: \<open>apis_utils.py\<close> and \<open>rest_utils.py\<close>:
      first the operations, then when they report success, then how long they take.
    \<^item> \<open>Jobs\<close>: \<open>utils/jobs.py\<close> and \<open>utils/threads.py\<close>, job sets as an interleaving step relation.
    \<^item> \<open>Mac2ip\<close>, \<open>Name2ip\<close>, \<open>Cpu_Model\<close>, \<open>Inventory\<close>, \<open>Log_Listener\<close>, \<open>Test_Utils\<close>: the modules
      of these names under \<open>rhevm_api/utils\<close>.
    \<^item> \<open>Settings\<close>: \<open>test_handler/settings.py\<close>, the merge of configurations.
    \<^item> \<open>Engine_Jobs\<close>, \<open>Events\<close>, \<open>General\<close>, \<open>Named_Elements\<close> (tags, bookmarks and MAC pools),
      \<open>Engine_Lookups\<close>, \<open>Networks\<close>, \<open>Vnic_Profiles\<close>, \<open>Sriov\<close>: modules of
      \<open>tests_lib/low_level\<close> on top of the REST backend. \<open>Networks\<close> and \<open>Vnic_Profiles\<close> are the
      two halves of \<open>networks.py\<close>; \<open>Engine_Lookups\<close> has the functions of \<open>hosts.py\<close>,
      \<open>clusters.py\<close> and \<open>datacenters.py\<close> they call.
    \<^item> \<open>Data_Centers\<close>, \<open>Clusters\<close>, \<open>Scheduling_Policies\<close> (with \<open>affinitylabels.py\<close>), \<open>Sla\<close>,
      \<open>Vm_Pools\<close>, \<open>Users\<close>, \<open>Permissions\<close> (\<open>mla.py\<close>) and \<open>Instance_Types\<close> (with
      \<open>graphics_console.py\<close>, \<open>storageconnections.py\<close>, \<open>hooks.py\<close>): the rest of the modules of
      the engine's administration in \<open>tests_lib/low_level\<close>.
    \<^item> \<open>Disks\<close>, \<open>Storage_Domains\<close> and \<open>Nfs_Mounts\<close>: \<open>disks.py\<close> and \<open>storagedomains.py\<close>, the last
      one with the options of NFS mounts and the parser of the output of \<open>mount\<close>.
    \<^item> \<open>Waiting\<close>: computations that may not come back, since they wait in the middle, and the rules
      by which they do; it also says which requests let the clock go on.
    \<^item> \<open>Vm_Objects\<close>, \<open>Vms\<close>, \<open>Vm_Devices\<close>, \<open>Vm_Snapshots\<close>: the four parts of \<open>vms.py\<close>, namely the
      objects that are sent, the life of a machine, its devices, and its snapshots.
    \<^item> \<open>Templates\<close>: \<open>templates.py\<close>; \<open>Hosts\<close>: \<open>hosts.py\<close>.
    \<^item> \<open>Host_Network\<close>: both modules \<open>host_network.py\<close>, of the low and the high level: attachments,
      bonds and labels of a set-up, cleaning a host, and what is out of sync.
    \<^item> \<open>High_Hosts\<close>, \<open>High_Networks\<close>, \<open>High_Vms\<close>, \<open>High_Storage\<close>: modules of
      \<open>tests_lib/high_level\<close>, which chain the operations above: \<open>hosts.py\<close> and \<open>clusters.py\<close>;
      \<open>networks.py\<close> and \<open>mac_pool.py\<close>; \<open>vms.py\<close>, \<open>vmpools.py\<close>, \<open>templates.py\<close>, \<open>disks.py\<close> and
      \<open>graphics_console.py\<close>; \<open>storagedomains.py\<close>.
    \<^item> \<open>External_Providers\<close>, \<open>Network_Providers\<close>: \<open>external_providers.py\<close>, objects that stand for a
      provider in the engine and, for networks, talk to its own service with a token; the last one
      also has \<open>extrenal_providers.py\<close> and \<open>external_import.py\<close>.
    \<^item> \<open>Storage_Wrapper\<close>: \<open>pytest_customization/_pytest_art/storagewrapper.py\<close>, the devices that a
      run makes on storage servers, writes into its configuration and removes.

  Interfaces. A locale states what a client relies on and is interpreted on the model: the laws
  of a client that sends requests with headers added for one request (\<open>header_api\<close> in \<open>Http\<close>),
  which the proxy keeps and the REST backend keeps on top of it, and the search of elements by
  an attribute (\<open>element_search\<close> and \<open>quiet_search\<close> in \<open>General\<close>), which the backend's \<open>find\<close>
  keeps and from which the libraries' look-ups and removals follow.

  What is shown. Samplers and waits come back within their bounds, and their verdict is that of
  the last look (\<open>Timeout\<close>, \<open>Rest_Verdicts\<close>, \<open>Engine_Jobs\<close>, \<open>Events\<close>, \<open>Log_Listener\<close>,
  \<open>Test_Utils\<close>); headers set for a request are gone after it, cookies go to the user they were
  given to, and the number of requests is bounded (\<open>Http\<close>, \<open>Rest\<close>); a positive verdict of
  \<open>create\<close> or \<open>syncAction\<close> means the engine confirmed it (\<open>Rest_Verdicts\<close>); codings round-trip
  (\<open>Http\<close>); job sets finish every job in every interleaving (\<open>Jobs\<close>); parsers do not depend on
  how their input is cut up and learn only what was acknowledged (\<open>Mac2ip\<close>); merges,
  differences, removals and look-ups are those of an abstract specification (\<open>Settings\<close>,
  \<open>Inventory\<close>, \<open>Cpu_Model\<close>, \<open>Named_Elements\<close>, \<open>Networks\<close>); the operations on machines, disks,
  snapshots, templates and hosts that wait for their effect come back, and True means that the
  last answer of the engine showed the effect (\<open>Disks\<close>, \<open>Storage_Domains\<close>, \<open>Vms\<close>, \<open>Vm_Devices\<close>,
  \<open>Vm_Snapshots\<close>, \<open>Templates\<close>, \<open>Hosts\<close>, \<open>Host_Network\<close>, \<open>High_Vms\<close>, \<open>High_Storage\<close>); a request
  to a network provider renews an expired token once, and ends at the interpreter's recursion limit when
  no token is accepted (\<open>Network_Providers\<close>); cleaning up removes the devices a set-up made, and the
  configuration has just these (\<open>Storage_Wrapper\<close>); what is cleaned or removed as a whole spares the
  management network (\<open>Host_Network\<close>, \<open>High_Networks\<close>), and the manager of
  the storage pool is deactivated last (\<open>High_Hosts\<close>). Some theorems state a behaviour that
  differs from the documentation; they say so in their text.

  Loops and bounds. Loops over data are structural. Loops that wait are
  \<open>partial_function (option)\<close>, where not returning is \<open>None\<close>; that they return is a theorem of
  its own, under a law of the clock that every sleep, or every answered request, takes some time
  (\<open>moves_on\<close>, \<open>ticks\<close>), and the number of rounds is then bounded by the time-out. No loop is
  cut off by fuel; the nested calls of a request to a network provider count down the calls that the
  interpreter's recursion limit admits, a parameter, and a call past it is a
  \<open>RuntimeError\<close>. The job sets are bounded by a measure on the whole state.

  Not modelled. The generated data structures are only objects with members, since generateDS is
  a third-party program and its output is not in the tree. Logging is left out, except where the
  arguments of a message can raise. Reading files, SSH, ansible and the reports server only call
  libraries. Real concurrency outside \<open>Jobs\<close> is left out: locks of the API cache, threads of the
  watchers, parallel functions beyond their results; executors of the libraries run their calls one
  after the other. The tests and the pytest plugins but one are not
  modelled. Of the libraries,
  the transfer of images over HTTP is left out; of the high-level \<open>networks.py\<close> the set-up of a
  whole environment is.
\<close>

end
